(* ===== verification/Opera_Prelude.thy ===== *)
theory Opera_Prelude
  imports Main "HOL-Library.Word"
begin

text \<open>
  Shared vocabulary of the development: the machine integer types of the C sources, byte
  buffers and the flat memory, the little-endian byte views of words, and the generic
  lemmas on lists, words and truncating division that the component theories use.
  A C \<open>uint32_t\<close> is a \<open>32 word\<close> (arithmetic wraps), a C \<open>int32_t\<close> is
  the same word read with \<open>sint\<close>; the host is little-endian
  (\<open>IS_BIG_ENDIAN\<close> is 0 in \<open>src/libopera/endianness.h\<close>).
\<close>

unbundle bit_operations_syntax

type_synonym u8 = "8 word"
type_synonym u16 = "16 word"
type_synonym u32 = "32 word"
type_synonym u64 = "64 word"

text \<open>A byte-addressed memory, as the C code's \<open>uint8_t *DRAM\<close>.\<close>

type_synonym mem = "u32 \<Rightarrow> u8"

named_theorems state_codec \<comment> \<open>what the serializer's operations emit and consume\<close>
named_theorems clock_simps \<comment> \<open>field behaviour of the clock operations\<close>
named_theorems arm_bank \<comment> \<open>register views after a bank switch\<close>

abbreviation UINT32_MAX :: u32 where "UINT32_MAX \<equiv> 0xFFFFFFFF"

section \<open>Stores into byte buffers\<close>

text \<open>\<open>memcpy\<close>-like store of a byte string at an index, one element at a time;
  an index outside the buffer is dropped.\<close>

fun store_bytes :: "u8 list \<Rightarrow> nat \<Rightarrow> u8 list \<Rightarrow> u8 list" where
  "store_bytes d i [] = d"
| "store_bytes d i (b # bs) = store_bytes (d[i := b]) (Suc i) bs"

lemma length_store_bytes [simp]: "length (store_bytes d i bs) = length d"
  by (induction d i bs rule: store_bytes.induct) auto

lemma store_bytes_conv:
  "i + length bs \<le> length d \<Longrightarrow> store_bytes d i bs = take i d @ bs @ drop (i + length bs) d"
proof (induction d i bs rule: store_bytes.induct)
  case (1 d i)
  then show ?case by simp
next
  case (2 d i b bs)
  then have "store_bytes (d[i := b]) (Suc i) bs =
      take (Suc i) (d[i := b]) @ bs @ drop (Suc i + length bs) (d[i := b])"
    by simp
  moreover have "take (Suc i) (d[i := b]) = take i d @ [b]"
    using 2(2) by (simp add: take_Suc_conv_app_nth)
  ultimately show ?case by simp
qed

lemma take_store_bytes:
  "i + length bs \<le> length d \<Longrightarrow> take (i + length bs) (store_bytes d i bs) = take i d @ bs"
  by (simp add: store_bytes_conv)

lemma drop_store_bytes:
  "i + length bs \<le> length d \<Longrightarrow>
   drop (i + length bs) (store_bytes d i bs) = drop (i + length bs) d"
  by (simp add: store_bytes_conv)

lemma take_store_bytes_prefix:
  "j \<le> i \<Longrightarrow> i + length bs \<le> length d \<Longrightarrow> take j (store_bytes d i bs) = take j d"
  by (simp add: store_bytes_conv min_def)

section \<open>Bytes of a word\<close>

definition byte_of :: "nat \<Rightarrow> 'a::len word \<Rightarrow> u8" where
  "byte_of i v = ucast (drop_bit (8 * i) v)"

lemma bit_byte_of [bit_simps]:
  "bit (byte_of i v) n \<longleftrightarrow> n < 8 \<and> bit v (8 * i + n)"
  by (auto simp: byte_of_def bit_simps ac_simps dest: bit_imp_le_length)

definition le2 :: "u8 \<Rightarrow> u8 \<Rightarrow> u16" where
  "le2 b0 b1 = push_bit 0 (ucast b0) OR push_bit 8 (ucast b1)"

definition le4 :: "u8 \<Rightarrow> u8 \<Rightarrow> u8 \<Rightarrow> u8 \<Rightarrow> u32" where
  "le4 b0 b1 b2 b3 = push_bit 0 (ucast b0) OR push_bit 8 (ucast b1) OR
     push_bit 16 (ucast b2) OR push_bit 24 (ucast b3)"

lemma le2_bytes [simp]: "le2 (byte_of 0 v) (byte_of 1 v) = v" for v :: u16
proof (rule bit_word_eqI)
  fix n assume "n < LENGTH(16)"
  then show "bit (le2 (byte_of 0 v) (byte_of 1 v)) n = bit v n"
    by (cases "n < 8") (auto simp: le2_def bit_simps)
qed

lemma le4_bytes [simp]:
  "le4 (byte_of 0 v) (byte_of 1 v) (byte_of 2 v) (byte_of 3 v) = v" for v :: u32
proof (rule bit_word_eqI)
  fix n assume "n < LENGTH(32)"
  then consider "n < 8" | "8 \<le> n" "n < 16" | "16 \<le> n" "n < 24" | "24 \<le> n" "n < 32"
    by fastforce
  then show "bit (le4 (byte_of 0 v) (byte_of 1 v) (byte_of 2 v) (byte_of 3 v)) n = bit v n"
    by cases (auto simp: le4_def bit_simps)
qed

declare le2_bytes [unfolded One_nat_def, simp] le4_bytes [unfolded One_nat_def, simp]

lemma byte_of_le4 [simp]:
  "byte_of 0 (le4 a b c d) = a" "byte_of 1 (le4 a b c d) = b"
  "byte_of 2 (le4 a b c d) = c" "byte_of 3 (le4 a b c d) = d"
  by (rule bit_word_eqI; auto simp: le4_def bit_simps dest: bit_imp_le_length)+

section \<open>Unsigned reading of words\<close>

lemma unat_add_nowrap:
  "unat a + unat b < 2 ^ LENGTH('a) \<Longrightarrow> unat (a + b) = unat a + unat b" for a b :: "'a::len word"
  by (simp add: unat_word_ariths)

lemma unat_sub_le: "b \<le> a \<Longrightarrow> unat (a - b) = unat a - unat b" for a b :: "'a::len word"
  by (simp add: unat_sub)

lemma unat_u32_lt: "unat (w :: u32) < 4294967296"
  using unsigned_less [of w, where ?'a = nat] by simp

lemma unat_of_nat_u32: "n < 4294967296 \<Longrightarrow> unat (of_nat n :: u32) = n"
  by (simp add: unat_of_nat)

section \<open>Truncating signed division\<close>

text \<open>C's \<open>/\<close> on signed integers rounds towards zero.\<close>

definition c_div :: "int \<Rightarrow> int \<Rightarrow> int" where
  "c_div a b = sgn a * sgn b * (\<bar>a\<bar> div \<bar>b\<bar>)"

lemma c_div_nonneg: "0 \<le> a \<Longrightarrow> 0 < b \<Longrightarrow> c_div a b = a div b"
  by (auto simp: c_div_def sgn_if)

end
