(* ===== verification/Opera_State.thy ===== *)
theory Opera_State
  imports Opera_Prelude
begin

text \<open>
  The save-state serializer, \<open>src/libopera/opera_state.c\<close>: a bounded writer, a bounded
  reader, the primitive fields, and named chunks. A pointer into the writer's buffer is an
  offset; a \<open>NULL\<close> buffer (the sizing pass) is \<open>None\<close>. Every operation returns the C
  function's result together with the writer or reader it updates through its pointer
  argument; a read that fails delivers \<open>None\<close>.
\<close>

section \<open>Writer\<close>

record state_writer =
  w_data :: "u8 list option"
  w_size :: u32
  w_offset :: u32
  w_failed :: bool

record state_reader =
  r_data :: "u8 list"
  r_size :: u32
  r_offset :: u32
  r_failed :: bool

definition opera_state_chunk_header_size :: u32 where
  "opera_state_chunk_header_size = 4 + 4"

definition opera_state_save_size :: "u32 \<Rightarrow> u32" where
  "opera_state_save_size src_size = opera_state_chunk_header_size + src_size"

definition opera_state_chunk_size :: "u32 \<Rightarrow> u32" where
  "opera_state_chunk_size payload_size = opera_state_save_size payload_size"

definition opera_state_writer_fail :: "state_writer \<Rightarrow> state_writer" where
  "opera_state_writer_fail w = w\<lparr>w_failed := True\<rparr>"

definition opera_state_writer_init :: "u8 list option \<Rightarrow> u32 \<Rightarrow> state_writer" where
  "opera_state_writer_init data sz =
     \<lparr>w_data = data, w_size = sz, w_offset = 0, w_failed = False\<rparr>"

definition opera_state_writer_used :: "state_writer \<Rightarrow> u32" where
  "opera_state_writer_used w = w_offset w"

definition opera_state_writer_ok :: "state_writer \<Rightarrow> bool" where
  "opera_state_writer_ok w = (\<not> w_failed w)"

definition opera_state_write_reserve :: "state_writer \<Rightarrow> u32 \<Rightarrow> u32 option \<times> state_writer" where
  "opera_state_write_reserve w sz =
     (if w_failed w then (None, w)
      else if sz > UINT32_MAX - w_offset w then (None, opera_state_writer_fail w)
      else
        (let offset = w_offset w;
             w' = w\<lparr>w_offset := w_offset w + sz\<rparr>
         in if w_data w' \<noteq> None \<and> w_offset w' > w_size w'
            then (None, opera_state_writer_fail w')
            else (if w_data w' = None then None else Some offset, w')))"

text \<open>The stores through the pointer a reservation returned.\<close>

definition store_at :: "state_writer \<Rightarrow> u32 \<Rightarrow> u8 list \<Rightarrow> state_writer" where
  "store_at w dst bs = w\<lparr>w_data := map_option (\<lambda>d. store_bytes d (unat dst) bs) (w_data w)\<rparr>"

definition opera_state_write_bytes :: "u8 list option \<Rightarrow> u32 \<Rightarrow> state_writer \<Rightarrow> bool \<times> state_writer" where
  "opera_state_write_bytes src sz w =
     (let (dst, w') = opera_state_write_reserve w sz in
      case dst of
        None \<Rightarrow> (\<not> w_failed w', w')
      | Some p \<Rightarrow>
          (if sz > 0 \<and> src = None then (False, opera_state_writer_fail w')
           else if sz > 0 then (True, store_at w' p (take (unat sz) (the src)))
           else (True, w')))"

text \<open>The common shape of the fixed-width stores: reserve, then fill.\<close>

definition write_fixed :: "u8 list \<Rightarrow> state_writer \<Rightarrow> bool \<times> state_writer" where
  "write_fixed bs w =
     (let (dst, w') = opera_state_write_reserve w (of_nat (length bs));
          w'' = (case dst of None \<Rightarrow> w' | Some p \<Rightarrow> store_at w' p bs)
      in (\<not> w_failed w'', w''))"

definition opera_state_write_u8 :: "u8 \<Rightarrow> state_writer \<Rightarrow> bool \<times> state_writer" where
  "opera_state_write_u8 v = write_fixed [v]"

definition opera_state_write_u16 :: "u16 \<Rightarrow> state_writer \<Rightarrow> bool \<times> state_writer" where
  "opera_state_write_u16 v = write_fixed [byte_of 0 v, byte_of 1 v]"

definition opera_state_write_u32 :: "u32 \<Rightarrow> state_writer \<Rightarrow> bool \<times> state_writer" where
  "opera_state_write_u32 v = write_fixed [byte_of 0 v, byte_of 1 v, byte_of 2 v, byte_of 3 v]"

definition opera_state_write_u64 :: "u64 \<Rightarrow> state_writer \<Rightarrow> bool \<times> state_writer" where
  "opera_state_write_u64 v = opera_state_write_bytes
     (Some [byte_of 0 v, byte_of 1 v, byte_of 2 v, byte_of 3 v,
            byte_of 4 v, byte_of 5 v, byte_of 6 v, byte_of 7 v]) 8"

text \<open>The signed writers cast to the unsigned type of the same width; signed fields are
  kept as the word itself, so the cast is the identity on the representation.\<close>

definition opera_state_write_i8 :: "u8 \<Rightarrow> state_writer \<Rightarrow> bool \<times> state_writer" where
  "opera_state_write_i8 v = opera_state_write_u8 v"

definition opera_state_write_i16 :: "u16 \<Rightarrow> state_writer \<Rightarrow> bool \<times> state_writer" where
  "opera_state_write_i16 v = opera_state_write_u16 v"

definition opera_state_write_i32 :: "u32 \<Rightarrow> state_writer \<Rightarrow> bool \<times> state_writer" where
  "opera_state_write_i32 v = opera_state_write_u32 v"

definition opera_state_write_i64 :: "u64 \<Rightarrow> state_writer \<Rightarrow> bool \<times> state_writer" where
  "opera_state_write_i64 v = opera_state_write_u64 v"

text \<open>Arrays: \<open>src\<close> is the host's byte image of the array (little-endian host).\<close>

definition opera_state_write_array ::
  "u8 list option \<Rightarrow> u32 \<Rightarrow> u32 \<Rightarrow> state_writer \<Rightarrow> bool \<times> state_writer" where
  "opera_state_write_array src count elem_size w =
     (if count > UINT32_MAX div elem_size then (False, opera_state_writer_fail w)
      else
        (let (dst, w') = opera_state_write_reserve w (count * elem_size) in
         case dst of
           None \<Rightarrow> (\<not> w_failed w', w')
         | Some p \<Rightarrow>
             (case src of
                None \<Rightarrow> (True, store_at w' p (replicate (unat (count * elem_size)) 0))
              | Some bs \<Rightarrow> (True, store_at w' p (take (unat (count * elem_size)) bs)))))"

definition image16 :: "u16 list \<Rightarrow> u8 list" where
  "image16 xs = concat (map (\<lambda>v. [byte_of 0 v, byte_of 1 v]) xs)"

definition image32 :: "u32 list \<Rightarrow> u8 list" where
  "image32 xs = concat (map (\<lambda>v. [byte_of 0 v, byte_of 1 v, byte_of 2 v, byte_of 3 v]) xs)"

definition opera_state_write_u16_array ::
  "u16 list \<Rightarrow> u32 \<Rightarrow> state_writer \<Rightarrow> bool \<times> state_writer" where
  "opera_state_write_u16_array src count = opera_state_write_array (Some (image16 src)) count 2"

definition opera_state_write_i16_array ::
  "u16 list \<Rightarrow> u32 \<Rightarrow> state_writer \<Rightarrow> bool \<times> state_writer" where
  "opera_state_write_i16_array src count = opera_state_write_array (Some (image16 src)) count 2"

definition opera_state_write_u32_array ::
  "u32 list \<Rightarrow> u32 \<Rightarrow> state_writer \<Rightarrow> bool \<times> state_writer" where
  "opera_state_write_u32_array src count = opera_state_write_array (Some (image32 src)) count 4"

definition opera_state_write_i32_array ::
  "u32 list \<Rightarrow> u32 \<Rightarrow> state_writer \<Rightarrow> bool \<times> state_writer" where
  "opera_state_write_i32_array src count = opera_state_write_array (Some (image32 src)) count 4"

text \<open>C's \<open>&&\<close> between writer calls, and a statement sequence that ignores results.\<close>

definition w_and ::
  "(state_writer \<Rightarrow> bool \<times> state_writer) \<Rightarrow> (state_writer \<Rightarrow> bool \<times> state_writer) \<Rightarrow>
   state_writer \<Rightarrow> bool \<times> state_writer" where
  "w_and a b w = (let (ok, w') = a w in if ok then b w' else (False, w'))"

definition w_then ::
  "(state_writer \<Rightarrow> bool \<times> state_writer) \<Rightarrow> (state_writer \<Rightarrow> bool \<times> state_writer) \<Rightarrow>
   state_writer \<Rightarrow> bool \<times> state_writer" where
  "w_then a b w = b (snd (a w))"

text \<open>A C string literal and the four bytes a chunk name takes of it.\<close>

definition c_str :: "string \<Rightarrow> u8 list" where
  "c_str s = map of_char s @ [0]"

definition chunk_name :: "string \<Rightarrow> u8 list" where
  "chunk_name s = take 4 (c_str s)"

definition opera_state_write_chunk_header ::
  "string \<Rightarrow> u32 \<Rightarrow> state_writer \<Rightarrow> bool \<times> state_writer" where
  "opera_state_write_chunk_header name payload_size =
     w_and (opera_state_write_bytes (Some (chunk_name name)) 4)
           (opera_state_write_u32 payload_size)"

section \<open>Reader\<close>

definition opera_state_reader_fail :: "state_reader \<Rightarrow> state_reader" where
  "opera_state_reader_fail r = r\<lparr>r_failed := True\<rparr>"

definition opera_state_reader_init :: "u8 list \<Rightarrow> u32 \<Rightarrow> state_reader" where
  "opera_state_reader_init data sz =
     \<lparr>r_data = data, r_size = sz, r_offset = 0, r_failed = False\<rparr>"

definition opera_state_reader_used :: "state_reader \<Rightarrow> u32" where
  "opera_state_reader_used r = r_offset r"

definition opera_state_reader_remaining :: "state_reader \<Rightarrow> u32" where
  "opera_state_reader_remaining r =
     (if r_offset r > r_size r then 0 else r_size r - r_offset r)"

definition opera_state_reader_finished :: "state_reader \<Rightarrow> bool" where
  "opera_state_reader_finished r = (\<not> r_failed r \<and> r_offset r = r_size r)"

definition opera_state_reader_ok :: "state_reader \<Rightarrow> bool" where
  "opera_state_reader_ok r = (\<not> r_failed r)"

definition bytes_at :: "state_reader \<Rightarrow> nat \<Rightarrow> u8 list" where
  "bytes_at r n = take n (drop (unat (r_offset r)) (r_data r))"

definition opera_state_skip_bytes :: "u32 \<Rightarrow> state_reader \<Rightarrow> bool \<times> state_reader" where
  "opera_state_skip_bytes sz r =
     (if r_failed r then (False, r)
      else if sz > opera_state_reader_remaining r then (False, opera_state_reader_fail r)
      else (True, r\<lparr>r_offset := r_offset r + sz\<rparr>))"

definition opera_state_read_bytes :: "u32 \<Rightarrow> state_reader \<Rightarrow> u8 list option \<times> state_reader" where
  "opera_state_read_bytes sz r =
     (if r_failed r then (None, r)
      else if sz > opera_state_reader_remaining r then (None, opera_state_reader_fail r)
      else (Some (bytes_at r (unat sz)), r\<lparr>r_offset := r_offset r + sz\<rparr>))"

definition opera_state_read_u8 :: "state_reader \<Rightarrow> u8 option \<times> state_reader" where
  "opera_state_read_u8 r =
     (if r_failed r \<or> opera_state_reader_remaining r < 1
      then (None, opera_state_reader_fail r)
      else (Some (r_data r ! unat (r_offset r)), r\<lparr>r_offset := r_offset r + 1\<rparr>))"

definition opera_state_read_u16 :: "state_reader \<Rightarrow> u16 option \<times> state_reader" where
  "opera_state_read_u16 r =
     (if r_failed r \<or> opera_state_reader_remaining r < 2
      then (None, opera_state_reader_fail r)
      else
        (let src = drop (unat (r_offset r)) (r_data r)
         in (Some (le2 (src ! 0) (src ! 1)), r\<lparr>r_offset := r_offset r + 2\<rparr>)))"

definition opera_state_read_u32 :: "state_reader \<Rightarrow> u32 option \<times> state_reader" where
  "opera_state_read_u32 r =
     (if r_failed r \<or> opera_state_reader_remaining r < 4
      then (None, opera_state_reader_fail r)
      else
        (let src = drop (unat (r_offset r)) (r_data r)
         in (Some (le4 (src ! 0) (src ! 1) (src ! 2) (src ! 3)),
             r\<lparr>r_offset := r_offset r + 4\<rparr>)))"

definition le8 :: "u8 list \<Rightarrow> u64" where
  "le8 d = push_bit 0 (ucast (d ! 0)) OR push_bit 8 (ucast (d ! 1)) OR
     push_bit 16 (ucast (d ! 2)) OR push_bit 24 (ucast (d ! 3)) OR
     push_bit 32 (ucast (d ! 4)) OR push_bit 40 (ucast (d ! 5)) OR
     push_bit 48 (ucast (d ! 6)) OR push_bit 56 (ucast (d ! 7))"

definition opera_state_read_u64 :: "state_reader \<Rightarrow> u64 option \<times> state_reader" where
  "opera_state_read_u64 r =
     (let (data, r') = opera_state_read_bytes 8 r in (map_option le8 data, r'))"

definition opera_state_read_i8 :: "state_reader \<Rightarrow> u8 option \<times> state_reader" where
  "opera_state_read_i8 r = opera_state_read_u8 r"

definition opera_state_read_i16 :: "state_reader \<Rightarrow> u16 option \<times> state_reader" where
  "opera_state_read_i16 r = opera_state_read_u16 r"

definition opera_state_read_i32 :: "state_reader \<Rightarrow> u32 option \<times> state_reader" where
  "opera_state_read_i32 r = opera_state_read_u32 r"

definition opera_state_read_i64 :: "state_reader \<Rightarrow> u64 option \<times> state_reader" where
  "opera_state_read_i64 r = opera_state_read_u64 r"

definition opera_state_read_array :: "u32 \<Rightarrow> u32 \<Rightarrow> state_reader \<Rightarrow> u8 list option \<times> state_reader" where
  "opera_state_read_array count elem_size r =
     (if r_failed r \<or> count > UINT32_MAX div elem_size \<or>
         count * elem_size > opera_state_reader_remaining r
      then (None, opera_state_reader_fail r)
      else (Some (bytes_at r (unat (count * elem_size))),
            r\<lparr>r_offset := r_offset r + count * elem_size\<rparr>))"

text \<open>The array a little-endian host sees in a byte image.\<close>

fun words16 :: "u8 list \<Rightarrow> u16 list" where
  "words16 (a # b # bs) = le2 a b # words16 bs"
| "words16 _ = []"

fun words32 :: "u8 list \<Rightarrow> u32 list" where
  "words32 (a # b # c # d # bs) = le4 a b c d # words32 bs"
| "words32 _ = []"

definition opera_state_read_u16_array :: "u32 \<Rightarrow> state_reader \<Rightarrow> u16 list option \<times> state_reader" where
  "opera_state_read_u16_array count r =
     (let (d, r') = opera_state_read_array count 2 r in (map_option words16 d, r'))"

definition opera_state_read_i16_array :: "u32 \<Rightarrow> state_reader \<Rightarrow> u16 list option \<times> state_reader" where
  "opera_state_read_i16_array count r =
     (let (d, r') = opera_state_read_array count 2 r in (map_option words16 d, r'))"

definition opera_state_read_u32_array :: "u32 \<Rightarrow> state_reader \<Rightarrow> u32 list option \<times> state_reader" where
  "opera_state_read_u32_array count r =
     (let (d, r') = opera_state_read_array count 4 r in (map_option words32 d, r'))"

definition opera_state_read_i32_array :: "u32 \<Rightarrow> state_reader \<Rightarrow> u32 list option \<times> state_reader" where
  "opera_state_read_i32_array count r =
     (let (d, r') = opera_state_read_array count 4 r in (map_option words32 d, r'))"

text \<open>One link of a loader's \<open>||\<close> chain: go on with the value read, stop at a failure.\<close>

definition r_bind ::
  "(state_reader \<Rightarrow> 'a option \<times> state_reader) \<Rightarrow>
   ('a \<Rightarrow> state_reader \<Rightarrow> 'b option \<times> state_reader) \<Rightarrow>
   state_reader \<Rightarrow> 'b option \<times> state_reader" where
  "r_bind m f r = (let (v, r') = m r in case v of None \<Rightarrow> (None, r') | Some a \<Rightarrow> f a r')"

definition r_return :: "'a \<Rightarrow> state_reader \<Rightarrow> 'a option \<times> state_reader" where
  "r_return a r = (Some a, r)"

text \<open>The result of a chunk read is the payload's own reader.\<close>

definition opera_state_read_chunk ::
  "string \<Rightarrow> state_reader \<Rightarrow> state_reader option \<times> state_reader" where
  "opera_state_read_chunk name r =
     (let (actual, r1) = opera_state_read_bytes 4 r in
      case actual of
        None \<Rightarrow> (None, opera_state_reader_fail r1)
      | Some a \<Rightarrow>
          (if chunk_name name \<noteq> a then (None, opera_state_reader_fail r1)
           else
             (let (psize, r2) = opera_state_read_u32 r1 in
              case psize of
                None \<Rightarrow> (None, opera_state_reader_fail r2)
              | Some n \<Rightarrow>
                  (if n > opera_state_reader_remaining r2
                   then (None, opera_state_reader_fail r2)
                   else (Some (opera_state_reader_init (drop (unat (r_offset r2)) (r_data r2)) n),
                         r2\<lparr>r_offset := r_offset r2 + n\<rparr>)))))"

definition opera_state_get_chunk_data_size ::
  "u8 list option \<Rightarrow> u32 \<Rightarrow> string \<Rightarrow> u32 \<times> u32" where
  "opera_state_get_chunk_data_size src src_size name =
     (case src of
        None \<Rightarrow> (0, 0)
      | Some d \<Rightarrow>
          (case fst (opera_state_read_chunk name (opera_state_reader_init d src_size)) of
             None \<Rightarrow> (0, 0)
           | Some payload \<Rightarrow> (opera_state_save_size (r_size payload), r_size payload)))"

definition opera_state_get_version :: "u8 list option \<Rightarrow> u32 \<Rightarrow> u32" where
  "opera_state_get_version src src_size =
     (let (chunk, data_size) = opera_state_get_chunk_data_size src src_size ''3DO'' in
      if chunk = 0 then 0
      else if data_size < 1 then 0
      else
        (let s = drop (unat opera_state_chunk_header_size) (the src) in
         if data_size < 4 then 0
         else if data_size = 1024 \<and> s ! 0 = 1 then ucast (s ! 0)
         else if data_size \<ge> 4 then le4 (s ! 0) (s ! 1) (s ! 2) (s ! 3)
         else ucast (s ! 0)))"

text \<open>The legacy (V1) unchecked copies; \<open>dst\<close> and the result are the whole buffers.\<close>

definition opera_state_save :: "u8 list \<Rightarrow> string \<Rightarrow> u8 list \<Rightarrow> u32 \<Rightarrow> u32 \<times> u8 list" where
  "opera_state_save dst name src src_size =
     (let d1 = store_bytes dst 0 (chunk_name name);
          d2 = store_bytes d1 4 [byte_of 0 src_size, byte_of 1 src_size,
                                 byte_of 2 src_size, byte_of 3 src_size];
          d3 = store_bytes d2 8 (take (unat src_size) src)
      in (opera_state_save_size src_size, d3))"

definition opera_state_load :: "u8 list \<Rightarrow> string \<Rightarrow> u8 list \<Rightarrow> u32 \<Rightarrow> u32 \<times> u8 list" where
  "opera_state_load dst name src src_size =
     (if take 4 src \<noteq> chunk_name name then (0, dst)
      else if le4 (src ! 4) (src ! 5) (src ! 6) (src ! 7) \<noteq> src_size then (0, dst)
      else (opera_state_save_size src_size,
            store_bytes dst 0 (take (unat src_size) (drop 8 src))))"

definition opera_state_load_sized ::
  "u8 list \<Rightarrow> string \<Rightarrow> u8 list option \<Rightarrow> u32 \<Rightarrow> u32 \<Rightarrow> u32 \<times> u8 list" where
  "opera_state_load_sized dst name src src_size dst_size =
     (let (chunk, data_size) = opera_state_get_chunk_data_size src src_size name in
      if chunk = 0 \<or> data_size \<noteq> dst_size then (0, dst)
      else (chunk, store_bytes dst 0
              (take (unat dst_size) (drop (unat opera_state_chunk_header_size) (the src)))))"

end
