(* ===== verification/Opera_State_Codec.thy ===== *)
theory Opera_State_Codec
  imports Opera_State
begin

text \<open>
  The contract of the serializer. A writer operation \<^emph>\<open>emits\<close> a byte string when, on a
  healthy writer with room, it succeeds and appends exactly those bytes, and without room it
  reports failure; a reader operation \<^emph>\<open>consumes\<close> a byte string when it returns the value
  the bytes encode and steps over exactly them. Both compose along the C code's \<open>&&\<close> and
  \<open>||\<close> chains. The locale \<open>state_field\<close> is the interface of one primitive field,
  \<open>state_chunk\<close> the interface of a component that saves itself as one chunk.
\<close>

section \<open>What a writer operation emits\<close>

definition wok :: "state_writer \<Rightarrow> bool" where
  "wok w \<longleftrightarrow> \<not> w_failed w \<and> (\<forall>d. w_data w = Some d \<longrightarrow> unat (w_size w) \<le> length d)"

definition wspace :: "state_writer \<Rightarrow> nat \<Rightarrow> bool" where
  "wspace w n \<longleftrightarrow> unat (w_offset w) + n < 4294967296 \<and>
     (w_data w \<noteq> None \<longrightarrow> unat (w_offset w) + n \<le> unat (w_size w))"

definition wput :: "state_writer \<Rightarrow> u8 list \<Rightarrow> state_writer" where
  "wput w bs = w\<lparr>w_offset := w_offset w + of_nat (length bs),
     w_data := map_option (\<lambda>d. store_bytes d (unat (w_offset w)) bs) (w_data w)\<rparr>"

definition emits :: "(state_writer \<Rightarrow> bool \<times> state_writer) \<Rightarrow> u8 list \<Rightarrow> bool" where
  "emits op bs \<longleftrightarrow>
     (\<forall>w. wok w \<longrightarrow> wspace w (length bs) \<longrightarrow> op w = (True, wput w bs)) \<and>
     (\<forall>w. wok w \<longrightarrow> \<not> wspace w (length bs) \<longrightarrow>
        \<not> fst (op w) \<and> w_failed (snd (op w)))"

lemma emitsI:
  assumes "\<And>w. wok w \<Longrightarrow> wspace w (length bs) \<Longrightarrow> op w = (True, wput w bs)"
    and "\<And>w. wok w \<Longrightarrow> \<not> wspace w (length bs) \<Longrightarrow> \<not> fst (op w) \<and> w_failed (snd (op w))"
  shows "emits op bs"
  using assms by (simp add: emits_def)

lemma emitsD: "emits op bs \<Longrightarrow> wok w \<Longrightarrow> wspace w (length bs) \<Longrightarrow> op w = (True, wput w bs)"
  by (simp add: emits_def)

lemma emits_noroom:
  "emits op bs \<Longrightarrow> wok w \<Longrightarrow> \<not> wspace w (length bs) \<Longrightarrow> \<not> fst (op w) \<and> w_failed (snd (op w))"
  by (simp add: emits_def)

lemma wput_sel [simp]:
  "w_failed (wput w bs) = w_failed w" "w_size (wput w bs) = w_size w"
  "w_data (wput w bs) = map_option (\<lambda>d. store_bytes d (unat (w_offset w)) bs) (w_data w)"
  by (simp_all add: wput_def)

lemma wput_offset: "wspace w (length bs) \<Longrightarrow>
    unat (w_offset (wput w bs)) = unat (w_offset w) + length bs"
  by (simp add: wput_def wspace_def unat_word_ariths unat_of_nat)

lemma wok_wput: "wok w \<Longrightarrow> wok (wput w bs)"
  by (auto simp: wok_def wput_def)

lemma wspace_wput: "wspace w (length a) \<Longrightarrow> wspace (wput w a) n \<longleftrightarrow> wspace w (length a + n)"
  using wput_offset [of w a] by (auto simp: wspace_def wput_def)

lemma store_bytes_append:
  "store_bytes d i (a @ b) = store_bytes (store_bytes d i a) (i + length a) b"
  by (induction d i a rule: store_bytes.induct) auto

lemma wput_append: "wspace w (length a) \<Longrightarrow> wput (wput w a) b = wput w (a @ b)"
  using wput_offset [of w a]
  by (simp add: wput_def store_bytes_append option.map_comp o_def add.assoc)

lemma emits_and [state_codec]:
  assumes a: "emits f a" and b: "emits g b"
  shows "emits (w_and f g) (a @ b)"
proof (rule emitsI)
  fix w assume w: "wok w" "wspace w (length (a @ b))"
  then have sa: "wspace w (length a)" by (auto simp: wspace_def)
  have "f w = (True, wput w a)" using a w(1) sa by (rule emitsD)
  moreover have "g (wput w a) = (True, wput (wput w a) b)"
    using b w sa by (intro emitsD [OF b]) (auto simp: wok_wput wspace_wput)
  ultimately show "w_and f g w = (True, wput w (a @ b))"
    by (simp add: w_and_def wput_append [OF sa])
next
  fix w assume w: "wok w" "\<not> wspace w (length (a @ b))"
  show "\<not> fst (w_and f g w) \<and> w_failed (snd (w_and f g w))"
  proof (cases "wspace w (length a)")
    case True
    then have "f w = (True, wput w a)" using a w(1) by (simp add: emitsD)
    moreover have "\<not> wspace (wput w a) (length b)" using w(2) True by (simp add: wspace_wput)
    ultimately show ?thesis
      using emits_noroom [OF b, of "wput w a"] w(1) by (simp add: w_and_def wok_wput)
  next
    case False
    then show ?thesis
      using emits_noroom [OF a w(1) False] by (cases "f w") (auto simp: w_and_def)
  qed
qed

text \<open>A sequence of calls that ignores their results: a writer that failed stays failed.\<close>

definition wsticky :: "(state_writer \<Rightarrow> bool \<times> state_writer) \<Rightarrow> bool" where
  "wsticky op \<longleftrightarrow> (\<forall>w. w_failed w \<longrightarrow> \<not> fst (op w) \<and> w_failed (snd (op w)))"

lemma wsticky_ops [state_codec]:
  "wsticky (write_fixed bs)" "wsticky (opera_state_write_bytes src n)"
  "wsticky (opera_state_write_u8 v8)" "wsticky (opera_state_write_u32 v32)"
  "wsticky f \<Longrightarrow> wsticky g \<Longrightarrow> wsticky (w_then f g)"
  by (simp_all add: wsticky_def write_fixed_def opera_state_write_bytes_def Let_def
      opera_state_write_reserve_def opera_state_write_u8_def opera_state_write_u32_def w_then_def)

lemma emits_then [state_codec]:
  assumes a: "emits f a" and b: "emits g b" and st: "wsticky g"
  shows "emits (w_then f g) (a @ b)"
proof (rule emitsI)
  fix w assume w: "wok w" "wspace w (length (a @ b))"
  have "w_and f g w = (True, wput w (a @ b))" by (rule emitsD [OF emits_and [OF a b] w])
  then show "w_then f g w = (True, wput w (a @ b))"
    by (auto simp: w_and_def w_then_def split: prod.splits if_splits)
next
  fix w assume w: "wok w" "\<not> wspace w (length (a @ b))"
  have n: "\<not> fst (w_and f g w) \<and> w_failed (snd (w_and f g w))"
    by (rule emits_noroom [OF emits_and [OF a b] w])
  obtain ok w' where f: "f w = (ok, w')" by (cases "f w")
  with n st show "\<not> fst (w_then f g w) \<and> w_failed (snd (w_then f g w))"
    by (cases ok) (auto simp: w_and_def w_then_def wsticky_def)
qed

lemma reserve_room:
  assumes "wok w" "wspace w (unat n)"
  shows "opera_state_write_reserve w n =
    (if w_data w = None then None else Some (w_offset w), w\<lparr>w_offset := w_offset w + n\<rparr>)"
proof -
  have "unat (w_offset w + n) = unat (w_offset w) + unat n"
    using assms by (intro unat_add_nowrap) (simp add: wspace_def)
  moreover have "\<not> UINT32_MAX - w_offset w < n"
    using assms(2) unat_u32_lt [of "w_offset w"]
    by (auto simp: wspace_def word_less_nat_alt unat_sub word_le_nat_alt)
  ultimately show ?thesis
    using assms by (auto simp: opera_state_write_reserve_def wok_def wspace_def Let_def
        word_less_nat_alt)
qed

lemma reserve_noroom:
  assumes "wok w" "\<not> wspace w (unat n)"
  shows "fst (opera_state_write_reserve w n) = None \<and> w_failed (snd (opera_state_write_reserve w n))"
proof (cases "n > UINT32_MAX - w_offset w")
  case True
  then show ?thesis
    using assms(1) by (simp add: opera_state_write_reserve_def wok_def opera_state_writer_fail_def)
next
  case False
  then have le: "unat (w_offset w) + unat n < 4294967296"
    using unat_u32_lt [of "w_offset w"]
    by (simp add: word_less_nat_alt unat_sub word_le_nat_alt)
  then have "unat (w_offset w + n) = unat (w_offset w) + unat n"
    by (intro unat_add_nowrap) simp
  moreover have "w_data w \<noteq> None" "unat (w_size w) < unat (w_offset w) + unat n"
    using assms(2) le by (auto simp: wspace_def)
  ultimately show ?thesis
    using False assms(1)
    by (auto simp: opera_state_write_reserve_def wok_def Let_def word_less_nat_alt
        opera_state_writer_fail_def)
qed

lemma wput_reserve:
  "w_data w = Some d \<Longrightarrow> n = of_nat (length bs) \<Longrightarrow>
   store_at (w\<lparr>w_offset := w_offset w + n\<rparr>) (w_offset w) bs = wput w bs"
  by (simp add: store_at_def wput_def)

lemma wput_sizing: "w_data w = None \<Longrightarrow> n = of_nat (length bs) \<Longrightarrow>
   w\<lparr>w_offset := w_offset w + n\<rparr> = wput w bs"
  by (simp add: wput_def)

lemma emits_write_fixed:
  assumes "length bs < 4294967296"
  shows "emits (write_fixed bs) bs"
proof (rule emitsI)
  fix w assume w: "wok w" "wspace w (length bs)"
  then have "opera_state_write_reserve w (of_nat (length bs)) =
    (if w_data w = None then None else Some (w_offset w),
     w\<lparr>w_offset := w_offset w + of_nat (length bs)\<rparr>)"
    using assms by (intro reserve_room) (simp_all add: unat_of_nat)
  then show "write_fixed bs w = (True, wput w bs)"
    using w by (cases "w_data w")
      (simp_all add: write_fixed_def Let_def wput_reserve wput_sizing wok_def)
next
  fix w assume w: "wok w" "\<not> wspace w (length bs)"
  then have "fst (opera_state_write_reserve w (of_nat (length bs))) = None \<and>
      w_failed (snd (opera_state_write_reserve w (of_nat (length bs))))"
    using assms by (intro reserve_noroom) (simp_all add: unat_of_nat)
  then show "\<not> fst (write_fixed bs w) \<and> w_failed (snd (write_fixed bs w))"
    by (auto simp: write_fixed_def Let_def case_prod_unfold split: option.splits)
qed

lemma emits_write_bytes [state_codec]:
  assumes "length bs = unat n"
  shows "emits (opera_state_write_bytes (Some bs) n) bs"
proof (rule emitsI)
  fix w assume w: "wok w" "wspace w (length bs)"
  then have r: "opera_state_write_reserve w n =
    (if w_data w = None then None else Some (w_offset w), w\<lparr>w_offset := w_offset w + n\<rparr>)"
    using assms by (intro reserve_room) simp_all
  have n: "n = of_nat (length bs)" using assms by simp
  show "opera_state_write_bytes (Some bs) n w = (True, wput w bs)"
  proof (cases "w_data w")
    case None
    then show ?thesis
      using w r by (simp add: opera_state_write_bytes_def wok_def wput_sizing [OF _ n])
  next
    case (Some d)
    show ?thesis
    proof (cases "n = 0")
      case True
      then have "bs = []" using assms by simp
      with True Some show ?thesis using r by (simp add: opera_state_write_bytes_def wput_def)
    next
      case False
      then have "0 < n" by (simp add: word_gt_0)
      with Some show ?thesis
        using r assms by (simp add: opera_state_write_bytes_def wput_reserve [OF _ n])
    qed
  qed
next
  fix w assume w: "wok w" "\<not> wspace w (length bs)"
  then have "fst (opera_state_write_reserve w n) = None \<and>
      w_failed (snd (opera_state_write_reserve w n))"
    using assms by (intro reserve_noroom) simp_all
  then show "\<not> fst (opera_state_write_bytes (Some bs) n w) \<and>
      w_failed (snd (opera_state_write_bytes (Some bs) n w))"
    by (auto simp: opera_state_write_bytes_def Let_def case_prod_unfold)
qed


text \<open>Arrays emit their byte images; the widths are 2 and 4.\<close>

lemma emits_write_array:
  assumes "length bs = unat count * unat es" "0 < unat es" "length bs < 4294967296"
  shows "emits (opera_state_write_array (Some bs) count es) bs"
proof -
  have u: "unat (count * es) = length bs"
    using assms by (simp add: unat_word_ariths)
  have "unat count \<le> unat (UINT32_MAX div es)"
  proof -
    have "unat count * unat es \<le> 4294967295" using assms by simp
    then show ?thesis using assms(2) by (simp add: unat_div less_eq_div_iff_mult_less_eq)
  qed
  then have c: "\<not> UINT32_MAX div es < count"
    by (simp add: word_less_nat_alt)
  show ?thesis
  proof (rule emitsI)
    fix w assume w: "wok w" "wspace w (length bs)"
    then have r: "opera_state_write_reserve w (count * es) =
      (if w_data w = None then None else Some (w_offset w),
       w\<lparr>w_offset := w_offset w + count * es\<rparr>)"
      using u by (intro reserve_room) simp_all
    have n: "count * es = of_nat (length bs)" using u by (metis of_nat_unat ucast_id)
    show "opera_state_write_array (Some bs) count es w = (True, wput w bs)"
      using c r u w by (cases "w_data w")
        (simp_all add: opera_state_write_array_def wput_sizing [OF _ n] wput_reserve [OF _ n] wok_def)
  next
    fix w assume w: "wok w" "\<not> wspace w (length bs)"
    then have "fst (opera_state_write_reserve w (count * es)) = None \<and>
        w_failed (snd (opera_state_write_reserve w (count * es)))"
      using u by (intro reserve_noroom) simp_all
    then show "\<not> fst (opera_state_write_array (Some bs) count es w) \<and>
        w_failed (snd (opera_state_write_array (Some bs) count es w))"
      using c by (auto simp: opera_state_write_array_def Let_def case_prod_unfold)
  qed
qed

lemma length_images [simp]:
  "length (image16 xs) = 2 * length xs" "length (image32 ys) = 4 * length ys"
  by (induction xs, simp_all add: image16_def) (induction ys, simp_all add: image32_def)

lemma image_words [simp]: "words16 (image16 xs) = xs" "words32 (image32 ys) = ys"
  by (induction xs, simp_all add: image16_def) (induction ys, simp_all add: image32_def)

definition enc32 :: "u32 \<Rightarrow> u8 list" where
  "enc32 v = [byte_of 0 v, byte_of 1 v, byte_of 2 v, byte_of 3 v]"

definition enc16 :: "u16 \<Rightarrow> u8 list" where
  "enc16 v = [byte_of 0 v, byte_of 1 v]"

definition enc64 :: "u64 \<Rightarrow> u8 list" where
  "enc64 v = [byte_of 0 v, byte_of 1 v, byte_of 2 v, byte_of 3 v,
              byte_of 4 v, byte_of 5 v, byte_of 6 v, byte_of 7 v]"

lemma length_enc [simp]: "length (enc16 a) = 2" "length (enc32 b) = 4" "length (enc64 c) = 8"
  by (simp_all add: enc16_def enc32_def enc64_def)

lemma emits_u8 [state_codec]: "emits (opera_state_write_u8 v) [v]"
  by (simp add: opera_state_write_u8_def emits_write_fixed)

lemma emits_u16 [state_codec]: "emits (opera_state_write_u16 v) (enc16 v)"
  by (simp add: opera_state_write_u16_def enc16_def emits_write_fixed)

lemma emits_u32 [state_codec]: "emits (opera_state_write_u32 v) (enc32 v)"
  by (simp add: opera_state_write_u32_def enc32_def emits_write_fixed)

lemma emits_u64 [state_codec]: "emits (opera_state_write_u64 v) (enc64 v)"
  by (simp add: opera_state_write_u64_def enc64_def emits_write_bytes)

lemma emits_i32 [state_codec]: "emits (opera_state_write_i32 v) (enc32 v)"
  by (simp add: opera_state_write_i32_def emits_u32)

lemma emits_u32_array [state_codec]:
  "length xs = unat n \<Longrightarrow> length xs < 1073741824 \<Longrightarrow>
   emits (opera_state_write_u32_array xs n) (image32 xs)"
  by (simp add: opera_state_write_u32_array_def emits_write_array)

lemma emits_u16_array [state_codec]:
  "length xs = unat n \<Longrightarrow> length xs < 1073741824 \<Longrightarrow>
   emits (opera_state_write_u16_array xs n) (image16 xs)"
  by (simp add: opera_state_write_u16_array_def emits_write_array)

lemma emits_chunk_header [state_codec]:
  "3 \<le> length name \<Longrightarrow>
   emits (opera_state_write_chunk_header name n) (chunk_name name @ enc32 n)"
  unfolding opera_state_write_chunk_header_def
  by (intro emits_and emits_write_bytes emits_u32) (simp add: chunk_name_def c_str_def)

section \<open>What a reader operation consumes\<close>

text \<open>A healthy reader is inside its buffer; its rest is what is still to be read.\<close>

definition rok :: "state_reader \<Rightarrow> bool" where
  "rok r \<longleftrightarrow> \<not> r_failed r \<and> r_offset r \<le> r_size r \<and> unat (r_size r) \<le> length (r_data r)"

definition rest :: "state_reader \<Rightarrow> u8 list" where
  "rest r = drop (unat (r_offset r)) (take (unat (r_size r)) (r_data r))"

definition radv :: "state_reader \<Rightarrow> nat \<Rightarrow> state_reader" where
  "radv r n = r\<lparr>r_offset := r_offset r + of_nat n\<rparr>"

definition consumes :: "(state_reader \<Rightarrow> 'a option \<times> state_reader) \<Rightarrow> 'a \<Rightarrow> u8 list \<Rightarrow> bool" where
  "consumes m v bs \<longleftrightarrow>
     (\<forall>r ts. rok r \<longrightarrow> rest r = bs @ ts \<longrightarrow> m r = (Some v, radv r (length bs)))"

lemma consumesI:
  assumes "\<And>r ts. rok r \<Longrightarrow> rest r = bs @ ts \<Longrightarrow> m r = (Some v, radv r (length bs))"
  shows "consumes m v bs"
  using assms by (simp add: consumes_def)

lemma consumesD: "consumes m v bs \<Longrightarrow> rok r \<Longrightarrow> rest r = bs @ ts \<Longrightarrow> m r = (Some v, radv r (length bs))"
  by (simp add: consumes_def)

lemma remaining_rest: "rok r \<Longrightarrow> unat (opera_state_reader_remaining r) = length (rest r)"
  by (auto simp: opera_state_reader_remaining_def rok_def rest_def not_less unat_sub
      word_le_nat_alt word_less_nat_alt)

lemma radv_offset: "rok r \<Longrightarrow> n \<le> length (rest r) \<Longrightarrow>
    unat (r_offset (radv r n)) = unat (r_offset r) + n"
proof -
  assume a: "rok r" "n \<le> length (rest r)"
  then have "unat (r_offset r) + n \<le> unat (r_size r)"
    by (auto simp: rok_def rest_def word_le_nat_alt)
  moreover have "unat (r_size r) < 4294967296" by (rule unat_u32_lt)
  ultimately show ?thesis by (simp add: radv_def unat_word_ariths unat_of_nat)
qed

lemma rok_radv: "rok r \<Longrightarrow> n \<le> length (rest r) \<Longrightarrow> rok (radv r n)"
  using radv_offset [of r n]
  by (auto simp: rok_def radv_def rest_def word_le_nat_alt)

lemma rest_radv: "rok r \<Longrightarrow> n \<le> length (rest r) \<Longrightarrow> rest (radv r n) = drop n (rest r)"
  using radv_offset [of r n] by (simp add: rest_def radv_def add.commute)

lemma radv_radv: "radv (radv r m) n = radv r (m + n)"
  by (simp add: radv_def add.assoc)

lemma rest_alt: "rest r = take (unat (r_size r) - unat (r_offset r)) (drop (unat (r_offset r)) (r_data r))"
  by (simp add: rest_def drop_take)

lemma rest_data: "rok r \<Longrightarrow> n \<le> length (rest r) \<Longrightarrow> bytes_at r n = take n (rest r)"
  by (auto simp: bytes_at_def rest_alt rok_def min_def word_le_nat_alt split: if_splits)

lemma rest_nth: "rok r \<Longrightarrow> i < length (rest r) \<Longrightarrow> drop (unat (r_offset r)) (r_data r) ! i = rest r ! i"
  by (simp add: rest_alt rok_def)

lemma consumes_bind [state_codec]:
  assumes "consumes m a xs" "consumes (f a) b ys"
  shows "consumes (r_bind m f) b (xs @ ys)"
proof (rule consumesI)
  fix r ts assume r: "rok r" "rest r = (xs @ ys) @ ts"
  have 1: "m r = (Some a, radv r (length xs))"
    using assms(1) r by (simp add: consumesD)
  have "f a (radv r (length xs)) = (Some b, radv (radv r (length xs)) (length ys))"
    by (rule consumesD [OF assms(2), where ts = ts]) (use r in \<open>simp_all add: rok_radv rest_radv\<close>)
  with 1 show "r_bind m f r = (Some b, radv r (length (xs @ ys)))"
    by (simp add: r_bind_def radv_radv)
qed

lemma consumes_return [state_codec]: "consumes (r_return v) v []"
  by (rule consumesI) (simp add: r_return_def radv_def)

lemma consumes_u8 [state_codec]: "consumes opera_state_read_u8 v [v]"
proof (rule consumesI)
  fix r ts assume r: "rok r" "rest r = [v] @ ts"
  then have "\<not> opera_state_reader_remaining r < 1"
    using remaining_rest [of r] by (auto simp: word_less_nat_alt)
  moreover have "r_data r ! unat (r_offset r) = v"
    using r rest_nth [of r 0] by (simp add: rok_def rest_def word_le_nat_alt)
  ultimately show "opera_state_read_u8 r = (Some v, radv r (length [v]))"
    using r(1) by (simp add: opera_state_read_u8_def radv_def rok_def)
qed

lemma consumes_u16 [state_codec]: "consumes opera_state_read_u16 v (enc16 v)"
proof (rule consumesI)
  fix r ts assume r: "rok r" "rest r = enc16 v @ ts"
  then have "\<not> opera_state_reader_remaining r < 2"
    using remaining_rest [of r] by (auto simp: word_less_nat_alt)
  then show "opera_state_read_u16 r = (Some v, radv r (length (enc16 v)))"
    using r rest_nth [of r 0] rest_nth [of r 1]
    by (simp add: opera_state_read_u16_def radv_def rok_def enc16_def)
qed

lemma consumes_u32 [state_codec]: "consumes opera_state_read_u32 v (enc32 v)"
proof (rule consumesI)
  fix r ts assume r: "rok r" "rest r = enc32 v @ ts"
  then have "\<not> opera_state_reader_remaining r < 4"
    using remaining_rest [of r] by (auto simp: word_less_nat_alt)
  then show "opera_state_read_u32 r = (Some v, radv r (length (enc32 v)))"
    using r rest_nth [of r 0] rest_nth [of r 1] rest_nth [of r 2] rest_nth [of r 3]
    by (simp add: opera_state_read_u32_def radv_def rok_def enc32_def)
qed

lemma consumes_i32 [state_codec]: "consumes opera_state_read_i32 v (enc32 v)"
  using consumes_u32 by (simp add: consumes_def opera_state_read_i32_def)

lemma consumes_bytes [state_codec]:
  "length bs = unat n \<Longrightarrow> consumes (opera_state_read_bytes n) bs bs"
proof (rule consumesI)
  fix r ts assume n: "length bs = unat n" and r: "rok r" "rest r = bs @ ts"
  then have "\<not> opera_state_reader_remaining r < n"
    using remaining_rest [of r] by (auto simp: word_less_nat_alt)
  moreover have "bytes_at r (unat n) = bs" using r n by (simp add: rest_data)
  moreover have "n = of_nat (length bs)" using n by simp
  ultimately show "opera_state_read_bytes n r = (Some bs, radv r (length bs))"
    using r(1) by (simp add: opera_state_read_bytes_def radv_def rok_def)
qed

lemma bit_ucast_byte: "bit (ucast (b :: u8) :: u64) n \<longleftrightarrow> n < 8 \<and> bit b n"
  by (auto simp: bit_simps dest: bit_imp_le_length)

lemma bit_push_byte:
  "k + 8 \<le> 64 \<Longrightarrow>
   bit (push_bit k (ucast (b :: u8)) :: u64) n \<longleftrightarrow> k \<le> n \<and> n < k + 8 \<and> bit b (n - k)"
  by (auto simp: bit_simps dest: bit_imp_le_length)

lemma le8_enc64 [simp]: "le8 (enc64 v) = v"
proof (rule bit_word_eqI)
  fix n assume "n < LENGTH(64)"
  then consider "n < 8" | "8 \<le> n" "n < 16" | "16 \<le> n" "n < 24" | "24 \<le> n" "n < 32"
    | "32 \<le> n" "n < 40" | "40 \<le> n" "n < 48" | "48 \<le> n" "n < 56" | "56 \<le> n" "n < 64"
    by fastforce
  then show "bit (le8 (enc64 v)) n = bit v n"
    by cases (simp_all add: le8_def enc64_def bit_or_iff bit_push_byte bit_ucast_byte
        bit_byte_of less_diff_conv2)
qed

lemma consumes_u64 [state_codec]: "consumes opera_state_read_u64 v (enc64 v)"
proof (rule consumesI)
  fix r ts assume "rok r" "rest r = enc64 v @ ts"
  then have "opera_state_read_bytes 8 r = (Some (enc64 v), radv r (length (enc64 v)))"
    by (intro consumesD [OF consumes_bytes]) simp_all
  then show "opera_state_read_u64 r = (Some v, radv r (length (enc64 v)))"
    by (simp add: opera_state_read_u64_def)
qed

lemma consumes_array:
  assumes "length bs = unat count * unat es" "0 < unat es" "length bs < 4294967296"
  shows "consumes (opera_state_read_array count es) bs bs"
proof (rule consumesI)
  fix r ts assume r: "rok r" "rest r = bs @ ts"
  have u: "unat (count * es) = length bs"
    using assms by (simp add: unat_word_ariths)
  have "unat count * unat es \<le> 4294967295" using assms by simp
  then have c: "\<not> UINT32_MAX div es < count"
    using assms(2) by (simp add: word_less_nat_alt unat_div not_less less_eq_div_iff_mult_less_eq)
  have "\<not> opera_state_reader_remaining r < count * es"
    using remaining_rest [of r] r u by (auto simp: word_less_nat_alt)
  moreover have "bytes_at r (unat (count * es)) = bs" using r u by (simp add: rest_data)
  moreover have "count * es = of_nat (length bs)" using u by (metis of_nat_unat ucast_id)
  ultimately show "opera_state_read_array count es r = (Some bs, radv r (length bs))"
    using r(1) c by (simp add: opera_state_read_array_def radv_def rok_def)
qed

lemma consumes_u32_array [state_codec]:
  assumes "length xs = unat n" "length xs < 1073741824"
  shows "consumes (opera_state_read_u32_array n) xs (image32 xs)"
proof -
  have "consumes (opera_state_read_array n 4) (image32 xs) (image32 xs)"
    using assms by (intro consumes_array) simp_all
  then show ?thesis
    by (auto simp: consumes_def opera_state_read_u32_array_def)
qed

lemma consumes_u16_array [state_codec]:
  assumes "length xs = unat n" "length xs < 1073741824"
  shows "consumes (opera_state_read_u16_array n) xs (image16 xs)"
proof -
  have "consumes (opera_state_read_array n 2) (image16 xs) (image16 xs)"
    using assms by (intro consumes_array) simp_all
  then show ?thesis
    by (auto simp: consumes_def opera_state_read_u16_array_def)
qed


text \<open>One field of a loader's chain at a time.\<close>

lemmas consumes_fields = consumes_bind [OF consumes_u8] consumes_bind [OF consumes_u16]
  consumes_bind [OF consumes_u32] consumes_bind [OF consumes_u64] consumes_bind [OF consumes_i32]
  consumes_return

section \<open>Chunks\<close>

text \<open>The shape the components' savers and loaders share: the sizing pass over a \<open>NULL\<close>
  buffer, the header and the payload through one writer, and the loader that parses and
  checks the payload, stops short when validating, and installs the parsed state otherwise.\<close>

definition payload_sizing :: "(state_writer \<Rightarrow> bool \<times> state_writer) \<Rightarrow> u32" where
  "payload_sizing put =
     (let w = snd (put (opera_state_writer_init None UINT32_MAX))
      in if opera_state_writer_ok w then opera_state_writer_used w else 0)"

definition save_chunk ::
  "string \<Rightarrow> u32 \<Rightarrow> (state_writer \<Rightarrow> bool \<times> state_writer) \<Rightarrow> u8 list \<Rightarrow> u32 \<times> u8 list" where
  "save_chunk name n put buf =
     (let w0 = opera_state_writer_init (Some buf) (opera_state_chunk_size n);
          w1 = snd (opera_state_write_chunk_header name n w0);
          w2 = snd (put w1)
      in (if opera_state_writer_ok w2 then opera_state_writer_used w2 else 0, the (w_data w2)))"

definition load_chunk ::
  "string \<Rightarrow> (state_reader \<Rightarrow> 's option \<times> state_reader) \<Rightarrow> ('s \<Rightarrow> bool) \<Rightarrow> ('s \<Rightarrow> 'g \<Rightarrow> 'g) \<Rightarrow>
   bool \<Rightarrow> u8 list \<Rightarrow> u32 \<Rightarrow> 'g \<Rightarrow> u32 \<times> 'g" where
  "load_chunk name get valid install validating data sz cur =
     (let (payload, reader) = opera_state_read_chunk name (opera_state_reader_init data sz) in
      case payload of
        None \<Rightarrow> (0, cur)
      | Some p \<Rightarrow>
          (let (st, p') = get p in
           case st of
             None \<Rightarrow> (0, cur)
           | Some s \<Rightarrow>
               (if \<not> opera_state_reader_finished p' then (0, cur)
                else if \<not> valid s then (0, cur)
                else if validating then (opera_state_reader_used reader, cur)
                else (opera_state_reader_used reader, install s cur))))"

lemma load_chunk_validating:
  "load_chunk name get valid install True data sz cur =
   (fst (load_chunk name get valid install False data sz cur), cur)"
  by (simp add: load_chunk_def Let_def split: prod.splits option.splits)

lemma length_chunk_name: "3 \<le> length name \<Longrightarrow> length (chunk_name name) = 4"
  by (simp add: chunk_name_def c_str_def)

lemma read_chunk_consumes:
  assumes r: "rok r" "rest r = chunk_name name @ enc32 n @ payload @ ts"
    and n: "length payload = unat n" and nm: "3 \<le> length name"
  shows "\<exists>p. opera_state_read_chunk name r = (Some p, radv r (8 + length payload)) \<and>
    rok p \<and> rest p = payload \<and> r_offset p = 0"
proof -
  note l = length_chunk_name [OF nm]
  let ?r1 = "radv r 4" and ?r2 = "radv r 8"
  have 1: "opera_state_read_bytes 4 r = (Some (chunk_name name), ?r1)"
    using consumesD [OF consumes_bytes [of "chunk_name name" 4] r] l by simp
  have r1: "rok ?r1" "rest ?r1 = enc32 n @ payload @ ts"
    using r l by (simp_all add: rok_radv rest_radv)
  have 2: "opera_state_read_u32 ?r1 = (Some n, ?r2)"
    using consumesD [OF consumes_u32 r1] by (simp add: radv_radv)
  have r2: "rok ?r2" "rest ?r2 = payload @ ts"
    using r l by (simp_all add: rok_radv rest_radv)
  let ?p = "opera_state_reader_init (drop (unat (r_offset ?r2)) (r_data ?r2)) n"
  have rem: "\<not> opera_state_reader_remaining ?r2 < n"
    using remaining_rest [OF r2(1)] r2(2) n by (simp add: word_less_nat_alt)
  have 3: "opera_state_read_chunk name r = (Some ?p, ?r2\<lparr>r_offset := r_offset ?r2 + n\<rparr>)"
    using rem by (simp add: opera_state_read_chunk_def 1 2)
  have "n = of_nat (length payload)" using n by simp
  then have "?r2\<lparr>r_offset := r_offset ?r2 + n\<rparr> = radv r (8 + length payload)"
    by (simp add: radv_def add.assoc)
  moreover have "rok ?p"
  proof -
    have "unat n \<le> length (rest ?r2)" using r2(2) n by simp
    then have "unat n \<le> length (r_data ?r2) - unat (r_offset ?r2)"
      by (auto simp: rest_alt)
    then show ?thesis by (simp add: rok_def opera_state_reader_init_def)
  qed
  moreover have "rest ?p = payload"
  proof -
    have "take (unat n) (rest ?r2) = payload" using r2(2) n by simp
    moreover have "take (unat n) (rest ?r2) = take (unat n) (drop (unat (r_offset ?r2)) (r_data ?r2))"
      using rest_data [OF r2(1), of "unat n"] r2(2) n by (simp add: bytes_at_def)
    ultimately show ?thesis by (simp add: rest_def opera_state_reader_init_def)
  qed
  moreover have "r_offset ?p = 0" by (simp add: opera_state_reader_init_def)
  ultimately show ?thesis using 3 by auto
qed

lemma rok_init: "unat sz \<le> length d \<Longrightarrow> rok (opera_state_reader_init d sz)"
  by (simp add: rok_def opera_state_reader_init_def)

lemma rest_init: "rest (opera_state_reader_init d sz) = take (unat sz) d"
  by (simp add: rest_def opera_state_reader_init_def)

lemma finished_iff: "rok r \<Longrightarrow> opera_state_reader_finished r \<longleftrightarrow> rest r = []"
proof -
  assume r: "rok r"
  then have "rest r = [] \<longleftrightarrow> unat (r_size r) \<le> unat (r_offset r)"
    by (auto simp: rest_def rok_def)
  also have "\<dots> \<longleftrightarrow> r_offset r = r_size r"
    using r by (auto simp: rok_def word_le_nat_alt intro: word_unat_eq_iff [THEN iffD2])
  finally show ?thesis using r by (simp add: opera_state_reader_finished_def rok_def)
qed

lemma chunk_size_unat: "m < 4294967288 \<Longrightarrow> unat (opera_state_chunk_size (of_nat m)) = 8 + m"
  by (simp add: opera_state_chunk_size_def opera_state_save_size_def
      opera_state_chunk_header_size_def unat_word_ariths unat_of_nat)

lemma payload_sizing_emits:
  assumes "emits put bs" "length bs < 4294967296"
  shows "payload_sizing put = of_nat (length bs)"
proof -
  let ?w = "opera_state_writer_init None UINT32_MAX"
  have "wok ?w" "wspace ?w (length bs)"
    using assms(2) by (simp_all add: wok_def wspace_def opera_state_writer_init_def)
  from emitsD [OF assms(1) this] show ?thesis
    by (simp add: payload_sizing_def opera_state_writer_ok_def opera_state_writer_used_def wput_def
        opera_state_writer_init_def)
qed

lemma save_chunk_emits:
  assumes nm: "3 \<le> length name" and put: "emits put bs" and big: "length bs < 4294967288"
    and buf: "8 + length bs \<le> length buf"
  shows "save_chunk name (of_nat (length bs)) put buf =
    (of_nat (8 + length bs),
     chunk_name name @ enc32 (of_nat (length bs)) @ bs @ drop (8 + length bs) buf)"
proof -
  let ?n = "of_nat (length bs) :: u32" and ?len = "length bs"
  let ?hd = "chunk_name name @ enc32 ?n"
  let ?w0 = "opera_state_writer_init (Some buf) (opera_state_chunk_size ?n)"
  have hdr: "emits (opera_state_write_chunk_header name ?n) ?hd" by (rule emits_chunk_header [OF nm])
  have hl: "length ?hd = 8" using nm by (simp add: length_chunk_name)
  have w0: "wok ?w0" "wspace ?w0 (8 + ?len)"
    using buf big by (simp_all add: wok_def wspace_def opera_state_writer_init_def chunk_size_unat)
  have sp: "wspace ?w0 (length ?hd)"
    using w0(2) by (simp only: hl) (auto simp: wspace_def)
  have 1: "opera_state_write_chunk_header name ?n ?w0 = (True, wput ?w0 ?hd)"
    by (rule emitsD [OF hdr w0(1) sp])
  have sp1: "wspace (wput ?w0 ?hd) ?len" using w0(2) by (simp only: wspace_wput [OF sp] hl)
  have 2: "put (wput ?w0 ?hd) = (True, wput ?w0 (?hd @ bs))"
    using emitsD [OF put wok_wput [OF w0(1)] sp1] by (simp only: wput_append [OF sp])
  have "length (?hd @ bs) = 8 + ?len" using hl by simp
  then have "store_bytes buf 0 (?hd @ bs) = ?hd @ bs @ drop (8 + ?len) buf"
    using buf by (simp add: store_bytes_conv del: length_append)
  with \<open>length (?hd @ bs) = 8 + ?len\<close> show ?thesis
    by (simp add: save_chunk_def 1 2 opera_state_writer_ok_def opera_state_writer_used_def del: length_append)
      (simp add: wput_def opera_state_writer_init_def del: length_append)
qed

text \<open>The interface of a component that is saved as one chunk: what its payload writer emits,
  what its payload reader consumes, and that the parsed state is accepted and installed as
  the state that was saved.\<close>

locale state_chunk =
  fixes name :: string
    and okay :: "'g \<Rightarrow> bool"
    and enc :: "'g \<Rightarrow> u8 list"
    and put :: "'g \<Rightarrow> state_writer \<Rightarrow> bool \<times> state_writer"
    and get :: "state_reader \<Rightarrow> 's option \<times> state_reader"
    and snap :: "'g \<Rightarrow> 's"
    and valid :: "'s \<Rightarrow> bool"
    and install :: "'s \<Rightarrow> 'g \<Rightarrow> 'g"
    and sees :: "'g \<Rightarrow> 'g \<Rightarrow> bool"
  assumes name_len: "3 \<le> length name"
    and enc_len: "okay g \<Longrightarrow> length (enc g) < 4294967288"
    and put_emits: "okay g \<Longrightarrow> emits (put g) (enc g)"
    and get_consumes: "okay g \<Longrightarrow> consumes get (snap g) (enc g)"
    and snap_valid: "okay g \<Longrightarrow> valid (snap g)"
    and install_snap: "okay g \<Longrightarrow> sees g cur \<Longrightarrow> install (snap g) cur = g"
begin

definition image :: "'g \<Rightarrow> u8 list" where
  "image g = chunk_name name @ enc32 (of_nat (length (enc g))) @ enc g"

lemma length_image: "length (image g) = 8 + length (enc g)"
  using name_len by (simp add: image_def length_chunk_name)

lemma sizing: "okay g \<Longrightarrow> payload_sizing (put g) = of_nat (length (enc g))"
  using enc_len [of g] by (intro payload_sizing_emits put_emits) auto

lemma save_image:
  assumes "okay g" "8 + length (enc g) \<le> length buf"
  shows "save_chunk name (of_nat (length (enc g))) (put g) buf =
    (of_nat (8 + length (enc g)), image g @ drop (8 + length (enc g)) buf)"
  using save_chunk_emits [OF name_len put_emits [OF assms(1)] enc_len [OF assms(1)] assms(2)]
  by (simp add: image_def)

lemma load_image:
  assumes g: "okay g" and d: "take (unat sz) d = image g @ ts" "unat sz \<le> length d"
    and s: "sees g cur"
  shows "load_chunk name get valid install False d sz cur = (of_nat (8 + length (enc g)), g)"
proof -
  let ?r = "opera_state_reader_init d sz"
  have n: "length (enc g) = unat (of_nat (length (enc g)) :: u32)"
    using enc_len [OF g] by (simp add: unat_of_nat)
  have r: "rok ?r" "rest ?r = chunk_name name @ enc32 (of_nat (length (enc g))) @ enc g @ ts"
    using d by (simp_all add: rok_init rest_init image_def)
  from read_chunk_consumes [OF r n name_len] obtain p where
    c: "opera_state_read_chunk name ?r = (Some p, radv ?r (8 + length (enc g)))"
    and p: "rok p" "rest p = enc g" by blast
  have 1: "get p = (Some (snap g), radv p (length (enc g)))"
    using consumesD [OF get_consumes [OF g] p(1), of "[]"] p(2) by simp
  have "opera_state_reader_finished (radv p (length (enc g)))"
    using p by (simp add: finished_iff rok_radv rest_radv)
  then show ?thesis
    by (simp add: load_chunk_def c 1 snap_valid [OF g] install_snap [OF g s]
        opera_state_reader_used_def)
      (simp add: radv_def opera_state_reader_init_def)
qed

text \<open>Loading what was saved restores the state, from any buffer that starts with the image.\<close>

theorem roundtrip:
  assumes g: "okay g" and buf: "8 + length (enc g) \<le> length buf" and s: "sees g cur"
  shows "load_chunk name get valid install False
     (snd (save_chunk name (payload_sizing (put g)) (put g) buf)) (of_nat (8 + length (enc g))) cur =
     (fst (save_chunk name (payload_sizing (put g)) (put g) buf), g)"
proof -
  have u: "unat (of_nat (8 + length (enc g)) :: u32) = 8 + length (enc g)"
    using enc_len [OF g] by (intro unat_of_nat_u32) simp
  have sv: "save_chunk name (payload_sizing (put g)) (put g) buf =
    (of_nat (8 + length (enc g)), image g @ drop (8 + length (enc g)) buf)"
    using save_image [OF g buf] by (simp add: sizing [OF g])
  show ?thesis
    unfolding sv fst_conv snd_conv
    using buf by (intro load_image [OF g _ _ s, where ts = "[]"])
      (simp_all only: u, simp_all add: length_image)
qed

theorem saved_size:
  assumes "okay g" "8 + length (enc g) \<le> length buf"
  shows "fst (save_chunk name (payload_sizing (put g)) (put g) buf) =
    opera_state_chunk_size (payload_sizing (put g))"
  using save_image [OF assms] enc_len [OF assms(1)]
  by (simp add: sizing [OF assms(1)] opera_state_chunk_size_def opera_state_save_size_def
      opera_state_chunk_header_size_def)

end

end
