(* ===== verification/Opera_State_Safety.thy ===== *)
theory Opera_State_Safety
  imports Opera_State_Codec
begin

text \<open>
  Memory safety of the serializer, and the interface of its primitive fields. A writer never
  changes a byte at or beyond its size, whatever it is asked to write and whether or not it
  has failed before. A reader never looks at a byte at or beyond its size: two buffers that
  agree below the size cannot be told apart by any read.
\<close>

section \<open>Writers stay inside their buffer\<close>

definition wbounded :: "state_writer \<Rightarrow> bool" where
  "wbounded w \<longleftrightarrow> (\<forall>d. w_data w = Some d \<longrightarrow> unat (w_size w) \<le> length d)"

text \<open>Same buffer length, same size, same bytes from the size on.\<close>

definition wframe :: "state_writer \<Rightarrow> state_writer \<Rightarrow> bool" where
  "wframe w w' \<longleftrightarrow> w_size w' = w_size w \<and>
     (case w_data w of
        None \<Rightarrow> w_data w' = None
      | Some d \<Rightarrow> (\<exists>d'. w_data w' = Some d' \<and> length d' = length d \<and>
          drop (unat (w_size w)) d' = drop (unat (w_size w)) d))"

definition wsafe :: "(state_writer \<Rightarrow> 'r \<times> state_writer) \<Rightarrow> bool" where
  "wsafe op \<longleftrightarrow> (\<forall>w. wbounded w \<longrightarrow> wframe w (snd (op w)))"

lemma wframe_refl [simp]: "wframe w w"
  by (auto simp: wframe_def split: option.splits)

lemma wframe_trans: "wframe a b \<Longrightarrow> wframe b c \<Longrightarrow> wframe a c"
  by (auto simp: wframe_def split: option.splits)

lemma wframe_bounded: "wbounded w \<Longrightarrow> wframe w w' \<Longrightarrow> wbounded w'"
  by (auto simp: wframe_def wbounded_def split: option.splits)

lemma wframe_fields [simp]:
  "wframe w (w\<lparr>w_offset := o'\<rparr>)" "wframe w (w\<lparr>w_failed := f\<rparr>)"
  "wframe w (w\<lparr>w_offset := o', w_failed := f\<rparr>)" "wframe w (w\<lparr>w_failed := f, w_offset := o'\<rparr>)"
  by (auto simp: wframe_def split: option.splits)

lemma reserve_frame: "wframe w (snd (opera_state_write_reserve w n))"
  by (auto simp: opera_state_write_reserve_def Let_def opera_state_writer_fail_def)

text \<open>The pointer of a reservation has room below the writer's size.\<close>

lemma reserve_Some:
  assumes "opera_state_write_reserve w n = (Some p, w')"
  shows "w_data w' \<noteq> None \<and> unat p + unat n \<le> unat (w_size w')"
proof -
  from assms have n: "\<not> w_failed w" "\<not> UINT32_MAX - w_offset w < n" "p = w_offset w"
    and w': "w' = w\<lparr>w_offset := w_offset w + n\<rparr>"
    and d: "w_data w \<noteq> None" "\<not> w_size w < w_offset w + n"
    by (auto simp: opera_state_write_reserve_def Let_def split: if_splits)
  have "unat (w_offset w) + unat n < 4294967296"
    using n(2) unat_u32_lt [of "w_offset w"]
    by (simp add: word_less_nat_alt unat_sub word_le_nat_alt)
  then have "unat (w_offset w + n) = unat (w_offset w) + unat n"
    by (intro unat_add_nowrap) simp
  with n d w' show ?thesis by (simp add: word_less_nat_alt)
qed

lemma store_at_frame:
  assumes "wbounded w" "unat p + length bs \<le> unat (w_size w)"
  shows "wframe w (store_at w p bs)"
proof (cases "w_data w")
  case None
  then show ?thesis by (simp add: wframe_def store_at_def)
next
  case (Some d)
  then have le: "unat (w_size w) \<le> length d" using assms(1) by (simp add: wbounded_def)
  with assms(2) have "store_bytes d (unat p) bs = take (unat p) d @ bs @ drop (unat p + length bs) d"
    by (intro store_bytes_conv) simp
  then have "drop (unat (w_size w)) (store_bytes d (unat p) bs) = drop (unat (w_size w)) d"
    using assms(2) le by auto
  with Some show ?thesis by (simp add: wframe_def store_at_def)
qed

text \<open>Reserving and then filling at most the reserved room is safe.\<close>

lemma reserve_store_frame:
  assumes "wbounded w" "opera_state_write_reserve w n = (Some p, w')" "length bs \<le> unat n"
  shows "wframe w (store_at w' p bs)"
proof -
  have 1: "wframe w w'" using reserve_frame [of w n] assms(2) by simp
  moreover have "wframe w' (store_at w' p bs)"
    using reserve_Some [OF assms(2)] assms(3) wframe_bounded [OF assms(1) 1]
    by (intro store_at_frame) auto
  ultimately show ?thesis by (rule wframe_trans)
qed

lemma reserve_frame_eq: "opera_state_write_reserve w n = (p, w') \<Longrightarrow> wframe w w'"
  using reserve_frame [of w n] by simp

lemma wframe_fail: "wframe w w' \<Longrightarrow> wframe w (opera_state_writer_fail w')"
  by (auto simp: wframe_def opera_state_writer_fail_def split: option.splits)

lemma write_fixed_safe: "length bs < 4294967296 \<Longrightarrow> wsafe (write_fixed bs)"
  by (auto simp: wsafe_def write_fixed_def Let_def unat_of_nat
      split: prod.splits option.splits intro: reserve_frame_eq elim!: reserve_store_frame)

lemma write_bytes_safe: "wsafe (opera_state_write_bytes src n)"
  by (auto simp: wsafe_def opera_state_write_bytes_def Let_def
      split: prod.splits option.splits
      intro: reserve_frame_eq wframe_fail elim!: reserve_store_frame)

lemma write_array_safe: "wsafe (opera_state_write_array src c es)"
  by (auto simp: wsafe_def opera_state_write_array_def Let_def
      split: prod.splits option.splits
      intro: reserve_frame_eq wframe_fail elim!: reserve_store_frame)

lemma w_and_safe: "wsafe f \<Longrightarrow> wsafe g \<Longrightarrow> wsafe (w_and f g)"
  unfolding wsafe_def w_and_def Let_def
  by (auto split: prod.splits) (metis snd_conv wframe_bounded wframe_trans)+

section \<open>Readers stay inside their buffer\<close>

definition rbounded :: "state_reader \<Rightarrow> bool" where
  "rbounded r \<longleftrightarrow> r_offset r \<le> r_size r \<and> unat (r_size r) \<le> length (r_data r)"

definition agree :: "state_reader \<Rightarrow> state_reader \<Rightarrow> bool" where
  "agree r r' \<longleftrightarrow> rbounded r \<and> rbounded r' \<and> r_size r' = r_size r \<and> r_offset r' = r_offset r \<and>
     r_failed r' = r_failed r \<and> take (unat (r_size r)) (r_data r') = take (unat (r_size r)) (r_data r)"

definition rlocal :: "(state_reader \<Rightarrow> 'a option \<times> state_reader) \<Rightarrow> bool" where
  "rlocal m \<longleftrightarrow> (\<forall>r r'. agree r r' \<longrightarrow>
     fst (m r') = fst (m r) \<and> agree (snd (m r)) (snd (m r')))"

lemma rlocalD:
  "rlocal m \<Longrightarrow> agree r r' \<Longrightarrow> fst (m r') = fst (m r) \<and> agree (snd (m r)) (snd (m r'))"
  by (simp add: rlocal_def)

lemma agree_bytes:
  assumes "agree r r'" "unat (r_offset r) + n \<le> unat (r_size r)"
  shows "bytes_at r' n = bytes_at r n"
proof -
  have "take (unat (r_offset r) + n) (take (unat (r_size r)) (r_data r')) =
        take (unat (r_offset r) + n) (take (unat (r_size r)) (r_data r))"
    using assms(1) by (simp add: agree_def)
  then have "take (unat (r_offset r) + n) (r_data r') = take (unat (r_offset r) + n) (r_data r)"
    using assms(2) by (simp add: min_def split: if_splits)
  then have "drop (unat (r_offset r)) (take (unat (r_offset r) + n) (r_data r')) =
      drop (unat (r_offset r)) (take (unat (r_offset r) + n) (r_data r))"
    by simp
  then show ?thesis using assms(1) by (simp add: bytes_at_def drop_take agree_def)
qed

lemma agree_nth:
  assumes "agree r r'" "unat (r_offset r) + i < unat (r_size r)"
  shows "drop (unat (r_offset r)) (r_data r') ! i = drop (unat (r_offset r)) (r_data r) ! i"
proof -
  let ?k = "unat (r_offset r) + i"
  have "take (unat (r_size r)) (r_data r') ! ?k = take (unat (r_size r)) (r_data r) ! ?k"
    using assms(1) by (simp add: agree_def)
  then have "r_data r' ! ?k = r_data r ! ?k" using assms(2) by simp
  then show ?thesis using assms by (auto simp: agree_def rbounded_def)
qed

lemma remaining_bounded:
  "rbounded r \<Longrightarrow> unat (opera_state_reader_remaining r) = unat (r_size r) - unat (r_offset r)"
  by (auto simp: opera_state_reader_remaining_def rbounded_def unat_sub word_le_nat_alt word_less_nat_alt)

lemma not_less_remaining:
  assumes "rbounded r" "\<not> opera_state_reader_remaining r < n"
  shows "unat (r_offset r) + unat n \<le> unat (r_size r)"
  using assms remaining_bounded [of r]
  by (auto simp: rbounded_def word_less_nat_alt word_le_nat_alt)

lemma agree_remaining: "agree r r' \<Longrightarrow> opera_state_reader_remaining r' = opera_state_reader_remaining r"
  by (simp add: agree_def opera_state_reader_remaining_def)

lemma agree_failed: "agree r r' \<Longrightarrow> r_failed r' = r_failed r"
  by (simp add: agree_def)

lemma agree_fail: "agree r r' \<Longrightarrow> agree (opera_state_reader_fail r) (opera_state_reader_fail r')"
  by (auto simp: agree_def rbounded_def opera_state_reader_fail_def)

lemma agree_rbounded: "agree r r' \<Longrightarrow> rbounded r"
  by (simp add: agree_def)

lemma agree_step:
  assumes "agree r r'" "unat (r_offset r) + unat n \<le> unat (r_size r)"
  shows "agree (r\<lparr>r_offset := r_offset r + n\<rparr>) (r'\<lparr>r_offset := r_offset r' + n\<rparr>)"
proof -
  have "unat (r_offset r + n) = unat (r_offset r) + unat n"
    using assms(2) unat_u32_lt [of "r_size r"] by (intro unat_add_nowrap) simp
  with assms show ?thesis by (auto simp: agree_def rbounded_def word_le_nat_alt)
qed

lemma read_bytes_local: "rlocal (opera_state_read_bytes n)"
  unfolding rlocal_def
proof (intro allI impI)
  fix r r' assume a: "agree r r'"
  show "fst (opera_state_read_bytes n r') = fst (opera_state_read_bytes n r) \<and>
    agree (snd (opera_state_read_bytes n r)) (snd (opera_state_read_bytes n r'))"
  proof (cases "r_failed r \<or> opera_state_reader_remaining r < n")
    case True
    with a show ?thesis
      by (auto simp: opera_state_read_bytes_def agree_remaining agree_failed agree_fail)
  next
    case False
    then have "unat (r_offset r) + unat n \<le> unat (r_size r)"
      using not_less_remaining [OF agree_rbounded [OF a]] by simp
    with False a show ?thesis
      by (simp add: opera_state_read_bytes_def agree_remaining agree_failed agree_step agree_bytes)
  qed
qed

lemma read_array_local: "rlocal (opera_state_read_array c es)"
  unfolding rlocal_def
proof (intro allI impI)
  fix r r' assume a: "agree r r'"
  show "fst (opera_state_read_array c es r') = fst (opera_state_read_array c es r) \<and>
    agree (snd (opera_state_read_array c es r)) (snd (opera_state_read_array c es r'))"
  proof (cases "r_failed r \<or> UINT32_MAX div es < c \<or> opera_state_reader_remaining r < c * es")
    case True
    with a show ?thesis
      by (simp add: opera_state_read_array_def agree_remaining agree_failed agree_fail)
  next
    case False
    then have "unat (r_offset r) + unat (c * es) \<le> unat (r_size r)"
      using not_less_remaining [OF agree_rbounded [OF a]] by simp
    with False a show ?thesis
      by (simp add: opera_state_read_array_def agree_remaining agree_failed agree_step agree_bytes)
  qed
qed

lemma rlocal_map:
  assumes "rlocal m" shows "rlocal (\<lambda>r. let (d, r') = m r in (map_option f d, r'))"
  using assms by (simp add: rlocal_def Let_def case_prod_unfold)

text \<open>The fixed-width reads inspect \<open>k\<close> bytes at the offset.\<close>

lemma read_fixed_local:
  assumes op: "\<And>r. m r = (if r_failed r \<or> opera_state_reader_remaining r < k
      then (None, opera_state_reader_fail r)
      else (Some (f (drop (unat (r_offset r)) (r_data r))), r\<lparr>r_offset := r_offset r + k\<rparr>))"
    and f: "\<And>a b. (\<And>i. i < unat k \<Longrightarrow> a ! i = b ! i) \<Longrightarrow> f a = f b"
  shows "rlocal m"
  unfolding rlocal_def
proof (intro allI impI)
  fix r r' assume a: "agree r r'"
  show "fst (m r') = fst (m r) \<and> agree (snd (m r)) (snd (m r'))"
  proof (cases "r_failed r \<or> opera_state_reader_remaining r < k")
    case True
    with a show ?thesis by (simp add: op agree_remaining agree_failed agree_fail)
  next
    case False
    then have le: "unat (r_offset r) + unat k \<le> unat (r_size r)"
      using not_less_remaining [OF agree_rbounded [OF a]] by simp
    have "f (drop (unat (r_offset r)) (r_data r')) = f (drop (unat (r_offset r)) (r_data r))"
      using le by (intro f agree_nth [OF a]) simp
    moreover have "r_offset r' = r_offset r" using a by (simp add: agree_def)
    ultimately show ?thesis
      using False a le agree_step [OF a le] by (simp add: op agree_remaining agree_failed)
  qed
qed

lemma read_u8_local: "rlocal opera_state_read_u8"
proof -
  have "opera_state_read_u8 r = (if r_failed r \<or> opera_state_reader_remaining r < 1
      then (None, opera_state_reader_fail r)
      else (Some (r_data r ! unat (r_offset r)), r\<lparr>r_offset := r_offset r + 1\<rparr>))" for r
    by (simp add: opera_state_read_u8_def)
  show ?thesis
    unfolding rlocal_def
  proof (intro allI impI)
    fix r r' assume a: "agree r r'"
    have o: "r_offset r' = r_offset r" using a by (simp add: agree_def)
    show "fst (opera_state_read_u8 r') = fst (opera_state_read_u8 r) \<and>
        agree (snd (opera_state_read_u8 r)) (snd (opera_state_read_u8 r'))"
    proof (cases "r_failed r \<or> opera_state_reader_remaining r < 1")
      case True
      with a show ?thesis
        by (simp add: opera_state_read_u8_def agree_remaining agree_failed agree_fail)
    next
      case False
      then have le: "unat (r_offset r) + unat (1 :: u32) \<le> unat (r_size r)"
        by (intro not_less_remaining [OF agree_rbounded [OF a]]) simp
      then have "unat (r_offset r) < length (r_data r)" "unat (r_offset r) < length (r_data r')"
        using a by (auto simp: agree_def rbounded_def)
      then have "r_data r' ! unat (r_offset r) = r_data r ! unat (r_offset r)"
        using agree_nth [OF a, of 0] le by simp
      with False a o show ?thesis
        using agree_step [OF a le]
        by (simp add: opera_state_read_u8_def agree_remaining agree_failed)
    qed
  qed
qed

lemma read_u16_local: "rlocal opera_state_read_u16"
  by (rule read_fixed_local [where k = 2 and f = "\<lambda>s. le2 (s ! 0) (s ! 1)"])
    (simp_all add: opera_state_read_u16_def Let_def)

lemma read_u32_local: "rlocal opera_state_read_u32"
  by (rule read_fixed_local [where k = 4 and f = "\<lambda>s. le4 (s ! 0) (s ! 1) (s ! 2) (s ! 3)"])
    (simp_all add: opera_state_read_u32_def Let_def)

lemma read_u64_local: "rlocal opera_state_read_u64"
  unfolding opera_state_read_u64_def by (rule rlocal_map [OF read_bytes_local])

lemma read_i32_local: "rlocal opera_state_read_i32"
  using read_u32_local by (simp add: rlocal_def opera_state_read_i32_def)

lemma read_u32_array_local: "rlocal (opera_state_read_u32_array n)"
  unfolding opera_state_read_u32_array_def by (rule rlocal_map [OF read_array_local])

lemma rlocal_return: "rlocal (r_return a)"
  by (simp add: rlocal_def r_return_def)

lemma rlocal_bind:
  assumes m: "rlocal m" and f: "\<And>a. rlocal (f a)"
  shows "rlocal (r_bind m f)"
  unfolding rlocal_def
proof (intro allI impI)
  fix r r' assume a: "agree r r'"
  obtain v s where 1: "m r = (v, s)" by (cases "m r")
  obtain v' s' where 2: "m r' = (v', s')" by (cases "m r'")
  have v: "v' = v" "agree s s'" using rlocalD [OF m a] 1 2 by simp_all
  show "fst (r_bind m f r') = fst (r_bind m f r) \<and> agree (snd (r_bind m f r)) (snd (r_bind m f r'))"
    using v f by (cases v) (auto simp: r_bind_def 1 2 rlocal_def)
qed

lemmas reader_local = rlocal_bind rlocal_return read_u8_local read_u16_local read_u32_local
  read_u64_local read_i32_local read_u32_array_local read_bytes_local

lemma agree_payload:
  assumes a: "agree r r'" and n: "\<not> opera_state_reader_remaining r < n"
  shows "agree (opera_state_reader_init (drop (unat (r_offset r)) (r_data r)) n)
    (opera_state_reader_init (drop (unat (r_offset r')) (r_data r')) n)"
proof -
  have le: "unat (r_offset r) + unat n \<le> unat (r_size r)"
    using not_less_remaining [OF agree_rbounded [OF a] n] .
  moreover have "r_offset r' = r_offset r" "unat (r_size r) \<le> length (r_data r)"
    "unat (r_size r) \<le> length (r_data r')"
    using a by (auto simp: agree_def rbounded_def)
  moreover have "take (unat n) (drop (unat (r_offset r)) (r_data r')) =
      take (unat n) (drop (unat (r_offset r)) (r_data r))"
    using agree_bytes [OF a le] \<open>r_offset r' = r_offset r\<close> by (simp add: bytes_at_def)
  ultimately show ?thesis
    by (auto simp: agree_def rbounded_def opera_state_reader_init_def)
qed

lemma read_chunk_agree:
  assumes a: "agree r r'"
  shows "case fst (opera_state_read_chunk nm r) of
      None \<Rightarrow> fst (opera_state_read_chunk nm r') = None
    | Some p \<Rightarrow> (\<exists>p'. fst (opera_state_read_chunk nm r') = Some p' \<and> agree p p')"
    and "r_offset (snd (opera_state_read_chunk nm r')) = r_offset (snd (opera_state_read_chunk nm r))"
proof -
  obtain v s where 1: "opera_state_read_bytes 4 r = (v, s)" by (cases "opera_state_read_bytes 4 r")
  obtain v' s' where m1: "opera_state_read_bytes 4 r' = (v', s')" by (cases "opera_state_read_bytes 4 r'")
  have v: "v' = v" "agree s s'"
    using rlocalD [OF read_bytes_local a] 1 m1 by (metis fst_conv, metis snd_conv)
  obtain n t where 2: "opera_state_read_u32 s = (n, t)" by (cases "opera_state_read_u32 s")
  obtain n' t' where m2: "opera_state_read_u32 s' = (n', t')" by (cases "opera_state_read_u32 s'")
  have n: "n' = n" "agree t t'"
    using rlocalD [OF read_u32_local v(2)] 2 m2 by simp_all
  note eqs = opera_state_read_chunk_def 1 m1 2 m2 v(1) n(1) Let_def
  have off: "r_offset s' = r_offset s" "r_offset t' = r_offset t"
    using v(2) n(2) by (simp_all add: agree_def)
  show "case fst (opera_state_read_chunk nm r) of
      None \<Rightarrow> fst (opera_state_read_chunk nm r') = None
    | Some p \<Rightarrow> (\<exists>p'. fst (opera_state_read_chunk nm r') = Some p' \<and> agree p p')"
    by (auto simp: eqs agree_remaining [OF n(2)] intro: agree_payload [OF n(2)]
        split: option.splits)
  show "r_offset (snd (opera_state_read_chunk nm r')) = r_offset (snd (opera_state_read_chunk nm r))"
    by (auto simp: eqs agree_remaining [OF n(2)] off opera_state_reader_fail_def split: option.splits)
qed

lemma load_chunk_local:
  assumes get: "rlocal get"
    and d: "unat sz \<le> length d" "unat sz \<le> length d'" "take (unat sz) d = take (unat sz) d'"
  shows "load_chunk nm get valid install v d' sz cur = load_chunk nm get valid install v d sz cur"
proof -
  let ?r = "opera_state_reader_init d sz" and ?r' = "opera_state_reader_init d' sz"
  have a: "agree ?r ?r'"
    using d by (simp add: agree_def rbounded_def opera_state_reader_init_def)
  obtain p q where 1: "opera_state_read_chunk nm ?r = (p, q)" by (cases "opera_state_read_chunk nm ?r")
  obtain p' q' where 2: "opera_state_read_chunk nm ?r' = (p', q')" by (cases "opera_state_read_chunk nm ?r'")
  note ra = read_chunk_agree [OF a, of nm]
  have u: "opera_state_reader_used q' = opera_state_reader_used q"
    using ra(2) 1 2 by (simp add: opera_state_reader_used_def)
  show ?thesis
  proof (cases p)
    case None
    then show ?thesis using ra(1) 1 2 by (simp add: load_chunk_def)
  next
    case (Some x)
    then obtain x' where x': "p' = Some x'" "agree x x'" using ra(1) 1 2 by auto
    then have g: "fst (get x') = fst (get x)" "agree (snd (get x)) (snd (get x'))"
      using get by (auto simp: rlocal_def)
    then have "opera_state_reader_finished (snd (get x')) = opera_state_reader_finished (snd (get x))"
      by (simp add: opera_state_reader_finished_def agree_def)
    with Some x' g show ?thesis
      by (simp add: load_chunk_def 1 2 u Let_def case_prod_unfold split: option.splits)
  qed
qed

section \<open>The primitive fields\<close>

locale state_field =
  fixes put :: "'a \<Rightarrow> state_writer \<Rightarrow> bool \<times> state_writer"
    and get :: "state_reader \<Rightarrow> 'a option \<times> state_reader"
    and enc :: "'a \<Rightarrow> u8 list"
    and fits :: "'a \<Rightarrow> bool"
  assumes put_emits: "fits v \<Longrightarrow> emits (put v) (enc v)"
    and get_consumes: "fits v \<Longrightarrow> consumes get v (enc v)"
    and get_local: "rlocal get"
begin

text \<open>What the field's writer stored in a buffer, its reader reads back from that place.\<close>

lemma field_roundtrip:
  assumes v: "fits v" and w: "wok w" "w_data w = Some d" "wspace w (length (enc v))"
  shows "fst (put v w)"
    and "get \<lparr>r_data = the (w_data (snd (put v w))), r_size = w_size w,
              r_offset = w_offset w, r_failed = False\<rparr> =
         (Some v, \<lparr>r_data = the (w_data (snd (put v w))), r_size = w_size w,
              r_offset = w_offset (snd (put v w)), r_failed = False\<rparr>)"
proof -
  let ?k = "unat (w_offset w)" and ?n = "length (enc v)"
  have p: "put v w = (True, wput w (enc v))" by (rule emitsD [OF put_emits [OF v] w(1,3)])
  then show "fst (put v w)" by simp
  have le: "?k + ?n \<le> unat (w_size w)" "unat (w_size w) \<le> length d"
    using w by (auto simp: wspace_def wok_def)
  let ?d = "store_bytes d ?k (enc v)"
  let ?r = "\<lparr>r_data = ?d, r_size = w_size w, r_offset = w_offset w, r_failed = False\<rparr>"
  have r: "rok ?r" using le by (simp add: rok_def word_le_nat_alt)
  have "rest ?r = enc v @ take (unat (w_size w) - ?k - ?n) (drop (?k + ?n) d)"
    using le by (simp add: rest_alt store_bytes_conv)
  from consumesD [OF get_consumes [OF v] r this]
  have "get ?r = (Some v, radv ?r ?n)" .
  then show "get \<lparr>r_data = the (w_data (snd (put v w))), r_size = w_size w,
              r_offset = w_offset w, r_failed = False\<rparr> =
         (Some v, \<lparr>r_data = the (w_data (snd (put v w))), r_size = w_size w,
              r_offset = w_offset (snd (put v w)), r_failed = False\<rparr>)"
    by (simp add: p w(2) radv_def wput_def)
qed

end

interpretation f8: state_field opera_state_write_u8 opera_state_read_u8 "\<lambda>v. [v]" "\<lambda>_. True"
  by unfold_locales (simp_all add: state_codec read_u8_local)

interpretation f16: state_field opera_state_write_u16 opera_state_read_u16 enc16 "\<lambda>_. True"
  by unfold_locales (simp_all add: state_codec read_u16_local)

interpretation f32: state_field opera_state_write_u32 opera_state_read_u32 enc32 "\<lambda>_. True"
  by unfold_locales (simp_all add: state_codec read_u32_local)

interpretation f64: state_field opera_state_write_u64 opera_state_read_u64 enc64 "\<lambda>_. True"
  by unfold_locales (simp_all add: state_codec read_u64_local)

interpretation fi32: state_field opera_state_write_i32 opera_state_read_i32 enc32 "\<lambda>_. True"
  by unfold_locales (simp_all add: state_codec read_i32_local)

interpretation fa32: state_field "\<lambda>xs. opera_state_write_u32_array xs n"
  "opera_state_read_u32_array n" image32 "\<lambda>xs. length xs = unat n \<and> length xs < 1073741824" for n
  by unfold_locales (simp_all add: emits_u32_array consumes_u32_array read_u32_array_local)

end
