(* ===== verification/Opera_State_Props.thy ===== *)
theory Opera_State_Props
  imports Opera_State_Safety
begin

text \<open>
  The properties of the serializer itself: fields read back what was written, writers and
  readers stay inside the buffer they were given, a sizing pass predicts the real one, and
  the legacy copies and the version probe agree with the chunk format.
\<close>

text \<open>A field that is written and read back in place.\<close>

definition field_ok ::
  "('a \<Rightarrow> state_writer \<Rightarrow> bool \<times> state_writer) \<Rightarrow> (state_reader \<Rightarrow> 'a option \<times> state_reader) \<Rightarrow>
   'a \<Rightarrow> state_writer \<Rightarrow> bool" where
  "field_ok put get v w \<longleftrightarrow>
     (let (ok, w') = put v w;
          rd = (\<lambda>pos. \<lparr>r_data = the (w_data w'), r_size = w_size w, r_offset = pos, r_failed = False\<rparr>)
      in ok \<and> get (rd (w_offset w)) = (Some v, rd (w_offset w')))"

text \<open>Every fixed-width field round-trips through a buffer: on a healthy writer with room for
  it, the write succeeds, and a reader placed at the writer's old offset reads the same value
  back and ends at the writer's new offset.\<close>

theorem state_fields_roundtrip:
  assumes "wok w" "w_data w \<noteq> None" "wspace w 8"
  shows "field_ok opera_state_write_u8 opera_state_read_u8 a w \<and>
    field_ok opera_state_write_u16 opera_state_read_u16 b w \<and>
    field_ok opera_state_write_u32 opera_state_read_u32 c w \<and>
    field_ok opera_state_write_i32 opera_state_read_i32 c w \<and>
    field_ok opera_state_write_u64 opera_state_read_u64 d w"
proof -
  obtain buf where buf: "w_data w = Some buf" using assms(2) by auto
  have sp: "wspace w n" if "n \<le> 8" for n using assms(3) that by (auto simp: wspace_def)
  show ?thesis
    using f8.field_roundtrip [OF _ assms(1) buf, of a] f16.field_roundtrip [OF _ assms(1) buf, of b]
      f32.field_roundtrip [OF _ assms(1) buf, of c] fi32.field_roundtrip [OF _ assms(1) buf, of c]
      f64.field_roundtrip [OF _ assms(1) buf, of d] sp
    by (simp add: field_ok_def Let_def case_prod_unfold)
qed

theorem state_fields_roundtrip_witness:
  "field_ok opera_state_write_u32 opera_state_read_u32 0xDEADBEEF
     (opera_state_writer_init (Some (replicate 16 0)) 16)"
proof -
  have "wok (opera_state_writer_init (Some (replicate 16 0)) 16)"
    "w_data (opera_state_writer_init (Some (replicate 16 0)) 16) \<noteq> None"
    "wspace (opera_state_writer_init (Some (replicate 16 0)) 16) 8"
    by (simp_all add: wok_def wspace_def opera_state_writer_init_def)
  then show ?thesis using state_fields_roundtrip by blast
qed

text \<open>C39. Writers never write outside their buffer, even on exhausted or failed writers and whatever
  sizes they are given: no call changes the size of the buffer, any byte at or past the
  writer's declared size, or the declared size itself.\<close>

theorem state_writer_in_bounds:
  "wsafe (opera_state_write_bytes src n) \<and> wsafe (opera_state_write_array src count es) \<and>
   wsafe (opera_state_write_u8 a) \<and> wsafe (opera_state_write_u16 b) \<and>
   wsafe (opera_state_write_u32 c) \<and> wsafe (opera_state_write_u64 d) \<and>
   wsafe (opera_state_write_chunk_header name n)"
proof -
  have 8: "wsafe (opera_state_write_u8 a)" "wsafe (opera_state_write_u16 b)"
    and 32: "wsafe (opera_state_write_u32 v)" for v
    by (simp_all add: opera_state_write_u8_def opera_state_write_u16_def opera_state_write_u32_def
        write_fixed_safe)
  show ?thesis
    by (simp add: write_bytes_safe write_array_safe 8 32 opera_state_write_u64_def
        opera_state_write_chunk_header_def w_and_safe)
qed

text \<open>C40. Readers never look outside their buffer: what any read returns, and the reader it leaves,
  depend only on the bytes below the declared size; the same holds for entering a chunk.\<close>

theorem state_reader_in_bounds:
  "rlocal (opera_state_read_bytes n) \<and> rlocal (opera_state_read_array count es) \<and>
   rlocal opera_state_read_u8 \<and> rlocal opera_state_read_u16 \<and> rlocal opera_state_read_u32 \<and>
   rlocal opera_state_read_u64 \<and>
   (\<forall>r r'. agree r r' \<longrightarrow>
      (fst (opera_state_read_chunk name r) = None \<longleftrightarrow> fst (opera_state_read_chunk name r') = None) \<and>
      (\<forall>p p'. fst (opera_state_read_chunk name r) = Some p \<longrightarrow>
         fst (opera_state_read_chunk name r') = Some p' \<longrightarrow> agree p p'))"
proof -
  have "(fst (opera_state_read_chunk name r) = None \<longleftrightarrow> fst (opera_state_read_chunk name r') = None) \<and>
      (\<forall>p p'. fst (opera_state_read_chunk name r) = Some p \<longrightarrow>
         fst (opera_state_read_chunk name r') = Some p' \<longrightarrow> agree p p')" if "agree r r'" for r r'
    using read_chunk_agree(1) [OF that, of name] by (auto split: option.splits)
  then show ?thesis
    by (simp add: read_bytes_local read_array_local read_u8_local read_u16_local read_u32_local
        read_u64_local)
qed

theorem state_reader_in_bounds_witness:
  "(fst (opera_state_read_chunk ''ARM'' (opera_state_reader_init [1, 2, 3] 2)) = None) =
   (fst (opera_state_read_chunk ''ARM'' (opera_state_reader_init [1, 2, 9] 2)) = None)"
proof -
  have "agree (opera_state_reader_init [1, 2, 3] 2) (opera_state_reader_init [1, 2, 9] 2)"
    by (simp add: agree_def rbounded_def opera_state_reader_init_def)
  then show ?thesis using state_reader_in_bounds by blast
qed

text \<open>The legacy format.\<close>

lemma take_append_exact: "length a = n \<Longrightarrow> take n (a @ b) = a" "length a = n \<Longrightarrow> drop n (a @ b) = b"
  by auto

lemma save_legacy:
  assumes "3 \<le> length name" "unat n \<le> length src" "8 + unat n \<le> length dst"
  shows "opera_state_save dst name src n = (opera_state_save_size n,
    chunk_name name @ enc32 n @ take (unat n) src @ drop (8 + unat n) dst)"
proof -
  note l = length_chunk_name [OF assms(1)]
  have "store_bytes (store_bytes (store_bytes dst 0 (chunk_name name)) 4 (enc32 n)) 8 (take (unat n) src) =
      store_bytes dst 0 (chunk_name name @ enc32 n @ take (unat n) src)"
    using l by (simp add: store_bytes_append)
  also have "\<dots> = chunk_name name @ enc32 n @ take (unat n) src @ drop (8 + unat n) dst"
    using assms l by (simp add: store_bytes_conv min_def)
  finally show ?thesis by (simp add: opera_state_save_def enc32_def)
qed

text \<open>A chunk saved with the legacy copy is accepted by both loaders, the unchecked one and the
  size-checked one, which copy the same bytes back and report the same consumed size, and the
  probe \<open>opera_state_get_chunk_data_size\<close> finds the payload size.\<close>

theorem state_legacy_roundtrip:
  assumes nm: "3 \<le> length name" and n: "unat n = length src" "unat n < 4294967288"
    and dst: "unat (opera_state_save_size n) = length dst" and old: "length old = length src"
  shows "let saved = snd (opera_state_save dst name src n); sz = opera_state_save_size n in
     fst (opera_state_save dst name src n) = sz \<and>
     opera_state_load old name saved n = (sz, src) \<and>
     opera_state_load_sized old name (Some saved) sz n = (sz, src) \<and>
     opera_state_get_chunk_data_size (Some saved) sz name = (sz, n)"
proof -
  let ?sz = "opera_state_save_size n"
  note l = length_chunk_name [OF nm]
  have usz: "unat ?sz = 8 + unat n"
    using n(2) by (simp add: opera_state_save_size_def opera_state_chunk_header_size_def unat_word_ariths)
  then have ld: "length dst = 8 + unat n" using dst by simp
  have s: "opera_state_save dst name src n = (?sz, chunk_name name @ enc32 n @ src)"
    using save_legacy [OF nm, of n src dst] n(1) ld by simp
  let ?im = "chunk_name name @ enc32 n @ src"
  have le: "le4 (?im ! 4) (?im ! 5) (?im ! 6) (?im ! 7) = n"
    using l by (simp add: nth_append enc32_def)
  have dr: "drop 8 ?im = src" using l by simp
  have o1: "store_bytes old 0 src = src" using old by (simp add: store_bytes_conv)
  have 1: "opera_state_load old name ?im n = (?sz, src)"
    using l le dr o1 n(1) by (simp add: opera_state_load_def)
  have r: "rok (opera_state_reader_init ?im ?sz)" using usz l n(1) by (intro rok_init) simp
  have rs: "rest (opera_state_reader_init ?im ?sz) = chunk_name name @ enc32 n @ src @ []"
    using usz l n(1) by (simp add: rest_init)
  obtain p where c: "opera_state_read_chunk name (opera_state_reader_init ?im ?sz) =
      (Some p, radv (opera_state_reader_init ?im ?sz) (8 + length src))"
    and p: "rok p" "rest p = src" "r_offset p = 0"
    using read_chunk_consumes [OF r rs _ nm] n(1) by auto
  have "unat (r_size p) = length src" using p by (auto simp: rest_def rok_def)
  then have "r_size p = n" using n(1) by (simp add: word_unat_eq_iff)
  then have 2: "opera_state_get_chunk_data_size (Some ?im) ?sz name = (?sz, n)"
    by (simp add: opera_state_get_chunk_data_size_def c)
  have "?sz \<noteq> 0" using usz by auto
  then have 3: "opera_state_load_sized old name (Some ?im) ?sz n = (?sz, src)"
    using dr o1 n(1) by (simp add: opera_state_load_sized_def 2 opera_state_chunk_header_size_def)
  show ?thesis using s 1 2 3 by (simp add: Let_def)
qed

theorem state_legacy_roundtrip_witness:
  "opera_state_load [0, 0] ''ARM'' (snd (opera_state_save (replicate 10 0) ''ARM'' [7, 9] 2)) 2 = (10, [7, 9])"
  using state_legacy_roundtrip [of "''ARM''" 2 "[7, 9]" "replicate 10 0" "[0, 0]"]
  by (simp add: Let_def opera_state_save_size_def opera_state_chunk_header_size_def)

end
