(* ===== verification/Opera_Mem.thy ===== *)
theory Opera_Mem
  imports Opera_State_Safety
begin

text \<open>
  The console's memory, \<open>src/libopera/opera_mem.h\<close> and \<open>src/libopera/opera_mem.c\<close>: the
  memory configurations, allocation and layout, the big-endian accessors on a little-endian
  host with the mirrored high-resolution planes of VRAM, the ROM images, and the saved state
  in its three formats. The globals of the C file are the fields of the record \<open>memory\<close>;
  a buffer is \<open>None\<close> while its pointer is \<open>NULL\<close>, \<open>VRAM\<close> is the offset of the
  pointer \<open>&DRAM[DRAM_SIZE]\<close> inside the allocation.
\<close>

section \<open>Sizes and configurations\<close>

abbreviation (input) ONE_KB :: u32 where "ONE_KB \<equiv> 0x400"
abbreviation (input) ONE_MB :: u32 where "ONE_MB \<equiv> 0x100000"
abbreviation (input) MAX_VRAM_SIZE :: u32 where "MAX_VRAM_SIZE \<equiv> ONE_MB * 2"
abbreviation (input) MAX_RAM_SIZE :: u32 where "MAX_RAM_SIZE \<equiv> ONE_MB * 16"
abbreviation (input) MAX_HIRES_VRAM_SIZE :: u32 where "MAX_HIRES_VRAM_SIZE \<equiv> MAX_VRAM_SIZE * 4"
abbreviation (input) MAX_HIRES_RAM_SIZE :: u32 where
  "MAX_HIRES_RAM_SIZE \<equiv> (MAX_RAM_SIZE - MAX_VRAM_SIZE) + MAX_HIRES_VRAM_SIZE"
abbreviation (input) NVRAM_SIZE :: u32 where "NVRAM_SIZE \<equiv> ONE_KB * 32"
abbreviation (input) ROM1_SIZE :: u32 where "ROM1_SIZE \<equiv> ONE_MB"
abbreviation (input) ROM2_SIZE :: u32 where "ROM2_SIZE \<equiv> ONE_MB"

text \<open>The enumeration's values; a configuration is any word, since the loaders cast a byte.\<close>

type_synonym mem_cfg = u32

abbreviation (input) DRAM_VRAM_UNSET :: mem_cfg where "DRAM_VRAM_UNSET \<equiv> 0x00"
abbreviation (input) DRAM_VRAM_STOCK :: mem_cfg where "DRAM_VRAM_STOCK \<equiv> 0x21"
abbreviation (input) DRAM_2MB_VRAM_1MB :: mem_cfg where "DRAM_2MB_VRAM_1MB \<equiv> 0x21"
abbreviation (input) DRAM_2MB_VRAM_2MB :: mem_cfg where "DRAM_2MB_VRAM_2MB \<equiv> 0x22"
abbreviation (input) DRAM_4MB_VRAM_1MB :: mem_cfg where "DRAM_4MB_VRAM_1MB \<equiv> 0x41"
abbreviation (input) DRAM_4MB_VRAM_2MB :: mem_cfg where "DRAM_4MB_VRAM_2MB \<equiv> 0x42"
abbreviation (input) DRAM_8MB_VRAM_1MB :: mem_cfg where "DRAM_8MB_VRAM_1MB \<equiv> 0x81"
abbreviation (input) DRAM_8MB_VRAM_2MB :: mem_cfg where "DRAM_8MB_VRAM_2MB \<equiv> 0x82"
abbreviation (input) DRAM_14MB_VRAM_2MB :: mem_cfg where "DRAM_14MB_VRAM_2MB \<equiv> 0xE2"
abbreviation (input) DRAM_15MB_VRAM_1MB :: mem_cfg where "DRAM_15MB_VRAM_1MB \<equiv> 0xF1"

datatype rom_ptr = PTR_ROM1 | PTR_ROM2 | PTR_OTHER

record memory =
  RAM_SIZE :: u32
  HIRES_RAM_SIZE :: u32
  HIRESMODE :: bool
  DRAM :: "mem option"
  DRAM_SIZE :: u32
  VRAM :: "u32 option"
  VRAM_SIZE :: u32
  VRAM_SIZE_MASK :: u32
  HIRES_VRAM_SIZE :: u32
  NVRAM :: "mem option"
  ROM :: "rom_ptr option"
  ROM1 :: "mem option"
  ROM2 :: "mem option"
  g_MEM_CFG :: mem_cfg

text \<open>The globals as the program starts.\<close>

definition mem_globals :: memory where
  "mem_globals = \<lparr>RAM_SIZE = ONE_MB * 2 + ONE_MB, HIRES_RAM_SIZE = ONE_MB * 2 + ONE_MB * 4,
     HIRESMODE = False, DRAM = None, DRAM_SIZE = ONE_MB * 2, VRAM = None, VRAM_SIZE = ONE_MB,
     VRAM_SIZE_MASK = ONE_MB - 1, HIRES_VRAM_SIZE = ONE_MB * 4, NVRAM = None, ROM = None,
     ROM1 = None, ROM2 = None, g_MEM_CFG = DRAM_VRAM_UNSET\<rparr>"

definition opera_mem_cfg :: "memory \<Rightarrow> mem_cfg" where
  "opera_mem_cfg m = g_MEM_CFG m"

definition opera_mem_is_valid_cfg :: "mem_cfg \<Rightarrow> bool" where
  "opera_mem_is_valid_cfg cfg \<longleftrightarrow>
     cfg = DRAM_2MB_VRAM_1MB \<or> cfg = DRAM_2MB_VRAM_2MB \<or> cfg = DRAM_4MB_VRAM_1MB \<or>
     cfg = DRAM_4MB_VRAM_2MB \<or> cfg = DRAM_8MB_VRAM_1MB \<or> cfg = DRAM_8MB_VRAM_2MB \<or>
     cfg = DRAM_14MB_VRAM_2MB \<or> cfg = DRAM_15MB_VRAM_1MB"

definition opera_mem_dram_size :: "mem_cfg \<Rightarrow> u32" where
  "opera_mem_dram_size cfg = drop_bit 4 (cfg AND 0xF0) * ONE_MB"

definition opera_mem_vram_size :: "mem_cfg \<Rightarrow> u32" where
  "opera_mem_vram_size cfg = drop_bit 0 (cfg AND 0x0F) * ONE_MB"

text \<open>\<open>_setup_dram_vram\<close>, and the four conditions it asserts.\<close>

definition setup_dram_vram :: "mem_cfg \<Rightarrow> memory \<Rightarrow> memory" where
  "setup_dram_vram cfg m =
     (let d = opera_mem_dram_size cfg; v = opera_mem_vram_size cfg in
      m\<lparr>DRAM_SIZE := d, VRAM_SIZE := v, VRAM_SIZE_MASK := v - 1, HIRES_VRAM_SIZE := v * 4,
        RAM_SIZE := d + v, HIRES_RAM_SIZE := d + v * 4, VRAM := Some d\<rparr>)"

definition setup_asserts :: "mem_cfg \<Rightarrow> memory \<Rightarrow> bool" where
  "setup_asserts cfg m \<longleftrightarrow> DRAM m \<noteq> None \<and> opera_mem_is_valid_cfg cfg \<and>
     RAM_SIZE (setup_dram_vram cfg m) \<le> MAX_RAM_SIZE \<and>
     HIRES_RAM_SIZE (setup_dram_vram cfg m) \<le> MAX_HIRES_RAM_SIZE"

definition opera_mem_madam_red_sysbits :: "memory \<Rightarrow> u32 \<Rightarrow> u32" where
  "opera_mem_madam_red_sysbits m v =
     (let VRAMSIZE_SHIFT = 0; SET1SHIFT = 3; SET0SHIFT = SET1SHIFT + 2;
          vram1 = push_bit VRAMSIZE_SHIFT 1; vram2 = push_bit VRAMSIZE_SHIFT 2;
          v = v AND NOT 0x7F;
          c = g_MEM_CFG m
      in if c = DRAM_2MB_VRAM_2MB then v OR (vram2 OR push_bit SET0SHIFT 1 OR push_bit SET1SHIFT 1)
         else if c = DRAM_4MB_VRAM_1MB then v OR (vram1 OR push_bit SET0SHIFT 2)
         else if c = DRAM_4MB_VRAM_2MB then v OR (vram2 OR push_bit SET0SHIFT 2)
         else if c = DRAM_8MB_VRAM_1MB then v OR (vram1 OR push_bit SET0SHIFT 2 OR push_bit SET1SHIFT 2)
         else if c = DRAM_8MB_VRAM_2MB then v OR (vram2 OR push_bit SET0SHIFT 2 OR push_bit SET1SHIFT 2)
         else if c = DRAM_14MB_VRAM_2MB then v OR (vram2 OR push_bit SET1SHIFT 3)
         else if c = DRAM_15MB_VRAM_1MB then v OR (vram1 OR push_bit SET1SHIFT 3)
         else v OR (vram1 OR push_bit SET0SHIFT 1 OR push_bit SET1SHIFT 1))"

section \<open>Allocation\<close>

definition opera_mem_destroy :: "memory \<Rightarrow> memory" where
  "opera_mem_destroy m =
     m\<lparr>DRAM := None, VRAM := None, ROM1 := None, ROM2 := None, NVRAM := None,
       g_MEM_CFG := DRAM_VRAM_UNSET\<rparr>"

definition opera_mem_rom_select :: "rom_ptr \<Rightarrow> memory \<Rightarrow> memory" where
  "opera_mem_rom_select rom m =
     (let rom = (if rom \<noteq> PTR_ROM1 \<and> rom \<noteq> PTR_ROM2 then PTR_ROM1 else rom)
      in m\<lparr>ROM := Some rom\<rparr>)"

text \<open>The four \<open>calloc\<close> calls may each fail; \<open>ok\<close> says which of them succeed.\<close>

definition opera_mem_init :: "bool \<times> bool \<times> bool \<times> bool \<Rightarrow> mem_cfg \<Rightarrow> memory \<Rightarrow> int \<times> memory" where
  "opera_mem_init ok cfg m =
     (if g_MEM_CFG m \<noteq> DRAM_VRAM_UNSET then (-1, m)
      else
        (let cfg = (if cfg = DRAM_VRAM_UNSET then DRAM_VRAM_STOCK else cfg) in
         if \<not> opera_mem_is_valid_cfg cfg then (-1, m)
         else
           (let (okd, ok1, ok2, okn) = ok;
                zeroed = (\<lambda>b. if b then Some (\<lambda>_. 0) else None);
                m = m\<lparr>DRAM := zeroed okd, ROM1 := zeroed ok1, ROM2 := zeroed ok2,
                      NVRAM := zeroed okn\<rparr>
            in if DRAM m = None \<or> ROM1 m = None \<or> ROM2 m = None \<or> NVRAM m = None
               then (-1, opera_mem_destroy m)
               else (0, (opera_mem_rom_select PTR_ROM1 (setup_dram_vram cfg m))\<lparr>g_MEM_CFG := cfg\<rparr>))))"

section \<open>ROM images\<close>

definition dram :: "memory \<Rightarrow> mem" where "dram m = the (DRAM m)"

definition get16 :: "mem \<Rightarrow> u32 \<Rightarrow> u16" where
  "get16 d a = le2 (d a) (d (a + 1))"

definition get32 :: "mem \<Rightarrow> u32 \<Rightarrow> u32" where
  "get32 d a = le4 (d a) (d (a + 1)) (d (a + 2)) (d (a + 3))"

definition set16 :: "mem \<Rightarrow> u32 \<Rightarrow> u16 \<Rightarrow> mem" where
  "set16 d a v = d(a := byte_of 0 v, a + 1 := byte_of 1 v)"

definition set32 :: "mem \<Rightarrow> u32 \<Rightarrow> u32 \<Rightarrow> mem" where
  "set32 d a v = d(a := byte_of 0 v, a + 1 := byte_of 1 v, a + 2 := byte_of 2 v, a + 3 := byte_of 3 v)"

definition SWAP32 :: "u32 \<Rightarrow> u32" where
  "SWAP32 x = drop_bit 24 (x AND 0xFF000000) OR drop_bit 8 (x AND 0x00FF0000) OR
     push_bit 8 (x AND 0x0000FF00) OR push_bit 24 (x AND 0x000000FF)"

text \<open>\<open>swap32_array_if_little_endian\<close>: the loop over the first \<open>n\<close> words of an array.\<close>

primrec swap32_array_if_little_endian :: "nat \<Rightarrow> mem \<Rightarrow> mem" where
  "swap32_array_if_little_endian 0 d = d"
| "swap32_array_if_little_endian (Suc n) d =
     (let d' = swap32_array_if_little_endian n d; a = 4 * of_nat n
      in set32 d' a (SWAP32 (get32 d' a)))"

text \<open>\<open>memset\<close> of the first \<open>n\<close> bytes.\<close>

definition mem_set :: "nat \<Rightarrow> u8 \<Rightarrow> mem \<Rightarrow> mem" where
  "mem_set n v d = (\<lambda>a. if unat a < n then v else d a)"

definition opera_mem_rom1_clear :: "memory \<Rightarrow> memory" where
  "opera_mem_rom1_clear m = m\<lparr>ROM1 := map_option (mem_set (unat ROM1_SIZE) 0) (ROM1 m)\<rparr>"

definition opera_mem_rom1_byteswap32_if_le :: "memory \<Rightarrow> memory" where
  "opera_mem_rom1_byteswap32_if_le m =
     m\<lparr>ROM1 := map_option (swap32_array_if_little_endian (unat ROM1_SIZE div 4)) (ROM1 m)\<rparr>"

definition opera_mem_rom2_clear :: "memory \<Rightarrow> memory" where
  "opera_mem_rom2_clear m = m\<lparr>ROM2 := map_option (mem_set (unat ROM2_SIZE) 0) (ROM2 m)\<rparr>"

definition opera_mem_rom2_byteswap32_if_le :: "memory \<Rightarrow> memory" where
  "opera_mem_rom2_byteswap32_if_le m =
     m\<lparr>ROM2 := map_option (swap32_array_if_little_endian (unat ROM2_SIZE div 4)) (ROM2 m)\<rparr>"

section \<open>The accessors\<close>

definition opera_mem_read8 :: "memory \<Rightarrow> u32 \<Rightarrow> u8" where
  "opera_mem_read8 m addr = dram m (addr XOR 3)"

definition opera_mem_read16 :: "memory \<Rightarrow> u32 \<Rightarrow> u16" where
  "opera_mem_read16 m addr = get16 (dram m) (addr XOR 2)"

definition opera_mem_read32 :: "memory \<Rightarrow> u32 \<Rightarrow> u32" where
  "opera_mem_read32 m addr = get32 (dram m) addr"

definition opera_mem_write8 :: "u32 \<Rightarrow> u8 \<Rightarrow> memory \<Rightarrow> memory" where
  "opera_mem_write8 addr val m =
     (let addr = addr XOR 3; d = (dram m)(addr := val); v = VRAM_SIZE m in
      if \<not> HIRESMODE m \<or> addr < DRAM_SIZE m then m\<lparr>DRAM := Some d\<rparr>
      else m\<lparr>DRAM := Some (d(addr + 3 * v := val, addr + 2 * v := val, addr + 1 * v := val))\<rparr>)"

definition opera_mem_write16_base :: "u32 \<Rightarrow> u16 \<Rightarrow> memory \<Rightarrow> memory" where
  "opera_mem_write16_base addr val m =
     (let addr = addr XOR 2 in m\<lparr>DRAM := Some (set16 (dram m) addr val)\<rparr>)"

definition opera_mem_write16 :: "u32 \<Rightarrow> u16 \<Rightarrow> memory \<Rightarrow> memory" where
  "opera_mem_write16 addr val m =
     (let addr = addr XOR 2; d = set16 (dram m) addr val; v = VRAM_SIZE m in
      if \<not> HIRESMODE m \<or> addr < DRAM_SIZE m then m\<lparr>DRAM := Some d\<rparr>
      else m\<lparr>DRAM := Some (set16 (set16 (set16 d (addr + 3 * v) val) (addr + 2 * v) val)
                (addr + 1 * v) val)\<rparr>)"

definition opera_mem_write32 :: "u32 \<Rightarrow> u32 \<Rightarrow> memory \<Rightarrow> memory" where
  "opera_mem_write32 addr val m =
     (let d = set32 (dram m) addr val; v = VRAM_SIZE m in
      if \<not> HIRESMODE m \<or> addr < DRAM_SIZE m then m\<lparr>DRAM := Some d\<rparr>
      else m\<lparr>DRAM := Some (set32 (set32 (set32 d (addr + 3 * v) val) (addr + 2 * v) val)
                (addr + 1 * v) val)\<rparr>)"

section \<open>Saved state\<close>

text \<open>The first \<open>n\<close> bytes of a buffer, and a copy of bytes over its start.\<close>

definition mem_bytes :: "mem option \<Rightarrow> nat \<Rightarrow> u8 list" where
  "mem_bytes d n = map (\<lambda>i. the d (of_nat i)) [0..<n]"

definition mem_load :: "u8 list \<Rightarrow> mem option \<Rightarrow> mem option" where
  "mem_load bs d = map_option (\<lambda>f a. if unat a < length bs then bs ! unat a else f a) d"

definition opera_mem_state_size_v1 :: u32 where
  "opera_mem_state_size_v1 =
     0 + opera_state_save_size 1 + opera_state_save_size MAX_HIRES_RAM_SIZE +
     opera_state_save_size ROM1_SIZE + opera_state_save_size ROM2_SIZE +
     opera_state_save_size NVRAM_SIZE"

definition opera_mem_state_ram_bytes :: "mem_cfg \<Rightarrow> u32" where
  "opera_mem_state_ram_bytes cfg = opera_mem_dram_size cfg + opera_mem_vram_size cfg * 4"

definition opera_mem_state_payload_size :: "memory \<Rightarrow> u32" where
  "opera_mem_state_payload_size m =
     1 + 4 + opera_mem_state_ram_bytes (g_MEM_CFG m) + NVRAM_SIZE"

definition opera_mem_state_size :: "memory \<Rightarrow> u32" where
  "opera_mem_state_size m = opera_state_chunk_size (opera_mem_state_payload_size m)"

definition mem_state_write :: "memory \<Rightarrow> state_writer \<Rightarrow> bool \<times> state_writer" where
  "mem_state_write m =
     (let ram_bytes = opera_mem_state_ram_bytes (g_MEM_CFG m) in
      w_then (opera_state_write_u8 (ucast (g_MEM_CFG m)))
     (w_then (opera_state_write_u32 ram_bytes)
     (w_then (opera_state_write_bytes (Some (mem_bytes (DRAM m) (unat ram_bytes))) ram_bytes)
             (opera_state_write_bytes (Some (mem_bytes (NVRAM m) (unat NVRAM_SIZE))) NVRAM_SIZE))))"

definition opera_mem_state_save :: "memory \<Rightarrow> u8 list \<Rightarrow> u32 \<times> u8 list" where
  "opera_mem_state_save m data = save_chunk ''MEM2'' (opera_mem_state_payload_size m) (mem_state_write m) data"

text \<open>Version 1: five checked copies, one after the other; a copy that fails leaves the
  earlier ones done.\<close>

definition load_sized_mem ::
  "string \<Rightarrow> u8 list \<Rightarrow> u32 \<Rightarrow> u32 \<Rightarrow> mem option \<Rightarrow> u32 \<times> mem option" where
  "load_sized_mem name src src_size n d =
     (let (rv, bs) = opera_state_load_sized (mem_bytes d (unat n)) name (Some src) src_size n
      in (rv, mem_load bs d))"

definition opera_mem_state_load_v1 :: "u8 list \<Rightarrow> u32 \<Rightarrow> memory \<Rightarrow> u32 \<times> memory" where
  "opera_mem_state_load_v1 data sz m =
     (let (rv0, cfg) = opera_state_load_sized [0] ''MCFG'' (Some data) sz 1;
          mem_cfg = ucast (cfg ! 0) in
      if rv0 = 0 \<or> \<not> opera_mem_is_valid_cfg mem_cfg then (0, m)
      else
        (let p = rv0;
             (rv1, d) = load_sized_mem ''RAM'' (drop (unat p) data) (sz - p) MAX_HIRES_RAM_SIZE (DRAM m);
             m = m\<lparr>DRAM := d\<rparr> in
         if rv1 = 0 then (0, m)
         else
           (let p = p + rv1;
                (rv2, d) = load_sized_mem ''ROM1'' (drop (unat p) data) (sz - p) ROM1_SIZE (ROM1 m);
                m = m\<lparr>ROM1 := d\<rparr> in
            if rv2 = 0 then (0, m)
            else
              (let p = p + rv2;
                   (rv3, d) = load_sized_mem ''ROM2'' (drop (unat p) data) (sz - p) ROM2_SIZE (ROM2 m);
                   m = m\<lparr>ROM2 := d\<rparr> in
               if rv3 = 0 then (0, m)
               else
                 (let p = p + rv3;
                      (rv4, d) = load_sized_mem ''NVRM'' (drop (unat p) data) (sz - p) NVRAM_SIZE (NVRAM m);
                      m = m\<lparr>NVRAM := d\<rparr> in
                  if rv4 = 0 then (0, m)
                  else (p + rv4, (setup_dram_vram mem_cfg m)\<lparr>g_MEM_CFG := mem_cfg\<rparr>))))))"

text \<open>A \<open>read_bytes\<close> link of a loader's chain that fills a buffer of the memory.\<close>

definition read_into ::
  "((mem option \<Rightarrow> mem option) \<Rightarrow> memory \<Rightarrow> memory) \<Rightarrow> u32 \<Rightarrow> memory \<times> state_reader \<Rightarrow>
   bool \<times> memory \<times> state_reader" where
  "read_into upd n s =
     (let (m, r) = s; (bs, r') = opera_state_read_bytes n r in
      case bs of None \<Rightarrow> (False, m, r') | Some b \<Rightarrow> (True, upd (mem_load b) m, r'))"

definition opera_mem_state_load_mem :: "bool \<Rightarrow> u8 list \<Rightarrow> u32 \<Rightarrow> memory \<Rightarrow> u32 \<times> memory" where
  "opera_mem_state_load_mem validating data sz m =
     (let (pl, reader) = opera_state_read_chunk ''MEM'' (opera_state_reader_init data sz) in
      case pl of None \<Rightarrow> (0, m)
      | Some p0 \<Rightarrow>
        (let (c, p1) = opera_state_read_u8 p0 in
         case c of None \<Rightarrow> (0, m)
         | Some cfg8 \<Rightarrow>
           (let mem_cfg = ucast cfg8 in
            if \<not> opera_mem_is_valid_cfg mem_cfg \<or>
               opera_state_reader_remaining p1 \<noteq> MAX_HIRES_RAM_SIZE + ROM1_SIZE + ROM2_SIZE + NVRAM_SIZE
            then (0, m)
            else if validating then
              (let (ok, p2) = opera_state_skip_bytes (opera_state_reader_remaining p1) p1 in
               if \<not> ok \<or> \<not> opera_state_reader_finished p2 then (0, m)
               else (opera_state_reader_used reader, m))
            else
              (let (ok1, m1, p2) = read_into DRAM_update MAX_HIRES_RAM_SIZE (m, p1) in
               if \<not> ok1 then (0, m1) else
               (let (ok2, m2, p3) = read_into ROM1_update ROM1_SIZE (m1, p2) in
                if \<not> ok2 then (0, m2) else
                (let (ok3, m3, p4) = read_into ROM2_update ROM2_SIZE (m2, p3) in
                 if \<not> ok3 then (0, m3) else
                 (let (ok4, m4, p5) = read_into NVRAM_update NVRAM_SIZE (m3, p4) in
                  if \<not> ok4 \<or> \<not> opera_state_reader_finished p5 then (0, m4)
                  else (opera_state_reader_used reader,
                        (setup_dram_vram mem_cfg m4)\<lparr>g_MEM_CFG := mem_cfg\<rparr>))))))))"

definition opera_mem_state_load_mem2 :: "bool \<Rightarrow> u8 list \<Rightarrow> u32 \<Rightarrow> memory \<Rightarrow> u32 \<times> memory" where
  "opera_mem_state_load_mem2 validating data sz m =
     (let (pl, reader) = opera_state_read_chunk ''MEM2'' (opera_state_reader_init data sz) in
      case pl of None \<Rightarrow> (0, m)
      | Some p0 \<Rightarrow>
        (let (c, p1) = opera_state_read_u8 p0 in
         case c of None \<Rightarrow> (0, m)
         | Some cfg8 \<Rightarrow>
           (let mem_cfg = ucast cfg8 in
            if \<not> opera_mem_is_valid_cfg mem_cfg then (0, m) else
            (let (rb, p2) = opera_state_read_u32 p1 in
             case rb of None \<Rightarrow> (0, m)
             | Some ram_bytes \<Rightarrow>
               (if ram_bytes \<noteq> opera_mem_state_ram_bytes mem_cfg \<or>
                   ram_bytes > MAX_HIRES_RAM_SIZE \<or>
                   opera_state_reader_remaining p2 \<noteq> ram_bytes + NVRAM_SIZE
                then (0, m)
                else if validating then
                  (let (ok, p3) = opera_state_skip_bytes (opera_state_reader_remaining p2) p2 in
                   if \<not> ok \<or> \<not> opera_state_reader_finished p3 then (0, m)
                   else (opera_state_reader_used reader, m))
                else
                  (let (ok1, m1, p3) = read_into DRAM_update ram_bytes (m, p2) in
                   if \<not> ok1 then (0, m1) else
                   (let (ok2, m2, p4) = read_into NVRAM_update NVRAM_SIZE (m1, p3) in
                    if \<not> ok2 \<or> \<not> opera_state_reader_finished p4 then (0, m2)
                    else (opera_state_reader_used reader,
                          (setup_dram_vram mem_cfg m2)\<lparr>g_MEM_CFG := mem_cfg\<rparr>))))))))"

definition opera_mem_state_load :: "bool \<Rightarrow> u8 list \<Rightarrow> u32 \<Rightarrow> memory \<Rightarrow> u32 \<times> memory" where
  "opera_mem_state_load validating data sz m =
     (if sz \<ge> 4 \<and> take 4 data = chunk_name ''MEM2''
      then opera_mem_state_load_mem2 validating data sz m
      else opera_mem_state_load_mem validating data sz m)"

end
