(* ===== verification/Opera_Mem_Access.thy ===== *)
theory Opera_Mem_Access
  imports Opera_Mem
begin

text \<open>
  The memory accessors: the layout invariant of the memory component, the word lemmas on
  swizzled addresses (\<open>addr ^ 3\<close>, \<open>addr ^ 2\<close>), the read-over-write laws of the 8, 16
  and 32 bit accessors as the locale \<open>plane_access\<close>, and the big-endian view.
\<close>

section \<open>Layout\<close>

definition mem_ready :: "memory \<Rightarrow> bool" where
  "mem_ready m \<longleftrightarrow> opera_mem_is_valid_cfg (g_MEM_CFG m) \<and>
     DRAM m \<noteq> None \<and> NVRAM m \<noteq> None \<and> ROM1 m \<noteq> None \<and> ROM2 m \<noteq> None \<and>
     DRAM_SIZE m = opera_mem_dram_size (g_MEM_CFG m) \<and>
     VRAM_SIZE m = opera_mem_vram_size (g_MEM_CFG m) \<and>
     VRAM_SIZE_MASK m = VRAM_SIZE m - 1 \<and> HIRES_VRAM_SIZE m = VRAM_SIZE m * 4 \<and>
     RAM_SIZE m = DRAM_SIZE m + VRAM_SIZE m \<and>
     HIRES_RAM_SIZE m = DRAM_SIZE m + HIRES_VRAM_SIZE m \<and> VRAM m = Some (DRAM_SIZE m)"

definition mem_unset :: "memory \<Rightarrow> bool" where
  "mem_unset m \<longleftrightarrow> g_MEM_CFG m = DRAM_VRAM_UNSET \<and> DRAM m = None \<and> VRAM m = None \<and>
     NVRAM m = None \<and> ROM1 m = None \<and> ROM2 m = None"

lemma cfg_sizes:
  assumes "opera_mem_is_valid_cfg cfg"
  shows "unat (opera_mem_dram_size cfg) + 4 * unat (opera_mem_vram_size cfg) \<le> 23068672"
    and "unat (opera_mem_dram_size cfg) + unat (opera_mem_vram_size cfg) \<le> 16777216"
    and "take_bit 2 (opera_mem_dram_size cfg) = 0" "take_bit 2 (opera_mem_vram_size cfg) = 0"
    and "1048576 \<le> unat (opera_mem_vram_size cfg)" "2097152 \<le> unat (opera_mem_dram_size cfg)"
  using assms unfolding opera_mem_is_valid_cfg_def
  by (elim disjE; simp add: opera_mem_dram_size_def opera_mem_vram_size_def)+

lemma ready_sizes:
  assumes "mem_ready m"
  shows "unat (DRAM_SIZE m) + 4 * unat (VRAM_SIZE m) \<le> 23068672"
    and "take_bit 2 (DRAM_SIZE m) = 0" "take_bit 2 (VRAM_SIZE m) = 0"
    and "1048576 \<le> unat (VRAM_SIZE m)"
  using assms cfg_sizes [of "g_MEM_CFG m"] by (simp_all add: mem_ready_def)

section \<open>Swizzled addresses\<close>

lemma xor_sum: "a XOR b = a + b - 2 * (a AND b)" for a b :: "'a::len word"
proof -
  have 1: "(a AND b) + (a OR b) = a + b" by (rule word_plus_and_or)
  have "(a XOR b) AND (a AND b) = 0" by (rule bit_word_eqI) (auto simp: bit_simps)
  then have "(a XOR b) + (a AND b) = (a XOR b) OR (a AND b)"
    using word_plus_and_or [of "a XOR b" "a AND b"] by simp
  also have "\<dots> = a OR b" by (rule bit_word_eqI) (auto simp: bit_simps)
  finally have "(a AND b) + ((a XOR b) + (a AND b)) = a + b" using 1 by simp
  then have "(a XOR b) + 2 * (a AND b) = a + b" by (simp only: mult_2) (simp only: ac_simps)
  then show ?thesis by (simp add: algebra_simps)
qed

lemma unat_take2: "unat (take_bit 2 a) = unat a mod 4" for a :: u32
  by (simp add: take_bit_eq_mod unat_mod)

lemma take2_iff: "take_bit 2 c = 0 \<longleftrightarrow> unat c mod 4 = 0" for c :: u32
  by (simp only: unat_take2 [symmetric] unat_eq_zero)

lemma take2_add: "take_bit 2 c = 0 \<Longrightarrow> take_bit 2 (a + c) = take_bit 2 a" for a c :: u32
proof -
  assume "take_bit 2 c = 0"
  then have "unat c mod 4 = 0" by (simp only: take2_iff)
  then have "(unat a + unat c) mod 4 = unat a mod 4" by presburger
  then have "unat (take_bit 2 (a + c)) = unat (take_bit 2 a)"
    by (simp only: unat_take2) (simp add: unat_word_ariths mod_mod_cancel)
  then show ?thesis by (simp only: word_unat_eq_iff)
qed

lemma and_low: "take_bit 2 c = 0 \<Longrightarrow> take_bit 2 k = k \<Longrightarrow> (a + c) AND k = a AND k" for a c k :: u32
proof -
  assume c: "take_bit 2 c = 0" and k: "take_bit 2 k = k"
  have l: "x AND k = take_bit 2 x AND k" for x :: u32
  proof (rule bit_word_eqI)
    fix n :: nat
    have "bit k n = (n < 2 \<and> bit k n)" using k by (metis bit_take_bit_iff)
    then show "bit (x AND k) n = bit (take_bit 2 x AND k) n" by (auto simp: bit_simps)
  qed
  show ?thesis using l [of "a + c"] l [of a] take2_add [OF c, of a] by simp
qed

lemma xor_low_add:
  fixes a c k :: u32
  assumes "take_bit 2 c = 0" "take_bit 2 k = k" shows "(a + c) XOR k = (a XOR k) + c"
  by (simp add: xor_sum and_low [OF assms])

lemma take2_k: "take_bit 2 (1 :: u32) = 1" "take_bit 2 (2 :: u32) = 2" "take_bit 2 (3 :: u32) = 3"
  by simp_all

lemmas swz_add = xor_low_add [OF _ take2_k(2)] xor_low_add [OF _ take2_k(3)]

lemma take2_mult: "take_bit 2 c = 0 \<Longrightarrow> take_bit 2 (n * c) = 0" for c n :: u32
proof -
  assume "take_bit 2 c = 0"
  then have "(unat n * unat c) mod 4 = 0" by (simp only: take2_iff) (simp add: mod_eq_0_iff_dvd)
  then show ?thesis by (simp only: take2_iff) (simp add: unat_word_ariths mod_mod_cancel)
qed

lemma div4_xor: "take_bit 2 k = k \<Longrightarrow> unat (a XOR k) div 4 = unat a div 4" for a k :: u32
proof -
  assume k: "take_bit 2 k = k"
  have "drop_bit 2 (a XOR k) = drop_bit 2 a"
  proof (rule bit_word_eqI)
    fix n :: nat
    have "\<not> bit k (2 + n)" using k by (metis bit_take_bit_iff not_add_less1)
    then show "bit (drop_bit 2 (a XOR k)) n = bit (drop_bit 2 a) n"
      by (auto simp: bit_simps)
  qed
  then have "drop_bit 2 (unat (a XOR k)) = drop_bit 2 (unat a)"
    by (simp only: unat_drop_bit_eq [symmetric])
  then show ?thesis by (simp add: drop_bit_eq_div)
qed

lemma less_xor:
  fixes a k D :: u32
  assumes "take_bit 2 k = k" "take_bit 2 D = 0" shows "a XOR k < D \<longleftrightarrow> a < D"
proof -
  have "unat (D mod 4) = 0" using assms(2) by (simp add: take_bit_eq_mod)
  then have "4 * (unat D div 4) = unat D" by (simp add: unat_mod) presburger
  then have "unat x < unat D \<longleftrightarrow> unat x div 4 < unat D div 4" for x :: u32 by presburger
  with div4_xor [OF assms(1), of a] show ?thesis by (simp add: word_less_nat_alt)
qed

section \<open>Accesses and planes\<close>

text \<open>The addresses a store to \<open>a\<close> reaches: itself, and in high-resolution mode the three
  copies of VRAM above it.\<close>

definition planes :: "memory \<Rightarrow> u32 \<Rightarrow> u32 set" where
  "planes m a = (if HIRESMODE m \<and> \<not> a < DRAM_SIZE m
     then {a, a + VRAM_SIZE m, a + 2 * VRAM_SIZE m, a + 3 * VRAM_SIZE m} else {a})"

definition in_vram :: "memory \<Rightarrow> u32 \<Rightarrow> bool" where
  "in_vram m a \<longleftrightarrow> unat (DRAM_SIZE m) \<le> unat a \<and> unat a < unat (DRAM_SIZE m) + unat (VRAM_SIZE m)"

lemma plane_unat:
  assumes "mem_ready m" "in_vram m a" "k < 4"
  shows "unat (a + of_nat k * VRAM_SIZE m) = unat a + k * unat (VRAM_SIZE m)"
proof -
  have "unat (of_nat k :: u32) = k" using assms(3) by (simp add: unat_of_nat)
  moreover have le: "k * unat (VRAM_SIZE m) \<le> 3 * unat (VRAM_SIZE m)"
    using assms(3) by (intro mult_right_mono) simp_all
  then have "k * unat (VRAM_SIZE m) < 4294967296" "unat a + k * unat (VRAM_SIZE m) < 4294967296"
    using assms(2) ready_sizes(1) [OF assms(1)] unfolding in_vram_def by linarith+
  ultimately show ?thesis by (simp add: unat_word_ariths)
qed

lemma plane_inj:
  assumes m: "mem_ready m" and ab: "in_vram m a" "in_vram m b" and jk: "j < 4" "k < 4"
    and eq: "a + of_nat j * VRAM_SIZE m = b + of_nat k * VRAM_SIZE m"
  shows "j = k \<and> a = b"
proof -
  let ?V = "unat (VRAM_SIZE m)" and ?D = "unat (DRAM_SIZE m)"
  have V: "0 < ?V" using ready_sizes(4) [OF m] by simp
  have e: "unat a + j * ?V = unat b + k * ?V"
    using plane_unat [OF m ab(1) jk(1)] plane_unat [OF m ab(2) jk(2)] eq by simp
  have q: "(unat x - ?D + n * ?V) div ?V = n" if "in_vram m x" for x n
  proof -
    define e where "e = unat x - ?D"
    have "unat x = ?D + e" "e < ?V" using that by (auto simp: e_def in_vram_def)
    then show ?thesis using V by simp
  qed
  have "unat a - ?D + j * ?V = unat b - ?D + k * ?V" using e ab by (simp add: in_vram_def)
  then have "j = k" using q [OF ab(1), of j] q [OF ab(2), of k] by simp
  with e show ?thesis by (simp add: word_unat_eq_iff)
qed

text \<open>The contract of a pair of accessors of one width.\<close>

locale plane_access =
  fixes rd :: "memory \<Rightarrow> u32 \<Rightarrow> 'v" and wr :: "u32 \<Rightarrow> 'v \<Rightarrow> memory \<Rightarrow> memory"
    and aligned :: "u32 \<Rightarrow> bool"
  assumes rd_wr: "mem_ready m \<Longrightarrow> aligned a \<Longrightarrow> aligned b \<Longrightarrow>
      rd (wr a v m) b = (if b \<in> planes m a then v else rd m b)"
    and wr_frame: "\<exists>d. wr a v m = m\<lparr>DRAM := Some d\<rparr>"
    and aligned_plane: "mem_ready m \<Longrightarrow> aligned (a + n * VRAM_SIZE m) \<longleftrightarrow> aligned a"
begin

lemma wr_ready: "mem_ready m \<Longrightarrow> mem_ready (wr a v m)"
  using wr_frame [of a v m] by (auto simp: mem_ready_def)

lemma wr_layout:
  "DRAM_SIZE (wr a v m) = DRAM_SIZE m" "VRAM_SIZE (wr a v m) = VRAM_SIZE m"
  "HIRESMODE (wr a v m) = HIRESMODE m"
  using wr_frame [of a v m] by auto

text \<open>In high-resolution mode the four planes of VRAM hold the same picture.\<close>

definition mirrored :: "memory \<Rightarrow> bool" where
  "mirrored m \<longleftrightarrow> (\<forall>a k. in_vram m a \<longrightarrow> aligned a \<longrightarrow> k < 4 \<longrightarrow>
      rd m (a + of_nat k * VRAM_SIZE m) = rd m a)"

lemma planes_iff:
  assumes m: "mem_ready m" and b: "in_vram m b" "k < 4" and a: "unat a < unat (DRAM_SIZE m) + unat (VRAM_SIZE m)"
    and h: "HIRESMODE m"
  shows "b + of_nat k * VRAM_SIZE m \<in> planes m a \<longleftrightarrow> b = a"
proof (cases "a < DRAM_SIZE m")
  case True
  moreover have "unat (DRAM_SIZE m) \<le> unat (b + of_nat k * VRAM_SIZE m)" "unat (DRAM_SIZE m) \<le> unat b"
    using plane_unat [OF m b] b(1) by (simp_all add: in_vram_def)
  ultimately show ?thesis by (auto simp: planes_def word_less_nat_alt)
next
  case False
  then have av: "in_vram m a" using a by (simp add: in_vram_def word_less_nat_alt)
  have pl: "planes m a = (\<lambda>j. a + of_nat j * VRAM_SIZE m) ` {0, 1, 2, 3}"
    using False h by (simp add: planes_def)
  show ?thesis
  proof
    assume "b + of_nat k * VRAM_SIZE m \<in> planes m a"
    then obtain j :: nat where j: "j \<in> {0, 1, 2, 3}"
      and e: "b + of_nat k * VRAM_SIZE m = a + of_nat j * VRAM_SIZE m"
      unfolding pl by (rule imageE)
    have "j < 4" using j by auto
    then show "b = a" using plane_inj [OF m b(1) av b(2) _ e] by blast
  next
    assume "b = a"
    moreover have "k \<in> {0, 1, 2, 3}" using b(2) by auto
    ultimately show "b + of_nat k * VRAM_SIZE m \<in> planes m a" unfolding pl by blast
  qed
qed

lemma wr_mirrored:
  assumes m: "mem_ready m" "HIRESMODE m" "mirrored m" and a: "aligned a"
    "unat a < unat (DRAM_SIZE m) + unat (VRAM_SIZE m)"
  shows "mirrored (wr a v m)"
  unfolding mirrored_def
proof (intro allI impI)
  fix b k assume b: "in_vram (wr a v m) b" "aligned b" "k < (4 :: nat)"
  then have bv: "in_vram m b" by (simp add: in_vram_def wr_layout)
  have ak: "aligned (b + of_nat k * VRAM_SIZE m)" using aligned_plane [OF m(1)] b(2) by simp
  have r: "rd (wr a v m) (b + of_nat k * VRAM_SIZE m) =
      (if b = a then v else rd m (b + of_nat k * VRAM_SIZE m))"
    using rd_wr [OF m(1) a(1) ak] planes_iff [OF m(1) bv b(3) a(2) m(2)] by simp
  have s: "rd (wr a v m) b = (if b = a then v else rd m b)"
    using rd_wr [OF m(1) a(1) b(2)] planes_iff [OF m(1) bv _ a(2) m(2), of 0] by simp
  show "rd (wr a v m) (b + of_nat k * VRAM_SIZE (wr a v m)) = rd (wr a v m) b"
    using r s m(3) bv b(2,3) by (simp add: wr_layout mirrored_def)
qed

end

lemma planes_swz:
  assumes m: "mem_ready m" and k: "take_bit 2 k = k"
  shows "b XOR k \<in> planes m (a XOR k) \<longleftrightarrow> b \<in> planes m a"
proof -
  have l: "a XOR k < DRAM_SIZE m \<longleftrightarrow> a < DRAM_SIZE m"
    using less_xor [OF k ready_sizes(2) [OF m]] .
  have s: "(a XOR k) + n * VRAM_SIZE m = (a + n * VRAM_SIZE m) XOR k" for n
    using xor_low_add [OF take2_mult [OF ready_sizes(3) [OF m]] k, of a n] by simp
  have i: "b XOR k = c XOR k \<longleftrightarrow> b = c" for c by (metis xor.right_neutral xor_self_eq xor.assoc)
  show ?thesis
    using s [of 1] s [of 2] s [of 3] by (simp add: planes_def l i)
qed

interpretation mem8: plane_access opera_mem_read8 opera_mem_write8 "\<lambda>_. True"
proof
  fix m a b v assume m: "mem_ready m"
  have "opera_mem_read8 (opera_mem_write8 a v m) b =
      (if b XOR 3 \<in> planes m (a XOR 3) then v else opera_mem_read8 m b)"
    by (auto simp: opera_mem_read8_def opera_mem_write8_def planes_def dram_def Let_def)
  then show "opera_mem_read8 (opera_mem_write8 a v m) b =
      (if b \<in> planes m a then v else opera_mem_read8 m b)"
    using planes_swz [OF m take2_k(3)] by simp
qed (auto simp: opera_mem_write8_def Let_def)

section \<open>Aligned halfwords and words\<close>

definition aligned2 :: "u32 \<Rightarrow> bool" where "aligned2 a \<longleftrightarrow> unat a mod 2 = 0"
definition aligned4 :: "u32 \<Rightarrow> bool" where "aligned4 a \<longleftrightarrow> unat a mod 4 = 0"

lemma unat_add_mod:
  "unat (a + b) mod 4 = (unat a + unat b) mod 4" "unat (a + b) mod 2 = (unat a + unat b) mod 2"
  for a b :: u32
  by (simp_all add: unat_word_ariths mod_mod_cancel)

lemma word_add_left_eq: "a + i = a + j \<longleftrightarrow> i = j" for a i j :: u32
  by simp

lemma aligned4_off:
  assumes "aligned4 a" "aligned4 b" "a \<noteq> b" "unat i < 4" "unat j < 4" shows "a + i \<noteq> b + j"
proof
  assume e: "a + i = b + j"
  then have "(unat a + unat i) mod 4 = (unat b + unat j) mod 4" by (metis unat_add_mod(1))
  moreover have "(unat x + unat k) mod 4 = unat k" if "aligned4 x" "unat k < 4" for x k :: u32
    using mod_add_left_eq [of "unat x" 4 "unat k"] that by (simp add: aligned4_def)
  ultimately have "unat i = unat j" using assms by simp
  with e assms(3) show False by (simp add: word_unat_eq_iff [symmetric])
qed

lemma aligned2_off:
  assumes "aligned2 a" "aligned2 b" "a \<noteq> b" "unat i < 2" "unat j < 2" shows "a + i \<noteq> b + j"
proof
  assume e: "a + i = b + j"
  then have "(unat a + unat i) mod 2 = (unat b + unat j) mod 2" by (metis unat_add_mod(2))
  moreover have "(unat x + unat k) mod 2 = unat k" if "aligned2 x" "unat k < 2" for x k :: u32
    using mod_add_left_eq [of "unat x" 2 "unat k"] that by (simp add: aligned2_def)
  ultimately have "unat i = unat j" using assms by simp
  with e assms(3) show False by (simp add: word_unat_eq_iff [symmetric])
qed

lemma get32_set32:
  assumes "aligned4 a" "aligned4 b" shows "get32 (set32 d a v) b = (if b = a then v else get32 d b)"
proof (cases "b = a")
  case True
  then show ?thesis by (simp add: get32_def set32_def)
next
  case False
  note n = aligned4_off [OF assms(2,1) False]
  have z: "unat i < 4 \<Longrightarrow> b + i \<noteq> a" "unat i < 4 \<Longrightarrow> b \<noteq> a + i"
    "unat i < 4 \<Longrightarrow> unat j < 4 \<Longrightarrow> b + i \<noteq> a + j" for i j
    using n [of i 0] n [of 0 i] n [of i j] by simp_all
  show ?thesis using False by (simp add: get32_def set32_def z)
qed

lemma get16_set16:
  assumes "aligned2 a" "aligned2 b" shows "get16 (set16 d a v) b = (if b = a then v else get16 d b)"
proof (cases "b = a")
  case True
  then show ?thesis by (simp add: get16_def set16_def)
next
  case False
  note n = aligned2_off [OF assms(2,1) False]
  have z: "b + 1 \<noteq> a" "b \<noteq> a + 1"
    using n [of 1 0] n [of 0 1] by simp_all
  show ?thesis using False z by (simp add: get16_def set16_def)
qed

lemma ready_vram_mod: "mem_ready m \<Longrightarrow> unat (n * VRAM_SIZE m) mod 4 = 0"
  using take2_mult [OF ready_sizes(3), of m n] by (simp only: take2_iff)

lemma aligned_plane:
  assumes "mem_ready m"
  shows "aligned4 (a + n * VRAM_SIZE m) \<longleftrightarrow> aligned4 a" "aligned2 (a + n * VRAM_SIZE m) \<longleftrightarrow> aligned2 a"
  unfolding aligned4_def aligned2_def unat_add_mod
  using ready_vram_mod [OF assms, of n] by presburger+

lemma aligned2_xor: "aligned2 (a XOR 2) \<longleftrightarrow> aligned2 a"
proof -
  have "a XOR 2 = a + 2 - 2 * (a AND 2)" by (rule xor_sum)
  then have "(a XOR 2) + 2 * (a AND 2) = a + 2" by simp
  then have "(unat (a XOR 2) + unat (2 * (a AND 2))) mod 2 = (unat a + unat (2 :: u32)) mod 2"
    by (metis unat_add_mod(2))
  moreover have "unat (2 * (a AND 2)) mod 2 = 0" by (simp add: unat_word_ariths mod_mod_cancel)
  ultimately show ?thesis unfolding aligned2_def by simp presburger
qed

interpretation mem32: plane_access opera_mem_read32 opera_mem_write32 aligned4
proof
  fix m a b and v :: u32 assume m: "mem_ready m" and ab: "aligned4 a" "aligned4 b"
  have p: "aligned4 (a + 3 * VRAM_SIZE m)" "aligned4 (a + 2 * VRAM_SIZE m)" "aligned4 (a + VRAM_SIZE m)"
    using aligned_plane(1) [OF m, of a 3] aligned_plane(1) [OF m, of a 2] aligned_plane(1) [OF m, of a 1] ab(1)
    by simp_all
  show "opera_mem_read32 (opera_mem_write32 a v m) b =
      (if b \<in> planes m a then v else opera_mem_read32 m b)"
    by (simp add: opera_mem_read32_def opera_mem_write32_def planes_def dram_def Let_def
        get32_set32 ab p)
next
  fix m a n assume "mem_ready m"
  then show "aligned4 (a + n * VRAM_SIZE m) \<longleftrightarrow> aligned4 a" by (rule aligned_plane)
qed (auto simp: opera_mem_write32_def Let_def)

interpretation mem16: plane_access opera_mem_read16 opera_mem_write16 aligned2
proof
  fix m a b and v :: u16 assume m: "mem_ready m" and ab: "aligned2 a" "aligned2 b"
  have p: "aligned2 ((a XOR 2) + 3 * VRAM_SIZE m)" "aligned2 ((a XOR 2) + 2 * VRAM_SIZE m)"
    "aligned2 ((a XOR 2) + VRAM_SIZE m)"
    using aligned_plane(2) [OF m, of "a XOR 2" 3] aligned_plane(2) [OF m, of "a XOR 2" 2]
      aligned_plane(2) [OF m, of "a XOR 2" 1] ab(1) by (simp_all add: aligned2_xor)
  have "opera_mem_read16 (opera_mem_write16 a v m) b =
      (if b XOR 2 \<in> planes m (a XOR 2) then v else opera_mem_read16 m b)"
    by (simp add: opera_mem_read16_def opera_mem_write16_def planes_def dram_def Let_def
        get16_set16 ab p aligned2_xor)
  then show "opera_mem_read16 (opera_mem_write16 a v m) b =
      (if b \<in> planes m a then v else opera_mem_read16 m b)"
    using planes_swz [OF m take2_k(2)] by simp
next
  fix m a n assume "mem_ready m"
  then show "aligned2 (a + n * VRAM_SIZE m) \<longleftrightarrow> aligned2 a" by (rule aligned_plane)
qed (auto simp: opera_mem_write16_def Let_def)

end
