(* ===== verification/Opera_Mem_State.thy ===== *)
theory Opera_Mem_State
  imports Opera_Mem_Access
begin

text \<open>
  The saved state of the memory component and its life cycle: what the current and the older
  chunk loaders accept, that a rejected chunk changes nothing, that validating answers as
  the load would, the round trip of the current format, and the layout invariant over every
  sequence of the component's operations.
\<close>

section \<open>Readers that stay healthy\<close>

lemma rok_agree: "rok r \<longleftrightarrow> agree r r \<and> \<not> r_failed r"
  by (auto simp: rok_def agree_def rbounded_def)

lemma rok_local:
  assumes "rlocal m" "rok r" "m r = (v, r')" "\<not> r_failed r'" shows "rok r'"
  using rlocalD [OF assms(1), of r r] assms(2-4) by (simp add: rok_agree)

lemma rok_u8: "rok r \<Longrightarrow> opera_state_read_u8 r = (Some v, r') \<Longrightarrow> rok r'"
  by (erule rok_local [OF read_u8_local]) (auto simp: opera_state_read_u8_def split: if_splits)

lemma rok_u32: "rok r \<Longrightarrow> opera_state_read_u32 r = (Some v, r') \<Longrightarrow> rok r'"
  by (erule rok_local [OF read_u32_local])
    (auto simp: opera_state_read_u32_def Let_def split: if_splits)

lemma read_chunk_Some:
  assumes r: "rok r" and c: "opera_state_read_chunk nm r = (Some p, r')"
  shows "rok p \<and> r_offset p = 0 \<and> unat (r_offset r') = unat (r_offset r) + 8 + unat (r_size p)"
proof -
  from c obtain a r1 n r2 where
    1: "opera_state_read_bytes 4 r = (Some a, r1)" and 2: "opera_state_read_u32 r1 = (Some n, r2)"
    and n: "\<not> opera_state_reader_remaining r2 < n"
    and p: "p = opera_state_reader_init (drop (unat (r_offset r2)) (r_data r2)) n"
    and r': "r' = r2\<lparr>r_offset := r_offset r2 + n\<rparr>"
    by (auto simp: opera_state_read_chunk_def Let_def split: prod.splits option.splits if_splits)
  have l4: "4 \<le> length (rest r)"
    using 1 remaining_rest [OF r] r
    by (auto simp: opera_state_read_bytes_def rok_def word_less_nat_alt split: if_splits)
  have r1e: "r1 = radv r 4"
    using 1 by (auto simp: opera_state_read_bytes_def radv_def split: if_splits)
  have r1: "rok r1" using r l4 by (simp add: r1e rok_radv)
  have l8: "4 \<le> length (rest r1)"
    using 2 remaining_rest [OF r1] r1
    by (auto simp: opera_state_read_u32_def rok_def word_less_nat_alt split: if_splits)
  have r2e: "r2 = radv r1 4"
    using 2 by (auto simp: opera_state_read_u32_def radv_def Let_def split: if_splits)
  have r2: "rok r2" using r1 l8 by (simp add: r2e rok_radv)
  have off: "unat (r_offset r2) = unat (r_offset r) + 8"
    using radv_offset [OF r l4] radv_offset [OF r1 l8] by (simp add: r2e r1e)
  have le: "unat (r_offset r2) + unat n \<le> unat (r_size r2)"
    using not_less_remaining [OF _ n] r2 by (simp add: rok_def rbounded_def)
  have "unat (r_offset r2 + n) = unat (r_offset r2) + unat n"
    using le unat_u32_lt [of "r_size r2"] by (intro unat_add_nowrap) simp
  moreover have "rok p"
    using le r2 by (auto simp: p rok_def opera_state_reader_init_def)
  ultimately show ?thesis using off by (simp add: p r' opera_state_reader_init_def)
qed

lemma read_bytes_ok:
  assumes "rok r" "unat n \<le> length (rest r)"
  shows "opera_state_read_bytes n r = (Some (take (unat n) (rest r)), radv r (unat n))"
  using consumesD [OF consumes_bytes [of "take (unat n) (rest r)" n] assms(1), of "drop (unat n) (rest r)"]
    assms(2) by simp

lemma read_into_ok:
  assumes "rok r" "unat n \<le> length (rest r)"
  shows "read_into upd n (m, r) = (True, upd (mem_load (take (unat n) (rest r))) m, radv r (unat n))"
  using read_bytes_ok [OF assms] by (simp add: read_into_def)

lemma skip_ok:
  assumes "rok r"
  shows "\<exists>r'. opera_state_skip_bytes (opera_state_reader_remaining r) r = (True, r') \<and>
    opera_state_reader_finished r'"
proof -
  have "r\<lparr>r_offset := r_offset r + opera_state_reader_remaining r\<rparr> = radv r (length (rest r))"
    using remaining_rest [OF assms] by (simp add: radv_def flip: remaining_rest [OF assms])
  then show ?thesis
    using assms by (simp add: opera_state_skip_bytes_def rok_def finished_iff rok_radv rest_radv)
      (metis assms finished_iff le_refl drop_all rest_radv rok_radv)
qed

section \<open>The chunk loaders\<close>

definition mem_installed :: "mem_cfg \<Rightarrow> memory \<Rightarrow> memory" where
  "mem_installed cfg m = (setup_dram_vram cfg m)\<lparr>g_MEM_CFG := cfg\<rparr>"

text \<open>A \<open>MEM2\<close> load either rejects the chunk, changing nothing, or accepts it; then the bytes
  of RAM and NVRAM are in place and the layout is that of the stored configuration.\<close>

lemma load_mem2_cases:
  assumes sz: "unat sz \<le> length data"
  shows "(\<forall>v. opera_mem_state_load_mem2 v data sz m = (0, m)) \<or>
    (\<exists>cfg n b1 b2. opera_mem_is_valid_cfg cfg \<and> n \<noteq> 0 \<and>
       length b1 = unat (opera_mem_state_ram_bytes cfg) \<and> length b2 = unat NVRAM_SIZE \<and>
       opera_mem_state_load_mem2 True data sz m = (n, m) \<and>
       opera_mem_state_load_mem2 False data sz m =
         (n, mem_installed cfg (NVRAM_update (mem_load b2) (DRAM_update (mem_load b1) m))))"
proof -
  let ?r = "opera_state_reader_init data sz"
  note d = opera_mem_state_load_mem2_def
  have r: "rok ?r" using sz by (rule rok_init)
  obtain pl rd where c: "opera_state_read_chunk ''MEM2'' ?r = (pl, rd)" by fastforce
  show ?thesis
  proof (cases pl)
    case None
    then show ?thesis by (simp add: d c)
  next
    case (Some p0)
    note pc = read_chunk_Some [OF r c [unfolded Some]]
    obtain cc p1 where 1: "opera_state_read_u8 p0 = (cc, p1)" by fastforce
    show ?thesis
    proof (cases cc)
      case None
      then show ?thesis using Some by (simp add: d c 1)
    next
      case cSome: (Some cfg8)
      obtain rb p2 where 2: "opera_state_read_u32 p1 = (rb, p2)" by fastforce
      let ?cfg = "ucast cfg8 :: u32" and ?n = "opera_state_reader_used rd"
      show ?thesis
      proof (cases "opera_mem_is_valid_cfg ?cfg \<and> rb = Some (opera_mem_state_ram_bytes ?cfg) \<and>
          \<not> opera_mem_state_ram_bytes ?cfg > MAX_HIRES_RAM_SIZE \<and>
          opera_state_reader_remaining p2 = opera_mem_state_ram_bytes ?cfg + NVRAM_SIZE")
        case False
        then have "opera_mem_state_load_mem2 v data sz m = (0, m)" for v
          using Some cSome by (cases rb) (auto simp: d c 1 2 Let_def)
        then show ?thesis by blast
      next
        case True
        let ?b = "opera_mem_state_ram_bytes ?cfg"
        have p1: "rok p1" using pc 1 cSome by (auto intro: rok_u8)
        have p2: "rok p2" using p1 2 True by (auto intro: rok_u32)
        have "unat (?b + NVRAM_SIZE) = unat ?b + unat NVRAM_SIZE"
          using True by (intro unat_add_nowrap) (simp add: word_less_nat_alt)
        then have l: "length (rest p2) = unat ?b + unat NVRAM_SIZE"
          using remaining_rest [OF p2] True by simp
        let ?p3 = "radv p2 (unat ?b)"
        have p3: "rok ?p3" "rest ?p3 = drop (unat ?b) (rest p2)"
          using p2 l by (simp_all add: rok_radv rest_radv)
        have i1: "read_into DRAM_update ?b (m, p2) =
            (True, DRAM_update (mem_load (take (unat ?b) (rest p2))) m, ?p3)"
          using l by (intro read_into_ok [OF p2]) simp
        have i2: "read_into NVRAM_update NVRAM_SIZE (m', ?p3) =
            (True, NVRAM_update (mem_load (take (unat NVRAM_SIZE) (rest ?p3))) m',
             radv ?p3 (unat NVRAM_SIZE))" for m'
          using l p3(2) by (intro read_into_ok [OF p3(1)]) simp
        have f: "opera_state_reader_finished (radv ?p3 (unat NVRAM_SIZE))"
          using p3 l by (simp add: finished_iff rok_radv rest_radv)
        have n0: "?n \<noteq> 0" using pc by (auto simp: opera_state_reader_used_def)
        obtain p4 where s: "opera_state_skip_bytes (opera_state_reader_remaining p2) p2 = (True, p4)"
          "opera_state_reader_finished p4" using skip_ok [OF p2] by blast
        have t: "opera_mem_state_load_mem2 True data sz m = (?n, m)"
          using True Some cSome s by (simp add: d c 1 2 Let_def)
        have w: "opera_mem_state_load_mem2 False data sz m = (?n, mem_installed ?cfg
           (NVRAM_update (mem_load (take (unat NVRAM_SIZE) (rest ?p3)))
             (DRAM_update (mem_load (take (unat ?b) (rest p2))) m)))"
          using True Some cSome f
          by (simp add: d c 1 2 i1 i2 [simplified] mem_installed_def Let_def)
        show ?thesis
          using True n0 t w l p3(2) by (intro disjI2 exI [of _ ?cfg] exI [of _ ?n]
              exI [of _ "take (unat ?b) (rest p2)"]
              exI [of _ "take (unat NVRAM_SIZE) (rest ?p3)"]) simp
      qed
    qed
  qed
qed

text \<open>The older \<open>MEM\<close> chunk carries the whole allocation and both ROMs.\<close>

lemma read_into_next:
  assumes "rok r" "length (rest r) = unat n + k"
  shows "read_into upd n (m, r) = (True, upd (mem_load (take (unat n) (rest r))) m, radv r (unat n)) \<and>
    rok (radv r (unat n)) \<and> length (rest (radv r (unat n))) = k"
  using assms by (simp add: read_into_ok rok_radv rest_radv)

lemma load_mem_cases:
  assumes sz: "unat sz \<le> length data"
  shows "(\<forall>v. opera_mem_state_load_mem v data sz m = (0, m)) \<or>
    (\<exists>cfg n b1 b2 b3 b4. opera_mem_is_valid_cfg cfg \<and> n \<noteq> 0 \<and>
       opera_mem_state_load_mem True data sz m = (n, m) \<and>
       opera_mem_state_load_mem False data sz m =
         (n, mem_installed cfg (NVRAM_update (mem_load b4) (ROM2_update (mem_load b3)
              (ROM1_update (mem_load b2) (DRAM_update (mem_load b1) m))))))"
proof -
  let ?r = "opera_state_reader_init data sz"
  note d = opera_mem_state_load_mem_def
  have r: "rok ?r" using sz by (rule rok_init)
  obtain pl rd where c: "opera_state_read_chunk ''MEM'' ?r = (pl, rd)" by fastforce
  show ?thesis
  proof (cases pl)
    case None
    then show ?thesis by (simp add: d c)
  next
    case (Some p0)
    note pc = read_chunk_Some [OF r c [unfolded Some]]
    obtain cc p1 where 1: "opera_state_read_u8 p0 = (cc, p1)" by fastforce
    show ?thesis
    proof (cases "\<exists>x. cc = Some x \<and> opera_mem_is_valid_cfg (ucast x) \<and> opera_state_reader_remaining p1 =
        MAX_HIRES_RAM_SIZE + ROM1_SIZE + ROM2_SIZE + NVRAM_SIZE")
      case False
      then have "opera_mem_state_load_mem v data sz m = (0, m)" for v
        using Some by (cases cc) (auto simp: d c 1 Let_def)
      then show ?thesis by blast
    next
      case True
      then obtain x where x: "cc = Some x" "opera_mem_is_valid_cfg (ucast x)"
        "opera_state_reader_remaining p1 = 25198592" by auto
      have p1: "rok p1" using pc 1 x(1) by (auto intro: rok_u8)
      have l: "length (rest p1) = unat (23068672 :: u32) + (1048576 + (1048576 + 32768))"
        using remaining_rest [OF p1] x(3) by simp
      note s1 = read_into_next [OF p1 l, of DRAM_update m]
      let ?p2 = "radv p1 (unat (23068672 :: u32))"
      have l2: "length (rest ?p2) = unat (1048576 :: u32) + (1048576 + 32768)" using s1 by simp
      note s2 = read_into_next [OF conjunct1 [OF conjunct2 [OF s1]] l2, of ROM1_update]
      let ?p3 = "radv ?p2 (unat (1048576 :: u32))"
      have l3: "length (rest ?p3) = unat (1048576 :: u32) + 32768" using s2 by simp
      note s3 = read_into_next [OF conjunct1 [OF conjunct2 [OF s2]] l3, of ROM2_update]
      let ?p4 = "radv ?p3 (unat (1048576 :: u32))"
      have l4: "length (rest ?p4) = unat (32768 :: u32) + 0" using s3 by simp
      note s4 = read_into_next [OF conjunct1 [OF conjunct2 [OF s3]] l4, of NVRAM_update]
      have f: "opera_state_reader_finished (radv ?p4 (unat (32768 :: u32)))"
        using s4 by (simp add: finished_iff)
      have n0: "opera_state_reader_used rd \<noteq> 0" using pc by (auto simp: opera_state_reader_used_def)
      obtain p5 where s: "opera_state_skip_bytes (opera_state_reader_remaining p1) p1 = (True, p5)"
        "opera_state_reader_finished p5" using skip_ok [OF p1] by blast
      have t: "opera_mem_state_load_mem True data sz m = (opera_state_reader_used rd, m)"
        using Some x s by (simp add: d c 1 Let_def)
      note eqs = conjunct1 [OF s1] conjunct1 [OF s2] conjunct1 [OF s3] conjunct1 [OF s4]
      show ?thesis
        by (rule disjI2, rule exI [of _ "ucast x"], rule exI [of _ "opera_state_reader_used rd"],
            rule exI [of _ "take (unat (23068672 :: u32)) (rest p1)"],
            rule exI [of _ "take (unat (1048576 :: u32)) (rest ?p2)"],
            rule exI [of _ "take (unat (1048576 :: u32)) (rest ?p3)"],
            rule exI [of _ "take (unat (32768 :: u32)) (rest ?p4)"])
          (use Some x f n0 t in \<open>simp add: d c 1 eqs [simplified] mem_installed_def Let_def\<close>)
    qed
  qed
qed

section \<open>The layout invariant\<close>

lemma ready_buffers [simp]:
  "mem_ready (DRAM_update (mem_load b) m) = mem_ready m"
  "mem_ready (NVRAM_update (mem_load b) m) = mem_ready m"
  "mem_ready (ROM1_update (mem_load b) m) = mem_ready m"
  "mem_ready (ROM2_update (mem_load b) m) = mem_ready m"
  by (simp_all add: mem_ready_def mem_load_def)

lemma ready_installed: "mem_ready m \<Longrightarrow> opera_mem_is_valid_cfg cfg \<Longrightarrow> mem_ready (mem_installed cfg m)"
  by (simp add: mem_ready_def mem_installed_def setup_dram_vram_def Let_def)

lemma ready_setup_asserts:
  assumes "DRAM m \<noteq> None" "opera_mem_is_valid_cfg cfg" shows "setup_asserts cfg m"
proof -
  note c = cfg_sizes [OF assms(2)]
  have "unat (opera_mem_vram_size cfg * 4) = unat (opera_mem_vram_size cfg) * 4"
    using c(1) by (simp add: unat_word_ariths)
  then have "unat (opera_mem_dram_size cfg + opera_mem_vram_size cfg * 4) \<le> 23068672"
    "unat (opera_mem_dram_size cfg + opera_mem_vram_size cfg) \<le> 16777216"
    using c(1,2) by (simp_all add: unat_word_ariths)
  with assms show ?thesis by (simp add: setup_asserts_def setup_dram_vram_def Let_def word_le_nat_alt)
qed

lemma load_ready:
  assumes "mem_ready m" "unat sz \<le> length data"
  shows "mem_ready (snd (opera_mem_state_load v data sz m))"
  using load_mem2_cases [OF assms(2), of m] load_mem_cases [OF assms(2), of m] assms(1)
  by (cases v) (auto simp: opera_mem_state_load_def ready_installed)

lemma ready_load_sized [simp]:
  "mem_ready (m\<lparr>DRAM := snd (load_sized_mem nm src sz n (DRAM m))\<rparr>) = mem_ready m"
  "mem_ready (m\<lparr>ROM1 := snd (load_sized_mem nm src sz n (ROM1 m))\<rparr>) = mem_ready m"
  "mem_ready (m\<lparr>ROM2 := snd (load_sized_mem nm src sz n (ROM2 m))\<rparr>) = mem_ready m"
  "mem_ready (m\<lparr>NVRAM := snd (load_sized_mem nm src sz n (NVRAM m))\<rparr>) = mem_ready m"
  by (simp_all add: load_sized_mem_def mem_ready_def mem_load_def case_prod_unfold Let_def)

lemma load_v1_ready:
  assumes "mem_ready m" shows "mem_ready (snd (opera_mem_state_load_v1 data sz m))"
  unfolding opera_mem_state_load_v1_def Let_def case_prod_unfold
  by (simp only: if_distrib [of snd] snd_conv ready_load_sized mem_installed_def [symmetric] assms
      split: if_split) (intro impI conjI TrueI; simp only: ready_installed ready_load_sized assms de_Morgan_disj not_not)

lemma init_cases:
  assumes "mem_unset m"
  shows "(fst (opera_mem_init ok cfg m) = 0 \<and> mem_ready (snd (opera_mem_init ok cfg m))) \<or>
    (fst (opera_mem_init ok cfg m) = -1 \<and> mem_unset (snd (opera_mem_init ok cfg m)))"
proof -
  let ?cfg = "if cfg = DRAM_VRAM_UNSET then DRAM_VRAM_STOCK else cfg"
  obtain d r1 r2 n where ok: "ok = (d, r1, r2, n)" by (cases ok)
  have u: "g_MEM_CFG m = DRAM_VRAM_UNSET" using assms by (simp add: mem_unset_def)
  show ?thesis
  proof (cases "opera_mem_is_valid_cfg ?cfg \<and> d \<and> r1 \<and> r2 \<and> n")
    case True
    then have "opera_mem_init ok cfg m = (0, (opera_mem_rom_select PTR_ROM1 (setup_dram_vram ?cfg
        (m\<lparr>DRAM := Some (\<lambda>_. 0), ROM1 := Some (\<lambda>_. 0), ROM2 := Some (\<lambda>_. 0),
           NVRAM := Some (\<lambda>_. 0)\<rparr>)))\<lparr>g_MEM_CFG := ?cfg\<rparr>)"
      using u by (simp add: opera_mem_init_def ok Let_def)
    with True show ?thesis
      by (simp add: mem_ready_def opera_mem_rom_select_def setup_dram_vram_def Let_def)
  next
    case False
    have "mem_unset (opera_mem_destroy m')" for m' by (simp add: mem_unset_def opera_mem_destroy_def)
    with False u assms show ?thesis by (auto simp: opera_mem_init_def ok Let_def)
  qed
qed

text \<open>Everything the rest of the program can do to the memory component. The accessors and the
  loaders are used only while the memory is allocated, the loaders with a buffer of the size
  they are told; \<open>HIRESMODE\<close> is a global that is switched from outside.\<close>

inductive mem_step :: "memory \<Rightarrow> memory \<Rightarrow> bool" where
  init: "mem_step m (snd (opera_mem_init ok cfg m))"
| destroy: "mem_step m (opera_mem_destroy m)"
| hires: "mem_step m (m\<lparr>HIRESMODE := h\<rparr>)"
| rom_select: "mem_step m (opera_mem_rom_select rom m)"
| rom1_clear: "mem_step m (opera_mem_rom1_clear m)"
| rom2_clear: "mem_step m (opera_mem_rom2_clear m)"
| rom1_swap: "mem_step m (opera_mem_rom1_byteswap32_if_le m)"
| rom2_swap: "mem_step m (opera_mem_rom2_byteswap32_if_le m)"
| write8: "g_MEM_CFG m \<noteq> DRAM_VRAM_UNSET \<Longrightarrow> mem_step m (opera_mem_write8 a v8 m)"
| write16: "g_MEM_CFG m \<noteq> DRAM_VRAM_UNSET \<Longrightarrow> mem_step m (opera_mem_write16 a v16 m)"
| write16_base: "g_MEM_CFG m \<noteq> DRAM_VRAM_UNSET \<Longrightarrow> mem_step m (opera_mem_write16_base a v16 m)"
| write32: "g_MEM_CFG m \<noteq> DRAM_VRAM_UNSET \<Longrightarrow> mem_step m (opera_mem_write32 a v32 m)"
| load: "g_MEM_CFG m \<noteq> DRAM_VRAM_UNSET \<Longrightarrow> unat sz \<le> length data \<Longrightarrow>
    mem_step m (snd (opera_mem_state_load validating data sz m))"
| load_v1: "g_MEM_CFG m \<noteq> DRAM_VRAM_UNSET \<Longrightarrow> unat sz \<le> length data \<Longrightarrow>
    mem_step m (snd (opera_mem_state_load_v1 data sz m))"

inductive mem_reachable :: "memory \<Rightarrow> bool" where
  start: "mem_reachable mem_globals"
| step: "mem_reachable m \<Longrightarrow> mem_step m m' \<Longrightarrow> mem_reachable m'"

lemma ready_or_unset: "mem_ready m \<or> mem_unset m \<Longrightarrow> g_MEM_CFG m \<noteq> DRAM_VRAM_UNSET \<Longrightarrow> mem_ready m"
  by (auto simp: mem_unset_def)

lemma ready_cfg: "mem_ready m \<Longrightarrow> g_MEM_CFG m \<noteq> DRAM_VRAM_UNSET"
  by (auto simp: mem_ready_def opera_mem_is_valid_cfg_def)

lemma step_inv:
  assumes "mem_step m m'" "mem_ready m \<or> mem_unset m" shows "mem_ready m' \<or> mem_unset m'"
  using assms
proof (induction rule: mem_step.induct)
  case (init m ok cfg)
  then show ?case
  proof
    assume "mem_ready m"
    then show ?thesis by (simp add: opera_mem_init_def ready_cfg)
  next
    assume "mem_unset m"
    then show ?thesis using init_cases by blast
  qed
next
  case (load m sz data v)
  then show ?case using load_ready ready_or_unset by blast
next
  case (load_v1 m sz data)
  then show ?case using load_v1_ready ready_or_unset by blast
next
  case (write8 m a v8)
  then show ?case using mem8.wr_ready ready_or_unset by blast
next
  case (write16 m a v16)
  then show ?case using mem16.wr_ready ready_or_unset by blast
next
  case (write32 m a v32)
  then show ?case using mem32.wr_ready ready_or_unset by blast
next
  case (write16_base m a v16)
  then have "mem_ready m" using ready_or_unset by blast
  then show ?case by (simp add: mem_ready_def opera_mem_write16_base_def Let_def)
qed (auto simp: mem_ready_def mem_unset_def opera_mem_destroy_def opera_mem_rom_select_def
    opera_mem_rom1_clear_def opera_mem_rom2_clear_def opera_mem_rom1_byteswap32_if_le_def
    opera_mem_rom2_byteswap32_if_le_def Let_def)

section \<open>The current format\<close>

lemma length_mem_bytes [simp]: "length (mem_bytes d n) = n"
  by (simp add: mem_bytes_def)

lemma nth_mem_bytes: "i < n \<Longrightarrow> mem_bytes d n ! i = the d (of_nat i)"
  by (simp add: mem_bytes_def)

definition mem_payload :: "memory \<Rightarrow> u8 list" where
  "mem_payload m = [ucast (g_MEM_CFG m)] @ enc32 (opera_mem_state_ram_bytes (g_MEM_CFG m)) @
     mem_bytes (DRAM m) (unat (opera_mem_state_ram_bytes (g_MEM_CFG m))) @
     mem_bytes (NVRAM m) (unat NVRAM_SIZE)"

lemma emits_mem_state: "emits (mem_state_write m) (mem_payload m)"
  unfolding mem_state_write_def mem_payload_def Let_def
  by (intro emits_then emits_u8 emits_u32 emits_write_bytes wsticky_ops length_mem_bytes)

lemma ram_bytes_unat:
  assumes "opera_mem_is_valid_cfg cfg"
  shows "unat (opera_mem_state_ram_bytes cfg) =
    unat (opera_mem_dram_size cfg) + 4 * unat (opera_mem_vram_size cfg)"
  using cfg_sizes(1) [OF assms] by (simp add: opera_mem_state_ram_bytes_def unat_word_ariths)

lemma ram_bytes_le:
  "opera_mem_is_valid_cfg cfg \<Longrightarrow> unat (opera_mem_state_ram_bytes cfg) \<le> 23068672"
  using cfg_sizes(1) [of cfg] by (simp add: ram_bytes_unat)

lemma length_mem_payload:
  assumes "opera_mem_is_valid_cfg (g_MEM_CFG m)"
  shows "length (mem_payload m) = 32773 + unat (opera_mem_state_ram_bytes (g_MEM_CFG m))"
    and "opera_mem_state_payload_size m = of_nat (length (mem_payload m))"
  by (simp_all add: mem_payload_def opera_mem_state_payload_size_def)

lemma cfg_byte: "opera_mem_is_valid_cfg cfg \<Longrightarrow> ucast (ucast cfg :: u8) = cfg"
  unfolding opera_mem_is_valid_cfg_def by (elim disjE) simp_all

lemma load_mem2_image:
  assumes v: "opera_mem_is_valid_cfg (g_MEM_CFG m)" and sz: "unat sz \<le> length data"
    and d: "take (unat sz) data = chunk_name ''MEM2'' @ enc32 (opera_mem_state_payload_size m) @
      mem_payload m @ ts"
  shows "opera_mem_state_load_mem2 False data sz cur = (of_nat (8 + length (mem_payload m)),
     mem_installed (g_MEM_CFG m)
       (NVRAM_update (mem_load (mem_bytes (NVRAM m) (unat NVRAM_SIZE)))
         (DRAM_update (mem_load (mem_bytes (DRAM m) (unat (opera_mem_state_ram_bytes (g_MEM_CFG m))))) cur)))"
proof -
  let ?r = "opera_state_reader_init data sz" and ?c = "g_MEM_CFG m"
  let ?b = "opera_mem_state_ram_bytes (g_MEM_CFG m)"
  note L = length_mem_payload [OF v]
  have r: "rok ?r" using sz by (rule rok_init)
  have n: "length (mem_payload m) = unat (opera_mem_state_payload_size m)"
    using ram_bytes_le [OF v] unfolding L(2) by (simp add: L(1) unat_of_nat unat_word_ariths)
  obtain p where c: "opera_state_read_chunk ''MEM2'' ?r = (Some p, radv ?r (8 + length (mem_payload m)))"
    and p: "rok p" "rest p = mem_payload m"
    using read_chunk_consumes [OF r, of "''MEM2''" _ "mem_payload m" ts] d n
    by (auto simp: rest_init)
  let ?b1 = "mem_bytes (DRAM m) (unat ?b)" and ?b2 = "mem_bytes (NVRAM m) (unat NVRAM_SIZE)"
  have p1: "rok (radv p 1)" "rest (radv p 1) = enc32 ?b @ ?b1 @ ?b2"
    using p by (simp_all add: rok_radv rest_radv mem_payload_def)
  have 1: "opera_state_read_u8 p = (Some (ucast ?c), radv p 1)"
    using consumesD [OF consumes_u8 p(1)] p(2) by (simp add: mem_payload_def)
  have 2: "opera_state_read_u32 (radv p 1) = (Some ?b, radv p 5)"
    using consumesD [OF consumes_u32 p1] by (simp add: radv_radv)
  have p2: "rok (radv p 5)" "rest (radv p 5) = ?b1 @ ?b2"
    using p by (simp_all add: rok_radv rest_radv mem_payload_def)
  have b: "\<not> 23068672 < ?b" using ram_bytes_le [OF v] by (simp add: word_less_nat_alt)
  have "unat (opera_state_reader_remaining (radv p 5)) = unat (?b + NVRAM_SIZE)"
    using remaining_rest [OF p2(1)] p2(2) ram_bytes_le [OF v] by (simp add: unat_word_ariths)
  then have rem: "opera_state_reader_remaining (radv p 5) = ?b + 32768"
    by (simp add: word_unat_eq_iff)
  have l: "length (rest (radv p 5)) = unat ?b + 32768" using p2(2) by simp
  note s1 = read_into_next [OF p2(1) l, of DRAM_update cur]
  let ?p3 = "radv (radv p 5) (unat ?b)"
  have l3: "length (rest ?p3) = unat (32768 :: u32) + 0" "rest ?p3 = ?b2"
    using p2 l by (simp_all add: rest_radv)
  note s2 = read_into_next [OF conjunct1 [OF conjunct2 [OF s1]] l3(1), of NVRAM_update]
  have f: "opera_state_reader_finished (radv ?p3 (unat (32768 :: u32)))"
    using s2 by (simp add: finished_iff)
  have t: "take (unat ?b) (rest (radv p 5)) = ?b1" "take 32768 (rest ?p3) = ?b2"
    using p2(2) l3(2) by simp_all
  show ?thesis
    using v b rem f cfg_byte [OF v]
    by (simp add: opera_mem_state_load_mem2_def c 1 2 [unfolded One_nat_def]
        s1 s2 [simplified] t [simplified] Let_def
        mem_installed_def opera_state_reader_used_def)
      (simp add: radv_def opera_state_reader_init_def)
qed

end
