(* ===== verification/Opera_Mem_Props.thy ===== *)
theory Opera_Mem_Props
  imports Opera_Mem_State
begin

text \<open>
  The properties of the memory component: the big-endian view the accessors give of a
  word-swapped store, read over write at every width, the mirrored planes, the bounds of a
  store, the layout invariant over every run, byte swapping of the ROMs, and the saved state.
\<close>

section \<open>A stock memory for the witnesses\<close>

definition stock_mem :: memory where
  "stock_mem = (snd (opera_mem_init (True, True, True, True) DRAM_VRAM_UNSET mem_globals))\<lparr>HIRESMODE := True\<rparr>"

lemma stock_mem_simps:
  "DRAM stock_mem = Some (\<lambda>_. 0)" "NVRAM stock_mem = Some (\<lambda>_. 0)" "HIRESMODE stock_mem"
  "DRAM_SIZE stock_mem = 0x200000" "VRAM_SIZE stock_mem = 0x100000" "g_MEM_CFG stock_mem = 0x21"
  by (simp_all add: stock_mem_def opera_mem_init_def mem_globals_def opera_mem_is_valid_cfg_def
      opera_mem_rom_select_def setup_dram_vram_def opera_mem_dram_size_def opera_mem_vram_size_def)

lemma stock_mem_ready: "mem_ready stock_mem"
proof -
  have "mem_unset mem_globals" by (simp add: mem_unset_def mem_globals_def)
  moreover have "fst (opera_mem_init (True, True, True, True) DRAM_VRAM_UNSET mem_globals) \<noteq> -1"
    by (simp add: opera_mem_init_def mem_globals_def opera_mem_is_valid_cfg_def)
  ultimately have "mem_ready (snd (opera_mem_init (True, True, True, True) DRAM_VRAM_UNSET mem_globals))"
    using init_cases by blast
  then show ?thesis by (simp add: stock_mem_def mem_ready_def)
qed

section \<open>Accessors\<close>

lemma aligned4_xor3:
  assumes "aligned4 a"
  shows "a XOR 3 = a + 3" "(a + 1) XOR 3 = a + 2" "(a + 2) XOR 3 = a + 1" "(a + 3) XOR 3 = a"
proof -
  have t: "take_bit 2 a = 0" using assms by (simp only: take2_iff aligned4_def)
  show "a XOR 3 = a + 3" "(a + 1) XOR 3 = a + 2" "(a + 2) XOR 3 = a + 1" "(a + 3) XOR 3 = a"
    using swz_add(2) [OF t, of 0] swz_add(2) [OF t, of 1] swz_add(2) [OF t, of 2] swz_add(2) [OF t, of 3]
    by (simp_all add: ac_simps)
qed

text \<open>The accessors give the big-endian view of the console on a little-endian host: the
  32-bit read of an aligned address has the byte at the lowest address in its top eight bits,
  and likewise the 16-bit read.\<close>

theorem mem_reads_big_endian:
  assumes "aligned4 a"
  shows "opera_mem_read32 m a = le4 (opera_mem_read8 m (a + 3)) (opera_mem_read8 m (a + 2))
      (opera_mem_read8 m (a + 1)) (opera_mem_read8 m a) \<and>
    opera_mem_read16 m a = le2 (opera_mem_read8 m (a + 1)) (opera_mem_read8 m a) \<and>
    opera_mem_read16 m (a + 2) = le2 (opera_mem_read8 m (a + 3)) (opera_mem_read8 m (a + 2))"
proof -
  have t: "take_bit 2 a = 0" using assms by (simp only: take2_iff aligned4_def)
  have x: "a XOR 2 = a + 2" "(a + 2) XOR 2 = a"
    using swz_add(1) [OF t, of 0] swz_add(1) [OF t, of 2] by (simp_all add: ac_simps)
  show ?thesis
    by (simp add: opera_mem_read32_def opera_mem_read16_def opera_mem_read8_def get32_def get16_def
        aligned4_xor3 [OF assms] x add.commute [of 3 a])
qed

theorem mem_reads_big_endian_witness:
  "opera_mem_read32 stock_mem 8 = le4 (opera_mem_read8 stock_mem 11) (opera_mem_read8 stock_mem 10)
      (opera_mem_read8 stock_mem 9) (opera_mem_read8 stock_mem 8)"
  using mem_reads_big_endian [of 8 stock_mem] by (simp add: aligned4_def)

text \<open>C13. Read over write at all three widths, in every memory configuration: a store of an
  aligned unit is read back at the address and, in high-resolution mode above DRAM, at the
  three mirror addresses; every other aligned unit keeps its value.\<close>

theorem mem_read_over_write:
  assumes "mem_ready m"
  shows "opera_mem_read8 (opera_mem_write8 a v8 m) b =
      (if b \<in> planes m a then v8 else opera_mem_read8 m b) \<and>
    (aligned2 a \<longrightarrow> aligned2 b \<longrightarrow> opera_mem_read16 (opera_mem_write16 a v16 m) b =
      (if b \<in> planes m a then v16 else opera_mem_read16 m b)) \<and>
    (aligned4 a \<longrightarrow> aligned4 b \<longrightarrow> opera_mem_read32 (opera_mem_write32 a v32 m) b =
      (if b \<in> planes m a then v32 else opera_mem_read32 m b))"
  using mem8.rd_wr mem16.rd_wr mem32.rd_wr assms by auto

theorem mem_read_over_write_witness:
  "opera_mem_read32 (opera_mem_write32 0x200010 0xCAFEF00D stock_mem) 0x300010 = 0xCAFEF00D \<and>
   opera_mem_read16 (opera_mem_write16 0x200010 0xCAFE stock_mem) 0x200012 = 0 \<and>
   opera_mem_read8 (opera_mem_write8 0x10 0xCA stock_mem) 0x10 = 0xCA"
proof -
  have z: "opera_mem_read16 stock_mem 0x200012 = 0"
    by (simp add: opera_mem_read16_def dram_def stock_mem_simps get16_def le2_def)
  show ?thesis
    using mem_read_over_write [OF stock_mem_ready, of "0x200010" 0 "0x300010" 0 "0xCAFEF00D"]
      mem_read_over_write [OF stock_mem_ready, of "0x200010" 0 "0x200012" "0xCAFE" 0]
      mem_read_over_write [OF stock_mem_ready, of "0x10" "0xCA" "0x10" 0 0] z
    by (simp add: planes_def stock_mem_simps aligned2_def aligned4_def)
qed



lemma set_frame:
  fixes x p H :: u32
  assumes "\<not> unat x < unat H"
  shows "unat p < unat H \<Longrightarrow> (d(p := v8)) x = d x"
    and "unat p + 2 \<le> unat H \<Longrightarrow> set16 d p v16 x = d x"
    and "unat p + 4 \<le> unat H \<Longrightarrow> set32 d p v32 x = d x"
proof -
  have n: "x \<noteq> p + i" if "unat p + unat i < unat H" for i
    using assms that unat_u32_lt [of H] by (auto simp: unat_add_nowrap)
  show "unat p < unat H \<Longrightarrow> (d(p := v8)) x = d x" using assms by auto
  show "unat p + 2 \<le> unat H \<Longrightarrow> set16 d p v16 x = d x"
    using n [of 0] n [of 1] by (simp add: set16_def)
  show "unat p + 4 \<le> unat H \<Longrightarrow> set32 d p v32 x = d x"
    using n [of 0] n [of 1] n [of 2] n [of 3] by (simp add: set32_def)
qed

lemma ready_unat:
  assumes "mem_ready m"
  shows "unat (RAM_SIZE m) = unat (DRAM_SIZE m) + unat (VRAM_SIZE m)"
    and "unat (HIRES_RAM_SIZE m) = unat (DRAM_SIZE m) + 4 * unat (VRAM_SIZE m)"
    and "take_bit 2 (RAM_SIZE m) = 0"
proof -
  note z = ready_sizes [OF assms]
  have f: "RAM_SIZE m = DRAM_SIZE m + VRAM_SIZE m" "HIRES_RAM_SIZE m = DRAM_SIZE m + VRAM_SIZE m * 4"
    using assms by (simp_all add: mem_ready_def)
  show "unat (RAM_SIZE m) = unat (DRAM_SIZE m) + unat (VRAM_SIZE m)"
    "unat (HIRES_RAM_SIZE m) = unat (DRAM_SIZE m) + 4 * unat (VRAM_SIZE m)"
    using z(1) by (simp_all add: f unat_word_ariths)
  show "take_bit 2 (RAM_SIZE m) = 0" using take2_add [OF z(3), of "DRAM_SIZE m"] z(2) f(1) by simp
qed

lemma planes_bound:
  assumes m: "mem_ready m" and a: "unat a + w \<le> unat (RAM_SIZE m)" "0 < w" and p: "p \<in> planes m a"
  shows "unat p + w \<le> unat (HIRES_RAM_SIZE m)"
proof (cases "HIRESMODE m \<and> \<not> a < DRAM_SIZE m")
  case False
  then show ?thesis using p a ready_unat [OF m] by (auto simp: planes_def split: if_splits)
next
  case True
  then have v: "in_vram m a" using a ready_unat(1) [OF m] by (simp add: in_vram_def word_less_nat_alt)
  from True p have "p \<in> (\<lambda>k. a + of_nat k * VRAM_SIZE m) ` {0, 1, 2, 3}" by (simp add: planes_def)
  then obtain k where k: "k \<in> {0, 1, 2, 3}" "p = a + of_nat k * VRAM_SIZE m" by (rule imageE)
  have "k < 4" using k(1) by auto
  then have "unat p = unat a + k * unat (VRAM_SIZE m)" using plane_unat [OF m v] k(2) by simp
  moreover have "k * unat (VRAM_SIZE m) \<le> 3 * unat (VRAM_SIZE m)"
    using \<open>k < 4\<close> by (intro mult_right_mono) simp_all
  ultimately show ?thesis using a(1) ready_unat(1,2) [OF m] by linarith
qed

lemma write_frame:
  fixes H :: u32
  assumes "\<And>p. p \<in> planes m q \<Longrightarrow> unat p + w \<le> unat H" and "\<not> unat x < unat H"
  shows "w = 1 \<Longrightarrow> q = a XOR 3 \<Longrightarrow> dram (opera_mem_write8 a v8 m) x = dram m x"
    and "w = 2 \<Longrightarrow> q = a XOR 2 \<Longrightarrow> dram (opera_mem_write16 a v16 m) x = dram m x"
    and "w = 4 \<Longrightarrow> q = a \<Longrightarrow> dram (opera_mem_write32 a v32 m) x = dram m x"
proof -
  have p: "unat q + w \<le> unat H"
    "HIRESMODE m \<and> \<not> q < DRAM_SIZE m \<Longrightarrow> unat (q + VRAM_SIZE m) + w \<le> unat H \<and>
      unat (q + 2 * VRAM_SIZE m) + w \<le> unat H \<and> unat (q + 3 * VRAM_SIZE m) + w \<le> unat H"
    using assms(1) [of q] assms(1) [of "q + VRAM_SIZE m"] assms(1) [of "q + 2 * VRAM_SIZE m"]
      assms(1) [of "q + 3 * VRAM_SIZE m"] by (auto simp: planes_def)
  note f = set_frame [OF assms(2)]
  show "w = 1 \<Longrightarrow> q = a XOR 3 \<Longrightarrow> dram (opera_mem_write8 a v8 m) x = dram m x"
    using p assms(2) by (cases "HIRESMODE m \<and> \<not> q < DRAM_SIZE m")
      (auto simp: opera_mem_write8_def Let_def dram_def)
  show "w = 2 \<Longrightarrow> q = a XOR 2 \<Longrightarrow> dram (opera_mem_write16 a v16 m) x = dram m x"
    using p by (auto simp: opera_mem_write16_def Let_def dram_def f)
  show "w = 4 \<Longrightarrow> q = a \<Longrightarrow> dram (opera_mem_write32 a v32 m) x = dram m x"
    using p by (auto simp: opera_mem_write32_def Let_def dram_def f)
qed

text \<open>C37. Stores stay inside the allocation: in every memory configuration and both resolution
  modes, a store of any width whose unit lies below \<open>RAM_SIZE\<close> changes only bytes below
  \<open>HIRES_RAM_SIZE\<close>, which is at most the \<open>MAX_HIRES_RAM_SIZE\<close> bytes that
  \<open>opera_mem_init\<close> allocates.\<close>

theorem mem_store_in_bounds:
  assumes m: "mem_ready m" and x: "\<not> unat x < unat (HIRES_RAM_SIZE m)"
  shows "unat (HIRES_RAM_SIZE m) \<le> unat MAX_HIRES_RAM_SIZE \<and>
    (unat a < unat (RAM_SIZE m) \<longrightarrow> dram (opera_mem_write8 a v8 m) x = dram m x) \<and>
    (aligned2 a \<longrightarrow> unat a < unat (RAM_SIZE m) \<longrightarrow> dram (opera_mem_write16 a v16 m) x = dram m x) \<and>
    (aligned4 a \<longrightarrow> unat a < unat (RAM_SIZE m) \<longrightarrow> dram (opera_mem_write32 a v32 m) x = dram m x)"
proof (intro conjI impI)
  note u = ready_unat [OF m] and z = ready_sizes [OF m]
  have even: "unat (RAM_SIZE m) mod 4 = 0" using u(3) by (simp only: take2_iff)
  show "unat (HIRES_RAM_SIZE m) \<le> unat MAX_HIRES_RAM_SIZE" using u(2) z(1) by simp
  show "dram (opera_mem_write8 a v8 m) x = dram m x" if a: "unat a < unat (RAM_SIZE m)"
  proof -
    have "a XOR 3 < RAM_SIZE m" using less_xor [OF take2_k(3) u(3), of a] a by (simp add: word_less_nat_alt)
    then show ?thesis
      using planes_bound [OF m, of "a XOR 3" 1] by (intro write_frame(1) [OF _ x]) (auto simp: word_less_nat_alt)
  qed
  show "dram (opera_mem_write16 a v16 m) x = dram m x" if "aligned2 a" "unat a < unat (RAM_SIZE m)"
  proof -
    have "a XOR 2 < RAM_SIZE m" using less_xor [OF take2_k(2) u(3), of a] that by (simp add: word_less_nat_alt)
    moreover have "unat (a XOR 2) mod 2 = 0" using that(1) aligned2_xor [of a] by (simp add: aligned2_def)
    ultimately have "unat (a XOR 2) + 2 \<le> unat (RAM_SIZE m)"
      using even by (simp add: word_less_nat_alt) presburger
    then show ?thesis
      using planes_bound [OF m, of "a XOR 2" 2] by (intro write_frame(2) [OF _ x]) auto
  qed
  show "dram (opera_mem_write32 a v32 m) x = dram m x" if "aligned4 a" "unat a < unat (RAM_SIZE m)"
  proof -
    have "unat a + 4 \<le> unat (RAM_SIZE m)" using that even unfolding aligned4_def by presburger
    then show ?thesis
      using planes_bound [OF m, of a 4] by (intro write_frame(3) [OF _ x]) auto
  qed
qed

theorem mem_store_in_bounds_witness:
  "unat (HIRES_RAM_SIZE stock_mem) \<le> unat MAX_HIRES_RAM_SIZE \<and>
   dram (opera_mem_write32 0x2FFFFC 0xFFFFFFFF stock_mem) 0x600000 = 0"
  using mem_store_in_bounds [OF stock_mem_ready, of "0x600000" "0x2FFFFC" 0 0 "0xFFFFFFFF"]
  by (simp add: ready_unat [OF stock_mem_ready] stock_mem_simps aligned4_def dram_def)

section \<open>Life cycle\<close>

text \<open>C38. From program start, after any sequence of initialisation, destruction, stores, ROM
  operations, resolution switches and state loads (accepted or rejected), the memory is either
  not allocated at all or completely allocated, with a valid configuration and every size and
  the VRAM pointer as that configuration says; and then the four assertions of
  \<open>_setup_dram_vram\<close> hold for it.\<close>

theorem mem_reachable_layout:
  assumes "mem_reachable m"
  shows "mem_unset m \<or> (mem_ready m \<and> setup_asserts (g_MEM_CFG m) m)"
proof -
  have "mem_ready m \<or> mem_unset m"
    using assms
  proof (induction rule: mem_reachable.induct)
    case start
    then show ?case by (simp add: mem_unset_def mem_globals_def)
  next
    case (step m m')
    then show ?case using step_inv by blast
  qed
  then show ?thesis using ready_setup_asserts [of m "g_MEM_CFG m"] by (auto simp: mem_ready_def)
qed

theorem mem_reachable_layout_witness:
  "mem_unset stock_mem \<or> (mem_ready stock_mem \<and> setup_asserts (g_MEM_CFG stock_mem) stock_mem)"
proof (rule mem_reachable_layout)
  show "mem_reachable stock_mem"
    unfolding stock_mem_def
    by (intro mem_reachable.step [OF mem_reachable.step [OF mem_reachable.start mem_step.init] mem_step.hires])
qed

section \<open>Byte swapping\<close>

lemma byte_masks:
  "(0xFF000000 :: u32) = push_bit 24 (mask 8)" "(0x00FF0000 :: u32) = push_bit 16 (mask 8)"
  "(0x0000FF00 :: u32) = push_bit 8 (mask 8)" "(0x000000FF :: u32) = mask 8"
  by (simp_all add: mask_eq_exp_minus_1)

lemma bit_ucast_u8: "bit (ucast (b :: u8) :: u32) n \<longleftrightarrow> n < 8 \<and> bit b n"
  by (auto simp: bit_simps dest: bit_imp_le_length)

lemma swap32_bytes: "SWAP32 (le4 a b c d) = le4 d c b a"
proof (rule bit_word_eqI)
  fix n assume "n < LENGTH(32)"
  then consider "n < 8" | "8 \<le> n" "n < 16" | "16 \<le> n" "n < 24" | "24 \<le> n" "n < 32"
    by fastforce
  then show "bit (SWAP32 (le4 a b c d)) n = bit (le4 d c b a) n"
    unfolding SWAP32_def le4_def byte_masks
    by cases (simp_all add: bit_or_iff bit_and_iff bit_push_bit_iff bit_drop_bit_eq bit_mask_iff
        bit_ucast_u8, auto)
qed

lemma swap_word:
  assumes "aligned4 a"
  shows "set32 d a (SWAP32 (get32 d a)) x =
    (if x \<in> {a, a + 1, a + 2, a + 3} then d (x XOR 3) else d x)"
  by (auto simp: set32_def get32_def swap32_bytes aligned4_xor3 [OF assms] byte_of_le4(2) [unfolded One_nat_def])

lemma swap_array:
  "4 * n < 4294967296 \<Longrightarrow> swap32_array_if_little_endian n d =
     (\<lambda>x. if unat x < 4 * n then d (x XOR 3) else d x)"
proof (induction n)
  case 0
  then show ?case by simp
next
  case (Suc n)
  let ?a = "4 * of_nat n :: u32"
  have u: "unat ?a = 4 * n" using Suc.prems by (simp add: unat_word_ariths unat_of_nat)
  have a: "aligned4 ?a" by (simp add: aligned4_def u)
  have w: "x \<in> {?a, ?a + 1, ?a + 2, ?a + 3} \<longleftrightarrow> 4 * n \<le> unat x \<and> unat x < 4 * Suc n" for x
  proof -
    have v: "unat (?a + i) = 4 * n + unat i" if "unat i < 4" for i
      using that u Suc.prems by (simp add: unat_add_nowrap)
    have "x \<in> {?a, ?a + 1, ?a + 2, ?a + 3} \<longleftrightarrow>
        unat x = 4 * n \<or> unat x = 4 * n + 1 \<or> unat x = 4 * n + 2 \<or> unat x = 4 * n + 3"
      using v [of 1] v [of 2] v [of 3] u by (simp add: word_unat_eq_iff)
    then show ?thesis by auto
  qed
  show ?case
  proof
    fix x
    have "swap32_array_if_little_endian (Suc n) d x =
      (let d' = swap32_array_if_little_endian n d in
       if 4 * n \<le> unat x \<and> unat x < 4 * Suc n then d' (x XOR 3) else d' x)"
      using swap_word [OF a] by (simp only: swap32_array_if_little_endian.simps Let_def w)
    moreover have "unat (x XOR 3) < 4 * n \<longleftrightarrow> unat x < 4 * n"
      using less_xor [OF take2_k(3), of ?a x] u a by (simp add: word_less_nat_alt take2_iff aligned4_def)
    ultimately show "swap32_array_if_little_endian (Suc n) d x =
        (if unat x < 4 * Suc n then d (x XOR 3) else d x)"
      using Suc by (auto simp: Let_def)
  qed
qed

text \<open>Byte swapping a ROM image reverses the bytes of each of its words and touches nothing
  past its end, so that a word of the big-endian image is read with a native load; swapping
  twice restores the image. The same holds of both ROMs.\<close>

theorem rom_byteswap:
  assumes "ROM1 m = Some d1" "ROM2 m = Some d2"
  shows "ROM1 (opera_mem_rom1_byteswap32_if_le m) =
      Some (\<lambda>x. if unat x < unat ROM1_SIZE then d1 (x XOR 3) else d1 x) \<and>
    ROM2 (opera_mem_rom2_byteswap32_if_le m) =
      Some (\<lambda>x. if unat x < unat ROM2_SIZE then d2 (x XOR 3) else d2 x) \<and>
    opera_mem_rom1_byteswap32_if_le (opera_mem_rom1_byteswap32_if_le m) = m \<and>
    opera_mem_rom2_byteswap32_if_le (opera_mem_rom2_byteswap32_if_le m) = m"
proof -
  have e: "swap32_array_if_little_endian 262144 d =
      (\<lambda>x. if unat x < 1048576 then d (x XOR 3) else d x)" for d
    using swap_array [of 262144 d] by simp
  have l: "unat (x XOR 3) < 1048576 \<longleftrightarrow> unat x < 1048576" for x :: u32
    using less_xor [OF take2_k(3), of "0x100000" x] by (simp add: word_less_nat_alt)
  have i: "swap32_array_if_little_endian 262144 (swap32_array_if_little_endian 262144 d) = d" for d
    by (auto simp: e l fun_eq_iff xor.assoc)
  show ?thesis
    using assms by (simp add: opera_mem_rom1_byteswap32_if_le_def opera_mem_rom2_byteswap32_if_le_def i)
      (simp add: e)
qed

theorem rom_byteswap_witness:
  "ROM1 (opera_mem_rom1_byteswap32_if_le (stock_mem\<lparr>ROM1 := Some ucast, ROM2 := Some ucast\<rparr>)) =
     Some (\<lambda>x. if unat x < unat ROM1_SIZE then ucast (x XOR 3) else ucast x)"
  using rom_byteswap [of "stock_mem\<lparr>ROM1 := Some ucast, ROM2 := Some ucast\<rparr>"] by simp

section \<open>Saved state\<close>

lemma mem_state_saved:
  assumes v: "opera_mem_is_valid_cfg (g_MEM_CFG m)"
  shows "opera_mem_state_size m = of_nat (8 + length (mem_payload m))"
    and "unat (opera_mem_state_size m) = 8 + length (mem_payload m)"
    and "unat (opera_mem_state_size m) \<le> length buf \<Longrightarrow> opera_mem_state_save m buf =
      (of_nat (8 + length (mem_payload m)), chunk_name ''MEM2'' @
       enc32 (opera_mem_state_payload_size m) @ mem_payload m @ drop (8 + length (mem_payload m)) buf)"
proof -
  let ?L = "length (mem_payload m)"
  note L = length_mem_payload [OF v] and B = ram_bytes_le [OF v]
  have big: "?L < 4294967288" using B by (simp add: L(1))
  show sz: "opera_mem_state_size m = of_nat (8 + ?L)"
    by (simp add: opera_mem_state_size_def opera_state_chunk_size_def opera_state_save_size_def
        opera_state_chunk_header_size_def L(2))
  show usz: "unat (opera_mem_state_size m) = 8 + ?L"
    unfolding sz using big by (intro unat_of_nat_u32) simp
  show "opera_mem_state_save m buf = (of_nat (8 + ?L), chunk_name ''MEM2'' @
      enc32 (opera_mem_state_payload_size m) @ mem_payload m @ drop (8 + ?L) buf)"
    if "unat (opera_mem_state_size m) \<le> length buf"
    unfolding opera_mem_state_save_def L(2)
    using that usz by (intro save_chunk_emits emits_mem_state big) simp_all
qed

text \<open>The current state format round-trips: saving an allocated memory into a large enough
  buffer reports the announced size, and loading that buffer into any allocated memory accepts
  it, restores every byte of RAM (all planes) and of NVRAM, and leaves the memory laid out as
  the saved one.\<close>

theorem mem_state_roundtrip:
  assumes m: "mem_ready m" and cur: "mem_ready cur"
    and buf: "unat (opera_mem_state_size m) \<le> length buf"
  shows "fst (opera_mem_state_save m buf) = opera_mem_state_size m \<and>
    (\<exists>m'. opera_mem_state_load False (snd (opera_mem_state_save m buf)) (opera_mem_state_size m) cur =
        (opera_mem_state_size m, m') \<and>
      mem_ready m' \<and> g_MEM_CFG m' = g_MEM_CFG m \<and> DRAM_SIZE m' = DRAM_SIZE m \<and>
      VRAM_SIZE m' = VRAM_SIZE m \<and>
      (\<forall>a. unat a < unat (HIRES_RAM_SIZE m) \<longrightarrow> dram m' a = dram m a) \<and>
      (\<forall>a. unat a < unat NVRAM_SIZE \<longrightarrow> the (NVRAM m') a = the (NVRAM m) a))"
proof -
  have v: "opera_mem_is_valid_cfg (g_MEM_CFG m)" using m by (simp add: mem_ready_def)
  let ?b = "opera_mem_state_ram_bytes (g_MEM_CFG m)" and ?L = "length (mem_payload m)"
  note sz = mem_state_saved(1) [OF v] and usz = mem_state_saved(2) [OF v]
    and sv = mem_state_saved(3) [OF v buf]
  let ?buf = "snd (opera_mem_state_save m buf)"
  have len: "8 + ?L \<le> length ?buf" using buf usz by (simp add: sv chunk_name_def c_str_def)
  have tk: "take (8 + ?L) ?buf = chunk_name ''MEM2'' @ enc32 (opera_mem_state_payload_size m) @
      mem_payload m @ []"
    by (simp add: sv length_chunk_name)
  let ?m' = "mem_installed (g_MEM_CFG m) (NVRAM_update (mem_load (mem_bytes (NVRAM m) (unat NVRAM_SIZE)))
         (DRAM_update (mem_load (mem_bytes (DRAM m) (unat ?b))) cur))"
  have ld: "opera_mem_state_load_mem2 False ?buf (opera_mem_state_size m) cur = (of_nat (8 + ?L), ?m')"
    using len tk by (intro load_mem2_image [OF v]) (simp_all only: usz)
  have "take 4 ?buf = chunk_name ''MEM2''" by (simp add: sv chunk_name_def c_str_def)
  moreover have "4 \<le> opera_mem_state_size m" using usz by (simp add: word_le_nat_alt)
  ultimately have ld': "opera_mem_state_load False ?buf (opera_mem_state_size m) cur =
      (opera_mem_state_size m, ?m')"
    using ld by (simp add: opera_mem_state_load_def sz)
  have h: "unat (HIRES_RAM_SIZE m) = unat ?b"
    using ready_unat(2) [OF m] m by (simp add: ram_bytes_unat [OF v] mem_ready_def)
  have nn: "DRAM cur \<noteq> None" "NVRAM cur \<noteq> None" using cur by (simp_all add: mem_ready_def)
  have "mem_ready ?m'" using cur v by (intro ready_installed) simp_all
  moreover have "dram ?m' a = dram m a" if "unat a < unat (HIRES_RAM_SIZE m)" for a
    using that nn h by (auto simp: dram_def mem_installed_def setup_dram_vram_def Let_def mem_load_def
        nth_mem_bytes)
  moreover have "the (NVRAM ?m') a = the (NVRAM m) a" if "unat a < unat NVRAM_SIZE" for a
    using that nn by (auto simp: mem_installed_def setup_dram_vram_def Let_def mem_load_def
        nth_mem_bytes)
  moreover have "g_MEM_CFG ?m' = g_MEM_CFG m" "DRAM_SIZE ?m' = DRAM_SIZE m" "VRAM_SIZE ?m' = VRAM_SIZE m"
    using m by (simp_all add: mem_installed_def setup_dram_vram_def Let_def mem_ready_def)
  ultimately show ?thesis using ld' sv sz by (intro conjI exI [of _ ?m']) (simp_all del: of_nat_add)
qed

theorem mem_state_roundtrip_witness:
  "fst (opera_mem_state_save stock_mem (replicate (unat (opera_mem_state_size stock_mem)) 0)) =
     opera_mem_state_size stock_mem"
  using mem_state_roundtrip [OF stock_mem_ready stock_mem_ready] by simp

text \<open>Loading memory state is all or nothing, and validating decides it: with the validating
  flag set the loader answers exactly as the real load would and changes nothing, and a load
  that answers 0 (rejection), in either mode and for either chunk format, leaves the memory
  untouched.\<close>

theorem mem_state_load_atomic:
  assumes "unat sz \<le> length data"
  shows "opera_mem_state_load True data sz m = (fst (opera_mem_state_load False data sz m), m) \<and>
    (fst (opera_mem_state_load False data sz m) = 0 \<longrightarrow> snd (opera_mem_state_load False data sz m) = m)"
  using load_mem2_cases [OF assms, of m] load_mem_cases [OF assms, of m]
  unfolding opera_mem_state_load_def by auto

theorem mem_state_load_atomic_witness:
  "snd (opera_mem_state_load False (chunk_name ''MEM2'' @ [0, 0, 0, 0]) 8 stock_mem) = stock_mem"
proof -
  have "fst (opera_mem_state_load False (chunk_name ''MEM2'' @ [0, 0, 0, 0]) 8 stock_mem) = 0"
    by code_simp
  then show ?thesis
    using mem_state_load_atomic [of 8 "chunk_name ''MEM2'' @ [0, 0, 0, 0]" stock_mem]
    by (simp add: chunk_name_def c_str_def)
qed

end
