(* ===== verification/Opera_Prng.thy ===== *)
theory Opera_Prng
  imports Opera_Prelude
begin

text \<open>
  The two pseudo random generators, \<open>src/libopera/prng16.c\<close> (the DSP's noise register) and
  \<open>src/libopera/prng32.c\<close> (CLIO's random register). A generator is a global \<open>uint32_t\<close>;
  every operation takes it and returns the result with the new value. The locale
  \<open>counter_prng\<close> is what the two share: the state is a counter that advances by an odd
  constant, and the output is a hash of the new counter.
\<close>

section \<open>The generators\<close>

definition g_PRNG16_STATE :: u32 where "g_PRNG16_STATE = 0xDEADBEEF"
definition g_PRNG32_STATE :: u32 where "g_PRNG32_STATE = 0xDEADBEEF"

definition hash16 :: "u32 \<Rightarrow> u32 \<Rightarrow> u32" where
  "hash16 input key =
     (let h = input * key in (drop_bit 16 h XOR h) AND 0xFFFF)"

definition prng16_seed :: "u32 \<Rightarrow> u32 \<Rightarrow> u32" where
  "prng16_seed seed st = seed"

definition prng16_state_get :: "u32 \<Rightarrow> u32" where
  "prng16_state_get st = st"

definition prng16_state_set :: "u32 \<Rightarrow> u32 \<Rightarrow> u32" where
  "prng16_state_set v st = v"

definition prng16 :: "u32 \<Rightarrow> u32 \<times> u32" where
  "prng16 st = (let st' = st + 0xFC15 in (hash16 st' 0x02AB, st'))"

definition splitmix32 :: "u32 \<Rightarrow> u32 \<times> u32" where
  "splitmix32 v =
     (let v' = v + 0x9e3779b9;
          z = v';
          z = (z XOR drop_bit 16 z) * 0x85ebca6b;
          z = (z XOR drop_bit 13 z) * 0xc2b2ae35
      in (z XOR drop_bit 16 z, v'))"

definition prng32_seed :: "u32 \<Rightarrow> u32 \<Rightarrow> u32" where
  "prng32_seed seed st = seed"

definition prng32_state_get :: "u32 \<Rightarrow> u32" where
  "prng32_state_get st = st"

definition prng32_state_set :: "u32 \<Rightarrow> u32 \<Rightarrow> u32" where
  "prng32_state_set v st = v"

definition prng32 :: "u32 \<Rightarrow> u32 \<times> u32" where
  "prng32 st = splitmix32 st"

text \<open>The \<open>n\<close>-th number drawn from a state, and the state it leaves.\<close>

definition draw :: "(u32 \<Rightarrow> u32 \<times> u32) \<Rightarrow> u32 \<Rightarrow> nat \<Rightarrow> u32" where
  "draw gen st n = fst (gen (((\<lambda>s. snd (gen s)) ^^ n) st))"

section \<open>Counter generators\<close>

locale counter_prng =
  fixes gen :: "u32 \<Rightarrow> u32 \<times> u32" and inc inv :: u32 and out :: "u32 \<Rightarrow> u32"
  assumes gen_eq: "gen s = (out (s + inc), s + inc)"
    and inc_inv: "inc * inv = 1"
begin

lemma state_after: "((\<lambda>s. snd (gen s)) ^^ n) s = s + of_nat n * inc"
  by (induction n) (simp_all add: gen_eq algebra_simps)

lemma counter_inj:
  assumes "of_nat m * inc = (of_nat n * inc :: u32)" "m < 4294967296" "n < 4294967296"
  shows "m = n"
proof -
  have "of_nat m * (inc * inv) = (of_nat n * (inc * inv) :: u32)"
    using assms(1) by (simp only: mult.assoc [symmetric])
  then have "unat (of_nat m :: u32) = unat (of_nat n :: u32)" by (simp add: inc_inv)
  with assms(2,3) show ?thesis by (simp add: unat_of_nat)
qed

text \<open>The counter visits every state once before it repeats.\<close>

lemma full_period:
  "bij_betw (\<lambda>n. ((\<lambda>s. snd (gen s)) ^^ n) s) {..<4294967296} UNIV"
proof -
  have i: "inj_on (\<lambda>n. s + of_nat n * inc) {..<4294967296}"
    by (rule inj_onI) (auto dest: counter_inj)
  have "(UNIV :: u32 set) = (\<lambda>n. s + of_nat n * inc) ` {..<4294967296}"
  proof (intro equalityI subsetI UNIV_I)
    fix v :: u32
    let ?n = "unat ((v - s) * inv)"
    have "of_nat ?n * inc = (v - s) * (inc * inv)" by (simp add: ac_simps)
    then have "v = s + of_nat ?n * inc" by (simp add: inc_inv)
    moreover have "?n < 4294967296" by (rule unat_u32_lt)
    ultimately show "v \<in> (\<lambda>n. s + of_nat n * inc) ` {..<4294967296}" by blast
  qed
  with i show ?thesis by (simp add: state_after bij_betw_def)
qed

lemma repeats: "((\<lambda>s. snd (gen s)) ^^ 4294967296) s = s"
proof -
  have "(of_nat 4294967296 :: u32) = 0" by (simp add: word_unat_eq_iff unat_of_nat)
  then show ?thesis by (simp only: state_after) simp
qed

lemma draw_period: "draw gen s (n + 4294967296) = draw gen s n"
  by (simp only: draw_def funpow_add o_apply repeats)

text \<open>A generator whose hash is a bijection draws every word once in a period.\<close>

lemma draw_bij:
  assumes "bij out" shows "bij_betw (draw gen s) {..<4294967296} UNIV"
proof -
  have "bij_betw (\<lambda>v. out (v + inc)) UNIV UNIV"
  proof -
    have "bij (\<lambda>v. v + inc)" by (rule bij_betw_byWitness [where f' = "\<lambda>v. v - inc"]) simp_all
    from bij_comp [OF this assms] show ?thesis by (simp add: o_def)
  qed
  from bij_betw_trans [OF full_period this] show ?thesis
    by (simp add: draw_def gen_eq o_def cong: bij_betw_cong)
qed

end

interpretation p16: counter_prng prng16 "0xFC15" "0xA18CF33D" "\<lambda>s. hash16 s 0x02AB"
  by unfold_locales (simp_all add: prng16_def Let_def)

section \<open>The splitmix hash is a bijection\<close>

definition mix32 :: "u32 \<Rightarrow> u32" where
  "mix32 z = (let z = (z XOR drop_bit 16 z) * 0x85ebca6b;
      z = (z XOR drop_bit 13 z) * 0xc2b2ae35 in z XOR drop_bit 16 z)"

definition unmix32 :: "u32 \<Rightarrow> u32" where
  "unmix32 y = (let y = (y XOR drop_bit 16 y) * 0x7ed1b41d;
      y = (y XOR drop_bit 13 y XOR drop_bit 26 y) * 0xa5cb9243 in y XOR drop_bit 16 y)"

interpretation p32: counter_prng prng32 "0x9e3779b9" "0x144cbc89" mix32
  by unfold_locales (simp_all add: prng32_def splitmix32_def mix32_def Let_def)

lemma drop_bit_all: "LENGTH('a) \<le> n \<Longrightarrow> drop_bit n w = 0" for w :: "'a::len word"
  by (rule bit_word_eqI) (auto simp: bit_simps dest: bit_imp_le_length)

lemma unshift16: "(z XOR drop_bit 16 z) XOR drop_bit 16 (z XOR drop_bit 16 z) = z" for z :: u32
  by (simp add: drop_bit_all xor.assoc)

lemma unshift13:
  "(z XOR drop_bit 13 z) XOR drop_bit 13 (z XOR drop_bit 13 z) XOR drop_bit 26 (z XOR drop_bit 13 z) = z"
  for z :: u32
proof (rule bit_word_eqI)
  fix n assume "n < LENGTH(32)"
  then show "bit ((z XOR drop_bit 13 z) XOR drop_bit 13 (z XOR drop_bit 13 z) XOR
      drop_bit 26 (z XOR drop_bit 13 z)) n = bit z n"
    by (auto simp: bit_simps dest: bit_imp_le_length)
qed

lemma mul_inv: "c * d = 1 \<Longrightarrow> z * c * d = z" for z :: u32
  by (simp add: mult.assoc)

lemma unmix_mix: "unmix32 (mix32 z) = z"
proof -
  have c: "(0xc2b2ae35 :: u32) * 0x7ed1b41d = 1" "(0x85ebca6b :: u32) * 0xa5cb9243 = 1" by simp_all
  show ?thesis
    by (simp only: unmix32_def mix32_def Let_def unshift16 unshift13 mul_inv [OF c(1)] mul_inv [OF c(2)])
qed

lemma bij_mix32: "bij mix32"
proof -
  have "inj mix32" by (rule inj_on_inverseI [of _ unmix32]) (simp add: unmix_mix)
  then show ?thesis by (simp add: finite_UNIV_inj_surj bij_def)
qed

section \<open>Properties\<close>

text \<open>The 32-bit generator has full period: from any seed, the first \<open>2 ^ 32\<close> draws of
  \<open>prng32\<close> produce every 32-bit value exactly once.\<close>

theorem prng32_full_period:
  "bij_betw (draw prng32 (prng32_seed seed st)) {..<2 ^ 32} UNIV"
  using p32.draw_bij [OF bij_mix32] by simp

text \<open>Saving the state of the 16-bit generator with \<open>prng16_state_get\<close> after any draws and
  setting it again with \<open>prng16_state_set\<close> continues the same sequence; every draw fits in 16
  bits and the sequence repeats after \<open>2 ^ 32\<close> draws.\<close>

theorem prng16_resume:
  "draw prng16 (prng16_state_set (prng16_state_get (((\<lambda>s. snd (prng16 s)) ^^ k) st)) other) n =
     draw prng16 st (n + k) \<and>
   draw prng16 st n < 0x10000 \<and> draw prng16 st (n + 2 ^ 32) = draw prng16 st n"
proof (intro conjI)
  show "draw prng16 (prng16_state_set (prng16_state_get (((\<lambda>s. snd (prng16 s)) ^^ k) st)) other) n =
     draw prng16 st (n + k)"
    by (simp add: prng16_state_set_def prng16_state_get_def draw_def funpow_add)
  have "hash16 a b < 0x10000" for a b
    using word_and_le1 [of "drop_bit 16 (a * b) XOR (a * b)" "0xFFFF"]
    by (simp add: hash16_def Let_def word_less_nat_alt word_le_nat_alt)
  then show "draw prng16 st n < 0x10000" by (simp add: draw_def p16.gen_eq)
  show "draw prng16 st (n + 2 ^ 32) = draw prng16 st n" using p16.draw_period by simp
qed

end
