(* ===== verification/Opera_Bitop.thy ===== *)
theory Opera_Bitop
  imports Opera_Mem
begin

text \<open>
  The big-endian bit reader of \<open>src/libopera/opera_bitop.c\<close>, which the cel engine uses to
  unpack pixels. Its abstract specification is a stream of bits, most significant bit of each
  byte first, and a position in it: a read of \<open>n\<close> bits returns the number the next
  \<open>n\<close> bits of the stream spell and advances the position by \<open>n\<close>.
\<close>

record BitReaderBig =
  br_buf :: u32
  br_point :: u32
  br_bitpoint :: int
  br_bitset :: int

definition BitReaderBig_AttachBuffer :: "u32 \<Rightarrow> BitReaderBig \<Rightarrow> BitReaderBig" where
  "BitReaderBig_AttachBuffer buff r = r\<lparr>br_buf := buff, br_point := 0, br_bitpoint := 0\<rparr>"

definition BitReaderBig_Skip :: "u32 \<Rightarrow> BitReaderBig \<Rightarrow> BitReaderBig" where
  "BitReaderBig_Skip bits r =
     (let bits = bits + of_int (br_bitpoint r)
      in r\<lparr>br_point := br_point r + drop_bit 3 bits, br_bitpoint := uint (bits AND 7)\<rparr>)"

definition BitReaderBig_SetBitRate :: "u8 \<Rightarrow> BitReaderBig \<Rightarrow> BitReaderBig" where
  "BitReaderBig_SetBitRate bits r =
     (let r = r\<lparr>br_bitset := uint bits\<rparr>;
          r = (if br_bitset r > 32 then r\<lparr>br_bitset := 32\<rparr> else r)
      in if br_bitset r = 0 then r\<lparr>br_bitset := 1\<rparr> else r)"

definition mas :: "u32 list" where
  "mas = [0, 1, 3, 7, 15, 31, 63, 127, 255]"

text \<open>The \<open>while(bitcnt >= 8)\<close> loop, on \<open>retval\<close>, \<open>point\<close> and \<open>bitcnt\<close>.\<close>

function read_bytes_loop :: "memory \<Rightarrow> u32 \<Rightarrow> u32 \<Rightarrow> u32 \<Rightarrow> int \<Rightarrow> u32 \<times> u32 \<times> int" where
  "read_bytes_loop m b retval point bitcnt =
     (if bitcnt \<ge> 8
      then read_bytes_loop m b
             (push_bit 8 retval OR ucast (opera_mem_read8 m (b + point))) (point + 1) (bitcnt - 8)
      else (retval, point, bitcnt))"
  by auto
termination by (relation "measure (\<lambda>(m, b, retval, point, bitcnt). nat bitcnt)") auto

declare read_bytes_loop.simps [simp del]

definition BitReaderBig_Read :: "memory \<Rightarrow> u8 \<Rightarrow> BitReaderBig \<Rightarrow> u32 \<times> BitReaderBig" where
  "BitReaderBig_Read m bits r =
     (let retval = 0;
          r = BitReaderBig_SetBitRate bits r;
          bitcnt = br_bitset r
      in if br_buf r = 0 then (retval, r)
         else if 8 - br_bitpoint r > br_bitset r then
           (let retval = ucast (opera_mem_read8 m (br_buf r + br_point r));
                retval = drop_bit (nat (8 - br_bitpoint r - br_bitset r)) retval;
                retval = retval AND mas ! nat (br_bitset r)
            in (retval, r\<lparr>br_bitpoint := br_bitpoint r + br_bitset r\<rparr>))
         else
           (let (retval, point, bitcnt) =
                  (if br_bitpoint r \<noteq> 0
                   then (ucast (opera_mem_read8 m (br_buf r + br_point r)) AND mas ! nat (8 - br_bitpoint r),
                         br_point r + 1, bitcnt - (8 - br_bitpoint r))
                   else (retval, br_point r, bitcnt));
                (retval, point, bitcnt) = read_bytes_loop m (br_buf r) retval point bitcnt;
                retval = (if bitcnt \<noteq> 0
                          then push_bit (nat bitcnt) retval OR
                               drop_bit (nat (8 - bitcnt)) (ucast (opera_mem_read8 m (br_buf r + point)))
                          else retval)
            in (retval, r\<lparr>br_point := point, br_bitpoint := bitcnt\<rparr>)))"

section \<open>The bit stream\<close>

definition stream :: "memory \<Rightarrow> u32 \<Rightarrow> nat \<Rightarrow> bool" where
  "stream m b i = bit (opera_mem_read8 m (b + of_nat (i div 8))) (7 - i mod 8)"

definition br_pos :: "BitReaderBig \<Rightarrow> nat" where
  "br_pos r = 8 * unat (br_point r) + nat (br_bitpoint r)"

definition br_inv :: "BitReaderBig \<Rightarrow> bool" where
  "br_inv r \<longleftrightarrow> 0 \<le> br_bitpoint r \<and> br_bitpoint r < 8"

primrec bits_val :: "(nat \<Rightarrow> bool) \<Rightarrow> nat \<Rightarrow> nat \<Rightarrow> u32" where
  "bits_val f p 0 = 0"
| "bits_val f p (Suc n) = 2 * bits_val f p n + of_bool (f (p + n))"

definition bit_rate :: "u8 \<Rightarrow> nat" where
  "bit_rate bits = (if bits = 0 then 1 else min 32 (unat bits))"

lemma bits_val_add: "bits_val f p (n + k) = push_bit k (bits_val f p n) + bits_val f (p + n) k"
  by (induction k) (simp_all add: push_bit_eq_mult algebra_simps)

lemma bits_val_byte:
  assumes "i + k \<le> 8"
  shows "bits_val (stream m b) (8 * q + i) k =
    take_bit k (drop_bit (8 - i - k) (ucast (opera_mem_read8 m (b + of_nat q))))"
  using assms
proof (induction k)
  case 0
  then show ?case by simp
next
  case (Suc k)
  let ?w = "ucast (opera_mem_read8 m (b + of_nat q)) :: u32"
  have e: "(8 * q + (i + k)) div 8 = q" "(8 * q + (i + k)) mod 8 = i + k" using Suc.prems by simp_all
  have s: "stream m b (8 * q + i + k) = odd (drop_bit (8 - i - Suc k) ?w)"
    using Suc.prems by (simp add: stream_def e add.assoc bit_simps flip: bit_iff_odd_drop_bit)
      (auto dest: bit_imp_le_length)
  have h: "drop_bit (8 - i - k) ?w = drop_bit (8 - i - Suc k) ?w div 2"
  proof -
    have "8 - i - k = Suc (8 - i - Suc k)" using Suc.prems by simp
    then show ?thesis by (simp only: drop_bit_Suc drop_bit_half)
  qed
  have ih: "bits_val (stream m b) (8 * q + i) k = take_bit k (drop_bit (8 - i - Suc k) ?w div 2)"
    unfolding h [symmetric] using Suc.prems by (intro Suc.IH) simp
  have "bits_val (stream m b) (8 * q + i) (Suc k) =
      2 * take_bit k (drop_bit (8 - i - Suc k) ?w div 2) + of_bool (odd (drop_bit (8 - i - Suc k) ?w))"
    by (simp only: bits_val.simps s ih)
  then show ?case by (simp only: take_bit_Suc mod_2_eq_odd mult.commute)
qed

lemma or_disjoint: "push_bit k r OR take_bit k x = push_bit k r + take_bit k x" for r x :: u32
proof -
  have "push_bit k r AND take_bit k x = 0" by (rule bit_word_eqI) (auto simp: bit_simps)
  then show ?thesis using word_plus_and_or [of "push_bit k r" "take_bit k x"] by simp
qed

lemma push_or:
  fixes r :: u32
  assumes "k \<le> 8"
  shows "push_bit k r OR drop_bit (8 - k) (ucast (w :: u8)) = push_bit k r + take_bit k (drop_bit (8 - k) (ucast w))"
proof -
  have "drop_bit (8 - k) (ucast w :: u32) = take_bit k (drop_bit (8 - k) (ucast w))"
    using assms by (intro bit_word_eqI) (auto simp: bit_simps dest: bit_imp_le_length)
  then show ?thesis using or_disjoint [of k r "drop_bit (8 - k) (ucast w)"] by simp
qed

text \<open>The loop reads whole bytes: it appends the next \<open>8 * (n div 8)\<close> bits.\<close>

lemma loop_spec:
  "read_bytes_loop m b v (of_nat q) (int n) =
     (push_bit (8 * (n div 8)) v + bits_val (stream m b) (8 * q) (8 * (n div 8)),
      of_nat (q + n div 8), int (n mod 8))"
proof (induction n arbitrary: v q rule: less_induct)
  case (less n)
  show ?case
  proof (cases "8 \<le> n")
    case False
    then show ?thesis by (subst read_bytes_loop.simps) simp
  next
    case True
    let ?w = "opera_mem_read8 m (b + of_nat q)" and ?j = "(n - 8) div 8"
    have v: "push_bit 8 v OR ucast ?w = push_bit 8 v + bits_val (stream m b) (8 * q) 8"
      using push_or [of 8 v ?w] bits_val_byte [of 0 8 m b q] by simp
    have n: "n div 8 = Suc ?j" "n mod 8 = (n - 8) mod 8" 
      using True by (rule le_div_geq [OF zero_less_numeral], rule le_mod_geq)
    have i: "int n - 8 = int (n - 8)" using True by simp
    have "read_bytes_loop m b v (of_nat q) (int n) =
        read_bytes_loop m b (push_bit 8 v + bits_val (stream m b) (8 * q) 8) (of_nat (Suc q)) (int n - 8)"
      using True by (subst read_bytes_loop.simps) (simp add: v add.commute)
    also have "\<dots> = (push_bit (8 * ?j) (push_bit 8 v + bits_val (stream m b) (8 * q) 8) +
        bits_val (stream m b) (8 * Suc q) (8 * ?j), of_nat (Suc q + ?j), int ((n - 8) mod 8))"
      unfolding i using True by (intro less.IH) simp
    finally show ?thesis
      using bits_val_add [of "stream m b" "8 * q" 8 "8 * ?j"]
      by (simp add: n push_bit_eq_mult algebra_simps power_add)
  qed
qed

lemma set_rate: "BitReaderBig_SetBitRate bits r = r\<lparr>br_bitset := int (bit_rate bits)\<rparr>"
proof (cases "bits = 0")
  case True
  then show ?thesis by (simp add: BitReaderBig_SetBitRate_def bit_rate_def)
next
  case False
  define k where "k = unat bits"
  have "k \<noteq> 0" "uint bits = int k" "unat bits = k" using False by (simp_all add: k_def unat_eq_zero unat_gt_0)
  then show ?thesis
    using False by (simp add: BitReaderBig_SetBitRate_def bit_rate_def Let_def min_def)
qed

lemma br_sel:
  "br_buf (r\<lparr>br_bitset := x\<rparr>) = br_buf r" "br_point (r\<lparr>br_bitset := x\<rparr>) = br_point r"
  "br_bitpoint (r\<lparr>br_bitset := x\<rparr>) = br_bitpoint r" "br_bitset (r\<lparr>br_bitset := x\<rparr>) = x"
  by simp_all

lemma bit_rate_range: "1 \<le> bit_rate bits" "bit_rate bits \<le> 32"
  by (auto simp: bit_rate_def min_def unat_gt_0 Suc_le_eq)

lemma mas_mask: "k \<le> 8 \<Longrightarrow> mas ! k = mask k"
proof -
  assume "k \<le> 8"
  then have "k \<in> {0, 1, 2, 3, 4, 5, 6, 7, 8}" by auto
  then show ?thesis by (auto simp: mas_def mask_eq_exp_minus_1)
qed

lemma and_mas: "k \<le> 8 \<Longrightarrow> x AND mas ! k = take_bit k x" for x :: u32
  by (simp add: mas_mask take_bit_eq_mask)

text \<open>The part of a read after the partial first byte: whole bytes, then the top of one more.\<close>

lemma read_tail:
  assumes t: "read_bytes_loop m b v (of_nat q) (int n) = (v1, pt, c)"
  shows "(if c \<noteq> 0 then push_bit (nat c) v1 OR drop_bit (nat (8 - c)) (ucast (opera_mem_read8 m (b + pt))) else v1) =
      push_bit n v + bits_val (stream m b) (8 * q) n \<and> pt = of_nat (q + n div 8) \<and> c = int (n mod 8)"
proof -
  let ?k = "n div 8" and ?c = "n mod 8"
  have e: "v1 = push_bit (8 * ?k) v + bits_val (stream m b) (8 * q) (8 * ?k)"
    "pt = of_nat (q + ?k)" "c = int ?c"
    using t by (simp_all add: loop_spec)
  have n: "8 * ?k + ?c = n" by simp
  have l: "?c \<le> 8" by (simp add: less_imp_le)
  have "bits_val (stream m b) (8 * (q + ?k) + 0) ?c =
      take_bit ?c (drop_bit (8 - 0 - ?c) (ucast (opera_mem_read8 m (b + pt))))"
    unfolding e(2) using l by (intro bits_val_byte) simp
  then have "push_bit ?c v1 + bits_val (stream m b) (8 * q + 8 * ?k) ?c =
      push_bit ?c v1 OR drop_bit (8 - ?c) (ucast (opera_mem_read8 m (b + pt)))"
    using push_or [OF l, of v1 "opera_mem_read8 m (b + pt)"] by (simp add: algebra_simps)
  moreover have "push_bit ?c v1 + bits_val (stream m b) (8 * q + 8 * ?k) ?c =
      push_bit n v + bits_val (stream m b) (8 * q) n"
    using bits_val_add [of "stream m b" "8 * q" "8 * ?k" ?c] n
    by (simp add: e(1) push_bit_eq_mult algebra_simps) (simp flip: power_add add: n mult.commute)
  moreover have "nat (8 - c) = 8 - ?c" "nat c = ?c" using e(3) by simp_all
  ultimately show ?thesis
    using e by (cases "?c = 0") (simp_all add: push_bit_of_0)
qed

lemma read_fits:
  assumes "br_inv r" "br_buf r \<noteq> 0" "bit_rate bits < 8 - nat (br_bitpoint r)"
  shows "BitReaderBig_Read m bits r =
    (bits_val (stream m (br_buf r)) (br_pos r) (bit_rate bits),
     r\<lparr>br_bitset := int (bit_rate bits), br_bitpoint := br_bitpoint r + int (bit_rate bits)\<rparr>)"
proof -
  let ?n = "bit_rate bits" and ?i = "nat (br_bitpoint r)"
  have i: "br_bitpoint r = int ?i" using assms(1) by (simp add: br_inv_def)
  have g: "8 - br_bitpoint r > int ?n" using assms(3) i by linarith
  have k: "nat (8 - br_bitpoint r - int ?n) = 8 - ?i - ?n" using i by linarith
  have "bits_val (stream m (br_buf r)) (br_pos r) ?n =
      take_bit ?n (drop_bit (8 - ?i - ?n) (ucast (opera_mem_read8 m (br_buf r + br_point r))))"
    using bits_val_byte [of ?i ?n m "br_buf r" "unat (br_point r)"] assms(3) by (simp add: br_pos_def)
  with g k assms show ?thesis
    by (simp add: BitReaderBig_Read_def set_rate Let_def and_mas)
qed

lemma read_spans:
  assumes r: "br_inv r" "br_buf r \<noteq> 0" and n: "\<not> bit_rate bits < 8 - nat (br_bitpoint r)"
    and w: "br_pos r + bit_rate bits < 8 * 4294967296"
  shows "\<exists>r'. BitReaderBig_Read m bits r =
      (bits_val (stream m (br_buf r)) (br_pos r) (bit_rate bits), r') \<and>
    br_pos r' = br_pos r + bit_rate bits \<and> br_inv r' \<and> br_buf r' = br_buf r"
proof -
  let ?n = "bit_rate bits" and ?i = "nat (br_bitpoint r)" and ?q = "unat (br_point r)" and ?b = "br_buf r"
  define d where "d = (if ?i = 0 then 0 else 8 - ?i)"
  define q' where "q' = (if ?i = 0 then ?q else ?q + 1)"
  define v0 where "v0 = bits_val (stream m ?b) (br_pos r) d"
  have i: "br_bitpoint r = int ?i" "?i < 8" using r(1) by (auto simp: br_inv_def)
  have dn: "d \<le> ?n" and p: "br_pos r + d = 8 * q'"
    using n i(2) by (auto simp: d_def q'_def br_pos_def)
  obtain v1 pt c where L: "read_bytes_loop m ?b v0 (of_nat q') (int (?n - d)) = (v1, pt, c)"
    by (cases "read_bytes_loop m ?b v0 (of_nat q') (int (?n - d))") auto
  note t = read_tail [OF L]
  have b8: "bits_val (stream m ?b) (br_pos r) (8 - ?i) =
      take_bit (8 - ?i) (ucast (opera_mem_read8 m (?b + br_point r)))"
    using bits_val_byte [of ?i "8 - ?i" m ?b ?q] i(2) by (simp add: br_pos_def)
  have first: "(if br_bitpoint r \<noteq> 0
      then (ucast (opera_mem_read8 m (?b + br_point r)) AND mas ! nat (8 - br_bitpoint r),
            br_point r + 1, int ?n - (8 - br_bitpoint r))
      else (0, br_point r, int ?n)) = (v0, of_nat q', int (?n - d))"
  proof (cases "?i = 0")
    case True
    then show ?thesis using i by (simp add: v0_def d_def q'_def)
  next
    case False
    have "nat (8 - br_bitpoint r) = 8 - ?i" using i by linarith
    moreover have "int ?n - (8 - br_bitpoint r) = int (?n - d)" using False i dn by (simp add: d_def)
    ultimately show ?thesis
      using False i b8 by (auto simp: v0_def d_def q'_def and_mas add.commute)
  qed
  let ?r' = "r\<lparr>br_bitset := int ?n, br_point := pt, br_bitpoint := c\<rparr>"
  have val: "push_bit (?n - d) v0 + bits_val (stream m ?b) (8 * q') (?n - d) =
      bits_val (stream m ?b) (br_pos r) ?n"
    using bits_val_add [of "stream m ?b" "br_pos r" d "?n - d"] dn by (simp add: v0_def p)
  have g: "\<not> 8 - br_bitpoint r > int ?n" using n i by linarith
  have R: "BitReaderBig_Read m bits r = (bits_val (stream m ?b) (br_pos r) ?n, ?r')"
    using r(2) g
    by (simp only: BitReaderBig_Read_def set_rate Let_def br_sel if_False first
        prod.case L conjunct1 [OF t] val)
  have ps: "8 * q' + (?n - d) = br_pos r + ?n" using p dn by linarith
  have "q' + (?n - d) div 8 < 4294967296" using ps w by linarith
  then have "unat pt = q' + (?n - d) div 8"
    using conjunct1 [OF conjunct2 [OF t]] by (simp only: unat_of_nat_u32)
  then have "br_pos ?r' = br_pos r + ?n" using t ps by (simp add: br_pos_def)
  moreover have "br_inv ?r'" using t by (simp add: br_inv_def)
  ultimately show ?thesis using R by auto
qed

section \<open>Properties\<close>

lemma drop3_pos: "8 * unat (drop_bit 3 b) + unat (b AND 7) = unat b" for b :: u32
proof -
  have "unat (drop_bit 3 b) = unat b div 8" by (simp add: drop_bit_eq_div unat_div)
  moreover have "(7 :: u32) = mask 3" by (simp add: mask_eq_exp_minus_1)
  then have "b AND 7 = take_bit 3 b" by (simp add: take_bit_eq_mask)
  then have "unat (b AND 7) = unat b mod 8" by (simp add: take_bit_eq_mod unat_mod)
  ultimately show ?thesis by simp
qed

text \<open>C26. The bit reader implements the bit stream: from any position inside a byte, for every
  requested width (0 is taken as 1, anything above 32 as 32), a read returns the number spelled
  by the next bits of the big-endian stream, advances the position by exactly that many bits
  across byte boundaries, and leaves the buffer attached and the bit offset below 8.\<close>

theorem bit_read_refines_stream:
  assumes "br_inv r" "br_buf r \<noteq> 0" "br_pos r + bit_rate bits < 8 * 2 ^ 32"
  shows "\<exists>r'. BitReaderBig_Read m bits r =
      (bits_val (stream m (br_buf r)) (br_pos r) (bit_rate bits), r') \<and>
    br_pos r' = br_pos r + bit_rate bits \<and> br_inv r' \<and> br_buf r' = br_buf r"
proof (cases "bit_rate bits < 8 - nat (br_bitpoint r)")
  case True
  then show ?thesis
    using read_fits [OF assms(1,2) True, of m] assms(1) by (auto simp: br_pos_def br_inv_def)
next
  case False
  then show ?thesis using read_spans [OF assms(1,2) False] assms(3) by simp
qed

theorem bit_read_refines_stream_witness:
  "\<exists>r'. BitReaderBig_Read (mem_globals\<lparr>DRAM := Some (\<lambda>_. 0xA5)\<rparr>) 11
      \<lparr>br_buf = 4, br_point = 2, br_bitpoint = 3, br_bitset = 0\<rparr> = (0x169, r')"
proof -
  let ?r = "\<lparr>br_buf = 4, br_point = 2, br_bitpoint = 3, br_bitset = 0\<rparr>"
  let ?m = "mem_globals\<lparr>DRAM := Some (\<lambda>_. 0xA5)\<rparr>"
  have "br_inv ?r" "br_buf ?r \<noteq> 0" "br_pos ?r + bit_rate 11 < 8 * 2 ^ 32"
    by (simp_all add: br_inv_def br_pos_def bit_rate_def)
  from bit_read_refines_stream [OF this, of ?m] obtain r' where
    "BitReaderBig_Read ?m 11 ?r = (bits_val (stream ?m (br_buf ?r)) (br_pos ?r) (bit_rate 11), r')" by blast
  moreover have "bits_val (stream ?m (br_buf ?r)) (br_pos ?r) (bit_rate 11) = 0x169" by code_simp
  ultimately show ?thesis by auto
qed

text \<open>Skipping \<open>n\<close> bits moves to the same position as reading them, and attaching a buffer
  starts at its first bit.\<close>

theorem bit_skip_position:
  assumes "br_inv r" "unat n < 2 ^ 32 - 8" "unat (br_point r) + 2 ^ 29 < 2 ^ 32"
  shows "br_pos (BitReaderBig_Skip n r) = br_pos r + unat n \<and> br_inv (BitReaderBig_Skip n r) \<and>
    br_pos (BitReaderBig_AttachBuffer b r) = 0"
proof -
  let ?i = "nat (br_bitpoint r)" and ?b = "n + of_int (br_bitpoint r)"
  have i: "br_bitpoint r = int ?i" "?i < 8" using assms(1) by (auto simp: br_inv_def)
  have "(of_int (br_bitpoint r) :: u32) = of_nat ?i" by (metis i(1) of_int_of_nat_eq)
  then have b: "unat ?b = unat n + ?i"
    using assms(2) i(2) by (simp add: unat_word_ariths unat_of_nat)
  have d: "unat (drop_bit 3 ?b) = unat ?b div 8" by (simp add: drop_bit_eq_div unat_div)
  have "unat ?b div 8 \<le> 2 ^ 29" using b assms(2) i(2) by simp
  then have "unat (br_point r + drop_bit 3 ?b) = unat (br_point r) + unat (drop_bit 3 ?b)"
    using assms(3) d by (intro unat_add_nowrap) simp
  moreover have "uint (?b AND 7) = int (unat (?b AND 7))" by simp
  ultimately have "br_pos (BitReaderBig_Skip n r) = br_pos r + unat n"
    using drop3_pos [of ?b] b by (simp add: br_pos_def BitReaderBig_Skip_def Let_def)
  moreover have "uint (?b AND 7) < 8"
    using word_and_le1 [of ?b 7] by (simp add: word_le_def and.commute)
  then have "br_inv (BitReaderBig_Skip n r)"
    by (simp add: br_inv_def BitReaderBig_Skip_def Let_def)
  ultimately show ?thesis by (simp add: BitReaderBig_AttachBuffer_def br_pos_def)
qed

theorem bit_skip_position_witness:
  "br_pos (BitReaderBig_Skip 30 \<lparr>br_buf = 4, br_point = 2, br_bitpoint = 3, br_bitset = 0\<rparr>) = 49"
  using bit_skip_position [of "\<lparr>br_buf = 4, br_point = 2, br_bitpoint = 3, br_bitset = 0\<rparr>" 30]
  by (simp add: br_inv_def br_pos_def)

end
