(* ===== verification/Opera_Clock.thy ===== *)
theory Opera_Clock
  imports Opera_State_Safety
begin

text \<open>
  The system clock, \<open>src/libopera/opera_clock.c\<close>, and the video region,
  \<open>src/libopera/opera_region.c\<close>. The clock keeps the CPU frequency, a cycle counter and
  three 16.16 fixed-point accumulators (sound, scan line, timer slot), each compared with a
  cached period. \<open>int32_t\<close> fields are words read with \<open>sint\<close>; the 64-bit intermediate
  values of the period macros are 64-bit words. \<open>opera_clock_cpu_set_freq_mul\<close> and
  \<open>opera_clock_field_rate\<close> compute in floating point and are not modelled.
\<close>

section \<open>State\<close>

abbreviation (input) DEFAULT_TIMER_SLACK :: u32 where "DEFAULT_TIMER_SLACK \<equiv> 64"
abbreviation (input) DEFAULT_CPU_FREQ :: u32 where "DEFAULT_CPU_FREQ \<equiv> 12500000"
abbreviation (input) MIN_CPU_FREQ :: u32 where "MIN_CPU_FREQ \<equiv> 1000000"
abbreviation (input) SND_FREQ :: u32 where "SND_FREQ \<equiv> 44100"
abbreviation (input) M25M_FREQ :: u64 where "M25M_FREQ \<equiv> 25000000"
abbreviation (input) TIMER_SLOT_TICKS :: u64 where "TIMER_SLOT_TICKS \<equiv> 4"
abbreviation (input) TIMER_SLOT_COUNT :: u32 where "TIMER_SLOT_COUNT \<equiv> 16"
abbreviation (input) OPERA_NTSC_FIELD_SIZE :: u32 where "OPERA_NTSC_FIELD_SIZE \<equiv> 263"
abbreviation (input) OPERA_PAL_FIELD_SIZE :: u32 where "OPERA_PAL_FIELD_SIZE \<equiv> 312"
abbreviation (input) OPERA_NTSC_FIELD_RATE_1616 :: u32 where "OPERA_NTSC_FIELD_RATE_1616 \<equiv> 3928227"
abbreviation (input) OPERA_PAL_FIELD_RATE_1616 :: u32 where "OPERA_PAL_FIELD_RATE_1616 \<equiv> 3276800"

record opera_clock =
  cpu_freq :: u32
  cpu_cycles :: u64
  dsp_acc :: u32
  vdl_acc :: u32
  timer_acc :: u32
  timer_slack :: u32
  timer_slot :: u32
  timer_in_gap :: u32
  field_size :: u32
  field_rate :: u32
  cycles_per_snd :: u32
  cycles_per_scanline :: u32
  cycles_per_timer_slot :: u32
  cycles_per_timer_gap :: u32
  cycles_until_timer :: u32

definition CYCLES_PER_SND :: "u32 \<Rightarrow> u32 \<Rightarrow> u64" where
  "CYCLES_PER_SND fq fs = push_bit 16 (ucast fq) div ucast fs"

definition CYCLES_PER_SCANLINE :: "u32 \<Rightarrow> u32 \<Rightarrow> u32 \<Rightarrow> u64" where
  "CYCLES_PER_SCANLINE fq fr fs = push_bit 32 (ucast fq) div (ucast fr * ucast fs)"

definition CYCLES_PER_M25M :: "u32 \<Rightarrow> u64 \<Rightarrow> u64" where
  "CYCLES_PER_M25M fq ticks = push_bit 16 (ucast fq * ticks) div M25M_FREQ"

definition CYCLES_PER_TIMER_SLOT :: "u32 \<Rightarrow> u64" where
  "CYCLES_PER_TIMER_SLOT fq = CYCLES_PER_M25M fq TIMER_SLOT_TICKS"

definition CYCLES_PER_TIMER_GAP :: "u32 \<Rightarrow> u32 \<Rightarrow> u64" where
  "CYCLES_PER_TIMER_GAP fq slack = CYCLES_PER_M25M fq (TIMER_SLOT_TICKS + ucast slack)"

definition g_CLOCK :: opera_clock where
  "g_CLOCK = \<lparr>cpu_freq = DEFAULT_CPU_FREQ, cpu_cycles = 0, dsp_acc = 0, vdl_acc = 0, timer_acc = 0,
     timer_slack = DEFAULT_TIMER_SLACK, timer_slot = 0, timer_in_gap = 0,
     field_size = OPERA_NTSC_FIELD_SIZE, field_rate = OPERA_NTSC_FIELD_RATE_1616,
     cycles_per_snd = ucast (CYCLES_PER_SND DEFAULT_CPU_FREQ SND_FREQ),
     cycles_per_scanline = ucast (CYCLES_PER_SCANLINE DEFAULT_CPU_FREQ OPERA_NTSC_FIELD_RATE_1616
       OPERA_NTSC_FIELD_SIZE),
     cycles_per_timer_slot = ucast (CYCLES_PER_TIMER_SLOT DEFAULT_CPU_FREQ),
     cycles_per_timer_gap = ucast (CYCLES_PER_TIMER_GAP DEFAULT_CPU_FREQ DEFAULT_TIMER_SLACK),
     cycles_until_timer = ucast (CYCLES_PER_TIMER_SLOT DEFAULT_CPU_FREQ)\<rparr>"

section \<open>Operations\<close>

definition calc_cycles_per_snd :: "opera_clock \<Rightarrow> u32" where
  "calc_cycles_per_snd c = ucast (CYCLES_PER_SND (cpu_freq c) SND_FREQ)"

definition calc_cycles_per_scanline :: "opera_clock \<Rightarrow> u32" where
  "calc_cycles_per_scanline c = ucast (CYCLES_PER_SCANLINE (cpu_freq c) (field_rate c) (field_size c))"

definition calc_cycles_per_timer_slot :: "opera_clock \<Rightarrow> u32" where
  "calc_cycles_per_timer_slot c = ucast (CYCLES_PER_TIMER_SLOT (cpu_freq c))"

definition calc_cycles_per_timer_gap :: "opera_clock \<Rightarrow> u32" where
  "calc_cycles_per_timer_gap c = ucast (CYCLES_PER_TIMER_GAP (cpu_freq c) (timer_slack c))"

definition recalculate_cycles_per :: "opera_clock \<Rightarrow> opera_clock" where
  "recalculate_cycles_per c =
     (let c = c\<lparr>cycles_per_snd := calc_cycles_per_snd c\<rparr>;
          c = c\<lparr>cycles_per_scanline := calc_cycles_per_scanline c\<rparr>;
          c = c\<lparr>cycles_per_timer_slot := calc_cycles_per_timer_slot c\<rparr>;
          c = c\<lparr>cycles_per_timer_gap := calc_cycles_per_timer_gap c\<rparr>
      in c\<lparr>cycles_until_timer :=
             (if timer_in_gap c \<noteq> 0 then cycles_per_timer_gap c else cycles_per_timer_slot c)\<rparr>)"

definition opera_clock_reset :: "opera_clock \<Rightarrow> opera_clock" where
  "opera_clock_reset c =
     recalculate_cycles_per
       (c\<lparr>cpu_cycles := 0, dsp_acc := 0, vdl_acc := 0, timer_acc := 0,
          timer_slack := DEFAULT_TIMER_SLACK, timer_slot := 0, timer_in_gap := 0\<rparr>)"

definition opera_clock_cpu_set_freq :: "u32 \<Rightarrow> opera_clock \<Rightarrow> opera_clock" where
  "opera_clock_cpu_set_freq freq c =
     (let freq = (if freq < MIN_CPU_FREQ then MIN_CPU_FREQ else freq)
      in recalculate_cycles_per (c\<lparr>cpu_freq := freq\<rparr>))"

definition opera_clock_cpu_get_freq :: "opera_clock \<Rightarrow> u32" where
  "opera_clock_cpu_get_freq c = cpu_freq c"

definition opera_clock_cpu_get_default_freq :: u32 where
  "opera_clock_cpu_get_default_freq = DEFAULT_CPU_FREQ"

definition opera_clock_cpu_get_cycles :: "opera_clock \<Rightarrow> u64" where
  "opera_clock_cpu_get_cycles c = cpu_cycles c"

definition opera_clock_vdl_queued :: "opera_clock \<Rightarrow> bool \<times> opera_clock" where
  "opera_clock_vdl_queued c =
     (if sint (vdl_acc c) \<ge> sint (cycles_per_scanline c)
      then (True, c\<lparr>vdl_acc := vdl_acc c - cycles_per_scanline c\<rparr>)
      else (False, c))"

definition opera_clock_dsp_queued :: "opera_clock \<Rightarrow> bool \<times> opera_clock" where
  "opera_clock_dsp_queued c =
     (if sint (dsp_acc c) \<ge> sint (cycles_per_snd c)
      then (True, c\<lparr>dsp_acc := dsp_acc c - cycles_per_snd c\<rparr>)
      else (False, c))"

text \<open>The result is the slot stored through \<open>timer_\<close> when the call returns 1.\<close>

definition opera_clock_timer_queued :: "opera_clock \<Rightarrow> u32 option \<times> opera_clock" where
  "opera_clock_timer_queued c =
     (if sint (timer_acc c) \<ge> sint (cycles_until_timer c) then
        (let c = c\<lparr>timer_acc := timer_acc c - cycles_until_timer c\<rparr>;
             timer = timer_slot c;
             c = c\<lparr>timer_slot := timer_slot c + 1\<rparr>
         in if timer_slot c \<ge> TIMER_SLOT_COUNT
            then (Some timer, c\<lparr>timer_slot := 0, timer_in_gap := 1,
                   cycles_until_timer := cycles_per_timer_gap c\<rparr>)
            else (Some timer, c\<lparr>timer_in_gap := 0, cycles_until_timer := cycles_per_timer_slot c\<rparr>))
      else (None, c))"

definition opera_clock_push_cycles :: "u32 \<Rightarrow> opera_clock \<Rightarrow> opera_clock" where
  "opera_clock_push_cycles clks c =
     (let c = c\<lparr>cpu_cycles := cpu_cycles c + ucast clks\<rparr>;
          clks1616 = push_bit 16 clks
      in c\<lparr>dsp_acc := dsp_acc c + clks1616, vdl_acc := vdl_acc c + clks1616,
           timer_acc := timer_acc c + clks1616\<rparr>)"

definition opera_clock_region_set_ntsc :: "opera_clock \<Rightarrow> opera_clock" where
  "opera_clock_region_set_ntsc c = recalculate_cycles_per
     (c\<lparr>field_rate := OPERA_NTSC_FIELD_RATE_1616, field_size := OPERA_NTSC_FIELD_SIZE\<rparr>)"

definition opera_clock_region_set_pal :: "opera_clock \<Rightarrow> opera_clock" where
  "opera_clock_region_set_pal c = recalculate_cycles_per
     (c\<lparr>field_rate := OPERA_PAL_FIELD_RATE_1616, field_size := OPERA_PAL_FIELD_SIZE\<rparr>)"

definition opera_clock_timer_set_delay :: "u32 \<Rightarrow> opera_clock \<Rightarrow> opera_clock" where
  "opera_clock_timer_set_delay td c = recalculate_cycles_per (c\<lparr>timer_slack := td\<rparr>)"

section \<open>Saved state\<close>

definition opera_clock_state_write_payload :: "opera_clock \<Rightarrow> state_writer \<Rightarrow> bool \<times> state_writer" where
  "opera_clock_state_write_payload c =
     w_and (opera_state_write_u32 (cpu_freq c))
    (w_and (opera_state_write_u64 (cpu_cycles c))
    (w_and (opera_state_write_i32 (dsp_acc c))
    (w_and (opera_state_write_i32 (vdl_acc c))
    (w_and (opera_state_write_i32 (timer_acc c))
    (w_and (opera_state_write_u32 (timer_slack c))
    (w_and (opera_state_write_u32 (timer_slot c))
    (w_and (opera_state_write_u32 (timer_in_gap c))
    (w_and (opera_state_write_u32 (field_size c))
           (opera_state_write_u32 (field_rate c))))))))))"

definition opera_clock_state_payload_size :: "opera_clock \<Rightarrow> u32" where
  "opera_clock_state_payload_size c = payload_sizing (opera_clock_state_write_payload c)"

definition opera_clock_state_size :: "opera_clock \<Rightarrow> u32" where
  "opera_clock_state_size c =
     (let payload_size = opera_clock_state_payload_size c
      in if payload_size = 0 then 0 else opera_state_chunk_size payload_size)"

definition opera_clock_state_save :: "opera_clock \<Rightarrow> u8 list \<Rightarrow> u32 \<times> u8 list" where
  "opera_clock_state_save c buf =
     (let payload_size = opera_clock_state_payload_size c
      in if payload_size = 0 then (0, buf)
         else save_chunk ''CLCK'' payload_size (opera_clock_state_write_payload c) buf)"

definition clock_state_read :: "state_reader \<Rightarrow> opera_clock option \<times> state_reader" where
  "clock_state_read =
     r_bind opera_state_read_u32 (\<lambda>freq. r_bind opera_state_read_u64 (\<lambda>cyc.
     r_bind opera_state_read_i32 (\<lambda>dsp. r_bind opera_state_read_i32 (\<lambda>vdl.
     r_bind opera_state_read_i32 (\<lambda>tim. r_bind opera_state_read_u32 (\<lambda>slack.
     r_bind opera_state_read_u32 (\<lambda>slot. r_bind opera_state_read_u32 (\<lambda>gap.
     r_bind opera_state_read_u32 (\<lambda>fsize. r_bind opera_state_read_u32 (\<lambda>frate.
     r_return \<lparr>cpu_freq = freq, cpu_cycles = cyc, dsp_acc = dsp, vdl_acc = vdl, timer_acc = tim,
       timer_slack = slack, timer_slot = slot, timer_in_gap = gap, field_size = fsize,
       field_rate = frate, cycles_per_snd = 0, cycles_per_scanline = 0, cycles_per_timer_slot = 0,
       cycles_per_timer_gap = 0, cycles_until_timer = 0\<rparr>))))))))))"

definition clock_state_valid :: "opera_clock \<Rightarrow> bool" where
  "clock_state_valid s \<longleftrightarrow>
     \<not> (cpu_freq s < MIN_CPU_FREQ \<or> timer_slot s \<ge> TIMER_SLOT_COUNT \<or> timer_in_gap s > 1 \<or>
        field_size s = 0 \<or> field_rate s = 0)"

definition opera_clock_state_load :: "bool \<Rightarrow> u8 list \<Rightarrow> u32 \<Rightarrow> opera_clock \<Rightarrow> u32 \<times> opera_clock" where
  "opera_clock_state_load validating buf sz c =
     load_chunk ''CLCK'' clock_state_read clock_state_valid (\<lambda>s _. recalculate_cycles_per s)
       validating buf sz c"

section \<open>Region\<close>

datatype opera_region_e = OPERA_REGION_NTSC | OPERA_REGION_PAL1 | OPERA_REGION_PAL2

record opera_region =
  region :: opera_region_e
  width :: u32
  height :: u32
  scanlines :: u32
  start_scanline :: u32
  end_scanline :: u32

definition g_REGION :: opera_region where
  "g_REGION = \<lparr>region = OPERA_REGION_NTSC, width = 320, height = 240,
     scanlines = OPERA_NTSC_FIELD_SIZE, start_scanline = 21, end_scanline = 21 + 240\<rparr>"

definition opera_region_set_NTSC :: "opera_region \<times> opera_clock \<Rightarrow> opera_region \<times> opera_clock" where
  "opera_region_set_NTSC s =
     ((fst s)\<lparr>region := OPERA_REGION_NTSC, width := 320, height := 240,
        scanlines := OPERA_NTSC_FIELD_SIZE, start_scanline := 21, end_scanline := 21 + 240\<rparr>,
      opera_clock_region_set_ntsc (snd s))"

definition opera_region_set_PAL1 :: "opera_region \<times> opera_clock \<Rightarrow> opera_region \<times> opera_clock" where
  "opera_region_set_PAL1 s =
     ((fst s)\<lparr>region := OPERA_REGION_PAL1, width := 320, height := 288,
        scanlines := OPERA_PAL_FIELD_SIZE, start_scanline := 21, end_scanline := 21 + 288\<rparr>,
      opera_clock_region_set_pal (snd s))"

definition opera_region_set_PAL2 :: "opera_region \<times> opera_clock \<Rightarrow> opera_region \<times> opera_clock" where
  "opera_region_set_PAL2 s =
     ((fst s)\<lparr>region := OPERA_REGION_PAL2, width := 384, height := 288,
        scanlines := OPERA_PAL_FIELD_SIZE, start_scanline := 22, end_scanline := 22 + 288\<rparr>,
      opera_clock_region_set_pal (snd s))"

definition opera_region_get :: "opera_region \<Rightarrow> opera_region_e" where
  "opera_region_get r = region r"

definition opera_region_min_width :: u32 where "opera_region_min_width = 320"
definition opera_region_min_height :: u32 where "opera_region_min_height = 240"
definition opera_region_max_width :: u32 where "opera_region_max_width = 384"
definition opera_region_max_height :: u32 where "opera_region_max_height = 288"

end
