(* ===== verification/Opera_Clock_Props.thy ===== *)
theory Opera_Clock_Props
  imports Opera_Clock
begin

text \<open>
  The properties of the clock: its cached periods always belong to its parameters, the
  periods are the exact fixed-point quotients in the range the emulator uses, the event
  accumulators neither lose nor invent time (the locale \<open>cycle_accumulator\<close>, interpreted for
  sound samples and scan lines), the timer scan visits the sixteen slots in order and its
  loop ends, and the saved state round-trips.
\<close>

section \<open>Cached periods\<close>

definition clock_cached :: "opera_clock \<Rightarrow> bool" where
  "clock_cached c \<longleftrightarrow> cycles_per_snd c = calc_cycles_per_snd c \<and>
     cycles_per_scanline c = calc_cycles_per_scanline c \<and>
     cycles_per_timer_slot c = calc_cycles_per_timer_slot c \<and>
     cycles_per_timer_gap c = calc_cycles_per_timer_gap c \<and>
     cycles_until_timer c =
       (if timer_in_gap c \<noteq> 0 then cycles_per_timer_gap c else cycles_per_timer_slot c)"

definition clock_ok :: "opera_clock \<Rightarrow> bool" where
  "clock_ok c \<longleftrightarrow> clock_cached c \<and> clock_state_valid c"

lemmas calc_defs = calc_cycles_per_snd_def calc_cycles_per_scanline_def
  calc_cycles_per_timer_slot_def calc_cycles_per_timer_gap_def

lemma recalc_sel [clock_simps]:
  "cpu_freq (recalculate_cycles_per c) = cpu_freq c"
  "cpu_cycles (recalculate_cycles_per c) = cpu_cycles c"
  "dsp_acc (recalculate_cycles_per c) = dsp_acc c"
  "vdl_acc (recalculate_cycles_per c) = vdl_acc c"
  "timer_acc (recalculate_cycles_per c) = timer_acc c"
  "timer_slack (recalculate_cycles_per c) = timer_slack c"
  "timer_slot (recalculate_cycles_per c) = timer_slot c"
  "timer_in_gap (recalculate_cycles_per c) = timer_in_gap c"
  "field_size (recalculate_cycles_per c) = field_size c"
  "field_rate (recalculate_cycles_per c) = field_rate c"
  by (simp_all add: recalculate_cycles_per_def Let_def)

lemma recalc_cached [clock_simps]: "clock_cached (recalculate_cycles_per c)"
  by (simp add: clock_cached_def recalculate_cycles_per_def Let_def calc_defs)

lemma recalc_id: "clock_cached c \<Longrightarrow> recalculate_cycles_per c = c"
  by (simp add: clock_cached_def recalculate_cycles_per_def Let_def calc_defs)

lemma recalc_ok [clock_simps]: "clock_ok (recalculate_cycles_per c) \<longleftrightarrow> clock_state_valid c"
  by (simp add: clock_ok_def clock_simps clock_state_valid_def)

inductive clock_step :: "opera_clock \<Rightarrow> opera_clock \<Rightarrow> bool" where
  reset: "clock_step c (opera_clock_reset c)"
| freq: "clock_step c (opera_clock_cpu_set_freq f c)"
| vdl: "clock_step c (snd (opera_clock_vdl_queued c))"
| dsp: "clock_step c (snd (opera_clock_dsp_queued c))"
| timer: "clock_step c (snd (opera_clock_timer_queued c))"
| push: "clock_step c (opera_clock_push_cycles n c)"
| ntsc: "clock_step c (opera_clock_region_set_ntsc c)"
| pal: "clock_step c (opera_clock_region_set_pal c)"
| delay: "clock_step c (opera_clock_timer_set_delay td c)"
| load: "clock_step c (snd (opera_clock_state_load v buf sz c))"

inductive clock_reachable :: "opera_clock \<Rightarrow> bool" where
  start: "clock_reachable g_CLOCK"
| step: "clock_reachable c \<Longrightarrow> clock_step c c' \<Longrightarrow> clock_reachable c'"

lemma slot_next: "s < 16 \<Longrightarrow> \<not> 16 \<le> s + 1 \<Longrightarrow> s + 1 < (16 :: u32)"
  by (simp add: not_le)

lemma step_ok:
  assumes "clock_step c c'" "clock_ok c" shows "clock_ok c'"
  using assms
proof (induction rule: clock_step.induct)
  case (freq c f)
  then show ?case
    by (auto simp: opera_clock_cpu_set_freq_def Let_def clock_simps clock_ok_def clock_state_valid_def)
next
  case (load c v buf sz)
  then show ?case
    by (auto simp: opera_clock_state_load_def load_chunk_def Let_def clock_simps
        split: prod.splits option.splits if_splits)
next
  case (timer c)
  then show ?case
    by (auto simp: opera_clock_timer_queued_def Let_def clock_ok_def clock_cached_def
        clock_state_valid_def calc_defs not_le)
next
  case (vdl c)
  then show ?case
    by (simp add: opera_clock_vdl_queued_def clock_ok_def clock_cached_def clock_state_valid_def calc_defs)
next
  case (dsp c)
  then show ?case
    by (simp add: opera_clock_dsp_queued_def clock_ok_def clock_cached_def clock_state_valid_def calc_defs)
next
  case (push c n)
  then show ?case
    by (simp add: opera_clock_push_cycles_def Let_def clock_ok_def clock_cached_def clock_state_valid_def calc_defs)
qed (simp_all add: opera_clock_reset_def opera_clock_region_set_ntsc_def opera_clock_region_set_pal_def
    opera_clock_timer_set_delay_def clock_simps, simp_all add: clock_ok_def clock_state_valid_def)

text \<open>From program start, after any sequence of clock operations (including rejected or
  accepted state loads), the cached periods are those of the current frequency, region and
  timer delay, the time until the next timer slot is the gap period exactly while the scan is
  in its gap, the frequency is at least the minimum, and the slot number is below 16.\<close>

theorem clock_reachable_ok:
  assumes "clock_reachable c" shows "clock_cached c \<and> clock_state_valid c"
  using assms
proof (induction rule: clock_reachable.induct)
  case start
  then show ?case
    by (simp add: clock_cached_def clock_state_valid_def g_CLOCK_def calc_defs)
next
  case (step c c')
  then show ?case using step_ok [of c c'] by (simp add: clock_ok_def)
qed

theorem clock_reachable_ok_witness:
  "clock_cached (opera_clock_push_cycles 32 g_CLOCK) \<and> clock_state_valid (opera_clock_push_cycles 32 g_CLOCK)"
  by (rule clock_reachable_ok) (intro clock_reachable.step [OF clock_reachable.start] clock_step.push)

section \<open>The periods as quotients\<close>

lemma sint_nonneg: "unat w < 2 ^ 31 \<Longrightarrow> sint w = int (unat w)" for w :: u32
proof -
  assume a: "unat w < 2 ^ 31"
  then have "w < 0x80000000" by (simp add: word_less_nat_alt)
  then have "uint w < 2 ^ 31" by (simp add: word_less_def)
  moreover have "- (2 ^ 31) \<le> uint w" by (rule order_trans [of _ 0]) simp_all
  ultimately have "signed_take_bit 31 (uint w) = uint w" by (intro signed_take_bit_int_eq_self)
  then show ?thesis by (simp add: sint_uint)
qed

lemma unat_ucast64 [simp]: "unat (ucast (w :: u32) :: u64) = unat w"
  by (simp add: unsigned_ucast_eq take_bit_nat_eq_self_iff)
    (rule order.strict_trans [OF unat_u32_lt], simp)

lemma unat_push64:
  "unat w * 65536 < 2 ^ 64 \<Longrightarrow> unat (push_bit 16 w) = unat w * 65536"
  "unat w * 4294967296 < 2 ^ 64 \<Longrightarrow> unat (push_bit 32 w) = unat w * 4294967296" for w :: u64
  by (simp_all add: push_bit_eq_mult unat_word_ariths)

lemma unat_ucast32: "unat (w :: u64) < 2 ^ 32 \<Longrightarrow> unat (ucast w :: u32) = unat w"
  by (simp add: unsigned_ucast_eq take_bit_nat_eq_self)

lemma snd_period:
  assumes "unat (cpu_freq c) \<le> 500000000"
  shows "unat (calc_cycles_per_snd c) = unat (cpu_freq c) * 65536 div 44100"
proof -
  have p: "unat (push_bit 16 (ucast (cpu_freq c)) :: u64) = unat (cpu_freq c) * 65536"
    using assms by (subst unat_push64) simp_all
  have "unat (cpu_freq c) * 65536 div 44100 < 2 ^ 32"
    using assms by (simp add: div_less_iff_less_mult)
  then show ?thesis
    by (simp add: calc_cycles_per_snd_def CYCLES_PER_SND_def unat_ucast32 unat_div p)
qed

lemma m25m_period:
  assumes "unat fq * t * 65536 < 2 ^ 64" "unat ticks = t" "unat fq * t * 65536 div 25000000 < 2 ^ 32"
  shows "unat (ucast (CYCLES_PER_M25M fq ticks) :: u32) = unat fq * t * 65536 div 25000000"
proof -
  have m: "unat (ucast fq * ticks) = unat fq * t"
  proof -
    have "unat fq * t < 2 ^ 64" using assms(1) by linarith
    then show ?thesis using assms(2) by (simp add: unat_word_ariths)
  qed
  have "unat (push_bit 16 (ucast fq * ticks)) = unat fq * t * 65536"
    using assms(1) by (subst unat_push64) (simp_all add: m)
  with assms(3) show ?thesis by (simp add: CYCLES_PER_M25M_def unat_ucast32 unat_div)
qed

lemma slot_period:
  assumes "unat (cpu_freq c) \<le> 500000000"
  shows "unat (calc_cycles_per_timer_slot c) = unat (cpu_freq c) * 4 * 65536 div 25000000"
proof -
  have "unat (cpu_freq c) * 4 * 65536 < 2 ^ 64" "unat (cpu_freq c) * 4 * 65536 div 25000000 < 2 ^ 32"
    using assms by (simp_all add: div_less_iff_less_mult)
  from m25m_period [OF this(1) _ this(2), of 4] show ?thesis
    by (simp only: calc_cycles_per_timer_slot_def CYCLES_PER_TIMER_SLOT_def unsigned_numeral
        take_bit_numeral_numeral) simp
qed

lemma gap_period:
  assumes f: "unat (cpu_freq c) \<le> 500000000" and s: "unat (timer_slack c) \<le> 1023"
  shows "unat (calc_cycles_per_timer_gap c) =
    unat (cpu_freq c) * (4 + unat (timer_slack c)) * 65536 div 25000000 \<and>
    unat (calc_cycles_per_timer_gap c) < 2 ^ 31"
proof -
  let ?t = "4 + unat (timer_slack c)"
  have "unat (cpu_freq c) * ?t \<le> 500000000 * 1027" using f s by (intro mult_le_mono) simp_all
  then have b: "unat (cpu_freq c) * ?t * 65536 < 2 ^ 64"
    "unat (cpu_freq c) * ?t * 65536 div 25000000 < 2 ^ 31"
    by (simp_all add: div_less_iff_less_mult)
  have "unat (4 + ucast (timer_slack c) :: u64) = ?t" using s by (simp add: unat_word_ariths)
  from m25m_period [OF b(1) this] b(2) show ?thesis
    by (simp add: calc_cycles_per_timer_gap_def CYCLES_PER_TIMER_GAP_def)
qed

lemma scanline_period:
  assumes f: "unat (cpu_freq c) \<le> 500000000"
    and "field_rate c = 3928227 \<and> field_size c = 263 \<or> field_rate c = 3276800 \<and> field_size c = 312"
  shows "unat (calc_cycles_per_scanline c) =
    unat (cpu_freq c) * 2 ^ 32 div (unat (field_rate c) * unat (field_size c)) \<and>
    unat (calc_cycles_per_scanline c) < 2 ^ 31"
proof -
  have p: "unat (push_bit 32 (ucast (cpu_freq c)) :: u64) = unat (cpu_freq c) * 4294967296"
    using f by (subst unat_push64) simp_all
  have "unat (cpu_freq c) * 4294967296 div (3928227 * 263) < 2 ^ 31"
    "unat (cpu_freq c) * 4294967296 div (3276800 * 312) < 2 ^ 31"
    using f by (simp_all add: div_less_iff_less_mult)
  with assms(2) show ?thesis
    by (elim disjE) (simp_all add: calc_cycles_per_scanline_def CYCLES_PER_SCANLINE_def
        unat_ucast32 unat_div p)
qed

text \<open>In the range the emulator uses (up to forty times the stock CPU frequency, a delay of at
  most ten bits as CLIO stores it, NTSC or PAL timing) the four cached periods are exactly the
  16.16 fixed-point quotients of the documented rates, without wrap-around of the 64-bit
  products or of the truncation to \<open>int32_t\<close>, and all are positive.\<close>

theorem clock_periods_exact:
  assumes f: "1000000 \<le> unat (cpu_freq c)" "unat (cpu_freq c) \<le> 500000000"
    and s: "unat (timer_slack c) \<le> 0x3FF"
    and r: "field_rate c = OPERA_NTSC_FIELD_RATE_1616 \<and> field_size c = OPERA_NTSC_FIELD_SIZE \<or>
      field_rate c = OPERA_PAL_FIELD_RATE_1616 \<and> field_size c = OPERA_PAL_FIELD_SIZE"
    and c: "clock_cached c"
  shows "sint (cycles_per_snd c) = int (unat (cpu_freq c)) * 2 ^ 16 div 44100 \<and>
    sint (cycles_per_scanline c) =
      int (unat (cpu_freq c)) * 2 ^ 32 div (int (unat (field_rate c)) * int (unat (field_size c))) \<and>
    sint (cycles_per_timer_slot c) = int (unat (cpu_freq c)) * 4 * 2 ^ 16 div 25000000 \<and>
    sint (cycles_per_timer_gap c) =
      int (unat (cpu_freq c)) * (4 + int (unat (timer_slack c))) * 2 ^ 16 div 25000000 \<and>
    0 < sint (cycles_per_snd c) \<and> 0 < sint (cycles_per_scanline c) \<and>
    0 < sint (cycles_per_timer_slot c) \<and> 0 < sint (cycles_per_timer_gap c)"
proof -
  note S = snd_period [OF f(2)] and L = scanline_period [OF f(2) r] and T = slot_period [OF f(2)]
    and G = gap_period [OF f(2)]
  have s': "unat (timer_slack c) \<le> 1023" using s by simp
  have e: "cycles_per_snd c = calc_cycles_per_snd c" "cycles_per_scanline c = calc_cycles_per_scanline c"
    "cycles_per_timer_slot c = calc_cycles_per_timer_slot c"
    "cycles_per_timer_gap c = calc_cycles_per_timer_gap c"
    using c by (simp_all add: clock_cached_def)
  have "unat (calc_cycles_per_snd c) < 2 ^ 31" "unat (calc_cycles_per_timer_slot c) < 2 ^ 31"
    using f(2) by (simp_all add: S T div_less_iff_less_mult)
  then have i: "sint (cycles_per_snd c) = int (unat (calc_cycles_per_snd c))"
    "sint (cycles_per_scanline c) = int (unat (calc_cycles_per_scanline c))"
    "sint (cycles_per_timer_slot c) = int (unat (calc_cycles_per_timer_slot c))"
    "sint (cycles_per_timer_gap c) = int (unat (calc_cycles_per_timer_gap c))"
    using conjunct2 [OF L] conjunct2 [OF G [OF s']] by (simp_all only: e sint_nonneg)
  have pos: "0 < unat (calc_cycles_per_snd c)" "0 < unat (calc_cycles_per_timer_slot c)"
    using f(1) by (simp_all add: S T div_greater_zero_iff)
  have "1000000 * 4 \<le> unat (cpu_freq c) * (4 + unat (timer_slack c))"
    using f(1) by (intro mult_le_mono) simp_all
  then have "0 < unat (calc_cycles_per_timer_gap c)"
    using G [OF s'] by (simp add: div_greater_zero_iff)
  moreover have "0 < unat (calc_cycles_per_scanline c)"
    using f(1) L r by (auto simp: div_greater_zero_iff)
  ultimately show ?thesis
    using pos by (simp only: i S T conjunct1 [OF L] conjunct1 [OF G [OF s']] of_nat_0_less_iff)
      (simp add: zdiv_int)
qed

theorem clock_periods_exact_witness:
  "sint (cycles_per_snd g_CLOCK) = 12500000 * 2 ^ 16 div 44100 \<and> 0 < sint (cycles_per_timer_gap g_CLOCK)"
proof -
  have "clock_cached g_CLOCK" by (simp add: clock_cached_def g_CLOCK_def calc_defs)
  moreover have f: "cpu_freq g_CLOCK = 12500000" "timer_slack g_CLOCK = 64" "field_rate g_CLOCK = 3928227"
    "field_size g_CLOCK = 263" by (simp_all add: g_CLOCK_def)
  ultimately show ?thesis
    using clock_periods_exact [of g_CLOCK] by (simp only: f) simp
qed

section \<open>Accumulators do not drift\<close>

text \<open>One step of the frame loop for one event source: push the cycles, then ask once; and a whole
  run of steps with the number of events it raised.\<close>

fun clock_run :: "(opera_clock \<Rightarrow> bool \<times> opera_clock) \<Rightarrow> u32 list \<Rightarrow> opera_clock \<Rightarrow> nat \<times> opera_clock" where
  "clock_run queued [] c = (0, c)"
| "clock_run queued (n # ns) c =
     (let (fired, c1) = queued (opera_clock_push_cycles n c);
          (k, c2) = clock_run queued ns c1
      in ((if fired then Suc k else k), c2))"

locale cycle_accumulator =
  fixes acc per :: "opera_clock \<Rightarrow> u32" and queued :: "opera_clock \<Rightarrow> bool \<times> opera_clock"
  assumes fires: "sint (per c) \<le> sint (acc c) \<Longrightarrow>
      fst (queued c) \<and> acc (snd (queued c)) = acc c - per c \<and> per (snd (queued c)) = per c"
    and idle: "\<not> sint (per c) \<le> sint (acc c) \<Longrightarrow> queued c = (False, c)"
    and push: "acc (opera_clock_push_cycles n c) = acc c + push_bit 16 n"
      "per (opera_clock_push_cycles n c) = per c"
begin

lemma tick:
  assumes a: "unat (acc c) < unat (per c)" "unat (per c) < 2 ^ 30" and n: "unat n * 2 ^ 16 \<le> unat (per c)"
  shows "let (f, c') = queued (opera_clock_push_cycles n c) in
     (if f then unat (per c) else 0) + unat (acc c') = unat (acc c) + unat n * 2 ^ 16 \<and>
     per c' = per c \<and> unat (acc c') < unat (per c)"
proof -
  let ?c = "opera_clock_push_cycles n c"
  have p: "unat (push_bit 16 n) = unat n * 2 ^ 16"
    using a(2) n by (simp add: push_bit_eq_mult unat_word_ariths)
  then have u: "unat (acc ?c) = unat (acc c) + unat n * 2 ^ 16"
    using a n by (simp only: push p [symmetric]) (simp add: unat_add_nowrap)
  have "unat (acc ?c) < 2 ^ 31" "unat (per ?c) < 2 ^ 31" using u a n by (simp_all add: push)
  then have i: "sint (acc ?c) = int (unat (acc ?c))" "sint (per ?c) = int (unat (per c))"
    by (simp_all only: sint_nonneg push)
  show ?thesis
  proof (cases "unat (per c) \<le> unat (acc ?c)")
    case True
    then have le: "sint (per ?c) \<le> sint (acc ?c)" by (simp only: i of_nat_le_iff)
    have f: "fst (queued ?c)" "acc (snd (queued ?c)) = acc ?c - per c" "per (snd (queued ?c)) = per c"
      using fires [OF le] by (simp_all add: push)
    have "unat (acc ?c - per c) = unat (acc ?c) - unat (per c)"
      using True by (simp add: unat_sub_le word_le_nat_alt)
    then show ?thesis using f True u a n by (simp add: case_prod_unfold)
  next
    case False
    then have "queued ?c = (False, ?c)" by (intro idle) (simp only: i of_nat_le_iff not_False_eq_True)
    then show ?thesis using False u by (simp add: push)
  qed
qed

lemma no_drift:
  assumes "unat (acc c) < unat (per c)" "unat (per c) < 2 ^ 30" "\<forall>n\<in>set ns. unat n * 2 ^ 16 \<le> unat (per c)"
    and "clock_run queued ns c = (k, c')"
  shows "k * unat (per c) + unat (acc c') = unat (acc c) + (\<Sum>n\<leftarrow>ns. unat n) * 2 ^ 16 \<and>
    per c' = per c \<and> unat (acc c') < unat (per c)"
  using assms
proof (induction ns arbitrary: c k c')
  case Nil
  then show ?case by simp
next
  case (Cons n ns)
  obtain f c1 where q: "queued (opera_clock_push_cycles n c) = (f, c1)" by fastforce
  obtain k2 c2 where r: "clock_run queued ns c1 = (k2, c2)" by fastforce
  have t: "(if f then unat (per c) else 0) + unat (acc c1) = unat (acc c) + unat n * 2 ^ 16"
    "per c1 = per c" "unat (acc c1) < unat (per c)"
    using tick [OF Cons.prems(1,2), of n] Cons.prems(3) q by simp_all
  have "k2 * unat (per c1) + unat (acc c2) = unat (acc c1) + (\<Sum>n\<leftarrow>ns. unat n) * 2 ^ 16 \<and>
      per c2 = per c1 \<and> unat (acc c2) < unat (per c1)"
    using t Cons.prems by (intro Cons.IH [OF _ _ _ r]) simp_all
  moreover have "k = (if f then Suc k2 else k2)" "c' = c2"
    using Cons.prems(4) by (simp_all add: q r)
  ultimately show ?case using t by (cases f) (simp_all add: algebra_simps)
qed

lemma event_count:
  assumes "unat (acc c) < unat (per c)" "unat (per c) < 2 ^ 30" "\<forall>n\<in>set ns. unat n * 2 ^ 16 \<le> unat (per c)"
  shows "fst (clock_run queued ns c) = (unat (acc c) + (\<Sum>n\<leftarrow>ns. unat n) * 2 ^ 16) div unat (per c) \<and>
    unat (acc (snd (clock_run queued ns c))) =
      (unat (acc c) + (\<Sum>n\<leftarrow>ns. unat n) * 2 ^ 16) mod unat (per c)"
proof -
  obtain k c' where r: "clock_run queued ns c = (k, c')" by fastforce
  note d = no_drift [OF assms r]
  then have "(unat (acc c) + (\<Sum>n\<leftarrow>ns. unat n) * 2 ^ 16) = unat (acc c') + k * unat (per c)" by simp
  then show ?thesis using d r by simp
qed

end

interpretation dsp_clock: cycle_accumulator dsp_acc cycles_per_snd opera_clock_dsp_queued
  by unfold_locales (auto simp: opera_clock_dsp_queued_def opera_clock_push_cycles_def Let_def)

interpretation vdl_clock: cycle_accumulator vdl_acc cycles_per_scanline opera_clock_vdl_queued
  by unfold_locales (auto simp: opera_clock_vdl_queued_def opera_clock_push_cycles_def Let_def)

text \<open>C18. Sound samples and scan lines are neither lost nor invented: as long as a step pushes no
  more than one period and the accumulator starts below its period, the number of events raised
  by any run of steps is exactly the elapsed time divided by the period, and the remainder is
  kept in the accumulator for the next step.\<close>

theorem clock_no_drift:
  assumes "unat (dsp_acc c) < unat (cycles_per_snd c)" "unat (cycles_per_snd c) < 2 ^ 30"
    and "unat (vdl_acc c) < unat (cycles_per_scanline c)" "unat (cycles_per_scanline c) < 2 ^ 30"
    and "\<forall>n\<in>set ns. unat n * 2 ^ 16 \<le> unat (cycles_per_snd c) \<and> unat n * 2 ^ 16 \<le> unat (cycles_per_scanline c)"
  shows "fst (clock_run opera_clock_dsp_queued ns c) =
      (unat (dsp_acc c) + (\<Sum>n\<leftarrow>ns. unat n) * 2 ^ 16) div unat (cycles_per_snd c) \<and>
    unat (dsp_acc (snd (clock_run opera_clock_dsp_queued ns c))) =
      (unat (dsp_acc c) + (\<Sum>n\<leftarrow>ns. unat n) * 2 ^ 16) mod unat (cycles_per_snd c) \<and>
    fst (clock_run opera_clock_vdl_queued ns c) =
      (unat (vdl_acc c) + (\<Sum>n\<leftarrow>ns. unat n) * 2 ^ 16) div unat (cycles_per_scanline c) \<and>
    unat (vdl_acc (snd (clock_run opera_clock_vdl_queued ns c))) =
      (unat (vdl_acc c) + (\<Sum>n\<leftarrow>ns. unat n) * 2 ^ 16) mod unat (cycles_per_scanline c)"
  using dsp_clock.event_count [of c ns] vdl_clock.event_count [of c ns] assms by simp

theorem clock_no_drift_witness:
  "fst (clock_run opera_clock_dsp_queued (replicate 100 32) g_CLOCK) = 100 * 32 * 2 ^ 16 div 18575963"
proof -
  have g: "dsp_acc g_CLOCK = 0" "vdl_acc g_CLOCK = 0" "cycles_per_snd g_CLOCK = 18575963"
    "cycles_per_scanline g_CLOCK = 51965791"
    by (simp_all add: g_CLOCK_def CYCLES_PER_SND_def CYCLES_PER_SCANLINE_def)
  have s: "(\<Sum>n\<leftarrow>replicate 100 (32 :: u32). unat n) = 3200" by (simp add: sum_list_replicate)
  show ?thesis
    using clock_no_drift [of g_CLOCK "replicate 100 32"] by (simp only: g s) simp
qed

section \<open>The timer scan\<close>

text \<open>The loop \<open>while(opera_clock_timer_queued(&timer))\<close> of the frame step, with the slots it
  hands out; \<open>None\<close> is a loop that does not end.\<close>

partial_function (option) timer_drain :: "opera_clock \<Rightarrow> (u32 list \<times> opera_clock) option" where
  "timer_drain c =
     (case opera_clock_timer_queued c of
        (None, c') \<Rightarrow> Some ([], c')
      | (Some t, c') \<Rightarrow>
          Option.bind (timer_drain c') (\<lambda>(ts, c''). Some (t # ts, c'')))"

definition timer_ok :: "opera_clock \<Rightarrow> bool" where
  "timer_ok c \<longleftrightarrow> clock_cached c \<and> unat (timer_slot c) < 16 \<and>
     0 < sint (cycles_per_timer_slot c) \<and> 0 < sint (cycles_per_timer_gap c)"

lemma timer_idle: "\<not> sint (cycles_until_timer c) \<le> sint (timer_acc c) \<Longrightarrow>
    opera_clock_timer_queued c = (None, c)"
  by (simp add: opera_clock_timer_queued_def)

lemma slot_wrap:
  assumes "unat s < 16"
  shows "unat (if 16 \<le> s + 1 then 0 else s + 1 :: u32) = Suc (unat s) mod 16"
    and "16 \<le> s + 1 \<longleftrightarrow> unat s = 15"
proof -
  have u: "unat (s + 1) = Suc (unat s)" using assms by (simp add: unat_word_ariths)
  show "16 \<le> s + 1 \<longleftrightarrow> unat s = 15" using assms by (auto simp: word_le_nat_alt u)
  then show "unat (if 16 \<le> s + 1 then 0 else s + 1 :: u32) = Suc (unat s) mod 16"
    using assms by (auto simp: u)
qed

lemma timer_fire:
  assumes c: "timer_ok c" "sint (cycles_until_timer c) \<le> sint (timer_acc c)"
  shows "\<exists>c'. opera_clock_timer_queued c = (Some (timer_slot c), c') \<and> timer_ok c' \<and>
    unat (timer_slot c') = Suc (unat (timer_slot c)) mod 16 \<and>
    (timer_in_gap c' \<noteq> 0 \<longleftrightarrow> unat (timer_slot c) = 15) \<and>
    sint (timer_acc c') = sint (timer_acc c) - sint (cycles_until_timer c) \<and>
    nat (sint (timer_acc c')) < nat (sint (timer_acc c))"
proof -
  let ?c = "snd (opera_clock_timer_queued c)"
  have u: "0 < sint (cycles_until_timer c)" using c(1) by (auto simp: timer_ok_def clock_cached_def)
  have "sint (timer_acc c - cycles_until_timer c) = sint (timer_acc c) - sint (cycles_until_timer c)"
  proof -
    have "- (2 ^ 31) \<le> sint (timer_acc c) - sint (cycles_until_timer c)" using c(2) by simp
    moreover have "sint (timer_acc c) - sint (cycles_until_timer c) < 2 ^ 31"
      using sint_lt [of "timer_acc c"] u by simp
    ultimately show ?thesis
      by (simp add: sint_word_ariths signed_take_bit_int_eq_self)
  qed
  moreover have "timer_acc ?c = timer_acc c - cycles_until_timer c"
    using c(2) by (simp add: opera_clock_timer_queued_def Let_def)
  ultimately have a: "sint (timer_acc ?c) = sint (timer_acc c) - sint (cycles_until_timer c)" by simp
  have s: "unat (timer_slot c) < 16" using c(1) by (simp add: timer_ok_def)
  have q: "opera_clock_timer_queued c = (Some (timer_slot c), ?c)"
    using c(2) by (auto simp: opera_clock_timer_queued_def Let_def)
  have "timer_slot ?c = (if 16 \<le> timer_slot c + 1 then 0 else timer_slot c + 1)"
    "timer_in_gap ?c \<noteq> 0 \<longleftrightarrow> 16 \<le> timer_slot c + 1"
    using c(2) by (auto simp: opera_clock_timer_queued_def Let_def)
  then have t: "unat (timer_slot ?c) = Suc (unat (timer_slot c)) mod 16"
    "timer_in_gap ?c \<noteq> 0 \<longleftrightarrow> unat (timer_slot c) = 15"
    using slot_wrap [OF s] by simp_all
  have "clock_cached ?c"
    using c by (auto simp: opera_clock_timer_queued_def Let_def timer_ok_def clock_cached_def calc_defs)
  moreover have "cycles_per_timer_slot ?c = cycles_per_timer_slot c"
    "cycles_per_timer_gap ?c = cycles_per_timer_gap c"
    by (simp_all add: opera_clock_timer_queued_def Let_def)
  ultimately have "timer_ok ?c" using c(1) t(1) by (simp add: timer_ok_def)
  with q t a u c(2) show ?thesis by (intro exI [of _ ?c]) auto
qed

text \<open>The timer loop ends whenever both timer periods are positive, with the accumulator below
  the time until the next slot; and the slots it hands out are consecutive modulo 16, starting
  at the current one, so every slot is visited once per scan.\<close>

theorem timer_drain_slots:
  assumes "timer_ok c"
  shows "\<exists>ts c'. timer_drain c = Some (ts, c') \<and> timer_ok c' \<and>
    map unat ts = map (\<lambda>i. (unat (timer_slot c) + i) mod 16) [0..<length ts] \<and>
    unat (timer_slot c') = (unat (timer_slot c) + length ts) mod 16 \<and>
    sint (timer_acc c') < sint (cycles_until_timer c')"
  using assms
proof (induction "nat (sint (timer_acc c))" arbitrary: c rule: less_induct)
  case less
  show ?case
  proof (cases "sint (cycles_until_timer c) \<le> sint (timer_acc c)")
    case False
    then have "timer_drain c = Some ([], c)" by (subst timer_drain.simps) (simp add: timer_idle)
    with False less.prems show ?thesis by (auto simp: timer_ok_def)
  next
    case True
    from timer_fire [OF less.prems True] obtain c1 where
      q: "opera_clock_timer_queued c = (Some (timer_slot c), c1)" and c1: "timer_ok c1"
      and s: "unat (timer_slot c1) = Suc (unat (timer_slot c)) mod 16"
      and lt: "nat (sint (timer_acc c1)) < nat (sint (timer_acc c))" by blast
    from less.hyps [OF lt c1] obtain ts c' where
      d: "timer_drain c1 = Some (ts, c')" and r: "timer_ok c'"
      "map unat ts = map (\<lambda>i. (unat (timer_slot c1) + i) mod 16) [0..<length ts]"
      "unat (timer_slot c') = (unat (timer_slot c1) + length ts) mod 16"
      "sint (timer_acc c') < sint (cycles_until_timer c')" by blast
    have e: "timer_drain c = Some (timer_slot c # ts, c')"
      by (subst timer_drain.simps) (simp add: q d)
    have m: "(Suc k mod 16 + i) mod 16 = (k + Suc i) mod 16" for k i :: nat
      by (simp add: mod_add_left_eq)
    have "map unat (timer_slot c # ts) =
        map (\<lambda>i. (unat (timer_slot c) + i) mod 16) [0..<length (timer_slot c # ts)]"
      using r(2) less.prems by (simp add: s m upt_conv_Cons map_Suc_upt [symmetric] timer_ok_def
          del: upt_Suc)
    moreover have "unat (timer_slot c') = (unat (timer_slot c) + length (timer_slot c # ts)) mod 16"
      using r(3) by (simp add: s m)
    ultimately show ?thesis using e r(1,4) by blast
  qed
qed

theorem timer_drain_slots_witness:
  "\<exists>ts c'. timer_drain (opera_clock_push_cycles 32 g_CLOCK) = Some (ts, c') \<and>
    sint (timer_acc c') < sint (cycles_until_timer c')"
proof -
  have "timer_ok (opera_clock_push_cycles 32 g_CLOCK)"
    unfolding timer_ok_def clock_cached_def by code_simp
  from timer_drain_slots [OF this] show ?thesis by blast
qed

section \<open>Saved state\<close>

definition clock_enc :: "opera_clock \<Rightarrow> u8 list" where
  "clock_enc c = enc32 (cpu_freq c) @ enc64 (cpu_cycles c) @ enc32 (dsp_acc c) @ enc32 (vdl_acc c) @
     enc32 (timer_acc c) @ enc32 (timer_slack c) @ enc32 (timer_slot c) @ enc32 (timer_in_gap c) @
     enc32 (field_size c) @ enc32 (field_rate c)"

definition clock_snap :: "opera_clock \<Rightarrow> opera_clock" where
  "clock_snap c = c\<lparr>cycles_per_snd := 0, cycles_per_scanline := 0, cycles_per_timer_slot := 0,
     cycles_per_timer_gap := 0, cycles_until_timer := 0\<rparr>"

lemma length_clock_enc [simp]: "length (clock_enc c) = 44"
  by (simp add: clock_enc_def)

lemma recalc_snap: "recalculate_cycles_per (clock_snap c) = recalculate_cycles_per c"
  by (simp add: recalculate_cycles_per_def clock_snap_def Let_def calc_defs)

lemma clock_read_consumes: "consumes clock_state_read (clock_snap c) (clock_enc c)"
proof -
  have "consumes clock_state_read
     \<lparr>cpu_freq = cpu_freq c, cpu_cycles = cpu_cycles c, dsp_acc = dsp_acc c, vdl_acc = vdl_acc c,
      timer_acc = timer_acc c, timer_slack = timer_slack c, timer_slot = timer_slot c,
      timer_in_gap = timer_in_gap c, field_size = field_size c, field_rate = field_rate c,
      cycles_per_snd = 0, cycles_per_scanline = 0, cycles_per_timer_slot = 0,
      cycles_per_timer_gap = 0, cycles_until_timer = 0\<rparr>
     (enc32 (cpu_freq c) @ enc64 (cpu_cycles c) @ enc32 (dsp_acc c) @ enc32 (vdl_acc c) @
      enc32 (timer_acc c) @ enc32 (timer_slack c) @ enc32 (timer_slot c) @ enc32 (timer_in_gap c) @
      enc32 (field_size c) @ enc32 (field_rate c) @ [])"
    unfolding clock_state_read_def
    by (rule consumes_fields)+
  then show ?thesis by (cases c) (simp add: clock_enc_def clock_snap_def)
qed

interpretation clock_chunk: state_chunk "''CLCK''" clock_ok clock_enc opera_clock_state_write_payload
  clock_state_read clock_snap clock_state_valid "\<lambda>s _. recalculate_cycles_per s" "\<lambda>_ _. True"
proof
  show "clock_ok g \<Longrightarrow> emits (opera_clock_state_write_payload g) (clock_enc g)" for g
    unfolding opera_clock_state_write_payload_def clock_enc_def
    by (intro emits_and emits_u32 emits_u64 emits_i32)
  show "consumes clock_state_read (clock_snap g) (clock_enc g)" for g by (rule clock_read_consumes)
qed (simp_all add: clock_ok_def clock_state_valid_def clock_snap_def recalc_snap [unfolded clock_snap_def] recalc_id)

lemma clock_payload: "clock_ok c \<Longrightarrow> opera_clock_state_payload_size c = 44"
  using clock_chunk.sizing [of c] by (simp add: opera_clock_state_payload_size_def)

text \<open>The clock's saved state round-trips: a consistent clock saved into a large enough buffer is
  restored by the loader from any clock whatsoever, cached periods included, and saver, loader
  and size function agree on the 52 bytes.\<close>

theorem clock_state_roundtrip:
  assumes c: "clock_ok c" and buf: "52 \<le> length buf"
  shows "opera_clock_state_size c = 52 \<and> fst (opera_clock_state_save c buf) = 52 \<and>
    opera_clock_state_load False (snd (opera_clock_state_save c buf)) 52 cur = (52, c)"
proof -
  have "opera_clock_state_save c buf = save_chunk ''CLCK'' (payload_sizing (opera_clock_state_write_payload c))
      (opera_clock_state_write_payload c) buf"
    using clock_payload [OF c] by (simp add: opera_clock_state_save_def opera_clock_state_payload_size_def)
  moreover have "opera_clock_state_size c = 52"
    using clock_payload [OF c] by (simp add: opera_clock_state_size_def opera_state_chunk_size_def
        opera_state_save_size_def opera_state_chunk_header_size_def)
  ultimately show ?thesis
    using clock_chunk.roundtrip [OF c, of buf cur] clock_chunk.saved_size [OF c, of buf] buf
      clock_chunk.sizing [OF c]
    by (simp add: opera_clock_state_load_def opera_state_chunk_size_def opera_state_save_size_def
        opera_state_chunk_header_size_def)
qed

lemma g_CLOCK_ok: "clock_ok g_CLOCK"
  by (simp add: clock_ok_def clock_cached_def clock_state_valid_def g_CLOCK_def calc_defs)

theorem clock_state_roundtrip_witness:
  "opera_clock_state_load False (snd (opera_clock_state_save g_CLOCK (replicate 60 0))) 52
     (opera_clock_push_cycles 7 g_CLOCK) = (52, g_CLOCK)"
  using clock_state_roundtrip [OF g_CLOCK_ok, of "replicate 60 0"] by simp

text \<open>The loader checks every field except the timer delay: a state whose delay is far above
  the ten bits CLIO stores is accepted, and leaves a clock whose gap period, truncated to
  \<open>int32_t\<close>, is negative.\<close>

theorem clock_load_accepts_negative_gap:
  "\<exists>buf c. opera_clock_state_load False buf 52 g_CLOCK = (52, c) \<and> sint (cycles_per_timer_gap c) < 0"
proof -
  let ?c = "opera_clock_timer_set_delay 0xFFFC g_CLOCK"
  have "clock_ok ?c"
    using g_CLOCK_ok by (intro step_ok [OF clock_step.delay])
  from clock_state_roundtrip [OF this, of "replicate 52 0"]
  have "opera_clock_state_load False (snd (opera_clock_state_save ?c (replicate 52 0))) 52 g_CLOCK = (52, ?c)"
    by simp
  moreover have "sint (cycles_per_timer_gap ?c) < 0" by code_simp
  ultimately show ?thesis by blast
qed

section \<open>Region\<close>

definition region_ok :: "opera_region \<times> opera_clock \<Rightarrow> bool" where
  "region_ok s \<longleftrightarrow> scanlines (fst s) = field_size (snd s) \<and>
     unat (end_scanline (fst s)) = unat (start_scanline (fst s)) + unat (height (fst s)) \<and>
     end_scanline (fst s) \<le> scanlines (fst s) \<and>
     opera_region_min_width \<le> width (fst s) \<and> width (fst s) \<le> opera_region_max_width \<and>
     opera_region_min_height \<le> height (fst s) \<and> height (fst s) \<le> opera_region_max_height"

text \<open>The three region settings keep video and clock in step: the region's number of scan
  lines is the clock's field size, the visible window has exactly the picture's height and lies
  inside the field, and the picture is within the announced minimum and maximum; this holds at
  start, and every setting establishes it whatever was set before.\<close>

theorem region_consistent:
  "region_ok (g_REGION, g_CLOCK) \<and> region_ok (opera_region_set_NTSC s) \<and>
   region_ok (opera_region_set_PAL1 s) \<and> region_ok (opera_region_set_PAL2 s) \<and>
   clock_cached (snd (opera_region_set_NTSC s)) \<and> clock_cached (snd (opera_region_set_PAL1 s)) \<and>
   clock_cached (snd (opera_region_set_PAL2 s)) \<and>
   opera_region_get (fst (opera_region_set_PAL2 s)) = OPERA_REGION_PAL2"
  by (simp add: region_ok_def opera_region_set_NTSC_def opera_region_set_PAL1_def
      opera_region_set_PAL2_def opera_clock_region_set_ntsc_def opera_clock_region_set_pal_def
      clock_simps opera_region_min_width_def opera_region_max_width_def opera_region_min_height_def
      opera_region_max_height_def g_REGION_def g_CLOCK_def opera_region_get_def)

end
