(* ===== verification/Opera_Pbus.thy ===== *)
theory Opera_Pbus
  imports Opera_Prelude
begin

text \<open>
  The player bus, \<open>src/libopera/opera_pbus.c\<close>: a 256-byte buffer to which each controller
  appends its packet, closed by a padding step. Its abstract specification is the chain of
  bytes below the index; the locale \<open>pbus_device\<close> is the contract of a device: its packet
  is appended whole, or not at all when the bus is closed or full. The \<open>int16_t\<close>
  coordinates are 16-bit words; the two floating-point scalings of the light guns are by
  the exact binary fractions 65535/320 = 13107/64 and 65535/240 = 4369/16 of a value between
  0 and 65535, whose truncated quotient is the integer quotient used here.
\<close>

abbreviation (input) PBUS_BUF_SIZE :: u32 where "PBUS_BUF_SIZE \<equiv> 256"

record pbus =
  pbus_idx :: u32
  finalized :: u32
  pbus_buf :: "u8 list"

definition PBUS :: pbus where
  "PBUS = \<lparr>pbus_idx = 0, finalized = 0, pbus_buf = replicate 256 0\<rparr>"

definition pbus_reserve :: "u32 \<Rightarrow> pbus \<Rightarrow> bool" where
  "pbus_reserve len p \<longleftrightarrow> (if finalized p \<noteq> 0 then False else pbus_idx p + len \<le> PBUS_BUF_SIZE)"

text \<open>\<open>PBUS.buf[PBUS.idx++] = v\<close>, and a sequence of such stores.\<close>

definition pbus_put :: "u8 \<Rightarrow> pbus \<Rightarrow> pbus" where
  "pbus_put v p = p\<lparr>pbus_buf := (pbus_buf p)[unat (pbus_idx p) := v], pbus_idx := pbus_idx p + 1\<rparr>"

definition pbus_emit :: "u8 list \<Rightarrow> pbus \<Rightarrow> pbus" where
  "pbus_emit vs p = fold pbus_put vs p"

definition pbus_pos10 :: "int \<Rightarrow> u16" where
  "pbus_pos10 pos =
     (let rv = c_div (pos + 32768) 64
      in if rv < 0 then 0 else if rv > 1023 then 1023 else of_int rv)"

definition pbus_lightgun_counter :: "int \<Rightarrow> int \<Rightarrow> u32" where
  "pbus_lightgun_counter x y =
     (let x = (if x < 0 then 0 else x);
          x = (if x > 319 then 319 else x);
          y = (if y < 0 then 0 else y);
          y = (if y > 239 then 239 else y);
          counter = c_div (y * 12707 + c_div (x * 1030 * 10) 320) 10
      in of_int (counter - (-12835)) AND 0x000FFFFF)"

record pbus_joypad =
  jp_u :: u8
  jp_d :: u8
  jp_l :: u8
  jp_r :: u8
  jp_x :: u8
  jp_p :: u8
  jp_a :: u8
  jp_b :: u8
  jp_c :: u8
  jp_lt :: u8
  jp_rt :: u8

definition joypad_packet :: "pbus_joypad \<Rightarrow> u8 list" where
  "joypad_packet jp =
     [0x80 OR push_bit 4 (jp_d jp) OR push_bit 3 (jp_u jp) OR push_bit 2 (jp_r jp) OR
        push_bit 1 (jp_l jp) OR push_bit 0 (jp_a jp),
      push_bit 7 (jp_b jp) OR push_bit 6 (jp_c jp) OR push_bit 5 (jp_p jp) OR
        push_bit 4 (jp_x jp) OR push_bit 3 (jp_rt jp) OR push_bit 2 (jp_lt jp)]"

definition opera_pbus_add_joypad :: "pbus_joypad \<Rightarrow> pbus \<Rightarrow> pbus" where
  "opera_pbus_add_joypad jp p = (if \<not> pbus_reserve 2 p then p else pbus_emit (joypad_packet jp) p)"

record pbus_flightstick =
  fs_fire :: u8
  fs_a :: u8
  fs_b :: u8
  fs_c :: u8
  fs_u :: u8
  fs_d :: u8
  fs_l :: u8
  fs_r :: u8
  fs_p :: u8
  fs_x :: u8
  fs_lt :: u8
  fs_rt :: u8
  fs_h_pos :: int
  fs_v_pos :: int
  fs_z_pos :: int

definition flightstick_packet :: "pbus_flightstick \<Rightarrow> u8 list" where
  "flightstick_packet fs =
     (let x = pbus_pos10 (fs_h_pos fs); y = pbus_pos10 (fs_v_pos fs); z = pbus_pos10 (fs_z_pos fs) in
      [0x01, 0x7B, 0x08,
       ucast (drop_bit 2 x),
       ucast (push_bit 6 (x AND 0x003) OR drop_bit 4 (y AND 0x3F0)),
       ucast (push_bit 4 (y AND 0x00F) OR drop_bit 6 (z AND 0x3C0)),
       ucast (push_bit 2 (z AND 0x03F) OR 0x02),
       push_bit 7 (fs_fire fs) OR push_bit 6 (fs_a fs) OR push_bit 5 (fs_b fs) OR
         push_bit 4 (fs_c fs) OR push_bit 3 (fs_u fs) OR push_bit 2 (fs_d fs) OR
         push_bit 1 (fs_r fs) OR push_bit 0 (fs_l fs),
       push_bit 7 (fs_p fs) OR push_bit 6 (fs_x fs) OR push_bit 5 (fs_lt fs) OR push_bit 4 (fs_rt fs)])"

definition opera_pbus_add_flightstick :: "pbus_flightstick \<Rightarrow> pbus \<Rightarrow> pbus" where
  "opera_pbus_add_flightstick fs p =
     (if \<not> pbus_reserve 9 p then p else pbus_emit (flightstick_packet fs) p)"

record pbus_mouse =
  mouse_left :: u8
  mouse_middle :: u8
  mouse_right :: u8
  mouse_shift :: u8
  mouse_x :: u16
  mouse_y :: u16

definition mouse_packet :: "pbus_mouse \<Rightarrow> u8 list" where
  "mouse_packet mo =
     [0x49,
      push_bit 7 (mouse_left mo) OR push_bit 6 (mouse_middle mo) OR push_bit 5 (mouse_right mo) OR
        push_bit 4 (mouse_shift mo) OR ucast (drop_bit 6 (mouse_y mo AND 0x3C0)),
      ucast (push_bit 2 (mouse_y mo AND 0x03F) OR drop_bit 8 (mouse_x mo AND 0x300)),
      ucast (mouse_x mo AND 0xFF)]"

definition opera_pbus_add_mouse :: "pbus_mouse \<Rightarrow> pbus \<Rightarrow> pbus" where
  "opera_pbus_add_mouse mo p = (if \<not> pbus_reserve 4 p then p else pbus_emit (mouse_packet mo) p)"

record pbus_lightgun =
  lg_trigger :: u8
  lg_option :: u8
  lg_reload :: u8
  lg_x :: u16
  lg_y :: u16

definition lightgun_x :: "u16 \<Rightarrow> int" where
  "lightgun_x v = c_div ((sint v + 32 * 1024) * 64) 13107"

definition lightgun_y :: "u16 \<Rightarrow> int" where
  "lightgun_y v = c_div ((sint v + 32 * 1024) * 16) 4369"

definition lightgun_packet :: "pbus_lightgun \<Rightarrow> u8 list" where
  "lightgun_packet lg =
     (let (counter, trigger, hit_count) =
            (if lg_reload lg \<noteq> 0 then (0, 1, 0)
             else (pbus_lightgun_counter (lightgun_x (lg_x lg)) (lightgun_y (lg_y lg)), lg_trigger lg, 0x1F))
      in [0x4D,
          push_bit 7 trigger OR push_bit 3 (lg_option lg) OR ucast (drop_bit 19 (counter AND 0x80000)),
          ucast (drop_bit 11 (counter AND 0x7F800)),
          ucast (drop_bit 3 (counter AND 0x007F8)),
          ucast (push_bit 5 (counter AND 0x00007)) OR hit_count])"

definition opera_pbus_add_lightgun :: "pbus_lightgun \<Rightarrow> pbus \<Rightarrow> pbus" where
  "opera_pbus_add_lightgun lg p = (if \<not> pbus_reserve 5 p then p else pbus_emit (lightgun_packet lg) p)"

record pbus_arcade_lightgun =
  alg_trigger :: u8
  alg_service :: u8
  alg_coins :: u8
  alg_start :: u8
  alg_holster :: u8
  alg_x :: u16
  alg_y :: u16

definition arcade_lightgun_packet :: "pbus_arcade_lightgun \<Rightarrow> u8 list" where
  "arcade_lightgun_packet lg =
     (let (x, y, hit_count) =
            (if alg_holster lg \<noteq> 0 then (0, 0, 0)
             else (lightgun_x (alg_x lg), lightgun_y (alg_y lg), 0x1F));
          counter = pbus_lightgun_counter x y
      in [0x4D,
          push_bit 7 (alg_trigger lg) OR push_bit 6 (alg_service lg) OR push_bit 5 (alg_coins lg) OR
            push_bit 4 (alg_start lg) OR push_bit 3 (alg_holster lg) OR
            ucast (drop_bit 19 (counter AND 0x80000)),
          ucast (drop_bit 11 (counter AND 0x7F800)),
          ucast (drop_bit 3 (counter AND 0x007F8)),
          ucast (push_bit 5 (counter AND 0x00007)) OR hit_count])"

definition opera_pbus_add_arcade_lightgun :: "pbus_arcade_lightgun \<Rightarrow> pbus \<Rightarrow> pbus" where
  "opera_pbus_add_arcade_lightgun lg p =
     (if \<not> pbus_reserve 5 p then p else pbus_emit (arcade_lightgun_packet lg) p)"

record pbus_orbatak_trackball =
  tb_x :: u16
  tb_y :: u16

definition orbatak_trackball_packet :: "pbus_orbatak_trackball \<Rightarrow> u8 list" where
  "orbatak_trackball_packet tb =
     [0x49, ucast (drop_bit 6 (tb_y tb AND 0x3C0)),
      ucast (push_bit 2 (tb_y tb AND 0x03F) OR drop_bit 8 (tb_x tb AND 0x300)),
      ucast (tb_x tb AND 0xFF)]"

definition opera_pbus_add_orbatak_trackball :: "pbus_orbatak_trackball \<Rightarrow> pbus \<Rightarrow> pbus" where
  "opera_pbus_add_orbatak_trackball tb p =
     (if \<not> pbus_reserve 4 p then p else pbus_emit (orbatak_trackball_packet tb) p)"

record pbus_orbatak_buttons =
  btn_start_p1 :: u8
  btn_start_p2 :: u8
  btn_coin_p1 :: u8
  btn_coin_p2 :: u8
  btn_service :: u8

definition orbatak_buttons_packet :: "pbus_orbatak_buttons \<Rightarrow> u8 list" where
  "orbatak_buttons_packet btn =
     [0xC0, 0,
      push_bit 5 (btn_coin_p1 btn) OR push_bit 4 (btn_coin_p2 btn) OR push_bit 1 (btn_start_p1 btn) OR
        push_bit 2 (btn_start_p2 btn) OR push_bit 0 (btn_service btn)]"

definition opera_pbus_add_orbatak_buttons :: "pbus_orbatak_buttons \<Rightarrow> pbus \<Rightarrow> pbus" where
  "opera_pbus_add_orbatak_buttons btn p =
     (if \<not> pbus_reserve 3 p then p else pbus_emit (orbatak_buttons_packet btn) p)"

definition opera_pbus_buf :: "pbus \<Rightarrow> u8 list" where "opera_pbus_buf p = pbus_buf p"

definition opera_pbus_size :: "pbus \<Rightarrow> u32" where "opera_pbus_size p = pbus_idx p"

text \<open>The \<open>do ... while\<close> loop of \<open>opera_pbus_pad\<close>.\<close>

function pbus_pad_loop :: "pbus \<Rightarrow> pbus" where
  "pbus_pad_loop p =
     (let p' = pbus_put 0xFF p
      in if (pbus_idx p' AND 3) \<noteq> 0 \<and> pbus_idx p' < PBUS_BUF_SIZE then pbus_pad_loop p' else p')"
  by auto
termination
proof (relation "measure (\<lambda>p. if pbus_idx p = UINT32_MAX then 257 else 256 - unat (pbus_idx p))", simp)
  fix p p' assume p': "p' = pbus_put 0xFF p" and c: "(pbus_idx p' AND 3) \<noteq> 0 \<and> pbus_idx p' < PBUS_BUF_SIZE"
  have i: "pbus_idx p' = pbus_idx p + 1" by (simp add: p' pbus_put_def)
  show "(p', p) \<in> measure (\<lambda>p. if pbus_idx p = UINT32_MAX then 257 else 256 - unat (pbus_idx p))"
  proof (cases "pbus_idx p = UINT32_MAX")
    case True
    then show ?thesis using c by (simp add: i)
  next
    case False
    then have "unat (pbus_idx p) \<noteq> 4294967295" by (simp add: word_unat_eq_iff)
    then have "unat (pbus_idx p + 1) = Suc (unat (pbus_idx p))"
      using unat_u32_lt [of "pbus_idx p"] by (simp add: unat_word_ariths)
    then show ?thesis using False c by (auto simp: i word_less_nat_alt)
  qed
qed

declare pbus_pad_loop.simps [simp del]

definition opera_pbus_pad :: "pbus \<Rightarrow> pbus" where
  "opera_pbus_pad p =
     (if finalized p \<noteq> 0 then p
      else if pbus_idx p \<ge> PBUS_BUF_SIZE then p\<lparr>finalized := 1\<rparr>
      else (pbus_pad_loop p)\<lparr>finalized := 1\<rparr>)"

definition opera_pbus_reset :: "pbus \<Rightarrow> pbus" where
  "opera_pbus_reset p = p\<lparr>pbus_buf := replicate (length (pbus_buf p)) 0, pbus_idx := 0, finalized := 0\<rparr>"

end
