(* ===== verification/Opera_Pbus_Props.thy ===== *)
theory Opera_Pbus_Props
  imports Opera_Pbus
begin

text \<open>
  The player bus against its specification: the chain of bytes below the index grows by whole
  packets and never past the buffer, padding closes it on a word boundary, and the packets
  carry the buttons and coordinates that the receiving driver decodes.
\<close>

definition pbus_inv :: "pbus \<Rightarrow> bool" where
  "pbus_inv p \<longleftrightarrow> length (pbus_buf p) = 256 \<and> unat (pbus_idx p) \<le> 256"

definition chain :: "pbus \<Rightarrow> u8 list" where
  "chain p = take (unat (pbus_idx p)) (pbus_buf p)"

definition fits :: "nat \<Rightarrow> pbus \<Rightarrow> bool" where
  "fits n p \<longleftrightarrow> finalized p = 0 \<and> length (chain p) + n \<le> 256"

lemma length_chain: "pbus_inv p \<Longrightarrow> length (chain p) = unat (pbus_idx p)"
  by (simp add: pbus_inv_def chain_def)

lemma put_step:
  assumes "pbus_inv p" "unat (pbus_idx p) < 256"
  shows "pbus_inv (pbus_put v p)" "chain (pbus_put v p) = chain p @ [v]"
    "finalized (pbus_put v p) = finalized p" "unat (pbus_idx (pbus_put v p)) = Suc (unat (pbus_idx p))"
proof -
  have u: "unat (pbus_idx p + 1) = Suc (unat (pbus_idx p))" using assms(2) by (simp add: unat_word_ariths)
  show "pbus_inv (pbus_put v p)" "unat (pbus_idx (pbus_put v p)) = Suc (unat (pbus_idx p))"
    using assms by (simp_all add: pbus_inv_def pbus_put_def u)
  show "chain (pbus_put v p) = chain p @ [v]"
    using assms by (simp add: chain_def pbus_put_def u pbus_inv_def take_Suc_conv_app_nth)
  show "finalized (pbus_put v p) = finalized p" by (simp add: pbus_put_def)
qed

lemma emit_chain:
  assumes "pbus_inv p" "unat (pbus_idx p) + length vs \<le> 256"
  shows "pbus_inv (pbus_emit vs p) \<and> chain (pbus_emit vs p) = chain p @ vs \<and>
    finalized (pbus_emit vs p) = finalized p"
  using assms
proof (induction vs arbitrary: p)
  case Nil
  then show ?case by (simp add: pbus_emit_def)
next
  case (Cons v vs)
  have "unat (pbus_idx p) < 256" using Cons.prems by simp
  note st = put_step [OF Cons.prems(1) this, of v]
  then show ?case
    using Cons.IH [of "pbus_put v p"] Cons.prems(2) by (simp add: pbus_emit_def)
qed

text \<open>The contract of a device on the bus.\<close>

locale pbus_device =
  fixes add :: "pbus \<Rightarrow> pbus" and packet :: "u8 list"
  assumes add_eq: "add p = (if \<not> pbus_reserve (of_nat (length packet)) p then p else pbus_emit packet p)"
    and small: "length packet \<le> 256"
begin

lemma reserve_fits: "pbus_inv p \<Longrightarrow> pbus_reserve (of_nat (length packet)) p \<longleftrightarrow> fits (length packet) p"
proof -
  assume i: "pbus_inv p"
  have "unat (of_nat (length packet) :: u32) = length packet"
    using small by (intro unat_of_nat_u32) simp
  then have "unat (pbus_idx p + of_nat (length packet)) = unat (pbus_idx p) + length packet"
    using i small by (subst unat_add_nowrap) (simp_all add: pbus_inv_def)
  then show ?thesis using i
    by (simp add: pbus_reserve_def fits_def length_chain word_le_nat_alt)
qed

lemma add_chain:
  assumes i: "pbus_inv p"
  shows "pbus_inv (add p) \<and> finalized (add p) = finalized p \<and>
    chain (add p) = chain p @ (if fits (length packet) p then packet else [])"
proof (cases "fits (length packet) p")
  case True
  then have "unat (pbus_idx p) + length packet \<le> 256" using i by (simp add: fits_def length_chain)
  with True show ?thesis using emit_chain [OF i] reserve_fits [OF i] by (simp add: add_eq)
next
  case False
  then show ?thesis using reserve_fits [OF i] i by (simp add: add_eq)
qed

end

interpretation joypad: pbus_device "opera_pbus_add_joypad jp" "joypad_packet jp" for jp
  by unfold_locales (simp_all add: opera_pbus_add_joypad_def joypad_packet_def)

interpretation flightstick: pbus_device "opera_pbus_add_flightstick fs" "flightstick_packet fs" for fs
  by unfold_locales (simp_all add: opera_pbus_add_flightstick_def flightstick_packet_def Let_def)

interpretation mouse: pbus_device "opera_pbus_add_mouse mo" "mouse_packet mo" for mo
  by unfold_locales (simp_all add: opera_pbus_add_mouse_def mouse_packet_def)

interpretation lightgun: pbus_device "opera_pbus_add_lightgun lg" "lightgun_packet lg" for lg
  by unfold_locales (simp_all add: opera_pbus_add_lightgun_def lightgun_packet_def Let_def)

interpretation arcade_lightgun: pbus_device "opera_pbus_add_arcade_lightgun alg" "arcade_lightgun_packet alg" for alg
  by unfold_locales (simp_all add: opera_pbus_add_arcade_lightgun_def arcade_lightgun_packet_def Let_def)

interpretation trackball: pbus_device "opera_pbus_add_orbatak_trackball tb" "orbatak_trackball_packet tb" for tb
  by unfold_locales (simp_all add: opera_pbus_add_orbatak_trackball_def orbatak_trackball_packet_def)

interpretation buttons: pbus_device "opera_pbus_add_orbatak_buttons btn" "orbatak_buttons_packet btn" for btn
  by unfold_locales (simp_all add: opera_pbus_add_orbatak_buttons_def orbatak_buttons_packet_def)

lemma empty_inv: "pbus_inv PBUS" "pbus_inv p \<Longrightarrow> pbus_inv (opera_pbus_reset p)"
  by (simp_all add: pbus_inv_def PBUS_def opera_pbus_reset_def)

text \<open>C32. The player bus is a chain of whole packets: each of the seven device kinds appends its
  packet to the chain when the bus is open and the packet fits, and otherwise leaves the bus
  as it was; no call ever writes outside the 256-byte buffer or moves the index past it.\<close>

theorem pbus_append_packets:
  assumes "pbus_inv p"
  shows "\<forall>(add, packet) \<in> {(opera_pbus_add_joypad jp, joypad_packet jp),
      (opera_pbus_add_flightstick fs, flightstick_packet fs), (opera_pbus_add_mouse mo, mouse_packet mo),
      (opera_pbus_add_lightgun lg, lightgun_packet lg),
      (opera_pbus_add_arcade_lightgun alg, arcade_lightgun_packet alg),
      (opera_pbus_add_orbatak_trackball tb, orbatak_trackball_packet tb),
      (opera_pbus_add_orbatak_buttons btn, orbatak_buttons_packet btn)}.
    pbus_inv (add p) \<and> finalized (add p) = finalized p \<and>
    chain (add p) = chain p @ (if fits (length packet) p then packet else [])"
  using assms joypad.add_chain flightstick.add_chain mouse.add_chain lightgun.add_chain
    arcade_lightgun.add_chain trackball.add_chain buttons.add_chain
  by simp

theorem pbus_append_packets_witness:
  "chain (opera_pbus_add_mouse
     \<lparr>mouse_left = 1, mouse_middle = 0, mouse_right = 0, mouse_shift = 0, mouse_x = 5, mouse_y = 0\<rparr> PBUS) =
   [0x49, 0x80, 0, 5]"
proof -
  let ?mo = "\<lparr>mouse_left = 1, mouse_middle = 0, mouse_right = 0, mouse_shift = 0, mouse_x = 5, mouse_y = 0\<rparr>"
  have "mouse_packet ?mo = [0x49, 0x80, 0, 5]" "chain PBUS = []" "fits (Suc (Suc (Suc (Suc 0)))) PBUS"
    by (simp_all add: mouse_packet_def chain_def PBUS_def fits_def)
  then show ?thesis
    using pbus_append_packets [OF empty_inv(1), of undefined undefined ?mo undefined undefined undefined undefined]
    by simp
qed

section \<open>Padding\<close>

lemma idx_and3: "(i AND 3) \<noteq> 0 \<longleftrightarrow> unat i mod 4 \<noteq> 0" for i :: u32
proof -
  have "(3 :: u32) = mask 2" by (simp add: mask_eq_exp_minus_1)
  then have "i AND 3 = take_bit 2 i" by (simp add: take_bit_eq_mask)
  then have "unat (i AND 3) = unat i mod 4" by (simp add: take_bit_eq_mod unat_mod)
  then show ?thesis by (metis unat_eq_zero)
qed

lemma pad_loop:
  assumes "pbus_inv p" "unat (pbus_idx p) < 256"
  shows "pbus_inv (pbus_pad_loop p) \<and>
    chain (pbus_pad_loop p) = chain p @ replicate (4 - unat (pbus_idx p) mod 4) 0xFF"
  using assms
proof (induction p rule: pbus_pad_loop.induct)
  case (1 p)
  let ?p = "pbus_put 0xFF p"
  note st = put_step [OF 1(2,3), of "0xFF"]
  show ?case
  proof (cases "unat (pbus_idx ?p) mod 4 = 0")
    case True
    then have "pbus_pad_loop p = ?p" by (subst pbus_pad_loop.simps) (simp add: idx_and3)
    moreover have "4 - unat (pbus_idx p) mod 4 = 1"
      using True st(4) by (simp add: mod_Suc split: if_splits)
    ultimately show ?thesis using st by simp
  next
    case False
    then have m: "4 - unat (pbus_idx p) mod 4 = Suc (4 - unat (pbus_idx ?p) mod 4)"
      using st(4) by (simp add: mod_Suc Suc_diff_Suc split: if_splits)
    have lt: "unat (pbus_idx ?p) < 256"
    proof (rule ccontr)
      assume "\<not> unat (pbus_idx ?p) < 256"
      then have "unat (pbus_idx ?p) = 256" using st(4) 1(3) by simp
      with False show False by simp
    qed
    then have c: "(pbus_idx ?p AND 3) \<noteq> 0 \<and> pbus_idx ?p < 256"
      using False by (simp add: idx_and3 word_less_nat_alt)
    have e: "pbus_pad_loop p = pbus_pad_loop ?p" using c by (subst pbus_pad_loop.simps) simp
    show ?thesis using 1(1) [OF refl c st(1) lt] st(2) by (simp add: e m)
  qed
qed

lemma closed_bus:
  assumes "finalized q \<noteq> 0"
  shows "opera_pbus_pad q = q" "opera_pbus_add_joypad jp q = q"
    "opera_pbus_add_flightstick fs q = q" "chain (opera_pbus_reset q) = []"
  using assms by (simp_all add: opera_pbus_pad_def opera_pbus_add_joypad_def
      opera_pbus_add_flightstick_def pbus_reserve_def chain_def opera_pbus_reset_def)

text \<open>Padding closes the bus: it appends one to four end-of-chain bytes, up to the next
  multiple of four and still within the buffer (none when the buffer is already full), and afterwards neither another padding nor any device changes the bus until it
  is reset to empty.\<close>

theorem pbus_pad_closes:
  assumes i: "pbus_inv p" and f: "finalized p = 0"
  shows "chain (opera_pbus_pad p) =
      chain p @ replicate (if length (chain p) = 256 then 0 else 4 - length (chain p) mod 4) 0xFF \<and>
    unat (opera_pbus_size (opera_pbus_pad p)) mod 4 = 0 \<and> pbus_inv (opera_pbus_pad p) \<and>
    opera_pbus_pad (opera_pbus_pad p) = opera_pbus_pad p \<and>
    opera_pbus_add_joypad jp (opera_pbus_pad p) = opera_pbus_pad p \<and>
    opera_pbus_add_flightstick fs (opera_pbus_pad p) = opera_pbus_pad p \<and>
    chain (opera_pbus_reset (opera_pbus_pad p)) = []"
proof -
  let ?q = "opera_pbus_pad p"
  have "finalized ?q \<noteq> 0" using f by (simp add: opera_pbus_pad_def)
  note closed = closed_bus [OF this]
  have "pbus_inv ?q \<and> chain ?q =
      chain p @ replicate (if length (chain p) = 256 then 0 else 4 - length (chain p) mod 4) 0xFF"
  proof (cases "unat (pbus_idx p) < 256")
    case True
    have "?q = (pbus_pad_loop p)\<lparr>finalized := 1\<rparr>"
      using f True by (simp add: opera_pbus_pad_def word_le_nat_alt)
    with pad_loop [OF i True] True show ?thesis
      by (simp add: length_chain [OF i]) (simp add: chain_def pbus_inv_def)
  next
    case False
    then have l: "unat (pbus_idx p) = 256" using i by (simp add: pbus_inv_def)
    have "?q = p\<lparr>finalized := 1\<rparr>"
      using f l by (simp add: opera_pbus_pad_def word_le_nat_alt)
    with l i show ?thesis by (simp add: length_chain [OF i]) (simp add: chain_def pbus_inv_def)
  qed
  moreover from this have "unat (opera_pbus_size ?q) = length (chain ?q)"
    using length_chain [of ?q] by (simp only: opera_pbus_size_def)
  moreover have "(n + (4 - n mod 4)) mod 4 = 0" for n :: nat
  proof -
    have "n + (4 - n mod 4) = 4 * (n div 4) + (n mod 4 + (4 - n mod 4))"
      by (metis add.assoc mult_div_mod_eq)
    also have "n mod 4 + (4 - n mod 4) = 4" by (simp add: less_imp_le)
    finally show ?thesis by simp
  qed
  ultimately have "unat (opera_pbus_size ?q) mod 4 = 0" by simp
  then show ?thesis using closed \<open>pbus_inv ?q \<and> _\<close> by (intro conjI) simp_all
qed

theorem pbus_pad_closes_witness:
  "unat (opera_pbus_size (opera_pbus_pad PBUS)) mod 4 = 0"
  using pbus_pad_closes [OF empty_inv(1)] by (simp add: PBUS_def)

section \<open>Packets\<close>

lemma bits16I:
  assumes "\<And>n. n \<in> {0, 1, 2, 3, 4, 5, 6, 7, 8, 9, 10, 11, 12, 13, 14, 15 :: nat} \<Longrightarrow> bit a n = bit b n"
  shows "a = (b :: u16)"
proof (rule bit_word_eqI)
  fix n assume "n < LENGTH(16)"
  then have "n \<in> {0, 1, 2, 3, 4, 5, 6, 7, 8, 9, 10, 11, 12, 13, 14, 15}"
    by simp presburger
  then show "bit a n = bit b n" by (rule assms)
qed

text \<open>What the receiving driver makes of the coordinate bytes.\<close>

definition decode_mouse :: "u8 list \<Rightarrow> u16 \<times> u16" where
  "decode_mouse p =
     (push_bit 8 (ucast (p ! 2) AND 3) OR ucast (p ! 3),
      push_bit 6 (ucast (p ! 1) AND 0xF) OR drop_bit 2 (ucast (p ! 2)))"

definition decode_stick :: "u8 list \<Rightarrow> u16 \<times> u16 \<times> u16" where
  "decode_stick p =
     (push_bit 2 (ucast (p ! 3)) OR drop_bit 6 (ucast (p ! 4)),
      push_bit 4 (ucast (p ! 4) AND 0x3F) OR drop_bit 4 (ucast (p ! 5)),
      push_bit 6 (ucast (p ! 5) AND 0xF) OR drop_bit 2 (ucast (p ! 6)))"

lemma pos10_bits: "10 \<le> n \<Longrightarrow> \<not> bit (pbus_pos10 v) n"
proof -
  assume n: "10 \<le> n"
  define k where "k = (let rv = c_div (v + 32768) 64 in nat (if rv < 0 then 0 else if rv > 1023 then 1023 else rv))"
  have "pbus_pos10 v = of_nat k" "k < 1024"
    by (auto simp: pbus_pos10_def k_def Let_def)
  then have "unat (pbus_pos10 v) < 2 ^ 10" by (simp add: unat_of_nat)
  then have "take_bit 10 (unat (pbus_pos10 v)) = unat (pbus_pos10 v)" by (rule take_bit_nat_eq_self)
  then have "\<not> bit (unat (pbus_pos10 v)) n" using n by (metis bit_take_bit_iff not_le)
  then show ?thesis by (auto simp: bit_unsigned_iff dest: bit_imp_le_length)
qed

text \<open>The coordinates survive the packing: from a mouse packet the driver decodes the low ten
  bits of both deltas whatever the buttons are, and from a flight-stick packet the three
  ten-bit axis positions, which are the positions scaled and clamped to 0..1023.\<close>

theorem pbus_coordinates_decode:
  "decode_mouse (mouse_packet mo) = (mouse_x mo AND 0x3FF, mouse_y mo AND 0x3FF) \<and>
   decode_stick (flightstick_packet fs) =
     (pbus_pos10 (fs_h_pos fs), pbus_pos10 (fs_v_pos fs), pbus_pos10 (fs_z_pos fs))"
proof (intro conjI)
  show "decode_mouse (mouse_packet mo) = (mouse_x mo AND 0x3FF, mouse_y mo AND 0x3FF)"
    unfolding decode_mouse_def mouse_packet_def prod.inject
    by (intro conjI; rule bits16I; elim insertE emptyE; simp add: bit_simps)
  show "decode_stick (flightstick_packet fs) =
     (pbus_pos10 (fs_h_pos fs), pbus_pos10 (fs_v_pos fs), pbus_pos10 (fs_z_pos fs))"
    unfolding decode_stick_def flightstick_packet_def Let_def prod.inject
    by (intro conjI; rule bits16I; elim insertE emptyE; simp add: bit_simps pos10_bits)
qed

end
