(* ===== verification/Opera_Nvram.thy ===== *)
theory Opera_Nvram
  imports Opera_Mem_Props
begin

text \<open>
  Formatting of the battery-backed memory, \<open>src/libopera/opera_nvram.c\<close>. The \<open>DiscLabel\<close> and \<open>LinkedMemBlock\<close>
  structures of \<open>discdata.h\<close> and \<open>linkedmemblock.h\<close> are laid out at their byte offsets
  (132 and 20 bytes, no padding); their 32-bit fields are stored big-endian through
  \<open>swap32_if_le\<close>.
\<close>

section \<open>Formatting\<close>

abbreviation (input) DISC_LABEL_SIZE :: u32 where "DISC_LABEL_SIZE \<equiv> 132"
abbreviation (input) LINKED_MEM_BLOCK_SIZE :: u32 where "LINKED_MEM_BLOCK_SIZE \<equiv> 20"

definition set_be32 :: "u32 \<Rightarrow> u32 \<Rightarrow> mem \<Rightarrow> mem" where
  "set_be32 a v d = set32 d a (SWAP32 v)"

definition get_be32 :: "mem \<Rightarrow> u32 \<Rightarrow> u32" where
  "get_be32 d a = SWAP32 (get32 d a)"

text \<open>\<open>strncpy\<close> of a literal into a field of \<open>n\<close> bytes.\<close>

definition strncpy :: "u32 \<Rightarrow> string \<Rightarrow> nat \<Rightarrow> mem \<Rightarrow> mem" where
  "strncpy a s n d =
     (\<lambda>x. if unat (x - a) < n
          then (if unat (x - a) < length s then of_char (s ! unat (x - a)) else 0) else d x)"

definition opera_nvram_initialized :: "mem \<Rightarrow> bool" where
  "opera_nvram_initialized d \<longleftrightarrow>
     (if d 0 \<noteq> 1 then False
      else if d 6 \<noteq> 2 then False
      else \<forall>i \<in> set [0..<5]. d (1 + of_nat i) = 0x5A)"

definition disc_label_init :: "u32 \<Rightarrow> mem \<Rightarrow> mem" where
  "disc_label_init bufsize d =
     (let d = d(0 := 1);
          d = d(1 := 0x5A, 2 := 0x5A, 3 := 0x5A, 4 := 0x5A, 5 := 0x5A);
          d = d(6 := 2);
          d = d(7 := 0);
          d = strncpy 8 ''opera formatted'' 32 d;
          d = strncpy 40 ''nvram'' 32 d;
          d = set_be32 72 (- 1) d;
          d = set_be32 76 1 d;
          d = set_be32 80 bufsize d;
          d = set_be32 84 (- 2) d;
          d = set32 d 88 0;
          d = set_be32 92 1 d;
          d = set32 d 96 0
      in set_be32 100 DISC_LABEL_SIZE d)"

definition linked_blocks_init :: "u32 \<Rightarrow> mem \<Rightarrow> mem" where
  "linked_blocks_init bufsize d =
     (let anchor = DISC_LABEL_SIZE; free = anchor + LINKED_MEM_BLOCK_SIZE;
          d = set_be32 anchor 0x855A02B6 d;
          d = set_be32 (anchor + 4) (DISC_LABEL_SIZE + LINKED_MEM_BLOCK_SIZE) d;
          d = set_be32 (anchor + 8) (DISC_LABEL_SIZE + LINKED_MEM_BLOCK_SIZE) d;
          d = set_be32 (anchor + 12) LINKED_MEM_BLOCK_SIZE d;
          d = set_be32 (anchor + 16) LINKED_MEM_BLOCK_SIZE d;
          d = set_be32 free 0x7AA565BD d;
          d = set_be32 (free + 4) DISC_LABEL_SIZE d;
          d = set_be32 (free + 8) DISC_LABEL_SIZE d;
          d = set_be32 (free + 12) (bufsize - DISC_LABEL_SIZE - LINKED_MEM_BLOCK_SIZE) d
      in set_be32 (free + 16) LINKED_MEM_BLOCK_SIZE d)"

definition opera_nvram_init :: "u32 \<Rightarrow> mem \<Rightarrow> mem" where
  "opera_nvram_init bufsize d =
     linked_blocks_init bufsize (disc_label_init bufsize (mem_set (unat bufsize) 0 d))"

lemma swap_swap: "SWAP32 (SWAP32 v) = v"
proof -
  let ?b = "\<lambda>i. byte_of i v"
  have "v = le4 (?b 0) (?b 1) (?b 2) (?b 3)" by simp
  then show ?thesis by (metis swap32_bytes)
qed

lemma be32_same [simp]: "aligned4 a \<Longrightarrow> get_be32 (set_be32 a v d) a = v"
  by (simp add: get_be32_def set_be32_def get32_set32 swap_swap)

lemma be32_other: "aligned4 a \<Longrightarrow> aligned4 b \<Longrightarrow> a \<noteq> b \<Longrightarrow> get_be32 (set_be32 b v d) a = get_be32 d a"
  by (simp add: get_be32_def set_be32_def get32_set32)

lemma be32_byte: "unat x < unat a \<Longrightarrow> unat a + 4 \<le> 4294967296 - 1 \<Longrightarrow> set_be32 a v d x = d x"
  by (auto simp: set_be32_def set32_def unat_word_ariths)

lemma set32_byte: "unat x < unat a \<Longrightarrow> unat a + 4 \<le> 4294967296 - 1 \<Longrightarrow> set32 d a v x = d x"
  by (auto simp: set32_def unat_word_ariths)

lemma strncpy_below:
  assumes "unat x < unat a" "n \<le> 4294967296 - unat a" shows "strncpy a s n d x = d x"
proof -
  have "unat (x - a) = 4294967296 + unat x - unat a"
    using assms(1) by (simp add: unat_sub_if')
  then have "\<not> unat (x - a) < n" using assms by linarith
  then show ?thesis by (simp add: strncpy_def)
qed

text \<open>A doubly linked ring of blocks in memory, followed for a number of steps.\<close>

fun follow :: "mem \<Rightarrow> u32 \<Rightarrow> nat \<Rightarrow> u32 list" where
  "follow d a 0 = []"
| "follow d a (Suc n) = a # follow d (get_be32 d (a + 4)) n"

text \<open>A freshly formatted NVRAM is recognised as formatted, and is a well-formed linked-memory
  volume: the label points to the anchor block, anchor and free block form a doubly linked ring
  of two with their fingerprints, and label, anchor and free block tile the volume exactly up
  to its last byte.\<close>

theorem nvram_format_wellformed:
  "let d = opera_nvram_init n d0 in
     opera_nvram_initialized d \<and> get_be32 d 80 = n \<and> get_be32 d 100 = 132 \<and>
     follow d 132 3 = [132, 152, 132] \<and> get_be32 d (132 + 8) = 152 \<and> get_be32 d (152 + 8) = 132 \<and>
     get_be32 d 132 = 0x855A02B6 \<and> get_be32 d 152 = 0x7AA565BD \<and>
     132 + get_be32 d (132 + 12) = 152 \<and> 152 + get_be32 d (152 + 12) = n"
proof -
  have al: "aligned4 72" "aligned4 76" "aligned4 80" "aligned4 84" "aligned4 88" "aligned4 92" "aligned4 96"
    "aligned4 100" "aligned4 132" "aligned4 136" "aligned4 140" "aligned4 144" "aligned4 148" "aligned4 152"
    "aligned4 156" "aligned4 160" "aligned4 164" "aligned4 168"
    by (simp_all add: aligned4_def)
  have s32: "aligned4 a \<Longrightarrow> aligned4 b \<Longrightarrow> a \<noteq> b \<Longrightarrow> get_be32 (set32 d b v) a = get_be32 d a" for a b d v
    by (simp add: get_be32_def get32_set32)
  let ?l = "disc_label_init n (mem_set (unat n) 0 d0)"
  have label: "get_be32 ?l 80 = n" "get_be32 ?l 100 = 132"
    by (simp_all add: disc_label_init_def Let_def al be32_other s32)
  have b: "linked_blocks_init n d x = d x" if "unat x < 132" for d x
    using that by (simp add: linked_blocks_init_def Let_def be32_byte)
  have "get_be32 (linked_blocks_init n d) a = get_be32 d a" if "aligned4 a" "a \<in> {80, 100}" for d a
    using that by (auto simp: linked_blocks_init_def Let_def al be32_other)
  then have hd: "get_be32 (opera_nvram_init n d0) 80 = n" "get_be32 (opera_nvram_init n d0) 100 = 132"
    using label al by (simp_all add: opera_nvram_init_def)
  have lab: "?l x = (if x = 0 then 1 else if x = 6 then 2 else 0x5A)" if "unat x < 7" for x
  proof -
    have "x \<in> {0, 1, 2, 3, 4, 5, 6}"
    proof -
      have "unat x = 0 \<or> unat x = 1 \<or> unat x = 2 \<or> unat x = 3 \<or> unat x = 4 \<or> unat x = 5 \<or> unat x = 6"
        using that by presburger
      then show ?thesis by (auto simp: word_unat_eq_iff)
    qed
    moreover have "?l x = ((mem_set (unat n) 0 d0)(0 := 1, 1 := 0x5A, 2 := 0x5A, 3 := 0x5A, 4 := 0x5A,
        5 := 0x5A, 6 := 2, 7 := 0)) x"
      using that by (simp add: disc_label_init_def Let_def be32_byte set32_byte strncpy_below)
    ultimately show ?thesis by auto
  qed
  have init: "opera_nvram_initialized (opera_nvram_init n d0)"
    by (simp add: opera_nvram_initialized_def opera_nvram_init_def b lab upt_rec)
  have blocks: "get_be32 (linked_blocks_init n d) 136 = 152" "get_be32 (linked_blocks_init n d) 140 = 152"
    "get_be32 (linked_blocks_init n d) 156 = 132" "get_be32 (linked_blocks_init n d) 160 = 132"
    "get_be32 (linked_blocks_init n d) 132 = 0x855A02B6" "get_be32 (linked_blocks_init n d) 152 = 0x7AA565BD"
    "get_be32 (linked_blocks_init n d) 144 = 20" "get_be32 (linked_blocks_init n d) 164 = n - 152" for d
    by (simp_all add: linked_blocks_init_def Let_def al be32_other)
  show ?thesis
    using hd init by (simp add: Let_def numeral_3_eq_3) (simp add: opera_nvram_init_def blocks)
qed

end
