(* ===== verification/Opera_Diag_Port.thy ===== *)
theory Opera_Diag_Port
  imports Opera_Prelude
begin

text \<open>
  The diagnostic port, \<open>src/libopera/opera_diag_port.c\<close>: two 16-bit receive registers that
  are shifted out bit by bit, most significant bit first, and two send registers that
  are filled the same way. The six globals of the file are the fields of the record.
\<close>

record diag_port =
  SNDDebugFIFO0 :: u16
  SNDDebugFIFO1 :: u16
  RCVDebugFIFO0 :: u16
  RCVDebugFIFO1 :: u16
  GetIdx :: u16
  SendIdx :: u16

definition opera_diag_port_init :: "u32 \<Rightarrow> diag_port \<Rightarrow> diag_port" where
  "opera_diag_port_init test_code p =
     (let p = p\<lparr>GetIdx := 16, SendIdx := 16, SNDDebugFIFO0 := 0, SNDDebugFIFO1 := 0\<rparr>;
          test_code = (if sint test_code \<ge> 0 then (test_code XOR 0xFF) OR 0xA000 else 0)
      in p\<lparr>RCVDebugFIFO0 := ucast test_code, RCVDebugFIFO1 := ucast test_code\<rparr>)"

definition opera_diag_port_send :: "u32 \<Rightarrow> diag_port \<Rightarrow> diag_port" where
  "opera_diag_port_send val p =
     (let p = (if GetIdx p \<noteq> 16
               then p\<lparr>GetIdx := 16, SendIdx := 16, SNDDebugFIFO0 := 0, SNDDebugFIFO1 := 0\<rparr> else p);
          p = p\<lparr>SNDDebugFIFO0 := SNDDebugFIFO0 p OR
                  ucast (push_bit (unat (SendIdx p) - 1) (val AND 1))\<rparr>;
          p = p\<lparr>SNDDebugFIFO1 := SNDDebugFIFO1 p OR
                  ucast (push_bit (unat (SendIdx p) - 1) (drop_bit 1 (val AND 1)))\<rparr>;
          p = p\<lparr>SendIdx := SendIdx p - 1\<rparr>
      in if SendIdx p = 0 then p\<lparr>SendIdx := 16\<rparr> else p)"

definition opera_diag_port_get :: "diag_port \<Rightarrow> u32 \<times> diag_port" where
  "opera_diag_port_get p =
     (let p = (if SendIdx p \<noteq> 16 then p\<lparr>GetIdx := 16, SendIdx := 16\<rparr> else p);
          k = unat (GetIdx p) - 1;
          val = ucast (drop_bit k (RCVDebugFIFO0 p)) AND 0x1;
          val = val OR push_bit 1 (ucast (drop_bit k (RCVDebugFIFO1 p)) AND 0x1);
          p = p\<lparr>GetIdx := GetIdx p - 1\<rparr>
      in (val, if GetIdx p = 0 then p\<lparr>GetIdx := 16\<rparr> else p))"

section \<open>Index arithmetic\<close>

definition diag_inv :: "diag_port \<Rightarrow> bool" where
  "diag_inv p \<longleftrightarrow> 1 \<le> unat (GetIdx p) \<and> unat (GetIdx p) \<le> 16 \<and>
     1 \<le> unat (SendIdx p) \<and> unat (SendIdx p) \<le> 16"

lemma dec_idx:
  fixes i :: u16
  assumes "1 \<le> unat i" shows "unat (i - 1) = unat i - 1" "i - 1 = 0 \<longleftrightarrow> unat i = 1"
proof -
  show u: "unat (i - 1) = unat i - 1" using assms by (simp add: unat_sub_le word_le_nat_alt)
  show "i - 1 = 0 \<longleftrightarrow> unat i = 1" using u assms by (auto simp: word_unat_eq_iff)
qed

lemma diag_ops_inv:
  "diag_inv (opera_diag_port_init t p)"
  "diag_inv p \<Longrightarrow> diag_inv (opera_diag_port_send v p)"
  "diag_inv p \<Longrightarrow> diag_inv (snd (opera_diag_port_get p))"
proof -
  show "diag_inv (opera_diag_port_init t p)" by (simp add: diag_inv_def opera_diag_port_init_def Let_def)
  show "diag_inv p \<Longrightarrow> diag_inv (opera_diag_port_send v p)"
    using dec_idx [of "SendIdx p"] dec_idx [of 16]
    by (auto simp: diag_inv_def opera_diag_port_send_def Let_def)
  show "diag_inv p \<Longrightarrow> diag_inv (snd (opera_diag_port_get p))"
    using dec_idx [of "GetIdx p"] dec_idx [of 16]
    by (auto simp: diag_inv_def opera_diag_port_get_def Let_def)
qed

text \<open>Repeated gets and sends.\<close>

fun diag_gets :: "nat \<Rightarrow> diag_port \<Rightarrow> u32 list \<times> diag_port" where
  "diag_gets 0 p = ([], p)"
| "diag_gets (Suc n) p =
     (let (v, p1) = opera_diag_port_get p; (vs, p2) = diag_gets n p1 in (v # vs, p2))"

definition get_bits :: "diag_port \<Rightarrow> nat \<Rightarrow> u32" where
  "get_bits p k = of_bool (bit (RCVDebugFIFO0 p) k) + 2 * of_bool (bit (RCVDebugFIFO1 p) k)"

lemma and1: "x AND 1 = of_bool (bit x 0)" for x :: u32
  by (simp add: and_one_eq mod_2_eq_odd bit_0)

lemma get_value:
  assumes "diag_inv p" "SendIdx p = 16"
  shows "opera_diag_port_get p = (get_bits p (unat (GetIdx p) - 1),
     p\<lparr>GetIdx := if unat (GetIdx p) = 1 then 16 else GetIdx p - 1\<rparr>)"
proof -
  have g: "1 \<le> unat (GetIdx p)" using assms by (simp add: diag_inv_def)
  have "(of_bool a OR push_bit 1 (of_bool b) :: u32) = of_bool a + 2 * of_bool b" for a b
    by (cases a; cases b) simp_all
  then show ?thesis
    using assms dec_idx [OF g]
    by (simp add: opera_diag_port_get_def Let_def get_bits_def and1 bit_simps)
qed

lemma gets_list:
  assumes "diag_inv p" "SendIdx p = 16" "n \<le> unat (GetIdx p)"
  shows "fst (diag_gets n p) = map (\<lambda>i. get_bits p (unat (GetIdx p) - 1 - i)) [0..<n] \<and>
    snd (diag_gets n p) = p\<lparr>GetIdx := if n = unat (GetIdx p) then 16 else GetIdx p - of_nat n\<rparr>"
  using assms
proof (induction n arbitrary: p)
  case 0
  then show ?case by (auto simp: diag_inv_def)
next
  case (Suc n)
  let ?g = "unat (GetIdx p)"
  let ?q = "p\<lparr>GetIdx := if ?g = 1 then 16 else GetIdx p - 1\<rparr>"
  have g: "1 \<le> ?g" using Suc.prems by simp
  note v = get_value [OF Suc.prems(1,2)]
  show ?case
  proof (cases "?g = 1")
    case True
    then have "n = 0" using Suc.prems(3) by simp
    then show ?thesis using v True by simp
  next
    case False
    have q: "unat (GetIdx ?q) = ?g - 1" using dec_idx(1) [OF g] False by simp
    have i: "diag_inv ?q" "SendIdx ?q = 16" "n \<le> unat (GetIdx ?q)"
      using Suc.prems q False by (simp_all add: diag_inv_def dec_idx(1) [OF g], linarith)
    have b: "get_bits (p\<lparr>GetIdx := x\<rparr>) k = get_bits p k" for k x by (simp add: get_bits_def)
    have "[0..<Suc n] = 0 # map Suc [0..<n]" by (simp add: upt_conv_Cons map_Suc_upt del: upt_Suc)
    then show ?thesis
      using Suc.IH [OF i] v False g
      by (simp add: case_prod_unfold Let_def b dec_idx(1) [OF g] del: upt_Suc)
  qed
qed

text \<open>After initialisation with a test code, sixteen reads of the port return the two receive
  registers bit by bit, most significant first (register 0 in bit 0, register 1 in bit 1), and
  the port is then back at the first bit, ready to repeat them.\<close>

theorem diag_get_shifts_out:
  "let p = opera_diag_port_init t p0 in
     fst (diag_gets 16 p) = map (\<lambda>i. get_bits p (15 - i)) [0..<16] \<and> snd (diag_gets 16 p) = p \<and>
     RCVDebugFIFO0 p = (if sint t \<ge> 0 then ucast ((t XOR 0xFF) OR 0xA000) else 0)"
proof -
  let ?p = "opera_diag_port_init t p0"
  have i: "diag_inv ?p" "SendIdx ?p = 16" "GetIdx ?p = 16" "?p\<lparr>GetIdx := 16\<rparr> = ?p"
    by (simp_all add: diag_ops_inv(1)) (simp_all add: opera_diag_port_init_def Let_def)
  moreover have "RCVDebugFIFO0 ?p = (if sint t \<ge> 0 then ucast ((t XOR 0xFF) OR 0xA000) else 0)"
    by (simp add: opera_diag_port_init_def Let_def)
  ultimately show ?thesis using gets_list [OF i(1,2), of 16] by (simp add: Let_def)
qed

text \<open>Any interleaving of sends and reads.\<close>

datatype diag_op = Send u32 | Get

fun diag_run :: "diag_op list \<Rightarrow> diag_port \<Rightarrow> diag_port" where
  "diag_run [] p = p"
| "diag_run (Send v # os) p = diag_run os (opera_diag_port_send v p)"
| "diag_run (Get # os) p = diag_run os (snd (opera_diag_port_get p))"

lemma send_fifo1: "SNDDebugFIFO1 p = 0 \<Longrightarrow> SNDDebugFIFO1 (opera_diag_port_send v p) = 0"
proof -
  have "drop_bit 1 (v AND 1) = 0" by (rule bit_word_eqI) (auto simp: bit_simps bit_1_iff)
  then show "SNDDebugFIFO1 p = 0 \<Longrightarrow> SNDDebugFIFO1 (opera_diag_port_send v p) = 0"
    by (simp add: opera_diag_port_send_def Let_def)
qed

lemma run_fifo1: "SNDDebugFIFO1 p = 0 \<Longrightarrow> SNDDebugFIFO1 (diag_run os p) = 0"
proof (induction os p rule: diag_run.induct)
  case (3 os p)
  then show ?case by (simp add: opera_diag_port_get_def Let_def)
qed (simp_all add: send_fifo1)

text \<open>The second send register never receives anything: whatever values are sent, with any reads
  in between, it keeps the value 0 it was initialised with, so bit 1 of a sent value is lost.\<close>

theorem diag_send_loses_bit1:
  "SNDDebugFIFO1 (diag_run os (opera_diag_port_init t p)) = 0"
  by (rule run_fifo1) (simp add: opera_diag_port_init_def Let_def)

end
