(* ===== verification/Opera_Words.thy ===== *)
theory Opera_Words
  imports Opera_Mem
begin

text \<open>
  Arrays of 32-bit words in the flat memory, as the C code sees them through \<open>uint32_t *\<close> and
  \<open>frac16 *\<close> pointers into RAM: stores of consecutive words, what they change and what they leave,
  and the interface of a loop that stores one element of an array per turn, with the condition
  under which every element is computed from the memory the loop started with.
\<close>

section \<open>Words in memory\<close>

text \<open>Consecutive stores \<open>dest_[0] = ...; dest_[1] = ...; ...\<close>.\<close>

fun put_words :: "u32 \<Rightarrow> u32 list \<Rightarrow> mem \<Rightarrow> mem" where
  "put_words a [] m = m"
| "put_words a (v # vs) m = put_words (a + 4) vs (set32 m a v)"

text \<open>Element \<open>i\<close> of an array of words, and element \<open>[r][c]\<close> of a matrix with \<open>n\<close> columns.\<close>

definition elem :: "mem \<Rightarrow> u32 \<Rightarrow> nat \<Rightarrow> u32" where
  "elem m p i = get32 m (p + 4 * of_nat i)"

definition elem2 :: "nat \<Rightarrow> mem \<Rightarrow> u32 \<Rightarrow> nat \<Rightarrow> nat \<Rightarrow> u32" where
  "elem2 n m p r c = elem m p (n * r + c)"

text \<open>\<open>for(i = 0; i < count_; i++)\<close> over a signed count.\<close>

definition for_count :: "int \<Rightarrow> (nat \<Rightarrow> mem \<Rightarrow> mem) \<Rightarrow> mem \<Rightarrow> mem" where
  "for_count count body = fold body [0..<nat count]"

section \<open>Stores of words\<close>

lemma set32_bytes:
  "unat (x - a) \<ge> 4 \<Longrightarrow> set32 m a v x = m x"
proof -
  assume "unat (x - a) \<ge> 4"
  then have "x - a \<noteq> 0" "x - a \<noteq> 1" "x - a \<noteq> 2" "x - a \<noteq> 3" by auto
  then have "x \<noteq> a" "x \<noteq> a + 1" "x \<noteq> a + 2" "x \<noteq> a + 3" by auto
  then show ?thesis by (simp add: set32_def)
qed

lemma get32_set32_same [simp]: "get32 (set32 m a v) a = v"
  by (simp add: get32_def set32_def)

lemma get32_cong:
  assumes "\<And>j. j < 4 \<Longrightarrow> m (a + of_nat j) = m' (a + of_nat j)" shows "get32 m a = get32 m' a"
  using assms [of 0] assms [of 1] assms [of 2] assms [of 3] by (simp add: get32_def)

lemma unat_diff_step: "4 \<le> unat (x - a) \<Longrightarrow> unat (x - (a + 4)) = unat (x - a) - 4" for x a :: u32
proof -
  assume "4 \<le> unat (x - a)"
  then have "(4 :: u32) \<le> x - a" by (simp add: word_le_nat_alt)
  then have "unat (x - a - 4) = unat (x - a) - 4" by (subst unat_sub_le) simp_all
  then show ?thesis by (simp add: diff_diff_eq add.commute)
qed

lemma put_words_frame:
  "4 * length vs \<le> unat (x - a) \<Longrightarrow> put_words a vs m x = m x"
proof (induction vs arbitrary: a m)
  case (Cons v vs)
  then show ?case by (simp add: unat_diff_step set32_bytes)
qed simp

lemma get32_put_words_frame:
  assumes "4 * length vs \<le> unat (b - a)" "unat (b - a) + 4 \<le> 4294967296"
  shows "get32 (put_words a vs m) b = get32 m b"
proof (rule get32_cong)
  fix j :: nat assume "j < 4"
  then have j: "unat (of_nat j :: u32) = j" by (simp add: unat_of_nat_u32)
  have "b + of_nat j - a = (b - a) + of_nat j" by simp
  then have "unat (b + of_nat j - a) = unat (b - a) + j"
    using unat_add_nowrap [of "b - a" "of_nat j"] assms(2) \<open>j < 4\<close> by (simp only: j) simp
  then show "put_words a vs m (b + of_nat j) = m (b + of_nat j)"
    using assms(1) by (intro put_words_frame) simp
qed

lemma elem_put_words:
  assumes "i < length vs" "4 * length vs \<le> 4294967296"
  shows "elem (put_words a vs m) a i = vs ! i"
  using assms
proof (induction vs arbitrary: a m i)
  case (Cons v vs)
  show ?case
  proof (cases i)
    case 0
    have "unat (a - (a + 4)) = 4294967292" by (simp add: unat_arith_simps(1))
    then show ?thesis
      using Cons.prems 0 by (simp add: elem_def get32_put_words_frame)
  next
    case (Suc k)
    then have "elem (put_words (a + 4) vs (set32 m a v)) (a + 4) k = vs ! k"
      using Cons by simp
    then show ?thesis using Suc by (simp add: elem_def algebra_simps)
  qed
qed simp

text \<open>Ranges of bytes.\<close>

text \<open>The \<open>n\<close> bytes from address \<open>a\<close>.\<close>

definition span :: "u32 \<Rightarrow> nat \<Rightarrow> u32 set" where
  "span a n = {x. unat (x - a) < n}"

lemma elem_cong:
  assumes "\<And>x. x \<in> span p (4 * n) \<Longrightarrow> m x = m' x" "i < n" "4 * n \<le> 4294967296"
  shows "elem m p i = elem m' p i"
  unfolding elem_def
proof (rule get32_cong)
  fix j :: nat assume j: "j < 4"
  have "(4 * of_nat i :: u32) + of_nat j = of_nat (4 * i + j)" by simp
  then have "unat (p + 4 * of_nat i + of_nat j - p) = 4 * i + j"
    using unat_of_nat_u32 [of "4 * i + j"] assms(2,3) j by (simp only: add_diff_cancel_left' add.assoc)
  then show "m (p + 4 * of_nat i + of_nat j) = m' (p + 4 * of_nat i + of_nat j)"
    using assms(2) j by (intro assms(1)) (simp add: span_def)
qed

lemma elem_offset: "elem m (p + 4 * of_nat k) i = elem m p (k + i)"
  by (simp add: elem_def algebra_simps)

lemma elem_span:
  "(\<And>x. x \<in> span (p + 4 * of_nat (1 * i)) 4 \<Longrightarrow> m x = m' x) \<Longrightarrow> elem m p i = elem m' p i"
  using elem_cong [of "p + 4 * of_nat (1 * i)" 1 m m' 0] by (simp add: elem_def)

section \<open>Loops over arrays\<close>

text \<open>An array kernel: turn \<open>i\<close> stores the \<open>k\<close> words \<open>res i m\<close> at element \<open>i\<close> of \<open>dest\<close>, and they only
  depend on the bytes \<open>reads i\<close>.\<close>

locale array_kernel =
  fixes body :: "nat \<Rightarrow> mem \<Rightarrow> mem" and dest :: u32 and k :: nat
    and res :: "nat \<Rightarrow> mem \<Rightarrow> u32 list" and reads :: "nat \<Rightarrow> u32 set"
  assumes body_put: "body i m = put_words (dest + 4 * of_nat (k * i)) (res i m) m"
    and length_res: "length (res i m) = k"
    and res_cong: "(\<And>x. x \<in> reads i \<Longrightarrow> m x = m' x) \<Longrightarrow> res i m = res i m'"
begin

text \<open>The bytes of element \<open>i\<close>.\<close>

definition bytes_of :: "nat \<Rightarrow> u32 set" where
  "bytes_of i = {x. 4 * k * i \<le> unat (x - dest) \<and> unat (x - dest) < 4 * k * Suc i}"

definition hazard_free :: "nat \<Rightarrow> bool" where
  "hazard_free n \<longleftrightarrow> 4 * k * n \<le> 4294967296 \<and> (\<forall>i<n. \<forall>j<i. reads i \<inter> bytes_of j = {})"

lemma body_frame:
  assumes "x \<notin> bytes_of i" "4 * k * Suc i \<le> 4294967296" shows "body i m x = m x"
proof -
  let ?o = "4 * of_nat (k * i) :: u32"
  have o: "unat ?o = 4 * k * i"
  proof (cases "k = 0")
    case False
    then have "4 * k * i < 4294967296" using assms(2) by (simp only: mult_Suc_right)
    then show ?thesis using unat_of_nat_u32 [of "4 * k * i"] by (simp add: mult.assoc)
  qed simp
  have "4 * length (res i m) \<le> unat (x - (dest + ?o))"
  proof (cases "4 * k * i \<le> unat (x - dest)")
    case True
    then have "unat (x - dest - ?o) = unat (x - dest) - 4 * k * i"
      using o by (subst unat_sub_le) (simp_all add: word_le_nat_alt)
    moreover have "4 * k * Suc i \<le> unat (x - dest)" using True assms(1) by (simp add: bytes_of_def)
    ultimately show ?thesis by (simp add: length_res diff_diff_eq)
  next
    case False
    then have "unat ((x - dest) - ?o) = 4294967296 + unat (x - dest) - 4 * k * i"
      using o by (simp add: unat_sub_if_size word_le_nat_alt word_size)
    then show ?thesis using assms(2) False by (simp add: length_res diff_diff_eq)
  qed
  then show ?thesis unfolding body_put by (rule put_words_frame)
qed

lemma run_frame:
  assumes "4 * k * n \<le> 4294967296" "\<And>i. i < n \<Longrightarrow> x \<notin> bytes_of i"
  shows "fold body [0..<n] m x = m x"
  using assms
proof (induction n)
  case (Suc n)
  then have "fold body [0..<n] m x = m x" by simp
  then show ?case using body_frame [of x n] Suc.prems by simp
qed simp

lemma word_bytes:
  assumes "w < k" "j < 4" "4 * k * Suc i \<le> 4294967296"
  shows "(dest + 4 * of_nat (k * i + w)) + of_nat j \<in> bytes_of i"
proof -
  have l: "4 * (k * i + w) + j < 4 * k * Suc i" using assms(1,2) by simp
  have "(4 * of_nat (k * i + w) :: u32) + of_nat j = of_nat (4 * (k * i + w) + j)" by simp
  then have "unat ((dest + 4 * of_nat (k * i + w)) + of_nat j - dest) = 4 * (k * i + w) + j"
    using unat_of_nat_u32 [of "4 * (k * i + w) + j"] l assms(3) by (simp only: add_diff_cancel_left' add.assoc)
  then show ?thesis using l by (simp add: bytes_of_def)
qed

lemma bytes_of_disjoint: "x \<in> bytes_of i \<Longrightarrow> i < j \<Longrightarrow> x \<notin> bytes_of j"
proof -
  assume "x \<in> bytes_of i" "i < j"
  moreover have "4 * k * Suc i \<le> 4 * k * j" using \<open>i < j\<close> by (intro mult_le_mono2) simp
  ultimately show ?thesis by (simp add: bytes_of_def)
qed

lemma body_elem:
  assumes "w < k" "4 * k * Suc i \<le> 4294967296"
  shows "elem2 k (body i m) dest i w = res i m ! w"
proof -
  have "4 * k \<le> 4294967296" using assms(2) by (simp only: mult_Suc_right)
  then have "elem (put_words (dest + 4 * of_nat (k * i)) (res i m) m) (dest + 4 * of_nat (k * i)) w = res i m ! w"
    using assms(1) by (intro elem_put_words) (simp_all add: length_res)
  then show ?thesis by (simp add: elem2_def elem_def body_put algebra_simps)
qed

lemma body_elem_other:
  assumes "w < k" "i < n" "4 * k * Suc n \<le> 4294967296"
  shows "elem2 k (body n m) dest i w = elem2 k m dest i w"
  unfolding elem2_def elem_def
proof (rule get32_cong)
  fix j :: nat assume j: "j < 4"
  have "4 * k * Suc i \<le> 4 * k * Suc n" using assms(2) by (intro mult_le_mono2) simp
  then have "4 * k * Suc i \<le> 4294967296" using assms(3) by linarith
  then have "dest + 4 * of_nat (k * i + w) + of_nat j \<notin> bytes_of n"
    by (rule bytes_of_disjoint [OF word_bytes [OF assms(1) j] assms(2)])
  then show "body n m (dest + 4 * of_nat (k * i + w) + of_nat j) = m (dest + 4 * of_nat (k * i + w) + of_nat j)"
    using assms(3) by (rule body_frame)
qed

text \<open>Without hazards every element is computed from the memory the loop started with.\<close>

lemma run_elem:
  assumes "hazard_free n" "i < n" "w < k"
  shows "elem2 k (fold body [0..<n] m) dest i w = res i m ! w"
  using assms
proof (induction n arbitrary: i)
  case (Suc n)
  have b: "4 * k * Suc n \<le> 4294967296" "hazard_free n" "4 * k * n \<le> 4294967296"
    using Suc.prems(1) by (auto simp: hazard_free_def)
  show ?case
  proof (cases "i = n")
    case True
    have "fold body [0..<n] m x = m x" if "x \<in> reads n" for x
      using that Suc.prems(1) b(3) by (intro run_frame) (auto simp: hazard_free_def)
    then have "res n (fold body [0..<n] m) = res n m" by (rule res_cong)
    then show ?thesis using True body_elem [OF Suc.prems(3) b(1)] by simp
  next
    case False
    then have "i < n" using Suc.prems(2) by simp
    then show ?thesis
      using Suc.IH [OF b(2) _ Suc.prems(3)] body_elem_other [OF Suc.prems(3) _ b(1)] by simp
  qed
qed simp

text \<open>Reading only the element itself and bytes outside the array is free of hazards.\<close>

lemma hazard_freeI:
  assumes "4 * k * n \<le> 4294967296"
    and "\<And>i x. i < n \<Longrightarrow> x \<in> reads i \<Longrightarrow> unat (x - dest) < 4 * k * n \<Longrightarrow> x \<in> bytes_of i"
  shows "hazard_free n"
proof -
  have "x \<notin> bytes_of j" if "i < n" "j < i" "x \<in> reads i" for i j x
  proof
    assume j: "x \<in> bytes_of j"
    have "4 * k * Suc j \<le> 4 * k * n" using that by (intro mult_le_mono2) simp
    then have "unat (x - dest) < 4 * k * n" using j by (simp add: bytes_of_def)
    then show False using assms(2) [OF that(1,3)] bytes_of_disjoint [OF j that(2)] by simp
  qed
  then show ?thesis using assms(1) by (auto simp: hazard_free_def)
qed

end

section \<open>Sources that do not interfere\<close>

text \<open>An array of \<open>n\<close> elements of \<open>b\<close> bytes is the destination itself or disjoint from it.\<close>

definition same_or_apart :: "u32 \<Rightarrow> u32 \<Rightarrow> nat \<Rightarrow> bool" where
  "same_or_apart src dest n \<longleftrightarrow> src = dest \<or> span src n \<inter> span dest n = {}"

lemma span_elem:
  assumes "x \<in> span (p + 4 * of_nat (k * i)) (4 * k)" "4 * k * Suc i \<le> 4294967296"
  shows "4 * k * i \<le> unat (x - p)" "unat (x - p) < 4 * k * Suc i"
proof -
  let ?o = "4 * of_nat (k * i) :: u32"
  have k: "unat (x - (p + ?o)) < 4 * k" using assms(1) by (simp add: span_def)
  then have "4 * k * i < 4294967296" using assms(2) by (simp only: mult_Suc_right)
  then have o: "unat ?o = 4 * k * i" using unat_of_nat_u32 [of "4 * k * i"] by (simp add: mult.assoc)
  have "unat ?o + unat (x - (p + ?o)) < 2 ^ LENGTH(32)" using k o assms(2) by simp
  then have "unat (?o + (x - (p + ?o))) = 4 * k * i + unat (x - (p + ?o))"
    using unat_add_nowrap [of ?o "x - (p + ?o)"] by (simp only: o)
  moreover have "?o + (x - (p + ?o)) = x - p" by simp
  ultimately have "unat (x - p) = 4 * k * i + unat (x - (p + ?o))" by metis
  then show "4 * k * i \<le> unat (x - p)" "unat (x - p) < 4 * k * Suc i" using k by simp_all
qed

lemma read_own_element:
  assumes "same_or_apart src dest (4 * k * n)" "i < n" "4 * k * n \<le> 4294967296"
    and "x \<in> span (src + 4 * of_nat (k * i)) (4 * k)" "unat (x - dest) < 4 * k * n"
  shows "4 * k * i \<le> unat (x - dest) \<and> unat (x - dest) < 4 * k * Suc i"
proof -
  have l: "4 * k * Suc i \<le> 4 * k * n" using assms(2) by (intro mult_le_mono2) simp
  note e = span_elem [OF assms(4) order_trans [OF l assms(3)]]
  have "x \<in> span src (4 * k * n) \<inter> span dest (4 * k * n)" using e l assms(5) by (simp add: span_def)
  then show ?thesis using assms(1) e by (auto simp: same_or_apart_def)
qed

end
