(* ===== verification/Opera_Fixedpoint.thy ===== *)
theory Opera_Fixedpoint
  imports Opera_Words
begin

text \<open>
  The 16.16 fixed-point vector library the Portfolio system calls through software interrupts
  (\<open>src/libopera/opera_fixedpoint_math.c\<close>). A pointer into emulated RAM is its byte offset, an
  array element access is the 32-bit host access there, and the local \<open>tmp\<close> of the C routines is
  the list of results that is stored once everything has been read. Products are taken in 64
  bits; a sum that leaves the \<open>int64_t\<close> range wraps.
\<close>

section \<open>The arithmetic of a fraction\<close>

text \<open>\<open>(int64_t)a * (int64_t)b\<close>, and the shift back with the narrowing to \<open>frac16\<close>.\<close>

definition mul64 :: "u32 \<Rightarrow> u32 \<Rightarrow> u64" where
  "mul64 a b = scast a * scast b"

definition shr16 :: "u64 \<Rightarrow> u32" where
  "shr16 x = ucast (signed_drop_bit 16 x)"

text \<open>One turn of the loop of \<open>sqrt_frac16\<close>; \<open>>>\<close> on the signed \<open>remLo\<close> is arithmetic and the
  comparison is signed.\<close>

definition sqrt_step :: "u32 \<times> u32 \<times> u32 \<Rightarrow> u32 \<times> u32 \<times> u32" where
  "sqrt_step = (\<lambda>(root, remHi, remLo).
     let remHi = push_bit 16 remHi OR signed_drop_bit 16 remLo;
         remLo = push_bit 16 remLo;
         testDiv = push_bit 1 root + 1
     in if sint remHi \<ge> sint testDiv then (root + 1, remHi - testDiv, remLo)
        else (root, remHi, remLo))"

text \<open>\<open>do ... while(count-- != 0)\<close> from 16 runs the body seventeen times.\<close>

definition sqrt_frac16 :: "u32 \<Rightarrow> u32" where
  "sqrt_frac16 x = fst ((sqrt_step ^^ 17) (0, 0, x))"

section \<open>The routines\<close>

definition MulVec3Mat33_F16 :: "u32 \<Rightarrow> u32 \<Rightarrow> u32 \<Rightarrow> mem \<Rightarrow> mem" where
  "MulVec3Mat33_F16 dest vec mat m =
     (let v = elem m vec; a = elem2 3 m mat;
          tmp = (\<lambda>c. shr16 (mul64 (v 0) (a 0 c) + mul64 (v 1) (a 1 c) + mul64 (v 2) (a 2 c)))
      in put_words dest [tmp 0, tmp 1, tmp 2] m)"

definition MulMat33Mat33_F16 :: "u32 \<Rightarrow> u32 \<Rightarrow> u32 \<Rightarrow> mem \<Rightarrow> mem" where
  "MulMat33Mat33_F16 dest src1 src2 m =
     (let a = elem2 3 m src1; b = elem2 3 m src2;
          tmp = (\<lambda>r c. shr16 (mul64 (a r 0) (b 0 c) + mul64 (a r 1) (b 1 c) + mul64 (a r 2) (b 2 c)))
      in put_words dest
           [tmp 0 0, tmp 0 1, tmp 0 2,
            tmp 1 0, tmp 1 1, tmp 1 2,
            tmp 2 0, tmp 2 1, tmp 2 2] m)"

text \<open>One turn of \<open>MulManyVec3Mat33_F16\<close>: \<open>dest_[i]\<close> and \<open>src_[i]\<close> are twelve bytes apart.\<close>

definition MulManyVec3Mat33_F16_body :: "u32 \<Rightarrow> u32 \<Rightarrow> u32 \<Rightarrow> nat \<Rightarrow> mem \<Rightarrow> mem" where
  "MulManyVec3Mat33_F16_body dest src mat i m =
     (let s = elem2 3 m src i; a = elem2 3 m mat;
          tmp = (\<lambda>c. shr16 (mul64 (s 0) (a 0 c) + mul64 (s 1) (a 1 c) + mul64 (s 2) (a 2 c)))
      in put_words (dest + 4 * of_nat (3 * i)) [tmp 0, tmp 1, tmp 2] m)"

definition MulManyVec3Mat33_F16 :: "u32 \<Rightarrow> u32 \<Rightarrow> u32 \<Rightarrow> u32 \<Rightarrow> mem \<Rightarrow> mem" where
  "MulManyVec3Mat33_F16 dest src mat count =
     for_count (sint count) (MulManyVec3Mat33_F16_body dest src mat)"

definition MulManyF16_body :: "u32 \<Rightarrow> u32 \<Rightarrow> u32 \<Rightarrow> nat \<Rightarrow> mem \<Rightarrow> mem" where
  "MulManyF16_body dest src1 src2 i m =
     put_words (dest + 4 * of_nat (1 * i)) [shr16 (mul64 (elem m src1 i) (elem m src2 i))] m"

definition MulManyF16 :: "u32 \<Rightarrow> u32 \<Rightarrow> u32 \<Rightarrow> u32 \<Rightarrow> mem \<Rightarrow> mem" where
  "MulManyF16 dest src1 src2 count = for_count (sint count) (MulManyF16_body dest src1 src2)"

definition MulScalerF16_body :: "u32 \<Rightarrow> u32 \<Rightarrow> u32 \<Rightarrow> nat \<Rightarrow> mem \<Rightarrow> mem" where
  "MulScalerF16_body dest src scaler i m =
     put_words (dest + 4 * of_nat (1 * i)) [shr16 (mul64 (elem m src i) scaler)] m"

definition MulScalerF16 :: "u32 \<Rightarrow> u32 \<Rightarrow> u32 \<Rightarrow> u32 \<Rightarrow> mem \<Rightarrow> mem" where
  "MulScalerF16 dest src scaler count =
     for_count (sint count) (MulScalerF16_body dest src scaler)"

definition MulVec4Mat44_F16 :: "u32 \<Rightarrow> u32 \<Rightarrow> u32 \<Rightarrow> mem \<Rightarrow> mem" where
  "MulVec4Mat44_F16 dest vec mat m =
     (let v = elem m vec; a = elem2 4 m mat;
          tmp = (\<lambda>c. shr16 (mul64 (v 0) (a 0 c) + mul64 (v 1) (a 1 c) + mul64 (v 2) (a 2 c) +
                             mul64 (v 3) (a 3 c)))
      in put_words dest [tmp 0, tmp 1, tmp 2, tmp 3] m)"

definition MulMat44Mat44_F16 :: "u32 \<Rightarrow> u32 \<Rightarrow> u32 \<Rightarrow> mem \<Rightarrow> mem" where
  "MulMat44Mat44_F16 dest src1 src2 m =
     (let a = elem2 4 m src1; b = elem2 4 m src2;
          tmp = (\<lambda>r c. shr16 (mul64 (a r 0) (b 0 c) + mul64 (a r 1) (b 1 c) + mul64 (a r 2) (b 2 c) +
                               mul64 (a r 3) (b 3 c)))
      in put_words dest
           [tmp 0 0, tmp 0 1, tmp 0 2, tmp 0 3,
            tmp 1 0, tmp 1 1, tmp 1 2, tmp 1 3,
            tmp 2 0, tmp 2 1, tmp 2 2, tmp 2 3,
            tmp 3 0, tmp 3 1, tmp 3 2, tmp 3 3] m)"

definition MulManyVec4Mat44_F16_body :: "u32 \<Rightarrow> u32 \<Rightarrow> u32 \<Rightarrow> nat \<Rightarrow> mem \<Rightarrow> mem" where
  "MulManyVec4Mat44_F16_body dest src mat i m =
     (let s = elem2 4 m src i; a = elem2 4 m mat;
          tmp = (\<lambda>c. shr16 (mul64 (s 0) (a 0 c) + mul64 (s 1) (a 1 c) + mul64 (s 2) (a 2 c) +
                             mul64 (s 3) (a 3 c)))
      in put_words (dest + 4 * of_nat (4 * i)) [tmp 0, tmp 1, tmp 2, tmp 3] m)"

definition MulManyVec4Mat44_F16 :: "u32 \<Rightarrow> u32 \<Rightarrow> u32 \<Rightarrow> u32 \<Rightarrow> mem \<Rightarrow> mem" where
  "MulManyVec4Mat44_F16 dest src mat count =
     for_count (sint count) (MulManyVec4Mat44_F16_body dest src mat)"

text \<open>The two object routines have empty bodies in the source.\<close>

definition MulObjectVec4Mat44_F16 :: "u32 \<Rightarrow> u32 \<Rightarrow> u32 \<Rightarrow> mem \<Rightarrow> mem" where
  "MulObjectVec4Mat44_F16 objectlist offsetstruct count m = m"

definition MulObjectMat44_F16 :: "u32 \<Rightarrow> u32 \<Rightarrow> u32 \<Rightarrow> u32 \<Rightarrow> mem \<Rightarrow> mem" where
  "MulObjectMat44_F16 objectlist offsetstruct mat count m = m"

definition Dot3_F16 :: "u32 \<Rightarrow> u32 \<Rightarrow> mem \<Rightarrow> u32" where
  "Dot3_F16 v1 v2 m =
     (let a = elem m v1; b = elem m v2
      in shr16 (mul64 (a 0) (b 0) + mul64 (a 1) (b 1) + mul64 (a 2) (b 2)))"

definition Dot4_F16 :: "u32 \<Rightarrow> u32 \<Rightarrow> mem \<Rightarrow> u32" where
  "Dot4_F16 v1 v2 m =
     (let a = elem m v1; b = elem m v2
      in shr16 (mul64 (a 0) (b 0) + mul64 (a 1) (b 1) + mul64 (a 2) (b 2) + mul64 (a 3) (b 3)))"

definition Cross3_F16 :: "u32 \<Rightarrow> u32 \<Rightarrow> u32 \<Rightarrow> mem \<Rightarrow> mem" where
  "Cross3_F16 dest v1 v2 m =
     (let a = elem m v1; b = elem m v2
      in put_words dest
           [shr16 (mul64 (a 1) (b 2) - mul64 (a 2) (b 1)),
            shr16 (mul64 (a 2) (b 0) - mul64 (a 0) (b 2)),
            shr16 (mul64 (a 0) (b 1) - mul64 (a 1) (b 0))] m)"

definition AbsVec3_F16 :: "u32 \<Rightarrow> mem \<Rightarrow> u32" where
  "AbsVec3_F16 vec m =
     (let v = elem m vec;
          rv = shr16 (mul64 (v 0) (v 0) + mul64 (v 1) (v 1) + mul64 (v 2) (v 2))
      in sqrt_frac16 rv)"

definition AbsVec4_F16 :: "u32 \<Rightarrow> mem \<Rightarrow> u32" where
  "AbsVec4_F16 vec m =
     (let v = elem m vec;
          rv = shr16 (mul64 (v 0) (v 0) + mul64 (v 1) (v 1) + mul64 (v 2) (v 2) + mul64 (v 3) (v 3))
      in sqrt_frac16 rv)"

definition MulVec3Mat33DivZ_F16 :: "u32 \<Rightarrow> u32 \<Rightarrow> u32 \<Rightarrow> u32 \<Rightarrow> mem \<Rightarrow> mem" where
  "MulVec3Mat33DivZ_F16 dest vec mat n m =
     (let m = MulVec3Mat33_F16 dest vec mat m
      in if elem m dest 2 \<noteq> 0 then
           (let mul = word_of_int (c_div (sint (push_bit 16 (scast n) :: u64)) (sint (elem m dest 2)));
                m = set32 m dest (shr16 (scast (elem m dest 0) * mul));
                m = set32 m (dest + 4) (shr16 (scast (elem m dest 1) * mul))
            in m)
         else m)"

definition MulManyVec3Mat33DivZ_F16 :: "u32 \<Rightarrow> u32 \<Rightarrow> u32 \<Rightarrow> u32 \<Rightarrow> u32 \<Rightarrow> mem \<Rightarrow> mem" where
  "MulManyVec3Mat33DivZ_F16 dest src mat n count =
     for_count (uint count)
       (\<lambda>i. MulVec3Mat33DivZ_F16 (dest + 4 * of_nat (3 * i)) (src + 4 * of_nat (3 * i)) mat n)"

end
