(* ===== verification/Opera_Fixedpoint_Props.thy ===== *)
theory Opera_Fixedpoint_Props
  imports Opera_Fixedpoint
begin

text \<open>
  Correctness of the fixed-point library: every result is the exact integer sum of products
  divided by 65536, rounded down and reduced modulo \<open>2 ^ 32\<close>, whatever the operands overlap; the
  array routines work element by element, in place or on disjoint arrays, and touch nothing
  else. The square root routine is characterised as it is: it never exceeds 17.
\<close>

section \<open>Exactness of the arithmetic\<close>

lemma mul64_int: "mul64 a b = word_of_int (sint a * sint b)"
  by (simp add: mul64_def)

lemma shr16_int: "shr16 (word_of_int k) = word_of_int (k div 65536)"
proof (rule bit_word_eqI)
  fix n assume "n < LENGTH(32)"
  moreover have "k div 65536 = drop_bit 16 k" by (simp add: drop_bit_eq_div)
  ultimately show "bit (shr16 (word_of_int k)) n = bit (word_of_int (k div 65536) :: u32) n"
    by (auto simp: shr16_def bit_simps)
qed

lemma shr16_sums:
  "shr16 (mul64 a a') = word_of_int ((sint a * sint a') div 65536)"
  "shr16 (mul64 a a' - mul64 b b') = word_of_int ((sint a * sint a' - sint b * sint b') div 65536)"
  "shr16 (mul64 a a' + mul64 b b' + mul64 c c') =
     word_of_int ((sint a * sint a' + sint b * sint b' + sint c * sint c') div 65536)"
  "shr16 (mul64 a a' + mul64 b b' + mul64 c c' + mul64 d d') =
     word_of_int ((sint a * sint a' + sint b * sint b' + sint c * sint c' + sint d * sint d') div 65536)"
  unfolding mul64_int wi_hom_add wi_hom_sub shr16_int by (rule refl)+

section \<open>The vector kernels\<close>

text \<open>Integer reference: row vector of \<open>n\<close> fractions times an \<open>n\<close> by \<open>n\<close> matrix.\<close>

definition row_times :: "nat \<Rightarrow> mem \<Rightarrow> u32 \<Rightarrow> u32 \<Rightarrow> u32 list" where
  "row_times n m v a =
     map (\<lambda>c. word_of_int ((\<Sum>j<n. sint (elem m v j) * sint (elem2 n m a j c)) div 65536)) [0..<n]"

lemma length_row_times [simp]: "length (row_times n m v a) = n"
  by (simp add: row_times_def)

lemma mat_index: "j < n \<Longrightarrow> c < n \<Longrightarrow> n * j + c < n * n" for j n c :: nat
proof -
  assume "j < n" "c < n"
  then have "n * j + c < n * Suc j" by simp
  moreover have "n * Suc j \<le> n * n" using \<open>j < n\<close> by (intro mult_le_mono2) simp
  ultimately show ?thesis by linarith
qed

lemma row_times_cong:
  assumes "\<And>x. x \<in> span v (4 * n) \<union> span a (4 * (n * n)) \<Longrightarrow> m x = m' x" "4 * (n * n) \<le> 4294967296"
  shows "row_times n m v a = row_times n m' v a"
proof -
  have "4 * n \<le> 4294967296" using assms(2) by (cases n) auto
  then have "elem m v j = elem m' v j" if "j < n" for j
    using assms(1) that by (intro elem_cong [where n = n]) auto
  moreover have "elem2 n m a j c = elem2 n m' a j c" if "j < n" "c < n" for j c
    unfolding elem2_def using assms mat_index [OF that] by (intro elem_cong [where n = "n * n"]) auto
  ultimately show ?thesis by (simp add: row_times_def)
qed

lemma row_times_3:
  "row_times 3 m v a = map (\<lambda>c. word_of_int ((sint (elem m v 0) * sint (elem2 3 m a 0 c) +
     sint (elem m v 1) * sint (elem2 3 m a 1 c) + sint (elem m v 2) * sint (elem2 3 m a 2 c)) div 65536)) [0, 1, 2]"
proof -
  have "(\<Sum>j<3. f j) = f 0 + f 1 + f 2" for f :: "nat \<Rightarrow> int" by (simp add: eval_nat_numeral)
  moreover have "[0..<3] = [0, 1, 2]" by (simp add: upt_rec)
  ultimately show ?thesis by (simp only: row_times_def)
qed

lemma row_times_4:
  "row_times 4 m v a = map (\<lambda>c. word_of_int ((sint (elem m v 0) * sint (elem2 4 m a 0 c) +
     sint (elem m v 1) * sint (elem2 4 m a 1 c) + sint (elem m v 2) * sint (elem2 4 m a 2 c) +
     sint (elem m v 3) * sint (elem2 4 m a 3 c)) div 65536)) [0, 1, 2, 3]"
proof -
  have "(\<Sum>j<4. f j) = f 0 + f 1 + f 2 + f 3" for f :: "nat \<Rightarrow> int" by (simp add: eval_nat_numeral)
  moreover have "[0..<4] = [0, 1, 2, 3]" by (simp add: upt_rec)
  ultimately show ?thesis by (simp only: row_times_def)
qed

lemma vec3_row: "MulVec3Mat33_F16 dest vec mat m = put_words dest (row_times 3 m vec mat) m"
  by (simp only: MulVec3Mat33_F16_def Let_def shr16_sums row_times_3 list.map)

lemma vec4_row: "MulVec4Mat44_F16 dest vec mat m = put_words dest (row_times 4 m vec mat) m"
  by (simp only: MulVec4Mat44_F16_def Let_def shr16_sums row_times_4 list.map)

lemma many3_row:
  "MulManyVec3Mat33_F16_body dest src mat i m =
     put_words (dest + 4 * of_nat (3 * i)) (row_times 3 m (src + 4 * of_nat (3 * i)) mat) m"
  by (simp only: MulManyVec3Mat33_F16_body_def Let_def shr16_sums row_times_3 list.map elem2_def [of 3 m src]
      elem_offset)

lemma many4_row:
  "MulManyVec4Mat44_F16_body dest src mat i m =
     put_words (dest + 4 * of_nat (4 * i)) (row_times 4 m (src + 4 * of_nat (4 * i)) mat) m"
  by (simp only: MulManyVec4Mat44_F16_body_def Let_def shr16_sums row_times_4 list.map elem2_def [of 4 m src]
      elem_offset)

section \<open>Products of matrices\<close>

lemma mat33_rows:
  "MulMat33Mat33_F16 dest a b m =
     put_words dest (concat (map (\<lambda>r. row_times 3 m (a + 4 * of_nat (3 * r)) b) [0, 1, 2])) m"
  by (simp only: MulMat33Mat33_F16_def Let_def shr16_sums row_times_3 list.map elem2_def [of 3 m a]
      elem_offset concat.simps append.simps)

lemma mat44_rows:
  "MulMat44Mat44_F16 dest a b m =
     put_words dest (concat (map (\<lambda>r. row_times 4 m (a + 4 * of_nat (4 * r)) b) [0, 1, 2, 3])) m"
  by (simp only: MulMat44Mat44_F16_def Let_def shr16_sums row_times_4 list.map elem2_def [of 4 m a]
      elem_offset concat.simps append.simps)

lemma nth_concat_rows:
  assumes "\<And>r. length (f r) = k" "r < n" "c < k"
  shows "concat (map f [0..<n]) ! (k * r + c) = f r ! c"
  using assms
proof (induction n)
  case (Suc n)
  have l: "length (concat (map f [0..<n])) = k * n"
    using Suc.prems(1) by (simp add: length_concat o_def sum_list_triv)
  show ?case
  proof (cases "r = n")
    case False
    then have "r < n" using Suc.prems(2) by simp
    then have "k * r + c < k * Suc r" "k * Suc r \<le> k * n" using Suc.prems(3) by (simp, intro mult_le_mono2, simp)
    then have "k * r + c < k * n" by linarith
    then show ?thesis using Suc.IH Suc.prems \<open>r < n\<close> l by (simp add: nth_append)
  qed (use l Suc.prems in \<open>simp add: nth_append\<close>)
qed simp

lemma elem2_put_rows:
  assumes "r < n" "c < n" "4 * (n * n) \<le> 4294967296"
  shows "elem2 n (put_words dest (concat (map (\<lambda>r. row_times n m (a + 4 * of_nat (n * r)) b) [0..<n])) m') dest r c =
    word_of_int ((\<Sum>j<n. sint (elem2 n m a r j) * sint (elem2 n m b j c)) div 65536)"
proof -
  let ?f = "\<lambda>r. row_times n m (a + 4 * of_nat (n * r)) b"
  have "length (concat (map ?f [0..<n])) = n * n" by (simp add: length_concat o_def sum_list_triv)
  then have "elem2 n (put_words dest (concat (map ?f [0..<n])) m') dest r c = concat (map ?f [0..<n]) ! (n * r + c)"
    unfolding elem2_def using assms mat_index by (intro elem_put_words) simp_all
  also have "\<dots> = ?f r ! c" using assms by (intro nth_concat_rows) simp_all
  also have "\<dots> = word_of_int ((\<Sum>j<n. sint (elem2 n m a r j) * sint (elem2 n m b j c)) div 65536)"
    using assms by (simp only: row_times_def nth_map length_upt nth_upt elem_offset elem2_def [of n m a]) simp
  finally show ?thesis .
qed

text \<open>C25. The matrix products are exact: wherever the operands and the result lie, overlapping or not,
  every entry of the stored product is the integer sum of products divided by 65536, rounded
  down, modulo \<open>2 ^ 32\<close>, and no other byte of memory changes.\<close>

theorem fix_matrix_product:
  "(\<forall>r<3. \<forall>c<3. elem2 3 (MulMat33Mat33_F16 dest a b m) dest r c =
      word_of_int ((\<Sum>j<3. sint (elem2 3 m a r j) * sint (elem2 3 m b j c)) div 65536)) \<and>
   (\<forall>r<4. \<forall>c<4. elem2 4 (MulMat44Mat44_F16 dest a b m) dest r c =
      word_of_int ((\<Sum>j<4. sint (elem2 4 m a r j) * sint (elem2 4 m b j c)) div 65536)) \<and>
   (\<forall>x. 36 \<le> unat (x - dest) \<longrightarrow> MulMat33Mat33_F16 dest a b m x = m x) \<and>
   (\<forall>x. 64 \<le> unat (x - dest) \<longrightarrow> MulMat44Mat44_F16 dest a b m x = m x)"
proof -
  have u: "[0, 1, 2] = [0..<3]" "[0, 1, 2, 3] = [0..<4]" by (simp_all add: upt_rec)
  have "MulMat33Mat33_F16 dest a b m x = m x" if "36 \<le> unat (x - dest)" for x
    unfolding mat33_rows using that by (intro put_words_frame) simp
  moreover have "MulMat44Mat44_F16 dest a b m x = m x" if "64 \<le> unat (x - dest)" for x
    unfolding mat44_rows using that by (intro put_words_frame) simp
  moreover have "elem2 3 (MulMat33Mat33_F16 dest a b m) dest r c =
      word_of_int ((\<Sum>j<3. sint (elem2 3 m a r j) * sint (elem2 3 m b j c)) div 65536)" if "r < 3" "c < 3" for r c
    unfolding mat33_rows u using that by (intro elem2_put_rows) simp_all
  moreover have "elem2 4 (MulMat44Mat44_F16 dest a b m) dest r c =
      word_of_int ((\<Sum>j<4. sint (elem2 4 m a r j) * sint (elem2 4 m b j c)) div 65536)" if "r < 4" "c < 4" for r c
    unfolding mat44_rows u using that by (intro elem2_put_rows) simp_all
  ultimately show ?thesis by blast
qed

lemma elem2_ones: "elem2 n (\<lambda>_. 1) p r c = 0x01010101"
  by (simp add: elem2_def elem_def get32_def le4_def)

text \<open>In place, on a matrix of equal entries.\<close>

theorem fix_matrix_product_witness:
  "elem2 3 (MulMat33Mat33_F16 0 0 36 (\<lambda>_. 1)) 0 1 2 = word_of_int ((3 * 0x01010101\<^sup>2) div 65536) \<and>
   MulMat44Mat44_F16 0 0 36 (\<lambda>_. 1) 64 = 1"
  using fix_matrix_product [of 0 0 36 "\<lambda>_. 1"] by (simp add: elem2_ones del: One_nat_def)

section \<open>Array routines\<close>

interpretation vec3_array: array_kernel "MulManyVec3Mat33_F16_body dest src mat" dest 3
    "\<lambda>i m. row_times 3 m (src + 4 * of_nat (3 * i)) mat"
    "\<lambda>i. span (src + 4 * of_nat (3 * i)) 12 \<union> span mat 36" for dest src mat
proof unfold_locales
  show "row_times 3 m (src + 4 * of_nat (3 * i)) mat = row_times 3 m' (src + 4 * of_nat (3 * i)) mat"
    if "\<And>x. x \<in> span (src + 4 * of_nat (3 * i)) 12 \<union> span mat 36 \<Longrightarrow> m x = m' x" for i and m m' :: mem
    using that by (intro row_times_cong) simp_all
qed (rule many3_row, simp)

interpretation vec4_array: array_kernel "MulManyVec4Mat44_F16_body dest src mat" dest 4
    "\<lambda>i m. row_times 4 m (src + 4 * of_nat (4 * i)) mat"
    "\<lambda>i. span (src + 4 * of_nat (4 * i)) 16 \<union> span mat 64" for dest src mat
proof unfold_locales
  show "row_times 4 m (src + 4 * of_nat (4 * i)) mat = row_times 4 m' (src + 4 * of_nat (4 * i)) mat"
    if "\<And>x. x \<in> span (src + 4 * of_nat (4 * i)) 16 \<union> span mat 64 \<Longrightarrow> m x = m' x" for i and m m' :: mem
    using that by (intro row_times_cong) simp_all
qed (rule many4_row, simp)

interpretation scaler_array: array_kernel "MulScalerF16_body dest src scaler" dest 1
    "\<lambda>i m. [word_of_int ((sint (elem m src i) * sint scaler) div 65536)]"
    "\<lambda>i. span (src + 4 * of_nat (1 * i)) 4" for dest src scaler
proof unfold_locales
  show "[word_of_int ((sint (elem m src i) * sint scaler) div 65536)] =
      [word_of_int ((sint (elem m' src i) * sint scaler) div 65536)]"
    if "\<And>x. x \<in> span (src + 4 * of_nat (1 * i)) 4 \<Longrightarrow> m x = m' x" for i and m m' :: mem
    using elem_span [OF that] by simp
qed (simp_all add: MulScalerF16_body_def shr16_sums)

interpretation many_array: array_kernel "MulManyF16_body dest src1 src2" dest 1
    "\<lambda>i m. [word_of_int ((sint (elem m src1 i) * sint (elem m src2 i)) div 65536)]"
    "\<lambda>i. span (src1 + 4 * of_nat (1 * i)) 4 \<union> span (src2 + 4 * of_nat (1 * i)) 4" for dest src1 src2
proof unfold_locales
  show "[word_of_int ((sint (elem m src1 i) * sint (elem m src2 i)) div 65536)] =
      [word_of_int ((sint (elem m' src1 i) * sint (elem m' src2 i)) div 65536)]"
    if "\<And>x. x \<in> span (src1 + 4 * of_nat (1 * i)) 4 \<union> span (src2 + 4 * of_nat (1 * i)) 4 \<Longrightarrow> m x = m' x"
    for i and m m' :: mem
    using elem_span [of src1 i m m'] elem_span [of src2 i m m'] that by simp
qed (simp_all add: MulManyF16_body_def shr16_sums)

lemma vec3_hazard_free:
  assumes "12 * n \<le> 4294967296" "same_or_apart src dest (12 * n)" "span mat 36 \<inter> span dest (12 * n) = {}"
  shows "vec3_array.hazard_free dest src mat n"
proof (rule vec3_array.hazard_freeI)
  fix i x assume i: "i < n" "unat (x - dest) < 4 * 3 * n"
    and x: "x \<in> span (src + 4 * of_nat (3 * i)) 12 \<union> span mat 36"
  have "x \<notin> span mat 36" using i(2) assms(3) by (auto simp: span_def)
  then show "x \<in> vec3_array.bytes_of dest i"
    using read_own_element [of src dest 3 n i x] assms i x by (simp add: vec3_array.bytes_of_def)
qed (use assms in simp)

lemma vec4_hazard_free:
  assumes "16 * n \<le> 4294967296" "same_or_apart src dest (16 * n)" "span mat 64 \<inter> span dest (16 * n) = {}"
  shows "vec4_array.hazard_free dest src mat n"
proof (rule vec4_array.hazard_freeI)
  fix i x assume i: "i < n" "unat (x - dest) < 4 * 4 * n"
    and x: "x \<in> span (src + 4 * of_nat (4 * i)) 16 \<union> span mat 64"
  have "x \<notin> span mat 64" using i(2) assms(3) by (auto simp: span_def)
  then show "x \<in> vec4_array.bytes_of dest i"
    using read_own_element [of src dest 4 n i x] assms i x by (simp add: vec4_array.bytes_of_def)
qed (use assms in simp)

lemma scaler_hazard_free:
  assumes "4 * n \<le> 4294967296" "same_or_apart src dest (4 * n)"
  shows "scaler_array.hazard_free dest src n"
proof (rule scaler_array.hazard_freeI)
  fix i x assume i: "i < n" "unat (x - dest) < 4 * 1 * n" and x: "x \<in> span (src + 4 * of_nat (1 * i)) 4"
  then show "x \<in> scaler_array.bytes_of dest i"
    using read_own_element [of src dest 1 n i x] assms i x by (simp add: scaler_array.bytes_of_def del: One_nat_def)
qed (use assms in simp)

lemma many_hazard_free:
  assumes "4 * n \<le> 4294967296" "same_or_apart src1 dest (4 * n)" "same_or_apart src2 dest (4 * n)"
  shows "many_array.hazard_free dest src1 src2 n"
proof (rule many_array.hazard_freeI)
  fix i x assume i: "i < n" "unat (x - dest) < 4 * 1 * n"
    and x: "x \<in> span (src1 + 4 * of_nat (1 * i)) 4 \<union> span (src2 + 4 * of_nat (1 * i)) 4"
  then show "x \<in> many_array.bytes_of dest i"
    using read_own_element [of src1 dest 1 n i x] read_own_element [of src2 dest 1 n i x] assms i x
    by (auto simp: many_array.bytes_of_def simp del: One_nat_def)
qed (use assms in simp)

text \<open>The array routines work element by element: with the sources equal to the destination or
  disjoint from it, and the matrix outside it, every stored vector is the exact product of the
  source vector as it was before the call, whatever the count (a negative count stores nothing).\<close>

theorem fix_arrays_elementwise:
  assumes n: "n = nat (sint count)"
  shows "(12 * n \<le> 2 ^ 32 \<and> same_or_apart src dest (12 * n) \<and> span mat 36 \<inter> span dest (12 * n) = {} \<longrightarrow>
      (\<forall>i<n. \<forall>c<3. elem2 3 (MulManyVec3Mat33_F16 dest src mat count m) dest i c =
        word_of_int ((\<Sum>j<3. sint (elem2 3 m src i j) * sint (elem2 3 m mat j c)) div 65536))) \<and>
    (16 * n \<le> 2 ^ 32 \<and> same_or_apart src dest (16 * n) \<and> span mat 64 \<inter> span dest (16 * n) = {} \<longrightarrow>
      (\<forall>i<n. \<forall>c<4. elem2 4 (MulManyVec4Mat44_F16 dest src mat count m) dest i c =
        word_of_int ((\<Sum>j<4. sint (elem2 4 m src i j) * sint (elem2 4 m mat j c)) div 65536))) \<and>
    (4 * n \<le> 2 ^ 32 \<and> same_or_apart src dest (4 * n) \<longrightarrow>
      (\<forall>i<n. elem (MulScalerF16 dest src s count m) dest i =
        word_of_int ((sint (elem m src i) * sint s) div 65536))) \<and>
    (4 * n \<le> 2 ^ 32 \<and> same_or_apart src dest (4 * n) \<and> same_or_apart src2 dest (4 * n) \<longrightarrow>
      (\<forall>i<n. elem (MulManyF16 dest src src2 count m) dest i =
        word_of_int ((sint (elem m src i) * sint (elem m src2 i)) div 65536)))"
proof -
  have row: "row_times k m (src + 4 * of_nat (k * i)) mat ! c =
      word_of_int ((\<Sum>j<k. sint (elem2 k m src i j) * sint (elem2 k m mat j c)) div 65536)" if "c < k" for k i c
    using that by (simp only: row_times_def nth_map length_upt nth_upt elem_offset elem2_def [of k m src]) simp
  have e1: "elem2 1 m' p i 0 = elem m' p i" for m' p i by (simp add: elem2_def)
  let ?run = "\<lambda>body. fold body [0..<n] m"
  have "elem2 3 (?run (MulManyVec3Mat33_F16_body dest src mat)) dest i c =
      word_of_int ((\<Sum>j<3. sint (elem2 3 m src i j) * sint (elem2 3 m mat j c)) div 65536)"
    if "12 * n \<le> 2 ^ 32 \<and> same_or_apart src dest (12 * n) \<and> span mat 36 \<inter> span dest (12 * n) = {}" "i < n" "c < 3"
    for i c using that by (intro trans [OF vec3_array.run_elem [OF vec3_hazard_free] row]) simp_all
  moreover have "elem2 4 (?run (MulManyVec4Mat44_F16_body dest src mat)) dest i c =
      word_of_int ((\<Sum>j<4. sint (elem2 4 m src i j) * sint (elem2 4 m mat j c)) div 65536)"
    if "16 * n \<le> 2 ^ 32 \<and> same_or_apart src dest (16 * n) \<and> span mat 64 \<inter> span dest (16 * n) = {}" "i < n" "c < 4"
    for i c using that by (intro trans [OF vec4_array.run_elem [OF vec4_hazard_free] row]) simp_all
  moreover have "elem (?run (MulScalerF16_body dest src s)) dest i =
      word_of_int ((sint (elem m src i) * sint s) div 65536)"
    if "4 * n \<le> 2 ^ 32 \<and> same_or_apart src dest (4 * n)" "i < n" for i
    using that scaler_array.run_elem [OF scaler_hazard_free, of n src dest i 0] by (simp add: e1 del: One_nat_def)
  moreover have "elem (?run (MulManyF16_body dest src src2)) dest i =
      word_of_int ((sint (elem m src i) * sint (elem m src2 i)) div 65536)"
    if "4 * n \<le> 2 ^ 32 \<and> same_or_apart src dest (4 * n) \<and> same_or_apart src2 dest (4 * n)" "i < n" for i
    using that many_array.run_elem [OF many_hazard_free, of n src dest src2 i 0] by (simp add: e1 del: One_nat_def)
  ultimately show ?thesis
    unfolding MulManyVec3Mat33_F16_def MulManyVec4Mat44_F16_def MulScalerF16_def MulManyF16_def for_count_def
      n [symmetric] by blast
qed

text \<open>Two vectors of equal entries, transformed in place; the matrix lies behind them.\<close>

theorem fix_arrays_elementwise_witness:
  "elem2 3 (MulManyVec3Mat33_F16 0 0 100 2 (\<lambda>_. 1)) 0 1 2 = word_of_int ((3 * 0x01010101\<^sup>2) div 65536) \<and>
   elem (MulScalerF16 0 0 0x20000 2 (\<lambda>_. 1)) 0 1 = 0x02020202"
proof -
  have "\<not> unat (x - 100) < 36" if "unat x < 24" for x :: u32
    using that unat_u32_lt [of x] by (simp add: unat_sub_if_size word_le_nat_alt word_size)
  then have "span 100 36 \<inter> span 0 24 = {}" by (auto simp: span_def)
  moreover have "elem (\<lambda>_. 1) 0 (Suc 0) = 0x01010101" by (simp add: elem_def get32_def le4_def)
  ultimately show ?thesis
    using fix_arrays_elementwise [of 2 2 0 0 100 "\<lambda>_. 1" "0x20000" 0] elem2_ones
    by (simp add: same_or_apart_def)
qed

section \<open>Perspective division\<close>

lemma shift_exact: "sint (push_bit 16 (scast n) :: u64) = sint n * 65536" for n :: u32
proof -
  have "- (2 ^ 31) \<le> sint n" "sint n < 2 ^ 31" using sint_greater_eq [of n] sint_less [of n] by simp_all
  then have "sint (word_of_int (sint n * 65536) :: u64) = sint n * 65536"
    unfolding sint_sbintrunc' by (intro signed_take_bit_int_eq_self) simp_all
  moreover have "(push_bit 16 (scast n) :: u64) = word_of_int (sint n * 65536)"
    by (simp add: push_bit_eq_mult)
  ultimately show ?thesis by simp
qed

lemma put_words_overwrite:
  "set32 (set32 (put_words d [x, y, z] m) d x') (d + 4) y' = put_words d [x', y', z] m"
proof (rule ext)
  fix b
  show "set32 (set32 (put_words d [x, y, z] m) d x') (d + 4) y' b = put_words d [x', y', z] m b"
    by (simp add: set32_def add.assoc)
qed

lemma row_times_3_list: "row_times 3 m v a = [row_times 3 m v a ! 0, row_times 3 m v a ! 1, row_times 3 m v a ! 2]"
  by (simp add: row_times_3)

text \<open>The projecting product transforms the vector and, unless its depth is zero, scales the two
  other coordinates by the quotient of \<open>n\<close> and the depth, truncated towards zero; the depth itself
  and every byte outside the result are kept, and the operands may overlap the result.\<close>

theorem fix_perspective_divide:
  "let t = row_times 3 m vec mat; z = t ! 2; q = c_div (sint n * 65536) (sint z);
       scale = (\<lambda>w. if z = 0 then w else word_of_int ((sint w * q) div 65536))
   in MulVec3Mat33DivZ_F16 dest vec mat n m = put_words dest [scale (t ! 0), scale (t ! 1), z] m"
proof -
  let ?t = "row_times 3 m vec mat"
  let ?m = "put_words dest ?t m"
  have e: "elem ?m dest 0 = ?t ! 0" "elem ?m dest 2 = ?t ! 2"
    by (intro elem_put_words; simp)+
  have e1: "elem (set32 ?m dest x) dest 1 = ?t ! 1" for x
  proof -
    have "elem (set32 ?m dest x) dest 1 = elem ?m dest 1"
      unfolding elem_def by (rule get32_cong) (auto intro!: set32_bytes simp: unat_word_ariths unat_of_nat)
    also have "\<dots> = ?t ! 1" by (intro elem_put_words) simp_all
    finally show ?thesis .
  qed
  have m: "scast w * word_of_int q = (word_of_int (sint w * q) :: u64)" for w :: u32 and q by simp
  have l: "?m = put_words dest [?t ! 0, ?t ! 1, ?t ! 2] m" using row_times_3_list [of m vec mat] by metis
  have o: "set32 (set32 ?m dest a) (dest + 4) b = put_words dest [a, b, ?t ! 2] m" for a b
    unfolding l by (rule put_words_overwrite)
  show ?thesis
  proof (cases "?t ! 2 = 0")
    case True
    then show ?thesis unfolding MulVec3Mat33DivZ_F16_def vec3_row Let_def e using l by (simp only: simp_thms if_True if_False)
  next
    case False
    then show ?thesis
      unfolding MulVec3Mat33DivZ_F16_def vec3_row Let_def e e1 shift_exact m shr16_int o
      by (simp only: simp_thms if_True if_False)
  qed
qed

section \<open>The square root\<close>

lemma sqrt_step_root:
  "fst (sqrt_step s) = fst s \<or> fst (sqrt_step s) = fst s + 1"
  by (cases s) (simp add: sqrt_step_def Let_def)

lemma sqrt_steps_bound: "unat (fst ((sqrt_step ^^ n) (0, h, l))) \<le> n"
proof (induction n)
  case (Suc n)
  let ?r = "fst ((sqrt_step ^^ n) (0, h, l))"
  have "unat (?r + 1) \<le> unat ?r + 1" by (simp add: unat_word_ariths)
  then show ?case using Suc sqrt_step_root [of "(sqrt_step ^^ n) (0, h, l)"] by auto
qed simp

text \<open>The square root never exceeds 17, whatever its argument: the root grows by at most one in each
  of the seventeen turns. The square root of one (\<open>0x10000\<close>) is 1, that is 1/65536, and no vector
  is longer than 17/65536 by the length routines.\<close>

theorem fix_sqrt_at_most_17:
  "unat (sqrt_frac16 x) \<le> 17 \<and> unat (AbsVec3_F16 v m) \<le> 17 \<and> unat (AbsVec4_F16 v m) \<le> 17 \<and>
   sqrt_frac16 0x10000 = 1"
proof -
  have b: "unat (sqrt_frac16 x) \<le> 17" for x unfolding sqrt_frac16_def by (rule sqrt_steps_bound)
  moreover have "sqrt_frac16 0x10000 = 1" by code_simp
  ultimately show ?thesis by (simp add: AbsVec3_F16_def AbsVec4_F16_def Let_def)
qed

end
