(* ===== verification/Opera_Sport.thy ===== *)
theory Opera_Sport
  imports Opera_Words Opera_State_Codec
begin

text \<open>
  The SPORT page engine, \<open>src/libopera/opera_sport.c\<close>: 2048-byte VRAM pages are copied, filled with a
  colour or merged under a mask, in the high-resolution mode in the four planes of VRAM. The
  static \<open>SPORT\<close> is the record \<open>sport\<close>; \<open>&VRAM[i]\<close> is the offset \<open>vram_at m i\<close> inside the RAM
  allocation.
\<close>

section \<open>State and address arithmetic\<close>

record sport =
  color :: u32
  source :: u32
  destination :: u32

definition opera_sport_init :: "sport \<Rightarrow> sport" where
  "opera_sport_init s = \<lparr>color = 0, source = 0, destination = 0\<rparr>"

definition SPORT_PAGE_TO_BYTE_OFFSET :: "memory \<Rightarrow> u32 \<Rightarrow> u32" where
  "SPORT_PAGE_TO_BYTE_OFFSET m idx = push_bit 9 idx AND VRAM_SIZE_MASK m"

definition vram_at :: "memory \<Rightarrow> u32 \<Rightarrow> u32" where
  "vram_at m i = the (VRAM m) + i"

definition opera_sport_set_source :: "memory \<Rightarrow> u32 \<Rightarrow> sport \<Rightarrow> sport" where
  "opera_sport_set_source m rawidx s = s\<lparr>source := SPORT_PAGE_TO_BYTE_OFFSET m rawidx\<rparr>"

section \<open>Page loops\<close>

definition on_dram :: "(mem \<Rightarrow> mem) \<Rightarrow> memory \<Rightarrow> memory" where
  "on_dram f m = m\<lparr>DRAM := Some (f (dram m))\<rparr>"

definition set_color_body :: "u32 \<Rightarrow> u32 \<Rightarrow> nat \<Rightarrow> mem \<Rightarrow> mem" where
  "set_color_body p c i d = put_words (p + 4 * of_nat (1 * i)) [c] d"

definition sport_set_color :: "u32 \<Rightarrow> sport \<Rightarrow> memory \<Rightarrow> memory" where
  "sport_set_color idx s m = on_dram (for_count 512 (set_color_body (vram_at m idx) (color s))) m"

definition set_color_mask_body :: "u32 \<Rightarrow> u32 \<Rightarrow> u32 \<Rightarrow> nat \<Rightarrow> mem \<Rightarrow> mem" where
  "set_color_mask_body p c msk i d =
     put_words (p + 4 * of_nat (1 * i)) [(elem d p i AND NOT msk) OR (c AND msk)] d"

definition sport_set_color_with_mask :: "u32 \<Rightarrow> u32 \<Rightarrow> sport \<Rightarrow> memory \<Rightarrow> memory" where
  "sport_set_color_with_mask idx msk s m =
     on_dram (for_count 512 (set_color_mask_body (vram_at m idx) (color s) msk)) m"

text \<open>\<open>memcpy\<close> of a page.\<close>

definition copy_bytes :: "u32 \<Rightarrow> u32 \<Rightarrow> nat \<Rightarrow> mem \<Rightarrow> mem" where
  "copy_bytes p q n d = (\<lambda>x. if unat (x - p) < n then d (q + (x - p)) else d x)"

definition sport_memcpy :: "u32 \<Rightarrow> u32 \<Rightarrow> memory \<Rightarrow> memory" where
  "sport_memcpy didx sidx m = on_dram (copy_bytes (vram_at m didx) (vram_at m sidx) 2048) m"

definition sport_memcpy_highres :: "u32 \<Rightarrow> u32 \<Rightarrow> memory \<Rightarrow> memory" where
  "sport_memcpy_highres didx sidx m =
     (let m = sport_memcpy (didx + 1 * VRAM_SIZE m) sidx m;
          m = sport_memcpy (didx + 2 * VRAM_SIZE m) sidx m;
          m = sport_memcpy (didx + 3 * VRAM_SIZE m) sidx m
      in m)"

section \<open>The two page operations\<close>

definition sport_flash_write :: "u32 \<Rightarrow> u32 \<Rightarrow> sport \<Rightarrow> memory \<Rightarrow> memory" where
  "sport_flash_write rawidx msk s m =
     (let idx = SPORT_PAGE_TO_BYTE_OFFSET m rawidx;
          m = (if msk = 0xFFFFFFFF then sport_set_color idx s m
               else sport_set_color_with_mask idx msk s m)
      in if \<not> HIRESMODE m then m
         else if msk = 0xFFFFFFFF then sport_memcpy_highres idx idx m
         else fold (\<lambda>plane m. sport_set_color_with_mask (idx + of_nat plane * VRAM_SIZE m) msk s m)
                [1..<4] m)"

definition sport_copy_page_color :: "sport \<Rightarrow> memory \<Rightarrow> memory" where
  "sport_copy_page_color s m =
     (let m = sport_memcpy (destination s) (source s) m
      in if \<not> HIRESMODE m then m else sport_memcpy_highres (destination s) (source s) m)"

definition copy_mask_body :: "u32 \<Rightarrow> u32 \<Rightarrow> u32 \<Rightarrow> nat \<Rightarrow> mem \<Rightarrow> mem" where
  "copy_mask_body p q msk i d =
     put_words (p + 4 * of_nat (1 * i)) [(elem d p i AND NOT msk) OR (elem d q i AND msk)] d"

definition sport_copy_page_color_with_mask :: "u32 \<Rightarrow> sport \<Rightarrow> memory \<Rightarrow> memory" where
  "sport_copy_page_color_with_mask msk s m =
     fold (\<lambda>plane m.
         on_dram (for_count 512
           (copy_mask_body (vram_at m (destination s + of_nat plane * VRAM_SIZE m))
              (vram_at m (source s)) msk)) m)
       [0..<(if HIRESMODE m then 4 else 1)] m"

definition sport_copy_page :: "u32 \<Rightarrow> u32 \<Rightarrow> sport \<times> memory \<Rightarrow> sport \<times> memory" where
  "sport_copy_page rawidx msk = (\<lambda>(s, m).
     let s = s\<lparr>destination := SPORT_PAGE_TO_BYTE_OFFSET m rawidx\<rparr>
     in (s, if msk = 0xFFFFFFFF then sport_copy_page_color s m
            else sport_copy_page_color_with_mask msk s m))"

definition opera_sport_write_access :: "u32 \<Rightarrow> u32 \<Rightarrow> sport \<times> memory \<Rightarrow> sport \<times> memory" where
  "opera_sport_write_access idx msk = (\<lambda>(s, m).
     let k = idx AND 0x0000E000
     in if k = 0x00000000 then sport_copy_page idx msk (s, m)
        else if k = 0x00002000 then (s\<lparr>color := msk\<rparr>, m)
        else if k = 0x00004000 then (s, sport_flash_write idx msk s m)
        else sport_copy_page idx msk (s, m))"

section \<open>Saved state\<close>

definition opera_sport_state_size_v1 :: u32 where
  "opera_sport_state_size_v1 = opera_state_save_size 12"

definition sport_state_payload_size :: u32 where
  "sport_state_payload_size = 4 * 3"

definition opera_sport_state_size :: u32 where
  "opera_sport_state_size = opera_state_chunk_size sport_state_payload_size"

text \<open>The three unchecked calls that write the payload.\<close>

definition sport_state_write :: "sport \<Rightarrow> state_writer \<Rightarrow> bool \<times> state_writer" where
  "sport_state_write s =
     w_then (opera_state_write_u32 (color s))
       (w_then (opera_state_write_u32 (source s)) (opera_state_write_u32 (destination s)))"

definition opera_sport_state_save :: "sport \<Rightarrow> u8 list \<Rightarrow> u32 \<times> u8 list" where
  "opera_sport_state_save s buf =
     save_chunk ''SPRT'' sport_state_payload_size (sport_state_write s) buf"

text \<open>The structure's bytes, host order, as the first format stores them.\<close>

definition sport_image :: "sport \<Rightarrow> u8 list" where
  "sport_image s = image32 [color s, source s, destination s]"

definition sport_of_image :: "u8 list \<Rightarrow> sport" where
  "sport_of_image bs = (let ws = words32 bs in \<lparr>color = ws ! 0, source = ws ! 1, destination = ws ! 2\<rparr>)"

definition opera_sport_state_load_v1 :: "u8 list \<Rightarrow> u32 \<Rightarrow> sport \<Rightarrow> u32 \<times> sport" where
  "opera_sport_state_load_v1 buf sz s =
     (let (rv, bs) = opera_state_load_sized (sport_image s) ''SPRT'' (Some buf) sz 12
      in (rv, sport_of_image bs))"

definition sport_state_read :: "state_reader \<Rightarrow> sport option \<times> state_reader" where
  "sport_state_read =
     r_bind opera_state_read_u32 (\<lambda>c. r_bind opera_state_read_u32 (\<lambda>f. r_bind opera_state_read_u32 (\<lambda>t.
     r_return \<lparr>color = c, source = f, destination = t\<rparr>)))"

definition opera_sport_state_load :: "bool \<Rightarrow> u8 list \<Rightarrow> u32 \<Rightarrow> sport \<Rightarrow> u32 \<times> sport" where
  "opera_sport_state_load validating buf sz s =
     load_chunk ''SPRT'' sport_state_read (\<lambda>_. True) (\<lambda>t _. t) validating buf sz s"

end
