(* ===== verification/Opera_Sport_Props.thy ===== *)
theory Opera_Sport_Props
  imports Opera_Sport Opera_Mem_Props
begin

text \<open>
  What the SPORT page operations do: every one of them merges a page of words into the addressed
  page under a mask, in plane 0 and, in the high-resolution mode, in the three other planes,
  and changes nothing else; pages addressed through the ARM bus lie inside VRAM.
\<close>

section \<open>Merging one page\<close>

text \<open>Page \<open>p\<close> of \<open>d'\<close> is page \<open>p\<close> of \<open>d\<close> with the bits of \<open>msk\<close> taken from the words \<open>f\<close>.\<close>

definition merged :: "u32 \<Rightarrow> (nat \<Rightarrow> u32) \<Rightarrow> u32 \<Rightarrow> mem \<Rightarrow> mem \<Rightarrow> bool" where
  "merged p f msk d d' \<longleftrightarrow>
     (\<forall>i<512. elem d' p i = (elem d p i AND NOT msk) OR (f i AND msk)) \<and>
     (\<forall>x. x \<notin> span p 2048 \<longrightarrow> d' x = d x)"

interpretation fill_page: array_kernel "set_color_body p c" p 1 "\<lambda>i d. [c]" "\<lambda>i. {}" for p c
  by unfold_locales (simp_all add: set_color_body_def)

interpretation fill_mask_page: array_kernel "set_color_mask_body p c msk" p 1
    "\<lambda>i d. [(elem d p i AND NOT msk) OR (c AND msk)]" "\<lambda>i. span (p + 4 * of_nat (1 * i)) 4" for p c msk
proof unfold_locales
  show "[(elem m p i AND NOT msk) OR (c AND msk)] = [(elem m' p i AND NOT msk) OR (c AND msk)]"
    if "\<And>x. x \<in> span (p + 4 * of_nat (1 * i)) 4 \<Longrightarrow> m x = m' x" for i and m m' :: mem
    using elem_span [OF that] by simp
qed (simp_all add: set_color_mask_body_def)

interpretation copy_mask_page: array_kernel "copy_mask_body p q msk" p 1
    "\<lambda>i d. [(elem d p i AND NOT msk) OR (elem d q i AND msk)]"
    "\<lambda>i. span (p + 4 * of_nat (1 * i)) 4 \<union> span (q + 4 * of_nat (1 * i)) 4" for p q msk
proof unfold_locales
  show "[(elem m p i AND NOT msk) OR (elem m q i AND msk)] = [(elem m' p i AND NOT msk) OR (elem m' q i AND msk)]"
    if "\<And>x. x \<in> span (p + 4 * of_nat (1 * i)) 4 \<union> span (q + 4 * of_nat (1 * i)) 4 \<Longrightarrow> m x = m' x"
    for i and m m' :: mem
    using elem_span [of p i m m'] elem_span [of q i m m'] that by simp
qed (simp_all add: copy_mask_body_def)

lemma page_bytes: "x \<notin> span p 2048 \<Longrightarrow> i < 512 \<Longrightarrow> \<not> (4 * i \<le> unat (x - p) \<and> unat (x - p) < 4 * Suc i)"
  by (auto simp: span_def)

lemma elem2_one: "elem2 1 d p i 0 = elem d p i"
  by (simp add: elem2_def)

lemma and_or_full: "(a AND NOT 0xFFFFFFFF) OR (b AND 0xFFFFFFFF) = b" for a b :: u32
proof -
  have "(0xFFFFFFFF :: u32) = -1" by simp
  then show ?thesis by (simp only:) simp
qed

lemma merged_fill: "merged p (\<lambda>_. c) 0xFFFFFFFF d (for_count 512 (set_color_body p c) d)"
proof -
  have h: "fill_page.hazard_free p 512" by (rule fill_page.hazard_freeI) simp_all
  have "elem (fold (set_color_body p c) [0..<512] d) p i = c" if "i < 512" for i
    using fill_page.run_elem [OF h that, of 0] by (simp add: elem2_one del: One_nat_def)
  moreover have "fold (set_color_body p c) [0..<512] d x = d x" if "x \<notin> span p 2048" for x
    using page_bytes [OF that]
    by (intro fill_page.run_frame) (simp_all add: fill_page.bytes_of_def del: One_nat_def)
  ultimately show ?thesis
    unfolding merged_def and_or_full for_count_def by simp
qed

lemma merged_fill_mask: "merged p (\<lambda>_. c) msk d (for_count 512 (set_color_mask_body p c msk) d)"
proof -
  have h: "fill_mask_page.hazard_free p 512"
  proof (rule fill_mask_page.hazard_freeI)
    fix i x assume "i < (512 :: nat)" "x \<in> span (p + 4 * of_nat (1 * i)) 4" "unat (x - p) < 4 * 1 * 512"
    then show "x \<in> fill_mask_page.bytes_of p i"
      using read_own_element [of p p 1 512 i x]
      by (simp add: fill_mask_page.bytes_of_def same_or_apart_def del: One_nat_def)
  qed simp
  have "elem (fold (set_color_mask_body p c msk) [0..<512] d) p i = (elem d p i AND NOT msk) OR (c AND msk)"
    if "i < 512" for i
    using fill_mask_page.run_elem [OF h that, of 0] by (simp add: elem2_one del: One_nat_def)
  moreover have "fold (set_color_mask_body p c msk) [0..<512] d x = d x" if "x \<notin> span p 2048" for x
    using page_bytes [OF that]
    by (intro fill_mask_page.run_frame) (simp_all add: fill_mask_page.bytes_of_def del: One_nat_def)
  ultimately show ?thesis
    unfolding merged_def for_count_def by simp
qed

lemma merged_copy_mask:
  assumes "same_or_apart q p 2048"
  shows "merged p (elem d q) msk d (for_count 512 (copy_mask_body p q msk) d)"
proof -
  have h: "copy_mask_page.hazard_free p q 512"
  proof (rule copy_mask_page.hazard_freeI)
    fix i x assume i: "i < (512 :: nat)" "unat (x - p) < 4 * 1 * 512"
      and x: "x \<in> span (p + 4 * of_nat (1 * i)) 4 \<union> span (q + 4 * of_nat (1 * i)) 4"
    then show "x \<in> copy_mask_page.bytes_of p i"
      using read_own_element [of p p 1 512 i x] read_own_element [of q p 1 512 i x] assms
      by (auto simp: copy_mask_page.bytes_of_def same_or_apart_def simp del: One_nat_def)
  qed simp
  have "elem (fold (copy_mask_body p q msk) [0..<512] d) p i = (elem d p i AND NOT msk) OR (elem d q i AND msk)"
    if "i < 512" for i
    using copy_mask_page.run_elem [OF h that, of 0] by (simp add: elem2_one del: One_nat_def)
  moreover have "fold (copy_mask_body p q msk) [0..<512] d x = d x" if "x \<notin> span p 2048" for x
    using page_bytes [OF that]
    by (intro copy_mask_page.run_frame) (simp_all add: copy_mask_page.bytes_of_def del: One_nat_def)
  ultimately show ?thesis
    unfolding merged_def for_count_def by simp
qed

lemma merged_memcpy: "merged p (elem d q) 0xFFFFFFFF d (copy_bytes p q 2048 d)"
proof -
  have "elem (copy_bytes p q 2048 d) p i = elem d q i" if "i < 512" for i
  proof -
    have "copy_bytes p q 2048 d (p + 4 * of_nat i + of_nat j) = d (q + 4 * of_nat i + of_nat j)" if "j < 4" for j
    proof -
      have "p + 4 * of_nat i + of_nat j - p = of_nat (4 * i + j)" by simp
      moreover have "unat (of_nat (4 * i + j) :: u32) = 4 * i + j"
        using \<open>i < 512\<close> that by (intro unat_of_nat_u32) simp
      ultimately show ?thesis
        using \<open>i < 512\<close> that by (simp only: copy_bytes_def) (simp add: add.assoc)
    qed
    from this [of 0] this [of 1] this [of 2] this [of 3] show ?thesis
      by (simp add: elem_def get32_def)
  qed
  then show ?thesis
    unfolding merged_def and_or_full by (simp add: copy_bytes_def span_def)
qed

section \<open>All planes\<close>

definition apart :: "u32 \<Rightarrow> u32 \<Rightarrow> bool" where
  "apart p q \<longleftrightarrow> span p 2048 \<inter> span q 2048 = {}"

lemma elem_frame:
  assumes "merged p f msk d d'" "apart p q" "i < 512" shows "elem d' q i = elem d q i"
  using assms by (intro elem_cong [where n = 512]) (auto simp: merged_def apart_def)

lemma and_or_same: "(a AND NOT m) OR (a AND m) = a" for a m :: u32
  by (rule bit_word_eqI) (auto simp: bit_simps)

text \<open>The source page survives a merge of its own words into another page or into itself.\<close>

lemma merged_source:
  assumes "merged p f msk d d'" "\<forall>i<512. elem d q i = f i" "q = p \<or> apart p q"
  shows "\<forall>i<512. elem d' q i = f i"
  using assms(3)
proof
  assume "q = p"
  then show ?thesis using assms(1,2) by (simp add: merged_def and_or_same)
next
  assume "apart p q"
  then show ?thesis using elem_frame [OF assms(1)] assms(2) by simp
qed

text \<open>The same words merged into a list of pages, one after the other.\<close>

lemma merged_fold:
  assumes step: "\<And>k d. k \<in> set ks \<Longrightarrow> src d \<Longrightarrow> merged (P k) f msk d (F k d) \<and> src (F k d)"
    and apart: "\<And>k l. k \<in> set ks \<Longrightarrow> l \<in> set ks \<Longrightarrow> k \<noteq> l \<Longrightarrow> apart (P k) (P l)"
    and "distinct ks" "src d"
  shows "(\<forall>k\<in>set ks. \<forall>i<512. elem (fold F ks d) (P k) i = (elem d (P k) i AND NOT msk) OR (f i AND msk)) \<and>
    (\<forall>x. (\<forall>k\<in>set ks. x \<notin> span (P k) 2048) \<longrightarrow> fold F ks d x = d x) \<and>
    (\<forall>q. (\<forall>k\<in>set ks. apart (P k) q) \<longrightarrow> (\<forall>i<512. elem (fold F ks d) q i = elem d q i))"
  using assms
proof (induction ks arbitrary: d)
  case (Cons k ks)
  have m: "merged (P k) f msk d (F k d)" "src (F k d)" using Cons.prems(1,4) by auto
  note IH = Cons.IH [of "F k d"]
  have *: "(\<forall>l\<in>set ks. \<forall>i<512. elem (fold F ks (F k d)) (P l) i = (elem (F k d) (P l) i AND NOT msk) OR (f i AND msk))"
    "\<And>x. \<forall>l\<in>set ks. x \<notin> span (P l) 2048 \<Longrightarrow> fold F ks (F k d) x = F k d x"
    "\<And>q i. \<forall>l\<in>set ks. apart (P l) q \<Longrightarrow> i < 512 \<Longrightarrow> elem (fold F ks (F k d)) q i = elem (F k d) q i"
    using IH Cons.prems m(2) by auto
  have ap: "apart (P l) (P k)" if "l \<in> set ks" for l
    using Cons.prems(2) [of l k] Cons.prems(3) that by auto
  have "elem (fold F ks (F k d)) (P k) i = (elem d (P k) i AND NOT msk) OR (f i AND msk)" if "i < 512" for i
    using *(3) [of "P k"] ap that m(1) by (simp add: merged_def)
  moreover have "elem (F k d) (P l) i = elem d (P l) i" if "l \<in> set ks" "i < 512" for l i
    using elem_frame [OF m(1) _ that(2)] Cons.prems(2) [of k l] Cons.prems(3) that by auto
  moreover have "F k d x = d x" if "x \<notin> span (P k) 2048" for x using m(1) that by (simp add: merged_def)
  moreover have "elem (F k d) q i = elem d q i" if "apart (P k) q" "i < 512" for q i
    using elem_frame [OF m(1) that] .
  ultimately show ?case using * by (simp add: Ball_def)
qed simp

section \<open>Pages of VRAM\<close>

text \<open>A page offset: a multiple of the page size, below the size of VRAM.\<close>

definition page_ok :: "memory \<Rightarrow> u32 \<Rightarrow> bool" where
  "page_ok m o1 \<longleftrightarrow> unat o1 mod 2048 = 0 \<and> unat o1 < unat (VRAM_SIZE m)"

definition plane_page :: "memory \<Rightarrow> nat \<Rightarrow> u32 \<Rightarrow> u32" where
  "plane_page m k o1 = vram_at m (o1 + of_nat k * VRAM_SIZE m)"

lemma vram_size_cases:
  assumes "mem_ready m"
  shows "VRAM_SIZE m = 0x100000 \<or> VRAM_SIZE m = 0x200000" "VRAM_SIZE_MASK m = VRAM_SIZE m - 1"
    "the (VRAM m) = DRAM_SIZE m"
  using assms by (auto simp: mem_ready_def opera_mem_is_valid_cfg_def opera_mem_vram_size_def)

lemma plane_page_unat:
  assumes "mem_ready m" "page_ok m o1" "k < 4"
  shows "unat (plane_page m k o1) = unat (DRAM_SIZE m) + k * unat (VRAM_SIZE m) + unat o1"
proof -
  have o: "unat (of_nat k :: u32) = k" using assms(3) by (simp add: unat_of_nat)
  have v: "k * unat (VRAM_SIZE m) \<le> 3 * unat (VRAM_SIZE m)" using assms(3) by (intro mult_le_mono1) simp
  note s = ready_sizes(1) [OF assms(1)]
  have 1: "unat (of_nat k * VRAM_SIZE m) = k * unat (VRAM_SIZE m)"
  proof -
    have "k * unat (VRAM_SIZE m) < 4294967296" using v s by linarith
    then show ?thesis by (simp add: unat_word_ariths o)
  qed
  have b: "unat (DRAM_SIZE m) + (unat o1 + k * unat (VRAM_SIZE m)) < 4294967296"
    using v s assms(2) unfolding page_ok_def by linarith
  have 2: "unat (o1 + of_nat k * VRAM_SIZE m) = unat o1 + k * unat (VRAM_SIZE m)"
    using unat_add_nowrap [of o1 "of_nat k * VRAM_SIZE m"] b by (simp add: 1)
  show ?thesis
    using unat_add_nowrap [of "DRAM_SIZE m" "o1 + of_nat k * VRAM_SIZE m"] b
    by (simp add: plane_page_def vram_at_def vram_size_cases(3) [OF assms(1)] 2)
qed

lemma page_room: "mem_ready m \<Longrightarrow> page_ok m o1 \<Longrightarrow> unat o1 + 2048 \<le> unat (VRAM_SIZE m)"
  using vram_size_cases(1) [of m] by (auto simp: page_ok_def; presburger)

lemma apartI:
  assumes "unat p + 2048 \<le> unat q" "unat q + 2048 \<le> 4294967296" shows "apart p q" "apart q p"
proof -
  have "\<not> unat (x - q) < 2048" if "unat (x - p) < 2048" for x
  proof
    assume "unat (x - q) < 2048"
    then have "unat x = unat q + unat (x - q)"
      using assms(2) unat_add_nowrap [of q "x - q"] by simp
    moreover have "unat x = unat p + unat (x - p)"
      using assms that unat_add_nowrap [of p "x - p"] by simp
    ultimately show False using assms(1) that by linarith
  qed
  then show "apart p q" "apart q p" by (auto simp: apart_def span_def)
qed

lemma pages_apart:
  assumes m: "mem_ready m" and o: "page_ok m o1" "page_ok m o2" and kl: "k < 4" "l < 4"
    and ne: "k \<noteq> l \<or> o1 \<noteq> o2"
  shows "apart (plane_page m k o1) (plane_page m l o2)"
proof -
  note u = plane_page_unat [OF m]
  note r = page_room [OF m o(1)] page_room [OF m o(2)] ready_sizes(1) [OF m]
  have b: "j * unat (VRAM_SIZE m) \<le> 3 * unat (VRAM_SIZE m)" if "j < 4" for j
    using that by (intro mult_le_mono1) simp
  have lt: "apart (plane_page m i a) (plane_page m j c) \<and> apart (plane_page m j c) (plane_page m i a)"
    if "i < j" "j < 4" "page_ok m a" "page_ok m c" for i j a c
  proof -
    have "i * unat (VRAM_SIZE m) + unat (VRAM_SIZE m) \<le> j * unat (VRAM_SIZE m)"
      using mult_le_mono1 [of "Suc i" j "unat (VRAM_SIZE m)"] that(1) by simp
    then have "unat (plane_page m i a) + 2048 \<le> unat (plane_page m j c)"
      "unat (plane_page m j c) + 2048 \<le> 4294967296"
      using u [OF that(3), of i] u [OF that(4), of j] that(1,2) page_room [OF m that(3)] page_room [OF m that(4)]
        b [OF that(2)] r(3) by linarith+
    then show ?thesis using apartI by blast
  qed
  show ?thesis
  proof (cases "k = l")
    case False
    then show ?thesis using lt [of k l o1 o2] lt [of l k o2 o1] o kl by (auto simp: nat_neq_iff)
  next
    case True
    then have "unat o1 \<noteq> unat o2" using ne by (simp add: word_unat_eq_iff)
    moreover have "2048 dvd unat o1" "2048 dvd unat o2" using o by (simp_all add: page_ok_def mod_eq_0_iff_dvd)
    then obtain a c where "unat o1 = 2048 * a" "unat o2 = 2048 * c" by (elim dvdE)
    ultimately have "unat o1 + 2048 \<le> unat o2 \<or> unat o2 + 2048 \<le> unat o1" by auto
    moreover have "unat (plane_page m k o1) + 2048 \<le> 4294967296" "unat (plane_page m k o2) + 2048 \<le> 4294967296"
      using u [OF o(1) kl(1)] u [OF o(2) kl(1)] b [OF kl(1)] r by linarith+
    ultimately show ?thesis
      using apartI [of "plane_page m k o1" "plane_page m k o2"] apartI [of "plane_page m k o2" "plane_page m k o1"]
        u [OF o(1) kl(1)] u [OF o(2) kl(1)] True by auto
  qed
qed

text \<open>The bus presents multiples of four: their pages are whole pages inside VRAM.\<close>

lemma offset_page_ok:
  assumes "mem_ready m" "aligned4 idx" shows "page_ok m (SPORT_PAGE_TO_BYTE_OFFSET m idx)"
proof -
  have "(VRAM_SIZE m = 2 ^ 20 \<and> VRAM_SIZE_MASK m = mask 20) \<or> (VRAM_SIZE m = 2 ^ 21 \<and> VRAM_SIZE_MASK m = mask 21)"
    using vram_size_cases [OF assms(1)] by (auto simp: mask_eq_exp_minus_1)
  then obtain n where n: "VRAM_SIZE m = 2 ^ n" "VRAM_SIZE_MASK m = mask n" "n = 20 \<or> n = 21" by blast
  have "SPORT_PAGE_TO_BYTE_OFFSET m idx = take_bit n (push_bit 9 idx)"
    by (simp add: SPORT_PAGE_TO_BYTE_OFFSET_def n(2) take_bit_eq_mask)
  then have u: "unat (SPORT_PAGE_TO_BYTE_OFFSET m idx) = (512 * unat idx) mod 2 ^ n"
    using n(3) by (auto simp: unsigned_take_bit_eq push_bit_eq_mult unat_word_ariths take_bit_eq_mod mod_mod_cancel
        mult.commute)
  moreover have "512 * unat idx mod 2048 = 0" using assms(2) by (auto simp: aligned4_def; presburger)
  ultimately show ?thesis using n by (auto simp: page_ok_def mod_mod_cancel)
qed

section \<open>The page operations\<close>

lemma on_dram_sel [simp]:
  "dram (on_dram f m) = f (dram m)" "VRAM (on_dram f m) = VRAM m" "VRAM_SIZE (on_dram f m) = VRAM_SIZE m"
  "HIRESMODE (on_dram f m) = HIRESMODE m" "vram_at (on_dram f m) = vram_at m"
  "plane_page (on_dram f m) = plane_page m" "on_dram g (on_dram f m) = on_dram (g \<circ> f) m"
  by (auto simp: on_dram_def dram_def vram_at_def plane_page_def fun_eq_iff)

lemma merged_cong:
  "merged p f msk d d' \<Longrightarrow> (\<And>i. i < 512 \<Longrightarrow> f i = g i) \<Longrightarrow> merged p g msk d d'"
  by (simp add: merged_def)

text \<open>Plane 0 first, then the three others: what they all hold, and what is left alone.\<close>

lemma merged_planes:
  assumes m: "mem_ready m" and o: "page_ok m o1"
    and m0: "merged (plane_page m 0 o1) f msk d d1" and src: "src d1"
    and step: "\<And>k d. k \<in> {1, 2, 3} \<Longrightarrow> src d \<Longrightarrow> merged (plane_page m k o1) f msk d (F k d) \<and> src (F k d)"
  shows "(\<forall>k<4. \<forall>i<512. elem (fold F [1, 2, 3] d1) (plane_page m k o1) i =
        (elem d (plane_page m k o1) i AND NOT msk) OR (f i AND msk)) \<and>
      (\<forall>x. (\<forall>k<4. x \<notin> span (plane_page m k o1) 2048) \<longrightarrow> fold F [1, 2, 3] d1 x = d x)"
proof -
  let ?P = "\<lambda>k. plane_page m k o1"
  have ap: "apart (?P k) (?P l)" if "k < 4" "l < 4" "k \<noteq> l" for k l
    using pages_apart [OF m o o] that by blast
  have s3: "set [1, 2, 3 :: nat] = {1, 2, 3}" by simp
  have f: "(\<forall>k\<in>{1, 2, 3}. \<forall>i<512. elem (fold F [1, 2, 3] d1) (?P k) i = (elem d1 (?P k) i AND NOT msk) OR (f i AND msk)) \<and>
      (\<forall>x. (\<forall>k\<in>{1, 2, 3}. x \<notin> span (?P k) 2048) \<longrightarrow> fold F [1, 2, 3] d1 x = d1 x) \<and>
      (\<forall>q. (\<forall>k\<in>{1, 2, 3}. apart (?P k) q) \<longrightarrow> (\<forall>i<512. elem (fold F [1, 2, 3] d1) q i = elem d1 q i))"
  proof (rule merged_fold [where src = src and ks = "[1, 2, 3]" and P = ?P, unfolded s3])
    show "apart (?P k) (?P l)" if "k \<in> {1, 2, 3}" "l \<in> {1, 2, 3}" "k \<noteq> l" for k l using that by (intro ap) auto
  qed (use step src in simp_all)
  have lt4: "k < 4 \<longleftrightarrow> k = 0 \<or> k \<in> {1, 2, 3}" for k :: nat by auto
  have "elem (fold F [1, 2, 3] d1) (?P k) i = (elem d (?P k) i AND NOT msk) OR (f i AND msk)"
    if "k < 4" "i < 512" for k i
  proof (cases "k = 0")
    case True
    have "\<forall>k\<in>{1, 2, 3}. apart (?P k) (?P 0)" by (auto intro: ap)
    then show ?thesis using f m0 that True by (simp add: merged_def)
  next
    case False
    then have "elem d1 (?P k) i = elem d (?P k) i" using elem_frame [OF m0 ap [of 0 k] that(2)] that(1) by simp
    then show ?thesis using f that False by (auto simp: lt4)
  qed
  moreover have "fold F [1, 2, 3] d1 x = d x" if "\<forall>k<4. x \<notin> span (?P k) 2048" for x
    using f m0 that by (auto simp: merged_def)
  ultimately show ?thesis by blast
qed

definition planes_of :: "memory \<Rightarrow> nat" where
  "planes_of m = (if HIRESMODE m then 4 else 1)"

lemma flash_on_dram:
  fixes m s rawidx msk
  defines "P \<equiv> \<lambda>k. plane_page m k (SPORT_PAGE_TO_BYTE_OFFSET m rawidx)"
  defines "F0 \<equiv> if msk = 0xFFFFFFFF then for_count 512 (set_color_body (P 0) (color s))
      else for_count 512 (set_color_mask_body (P 0) (color s) msk)"
    and "F \<equiv> \<lambda>k. if msk = 0xFFFFFFFF then copy_bytes (P k) (P 0) 2048
      else for_count 512 (set_color_mask_body (P k) (color s) msk)"
  shows "sport_flash_write rawidx msk s m =
    on_dram (\<lambda>d. if HIRESMODE m then fold F [1, 2, 3] (F0 d) else F0 d) m"
proof -
  have u: "[Suc 0..<4] = [1, 2, 3 :: nat]" by (simp add: upt_rec)
  show ?thesis
    by (simp add: sport_flash_write_def F_def F0_def P_def Let_def sport_set_color_def
        sport_set_color_with_mask_def sport_memcpy_highres_def sport_memcpy_def plane_page_def u o_def
        del: upt_Suc)
qed

lemma copy_on_dram:
  fixes m s msk
  defines "P \<equiv> \<lambda>k. plane_page m k (destination s)" and "q \<equiv> plane_page m 0 (source s)"
  defines "F \<equiv> \<lambda>k. if msk = 0xFFFFFFFF then copy_bytes (P k) q 2048
      else for_count 512 (copy_mask_body (P k) q msk)"
  shows "(if msk = 0xFFFFFFFF then sport_copy_page_color s m else sport_copy_page_color_with_mask msk s m) =
    on_dram (\<lambda>d. if HIRESMODE m then fold F [1, 2, 3] (F 0 d) else F 0 d) m"
proof -
  have u: "[0..<4] = [0, 1, 2, 3 :: nat]" "[0..<Suc 0] = [0]" by (simp_all add: upt_rec)
  show ?thesis
    by (simp add: sport_copy_page_color_def sport_copy_page_color_with_mask_def F_def P_def q_def Let_def
        sport_memcpy_highres_def sport_memcpy_def plane_page_def u o_def del: upt_Suc)
qed

text \<open>The words \<open>f\<close> merged into all planes of page \<open>o1\<close>, and nothing else.\<close>

definition pages_merged :: "memory \<Rightarrow> u32 \<Rightarrow> (nat \<Rightarrow> u32) \<Rightarrow> u32 \<Rightarrow> memory \<Rightarrow> bool" where
  "pages_merged m o1 f msk m' \<longleftrightarrow>
     (\<forall>k<planes_of m. \<forall>i<512. elem (dram m') (plane_page m k o1) i =
        (elem (dram m) (plane_page m k o1) i AND NOT msk) OR (f i AND msk)) \<and>
     (\<forall>x. (\<forall>k<planes_of m. x \<notin> span (plane_page m k o1) 2048) \<longrightarrow> dram m' x = dram m x) \<and>
     m' = m\<lparr>DRAM := DRAM m'\<rparr>"

lemma pages_mergedI:
  assumes m: "mem_ready m" and o: "page_ok m o1"
    and m0: "merged (plane_page m 0 o1) f msk (dram m) (F0 (dram m))" and src: "src (F0 (dram m))"
    and step: "\<And>k d. k \<in> {1, 2, 3} \<Longrightarrow> src d \<Longrightarrow> merged (plane_page m k o1) f msk d (F k d) \<and> src (F k d)"
  shows "pages_merged m o1 f msk (on_dram (\<lambda>d. if HIRESMODE m then fold F [1, 2, 3] (F0 d) else F0 d) m)"
proof (cases "HIRESMODE m")
  case True
  then show ?thesis
    using merged_planes [OF m o m0 src step] by (simp add: pages_merged_def planes_of_def) (simp add: on_dram_def)
next
  case False
  then show ?thesis
    using m0 by (simp add: pages_merged_def planes_of_def merged_def) (simp add: on_dram_def)
qed

lemma flash_merges:
  assumes m: "mem_ready m" and o: "page_ok m (SPORT_PAGE_TO_BYTE_OFFSET m rawidx)"
  shows "pages_merged m (SPORT_PAGE_TO_BYTE_OFFSET m rawidx) (\<lambda>_. color s) msk (sport_flash_write rawidx msk s m)"
proof -
  let ?o = "SPORT_PAGE_TO_BYTE_OFFSET m rawidx"
  let ?P = "\<lambda>k. plane_page m k ?o"
  let ?src = "\<lambda>d. msk = 0xFFFFFFFF \<longrightarrow> (\<forall>i<512. elem d (?P 0) i = color s)"
  have ap: "apart (?P k) (?P 0)" if "k \<in> {1, 2, 3}" for k using pages_apart [OF m o o, of k 0] that by auto
  show ?thesis
    unfolding flash_on_dram
  proof (rule pages_mergedI [OF m o, where src = ?src])
    show "merged (?P 0) (\<lambda>_. color s) msk (dram m)
      ((if msk = 0xFFFFFFFF then for_count 512 (set_color_body (?P 0) (color s))
        else for_count 512 (set_color_mask_body (?P 0) (color s) msk)) (dram m))"
      using merged_fill merged_fill_mask by simp
    show "?src ((if msk = 0xFFFFFFFF then for_count 512 (set_color_body (?P 0) (color s))
        else for_count 512 (set_color_mask_body (?P 0) (color s) msk)) (dram m))"
      using merged_fill [of "?P 0" "color s" "dram m"] unfolding merged_def and_or_full by simp
  next
    fix k d assume k: "k \<in> {1, 2, 3 :: nat}" and s: "?src d"
    let ?F = "if msk = 0xFFFFFFFF then copy_bytes (?P k) (?P 0) 2048
      else for_count 512 (set_color_mask_body (?P k) (color s) msk)"
    have mg: "merged (?P k) (\<lambda>_. color s) msk d (?F d)"
    proof (cases "msk = 0xFFFFFFFF")
      case True
      then show ?thesis using merged_cong [OF merged_memcpy [of "?P k" d "?P 0"], of "\<lambda>_. color s"] s by simp
    next
      case False
      then show ?thesis using merged_fill_mask by simp
    qed
    then show "merged (?P k) (\<lambda>_. color s) msk d (?F d) \<and> ?src (?F d)"
      using merged_source [OF mg, of "?P 0"] s ap [OF k] by blast
  qed
qed

lemma copy_merges:
  assumes m: "mem_ready m" and o: "page_ok m (destination s)" and q: "page_ok m (source s)"
  shows "pages_merged m (destination s) (elem (dram m) (plane_page m 0 (source s))) msk
    (if msk = 0xFFFFFFFF then sport_copy_page_color s m else sport_copy_page_color_with_mask msk s m)"
proof -
  let ?P = "\<lambda>k. plane_page m k (destination s)"
  let ?q = "plane_page m 0 (source s)"
  let ?f = "elem (dram m) ?q"
  let ?src = "\<lambda>d. \<forall>i<512. elem d ?q i = ?f i"
  let ?F = "\<lambda>k. if msk = 0xFFFFFFFF then copy_bytes (?P k) ?q 2048 else for_count 512 (copy_mask_body (?P k) ?q msk)"
  have ap: "?q = ?P k \<or> apart (?P k) ?q" if "k < 4" for k
    using pages_apart [OF m o q that, of 0] by (cases "k = 0 \<and> destination s = source s") auto
  have step: "merged (?P k) ?f msk d (?F k d) \<and> ?src (?F k d)" if k: "k < 4" and s: "?src d" for k d
  proof -
    have "same_or_apart ?q (?P k) 2048" using ap [OF k] by (auto simp: same_or_apart_def apart_def)
    then have mg: "merged (?P k) ?f msk d (?F k d)"
      using merged_cong [OF merged_memcpy [of "?P k" d ?q], of ?f]
        merged_cong [OF merged_copy_mask [of ?q "?P k" d msk], of ?f] s by simp
    then show ?thesis using merged_source [OF mg s ap [OF k]] by blast
  qed
  show ?thesis
    unfolding copy_on_dram
  proof (rule pages_mergedI [OF m o, where src = ?src])
    show "merged (?P 0) ?f msk (dram m) (?F 0 (dram m))" "?src (?F 0 (dram m))" using step [of 0 "dram m"] by auto
    show "merged (?P k) ?f msk d (?F k d) \<and> ?src (?F k d)" if "k \<in> {1, 2, 3}" "?src d" for k d
      using step [of k d] that by auto
  qed
qed

text \<open>C17. A SPORT access through the bus, in every memory configuration and mode. Page kind \<open>0x2000\<close>
  only loads the colour; kind \<open>0x4000\<close> merges the colour, every other kind merges the words of the
  source page, under the mask into the addressed page, in plane 0 and in the high-resolution mode
  in all four planes; every other byte of memory keeps its value, also when source and
  destination are the same page.\<close>

theorem sport_access_merges_page:
  assumes "mem_ready m" "aligned4 idx" "page_ok m (source s)"
  shows "let k = idx AND 0xE000; o1 = SPORT_PAGE_TO_BYTE_OFFSET m idx; (s', m') = opera_sport_write_access idx msk (s, m)
    in page_ok m o1 \<and>
       (if k = 0x2000 then s' = s\<lparr>color := msk\<rparr> \<and> m' = m
        else if k = 0x4000 then s' = s \<and> pages_merged m o1 (\<lambda>_. color s) msk m'
        else s' = s\<lparr>destination := o1\<rparr> \<and>
             pages_merged m o1 (elem (dram m) (plane_page m 0 (source s))) msk m')"
proof -
  let ?o = "SPORT_PAGE_TO_BYTE_OFFSET m idx"
  note o = offset_page_ok [OF assms(1,2)]
  have "pages_merged m ?o (\<lambda>_. color s) msk (sport_flash_write idx msk s m)"
    by (rule flash_merges [OF assms(1) o])
  moreover have "pages_merged m ?o (elem (dram m) (plane_page m 0 (source s))) msk
      (snd (sport_copy_page idx msk (s, m)))"
    using copy_merges [OF assms(1), of "s\<lparr>destination := ?o\<rparr>" msk] o assms(3)
    by (simp add: sport_copy_page_def Let_def)
  moreover have "fst (sport_copy_page idx msk (s, m)) = s\<lparr>destination := ?o\<rparr>"
    by (simp add: sport_copy_page_def Let_def)
  ultimately show ?thesis
    using o by (simp add: opera_sport_write_access_def Let_def case_prod_unfold)
qed

lemma stock_source: "page_ok stock_mem 0x1000"
  by (simp add: page_ok_def stock_mem_simps)

theorem sport_access_merges_page_witness:
  "pages_merged stock_mem (SPORT_PAGE_TO_BYTE_OFFSET stock_mem 0x4010) (\<lambda>_. 0xABCD) 0xFF00FF00
     (snd (opera_sport_write_access 0x4010 0xFF00FF00 (\<lparr>color = 0xABCD, source = 0x1000, destination = 0\<rparr>, stock_mem)))"
  using sport_access_merges_page [OF stock_mem_ready, of "0x4010" "\<lparr>color = 0xABCD, source = 0x1000, destination = 0\<rparr>"
      "0xFF00FF00"] stock_source
  by (simp add: aligned4_def Let_def case_prod_unfold)

section \<open>Saved state\<close>

interpretation sport_chunk: state_chunk "''SPRT''" "\<lambda>_. True"
  "\<lambda>s. enc32 (color s) @ enc32 (source s) @ enc32 (destination s)" sport_state_write sport_state_read
  id "\<lambda>_. True" "\<lambda>t _. t" "\<lambda>_ _. True"
proof
  show "emits (sport_state_write s) (enc32 (color s) @ enc32 (source s) @ enc32 (destination s))" for s
    unfolding sport_state_write_def by (intro emits_then emits_u32 wsticky_ops)
  have c: "consumes sport_state_read \<lparr>color = color s, source = source s, destination = destination s\<rparr>
      (enc32 (color s) @ enc32 (source s) @ enc32 (destination s) @ [])" for s :: sport
    unfolding sport_state_read_def by (rule consumes_fields)+
  have "\<lparr>color = color s, source = source s, destination = destination s\<rparr> = s" for s :: sport by simp
  then show "consumes sport_state_read (id s) (enc32 (color s) @ enc32 (source s) @ enc32 (destination s))" for s
    using c [of s] by (simp only: id_apply append_Nil2)
qed simp_all

text \<open>The SPORT registers round-trip through their chunk, whatever they hold: the loader accepts
  every source offset, also one far outside VRAM, which no page access produces.\<close>

theorem sport_state_roundtrip:
  assumes "20 \<le> length buf"
  shows "opera_sport_state_size = 20 \<and> fst (opera_sport_state_save s buf) = 20 \<and>
    opera_sport_state_load False (snd (opera_sport_state_save s buf)) 20 cur = (20, s)"
  using sport_chunk.roundtrip [of s buf cur] sport_chunk.saved_size [of s buf] sport_chunk.sizing [of s] assms
  by (simp add: opera_sport_state_save_def opera_sport_state_load_def opera_sport_state_size_def
      sport_state_payload_size_def opera_state_chunk_size_def opera_state_save_size_def
      opera_state_chunk_header_size_def)

theorem sport_state_roundtrip_witness:
  "opera_sport_state_load False
     (snd (opera_sport_state_save \<lparr>color = 1, source = 0xFFFFF000, destination = 3\<rparr> (replicate 20 0))) 20
     \<lparr>color = 0, source = 0, destination = 0\<rparr> = (20, \<lparr>color = 1, source = 0xFFFFF000, destination = 3\<rparr>)"
  by (rule sport_state_roundtrip [THEN conjunct2, THEN conjunct2]) simp

end
