(* ===== verification/Opera_Arm_Core.thy ===== *)
theory Opera_Arm_Core
  imports Opera_Mem Opera_State_Codec
begin

text \<open>
  The processor state of \<open>src/libopera/opera_arm.c\<close> and \<open>src/libopera/opera_arm_core.h\<close>: registers,
  banks, status registers, the mode table and the bank switch, the flag setters, reset, the ROM
  overlay limits and the saved state. A C array is a function from the index; the arrays'
  sizes are 16, 7, 2, 2, 7, 2, 2 and 6, and \<open>core_clean\<close> says that nothing is kept outside them.
\<close>

section \<open>State\<close>

type_synonym regs = "nat \<Rightarrow> u32"

record arm_core =
  USER :: regs
  CASH :: regs
  SVC :: regs
  ABT :: regs
  FIQ :: regs
  IRQ :: regs
  UND :: regs
  SPSR :: regs
  CPSR :: u32
  nFIQ :: u8
  MAS_Access_Exept :: u8

text \<open>The static variables of the interpreter.\<close>

record arm =
  CPU :: arm_core
  g_SWI_HLE :: int
  CYCLES :: int
  g_SOFT_RESET_PENDING :: bool
  g_ROM_OVERLAY :: bool
  g_CPU_DIRECT_RAM_LIMIT :: u32
  g_ROM_OVERLAY_READ_LIMIT :: u32
  g_ROM_OVERLAY_CLEAR_LIMIT :: u32
  carry_out :: u32

abbreviation (input) ARM_MODE_USER :: nat where "ARM_MODE_USER \<equiv> 0"
abbreviation (input) ARM_MODE_FIQ :: nat where "ARM_MODE_FIQ \<equiv> 1"
abbreviation (input) ARM_MODE_IRQ :: nat where "ARM_MODE_IRQ \<equiv> 2"
abbreviation (input) ARM_MODE_SVC :: nat where "ARM_MODE_SVC \<equiv> 3"
abbreviation (input) ARM_MODE_ABT :: nat where "ARM_MODE_ABT \<equiv> 4"
abbreviation (input) ARM_MODE_UND :: nat where "ARM_MODE_UND \<equiv> 5"
abbreviation (input) ARM_MODE_UNK :: nat where "ARM_MODE_UNK \<equiv> 255"

text \<open>Every use of the table masks the index to five bits.\<close>

definition arm_mode_table :: "u32 \<Rightarrow> nat" where
  "arm_mode_table i =
     [ARM_MODE_UNK, ARM_MODE_UNK, ARM_MODE_UNK, ARM_MODE_UNK,
      ARM_MODE_UNK, ARM_MODE_UNK, ARM_MODE_UNK, ARM_MODE_UNK,
      ARM_MODE_UNK, ARM_MODE_UNK, ARM_MODE_UNK, ARM_MODE_UNK,
      ARM_MODE_UNK, ARM_MODE_UNK, ARM_MODE_UNK, ARM_MODE_UNK,
      ARM_MODE_USER, ARM_MODE_FIQ, ARM_MODE_IRQ, ARM_MODE_SVC,
      ARM_MODE_UNK, ARM_MODE_UNK, ARM_MODE_UNK, ARM_MODE_ABT,
      ARM_MODE_UNK, ARM_MODE_UNK, ARM_MODE_UNK, ARM_MODE_UND,
      ARM_MODE_UNK, ARM_MODE_UNK, ARM_MODE_UNK, ARM_MODE_UNK] ! unat i"

abbreviation (input) NCYCLE :: int where "NCYCLE \<equiv> 2"
abbreviation (input) SCYCLE :: int where "SCYCLE \<equiv> 1"
abbreviation (input) ICYCLE :: int where "ICYCLE \<equiv> 1"

section \<open>ROM overlay\<close>

definition set_rom_overlay :: "memory \<Rightarrow> bool \<Rightarrow> arm \<Rightarrow> arm" where
  "set_rom_overlay m enabled a =
     a\<lparr>g_ROM_OVERLAY := enabled,
       g_CPU_DIRECT_RAM_LIMIT := (if enabled then 0 else RAM_SIZE m),
       g_ROM_OVERLAY_READ_LIMIT := (if enabled then 0x03000000 else 0),
       g_ROM_OVERLAY_CLEAR_LIMIT := (if enabled then DRAM_SIZE m else 0)\<rparr>"

definition opera_arm_sync_memory_map :: "memory \<Rightarrow> arm \<Rightarrow> arm" where
  "opera_arm_sync_memory_map m a = set_rom_overlay m (g_ROM_OVERLAY a) a"

section \<open>Bank switch\<close>

text \<open>The statements the bank switches are made of: \<open>memcpy(&dst[i],&src[j],n<<2)\<close>, and the two
  assignments that save or restore registers 13 and 14 of a mode.\<close>

definition copy_regs :: "regs \<Rightarrow> nat \<Rightarrow> regs \<Rightarrow> nat \<Rightarrow> nat \<Rightarrow> regs" where
  "copy_regs dst i src j n = (\<lambda>k. if i \<le> k \<and> k < i + n then src (j + (k - i)) else dst k)"

definition save_FIQ7 :: "arm_core \<Rightarrow> arm_core" where "save_FIQ7 c = c\<lparr>FIQ := copy_regs (FIQ c) 0 (USER c) 8 7\<rparr>"
definition load_FIQ7 :: "arm_core \<Rightarrow> arm_core" where "load_FIQ7 c = c\<lparr>USER := copy_regs (USER c) 8 (FIQ c) 0 7\<rparr>"
definition save_CASH7 :: "arm_core \<Rightarrow> arm_core" where "save_CASH7 c = c\<lparr>CASH := copy_regs (CASH c) 0 (USER c) 8 7\<rparr>"
definition load_CASH7 :: "arm_core \<Rightarrow> arm_core" where "load_CASH7 c = c\<lparr>USER := copy_regs (USER c) 8 (CASH c) 0 7\<rparr>"
definition save_CASH5 :: "arm_core \<Rightarrow> arm_core" where "save_CASH5 c = c\<lparr>CASH := copy_regs (CASH c) 0 (USER c) 8 5\<rparr>"
definition load_CASH5 :: "arm_core \<Rightarrow> arm_core" where "load_CASH5 c = c\<lparr>USER := copy_regs (USER c) 8 (CASH c) 0 5\<rparr>"
definition save_CASH2 :: "arm_core \<Rightarrow> arm_core" where "save_CASH2 c = c\<lparr>CASH := (CASH c)(5 := USER c 13, 6 := USER c 14)\<rparr>"
definition load_CASH2 :: "arm_core \<Rightarrow> arm_core" where "load_CASH2 c = c\<lparr>USER := (USER c)(13 := CASH c 5, 14 := CASH c 6)\<rparr>"
definition save_IRQ :: "arm_core \<Rightarrow> arm_core" where "save_IRQ c = c\<lparr>IRQ := (IRQ c)(0 := USER c 13, 1 := USER c 14)\<rparr>"
definition load_IRQ :: "arm_core \<Rightarrow> arm_core" where "load_IRQ c = c\<lparr>USER := (USER c)(13 := IRQ c 0, 14 := IRQ c 1)\<rparr>"
definition save_SVC :: "arm_core \<Rightarrow> arm_core" where "save_SVC c = c\<lparr>SVC := (SVC c)(0 := USER c 13, 1 := USER c 14)\<rparr>"
definition load_SVC :: "arm_core \<Rightarrow> arm_core" where "load_SVC c = c\<lparr>USER := (USER c)(13 := SVC c 0, 14 := SVC c 1)\<rparr>"
definition save_ABT :: "arm_core \<Rightarrow> arm_core" where "save_ABT c = c\<lparr>ABT := (ABT c)(0 := USER c 13, 1 := USER c 14)\<rparr>"
definition load_ABT :: "arm_core \<Rightarrow> arm_core" where "load_ABT c = c\<lparr>USER := (USER c)(13 := ABT c 0, 14 := ABT c 1)\<rparr>"
definition save_UND :: "arm_core \<Rightarrow> arm_core" where "save_UND c = c\<lparr>UND := (UND c)(0 := USER c 13, 1 := USER c 14)\<rparr>"
definition load_UND :: "arm_core \<Rightarrow> arm_core" where "load_UND c = c\<lparr>USER := (USER c)(13 := UND c 0, 14 := UND c 1)\<rparr>"

lemmas bank_ops = save_FIQ7_def load_FIQ7_def save_CASH7_def load_CASH7_def save_CASH5_def load_CASH5_def
  save_CASH2_def load_CASH2_def save_IRQ_def load_IRQ_def save_SVC_def load_SVC_def save_ABT_def load_ABT_def
  save_UND_def load_UND_def copy_regs_def

definition ARM_RestUserRONS :: "arm_core \<Rightarrow> arm_core" where
  "ARM_RestUserRONS c =
     (let t = arm_mode_table (CPSR c AND 0x1F) in
      if t = ARM_MODE_USER then c
      else if t = ARM_MODE_FIQ then load_CASH7 (save_FIQ7 c)
      else if t = ARM_MODE_IRQ then load_CASH2 (save_IRQ c)
      else if t = ARM_MODE_SVC then load_CASH2 (save_SVC c)
      else if t = ARM_MODE_ABT then load_CASH2 (save_ABT c)
      else if t = ARM_MODE_UND then load_CASH2 (save_UND c)
      else c)"

definition ARM_RestFiqRONS :: "arm_core \<Rightarrow> arm_core" where
  "ARM_RestFiqRONS c =
     (let t = arm_mode_table (CPSR c AND 0x1F) in
      if t = ARM_MODE_USER then load_FIQ7 (save_CASH7 c)
      else if t = ARM_MODE_FIQ then c
      else if t = ARM_MODE_IRQ then load_FIQ7 (save_IRQ (save_CASH5 c))
      else if t = ARM_MODE_SVC then load_FIQ7 (save_SVC (save_CASH5 c))
      else if t = ARM_MODE_ABT then load_FIQ7 (save_ABT (save_CASH5 c))
      else if t = ARM_MODE_UND then load_FIQ7 (save_UND (save_CASH5 c))
      else c)"

definition ARM_RestIrqRONS :: "arm_core \<Rightarrow> arm_core" where
  "ARM_RestIrqRONS c =
     (let t = arm_mode_table (CPSR c AND 0x1F) in
      if t = ARM_MODE_USER then load_IRQ (save_CASH2 c)
      else if t = ARM_MODE_FIQ then load_IRQ (load_CASH5 (save_FIQ7 c))
      else if t = ARM_MODE_IRQ then c
      else if t = ARM_MODE_SVC then load_IRQ (save_SVC c)
      else if t = ARM_MODE_ABT then load_IRQ (save_ABT c)
      else if t = ARM_MODE_UND then load_IRQ (save_UND c)
      else c)"

definition ARM_RestSvcRONS :: "arm_core \<Rightarrow> arm_core" where
  "ARM_RestSvcRONS c =
     (let t = arm_mode_table (CPSR c AND 0x1F) in
      if t = ARM_MODE_USER then load_SVC (save_CASH2 c)
      else if t = ARM_MODE_FIQ then load_SVC (load_CASH5 (save_FIQ7 c))
      else if t = ARM_MODE_IRQ then load_SVC (save_IRQ c)
      else if t = ARM_MODE_SVC then c
      else if t = ARM_MODE_ABT then load_SVC (save_ABT c)
      else if t = ARM_MODE_UND then load_SVC (save_UND c)
      else c)"

definition ARM_RestAbtRONS :: "arm_core \<Rightarrow> arm_core" where
  "ARM_RestAbtRONS c =
     (let t = arm_mode_table (CPSR c AND 0x1F) in
      if t = ARM_MODE_USER then load_ABT (save_CASH2 c)
      else if t = ARM_MODE_FIQ then load_ABT (load_CASH5 (save_FIQ7 c))
      else if t = ARM_MODE_IRQ then load_ABT (save_IRQ c)
      else if t = ARM_MODE_SVC then load_ABT (save_SVC c)
      else if t = ARM_MODE_ABT then c
      else if t = ARM_MODE_UND then load_ABT (save_UND c)
      else c)"

definition ARM_RestUndRONS :: "arm_core \<Rightarrow> arm_core" where
  "ARM_RestUndRONS c =
     (let t = arm_mode_table (CPSR c AND 0x1F) in
      if t = ARM_MODE_USER then load_UND (save_CASH2 c)
      else if t = ARM_MODE_FIQ then load_UND (load_CASH5 (save_FIQ7 c))
      else if t = ARM_MODE_IRQ then load_UND (save_IRQ c)
      else if t = ARM_MODE_SVC then load_UND (save_SVC c)
      else if t = ARM_MODE_ABT then load_UND (save_ABT c)
      else if t = ARM_MODE_UND then c
      else c)"


definition ARM_Change_ModeSafe :: "u32 \<Rightarrow> arm_core \<Rightarrow> arm_core" where
  "ARM_Change_ModeSafe mode c =
     (let t = arm_mode_table (mode AND 0x1F) in
      if t = ARM_MODE_USER then ARM_RestUserRONS c
      else if t = ARM_MODE_FIQ then ARM_RestFiqRONS c
      else if t = ARM_MODE_IRQ then ARM_RestIrqRONS c
      else if t = ARM_MODE_SVC then ARM_RestSvcRONS c
      else if t = ARM_MODE_ABT then ARM_RestAbtRONS c
      else if t = ARM_MODE_UND then ARM_RestUndRONS c
      else c)"

section \<open>Status register\<close>

definition arm_cpsr_set :: "u32 \<Rightarrow> arm_core \<Rightarrow> arm_core" where
  "arm_cpsr_set a c = (let a = a OR 0x10 in (ARM_Change_ModeSafe a c)\<lparr>CPSR := a AND 0xf00000df\<rparr>)"

definition SETM :: "u32 \<Rightarrow> arm_core \<Rightarrow> arm_core" where
  "SETM a c =
     (let a = a OR 0x10; c = ARM_Change_ModeSafe a c
      in c\<lparr>CPSR := (CPSR c AND 0xffffffe0) OR (a AND 0x1F)\<rparr>)"

definition SETN :: "bool \<Rightarrow> arm_core \<Rightarrow> arm_core" where
  "SETN a c = c\<lparr>CPSR := (CPSR c AND 0x7fffffff) OR (if a then push_bit 31 1 else 0)\<rparr>"

definition SETZ :: "bool \<Rightarrow> arm_core \<Rightarrow> arm_core" where
  "SETZ a c = c\<lparr>CPSR := (CPSR c AND 0xbfffffff) OR (if a then push_bit 30 1 else 0)\<rparr>"

definition SETC :: "bool \<Rightarrow> arm_core \<Rightarrow> arm_core" where
  "SETC a c = c\<lparr>CPSR := (CPSR c AND 0xdfffffff) OR (if a then push_bit 29 1 else 0)\<rparr>"

definition SETV :: "bool \<Rightarrow> arm_core \<Rightarrow> arm_core" where
  "SETV a c = c\<lparr>CPSR := (CPSR c AND 0xefffffff) OR (if a then push_bit 28 1 else 0)\<rparr>"

definition SETI :: "bool \<Rightarrow> arm_core \<Rightarrow> arm_core" where
  "SETI a c = c\<lparr>CPSR := (CPSR c AND 0xffffff7f) OR (if a then push_bit 7 1 else 0)\<rparr>"

definition SETF :: "bool \<Rightarrow> arm_core \<Rightarrow> arm_core" where
  "SETF a c = c\<lparr>CPSR := (CPSR c AND 0xffffffbf) OR (if a then push_bit 6 1 else 0)\<rparr>"

abbreviation MODE :: "arm_core \<Rightarrow> u32" where "MODE c \<equiv> CPSR c AND 0x1F"

definition ISF :: "arm_core \<Rightarrow> bool" where "ISF c \<longleftrightarrow> drop_bit 6 (CPSR c) AND 1 \<noteq> 0"

definition set_reg :: "nat \<Rightarrow> u32 \<Rightarrow> arm_core \<Rightarrow> arm_core" where
  "set_reg n v c = c\<lparr>USER := (USER c)(n := v)\<rparr>"

definition set_spsr :: "nat \<Rightarrow> u32 \<Rightarrow> arm_core \<Rightarrow> arm_core" where
  "set_spsr n v c = c\<lparr>SPSR := (SPSR c)(n := v)\<rparr>"

text \<open>\<open>arm_data_abort\<close>.\<close>

definition arm_data_abort :: "arm \<Rightarrow> arm" where
  "arm_data_abort a =
     (let c = set_spsr (arm_mode_table 0x17) (CPSR (CPU a)) (CPU a);
          c = SETI True c;
          c = SETM 0x17 c;
          c = set_reg 14 (USER c 15 + 4) c;
          c = set_reg 15 0x00000010 c
      in a\<lparr>CPU := c\<lparr>MAS_Access_Exept := 0\<rparr>, CYCLES := CYCLES a - (SCYCLE + NCYCLE)\<rparr>)"

definition ROTR :: "u32 \<Rightarrow> nat \<Rightarrow> u32" where
  "ROTR val shift = (if shift \<noteq> 0 then drop_bit shift val OR push_bit (32 - shift) val else val)"

section \<open>Reset\<close>

definition opera_arm_init :: "memory \<Rightarrow> arm \<Rightarrow> arm" where
  "opera_arm_init m a =
     (let a = set_rom_overlay m True (a\<lparr>g_SWI_HLE := 0, g_SOFT_RESET_PENDING := False\<rparr>);
          zero = (\<lambda>n f i. if i < n then 0 else f i);
          c = CPU a;
          c = c\<lparr>USER := zero 16 (USER c), SVC := zero 2 (SVC c), ABT := zero 2 (ABT c), IRQ := zero 2 (IRQ c),
                UND := zero 2 (UND c), CASH := zero 7 (CASH c), FIQ := zero 7 (FIQ c),
                nFIQ := 0, MAS_Access_Exept := 0\<rparr>;
          c = set_reg 15 0x00000000 c;
          c = arm_cpsr_set ((0x13 OR 0x80) OR 0x40) c
      in a\<lparr>carry_out := 0, CYCLES := 0, CPU := c\<rparr>)"

definition opera_arm_destroy :: "arm \<Rightarrow> arm" where
  "opera_arm_destroy a = a"

definition opera_arm_soft_reset :: "memory \<Rightarrow> arm \<Rightarrow> arm" where
  "opera_arm_soft_reset m a =
     (let return_cpsr = CPSR (CPU a); return_pc = USER (CPU a) 15;
          a = set_rom_overlay m True (a\<lparr>CYCLES := 0, g_SOFT_RESET_PENDING := False\<rparr>);
          c = set_spsr ARM_MODE_SVC return_cpsr (CPU a);
          c = arm_cpsr_set ((((return_cpsr AND NOT 0x1F) OR 0x13) OR 0x80) OR 0x40) c;
          c = set_reg 14 return_pc c;
          c = set_reg 15 0x00000000 c
      in a\<lparr>CPU := c\<lparr>MAS_Access_Exept := 0, nFIQ := 0\<rparr>\<rparr>)"

definition opera_arm_swi_hle_set :: "int \<Rightarrow> arm \<Rightarrow> arm" where
  "opera_arm_swi_hle_set hle a = a\<lparr>g_SWI_HLE := (if hle \<noteq> 0 then 1 else 0)\<rparr>"

definition opera_arm_swi_hle_get :: "arm \<Rightarrow> int" where
  "opera_arm_swi_hle_get a = g_SWI_HLE a"

section \<open>User-mode registers\<close>

definition loadusr :: "nat \<Rightarrow> u32 \<Rightarrow> arm_core \<Rightarrow> arm_core" where
  "loadusr n val c =
     (if n = 15 then set_reg 15 val c
      else
        (let t = arm_mode_table (MODE c OR 0x10) in
         if t = ARM_MODE_USER then set_reg n val c
         else if t = ARM_MODE_FIQ then
           (if n > 7 then c\<lparr>CASH := (CASH c)(n - 8 := val)\<rparr> else set_reg n val c)
         else if t = ARM_MODE_IRQ \<or> t = ARM_MODE_ABT \<or> t = ARM_MODE_UND \<or> t = ARM_MODE_SVC then
           (if n > 12 then c\<lparr>CASH := (CASH c)(n - 8 := val)\<rparr> else set_reg n val c)
         else c))"

definition readusr :: "nat \<Rightarrow> arm_core \<Rightarrow> u32" where
  "readusr n c =
     (if n = 15 then USER c 15
      else
        (let t = arm_mode_table (MODE c) in
         if t = ARM_MODE_USER then USER c n
         else if t = ARM_MODE_FIQ then (if n > 7 then CASH c (n - 8) else USER c n)
         else if t = ARM_MODE_IRQ \<or> t = ARM_MODE_ABT \<or> t = ARM_MODE_UND \<or> t = ARM_MODE_SVC then
           (if n > 12 then CASH c (n - 8) else USER c n)
         else 0))"

section \<open>Saved state\<close>

definition cells :: "nat \<Rightarrow> regs \<Rightarrow> u32 list" where
  "cells n f = map f [0..<n]"

definition regs_of :: "u32 list \<Rightarrow> regs" where
  "regs_of xs = (\<lambda>i. if i < length xs then xs ! i else 0)"

text \<open>\<open>sizeof(CPU)\<close>: 45 words and two bytes, padded to a multiple of four.\<close>

definition opera_arm_state_size_v1 :: u32 where
  "opera_arm_state_size_v1 = opera_state_save_size 184"

definition opera_arm_state_write_payload :: "arm \<Rightarrow> state_writer \<Rightarrow> bool \<times> state_writer" where
  "opera_arm_state_write_payload a =
     (let s = CPU a in
      w_and (opera_state_write_u32_array (cells 16 (USER s)) 16)
     (w_and (opera_state_write_u32_array (cells 7 (CASH s)) 7)
     (w_and (opera_state_write_u32_array (cells 2 (SVC s)) 2)
     (w_and (opera_state_write_u32_array (cells 2 (ABT s)) 2)
     (w_and (opera_state_write_u32_array (cells 7 (FIQ s)) 7)
     (w_and (opera_state_write_u32_array (cells 2 (IRQ s)) 2)
     (w_and (opera_state_write_u32_array (cells 2 (UND s)) 2)
     (w_and (opera_state_write_u32_array (cells 6 (SPSR s)) 6)
     (w_and (opera_state_write_u32 (CPSR s))
     (w_and (opera_state_write_u8 (nFIQ s))
     (w_and (opera_state_write_u8 (MAS_Access_Exept s))
     (w_and (opera_state_write_u8 (if g_SOFT_RESET_PENDING a then 1 else 0))
            (opera_state_write_u8 (if g_ROM_OVERLAY a then 1 else 0))))))))))))))"

definition opera_arm_state_payload_size :: "arm \<Rightarrow> u32" where
  "opera_arm_state_payload_size a =
     opera_state_writer_used (snd (opera_arm_state_write_payload a (opera_state_writer_init None UINT32_MAX)))"

definition opera_arm_state_size :: "arm \<Rightarrow> u32" where
  "opera_arm_state_size a = opera_state_chunk_size (opera_arm_state_payload_size a)"

definition opera_arm_state_save :: "arm \<Rightarrow> u8 list \<Rightarrow> u32 \<times> u8 list" where
  "opera_arm_state_save a data =
     save_chunk ''ARM'' (opera_arm_state_payload_size a) (opera_arm_state_write_payload a) data"

text \<open>The overlay byte is optional: older states end before it.\<close>

definition opera_arm_state_read_payload ::
  "state_reader \<Rightarrow> (arm_core \<times> bool \<times> bool) option \<times> state_reader" where
  "opera_arm_state_read_payload =
     r_bind (opera_state_read_u32_array 16) (\<lambda>usr. r_bind (opera_state_read_u32_array 7) (\<lambda>cash.
     r_bind (opera_state_read_u32_array 2) (\<lambda>svc. r_bind (opera_state_read_u32_array 2) (\<lambda>abt.
     r_bind (opera_state_read_u32_array 7) (\<lambda>fiq. r_bind (opera_state_read_u32_array 2) (\<lambda>irq.
     r_bind (opera_state_read_u32_array 2) (\<lambda>und. r_bind (opera_state_read_u32_array 6) (\<lambda>spsr.
     r_bind opera_state_read_u32 (\<lambda>cpsr. r_bind opera_state_read_u8 (\<lambda>nf.
     r_bind opera_state_read_u8 (\<lambda>mas. r_bind opera_state_read_u8 (\<lambda>pend.
     r_bind (\<lambda>r. if opera_state_reader_remaining r \<noteq> 0 then opera_state_read_u8 r else (Some 0, r)) (\<lambda>ov.
     r_return (\<lparr>USER = regs_of usr, CASH = regs_of cash, SVC = regs_of svc, ABT = regs_of abt, FIQ = regs_of fiq,
        IRQ = regs_of irq, UND = regs_of und, SPSR = regs_of spsr, CPSR = cpsr, nFIQ = nf,
        MAS_Access_Exept = mas\<rparr>, pend \<noteq> 0, ov \<noteq> 0))))))))))))))"

definition opera_arm_state_load :: "memory \<Rightarrow> bool \<Rightarrow> u8 list \<Rightarrow> u32 \<Rightarrow> arm \<Rightarrow> u32 \<times> arm" where
  "opera_arm_state_load m validating data sz a =
     load_chunk ''ARM'' opera_arm_state_read_payload (\<lambda>_. True)
       (\<lambda>(s, pend, ov) a. set_rom_overlay m ov (a\<lparr>CPU := s, g_SOFT_RESET_PENDING := pend\<rparr>))
       validating data sz a"

text \<open>The first format is the structure's bytes; \<open>pad\<close> stands for its two padding bytes.\<close>

definition core_image :: "u8 list \<Rightarrow> arm_core \<Rightarrow> u8 list" where
  "core_image pad s =
     image32 (cells 16 (USER s) @ cells 7 (CASH s) @ cells 2 (SVC s) @ cells 2 (ABT s) @ cells 7 (FIQ s) @
       cells 2 (IRQ s) @ cells 2 (UND s) @ cells 6 (SPSR s) @ [CPSR s]) @ [nFIQ s, MAS_Access_Exept s] @ pad"

definition core_of_image :: "u8 list \<Rightarrow> arm_core" where
  "core_of_image bs =
     (let w = words32 (take 180 bs); part = (\<lambda>i n. regs_of (take n (drop i w)))
      in \<lparr>USER = part 0 16, CASH = part 16 7, SVC = part 23 2, ABT = part 25 2, FIQ = part 27 7,
          IRQ = part 34 2, UND = part 36 2, SPSR = part 38 6, CPSR = w ! 44, nFIQ = bs ! 180,
          MAS_Access_Exept = bs ! 181\<rparr>)"

definition opera_arm_state_load_v1 :: "memory \<Rightarrow> u8 list \<Rightarrow> u8 list \<Rightarrow> u32 \<Rightarrow> arm \<Rightarrow> u32 \<times> arm" where
  "opera_arm_state_load_v1 m pad data sz a =
     (let (rv, bs) = opera_state_load_sized (core_image pad (CPU a)) ''ARM'' (Some data) sz 184;
          a = a\<lparr>CPU := core_of_image bs\<rparr>
      in (rv, if rv \<noteq> 0 then set_rom_overlay m False (a\<lparr>g_SOFT_RESET_PENDING := False\<rparr>) else a))"

end
