(* ===== verification/Opera_Arm_Bank.thy ===== *)
theory Opera_Arm_Bank
  imports Opera_Arm_Core
begin

text \<open>
  The banked register file. \<open>view c t n\<close> is the architectural register \<open>n\<close> as mode \<open>t\<close> sees it,
  wherever the interpreter keeps it at the moment: in the working set \<open>USER\<close>, in a bank, or in
  the cash of the user registers. The locale \<open>banked_file\<close> is the contract of a mode switch: it
  changes the mode and no register of any mode.
\<close>

section \<open>The abstract register file\<close>

definition view_at :: "nat \<Rightarrow> arm_core \<Rightarrow> nat \<Rightarrow> nat \<Rightarrow> u32" where
  "view_at cur c t n =
     (if n < 8 \<or> 14 < n \<or> t = cur then USER c n
      else if t = ARM_MODE_FIQ then FIQ c (n - 8)
      else if n < 13 then (if cur = ARM_MODE_FIQ then CASH c (n - 8) else USER c n)
      else if t = ARM_MODE_USER then CASH c (n - 8)
      else if t = ARM_MODE_IRQ then IRQ c (n - 13)
      else if t = ARM_MODE_SVC then SVC c (n - 13)
      else if t = ARM_MODE_ABT then ABT c (n - 13)
      else UND c (n - 13))"

definition cur_mode :: "arm_core \<Rightarrow> nat" where
  "cur_mode c = arm_mode_table (MODE c)"

definition view :: "arm_core \<Rightarrow> nat \<Rightarrow> nat \<Rightarrow> u32" where
  "view c = view_at (cur_mode c) c"

lemma six: "t < 6 \<longleftrightarrow> t = 0 \<or> t = 1 \<or> t = 2 \<or> t = 3 \<or> t = 4 \<or> t = (5 :: nat)"
  by auto

lemma reg_cases:
  obtains "n < 8 \<or> 14 < n" | k where "n = 8 + k" "k < 5" | "n = 13" | "n = (14 :: nat)"
proof -
  have "n < 8 \<or> 14 < n \<or> (\<exists>k<5. n = 8 + k) \<or> n = 13 \<or> n = 14" by presburger
  then show ?thesis using that by blast
qed

lemma copy_regs_at: "copy_regs d i s j n k = (if i \<le> k \<and> k < i + n then s (j + (k - i)) else d k)"
  by (simp add: copy_regs_def)

lemmas bank_fields = save_FIQ7_def load_FIQ7_def save_CASH7_def load_CASH7_def save_CASH5_def load_CASH5_def
  save_CASH2_def load_CASH2_def save_IRQ_def load_IRQ_def save_SVC_def load_SVC_def save_ABT_def load_ABT_def
  save_UND_def load_UND_def copy_regs_at

text \<open>Each sequence of the six switches, for the mode it leaves.\<close>

lemma to_user [arm_bank]:
  assumes "t < 6" shows
    "view_at 0 (load_CASH7 (save_FIQ7 c)) t n = view_at 1 c t n"
    "view_at 0 (load_CASH2 (save_IRQ c)) t n = view_at 2 c t n"
    "view_at 0 (load_CASH2 (save_SVC c)) t n = view_at 3 c t n"
    "view_at 0 (load_CASH2 (save_ABT c)) t n = view_at 4 c t n"
    "view_at 0 (load_CASH2 (save_UND c)) t n = view_at 5 c t n"
  using assms unfolding six
  by (cases n rule: reg_cases; elim disjE; simp add: view_at_def bank_fields)+

lemma to_fiq [arm_bank]:
  assumes "t < 6" shows
    "view_at 1 (load_FIQ7 (save_CASH7 c)) t n = view_at 0 c t n"
    "view_at 1 (load_FIQ7 (save_IRQ (save_CASH5 c))) t n = view_at 2 c t n"
    "view_at 1 (load_FIQ7 (save_SVC (save_CASH5 c))) t n = view_at 3 c t n"
    "view_at 1 (load_FIQ7 (save_ABT (save_CASH5 c))) t n = view_at 4 c t n"
    "view_at 1 (load_FIQ7 (save_UND (save_CASH5 c))) t n = view_at 5 c t n"
  using assms unfolding six
  by (cases n rule: reg_cases; elim disjE; simp add: view_at_def bank_fields)+

lemma to_irq [arm_bank]:
  assumes "t < 6" shows
    "view_at 2 (load_IRQ (save_CASH2 c)) t n = view_at 0 c t n"
    "view_at 2 (load_IRQ (load_CASH5 (save_FIQ7 c))) t n = view_at 1 c t n"
    "view_at 2 (load_IRQ (save_SVC c)) t n = view_at 3 c t n"
    "view_at 2 (load_IRQ (save_ABT c)) t n = view_at 4 c t n"
    "view_at 2 (load_IRQ (save_UND c)) t n = view_at 5 c t n"
  using assms unfolding six
  by (cases n rule: reg_cases; elim disjE; simp add: view_at_def bank_fields)+

lemma to_svc [arm_bank]:
  assumes "t < 6" shows
    "view_at 3 (load_SVC (save_CASH2 c)) t n = view_at 0 c t n"
    "view_at 3 (load_SVC (load_CASH5 (save_FIQ7 c))) t n = view_at 1 c t n"
    "view_at 3 (load_SVC (save_IRQ c)) t n = view_at 2 c t n"
    "view_at 3 (load_SVC (save_ABT c)) t n = view_at 4 c t n"
    "view_at 3 (load_SVC (save_UND c)) t n = view_at 5 c t n"
  using assms unfolding six
  by (cases n rule: reg_cases; elim disjE; simp add: view_at_def bank_fields)+

lemma to_abt [arm_bank]:
  assumes "t < 6" shows
    "view_at 4 (load_ABT (save_CASH2 c)) t n = view_at 0 c t n"
    "view_at 4 (load_ABT (load_CASH5 (save_FIQ7 c))) t n = view_at 1 c t n"
    "view_at 4 (load_ABT (save_IRQ c)) t n = view_at 2 c t n"
    "view_at 4 (load_ABT (save_SVC c)) t n = view_at 3 c t n"
    "view_at 4 (load_ABT (save_UND c)) t n = view_at 5 c t n"
  using assms unfolding six
  by (cases n rule: reg_cases; elim disjE; simp add: view_at_def bank_fields)+

lemma to_und [arm_bank]:
  assumes "t < 6" shows
    "view_at 5 (load_UND (save_CASH2 c)) t n = view_at 0 c t n"
    "view_at 5 (load_UND (load_CASH5 (save_FIQ7 c))) t n = view_at 1 c t n"
    "view_at 5 (load_UND (save_IRQ c)) t n = view_at 2 c t n"
    "view_at 5 (load_UND (save_SVC c)) t n = view_at 3 c t n"
    "view_at 5 (load_UND (save_ABT c)) t n = view_at 4 c t n"
  using assms unfolding six
  by (cases n rule: reg_cases; elim disjE; simp add: view_at_def bank_fields)+

lemma rest_view:
  assumes "cur_mode c < 6" "t < 6"
  shows "view_at 0 (ARM_RestUserRONS c) t n = view c t n" "view_at 1 (ARM_RestFiqRONS c) t n = view c t n"
    "view_at 2 (ARM_RestIrqRONS c) t n = view c t n" "view_at 3 (ARM_RestSvcRONS c) t n = view c t n"
    "view_at 4 (ARM_RestAbtRONS c) t n = view c t n" "view_at 5 (ARM_RestUndRONS c) t n = view c t n"
proof -
  have "cur_mode c = 0 \<or> cur_mode c = 1 \<or> cur_mode c = 2 \<or> cur_mode c = 3 \<or> cur_mode c = 4 \<or> cur_mode c = 5"
    using assms(1) by (simp only: six)
  then show "view_at 0 (ARM_RestUserRONS c) t n = view c t n" "view_at 1 (ARM_RestFiqRONS c) t n = view c t n"
    "view_at 2 (ARM_RestIrqRONS c) t n = view c t n" "view_at 3 (ARM_RestSvcRONS c) t n = view c t n"
    "view_at 4 (ARM_RestAbtRONS c) t n = view c t n" "view_at 5 (ARM_RestUndRONS c) t n = view c t n"
    unfolding view_def ARM_RestUserRONS_def ARM_RestFiqRONS_def ARM_RestIrqRONS_def ARM_RestSvcRONS_def
      ARM_RestAbtRONS_def ARM_RestUndRONS_def Let_def cur_mode_def [symmetric]
    by (elim disjE; simp add: arm_bank [OF assms(2)] del: One_nat_def)+
qed

lemma switch_view:
  assumes "cur_mode c < 6" "arm_mode_table (a AND 0x1F) < 6" "t < 6"
  shows "view_at (arm_mode_table (a AND 0x1F)) (ARM_Change_ModeSafe a c) t n = view c t n"
proof -
  let ?t = "arm_mode_table (a AND 0x1F)"
  have "?t = 0 \<or> ?t = 1 \<or> ?t = 2 \<or> ?t = 3 \<or> ?t = 4 \<or> ?t = 5" using assms(2) by (simp only: six)
  then show ?thesis
    unfolding ARM_Change_ModeSafe_def Let_def
    by (elim disjE; simp add: rest_view [OF assms(1,3)] del: One_nat_def)
qed

section \<open>The contract of a mode switch\<close>

lemma change_fields [simp]:
  "CPSR (ARM_Change_ModeSafe a c) = CPSR c" "SPSR (ARM_Change_ModeSafe a c) = SPSR c"
  "nFIQ (ARM_Change_ModeSafe a c) = nFIQ c" "MAS_Access_Exept (ARM_Change_ModeSafe a c) = MAS_Access_Exept c"
  by (simp_all add: ARM_Change_ModeSafe_def Let_def ARM_RestUserRONS_def ARM_RestFiqRONS_def
      ARM_RestIrqRONS_def ARM_RestSvcRONS_def ARM_RestAbtRONS_def ARM_RestUndRONS_def bank_fields)

lemma view_at_cpsr [simp]: "view_at k (c\<lparr>CPSR := x\<rparr>) = view_at k c"
  by (simp add: view_at_def fun_eq_iff)

text \<open>\<open>sw\<close> switches to the mode \<open>target a\<close>.\<close>

locale banked_file =
  fixes sw :: "u32 \<Rightarrow> arm_core \<Rightarrow> arm_core" and target :: "u32 \<Rightarrow> nat"
  assumes sw_mode: "cur_mode (sw a c) = target a"
    and sw_view: "cur_mode c < 6 \<Longrightarrow> target a < 6 \<Longrightarrow> t < 6 \<Longrightarrow> view (sw a c) t n = view c t n"
begin

text \<open>After any sequence of switches between known modes every register of every mode is what it
  was, and the working set shows the registers of the mode reached.\<close>

lemma run_view:
  assumes "cur_mode c < 6" "list_all (\<lambda>a. target a < 6) as" "t < 6"
  shows "view (fold sw as c) t n = view c t n"
  using assms
proof (induction as arbitrary: c)
  case (Cons a as)
  then show ?case by (simp add: sw_mode sw_view)
qed simp

lemma run_mode: "as \<noteq> [] \<Longrightarrow> cur_mode (fold sw as c) = target (last as)"
  by (induction as arbitrary: c) (auto simp: sw_mode)

lemma run_user:
  assumes "cur_mode c < 6" "list_all (\<lambda>a. target a < 6) as" "as \<noteq> []"
  shows "USER (fold sw as c) n = view c (target (last as)) n"
proof -
  have l: "target (last as) < 6" using assms(2,3) by (simp add: list_all_iff)
  have "USER (fold sw as c) n = view (fold sw as c) (target (last as)) n"
    by (simp add: view_def view_at_def run_mode [OF assms(3)])
  then show ?thesis by (simp add: run_view [OF assms(1,2) l])
qed

end

end
