(* ===== verification/Opera_Arm_Core_Props.thy ===== *)
theory Opera_Arm_Core_Props
  imports Opera_Arm_Bank Opera_Mem_Props
begin

text \<open>
  Properties of the processor state: bank switches are invisible in the architectural register
  file, the user-register accessors of the block transfers reach that file from every mode,
  a soft reset enters supervisor mode with the interrupted state in its banked registers, and
  the saved state round-trips.
\<close>

section \<open>Mode switches\<close>

lemma and_or_field: "((x AND NOT m) OR (y AND m)) AND m = y AND m" for x y m :: u32
  by (rule bit_word_eqI) (auto simp: bit_simps)

lemma cpsr_upd: "CPSR (c\<lparr>CPSR := x\<rparr>) = x" by simp

lemma not_1F: "(0xffffffe0 :: u32) = NOT 0x1F" by simp

definition target_mode :: "u32 \<Rightarrow> nat" where
  "target_mode a = arm_mode_table ((a OR 0x10) AND 0x1F)"

interpretation setm: banked_file SETM target_mode
proof
  show m: "cur_mode (SETM a c) = target_mode a" for a c
    unfolding cur_mode_def target_mode_def SETM_def Let_def not_1F by (simp only: cpsr_upd and_or_field)
  show "view (SETM a c) t n = view c t n" if "cur_mode c < 6" "target_mode a < 6" "t < 6" for a c t n
    using switch_view [OF that(1) _ that(3), of "a OR 0x10" n] that(2) m [of a c]
    by (simp add: view_def target_mode_def) (simp add: SETM_def Let_def)
qed

interpretation cpsr_set: banked_file arm_cpsr_set target_mode
proof
  show m: "cur_mode (arm_cpsr_set a c) = target_mode a" for a c
    by (simp add: cur_mode_def target_mode_def arm_cpsr_set_def Let_def and.assoc)
  show "view (arm_cpsr_set a c) t n = view c t n" if "cur_mode c < 6" "target_mode a < 6" "t < 6" for a c t n
    using switch_view [OF that(1) _ that(3), of "a OR 0x10" n] that(2) m [of a c]
    by (simp add: view_def target_mode_def) (simp add: arm_cpsr_set_def Let_def)
qed

text \<open>C1. Mode switches lose nothing: through any sequence of switches between the six modes, by
  \<open>SETM\<close> or by a write of the status register, every register of every mode keeps its value, and
  the working registers are those of the mode reached.\<close>

theorem arm_switches_transparent:
  assumes "cur_mode c < 6" "list_all (\<lambda>a. target_mode a < 6) as" "t < 6"
  shows "view (fold SETM as c) t n = view c t n \<and> view (fold arm_cpsr_set as c) t n = view c t n \<and>
    (as \<noteq> [] \<longrightarrow> USER (fold SETM as c) n = view c (target_mode (last as)) n \<and>
       USER (fold arm_cpsr_set as c) n = view c (target_mode (last as)) n)"
  using setm.run_view [OF assms] cpsr_set.run_view [OF assms] setm.run_user [OF assms(1,2)]
    cpsr_set.run_user [OF assms(1,2)] by simp

text \<open>A core in supervisor mode with numbered registers, for the witnesses.\<close>

definition demo_core :: arm_core where
  "demo_core = \<lparr>USER = of_nat, CASH = (\<lambda>i. 100 + of_nat i), SVC = (\<lambda>i. 200 + of_nat i), ABT = (\<lambda>i. 300 + of_nat i),
     FIQ = (\<lambda>i. 400 + of_nat i), IRQ = (\<lambda>i. 500 + of_nat i), UND = (\<lambda>i. 600 + of_nat i), SPSR = (\<lambda>_. 0x10),
     CPSR = 0x13, nFIQ = 0, MAS_Access_Exept = 0\<rparr>"

theorem arm_switches_transparent_witness:
  "view (fold SETM [0x11, 0x12, 0x10] demo_core) 1 9 = 401 \<and> USER (fold SETM [0x11, 0x12, 0x10] demo_core) 14 = 106"
  using arm_switches_transparent [of demo_core "[0x11, 0x12, 0x10]" 1 9]
    arm_switches_transparent [of demo_core "[0x11, 0x12, 0x10]" 1 14]
  by (simp add: demo_core_def cur_mode_def target_mode_def arm_mode_table_def view_def view_at_def)

section \<open>User registers\<close>

lemma mode_or10: "arm_mode_table (MODE c) < 6 \<Longrightarrow> MODE c OR 0x10 = MODE c"
proof -
  have "w OR 0x10 = w" if "arm_mode_table w < 6" "unat w < 32" for w :: u32
  proof -
    have "unat w \<in> {16, 17, 18, 19, 23, 27}"
      using that by (auto simp: arm_mode_table_def less_Suc_eq numeral_eq_Suc)
    then have "w \<in> {16, 17, 18, 19, 23, 27}" by (auto simp: word_unat_eq_iff)
    then show ?thesis by auto
  qed
  moreover have "unat (MODE c) < 32"
  proof -
    have "MODE c = take_bit 5 (CPSR c)" by (simp add: take_bit_eq_mask mask_eq_exp_minus_1)
    then show ?thesis using take_bit_nat_less_exp [of 5 "unat (CPSR c)"] by (simp add: unsigned_take_bit_eq)
  qed
  ultimately show "arm_mode_table (MODE c) < 6 \<Longrightarrow> MODE c OR 0x10 = MODE c" by blast
qed

lemma readusr_view: "cur_mode c < 6 \<Longrightarrow> n < 16 \<Longrightarrow> readusr n c = view c 0 n"
  unfolding six cur_mode_def
  by (cases "n = 15"; elim disjE; auto simp: readusr_def Let_def view_def view_at_def cur_mode_def)

lemma loadusr_mode [simp]: "CPSR (loadusr n v c) = CPSR c"
  by (simp add: loadusr_def Let_def set_reg_def)

text \<open>Where \<open>loadusr\<close> writes: the cash when the mode has a register of its own, else the working set.\<close>

definition in_cash :: "nat \<Rightarrow> nat \<Rightarrow> bool" where
  "in_cash cur n \<longleftrightarrow> n < 15 \<and> (cur = 1 \<and> 7 < n \<or> cur \<noteq> 0 \<and> 12 < n)"

lemma loadusr_cases:
  assumes "cur_mode c < 6" "n < 16"
  shows "loadusr n v c = (if in_cash (cur_mode c) n then c\<lparr>CASH := (CASH c)(n - 8 := v)\<rparr> else set_reg n v c)"
proof -
  note m = mode_or10 [OF assms(1) [unfolded cur_mode_def]]
  have "cur_mode c = 0 \<or> cur_mode c = 1 \<or> cur_mode c = 2 \<or> cur_mode c = 3 \<or> cur_mode c = 4 \<or> cur_mode c = 5"
    using assms(1) by (simp only: six)
  then show ?thesis
    unfolding loadusr_def m Let_def cur_mode_def [symmetric]
    using assms(2) by (cases "n = 15"; elim disjE; simp add: in_cash_def)
qed

lemma view_set_reg:
  "view_at k (set_reg n v c) t i =
    (if i = n \<and> (n < 8 \<or> 14 < n \<or> t = k \<or> t \<noteq> 1 \<and> n < 13 \<and> k \<noteq> 1) then v else view_at k c t i)"
proof (cases "i = n")
  case True
  then show ?thesis by (cases n rule: reg_cases) (simp_all add: view_at_def set_reg_def)
qed (simp add: view_at_def set_reg_def)

lemma view_set_cash:
  assumes "8 \<le> n" "n < 15"
  shows "view_at k (c\<lparr>CASH := (CASH c)(n - 8 := v)\<rparr>) t i =
    (if i = n \<and> t \<noteq> k \<and> t \<noteq> 1 \<and> (if n < 13 then k = 1 else t = 0) then v else view_at k c t i)"
proof (cases "i = n")
  case True
  then show ?thesis using assms by (cases n rule: reg_cases) (simp_all add: view_at_def)
next
  case False
  then have "i < 8 \<or> i - 8 \<noteq> n - 8" using assms by arith
  then show ?thesis using False by (auto simp: view_at_def)
qed

lemma loadusr_views:
  assumes "cur_mode c < 6" "n < 16" "t < 6"
  shows "view (loadusr n v c) t i =
    (if i = n \<and> (t = 0 \<or> n < 8 \<or> n = 15 \<or> t \<noteq> 1 \<and> n < 13) then v else view c t i)"
proof -
  let ?k = "cur_mode c"
  have cm: "cur_mode (c\<lparr>CASH := x\<rparr>) = ?k" "cur_mode (set_reg n v c) = ?k" for x
    by (simp_all add: cur_mode_def set_reg_def)
  show ?thesis
  proof (cases "in_cash ?k n")
    case True
    then have b: "8 \<le> n" "n < 15" unfolding in_cash_def by arith+
    have "(t \<noteq> ?k \<and> t \<noteq> 1 \<and> (if n < 13 then ?k = 1 else t = 0)) =
        (t = 0 \<or> n < 8 \<or> n = 15 \<or> t \<noteq> 1 \<and> n < 13)"
      using True b unfolding in_cash_def by auto
    then show ?thesis
      unfolding view_def loadusr_cases [OF assms(1,2)] using True by (simp only: if_True cm view_set_cash [OF b])
  next
    case False
    have "(n < 8 \<or> 14 < n \<or> t = ?k \<or> t \<noteq> 1 \<and> n < 13 \<and> ?k \<noteq> 1) =
        (t = 0 \<or> n < 8 \<or> n = 15 \<or> t \<noteq> 1 \<and> n < 13)"
      using False assms(2) unfolding in_cash_def by arith
    then show ?thesis
      unfolding view_def loadusr_cases [OF assms(1,2)] using False by (simp only: if_False cm view_set_reg)
  qed
qed

text \<open>The user-register accessors of the block transfers and translated transfers reach the user
  mode's registers from every mode: a read returns the user mode's register, a load changes
  exactly that register, and the other modes see the change only where they share it.\<close>

theorem arm_user_registers:
  assumes "cur_mode c < 6" "n < 16" "i < 16" "t < 6"
  shows "readusr i c = view c 0 i \<and>
    readusr i (loadusr n v c) = (if i = n then v else readusr i c) \<and>
    view (loadusr n v c) t i =
      (if i = n \<and> (t = 0 \<or> n < 8 \<or> n = 15 \<or> t \<noteq> 1 \<and> n < 13) then v else view c t i)"
proof -
  have "cur_mode (loadusr n v c) < 6" using assms(1) by (simp add: cur_mode_def)
  from readusr_view [OF this assms(3)] show ?thesis
    using loadusr_views [OF assms(1,2,4)] loadusr_views [OF assms(1,2), of 0] readusr_view [OF assms(1,3)] by simp
qed

theorem arm_user_registers_witness:
  "readusr 14 (loadusr 14 7 demo_core) = 7 \<and> view (loadusr 14 7 demo_core) 3 14 = 14"
  using arm_user_registers [of demo_core 14 14 3 7]
  by (simp add: demo_core_def cur_mode_def arm_mode_table_def view_def view_at_def)

section \<open>Soft reset\<close>

lemma bit5_mode: "(((((x AND NOT 0x1F) OR 0x13) OR 0x80) OR 0x40) OR 0x10) AND 0x1F = (0x13 :: u32)"
  by (simp add: bit.conj_disj_distrib2 and.assoc)

lemma view_spsr [simp]: "view (set_spsr k v c) = view c" "cur_mode (set_spsr k v c) = cur_mode c"
  by (simp_all add: view_def view_at_def cur_mode_def set_spsr_def fun_eq_iff)

lemma view_core_flags [simp]:
  "view (c\<lparr>MAS_Access_Exept := x, nFIQ := y\<rparr>) = view c" "view (c\<lparr>MAS_Access_Exept := x\<rparr>) = view c"
  by (simp_all add: view_def view_at_def cur_mode_def fun_eq_iff)

lemma view_reg_cur:
  assumes "cur_mode c = k"
  shows "view (set_reg n v c) t i =
    (if i = n \<and> (n < 8 \<or> 14 < n \<or> t = k \<or> t \<noteq> 1 \<and> n < 13 \<and> k \<noteq> 1) then v else view c t i)"
proof -
  have "cur_mode (set_reg n v c) = k" using assms by (simp add: cur_mode_def set_reg_def)
  then show ?thesis unfolding view_def using assms by (simp only: view_set_reg)
qed

text \<open>A soft reset keeps the interrupted state where the boot code looks for it: the processor is in
  supervisor mode at address 0 with interrupts disabled and the overlay mapped, the interrupted
  status is in the supervisor's saved status, the interrupted program counter in its register
  14, and every other register of every mode is untouched.\<close>

theorem arm_soft_reset_state:
  assumes "cur_mode (CPU a) < 6"
  shows "let c = CPU a; r = opera_arm_soft_reset m a; c' = CPU r
    in cur_mode c' = 3 \<and> SPSR c' 3 = CPSR c \<and> USER c' 14 = USER c 15 \<and> USER c' 15 = 0 \<and>
       bit (CPSR c') 7 \<and> bit (CPSR c') 6 \<and> g_ROM_OVERLAY r \<and> \<not> g_SOFT_RESET_PENDING r \<and>
       (\<forall>t<6. \<forall>n<15. \<not> (t = 3 \<and> n = 14) \<longrightarrow> view c' t n = view c t n)"
proof -
  define v where "v = (((CPSR (CPU a) AND NOT 0x1F) OR 0x13) OR 0x80) OR 0x40"
  define c where "c = set_spsr 3 (CPSR (CPU a)) (CPU a)"
  define d where "d = arm_cpsr_set v c"
  define e where "e = set_reg 15 0 (set_reg 14 (USER (CPU a) 15) d)"
  have t: "target_mode v = 3"
    unfolding target_mode_def v_def bit5_mode by (simp add: arm_mode_table_def)
  have d: "cur_mode d = 3" "\<And>t n. t < 6 \<Longrightarrow> view d t n = view (CPU a) t n"
    using cpsr_set.sw_mode [of v c] cpsr_set.sw_view [of c v] assms t by (simp_all add: d_def c_def)
  have e: "cur_mode e = 3" "cur_mode (set_reg 14 (USER (CPU a) 15) d) = 3"
    using d(1) by (simp_all add: e_def cur_mode_def set_reg_def)
  have c: "CPU (opera_arm_soft_reset m a) = e\<lparr>MAS_Access_Exept := 0, nFIQ := 0\<rparr>"
    unfolding e_def d_def c_def v_def by (simp add: opera_arm_soft_reset_def Let_def set_rom_overlay_def)
  have f: "bit (CPSR e) 7" "bit (CPSR e) 6" "SPSR e 3 = CPSR (CPU a)"
    by (simp_all add: e_def d_def c_def v_def set_reg_def arm_cpsr_set_def Let_def bit_simps set_spsr_def)
  have "view e t n = view (CPU a) t n" if "t < 6" "n < 15" "\<not> (t = 3 \<and> n = 14)" for t n
    unfolding e_def using that by (auto simp: view_reg_cur [OF e(2)] view_reg_cur [OF d(1)] d(2))
  moreover have "cur_mode (e\<lparr>MAS_Access_Exept := 0, nFIQ := 0\<rparr>) = cur_mode e" by (simp add: cur_mode_def)
  moreover have "USER e 14 = USER (CPU a) 15" "USER e 15 = 0" by (simp_all add: e_def set_reg_def)
  ultimately show ?thesis
    unfolding Let_def c using e f
    by (simp add: opera_arm_soft_reset_def Let_def set_rom_overlay_def)
qed

definition demo_arm :: arm where
  "demo_arm = \<lparr>CPU = demo_core\<lparr>CPSR := 0x20000011\<rparr>, g_SWI_HLE = 0, CYCLES = 0, g_SOFT_RESET_PENDING = False,
     g_ROM_OVERLAY = False, g_CPU_DIRECT_RAM_LIMIT = 0x300000, g_ROM_OVERLAY_READ_LIMIT = 0,
     g_ROM_OVERLAY_CLEAR_LIMIT = 0, carry_out = 0\<rparr>"

theorem arm_soft_reset_state_witness:
  "SPSR (CPU (opera_arm_soft_reset stock_mem demo_arm)) 3 = 0x20000011 \<and>
   view (CPU (opera_arm_soft_reset stock_mem demo_arm)) 1 9 = 9"
proof -
  have "cur_mode (CPU demo_arm) < 6" "CPSR (CPU demo_arm) = 0x20000011" "view (CPU demo_arm) 1 9 = 9"
    by (simp_all add: demo_arm_def demo_core_def cur_mode_def arm_mode_table_def view_def view_at_def)
  then show ?thesis using arm_soft_reset_state [of demo_arm stock_mem] by (simp add: Let_def)
qed

section \<open>Saved state\<close>

text \<open>No cell outside the arrays is used, and the cached limits belong to the memory's sizes.\<close>

definition core_clean :: "arm_core \<Rightarrow> bool" where
  "core_clean c \<longleftrightarrow> (\<forall>i\<ge>16. USER c i = 0) \<and> (\<forall>i\<ge>7. CASH c i = 0 \<and> FIQ c i = 0) \<and>
     (\<forall>i\<ge>2. SVC c i = 0 \<and> ABT c i = 0 \<and> IRQ c i = 0 \<and> UND c i = 0) \<and> (\<forall>i\<ge>6. SPSR c i = 0)"

definition overlay_ok :: "memory \<Rightarrow> arm \<Rightarrow> bool" where
  "overlay_ok m a \<longleftrightarrow> g_CPU_DIRECT_RAM_LIMIT a = (if g_ROM_OVERLAY a then 0 else RAM_SIZE m) \<and>
     g_ROM_OVERLAY_READ_LIMIT a = (if g_ROM_OVERLAY a then 0x03000000 else 0) \<and>
     g_ROM_OVERLAY_CLEAR_LIMIT a = (if g_ROM_OVERLAY a then DRAM_SIZE m else 0)"

lemma regs_of_cells: "\<forall>i\<ge>n. f i = 0 \<Longrightarrow> regs_of (cells n f) = f"
  by (auto simp: regs_of_def cells_def fun_eq_iff not_less)

lemma length_cells [simp]: "length (cells n f) = n"
  by (simp add: cells_def)

definition arm_enc :: "arm \<Rightarrow> u8 list" where
  "arm_enc a = (let s = CPU a in
     image32 (cells 16 (USER s)) @ image32 (cells 7 (CASH s)) @ image32 (cells 2 (SVC s)) @
     image32 (cells 2 (ABT s)) @ image32 (cells 7 (FIQ s)) @ image32 (cells 2 (IRQ s)) @
     image32 (cells 2 (UND s)) @ image32 (cells 6 (SPSR s)) @ enc32 (CPSR s) @ [nFIQ s] @ [MAS_Access_Exept s] @
     [if g_SOFT_RESET_PENDING a then 1 else 0] @ [if g_ROM_OVERLAY a then 1 else 0])"

definition arm_snap :: "arm \<Rightarrow> arm_core \<times> bool \<times> bool" where
  "arm_snap a = (CPU a, g_SOFT_RESET_PENDING a, g_ROM_OVERLAY a)"

lemma consumes_opt: "consumes (\<lambda>r. if opera_state_reader_remaining r \<noteq> 0 then opera_state_read_u8 r else (Some 0, r)) v [v]"
proof (rule consumesI)
  fix r ts assume r: "rok r" "rest r = [v] @ ts"
  then have "opera_state_reader_remaining r \<noteq> 0" using remaining_rest [OF r(1)] by auto
  then show "(if opera_state_reader_remaining r \<noteq> 0 then opera_state_read_u8 r else (Some 0, r)) =
      (Some v, radv r (length [v]))"
    using consumesD [OF consumes_u8 r] by simp
qed

lemma arm_read_consumes:
  assumes "core_clean (CPU a)" shows "consumes opera_arm_state_read_payload (arm_snap a) (arm_enc a)"
proof -
  let ?s = "CPU a"
  let ?p = "if g_SOFT_RESET_PENDING a then 1 else (0 :: u8)"
  let ?o = "if g_ROM_OVERLAY a then 1 else (0 :: u8)"
  have "consumes opera_arm_state_read_payload
     (\<lparr>USER = regs_of (cells 16 (USER ?s)), CASH = regs_of (cells 7 (CASH ?s)), SVC = regs_of (cells 2 (SVC ?s)),
       ABT = regs_of (cells 2 (ABT ?s)), FIQ = regs_of (cells 7 (FIQ ?s)), IRQ = regs_of (cells 2 (IRQ ?s)),
       UND = regs_of (cells 2 (UND ?s)), SPSR = regs_of (cells 6 (SPSR ?s)), CPSR = CPSR ?s, nFIQ = nFIQ ?s,
       MAS_Access_Exept = MAS_Access_Exept ?s\<rparr>, ?p \<noteq> 0, ?o \<noteq> 0)
     (image32 (cells 16 (USER ?s)) @ image32 (cells 7 (CASH ?s)) @ image32 (cells 2 (SVC ?s)) @
      image32 (cells 2 (ABT ?s)) @ image32 (cells 7 (FIQ ?s)) @ image32 (cells 2 (IRQ ?s)) @
      image32 (cells 2 (UND ?s)) @ image32 (cells 6 (SPSR ?s)) @ enc32 (CPSR ?s) @ [nFIQ ?s] @ [MAS_Access_Exept ?s] @
      [?p] @ [?o] @ [])"
    unfolding opera_arm_state_read_payload_def
    by (rule consumes_bind consumes_return consumes_u32 consumes_u8 consumes_opt consumes_u32_array | simp)+
  moreover have "regs_of (cells 16 (USER ?s)) = USER ?s" "regs_of (cells 7 (CASH ?s)) = CASH ?s"
    "regs_of (cells 2 (SVC ?s)) = SVC ?s" "regs_of (cells 2 (ABT ?s)) = ABT ?s" "regs_of (cells 7 (FIQ ?s)) = FIQ ?s"
    "regs_of (cells 2 (IRQ ?s)) = IRQ ?s" "regs_of (cells 2 (UND ?s)) = UND ?s" "regs_of (cells 6 (SPSR ?s)) = SPSR ?s"
    using assms by (simp_all add: core_clean_def regs_of_cells)
  moreover have "(?p \<noteq> 0) = g_SOFT_RESET_PENDING a" "(?o \<noteq> 0) = g_ROM_OVERLAY a" by simp_all
  moreover have "\<lparr>USER = USER ?s, CASH = CASH ?s, SVC = SVC ?s, ABT = ABT ?s, FIQ = FIQ ?s, IRQ = IRQ ?s,
      UND = UND ?s, SPSR = SPSR ?s, CPSR = CPSR ?s, nFIQ = nFIQ ?s, MAS_Access_Exept = MAS_Access_Exept ?s\<rparr> = ?s"
    by simp
  ultimately show ?thesis
    by (simp only: arm_snap_def arm_enc_def Let_def append_Nil2)
qed

interpretation arm_chunk: state_chunk "''ARM''" "\<lambda>a. core_clean (CPU a) \<and> overlay_ok m a" arm_enc
  opera_arm_state_write_payload opera_arm_state_read_payload arm_snap "\<lambda>_. True"
  "\<lambda>(s, pend, ov) a. set_rom_overlay m ov (a\<lparr>CPU := s, g_SOFT_RESET_PENDING := pend\<rparr>)"
  "\<lambda>g cur. g_SWI_HLE g = g_SWI_HLE cur \<and> CYCLES g = CYCLES cur \<and> carry_out g = carry_out cur" for m
proof
  show "emits (opera_arm_state_write_payload a) (arm_enc a)" for a
    unfolding opera_arm_state_write_payload_def arm_enc_def Let_def
    by (intro emits_and emits_u32_array emits_u32 emits_u8) simp_all
  show "consumes opera_arm_state_read_payload (arm_snap a) (arm_enc a)" if "core_clean (CPU a) \<and> overlay_ok m a" for a
    using arm_read_consumes that by blast
  show "(case arm_snap g of (s, pend, ov) \<Rightarrow> \<lambda>a. set_rom_overlay m ov (a\<lparr>CPU := s, g_SOFT_RESET_PENDING := pend\<rparr>)) cur = g"
    if "core_clean (CPU g) \<and> overlay_ok m g"
      "g_SWI_HLE g = g_SWI_HLE cur \<and> CYCLES g = CYCLES cur \<and> carry_out g = carry_out cur" for g cur
    using that by (cases g; cases cur) (simp add: arm_snap_def overlay_ok_def set_rom_overlay_def)
qed (simp_all add: arm_enc_def Let_def)

lemma arm_payload: "core_clean (CPU a) \<Longrightarrow> opera_arm_state_payload_size a = 184"
proof -
  assume "core_clean (CPU a)"
  let ?w = "opera_state_writer_init None UINT32_MAX"
  have "emits (opera_arm_state_write_payload a) (arm_enc a)"
    unfolding opera_arm_state_write_payload_def arm_enc_def Let_def
    by (intro emits_and emits_u32_array emits_u32 emits_u8) simp_all
  moreover have "wok ?w" "wspace ?w (length (arm_enc a))"
    by (simp_all add: wok_def wspace_def opera_state_writer_init_def arm_enc_def Let_def)
  ultimately have "opera_arm_state_write_payload a ?w = (True, wput ?w (arm_enc a))" by (rule emitsD)
  then show ?thesis
    by (simp add: opera_arm_state_payload_size_def opera_state_writer_used_def wput_def opera_state_writer_init_def
        arm_enc_def Let_def)
qed

text \<open>The processor's saved state round-trips: saved into any large enough buffer and loaded over any
  interpreter state with the same cycle counter, carry and software-interrupt setting, it
  restores registers, banks, status registers, the pending reset and the overlay with its limits,
  and saver, loader and size function agree on the 192 bytes.\<close>

theorem arm_state_roundtrip:
  assumes "core_clean (CPU a)" "overlay_ok m a" "192 \<le> length buf"
    and "g_SWI_HLE a = g_SWI_HLE cur \<and> CYCLES a = CYCLES cur \<and> carry_out a = carry_out cur"
  shows "opera_arm_state_size a = 192 \<and> fst (opera_arm_state_save a buf) = 192 \<and>
    opera_arm_state_load m False (snd (opera_arm_state_save a buf)) 192 cur = (192, a)"
proof -
  have ok: "core_clean (CPU a) \<and> overlay_ok m a" using assms by simp
  have l: "length (arm_enc a) = 184" by (simp add: arm_enc_def Let_def)
  have n: "payload_sizing (opera_arm_state_write_payload a) = 184"
    using arm_chunk.sizing [OF ok] by (simp add: l)
  show ?thesis
    using arm_chunk.roundtrip [OF ok _ assms(4), of buf] arm_chunk.saved_size [OF ok, of buf] assms(3) arm_payload [OF assms(1)]
    by (simp add: opera_arm_state_size_def opera_arm_state_save_def opera_arm_state_load_def l n
        opera_state_chunk_size_def opera_state_save_size_def opera_state_chunk_header_size_def)
qed

definition idle_arm :: arm where
  "idle_arm = set_rom_overlay stock_mem True
     \<lparr>CPU = \<lparr>USER = (\<lambda>i. if i < 16 then of_nat i else 0), CASH = (\<lambda>_. 0), SVC = (\<lambda>_. 0), ABT = (\<lambda>_. 0), FIQ = (\<lambda>_. 0),
        IRQ = (\<lambda>_. 0), UND = (\<lambda>_. 0), SPSR = (\<lambda>_. 0), CPSR = 0x13, nFIQ = 0, MAS_Access_Exept = 0\<rparr>,
      g_SWI_HLE = 0, CYCLES = 0, g_SOFT_RESET_PENDING = True, g_ROM_OVERLAY = False, g_CPU_DIRECT_RAM_LIMIT = 0,
      g_ROM_OVERLAY_READ_LIMIT = 0, g_ROM_OVERLAY_CLEAR_LIMIT = 0, carry_out = 0\<rparr>"

theorem arm_state_roundtrip_witness:
  "opera_arm_state_load stock_mem False (snd (opera_arm_state_save idle_arm (replicate 200 0))) 192 demo_arm =
     (192, idle_arm)"
proof -
  have "core_clean (CPU idle_arm)" "overlay_ok stock_mem idle_arm"
    "g_SWI_HLE idle_arm = g_SWI_HLE demo_arm \<and> CYCLES idle_arm = CYCLES demo_arm \<and> carry_out idle_arm = carry_out demo_arm"
    by (simp_all add: core_clean_def idle_arm_def overlay_ok_def set_rom_overlay_def demo_arm_def)
  from arm_state_roundtrip [OF this(1,2) _ this(3), of "replicate 200 0"] show ?thesis by simp
qed

text \<open>A write of the status register can leave the processor in none of its six modes: writing mode
  \<open>0x14\<close> is accepted, the mode table then yields 255, and the next access to the saved status
  register of the mode is made at index 255 of an array of six.\<close>

theorem arm_unknown_mode_reachable:
  "cur_mode (arm_cpsr_set 0x14 c) = 255 \<and> \<not> cur_mode (arm_cpsr_set 0x14 c) < 6 \<and>
   CPSR (arm_cpsr_set 0x14 c) = 0x14"
proof -
  have "target_mode 0x14 = 255" by (simp add: target_mode_def arm_mode_table_def)
  then show ?thesis by (simp add: cpsr_set.sw_mode) (simp add: arm_cpsr_set_def Let_def)
qed

end
