(* ===== verification/Opera_Arm_Alu.thy ===== *)
theory Opera_Arm_Alu
  imports Opera_Arm_Core
begin

text \<open>
  Conditions, flags, the arithmetic-logic unit, the barrel shifter and the multiplier's early-out
  count of \<open>src/libopera/opera_arm.c\<close>. A shift count that reaches the width of the value (only
  \<open>ARM_SHIFT_NSC\<close> has one, for rotations by a register of 33 and more) takes the count modulo 32,
  as the shift instructions of the 64-bit hosts do.
\<close>

section \<open>Conditions\<close>

definition cond_flags_cross :: "nat \<Rightarrow> u16" where
  "cond_flags_cross i =
     [0xf0f0, 0x0f0f, 0xcccc, 0x3333, 0xff00, 0x00ff, 0xaaaa, 0x5555,
      0x0c0c, 0xf3f3, 0xaa55, 0x55aa, 0x0a05, 0xf5fa, 0xffff, 0x0000] ! i"

text \<open>The test in \<open>opera_arm_execute\<close>.\<close>

definition cond_passes :: "u32 \<Rightarrow> u32 \<Rightarrow> bool" where
  "cond_passes cmd cpsr \<longleftrightarrow>
     drop_bit (unat (drop_bit 28 cpsr)) (cond_flags_cross (unat (drop_bit 28 cmd))) AND 1 \<noteq> 0"

section \<open>Flags\<close>

definition ARM_SET_C :: "u32 \<Rightarrow> arm_core \<Rightarrow> arm_core" where
  "ARM_SET_C x c = c\<lparr>CPSR := (CPSR c AND 0xdfffffff) OR push_bit 29 (x AND 1)\<rparr>"

definition ARM_SET_Z :: "u32 \<Rightarrow> arm_core \<Rightarrow> arm_core" where
  "ARM_SET_Z x c = c\<lparr>CPSR := (CPSR c AND 0xbfffffff) OR (if x = 0 then 0x40000000 else 0)\<rparr>"

definition ARM_SET_N :: "u32 \<Rightarrow> arm_core \<Rightarrow> arm_core" where
  "ARM_SET_N x c = c\<lparr>CPSR := (CPSR c AND 0x7fffffff) OR (x AND 0x80000000)\<rparr>"

definition ARM_GET_C :: "arm_core \<Rightarrow> u32" where
  "ARM_GET_C c = drop_bit 29 (CPSR c) AND 1"

definition ARM_SET_ZN :: "u32 \<Rightarrow> arm_core \<Rightarrow> arm_core" where
  "ARM_SET_ZN val c =
     (if val \<noteq> 0 then c\<lparr>CPSR := (CPSR c AND 0x3fffffff) OR (val AND 0x80000000)\<rparr>
      else c\<lparr>CPSR := (CPSR c AND 0x3fffffff) OR 0x40000000\<rparr>)"

definition ARM_SET_CV :: "u32 \<Rightarrow> u32 \<Rightarrow> u32 \<Rightarrow> arm_core \<Rightarrow> arm_core" where
  "ARM_SET_CV rd op1 op2 c =
     c\<lparr>CPSR := ((CPSR c AND 0xcfffffff) OR
        drop_bit 2 (((op1 AND op2) OR (NOT rd AND (op1 OR op2))) AND 0x80000000)) OR
        drop_bit 3 (((op1 AND (op2 AND NOT rd)) OR ((NOT op1 AND NOT op2) AND rd)) AND 0x80000000)\<rparr>"

definition ARM_SET_CV_sub :: "u32 \<Rightarrow> u32 \<Rightarrow> u32 \<Rightarrow> arm_core \<Rightarrow> arm_core" where
  "ARM_SET_CV_sub rd op1 op2 c =
     c\<lparr>CPSR := ((CPSR c AND 0xcfffffff) OR
        drop_bit 2 (((op1 AND NOT op2) OR (NOT rd AND (op1 OR NOT op2))) AND 0x80000000)) OR
        drop_bit 3 (((op1 AND (NOT op2 AND NOT rd)) OR ((NOT op1 AND op2) AND rd)) AND 0x80000000)\<rparr>"

section \<open>Arithmetic-logic unit\<close>

text \<open>\<open>rd\<close> is the index of the register \<open>rd_\<close> points to; the result says whether the instruction
  left it alone.\<close>

definition reg_field :: "nat \<Rightarrow> u32 \<Rightarrow> nat" where
  "reg_field n inst = unat (drop_bit n inst AND 0xF)"

definition ARM_ALU_Exec :: "u32 \<Rightarrow> nat \<Rightarrow> u32 \<Rightarrow> u32 \<Rightarrow> nat \<Rightarrow> arm_core \<Rightarrow> bool \<times> arm_core" where
  "ARM_ALU_Exec inst opc op1 op2 rd c =
     (let put = (\<lambda>v. (False, set_reg rd v c));
          put_zn = (\<lambda>v. (False, ARM_SET_ZN v (set_reg rd v c)));
          put_add = (\<lambda>v. (False, ARM_SET_CV v op1 op2 (ARM_SET_ZN v (set_reg rd v c))));
          put_sub = (\<lambda>v a b. (False, ARM_SET_CV_sub v a b (ARM_SET_ZN v (set_reg rd v c))));
          C = ARM_GET_C c; B = C XOR 1;
          k = arm_mode_table (MODE c)
      in
      if opc = 0 then put (op1 AND op2)
      else if opc = 2 then put (op1 XOR op2)
      else if opc = 4 then put (op1 - op2)
      else if opc = 6 then put (op2 - op1)
      else if opc = 8 then put (op1 + op2)
      else if opc = 10 then put (op1 + op2 + C)
      else if opc = 12 then put (op1 - op2 - B)
      else if opc = 14 then put (op2 - op1 - B)
      else if opc = 16 \<or> opc = 20 then
        (if drop_bit 22 inst AND 1 \<noteq> 0 then (True, set_reg (reg_field 12 inst) (SPSR c k) c)
         else (True, set_reg (reg_field 12 inst) (CPSR c) c))
      else if opc = 18 \<or> opc = 22 then
        (if \<not> (drop_bit 16 inst AND 1 \<noteq> 0) \<or> k = 0 then
           (if drop_bit 22 inst AND 1 \<noteq> 0
            then (True, set_spsr k ((SPSR c k AND 0x0fffffff) OR (op2 AND 0xf0000000)) c)
            else (True, c\<lparr>CPSR := (CPSR c AND 0x0fffffff) OR (op2 AND 0xf0000000)\<rparr>))
         else
           (if drop_bit 22 inst AND 1 \<noteq> 0 then (True, set_spsr k (op2 AND 0xf00000df) c)
            else (True, arm_cpsr_set op2 c)))
      else if opc = 24 then put (op1 OR op2)
      else if opc = 26 then put op2
      else if opc = 28 then put (op1 AND NOT op2)
      else if opc = 30 then put (NOT op2)
      else if opc = 1 then put_zn (op1 AND op2)
      else if opc = 3 then put_zn (op1 XOR op2)
      else if opc = 5 then put_sub (op1 - op2) op1 op2
      else if opc = 7 then put_sub (op2 - op1) op2 op1
      else if opc = 9 then put_add (op1 + op2)
      else if opc = 11 then put_add (op1 + op2 + C)
      else if opc = 13 then put_sub (op1 - op2 - B) op1 op2
      else if opc = 15 then put_sub (op2 - op1 - B) op2 op1
      else if opc = 17 then (True, ARM_SET_ZN (op1 AND op2) c)
      else if opc = 19 then (True, ARM_SET_ZN (op1 XOR op2) c)
      else if opc = 21 then (True, ARM_SET_ZN (op1 - op2) (ARM_SET_CV_sub (op1 - op2) op1 op2 c))
      else if opc = 23 then (True, ARM_SET_ZN (op1 + op2) (ARM_SET_CV (op1 + op2) op1 op2 c))
      else if opc = 25 then put_zn (op1 OR op2)
      else if opc = 27 then put_zn op2
      else if opc = 29 then put_zn (op1 AND NOT op2)
      else if opc = 31 then put_zn (NOT op2)
      else (False, c))"

section \<open>Shifter\<close>

text \<open>The host's right shift of an unsigned value.\<close>

definition shr32 :: "u32 \<Rightarrow> nat \<Rightarrow> u32" where
  "shr32 v n = drop_bit (n mod 32) v"

definition ARM_SHIFT_NSC :: "u32 \<Rightarrow> nat \<Rightarrow> nat \<Rightarrow> arm \<Rightarrow> u32 \<times> arm" where
  "ARM_SHIFT_NSC value shift type a =
     (let C = ARM_GET_C (CPU a) in
      if type = 0 then
        (let a = a\<lparr>carry_out :=
               (if shift \<noteq> 0 then
                  (if shift > 32 then 0 else drop_bit 31 (push_bit (shift - 1) value AND 0x80000000))
                else C)\<rparr>
         in (if shift = 0 then value else if shift > 31 then 0 else push_bit shift value, a))
      else if type = 1 then
        (let a = a\<lparr>carry_out :=
               (if shift \<noteq> 0 then (if shift > 32 then 0 else shr32 value (shift - 1) AND 1) else C)\<rparr>
         in (if shift = 0 then value else if shift > 31 then 0 else drop_bit shift value, a))
      else if type = 2 then
        (let a = a\<lparr>carry_out :=
               (if shift \<noteq> 0 then
                  (if shift > 32 then signed_drop_bit 31 value AND 1
                   else signed_drop_bit (shift - 1) value AND 1)
                else C)\<rparr>
         in (if shift = 0 then value else if shift > 31 then signed_drop_bit 31 value
             else signed_drop_bit shift value, a))
      else if type = 3 then
        (let a = a\<lparr>carry_out :=
               (if shift \<noteq> 0 then
                  (if shift mod 32 \<noteq> 0 then shr32 value (shift - 1) AND 1 else drop_bit 31 value AND 1)
                else C)\<rparr>;
             shift = shift mod 32
         in (if shift = 0 then value else ROTR value shift, a))
      else if type = 4 then
        (drop_bit 1 value OR push_bit 31 C, a\<lparr>carry_out := value AND 1\<rparr>)
      else (0, a))"

definition ARM_SHIFT_SC :: "u32 \<Rightarrow> nat \<Rightarrow> nat \<Rightarrow> arm_core \<Rightarrow> u32 \<times> arm_core" where
  "ARM_SHIFT_SC value shift type c =
     (if type = 0 then
        (if shift = 0 then (value, c)
         else
           (let c = (if shift > 32 then ARM_SET_C 0 c
                     else ARM_SET_C (drop_bit 31 (push_bit (shift - 1) value AND 0x80000000)) c)
            in (if shift > 31 then 0 else push_bit shift value, c)))
      else if type = 1 then
        (if shift = 0 then (value, c)
         else
           (let c = (if shift > 32 then ARM_SET_C 0 c else ARM_SET_C (shr32 value (shift - 1) AND 1) c)
            in (if shift > 31 then 0 else drop_bit shift value, c)))
      else if type = 2 then
        (if shift = 0 then (value, c)
         else
           (let c = (if shift > 32 then ARM_SET_C (signed_drop_bit 31 value AND 1) c
                     else ARM_SET_C (signed_drop_bit (shift - 1) value AND 1) c)
            in (if shift > 31 then signed_drop_bit 31 value else signed_drop_bit shift value, c)))
      else if type = 3 then
        (if shift = 0 then (value, c)
         else
           (let shift = shift mod 32;
                c = (if shift \<noteq> 0 then ARM_SET_C (shr32 value (shift - 1) AND 1) c
                     else ARM_SET_C (drop_bit 31 value AND 1) c)
            in (ROTR value shift, c)))
      else if type = 4 then
        (let tmp = push_bit 31 (ARM_GET_C c)
         in (drop_bit 1 value OR tmp, ARM_SET_C (value AND 1) c))
      else (0, c))"

section \<open>Multiplier\<close>

definition calcbits :: "u32 \<Rightarrow> u32" where
  "calcbits num =
     (if num = 0 then 1
      else
        (let (num, rv) = (if drop_bit 16 num \<noteq> 0 then (drop_bit 16 num, 16) else (num, 0));
             (num, rv) = (if drop_bit 8 num \<noteq> 0 then (drop_bit 8 num, rv + 8) else (num, rv));
             (num, rv) = (if drop_bit 4 num \<noteq> 0 then (drop_bit 4 num, rv + 4) else (num, rv));
             (num, rv) = (if drop_bit 2 num \<noteq> 0 then (drop_bit 2 num, rv + 2) else (num, rv))
         in if drop_bit 1 num \<noteq> 0 then rv + 2 else if num \<noteq> 0 then rv + 1 else rv))"

definition is_logic :: "nat \<Rightarrow> bool" where
  "is_logic i =
     [True, True, False, False, False, False, False, False,
      True, True, False, False, True, True, True, True] ! i"

end
