(* ===== verification/Opera_Arm_Alu_Props.thy ===== *)
theory Opera_Arm_Alu_Props
  imports Opera_Arm_Alu Opera_Arm_Core_Props
begin

text \<open>
  The arithmetic-logic unit against the architecture: the condition table is the sixteen
  conditions over the four flags, every flag-setting addition, subtraction and comparison is one
  \<open>AddWithCarry\<close>.
\<close>

section \<open>Flags\<close>

definition flagN :: "arm_core \<Rightarrow> bool" where "flagN c = bit (CPSR c) 31"
definition flagZ :: "arm_core \<Rightarrow> bool" where "flagZ c = bit (CPSR c) 30"
definition flagC :: "arm_core \<Rightarrow> bool" where "flagC c = bit (CPSR c) 29"
definition flagV :: "arm_core \<Rightarrow> bool" where "flagV c = bit (CPSR c) 28"

lemmas flag_defs = flagN_def flagZ_def flagC_def flagV_def

text \<open>The conditions of the architecture manual.\<close>

definition condition :: "nat \<Rightarrow> bool \<Rightarrow> bool \<Rightarrow> bool \<Rightarrow> bool \<Rightarrow> bool" where
  "condition k N Z C V =
     [Z, \<not> Z, C, \<not> C, N, \<not> N, V, \<not> V, C \<and> \<not> Z, \<not> C \<or> Z, N = V, N \<noteq> V, \<not> Z \<and> N = V, Z \<or> N \<noteq> V,
      True, False] ! k"

lemma nibble_flags:
  fixes x :: u32
  shows "unat (drop_bit 28 x) = (if bit x 31 then 8 else 0) + (if bit x 30 then 4 else 0) +
    (if bit x 29 then 2 else 0) + (if bit x 28 then 1 else 0)"
proof -
  have "drop_bit 28 x = (if bit x 31 then 8 else 0) OR (if bit x 30 then 4 else 0) OR
      (if bit x 29 then 2 else 0) OR (if bit x 28 then 1 else 0)"
  proof (rule bit_word_eqI)
    fix n assume "n < LENGTH(32)"
    then consider "n = 0" | "n = 1" | "n = 2" | "n = 3" | "4 \<le> n" by linarith
    then show "bit (drop_bit 28 x) n = bit ((if bit x 31 then (8 :: u32) else 0) OR (if bit x 30 then 4 else 0) OR
      (if bit x 29 then 2 else 0) OR (if bit x 28 then 1 else 0)) n"
    proof cases
      case 5
      then have "\<not> bit x (28 + n)" by (auto dest: bit_imp_le_length)
      moreover have "\<not> bit (8 :: u32) n" "\<not> bit (4 :: u32) n" "\<not> bit (2 :: u32) n" "\<not> bit (1 :: u32) n"
        using 5 bit_exp_iff [where 'a = "32 word", of 3 n] bit_exp_iff [where 'a = "32 word", of 2 n]
          bit_exp_iff [where 'a = "32 word", of 1 n] by (auto simp: bit_1_iff)
      ultimately show ?thesis by (simp add: bit_simps)
    qed (simp_all add: bit_simps)
  qed
  then show ?thesis by (cases "bit x 31"; cases "bit x 30"; cases "bit x 29"; cases "bit x 28") simp_all
qed

lemma nibble_lt: "unat (drop_bit 28 (x :: u32)) < 16"
  by (simp add: nibble_flags)

definition flag_nibble :: "bool \<Rightarrow> bool \<Rightarrow> bool \<Rightarrow> bool \<Rightarrow> nat" where
  "flag_nibble N Z C V = (if N then 8 else 0) + (if Z then 4 else 0) + (if C then 2 else 0) + (if V then 1 else 0)"

lemma cond_table_computed:
  "list_all (\<lambda>k. list_all (\<lambda>N. list_all (\<lambda>Z. list_all (\<lambda>C. list_all (\<lambda>V.
     bit (cond_flags_cross k) (flag_nibble N Z C V) = condition k N Z C V)
     [False, True]) [False, True]) [False, True]) [False, True]) [0..<16]"
  by code_simp

lemma cond_table:
  assumes "k < 16"
  shows "bit (cond_flags_cross k) (flag_nibble N Z C V) = condition k N Z C V"
proof -
  have b: "x \<in> set [False, True]" for x by (cases x) simp_all
  have "k \<in> set [0..<16]" using assms by simp
  then show ?thesis using cond_table_computed b unfolding list_all_iff by blast
qed

text \<open>The condition table is the architecture's sixteen conditions: an instruction passes exactly when
  the condition in its top four bits holds of the flags N, Z, C and V.\<close>

theorem arm_condition_table:
  "cond_passes cmd (CPSR c) \<longleftrightarrow> condition (unat (drop_bit 28 cmd)) (flagN c) (flagZ c) (flagC c) (flagV c)"
proof -
  have one: "(drop_bit n w AND 1 \<noteq> 0) = bit w n" for n and w :: u16
    by (simp add: and_one_eq odd_iff_mod_2_eq_one [symmetric] bit_iff_odd_drop_bit)
  have "unat (drop_bit 28 (CPSR c)) = flag_nibble (flagN c) (flagZ c) (flagC c) (flagV c)"
    by (simp add: nibble_flags flag_nibble_def flag_defs)
  then show ?thesis
    unfolding cond_passes_def one by (simp add: cond_table [OF nibble_lt])
qed

section \<open>AddWithCarry\<close>

text \<open>The architecture manual's \<open>AddWithCarry(x, y, carry_in)\<close>: result, carry and overflow.\<close>

definition add_with_carry :: "u32 \<Rightarrow> u32 \<Rightarrow> bool \<Rightarrow> u32 \<times> bool \<times> bool" where
  "add_with_carry x y cin =
     (let u = unat x + unat y + of_bool cin; s = sint x + sint y + of_bool cin; r = of_nat u
      in (r, unat r \<noteq> u, sint r \<noteq> s))"

lemma top_bit: "bit x 31 \<longleftrightarrow> 2147483648 \<le> unat x" for x :: u32
proof -
  have "bit x 31 \<longleftrightarrow> bit (unat x) 31" by (simp add: bit_unsigned_iff)
  then have "bit x 31 \<longleftrightarrow> odd (unat x div 2 ^ 31)" by (simp only: bit_iff_odd)
  moreover have "unat x div 2 ^ 31 = (if 2147483648 \<le> unat x then 1 else 0)"
    using unat_u32_lt [of x] by (auto simp: not_le intro!: div_nat_eqI)
  ultimately show ?thesis by simp
qed

lemma sint_top: "sint x = int (unat x) - (if bit x 31 then 4294967296 else 0)" for x :: u32
proof -
  define n where "n = int (unat x)"
  have sx: "sint x = (n + 2147483648) mod 4294967296 - 2147483648"
    unfolding n_def by (simp add: sint_uint signed_take_bit_eq_take_bit_shift take_bit_eq_mod)
  have n: "0 \<le> n" "n < 4294967296" using unat_u32_lt [of x] unfolding n_def by linarith+
  have b: "bit x 31 \<longleftrightarrow> 2147483648 \<le> n" unfolding top_bit n_def by linarith
  have "(n + 2147483648) mod 4294967296 = (if 2147483648 \<le> n then n - 2147483648 else n + 2147483648)"
    using n mod_pos_pos_trivial [of "n - 2147483648" 4294967296] mod_add_self2 [of "n - 2147483648" 4294967296]
    by (auto simp: add.commute)
  then show ?thesis unfolding sx b n_def [symmetric] by simp
qed

lemma signed_overflow_nat:
  fixes a b k r :: nat
  defines "u \<equiv> a + b + k"
  assumes "a < 4294967296" "b < 4294967296" "k \<le> 1" and r: "r = (if u < 4294967296 then u else u - 4294967296)"
  shows "int r - (if 2147483648 \<le> r then 4294967296 else 0) \<noteq>
      int a - (if 2147483648 \<le> a then 4294967296 else 0) + (int b - (if 2147483648 \<le> b then 4294967296 else 0)) + int k
    \<longleftrightarrow> (2147483648 \<le> a \<and> 2147483648 \<le> b \<and> \<not> 2147483648 \<le> r) \<or>
      (\<not> 2147483648 \<le> a \<and> \<not> 2147483648 \<le> b \<and> 2147483648 \<le> r)"
proof -
  have "int r = int a + int b + int k - (if u < 4294967296 then 0 else 4294967296)"
    unfolding r u_def by simp
  then show ?thesis
    using assms(2-4) unfolding u_def by (auto split: if_splits)
qed

lemma add_with_carry_top:
  assumes r: "r = x + y + of_bool cin"
  shows "add_with_carry x y cin =
    (r, (bit x 31 \<and> bit y 31) \<or> (\<not> bit r 31 \<and> (bit x 31 \<or> bit y 31)),
     (bit x 31 \<and> bit y 31 \<and> \<not> bit r 31) \<or> (\<not> bit x 31 \<and> \<not> bit y 31 \<and> bit r 31))"
proof -
  let ?u = "unat x + unat y + of_bool cin"
  have r': "r = of_nat ?u" by (simp add: r)
  have u: "unat r = (if ?u < 4294967296 then ?u else ?u - 4294967296)"
    using unat_u32_lt [of x] unat_u32_lt [of y] unfolding r' unat_of_nat by (cases cin) (auto simp: mod_if not_less)
  have carry: "unat r \<noteq> ?u \<longleftrightarrow>
      (bit x 31 \<and> bit y 31) \<or> (\<not> bit r 31 \<and> (bit x 31 \<or> bit y 31))"
    using u unat_u32_lt [of x] unat_u32_lt [of y] unfolding top_bit
    by (cases cin; cases "?u < 4294967296"; simp; arith)
  have over: "sint r \<noteq> sint x + sint y + of_bool cin \<longleftrightarrow>
      (bit x 31 \<and> bit y 31 \<and> \<not> bit r 31) \<or> (\<not> bit x 31 \<and> \<not> bit y 31 \<and> bit r 31)"
    using signed_overflow_nat [OF unat_u32_lt unat_u32_lt _ u] unfolding sint_top top_bit by simp
  show ?thesis unfolding add_with_carry_def Let_def r' [symmetric] carry over by simp
qed

text \<open>How each flag-setting arithmetic opcode feeds the adder.\<close>

definition adder_inputs :: "nat \<Rightarrow> u32 \<Rightarrow> u32 \<Rightarrow> bool \<Rightarrow> (u32 \<times> u32 \<times> bool) option" where
  "adder_inputs opc op1 op2 C =
     (if opc = 9 \<or> opc = 23 then Some (op1, op2, False)
      else if opc = 11 then Some (op1, op2, C)
      else if opc = 5 \<or> opc = 21 then Some (op1, NOT op2, True)
      else if opc = 13 then Some (op1, NOT op2, C)
      else if opc = 7 then Some (op2, NOT op1, True)
      else if opc = 15 then Some (op2, NOT op1, C)
      else None)"

lemma flags_of_ZN:
  "flagN (ARM_SET_ZN v c) = bit v 31" "flagZ (ARM_SET_ZN v c) = (v = 0)"
  "flagC (ARM_SET_ZN v c) = flagC c" "flagV (ARM_SET_ZN v c) = flagV c"
  "USER (ARM_SET_ZN v c) = USER c"
  by (simp_all add: flag_defs ARM_SET_ZN_def bit_simps)

lemma flags_of_CV:
  "flagN (ARM_SET_CV r x y c) = flagN c" "flagZ (ARM_SET_CV r x y c) = flagZ c"
  "flagC (ARM_SET_CV r x y c) = ((bit x 31 \<and> bit y 31) \<or> (\<not> bit r 31 \<and> (bit x 31 \<or> bit y 31)))"
  "flagV (ARM_SET_CV r x y c) =
     ((bit x 31 \<and> bit y 31 \<and> \<not> bit r 31) \<or> (\<not> bit x 31 \<and> \<not> bit y 31 \<and> bit r 31))"
  "USER (ARM_SET_CV r x y c) = USER c"
  by (auto simp: flag_defs ARM_SET_CV_def bit_simps)

lemma CV_sub: "ARM_SET_CV_sub r x y c = ARM_SET_CV r x (NOT y) c"
  by (simp add: ARM_SET_CV_sub_def ARM_SET_CV_def)

lemma carry_word: "ARM_GET_C c = of_bool (flagC c)" "ARM_GET_C c XOR 1 = 1 - of_bool (flagC c)"
proof -
  show "ARM_GET_C c = of_bool (flagC c)"
    by (simp add: ARM_GET_C_def flagC_def and_one_eq bit_iff_odd_drop_bit mod2_eq_if)
  then show "ARM_GET_C c XOR 1 = 1 - of_bool (flagC c)" by simp
qed

lemma minus_not: "x - y = x + NOT y + 1" "x - y - (1 - b) = x + NOT y + b" for x y b :: u32
  by (simp_all add: not_eq_complement)

lemma flags_set_reg [simp]: "flagC (set_reg n v c) = flagC c"
  by (simp add: flag_defs set_reg_def)

lemma alu_adder9: "ARM_ALU_Exec inst 9 op1 op2 rd c =
     (False, ARM_SET_CV (op1 + op2) op1 (op2) (ARM_SET_ZN (op1 + op2) (set_reg rd (op1 + op2) c)))"
  unfolding ARM_ALU_Exec_def Let_def by simp

lemma alu_adder23: "ARM_ALU_Exec inst 23 op1 op2 rd c =
     (True, ARM_SET_ZN (op1 + op2) (ARM_SET_CV (op1 + op2) op1 (op2) c))"
  unfolding ARM_ALU_Exec_def Let_def by simp

lemma alu_adder11: "ARM_ALU_Exec inst 11 op1 op2 rd c =
     (False, ARM_SET_CV (op1 + op2 + of_bool (flagC c)) op1 (op2) (ARM_SET_ZN (op1 + op2 + of_bool (flagC c)) (set_reg rd (op1 + op2 + of_bool (flagC c)) c)))"
  unfolding ARM_ALU_Exec_def Let_def carry_word by simp

lemma alu_adder5: "ARM_ALU_Exec inst 5 op1 op2 rd c =
     (False, ARM_SET_CV (op1 + NOT op2 + 1) op1 (NOT op2) (ARM_SET_ZN (op1 + NOT op2 + 1) (set_reg rd (op1 + NOT op2 + 1) c)))"
  unfolding ARM_ALU_Exec_def Let_def CV_sub minus_not(1) [symmetric] by simp

lemma alu_adder21: "ARM_ALU_Exec inst 21 op1 op2 rd c =
     (True, ARM_SET_ZN (op1 + NOT op2 + 1) (ARM_SET_CV (op1 + NOT op2 + 1) op1 (NOT op2) c))"
  unfolding ARM_ALU_Exec_def Let_def CV_sub minus_not(1) [symmetric] by simp

lemma alu_adder13: "ARM_ALU_Exec inst 13 op1 op2 rd c =
     (False, ARM_SET_CV (op1 + NOT op2 + of_bool (flagC c)) op1 (NOT op2) (ARM_SET_ZN (op1 + NOT op2 + of_bool (flagC c)) (set_reg rd (op1 + NOT op2 + of_bool (flagC c)) c)))"
  unfolding ARM_ALU_Exec_def Let_def carry_word CV_sub minus_not(2) [symmetric] by simp

lemma alu_adder7: "ARM_ALU_Exec inst 7 op1 op2 rd c =
     (False, ARM_SET_CV (op2 + NOT op1 + 1) op2 (NOT op1) (ARM_SET_ZN (op2 + NOT op1 + 1) (set_reg rd (op2 + NOT op1 + 1) c)))"
  unfolding ARM_ALU_Exec_def Let_def CV_sub minus_not(1) [symmetric] by simp

lemma alu_adder15: "ARM_ALU_Exec inst 15 op1 op2 rd c =
     (False, ARM_SET_CV (op2 + NOT op1 + of_bool (flagC c)) op2 (NOT op1) (ARM_SET_ZN (op2 + NOT op1 + of_bool (flagC c)) (set_reg rd (op2 + NOT op1 + of_bool (flagC c)) c)))"
  unfolding ARM_ALU_Exec_def Let_def carry_word CV_sub minus_not(2) [symmetric] by simp

lemmas alu_adder = alu_adder9 alu_adder23 alu_adder11 alu_adder5 alu_adder21 alu_adder13 alu_adder7 alu_adder15

lemma alu_adds:
  assumes "adder_inputs opc op1 op2 (flagC c) = Some (x, y, cin)" and r: "r = x + y + of_bool cin"
  shows "ARM_ALU_Exec inst opc op1 op2 rd c =
    (if opc = 21 \<or> opc = 23 then (True, ARM_SET_ZN r (ARM_SET_CV r x y c))
     else (False, ARM_SET_CV r x y (ARM_SET_ZN r (set_reg rd r c))))"
proof -
  consider "opc = 9" | "opc = 23" | "opc = 11" | "opc = 5" | "opc = 21" | "opc = 13" | "opc = 7" | "opc = 15"
    using assms(1) by (auto simp: adder_inputs_def split: if_splits)
  then show ?thesis
    using assms(1) unfolding r by cases (clarsimp simp: adder_inputs_def alu_adder)+
qed



end
