(* ===== verification/Opera_Arm_Bus.thy ===== *)
theory Opera_Arm_Bus
  imports Opera_Arm_Core Opera_Sport Opera_Diag_Port
begin

text \<open>
  The processor's bus, the memory accesses of \<open>src/libopera/opera_arm.c\<close>: RAM with the ROM overlay
  that covers it after a reset, the two ROM windows, the register blocks of MADAM and CLIO, the
  SPORT page engine, the diagnostic port and the battery-backed RAM. The whole machine is the
  record \<open>sys\<close>; MADAM, CLIO and the expansion bus are the functions of a record \<open>devices\<close> over a
  state of any type, and may change all of \<open>sys\<close> (MADAM calls \<open>opera_io_write\<close>, a reset
  reaches the processor).
\<close>

section \<open>The machine\<close>

record 'e sys =
  ARM :: arm
  MEM :: memory
  SPORT :: sport
  DIAG :: diag_port
  DEV :: 'e

record 'e devices =
  opera_madam_peek :: "u32 \<Rightarrow> 'e sys \<Rightarrow> u32 \<times> 'e sys"
  opera_madam_poke :: "u32 \<Rightarrow> u32 \<Rightarrow> 'e sys \<Rightarrow> 'e sys"
  opera_clio_peek :: "u32 \<Rightarrow> 'e sys \<Rightarrow> u32 \<times> 'e sys"
  opera_clio_poke :: "u32 \<Rightarrow> u32 \<Rightarrow> 'e sys \<Rightarrow> u32 \<times> 'e sys"
  opera_clio_xbus_access_aborts :: "u32 \<Rightarrow> u32 \<Rightarrow> 'e sys \<Rightarrow> bool"
  opera_xbus_selected_device_address :: "'e sys \<Rightarrow> u32"
  opera_xbus_selected_device_absent :: "'e sys \<Rightarrow> bool"
  opera_3do_dipir_reset :: "'e sys \<Rightarrow> 'e sys"
  opera_3do_soft_reset :: "'e sys \<Rightarrow> 'e sys"
  opera_clio_fiq_needed :: "'e sys \<Rightarrow> bool"

definition on_cpu :: "(arm_core \<Rightarrow> arm_core) \<Rightarrow> 'e sys \<Rightarrow> 'e sys" where
  "on_cpu f s = s\<lparr>ARM := (ARM s)\<lparr>CPU := f (CPU (ARM s))\<rparr>\<rparr>"

abbreviation cpu :: "'e sys \<Rightarrow> arm_core" where "cpu s \<equiv> CPU (ARM s)"

abbreviation (input) ROM1_SIZE_MASK :: u32 where "ROM1_SIZE_MASK \<equiv> ROM1_SIZE - 1"
abbreviation (input) NVRAM_SIZE_MASK :: u32 where "NVRAM_SIZE_MASK \<equiv> NVRAM_SIZE - 1"

definition rom :: "memory \<Rightarrow> mem" where
  "rom m = (if ROM m = Some PTR_ROM2 then the (ROM2 m) else the (ROM1 m))"

definition nvram :: "memory \<Rightarrow> mem" where "nvram m = the (NVRAM m)"

text \<open>\<open>addr_ & ~3\<close>, and \<open>!(index & ~window)\<close>.\<close>

definition align4 :: "u32 \<Rightarrow> u32" where
  "align4 addr = addr AND NOT 3"

definition within :: "u32 \<Rightarrow> u32 \<Rightarrow> bool" where
  "within index window \<longleftrightarrow> index AND NOT window = 0"

section \<open>Reads\<close>

definition clio_xbus_access_aborts :: "'e devices \<Rightarrow> u32 \<Rightarrow> 'e sys \<Rightarrow> bool" where
  "clio_xbus_access_aborts D index s \<longleftrightarrow>
     (if index < 0x540 \<or> index \<ge> 0x600 then False
      else if opera_clio_xbus_access_aborts D (opera_xbus_selected_device_address D s) index s then True
      else opera_xbus_selected_device_absent D s)"

definition mreadw :: "'e devices \<Rightarrow> u32 \<Rightarrow> 'e sys \<Rightarrow> u32 \<times> 'e sys" where
  "mreadw D addr s =
     (let addr = align4 addr in
      if addr < g_CPU_DIRECT_RAM_LIMIT (ARM s) then (opera_mem_read32 (MEM s) addr, s)
      else if addr < g_ROM_OVERLAY_READ_LIMIT (ARM s) then (get32 (rom (MEM s)) (addr AND ROM1_SIZE_MASK), s)
      else if within (addr XOR 0x03300000) 0xFFFFF then opera_madam_peek D (addr XOR 0x03300000) s
      else if within (addr XOR 0x03400000) 0xFFFFF then
        (if clio_xbus_access_aborts D (addr XOR 0x03400000) s
         then (0, on_cpu (\<lambda>c. c\<lparr>MAS_Access_Exept := 1\<rparr>) s)
         else opera_clio_peek D (addr XOR 0x03400000) s)
      else if within (addr XOR 0x03200000) 0xFFFFF then
        (if within (addr XOR 0x03200000) 0x1FFF
         then (0, s\<lparr>SPORT := opera_sport_set_source (MEM s) (addr XOR 0x03200000) (SPORT s)\<rparr>)
         else (0xBADACCE5, s))
      else if within (addr XOR 0x03000000) ROM1_SIZE_MASK then (get32 (rom (MEM s)) (addr XOR 0x03000000), s)
      else if within (addr XOR 0x06000000) ROM1_SIZE_MASK then (get32 (rom (MEM s)) (addr XOR 0x06000000), s)
      else
        (let index = addr XOR 0x03100000 in
         if within index 0xFFFFF \<and> index AND 0x80000 \<noteq> 0 then
           (let (v, p) = opera_diag_port_get (DIAG s) in (v, s\<lparr>DIAG := p\<rparr>))
         else if within index 0xFFFFF \<and> index AND 0x40000 \<noteq> 0 then
           (ucast (nvram (MEM s) (drop_bit 2 index AND NVRAM_SIZE_MASK)), s)
         else (0xBADACCE5, s)))"

definition mfetchw :: "'e devices \<Rightarrow> u32 \<Rightarrow> 'e sys \<Rightarrow> u32 \<times> 'e sys" where
  "mfetchw D addr s =
     (let addr = align4 addr in
      if addr < g_CPU_DIRECT_RAM_LIMIT (ARM s) then (opera_mem_read32 (MEM s) addr, s)
      else if addr < g_ROM_OVERLAY_READ_LIMIT (ARM s) then (get32 (rom (MEM s)) (addr AND ROM1_SIZE_MASK), s)
      else if within (addr XOR 0x03000000) ROM1_SIZE_MASK then (get32 (rom (MEM s)) (addr XOR 0x03000000), s)
      else if within (addr XOR 0x06000000) ROM1_SIZE_MASK then (get32 (rom (MEM s)) (addr XOR 0x06000000), s)
      else mreadw D addr s)"

definition mreadb :: "u32 \<Rightarrow> 'e sys \<Rightarrow> u32" where
  "mreadb addr s =
     (if addr < g_CPU_DIRECT_RAM_LIMIT (ARM s) then ucast (opera_mem_read8 (MEM s) addr)
      else if addr < g_ROM_OVERLAY_READ_LIMIT (ARM s) then ucast (rom (MEM s) ((addr XOR 3) AND ROM1_SIZE_MASK))
      else if within (addr XOR 0x03000003) ROM1_SIZE_MASK then ucast (rom (MEM s) (addr XOR 0x03000003))
      else if within (addr XOR 0x06000003) ROM1_SIZE_MASK then ucast (rom (MEM s) (addr XOR 0x06000003))
      else
        (let index = addr XOR 0x03100003 in
         if within index 0xFFFFF \<and> index AND 0x40000 = 0x40000
         then ucast (nvram (MEM s) (drop_bit 2 index AND NVRAM_SIZE_MASK))
         else 0xBADACCE5))"

section \<open>Writes\<close>

definition nvram_store :: "u32 \<Rightarrow> u8 \<Rightarrow> memory \<Rightarrow> memory" where
  "nvram_store i v m = m\<lparr>NVRAM := Some ((nvram m)(i := v))\<rparr>"

definition mwritew_internal :: "'e devices \<Rightarrow> u32 \<Rightarrow> u32 \<Rightarrow> 'e sys \<Rightarrow> 'e sys" where
  "mwritew_internal D addr val s =
     (let addr = align4 addr in
      if addr < RAM_SIZE (MEM s) then s\<lparr>MEM := opera_mem_write32 addr val (MEM s)\<rparr>
      else if within (addr XOR 0x03300000) 0x7FF then opera_madam_poke D (addr XOR 0x03300000) val s
      else if within (addr XOR 0x03400000) 0xFFFF then
        (if clio_xbus_access_aborts D (addr XOR 0x03400000) s then on_cpu (\<lambda>c. c\<lparr>MAS_Access_Exept := 1\<rparr>) s
         else
           (let (reset_kind, s) = opera_clio_poke D (addr XOR 0x03400000) val s in
            if reset_kind \<noteq> 0 then
              (let s = (if reset_kind AND 0x20 \<noteq> 0 then opera_3do_dipir_reset D s else opera_3do_soft_reset D s)
               in s\<lparr>ARM := (ARM s)\<lparr>g_SOFT_RESET_PENDING := True\<rparr>\<rparr>)
            else s))
      else if within (addr XOR 0x03200000) 0xFFFFF then
        (let (p, m) = opera_sport_write_access (addr XOR 0x03200000) val (SPORT s, MEM s)
         in s\<lparr>SPORT := p, MEM := m\<rparr>)
      else
        (let index = addr XOR 0x03100000 in
         if within index 0xFFFFF then
           (if index AND 0x80000 \<noteq> 0 then s\<lparr>DIAG := opera_diag_port_send val (DIAG s)\<rparr>
            else if index AND 0x40000 \<noteq> 0
            then s\<lparr>MEM := nvram_store (drop_bit 2 index AND NVRAM_SIZE_MASK) (ucast val) (MEM s)\<rparr>
            else s)
         else s))"

definition clear_overlay_below :: "u32 \<Rightarrow> 'e sys \<Rightarrow> 'e sys" where
  "clear_overlay_below addr s =
     (if addr < g_ROM_OVERLAY_CLEAR_LIMIT (ARM s) then s\<lparr>ARM := set_rom_overlay (MEM s) False (ARM s)\<rparr> else s)"

definition mwritew :: "'e devices \<Rightarrow> u32 \<Rightarrow> u32 \<Rightarrow> 'e sys \<Rightarrow> 'e sys" where
  "mwritew D addr val s =
     (let addr = align4 addr in mwritew_internal D addr val (clear_overlay_below addr s))"

definition mwriteb :: "u32 \<Rightarrow> u8 \<Rightarrow> 'e sys \<Rightarrow> 'e sys" where
  "mwriteb addr val s =
     (let s = clear_overlay_below addr s in
      if addr < RAM_SIZE (MEM s) then s\<lparr>MEM := opera_mem_write8 addr val (MEM s)\<rparr>
      else
        (let index = addr XOR 0x03100003 in
         if within index 0xFFFFF \<and> index AND 0x40000 = 0x40000
         then s\<lparr>MEM := nvram_store (drop_bit 2 index AND NVRAM_SIZE_MASK) val (MEM s)\<rparr>
         else s))"

definition opera_io_write :: "'e devices \<Rightarrow> u32 \<Rightarrow> u32 \<Rightarrow> 'e sys \<Rightarrow> 'e sys" where
  "opera_io_write D addr val s = mwritew_internal D addr val s"

end
