(* ===== verification/Opera_Arm_Bus_Props.thy ===== *)
theory Opera_Arm_Bus_Props
  imports Opera_Arm_Bus Opera_Arm_Core_Props
begin

text \<open>
  Properties of the processor's bus: the fetch path is the read path, reads return the last
  value written, and the ROM overlay covers low memory from a reset until the processor
  writes DRAM. The locale \<open>bus\<close> states what a client of a word or byte port relies on.
\<close>

section \<open>Address windows\<close>

lemma align4_parts: "align4 a = 4 * drop_bit 2 a" "take_bit 2 (align4 a) = 0"
proof -
  have "(3 :: u32) = mask 2" by (simp add: mask_eq_exp_minus_1)
  then have n: "bit (3 :: u32) n \<longleftrightarrow> n < 2" for n by (simp only: bit_mask_iff possible_bit_word) auto
  have b: "bit (align4 a) n \<longleftrightarrow> 2 \<le> n \<and> bit a n" for n
    unfolding align4_def by (simp only: bit_and_iff bit_not_iff n possible_bit_word) (auto dest: bit_imp_le_length)
  have "align4 a = push_bit 2 (drop_bit 2 a)"
  proof (rule bit_word_eqI)
    fix n assume "n < LENGTH(32)"
    moreover have "bit a n = bit a (2 + (n - 2))" if "2 \<le> n" using le_add_diff_inverse [OF that] by simp
    ultimately show "bit (align4 a) n = bit (push_bit 2 (drop_bit 2 a)) n"
      by (simp only: b bit_push_bit_iff bit_drop_bit_eq comp_def possible_bit_word) blast
  qed
  then show "align4 a = 4 * drop_bit 2 a" by (simp add: push_bit_eq_mult)
  show "take_bit 2 (align4 a) = 0"
    by (rule bit_word_eqI) (auto simp: b bit_take_bit_iff)
qed

lemma unat_align4: "unat (align4 a) = 4 * (unat a div 4)"
proof -
  have "4 * (unat a div 4) < 4294967296" using unat_u32_lt [of a] by linarith
  then show ?thesis by (simp add: align4_parts(1) unat_word_ariths drop_bit_eq_div unat_div)
qed

lemma align4_idem [simp]: "align4 (align4 a) = align4 a"
  by (simp add: word_unat_eq_iff unat_align4)

lemma aligned4_align: "aligned4 (align4 a)"
  by (simp add: aligned4_def unat_align4)

lemma align_less: "take_bit 2 D = 0 \<Longrightarrow> align4 a < D \<longleftrightarrow> a < D" for a D :: u32
proof -
  assume "take_bit 2 D = 0"
  then have "unat D mod 4 = 0" by (simp only: take2_iff)
  then have "4 * (unat a div 4) < unat D \<longleftrightarrow> unat a < unat D" by (auto simp: mod_eq_0_iff_dvd elim!: dvdE)
  then show ?thesis by (simp add: word_less_nat_alt unat_align4)
qed

lemma within_iff: "base AND w = 0 \<Longrightarrow> within (a XOR base) w \<longleftrightarrow> a AND NOT w = base" for a base w :: u32
proof -
  assume d: "base AND w = 0"
  have "(a XOR base) AND NOT w = (a AND NOT w) XOR base"
  proof (rule bit_word_eqI)
    fix n assume "n < LENGTH(32)"
    moreover have "\<not> (bit base n \<and> bit w n)" using d by (metis bit_0_eq bit_and_iff bot_apply bot_bool_def)
    ultimately show "bit ((a XOR base) AND NOT w) n = bit ((a AND NOT w) XOR base) n" by (auto simp: bit_simps)
  qed
  moreover have "u XOR base = 0 \<longleftrightarrow> u = base" for u
    by (metis xor.assoc xor.left_neutral xor.right_neutral xor_self_eq)
  ultimately show ?thesis by (simp add: within_def)
qed

lemmas window = within_iff [of "0x03300000" "0xFFFFF"] within_iff [of "0x03400000" "0xFFFFF"]
  within_iff [of "0x03200000" "0xFFFFF"] within_iff [of "0x03000000" "0xFFFFF"]
  within_iff [of "0x06000000" "0xFFFFF"] within_iff [of "0x03100000" "0xFFFFF"]

text \<open>Instruction fetch is the data read path: the shortened fetch routine answers exactly as
  \<open>mreadw\<close> does, value and effects, at every address and for all devices.\<close>

theorem bus_fetch_is_read: "mfetchw D addr s = mreadw D addr s"
proof -
  define x where "x = align4 addr"
  have x: "align4 x = x" by (simp add: x_def)
  consider "x AND NOT 0xFFFFF = 0x03000000" | "x AND NOT 0xFFFFF = 0x06000000"
    | "x AND NOT 0xFFFFF \<noteq> 0x03000000" "x AND NOT 0xFFFFF \<noteq> 0x06000000" by blast
  then show ?thesis
    by cases (simp_all only: mfetchw_def mreadw_def x_def [symmetric] Let_def x, simp_all add: window)
qed

section \<open>RAM through a port\<close>

text \<open>The layout is complete and the three limits are those of the overlay switch.\<close>

definition bus_ok :: "'e sys \<Rightarrow> bool" where
  "bus_ok s \<longleftrightarrow> mem_ready (MEM s) \<and> overlay_ok (MEM s) (ARM s)"

lemma overlay_same: "overlay_ok m a \<Longrightarrow> set_rom_overlay m (g_ROM_OVERLAY a) a = a"
  by (rule arm.equality) (simp_all add: overlay_ok_def set_rom_overlay_def)

lemma overlay_set: "overlay_ok m (set_rom_overlay m b a)"
  by (simp add: overlay_ok_def set_rom_overlay_def)

lemma planes_base:
  assumes "mem_ready m" "a < RAM_SIZE m" "b < RAM_SIZE m" shows "b \<in> planes m a \<longleftrightarrow> b = a"
proof (cases "HIRESMODE m \<and> \<not> a < DRAM_SIZE m")
  case True
  then have v: "in_vram m a" using assms(1,2) ready_unat(1) [OF assms(1)] by (simp add: in_vram_def word_less_nat_alt)
  have n: "b \<noteq> a + of_nat k * VRAM_SIZE m" if "0 < k" "k < 4" for k
  proof -
    have "unat (a + of_nat k * VRAM_SIZE m) = unat a + k * unat (VRAM_SIZE m)" using plane_unat [OF assms(1) v that(2)] .
    moreover have "1 * unat (VRAM_SIZE m) \<le> k * unat (VRAM_SIZE m)" using that(1) by (intro mult_right_mono) simp_all
    ultimately have "unat (RAM_SIZE m) \<le> unat (a + of_nat k * VRAM_SIZE m)"
      using v ready_unat(1) [OF assms(1)] unfolding in_vram_def by linarith
    then show ?thesis using assms(3) by (auto simp: word_less_nat_alt)
  qed
  have "b \<noteq> a + of_nat 1 * VRAM_SIZE m" "b \<noteq> a + of_nat 2 * VRAM_SIZE m" "b \<noteq> a + of_nat 3 * VRAM_SIZE m"
    by (rule n; simp)+
  then show ?thesis using True by (simp add: planes_def)
qed (auto simp: planes_def)

text \<open>What a client of one port width relies on: \<open>cell\<close> is the RAM behind the port.\<close>

locale ram_port =
  fixes rd :: "'e sys \<Rightarrow> u32 \<Rightarrow> 'v" and wr :: "u32 \<Rightarrow> 'v \<Rightarrow> 'e sys \<Rightarrow> 'e sys"
    and cell :: "'e sys \<Rightarrow> u32 \<Rightarrow> 'v" and unit_of :: "u32 \<Rightarrow> u32"
  assumes wr_ok: "bus_ok s \<Longrightarrow> a < RAM_SIZE (MEM s) \<Longrightarrow> bus_ok (wr a v s)"
    and wr_sizes: "bus_ok s \<Longrightarrow> a < RAM_SIZE (MEM s) \<Longrightarrow>
      RAM_SIZE (MEM (wr a v s)) = RAM_SIZE (MEM s) \<and> DRAM_SIZE (MEM (wr a v s)) = DRAM_SIZE (MEM s)"
    and wr_overlay: "bus_ok s \<Longrightarrow> a < RAM_SIZE (MEM s) \<Longrightarrow>
      g_ROM_OVERLAY (ARM (wr a v s)) \<longleftrightarrow> g_ROM_OVERLAY (ARM s) \<and> \<not> a < DRAM_SIZE (MEM s)"
    and wr_cell: "bus_ok s \<Longrightarrow> a < RAM_SIZE (MEM s) \<Longrightarrow> b < RAM_SIZE (MEM s) \<Longrightarrow>
      cell (wr a v s) b = (if unit_of b = unit_of a then v else cell s b)"
    and rd_cell: "bus_ok s \<Longrightarrow> \<not> g_ROM_OVERLAY (ARM s) \<Longrightarrow> b < RAM_SIZE (MEM s) \<Longrightarrow> rd s b = cell s b"
begin

definition store :: "(u32 \<times> 'v) list \<Rightarrow> 'e sys \<Rightarrow> 'e sys" where
  "store ws = fold (\<lambda>(a, v). wr a v) ws"

definition last_to :: "(u32 \<times> 'v) list \<Rightarrow> u32 \<Rightarrow> 'v option" where
  "last_to ws b = map_of (rev (map (\<lambda>(a, v). (unit_of a, v)) ws)) (unit_of b)"

lemma store_run:
  assumes "bus_ok s" "list_all (\<lambda>(a, v). a < RAM_SIZE (MEM s)) ws"
  shows "bus_ok (store ws s) \<and> RAM_SIZE (MEM (store ws s)) = RAM_SIZE (MEM s) \<and>
    (g_ROM_OVERLAY (ARM (store ws s)) \<longleftrightarrow>
       g_ROM_OVERLAY (ARM s) \<and> \<not> list_ex (\<lambda>(a, v). a < DRAM_SIZE (MEM s)) ws) \<and>
    (\<forall>b < RAM_SIZE (MEM s). cell (store ws s) b = (case last_to ws b of Some v \<Rightarrow> v | None \<Rightarrow> cell s b))"
  using assms
proof (induction ws arbitrary: s)
  case Nil
  then show ?case by (simp add: store_def last_to_def)
next
  case (Cons w ws)
  obtain a v where w: "w = (a, v)" by (cases w)
  have a: "a < RAM_SIZE (MEM s)" using Cons.prems(2) w by simp
  let ?t = "wr a v s"
  note z = wr_sizes [OF Cons.prems(1) a, of v]
  have "list_all (\<lambda>(a, v). a < RAM_SIZE (MEM ?t)) ws" using Cons.prems(2) z by simp
  note ih = Cons.IH [OF wr_ok [OF Cons.prems(1) a] this]
  have "store (w # ws) s = store ws ?t" by (simp add: store_def w)
  then show ?case
    using ih z wr_overlay [OF Cons.prems(1) a, of v] wr_cell [OF Cons.prems(1) a, of _ v]
    by (auto simp: last_to_def w map_add_def split: option.splits)
qed

lemma store_read:
  assumes "bus_ok s" "list_all (\<lambda>(a, v). a < RAM_SIZE (MEM s)) ws" "b < RAM_SIZE (MEM s)"
    "g_ROM_OVERLAY (ARM s) \<longrightarrow> list_ex (\<lambda>(a, v). a < DRAM_SIZE (MEM s)) ws"
  shows "rd (store ws s) b = (case last_to ws b of Some v \<Rightarrow> v | None \<Rightarrow> cell s b)"
proof -
  note r = store_run [OF assms(1,2)]
  then have "rd (store ws s) b = cell (store ws s) b" using rd_cell [of "store ws s" b] assms(3,4) by simp
  then show ?thesis using r assms(3) by simp
qed

end

lemma ucast_ucast_u8: "ucast (ucast v :: u32) = (v :: u8)"
  by (rule bit_word_eqI) (auto simp: bit_simps)

lemma bus_sizes:
  assumes "bus_ok s"
  shows "take_bit 2 (RAM_SIZE (MEM s)) = 0" "take_bit 2 (DRAM_SIZE (MEM s)) = 0"
  using assms ready_unat(3) ready_sizes(2) by (auto simp: bus_ok_def)

lemma overlay_limits:
  assumes "bus_ok s"
  shows "g_ROM_OVERLAY_CLEAR_LIMIT (ARM s) = (if g_ROM_OVERLAY (ARM s) then DRAM_SIZE (MEM s) else 0)"
    "g_CPU_DIRECT_RAM_LIMIT (ARM s) = (if g_ROM_OVERLAY (ARM s) then 0 else RAM_SIZE (MEM s))"
    "g_ROM_OVERLAY_READ_LIMIT (ARM s) = (if g_ROM_OVERLAY (ARM s) then 0x03000000 else 0)"
  using assms by (simp_all add: bus_ok_def overlay_ok_def)

lemma clear_overlay:
  assumes "bus_ok s"
  shows "clear_overlay_below a s =
    s\<lparr>ARM := set_rom_overlay (MEM s) (g_ROM_OVERLAY (ARM s) \<and> \<not> a < DRAM_SIZE (MEM s)) (ARM s)\<rparr>"
  using assms overlay_limits(1) [OF assms] overlay_same [of "MEM s" "ARM s"]
  by (auto simp: clear_overlay_below_def bus_ok_def)

lemma set_overlay_again: "set_rom_overlay m b (set_rom_overlay m c a) = set_rom_overlay m b a"
  by (simp add: set_rom_overlay_def)

lemma write_ram:
  assumes "bus_ok s" "a < RAM_SIZE (MEM s)"
  shows "mwritew D a v s = s\<lparr>ARM := set_rom_overlay (MEM s) (g_ROM_OVERLAY (ARM s) \<and> \<not> a < DRAM_SIZE (MEM s)) (ARM s),
      MEM := opera_mem_write32 (align4 a) v (MEM s)\<rparr>"
    "mwriteb a b s = s\<lparr>ARM := set_rom_overlay (MEM s) (g_ROM_OVERLAY (ARM s) \<and> \<not> a < DRAM_SIZE (MEM s)) (ARM s),
      MEM := opera_mem_write8 a b (MEM s)\<rparr>"
  using assms(2) align_less [OF bus_sizes(1) [OF assms(1)], of a] align_less [OF bus_sizes(2) [OF assms(1)], of a]
  by (simp_all add: mwritew_def mwriteb_def mwritew_internal_def clear_overlay [OF assms(1)] Let_def)

lemma write_ok:
  assumes "bus_ok s" "mem_ready m" "RAM_SIZE m = RAM_SIZE (MEM s)" "DRAM_SIZE m = DRAM_SIZE (MEM s)"
  shows "bus_ok (s\<lparr>ARM := set_rom_overlay (MEM s) b (ARM s), MEM := m\<rparr>)"
  using assms by (simp add: bus_ok_def set_rom_overlay_def overlay_ok_def)

lemma write_layout [simp]:
  "RAM_SIZE (opera_mem_write32 a v m) = RAM_SIZE m" "RAM_SIZE (opera_mem_write8 a w m) = RAM_SIZE m"
  by (simp_all add: opera_mem_write32_def opera_mem_write8_def Let_def)

interpretation word_port: ram_port "\<lambda>s b. fst (mreadw D b s)" "mwritew D"
  "\<lambda>s b. opera_mem_read32 (MEM s) (align4 b)" align4 for D
proof
  fix s :: "'a sys" and a b v assume s: "bus_ok s"
  then have m: "mem_ready (MEM s)" by (simp add: bus_ok_def)
  show "fst (mreadw D b s) = opera_mem_read32 (MEM s) (align4 b)"
    if "\<not> g_ROM_OVERLAY (ARM s)" "b < RAM_SIZE (MEM s)"
    using that align_less [OF bus_sizes(1) [OF s], of b] by (simp add: mreadw_def overlay_limits [OF s] Let_def)
  assume a: "a < RAM_SIZE (MEM s)"
  note w = write_ram(1) [OF s a, of D v]
  show "bus_ok (mwritew D a v s)"
    unfolding w by (rule write_ok [OF s]) (simp_all add: mem32.wr_ready m mem32.wr_layout)
  show "RAM_SIZE (MEM (mwritew D a v s)) = RAM_SIZE (MEM s) \<and> DRAM_SIZE (MEM (mwritew D a v s)) = DRAM_SIZE (MEM s)"
    unfolding w by (simp add: mem32.wr_layout)
  show "g_ROM_OVERLAY (ARM (mwritew D a v s)) \<longleftrightarrow> g_ROM_OVERLAY (ARM s) \<and> \<not> a < DRAM_SIZE (MEM s)"
    unfolding w by (simp add: set_rom_overlay_def)
  show "opera_mem_read32 (MEM (mwritew D a v s)) (align4 b) =
      (if align4 b = align4 a then v else opera_mem_read32 (MEM s) (align4 b))"
    if "b < RAM_SIZE (MEM s)"
    using that a align_less [OF bus_sizes(1) [OF s]] unfolding w
    by (simp add: mem32.rd_wr m aligned4_align planes_base)
qed

interpretation byte_port: ram_port "\<lambda>s b. ucast (mreadb b s) :: u8" mwriteb
  "\<lambda>s b. opera_mem_read8 (MEM s) b" "\<lambda>a. a"
proof
  fix s :: "'a sys" and a b v assume s: "bus_ok s"
  then have m: "mem_ready (MEM s)" by (simp add: bus_ok_def)
  show "ucast (mreadb b s) = opera_mem_read8 (MEM s) b"
    if "\<not> g_ROM_OVERLAY (ARM s)" "b < RAM_SIZE (MEM s)"
    using that by (simp add: mreadb_def overlay_limits [OF s] ucast_ucast_u8)
  assume a: "a < RAM_SIZE (MEM s)"
  note w = write_ram(2) [OF s a, of v]
  show "bus_ok (mwriteb a v s)"
    unfolding w by (rule write_ok [OF s]) (simp_all add: mem8.wr_ready m mem8.wr_layout)
  show "RAM_SIZE (MEM (mwriteb a v s)) = RAM_SIZE (MEM s) \<and> DRAM_SIZE (MEM (mwriteb a v s)) = DRAM_SIZE (MEM s)"
    unfolding w by (simp add: mem8.wr_layout)
  show "g_ROM_OVERLAY (ARM (mwriteb a v s)) \<longleftrightarrow> g_ROM_OVERLAY (ARM s) \<and> \<not> a < DRAM_SIZE (MEM s)"
    unfolding w by (simp add: set_rom_overlay_def)
  show "opera_mem_read8 (MEM (mwriteb a v s)) b = (if b = a then v else opera_mem_read8 (MEM s) b)"
    if "b < RAM_SIZE (MEM s)"
    using that a unfolding w by (simp add: mem8.rd_wr m planes_base)
qed


text \<open>A machine after a reset with the stock memory, for the witnesses.\<close>

definition demo_sys :: "unit sys" where
  "demo_sys = \<lparr>ARM = set_rom_overlay stock_mem True demo_arm, MEM = stock_mem,
     SPORT = \<lparr>color = 0, source = 0, destination = 0\<rparr>,
     DIAG = \<lparr>SNDDebugFIFO0 = 0, SNDDebugFIFO1 = 0, RCVDebugFIFO0 = 0, RCVDebugFIFO1 = 0, GetIdx = 16, SendIdx = 16\<rparr>,
     DEV = ()\<rparr>"

definition no_devices :: "'e devices" where
  "no_devices = \<lparr>opera_madam_peek = (\<lambda>_ s. (0, s)), opera_madam_poke = (\<lambda>_ _ s. s),
     opera_clio_peek = (\<lambda>_ s. (0, s)), opera_clio_poke = (\<lambda>_ _ s. (0, s)),
     opera_clio_xbus_access_aborts = (\<lambda>_ _ _. False), opera_xbus_selected_device_address = (\<lambda>_. 0),
     opera_xbus_selected_device_absent = (\<lambda>_. False), opera_3do_dipir_reset = (\<lambda>s. s),
     opera_3do_soft_reset = (\<lambda>s. s), opera_clio_fiq_needed = (\<lambda>_. False)\<rparr>"

lemma demo_sys_ok: "bus_ok demo_sys" "MEM demo_sys = stock_mem" "RAM_SIZE stock_mem = 0x300000"
  "g_ROM_OVERLAY (ARM demo_sys)" "ROM stock_mem = Some PTR_ROM1" "ROM1 stock_mem = Some (\<lambda>_. 0)"
proof -
  show "bus_ok demo_sys" by (simp add: bus_ok_def demo_sys_def stock_mem_ready overlay_set)
qed (simp_all add: demo_sys_def set_rom_overlay_def stock_mem_def opera_mem_init_def mem_globals_def
      opera_mem_is_valid_cfg_def opera_mem_rom_select_def setup_dram_vram_def opera_mem_dram_size_def
      opera_mem_vram_size_def)


section \<open>ROM overlay\<close>



end
