(* ===== verification/Opera_Swi_Hle.thy ===== *)
theory Opera_Swi_Hle
  imports Opera_Fixedpoint Opera_Arm_Bank
begin

text \<open>
  Software interrupts: the native versions of the folio routines
  (\<open>src/libopera/opera_swi_hle_0x5XXXX.h\<close>, one function per call number, over the routines of
  \<open>Opera_Fixedpoint\<close>) and the dispatch of \<open>src/libopera/opera_arm.c\<close> that chooses between them and
  the supervisor exception. The \<open>ram_\<close> argument is the RAM buffer, a register argument the
  offset of a pointer in it.
\<close>

section \<open>Native routines\<close>

definition opera_swi_hle_0x50000 :: "u32 \<Rightarrow> u32 \<Rightarrow> u32 \<Rightarrow> mem \<Rightarrow> mem" where
  "opera_swi_hle_0x50000 r0 r1 r2 = MulVec3Mat33_F16 r0 r1 r2"

definition opera_swi_hle_0x50001 :: "u32 \<Rightarrow> u32 \<Rightarrow> u32 \<Rightarrow> mem \<Rightarrow> mem" where
  "opera_swi_hle_0x50001 r0 r1 r2 = MulMat33Mat33_F16 r0 r1 r2"

definition opera_swi_hle_0x50002 :: "u32 \<Rightarrow> u32 \<Rightarrow> u32 \<Rightarrow> u32 \<Rightarrow> mem \<Rightarrow> mem" where
  "opera_swi_hle_0x50002 r0 r1 r2 r3 = MulManyVec3Mat33_F16 r0 r1 r2 r3"

definition opera_swi_hle_0x50003 :: "u8 \<Rightarrow> u8 \<Rightarrow> u8 \<Rightarrow> mem \<Rightarrow> mem" where
  "opera_swi_hle_0x50003 r0 r1 r2 m = m"

definition opera_swi_hle_0x50004 :: "u32 \<Rightarrow> u32 \<Rightarrow> u32 \<Rightarrow> u32 \<Rightarrow> mem \<Rightarrow> mem" where
  "opera_swi_hle_0x50004 r0 r1 r2 r3 m = m"

definition opera_swi_hle_0x50005 :: "u32 \<Rightarrow> u32 \<Rightarrow> u32 \<Rightarrow> u32 \<Rightarrow> mem \<Rightarrow> mem" where
  "opera_swi_hle_0x50005 r0 r1 r2 r3 = MulManyF16 r0 r1 r2 r3"

definition opera_swi_hle_0x50006 :: "u32 \<Rightarrow> u32 \<Rightarrow> u32 \<Rightarrow> u32 \<Rightarrow> mem \<Rightarrow> mem" where
  "opera_swi_hle_0x50006 r0 r1 r2 r3 = MulScalerF16 r0 r1 r2 r3"

definition opera_swi_hle_0x50007 :: "u32 \<Rightarrow> u32 \<Rightarrow> u32 \<Rightarrow> mem \<Rightarrow> mem" where
  "opera_swi_hle_0x50007 r0 r1 r2 = MulVec4Mat44_F16 r0 r1 r2"

definition opera_swi_hle_0x50008 :: "u32 \<Rightarrow> u32 \<Rightarrow> u32 \<Rightarrow> mem \<Rightarrow> mem" where
  "opera_swi_hle_0x50008 r0 r1 r2 = MulMat44Mat44_F16 r0 r1 r2"

definition opera_swi_hle_0x50009 :: "u32 \<Rightarrow> u32 \<Rightarrow> u32 \<Rightarrow> u32 \<Rightarrow> mem \<Rightarrow> mem" where
  "opera_swi_hle_0x50009 r0 r1 r2 r3 = MulManyVec4Mat44_F16 r0 r1 r2 r3"

definition opera_swi_hle_0x5000A :: "u32 \<Rightarrow> u32 \<Rightarrow> u32 \<Rightarrow> mem \<Rightarrow> mem" where
  "opera_swi_hle_0x5000A r0 r1 r2 m = m"

definition opera_swi_hle_0x5000B :: "u32 \<Rightarrow> u32 \<Rightarrow> u32 \<Rightarrow> u32 \<Rightarrow> mem \<Rightarrow> mem" where
  "opera_swi_hle_0x5000B r0 r1 r2 r3 m = m"

definition opera_swi_hle_0x5000C :: "u32 \<Rightarrow> u32 \<Rightarrow> mem \<Rightarrow> u32" where
  "opera_swi_hle_0x5000C r0 r1 = Dot3_F16 r0 r1"

definition opera_swi_hle_0x5000D :: "u32 \<Rightarrow> u32 \<Rightarrow> mem \<Rightarrow> u32" where
  "opera_swi_hle_0x5000D r0 r1 = Dot4_F16 r0 r1"

definition opera_swi_hle_0x5000E :: "u32 \<Rightarrow> u32 \<Rightarrow> u32 \<Rightarrow> mem \<Rightarrow> mem" where
  "opera_swi_hle_0x5000E r0 r1 r2 = Cross3_F16 r0 r1 r2"

definition opera_swi_hle_0x5000F :: "u32 \<Rightarrow> mem \<Rightarrow> u32" where
  "opera_swi_hle_0x5000F r0 = AbsVec3_F16 r0"

definition opera_swi_hle_0x50010 :: "u32 \<Rightarrow> mem \<Rightarrow> u32" where
  "opera_swi_hle_0x50010 r0 = AbsVec4_F16 r0"

definition opera_swi_hle_0x50011 :: "u32 \<Rightarrow> u32 \<Rightarrow> u32 \<Rightarrow> u32 \<Rightarrow> mem \<Rightarrow> mem" where
  "opera_swi_hle_0x50011 r0 r1 r2 r3 = MulVec3Mat33DivZ_F16 r0 r1 r2 r3"

definition opera_swi_hle_0x50012 :: "u32 \<Rightarrow> mem \<Rightarrow> mem" where
  "opera_swi_hle_0x50012 r0 m =
     (let dest = get32 m (r0 + 0x00);
          src = get32 m (r0 + 0x04);
          mat = get32 m (r0 + 0x08);
          n = get32 m (r0 + 0x0C);
          count = get32 m (r0 + 0x10)
      in MulManyVec3Mat33DivZ_F16 dest src mat n count m)"

section \<open>Dispatch\<close>

definition decode_swi_lle :: "arm \<Rightarrow> arm" where
  "decode_swi_lle a =
     (let c = set_spsr (arm_mode_table 0x13) (CPSR (CPU a)) (CPU a);
          c = SETI True c;
          c = SETM 0x13 c;
          c = set_reg 14 (USER c 15) c;
          c = set_reg 15 0x00000008 c
      in a\<lparr>CPU := c\<rparr>)"

definition decode_swi_hle :: "u32 \<Rightarrow> arm \<times> memory \<Rightarrow> arm \<times> memory" where
  "decode_swi_hle op_code = (\<lambda>(a, m).
     let R = USER (CPU a);
         on_ram = (\<lambda>f. (a, m\<lparr>DRAM := Some (f (dram m))\<rparr>));
         to_r0 = (\<lambda>v. (a\<lparr>CPU := set_reg 0 v (CPU a)\<rparr>, m));
         k = op_code AND 0x000FFFFF
     in
     if k = 0x50000 then on_ram (opera_swi_hle_0x50000 (R 0) (R 1) (R 2))
     else if k = 0x50001 then on_ram (opera_swi_hle_0x50001 (R 0) (R 1) (R 2))
     else if k = 0x50002 then on_ram (opera_swi_hle_0x50002 (R 0) (R 1) (R 2) (R 3))
     else if k = 0x50003 then (decode_swi_lle a, m)
     else if k = 0x50004 then (decode_swi_lle a, m)
     else if k = 0x50005 then on_ram (opera_swi_hle_0x50005 (R 0) (R 1) (R 2) (R 3))
     else if k = 0x50006 then on_ram (opera_swi_hle_0x50006 (R 0) (R 1) (R 2) (R 3))
     else if k = 0x50007 then on_ram (opera_swi_hle_0x50007 (R 0) (R 1) (R 2))
     else if k = 0x50008 then on_ram (opera_swi_hle_0x50008 (R 0) (R 1) (R 2))
     else if k = 0x50009 then on_ram (opera_swi_hle_0x50009 (R 0) (R 1) (R 2) (R 3))
     else if k = 0x5000A then (decode_swi_lle a, m)
     else if k = 0x5000B then (decode_swi_lle a, m)
     else if k = 0x5000C then to_r0 (opera_swi_hle_0x5000C (R 0) (R 1) (dram m))
     else if k = 0x5000E then on_ram (opera_swi_hle_0x5000E (R 0) (R 1) (R 2))
     else if k = 0x5000F then to_r0 (opera_swi_hle_0x5000F (R 0) (dram m))
     else if k = 0x50010 then to_r0 (opera_swi_hle_0x50010 (R 0) (dram m))
     else if k = 0x50011 then on_ram (opera_swi_hle_0x50011 (R 0) (R 1) (R 2) (R 3))
     else if k = 0x50012 then on_ram (opera_swi_hle_0x50012 (R 0))
     else (decode_swi_lle a, m))"

definition decode_swi :: "u32 \<Rightarrow> arm \<times> memory \<Rightarrow> arm \<times> memory" where
  "decode_swi op_code = (\<lambda>(a, m).
     let a = a\<lparr>CYCLES := CYCLES a - (SCYCLE + NCYCLE)\<rparr>
     in if g_SWI_HLE a \<noteq> 0 then decode_swi_hle op_code (a, m) else (decode_swi_lle a, m))"

end
