(* ===== verification/Opera_Arm_Exec.thy ===== *)
theory Opera_Arm_Exec
  imports Opera_Arm_Bus Opera_Arm_Alu Opera_Swi_Hle
begin

text \<open>
  The instructions of \<open>src/libopera/opera_arm.c\<close>: block transfer, swap, multiply, data processing,
  single transfer, branch, software interrupt and the undefined exception, and
  \<open>opera_arm_execute\<close>, which fetches one instruction, dispatches it through the fall-through cases
  of its switch and takes a pending fast interrupt. The backward \<open>goto\<close> of the switch is a
  recursive call, so an instruction that never left it would be \<open>None\<close>.
\<close>

definition on_arm :: "(arm \<Rightarrow> arm) \<Rightarrow> 'e sys \<Rightarrow> 'e sys" where
  "on_arm f s = s\<lparr>ARM := f (ARM s)\<rparr>"

definition spend :: "int \<Rightarrow> 'e sys \<Rightarrow> 'e sys" where
  "spend n s = on_arm (\<lambda>a. a\<lparr>CYCLES := CYCLES a - n\<rparr>) s"

definition add_pc :: "u32 \<Rightarrow> 'e sys \<Rightarrow> 'e sys" where
  "add_pc n s = on_cpu (\<lambda>c. set_reg 15 (USER c 15 + n) c) s"

abbreviation aborted :: "'e sys \<Rightarrow> bool" where "aborted s \<equiv> MAS_Access_Exept (cpu s) \<noteq> 0"
abbreviation reset_pending :: "'e sys \<Rightarrow> bool" where "reset_pending s \<equiv> g_SOFT_RESET_PENDING (ARM s)"

definition flag :: "nat \<Rightarrow> u32 \<Rightarrow> bool" where
  "flag n cmd \<longleftrightarrow> cmd AND push_bit n 1 \<noteq> 0"

section \<open>Block data transfer\<close>

text \<open>The number of registers, as both block routines count it.\<close>

definition list_count :: "u32 \<Rightarrow> u16" where
  "list_count opc =
     (let x = ucast (opc AND 0xFFFF) :: u16;
          x = (x AND 0x5555) + (drop_bit 1 x AND 0x5555);
          x = (x AND 0x3333) + (drop_bit 2 x AND 0x3333);
          x = (x AND 0x00ff) + drop_bit 8 x
      in (x AND 0x000f) + drop_bit 4 x)"

text \<open>The switch on the addressing mode: the base to write back and the first address.\<close>

definition bdt_bases :: "u32 \<Rightarrow> u32 \<Rightarrow> u32 \<times> u32" where
  "bdt_bases opc base =
     (let n = push_bit 2 (ucast (list_count opc)); k = drop_bit 23 opc AND 3 in
      if k = 0 then (base - n, (base - n) + 4)
      else if k = 1 then (base + n, base)
      else if k = 2 then (base - n, base - n)
      else (base + n, base + 4))"

lemma half_list: "(list :: u16) \<noteq> 0 \<Longrightarrow> unat (drop_bit 1 list) < unat list"
proof -
  assume "list \<noteq> 0"
  then have "0 < unat list" by (simp add: unat_gt_0)
  then show ?thesis by (simp add: drop_bit_Suc unat_div)
qed

function ldm_loop ::
  "'e devices \<Rightarrow> (nat \<Rightarrow> u32 \<Rightarrow> arm_core \<Rightarrow> arm_core) \<Rightarrow> u16 \<Rightarrow> nat \<Rightarrow> u32 \<Rightarrow> 'e sys \<Rightarrow> 'e sys" where
  "ldm_loop D put list i base_comp s =
     (if list = 0 then s
      else
        (let (s, base_comp) =
               (if list AND 1 \<noteq> 0 then
                  (let (tmp, s) = mreadw D base_comp s in (on_cpu (put i tmp) s, base_comp + 4))
                else (s, base_comp))
         in ldm_loop D put (drop_bit 1 list) (i + 1) base_comp s))"
  by pat_completeness auto
termination
  by (relation "measure (\<lambda>(_, _, list, _). unat list)") (use half_list in auto)

declare ldm_loop.simps [simp del]

definition ldm_accur :: "'e devices \<Rightarrow> u32 \<Rightarrow> u32 \<Rightarrow> nat \<Rightarrow> 'e sys \<Rightarrow> 'e sys" where
  "ldm_accur D opc base rn_ind s =
     (let x = list_count opc; list = ucast (opc AND 0xFFFF);
          (base, base_comp) = bdt_bases opc base;
          s = (if flag 22 opc \<and> \<not> (opc AND 0x8000 \<noteq> 0) then
                 (let s = (if flag 21 opc then on_cpu (loadusr rn_ind base) s else s)
                  in ldm_loop D loadusr list 0 base_comp s)
               else
                 (let s = (if flag 21 opc then on_cpu (set_reg rn_ind base) s else s);
                      s = ldm_loop D set_reg list 0 base_comp s
                  in if flag 22 opc \<and> arm_mode_table (MODE (cpu s)) \<noteq> 0
                     then on_cpu (\<lambda>c. arm_cpsr_set (SPSR c (arm_mode_table (MODE c))) c) s
                     else s))
      in spend ((int (unat x) - 1) * SCYCLE + NCYCLE + ICYCLE) s)"

text \<open>The store loop also says whether it returned early.\<close>

function stm_loop ::
  "'e devices \<Rightarrow> (nat \<Rightarrow> arm_core \<Rightarrow> u32) \<Rightarrow> u16 \<Rightarrow> nat \<Rightarrow> u32 \<Rightarrow> 'e sys \<Rightarrow> bool \<times> u32 \<times> 'e sys" where
  "stm_loop D get list i base_comp s =
     (if list = 0 then (False, base_comp, s)
      else if list AND 1 \<noteq> 0 then
        (let s = mwritew D base_comp (get i (cpu s)) s
         in if reset_pending s then (True, base_comp, s)
            else stm_loop D get (drop_bit 1 list) (i + 1) (base_comp + 4) s)
      else stm_loop D get (drop_bit 1 list) (i + 1) base_comp s)"
  by pat_completeness auto
termination
  by (relation "measure (\<lambda>(_, _, list, _). unat list)") (use half_list in auto)

declare stm_loop.simps [simp del]

definition stm_accur :: "'e devices \<Rightarrow> u32 \<Rightarrow> u32 \<Rightarrow> nat \<Rightarrow> 'e sys \<Rightarrow> 'e sys" where
  "stm_accur D opc base rn_ind s =
     (let x = list_count opc; list = ucast (opc AND 0x7FFF);
          (base, base_comp) = bdt_bases opc base;
          put = (if flag 22 opc then loadusr else set_reg);
          get = (if flag 22 opc then readusr else (\<lambda>i c. USER c i));
          s = (if flag 21 opc \<and> opc AND (push_bit rn_ind 1 - 1) \<noteq> 0 then on_cpu (put rn_ind base) s else s);
          (returned, base_comp, s) = stm_loop D get list 0 base_comp s
      in if returned then s
         else
           (let s = (if flag 21 opc then on_cpu (put rn_ind base) s else s);
                s = (if opc AND 0x8000 \<noteq> 0 then mwritew D base_comp (USER (cpu s) 15 + 8) s else s)
            in if opc AND 0x8000 \<noteq> 0 \<and> reset_pending s then s
               else spend ((int (unat x) - 2) * SCYCLE + NCYCLE + NCYCLE) s))"

definition bdt_core :: "'e devices \<Rightarrow> u32 \<Rightarrow> 'e sys \<Rightarrow> 'e sys" where
  "bdt_core D opc s =
     (let rn_ind = reg_field 16 opc;
          base = (if rn_ind = 0xF then USER (cpu s) rn_ind + 8 else USER (cpu s) rn_ind)
      in if flag 20 opc
         then ldm_accur D opc base rn_ind (if opc AND 0x8000 \<noteq> 0 then spend (SCYCLE + NCYCLE) s else s)
         else stm_accur D opc base rn_ind s)"

section \<open>Swap\<close>

definition ARM_SWAP :: "'e devices \<Rightarrow> u32 \<Rightarrow> 'e sys \<Rightarrow> 'e sys" where
  "ARM_SWAP D cmd s =
     (let s = add_pc 4 s;
          addr = USER (cpu s) (reg_field 16 cmd);
          s = add_pc 4 s;
          val = USER (cpu s) (reg_field 0 cmd);
          s = add_pc (- 8) s
      in if flag 22 cmd then
           (let tmp = mreadb addr s in
            if aborted s then s
            else
              (let s = mwriteb addr (ucast val) s in
               if reset_pending s then s
               else if aborted s then s
               else on_cpu (set_reg (reg_field 12 cmd) tmp) s))
         else
           (let (tmp, s) = mreadw D addr s in
            if aborted s then s
            else
              (let s = mwritew D addr val s in
               if reset_pending s then s
               else if aborted s then s
               else
                 (let n = unat (push_bit 3 (addr AND 3));
                      tmp = (if addr AND 3 \<noteq> 0 then drop_bit n tmp OR push_bit (32 - n) tmp else tmp)
                  in on_cpu (set_reg (reg_field 12 cmd) tmp) s))))"

section \<open>Multiply\<close>

definition exec_mul :: "u32 \<Rightarrow> 'e sys \<Rightarrow> 'e sys" where
  "exec_mul cmd s =
     (let res = drop_bit 1 (calcbits (USER (cpu s) (reg_field 8 cmd)) + 5) - 1;
          s = spend (if res > 16 then 16 else int (unat res)) s;
          R = USER (cpu s); acc = USER (cpu (add_pc 8 s)) (reg_field 12 cmd);
          res = (if reg_field 16 cmd = reg_field 0 cmd then (if flag 21 cmd then acc else 0)
                 else if flag 21 cmd then R (reg_field 0 cmd) * R (reg_field 8 cmd) + acc
                 else R (reg_field 0 cmd) * R (reg_field 8 cmd));
          s = (if flag 20 cmd then on_cpu (ARM_SET_ZN res) s else s)
      in on_cpu (set_reg (reg_field 16 cmd) res) s)"

section \<open>Data processing\<close>

text \<open>The shift amount and kind of an immediate shift; both users of the shifter decode it this way.\<close>

definition imm_shift :: "u32 \<Rightarrow> nat \<times> nat" where
  "imm_shift cmd =
     (let shift = unat (drop_bit 7 cmd AND 0x1F); shtype = unat (drop_bit 5 cmd AND 0x3) in
      if shift = 0 then
        (if shtype \<noteq> 0 then (if shtype = 3 then (shift, shtype + 1) else (32, shtype)) else (shift, shtype))
      else (shift, shtype))"

definition exec_alu :: "u32 \<Rightarrow> 'e sys \<Rightarrow> 'e sys" where
  "exec_alu cmd s =
     (let pc_tmp = USER (cpu s) 15;
          s = add_pc 4 s;
          (op1, op2, s) =
            (if flag 25 cmd then
               (let (v, a) = ARM_SHIFT_NSC (cmd AND 0xFF) (unat (drop_bit 7 cmd AND 0x1E)) 3 (ARM s);
                    s = s\<lparr>ARM := a\<rparr>
                in (USER (cpu s) (reg_field 16 cmd), v, s))
             else
               (let (shift, shtype, s) =
                      (if flag 4 cmd
                       then (unat (USER (cpu s) (reg_field 8 cmd) AND 0xFF), unat (drop_bit 5 cmd AND 0x3), add_pc 4 s)
                       else (fst (imm_shift cmd), snd (imm_shift cmd), s));
                    op2 = USER (cpu s) (reg_field 0 cmd);
                    op1 = USER (cpu s) (reg_field 16 cmd);
                    s = (if flag 4 cmd then spend ICYCLE s else s);
                    (v, a) = ARM_SHIFT_NSC op2 shift shtype (ARM s)
                in (op1, v, s\<lparr>ARM := a\<rparr>)));
          s = on_cpu (set_reg 15 pc_tmp) s;
          s = (if flag 20 cmd \<and> is_logic (reg_field 21 cmd) then on_cpu (ARM_SET_C (carry_out (ARM s))) s else s);
          (keep, c) = ARM_ALU_Exec cmd (unat (drop_bit 20 cmd AND 0x1F)) op1 op2 (reg_field 12 cmd) (cpu s);
          s = on_cpu (\<lambda>_. c) s
      in if keep then s
         else if reg_field 12 cmd = 0xF then
           spend (ICYCLE + NCYCLE)
             (if flag 20 cmd then on_cpu (\<lambda>c. arm_cpsr_set (SPSR c (arm_mode_table (MODE c))) c) s else s)
         else s)"

section \<open>Undefined instruction and branch\<close>

text \<open>The same statements at the label \<open>Undefine\<close> and in the coprocessor case.\<close>

definition exec_undefined :: "'e sys \<Rightarrow> 'e sys" where
  "exec_undefined s =
     spend (SCYCLE + NCYCLE) (on_cpu (\<lambda>c.
       let c = set_spsr (arm_mode_table 0x1b) (CPSR c) c;
           c = SETI True c;
           c = SETM 0x1b c;
           c = set_reg 14 (USER c 15) c
       in set_reg 15 0x00000004 c) s)"

definition exec_branch :: "u32 \<Rightarrow> 'e sys \<Rightarrow> 'e sys" where
  "exec_branch cmd s =
     (let s = (if flag 24 cmd then on_cpu (\<lambda>c. set_reg 14 (USER c 15) c) s else s);
          s = add_pc (push_bit 2 ((cmd AND 0x00FFFFFF) OR (if cmd AND 0x00800000 \<noteq> 0 then 0xFF000000 else 0)) + 4) s
      in spend (SCYCLE + NCYCLE) s)"

section \<open>Single data transfer\<close>

definition exec_sdt :: "'e devices \<Rightarrow> u32 \<Rightarrow> 'e sys \<Rightarrow> 'e sys" where
  "exec_sdt D cmd s =
     (let pc_tmp = USER (cpu s) 15;
          s = add_pc 4 s;
          (oper2, s) =
            (if flag 25 cmd then
               (let (shift, shtype, s) =
                      (if flag 4 cmd
                       then (unat (USER (cpu s) (reg_field 8 cmd) AND 0xFF), unat (drop_bit 5 cmd AND 0x3), add_pc 4 s)
                       else (fst (imm_shift cmd), snd (imm_shift cmd), s));
                    (v, a) = ARM_SHIFT_NSC (USER (cpu s) (reg_field 0 cmd)) shift shtype (ARM s)
                in (v, s\<lparr>ARM := a\<rparr>))
             else (cmd AND 0x0FFF, s));
          base = USER (cpu s) (reg_field 16 cmd);
          oper2 = (if \<not> flag 23 cmd then 0 - oper2 else oper2);
          tbas = (if flag 24 cmd then base + oper2 else base);
          base = base + oper2;
          wb = flag 21 cmd \<or> \<not> flag 24 cmd;
          usr = flag 21 cmd \<and> \<not> flag 24 cmd;
          rd = reg_field 12 cmd
      in if flag 20 cmd then
           (let (val, s) =
                  (if flag 22 cmd then (mreadb tbas s, s)
                   else
                     (let rora = unat (tbas AND 3); (v, s) = mreadw D tbas s
                      in (if rora \<noteq> 0 \<and> \<not> aborted s then ROTR v (rora * 8) else v, s)));
                s = on_cpu (set_reg 15 pc_tmp) s
            in if aborted s then on_arm arm_data_abort s
               else
                 (let s = (if rd = 0xF then spend (SCYCLE + NCYCLE) s else s);
                      s = spend (NCYCLE + ICYCLE) s;
                      s = (if wb then on_cpu (set_reg (reg_field 16 cmd) base) s else s)
                  in if usr then on_cpu (loadusr rd val) s else on_cpu (set_reg rd val) s))
         else
           (let val = (if usr then readusr rd (cpu s) else USER (cpu s) rd);
                s = on_cpu (set_reg 15 pc_tmp) s;
                s = spend (- SCYCLE + 2 * NCYCLE) s;
                s = (if flag 22 cmd then mwriteb tbas (ucast val) s else mwritew D tbas val s)
            in if reset_pending s then s
               else if aborted s then on_arm arm_data_abort s
               else if wb then on_cpu (set_reg (reg_field 16 cmd) base) s else s))"

section \<open>Dispatch\<close>

text \<open>The label \<open>Undefine\<close>, case 4 after it, and the jump back.\<close>

partial_function (option) Undefine :: "'e devices \<Rightarrow> u32 \<Rightarrow> 'e sys \<Rightarrow> 'e sys option" where
  "Undefine D cmd s =
     (if cmd AND 0x0e000010 = 0x06000010 then Some (exec_undefined s)
      else if cmd AND 0x2000090 \<noteq> 0x2000090 then Some (exec_sdt D cmd s)
      else Undefine D cmd s)"

definition case_sdt :: "'e devices \<Rightarrow> u32 \<Rightarrow> 'e sys \<Rightarrow> 'e sys option" where
  "case_sdt D cmd s = (if cmd AND 0x2000090 \<noteq> 0x2000090 then Some (exec_sdt D cmd s) else Undefine D cmd s)"

definition case_alu :: "'e devices \<Rightarrow> u32 \<Rightarrow> 'e sys \<Rightarrow> 'e sys option" where
  "case_alu D cmd s = (if cmd AND 0x2000090 \<noteq> 0x90 then Some (exec_alu cmd s) else Undefine D cmd s)"

definition case_swap :: "'e devices \<Rightarrow> u32 \<Rightarrow> 'e sys \<Rightarrow> 'e sys option" where
  "case_swap D cmd s =
     (if cmd AND 0x0fb00ff0 = 0x01000090 then
        (let s = spend (2 * NCYCLE + ICYCLE) (ARM_SWAP D cmd s)
         in Some (if reset_pending s then s else if aborted s then on_arm arm_data_abort s else s))
      else case_alu D cmd s)"

definition case_mul :: "'e devices \<Rightarrow> u32 \<Rightarrow> 'e sys \<Rightarrow> 'e sys option" where
  "case_mul D cmd s = (if cmd AND 0x0fc000f0 = 0x00000090 then Some (exec_mul cmd s) else case_swap D cmd s)"

definition exec_swi :: "u32 \<Rightarrow> 'e sys \<Rightarrow> 'e sys" where
  "exec_swi cmd s = (let (a, m) = decode_swi cmd (ARM s, MEM s) in s\<lparr>ARM := a, MEM := m\<rparr>)"

definition exec_bdt :: "'e devices \<Rightarrow> u32 \<Rightarrow> 'e sys \<Rightarrow> 'e sys" where
  "exec_bdt D cmd s = (let s = bdt_core D cmd s in if aborted s then on_arm arm_data_abort s else s)"

definition exec_switch :: "'e devices \<Rightarrow> u32 \<Rightarrow> 'e sys \<Rightarrow> 'e sys option" where
  "exec_switch D cmd s =
     (let k = unat (drop_bit 24 cmd AND 0xF) in
      if k = 0 then case_mul D cmd s
      else if k = 1 then case_swap D cmd s
      else if k = 2 \<or> k = 3 then case_alu D cmd s
      else if k = 6 \<or> k = 7 then Undefine D cmd s
      else if k = 4 \<or> k = 5 then case_sdt D cmd s
      else if k = 8 \<or> k = 9 then Some (exec_bdt D cmd s)
      else if k = 10 \<or> k = 11 then Some (exec_branch cmd s)
      else if k = 15 then Some (exec_swi cmd s)
      else Some (exec_undefined s))"

definition take_fiq :: "'e devices \<Rightarrow> 'e sys \<Rightarrow> 'e sys" where
  "take_fiq D s =
     (if \<not> ISF (cpu s) \<and> opera_clio_fiq_needed D s then
        on_cpu (\<lambda>c.
          let c = c\<lparr>nFIQ := 0\<rparr>;
              c = set_spsr (arm_mode_table 0x11) (CPSR c) c;
              c = SETF True c;
              c = SETI True c;
              c = SETM 0x11 c;
              c = set_reg 14 (USER c 15 + 4) c
          in set_reg 15 0x0000001C c) s
      else s)"

definition opera_arm_execute :: "'e devices \<Rightarrow> 'e sys \<Rightarrow> (int \<times> 'e sys) option" where
  "opera_arm_execute D s =
     (let (cmd, s) = mfetchw D (USER (cpu s) 15) s;
          s = add_pc 4 s;
          s = on_arm (\<lambda>a. a\<lparr>CYCLES := - SCYCLE\<rparr>) s;
          isexeption = (cmd = 0xE5101810 \<and> CPSR (cpu s) = 0x80000093)
      in case (if cond_passes cmd (CPSR (cpu s)) \<and> \<not> isexeption then exec_switch D cmd s else Some s) of
           None \<Rightarrow> None
         | Some s \<Rightarrow>
             if reset_pending s
             then Some (- CYCLES (ARM s), on_arm (\<lambda>a. a\<lparr>g_SOFT_RESET_PENDING := False\<rparr>) s)
             else (let s = take_fiq D s in Some (- CYCLES (ARM s), s)))"

end
