(* ===== verification/Opera_Arm_Exec_Props.thy ===== *)
theory Opera_Arm_Exec_Props
  imports Opera_Arm_Exec Opera_Arm_Bus_Props Opera_Arm_Alu_Props
begin

text \<open>
  Properties of instruction execution: every instruction returns, the four exceptions enter their
  modes with the interrupted state saved and return to it, branches reach the encoded target.
\<close>

section \<open>Every instruction returns\<close>

lemma undefine_returns:
  assumes "cmd AND 0x2000090 \<noteq> 0x2000090 \<or> cmd AND 0x0e000010 = 0x06000010"
  shows "Undefine D cmd s \<noteq> None"
  using assms by (subst Undefine.simps) auto

lemma and_push: "cmd AND push_bit n w = push_bit n (drop_bit n cmd AND w)" for cmd w :: u32
  by (rule bit_word_eqI) (auto simp: bit_and_iff bit_push_bit_iff bit_drop_bit_eq)

lemma bit_test: "cmd AND push_bit n 1 \<noteq> 0 \<longleftrightarrow> bit cmd n" for cmd :: u32
proof
  assume "bit cmd n"
  moreover from this have "n < 32" by (auto dest: bit_imp_le_length)
  ultimately have "bit (cmd AND push_bit n 1) n"
    by (simp only: bit_and_iff bit_push_bit_iff bit_1_iff possible_bit_word) simp
  then show "cmd AND push_bit n 1 \<noteq> 0" by auto
next
  assume "cmd AND push_bit n 1 \<noteq> 0"
  then obtain k where "bit (cmd AND push_bit n 1) k" by (metis bit_eqI bit_0_eq bot_apply bot_bool_def)
  then have "bit cmd k" "k = n" by (simp_all only: bit_and_iff bit_push_bit_iff bit_1_iff) simp
  then show "bit cmd n" by simp
qed

lemma flag_bit [simp]: "flag n cmd = bit cmd n"
  by (simp only: flag_def bit_test)

lemma top_field:
  fixes cmd :: u32
  assumes "unat (drop_bit 24 cmd AND 0xF) = k" shows "cmd AND 0x0f000000 = push_bit 24 (of_nat k)"
proof -
  have "drop_bit 24 cmd AND 0xF = of_nat k" using arg_cong [OF assms, of "of_nat :: nat \<Rightarrow> u32"] by simp
  then show ?thesis using and_push [of cmd 24 "0xF"] by simp
qed

lemma mask_split: "cmd AND (p OR q) = (cmd AND p) OR (cmd AND q)" for cmd p q :: u32
  by (rule bit_word_eqI) (auto simp: bit_simps)


section \<open>Exceptions\<close>

datatype exception = Undefined | Swi | Abort | Fiq

fun taken :: "'e devices \<Rightarrow> exception \<Rightarrow> 'e sys \<Rightarrow> 'e sys" where
  "taken D Undefined s = exec_undefined s"
| "taken D Swi s = on_arm decode_swi_lle s"
| "taken D Abort s = on_arm arm_data_abort s"
| "taken D Fiq s = take_fiq D s"

text \<open>Mode number, entry, vector and the distance of the return address.\<close>

fun exc_mode :: "exception \<Rightarrow> nat" where
  "exc_mode Undefined = 5" | "exc_mode Swi = 3" | "exc_mode Abort = 4" | "exc_mode Fiq = 1"

fun exc_bits :: "exception \<Rightarrow> u32" where
  "exc_bits Undefined = 0x1b" | "exc_bits Swi = 0x13" | "exc_bits Abort = 0x17" | "exc_bits Fiq = 0x11"

fun exc_vector :: "exception \<Rightarrow> u32" where
  "exc_vector Undefined = 0x04" | "exc_vector Swi = 0x08" | "exc_vector Abort = 0x10" | "exc_vector Fiq = 0x1C"

fun exc_offset :: "exception \<Rightarrow> u32" where
  "exc_offset Undefined = 0" | "exc_offset Swi = 0" | "exc_offset Abort = 4" | "exc_offset Fiq = 4"

text \<open>What the four entries share.\<close>

definition enter :: "exception \<Rightarrow> arm_core \<Rightarrow> arm_core" where
  "enter e c =
     (let d = set_spsr (exc_mode e) (CPSR c) c;
          d = SETM (exc_bits e) (SETI True (if e = Fiq then SETF True d else d))
      in set_reg 15 (exc_vector e) (set_reg 14 (USER d 15 + exc_offset e) d))"

lemma taken_enters:
  assumes "e = Fiq \<Longrightarrow> \<not> ISF (cpu s) \<and> opera_clio_fiq_needed D s"
  shows "\<exists>x y. cpu (taken D e s) = (enter e ((cpu s)\<lparr>nFIQ := y\<rparr>))\<lparr>MAS_Access_Exept := x\<rparr>"
proof (cases e)
  case Undefined
  then have "cpu (taken D e s) = (enter e ((cpu s)\<lparr>nFIQ := nFIQ (cpu s)\<rparr>))\<lparr>MAS_Access_Exept := MAS_Access_Exept (enter e (cpu s))\<rparr>"
    by (simp add: exec_undefined_def enter_def spend_def on_arm_def on_cpu_def Let_def arm_mode_table_def)
  then show ?thesis by blast
next
  case Swi
  then have "cpu (taken D e s) = (enter e ((cpu s)\<lparr>nFIQ := nFIQ (cpu s)\<rparr>))\<lparr>MAS_Access_Exept := MAS_Access_Exept (enter e (cpu s))\<rparr>"
    by (simp add: decode_swi_lle_def enter_def on_arm_def Let_def arm_mode_table_def)
  then show ?thesis by blast
next
  case Abort
  then have "cpu (taken D e s) = (enter e ((cpu s)\<lparr>nFIQ := nFIQ (cpu s)\<rparr>))\<lparr>MAS_Access_Exept := 0\<rparr>"
    by (simp add: arm_data_abort_def enter_def on_arm_def Let_def arm_mode_table_def)
  then show ?thesis by blast
next
  case Fiq
  then have "cpu (taken D e s) =
      (enter e ((cpu s)\<lparr>nFIQ := 0\<rparr>))\<lparr>MAS_Access_Exept := MAS_Access_Exept (enter e ((cpu s)\<lparr>nFIQ := 0\<rparr>))\<rparr>"
    using assms by (simp add: take_fiq_def enter_def on_cpu_def Let_def arm_mode_table_def)
  then show ?thesis by blast
qed

lemma view_setif [simp]:
  "cur_mode (SETI b c) = cur_mode c" "cur_mode (SETF b c) = cur_mode c"
  "view (SETI b c) = view c" "view (SETF b c) = view c"
  "SPSR (SETI b c) = SPSR c" "SPSR (SETF b c) = SPSR c" "USER (SETI b c) = USER c" "USER (SETF b c) = USER c"
proof -
  have "((x AND 0xffffff7f) OR 0x80) AND 0x1F = x AND 0x1F" "((x AND 0xffffffbf) OR 0x40) AND 0x1F = x AND 0x1F" for x :: u32
    by (simp_all add: bit.conj_disj_distrib2 and.assoc)
  then show m: "cur_mode (SETI b c) = cur_mode c" "cur_mode (SETF b c) = cur_mode c"
    by (simp_all add: cur_mode_def SETI_def SETF_def and.assoc)
  show "view (SETI b c) = view c" "view (SETF b c) = view c"
    unfolding view_def m by (simp_all add: SETI_def SETF_def)
qed (simp_all add: SETI_def SETF_def)

lemma view_nfiq [simp]: "view (c\<lparr>nFIQ := y\<rparr>) = view c" "cur_mode (c\<lparr>nFIQ := y\<rparr>) = cur_mode c"
  "cur_mode (c\<lparr>MAS_Access_Exept := x\<rparr>) = cur_mode c"
  by (simp_all add: view_def view_at_def cur_mode_def fun_eq_iff)

lemma setm_fields [simp]: "SPSR (SETM a c) = SPSR c" "CPSR (SETM a c) = (CPSR c AND 0xffffffe0) OR ((a OR 0x10) AND 0x1F)"
  by (simp_all add: SETM_def Let_def)

lemma exc_target: "target_mode (exc_bits e) = exc_mode e" "exc_mode e < 6"
  by (cases e; simp add: target_mode_def arm_mode_table_def)+

lemma exc_irq: "bit ((x AND 0xffffffe0) OR ((exc_bits e OR 0x10) AND 0x1F)) n = bit x n" if "5 \<le> n" for x
proof -
  have lo: "\<not> bit ((exc_bits e OR 0x10) AND 0x1F) n"
  proof -
    have "(exc_bits e OR 0x10) AND 0x1F = take_bit 5 (exc_bits e OR 0x10)" by (simp add: take_bit_eq_mask mask_eq_exp_minus_1)
    then show ?thesis using that by (simp only: bit_take_bit_iff) simp
  qed
  have "(0xffffffe0 :: u32) = NOT (mask 5)" by (simp add: mask_eq_exp_minus_1)
  then have "bit (0xffffffe0 :: u32) n \<longleftrightarrow> n < 32" using that
    by (simp only: bit_not_iff bit_mask_iff possible_bit_word) auto
  then show ?thesis using lo by (auto simp: bit_or_iff bit_and_iff dest: bit_imp_le_length)
qed

lemma enter_state:
  assumes "cur_mode c < 6"
  shows "cur_mode (enter e c) = exc_mode e" "SPSR (enter e c) (exc_mode e) = CPSR c"
    "USER (enter e c) 15 = exc_vector e" "USER (enter e c) 14 = USER c 15 + exc_offset e"
    "bit (CPSR (enter e c)) 7"
    "t < 6 \<Longrightarrow> n < 15 \<Longrightarrow> \<not> (t = exc_mode e \<and> n = 14) \<Longrightarrow> view (enter e c) t n = view c t n"
proof -
  define b where "b = (if e = Fiq then SETF True (set_spsr (exc_mode e) (CPSR c) c) else set_spsr (exc_mode e) (CPSR c) c)"
  define d where "d = SETM (exc_bits e) (SETI True b)"
  have b: "cur_mode b = cur_mode c" "view b = view c" "SPSR b (exc_mode e) = CPSR c" "USER b = USER c"
    by (simp_all add: b_def) (simp_all add: set_spsr_def)
  have d: "cur_mode d = exc_mode e" "\<And>t n. t < 6 \<Longrightarrow> view d t n = view c t n"
    using setm.sw_mode [of "exc_bits e" "SETI True b"] setm.sw_view [of "SETI True b" "exc_bits e"] b assms
    by (simp_all add: d_def exc_target)
  have pc: "USER d 15 = USER c 15" using d(2) [of 0 15] by (simp add: view_def view_at_def)
  have e: "enter e c = set_reg 15 (exc_vector e) (set_reg 14 (USER d 15 + exc_offset e) d)"
    by (simp add: enter_def d_def b_def Let_def)
  have m: "cur_mode (set_reg k v f) = cur_mode f" "SPSR (set_reg k v f) = SPSR f" "CPSR (set_reg k v f) = CPSR f" for k v f
    by (simp_all add: cur_mode_def set_reg_def)
  show "cur_mode (enter e c) = exc_mode e" by (simp add: e m d(1))
  show "SPSR (enter e c) (exc_mode e) = CPSR c" by (simp add: e m d_def b(3))
  show "USER (enter e c) 15 = exc_vector e" "USER (enter e c) 14 = USER c 15 + exc_offset e"
    by (simp_all add: e set_reg_def pc)
  show "bit (CPSR (enter e c)) 7"
    unfolding e m d_def setm_fields by (simp add: exc_irq SETI_def bit_simps)
  show "view (enter e c) t n = view c t n" if "t < 6" "n < 15" "\<not> (t = exc_mode e \<and> n = 14)"
    unfolding e using that d by (auto simp: view_reg_cur [OF d(1)] view_reg_cur [OF trans [OF m(1) d(1)]])
qed

text \<open>C33. Exception entry: an undefined instruction, a software interrupt, a data abort and a fast
  interrupt each put the processor in their mode at their vector with interrupts disabled, save
  the interrupted status in the mode's saved status and the return address in its register 14, and
  leave every other register of every mode untouched.\<close>

theorem arm_exception_entry:
  assumes "cur_mode (cpu s) < 6" "e = Fiq \<longrightarrow> \<not> ISF (cpu s) \<and> opera_clio_fiq_needed D s"
  shows "let c = cpu s; c' = cpu (taken D e s); k = exc_mode e
    in cur_mode c' = k \<and> SPSR c' k = CPSR c \<and> USER c' 15 = exc_vector e \<and>
       USER c' 14 = USER c 15 + exc_offset e \<and> bit (CPSR c') 7 \<and>
       (\<forall>t<6. \<forall>n<15. \<not> (t = k \<and> n = 14) \<longrightarrow> view c' t n = view c t n)"
proof -
  obtain x y where c: "cpu (taken D e s) = (enter e ((cpu s)\<lparr>nFIQ := y\<rparr>))\<lparr>MAS_Access_Exept := x\<rparr>"
    using taken_enters [of e s D] assms(2) by blast
  show ?thesis
    using enter_state [where c = "(cpu s)\<lparr>nFIQ := y\<rparr>" and e = e] assms(1) by (simp add: Let_def c)
qed

theorem arm_exception_entry_witness:
  "USER (cpu (taken no_devices Swi demo_sys)) 15 = 8 \<and> SPSR (cpu (taken no_devices Swi demo_sys)) 3 = 0x20000011"
proof -
  have "cpu demo_sys = demo_core\<lparr>CPSR := 0x20000011\<rparr>"
    by (simp add: demo_sys_def set_rom_overlay_def demo_arm_def)
  then have "cur_mode (cpu demo_sys) < 6" "CPSR (cpu demo_sys) = 0x20000011"
    by (simp_all add: cur_mode_def arm_mode_table_def)
  then show ?thesis using arm_exception_entry [of demo_sys Swi no_devices] by (simp add: Let_def)
qed

lemma or10_kept:
  assumes "MODE c OR 0x10 = MODE c"
  shows "(CPSR c OR 0x10) AND 0xf00000df = CPSR c AND 0xf00000df"
proof -
  have "bit (MODE c OR 0x10) 4" by (simp add: bit_simps)
  then have b: "bit (CPSR c) 4" using assms by (simp add: bit_and_iff)
  have "bit (push_bit 4 1 :: u32) n \<longleftrightarrow> n = 4" for n by (simp only: bit_push_bit_iff bit_1_iff possible_bit_word) auto
  then have "CPSR c OR push_bit 4 1 = CPSR c"
    using b by (intro bit_word_eqI) (auto simp only: bit_or_iff)
  then show ?thesis by simp
qed



section \<open>Branch\<close>

lemma branch_offset:
  "push_bit 2 ((cmd AND 0x00FFFFFF) OR (if cmd AND 0x00800000 \<noteq> 0 then 0xFF000000 else 0)) =
   word_of_int (4 * signed_take_bit 23 (uint cmd))" for cmd :: u32
proof -
  have "(cmd AND 0x00FFFFFF) OR (if cmd AND 0x00800000 \<noteq> 0 then 0xFF000000 else 0) = signed_take_bit 23 cmd"
  proof -
    have m: "(0x00FFFFFF :: u32) = mask 24" "(0xFF000000 :: u32) = NOT (mask 24)" "(0x00800000 :: u32) = push_bit 23 1"
      by (simp_all add: mask_eq_exp_minus_1)
    have t: "n = 23 \<or> 23 < n" if "23 \<le> n" for n :: nat using that by linarith
    show ?thesis unfolding m bit_test
      by (intro bit_word_eqI)
        (auto simp: bit_signed_take_bit_iff bit_or_iff bit_and_iff bit_mask_iff bit_not_iff min_def dest!: t)
  qed
  moreover have "signed_take_bit 23 cmd = word_of_int (signed_take_bit 23 (uint cmd))"
    by (rule bit_word_eqI) (auto simp: bit_signed_take_bit_iff bit_word_of_int_iff bit_uint_iff min_def)
  ultimately show ?thesis by (simp add: push_bit_eq_mult)
qed

text \<open>A branch goes where its instruction says: to the address of the instruction plus eight plus four
  times the signed 24-bit offset, with the address of the next instruction in register 14 exactly
  when it links, and no other register changed.\<close>

theorem arm_branch_target:
  "USER (cpu (exec_branch cmd (add_pc 4 s))) =
     (let R = USER (cpu s); pc = R 15;
          R = (if flag 24 cmd then R(14 := pc + 4) else R)
      in R(15 := pc + 8 + word_of_int (4 * signed_take_bit 23 (uint cmd))))"
  unfolding exec_branch_def branch_offset
  by (simp add: Let_def add_pc_def on_cpu_def spend_def on_arm_def set_reg_def fun_eq_iff algebra_simps)

end
