(* ===== verification/Opera_Arm_Stack_Props.thy ===== *)
theory Opera_Arm_Stack_Props
  imports Opera_Arm_Block_Props
begin

text \<open>
  Block transfers in RAM: what a store loop leaves in memory, what a load loop takes from it, and
  the push and pop of a register list.
\<close>

section \<open>Blocks of words in RAM\<close>

definition ram_block :: "'e sys \<Rightarrow> u32 \<Rightarrow> nat \<Rightarrow> bool" where
  "ram_block s a n \<longleftrightarrow> bus_ok s \<and> \<not> g_ROM_OVERLAY (ARM s) \<and> unat a + 4 * n \<le> unat (RAM_SIZE (MEM s))"

definition word_at :: "memory \<Rightarrow> u32 \<Rightarrow> u32" where
  "word_at m a = opera_mem_read32 m (align4 a)"

lemma ram_block_head: "ram_block s a (Suc n) \<Longrightarrow> a < RAM_SIZE (MEM s)"
  by (simp add: ram_block_def word_less_nat_alt)

lemma read_ram: "ram_block s a (Suc n) \<Longrightarrow> mreadw D a s = (word_at (MEM s) a, s)"
proof -
  assume r: "ram_block s a (Suc n)"
  then have b: "bus_ok s" "\<not> g_ROM_OVERLAY (ARM s)" by (simp_all add: ram_block_def)
  then show ?thesis
    using ram_block_head [OF r] align_less [OF bus_sizes(1) [OF b(1)], of a]
    by (simp add: mreadw_def overlay_limits [OF b(1)] word_at_def Let_def)
qed

lemma write_ram_off:
  assumes "ram_block s a (Suc n)"
  shows "mwritew D a v s = s\<lparr>MEM := opera_mem_write32 (align4 a) v (MEM s)\<rparr>"
proof -
  have b: "bus_ok s" "\<not> g_ROM_OVERLAY (ARM s)" using assms by (simp_all add: ram_block_def)
  then have "set_rom_overlay (MEM s) False (ARM s) = ARM s" using overlay_same [of "MEM s" "ARM s"] by (simp add: bus_ok_def)
  then show ?thesis using write_ram(1) [OF b(1) ram_block_head [OF assms]] b(2) by simp
qed

lemma block_next:
  assumes "ram_block s a (Suc n)" "bus_ok t" "\<not> g_ROM_OVERLAY (ARM t)" "RAM_SIZE (MEM t) = RAM_SIZE (MEM s)"
  shows "ram_block t (a + 4) n" "unat (a + 4) = unat a + 4 \<or> n = 0"
proof -
  have le: "unat a + 4 * Suc n \<le> unat (RAM_SIZE (MEM s))" using assms(1) by (simp add: ram_block_def)
  have "unat a + 4 < 4294967296" using le unat_u32_lt [of "RAM_SIZE (MEM s)"]
    ready_unat(1) [of "MEM s"] ready_sizes(1) [of "MEM s"] assms(1) by (simp add: ram_block_def bus_ok_def)
  then have u: "unat (a + 4) = unat a + 4" by (simp add: unat_word_ariths)
  then show "unat (a + 4) = unat a + 4 \<or> n = 0" by simp
  show "ram_block t (a + 4) n" using assms(2-4) le u by (simp add: ram_block_def)
qed

lemma word_step:
  assumes "ram_block s a n" "k < n"
  shows "unat (align4 (a + 4 * of_nat k)) = 4 * (unat a div 4) + 4 * k" "a + 4 * of_nat k < RAM_SIZE (MEM s)"
proof -
  have "unat a + 4 * n \<le> unat (RAM_SIZE (MEM s))" using assms(1) by (simp add: ram_block_def)
  then have le: "unat a + 4 * k < unat (RAM_SIZE (MEM s))" using assms(2) by linarith
  then have "unat a + 4 * k < 4294967296" using unat_u32_lt [of "RAM_SIZE (MEM s)"] by linarith
  then have u: "unat (a + 4 * of_nat k) = unat a + 4 * k"
    using of_nat_mult [of 4 k, where 'a = u32] by (simp add: unat_word_ariths unat_of_nat)
  then show "unat (align4 (a + 4 * of_nat k)) = 4 * (unat a div 4) + 4 * k"
    by (simp add: unat_align4)
  show "a + 4 * of_nat k < RAM_SIZE (MEM s)" using u le by (simp add: word_less_nat_alt)
qed

lemma store_word:
  assumes "ram_block s a (Suc n)" "b < RAM_SIZE (MEM s)"
  shows "word_at (opera_mem_write32 (align4 a) v (MEM s)) b = (if align4 b = align4 a then v else word_at (MEM s) b)"
proof -
  have b: "bus_ok s" using assms by (simp add: ram_block_def)
  show ?thesis
    using word_port.wr_cell [OF b ram_block_head [OF assms(1)] assms(2)] write_ram_off [OF assms(1)]
    by (simp add: word_at_def)
qed

lemma bus_ok_cpu: "bus_ok (on_cpu f s) = bus_ok s"
  by (simp add: bus_ok_def on_cpu_def overlay_ok_def)

lemma bus_ok_spend: "bus_ok (spend k s) = bus_ok s"
  by (simp add: bus_ok_def spend_def on_arm_def overlay_ok_def)

section \<open>The loops in RAM\<close>

lemma stm_ram:
  assumes "ram_block s a (length rs)" "\<not> reset_pending s"
  shows "\<exists>m. stm_regs D get rs a s = (False, a + 4 * of_nat (length rs), s\<lparr>MEM := m\<rparr>) \<and>
    bus_ok (s\<lparr>MEM := m\<rparr>) \<and> RAM_SIZE m = RAM_SIZE (MEM s) \<and>
    (\<forall>k < length rs. word_at m (a + 4 * of_nat k) = get (rs ! k) (cpu s)) \<and>
    (\<forall>b. b < RAM_SIZE (MEM s) \<longrightarrow> (\<forall>k < length rs. align4 b \<noteq> align4 (a + 4 * of_nat k)) \<longrightarrow>
       word_at m b = word_at (MEM s) b)"
  using assms
proof (induction rs arbitrary: a s)
  case Nil
  then show ?case by (intro exI [of _ "MEM s"]) (simp add: ram_block_def)
next
  case (Cons r rs)
  let ?n = "length rs" and ?v = "get r (cpu s)"
  let ?t = "s\<lparr>MEM := opera_mem_write32 (align4 a) ?v (MEM s)\<rparr>"
  have blk: "ram_block s a (Suc ?n)" using Cons.prems(1) by simp
  have b: "bus_ok s" "\<not> g_ROM_OVERLAY (ARM s)" using blk by (simp_all add: ram_block_def)
  have w: "mwritew D a ?v s = ?t" by (rule write_ram_off [OF blk])
  have t: "bus_ok ?t" using word_port.wr_ok [OF b(1) ram_block_head [OF blk], of D ?v] w by simp
  note nx = block_next(1) [OF blk t]
  have blk': "ram_block ?t (a + 4) ?n" using nx b(2) by simp
  obtain m where m: "stm_regs D get rs (a + 4) ?t = (False, a + 4 + 4 * of_nat ?n, ?t\<lparr>MEM := m\<rparr>)"
    "bus_ok (?t\<lparr>MEM := m\<rparr>)" "RAM_SIZE m = RAM_SIZE (MEM s)"
    "\<And>k. k < ?n \<Longrightarrow> word_at m (a + 4 + 4 * of_nat k) = get (rs ! k) (cpu s)"
    "\<And>b. b < RAM_SIZE (MEM s) \<Longrightarrow> (\<And>k. k < ?n \<Longrightarrow> align4 b \<noteq> align4 (a + 4 + 4 * of_nat k)) \<Longrightarrow>
       word_at m b = word_at (MEM ?t) b"
    using Cons.IH [OF blk'] Cons.prems(2) by auto
  have shift: "a + 4 + 4 * of_nat k = a + 4 * of_nat (Suc k)" for k by (simp add: algebra_simps)
  have apart: "align4 a \<noteq> align4 (a + 4 * of_nat (Suc k))" if "k < ?n" for k
    using word_step(1) [OF blk, of 0] word_step(1) [OF blk, of "Suc k"] that by (auto simp: word_unat_eq_iff)
  have at0: "word_at m a = ?v"
    using m(5) [OF ram_block_head [OF blk]] apart store_word [OF blk ram_block_head [OF blk]] by (simp add: shift)
  show ?case
  proof (intro exI [of _ m] conjI allI impI)
    show "stm_regs D get (r # rs) a s = (False, a + 4 * of_nat (length (r # rs)), s\<lparr>MEM := m\<rparr>)"
      using m(1) Cons.prems(2) by (simp add: w Let_def algebra_simps)
    show "bus_ok (s\<lparr>MEM := m\<rparr>)" using m(2) by simp
    show "RAM_SIZE m = RAM_SIZE (MEM s)" by (rule m(3))
    show "word_at m (a + 4 * of_nat k) = get ((r # rs) ! k) (cpu s)" if "k < length (r # rs)" for k
      using that at0 m(4) by (cases k) (simp_all add: shift)
    show "word_at m b = word_at (MEM s) b"
      if "b < RAM_SIZE (MEM s)" "\<forall>k < length (r # rs). align4 b \<noteq> align4 (a + 4 * of_nat k)" for b
    proof -
      have "align4 b \<noteq> align4 a" using that(2) by force
      moreover have "align4 b \<noteq> align4 (a + 4 + 4 * of_nat k)" if "k < ?n" for k
        unfolding shift using spec [OF \<open>\<forall>k < length (r # rs). align4 b \<noteq> align4 (a + 4 * of_nat k)\<close>, of "Suc k"] that
        by (simp del: of_nat_Suc)
      then have "word_at m b = word_at (MEM ?t) b" by (rule m(5) [OF that(1)])
      ultimately show ?thesis using store_word [OF blk that(1)] by simp
    qed
  qed
qed

fun load_regs :: "memory \<Rightarrow> nat list \<Rightarrow> u32 \<Rightarrow> regs \<Rightarrow> regs" where
  "load_regs m [] a R = R"
| "load_regs m (r # rs) a R = load_regs m rs (a + 4) (R(r := word_at m a))"

lemma ldm_ram:
  assumes "ram_block s a (length rs)"
  shows "ldm_regs D set_reg rs a s = on_cpu (\<lambda>c. c\<lparr>USER := load_regs (MEM s) rs a (USER c)\<rparr>) s"
  using assms
proof (induction rs arbitrary: a s)
  case Nil
  then show ?case by (simp add: on_cpu_def)
next
  case (Cons r rs)
  have blk: "ram_block s a (Suc (length rs))" using Cons.prems by simp
  let ?t = "on_cpu (set_reg r (word_at (MEM s) a)) s"
  have t: "bus_ok ?t" "\<not> g_ROM_OVERLAY (ARM ?t)" "RAM_SIZE (MEM ?t) = RAM_SIZE (MEM s)" "MEM ?t = MEM s"
    using blk bus_ok_cpu [of "set_reg r (word_at (MEM s) a)" s] by (auto simp: ram_block_def on_cpu_def)
  show ?case
    using Cons.IH [OF block_next(1) [OF blk t(1-3)]] read_ram [OF blk] t(4)
    by (simp add: on_cpu_def set_reg_def)
qed

lemma load_regs_frame: "i \<notin> set rs \<Longrightarrow> load_regs m rs a R i = R i"
  by (induction rs arbitrary: a R) auto

lemma load_regs_at: "distinct rs \<Longrightarrow> k < length rs \<Longrightarrow> load_regs m rs a R (rs ! k) = word_at m (a + 4 * of_nat k)"
proof (induction rs arbitrary: a R k)
  case (Cons r rs)
  show ?case
  proof (cases k)
    case 0
    then show ?thesis using Cons.prems(1) by (simp add: load_regs_frame)
  next
    case (Suc j)
    then have "load_regs m rs (a + 4) (R(r := word_at m a)) (rs ! j) = word_at m (a + 4 + 4 * of_nat j)"
      using Cons by simp
    then show ?thesis using Suc by (simp add: add.assoc)
  qed
qed simp

section \<open>Push and pop\<close>

text \<open>\<open>STMDB sp!,{list}\<close> and \<open>LDMIA sp!,{list}\<close>.\<close>

definition push_cmd :: "u16 \<Rightarrow> u32" where "push_cmd list = 0xE92D0000 OR ucast list"
definition pop_cmd :: "u16 \<Rightarrow> u32" where "pop_cmd list = 0xE8BD0000 OR ucast list"

lemma hi_list: "16 \<le> n \<Longrightarrow> drop_bit n (ucast (list :: u16) :: u32) = 0"
  by (rule bit_word_eqI) (auto simp: bit_simps dest: bit_imp_le_length)

lemma list_bits: "bit (ucast (list :: u16) :: u32) n = bit list n"
  by (auto simp: bit_simps dest: bit_imp_le_length)

lemma cmd_fields:
  "reg_field 16 (push_cmd list) = 13" "drop_bit 23 (push_cmd list) AND 3 = 2" "\<not> bit (push_cmd list) 20"
  "bit (push_cmd list) 21" "\<not> bit (push_cmd list) 22"
  "reg_field 16 (pop_cmd list) = 13" "drop_bit 23 (pop_cmd list) AND 3 = 1" "bit (pop_cmd list) 20"
  "bit (pop_cmd list) 21" "\<not> bit (pop_cmd list) 22"
  by (auto simp: push_cmd_def pop_cmd_def reg_field_def drop_bit_or hi_list bit_or_iff list_bits dest: bit_imp_le_length)

lemma cmd_list:
  "n < 16 \<Longrightarrow> bit (push_cmd list) n = bit list n" "n < 16 \<Longrightarrow> bit (pop_cmd list) n = bit list n"
proof -
  have "(0xE92D0000 :: u32) = push_bit 16 0xE92D" "(0xE8BD0000 :: u32) = push_bit 16 0xE8BD" by simp_all
  then show "n < 16 \<Longrightarrow> bit (push_cmd list) n = bit list n" "n < 16 \<Longrightarrow> bit (pop_cmd list) n = bit list n"
    unfolding push_cmd_def pop_cmd_def by (simp_all only: bit_or_iff list_bits bit_push_bit_iff) auto
qed

lemma cmd_masks:
  assumes "\<not> bit list 15"
  shows "ucast (push_cmd list AND 0x7FFF) = list" "push_cmd list AND 0x8000 = 0" "pop_cmd list AND 0x8000 = 0"
    "ucast (pop_cmd list AND 0xFFFF) = list"
proof -
  have m: "(0x7FFF :: u32) = mask 15" "(0xFFFF :: u32) = mask 16" "(0x8000 :: u32) = push_bit 15 1"
    by (simp_all add: mask_eq_exp_minus_1)
  have top: "n < 15" if "n < 16" "bit list n" for n using that assms by (cases "n = 15") auto
  show "ucast (push_cmd list AND 0x7FFF) = list" "ucast (pop_cmd list AND 0xFFFF) = list"
    unfolding m using top by (auto intro!: bit_word_eqI simp: bit_simps cmd_list)
  show "push_cmd list AND 0x8000 = 0" "pop_cmd list AND 0x8000 = 0"
    unfolding m using assms bit_test [of "push_cmd list" 15] bit_test [of "pop_cmd list" 15] cmd_list [of 15 list] by auto
qed

lemma push_count: "unat (list_count (push_cmd list)) = length (reg_list list 0)"
  "unat (list_count (pop_cmd list)) = length (reg_list list 0)"
proof -
  have "filter (bit (push_cmd list)) [0..<16] = filter (bit list) [0..<16]"
    "filter (bit (pop_cmd list)) [0..<16] = filter (bit list) [0..<16]"
    by (rule filter_cong; simp add: cmd_list)+
  then show "unat (list_count (push_cmd list)) = length (reg_list list 0)"
    "unat (list_count (pop_cmd list)) = length (reg_list list 0)"
    by (simp_all add: list_count_ones reg_list_props)
qed

lemma block_size: "unat c = n \<Longrightarrow> push_bit 2 (ucast (c :: u16) :: u32) = 4 * of_nat n"
  by (auto simp: push_bit_eq_mult)

lemma push_state:
  fixes s :: "'e sys" and list :: u16
  defines "n \<equiv> length (reg_list list 0)" and "sp \<equiv> USER (cpu s) 13"
  assumes "bus_ok s" "\<not> g_ROM_OVERLAY (ARM s)" "\<not> reset_pending s" "\<not> bit list 13" "\<not> bit list 15"
    and "4 * n \<le> unat sp" "unat sp \<le> unat (RAM_SIZE (MEM s))"
  shows "ram_block s (sp - 4 * of_nat n) n \<and>
    (\<exists>m k. bdt_core D (push_cmd list) s = spend k (on_cpu (set_reg 13 (sp - 4 * of_nat n)) (s\<lparr>MEM := m\<rparr>)) \<and>
      bus_ok (s\<lparr>MEM := m\<rparr>) \<and> RAM_SIZE m = RAM_SIZE (MEM s) \<and>
      (\<forall>j < n. word_at m (sp - 4 * of_nat n + 4 * of_nat j) = USER (cpu s) (reg_list list 0 ! j)))"
proof -
  define b where "b = sp - 4 * of_nat n"
  have "unat (4 * of_nat n :: u32) = 4 * n"
    using assms(8) unat_u32_lt [of sp] by (simp add: unat_word_ariths unat_of_nat)
  then have ub: "unat b = unat sp - 4 * n" using assms(8) by (simp add: b_def unat_sub word_le_nat_alt)
  then have blk: "ram_block s b n" using assms(3,4,8,9) by (simp add: ram_block_def)
  define s1 where "s1 = (if push_cmd list AND (push_bit 13 1 - 1) \<noteq> 0 then on_cpu (set_reg 13 b) s else s)"
  have s1: "ram_block s1 b n" "\<not> reset_pending s1" "MEM s1 = MEM s" "on_cpu (set_reg 13 b) (s1\<lparr>MEM := m\<rparr>) = on_cpu (set_reg 13 b) (s\<lparr>MEM := m\<rparr>)"
    "r \<noteq> 13 \<Longrightarrow> USER (cpu s1) r = USER (cpu s) r" for r m
    using blk assms(5) bus_ok_cpu [of "set_reg 13 b" s] by (auto simp: s1_def ram_block_def on_cpu_def set_reg_def)
  obtain m where m: "stm_regs D (\<lambda>i c. USER c i) (reg_list list 0) b s1 = (False, b + 4 * of_nat n, s1\<lparr>MEM := m\<rparr>)"
    "bus_ok (s1\<lparr>MEM := m\<rparr>)" "RAM_SIZE m = RAM_SIZE (MEM s)"
    "\<And>j. j < n \<Longrightarrow> word_at m (b + 4 * of_nat j) = USER (cpu s1) (reg_list list 0 ! j)"
    using stm_ram [of s1 b "reg_list list 0" D "\<lambda>i c. USER c i"] s1(1-3) by (auto simp: n_def)
  have r13: "reg_list list 0 ! j \<noteq> 13" if "j < n" for j
    using nth_mem [of j "reg_list list 0"] that assms(6) by (auto simp: n_def reg_list_props)
  have core: "bdt_core D (push_cmd list) s =
      spend ((int n - 2) * SCYCLE + NCYCLE + NCYCLE) (on_cpu (set_reg 13 b) (s1\<lparr>MEM := m\<rparr>))"
    using m(1) assms(7)
    by (cases "push_cmd list AND (push_bit 13 1 - 1) = 0")
      (simp_all add: bdt_core_def stm_accur_def bdt_bases_def cmd_fields cmd_masks push_count stm_loop_regs
        block_size [OF push_count(1)] s1_def [unfolded b_def sp_def n_def] b_def sp_def n_def Let_def)
  have "bus_ok (s\<lparr>MEM := m\<rparr>)"
    using m(2) by (auto simp: bus_ok_def s1_def on_cpu_def overlay_ok_def split: if_splits)
  then show ?thesis
    using blk core m(3,4) s1(4,5) r13 unfolding b_def [symmetric] by metis
qed

text \<open>C16. Push and pop are inverse: after \<open>STMDB sp!,{list}\<close> of any registers but the stack pointer and
  the program counter, with the stack in RAM, a later \<open>LDMIA sp!,{list}\<close> that finds the memory and
  the stack pointer as the push left them restores each listed register and the stack pointer,
  whatever the other registers hold by then, and changes nothing else in them or in memory.\<close>

theorem arm_push_pop:
  fixes s t :: "'e sys" and list :: u16
  defines "n \<equiv> length (filter (bit list) [0..<16])" and "sp \<equiv> USER (cpu s) 13"
  assumes "bus_ok s" "\<not> g_ROM_OVERLAY (ARM s)" "\<not> reset_pending s" "\<not> bit list 13" "\<not> bit list 15"
    and "4 * n \<le> unat sp" "unat sp \<le> unat (RAM_SIZE (MEM s))"
    and "t = on_cpu f (bdt_core D (push_cmd list) s)" "USER (cpu t) 13 = USER (cpu (bdt_core D (push_cmd list) s)) 13"
  shows "USER (cpu (bdt_core D (pop_cmd list) t)) i =
      (if bit list i then USER (cpu s) i else if i = 13 then sp else USER (cpu t) i) \<and>
    MEM (bdt_core D (pop_cmd list) t) = MEM t"
proof -
  have n: "n = length (reg_list list 0)" by (simp add: n_def reg_list_props)
  define b where "b = sp - 4 * of_nat n"
  obtain m k where push: "bdt_core D (push_cmd list) s = spend k (on_cpu (set_reg 13 b) (s\<lparr>MEM := m\<rparr>))"
    and m: "bus_ok (s\<lparr>MEM := m\<rparr>)" "RAM_SIZE m = RAM_SIZE (MEM s)"
      "\<And>j. j < n \<Longrightarrow> word_at m (b + 4 * of_nat j) = USER (cpu s) (reg_list list 0 ! j)"
    and blk: "ram_block s b n"
    using push_state [of s list D] assms(3-9) by (auto simp: n sp_def b_def)
  have sp: "USER (cpu t) 13 = b" using assms(11) by (simp add: push spend_def on_arm_def on_cpu_def set_reg_def)
  have mt: "MEM t = m" by (simp add: assms(10) push spend_def on_arm_def on_cpu_def)
  let ?u = "on_cpu (set_reg 13 (b + 4 * of_nat n)) t"
  have lim: "bus_ok ?u \<and> \<not> g_ROM_OVERLAY (ARM ?u)"
  proof -
    have "bus_ok (on_cpu g (spend k (s\<lparr>MEM := m\<rparr>)))" for g using m(1) by (simp add: bus_ok_cpu bus_ok_spend)
    moreover have "?u = on_cpu (\<lambda>c. set_reg 13 (b + 4 * of_nat n) (f (set_reg 13 b c))) (spend k (s\<lparr>MEM := m\<rparr>))"
      by (simp add: assms(10) push spend_def on_arm_def on_cpu_def)
    ultimately show ?thesis using assms(4) by (simp add: on_cpu_def spend_def on_arm_def)
  qed
  then have "ram_block ?u b (length (reg_list list 0))"
    using blk m(2) mt n by (simp add: ram_block_def on_cpu_def)
  moreover have "MEM ?u = m" by (simp add: on_cpu_def mt)
  ultimately have ld: "ldm_regs D set_reg (reg_list list 0) b ?u =
      on_cpu (\<lambda>c. c\<lparr>USER := load_regs m (reg_list list 0) b (USER c)\<rparr>) ?u"
    using ldm_ram [of ?u b "reg_list list 0" D] by simp
  have pop: "bdt_core D (pop_cmd list) t =
      spend (int (unat (list_count (pop_cmd list))) - 1 + 3) (on_cpu (\<lambda>c. c\<lparr>USER := load_regs m (reg_list list 0) b (USER c)\<rparr>) ?u)"
    using ld assms(7) sp
    by (simp add: bdt_core_def ldm_accur_def bdt_bases_def cmd_fields cmd_masks ldm_loop_regs
        block_size [OF push_count(2)] n Let_def)
  have R: "USER (cpu (bdt_core D (pop_cmd list) t)) i = load_regs m (reg_list list 0) b ((USER (cpu t))(13 := sp)) i"
    by (simp add: pop spend_def on_arm_def on_cpu_def set_reg_def b_def)
  have "MEM (bdt_core D (pop_cmd list) t) = MEM t" by (simp add: pop spend_def on_arm_def on_cpu_def)
  moreover have "USER (cpu (bdt_core D (pop_cmd list) t)) i =
      (if bit list i then USER (cpu s) i else if i = 13 then sp else USER (cpu t) i)"
  proof (cases "bit list i")
    case True
    then have "i \<in> set (reg_list list 0)" by (simp add: reg_list_props)
    then obtain j where "j < length (reg_list list 0)" "reg_list list 0 ! j = i" by (auto simp: in_set_conv_nth)
    then show ?thesis using R True m(3) [of j] load_regs_at [OF reg_list_props(1)] n by metis
  next
    case False
    then show ?thesis using R by (simp add: load_regs_frame reg_list_props)
  qed
  ultimately show ?thesis by simp
qed

text \<open>The machine of the witnesses once the overlay is gone.\<close>

definition run_sys :: "unit sys" where
  "run_sys = demo_sys\<lparr>ARM := set_rom_overlay stock_mem False demo_arm\<rparr>"

lemma run_sys_ok: "bus_ok run_sys" "\<not> g_ROM_OVERLAY (ARM run_sys)" "\<not> reset_pending run_sys"
  "USER (cpu run_sys) n = of_nat n" "MEM run_sys = stock_mem"
  using demo_sys_ok(1,2)
  by (simp_all add: run_sys_def bus_ok_def overlay_set) (simp_all add: set_rom_overlay_def demo_arm_def demo_core_def)

theorem arm_push_pop_witness:
  "USER (cpu (bdt_core no_devices (pop_cmd 3) (on_cpu (set_reg 1 99) (bdt_core no_devices (push_cmd 3) run_sys)))) 1 = 1"
  using arm_push_pop [OF run_sys_ok(1-3), of 3 "on_cpu (set_reg 1 99) (bdt_core no_devices (push_cmd 3) run_sys)"
      "set_reg 1 99" no_devices 1]
  by (simp add: run_sys_ok demo_sys_ok upt_rec [of _ 16] on_cpu_def set_reg_def)

end
