(* ===== verification/Opera_Swi_Hle_Props.thy ===== *)
theory Opera_Swi_Hle_Props
  imports Opera_Swi_Hle
begin

text \<open>
  Properties of the software-interrupt dispatch: which calls run natively, and what a native call
  leaves alone.
\<close>

definition native_calls :: "u32 list" where
  "native_calls = [0x50000, 0x50001, 0x50002, 0x50005, 0x50006, 0x50007, 0x50008, 0x50009, 0x5000C, 0x5000E,
     0x5000F, 0x50010, 0x50011, 0x50012]"

definition native_result :: "arm \<times> memory \<Rightarrow> arm \<times> memory \<Rightarrow> bool" where
  "native_result = (\<lambda>(a, m) (a', m').
     CPU a' = (CPU a)\<lparr>USER := (USER (CPU a))(0 := USER (CPU a') 0)\<rparr>
     \<and> a' = a\<lparr>CPU := CPU a'\<rparr> \<and> m' = m\<lparr>DRAM := DRAM m'\<rparr>)"

lemma native_result_intro:
  "native_result (a, m) (a, m\<lparr>DRAM := d\<rparr>)"
  "native_result (a, m) (a\<lparr>CPU := set_reg 0 v (CPU a)\<rparr>, m)"
  by (simp_all add: native_result_def set_reg_def)

lemma hle_native:
  assumes "op_code AND 0x000FFFFF \<in> set native_calls"
  shows "native_result (a, m) (decode_swi_hle op_code (a, m))"
  using assms unfolding native_calls_def list.set insert_iff empty_iff
  by (elim disjE; simp only: decode_swi_hle_def Let_def prod.case)
     (simp_all add: native_result_intro)

lemma hle_trap:
  assumes "op_code AND 0x000FFFFF \<notin> set native_calls"
  shows "decode_swi_hle op_code (a, m) = (decode_swi_lle a, m)"
  using assms by (simp add: decode_swi_hle_def native_calls_def Let_def)

text \<open>C35. The native path is transparent: with native calls enabled a listed call changes memory contents
  and register 0 at most, while every other call number (the reserved 0x50003, 0x50004, 0x5000A,
  0x5000B and the implemented but undispatched 0x5000D among them), and every call with native
  calls disabled, enters the supervisor and leaves memory alone.\<close>

theorem swi_native_or_trap:
  "let a1 = a\<lparr>CYCLES := CYCLES a - 3\<rparr>
   in if g_SWI_HLE a \<noteq> 0 \<and> op_code AND 0x000FFFFF \<in> set native_calls
      then native_result (a1, m) (decode_swi op_code (a, m))
      else decode_swi op_code (a, m) = (decode_swi_lle a1, m)"
proof (cases "g_SWI_HLE a \<noteq> 0 \<and> op_code AND 0x000FFFFF \<in> set native_calls")
  case True
  then show ?thesis
    by (simp add: decode_swi_def Let_def hle_native)
next
  case False
  then show ?thesis
    by (cases "g_SWI_HLE a = 0") (simp_all add: decode_swi_def Let_def hle_trap)
qed

end
