(* ===== verification/Opera_Clio.thy ===== *)
theory Opera_Clio
  imports Opera_Mem Opera_State_Codec
begin

text \<open>
  The registers of CLIO, \<open>src/libopera/opera_clio.c\<close>: interrupts, timers, the DIPIR latches that
  guard the expansion bus after a change of medium, the audio queues between memory and the
  signal processor, and the saved state. The register file is a function of the byte offset
  used as index (65536 words in the C array); \<open>int32_t\<close> values are words compared as signed.
  Register access from the processor, which reaches the other chips, is in \<open>Opera_Clio_Io\<close>.
\<close>

section \<open>State\<close>

record fifo =
  fifo_addr :: u32
  fifo_len :: u32

record clio_fifo =
  fifo_idx :: u32
  fifo_start :: fifo
  fifo_next :: fifo

record clio =
  clio_regs :: "u32 \<Rightarrow> u32"
  dsp_word1 :: u32
  dsp_word2 :: u32
  dsp_address :: u32
  fifo_i :: "nat \<Rightarrow> clio_fifo"
  fifo_o :: "nat \<Rightarrow> clio_fifo"
  flagtime :: u32
  TIMER_VAL :: u32
  TIMER_CARRY :: u32

abbreviation (input) no_fifo :: clio_fifo where
  "no_fifo \<equiv> \<lparr>fifo_idx = 0, fifo_start = \<lparr>fifo_addr = 0, fifo_len = 0\<rparr>,
     fifo_next = \<lparr>fifo_addr = 0, fifo_len = 0\<rparr>\<rparr>"

definition set_creg :: "u32 \<Rightarrow> u32 \<Rightarrow> clio \<Rightarrow> clio" where
  "set_creg a v c = c\<lparr>clio_regs := (clio_regs c)(a := v)\<rparr>"

lemma creg_set_creg [simp]: "clio_regs (set_creg a v c) b = (if b = a then v else clio_regs c b)"
  by (simp add: set_creg_def)

lemma set_creg_other [simp]:
  "dsp_word1 (set_creg a v c) = dsp_word1 c" "dsp_word2 (set_creg a v c) = dsp_word2 c"
  "dsp_address (set_creg a v c) = dsp_address c" "fifo_i (set_creg a v c) = fifo_i c"
  "fifo_o (set_creg a v c) = fifo_o c" "flagtime (set_creg a v c) = flagtime c"
  "TIMER_VAL (set_creg a v c) = TIMER_VAL c" "TIMER_CARRY (set_creg a v c) = TIMER_CARRY c"
  by (simp_all add: set_creg_def)

section \<open>Interrupts\<close>

definition opera_clio_fiq_needed :: "clio \<Rightarrow> bool" where
  "opera_clio_fiq_needed c \<longleftrightarrow>
     (clio_regs c 0x40 AND clio_regs c 0x48) AND NOT 0x80000000 \<noteq> 0 \<or> clio_regs c 0x60 AND clio_regs c 0x68 \<noteq> 0"

definition opera_clio_fiq_generate :: "u32 \<Rightarrow> u32 \<Rightarrow> clio \<Rightarrow> clio" where
  "opera_clio_fiq_generate reason1 reason2 c =
     (let c = set_creg 0x40 (clio_regs c 0x40 OR (reason1 AND NOT 0x80000000)) c
      in set_creg 0x60 (clio_regs c 0x60 OR reason2) c)"

section \<open>Display lines\<close>

definition opera_clio_line_vint0 :: "clio \<Rightarrow> u32" where
  "opera_clio_line_vint0 c = clio_regs c 8 AND 0x7FF"

definition opera_clio_line_vint1 :: "clio \<Rightarrow> u32" where
  "opera_clio_line_vint1 c = clio_regs c 12 AND 0x7FF"

definition opera_clio_vcnt_update :: "u32 \<Rightarrow> u32 \<Rightarrow> clio \<Rightarrow> clio" where
  "opera_clio_vcnt_update line field c =
     set_creg 0x34 ((push_bit 11 field AND 0x800) OR (line AND 0x7FF)) c"

section \<open>Timers\<close>

definition clio_timer_reg_addr :: "u32 \<Rightarrow> bool" where
  "clio_timer_reg_addr addr \<longleftrightarrow> addr \<ge> 0x100 \<and> addr \<le> 0x17C \<and> addr AND 3 = 0"

definition timer_control_shift :: "u32 \<Rightarrow> nat" where
  "timer_control_shift timer = unat (push_bit 2 (timer AND 7))"

definition clio_timer_regs_mask :: "clio \<Rightarrow> clio" where
  "clio_timer_regs_mask c =
     fold (\<lambda>i c. let addr = 0x100 + 4 * of_nat i in set_creg addr (clio_regs c addr AND 0xFFFF) c) [0..<32] c"

definition opera_clio_timer_set :: "u32 \<Rightarrow> u32 \<Rightarrow> clio \<Rightarrow> clio" where
  "opera_clio_timer_set v200 v208 c = c"

definition opera_clio_timer_clear :: "u32 \<Rightarrow> u32 \<Rightarrow> clio \<Rightarrow> clio" where
  "opera_clio_timer_clear v204 v20C c = c"

definition opera_clio_timer_get_delay :: "clio \<Rightarrow> u32" where
  "opera_clio_timer_get_delay c = clio_regs c 0x220"

definition timer_flags :: "u32 \<Rightarrow> clio \<Rightarrow> u32" where
  "timer_flags timer c =
     drop_bit (timer_control_shift timer) (clio_regs c (if timer < 8 then 0x200 else 0x208)) AND 0xF"

definition timer_disable :: "u32 \<Rightarrow> clio \<Rightarrow> clio" where
  "timer_disable timer c =
     (let a = (if timer < 8 then 0x200 else 0x208)
      in set_creg a (clio_regs c a AND NOT (push_bit (timer_control_shift timer) 1)) c)"

definition opera_clio_timer_execute :: "u32 \<Rightarrow> clio \<Rightarrow> clio" where
  "opera_clio_timer_execute timer c =
     (let timer = timer AND 0x0F;
          c = (if timer = 0 then c\<lparr>TIMER_CARRY := 0\<rparr> else c);
          flags = timer_flags timer c
      in if flags AND 0x1 \<noteq> 0 then
           (if flags AND 0x4 \<noteq> 0 \<and> TIMER_CARRY c = 0 then c\<lparr>TIMER_CARRY := 0\<rparr>
            else
              (let reg = 0x100 + push_bit 3 timer;
                   count = clio_regs c reg AND 0xFFFF
               in if count = 0 then
                    (let c = (if timer AND 1 \<noteq> 0
                              then opera_clio_fiq_generate (push_bit (unat (10 - drop_bit 1 timer)) 1) 0 c else c);
                         c = (if flags AND 0x2 \<noteq> 0 then set_creg reg (clio_regs c (reg + 4) AND 0xFFFF) c
                              else timer_disable timer (set_creg reg 0xFFFF c))
                     in c\<lparr>TIMER_CARRY := 1\<rparr>)
                  else (set_creg reg (count - 1) c)\<lparr>TIMER_CARRY := 0\<rparr>))
         else c\<lparr>TIMER_CARRY := 0\<rparr>)"

section \<open>DIPIR latches\<close>

definition dipir_latch_field :: "u32 \<Rightarrow> nat \<Rightarrow> u32" where
  "dipir_latch_field latch shift =
     (let field = drop_bit shift latch AND 0xFFFF
      in if field AND 0x8000 \<noteq> 0 then push_bit shift (0x4000 OR (field AND 0x00FF)) else 0)"

definition clio_dipir_latch_after_reset :: "u32 \<Rightarrow> u32" where
  "clio_dipir_latch_after_reset latch = fold (\<lambda>shift rv. rv OR dipir_latch_field latch shift) [0, 16] 0"

definition opera_clio_soft_reset :: "bool \<Rightarrow> clio \<Rightarrow> clio" where
  "opera_clio_soft_reset clear_dipir c =
     (if \<not> clear_dipir then c
      else
        (let dipir1 = clio_regs c 0x410; dipir2 = clio_regs c 0x414;
             c = set_creg 0x410 (clio_dipir_latch_after_reset dipir1) c
         in set_creg 0x414 (clio_dipir_latch_after_reset dipir2) c))"

definition opera_clio_xbus_media_access :: "u32 \<Rightarrow> clio \<Rightarrow> clio" where
  "opera_clio_xbus_media_access unit c =
     (let latch = 0x8000 OR (unit AND 0x00FF); dipir1 = clio_regs c 0x410; dipir2 = clio_regs c 0x414
      in if dipir1 AND 0x8000 \<noteq> 0 \<and> dipir1 AND 0x00FF = latch AND 0x00FF \<or>
            dipir2 AND 0x8000 \<noteq> 0 \<and> dipir2 AND 0x00FF = latch AND 0x00FF then c
         else if dipir1 AND 0x8000 = 0 then opera_clio_fiq_generate 0 0x00000002 (set_creg 0x410 latch c)
         else if dipir2 AND 0x8000 = 0 then set_creg 0x414 latch c
         else c)"

definition opera_clio_xbus_access_aborts :: "u32 \<Rightarrow> u32 \<Rightarrow> clio \<Rightarrow> bool" where
  "opera_clio_xbus_access_aborts unit addr c =
     (let current1 = clio_regs c 0x410; current2 = clio_regs c 0x414
      in if current1 AND 0x8000 = 0 \<and> current2 AND 0x8000 = 0 then False
         else
           (let is_poll = (addr \<ge> 0x540 \<and> addr < 0x580); unit = unit AND 0x00FF
            in if current1 AND 0x8000 \<noteq> 0 \<and> current2 AND 0x8000 = 0 then
                 (if is_poll then False else current1 AND 0x00FF = unit)
               else if current2 AND 0x8000 \<noteq> 0 \<and> current1 AND 0x8000 = 0 then
                 (if is_poll then False else current2 AND 0x00FF = unit)
               else if \<not> is_poll then True
               else current1 AND 0x00FF \<noteq> unit \<and> current2 AND 0x00FF \<noteq> unit))"

definition opera_clio_reset :: "clio \<Rightarrow> clio" where
  "opera_clio_reset c =
     c\<lparr>clio_regs := (\<lambda>_. 0), dsp_word1 := 0, dsp_word2 := 0, dsp_address := 0, fifo_i := (\<lambda>_. no_fifo),
       fifo_o := (\<lambda>_. no_fifo), TIMER_CARRY := 0\<rparr>"

section \<open>Audio queues\<close>

definition opera_clio_fifo_ei_read :: "memory \<Rightarrow> nat \<Rightarrow> clio \<Rightarrow> u16" where
  "opera_clio_fifo_ei_read m channel c =
     opera_mem_read16 m (fifo_addr (fifo_start (fifo_i c channel)) + fifo_idx (fifo_i c channel))"

definition opera_clio_fifo_eo_write :: "nat \<Rightarrow> u16 \<Rightarrow> clio \<Rightarrow> memory \<Rightarrow> memory" where
  "opera_clio_fifo_eo_write channel val c m =
     opera_mem_write16 (fifo_addr (fifo_start (fifo_o c channel)) + fifo_idx (fifo_o c channel)) val m"

definition dma_channel_enabled :: "nat \<Rightarrow> clio \<Rightarrow> bool" where
  "dma_channel_enabled channel c \<longleftrightarrow> clio_regs c 0x304 AND push_bit channel 1 \<noteq> 0"

definition set_fifo_i :: "nat \<Rightarrow> clio_fifo \<Rightarrow> clio \<Rightarrow> clio" where
  "set_fifo_i channel f c = c\<lparr>fifo_i := (fifo_i c)(channel := f)\<rparr>"

definition set_fifo_o :: "nat \<Rightarrow> clio_fifo \<Rightarrow> clio \<Rightarrow> clio" where
  "set_fifo_o channel f c = c\<lparr>fifo_o := (fifo_o c)(channel := f)\<rparr>"

text \<open>The release build: the \<open>assert\<close> holds at both calls, which test the same condition.\<close>

definition clio_fifo_ei_complete :: "nat \<Rightarrow> clio \<Rightarrow> clio" where
  "clio_fifo_ei_complete channel c =
     (let f = (fifo_i c channel)\<lparr>fifo_idx := 0\<rparr>;
          c = opera_clio_fiq_generate (push_bit (channel + 16) 1) 0 (set_fifo_i channel f c)
      in if fifo_addr (fifo_next f) \<noteq> 0 \<and> dma_channel_enabled channel c
         then set_fifo_i channel (f\<lparr>fifo_start := fifo_next f\<rparr>) c
         else set_fifo_i channel (f\<lparr>fifo_start := (fifo_start f)\<lparr>fifo_addr := 0\<rparr>\<rparr>) c)"

definition fifo_at_end :: "clio_fifo \<Rightarrow> bool" where
  "fifo_at_end f \<longleftrightarrow> sint (fifo_idx f) \<ge> sint (fifo_len (fifo_start f))"

definition opera_clio_fifo_ei :: "memory \<Rightarrow> nat \<Rightarrow> clio \<Rightarrow> u16 \<times> clio" where
  "opera_clio_fifo_ei m channel c =
     (let f = fifo_i c channel;
          c = (if fifo_addr (fifo_start f) \<noteq> 0 \<and> fifo_at_end f then clio_fifo_ei_complete channel c else c)
      in if fifo_addr (fifo_start (fifo_i c channel)) = 0 then (0, c)
         else
           (let val = opera_clio_fifo_ei_read m channel c;
                c = set_fifo_i channel ((fifo_i c channel)\<lparr>fifo_idx := fifo_idx (fifo_i c channel) + 2\<rparr>) c
            in if fifo_at_end (fifo_i c channel) then (val, clio_fifo_ei_complete channel c) else (val, c)))"

definition opera_clio_fifo_eo :: "nat \<Rightarrow> u16 \<Rightarrow> clio \<times> memory \<Rightarrow> clio \<times> memory" where
  "opera_clio_fifo_eo channel val = (\<lambda>(c, m).
     let f = fifo_o c channel
     in if fifo_addr (fifo_start f) = 0 then (c, m)
        else if sint (fifo_len (fifo_start f) - fifo_idx f) > 0 then
          (set_fifo_o channel (f\<lparr>fifo_idx := fifo_idx f + 2\<rparr>) c, opera_clio_fifo_eo_write channel val c m)
        else
          (let f = f\<lparr>fifo_idx := 0\<rparr>;
               c = opera_clio_fiq_generate (push_bit (channel + 12) 1) 0 (set_fifo_o channel f c)
           in if fifo_addr (fifo_next f) \<noteq> 0 \<and> dma_channel_enabled channel c
              then (set_fifo_o channel (f\<lparr>fifo_start := \<lparr>fifo_addr = fifo_addr (fifo_next f),
                      fifo_len = fifo_len (fifo_next f)\<rparr>\<rparr>) c, m)
              else (set_fifo_o channel (f\<lparr>fifo_start := (fifo_start f)\<lparr>fifo_addr := 0\<rparr>\<rparr>) c, m)))"

definition opera_clio_fifo_ei_status :: "nat \<Rightarrow> clio \<Rightarrow> u16" where
  "opera_clio_fifo_ei_status channel c = (if fifo_addr (fifo_start (fifo_i c channel)) \<noteq> 0 then 2 else 0)"

definition opera_clio_fifo_eo_status :: "nat \<Rightarrow> clio \<Rightarrow> u16" where
  "opera_clio_fifo_eo_status channel c = (if fifo_addr (fifo_start (fifo_o c channel)) \<noteq> 0 then 1 else 0)"

text \<open>The queue registers as MADAM reads and writes them.\<close>

definition fifo_channel :: "u32 \<Rightarrow> nat" where
  "fifo_channel addr = unat (drop_bit 4 addr AND 0xF)"

definition opera_clio_fifo_read :: "u32 \<Rightarrow> clio \<Rightarrow> u32" where
  "opera_clio_fifo_read addr c =
     (let f = (if addr AND 0x500 = 0x400 then fifo_i c (fifo_channel addr) else fifo_o c (fifo_channel addr));
          k = addr AND 0xF
      in if k = 0x0 then fifo_addr (fifo_start f) + fifo_idx f
         else if k = 0x4 then fifo_len (fifo_start f) - fifo_idx f
         else if k = 0x8 then fifo_addr (fifo_next f)
         else if k = 0xC then fifo_len (fifo_next f)
         else 0)"

definition opera_clio_fifo_write :: "u32 \<Rightarrow> u32 \<Rightarrow> clio \<Rightarrow> clio" where
  "opera_clio_fifo_write addr val c =
     (let n = fifo_channel addr; k = addr AND 0xF; i = fifo_i c n; out = fifo_o c n
      in if addr AND 0x500 = 0x400 then
           (if k = 0x0 then
              set_fifo_i n (i\<lparr>fifo_start := (fifo_start i)\<lparr>fifo_addr := val\<rparr>, fifo_idx := 0,
                fifo_next := (fifo_next i)\<lparr>fifo_addr := 0\<rparr>\<rparr>) c
            else if k = 0x4 then
              set_fifo_i n (i\<lparr>fifo_start := (fifo_start i)\<lparr>fifo_len := (if val \<noteq> 0 then val + 4 else 0)\<rparr>,
                fifo_next := (fifo_next i)\<lparr>fifo_len := 0\<rparr>\<rparr>) c
            else if k = 0x8 then set_fifo_i n (i\<lparr>fifo_next := (fifo_next i)\<lparr>fifo_addr := val\<rparr>\<rparr>) c
            else if k = 0xC then
              set_fifo_i n (i\<lparr>fifo_next := (fifo_next i)\<lparr>fifo_len := (if val \<noteq> 0 then val + 4 else 0)\<rparr>\<rparr>) c
            else c)
         else
           (if k = 0x0 then set_fifo_o n (out\<lparr>fifo_start := (fifo_start out)\<lparr>fifo_addr := val\<rparr>\<rparr>) c
            else if k = 0x4 then set_fifo_o n (out\<lparr>fifo_start := (fifo_start out)\<lparr>fifo_len := val + 4\<rparr>\<rparr>) c
            else if k = 0x8 then set_fifo_o n (out\<lparr>fifo_next := (fifo_next out)\<lparr>fifo_addr := val\<rparr>\<rparr>) c
            else if k = 0xC then set_fifo_o n (out\<lparr>fifo_next := (fifo_next out)\<lparr>fifo_len := val + 4\<rparr>\<rparr>) c
            else c))"

end
