(* ===== verification/Opera_Clio_State.thy ===== *)
theory Opera_Clio_State
  imports Opera_Clio
begin

text \<open>
  CLIO's saved state: the payload writer and reader over the register file, the processor's
  words, the seventeen audio queues and the three globals, the first format (the structure's
  bytes) and the selection of the ROM that a load repeats from the restored register.
\<close>

definition clio_set_rom :: "clio \<Rightarrow> memory \<Rightarrow> memory" where
  "clio_set_rom c m = opera_mem_rom_select (if clio_regs c 0x84 AND 0x04 \<noteq> 0 then PTR_ROM2 else PTR_ROM1) m"

text \<open>A fixed number of cells of an array, and the array filled from them.\<close>

definition upto :: "nat \<Rightarrow> (nat \<Rightarrow> 'a) \<Rightarrow> 'a list" where
  "upto n f = map f [0..<n]"

definition fill :: "'a \<Rightarrow> 'a list \<Rightarrow> nat \<Rightarrow> 'a" where
  "fill d xs i = (if i < length xs then xs ! i else d)"

definition creg_words :: "clio \<Rightarrow> u32 list" where
  "creg_words c = upto 65536 (\<lambda>i. clio_regs c (of_nat i))"

definition cregs_of :: "u32 list \<Rightarrow> u32 \<Rightarrow> u32" where
  "cregs_of ws a = fill 0 ws (unat a)"

section \<open>Writer\<close>

definition clio_state_write_fifo :: "clio_fifo \<Rightarrow> state_writer \<Rightarrow> bool \<times> state_writer" where
  "clio_state_write_fifo f =
     w_and (opera_state_write_i32 (fifo_idx f))
     (w_and (opera_state_write_u32 (fifo_addr (fifo_start f)))
     (w_and (opera_state_write_i32 (fifo_len (fifo_start f)))
     (w_and (opera_state_write_u32 (fifo_addr (fifo_next f)))
            (opera_state_write_i32 (fifo_len (fifo_next f))))))"

text \<open>The loop over a group of queues, which stops at the first failure.\<close>

primrec clio_write_fifos :: "clio_fifo list \<Rightarrow> state_writer \<Rightarrow> bool \<times> state_writer" where
  "clio_write_fifos [] = (\<lambda>w. (True, w))"
| "clio_write_fifos (f # fs) = w_and (clio_state_write_fifo f) (clio_write_fifos fs)"

definition clio_state_write_payload :: "clio \<Rightarrow> state_writer \<Rightarrow> bool \<times> state_writer" where
  "clio_state_write_payload c =
     w_and (opera_state_write_u32_array (creg_words c) 65536)
     (w_and (opera_state_write_i32 (dsp_word1 c))
     (w_and (opera_state_write_i32 (dsp_word2 c))
     (w_and (opera_state_write_i32 (dsp_address c))
     (w_and (clio_write_fifos (upto 13 (fifo_i c)))
     (w_and (clio_write_fifos (upto 4 (fifo_o c)))
     (w_and (opera_state_write_i32 (flagtime c))
     (w_and (opera_state_write_i32 (TIMER_VAL c))
            (opera_state_write_u32 (TIMER_CARRY c)))))))))"

definition clio_state_payload_size :: "clio \<Rightarrow> u32" where
  "clio_state_payload_size c =
     opera_state_writer_used (snd (clio_state_write_payload c (opera_state_writer_init None UINT32_MAX)))"

definition opera_clio_state_size :: "clio \<Rightarrow> u32" where
  "opera_clio_state_size c = opera_state_chunk_size (clio_state_payload_size c)"

definition opera_clio_state_save :: "clio \<Rightarrow> u8 list \<Rightarrow> u32 \<times> u8 list" where
  "opera_clio_state_save c buf = save_chunk ''CLIO'' (clio_state_payload_size c) (clio_state_write_payload c) buf"

section \<open>Reader\<close>

definition clio_state_read_fifo :: "state_reader \<Rightarrow> clio_fifo option \<times> state_reader" where
  "clio_state_read_fifo =
     r_bind opera_state_read_i32 (\<lambda>idx. r_bind opera_state_read_u32 (\<lambda>sa. r_bind opera_state_read_i32 (\<lambda>sl.
     r_bind opera_state_read_u32 (\<lambda>na. r_bind opera_state_read_i32 (\<lambda>nl.
     r_return \<lparr>fifo_idx = idx, fifo_start = \<lparr>fifo_addr = sa, fifo_len = sl\<rparr>,
       fifo_next = \<lparr>fifo_addr = na, fifo_len = nl\<rparr>\<rparr>)))))"

primrec clio_read_fifos :: "nat \<Rightarrow> state_reader \<Rightarrow> clio_fifo list option \<times> state_reader" where
  "clio_read_fifos 0 = r_return []"
| "clio_read_fifos (Suc n) = r_bind clio_state_read_fifo (\<lambda>f. r_bind (clio_read_fifos n) (\<lambda>fs. r_return (f # fs)))"

definition clio_state_read_payload :: "state_reader \<Rightarrow> clio option \<times> state_reader" where
  "clio_state_read_payload =
     r_bind (opera_state_read_u32_array 65536) (\<lambda>rs.
     r_bind opera_state_read_i32 (\<lambda>w1. r_bind opera_state_read_i32 (\<lambda>w2. r_bind opera_state_read_i32 (\<lambda>da.
     r_bind (clio_read_fifos 13) (\<lambda>fi. r_bind (clio_read_fifos 4) (\<lambda>fo.
     r_bind opera_state_read_i32 (\<lambda>ft. r_bind opera_state_read_i32 (\<lambda>tv. r_bind opera_state_read_u32 (\<lambda>tc.
     r_return \<lparr>clio_regs = cregs_of rs, dsp_word1 = w1, dsp_word2 = w2, dsp_address = da,
       fifo_i = fill no_fifo fi, fifo_o = fill no_fifo fo, flagtime = ft, TIMER_VAL = tv, TIMER_CARRY = tc\<rparr>)))))))))"

definition opera_clio_state_load :: "bool \<Rightarrow> u8 list \<Rightarrow> u32 \<Rightarrow> clio \<times> memory \<Rightarrow> u32 \<times> clio \<times> memory" where
  "opera_clio_state_load validating buf sz cur =
     load_chunk ''CLIO'' clio_state_read_payload (\<lambda>_. True) (\<lambda>s (_, m). (s, clio_set_rom s m))
       validating buf sz cur"

section \<open>The first format\<close>

definition opera_clio_state_size_v1 :: u32 where
  "opera_clio_state_size_v1 = opera_state_save_size 262496"

definition fifo_words :: "clio_fifo \<Rightarrow> u32 list" where
  "fifo_words f = [fifo_idx f, fifo_addr (fifo_start f), fifo_len (fifo_start f), fifo_addr (fifo_next f),
     fifo_len (fifo_next f)]"

definition fifo_of_words :: "u32 list \<Rightarrow> nat \<Rightarrow> clio_fifo" where
  "fifo_of_words ws i =
     (let w = drop (5 * i) ws
      in \<lparr>fifo_idx = w ! 0, fifo_start = \<lparr>fifo_addr = w ! 1, fifo_len = w ! 2\<rparr>,
          fifo_next = \<lparr>fifo_addr = w ! 3, fifo_len = w ! 4\<rparr>\<rparr>)"

definition clio_image :: "clio \<Rightarrow> u8 list" where
  "clio_image c =
     image32 (creg_words c @ [dsp_word1 c, dsp_word2 c, dsp_address c] @
       concat (map fifo_words (upto 13 (fifo_i c))) @ concat (map fifo_words (upto 4 (fifo_o c))))"

definition clio_of_image :: "u8 list \<Rightarrow> clio \<Rightarrow> clio" where
  "clio_of_image bs c =
     (let ws = words32 bs; qs = drop 65539 ws
      in c\<lparr>clio_regs := cregs_of (take 65536 ws), dsp_word1 := ws ! 65536, dsp_word2 := ws ! 65537,
           dsp_address := ws ! 65538,
           fifo_i := (\<lambda>i. if i < 13 then fifo_of_words qs i else no_fifo),
           fifo_o := (\<lambda>i. if i < 4 then fifo_of_words (drop 65 qs) i else no_fifo)\<rparr>)"

definition opera_clio_state_load_v1 :: "u8 list \<Rightarrow> u32 \<Rightarrow> clio \<times> memory \<Rightarrow> u32 \<times> clio \<times> memory" where
  "opera_clio_state_load_v1 buf sz = (\<lambda>(c, m).
     let (rv, bs) = opera_state_load_sized (clio_image c) ''CLIO'' (Some buf) sz 262496;
         c = clio_of_image bs c
     in if rv \<noteq> 0
        then (let c = c\<lparr>TIMER_VAL := 0, flagtime := 0, TIMER_CARRY := 0\<rparr> in (rv, c, clio_set_rom c m))
        else (rv, c, m))"

section \<open>Round trip\<close>

text \<open>The cells outside the C arrays, which no code touches, are the model's zeros.\<close>

definition clio_clean :: "clio \<Rightarrow> bool" where
  "clio_clean c \<longleftrightarrow> (\<forall>a\<ge>0x10000. clio_regs c a = 0) \<and> (\<forall>i\<ge>13. fifo_i c i = no_fifo) \<and> (\<forall>i\<ge>4. fifo_o c i = no_fifo)"

lemma length_upto [simp]: "length (upto n f) = n"
  by (simp add: upto_def)

lemma fill_upto: "(\<And>i. n \<le> i \<Longrightarrow> f i = d) \<Longrightarrow> fill d (upto n f) = f"
  by (rule ext) (simp add: fill_def upto_def)

lemma cregs_of_words: "\<forall>a\<ge>0x10000. clio_regs c a = 0 \<Longrightarrow> cregs_of (creg_words c) = clio_regs c"
  by (rule ext) (simp add: cregs_of_def creg_words_def fill_def upto_def not_less word_le_nat_alt)

definition enc_fifo :: "clio_fifo \<Rightarrow> u8 list" where
  "enc_fifo f = enc32 (fifo_idx f) @ enc32 (fifo_addr (fifo_start f)) @ enc32 (fifo_len (fifo_start f)) @
     enc32 (fifo_addr (fifo_next f)) @ enc32 (fifo_len (fifo_next f))"

lemma length_enc_fifo [simp]: "length (enc_fifo f) = 20"
  by (simp add: enc_fifo_def)

lemma length_enc_fifos: "length (concat (map enc_fifo fs)) = 20 * length fs"
  by (induction fs) simp_all

lemma emits_fifo: "emits (clio_state_write_fifo f) (enc_fifo f)"
  unfolding clio_state_write_fifo_def enc_fifo_def by (intro emits_and emits_u32 emits_i32)

lemma w_and_return: "w_and a (\<lambda>w. (True, w)) = a"
  by (rule ext) (simp add: w_and_def split: prod.split)

lemma emits_fifos: "fs \<noteq> [] \<Longrightarrow> emits (clio_write_fifos fs) (concat (map enc_fifo fs))"
  by (induction fs rule: list_nonempty_induct) (simp_all add: w_and_return emits_and emits_fifo)

lemma upto_not_Nil [simp]: "upto (numeral k) f \<noteq> []"
  by (simp add: upto_def)

lemma consumes_fifo: "consumes clio_state_read_fifo f (enc_fifo f)"
proof -
  have [simp]: "\<lparr>fifo_addr = fifo_addr q, fifo_len = fifo_len q\<rparr> = q" for q by simp
  have [simp]: "\<lparr>fifo_idx = fifo_idx f, fifo_start = fifo_start f, fifo_next = fifo_next f\<rparr> = f" by simp
  have "consumes clio_state_read_fifo
      \<lparr>fifo_idx = fifo_idx f, fifo_start = \<lparr>fifo_addr = fifo_addr (fifo_start f), fifo_len = fifo_len (fifo_start f)\<rparr>,
        fifo_next = \<lparr>fifo_addr = fifo_addr (fifo_next f), fifo_len = fifo_len (fifo_next f)\<rparr>\<rparr>
      (enc32 (fifo_idx f) @ enc32 (fifo_addr (fifo_start f)) @ enc32 (fifo_len (fifo_start f)) @
       enc32 (fifo_addr (fifo_next f)) @ enc32 (fifo_len (fifo_next f)) @ [])"
    unfolding clio_state_read_fifo_def by (rule consumes_bind consumes_return consumes_u32 consumes_i32)+
  then show ?thesis by (simp add: enc_fifo_def)
qed

lemma consumes_fifos: "consumes (clio_read_fifos (length fs)) fs (concat (map enc_fifo fs))"
proof (induction fs)
  case Nil
  show ?case by (simp add: consumes_return)
next
  case (Cons f fs)
  have "consumes (clio_read_fifos (length (f # fs))) (f # fs) (enc_fifo f @ concat (map enc_fifo fs) @ [])"
    unfolding length_Cons clio_read_fifos.simps
    by (rule consumes_bind [OF consumes_fifo] consumes_bind [OF Cons.IH] consumes_return)+
  then show ?case by simp
qed

definition clio_enc :: "clio \<Rightarrow> u8 list" where
  "clio_enc c = image32 (creg_words c) @ enc32 (dsp_word1 c) @ enc32 (dsp_word2 c) @ enc32 (dsp_address c) @
     concat (map enc_fifo (upto 13 (fifo_i c))) @ concat (map enc_fifo (upto 4 (fifo_o c))) @
     enc32 (flagtime c) @ enc32 (TIMER_VAL c) @ enc32 (TIMER_CARRY c)"

lemma length_creg_words [simp]: "length (creg_words c) = 65536"
  by (simp add: creg_words_def)

lemma length_clio_enc: "length (clio_enc c) = 262508"
  by (simp add: clio_enc_def length_enc_fifos)

lemma emits_clio: "emits (clio_state_write_payload c) (clio_enc c)"
  unfolding clio_state_write_payload_def clio_enc_def
  by (intro emits_and emits_u32_array emits_u32 emits_i32 emits_fifos) simp_all

lemma consumes_clio:
  assumes "clio_clean c" shows "consumes clio_state_read_payload c (clio_enc c)"
proof -
  let ?s = "\<lparr>clio_regs = cregs_of (creg_words c), dsp_word1 = dsp_word1 c, dsp_word2 = dsp_word2 c,
     dsp_address = dsp_address c, fifo_i = fill no_fifo (upto 13 (fifo_i c)), fifo_o = fill no_fifo (upto 4 (fifo_o c)),
     flagtime = flagtime c, TIMER_VAL = TIMER_VAL c, TIMER_CARRY = TIMER_CARRY c\<rparr>"
  have q: "consumes (clio_read_fifos 13) (upto 13 (fifo_i c)) (concat (map enc_fifo (upto 13 (fifo_i c))))"
    "consumes (clio_read_fifos 4) (upto 4 (fifo_o c)) (concat (map enc_fifo (upto 4 (fifo_o c))))"
    using consumes_fifos [of "upto 13 (fifo_i c)"] consumes_fifos [of "upto 4 (fifo_o c)"] by simp_all
  have "consumes clio_state_read_payload ?s
     (image32 (creg_words c) @ enc32 (dsp_word1 c) @ enc32 (dsp_word2 c) @ enc32 (dsp_address c) @
      concat (map enc_fifo (upto 13 (fifo_i c))) @ concat (map enc_fifo (upto 4 (fifo_o c))) @
      enc32 (flagtime c) @ enc32 (TIMER_VAL c) @ enc32 (TIMER_CARRY c) @ [])"
    unfolding clio_state_read_payload_def
    by (rule consumes_bind consumes_return consumes_u32 consumes_i32 q consumes_u32_array | simp)+
  moreover have "?s = c"
    using assms by (cases c) (simp add: clio_clean_def cregs_of_words fill_upto)
  ultimately show ?thesis by (simp add: clio_enc_def)
qed

lemma clio_payload: "clio_state_payload_size c = 262508"
proof -
  let ?w = "opera_state_writer_init None UINT32_MAX"
  have "wok ?w" "wspace ?w (length (clio_enc c))"
    by (simp_all add: wok_def wspace_def opera_state_writer_init_def length_clio_enc)
  from emitsD [OF emits_clio this] show ?thesis
    by (simp add: clio_state_payload_size_def opera_state_writer_used_def wput_def opera_state_writer_init_def
        length_clio_enc)
qed

interpretation clio_chunk: state_chunk "''CLIO''" "\<lambda>(c, m). clio_clean c" "\<lambda>(c, m). clio_enc c"
  "\<lambda>(c, m). clio_state_write_payload c" clio_state_read_payload fst "\<lambda>_. True"
  "\<lambda>s (_, m). (s, clio_set_rom s m)" "\<lambda>(c, m) (_, m'). m = clio_set_rom c m'"
  by unfold_locales (auto simp: length_clio_enc emits_clio consumes_clio)

text \<open>CLIO's saved state round-trips: saved into any buffer of at least its 262516 bytes and loaded
  over any CLIO state and memory, the whole register file, the audio queues with their
  positions, the timer carry and the other globals come back, and the load selects the ROM the
  restored output register names.\<close>

theorem clio_state_roundtrip:
  assumes "clio_clean c" "262516 \<le> length buf"
  shows "opera_clio_state_size c = 262516 \<and> fst (opera_clio_state_save c buf) = 262516 \<and>
    opera_clio_state_load False (snd (opera_clio_state_save c buf)) 262516 (cur, m) =
      (262516, c, clio_set_rom c m)"
proof -
  have n: "payload_sizing (clio_state_write_payload c) = 262508"
    using payload_sizing_emits [OF emits_clio [of c]] by (simp add: length_clio_enc)
  show ?thesis
    using clio_chunk.roundtrip [of "(c, clio_set_rom c m)" buf "(cur, m)"]
      clio_chunk.saved_size [of "(c, clio_set_rom c m)" buf] assms
    by (simp add: opera_clio_state_size_def opera_clio_state_save_def opera_clio_state_load_def clio_payload n
        length_clio_enc opera_state_chunk_size_def opera_state_save_size_def opera_state_chunk_header_size_def)
qed

definition reset_clio :: clio where
  "reset_clio = \<lparr>clio_regs = (\<lambda>a. if a = 0x84 then 4 else 0), dsp_word1 = 0, dsp_word2 = 0, dsp_address = 0,
     fifo_i = (\<lambda>_. no_fifo), fifo_o = (\<lambda>_. no_fifo), flagtime = 0, TIMER_VAL = 0, TIMER_CARRY = 1\<rparr>"

theorem clio_state_roundtrip_witness:
  "\<forall>cur m. opera_clio_state_load False (snd (opera_clio_state_save reset_clio (replicate 262516 0))) 262516 (cur, m) =
     (262516, reset_clio, m\<lparr>ROM := Some PTR_ROM2\<rparr>)"
proof (intro allI)
  fix cur m
  have "clio_clean reset_clio" by (simp add: clio_clean_def reset_clio_def)
  from clio_state_roundtrip [OF this, of "replicate 262516 0" cur m]
  show "opera_clio_state_load False (snd (opera_clio_state_save reset_clio (replicate 262516 0))) 262516 (cur, m) =
      (262516, reset_clio, m\<lparr>ROM := Some PTR_ROM2\<rparr>)"
    by (simp add: clio_set_rom_def reset_clio_def opera_mem_rom_select_def)
qed

end
