(* ===== verification/Opera_Clio_Timers.thy ===== *)
theory Opera_Clio_Timers
  imports Opera_Clio_State
begin

text \<open>
  The sixteen timers of CLIO: \<open>n\<close> consecutive timers that cascade and reload are one down counter
  in mixed radix, each digit counting from its reload register down to zero.
\<close>

definition timer_reg :: "nat \<Rightarrow> u32" where
  "timer_reg t = 0x100 + push_bit 3 (of_nat t)"

definition digit :: "clio \<Rightarrow> nat \<Rightarrow> nat" where
  "digit c t = unat (clio_regs c (timer_reg t) AND 0xFFFF)"

definition radix :: "clio \<Rightarrow> nat \<Rightarrow> nat" where
  "radix c t = unat (clio_regs c (timer_reg t + 4) AND 0xFFFF) + 1"

primrec chain_value :: "clio \<Rightarrow> nat \<Rightarrow> nat \<Rightarrow> nat" where
  "chain_value c t 0 = 0"
| "chain_value c t (Suc n) = digit c t + radix c t * chain_value c (Suc t) n"

primrec chain_modulus :: "clio \<Rightarrow> nat \<Rightarrow> nat \<Rightarrow> nat" where
  "chain_modulus c t 0 = 1"
| "chain_modulus c t (Suc n) = radix c t * chain_modulus c (Suc t) n"

definition timer_sweep :: "nat \<Rightarrow> nat \<Rightarrow> clio \<Rightarrow> clio" where
  "timer_sweep t n c = fold (\<lambda>i. opera_clio_timer_execute (of_nat i)) [t..<t + n] c"

text \<open>Decrementing and reloading; cascading as well.\<close>

definition counts :: "clio \<Rightarrow> nat \<Rightarrow> bool" where
  "counts c t \<longleftrightarrow> timer_flags (of_nat t) c AND 1 \<noteq> 0 \<and> timer_flags (of_nat t) c AND 2 \<noteq> 0"

definition cascades :: "clio \<Rightarrow> nat \<Rightarrow> bool" where
  "cascades c t \<longleftrightarrow> timer_flags (of_nat t) c AND 4 \<noteq> 0"

section \<open>One timer\<close>

lemma timer_word:
  assumes "t < 16"
  shows "(of_nat t :: u32) AND 0xF = of_nat t" "(of_nat t = (0 :: u32)) = (t = 0)"
    "((of_nat t :: u32) AND 1 \<noteq> 0) = odd t" "unat (10 - drop_bit 1 (of_nat t :: u32)) = 10 - t div 2"
    "unat (timer_reg t) = 256 + 8 * t" "unat (timer_reg t + 4) = 260 + 8 * t"
proof -
  have u: "unat (of_nat t :: u32) = t" using assms by (intro unat_of_nat_u32) simp
  have "unat (take_bit 4 (of_nat t :: u32)) = t"
    using assms by (simp add: unsigned_take_bit_eq u take_bit_nat_eq_self)
  then have "(of_nat t :: u32) AND mask 4 = of_nat t" by (simp add: take_bit_eq_mask word_unat_eq_iff u)
  then show "(of_nat t :: u32) AND 0xF = of_nat t" by (simp add: mask_eq_exp_minus_1)
  show "(of_nat t = (0 :: u32)) = (t = 0)" using u by auto
  show "((of_nat t :: u32) AND 1 \<noteq> 0) = odd t"
    using and_exp_eq_0_iff_not_bit [of "of_nat t :: u32" 0] assms by (simp add: bit_simps bit_0)
  have d: "unat (drop_bit 1 (of_nat t :: u32)) = t div 2"
    using u by (simp add: drop_bit_Suc unat_div)
  then have "drop_bit 1 (of_nat t :: u32) \<le> 10" using assms by (simp add: word_le_nat_alt)
  then show "unat (10 - drop_bit 1 (of_nat t :: u32)) = 10 - t div 2"
    by (simp only: unat_sub_le d) simp
  have p: "unat (push_bit 3 (of_nat t :: u32)) = 8 * t"
    using assms by (simp add: push_bit_eq_mult unat_word_ariths u)
  show "unat (timer_reg t) = 256 + 8 * t" "unat (timer_reg t + 4) = 260 + 8 * t"
    using assms p by (simp_all add: timer_reg_def unat_word_ariths)
qed

lemma timer_reg_distinct:
  assumes "t < 16" "u < 16"
  shows "timer_reg t = timer_reg u \<longleftrightarrow> t = u" "timer_reg t + 4 \<noteq> timer_reg u"
    "timer_reg t \<noteq> 0x40" "timer_reg t \<noteq> 0x60" "timer_reg t \<noteq> 0x200" "timer_reg t \<noteq> 0x208"
    "timer_reg t + 4 \<noteq> 0x40" "timer_reg t + 4 \<noteq> 0x60"
proof -
  note e = timer_word(5,6) [OF assms(1)] timer_word(5,6) [OF assms(2)]
  have ne: "x \<noteq> y" if "unat x \<noteq> unat y" for x y :: u32 using that by blast
  have "256 + 8 * t = 256 + 8 * u" if "timer_reg t = timer_reg u" using that e(1,3) by metis
  then show "timer_reg t = timer_reg u \<longleftrightarrow> t = u" by auto
  show "timer_reg t + 4 \<noteq> timer_reg u" by (rule ne, unfold e, presburger)
  show "timer_reg t \<noteq> 0x40" "timer_reg t \<noteq> 0x60" "timer_reg t \<noteq> 0x200" "timer_reg t \<noteq> 0x208"
    "timer_reg t + 4 \<noteq> 0x40" "timer_reg t + 4 \<noteq> 0x60"
    by (rule ne, use assms(1) in \<open>unfold e, simp\<close>)+
qed

text \<open>A timer without carry to pass on, and one that counts.\<close>

lemma timer_waits:
  assumes "t < 16" "cascades c t" "TIMER_CARRY c = 0"
  shows "clio_regs (opera_clio_timer_execute (of_nat t) c) = clio_regs c"
    "TIMER_CARRY (opera_clio_timer_execute (of_nat t) c) = 0"
proof -
  have "timer_flags k (c\<lparr>TIMER_CARRY := 0\<rparr>) = timer_flags k c" for k by (simp add: timer_flags_def)
  then show "clio_regs (opera_clio_timer_execute (of_nat t) c) = clio_regs c"
    "TIMER_CARRY (opera_clio_timer_execute (of_nat t) c) = 0"
    using assms unfolding opera_clio_timer_execute_def Let_def timer_word(1) [OF assms(1)]
    by (auto simp: cascades_def)
qed

lemma timer_counts:
  assumes t: "t < 16" and c: "counts c t" and go: "\<not> cascades c t \<or> t \<noteq> 0 \<and> TIMER_CARRY c \<noteq> 0"
  defines "c' \<equiv> opera_clio_timer_execute (of_nat t) c"
  shows "a \<noteq> 0x40 \<Longrightarrow> clio_regs c' a =
      (if a = timer_reg t
       then (if digit c t = 0 then clio_regs c (timer_reg t + 4) AND 0xFFFF else (clio_regs c a AND 0xFFFF) - 1)
       else clio_regs c a)"
    and "clio_regs c' 0x40 = clio_regs c 0x40 OR
      (if digit c t = 0 \<and> odd t then push_bit (10 - t div 2) 1 AND NOT 0x80000000 else 0)"
    and "TIMER_CARRY c' = (if digit c t = 0 then 1 else 0)"
proof -
  define d where "d = (if of_nat t = (0 :: u32) then c\<lparr>TIMER_CARRY := 0\<rparr> else c)"
  have f: "timer_flags k d = timer_flags k c" for k by (simp add: d_def timer_flags_def)
  have r: "clio_regs d = clio_regs c" by (simp add: d_def)
  have s: "(timer_flags (of_nat t) c AND 4 \<noteq> 0 \<and> TIMER_CARRY d = 0) = False"
    using go timer_word(2) [OF t] by (auto simp: cascades_def d_def)
  have g: "(timer_flags (of_nat t) c AND 1 \<noteq> 0) = True" "(timer_flags (of_nat t) c AND 2 \<noteq> 0) = True"
    using c by (simp_all add: counts_def)
  note D = timer_reg_distinct [OF t t]
  have e: "c' = (if clio_regs c (timer_reg t) AND 0xFFFF = 0 then
       (set_creg (timer_reg t) (clio_regs c (timer_reg t + 4) AND 0xFFFF)
          (if odd t then opera_clio_fiq_generate (push_bit (10 - t div 2) 1) 0 d else d))\<lparr>TIMER_CARRY := 1\<rparr>
     else (set_creg (timer_reg t) ((clio_regs c (timer_reg t) AND 0xFFFF) - 1) d)\<lparr>TIMER_CARRY := 0\<rparr>)"
    unfolding c'_def opera_clio_timer_execute_def Let_def timer_word(1) [OF t] d_def [symmetric] f r
      timer_word(3,4) [OF t] timer_reg_def [symmetric] s g if_True if_False
    using D by (simp add: opera_clio_fiq_generate_def r Let_def)
  have z: "digit c t = 0 \<longleftrightarrow> clio_regs c (timer_reg t) AND 0xFFFF = 0" by (simp add: digit_def unat_eq_0)
  show "clio_regs c' a =
      (if a = timer_reg t
       then (if digit c t = 0 then clio_regs c (timer_reg t + 4) AND 0xFFFF else (clio_regs c a AND 0xFFFF) - 1)
       else clio_regs c a)" if "a \<noteq> 0x40"
    using that D by (auto simp: e z r opera_clio_fiq_generate_def)
  show "clio_regs c' 0x40 = clio_regs c 0x40 OR
      (if digit c t = 0 \<and> odd t then push_bit (10 - t div 2) 1 AND NOT 0x80000000 else 0)"
    using D(3) [symmetric] D(4) by (simp add: e z r opera_clio_fiq_generate_def)
  show "TIMER_CARRY c' = (if digit c t = 0 then 1 else 0)" by (simp add: e z)
qed

section \<open>A chain of timers\<close>

lemma low16: "unat x < 65536 \<Longrightarrow> x AND 0xFFFF = x" for x :: u32
proof -
  assume "unat x < 65536"
  then have "take_bit 16 x = x" by (simp add: word_unat_eq_iff unsigned_take_bit_eq take_bit_nat_eq_self)
  then show ?thesis by (simp add: take_bit_eq_mask mask_eq_exp_minus_1)
qed

lemma digit_less: "digit c t < 65536"
proof -
  have "unat (take_bit 16 (clio_regs c (timer_reg t))) < 2 ^ 16"
    using take_bit_nat_less_exp [of 16 "unat (clio_regs c (timer_reg t))"] by (simp add: unsigned_take_bit_eq)
  then show ?thesis by (simp add: digit_def take_bit_eq_mask mask_eq_exp_minus_1)
qed

lemma flags_cong:
  assumes "clio_regs c' 0x200 = clio_regs c 0x200" "clio_regs c' 0x208 = clio_regs c 0x208"
  shows "counts c' = counts c" "cascades c' = cascades c"
proof -
  have "timer_flags k c' = timer_flags k c" for k using assms by (simp add: timer_flags_def)
  then show "counts c' = counts c" "cascades c' = cascades c" by (auto simp: fun_eq_iff counts_def cascades_def)
qed

lemma chain_cong:
  assumes "\<And>u. t \<le> u \<Longrightarrow> u < t + n \<Longrightarrow> digit c' u = digit c u \<and> radix c' u = radix c u"
  shows "chain_value c' t n = chain_value c t n \<and> chain_modulus c' t n = chain_modulus c t n"
  using assms by (induction n arbitrary: t) simp_all

lemma timer_sweep_Suc: "timer_sweep t (Suc n) c = timer_sweep (Suc t) n (opera_clio_timer_execute (of_nat t) c)"
  by (simp add: timer_sweep_def upt_rec)

lemma sweep_waits:
  assumes "t + n \<le> 16" "\<And>u. t \<le> u \<Longrightarrow> u < t + n \<Longrightarrow> cascades c u" "TIMER_CARRY c = 0"
  shows "clio_regs (timer_sweep t n c) = clio_regs c \<and> TIMER_CARRY (timer_sweep t n c) = 0"
  using assms
proof (induction n arbitrary: t c)
  case 0
  then show ?case by (simp add: timer_sweep_def)
next
  case (Suc n)
  let ?c = "opera_clio_timer_execute (of_nat t) c"
  have w: "clio_regs ?c = clio_regs c" "TIMER_CARRY ?c = 0"
    using Suc.prems timer_waits [of t c] by simp_all
  then have "cascades ?c = cascades c" by (intro flags_cong(2)) simp_all
  then show ?case using Suc.IH [of "Suc t" ?c] Suc.prems w by (simp add: timer_sweep_Suc)
qed

definition chained :: "clio \<Rightarrow> nat \<Rightarrow> nat \<Rightarrow> bool" where
  "chained c t n \<longleftrightarrow> t + n \<le> 16 \<and> (\<forall>u\<in>{t..<t + n}. counts c u) \<and> (\<forall>u\<in>{t<..<t + n}. cascades c u)"

lemma fiq_bit:
  assumes "k < 32" "m \<le> 10" shows "bit (push_bit m 1 AND NOT 0x80000000 :: u32) k \<longleftrightarrow> k = m"
proof -
  have "bit (0x80000000 :: u32) k \<longleftrightarrow> k = 31"
    using bit_push_bit_iff [of 31 "1 :: u32" k] by (auto simp: push_bit_eq_mult bit_1_iff)
  then show ?thesis using assms by (auto simp: bit_simps)
qed

lemma sweep_counts:
  assumes "chained c t n" "n \<noteq> 0 \<Longrightarrow> \<not> cascades c t \<or> t \<noteq> 0 \<and> TIMER_CARRY c \<noteq> 0"
  defines "v \<equiv> chain_value c t" and "c' \<equiv> timer_sweep t n c"
  shows "chain_value c' t n = (if v n = 0 then chain_modulus c t n - 1 else v n - 1) \<and>
    (n \<noteq> 0 \<longrightarrow> TIMER_CARRY c' = (if v n = 0 then 1 else 0)) \<and>
    (\<forall>k<32. bit (clio_regs c' 0x40) k \<longleftrightarrow>
       bit (clio_regs c 0x40) k \<or> (\<exists>u\<in>{t..<t + n}. odd u \<and> k = 10 - u div 2 \<and> v (Suc (u - t)) = 0)) \<and>
    (\<forall>a. a \<noteq> 0x40 \<and> (\<forall>u\<in>{t..<t + n}. a \<noteq> timer_reg u) \<longrightarrow> clio_regs c' a = clio_regs c a)"
  using assms(1,2) unfolding v_def c'_def
proof (induction n arbitrary: t c)
  case 0
  then show ?case by (simp add: timer_sweep_def)
next
  case (Suc n)
  let ?c = "opera_clio_timer_execute (of_nat t) c"
  have t: "t < 16" and ct: "counts c t" and go: "\<not> cascades c t \<or> t \<noteq> 0 \<and> TIMER_CARRY c \<noteq> 0"
    using Suc.prems by (auto simp: chained_def)
  note step = timer_counts [OF t ct go]
  note dist = timer_reg_distinct [OF t]
  have same: "clio_regs ?c a = clio_regs c a" if "a \<noteq> 0x40" "a \<noteq> timer_reg t" for a
    using step(1) [OF that(1)] that(2) by simp
  have ctl: "counts ?c = counts c" "cascades ?c = cascades c"
    using dist(5,6) [OF t] by (intro flags_cong; simp add: same)+
  have dr: "digit ?c u = digit c u" "radix ?c u = radix c u" if "u < 16" "u \<noteq> t" for u
    using that dist(1) [OF that(1)] timer_reg_distinct [OF that(1) t] by (auto simp: digit_def radix_def same)
  have rt: "radix ?c t = radix c t"
    using timer_reg_distinct(2,7,8) [OF t t] by (simp add: radix_def same)
  have cg: "chain_value ?c (Suc t) m = chain_value c (Suc t) m" "chain_modulus ?c (Suc t) m = chain_modulus c (Suc t) m"
    if "m \<le> n" for m
    using chain_cong [of "Suc t" m ?c c] dr that Suc.prems(1) by (auto simp: chained_def)
  have ch: "chained ?c (Suc t) n" using Suc.prems(1) by (simp add: chained_def ctl)
  have b: "bit (clio_regs ?c 0x40) k = (bit (clio_regs c 0x40) k \<or> digit c t = 0 \<and> odd t \<and> k = 10 - t div 2)"
    if "k < 32" for k
    using fiq_bit [OF that, of "10 - t div 2"] by (simp add: step(2) bit_or_iff)
  have pos: "0 < radix c t" by (simp add: radix_def)
  let ?d = "timer_sweep (Suc t) n ?c"
  have keep: "digit ?d t = digit ?c t \<and> radix ?d t = radix c t"
    if "\<And>a. a \<noteq> 0x40 \<Longrightarrow> \<forall>u\<in>{Suc t..<Suc t + n}. a \<noteq> timer_reg u \<Longrightarrow> clio_regs ?d a = clio_regs ?c a"
  proof -
    have "clio_regs ?d (timer_reg t) = clio_regs ?c (timer_reg t)"
      using that [of "timer_reg t"] dist(1) dist(3) [OF t] Suc.prems(1) by (auto simp: chained_def)
    moreover have "clio_regs ?d (timer_reg t + 4) = clio_regs ?c (timer_reg t + 4)"
      using that [of "timer_reg t + 4"] dist(2) dist(7) [OF t] Suc.prems(1) by (auto simp: chained_def)
    ultimately show ?thesis using rt by (simp add: digit_def radix_def)
  qed
  have "{t..<t + Suc n} = insert t {Suc t..<Suc t + n}" by auto
  then have split: "(\<exists>u\<in>{t..<t + Suc n}. P u) \<longleftrightarrow> P t \<or> (\<exists>u\<in>{Suc t..<Suc t + n}. P u)" for P
    by simp
  show ?case
  proof (cases "digit c t = 0")
    case True
    have d: "digit ?c t = radix c t - 1" using True dist(3) [OF t] by (simp add: digit_def radix_def step(1))
    have IH: "n \<noteq> 0 \<Longrightarrow> \<not> cascades ?c (Suc t) \<or> Suc t \<noteq> 0 \<and> TIMER_CARRY ?c \<noteq> 0" by (simp add: step(3) True)
    note ih = Suc.IH [OF ch IH, unfolded cg [OF le_refl]]
    have k: "digit ?d t = radix c t - 1" "radix ?d t = radix c t" using keep ih d by auto
    have z: "chain_value c t (Suc m) = 0 \<longleftrightarrow> chain_value c (Suc t) m = 0" for m using True pos by simp
    have u: "chain_value ?c (Suc t) (Suc (u - Suc t)) = 0 \<longleftrightarrow> chain_value c t (Suc (u - t)) = 0"
      if "u \<in> {Suc t..<Suc t + n}" for u
    proof -
      have "u - t = Suc (u - Suc t)" "Suc (u - Suc t) \<le> n" using that by auto
      then show ?thesis using cg(1) [of "Suc (u - Suc t)"] z [of "Suc (u - Suc t)"] by simp
    qed
    have val: "chain_value ?d t (Suc n) = (if chain_value c t (Suc n) = 0 then chain_modulus c t (Suc n) - 1
        else chain_value c t (Suc n) - 1)"
    proof (cases "chain_value c (Suc t) n = 0")
      case z0: True
      have "0 < chain_modulus c (Suc t) n" by (induction n arbitrary: t) (simp_all add: radix_def)
      then show ?thesis using z0 k ih True pos by (simp add: diff_mult_distrib2)
    next
      case nz: False
      then have "radix c t \<le> radix c t * chain_value c (Suc t) n" by simp
      then show ?thesis using nz k ih True pos by (simp add: diff_mult_distrib2)
    qed
    have car: "TIMER_CARRY ?d = (if chain_value c t (Suc n) = 0 then 1 else 0)"
      using ih True pos step(3) by (cases "n = 0") (simp_all add: timer_sweep_def)
    have bits: "bit (clio_regs ?d 0x40) k \<longleftrightarrow> bit (clio_regs c 0x40) k \<or>
        (\<exists>u\<in>{t..<t + Suc n}. odd u \<and> k = 10 - u div 2 \<and> chain_value c t (Suc (u - t)) = 0)" if "k < 32" for k
    proof -
      have "bit (clio_regs ?d 0x40) k \<longleftrightarrow> bit (clio_regs ?c 0x40) k \<or>
          (\<exists>u\<in>{Suc t..<Suc t + n}. odd u \<and> k = 10 - u div 2 \<and> chain_value ?c (Suc t) (Suc (u - Suc t)) = 0)"
        using ih that by blast
      also have "\<dots> \<longleftrightarrow> bit (clio_regs ?c 0x40) k \<or>
          (\<exists>u\<in>{Suc t..<Suc t + n}. odd u \<and> k = 10 - u div 2 \<and> chain_value c t (Suc (u - t)) = 0)"
        using u by blast
      finally show ?thesis unfolding split b [OF that] using True by auto
    qed
    show ?thesis using val car bits ih same by (auto simp: timer_sweep_Suc)
  next
    case False
    have w: "clio_regs ?d = clio_regs ?c" "TIMER_CARRY ?d = 0"
      using sweep_waits [of "Suc t" n ?c] Suc.prems(1) by (auto simp: chained_def ctl step(3) False)
    have nz: "chain_value c t (Suc m) \<noteq> 0" for m using False by simp
    have "digit ?c t = digit c t - 1"
    proof -
      have "clio_regs c (timer_reg t) AND 0xFFFF \<noteq> 0" using False by (auto simp: digit_def)
      then have m: "unat ((clio_regs c (timer_reg t) AND 0xFFFF) - 1) = digit c t - 1"
        by (simp add: digit_def unat_minus_one)
      moreover have "((clio_regs c (timer_reg t) AND 0xFFFF) - 1) AND 0xFFFF = (clio_regs c (timer_reg t) AND 0xFFFF) - 1"
        using digit_less [of c t] by (intro low16) (simp add: m)
      moreover have "clio_regs ?c (timer_reg t) = (clio_regs c (timer_reg t) AND 0xFFFF) - 1"
        using dist(3) [OF t] by (simp add: step(1) False)
      ultimately show ?thesis by (simp add: digit_def [of ?c])
    qed
    moreover have "digit ?d = digit ?c" "radix ?d = radix ?c" using w by (simp_all add: fun_eq_iff digit_def radix_def)
    moreover have "chain_value ?d (Suc t) n = chain_value c (Suc t) n"
      using chain_cong [of "Suc t" n ?d ?c] cg(1) [OF le_refl] calculation(2,3) by simp
    ultimately show ?thesis using w b nz False same by (auto simp: timer_sweep_Suc rt)
  qed
qed

text \<open>C27. Cascaded timers are one counter. When a chain of reloading timers is serviced in order from a timer
  that does not cascade, the mixed-radix number their count registers hold goes down by one,
  wrapping from zero to its largest value; the carry left behind says whether it wrapped;
  an odd timer's interrupt is raised exactly when the part of the counter up to it wrapped; and
  no register but the counts and the interrupt register changes.\<close>

theorem clio_timer_chain:
  assumes "chained c t n" "n \<noteq> 0" "\<not> cascades c t"
  shows "chain_value (timer_sweep t n c) t n =
      (if chain_value c t n = 0 then chain_modulus c t n - 1 else chain_value c t n - 1) \<and>
    TIMER_CARRY (timer_sweep t n c) = (if chain_value c t n = 0 then 1 else 0) \<and>
    (\<forall>k<32. bit (clio_regs (timer_sweep t n c) 0x40) k \<longleftrightarrow>
       bit (clio_regs c 0x40) k \<or> (\<exists>u\<in>{t..<t + n}. odd u \<and> k = 10 - u div 2 \<and> chain_value c t (Suc (u - t)) = 0)) \<and>
    (\<forall>a. a \<noteq> 0x40 \<and> (\<forall>u\<in>{t..<t + n}. a \<noteq> timer_reg u) \<longrightarrow> clio_regs (timer_sweep t n c) a = clio_regs c a)"
  using sweep_counts [of c t n] assms by simp

text \<open>Timers 0 and 1 as one 32-bit counter at zero, timer 1 cascading.\<close>

definition timer_clio :: clio where
  "timer_clio = reset_clio\<lparr>clio_regs := (\<lambda>_. 0)(0x200 := 0x73, 0x104 := 0xFFFF, 0x10C := 0xFFFF)\<rparr>"

theorem clio_timer_chain_witness:
  "chain_value (timer_sweep 0 2 timer_clio) 0 2 = 2 ^ 32 - 1 \<and> bit (clio_regs (timer_sweep 0 2 timer_clio) 0x40) 10"
proof -
  have u: "{0..<0 + 2} = {0, 1 :: nat}" "{0<..<0 + 2} = {1 :: nat}" by auto
  have c: "chained timer_clio 0 2" "\<not> cascades timer_clio 0"
    unfolding chained_def u
    by (simp_all add: counts_def cascades_def timer_flags_def timer_control_shift_def timer_clio_def)
  have d: "digit timer_clio 0 = 0" "digit timer_clio (Suc 0) = 0" "radix timer_clio 0 = 65536" "radix timer_clio (Suc 0) = 65536"
    by (simp_all add: digit_def radix_def timer_reg_def timer_clio_def)
  have v: "chain_value timer_clio 0 2 = 0" "chain_modulus timer_clio 0 2 = 4294967296" "chain_value timer_clio 0 (Suc 1) = 0"
    using d by (simp_all add: numeral_2_eq_2)
  have "\<exists>u\<in>{0..<0 + 2}. odd u \<and> 10 = 10 - u div 2 \<and> chain_value timer_clio 0 (Suc (u - 0)) = 0"
    using v(3) by (intro bexI [of _ 1]) simp_all
  then show ?thesis using clio_timer_chain [OF c(1) _ c(2)] v by simp
qed

end
