(* ===== verification/Opera_Clio_Audio.thy ===== *)
theory Opera_Clio_Audio
  imports Opera_Clio_State Opera_Mem_Props
begin

text \<open>
  The audio queues of CLIO: samples leave memory in order, the last one raises the channel's
  interrupt, and the queue goes on with the programmed next buffer or stops.
\<close>

text \<open>\<open>n\<close> reads of the signal processor from one channel.\<close>

primrec fifo_drain :: "memory \<Rightarrow> nat \<Rightarrow> nat \<Rightarrow> clio \<Rightarrow> u16 list \<times> clio" where
  "fifo_drain m ch 0 c = ([], c)"
| "fifo_drain m ch (Suc n) c =
     (let (v, c) = opera_clio_fifo_ei m ch c; (vs, c) = fifo_drain m ch n c in (v # vs, c))"

text \<open>The samples of a buffer from a position on, and a queue with \<open>n\<close> of them still to go.\<close>

definition samples :: "memory \<Rightarrow> fifo \<Rightarrow> u32 \<Rightarrow> nat \<Rightarrow> u16 list" where
  "samples m b i n = map (\<lambda>k. opera_mem_read16 m (fifo_addr b + (i + 2 * of_nat k))) [0..<n]"

definition playing :: "clio_fifo \<Rightarrow> nat \<Rightarrow> bool" where
  "playing f n \<longleftrightarrow> fifo_addr (fifo_start f) \<noteq> 0 \<and> 0 \<le> sint (fifo_idx f) \<and>
     sint (fifo_len (fifo_start f)) = sint (fifo_idx f) + 2 * int n"

definition after_buffer :: "nat \<Rightarrow> clio \<Rightarrow> clio_fifo" where
  "after_buffer ch c =
     (let f = fifo_i c ch in f\<lparr>fifo_idx := 0,
        fifo_start := (if fifo_addr (fifo_next f) \<noteq> 0 \<and> dma_channel_enabled ch c then fifo_next f
                       else (fifo_start f)\<lparr>fifo_addr := 0\<rparr>)\<rparr>)"

lemma samples_Suc: "samples m b i (Suc n) = opera_mem_read16 m (fifo_addr b + i) # samples m b (i + 2) n"
  by (simp add: samples_def upt_rec [of 0] map_Suc_upt [symmetric] del: upt_Suc map_Suc_upt) (simp add: algebra_simps)

lemma samples_append: "samples m b i (Suc n) = samples m b i n @ [opera_mem_read16 m (fifo_addr b + (i + 2 * of_nat n))]"
  by (simp add: samples_def)

lemma sint_top_bit: "bit (0x80000000 :: u32) k \<longleftrightarrow> k = 31"
  using bit_push_bit_iff [of 31 "1 :: u32" k] by (auto simp: push_bit_eq_mult bit_1_iff)

lemma playing_step:
  assumes "playing f (Suc n)" shows "\<not> fifo_at_end f" "playing (f\<lparr>fifo_idx := fifo_idx f + 2\<rparr>) n"
    "fifo_at_end (f\<lparr>fifo_idx := fifo_idx f + 2\<rparr>) \<longleftrightarrow> n = 0"
proof -
  have "sint (fifo_len (fifo_start f)) < 2 ^ 31" using sint_lt [of "fifo_len (fifo_start f)"] by simp
  then have i: "sint (fifo_idx f + 2) = sint (fifo_idx f) + 2"
    using assms by (simp add: playing_def sint_word_ariths signed_take_bit_int_eq_self)
  show "\<not> fifo_at_end f" "playing (f\<lparr>fifo_idx := fifo_idx f + 2\<rparr>) n"
    "fifo_at_end (f\<lparr>fifo_idx := fifo_idx f + 2\<rparr>) \<longleftrightarrow> n = 0"
    using assms by (auto simp: playing_def fifo_at_end_def i)
qed

lemma fifo_i_set [simp]:
  "fifo_i (set_fifo_i ch f c) = (fifo_i c)(ch := f)" "clio_regs (set_fifo_i ch f c) = clio_regs c"
  "fifo_i (opera_clio_fiq_generate a b c) = fifo_i c"
  by (simp_all add: set_fifo_i_def opera_clio_fiq_generate_def Let_def)

lemma set_fifo_i_twice: "set_fifo_i ch g (set_fifo_i ch f c) = set_fifo_i ch g c"
  by (simp add: set_fifo_i_def)

lemma enabled_same: "clio_regs c 0x304 = clio_regs c' 0x304 \<Longrightarrow> dma_channel_enabled ch c = dma_channel_enabled ch c'"
  by (simp add: dma_channel_enabled_def)

lemma complete_state:
  "fifo_i (clio_fifo_ei_complete ch c) = (fifo_i c)(ch := after_buffer ch c)"
  "clio_regs (clio_fifo_ei_complete ch c) =
     (clio_regs c)(0x40 := clio_regs c 0x40 OR (push_bit (ch + 16) 1 AND NOT 0x80000000))"
  by (auto simp: clio_fifo_ei_complete_def after_buffer_def dma_channel_enabled_def Let_def fun_eq_iff
      opera_clio_fiq_generate_def)

lemma read_sample:
  assumes "playing (fifo_i c ch) (Suc n)"
  defines "f \<equiv> fifo_i c ch"
  defines "c1 \<equiv> set_fifo_i ch (f\<lparr>fifo_idx := fifo_idx f + 2\<rparr>) c"
  shows "opera_clio_fifo_ei m ch c =
     (opera_mem_read16 m (fifo_addr (fifo_start f) + fifo_idx f), if n = 0 then clio_fifo_ei_complete ch c1 else c1)"
  using assms(1) playing_step [OF assms(1)] unfolding opera_clio_fifo_ei_def Let_def f_def c1_def
  by (simp add: playing_def opera_clio_fifo_ei_read_def)

lemma drain_playing:
  assumes "playing (fifo_i c ch) n" "k < n"
  defines "f \<equiv> fifo_i c ch"
  shows "fifo_drain m ch k c = (samples m (fifo_start f) (fifo_idx f) k,
     set_fifo_i ch (f\<lparr>fifo_idx := fifo_idx f + 2 * of_nat k\<rparr>) c)"
  using assms(1,2) unfolding f_def
proof (induction k arbitrary: c n)
  case 0
  then show ?case by (simp add: samples_def set_fifo_i_def)
next
  case (Suc k)
  then obtain n' where n: "n = Suc n'" "k < n'" by (cases n) auto
  let ?f = "fifo_i c ch" and ?c = "set_fifo_i ch ((fifo_i c ch)\<lparr>fifo_idx := fifo_idx (fifo_i c ch) + 2\<rparr>) c"
  note p = Suc.prems(1) [unfolded n]
  have r: "opera_clio_fifo_ei m ch c = (opera_mem_read16 m (fifo_addr (fifo_start ?f) + fifo_idx ?f), ?c)"
    using read_sample [OF p, of m] n by simp
  have "playing (fifo_i ?c ch) n'" using playing_step(2) [OF p] by simp
  from Suc.IH [OF this n(2)] show ?case
    by (simp add: r samples_Suc set_fifo_i_twice algebra_simps)
qed

lemma playing_advance: "playing f (k + n) \<Longrightarrow> playing (f\<lparr>fifo_idx := fifo_idx f + 2 * of_nat k\<rparr>) n"
proof (induction k arbitrary: f)
  case (Suc k)
  have "playing (f\<lparr>fifo_idx := fifo_idx f + 2\<rparr>) (k + n)" using Suc.prems by (intro playing_step(2)) simp
  from Suc.IH [OF this] show ?case by (simp add: algebra_simps)
qed simp

text \<open>C29. Audio is delivered in order and its end is always reported. A channel whose buffer has \<open>n\<close> samples to
  go returns the first \<open>k < n\<close> of them in order and stays busy without touching a register;
  the read of the last one returns it, raises exactly the channel's interrupt bit, and
  leaves the queue at the start of the next buffer when one is programmed and the channel is
  enabled, and idle otherwise; an idle channel reads as silence.\<close>

theorem clio_audio_delivery:
  assumes "playing (fifo_i c ch) (Suc n)" "ch < 13" "fifo_drain m ch (Suc n) c = (vs, c')"
  defines "f \<equiv> fifo_i c ch"
  shows "(\<forall>k\<le>n. fst (fifo_drain m ch k c) = samples m (fifo_start f) (fifo_idx f) k \<and>
      clio_regs (snd (fifo_drain m ch k c)) = clio_regs c \<and>
      opera_clio_fifo_ei_status ch (snd (fifo_drain m ch k c)) = 2) \<and>
    vs = samples m (fifo_start f) (fifo_idx f) (Suc n) \<and> fifo_i c' ch = after_buffer ch c \<and>
    clio_regs c' = (clio_regs c)(0x40 := clio_regs c 0x40 OR push_bit (ch + 16) 1) \<and>
    (fifo_addr (fifo_next f) = 0 \<or> \<not> dma_channel_enabled ch c \<longrightarrow>
       opera_clio_fifo_ei_status ch c' = 0 \<and> opera_clio_fifo_ei m ch c' = (0, c'))"
proof -
  have drain_Suc: "fifo_drain m ch (Suc n) c =
      (let (vs, c) = fifo_drain m ch n c; (v, c) = opera_clio_fifo_ei m ch c in (vs @ [v], c))" for n c
    by (induction n arbitrary: c) (simp_all add: split_def Let_def)
  let ?c = "set_fifo_i ch (f\<lparr>fifo_idx := fifo_idx f + 2 * of_nat n\<rparr>) c"
  note d = drain_playing [OF assms(1), of _ m, folded f_def]
  have p: "playing (fifo_i ?c ch) (Suc 0)"
    using playing_advance [of f n "Suc 0"] assms(1) by (simp add: f_def)
  have m16: "push_bit (ch + 16) 1 AND NOT 0x80000000 = (push_bit (ch + 16) 1 :: u32)"
    using assms(2)
    by (intro bit_word_eqI) (simp only: bit_and_iff bit_not_iff bit_push_bit_iff possible_bit_word bit_1_iff sint_top_bit, auto)
  have "fifo_drain m ch (Suc n) c = (samples m (fifo_start f) (fifo_idx f) (Suc n), clio_fifo_ei_complete ch
      (set_fifo_i ch (f\<lparr>fifo_idx := fifo_idx f + 2 * of_nat n + 2\<rparr>) c))"
    using read_sample [OF p, of m] by (simp add: drain_Suc d samples_append set_fifo_i_twice algebra_simps del: fifo_drain.simps)
  then have vs: "vs = samples m (fifo_start f) (fifo_idx f) (Suc n)"
    and c': "c' = clio_fifo_ei_complete ch (set_fifo_i ch (f\<lparr>fifo_idx := fifo_idx f + 2 * of_nat n + 2\<rparr>) c)"
    using assms(3) by simp_all
  have i: "fifo_i c' ch = after_buffer ch c"
    by (simp add: c' complete_state after_buffer_def Let_def enabled_same [of "set_fifo_i ch _ c" c] f_def)
  have r: "clio_regs c' = (clio_regs c)(0x40 := clio_regs c 0x40 OR push_bit (ch + 16) 1)"
    by (simp only: c' complete_state fifo_i_set m16)
  have busy: "fifo_addr (fifo_start f) \<noteq> 0" using assms(1) by (simp add: playing_def f_def)
  have idle: "opera_clio_fifo_ei_status ch c' = 0 \<and> opera_clio_fifo_ei m ch c' = (0, c')"
    if "fifo_addr (fifo_next f) = 0 \<or> \<not> dma_channel_enabled ch c"
    using that by (auto simp: opera_clio_fifo_ei_status_def opera_clio_fifo_ei_def Let_def i after_buffer_def f_def)
  show ?thesis
    using vs i r idle busy by (auto simp: d opera_clio_fifo_ei_status_def less_Suc_eq_le)
qed

text \<open>Two samples on channel 0, with the next buffer programmed and enabled.\<close>

definition audio_clio :: clio where
  "audio_clio = reset_clio\<lparr>clio_regs := (\<lambda>_. 0)(0x304 := 1),
     fifo_i := (\<lambda>_. no_fifo)(0 := \<lparr>fifo_idx = 0, fifo_start = \<lparr>fifo_addr = 0x1000, fifo_len = 4\<rparr>,
       fifo_next = \<lparr>fifo_addr = 0x2000, fifo_len = 8\<rparr>\<rparr>)\<rparr>"

theorem clio_audio_delivery_witness:
  "fst (fifo_drain stock_mem 0 2 audio_clio) = [opera_mem_read16 stock_mem 0x1000, opera_mem_read16 stock_mem 0x1002] \<and>
   clio_regs (snd (fifo_drain stock_mem 0 2 audio_clio)) 0x40 = 0x10000 \<and>
   fifo_addr (fifo_start (fifo_i (snd (fifo_drain stock_mem 0 2 audio_clio)) 0)) = 0x2000"
proof -
  have p: "playing (fifo_i audio_clio 0) (Suc 1)" by (simp add: playing_def audio_clio_def)
  have s: "samples stock_mem (fifo_start (fifo_i audio_clio 0)) (fifo_idx (fifo_i audio_clio 0)) (Suc 1) =
      [opera_mem_read16 stock_mem 0x1000, opera_mem_read16 stock_mem 0x1002]"
    by (simp add: samples_def audio_clio_def upt_rec)
  obtain vs c' where d: "fifo_drain stock_mem 0 (Suc 1) audio_clio = (vs, c')" by (cases "fifo_drain stock_mem 0 (Suc 1) audio_clio")
  have "dma_channel_enabled 0 audio_clio" by (simp add: dma_channel_enabled_def audio_clio_def)
  then show ?thesis
    using clio_audio_delivery [OF p _ d] d unfolding s
    by (simp add: after_buffer_def Let_def numeral_2_eq_2) (simp add: audio_clio_def)
qed

end
