(* ===== verification/Opera_Xbus.thy ===== *)
theory Opera_Xbus
  imports Opera_Clio Opera_Clock
begin

text \<open>
  The expansion bus, \<open>src/libopera/opera_xbus.c\<close>: the controller CLIO holds, the sixteen device
  slots behind it and the accesses through the select, poll, command, status and data
  registers. A device is the record of the calls its function pointer answers, over a drive
  state of any type; the calls into CLIO (an interrupt, a change of medium) act on the CLIO
  registers that are part of the bus state, and the clock the drives read is part of it too. The tick, which retries a pending transfer, is in
  \<open>Opera_Clio_Io\<close>.
\<close>

section \<open>State\<close>

record xbus_datum =
  xb_sel_l :: u8
  xb_sel_h :: u8
  polf :: u8
  poldevf :: u8
  stdevf :: "u8 list"
  stlenf :: u8
  cmdf :: "u8 list"
  cmdptrf :: u8

text \<open>\<open>dev_call\<close> is the function pointer for every call whose argument is a number or \<open>NULL\<close>, the
  others are its \<open>XBP_MEDIA_LOAD\<close>, \<open>XBP_GET_SAVEDATA\<close> (the number it returns and the bytes it
  stores) and \<open>XBP_SET_SAVEDATA\<close> (which asks whether the state is only being validated).\<close>

record 'd device =
  dev_call :: "opera_clock \<Rightarrow> nat \<Rightarrow> u32 \<Rightarrow> 'd \<Rightarrow> u32 \<times> 'd"
  dev_media_load :: "string \<Rightarrow> 'd \<Rightarrow> 'd"
  dev_get_savedata :: "opera_clock \<Rightarrow> 'd \<Rightarrow> u32 \<times> u8 list"
  dev_set_savedata :: "opera_clock \<Rightarrow> bool \<Rightarrow> u8 list \<Rightarrow> u32 \<Rightarrow> 'd \<Rightarrow> u32 \<times> 'd"

record 'd xbus =
  XBUS :: xbus_datum
  xdev :: "nat \<Rightarrow> 'd device option"
  g_XBUS_LEGACY_NO_DEVICE_ABORT :: bool
  DRIVES :: 'd
  CLIO :: clio
  CLOCK :: opera_clock

abbreviation (input) XBP_INIT :: nat where "XBP_INIT \<equiv> 0"
abbreviation (input) XBP_RESET :: nat where "XBP_RESET \<equiv> 1"
abbreviation (input) XBP_SET_COMMAND :: nat where "XBP_SET_COMMAND \<equiv> 2"
abbreviation (input) XBP_FIQ :: nat where "XBP_FIQ \<equiv> 3"
abbreviation (input) XBP_SET_DATA :: nat where "XBP_SET_DATA \<equiv> 4"
abbreviation (input) XBP_GET_DATA :: nat where "XBP_GET_DATA \<equiv> 5"
abbreviation (input) XBP_GET_STATUS :: nat where "XBP_GET_STATUS \<equiv> 6"
abbreviation (input) XBP_SET_POLL :: nat where "XBP_SET_POLL \<equiv> 7"
abbreviation (input) XBP_GET_POLL :: nat where "XBP_GET_POLL \<equiv> 8"
abbreviation (input) XBP_RESERV :: nat where "XBP_RESERV \<equiv> 10"
abbreviation (input) XBP_DESTROY :: nat where "XBP_DESTROY \<equiv> 11"
abbreviation (input) XBP_MEDIA_EJECT :: nat where "XBP_MEDIA_EJECT \<equiv> 13"
abbreviation (input) XBP_GET_MEDIA_ACCESS :: nat where "XBP_GET_MEDIA_ACCESS \<equiv> 14"
abbreviation (input) XBP_GET_SAVESIZE :: nat where "XBP_GET_SAVESIZE \<equiv> 19"

definition dev_do :: "'d device \<Rightarrow> nat \<Rightarrow> u32 \<Rightarrow> 'd xbus \<Rightarrow> u32 \<times> 'd xbus" where
  "dev_do dev proc data s = (let (r, d) = dev_call dev (CLOCK s) proc data (DRIVES s) in (r, s\<lparr>DRIVES := d\<rparr>))"

definition on_clio :: "(clio \<Rightarrow> clio) \<Rightarrow> 'd xbus \<Rightarrow> 'd xbus" where
  "on_clio f s = s\<lparr>CLIO := f (CLIO s)\<rparr>"

definition on_xbus :: "(xbus_datum \<Rightarrow> xbus_datum) \<Rightarrow> 'd xbus \<Rightarrow> 'd xbus" where
  "on_xbus f s = s\<lparr>XBUS := f (XBUS s)\<rparr>"

section \<open>Controller\<close>

definition xbus_selected_device :: "'d xbus \<Rightarrow> 'd device option" where
  "xbus_selected_device s = xdev s (unat (xb_sel_l (XBUS s)))"

definition xbus_poll_f :: "xbus_datum \<Rightarrow> u8" where
  "xbus_poll_f x = (polf x AND 0x0F) OR (poldevf x AND 0xF0)"

definition xbus_poll_fiq_pending :: "u8 \<Rightarrow> bool" where
  "xbus_poll_fiq_pending poll \<longleftrightarrow>
     poll AND 0x10 \<noteq> 0 \<and> poll AND 0x01 \<noteq> 0 \<or> poll AND 0x20 \<noteq> 0 \<and> poll AND 0x02 \<noteq> 0 \<or>
     poll AND 0x40 \<noteq> 0 \<and> poll AND 0x04 \<noteq> 0"

definition xbus_clear_fifos_f :: "xbus_datum \<Rightarrow> xbus_datum" where
  "xbus_clear_fifos_f x =
     x\<lparr>stlenf := 0, cmdptrf := 0, stdevf := replicate 255 0, cmdf := replicate 7 0,
       poldevf := poldevf x AND NOT 0x70\<rparr>"

definition no_datum :: xbus_datum where
  "no_datum = \<lparr>xb_sel_l = 0, xb_sel_h = 0, polf = 0, poldevf = 0, stdevf = replicate 255 0, stlenf = 0,
     cmdf = replicate 7 0, cmdptrf = 0\<rparr>"

definition xbus_controller_reset_f :: "'d xbus \<Rightarrow> 'd xbus" where
  "xbus_controller_reset_f s = s\<lparr>XBUS := no_datum\<rparr>"

definition opera_xbus_selected_device_address :: "'d xbus \<Rightarrow> u32" where
  "opera_xbus_selected_device_address s = ucast ((xb_sel_h (XBUS s) AND 0x80) OR xb_sel_l (XBUS s))"

definition xbus_latch_media_access_f :: "'d device \<Rightarrow> 'd xbus \<Rightarrow> 'd xbus" where
  "xbus_latch_media_access_f dev s =
     (let (r, s) = dev_do dev XBP_GET_MEDIA_ACCESS 0 s
      in if r \<noteq> 0 then on_clio (opera_clio_xbus_media_access (opera_xbus_selected_device_address s)) s else s)"

definition opera_xbus_selected_device_absent :: "'d xbus \<Rightarrow> bool" where
  "opera_xbus_selected_device_absent s \<longleftrightarrow>
     (if xb_sel_l (XBUS s) = 0x0F then False
      else if g_XBUS_LEGACY_NO_DEVICE_ABORT s then False
      else xbus_selected_device s = None)"

definition opera_xbus_set_legacy_no_device_abort :: "int \<Rightarrow> 'd xbus \<Rightarrow> 'd xbus" where
  "opera_xbus_set_legacy_no_device_abort enabled s = s\<lparr>g_XBUS_LEGACY_NO_DEVICE_ABORT := enabled \<noteq> 0\<rparr>"

definition opera_xbus_legacy_no_device_abort :: "'d xbus \<Rightarrow> bool" where
  "opera_xbus_legacy_no_device_abort s = g_XBUS_LEGACY_NO_DEVICE_ABORT s"

definition xbus_set_read_id_status_f :: "xbus_datum \<Rightarrow> xbus_datum" where
  "xbus_set_read_id_status_f x =
     (let st = replicate 12 0 @ drop 12 (stdevf x)
      in x\<lparr>stlenf := 12, stdevf := st[0 := 0x83, 2 := 0x10, 4 := 0x01, 11 := 0xE1],
           poldevf := poldevf x OR 0x10\<rparr>)"

definition xbus_fiq :: "'d xbus \<Rightarrow> 'd xbus" where
  "xbus_fiq s = on_clio (opera_clio_fiq_generate 4 0) s"

text \<open>\<open>if(dev(XBP_FIQ,NULL)) opera_clio_fiq_generate(4,0);\<close>, and the same for the controller.\<close>

definition xbus_device_fiq :: "'d device \<Rightarrow> 'd xbus \<Rightarrow> 'd xbus" where
  "xbus_device_fiq dev s = (let (r, s) = dev_do dev XBP_FIQ 0 s in if r \<noteq> 0 then xbus_fiq s else s)"

definition xbus_controller_fiq :: "'d xbus \<Rightarrow> 'd xbus" where
  "xbus_controller_fiq s = (if xbus_poll_fiq_pending (xbus_poll_f (XBUS s)) then xbus_fiq s else s)"

definition xbus_execute_command_f :: "'d xbus \<Rightarrow> 'd xbus" where
  "xbus_execute_command_f s =
     xbus_controller_fiq (if cmdf (XBUS s) ! 0 = 0x83 then on_xbus xbus_set_read_id_status_f s else s)"

section \<open>Register accesses\<close>

definition opera_xbus_fifo_set_cmd :: "u32 \<Rightarrow> 'd xbus \<Rightarrow> 'd xbus" where
  "opera_xbus_fifo_set_cmd val s =
     (case xbus_selected_device s of
        Some dev \<Rightarrow>
          (let s = xbus_latch_media_access_f dev s;
               (_, s) = dev_do dev XBP_SET_COMMAND val s
           in xbus_device_fiq dev s)
      | None \<Rightarrow>
          (if xb_sel_l (XBUS s) = 0x0F then
             (let s = (if cmdptrf (XBUS s) < 7
                       then on_xbus (\<lambda>x. x\<lparr>cmdf := (cmdf x)[unat (cmdptrf x) := ucast val], cmdptrf := cmdptrf x + 1\<rparr>) s
                       else s)
              in if cmdptrf (XBUS s) \<ge> 7 then on_xbus (\<lambda>x. x\<lparr>cmdptrf := 0\<rparr>) (xbus_execute_command_f s) else s)
           else s))"

definition opera_xbus_fifo_get_data :: "'d xbus \<Rightarrow> u32 \<times> 'd xbus" where
  "opera_xbus_fifo_get_data s =
     (case xbus_selected_device s of Some dev \<Rightarrow> dev_do dev XBP_GET_DATA 0 s | None \<Rightarrow> (0, s))"

definition opera_xbus_get_poll :: "'d xbus \<Rightarrow> u32 \<times> 'd xbus" where
  "opera_xbus_get_poll s =
     (if xb_sel_l (XBUS s) = 0x0F then (ucast (xbus_poll_f (XBUS s)), s)
      else
        (case xbus_selected_device s of
           Some dev \<Rightarrow> dev_do dev XBP_GET_POLL 0 s
         | None \<Rightarrow> (if g_XBUS_LEGACY_NO_DEVICE_ABORT s then 0x30 else 0, s)))"

definition opera_xbus_get_res :: "'d xbus \<Rightarrow> u32 \<times> 'd xbus" where
  "opera_xbus_get_res s =
     (case xbus_selected_device s of Some dev \<Rightarrow> dev_do dev XBP_RESERV 0 s | None \<Rightarrow> (0, s))"

text \<open>The head of the controller's status queue leaves and the rest moves up.\<close>

definition status_pop :: "xbus_datum \<Rightarrow> u8 \<times> xbus_datum" where
  "status_pop x =
     (if stlenf x > 0 then
        (let rv = stdevf x ! 0; n = stlenf x - 1; x = x\<lparr>stlenf := n\<rparr>
         in (rv, if n > 0 then x\<lparr>stdevf := fold (\<lambda>i st. st[i := st ! (i + 1)]) [0..<unat n] (stdevf x)\<rparr>
                 else x\<lparr>poldevf := poldevf x AND NOT 0x10\<rparr>))
      else (0, x))"

definition opera_xbus_fifo_get_status :: "'d xbus \<Rightarrow> u32 \<times> 'd xbus" where
  "opera_xbus_fifo_get_status s =
     (case xbus_selected_device s of
        Some dev \<Rightarrow> dev_do dev XBP_GET_STATUS 0 s
      | None \<Rightarrow>
          (if xb_sel_l (XBUS s) = 0x0F then
             (let (rv, x) = status_pop (XBUS s) in (ucast rv, s\<lparr>XBUS := x\<rparr>))
           else (0, s)))"

definition opera_xbus_fifo_set_data :: "u32 \<Rightarrow> 'd xbus \<Rightarrow> 'd xbus" where
  "opera_xbus_fifo_set_data val s =
     (case xbus_selected_device s of Some dev \<Rightarrow> snd (dev_do dev XBP_SET_DATA val s) | None \<Rightarrow> s)"

definition controller_set_poll :: "u32 \<Rightarrow> 'd xbus \<Rightarrow> 'd xbus" where
  "controller_set_poll val s =
     (let s = (if val AND 0x08 \<noteq> 0 then on_xbus xbus_clear_fifos_f s else s);
          s = (if val AND 0x80 \<noteq> 0 then on_xbus (\<lambda>x. x\<lparr>poldevf := poldevf x AND NOT 0x80\<rparr>) s else s);
          s = on_xbus (\<lambda>x. x\<lparr>polf := (polf x AND 0xF0) OR ucast (val AND 0x07)\<rparr>) s
      in xbus_controller_fiq s)"

definition opera_xbus_set_poll :: "u32 \<Rightarrow> 'd xbus \<Rightarrow> 'd xbus" where
  "opera_xbus_set_poll val s =
     (let dev = xbus_selected_device s;
          s = (if xb_sel_l (XBUS s) = 0x0F then controller_set_poll val s else s)
      in case dev of
           Some dev \<Rightarrow>
             (let s = xbus_latch_media_access_f dev s;
                  (_, s) = dev_do dev XBP_SET_POLL val s
              in xbus_device_fiq dev s)
         | None \<Rightarrow> s)"

definition opera_xbus_set_sel :: "u32 \<Rightarrow> 'd xbus \<Rightarrow> 'd xbus" where
  "opera_xbus_set_sel val s =
     on_xbus (\<lambda>x. x\<lparr>xb_sel_l := ucast val AND 0x0F, xb_sel_h := ucast val AND 0xF0\<rparr>) s"

section \<open>Devices\<close>

definition opera_xbus_attach :: "'d device \<Rightarrow> 'd xbus \<Rightarrow> int \<times> 'd xbus" where
  "opera_xbus_attach dev s =
     (case filter (\<lambda>i. xdev s i = None) [0..<16] of
        [] \<Rightarrow> (- 1, s)
      | i # _ \<Rightarrow> (int i, snd (dev_do dev XBP_INIT 0 (s\<lparr>xdev := (xdev s)(i := Some dev)\<rparr>))))"

definition opera_xbus_init :: "'d device \<Rightarrow> 'd xbus \<Rightarrow> 'd xbus" where
  "opera_xbus_init zero_dev s =
     (let s = s\<lparr>xdev := (\<lambda>i. if i < 16 then None else xdev s i), g_XBUS_LEGACY_NO_DEVICE_ABORT := False\<rparr>;
          s = xbus_controller_reset_f s
      in snd (opera_xbus_attach zero_dev s))"

text \<open>\<open>if(dev[i]) dev[i](proc,NULL);\<close> over the sixteen slots.\<close>

definition each_device :: "nat \<Rightarrow> 'd xbus \<Rightarrow> 'd xbus" where
  "each_device proc s =
     fold (\<lambda>i s. case xdev s i of Some dev \<Rightarrow> snd (dev_do dev proc 0 s) | None \<Rightarrow> s) [0..<16] s"

definition opera_xbus_reset :: "'d xbus \<Rightarrow> 'd xbus" where
  "opera_xbus_reset s =
     (let dev = xdev s;
          s = (xbus_controller_reset_f s)\<lparr>g_XBUS_LEGACY_NO_DEVICE_ABORT := False\<rparr>
      in (each_device XBP_RESET s)\<lparr>xdev := dev\<rparr>)"

definition opera_xbus_dipir_reset :: "'d xbus \<Rightarrow> 'd xbus" where
  "opera_xbus_dipir_reset s = xbus_controller_reset_f s"

definition opera_xbus_device_load :: "nat \<Rightarrow> string \<Rightarrow> 'd xbus \<Rightarrow> 'd xbus" where
  "opera_xbus_device_load dev name s = s\<lparr>DRIVES := dev_media_load (the (xdev s dev)) name (DRIVES s)\<rparr>"

definition opera_xbus_device_eject :: "nat \<Rightarrow> 'd xbus \<Rightarrow> 'd xbus" where
  "opera_xbus_device_eject dev s = snd (dev_do (the (xdev s dev)) XBP_MEDIA_EJECT 0 s)"

definition opera_xbus_destroy :: "'d xbus \<Rightarrow> 'd xbus" where
  "opera_xbus_destroy s =
     (let s = fold (\<lambda>i s. case xdev s i of
                Some dev \<Rightarrow> (let s = snd (dev_do dev XBP_DESTROY 0 s) in s\<lparr>xdev := (xdev s)(i := None)\<rparr>)
              | None \<Rightarrow> s) [0..<16] s
      in s\<lparr>XBUS := no_datum, g_XBUS_LEGACY_NO_DEVICE_ABORT := False\<rparr>)"

text \<open>The first part of \<open>opera_xbus_tick\<close>: every device is asked, and the controller only when none
  of them wants attention.\<close>

definition xbus_tick_fiq :: "'d xbus \<Rightarrow> 'd xbus" where
  "xbus_tick_fiq s =
     (let (fiq, s) = fold (\<lambda>i (fiq, s). case xdev s i of
              Some dev \<Rightarrow> (let (r, s) = dev_do dev XBP_FIQ 0 s in (if r \<noteq> 0 then True else fiq, s))
            | None \<Rightarrow> (fiq, s)) [0..<16] (False, s)
      in if fiq then xbus_fiq s
         else if xb_sel_l (XBUS s) = 0x0F \<and> xbus_poll_fiq_pending (xbus_poll_f (XBUS s)) then xbus_fiq s
         else s)"

end
