(* ===== verification/Opera_Xbus_State.thy ===== *)
theory Opera_Xbus_State
  imports Opera_Xbus Opera_Clio_State
begin

text \<open>
  The saved state of the expansion bus: the controller, then one record per attached device with
  its slot, in the current and in the first format. The loops over the slots are recursions
  on the slot number; a loader that fails midway has already reset and restored the devices
  it went past, as the C code has.
\<close>

section \<open>Writer\<close>

definition opera_xbus_state_size_v1 :: "'d xbus \<Rightarrow> u32" where
  "opera_xbus_state_size_v1 s =
     fold (\<lambda>i k size. case xdev s i of
         None \<Rightarrow> k size
       | Some dev \<Rightarrow>
           (let device_size = fst (dev_do dev XBP_GET_SAVESIZE 0 s)
            in if device_size = 0 then 0 else k (size + device_size)))
       (rev [0..<15]) (\<lambda>size. size) (opera_state_save_size 268)"

text \<open>One device: its slot, then its data reserved in the buffer and filled by the device.\<close>

definition xbus_write_device :: "opera_clock \<Rightarrow> nat \<Rightarrow> 'd device \<Rightarrow> 'd \<Rightarrow> state_writer \<Rightarrow> bool \<times> state_writer" where
  "xbus_write_device k i dev d w =
     (let device_size = fst (dev_call dev k XBP_GET_SAVESIZE 0 d)
      in if device_size = 0 then (False, opera_state_writer_fail w)
         else
           (let (ok, w) = opera_state_write_u8 (of_nat i) w
            in if \<not> ok then (False, w)
               else
                 (let (dst, w) = opera_state_write_reserve w device_size
                  in if w_failed w then (False, w)
                     else
                       (case dst of
                          None \<Rightarrow> (True, w)
                        | Some p \<Rightarrow>
                            (let (n, bytes) = dev_get_savedata dev k d; w = store_at w p bytes
                             in if n \<noteq> device_size then (False, opera_state_writer_fail w) else (True, w))))))"

fun xbus_write_devices :: "opera_clock \<Rightarrow> (nat \<times> 'd device) list \<Rightarrow> 'd \<Rightarrow> state_writer \<Rightarrow> bool \<times> state_writer" where
  "xbus_write_devices k [] d w = (True, w)"
| "xbus_write_devices k ((i, dev) # ds) d w = w_and (xbus_write_device k i dev d) (xbus_write_devices k ds d) w"

definition attached :: "'d xbus \<Rightarrow> (nat \<times> 'd device) list" where
  "attached s = map (\<lambda>i. (i, the (xdev s i))) (filter (\<lambda>i. xdev s i \<noteq> None) [0..<15])"

definition xbus_state_write_payload :: "'d xbus \<Rightarrow> state_writer \<Rightarrow> bool \<times> state_writer" where
  "xbus_state_write_payload s =
     (let x = XBUS s in
      w_and (opera_state_write_u8 (xb_sel_l x))
     (w_and (opera_state_write_u8 (xb_sel_h x))
     (w_and (opera_state_write_u8 (polf x))
     (w_and (opera_state_write_u8 (poldevf x))
     (w_and (opera_state_write_bytes (Some (stdevf x)) 255)
     (w_and (opera_state_write_u8 (stlenf x))
     (w_and (opera_state_write_bytes (Some (cmdf x)) 7)
     (w_and (opera_state_write_u8 (cmdptrf x))
     (w_and (opera_state_write_u32 (of_nat (length (attached s))))
            (xbus_write_devices (CLOCK s) (attached s) (DRIVES s)))))))))))"

definition xbus_state_payload_size :: "'d xbus \<Rightarrow> u32" where
  "xbus_state_payload_size s = payload_sizing (xbus_state_write_payload s)"

definition opera_xbus_state_size :: "'d xbus \<Rightarrow> u32" where
  "opera_xbus_state_size s =
     (let payload_size = xbus_state_payload_size s
      in if payload_size = 0 then 0 else opera_state_chunk_size payload_size)"

definition opera_xbus_state_save :: "'d xbus \<Rightarrow> u8 list \<Rightarrow> u32 \<times> u8 list" where
  "opera_xbus_state_save s data =
     (let payload_size = xbus_state_payload_size s
      in if payload_size = 0 then (0, data)
         else save_chunk ''XBUS'' payload_size (xbus_state_write_payload s) data)"

section \<open>Reader\<close>

definition xbus_state_read :: "state_reader \<Rightarrow> (xbus_datum \<times> u32) option \<times> state_reader" where
  "xbus_state_read =
     r_bind opera_state_read_u8 (\<lambda>sl. r_bind opera_state_read_u8 (\<lambda>sh.
     r_bind opera_state_read_u8 (\<lambda>pf. r_bind opera_state_read_u8 (\<lambda>pd.
     r_bind (opera_state_read_bytes 255) (\<lambda>st. r_bind opera_state_read_u8 (\<lambda>sn.
     r_bind (opera_state_read_bytes 7) (\<lambda>cf. r_bind opera_state_read_u8 (\<lambda>cp.
     r_bind opera_state_read_u32 (\<lambda>count.
     r_return (\<lparr>xb_sel_l = sl, xb_sel_h = sh, polf = pf, poldevf = pd, stdevf = st, stlenf = sn, cmdf = cf,
       cmdptrf = cp\<rparr>, count))))))))))"

text \<open>The loop over the saved devices; the result says whether it ran to its end.\<close>

primrec xbus_read_devices :: "bool \<Rightarrow> nat \<Rightarrow> state_reader \<Rightarrow> 'd xbus \<Rightarrow> bool \<times> state_reader \<times> 'd xbus" where
  "xbus_read_devices validating 0 r s = (True, r, s)"
| "xbus_read_devices validating (Suc n) r s =
     (case opera_state_read_u8 r of
        (None, r) \<Rightarrow> (False, r, s)
      | (Some slot, r) \<Rightarrow>
          (if slot \<ge> 15 then (False, r, s)
           else
             (case xdev s (unat slot) of
                None \<Rightarrow> (False, r, s)
              | Some dev \<Rightarrow>
                  (let s = (if validating then s else snd (dev_do dev XBP_RESET 0 s));
                       remaining = opera_state_reader_remaining r;
                       (rv, d) = dev_set_savedata dev (CLOCK s) validating (bytes_at r (unat remaining)) remaining (DRIVES s);
                       s = s\<lparr>DRIVES := d\<rparr>
                   in if rv = 0 \<or> rv > remaining then (False, r, s)
                      else xbus_read_devices validating n (r\<lparr>r_offset := r_offset r + rv\<rparr>) s))))"

definition opera_xbus_state_load :: "bool \<Rightarrow> u8 list \<Rightarrow> u32 \<Rightarrow> 'd xbus \<Rightarrow> u32 \<times> 'd xbus" where
  "opera_xbus_state_load validating data sz s =
     (let (payload, reader) = opera_state_read_chunk ''XBUS'' (opera_state_reader_init data sz) in
      case payload of
        None \<Rightarrow> (0, s)
      | Some p \<Rightarrow>
          (case xbus_state_read p of
             (None, p) \<Rightarrow> (0, s)
           | (Some (x, count), p) \<Rightarrow>
               (if count > 15 then (0, s)
                else
                  (let s = (if validating then s else s\<lparr>XBUS := x\<rparr>);
                       (ok, p, s) = xbus_read_devices validating (unat count) p s
                   in if \<not> ok then (0, s)
                      else if \<not> opera_state_reader_finished p then (0, s)
                      else (opera_state_reader_used reader, s)))))"

section \<open>The first format\<close>

definition xbus_image :: "xbus_datum \<Rightarrow> u8 list" where
  "xbus_image x = [xb_sel_l x, xb_sel_h x, polf x, poldevf x] @ stdevf x @ [stlenf x] @ cmdf x @ [cmdptrf x]"

definition xbus_of_image :: "u8 list \<Rightarrow> xbus_datum" where
  "xbus_of_image bs =
     \<lparr>xb_sel_l = bs ! 0, xb_sel_h = bs ! 1, polf = bs ! 2, poldevf = bs ! 3, stdevf = take 255 (drop 4 bs),
      stlenf = bs ! 259, cmdf = take 7 (drop 260 bs), cmdptrf = bs ! 267\<rparr>"

text \<open>The devices follow the structure in the order of their slots, up to the first free slot.\<close>

primrec xbus_load_devices_v1 :: "nat list \<Rightarrow> u8 list \<Rightarrow> u32 \<Rightarrow> u32 \<Rightarrow> 'd xbus \<Rightarrow> u32 \<times> 'd xbus" where
  "xbus_load_devices_v1 [] data data_size used s = (used, s)"
| "xbus_load_devices_v1 (i # is) data data_size used s =
     (case xdev s i of
        None \<Rightarrow> (used, s)
      | Some dev \<Rightarrow>
          (let s = snd (dev_do dev XBP_RESET 0 s)
           in if used > data_size then (0, s)
              else
                (let remaining = data_size - used;
                     (rv, d) = dev_set_savedata dev (CLOCK s) False (take (unat remaining) (drop (unat used) data)) remaining (DRIVES s);
                     s = s\<lparr>DRIVES := d\<rparr>
                 in if rv = 0 \<or> rv > remaining then (0, s)
                    else xbus_load_devices_v1 is data data_size (used + rv) s)))"

definition opera_xbus_state_load_v1 :: "u8 list \<Rightarrow> u32 \<Rightarrow> 'd xbus \<Rightarrow> u32 \<times> 'd xbus" where
  "opera_xbus_state_load_v1 data data_size s =
     (let (used, bs) = opera_state_load_sized (xbus_image (XBUS s)) ''XBUS'' (Some data) data_size 268;
          s = s\<lparr>XBUS := xbus_of_image bs\<rparr>
      in if used = 0 then (0, s) else xbus_load_devices_v1 [0..<15] data data_size used s)"

end
