(* ===== verification/Opera_Xbus_Props.thy ===== *)
theory Opera_Xbus_Props
  imports Opera_Xbus
begin

text \<open>
  The expansion bus controller: every operation keeps the indices it uses within its arrays, its
  status array is a queue, and a program that selects it and asks who is there reads the twelve
  identification bytes, is told so by the poll register and interrupted if it asked to be.
\<close>

section \<open>What the operations do to the controller\<close>

lemma dev_do_fields [simp]:
  "XBUS (snd (dev_do dev p v s)) = XBUS s" "CLIO (snd (dev_do dev p v s)) = CLIO s"
  "xdev (snd (dev_do dev p v s)) = xdev s"
  "g_XBUS_LEGACY_NO_DEVICE_ABORT (snd (dev_do dev p v s)) = g_XBUS_LEGACY_NO_DEVICE_ABORT s"
  by (simp_all add: dev_do_def split_beta)

lemma on_clio_fields [simp]:
  "XBUS (on_clio f s) = XBUS s" "CLIO (on_clio f s) = f (CLIO s)" "xdev (on_clio f s) = xdev s"
  "XBUS (xbus_fiq s) = XBUS s" "xdev (xbus_fiq s) = xdev s"
  by (simp_all add: on_clio_def xbus_fiq_def)

lemma on_xbus_fields [simp]:
  "XBUS (on_xbus f s) = f (XBUS s)" "CLIO (on_xbus f s) = CLIO s" "xdev (on_xbus f s) = xdev s"
  by (simp_all add: on_xbus_def)

lemma latch_fields [simp]:
  "XBUS (xbus_latch_media_access_f dev s) = XBUS s" "xdev (xbus_latch_media_access_f dev s) = xdev s"
  by (simp_all add: xbus_latch_media_access_f_def split_beta)

lemma fiq_fields [simp]:
  "XBUS (xbus_device_fiq dev s) = XBUS s" "XBUS (xbus_controller_fiq s) = XBUS s"
  "xdev (xbus_device_fiq dev s) = xdev s" "xdev (xbus_controller_fiq s) = xdev s"
  by (simp_all add: xbus_device_fiq_def xbus_controller_fiq_def split_beta)

section \<open>The status queue\<close>

definition status_queue :: "xbus_datum \<Rightarrow> u8 list" where
  "status_queue x = take (unat (stlenf x)) (stdevf x)"

lemma shift_down:
  "n < length st \<Longrightarrow> fold (\<lambda>i st. st[i := st ! (i + 1)]) [0..<n] st = take n (tl st) @ drop n st"
proof (induction n)
  case (Suc n)
  from Suc.prems have "take (Suc n) (tl st) = take n (tl st) @ [st ! Suc n]"
    by (subst take_Suc_conv_app_nth) (simp_all add: nth_tl)
  moreover from Suc.prems have "drop n st = st ! n # drop (Suc n) st"
    by (simp add: Cons_nth_drop_Suc)
  ultimately show ?case using Suc
    by (simp add: list_update_append nth_append Suc_diff_le)
qed simp

text \<open>The controller's registers as the code can reach them: the arrays have their sizes, the
  selected address is a slot, and both queues' lengths stay inside their arrays.\<close>

definition xbus_ok :: "xbus_datum \<Rightarrow> bool" where
  "xbus_ok x \<longleftrightarrow> length (stdevf x) = 255 \<and> length (cmdf x) = 7 \<and> unat (xb_sel_l x) < 16 \<and>
     xb_sel_h x AND 0x0F = 0 \<and> unat (stlenf x) \<le> 12 \<and> unat (cmdptrf x) < 7"

lemma status_pop_queue:
  assumes "xbus_ok x"
  shows "status_queue x \<noteq> [] \<longrightarrow> fst (status_pop x) = hd (status_queue x)"
    and "status_queue (snd (status_pop x)) = tl (status_queue x)"
    and "xbus_ok (snd (status_pop x))"
    and "cmdptrf (snd (status_pop x)) = cmdptrf x" "xb_sel_l (snd (status_pop x)) = xb_sel_l x"
      "polf (snd (status_pop x)) = polf x"
    and "poldevf (snd (status_pop x)) =
      (if length (status_queue x) = 1 then poldevf x AND NOT 0x10 else poldevf x)"
proof -
  have len: "unat (stlenf x) \<le> 12" "length (stdevf x) = 255" using assms by (auto simp: xbus_ok_def)
  have dec: "unat (stlenf x - 1) = unat (stlenf x) - 1" if "stlenf x > 0"
    using that by (simp add: unat_sub word_le_nat_alt word_less_nat_alt)
  have pos: "stlenf x > 0 \<longleftrightarrow> unat (stlenf x) > 0" "stlenf x - 1 > 0 \<longleftrightarrow> unat (stlenf x - 1) > 0"
    by (simp_all add: word_less_nat_alt)
  have fill: "fold (\<lambda>i st. st[i := st ! (i + 1)]) [0..<unat (stlenf x - 1)] (stdevf x) =
      take (unat (stlenf x) - 1) (tl (stdevf x)) @ drop (unat (stlenf x) - 1) (stdevf x)" if "stlenf x > 0"
    using shift_down [of "unat (stlenf x) - 1" "stdevf x"] len dec [OF that] by simp
  show "status_queue x \<noteq> [] \<longrightarrow> fst (status_pop x) = hd (status_queue x)"
    using len by (auto simp: status_queue_def status_pop_def pos hd_conv_nth Let_def)
  show "status_queue (snd (status_pop x)) = tl (status_queue x)"
    using len dec fill by (auto simp: status_queue_def status_pop_def pos Let_def tl_take)
  show "xbus_ok (snd (status_pop x))"
    using assms len dec fill by (auto simp: xbus_ok_def status_pop_def pos Let_def)
  show "cmdptrf (snd (status_pop x)) = cmdptrf x" "xb_sel_l (snd (status_pop x)) = xb_sel_l x"
      "polf (snd (status_pop x)) = polf x"
    by (simp_all add: status_pop_def Let_def)
  show "poldevf (snd (status_pop x)) =
      (if length (status_queue x) = 1 then poldevf x AND NOT 0x10 else poldevf x)"
    using len dec pos by (auto simp: status_queue_def status_pop_def Let_def)
qed

section \<open>Indices stay in range\<close>

lemma low_nibble: "(v :: u8) AND 0x0F < 16"
  by (rule le_less_trans [OF word_and_le1]) simp

lemma sel_ok: "xbus_ok x \<Longrightarrow> xbus_ok (x\<lparr>xb_sel_l := v AND 0x0F, xb_sel_h := v AND 0xF0\<rparr>)"
  using low_nibble [of v] by (simp add: xbus_ok_def word_less_nat_alt and.assoc)

lemma command_ok:
  "xbus_ok x \<Longrightarrow> cmdptrf x < 7 \<Longrightarrow> unat (cmdptrf x + 1) = unat (cmdptrf x) + 1"
  by (simp add: unat_add_nowrap word_less_nat_alt unat_word_ariths)

lemma controller_ops_ok:
  "xbus_ok x \<Longrightarrow> xbus_ok (xbus_clear_fifos_f x)" "xbus_ok no_datum"
  "xbus_ok x \<Longrightarrow> xbus_ok (xbus_set_read_id_status_f x)"
  by (simp_all add: xbus_ok_def xbus_clear_fifos_f_def no_datum_def xbus_set_read_id_status_f_def Let_def)

lemma ok_fields:
  "xbus_ok x \<Longrightarrow> xbus_ok (x\<lparr>poldevf := v\<rparr>)" "xbus_ok x \<Longrightarrow> xbus_ok (x\<lparr>polf := v\<rparr>)"
  "xbus_ok x \<Longrightarrow> xbus_ok (x\<lparr>cmdptrf := 0\<rparr>)"
  by (simp_all add: xbus_ok_def)

lemma set_cmd_ok: "xbus_ok (XBUS s) \<Longrightarrow> xbus_ok (XBUS (opera_xbus_fifo_set_cmd val s))"
proof -
  assume ok: "xbus_ok (XBUS s)"
  then have lt: "cmdptrf (XBUS s) < 7" by (simp add: xbus_ok_def word_less_nat_alt)
  note inc = command_ok [OF ok lt]
  show ?thesis using ok lt inc
    by (auto simp: opera_xbus_fifo_set_cmd_def xbus_execute_command_f_def Let_def split_beta xbus_ok_def
        word_le_nat_alt word_less_nat_alt xbus_set_read_id_status_f_def split: option.split)
qed

lemma set_poll_ok: "xbus_ok (XBUS s) \<Longrightarrow> xbus_ok (XBUS (opera_xbus_set_poll val s))"
  by (simp add: opera_xbus_set_poll_def controller_set_poll_def Let_def split_beta ok_fields controller_ops_ok
      split: option.split)

lemma get_status_ok: "xbus_ok (XBUS s) \<Longrightarrow> xbus_ok (XBUS (snd (opera_xbus_fifo_get_status s)))"
  using status_pop_queue(3) [of "XBUS s"]
  by (auto simp: opera_xbus_fifo_get_status_def split_beta split: option.split)

lemma each_device_fields [simp]: "XBUS (each_device p s) = XBUS s"
proof -
  have "XBUS (fold (\<lambda>i s. case xdev s i of Some dev \<Rightarrow> snd (dev_do dev p 0 s) | None \<Rightarrow> s) is s) = XBUS s"
    for "is" :: "nat list"
    by (induction "is" arbitrary: s) (simp_all split: option.split)
  then show ?thesis by (simp add: each_device_def)
qed

lemma tick_fields [simp]: "XBUS (xbus_tick_fiq s) = XBUS s"
proof -
  have "XBUS (snd (fold (\<lambda>i (fiq, s). case xdev s i of
              Some dev \<Rightarrow> (let (r, s) = dev_do dev XBP_FIQ 0 s in (if r \<noteq> 0 then True else fiq, s))
            | None \<Rightarrow> (fiq, s)) is (b, s))) = XBUS s" for "is" :: "nat list" and b
    by (induction "is" arbitrary: b s) (simp_all add: split_beta split: option.split)
  then show ?thesis by (simp add: xbus_tick_fiq_def split_beta)
qed

lemma attach_fields [simp]: "XBUS (snd (opera_xbus_attach dev s)) = XBUS s"
  by (simp add: opera_xbus_attach_def split: list.split)

text \<open>The calls the rest of the emulator makes.\<close>

datatype xbus_call =
    Set_sel u32 | Set_poll u32 | Set_cmd u32 | Set_data u32
  | Get_res | Get_poll | Get_status | Get_data
  | Tick | Reset | Dipir_reset | Eject nat | Load nat string | Destroy | Abort_option int

fun xbus_step :: "xbus_call \<Rightarrow> 'd xbus \<Rightarrow> 'd xbus" where
  "xbus_step (Set_sel v) = opera_xbus_set_sel v"
| "xbus_step (Set_poll v) = opera_xbus_set_poll v"
| "xbus_step (Set_cmd v) = opera_xbus_fifo_set_cmd v"
| "xbus_step (Set_data v) = opera_xbus_fifo_set_data v"
| "xbus_step Get_res = (\<lambda>s. snd (opera_xbus_get_res s))"
| "xbus_step Get_poll = (\<lambda>s. snd (opera_xbus_get_poll s))"
| "xbus_step Get_status = (\<lambda>s. snd (opera_xbus_fifo_get_status s))"
| "xbus_step Get_data = (\<lambda>s. snd (opera_xbus_fifo_get_data s))"
| "xbus_step Tick = xbus_tick_fiq"
| "xbus_step Reset = opera_xbus_reset"
| "xbus_step Dipir_reset = opera_xbus_dipir_reset"
| "xbus_step (Eject i) = opera_xbus_device_eject i"
| "xbus_step (Load i name) = opera_xbus_device_load i name"
| "xbus_step Destroy = opera_xbus_destroy"
| "xbus_step (Abort_option b) = opera_xbus_set_legacy_no_device_abort b"

inductive xbus_run :: "'d xbus \<Rightarrow> bool" where
  run_init: "xbus_run (opera_xbus_init dev s)"
| run_attach: "xbus_run s \<Longrightarrow> xbus_run (snd (opera_xbus_attach dev s))"
| run_step: "xbus_run s \<Longrightarrow> xbus_run (xbus_step call s)"

lemma xbus_step_ok: "xbus_ok (XBUS s) \<Longrightarrow> xbus_ok (XBUS (xbus_step call s))"
  by (cases call)
    (simp_all add: opera_xbus_set_sel_def sel_ok set_poll_ok set_cmd_ok get_status_ok controller_ops_ok
      opera_xbus_fifo_set_data_def opera_xbus_get_res_def opera_xbus_get_poll_def opera_xbus_fifo_get_data_def
      opera_xbus_reset_def opera_xbus_dipir_reset_def xbus_controller_reset_f_def opera_xbus_device_eject_def
      opera_xbus_device_load_def opera_xbus_destroy_def opera_xbus_set_legacy_no_device_abort_def Let_def
      split: option.split)


definition silent_device :: "unit device" where
  "silent_device = \<lparr>dev_call = \<lambda>_ _ _ d. (0, d), dev_media_load = \<lambda>_ d. d, dev_get_savedata = \<lambda>_ _. (0, []),
     dev_set_savedata = \<lambda>_ _ _ _ d. (0, d)\<rparr>"

definition empty_clio :: clio where
  "empty_clio = opera_clio_reset \<lparr>clio_regs = \<lambda>_. 0, dsp_word1 = 0, dsp_word2 = 0, dsp_address = 0,
     fifo_i = \<lambda>_. no_fifo, fifo_o = \<lambda>_. no_fifo, flagtime = 0, TIMER_VAL = 0, TIMER_CARRY = 0\<rparr>"

definition booted_bus :: "unit xbus" where
  "booted_bus = xbus_step (Set_sel 0x0F) (opera_xbus_init silent_device
     \<lparr>XBUS = no_datum, xdev = \<lambda>_. None, g_XBUS_LEGACY_NO_DEVICE_ABORT = False, DRIVES = (), CLIO = empty_clio, CLOCK = g_CLOCK\<rparr>)"

lemma booted_run: "xbus_run booted_bus"
  unfolding booted_bus_def by (intro run_step run_init)


section \<open>Identification\<close>

definition controller_selected :: "'d xbus \<Rightarrow> bool" where
  "controller_selected s \<longleftrightarrow> xb_sel_l (XBUS s) = 0x0F \<and> xdev s 15 = None"

lemma selected_none: "controller_selected s \<Longrightarrow> xbus_selected_device s = None"
  by (simp add: controller_selected_def xbus_selected_device_def)

lemma command_byte:
  assumes "controller_selected s" "xbus_ok (XBUS s)" "unat (cmdptrf (XBUS s)) < 6"
  shows "opera_xbus_fifo_set_cmd v s =
    on_xbus (\<lambda>x. x\<lparr>cmdf := (cmdf x)[unat (cmdptrf x) := ucast v], cmdptrf := cmdptrf x + 1\<rparr>) s"
proof -
  have lt: "cmdptrf (XBUS s) < 7" using assms(3) by (simp add: word_less_nat_alt)
  have "unat (cmdptrf (XBUS s) + 1) < 7" using command_ok [OF assms(2) lt] assms(3) by simp
  then have "\<not> 7 \<le> cmdptrf (XBUS s) + 1" by (simp add: word_le_nat_alt)
  with lt assms(1) show ?thesis
    by (simp add: opera_xbus_fifo_set_cmd_def selected_none controller_selected_def)
qed

lemma command_bytes:
  assumes "controller_selected s" "xbus_ok (XBUS s)" "unat (cmdptrf (XBUS s)) + length vs \<le> 6"
  shows "\<exists>cf. fold opera_xbus_fifo_set_cmd vs s =
      on_xbus (\<lambda>x. x\<lparr>cmdf := cf, cmdptrf := cmdptrf x + of_nat (length vs)\<rparr>) s \<and> length cf = 7 \<and>
      (0 < unat (cmdptrf (XBUS s)) \<longrightarrow> cf ! 0 = cmdf (XBUS s) ! 0)"
  using assms
proof (induction vs arbitrary: s)
  case Nil
  then show ?case by (intro exI [of _ "cmdf (XBUS s)"]) (simp add: on_xbus_def xbus_ok_def)
next
  case (Cons v vs)
  let ?s = "opera_xbus_fifo_set_cmd v s"
  from Cons.prems have s': "?s =
      on_xbus (\<lambda>x. x\<lparr>cmdf := (cmdf x)[unat (cmdptrf x) := ucast v], cmdptrf := cmdptrf x + 1\<rparr>) s"
    by (intro command_byte) simp_all
  from Cons.prems have lt: "cmdptrf (XBUS s) < 7" by (simp add: word_less_nat_alt)
  note inc = command_ok [OF Cons.prems(2) lt]
  have sel: "controller_selected ?s" using Cons.prems(1) s' by (simp add: controller_selected_def)
  have ok: "xbus_ok (XBUS ?s)" by (rule set_cmd_ok [OF Cons.prems(2)])
  have room: "unat (cmdptrf (XBUS ?s)) + length vs \<le> 6" using Cons.prems(3) s' inc by simp
  obtain cf where cf: "fold opera_xbus_fifo_set_cmd vs ?s =
      on_xbus (\<lambda>x. x\<lparr>cmdf := cf, cmdptrf := cmdptrf x + of_nat (length vs)\<rparr>) ?s \<and> length cf = 7 \<and>
      (0 < unat (cmdptrf (XBUS ?s)) \<longrightarrow> cf ! 0 = cmdf (XBUS ?s) ! 0)"
    by (rule exE [OF Cons.IH [OF sel ok room]])
  have "fold opera_xbus_fifo_set_cmd (v # vs) s =
      on_xbus (\<lambda>x. x\<lparr>cmdf := cf, cmdptrf := cmdptrf x + of_nat (length (v # vs))\<rparr>) s"
    using conjunct1 [OF cf] by (simp add: s' on_xbus_def add.assoc)
  moreover have "0 < unat (cmdptrf (XBUS s)) \<longrightarrow> cf ! 0 = cmdf (XBUS s) ! 0"
    using conjunct2 [OF conjunct2 [OF cf]] inc by (simp add: s')
  ultimately show ?case using conjunct1 [OF conjunct2 [OF cf]] by (intro exI [of _ cf] conjI)
qed

definition identity :: "u8 list" where
  "identity = [0x83, 0, 0x10, 0, 0x01, 0, 0, 0, 0, 0, 0, 0xE1]"

primrec status_bytes :: "nat \<Rightarrow> 'd xbus \<Rightarrow> u32 list \<times> 'd xbus" where
  "status_bytes 0 s = ([], s)"
| "status_bytes (Suc n) s =
     (let (v, s) = opera_xbus_fifo_get_status s; (vs, s) = status_bytes n s in (v # vs, s))"

definition identify :: "u32 list \<Rightarrow> 'd xbus \<Rightarrow> 'd xbus" where
  "identify args s = fold opera_xbus_fifo_set_cmd (0x83 # args) s"

lemma get_status_controller:
  "controller_selected s \<Longrightarrow>
    opera_xbus_fifo_get_status s = (ucast (fst (status_pop (XBUS s))), s\<lparr>XBUS := snd (status_pop (XBUS s))\<rparr>)"
  by (simp add: opera_xbus_fifo_get_status_def selected_none controller_selected_def split_beta)

lemma status_bytes_queue:
  assumes "controller_selected s" "xbus_ok (XBUS s)" "n \<le> length (status_queue (XBUS s))"
    "poldevf (XBUS s) AND 0x10 \<noteq> 0"
  shows "fst (status_bytes n s) = map ucast (take n (status_queue (XBUS s))) \<and>
    controller_selected (snd (status_bytes n s)) \<and> CLIO (snd (status_bytes n s)) = CLIO s \<and>
    cmdptrf (XBUS (snd (status_bytes n s))) = cmdptrf (XBUS s) \<and>
    status_queue (XBUS (snd (status_bytes n s))) = drop n (status_queue (XBUS s)) \<and>
    (poldevf (XBUS (snd (status_bytes n s))) AND 0x10 \<noteq> 0 \<longleftrightarrow>
      n = 0 \<or> n < length (status_queue (XBUS s)))"
  using assms
proof (induction n arbitrary: s)
  case (Suc n)
  let ?q = "status_queue (XBUS s)" and ?s = "s\<lparr>XBUS := snd (status_pop (XBUS s))\<rparr>"
  note pop = status_pop_queue [OF Suc.prems(2)]
  from Suc.prems(3) obtain b q where q: "?q = b # q" by (cases ?q) auto
  have step: "opera_xbus_fifo_get_status s = (ucast b, ?s)"
    using get_status_controller [OF Suc.prems(1)] pop(1) by (simp add: q)
  have sel: "controller_selected ?s" using Suc.prems(1) pop(5) by (simp add: controller_selected_def)
  show ?case
  proof (cases "q = []")
    case True
    with Suc.prems(3) q have "n = 0" by simp
    then show ?thesis using step sel pop(2) pop(4) pop(7) True by (simp add: q and.assoc)
  next
    case False
    then have "poldevf (XBUS ?s) AND 0x10 \<noteq> 0" using Suc.prems(4) pop(7) by (simp add: q)
    moreover have "n \<le> length (status_queue (XBUS ?s))" using Suc.prems(3) pop(2) by (simp add: q)
    ultimately show ?thesis using Suc.IH [of ?s] sel pop(2-4) step False by (auto simp: q split_beta)
  qed
qed simp

lemma poll_bits:
  "xbus_poll_f x AND 0x10 = poldevf x AND 0x10" "xbus_poll_f x AND 0x01 = polf x AND 0x01"
  by (simp_all add: xbus_poll_f_def bit.conj_disj_distrib2 and.assoc)

lemma xbus_fiq_bit: "clio_regs (opera_clio_fiq_generate 4 0 c) 0x40 AND 4 \<noteq> 0"
  by (simp add: opera_clio_fiq_generate_def Let_def bit.conj_disj_distrib2)

lemma controller_interrupts:
  "poldevf (XBUS s) AND 0x10 \<noteq> 0 \<Longrightarrow> polf (XBUS s) AND 0x01 \<noteq> 0 \<Longrightarrow>
    clio_regs (CLIO (xbus_controller_fiq s)) 0x40 AND 4 \<noteq> 0"
  by (simp add: xbus_controller_fiq_def xbus_poll_fiq_pending_def poll_bits xbus_fiq_def xbus_fiq_bit)

lemma identity_bytes:
  "(replicate 12 0 @ r)[0 := 0x83, 2 := 0x10, 4 := 0x01, 11 := 0xE1] = identity @ r"
  by (simp add: identity_def numeral_eq_Suc)

lemma read_id_status:
  "status_queue (xbus_set_read_id_status_f x) = identity"
  "poldevf (xbus_set_read_id_status_f x) AND 0x10 \<noteq> 0"
  "polf (xbus_set_read_id_status_f x) = polf x" "xb_sel_l (xbus_set_read_id_status_f x) = xb_sel_l x"
  unfolding xbus_set_read_id_status_f_def Let_def identity_bytes
  by (simp_all add: status_queue_def bit.conj_disj_distrib2) (simp add: identity_def)

lemma identified:
  assumes "controller_selected s" "xbus_ok (XBUS s)" "cmdptrf (XBUS s) = 0" "length args = 6"
  shows "controller_selected (identify args s) \<and> xbus_ok (XBUS (identify args s)) \<and>
    status_queue (XBUS (identify args s)) = identity \<and> poldevf (XBUS (identify args s)) AND 0x10 \<noteq> 0 \<and>
    polf (XBUS (identify args s)) = polf (XBUS s) \<and> cmdptrf (XBUS (identify args s)) = 0 \<and>
    (polf (XBUS s) AND 0x01 \<noteq> 0 \<longrightarrow> clio_regs (CLIO (identify args s)) 0x40 AND 4 \<noteq> 0)"
proof -
  let ?one = "opera_xbus_fifo_set_cmd 0x83 s" and ?front = "butlast args"
  have args: "args = ?front @ [last args]" "length ?front = 5" using assms(4) by (auto intro: append_butlast_last_id [symmetric])
  have len: "length (cmdf (XBUS s)) = 7" "length (stdevf (XBUS s)) = 255" using assms(2) by (simp_all add: xbus_ok_def)
  have one: "?one = on_xbus (\<lambda>x. x\<lparr>cmdf := (cmdf x)[0 := 0x83], cmdptrf := 1\<rparr>) s"
    using command_byte [OF assms(1,2)] assms(3) by (simp add: on_xbus_def)
  have sel: "controller_selected ?one" using assms(1) by (simp add: one controller_selected_def)
  have ok: "xbus_ok (XBUS ?one)" by (rule set_cmd_ok [OF assms(2)])
  have room: "unat (cmdptrf (XBUS ?one)) + length ?front \<le> 6" using args(2) by (simp add: one)
  obtain cf where cf: "fold opera_xbus_fifo_set_cmd ?front ?one =
      on_xbus (\<lambda>x. x\<lparr>cmdf := cf, cmdptrf := cmdptrf x + of_nat (length ?front)\<rparr>) ?one \<and> length cf = 7 \<and>
      (0 < unat (cmdptrf (XBUS ?one)) \<longrightarrow> cf ! 0 = cmdf (XBUS ?one) ! 0)"
    by (rule exE [OF command_bytes [OF sel ok room]])
  let ?six = "on_xbus (\<lambda>x. x\<lparr>cmdf := cf, cmdptrf := 6\<rparr>) s"
  have six: "fold opera_xbus_fifo_set_cmd ?front ?one = ?six"
    using conjunct1 [OF cf] args(2) by (simp add: one on_xbus_def)
  have cf0: "cf ! 0 = 0x83" "length cf = 7" using conjunct2 [OF cf] len by (simp_all add: one)
  have "identify args s = opera_xbus_fifo_set_cmd (last args) ?six"
    by (subst identify_def, subst args(1)) (simp add: six)
  also have "\<dots> = on_xbus (\<lambda>x. x\<lparr>cmdptrf := 0\<rparr>) (xbus_controller_fiq
      (on_xbus (\<lambda>x. xbus_set_read_id_status_f (x\<lparr>cmdf := cf[6 := ucast (last args)], cmdptrf := 7\<rparr>)) s))"
    using assms(1) cf0
    by (simp add: opera_xbus_fifo_set_cmd_def xbus_selected_device_def controller_selected_def
        xbus_execute_command_f_def Let_def nth_list_update on_xbus_def)
  finally have id: "identify args s = \<dots>" .
  have ok': "xbus_ok (XBUS (identify args s))"
    using assms(2) cf0 by (simp add: id xbus_ok_def xbus_set_read_id_status_f_def Let_def)
  let ?x = "\<lambda>x. xbus_set_read_id_status_f (x\<lparr>cmdf := cf[6 := ucast (last args)], cmdptrf := 7\<rparr>)"
  have int: "polf (XBUS s) AND 0x01 \<noteq> 0 \<longrightarrow> clio_regs (CLIO (identify args s)) 0x40 AND 4 \<noteq> 0"
    using controller_interrupts [of "on_xbus ?x s"] read_id_status by (simp add: id)
  have "status_queue (XBUS (identify args s)) = identity"
    using read_id_status(1) by (simp add: id status_queue_def)
  then show ?thesis
    using assms(1) ok' read_id_status(2-4) int by (simp add: id controller_selected_def)
qed

text \<open>C30. A program that selects the bus controller (address fifteen, where no device sits) and sends the
  seven bytes of a read-identification command reads back the controller's identification: the
  poll register shows a status waiting, the bus interrupt is raised if the program enabled it,
  the first \<open>n\<close> status reads return the first \<open>n\<close> of the twelve bytes, and the poll
  register shows the status exactly until the last of them is read. The command counter is
  back at zero, so the same program can ask again.\<close>

theorem xbus_controller_identifies:
  assumes "controller_selected s" "xbus_ok (XBUS s)" "cmdptrf (XBUS s) = 0" "length args = 6" "n \<le> 12"
  shows "fst (status_bytes n (identify args s)) = map ucast (take n identity) \<and>
    (fst (opera_xbus_get_poll (snd (status_bytes n (identify args s)))) AND 0x10 \<noteq> 0 \<longleftrightarrow> n < 12) \<and>
    (polf (XBUS s) AND 0x01 \<noteq> 0 \<longrightarrow>
      clio_regs (CLIO (snd (status_bytes n (identify args s)))) 0x40 AND 4 \<noteq> 0) \<and>
    cmdptrf (XBUS (snd (status_bytes n (identify args s)))) = 0"
proof -
  note id = identified [OF assms(1-4)]
  have len: "length (status_queue (XBUS (identify args s))) = 12" using id by (simp add: identity_def)
  note bytes = status_bytes_queue [of "identify args s" n]
  have poll: "fst (opera_xbus_get_poll t) AND 0x10 = ucast (poldevf (XBUS t) AND 0x10)"
    if "controller_selected t" for t :: "'a xbus"
  proof -
    have "ucast (xbus_poll_f (XBUS t)) AND (0x10 :: u32) = ucast (xbus_poll_f (XBUS t) AND 0x10)" by (simp add: unsigned_and_eq)
    then show ?thesis using that by (simp only: poll_bits) (simp add: opera_xbus_get_poll_def controller_selected_def)
  qed
  have narrow: "ucast (ucast v :: u32) = v" for v :: u8 by (rule bit_word_eqI) (simp add: bit_ucast_iff)
  have ne: "(ucast v :: u32) \<noteq> 0 \<longleftrightarrow> v \<noteq> 0" for v :: u8 by (metis narrow unsigned_0)
  show ?thesis using bytes id len assms(5) by (auto simp: poll ne)
qed

theorem xbus_controller_identifies_witness:
  "fst (status_bytes 12 (identify [0, 0, 0, 0, 0, 0] booted_bus)) = [0x83, 0, 0x10, 0, 1, 0, 0, 0, 0, 0, 0, 0xE1]"
proof -
  have "controller_selected booted_bus" "cmdptrf (XBUS booted_bus) = 0" "xbus_ok (XBUS booted_bus)"
    by (simp_all add: controller_selected_def booted_bus_def opera_xbus_init_def opera_xbus_attach_def upt_rec
        opera_xbus_set_sel_def xbus_controller_reset_f_def no_datum_def xbus_ok_def Let_def)
  from xbus_controller_identifies [OF this(1,3,2), of "[0, 0, 0, 0, 0, 0]" 12] show ?thesis
    by (simp add: identity_def)
qed

end
