(* ===== verification/Opera_Dsp.thy ===== *)
theory Opera_Dsp
  imports Opera_Clio Opera_Prng
begin

text \<open>
  The audio signal processor, \<open>src/libopera/opera_dsp.c\<close>: its memories and registers, the decode
  tables built at initialisation, the operand fetch, the arithmetic-logic unit with its barrel
  shifter, the control instructions and the loop that runs one sample's program, and the
  accesses of the processor. The bit fields of the instruction formats are laid out from the
  lowest bit, as the compilers of the supported hosts do. Its inputs and outputs are CLIO's queues
  over the shared memory and the 16 bit noise generator.
\<close>

section \<open>Instruction formats\<close>

definition bfield :: "nat \<Rightarrow> nat \<Rightarrow> u32 \<Rightarrow> u32" where
  "bfield lo n w = take_bit n (drop_bit lo w)"

definition aif_BS :: "u32 \<Rightarrow> u32" where "aif_BS w = bfield 0 4 w"
definition aif_ALU :: "u32 \<Rightarrow> u32" where "aif_ALU w = bfield 4 4 w"
definition aif_MUXB :: "u32 \<Rightarrow> u32" where "aif_MUXB w = bfield 8 2 w"
definition aif_MUXA :: "u32 \<Rightarrow> u32" where "aif_MUXA w = bfield 10 2 w"
definition aif_M2SEL :: "u32 \<Rightarrow> bool" where "aif_M2SEL w \<longleftrightarrow> bit w 12"
definition aif_NUMOPS :: "u32 \<Rightarrow> u32" where "aif_NUMOPS w = bfield 13 2 w"
definition aif_PAD :: "u32 \<Rightarrow> bool" where "aif_PAD w \<longleftrightarrow> bit w 15"

definition cif_BCH_ADDR :: "u32 \<Rightarrow> u32" where "cif_BCH_ADDR w = bfield 0 10 w"
definition br_bits :: "u32 \<Rightarrow> u32" where "br_bits w = bfield 10 5 w"
definition branch_FLAGM0 :: "u32 \<Rightarrow> bool" where "branch_FLAGM0 w \<longleftrightarrow> bit w 10"
definition branch_FLAGM1 :: "u32 \<Rightarrow> bool" where "branch_FLAGM1 w \<longleftrightarrow> bit w 11"
definition branch_FLAGSEL :: "u32 \<Rightarrow> bool" where "branch_FLAGSEL w \<longleftrightarrow> bit w 12"
definition branch_MODE0 :: "u32 \<Rightarrow> bool" where "branch_MODE0 w \<longleftrightarrow> bit w 13"
definition branch_MODE1 :: "u32 \<Rightarrow> bool" where "branch_MODE1 w \<longleftrightarrow> bit w 14"

text \<open>\<open>operand.iof.IMMEDIATE << (operand.iof.JUSTIFY & 3)\<close> with both fields signed: the one bit
  \<open>JUSTIFY\<close> is 0 or -1, a shift of 0 or 3.\<close>

definition iof_IMMEDIATE :: "u32 \<Rightarrow> u16" where "iof_IMMEDIATE w = signed_take_bit 12 (ucast w)"
definition iof_JUSTIFY :: "u32 \<Rightarrow> bool" where "iof_JUSTIFY w \<longleftrightarrow> bit w 13"

definition iof_value :: "u32 \<Rightarrow> u16" where
  "iof_value w = push_bit (if iof_JUSTIFY w then 3 else 0) (iof_IMMEDIATE w)"

definition nrof_OP_ADDR :: "u32 \<Rightarrow> u32" where "nrof_OP_ADDR w = bfield 0 10 w"
definition nrof_DI :: "u32 \<Rightarrow> bool" where "nrof_DI w \<longleftrightarrow> bit w 10"
definition nrof_WB1 :: "u32 \<Rightarrow> bool" where "nrof_WB1 w \<longleftrightarrow> bit w 11"
definition nrof_TYPE :: "u32 \<Rightarrow> u32" where "nrof_TYPE w = bfield 13 3 w"

definition r2of_R1 :: "u32 \<Rightarrow> u32" where "r2of_R1 w = bfield 0 4 w"
definition r2of_R1_DI :: "u32 \<Rightarrow> bool" where "r2of_R1_DI w \<longleftrightarrow> bit w 4"
definition r2of_R2 :: "u32 \<Rightarrow> u32" where "r2of_R2 w = bfield 5 4 w"
definition r2of_R2_DI :: "u32 \<Rightarrow> bool" where "r2of_R2_DI w \<longleftrightarrow> bit w 9"
definition r2of_NUMREGS :: "u32 \<Rightarrow> bool" where "r2of_NUMREGS w \<longleftrightarrow> bit w 10"
definition r2of_WB1 :: "u32 \<Rightarrow> bool" where "r2of_WB1 w \<longleftrightarrow> bit w 11"
definition r2of_WB2 :: "u32 \<Rightarrow> bool" where "r2of_WB2 w \<longleftrightarrow> bit w 12"

definition r3of_R1 :: "u32 \<Rightarrow> u32" where "r3of_R1 w = bfield 0 4 w"
definition r3of_R1_DI :: "u32 \<Rightarrow> bool" where "r3of_R1_DI w \<longleftrightarrow> bit w 4"
definition r3of_R2 :: "u32 \<Rightarrow> u32" where "r3of_R2 w = bfield 5 4 w"
definition r3of_R2_DI :: "u32 \<Rightarrow> bool" where "r3of_R2_DI w \<longleftrightarrow> bit w 9"
definition r3of_R3 :: "u32 \<Rightarrow> u32" where "r3of_R3 w = bfield 10 4 w"
definition r3of_R3_DI :: "u32 \<Rightarrow> bool" where "r3of_R3_DI w \<longleftrightarrow> bit w 14"

section \<open>State\<close>

record dsp_regs =
  PC :: u32
  AudioOutStatus :: u16
  Sema4Status :: u16
  Sema4Data :: u16
  DSPPCNT :: u16
  DSPPRLD :: u16
  AUDCNT :: u16
  DSP_INT :: u16

record dsp_flags =
  MULT1 :: u16
  MULT2 :: u16
  ALU1 :: u16
  ALU2 :: u16
  BS :: u32
  RMAP :: u16
  nOP_MASK :: u16
  WRITEBACK :: u16
  req :: u8
  Running :: bool
  GenFIQ :: bool

record dsp =
  RBASEx4 :: u32
  INSTTRAS_req :: "u32 \<Rightarrow> u8"
  INSTTRAS_BS :: "u32 \<Rightarrow> u8"
  REGCONV :: "u32 \<Rightarrow> u32 \<Rightarrow> u16"
  BRCONDTAB :: "u32 \<times> u32 \<Rightarrow> bool"
  NMem :: "nat \<Rightarrow> u16"
  IMem :: "nat \<Rightarrow> u16"
  REGi :: u32
  dregs :: dsp_regs
  dflags :: dsp_flags
  CPUSupply :: "nat \<Rightarrow> u32"

text \<open>The bits of a request, \<open>RQFTAG_s\<close>.\<close>

abbreviation (input) RQ_BS :: nat where "RQ_BS \<equiv> 0"
abbreviation (input) RQ_ALU2 :: nat where "RQ_ALU2 \<equiv> 1"
abbreviation (input) RQ_ALU1 :: nat where "RQ_ALU1 \<equiv> 2"
abbreviation (input) RQ_MULT2 :: nat where "RQ_MULT2 \<equiv> 3"
abbreviation (input) RQ_MULT1 :: nat where "RQ_MULT1 \<equiv> 4"

text \<open>What the processor works on. \<open>UNINIT\<close> is what the uninitialised operand array of
  \<open>dsp_operand_load\<close> holds, six values for each call.\<close>

record dsp_env =
  DSP :: dsp
  QUEUES :: clio
  MEMORY :: memory
  NOISE :: u32
  UNINIT :: "nat \<Rightarrow> u16"

definition on_dsp :: "(dsp \<Rightarrow> dsp) \<Rightarrow> dsp_env \<Rightarrow> dsp_env" where
  "on_dsp f e = e\<lparr>DSP := f (DSP e)\<rparr>"

definition on_regs :: "(dsp_regs \<Rightarrow> dsp_regs) \<Rightarrow> dsp \<Rightarrow> dsp" where
  "on_regs f d = d\<lparr>dregs := f (dregs d)\<rparr>"

definition on_flags :: "(dsp_flags \<Rightarrow> dsp_flags) \<Rightarrow> dsp \<Rightarrow> dsp" where
  "on_flags f d = d\<lparr>dflags := f (dflags d)\<rparr>"

section \<open>Arithmetic flags\<close>

abbreviation (input) TOPBIT :: u32 where "TOPBIT \<equiv> 0x80000000"

definition ADD_CFLAG :: "u32 \<Rightarrow> u32 \<Rightarrow> u32 \<Rightarrow> bool" where
  "ADD_CFLAG a b y \<longleftrightarrow> a AND b AND TOPBIT \<noteq> 0 \<or> a AND NOT y AND TOPBIT \<noteq> 0 \<or> b AND NOT y AND TOPBIT \<noteq> 0"

definition SUB_CFLAG :: "u32 \<Rightarrow> u32 \<Rightarrow> u32 \<Rightarrow> bool" where
  "SUB_CFLAG a b y \<longleftrightarrow>
     a AND NOT b AND TOPBIT \<noteq> 0 \<or> a AND NOT y AND TOPBIT \<noteq> 0 \<or> NOT b AND NOT y AND TOPBIT \<noteq> 0"

definition ADD_VFLAG :: "u32 \<Rightarrow> u32 \<Rightarrow> u32 \<Rightarrow> bool" where
  "ADD_VFLAG a b y \<longleftrightarrow> a AND b AND NOT y AND TOPBIT \<noteq> 0 \<or> NOT a AND NOT b AND y AND TOPBIT \<noteq> 0"

definition SUB_VFLAG :: "u32 \<Rightarrow> u32 \<Rightarrow> u32 \<Rightarrow> bool" where
  "SUB_VFLAG a b y \<longleftrightarrow> a AND NOT b AND NOT y AND TOPBIT \<noteq> 0 \<or> NOT a AND b AND y AND TOPBIT \<noteq> 0"

text \<open>The bytes of \<open>dsp_alu_flags_u\<close>, each 0 or 1, and the table index computed from them.\<close>

record alu_flags =
  fl_zero :: bool
  fl_negative :: bool
  fl_carry :: bool
  fl_overflow :: bool

definition alu_raw :: "alu_flags \<Rightarrow> u32" where
  "alu_raw f = of_bool (fl_zero f) OR push_bit 8 (of_bool (fl_negative f)) OR
     push_bit 16 (of_bool (fl_carry f)) OR push_bit 24 (of_bool (fl_overflow f))"

definition alu_index :: "alu_flags \<Rightarrow> bool \<Rightarrow> u32" where
  "alu_index f fExact = of_bool fExact + drop_bit 24 (alu_raw f * 0x10080402)"

section \<open>Data memory\<close>

text \<open>The status of the queues 13 and 14, which the register map has and CLIO does not, reads past
  \<open>fifo_i[13]\<close> into the \<open>fifo_o\<close> that follows it in \<open>clio_s\<close>.\<close>

definition ei_status_at :: "u32 \<Rightarrow> clio \<Rightarrow> u16" where
  "ei_status_at n c =
     (if n < 13 then opera_clio_fifo_ei_status (unat n) c
      else if fifo_addr (fifo_start (fifo_o c (unat n - 13))) \<noteq> 0 then 2 else 0)"

definition dsp_read :: "u32 \<Rightarrow> dsp_env \<Rightarrow> u16 \<times> dsp_env" where
  "dsp_read addr e =
     (let d = DSP e; r = dregs d in
      if addr = 0xEA then (let (v, st) = prng16 (NOISE e) in (ucast v, e\<lparr>NOISE := st\<rparr>))
      else if addr = 0xEB then (AudioOutStatus r, e)
      else if addr = 0xEC then (Sema4Status r, e)
      else if addr = 0xED then (Sema4Data r, e)
      else if addr = 0xEE then (ucast (PC r), e)
      else if addr = 0xEF then (DSPPCNT r, e)
      else if 0xF0 \<le> addr \<and> addr \<le> 0xFC then
        (if CPUSupply d (unat (addr - 0xF0)) \<noteq> 0
         then (IMem d (unat (addr - 0x80)), on_dsp (\<lambda>d. d\<lparr>CPUSupply := (CPUSupply d)(unat (addr - 0xF0) := 0)\<rparr>) e)
         else (let (v, c) = opera_clio_fifo_ei (MEMORY e) (unat (addr AND 0x0F)) (QUEUES e) in (v, e\<lparr>QUEUES := c\<rparr>)))
      else if 0x70 \<le> addr \<and> addr \<le> 0x7C then
        (if CPUSupply d (unat (addr - 0x70)) \<noteq> 0
         then (IMem d (unat addr), on_dsp (\<lambda>d. d\<lparr>CPUSupply := (CPUSupply d)(unat (addr - 0x70) := 0)\<rparr>) e)
         else (opera_clio_fifo_ei_read (MEMORY e) (unat (addr AND 0x0F)) (QUEUES e), e))
      else if 0xD0 \<le> addr \<and> addr \<le> 0xDE then
        (if CPUSupply d (unat (addr AND 0x0F)) \<noteq> 0 then 2 else ei_status_at (addr AND 0x0F) (QUEUES e), e)
      else if 0xE0 \<le> addr \<and> addr \<le> 0xE3 then (opera_clio_fifo_eo_status (unat (addr AND 0x0F)) (QUEUES e), e)
      else if addr - 0x100 < 0x200 then (IMem d (unat ((addr - 0x100) OR 0x100)), e)
      else (IMem d (unat ((addr - 0x100) AND 0x7F)), e))"

definition set_imem :: "nat \<Rightarrow> u16 \<Rightarrow> dsp \<Rightarrow> dsp" where
  "set_imem i v d = d\<lparr>IMem := (IMem d)(i := v)\<rparr>"

definition dsp_write :: "u32 \<Rightarrow> u16 \<Rightarrow> dsp_env \<Rightarrow> dsp_env" where
  "dsp_write addr val e =
     (let addr = addr AND 0x3FF in
      if addr = 0x3EB then on_dsp (on_regs (\<lambda>r. r\<lparr>AudioOutStatus := val\<rparr>)) e
      else if addr = 0x3EC then on_dsp (on_regs (\<lambda>r. r\<lparr>Sema4Status := Sema4Status r OR 0x01\<rparr>)) e
      else if addr = 0x3ED then on_dsp (on_regs (\<lambda>r. r\<lparr>Sema4Data := val, Sema4Status := 0x4\<rparr>)) e
      else if addr = 0x3EE then
        on_dsp (\<lambda>d. on_flags (\<lambda>f. f\<lparr>GenFIQ := True\<rparr>) (on_regs (\<lambda>r. r\<lparr>DSP_INT := val\<rparr>) d)) e
      else if addr = 0x3EF then on_dsp (on_regs (\<lambda>r. r\<lparr>DSPPRLD := val\<rparr>)) e
      else if 0x3F0 \<le> addr \<and> addr \<le> 0x3F3 then
        (let (c, m) = opera_clio_fifo_eo (unat (addr AND 0x0F)) val (QUEUES e, MEMORY e)
         in e\<lparr>QUEUES := c, MEMORY := m\<rparr>)
      else if addr = 0x3FD then e
      else if addr = 0x3FE \<or> addr = 0x3FF then on_dsp (set_imem (unat addr) val) e
      else if addr < 0x100 then e
      else if addr - 0x100 < 0x200 then on_dsp (set_imem (unat ((addr - 0x100) OR 0x100)) val) e
      else on_dsp (set_imem (unat ((addr - 0x100) + 0x100)) val) e)"

section \<open>Operands\<close>

text \<open>\<open>DSP.NMem[DSP.dregs.PC++]\<close>.\<close>

definition fetch :: "dsp_env \<Rightarrow> u32 \<times> dsp_env" where
  "fetch e = (ucast (NMem (DSP e) (unat (PC (dregs (DSP e))))), on_dsp (on_regs (\<lambda>r. r\<lparr>PC := PC r + 1\<rparr>)) e)"

definition reg_addr :: "u32 \<Rightarrow> dsp_env \<Rightarrow> u32" where
  "reg_addr reg e = ucast (REGCONV (DSP e) (REGi (DSP e)) reg) XOR RBASEx4 (DSP e)"

text \<open>\<open>op = dsp_read(addr); if(di) op = dsp_read(op);\<close>.\<close>

definition read_di :: "u32 \<Rightarrow> bool \<Rightarrow> dsp_env \<Rightarrow> u16 \<times> dsp_env" where
  "read_di addr di e =
     (let (op, e) = dsp_read addr e in if di then dsp_read (ucast op) e else (op, e))"

definition dsp_operand_load1 :: "dsp_env \<Rightarrow> u16 \<times> dsp_env" where
  "dsp_operand_load1 e =
     (let (w, e) = fetch e; t = nrof_TYPE w in
      if t \<le> 3 then read_di (reg_addr (r3of_R3 w) e) (r3of_R3_DI w) e
      else if t = 4 then read_di (nrof_OP_ADDR w) (nrof_DI w) e
      else if t = 5 then read_di (reg_addr (r2of_R1 w) e) (r2of_R1_DI w) e
      else (iof_value w, e))"

record operands =
  op_cnt :: nat
  ops :: "u16 list"
  GWRITEBACK :: u16
  op_env :: dsp_env

definition push_op :: "u16 \<Rightarrow> operands \<Rightarrow> operands" where
  "push_op v s = s\<lparr>ops := (ops s)[op_cnt s := v], op_cnt := op_cnt s + 1\<rparr>"

definition push_read :: "u32 \<Rightarrow> bool \<Rightarrow> operands \<Rightarrow> operands" where
  "push_read addr di s = (let (v, e) = read_di addr di (op_env s) in push_op v (s\<lparr>op_env := e\<rparr>))"

definition set_writeback :: "u16 \<Rightarrow> operands \<Rightarrow> operands" where
  "set_writeback v s = s\<lparr>op_env := on_dsp (on_flags (\<lambda>f. f\<lparr>WRITEBACK := v\<rparr>)) (op_env s)\<rparr>"

abbreviation writeback :: "operands \<Rightarrow> u16" where
  "writeback s \<equiv> WRITEBACK (dflags (DSP (op_env s)))"

text \<open>An operand of the register format with one or two registers: the indirect address itself is
  the one written back.\<close>

definition push_reg2 :: "u32 \<Rightarrow> bool \<Rightarrow> bool \<Rightarrow> operands \<Rightarrow> operands" where
  "push_reg2 reg di wb s =
     (let s = set_writeback (ucast (reg_addr reg (op_env s))) s;
          s = (if di then (let (v, e) = dsp_read (ucast (writeback s)) (op_env s) in set_writeback v (s\<lparr>op_env := e\<rparr>))
               else s);
          s = push_read (ucast (writeback s)) False s
      in if wb then s\<lparr>GWRITEBACK := writeback s\<rparr> else s)"

definition operand_word :: "operands \<Rightarrow> operands" where
  "operand_word s =
     (let (w, e) = fetch (op_env s); s = s\<lparr>op_env := e\<rparr>; t = nrof_TYPE w in
      if t \<le> 3 then
        (let s = push_read (reg_addr (r3of_R3 w) (op_env s)) (r3of_R3_DI w) s;
             s = push_read (reg_addr (r3of_R2 w) (op_env s)) (r3of_R2_DI w) s;
             s = set_writeback (ucast (reg_addr (r3of_R1 w) (op_env s))) s
         in push_read (ucast (writeback s)) (r3of_R1_DI w) s)
      else if t = 4 then
        (let s = set_writeback (ucast (nrof_OP_ADDR w)) s;
             s = push_read (ucast (writeback s)) (nrof_DI w) s
         in if nrof_WB1 w then s\<lparr>GWRITEBACK := writeback s\<rparr> else s)
      else if t = 5 then
        (let s = (if r2of_NUMREGS w then push_reg2 (r2of_R2 w) (r2of_R2_DI w) (r2of_WB2 w) s else s)
         in push_reg2 (r2of_R1 w) (r2of_R1_DI w) (r2of_WB1 w) s)
      else set_writeback (iof_value w) (push_op (iof_value w) s))"

lemma push_cnt:
  "op_cnt (push_op v s) = op_cnt s + 1" "op_cnt (push_read a di s) = op_cnt s + 1"
  "op_cnt (set_writeback v s) = op_cnt s" "op_cnt (push_reg2 r di wb s) = op_cnt s + 1"
  by (simp_all add: push_op_def push_read_def set_writeback_def push_reg2_def split_beta Let_def)

lemma operand_word_cnt: "op_cnt s < op_cnt (operand_word s)" "op_cnt (operand_word s) \<le> op_cnt s + 3"
  by (simp_all add: operand_word_def split_beta Let_def push_cnt)

function operand_loop :: "nat \<Rightarrow> operands \<Rightarrow> operands" where
  "operand_loop requests s =
     (let s = operand_word s in if op_cnt s < requests then operand_loop requests s else s)"
  by auto

termination
proof (relation "measure (\<lambda>(requests, s). requests - op_cnt s)")
  show "wf (measure (\<lambda>(requests, s). requests - op_cnt s))" by simp
next
  fix requests :: nat and s s' :: operands
  assume "s' = operand_word s" "op_cnt s' < requests"
  then show "((requests, s'), requests, s) \<in> measure (\<lambda>(requests, s). requests - op_cnt s)"
    using operand_word_cnt(1) [of s] by simp
qed

declare operand_loop.simps [simp del]

text \<open>The operands go to the units that asked for one, in a fixed order.\<close>

definition assign_ops :: "u16 list \<Rightarrow> dsp_flags \<Rightarrow> nat \<times> dsp_flags" where
  "assign_ops v f =
     (let i = 0;
          (i, f) = (if bit (req f) RQ_MULT1 then (i + 1, f\<lparr>MULT1 := v ! i\<rparr>) else (i, f));
          (i, f) = (if bit (req f) RQ_MULT2 then (i + 1, f\<lparr>MULT2 := v ! i\<rparr>) else (i, f));
          (i, f) = (if bit (req f) RQ_ALU1 then (i + 1, f\<lparr>ALU1 := v ! i\<rparr>) else (i, f));
          (i, f) = (if bit (req f) RQ_ALU2 then (i + 1, f\<lparr>ALU2 := v ! i\<rparr>) else (i, f))
      in if bit (req f) RQ_BS then (i + 1, f\<lparr>BS := ucast (v ! i)\<rparr>) else (i, f))"

definition dsp_operand_load :: "nat \<Rightarrow> dsp_env \<Rightarrow> dsp_env" where
  "dsp_operand_load requests e =
     (let e = on_dsp (on_flags (\<lambda>f. f\<lparr>WRITEBACK := 0\<rparr>)) e in
      if requests = 0 \<and> req (dflags (DSP e)) = 0 then e
      else
        (let requests = (if requests = 0 then 4 else requests);
             s = operand_loop requests \<lparr>op_cnt = 0, ops = map (UNINIT e) [0..<6], GWRITEBACK = 0,
                   op_env = e\<lparr>UNINIT := (\<lambda>i. UNINIT e (i + 6))\<rparr>\<rparr>;
             e = on_dsp (on_flags (\<lambda>f. f\<lparr>req := req f AND ucast (nOP_MASK f)\<rparr>)) (op_env s);
             (idx, f) = assign_ops (ops s) (dflags (DSP e));
             f = (if op_cnt s \<noteq> idx then (if GWRITEBACK s \<noteq> 0 then f\<lparr>WRITEBACK := GWRITEBACK s\<rparr> else f)
                  else f\<lparr>WRITEBACK := GWRITEBACK s\<rparr>)
         in on_dsp (\<lambda>d. d\<lparr>dflags := f\<rparr>) e))"

section \<open>Initialisation\<close>

definition dsp_register_base :: "u16 \<Rightarrow> u32 \<Rightarrow> u16" where
  "dsp_register_base rmap reg =
     (let reg = reg AND 0xF;
          x = bit reg 2;
          y = bit reg 3;
          twi = (if rmap \<le> 3 then x else if rmap = 4 then y else if rmap = 5 then \<not> y
                 else if rmap = 6 then x \<and> y else x \<or> y)
      in ucast ((reg AND 7) OR push_bit 8 (of_bool twi) OR push_bit 9 (drop_bit 3 reg)))"

text \<open>The units an arithmetic instruction takes operands for: the body of the loop over the
  instruction words below \<open>0x8000\<close>.\<close>

definition request_bits :: "u32 \<Rightarrow> u8" where
  "request_bits w =
     (let r = (0 :: u8);
          r = (if aif_BS w = 0x8 then set_bit RQ_BS r else r);
          m2 = (\<lambda>r. if aif_M2SEL w then set_bit RQ_MULT2 r else unset_bit RQ_MULT2 r);
          r = (if aif_MUXA w = 3 then m2 (set_bit RQ_MULT1 r)
               else if aif_MUXA w = 1 then set_bit RQ_ALU1 r
               else if aif_MUXA w = 2 then set_bit RQ_ALU2 r else r)
      in if aif_MUXB w = 1 then set_bit RQ_ALU1 r
         else if aif_MUXB w = 2 then set_bit RQ_ALU2 r
         else if aif_MUXB w = 3 then m2 (set_bit RQ_MULT1 r) else r)"

definition shift_code :: "u32 \<Rightarrow> u8" where
  "shift_code w = ucast (aif_BS w OR push_bit 1 (aif_ALU w AND 8))"

text \<open>Whether a conditional branch is taken.\<close>

definition branch_condition :: "u32 \<Rightarrow> alu_flags \<Rightarrow> bool \<Rightarrow> bool" where
  "branch_condition w f fExact =
     (let MD1 = (\<not> branch_MODE1 w \<and> branch_MODE0 w);
          MD2 = (branch_MODE1 w \<and> \<not> branch_MODE0 w);
          MD3 = (branch_MODE1 w \<and> branch_MODE0 w);
          STAT0 = (branch_FLAGSEL w \<and> fl_carry f \<or> \<not> branch_FLAGSEL w \<and> fl_negative f);
          STAT1 = (branch_FLAGSEL w \<and> fl_zero f \<or> \<not> branch_FLAGSEL w \<and> fl_overflow f);
          NSTAT0 = (STAT0 \<noteq> MD2);
          NSTAT1 = (STAT1 \<noteq> MD2);
          TDCARE1 = (\<not> branch_FLAGM1 w \<or> branch_FLAGM1 w \<and> NSTAT0);
          TDCARE0 = (\<not> branch_FLAGM0 w \<or> branch_FLAGM0 w \<and> NSTAT1);
          RDCARE = (\<not> branch_FLAGM1 w \<and> \<not> branch_FLAGM0 w);
          MD12S = (TDCARE1 \<and> TDCARE0 \<and> branch_MODE1 w \<noteq> branch_MODE0 w \<and> \<not> RDCARE);
          SUPER0 = (MD1 \<and> \<not> branch_FLAGSEL w \<and> RDCARE);
          SUPER1 = (MD1 \<and> branch_FLAGSEL w \<and> RDCARE);
          ALLZERO = (SUPER0 \<and> fl_zero f \<and> fExact);
          NALLZERO = (SUPER1 \<and> \<not> (fl_zero f \<and> fExact));
          SDS = (ALLZERO \<or> NALLZERO);
          NVTest = ((((fl_negative f \<noteq> fl_overflow f) \<or> (fl_zero f \<and> branch_FLAGM0 w)) \<noteq> branch_FLAGM1 w) \<and>
                    \<not> branch_FLAGSEL w);
          TMPCS = (fl_carry f \<and> \<not> fl_zero f);
          CZTest = (TMPCS \<noteq> branch_FLAGM0 w \<and> branch_FLAGSEL w \<and> \<not> branch_FLAGM1 w);
          XactTest = (fExact \<noteq> branch_FLAGM0 w \<and> branch_FLAGSEL w \<and> branch_FLAGM1 w);
          MD3S = ((NVTest \<or> CZTest \<or> XactTest) \<and> MD3)
      in MD12S \<or> MD3S \<or> SDS)"

text \<open>The six nested loops as the list of what they visit, and the table they fill.\<close>

definition branch_words :: "u32 list" where
  "branch_words = map (\<lambda>k. 0xA000 + 1024 * of_nat k) [0..<24]"

definition branch_entries :: "(u32 \<times> alu_flags \<times> bool) list" where
  "branch_entries =
     [(w, \<lparr>fl_zero = z, fl_negative = n, fl_carry = c, fl_overflow = v\<rparr>, x).
        w \<leftarrow> branch_words, z \<leftarrow> [False, True], n \<leftarrow> [False, True], c \<leftarrow> [False, True],
        v \<leftarrow> [False, True], x \<leftarrow> [False, True]]"

definition branch_table :: "u32 \<times> u32 \<Rightarrow> bool" where
  "branch_table =
     fold (\<lambda>(w, f, x) t. t((br_bits w, alu_index f x) := branch_condition w f x)) branch_entries (\<lambda>_. False)"

definition opera_dsp_reset :: "dsp \<Rightarrow> dsp" where
  "opera_dsp_reset d =
     on_flags (\<lambda>f. f\<lparr>nOP_MASK := NOT 0\<rparr>)
       (on_regs (\<lambda>r. r\<lparr>DSPPCNT := DSPPRLD r, PC := 0\<rparr>) (d\<lparr>RBASEx4 := 0, REGi := 0\<rparr>))"

definition opera_dsp_soft_reset :: "dsp \<Rightarrow> dsp" where
  "opera_dsp_soft_reset d = on_flags (\<lambda>f. f\<lparr>Running := False, GenFIQ := False\<rparr>) (opera_dsp_reset d)"

abbreviation (input) SYSTEM_TICKS :: u16 where "SYSTEM_TICKS \<equiv> 568"

definition zero_dsp :: dsp where
  "zero_dsp = \<lparr>RBASEx4 = 0, INSTTRAS_req = \<lambda>_. 0, INSTTRAS_BS = \<lambda>_. 0, REGCONV = \<lambda>_ _. 0, BRCONDTAB = \<lambda>_. False,
     NMem = \<lambda>_. 0, IMem = \<lambda>_. 0, REGi = 0,
     dregs = \<lparr>PC = 0, AudioOutStatus = 0, Sema4Status = 0, Sema4Data = 0, DSPPCNT = 0, DSPPRLD = 0, AUDCNT = 0, DSP_INT = 0\<rparr>,
     dflags = \<lparr>MULT1 = 0, MULT2 = 0, ALU1 = 0, ALU2 = 0, BS = 0, RMAP = 0, nOP_MASK = 0, WRITEBACK = 0, req = 0,
       Running = False, GenFIQ = False\<rparr>,
     CPUSupply = \<lambda>_. 0\<rparr>"

definition opera_dsp_init :: "dsp \<Rightarrow> dsp" where
  "opera_dsp_init d =
     (let d = zero_dsp;
          d = on_flags (\<lambda>f. f\<lparr>RMAP := 7\<rparr>)
                (d\<lparr>REGCONV := (\<lambda>c a. if c < 8 \<and> a < 16 then dsp_register_base (ucast c) a else 0)\<rparr>);
          d = on_flags (\<lambda>f. f\<lparr>req := request_bits 0x7FFF\<rparr>)
                (d\<lparr>INSTTRAS_req := (\<lambda>w. if w < 0x8000 then request_bits w else 0),
                   INSTTRAS_BS := (\<lambda>w. if w < 0x8000 then shift_code w else 0)\<rparr>);
          d = d\<lparr>BRCONDTAB := branch_table\<rparr>;
          d = on_flags (\<lambda>f. f\<lparr>Running := False, GenFIQ := False\<rparr>) d;
          d = on_regs (\<lambda>r. r\<lparr>DSPPRLD := SYSTEM_TICKS, AUDCNT := SYSTEM_TICKS\<rparr>) d;
          d = opera_dsp_reset d;
          d = on_regs (\<lambda>r. r\<lparr>Sema4Status := 0\<rparr>) d
      in d\<lparr>NMem := (\<lambda>i. if i < 2048 then 0x8380 else NMem d i), CPUSupply := (\<lambda>_. 0)\<rparr>)"

section \<open>Arithmetic instructions\<close>

text \<open>The registers the loop keeps in local variables.\<close>

record dsp_locals =
  Yacc :: u32
  RBSR :: u32
  alu_fl :: alu_flags
  fExactl :: bool

definition carry_op :: "u32 \<Rightarrow> bool" where
  "carry_op w \<longleftrightarrow> aif_ALU w = 3 \<or> aif_ALU w = 5"

definition int16 :: "u16 \<Rightarrow> u32" where "int16 v = scast v"

definition mux_a :: "u32 \<Rightarrow> dsp_flags \<Rightarrow> dsp_locals \<Rightarrow> u32" where
  "mux_a w f l =
     (if aif_MUXA w = 3 then
        (if \<not> aif_M2SEL w then
           (if carry_op w then (if fl_carry (alu_fl l) then push_bit 16 (int16 (MULT1 f)) else 0)
            else int16 (MULT1 f) * (signed_drop_bit 15 (Yacc l) AND NOT 1))
         else int16 (MULT1 f) * int16 (MULT2 f) * 2)
      else if aif_MUXA w = 1 then push_bit 16 (int16 (ALU1 f))
      else if aif_MUXA w = 0 then Yacc l
      else push_bit 16 (int16 (ALU2 f)))"

definition mux_b :: "u32 \<Rightarrow> dsp_flags \<Rightarrow> dsp_locals \<Rightarrow> u32" where
  "mux_b w f l =
     (if carry_op w then push_bit 16 (of_bool (fl_carry (alu_fl l)))
      else if aif_MUXB w = 0 then Yacc l
      else if aif_MUXB w = 1 then push_bit 16 (int16 (ALU1 f))
      else if aif_MUXB w = 2 then push_bit 16 (int16 (ALU2 f))
      else if \<not> aif_M2SEL w then (int16 (MULT1 f) * signed_drop_bit 15 (Yacc l)) AND NOT 1
      else int16 (MULT1 f) * int16 (MULT2 f) * 2)"

text \<open>The operation: the result, carry and overflow.\<close>

definition alu :: "u32 \<Rightarrow> u32 \<Rightarrow> u32 \<Rightarrow> u32 \<times> bool \<times> bool" where
  "alu opc A B =
     (if opc = 0 then (A, False, False)
      else if opc = 1 then (let y = 0 - B in (y, SUB_CFLAG 0 B y, SUB_VFLAG 0 B y))
      else if opc = 2 \<or> opc = 3 then (let y = A + B in (y, ADD_CFLAG A B y, ADD_VFLAG A B y))
      else if opc = 4 \<or> opc = 5 then (let y = A - B in (y, SUB_CFLAG A B y, SUB_VFLAG A B y))
      else if opc = 6 then (let y = A + 0x1000 in (y, ADD_CFLAG A 0x1000 y, ADD_VFLAG A 0x1000 y))
      else if opc = 7 then (let y = A - 0x1000 in (y, SUB_CFLAG A 0x1000 y, SUB_VFLAG A 0x1000 y))
      else if opc = 8 then (A, False, False)
      else if opc = 9 then (A XOR 0xFFFFFFFF, False, False)
      else if opc = 10 then (A AND B, False, False)
      else if opc = 11 then ((A AND B) XOR 0xFFFFFFFF, False, False)
      else if opc = 12 then (A OR B, False, False)
      else if opc = 13 then ((A OR B) XOR 0xFFFFFFFF, False, False)
      else if opc = 14 then (A XOR B, False, False)
      else (A XOR B XOR 0xFFFFFFFF, False, False))"

definition barrel :: "u32 \<Rightarrow> u32 \<Rightarrow> alu_flags \<Rightarrow> u32 \<times> alu_flags" where
  "barrel bs y f =
     (if bs = 1 \<or> bs = 17 then (push_bit 1 y, f)
      else if bs = 2 \<or> bs = 18 then (push_bit 2 y, f)
      else if bs = 3 \<or> bs = 19 then (push_bit 3 y, f)
      else if bs = 4 \<or> bs = 20 then (push_bit 4 y, f)
      else if bs = 5 \<or> bs = 21 then (push_bit 5 y, f)
      else if bs = 6 \<or> bs = 22 then (push_bit 8 y, f)
      else if bs = 9 then (signed_drop_bit 16 y, f)
      else if bs = 10 then (signed_drop_bit 8 y, f)
      else if bs = 11 then (signed_drop_bit 5 y, f)
      else if bs = 12 then (signed_drop_bit 4 y, f)
      else if bs = 13 then (signed_drop_bit 3 y, f)
      else if bs = 14 then (signed_drop_bit 2 y, f)
      else if bs = 15 then (signed_drop_bit 1 y, f)
      else if bs = 7 \<or> bs = 23 then
        (if fl_overflow f then (if fl_negative f then 0x7FFFF000 else 0x80000000) else y, f)
      else if bs = 8 \<or> bs = 24 then
        (let c = bit y 31
         in ((push_bit 1 y AND 0xFFFE0000) OR (if c then 0x10000 else 0) OR (y AND 0xF000), f\<lparr>fl_carry := c\<rparr>))
      else if bs = 25 then (drop_bit 16 y, f)
      else if bs = 26 then (drop_bit 8 y, f)
      else if bs = 27 then (drop_bit 5 y, f)
      else if bs = 28 then (drop_bit 4 y, f)
      else if bs = 29 then (drop_bit 3 y, f)
      else if bs = 30 then (drop_bit 2 y, f)
      else if bs = 31 then (drop_bit 1 y, f)
      else (y, f))"

text \<open>The request of the instruction and its operands.\<close>

definition alu_load :: "u32 \<Rightarrow> dsp_env \<Rightarrow> dsp_env" where
  "alu_load w e =
     dsp_operand_load (unat (aif_NUMOPS w))
       (on_dsp (\<lambda>d. on_flags (\<lambda>f. f\<lparr>req := INSTTRAS_req d w, BS := ucast (INSTTRAS_BS d w)\<rparr>) d) e)"

definition alu_exec :: "u32 \<Rightarrow> dsp_flags \<Rightarrow> dsp_locals \<Rightarrow> dsp_locals" where
  "alu_exec w f l =
     (let (y, c, v) = alu (aif_ALU w) (mux_a w f l) (mux_b w f l);
          fl = \<lparr>fl_zero = (y AND 0xFFFF0000 = 0), fl_negative = bit y 31, fl_carry = c, fl_overflow = v\<rparr>;
          x = (y AND 0x0000F000 = 0);
          (y, fl) = barrel (BS f) y fl
      in l\<lparr>Yacc := y, alu_fl := fl, fExactl := x\<rparr>)"

definition dsp_alu :: "u32 \<Rightarrow> dsp_locals \<times> dsp_env \<Rightarrow> dsp_locals \<times> dsp_env" where
  "dsp_alu w = (\<lambda>(l, e).
     let e = alu_load w e; f = dflags (DSP e); l = alu_exec w f l
     in (l, if WRITEBACK f \<noteq> 0 then dsp_write (ucast (WRITEBACK f)) (ucast (signed_drop_bit 16 (Yacc l))) e else e))"

section \<open>Control instructions\<close>

definition jump :: "u32 \<Rightarrow> dsp_env \<Rightarrow> dsp_env" where
  "jump a e = on_dsp (on_regs (\<lambda>r. r\<lparr>PC := a\<rparr>)) e"

text \<open>\<open>if(di) addr = dsp_read(addr); dsp_write(addr,op);\<close> of the move instructions.\<close>

definition move_to :: "u16 \<Rightarrow> bool \<Rightarrow> u16 \<Rightarrow> dsp_env \<Rightarrow> dsp_env" where
  "move_to addr di op e =
     (let (addr, e) = (if di then dsp_read (ucast addr) e else (addr, e)) in dsp_write (ucast addr) op e)"

text \<open>The first component is \<open>work\<close>.\<close>

definition dsp_control :: "u32 \<Rightarrow> dsp_locals \<times> dsp_env \<Rightarrow> bool \<times> dsp_locals \<times> dsp_env" where
  "dsp_control w = (\<lambda>(l, e).
     let k = drop_bit 7 w AND 0xFF; a = cif_BCH_ADDR w in
     if k = 0 then (True, l, e)
     else if k = 1 then (True, l, jump (drop_bit 16 (Yacc l) AND 0x3FF) e)
     else if k = 2 then (True, l, on_dsp (\<lambda>d. d\<lparr>RBASEx4 := push_bit 2 (a AND 0x3F)\<rparr>) e)
     else if k = 3 then (True, l, on_dsp (\<lambda>d. d\<lparr>REGi := a AND 7\<rparr>) e)
     else if k = 4 then (True, l, jump (RBSR l) e)
     else if k = 5 then (True, l, on_dsp (on_flags (\<lambda>f. f\<lparr>nOP_MASK := ucast (NOT (a AND 0x1F))\<rparr>)) e)
     else if k = 6 then (True, l, e)
     else if k = 7 then (False, l, e)
     else if k \<le> 15 then (True, l, jump a e)
     else if k \<le> 23 then (True, l\<lparr>RBSR := PC (dregs (DSP e))\<rparr>, jump a e)
     else if k \<le> 31 then (True, l, jump a e)
     else if k \<le> 47 then
       (let (op, e) = dsp_operand_load1 e in (True, l, move_to (ucast (reg_addr (r2of_R1 w) e)) (r2of_R1_DI w) op e))
     else if k \<le> 63 then
       (let (op, e) = dsp_operand_load1 e in (True, l, move_to (ucast a) (nrof_DI w) op e))
     else if BRCONDTAB (DSP e) (br_bits w, alu_index (alu_fl l) (fExactl l)) then (True, l, jump a e)
     else (True, l, e))"

section \<open>One sample\<close>

definition dsp_step :: "dsp_locals \<times> dsp_env \<Rightarrow> bool \<times> dsp_locals \<times> dsp_env" where
  "dsp_step = (\<lambda>(l, e).
     let (w, e) = fetch e
     in if aif_PAD w then dsp_control w (l, e) else (let (l, e) = dsp_alu w (l, e) in (True, l, e)))"

text \<open>\<open>do { ... } while(work)\<close>: a program that never sleeps does not return.\<close>

partial_function (option) dsp_run :: "dsp_locals \<times> dsp_env \<Rightarrow> (dsp_locals \<times> dsp_env) option" where
  "dsp_run s = (let (work, s) = dsp_step s in if work then dsp_run s else Some s)"

definition dsp_start :: dsp_locals where
  "dsp_start = \<lparr>Yacc = 0, RBSR = 0,
     alu_fl = \<lparr>fl_zero = False, fl_negative = False, fl_carry = False, fl_overflow = False\<rparr>, fExactl = False\<rparr>"

text \<open>What follows the program: the interrupt it asked for and the sample counter.\<close>

definition dsp_sample_end :: "dsp_env \<Rightarrow> dsp_env" where
  "dsp_sample_end e =
     (let e = (if GenFIQ (dflags (DSP e))
               then (on_dsp (on_flags (\<lambda>f. f\<lparr>GenFIQ := False\<rparr>)) e)\<lparr>QUEUES := opera_clio_fiq_generate 0x800 0 (QUEUES e)\<rparr>
               else e);
          e = on_dsp (on_regs (\<lambda>r. r\<lparr>DSPPCNT := DSPPCNT r - SYSTEM_TICKS\<rparr>)) e
      in if sint (DSPPCNT (dregs (DSP e))) \<le> 0
         then on_dsp (on_regs (\<lambda>r. r\<lparr>DSPPCNT := DSPPCNT r + DSPPRLD r\<rparr>)) e
         else e)"

definition dsp_output :: "dsp_env \<Rightarrow> u32" where
  "dsp_output e = push_bit 16 (ucast (IMem (DSP e) 0x3FF)) OR ucast (IMem (DSP e) 0x3FE)"

definition opera_dsp_loop :: "dsp_env \<Rightarrow> (u32 \<times> dsp_env) option" where
  "opera_dsp_loop e =
     (if Running (dflags (DSP e)) then
        (case dsp_run (dsp_start, on_dsp opera_dsp_reset e) of
           None \<Rightarrow> None
         | Some (l, e) \<Rightarrow> (let e = dsp_sample_end e in Some (dsp_output e, e)))
      else Some (dsp_output e, e))"

section \<open>Accesses of the processor\<close>

definition opera_dsp_mem_write :: "u16 \<Rightarrow> u16 \<Rightarrow> dsp \<Rightarrow> dsp" where
  "opera_dsp_mem_write addr val d = d\<lparr>NMem := (NMem d)(unat (addr AND 0x3FF) := val)\<rparr>"

definition opera_dsp_set_running :: "u32 \<Rightarrow> dsp \<Rightarrow> dsp" where
  "opera_dsp_set_running val d = on_flags (\<lambda>f. f\<lparr>Running := val AND 1 \<noteq> 0\<rparr>) d"

definition opera_dsp_imem_write :: "u16 \<Rightarrow> u16 \<Rightarrow> dsp \<Rightarrow> dsp" where
  "opera_dsp_imem_write addr val d =
     (if addr \<ge> 0x70 \<and> addr \<le> 0x7C then
        set_imem (unat (addr AND 0x7F)) val (d\<lparr>CPUSupply := (CPUSupply d)(unat (addr - 0x70) := 1)\<rparr>)
      else if addr AND 0x80 = 0 then set_imem (unat (addr AND 0x7F)) val d
      else d)"

definition opera_dsp_arm_semaphore_write :: "u32 \<Rightarrow> dsp \<Rightarrow> dsp" where
  "opera_dsp_arm_semaphore_write val d = on_regs (\<lambda>r. r\<lparr>Sema4Data := ucast (val AND 0xFFFF), Sema4Status := 0x8\<rparr>) d"

definition opera_dsp_imem_read :: "u16 \<Rightarrow> dsp \<Rightarrow> u16" where
  "opera_dsp_imem_read addr d =
     (if addr = 0x3EB then AudioOutStatus (dregs d)
      else if addr = 0x3EC then Sema4Status (dregs d)
      else if addr = 0x3ED then Sema4Data (dregs d)
      else if addr = 0x3EE then DSP_INT (dregs d)
      else if addr = 0x3EF then DSPPRLD (dregs d)
      else IMem d (unat addr))"

definition opera_dsp_arm_semaphore_read :: "dsp \<Rightarrow> u32" where
  "opera_dsp_arm_semaphore_read d = push_bit 16 (ucast (Sema4Status (dregs d))) OR ucast (Sema4Data (dregs d))"

end
