(* ===== verification/Opera_Dsp_Props.thy ===== *)
theory Opera_Dsp_Props
  imports Opera_Dsp Opera_Clio_Audio
begin

text \<open>
  The signal processor's program: the fetches stay inside the program memory because its upper
  half only holds sleep instructions, a program whose jumps all go forward ends, and the
  operands never overflow their array.
\<close>

section \<open>What the steps leave alone\<close>

text \<open>The program memory and the program counter.\<close>

definition prog :: "dsp_env \<Rightarrow> (nat \<Rightarrow> u16) \<times> u32" where
  "prog e = (NMem (DSP e), PC (dregs (DSP e)))"

lemma prog_on_dsp:
  "prog (on_dsp f e) = (NMem (f (DSP e)), PC (dregs (f (DSP e))))"
  by (simp add: prog_def on_dsp_def)

lemma prog_env [simp]:
  "prog (e\<lparr>QUEUES := c\<rparr>) = prog e" "prog (e\<lparr>MEMORY := m\<rparr>) = prog e" "prog (e\<lparr>NOISE := st\<rparr>) = prog e"
  "prog (e\<lparr>UNINIT := u\<rparr>) = prog e"
  by (simp_all add: prog_def)

lemma prog_flags [simp]: "prog (on_dsp (on_flags f) e) = prog e"
  by (simp add: prog_def on_dsp_def on_flags_def)

lemma prog_read [simp]: "prog (snd (dsp_read addr e)) = prog e"
  by (simp add: dsp_read_def Let_def split_beta prog_on_dsp) (simp add: prog_def)

lemma prog_read_di [simp]: "prog (snd (read_di addr di e)) = prog e"
  by (simp add: read_di_def split_beta)

lemma prog_write [simp]: "prog (dsp_write addr v e) = prog e"
  by (simp add: dsp_write_def Let_def split_beta prog_on_dsp on_regs_def on_flags_def set_imem_def)
    (simp add: prog_def)

lemma prog_fetch: "prog (snd (fetch e)) = (fst (prog e), snd (prog e) + 1)"
  by (simp add: fetch_def prog_def on_dsp_def on_regs_def)

lemma prog_push [simp]:
  "prog (op_env (push_op v s)) = prog (op_env s)" "prog (op_env (push_read a di s)) = prog (op_env s)"
  "prog (op_env (set_writeback v s)) = prog (op_env s)" "prog (op_env (push_reg2 r di wb s)) = prog (op_env s)"
  by (simp_all add: push_op_def push_read_def set_writeback_def push_reg2_def split_beta Let_def)

lemma prog_word: "prog (op_env (operand_word s)) = (fst (prog (op_env s)), snd (prog (op_env s)) + 1)"
  by (simp add: operand_word_def split_beta Let_def prog_fetch)

lemma length_ops [simp]:
  "length (ops (push_op v s)) = length (ops s)" "length (ops (push_read a di s)) = length (ops s)"
  "length (ops (set_writeback v s)) = length (ops s)" "length (ops (push_reg2 r di wb s)) = length (ops s)"
  "length (ops (operand_word s)) = length (ops s)"
  by (simp_all add: push_op_def push_read_def set_writeback_def push_reg2_def operand_word_def split_beta Let_def)

text \<open>The operand loop reads at least one word and at most one for each missing operand; it never
  stores more than two operands past the request.\<close>

lemma operand_loop_bounds:
  "\<exists>k. prog (op_env (operand_loop requests s)) = (fst (prog (op_env s)), snd (prog (op_env s)) + of_nat k) \<and>
     1 \<le> k \<and> k \<le> max 1 (requests - op_cnt s) \<and> op_cnt (operand_loop requests s) \<le> max requests (op_cnt s + 1) + 2 \<and>
     length (ops (operand_loop requests s)) = length (ops s)"
proof (induction requests s rule: operand_loop.induct)
  case (1 requests s)
  let ?t = "operand_word s"
  note cnt = operand_word_cnt [of s]
  show ?case
  proof (cases "op_cnt ?t < requests")
    case True
    then obtain k where k: "prog (op_env (operand_loop requests ?t)) =
          (fst (prog (op_env ?t)), snd (prog (op_env ?t)) + of_nat k)" "1 \<le> k" "k \<le> max 1 (requests - op_cnt ?t)"
        "op_cnt (operand_loop requests ?t) \<le> max requests (op_cnt ?t + 1) + 2"
        "length (ops (operand_loop requests ?t)) = length (ops ?t)"
      using 1 [of ?t] by blast
    have "operand_loop requests s = operand_loop requests ?t"
      by (subst operand_loop.simps) (simp add: Let_def True)
    then show ?thesis using k cnt True
      by (intro exI [of _ "Suc k"]) (auto simp: prog_word add.assoc)
  next
    case False
    then have "operand_loop requests s = ?t"
      by (subst operand_loop.simps) (simp add: Let_def)
    then show ?thesis using cnt False by (intro exI [of _ 1]) (auto simp: prog_word)
  qed
qed

lemma prog_operand_load:
  assumes "requests \<le> 3"
  shows "\<exists>k \<le> 4. prog (dsp_operand_load requests e) = (fst (prog e), snd (prog e) + of_nat k)"
proof (cases "requests = 0 \<and> req (dflags (DSP e)) = 0")
  case True
  then show ?thesis
    by (intro exI [of _ 0]) (simp add: dsp_operand_load_def Let_def on_dsp_def on_flags_def prog_def)
next
  case False
  let ?e = "on_dsp (on_flags (\<lambda>f. f\<lparr>WRITEBACK := 0\<rparr>)) e" and ?n = "if requests = 0 then 4 else requests"
  let ?s = "\<lparr>op_cnt = 0, ops = map (UNINIT ?e) [0..<6], GWRITEBACK = 0,
      op_env = ?e\<lparr>UNINIT := (\<lambda>i. UNINIT ?e (i + 6))\<rparr>\<rparr>"
  obtain k where k: "prog (op_env (operand_loop ?n ?s)) = (fst (prog e), snd (prog e) + of_nat k)" "k \<le> max 1 ?n"
    using operand_loop_bounds [of ?n ?s] by auto
  have "k \<le> 4" using k(2) assms by (auto split: if_splits)
  moreover have "prog (dsp_operand_load requests e) = prog (op_env (operand_loop ?n ?s))"
    using False
    by (simp add: dsp_operand_load_def Let_def split_beta prog_on_dsp)
      (auto simp: prog_def on_dsp_def on_flags_def)
  ultimately show ?thesis using k(1) by auto
qed

lemma bfield_less: "unat (bfield lo n w) < 2 ^ n"
  using take_bit_nat_less_exp [of n] by (simp add: bfield_def unsigned_take_bit_eq)

lemma numops: "unat (aif_NUMOPS w) \<le> 3"
  using bfield_less [of 13 2 w] by (simp add: aif_NUMOPS_def)

lemma prog_alu:
  "\<exists>k \<le> 4. prog (snd (dsp_alu w (l, e))) = (fst (prog e), snd (prog e) + of_nat k)"
  "RBSR (fst (dsp_alu w (l, e))) = RBSR l"
proof -
  let ?e = "on_dsp (\<lambda>d. on_flags (\<lambda>f. f\<lparr>req := INSTTRAS_req d w, BS := ucast (INSTTRAS_BS d w)\<rparr>) d) e"
  have "prog ?e = prog e" by (simp add: prog_def on_dsp_def on_flags_def)
  moreover have "prog (snd (dsp_alu w (l, e))) = prog (alu_load w e)" by (simp add: dsp_alu_def Let_def)
  ultimately show "\<exists>k \<le> 4. prog (snd (dsp_alu w (l, e))) = (fst (prog e), snd (prog e) + of_nat k)"
    using prog_operand_load [OF numops, of w ?e] by (simp add: alu_load_def)
  show "RBSR (fst (dsp_alu w (l, e))) = RBSR l"
    by (simp add: dsp_alu_def alu_exec_def Let_def split_beta)
qed

lemma prog_load1:
  "\<exists>k \<le> 1. prog (snd (dsp_operand_load1 e)) = (fst (prog e), snd (prog e) + of_nat k)"
  by (intro exI [of _ 1]) (simp add: dsp_operand_load1_def split_beta Let_def prog_fetch)

lemma prog_move [simp]: "prog (move_to addr di op e) = prog e"
  by (simp add: move_to_def split_beta)

lemma prog_jump: "prog (jump a e) = (fst (prog e), a)"
  by (simp add: jump_def prog_def on_dsp_def on_regs_def)

definition control_code :: "u32 \<Rightarrow> u32" where "control_code w = drop_bit 7 w AND 0xFF"

text \<open>Instructions that may continue at the address they name.\<close>

definition jumps :: "u32 \<Rightarrow> bool" where
  "jumps w \<longleftrightarrow> aif_PAD w \<and> control_code w \<notin> {0, 1, 2, 3, 4, 5, 6, 7} \<and>
     (control_code w \<le> 31 \<or> \<not> control_code w \<le> 63)"

definition sleeps :: "u32 \<Rightarrow> bool" where "sleeps w \<longleftrightarrow> aif_PAD w \<and> control_code w = 7"

definition returns :: "u32 \<Rightarrow> bool" where "returns w \<longleftrightarrow> aif_PAD w \<and> control_code w = 4"

definition jumps_computed :: "u32 \<Rightarrow> bool" where "jumps_computed w \<longleftrightarrow> aif_PAD w \<and> control_code w = 1"

lemma control_cases:
  assumes "dsp_control w (l, e) = (work, l', e')" "aif_PAD w"
  shows "(work \<longleftrightarrow> \<not> sleeps w) \<and> fst (prog e') = fst (prog e) \<and>
    ((\<exists>k \<le> 1. snd (prog e') = snd (prog e) + of_nat k) \<and> RBSR l' = RBSR l \<or>
     jumps w \<and> snd (prog e') = cif_BCH_ADDR w \<and> RBSR l' \<in> {RBSR l, snd (prog e)} \<or>
     returns w \<and> snd (prog e') = RBSR l \<and> RBSR l' = RBSR l \<or>
     jumps_computed w \<and> snd (prog e') = drop_bit 16 (Yacc l) AND 0x3FF \<and> RBSR l' = RBSR l)"
proof -
  have same: "\<exists>k \<le> (1 :: nat). p = p + of_nat k" for p :: u32 by (intro exI [of _ 0]) simp
  have up: "k \<le> 15 \<Longrightarrow> k \<le> 31" "k \<le> 23 \<Longrightarrow> k \<le> 31" for k :: u32 by (erule order_trans, simp)+
  note k = control_code_def [of w, symmetric]
  obtain j where j: "j \<le> 1" "prog (snd (dsp_operand_load1 e)) = (fst (prog e), snd (prog e) + of_nat j)"
    using prog_load1 [of e] by blast
  have base: "prog (on_dsp (\<lambda>d. d\<lparr>RBASEx4 := v\<rparr>) e) = prog e" "prog (on_dsp (\<lambda>d. d\<lparr>REGi := v\<rparr>) e) = prog e" for v
    by (simp_all add: prog_def on_dsp_def)
  have pc: "PC (dregs (DSP e)) = snd (prog e)" by (simp add: prog_def)
  show ?thesis
    using assms(1) same [of "snd (prog e)"] j
    unfolding dsp_control_def Let_def k sleeps_def jumps_def returns_def jumps_computed_def pc prod.case
    by (simp only: split_beta prog_jump base assms(2) split: if_split_asm)
      (use up in \<open>auto simp: prog_jump base split_beta\<close>)
qed

section \<open>Fetches stay in the program memory\<close>

definition program_ends :: "(nat \<Rightarrow> u16) \<Rightarrow> bool" where
  "program_ends m \<longleftrightarrow> (\<forall>i. 1024 \<le> i \<and> i < 2048 \<longrightarrow> m i = 0x8380)"

definition next_pc :: "dsp_env \<Rightarrow> u32" where "next_pc e = PC (dregs (DSP e))"

lemma sleep_word: "sleeps (ucast (0x8380 :: u16))"
  by (simp add: sleeps_def aif_PAD_def control_code_def bit_iff_odd drop_bit_eq_div)

text \<open>What the rest of the machine can do to the processor: initialise it, write its memories and
  registers, let others move CLIO's queues and the memory, and run it for a sample.\<close>

inductive dsp_life :: "dsp_env \<Rightarrow> bool" where
  life_init: "DSP e = opera_dsp_init d \<Longrightarrow> dsp_life e"
| life_env: "dsp_life e \<Longrightarrow> DSP e' = DSP e \<Longrightarrow> dsp_life e'"
| life_mem_write: "dsp_life e \<Longrightarrow> dsp_life (on_dsp (opera_dsp_mem_write a v) e)"
| life_imem_write: "dsp_life e \<Longrightarrow> dsp_life (on_dsp (opera_dsp_imem_write a v) e)"
| life_running: "dsp_life e \<Longrightarrow> dsp_life (on_dsp (opera_dsp_set_running r) e)"
| life_semaphore: "dsp_life e \<Longrightarrow> dsp_life (on_dsp (opera_dsp_arm_semaphore_write v) e)"
| life_reset: "dsp_life e \<Longrightarrow> dsp_life (on_dsp opera_dsp_reset e)"
| life_soft_reset: "dsp_life e \<Longrightarrow> dsp_life (on_dsp opera_dsp_soft_reset e)"
| life_loop: "dsp_life e \<Longrightarrow> opera_dsp_loop e = Some (v, e') \<Longrightarrow> dsp_life e'"

definition dsp_next :: "dsp_locals \<times> dsp_env \<Rightarrow> dsp_locals \<times> dsp_env \<Rightarrow> bool" where
  "dsp_next s t \<longleftrightarrow> dsp_step s = (True, t)"

definition fetched :: "dsp_env \<Rightarrow> u32" where
  "fetched e = ucast (NMem (DSP e) (unat (next_pc e)))"

lemma step_cases:
  assumes "dsp_step (l, e) = (work, l', e')"
  shows "(work \<longleftrightarrow> \<not> sleeps (fetched e)) \<and> NMem (DSP e') = NMem (DSP e) \<and>
    ((\<exists>k \<le> 4. next_pc e' = next_pc e + 1 + of_nat k) \<and> RBSR l' = RBSR l \<or>
     jumps (fetched e) \<and> next_pc e' = cif_BCH_ADDR (fetched e) \<and> RBSR l' \<in> {RBSR l, next_pc e + 1} \<or>
     returns (fetched e) \<and> next_pc e' = RBSR l \<and> RBSR l' = RBSR l \<or>
     jumps_computed (fetched e) \<and> next_pc e' = drop_bit 16 (Yacc l) AND 0x3FF \<and> RBSR l' = RBSR l)"
proof -
  have f: "fst (fetch e) = fetched e" by (simp add: fetch_def fetched_def next_pc_def)
  have p: "NMem (DSP x) = fst (prog x)" "next_pc x = snd (prog x)" for x by (simp_all add: prog_def next_pc_def)
  show ?thesis
  proof (cases "aif_PAD (fetched e)")
    case True
    then have "dsp_control (fetched e) (l, snd (fetch e)) = (work, l', e')"
      using assms f by (simp add: dsp_step_def split_beta)
    moreover have "k \<le> 1 \<Longrightarrow> k \<le> 4" for k :: nat by simp
    ultimately show ?thesis
      using control_cases [OF _ True, of l "snd (fetch e)" work l' e'] unfolding p prog_fetch
      by (metis fst_conv snd_conv)
  next
    case False
    then have d: "work" "l' = fst (dsp_alu (fetched e) (l, snd (fetch e)))" "e' = snd (dsp_alu (fetched e) (l, snd (fetch e)))"
      using assms f by (auto simp: dsp_step_def split_beta)
    show ?thesis
      using prog_alu [of "fetched e" l "snd (fetch e)"] False d(1) unfolding p d(2,3) prog_fetch
      by (auto simp: sleeps_def)
  qed
qed

definition dsp_inv :: "dsp_locals \<times> dsp_env \<Rightarrow> bool" where
  "dsp_inv s \<longleftrightarrow> program_ends (NMem (DSP (snd s))) \<and> unat (next_pc (snd s)) \<le> 1028 \<and> unat (RBSR (fst s)) \<le> 1024"

lemma small_sum: "unat p \<le> 1028 \<Longrightarrow> k \<le> 4 \<Longrightarrow> unat (p + 1 + of_nat k :: u32) = unat p + 1 + k"
  by (simp add: unat_word_ariths unat_of_nat)

lemma branch_target: "unat (cif_BCH_ADDR w) \<le> 1023"
  using bfield_less [of 0 10 w] by (simp add: cif_BCH_ADDR_def)

lemma accumulator_target: "unat (v AND 0x3FF :: u32) \<le> 1023"
  using word_and_le1 [of v "0x3FF"] by (simp add: word_le_nat_alt)

lemma dsp_inv_step:
  assumes "dsp_inv (l, e)" "dsp_step (l, e) = (work, l', e')"
  shows "unat (next_pc e') \<le> 1033" "NMem (DSP e') = NMem (DSP e)" "work \<longrightarrow> dsp_inv (l', e')"
    "work \<longrightarrow> unat (next_pc e) \<le> 1023"
proof -
  note c = step_cases [OF assms(2)]
  have inv: "program_ends (NMem (DSP e))" "unat (next_pc e) \<le> 1028" "unat (RBSR l) \<le> 1024"
    using assms(1) by (simp_all add: dsp_inv_def)
  have one: "unat (next_pc e + 1) = unat (next_pc e) + 1" using small_sum [OF inv(2), of 0] by simp
  have sleep: "sleeps (fetched e)" if "\<not> unat (next_pc e) \<le> 1023"
    using inv(1,2) that sleep_word by (simp add: program_ends_def fetched_def)
  then show low: "work \<longrightarrow> unat (next_pc e) \<le> 1023" using c by blast
  show "NMem (DSP e') = NMem (DSP e)" using c by blast
  have pc: "(\<exists>k \<le> 4. unat (next_pc e') = unat (next_pc e) + 1 + k) \<or> unat (next_pc e') \<le> 1024"
    using conjunct2 [OF conjunct2 [OF c]] small_sum [OF inv(2)] branch_target [of "fetched e"] inv(3)
      accumulator_target [of "drop_bit 16 (Yacc l)"]
    by (elim disjE conjE exE) auto
  then show "unat (next_pc e') \<le> 1033" using inv(2) by auto
  have "RBSR l' = RBSR l \<or> RBSR l' = next_pc e + 1" using c by blast
  then show "work \<longrightarrow> dsp_inv (l', e')"
    using low pc inv c one by (auto simp: dsp_inv_def)
qed

lemma next_inv: "dsp_inv s \<Longrightarrow> dsp_next s t \<Longrightarrow> dsp_inv t \<and> NMem (DSP (snd t)) = NMem (DSP (snd s))"
  using dsp_inv_step [of "fst s" "snd s" True "fst t" "snd t"] by (simp add: dsp_next_def)

lemma run_inv: "dsp_next\<^sup>*\<^sup>* s t \<Longrightarrow> dsp_inv s \<Longrightarrow> dsp_inv t \<and> NMem (DSP (snd t)) = NMem (DSP (snd s))"
  by (induction rule: rtranclp_induct) (use next_inv in auto)

lemma run_result:
  assumes "dsp_run s = Some t"
  shows "\<exists>u. dsp_next\<^sup>*\<^sup>* s u \<and> dsp_step u = (False, t)"
proof (rule dsp_run.raw_induct [OF _ assms])
  fix run :: "dsp_locals \<times> dsp_env \<Rightarrow> (dsp_locals \<times> dsp_env) option" and s t
  assume IH: "\<And>s t. run s = Some t \<Longrightarrow> \<exists>u. dsp_next\<^sup>*\<^sup>* s u \<and> dsp_step u = (False, t)"
    and run: "(let (work, s) = dsp_step s in if work then run s else Some s) = Some t"
  obtain work s' where st: "dsp_step s = (work, s')" by (cases "dsp_step s")
  show "\<exists>u. dsp_next\<^sup>*\<^sup>* s u \<and> dsp_step u = (False, t)"
  proof (cases work)
    case True
    then obtain u where "dsp_next\<^sup>*\<^sup>* s' u" "dsp_step u = (False, t)" using IH [of s' t] run st by auto
    moreover have "dsp_next s s'" using st True by (simp add: dsp_next_def)
    ultimately show ?thesis by (meson converse_rtranclp_into_rtranclp)
  next
    case False
    then show ?thesis using run st by (intro exI [of _ s]) auto
  qed
qed

lemma start_inv: "program_ends (NMem (DSP e)) \<Longrightarrow> dsp_inv (dsp_start, on_dsp opera_dsp_reset e)"
  by (simp add: dsp_inv_def dsp_start_def on_dsp_def opera_dsp_reset_def on_flags_def on_regs_def next_pc_def)

lemma loop_program:
  assumes "program_ends (NMem (DSP e))" "opera_dsp_loop e = Some (v, e')"
  shows "NMem (DSP e') = NMem (DSP e)"
proof (cases "Running (dflags (DSP e))")
  case True
  then obtain l e1 where r: "dsp_run (dsp_start, on_dsp opera_dsp_reset e) = Some (l, e1)" "e' = dsp_sample_end e1"
    using assms(2) by (auto simp: opera_dsp_loop_def Let_def split: option.splits)
  obtain u where u: "dsp_next\<^sup>*\<^sup>* (dsp_start, on_dsp opera_dsp_reset e) u" "dsp_step u = (False, l, e1)"
    using run_result [OF r(1)] by blast
  have inv: "dsp_inv u" and same: "NMem (DSP (snd u)) = NMem (DSP e)"
    using run_inv [OF u(1) start_inv [OF assms(1)]]
    by (simp_all add: on_dsp_def opera_dsp_reset_def on_flags_def on_regs_def)
  have "NMem (DSP e1) = NMem (DSP (snd u))"
    using dsp_inv_step(2) [of "fst u" "snd u" False l e1] inv u(2) by simp
  moreover have "NMem (DSP (dsp_sample_end x)) = NMem (DSP x)" for x
    by (simp add: dsp_sample_end_def Let_def on_dsp_def on_regs_def on_flags_def)
  ultimately show ?thesis using r(2) same by simp
next
  case False
  then show ?thesis using assms(2) by (auto simp: opera_dsp_loop_def)
qed

lemma life_program: "dsp_life e \<Longrightarrow> program_ends (NMem (DSP e))"
proof (induction rule: dsp_life.induct)
  case (life_init e d)
  then show ?case by (simp add: opera_dsp_init_def program_ends_def Let_def)
next
  case (life_mem_write e a v)
  have "unat (a AND 0x3FF) \<le> 0x3FF" using word_and_le1 [of a "0x3FF"] by (simp add: word_le_nat_alt)
  then show ?case using life_mem_write.IH
    by (simp add: program_ends_def on_dsp_def opera_dsp_mem_write_def)
next
  case (life_loop e v e')
  then show ?case using loop_program by metis
qed (simp_all add: program_ends_def on_dsp_def opera_dsp_imem_write_def set_imem_def opera_dsp_set_running_def
    opera_dsp_arm_semaphore_write_def opera_dsp_reset_def opera_dsp_soft_reset_def on_flags_def on_regs_def)


definition quiet_env :: dsp_env where
  "quiet_env = \<lparr>DSP = opera_dsp_init zero_dsp, QUEUES = reset_clio, MEMORY = stock_mem, NOISE = 0, UNINIT = \<lambda>_. 0\<rparr>"

lemma quiet_life: "dsp_life quiet_env"
  by (rule life_init [of _ zero_dsp]) (simp add: quiet_env_def)


section \<open>Programs that only jump forward end\<close>

definition forward_program :: "(nat \<Rightarrow> u16) \<Rightarrow> bool" where
  "forward_program m \<longleftrightarrow>
     (\<forall>i \<in> {..<1024}. \<not> returns (ucast (m i)) \<and> \<not> jumps_computed (ucast (m i)) \<and>
        (jumps (ucast (m i)) \<longrightarrow> i < unat (cif_BCH_ADDR (ucast (m i)))))"

lemma forward_step:
  assumes "dsp_inv (l, e)" "forward_program (NMem (DSP e))" "dsp_step (l, e) = (True, l', e')"
  shows "unat (next_pc e) < unat (next_pc e')"
proof -
  note inv = dsp_inv_step [OF assms(1,3)]
  have low: "unat (next_pc e) < 1024" using inv(4) by simp
  have f: "\<not> returns (fetched e)" "\<not> jumps_computed (fetched e)"
    "jumps (fetched e) \<Longrightarrow> unat (next_pc e) < unat (cif_BCH_ADDR (fetched e))"
    using assms(2) low by (auto simp: forward_program_def fetched_def)
  have "unat (next_pc e + 1 + of_nat k) = unat (next_pc e) + 1 + k" if "k \<le> 4" for k
    using small_sum [of "next_pc e" k] low that by simp
  then show ?thesis using conjunct2 [OF conjunct2 [OF step_cases [OF assms(3)]]] f by auto
qed

lemma forward_run:
  assumes "dsp_inv s" "forward_program (NMem (DSP (snd s)))"
  shows "\<exists>t. dsp_run s = Some t"
  using assms
proof (induction "1100 - unat (next_pc (snd s))" arbitrary: s rule: less_induct)
  case less
  obtain l e where s: "s = (l, e)" by (cases s)
  obtain work l' e' where st: "dsp_step (l, e) = (work, l', e')" by (cases "dsp_step (l, e)") auto
  show ?case
  proof (cases work)
    case True
    have n: "dsp_next s (l', e')" using st s True by (simp add: dsp_next_def)
    note inv = next_inv [OF less.prems(1) n]
    have "unat (next_pc e) < unat (next_pc e')"
      using forward_step [of l e l' e'] less.prems st True s by simp
    moreover have "unat (next_pc e') \<le> 1028" using inv by (simp add: dsp_inv_def)
    ultimately have "\<exists>t. dsp_run (l', e') = Some t"
      using less.hyps [of "(l', e')"] inv less.prems(2) s by simp
    then show ?thesis using st s True by (subst dsp_run.simps) simp
  next
    case False
    then show ?thesis using st s by (subst dsp_run.simps) simp
  qed
qed

text \<open>C23. A program whose jumps and branches all go forward and that neither returns from a subroutine nor
  jumps to a computed address always ends: the loop over its instructions returns a sample,
  whatever the queues, the memory and the registers hold and however its operand words would
  decode. (A program with a loop may run forever, and the emulator with it: nothing bounds the
  instructions of a sample.)\<close>

theorem dsp_forward_program_returns:
  assumes "dsp_life e" "forward_program (NMem (DSP e))"
  shows "\<exists>v e'. opera_dsp_loop e = Some (v, e')"
proof (cases "Running (dflags (DSP e))")
  case True
  have "NMem (DSP (on_dsp opera_dsp_reset e)) = NMem (DSP e)"
    by (simp add: on_dsp_def opera_dsp_reset_def on_flags_def on_regs_def)
  then obtain t where "dsp_run (dsp_start, on_dsp opera_dsp_reset e) = Some t"
    using forward_run [OF start_inv [OF life_program [OF assms(1)]]] assms(2) by auto
  then show ?thesis by (simp add: opera_dsp_loop_def True Let_def split: option.splits prod.splits)
qed (simp add: opera_dsp_loop_def)

text \<open>A program that jumps over four words, to a sleep instruction.\<close>

definition jump_env :: dsp_env where
  "jump_env = on_dsp (opera_dsp_set_running 1) (on_dsp (opera_dsp_mem_write 0 0x8405) quiet_env)"

theorem dsp_forward_program_returns_witness: "\<exists>v e'. opera_dsp_loop jump_env = Some (v, e')"
proof -
  have "dsp_life jump_env" unfolding jump_env_def by (intro life_running life_mem_write quiet_life)
  moreover have "NMem (DSP jump_env) i = (if i = 0 then 0x8405 else 0x8380)" if "i < 1024" for i
    using that by (simp add: jump_env_def quiet_env_def on_dsp_def opera_dsp_set_running_def opera_dsp_mem_write_def
        on_flags_def opera_dsp_init_def Let_def)
  then have "forward_program (NMem (DSP jump_env))"
    by (simp add: forward_program_def returns_def jumps_computed_def jumps_def control_code_def cif_BCH_ADDR_def
        bfield_def drop_bit_eq_div take_bit_eq_mod)
  ultimately show ?thesis by (rule dsp_forward_program_returns)
qed

end
