(* ===== verification/Opera_Dsp_Branch.thy ===== *)
theory Opera_Dsp_Branch
  imports Opera_Dsp_Props Opera_Arm_Alu_Props
begin

text \<open>
  The conditional branches of the signal processor: the table built at initialisation holds the
  branch condition of every instruction and flag combination, and after a subtraction of two
  16 bit operands the branches are the signed and unsigned comparisons. The last section is
  about the operands the processor supplies.
\<close>

section \<open>The branch table\<close>

lemma fold_updates:
  assumes "\<And>a b. a \<in> set xs \<Longrightarrow> b \<in> set xs \<Longrightarrow> k a = k b \<Longrightarrow> v a = v b" "a \<in> set xs"
  shows "fold (\<lambda>x t. t(k x := v x)) xs t (k a) = v a"
  using assms
proof (induction xs arbitrary: t rule: rev_induct)
  case (snoc x xs)
  show ?case
  proof (cases "k a = k x")
    case True
    then show ?thesis using snoc.prems(1) [of x a] snoc.prems(2) by simp
  next
    case False
    then have "a \<in> set xs" using snoc.prems(2) by auto
    then have "fold (\<lambda>x t. t(k x := v x)) xs t (k a) = v a" by (rule snoc.IH [rotated]) (rule snoc.prems(1), auto)
    then show ?thesis using False by (simp only: fold_append fold.simps o_apply id_apply fun_upd_other not_False_eq_True)
  qed
qed simp

lemma alu_index_value:
  "alu_index f x = of_bool x + 2 * of_bool (fl_overflow f) + 4 * of_bool (fl_carry f) +
     8 * of_bool (fl_negative f) + 16 * of_bool (fl_zero f)"
  by (cases "fl_zero f"; cases "fl_negative f"; cases "fl_carry f"; cases "fl_overflow f"; cases x)
    (simp_all add: alu_index_def alu_raw_def drop_bit_eq_div)

lemma alu_index_inj: "alu_index f x = alu_index g y \<longleftrightarrow> f = g \<and> x = y"
proof -
  have "alu_index f x = alu_index g y \<longleftrightarrow> fl_overflow f = fl_overflow g \<and> fl_carry f = fl_carry g \<and>
      fl_negative f = fl_negative g \<and> fl_zero f = fl_zero g \<and> x = y"
    unfolding alu_index_value
    by (cases "fl_zero f"; cases "fl_negative f"; cases "fl_carry f"; cases "fl_overflow f"; cases x;
        cases "fl_zero g"; cases "fl_negative g"; cases "fl_carry g"; cases "fl_overflow g"; cases y) simp_all
  then show ?thesis by (auto simp: alu_flags.equality)
qed

lemma branch_words_bits: "map br_bits branch_words = map of_nat [8..<32]"
  by code_simp

lemma br_bits_bit: "i < 5 \<Longrightarrow> bit w (10 + i) \<longleftrightarrow> bit (br_bits w) i"
  by (simp add: br_bits_def bfield_def bit_simps)

lemma branch_condition_cong: "br_bits v = br_bits w \<Longrightarrow> branch_condition v = branch_condition w"
  using br_bits_bit [of 0] br_bits_bit [of 1] br_bits_bit [of 2] br_bits_bit [of 3] br_bits_bit [of 4]
  by (simp add: branch_condition_def branch_FLAGM0_def branch_FLAGM1_def branch_FLAGSEL_def branch_MODE0_def
      branch_MODE1_def fun_eq_iff)

lemma branch_entry:
  assumes "w \<in> set branch_words"
  shows "(w, f, x) \<in> set branch_entries"
proof -
  obtain z n c v where f: "f = \<lparr>fl_zero = z, fl_negative = n, fl_carry = c, fl_overflow = v\<rparr>" by (cases f) simp
  have "(w, f, x) \<in> set [(w, \<lparr>fl_zero = z, fl_negative = n, fl_carry = c, fl_overflow = v\<rparr>, x).
      w \<leftarrow> branch_words, z \<leftarrow> bs, n \<leftarrow> bs, c \<leftarrow> bs, v \<leftarrow> bs, x \<leftarrow> bs]" if "\<And>y. y \<in> set bs" for bs
    using assms that
    by (simp add: f) (rule bexI [of _ w], rule bexI [of _ z], rule bexI [of _ n], rule bexI [of _ c],
      rule bexI [of _ v], simp_all)
  from this [of "[False, True]"] show ?thesis
    unfolding branch_entries_def by (metis (full_types) list.set_intros)
qed

lemma branch_table_entry:
  assumes "8 \<le> br_bits w"
  shows "branch_table (br_bits w, alu_index f x) = branch_condition w f x"
proof -
  have "unat (br_bits w) < 32" using bfield_less [of 10 5 w] by (simp add: br_bits_def)
  moreover have "8 \<le> unat (br_bits w)" using assms by (simp add: word_le_nat_alt)
  ultimately have "br_bits w \<in> of_nat ` set [8..<32]" by (intro image_eqI [of _ _ "unat (br_bits w)"]) (simp, simp only: set_upt atLeastLessThan_iff)
  then obtain v where v: "v \<in> set branch_words" "br_bits v = br_bits w"
    unfolding set_map [symmetric] branch_words_bits [symmetric] by auto
  let ?k = "\<lambda>(w, f, x). (br_bits w, alu_index f x)" and ?v = "\<lambda>(w, f, x). branch_condition w f x"
  have "branch_table = fold (\<lambda>e t. t(?k e := ?v e)) branch_entries (\<lambda>_. False)"
    unfolding branch_table_def by (rule arg_cong [of _ _ "\<lambda>g. fold g _ _"]) (auto simp: fun_eq_iff)
  moreover have "fold (\<lambda>e t. t(?k e := ?v e)) branch_entries (\<lambda>_. False) (?k (v, f, x)) = ?v (v, f, x)"
    by (rule fold_updates [OF _ branch_entry [OF v(1)]]) (auto simp: alu_index_inj dest: branch_condition_cong)
  ultimately show ?thesis using v(2) branch_condition_cong [OF v(2)] by simp
qed

section \<open>Comparisons\<close>

lemma top_and:
  "a AND b AND TOPBIT \<noteq> 0 \<longleftrightarrow> bit a 31 \<and> bit b 31" "a AND b AND c AND TOPBIT \<noteq> 0 \<longleftrightarrow> bit a 31 \<and> bit b 31 \<and> bit c 31"
  for a b c :: u32
  using and_exp_eq_0_iff_not_bit [of "a AND b" 31] and_exp_eq_0_iff_not_bit [of "a AND b AND c" 31]
  by (auto simp: bit_and_iff and.assoc)

lemma sub_flags_nat:
  fixes a b r :: nat
  assumes "a < 4294967296" "b < 4294967296" "r = (if b \<le> a then a - b else a + 4294967296 - b)"
  shows "(2147483648 \<le> a \<and> \<not> 2147483648 \<le> b \<or> 2147483648 \<le> a \<and> \<not> 2147483648 \<le> r \<or>
      \<not> 2147483648 \<le> b \<and> \<not> 2147483648 \<le> r) \<longleftrightarrow> b \<le> a"
    and "(2147483648 \<le> r) \<noteq> (2147483648 \<le> a \<and> \<not> 2147483648 \<le> b \<and> \<not> 2147483648 \<le> r \<or>
      \<not> 2147483648 \<le> a \<and> 2147483648 \<le> b \<and> 2147483648 \<le> r) \<longleftrightarrow>
      int a - (if 2147483648 \<le> a then 4294967296 else 0) < int b - (if 2147483648 \<le> b then 4294967296 else 0)"
  using assms by (cases "b \<le> a"; cases "2147483648 \<le> a"; cases "2147483648 \<le> b"; simp)+

lemma sub_flags:
  fixes A B :: u32
  shows "SUB_CFLAG A B (A - B) \<longleftrightarrow> B \<le> A"
    and "bit (A - B) 31 \<noteq> SUB_VFLAG A B (A - B) \<longleftrightarrow> sint A < sint B"
proof -
  have n: "unat A < 4294967296" "unat B < 4294967296" by (rule unat_u32_lt)+
  have d: "unat (A - B) = (if unat B \<le> unat A then unat A - unat B else unat A + 4294967296 - unat B)"
    by (simp add: unat_sub_if')
  have nb: "bit (NOT x) 31 \<longleftrightarrow> \<not> bit x 31" for x :: u32 by (simp add: bit_not_iff)
  note flags = sub_flags_nat [OF n d]
  show "SUB_CFLAG A B (A - B) \<longleftrightarrow> B \<le> A"
    using flags(1) unfolding SUB_CFLAG_def top_and nb unfolding top_bit word_le_nat_alt .
  show "bit (A - B) 31 \<noteq> SUB_VFLAG A B (A - B) \<longleftrightarrow> sint A < sint B"
    using flags(2) unfolding SUB_VFLAG_def top_and nb sint_top unfolding top_bit .
qed

text \<open>The relation a branch of the third mode tests, on the operands of the subtraction before it.\<close>

definition comparison :: "u32 \<Rightarrow> u32 \<Rightarrow> u32 \<Rightarrow> bool" where
  "comparison b A B =
     (if \<not> branch_FLAGSEL b then
        (if \<not> branch_FLAGM1 b then (if branch_FLAGM0 b then sint A \<le> sint B else sint A < sint B)
         else (if branch_FLAGM0 b then sint A > sint B else sint A \<ge> sint B))
      else if \<not> branch_FLAGM1 b then (if branch_FLAGM0 b then A \<le> B else A > B)
      else \<not> branch_FLAGM0 b)"

lemma low_half_bits: "take_bit 16 (v :: u32) = 0 \<Longrightarrow> n < 16 \<Longrightarrow> \<not> bit v n"
  by (metis bit_0_eq bit_take_bit_iff bot_apply bot_bool_def)

lemma low_half_diff:
  assumes "take_bit 16 A = 0" "take_bit 16 B = (0 :: u32)"
  shows "take_bit 16 (A - B) = 0"
proof -
  have h: "v = push_bit 16 (drop_bit 16 v)" if "take_bit 16 v = 0" for v :: u32
    using bits_ident [of 16 v] that by simp
  have "A - B = push_bit 16 (drop_bit 16 A) - push_bit 16 (drop_bit 16 B)"
    by (subst h [OF assms(1)], subst h [OF assms(2)]) (rule refl)
  then have "A - B = push_bit 16 (drop_bit 16 A - drop_bit 16 B)"
    by (simp add: push_bit_eq_mult algebra_simps)
  then show ?thesis by (simp add: take_bit_push_bit)
qed

lemma masked_zero:
  assumes "take_bit 16 (y :: u32) = 0"
  shows "y AND 0xFFFF0000 = 0 \<longleftrightarrow> y = 0" "y AND 0x0000F000 = 0"
proof -
  have c: "(0xFFFF0000 :: u32) = push_bit 16 (mask 16)" by (simp add: mask_eq_exp_minus_1 push_bit_eq_mult)
  have ge: "16 \<le> n" if "bit y n" for n using low_half_bits [OF assms] that not_le by blast
  have y: "y = y AND 0xFFFF0000"
    by (rule bit_word_eqI) (use ge in \<open>auto simp: c bit_simps\<close>)
  show "y AND 0xFFFF0000 = 0 \<longleftrightarrow> y = 0" using y by simp
  show "y AND 0x0000F000 = 0" by (subst y) (simp add: and.assoc)
qed

lemma subtract_flags:
  assumes "aif_ALU w = 4" "BS f \<notin> {8, 24}" "take_bit 16 (mux_a w f l) = 0" "take_bit 16 (mux_b w f l) = 0"
  defines "A \<equiv> mux_a w f l" and "B \<equiv> mux_b w f l"
  shows "alu_fl (alu_exec w f l) = \<lparr>fl_zero = (A = B), fl_negative = bit (A - B) 31, fl_carry = (B \<le> A),
      fl_overflow = SUB_VFLAG A B (A - B)\<rparr>" "fExactl (alu_exec w f l)"
proof -
  have low: "take_bit 16 (A - B) = 0" using assms low_half_diff by simp
  have b: "snd (barrel (BS f) y g) = g" for y g using assms(2) by (simp add: barrel_def)
  have a: "alu 4 A B = (A - B, SUB_CFLAG A B (A - B), SUB_VFLAG A B (A - B))" by (simp add: alu_def Let_def)
  show "alu_fl (alu_exec w f l) = \<lparr>fl_zero = (A = B), fl_negative = bit (A - B) 31, fl_carry = (B \<le> A),
      fl_overflow = SUB_VFLAG A B (A - B)\<rparr>" "fExactl (alu_exec w f l)"
    unfolding alu_exec_def assms(1) A_def [symmetric] B_def [symmetric] a
    by (simp_all add: split_beta b Let_def masked_zero [OF low] sub_flags(1))
qed

lemma small_bit: "unat k < 2 ^ n \<Longrightarrow> \<not> bit k n"
proof -
  assume "unat k < 2 ^ n"
  moreover have "bit k n \<longleftrightarrow> bit (unat k) n" by (auto simp: bit_unsigned_iff dest: bit_imp_le_length)
  ultimately show "\<not> bit k n" by (simp add: bit_iff_odd)
qed

lemma branch_mode3:
  assumes "aif_PAD b" "branch_MODE1 b" "branch_MODE0 b" "BRCONDTAB (DSP e) = branch_table"
  shows "dsp_control b (l, e) =
    (True, l, if branch_condition b (alu_fl l) (fExactl l) then jump (cif_BCH_ADDR b) e else e)"
proof -
  have "bit (drop_bit 7 b AND 0xFF) 6" using assms(3) by (simp add: branch_MODE0_def bit_simps)
  moreover have "\<not> bit k 6" if "k \<le> 63" for k :: u32
    using small_bit [of k 6] that by (simp add: word_le_nat_alt)
  ultimately have big: "\<not> drop_bit 7 b AND 0xFF \<le> 63" by blast
  then have "\<not> drop_bit 7 b AND 0xFF \<le> m" if "m \<le> 63" for m using that order_trans by blast
  then have k: "\<not> drop_bit 7 b AND 0xFF \<le> 15" "\<not> drop_bit 7 b AND 0xFF \<le> 23" "\<not> drop_bit 7 b AND 0xFF \<le> 31"
      "\<not> drop_bit 7 b AND 0xFF \<le> 47" by simp_all
  have n: "drop_bit 7 b AND 0xFF \<noteq> m" if "m \<le> 63" for m using big that by auto
  have "bit (br_bits b) 3" "bit (br_bits b) 4" using br_bits_bit [of 3 b] br_bits_bit [of 4 b] assms(2,3)
    by (simp_all add: branch_MODE0_def branch_MODE1_def)
  then have "8 \<le> br_bits b" using small_bit [of "br_bits b" 3] by (force simp: word_le_nat_alt)
  then show ?thesis using big k n [of 0] n [of 1] n [of 2] n [of 3] n [of 4] n [of 5] n [of 6] n [of 7]
    by (simp add: dsp_control_def Let_def assms(4) branch_table_entry)
qed

lemma comparison_branch:
  assumes "branch_MODE1 b" "branch_MODE0 b" "fl = \<lparr>fl_zero = (A = B), fl_negative = bit (A - B) 31,
      fl_carry = (B \<le> A), fl_overflow = SUB_VFLAG A B (A - B)\<rparr>"
  shows "branch_condition b fl True = comparison b A B"
proof -
  have s: "sint A = sint B \<longleftrightarrow> A = B" by (simp flip: word_eq_iff_signed)
  have le: "sint A \<le> sint B \<longleftrightarrow> sint A < sint B \<or> A = B" "A \<le> B \<longleftrightarrow> \<not> B \<le> A \<or> A = B" using s by auto
  show ?thesis
    unfolding branch_condition_def comparison_def Let_def assms(3)
    using sub_flags(2) [of A B] assms(1,2) le
    by (cases "branch_FLAGSEL b"; cases "branch_FLAGM1 b"; cases "branch_FLAGM0 b") (auto simp: not_le)
qed

text \<open>C21. A subtraction followed by a conditional branch is a comparison. When the signal processor subtracts
  two operands of 16 bits (their low halves are zero, as the units load them) and the result is
  not shifted through the carry, the branch of the third mode that follows is taken exactly
  when the relation its bits name holds: less, less or equal, greater or greater or equal of the
  signed operands, higher or lower or same of the unsigned ones, or the result being exact. The
  branch looks into the table built at initialisation, indexed by a multiplication of the flag
  bytes.\<close>

theorem dsp_compare_and_branch:
  assumes "aif_ALU w = 4" "BS f \<notin> {8, 24}" "take_bit 16 (mux_a w f l) = 0" "take_bit 16 (mux_b w f l) = 0"
    and "aif_PAD b" "branch_MODE1 b" "branch_MODE0 b" "BRCONDTAB (DSP e) = BRCONDTAB (opera_dsp_init d)"
  shows "dsp_control b (alu_exec w f l, e) =
    (True, alu_exec w f l, if comparison b (mux_a w f l) (mux_b w f l) then jump (cif_BCH_ADDR b) e else e)"
proof -
  have "BRCONDTAB (DSP e) = branch_table"
    using assms(8) by (simp add: opera_dsp_init_def Let_def on_flags_def on_regs_def opera_dsp_reset_def)
  note b = branch_mode3 [OF assms(5-7) this]
  note f = subtract_flags [OF assms(1-4)]
  show ?thesis using comparison_branch [OF assms(6,7) f(1)] f(2) by (simp add: b)
qed

text \<open>\<open>ALU1 - ALU2\<close>, then a branch to word 32 if less.\<close>

theorem dsp_compare_and_branch_witness:
  "fst (prog (snd (snd (dsp_control 0xE020
       (alu_exec 0x640 ((dflags (DSP quiet_env))\<lparr>ALU1 := 5, ALU2 := 7\<rparr>) dsp_start, quiet_env))))) = NMem (DSP quiet_env) \<and>
   snd (prog (snd (snd (dsp_control 0xE020
       (alu_exec 0x640 ((dflags (DSP quiet_env))\<lparr>ALU1 := 5, ALU2 := 7\<rparr>) dsp_start, quiet_env))))) = 32"
proof -
  let ?f = "(dflags (DSP quiet_env))\<lparr>ALU1 := 5, ALU2 := 7\<rparr>"
  have f: "aif_ALU 0x640 = 4" "BS ?f \<notin> {8, 24}" "mux_a 0x640 ?f dsp_start = 0x50000" "mux_b 0x640 ?f dsp_start = 0x70000"
    "aif_PAD 0xE020" "branch_MODE1 0xE020" "branch_MODE0 0xE020" "comparison 0xE020 0x50000 0x70000"
    "cif_BCH_ADDR 0xE020 = 32" "BRCONDTAB (DSP quiet_env) = BRCONDTAB (opera_dsp_init zero_dsp)"
    by (simp_all add: aif_ALU_def aif_PAD_def aif_MUXA_def aif_MUXB_def carry_op_def bfield_def mux_a_def mux_b_def
        int16_def branch_MODE1_def branch_MODE0_def branch_FLAGSEL_def branch_FLAGM1_def branch_FLAGM0_def
        comparison_def cif_BCH_ADDR_def bit_iff_odd drop_bit_eq_div take_bit_eq_mod quiet_env_def
        opera_dsp_init_def Let_def on_flags_def on_regs_def opera_dsp_reset_def zero_dsp_def)
  have z: "take_bit 16 (mux_a 0x640 ?f dsp_start) = 0" "take_bit 16 (mux_b 0x640 ?f dsp_start) = 0"
    unfolding f(3,4) by (simp_all add: take_bit_eq_mod)
  show ?thesis
    unfolding dsp_compare_and_branch [OF f(1,2) z f(5-7,10)] f(3,4,9) using f(8)
    by (simp add: prog_jump) (simp add: prog_def)
qed

end
