(* ===== verification/Opera_Dsp_State.thy ===== *)
theory Opera_Dsp_State
  imports Opera_Dsp Opera_Clio_State
begin

text \<open>
  The signal processor's saved state: the chunk without the decode tables, the older chunk that
  carried them, the choice between the two, and the first format, the bytes of the packed
  structure. The decode tables stay the running core's.
\<close>

section \<open>Writer\<close>

definition dsp_regs_write :: "dsp_regs \<Rightarrow> state_writer \<Rightarrow> bool \<times> state_writer" where
  "dsp_regs_write r =
     w_and (opera_state_write_u32 (PC r))
     (w_and (opera_state_write_u16 (AudioOutStatus r))
     (w_and (opera_state_write_u16 (Sema4Status r))
     (w_and (opera_state_write_u16 (Sema4Data r))
     (w_and (opera_state_write_i16 (DSPPCNT r))
     (w_and (opera_state_write_i16 (DSPPRLD r))
     (w_and (opera_state_write_i16 (AUDCNT r))
            (opera_state_write_u16 (DSP_INT r))))))))"

definition dsp_flags_write :: "dsp_flags \<Rightarrow> state_writer \<Rightarrow> bool \<times> state_writer" where
  "dsp_flags_write f =
     w_and (opera_state_write_i16 (MULT1 f))
     (w_and (opera_state_write_i16 (MULT2 f))
     (w_and (opera_state_write_i16 (ALU1 f))
     (w_and (opera_state_write_i16 (ALU2 f))
     (w_and (opera_state_write_i32 (BS f))
     (w_and (opera_state_write_u16 (RMAP f))
     (w_and (opera_state_write_u16 (nOP_MASK f))
     (w_and (opera_state_write_u16 (WRITEBACK f))
     (w_and (opera_state_write_u8 (req f))
     (w_and (opera_state_write_u8 (if Running f then 1 else 0))
            (opera_state_write_u8 (if GenFIQ f then 1 else 0)))))))))))"

text \<open>A loop of \<open>opera_state_write_i32\<close>.\<close>

primrec write_i32s :: "u32 list \<Rightarrow> state_writer \<Rightarrow> bool \<times> state_writer" where
  "write_i32s [] = (\<lambda>w. (True, w))"
| "write_i32s (v # vs) = w_and (opera_state_write_i32 v) (write_i32s vs)"

definition dsp_state_write_live :: "dsp \<Rightarrow> state_writer \<Rightarrow> bool \<times> state_writer" where
  "dsp_state_write_live d =
     w_and (opera_state_write_u16_array (upto 2048 (NMem d)) 2048)
     (w_and (opera_state_write_u16_array (upto 1024 (IMem d)) 1024)
     (w_and (opera_state_write_i32 (REGi d))
     (w_and (dsp_regs_write (dregs d))
     (w_and (dsp_flags_write (dflags d))
            (write_i32s (upto 16 (CPUSupply d)))))))"

definition dsp_state_write_payload :: "dsp \<Rightarrow> state_writer \<Rightarrow> bool \<times> state_writer" where
  "dsp_state_write_payload d = w_and (opera_state_write_u32 (RBASEx4 d)) (dsp_state_write_live d)"

definition dsp_state_payload_size :: "dsp \<Rightarrow> u32" where
  "dsp_state_payload_size d =
     opera_state_writer_used (snd (dsp_state_write_payload d (opera_state_writer_init None UINT32_MAX)))"

definition opera_dsp_state_size :: "dsp \<Rightarrow> u32" where
  "opera_dsp_state_size d = opera_state_chunk_size (dsp_state_payload_size d)"

definition opera_dsp_state_save :: "dsp \<Rightarrow> u8 list \<Rightarrow> u32 \<times> u8 list" where
  "opera_dsp_state_save d buf = save_chunk ''DSP2'' (dsp_state_payload_size d) (dsp_state_write_payload d) buf"

section \<open>Reader\<close>

record dsp_live =
  live_RBASEx4 :: u32
  live_NMem :: "u16 list"
  live_IMem :: "u16 list"
  live_REGi :: u32
  live_dregs :: dsp_regs
  live_flags :: dsp_flags
  live_CPUSupply :: "u32 list"

definition dsp_regs_read :: "state_reader \<Rightarrow> dsp_regs option \<times> state_reader" where
  "dsp_regs_read =
     r_bind opera_state_read_u32 (\<lambda>pc. r_bind opera_state_read_u16 (\<lambda>ao.
     r_bind opera_state_read_u16 (\<lambda>ss. r_bind opera_state_read_u16 (\<lambda>sd.
     r_bind opera_state_read_i16 (\<lambda>cnt. r_bind opera_state_read_i16 (\<lambda>rld.
     r_bind opera_state_read_i16 (\<lambda>aud. r_bind opera_state_read_u16 (\<lambda>int.
     r_return \<lparr>PC = pc, AudioOutStatus = ao, Sema4Status = ss, Sema4Data = sd, DSPPCNT = cnt, DSPPRLD = rld,
       AUDCNT = aud, DSP_INT = int\<rparr>))))))))"

definition dsp_flags_read :: "state_reader \<Rightarrow> dsp_flags option \<times> state_reader" where
  "dsp_flags_read =
     r_bind opera_state_read_i16 (\<lambda>m1. r_bind opera_state_read_i16 (\<lambda>m2.
     r_bind opera_state_read_i16 (\<lambda>a1. r_bind opera_state_read_i16 (\<lambda>a2.
     r_bind opera_state_read_i32 (\<lambda>bs. r_bind opera_state_read_u16 (\<lambda>rm.
     r_bind opera_state_read_u16 (\<lambda>om. r_bind opera_state_read_u16 (\<lambda>wb.
     r_bind opera_state_read_u8 (\<lambda>rq. r_bind opera_state_read_u8 (\<lambda>run. r_bind opera_state_read_u8 (\<lambda>fiq.
     r_return \<lparr>MULT1 = m1, MULT2 = m2, ALU1 = a1, ALU2 = a2, BS = bs, RMAP = rm, nOP_MASK = om, WRITEBACK = wb,
       req = rq, Running = (run \<noteq> 0), GenFIQ = (fiq \<noteq> 0)\<rparr>)))))))))))"

primrec read_i32s :: "nat \<Rightarrow> state_reader \<Rightarrow> u32 list option \<times> state_reader" where
  "read_i32s 0 = r_return []"
| "read_i32s (Suc n) = r_bind opera_state_read_i32 (\<lambda>v. r_bind (read_i32s n) (\<lambda>vs. r_return (v # vs)))"

definition dsp_state_read_live :: "u32 \<Rightarrow> state_reader \<Rightarrow> dsp_live option \<times> state_reader" where
  "dsp_state_read_live rbase =
     r_bind (opera_state_read_u16_array 2048) (\<lambda>nm. r_bind (opera_state_read_u16_array 1024) (\<lambda>im.
     r_bind opera_state_read_i32 (\<lambda>rg. r_bind dsp_regs_read (\<lambda>dr. r_bind dsp_flags_read (\<lambda>fl.
     r_bind (read_i32s 16) (\<lambda>cs.
     r_return \<lparr>live_RBASEx4 = rbase, live_NMem = nm, live_IMem = im, live_REGi = rg, live_dregs = dr, live_flags = fl,
       live_CPUSupply = cs\<rparr>))))))"

definition dsp_state_apply_live :: "dsp_live \<Rightarrow> dsp \<Rightarrow> dsp" where
  "dsp_state_apply_live v d =
     d\<lparr>RBASEx4 := live_RBASEx4 v, NMem := fill 0 (live_NMem v), IMem := fill 0 (live_IMem v), REGi := live_REGi v,
       dregs := live_dregs v, dflags := live_flags v, CPUSupply := fill 0 (live_CPUSupply v)\<rparr>"

definition r_skip :: "u32 \<Rightarrow> state_reader \<Rightarrow> unit option \<times> state_reader" where
  "r_skip n r = (let (ok, r) = opera_state_skip_bytes n r in (if ok then Some () else None, r))"

definition dsp_state_skip_tables :: "state_reader \<Rightarrow> unit option \<times> state_reader" where
  "dsp_state_skip_tables = r_skip (0x8000 * 2 + 8 * 16 * 2 + 32 * 32 * 4)"

definition opera_dsp_state_load_chunk :: "bool \<Rightarrow> u8 list \<Rightarrow> u32 \<Rightarrow> string \<Rightarrow> bool \<Rightarrow> dsp \<Rightarrow> u32 \<times> dsp" where
  "opera_dsp_state_load_chunk validating buf sz name tables d =
     load_chunk name
       (r_bind opera_state_read_u32 (\<lambda>rbase.
        r_bind (if tables then dsp_state_skip_tables else r_return ()) (\<lambda>_. dsp_state_read_live rbase)))
       (\<lambda>_. True) dsp_state_apply_live validating buf sz d"

definition opera_dsp_state_load :: "bool \<Rightarrow> u8 list \<Rightarrow> u32 \<Rightarrow> dsp \<Rightarrow> u32 \<times> dsp" where
  "opera_dsp_state_load validating buf sz d =
     (if sz \<ge> 4 \<and> take 4 buf = chunk_name ''DSP2''
      then opera_dsp_state_load_chunk validating buf sz ''DSP2'' False d
      else opera_dsp_state_load_chunk validating buf sz ''DSPP'' True d)"

section \<open>The first format\<close>

text \<open>The packed structure: 76143 bytes, tables included; an entry of the branch table is an
  \<open>int\<close> of which the code only looks at the lowest bit.\<close>

definition opera_dsp_state_size_v1 :: u32 where
  "opera_dsp_state_size_v1 = opera_state_save_size 76143"

definition dsp_image :: "dsp \<Rightarrow> u8 list" where
  "dsp_image d =
     enc32 (RBASEx4 d) @
     concat (map (\<lambda>i. [INSTTRAS_req d (of_nat i), INSTTRAS_BS d (of_nat i)]) [0..<0x8000]) @
     image16 (concat (map (\<lambda>c. map (\<lambda>a. REGCONV d (of_nat c) (of_nat a)) [0..<16]) [0..<8])) @
     image32 (concat (map (\<lambda>b. map (\<lambda>i. of_bool (BRCONDTAB d (of_nat b, of_nat i))) [0..<32]) [0..<32])) @
     image16 (upto 2048 (NMem d)) @ image16 (upto 1024 (IMem d)) @ enc32 (REGi d) @
     (let r = dregs d in enc32 (PC r) @ enc16 (AudioOutStatus r) @ enc16 (Sema4Status r) @ enc16 (Sema4Data r) @
        enc16 (DSPPCNT r) @ enc16 (DSPPRLD r) @ enc16 (AUDCNT r) @ enc16 (DSP_INT r)) @
     (let f = dflags d in enc16 (MULT1 f) @ enc16 (MULT2 f) @ enc16 (ALU1 f) @ enc16 (ALU2 f) @ enc32 (BS f) @
        enc16 (RMAP f) @ enc16 (nOP_MASK f) @ enc16 (WRITEBACK f) @
        [req f, if Running f then 1 else 0, if GenFIQ f then 1 else 0]) @
     image32 (upto 16 (CPUSupply d))"

definition dsp_of_image :: "u8 list \<Rightarrow> dsp" where
  "dsp_of_image bs =
     (let h = (\<lambda>i. words16 (take 2 (drop i bs)) ! 0); w = (\<lambda>i. words32 (take 4 (drop i bs)) ! 0)
      in \<lparr>RBASEx4 = w 0,
          INSTTRAS_req = (\<lambda>i. if i < 0x8000 then bs ! (4 + 2 * unat i) else 0),
          INSTTRAS_BS = (\<lambda>i. if i < 0x8000 then bs ! (5 + 2 * unat i) else 0),
          REGCONV = (\<lambda>c a. if c < 8 \<and> a < 16 then h (65540 + 2 * (16 * unat c + unat a)) else 0),
          BRCONDTAB = (\<lambda>(b, i). b < 32 \<and> i < 32 \<and> bit (w (65796 + 4 * (32 * unat b + unat i))) 0),
          NMem = fill 0 (words16 (take 4096 (drop 69892 bs))),
          IMem = fill 0 (words16 (take 2048 (drop 73988 bs))),
          REGi = w 76036,
          dregs = \<lparr>PC = w 76040, AudioOutStatus = h 76044, Sema4Status = h 76046, Sema4Data = h 76048,
            DSPPCNT = h 76050, DSPPRLD = h 76052, AUDCNT = h 76054, DSP_INT = h 76056\<rparr>,
          dflags = \<lparr>MULT1 = h 76058, MULT2 = h 76060, ALU1 = h 76062, ALU2 = h 76064, BS = w 76066, RMAP = h 76070,
            nOP_MASK = h 76072, WRITEBACK = h 76074, req = bs ! 76076, Running = (bs ! 76077 \<noteq> 0),
            GenFIQ = (bs ! 76078 \<noteq> 0)\<rparr>,
          CPUSupply = fill 0 (words32 (take 64 (drop 76079 bs)))\<rparr>)"

definition opera_dsp_state_load_v1 :: "u8 list \<Rightarrow> u32 \<Rightarrow> dsp \<Rightarrow> u32 \<times> dsp" where
  "opera_dsp_state_load_v1 buf sz d =
     (let (rv, bs) = opera_state_load_sized (dsp_image d) ''DSPP'' (Some buf) sz 76143 in (rv, dsp_of_image bs))"

section \<open>Round trip\<close>

definition dsp_clean :: "dsp \<Rightarrow> bool" where
  "dsp_clean d \<longleftrightarrow> (\<forall>i\<ge>2048. NMem d i = 0) \<and> (\<forall>i\<ge>1024. IMem d i = 0) \<and> (\<forall>i\<ge>16. CPUSupply d i = 0)"

definition same_tables :: "dsp \<Rightarrow> dsp \<Rightarrow> bool" where
  "same_tables d d' \<longleftrightarrow> INSTTRAS_req d = INSTTRAS_req d' \<and> INSTTRAS_BS d = INSTTRAS_BS d' \<and>
     REGCONV d = REGCONV d' \<and> BRCONDTAB d = BRCONDTAB d'"

definition regs_enc :: "dsp_regs \<Rightarrow> u8 list" where
  "regs_enc r = enc32 (PC r) @ enc16 (AudioOutStatus r) @ enc16 (Sema4Status r) @ enc16 (Sema4Data r) @
     enc16 (DSPPCNT r) @ enc16 (DSPPRLD r) @ enc16 (AUDCNT r) @ enc16 (DSP_INT r)"

definition flags_enc :: "dsp_flags \<Rightarrow> u8 list" where
  "flags_enc f = enc16 (MULT1 f) @ enc16 (MULT2 f) @ enc16 (ALU1 f) @ enc16 (ALU2 f) @ enc32 (BS f) @
     enc16 (RMAP f) @ enc16 (nOP_MASK f) @ enc16 (WRITEBACK f) @
     [req f] @ [if Running f then 1 else 0] @ [if GenFIQ f then 1 else 0]"

definition dsp_enc :: "dsp \<Rightarrow> u8 list" where
  "dsp_enc d = enc32 (RBASEx4 d) @ image16 (upto 2048 (NMem d)) @ image16 (upto 1024 (IMem d)) @
     enc32 (REGi d) @ regs_enc (dregs d) @ flags_enc (dflags d) @ image32 (upto 16 (CPUSupply d))"

definition dsp_snap :: "dsp \<Rightarrow> dsp_live" where
  "dsp_snap d = \<lparr>live_RBASEx4 = RBASEx4 d, live_NMem = upto 2048 (NMem d), live_IMem = upto 1024 (IMem d),
     live_REGi = REGi d, live_dregs = dregs d, live_flags = dflags d, live_CPUSupply = upto 16 (CPUSupply d)\<rparr>"

lemma emits_i16: "emits (opera_state_write_i16 v) (enc16 v)"
  by (simp add: opera_state_write_i16_def emits_u16)

lemma consumes_i16: "consumes opera_state_read_i16 v (enc16 v)"
  using consumes_u16 by (simp add: consumes_def opera_state_read_i16_def)

lemma image32_Cons: "image32 (v # vs) = enc32 v @ image32 vs" "image32 [] = []"
  by (simp_all add: image32_def enc32_def)

lemma emits_i32s: "vs \<noteq> [] \<Longrightarrow> emits (write_i32s vs) (image32 vs)"
  by (induction vs rule: list_nonempty_induct) (simp_all add: w_and_return emits_and emits_i32 image32_Cons)

lemma consumes_i32s: "consumes (read_i32s (length vs)) vs (image32 vs)"
proof (induction vs)
  case (Cons v vs)
  have "consumes (read_i32s (length (v # vs))) (v # vs) (enc32 v @ image32 vs @ [])"
    unfolding length_Cons read_i32s.simps
    by (rule consumes_bind [OF consumes_i32] consumes_bind [OF Cons.IH] consumes_return)+
  then show ?case by (simp add: image32_Cons)
qed (simp add: consumes_return image32_Cons)

lemma length_dsp_enc: "length (dsp_enc d) = 6255"
  by (simp add: dsp_enc_def regs_enc_def flags_enc_def)

lemma emits_dsp: "emits (dsp_state_write_payload d) (dsp_enc d)"
  unfolding dsp_state_write_payload_def dsp_state_write_live_def dsp_regs_write_def dsp_flags_write_def
    dsp_enc_def regs_enc_def flags_enc_def
  by (intro emits_and emits_u16_array emits_u8 emits_u16 emits_u32 emits_i16 emits_i32 emits_i32s) simp_all

lemma consumes_regs: "consumes dsp_regs_read r (regs_enc r)"
proof -
  have "consumes dsp_regs_read \<lparr>PC = PC r, AudioOutStatus = AudioOutStatus r, Sema4Status = Sema4Status r,
      Sema4Data = Sema4Data r, DSPPCNT = DSPPCNT r, DSPPRLD = DSPPRLD r, AUDCNT = AUDCNT r, DSP_INT = DSP_INT r\<rparr>
     (enc32 (PC r) @ enc16 (AudioOutStatus r) @ enc16 (Sema4Status r) @ enc16 (Sema4Data r) @
     enc16 (DSPPCNT r) @ enc16 (DSPPRLD r) @ enc16 (AUDCNT r) @ enc16 (DSP_INT r) @ [])"
    unfolding dsp_regs_read_def by (rule consumes_bind consumes_return consumes_u32 consumes_u16 consumes_i16)+
  then show ?thesis by (cases r) (simp add: regs_enc_def)
qed

lemma consumes_flags: "consumes dsp_flags_read f (flags_enc f)"
proof -
  have "consumes dsp_flags_read \<lparr>MULT1 = MULT1 f, MULT2 = MULT2 f, ALU1 = ALU1 f, ALU2 = ALU2 f, BS = BS f,
      RMAP = RMAP f, nOP_MASK = nOP_MASK f, WRITEBACK = WRITEBACK f, req = req f,
      Running = ((if Running f then 1 else 0 :: u8) \<noteq> 0), GenFIQ = ((if GenFIQ f then 1 else 0 :: u8) \<noteq> 0)\<rparr>
     (enc16 (MULT1 f) @ enc16 (MULT2 f) @ enc16 (ALU1 f) @ enc16 (ALU2 f) @ enc32 (BS f) @
     enc16 (RMAP f) @ enc16 (nOP_MASK f) @ enc16 (WRITEBACK f) @
     [req f] @ [if Running f then 1 else 0] @ [if GenFIQ f then 1 else 0] @ [])"
    unfolding dsp_flags_read_def
    by (rule consumes_bind consumes_return consumes_u8 consumes_u16 consumes_i16 consumes_i32)+
  moreover have "((if b then 1 else 0 :: u8) \<noteq> 0) = b" for b by simp
  ultimately show ?thesis by (cases f) (simp add: flags_enc_def split del: if_split)
qed

definition dsp2_read :: "state_reader \<Rightarrow> dsp_live option \<times> state_reader" where
  "dsp2_read = r_bind opera_state_read_u32 (\<lambda>rbase. r_bind (r_return ()) (\<lambda>_. dsp_state_read_live rbase))"

lemma consumes_dsp: "consumes dsp2_read (dsp_snap d) (dsp_enc d)"
proof -
  have c: "consumes (read_i32s 16) (upto 16 (CPUSupply d)) (image32 (upto 16 (CPUSupply d)))"
    using consumes_i32s [of "upto 16 (CPUSupply d)"] by simp
  have "consumes dsp2_read (dsp_snap d)
     (enc32 (RBASEx4 d) @ [] @ image16 (upto 2048 (NMem d)) @ image16 (upto 1024 (IMem d)) @
     enc32 (REGi d) @ regs_enc (dregs d) @ flags_enc (dflags d) @ image32 (upto 16 (CPUSupply d)) @ [])"
    unfolding dsp2_read_def dsp_state_read_live_def dsp_snap_def
    by (rule consumes_bind consumes_return consumes_u32 consumes_i32 consumes_regs consumes_flags c consumes_u16_array | simp)+
  then show ?thesis by (simp add: dsp_enc_def)
qed

lemma dsp_payload: "dsp_state_payload_size d = 6255"
proof -
  let ?w = "opera_state_writer_init None UINT32_MAX"
  have "wok ?w" "wspace ?w (length (dsp_enc d))"
    by (simp_all add: wok_def wspace_def opera_state_writer_init_def length_dsp_enc)
  from emitsD [OF emits_dsp this] show ?thesis
    by (simp add: dsp_state_payload_size_def opera_state_writer_used_def wput_def opera_state_writer_init_def
        length_dsp_enc)
qed

interpretation dsp_chunk: state_chunk "''DSP2''" dsp_clean dsp_enc dsp_state_write_payload dsp2_read dsp_snap
  "\<lambda>_. True" dsp_state_apply_live same_tables
proof unfold_locales
  fix g cur
  assume "dsp_clean g" "same_tables g cur"
  then show "dsp_state_apply_live (dsp_snap g) cur = g"
    by (cases g; cases cur) (simp add: dsp_state_apply_live_def dsp_snap_def dsp_clean_def same_tables_def fill_upto)
qed (auto simp: length_dsp_enc emits_dsp consumes_dsp)

text \<open>The signal processor's saved state round-trips: saved into any buffer of at least its 6263 bytes
  and loaded into a core with the same decode tables (which every initialised core has), program
  and data memory, registers, pending requests and the values the processor supplied come back;
  the loader tells the chunk without tables from the older one by its name.\<close>

theorem dsp_state_roundtrip:
  assumes "dsp_clean d" "same_tables d cur" "6263 \<le> length buf"
  shows "opera_dsp_state_size d = 6263 \<and> fst (opera_dsp_state_save d buf) = 6263 \<and>
    opera_dsp_state_load False (snd (opera_dsp_state_save d buf)) 6263 cur = (6263, d)"
proof -
  have n: "payload_sizing (dsp_state_write_payload d) = 6255"
    using payload_sizing_emits [OF emits_dsp [of d]] by (simp add: length_dsp_enc)
  have "take 4 (snd (opera_dsp_state_save d buf)) = chunk_name ''DSP2''"
    using dsp_chunk.save_image [OF assms(1), of buf] assms(3)
    by (simp add: opera_dsp_state_save_def dsp_payload length_dsp_enc dsp_chunk.image_def length_chunk_name)
  then have "opera_dsp_state_load False (snd (opera_dsp_state_save d buf)) 6263 cur =
      load_chunk ''DSP2'' dsp2_read (\<lambda>_. True) dsp_state_apply_live False (snd (opera_dsp_state_save d buf)) 6263 cur"
    by (simp add: opera_dsp_state_load_def opera_dsp_state_load_chunk_def dsp2_read_def)
  then show ?thesis
    using dsp_chunk.roundtrip [OF assms(1), of buf cur] dsp_chunk.saved_size [OF assms(1), of buf] assms
    by (simp add: opera_dsp_state_size_def opera_dsp_state_save_def dsp_payload n length_dsp_enc
        opera_state_chunk_size_def opera_state_save_size_def opera_state_chunk_header_size_def)
qed

theorem dsp_state_roundtrip_witness:
  "opera_dsp_state_load False (snd (opera_dsp_state_save (opera_dsp_init zero_dsp) (replicate 6263 0))) 6263
     (on_flags (\<lambda>f. f\<lparr>Running := True\<rparr>) (opera_dsp_init zero_dsp)) = (6263, opera_dsp_init zero_dsp)"
proof -
  have "dsp_clean (opera_dsp_init zero_dsp)"
    by (simp add: dsp_clean_def opera_dsp_init_def zero_dsp_def on_flags_def on_regs_def opera_dsp_reset_def Let_def)
  moreover have "same_tables (opera_dsp_init zero_dsp) (on_flags (\<lambda>f. f\<lparr>Running := True\<rparr>) (opera_dsp_init zero_dsp))"
    by (simp add: same_tables_def on_flags_def)
  ultimately show ?thesis using dsp_state_roundtrip by simp
qed

end
