(* ===== verification/Opera_Dsp_Input.thy ===== *)
theory Opera_Dsp_Input
  imports Opera_Dsp_Props
begin

text \<open>
  What the signal processor's input registers return: a value the processor supplied comes first
  and once, then the samples of the channel's buffer in memory, in order.
\<close>

text \<open>\<open>n\<close> reads of one register.\<close>

primrec dsp_reads :: "u32 \<Rightarrow> nat \<Rightarrow> dsp_env \<Rightarrow> u16 list \<times> dsp_env" where
  "dsp_reads a 0 e = ([], e)"
| "dsp_reads a (Suc n) e = (let (v, e) = dsp_read a e; (vs, e) = dsp_reads a n e in (v # vs, e))"

lemma channels: "ch < 13 \<Longrightarrow> ch \<in> {0, 1, 2, 3, 4, 5, 6, 7, 8, 9, 10, 11, 12 :: nat}"
  unfolding insert_iff empty_iff by presburger

lemma read_queue:
  assumes "ch < 13" "CPUSupply (DSP e) ch = 0"
  shows "dsp_read (0xF0 + of_nat ch) e =
    (fst (opera_clio_fifo_ei (MEMORY e) ch (QUEUES e)), e\<lparr>QUEUES := snd (opera_clio_fifo_ei (MEMORY e) ch (QUEUES e))\<rparr>)"
  using channels [OF assms(1)] assms(2)
  by (elim insertE emptyE) (simp_all add: dsp_read_def Let_def split_beta)

lemma read_supplied:
  assumes "ch < 13" "CPUSupply (DSP e) ch \<noteq> 0"
  shows "dsp_read (0xF0 + of_nat ch) e =
    (IMem (DSP e) (0x70 + ch), on_dsp (\<lambda>d. d\<lparr>CPUSupply := (CPUSupply d)(ch := 0)\<rparr>) e)"
    "dsp_read (0xD0 + of_nat ch) e = (2, e)"
  using channels [OF assms(1)] assms(2)
  by (elim insertE emptyE; simp add: dsp_read_def Let_def)+

lemma supplied:
  assumes "ch < 13"
  shows "opera_dsp_imem_write (0x70 + of_nat ch) v d =
    d\<lparr>CPUSupply := (CPUSupply d)(ch := 1), IMem := (IMem d)(0x70 + ch := v)\<rparr>"
  using channels [OF assms]
  by (elim insertE emptyE) (simp_all add: opera_dsp_imem_write_def set_imem_def)

lemma reads_drain:
  assumes "ch < 13" "CPUSupply (DSP e) ch = 0"
  shows "dsp_reads (0xF0 + of_nat ch) n e =
    (fst (fifo_drain (MEMORY e) ch n (QUEUES e)), e\<lparr>QUEUES := snd (fifo_drain (MEMORY e) ch n (QUEUES e))\<rparr>)"
  using assms(2)
proof (induction n arbitrary: e)
  case (Suc n)
  let ?e = "e\<lparr>QUEUES := snd (opera_clio_fifo_ei (MEMORY e) ch (QUEUES e))\<rparr>"
  have "dsp_reads (0xF0 + of_nat ch) n ?e =
      (fst (fifo_drain (MEMORY e) ch n (QUEUES ?e)), ?e\<lparr>QUEUES := snd (fifo_drain (MEMORY e) ch n (QUEUES ?e))\<rparr>)"
    using Suc.IH [of ?e] Suc.prems by simp
  then show ?case by (simp add: read_queue [OF assms(1) Suc.prems] split_beta Let_def)
qed simp

text \<open>C24. The signal processor reads what it is sent, in order. When the processor writes a value to one of
  the thirteen input registers while the channel's buffer has \<open>n\<close> samples to go, the
  channel's status register reports input, and the reads of the channel return that value once,
  then the samples of the buffer in memory from its current position on.\<close>

theorem dsp_input_in_order:
  fixes v :: u16
  assumes "ch < 13" "playing (fifo_i (QUEUES e) ch) n" "k < n"
  defines "s \<equiv> on_dsp (opera_dsp_imem_write (0x70 + of_nat ch) v) e" and "f \<equiv> fifo_i (QUEUES e) ch"
  shows "fst (dsp_read (0xD0 + of_nat ch) s) = 2 \<and>
    fst (dsp_reads (0xF0 + of_nat ch) (Suc k) s) = v # samples (MEMORY e) (fifo_start f) (fifo_idx f) k"
proof -
  have s: "CPUSupply (DSP s) ch \<noteq> 0" "IMem (DSP s) (0x70 + ch) = v" "QUEUES s = QUEUES e" "MEMORY s = MEMORY e"
    by (simp_all add: s_def on_dsp_def supplied [OF assms(1)])
  let ?t = "on_dsp (\<lambda>d. d\<lparr>CPUSupply := (CPUSupply d)(ch := 0)\<rparr>) s"
  have t: "CPUSupply (DSP ?t) ch = 0" "QUEUES ?t = QUEUES e" "MEMORY ?t = MEMORY e"
    by (simp_all add: on_dsp_def s)
  have "fst (dsp_reads (0xF0 + of_nat ch) (Suc k) s) = v # fst (dsp_reads (0xF0 + of_nat ch) k ?t)"
    by (simp add: read_supplied(1) [OF assms(1) s(1)] s(2) split_beta)
  then show ?thesis
    using reads_drain [OF assms(1) t(1)] drain_playing [OF assms(2,3)] read_supplied(2) [OF assms(1) s(1)]
    by (simp add: t f_def)
qed

theorem dsp_input_in_order_witness:
  "fst (dsp_reads 0xF0 2 (on_dsp (opera_dsp_imem_write 0x70 0x1234) (quiet_env\<lparr>QUEUES := audio_clio\<rparr>))) =
     [0x1234, opera_mem_read16 stock_mem 0x1000]"
proof -
  have p: "playing (fifo_i (QUEUES (quiet_env\<lparr>QUEUES := audio_clio\<rparr>)) 0) 2" by (simp add: playing_def audio_clio_def)
  show ?thesis
    using dsp_input_in_order [OF _ p, of 1 "0x1234"]
    by (simp add: samples_def audio_clio_def quiet_env_def numeral_2_eq_2)
qed

end
