(* ===== verification/Opera_Madam.thy ===== *)
theory Opera_Madam
  imports Opera_Clio_State Opera_Bitop Opera_Clock
begin

text \<open>
  The state of MADAM and what it does without the cel engine, from
  \<open>src/libopera/opera_madam.c\<close>: its registers, the matrix engine, the register writes that control
  the cel engine, its busy time and the saved state. The statics of the file are the records
  \<open>cel\<close>, \<open>cel_tables\<close> and \<open>madam_unit\<close>; a \<open>int32_t\<close> is its 32 bits, compared with \<open><s\<close>. The
  register array has 2112 words; what is read past its end is whatever the total function
  \<open>mregs\<close> has there.
\<close>

section \<open>State\<close>

record madam =
  mregs :: "u32 \<Rightarrow> u32"
  PLUT :: "nat \<Rightarrow> u16"
  rmod :: u32
  wmod :: u32
  clipx :: u32
  clipy :: u32
  FSM :: u32

record pdec =
  plutaCCBbits :: u32
  pixelBitsMask :: u32
  rawVHBits :: u32

record pproj =
  pmode :: u32
  pmodeORmask :: u32
  pmodeANDmask :: u32
  Transparent :: bool

datatype texel_draw_func = TEXEL_DRAW_FUNC_LINE | TEXEL_DRAW_FUNC_SCALE | TEXEL_DRAW_FUNC_ARBITRARY

text \<open>Where and how the current cel is drawn.\<close>

record cel_map =
  SPRWI :: u32
  SPRHI :: u32
  HDDX1616 :: u32
  HDDY1616 :: u32
  HDX1616 :: u32
  HDY1616 :: u32
  VDX1616 :: u32
  VDY1616 :: u32
  XPOS1616 :: u32
  YPOS1616 :: u32
  TEXEL_DRAW_FUNC :: texel_draw_func
  TEXTURE_WI_START :: u32
  TEXTURE_HI_START :: u32
  TEXEL_INCX :: u32
  TEXEL_INCY :: u32
  TEXTURE_WI_LIM :: u32
  TEXTURE_HI_LIM :: u32

text \<open>What its control words say, and the pixel pipeline.\<close>

record cel =
  CCBFLAGS :: u32
  PIXC :: u32
  PRE0 :: u32
  PRE1 :: u32
  PXOR1 :: u32
  PXOR2 :: u32
  CEL_ORIGIN_VH_VALUE :: u32
  pdec :: pdec
  pproj :: pproj

record cel_tables =
  PSCALAR :: "nat \<Rightarrow> nat \<Rightarrow> nat \<Rightarrow> u8"
  MAPu8b :: "nat \<Rightarrow> u16"
  MAPc8bAMV :: "nat \<Rightarrow> u16"
  MAPc16bAMV :: "nat \<Rightarrow> u16"

record madam_unit =
  MADAM :: madam
  KPRINT :: bool
  ME_MODE :: nat
  g_CEL_PIXELS_DRAWN :: u64
  g_CEL_TEXELS_WALKED :: u64
  g_CEL_LIST_CELS :: u64
  g_CEL_BUSY_UNTIL :: u64
  g_CEL_DRAW_PENDING :: bool
  tmpMO :: "nat \<Rightarrow> u64"
  bitoper :: BitReaderBig
  CEL :: cel
  CELMAP :: cel_map
  TABLES :: cel_tables

abbreviation (input) ME_MODE_HARDWARE :: nat where "ME_MODE_HARDWARE \<equiv> 0"
abbreviation (input) ME_MODE_SOFTWARE :: nat where "ME_MODE_SOFTWARE \<equiv> 1"
abbreviation (input) FSM_IDLE :: u32 where "FSM_IDLE \<equiv> 1"
abbreviation (input) FSM_INPROCESS :: u32 where "FSM_INPROCESS \<equiv> 2"
abbreviation (input) FSM_SUSPENDED :: u32 where "FSM_SUSPENDED \<equiv> 3"
abbreviation (input) MADAM_MCTL_PLAYXEN :: u32 where "MADAM_MCTL_PLAYXEN \<equiv> 0x8000"
abbreviation (input) MADAM_DMA8_IDLE_LEN :: u32 where "MADAM_DMA8_IDLE_LEN \<equiv> 0xFFFFFFFC"

abbreviation (input) MADAM_REG_ID :: u32 where "MADAM_REG_ID \<equiv> 0x000"
abbreviation (input) MADAM_REG_MSYSBITS :: u32 where "MADAM_REG_MSYSBITS \<equiv> 0x004"
abbreviation (input) MADAM_REG_MCTL :: u32 where "MADAM_REG_MCTL \<equiv> 0x008"
abbreviation (input) STATBITS :: u32 where "STATBITS \<equiv> 0x028"
abbreviation (input) CECONTROL :: u32 where "CECONTROL \<equiv> 0x110"
abbreviation (input) REGCTL0 :: u32 where "REGCTL0 \<equiv> 0x130"
abbreviation (input) REGCTL1 :: u32 where "REGCTL1 \<equiv> 0x134"
abbreviation (input) REGCTL2 :: u32 where "REGCTL2 \<equiv> 0x138"
abbreviation (input) REGCTL3 :: u32 where "REGCTL3 \<equiv> 0x13C"
abbreviation (input) XYPOSH :: u32 where "XYPOSH \<equiv> 0x140"
abbreviation (input) XYPOSL :: u32 where "XYPOSL \<equiv> 0x144"
abbreviation (input) DMA8_DEST :: u32 where "DMA8_DEST \<equiv> 0x570"
abbreviation (input) DMA8_LEN :: u32 where "DMA8_LEN \<equiv> 0x574"
abbreviation (input) DMA8_PROGRESS :: u32 where "DMA8_PROGRESS \<equiv> 0x578"
abbreviation (input) MADAM_REG_VDL_HEAD :: u32 where "MADAM_REG_VDL_HEAD \<equiv> 0x580"
abbreviation (input) CURRENTCCB :: u32 where "CURRENTCCB \<equiv> 0x5A0"
abbreviation (input) NEXTCCB :: u32 where "NEXTCCB \<equiv> 0x5A4"
abbreviation (input) PLUTDATA :: u32 where "PLUTDATA \<equiv> 0x5A8"
abbreviation (input) PDATA :: u32 where "PDATA \<equiv> 0x5AC"

definition mreg :: "u32 \<Rightarrow> madam_unit \<Rightarrow> u32" where
  "mreg a u = mregs (MADAM u) a"

definition on_madam :: "(madam \<Rightarrow> madam) \<Rightarrow> madam_unit \<Rightarrow> madam_unit" where
  "on_madam f u = u\<lparr>MADAM := f (MADAM u)\<rparr>"

definition on_cel :: "(cel \<Rightarrow> cel) \<Rightarrow> madam_unit \<Rightarrow> madam_unit" where
  "on_cel f u = u\<lparr>CEL := f (CEL u)\<rparr>"

definition on_map :: "(cel_map \<Rightarrow> cel_map) \<Rightarrow> madam_unit \<Rightarrow> madam_unit" where
  "on_map f u = u\<lparr>CELMAP := f (CELMAP u)\<rparr>"

definition set_mreg :: "u32 \<Rightarrow> u32 \<Rightarrow> madam_unit \<Rightarrow> madam_unit" where
  "set_mreg a v = on_madam (\<lambda>m. m\<lparr>mregs := (mregs m)(a := v)\<rparr>)"

definition flag_is_set :: "u32 \<Rightarrow> u32 \<Rightarrow> bool" where "flag_is_set v f \<longleftrightarrow> v AND f \<noteq> 0"

definition flag_is_clr :: "u32 \<Rightarrow> u32 \<Rightarrow> bool" where "flag_is_clr v f \<longleftrightarrow> v AND f = 0"

section \<open>Registers\<close>

definition opera_madam_kprint_enable :: "madam_unit \<Rightarrow> madam_unit" where
  "opera_madam_kprint_enable u = u\<lparr>KPRINT := True\<rparr>"

definition opera_madam_kprint_disable :: "madam_unit \<Rightarrow> madam_unit" where
  "opera_madam_kprint_disable u = u\<lparr>KPRINT := False\<rparr>"

definition opera_madam_me_mode_hardware :: "madam_unit \<Rightarrow> madam_unit" where
  "opera_madam_me_mode_hardware u = u\<lparr>ME_MODE := ME_MODE_HARDWARE\<rparr>"

definition opera_madam_me_mode_software :: "madam_unit \<Rightarrow> madam_unit" where
  "opera_madam_me_mode_software u = u\<lparr>ME_MODE := ME_MODE_SOFTWARE\<rparr>"

definition opera_madam_fsm_get :: "madam_unit \<Rightarrow> u32" where
  "opera_madam_fsm_get u = FSM (MADAM u)"

definition opera_madam_mctl :: "madam_unit \<Rightarrow> u32" where
  "opera_madam_mctl u = mreg MADAM_REG_MCTL u"

definition opera_madam_fsm_set :: "u32 \<Rightarrow> madam_unit \<Rightarrow> madam_unit" where
  "opera_madam_fsm_set val = on_madam (\<lambda>m. m\<lparr>FSM := val\<rparr>)"

definition DecodeREGCTLMod :: "u32 \<Rightarrow> u32" where
  "DecodeREGCTLMod val =
     (let add = (\<lambda>bit n md. if val AND bit \<noteq> 0 then md + push_bit 2 n else md)
      in add 0x80 1024 (add 0x40 256 (add 0x20 128 (add 0x10 64 (add 0x08 1024 (add 0x04 256
           (add 0x02 512 (add 0x01 32 0))))))))"

definition opera_madam_peek :: "u32 \<Rightarrow> clio \<Rightarrow> madam_unit \<Rightarrow> u32" where
  "opera_madam_peek addr c u =
     (if 0x400 \<le> addr \<and> addr \<le> 0x53F then opera_clio_fifo_read addr c
      else if addr = STATBITS \<and> FSM (MADAM u) = FSM_IDLE then 0x00
      else if addr = STATBITS \<and> FSM (MADAM u) = FSM_SUSPENDED then 0x10 OR 0x20
      else if addr = STATBITS \<and> FSM (MADAM u) = FSM_INPROCESS then 0x10
      else mreg addr u)"

definition opera_madam_reset :: "madam_unit \<Rightarrow> madam_unit" where
  "opera_madam_reset u =
     u\<lparr>MADAM := \<lparr>mregs = \<lambda>_. 0, PLUT = \<lambda>_. 0, rmod = 0, wmod = 0, clipx = 0, clipy = 0, FSM = 0\<rparr>,
       bitoper := \<lparr>br_buf = 0, br_point = 0, br_bitpoint = 0, br_bitset = 0\<rparr>,
       g_CEL_BUSY_UNTIL := 0, g_CEL_DRAW_PENDING := False\<rparr>"

definition opera_madam_soft_reset :: "madam_unit \<Rightarrow> madam_unit" where
  "opera_madam_soft_reset u =
     on_madam (\<lambda>m. m\<lparr>FSM := FSM_IDLE\<rparr>) (set_mreg STATBITS (mreg STATBITS u AND NOT 0xF1) u)"

section \<open>Matrix engine\<close>

definition MI :: "nat \<Rightarrow> nat \<Rightarrow> madam_unit \<Rightarrow> u64" where
  "MI row col u = scast (mreg (0x600 + of_nat row * 0x10 + of_nat col * 4) u)"

definition MV :: "nat \<Rightarrow> madam_unit \<Rightarrow> u64" where
  "MV i u = scast (mreg (0x640 + of_nat i * 4) u)"

definition Nfrac16 :: "madam_unit \<Rightarrow> u64" where
  "Nfrac16 u = push_bit 32 (ucast (mreg 0x680 u)) OR ucast (mreg 0x684 u)"

definition madam_matrix_copy :: "madam_unit \<Rightarrow> madam_unit" where
  "madam_matrix_copy u =
     set_mreg 0x66C (ucast (tmpMO u 3)) (set_mreg 0x668 (ucast (tmpMO u 2))
       (set_mreg 0x664 (ucast (tmpMO u 1)) (set_mreg 0x660 (ucast (tmpMO u 0)) u)))"

definition set_tmpMO :: "nat \<Rightarrow> u64 \<Rightarrow> madam_unit \<Rightarrow> madam_unit" where
  "set_tmpMO i v u = u\<lparr>tmpMO := (tmpMO u)(i := v)\<rparr>"

definition row3 :: "nat \<Rightarrow> madam_unit \<Rightarrow> u64" where
  "row3 i u = signed_drop_bit 16 (MI i 0 u * MV 0 u + MI i 1 u * MV 1 u + MI i 2 u * MV 2 u)"

definition row4 :: "nat \<Rightarrow> madam_unit \<Rightarrow> u64" where
  "row4 i u =
     signed_drop_bit 16 (MI i 0 u * MV 0 u + MI i 1 u * MV 1 u + MI i 2 u * MV 2 u + MI i 3 u * MV 3 u)"

definition madam_matrix_mul3x3 :: "madam_unit \<Rightarrow> madam_unit" where
  "madam_matrix_mul3x3 u =
     (let u = madam_matrix_copy u
      in set_tmpMO 2 (row3 2 u) (set_tmpMO 1 (row3 1 u) (set_tmpMO 0 (row3 0 u) u)))"

text \<open>The quotient of the smallest \<open>int64_t\<close> and -1, which C leaves undefined and the supported
  processors trap, wraps here.\<close>

definition madam_matrix_mul3x3_nz :: "madam_unit \<Rightarrow> madam_unit" where
  "madam_matrix_mul3x3_nz u =
     (let u = madam_matrix_copy u;
          m = Nfrac16 u;
          u = set_tmpMO 2 (row3 2 u) u;
          m = (if tmpMO u 2 \<noteq> 0 then word_of_int (c_div (sint m) (sint (tmpMO u 2))) else m);
          u = set_tmpMO 1 (row3 1 u) (set_tmpMO 0 (row3 0 u) u);
          u = set_tmpMO 0 (signed_drop_bit 32 (tmpMO u 0 * m)) u
      in set_tmpMO 1 (signed_drop_bit 32 (tmpMO u 1 * m)) u)"

definition madam_matrix_mul4x4 :: "madam_unit \<Rightarrow> madam_unit" where
  "madam_matrix_mul4x4 u =
     (let u = madam_matrix_copy u
      in set_tmpMO 3 (row4 3 u) (set_tmpMO 2 (row4 2 u) (set_tmpMO 1 (row4 1 u) (set_tmpMO 0 (row4 0 u) u))))"

section \<open>Register writes\<close>

text \<open>The cases of \<open>opera_madam_poke\<close> from \<open>MADAM_REG_SPRSTRT\<close> on, which stay within MADAM.\<close>

definition madam_poke_unit :: "u32 \<Rightarrow> u32 \<Rightarrow> madam_unit \<Rightarrow> madam_unit" where
  "madam_poke_unit addr val u =
     (if addr = 0x100 then
        (let u = (if FSM (MADAM u) = FSM_IDLE then opera_madam_fsm_set FSM_INPROCESS u else u)
         in u\<lparr>g_CEL_DRAW_PENDING := True\<rparr>)
      else if addr = 0x104 then
        (set_mreg NEXTCCB 0 (opera_madam_fsm_set FSM_IDLE u))\<lparr>g_CEL_DRAW_PENDING := False\<rparr>
      else if addr = 0x108 then
        (if FSM (MADAM u) = FSM_SUSPENDED then opera_madam_fsm_set FSM_INPROCESS u else u)
      else if addr = 0x10C then
        (if FSM (MADAM u) = FSM_INPROCESS then opera_madam_fsm_set FSM_SUSPENDED u else u)
      else if addr = 0x7FC then
        (if val = 0 then madam_matrix_copy u
         else if val = 1 then madam_matrix_mul4x4 u
         else if val = 2 then madam_matrix_mul3x3 u
         else if val = 3 then madam_matrix_mul3x3_nz u
         else u)
      else if addr = REGCTL0 then
        on_madam (\<lambda>m. m\<lparr>rmod := DecodeREGCTLMod (val AND 0xFF), wmod := DecodeREGCTLMod (drop_bit 8 val AND 0xFF)\<rparr>)
          (set_mreg REGCTL0 val u)
      else if addr = REGCTL1 then
        on_madam (\<lambda>m. m\<lparr>clipx := val AND 0x3FF, clipy := drop_bit 16 val AND 0x3FF\<rparr>) (set_mreg REGCTL1 val u)
      else set_mreg addr val u)"

section \<open>Busy time\<close>

definition madam_cel_busy_start :: "opera_clock \<Rightarrow> madam_unit \<Rightarrow> madam_unit" where
  "madam_cel_busy_start k u =
     (let work = (if g_CEL_TEXELS_WALKED u > g_CEL_PIXELS_DRAWN u then g_CEL_TEXELS_WALKED u
                  else g_CEL_PIXELS_DRAWN u)
      in u\<lparr>g_CEL_BUSY_UNTIL := opera_clock_cpu_get_cycles k +
             (work * ucast (opera_clock_cpu_get_freq k)) div 9000000 + g_CEL_LIST_CELS u * 64,
           g_CEL_DRAW_PENDING := False\<rparr>)"

section \<open>Initialisation\<close>

definition PDV :: "nat \<Rightarrow> nat" where
  "PDV x = nat ((int x - 1) mod 4) + 1"

definition init_tables :: "cel_tables \<Rightarrow> cel_tables" where
  "init_tables t =
     t\<lparr>PSCALAR := (\<lambda>j n i. if j < 8 \<and> n < 4 \<and> i < 32 then of_nat (drop_bit (PDV n) (i * (j + 1))) else PSCALAR t j n i),
       MAPu8b := (\<lambda>i. if i < 256
          then (let b = i mod 4; g = i div 4 mod 8; r = i div 32 mod 8;
                    b5 = (b * 8 + b * 2 + b div 2) mod 32;
                    g5 = (g * 4 + g div 2) mod 32;
                    r5 = (r * 4 + r div 2) mod 32
                in of_nat (b5 + g5 * 32 + r5 * 1024))
          else MAPu8b t i),
       MAPc8bAMV := (\<lambda>i. if i < 256
          then (let amv = (i div 64) * 2 + i div 32 mod 2 in of_nat (amv * 64 + amv * 8 + amv))
          else MAPc8bAMV t i),
       MAPc16bAMV := (\<lambda>i. if i < 512
          then (let mb = i mod 8; mg = i div 8 mod 8; mr = i div 64 in of_nat (mr * 64 + mg * 8 + mb))
          else MAPc16bAMV t i)\<rparr>"

definition opera_madam_init :: "memory \<Rightarrow> madam_unit \<Rightarrow> madam_unit" where
  "opera_madam_init m u =
     (let u = opera_madam_reset u;
          u = u\<lparr>bitoper := (bitoper u)\<lparr>br_bitset := 1\<rparr>\<rparr>;
          u = opera_madam_fsm_set FSM_IDLE u;
          u = set_mreg MADAM_REG_ID (if ME_MODE u = ME_MODE_HARDWARE then 0x01020000 else 0x01020001) u;
          u = set_mreg MADAM_REG_MSYSBITS (opera_mem_madam_red_sysbits m 0x20) u;
          u = set_mreg DMA8_LEN MADAM_DMA8_IDLE_LEN u
      in u\<lparr>TABLES := init_tables (TABLES u)\<rparr>)"

end
