(* ===== verification/Opera_Cel_Pixel.thy ===== *)
theory Opera_Cel_Pixel
  imports Opera_Madam
begin

text \<open>
  One pixel of a cel, from \<open>src/libopera/opera_madam.c\<close>: the decoder (\<open>PDEC\<close>), the pixel
  processor that blends it with the frame buffer (\<open>PPROC\<close>), the projector that sets its two
  spare bits (\<open>PPROJ_OUTPUT\<close>), and the frame buffer's addresses. The union of the four bytes of
  a colour is its three bytes that are read, each an \<open>int8_t\<close>.
\<close>

section \<open>Flags of the control words\<close>

abbreviation (input) CCB_SKIP :: u32 where "CCB_SKIP \<equiv> 0x80000000"
abbreviation (input) CCB_LAST :: u32 where "CCB_LAST \<equiv> 0x40000000"
abbreviation (input) CCB_NPABS :: u32 where "CCB_NPABS \<equiv> 0x20000000"
abbreviation (input) CCB_SPABS :: u32 where "CCB_SPABS \<equiv> 0x10000000"
abbreviation (input) CCB_PPABS :: u32 where "CCB_PPABS \<equiv> 0x08000000"
abbreviation (input) CCB_LDSIZE :: u32 where "CCB_LDSIZE \<equiv> 0x04000000"
abbreviation (input) CCB_LDPRS :: u32 where "CCB_LDPRS \<equiv> 0x02000000"
abbreviation (input) CCB_LDPPMP :: u32 where "CCB_LDPPMP \<equiv> 0x01000000"
abbreviation (input) CCB_LDPLUT :: u32 where "CCB_LDPLUT \<equiv> 0x00800000"
abbreviation (input) CCB_CCBPRE :: u32 where "CCB_CCBPRE \<equiv> 0x00400000"
abbreviation (input) CCB_YOXY :: u32 where "CCB_YOXY \<equiv> 0x00200000"
abbreviation (input) CCB_ACW :: u32 where "CCB_ACW \<equiv> 0x00040000"
abbreviation (input) CCB_ACCW :: u32 where "CCB_ACCW \<equiv> 0x00020000"
abbreviation (input) CCB_MARIA :: u32 where "CCB_MARIA \<equiv> 0x00001000"
abbreviation (input) CCB_PXOR :: u32 where "CCB_PXOR \<equiv> 0x00000800"
abbreviation (input) CCB_USEAV :: u32 where "CCB_USEAV \<equiv> 0x00000400"
abbreviation (input) CCB_PACKED :: u32 where "CCB_PACKED \<equiv> 0x00000200"
abbreviation (input) CCB_POVER_MASK :: u32 where "CCB_POVER_MASK \<equiv> 0x00000180"
abbreviation (input) CCB_PLUTPOS :: u32 where "CCB_PLUTPOS \<equiv> 0x00000040"
abbreviation (input) CCB_BGND :: u32 where "CCB_BGND \<equiv> 0x00000020"
abbreviation (input) CCB_NOBLK :: u32 where "CCB_NOBLK \<equiv> 0x00000010"
abbreviation (input) PMODE_ZERO :: u32 where "PMODE_ZERO \<equiv> 0x100"
abbreviation (input) PMODE_ONE :: u32 where "PMODE_ONE \<equiv> 0x180"
abbreviation (input) SWAPHV :: u32 where "SWAPHV \<equiv> 0x08000000"
abbreviation (input) PRE0_LINEAR :: u32 where "PRE0_LINEAR \<equiv> 0x10"
abbreviation (input) PRE1_NOSWAP :: u32 where "PRE1_NOSWAP \<equiv> 0x4000"
abbreviation (input) PRE1_LRFORM :: u32 where "PRE1_LRFORM \<equiv> 0x800"

text \<open>\<open>len\<close> bits of a word from bit \<open>lo\<close> on, a field of a bit-field structure.\<close>

definition field :: "nat \<Rightarrow> nat \<Rightarrow> u32 \<Rightarrow> u32" where
  "field lo len w = take_bit len (drop_bit lo w)"

abbreviation (input) r16b_b :: "u32 \<Rightarrow> u32" where "r16b_b \<equiv> field 0 5"
abbreviation (input) r16b_g :: "u32 \<Rightarrow> u32" where "r16b_g \<equiv> field 5 5"
abbreviation (input) r16b_r :: "u32 \<Rightarrow> u32" where "r16b_r \<equiv> field 10 5"

section \<open>Decoder\<close>

definition PDEC_SubstituteBlueLSB :: "u16 \<Rightarrow> u32 \<Rightarrow> u16" where
  "PDEC_SubstituteBlueLSB pixel mode =
     (let mode = mode AND 0x3;
          blueLSB = (if mode = 1 then pixel AND 0x1
                     else if mode = 2 then drop_bit 4 pixel AND 0x1
                     else if mode = 3 then drop_bit 5 pixel AND 0x1 else 0)
      in (pixel AND NOT 0x1) OR blueLSB)"

text \<open>The \<open>switch\<close> on the depth: the colour and its multiplier.\<close>

definition decode_pixel :: "madam_unit \<Rightarrow> u32 \<Rightarrow> u16 \<times> u16" where
  "decode_pixel u pixel =
     (let c = CEL u; mode = PRE0 c AND 7; plut = PLUT (MADAM u); t = TABLES u; linear = flag_is_set (PRE0 c) PRE0_LINEAR in
      if mode = 4 then
        (let pres = plut (unat (field 0 5 pixel))
         in ((pres AND 0x7FFF) + ucast (push_bit 15 (field 5 1 pixel)), 0x49))
      else if mode = 5 then
        (if linear then (MAPu8b t (unat (pixel AND 0xFF)), 0x49)
         else (plut (unat (field 0 5 pixel)), MAPc8bAMV t (unat (pixel AND 0xFF))))
      else if mode = 6 \<or> mode = 7 then
        (if linear then (ucast pixel, 0x49)
         else (let pres = plut (unat (field 0 5 pixel))
               in ((pres AND 0x7FFF) OR ucast (pixel AND 0x8000), MAPc16bAMV t (unat (drop_bit 5 pixel AND 0x1FF)))))
      else
        (plut (unat (drop_bit 1 (plutaCCBbits (pdec c) + (pixel AND pixelBitsMask (pdec c)) * 2))), 0x49))"

definition IS_RGB15_BLACK :: "u32 \<Rightarrow> bool" where
  "IS_RGB15_BLACK p \<longleftrightarrow> p AND 0x7FFF = 0"

text \<open>The decoded colour (\<open>CURPIX\<close>), its multiplier (\<open>LAMV\<close>) and the updated statics.\<close>

definition PDEC :: "u32 \<Rightarrow> madam_unit \<Rightarrow> u16 \<times> u16 \<times> madam_unit" where
  "PDEC pixel u =
     (let c = CEL u; (pres, amv) = decode_pixel u pixel;
          u = on_cel (\<lambda>c. c\<lparr>pdec := (pdec c)\<lparr>rawVHBits := ucast pres AND 0x8001\<rparr>,
                pproj := (pproj c)\<lparr>Transparent := flag_is_clr (CCBFLAGS c) CCB_BGND \<and> IS_RGB15_BLACK (ucast pres)\<rparr>\<rparr>) u;
          mode = (if flag_is_clr (CCBFLAGS c) CCB_PACKED then drop_bit 12 (PRE1 c AND 0x3000)
                  else drop_bit 20 (mreg CECONTROL u AND 0x300000))
      in (PDEC_SubstituteBlueLSB pres mode, amv, u))"

section \<open>Projector\<close>

definition PPROJ_OUTPUT :: "madam_unit \<Rightarrow> u32 \<Rightarrow> u32" where
  "PPROJ_OUTPUT u pproc_output =
     (let c = CEL u; ctl = mreg CECONTROL u;
          vh = (if flag_is_set (CCBFLAGS c) CCB_PLUTPOS then rawVHBits (pdec c) else CEL_ORIGIN_VH_VALUE c);
          vh = (if flag_is_set ctl SWAPHV \<and> flag_is_clr (PRE1 c) PRE1_NOSWAP
                then drop_bit 15 vh OR push_bit 15 (vh AND 1) else vh);
          b15 = ctl AND 0xC0000000;
          vh = (if b15 = 0 then vh AND NOT 0x8000 else if b15 = 0x40000000 then vh OR 0x8000 else vh);
          b0 = ctl AND 0x30000000;
          vh = (if b0 = 0x20000000 then (vh AND NOT 0x1) OR (pproc_output AND 0x1)
                else if b0 = 0 then vh AND NOT 0x1
                else if b0 = 0x10000000 then vh OR 0x01
                else vh)
      in (pproc_output AND 0x7FFE) OR vh)"

section \<open>Pixel processor\<close>

record colour =
  Rc :: u8
  Bc :: u8
  Gc :: u8

definition mk_colour :: "u8 \<Rightarrow> u8 \<Rightarrow> u8 \<Rightarrow> colour" where
  "mk_colour r g b = \<lparr>Rc = r, Bc = b, Gc = g\<rparr>"

definition each :: "(u8 \<Rightarrow> u8) \<Rightarrow> colour \<Rightarrow> colour" where
  "each f c = \<lparr>Rc = f (Rc c), Bc = f (Bc c), Gc = f (Gc c)\<rparr>"

definition each2 :: "(u8 \<Rightarrow> u8 \<Rightarrow> u8) \<Rightarrow> colour \<Rightarrow> colour \<Rightarrow> colour" where
  "each2 f c d = \<lparr>Rc = f (Rc c) (Rc d), Bc = f (Bc c) (Bc d), Gc = f (Gc c) (Gc d)\<rparr>"

text \<open>The bytes of a mask, for \<open>raw & mask\<close>.\<close>

definition bytes_colour :: "u32 \<Rightarrow> colour" where
  "bytes_colour w = \<lparr>Rc = byte_of 0 w, Bc = byte_of 1 w, Gc = byte_of 2 w\<rparr>"

definition clamp_i8 :: "u8 \<Rightarrow> u8 \<Rightarrow> u8 \<Rightarrow> u8" where
  "clamp_i8 x lo hi = (let m = (if lo <s x then x else lo) in if hi <s m then hi else m)"

text \<open>The 16 bits of \<open>PIXC\<close> that apply, and their fields.\<close>

definition pixc_word :: "u32 \<Rightarrow> u32 \<Rightarrow> u32" where
  "pixc_word pixc pixel = (if pixel AND 0x8000 \<noteq> 0 then drop_bit 16 pixc else pixc AND 0xFFFF)"

abbreviation (input) pc_dv2 :: "u32 \<Rightarrow> u32" where "pc_dv2 \<equiv> field 0 1"
abbreviation (input) pc_av :: "u32 \<Rightarrow> u32" where "pc_av \<equiv> field 1 5"
abbreviation (input) pc_s2 :: "u32 \<Rightarrow> u32" where "pc_s2 \<equiv> field 6 2"
abbreviation (input) pc_dv1 :: "u32 \<Rightarrow> u32" where "pc_dv1 \<equiv> field 8 2"
abbreviation (input) pc_mxf :: "u32 \<Rightarrow> u32" where "pc_mxf \<equiv> field 10 3"
abbreviation (input) pc_ms :: "u32 \<Rightarrow> u32" where "pc_ms \<equiv> field 13 2"
abbreviation (input) pc_s1 :: "u32 \<Rightarrow> u32" where "pc_s1 \<equiv> field 15 1"

text \<open>The signals of \<open>AVS_u\<close>: \<open>av\<close> when \<open>CCB_USEAV\<close> is set, else zero.\<close>

definition av_signals :: "u32 \<Rightarrow> u32 \<Rightarrow> u32" where
  "av_signals flags pc = (if flag_is_set flags CCB_USEAV then pc_av pc else 0)"

abbreviation (input) av_NEG :: "u32 \<Rightarrow> u32" where "av_NEG \<equiv> field 0 1"
abbreviation (input) av_XTEND :: "u32 \<Rightarrow> u32" where "av_XTEND \<equiv> field 1 1"
abbreviation (input) av_nCLIP :: "u32 \<Rightarrow> u32" where "av_nCLIP \<equiv> field 2 1"
abbreviation (input) av_dv3 :: "u32 \<Rightarrow> u32" where "av_dv3 \<equiv> field 3 2"

text \<open>The secondary source \<open>color2\<close> and the scaled primary source \<open>color1\<close>.\<close>

definition secondary :: "u32 \<Rightarrow> u32 \<Rightarrow> u32 \<Rightarrow> u32 \<Rightarrow> colour" where
  "secondary pc av pixel fpix =
     (let sh = (\<lambda>v. ucast (drop_bit (unat (av_dv3 av)) v)) in
      if pc_s2 pc = 0 then mk_colour 0 0 0
      else if pc_s2 pc = 1 then mk_colour (sh (pc_av pc)) (sh (pc_av pc)) (sh (pc_av pc))
      else if pc_s2 pc = 2 then mk_colour (sh (r16b_r fpix)) (sh (r16b_g fpix)) (sh (r16b_b fpix))
      else mk_colour (sh (r16b_r pixel)) (sh (r16b_g pixel)) (sh (r16b_b pixel)))"

definition primary :: "cel_tables \<Rightarrow> u32 \<Rightarrow> u32 \<Rightarrow> u32 \<Rightarrow> u32 \<Rightarrow> colour" where
  "primary t pc pixel input1 amv =
     (let sc = (\<lambda>m d v. PSCALAR t (unat m) (unat d) (unat v)); d = pc_dv1 pc in
      if pc_ms pc = 0 then
        mk_colour (sc (pc_mxf pc) d (r16b_r input1)) (sc (pc_mxf pc) d (r16b_g input1)) (sc (pc_mxf pc) d (r16b_b input1))
      else if pc_ms pc = 1 then
        mk_colour (sc (drop_bit 6 amv AND 7) d (r16b_r input1)) (sc (drop_bit 3 amv AND 7) d (r16b_g input1))
          (sc (amv AND 7) d (r16b_b input1))
      else if pc_ms pc = 2 then
        mk_colour (sc (drop_bit 2 (r16b_r pixel)) (r16b_r pixel AND 3) (r16b_r input1))
          (sc (drop_bit 2 (r16b_g pixel)) (r16b_g pixel AND 3) (r16b_g input1))
          (sc (drop_bit 2 (r16b_b pixel)) (r16b_b pixel AND 3) (r16b_b input1))
      else
        mk_colour (sc (drop_bit 2 (r16b_r pixel)) d (r16b_r input1))
          (sc (drop_bit 2 (r16b_g pixel)) d (r16b_g input1)) (sc (drop_bit 2 (r16b_b pixel)) d (r16b_b input1)))"

text \<open>\<open>(BOP.R << 3) >> 3\<close>, which is computed on \<open>int\<close>.\<close>

definition xtend :: "u8 \<Rightarrow> u8" where
  "xtend v = word_of_int (drop_bit 3 (push_bit 3 (sint v)))"

text \<open>\<open>(AOP.R + BOP.R + NEG) >> dv2\<close>, on \<open>int\<close>, narrowed to \<open>int8_t\<close>.\<close>

definition add_shift :: "u32 \<Rightarrow> u32 \<Rightarrow> u8 \<Rightarrow> u8 \<Rightarrow> u8" where
  "add_shift neg dv2 a b = word_of_int (drop_bit (unat dv2) (sint a + sint b + uint neg))"

definition PPROC :: "madam_unit \<Rightarrow> u32 \<Rightarrow> u32 \<Rightarrow> u32 \<Rightarrow> u32" where
  "PPROC u pixel fpix amv =
     (let c = CEL u;
          pixel = (pixel OR pmodeORmask (pproj c)) AND pmodeANDmask (pproj c);
          pc = pixc_word (PIXC c) pixel;
          av = av_signals (CCBFLAGS c) pc;
          input1 = (if pc_s1 pc = 0 then pixel else fpix);
          color2 = secondary pc av pixel fpix;
          color1 = primary (TABLES u) pc pixel input1 amv;
          AOP = each2 (AND) color1 (bytes_colour (PXOR1 c));
          color1 = each2 (AND) color1 (bytes_colour (PXOR2 c));
          BOP = (if av_NEG av \<noteq> 0 then each2 (XOR) color2 (bytes_colour 0x00FFFFFF) else each2 (XOR) color2 color1);
          BOP = (if av_XTEND av \<noteq> 0 then each xtend BOP else BOP);
          color2 = each2 (add_shift (av_NEG av) (pc_dv2 pc)) AOP BOP;
          color2 = (if av_nCLIP av = 0 then each (\<lambda>v. clamp_i8 v 0 31) color2 else color2);
          out = take_bit 5 (ucast (Bc color2)) OR push_bit 5 (take_bit 5 (ucast (Gc color2))) OR
                push_bit 10 (take_bit 5 (ucast (Rc color2)))
      in if flag_is_clr (CCBFLAGS c) CCB_NOBLK \<and> IS_RGB15_BLACK out then 0x400 else out)"

section \<open>Frame buffer\<close>

definition XY2OFF :: "u32 \<Rightarrow> u32 \<Rightarrow> u32 \<Rightarrow> u32" where
  "XY2OFF x y m = signed_drop_bit 1 y * m + push_bit 1 (y AND 1) + push_bit 2 x"

definition clipping :: "madam_unit \<Rightarrow> u32 \<Rightarrow> u32 \<Rightarrow> bool" where
  "clipping u x y \<longleftrightarrow> x > clipx (MADAM u) \<or> y > clipy (MADAM u)"

text \<open>MADAM and the memory it draws in.\<close>

type_synonym gfx = "madam_unit \<times> memory"

definition process_pixel :: "u32 \<Rightarrow> u32 \<Rightarrow> u32 \<Rightarrow> u32 \<Rightarrow> gfx \<Rightarrow> gfx" where
  "process_pixel x y curpix lawv = (\<lambda>(u, m).
     let fp = ucast (opera_mem_read16 m (mreg REGCTL2 u + XY2OFF x y (rmod (MADAM u))));
         p = PPROJ_OUTPUT u (PPROC u curpix fp lawv)
     in (u\<lparr>g_CEL_PIXELS_DRAWN := g_CEL_PIXELS_DRAWN u + 1\<rparr>,
         opera_mem_write16 (mreg REGCTL3 u + XY2OFF x y (wmod (MADAM u))) (ucast p) m))"

definition readPIX :: "u32 \<Rightarrow> u32 \<Rightarrow> gfx \<Rightarrow> u16" where
  "readPIX x y = (\<lambda>(u, m).
     let src = mreg REGCTL2 u;
         src = (if HIRESMODE m
                then src + XY2OFF (signed_drop_bit 1 x) (signed_drop_bit 1 y) (rmod (MADAM u)) +
                     (push_bit 1 (y AND 1) + (x AND 1)) * VRAM_SIZE m
                else src + XY2OFF x y (rmod (MADAM u)))
     in opera_mem_read16 m src)"

definition writePIX :: "u32 \<Rightarrow> u32 \<Rightarrow> u16 \<Rightarrow> gfx \<Rightarrow> gfx" where
  "writePIX x y p = (\<lambda>(u, m).
     let src = mreg REGCTL3 u;
         src = (if HIRESMODE m
                then src + XY2OFF (signed_drop_bit 1 x) (signed_drop_bit 1 y) (wmod (MADAM u)) +
                     (push_bit 1 (y AND 1) + (x AND 1)) * VRAM_SIZE m
                else src + XY2OFF x y (wmod (MADAM u)))
     in (u, opera_mem_write16_base src p m))"

section \<open>Interleaved rows\<close>

definition BitReaderBig_ReadLRByte :: "memory \<Rightarrow> u32 \<Rightarrow> BitReaderBig \<Rightarrow> u8" where
  "BitReaderBig_ReadLRByte m point r =
     opera_mem_read8 m (br_buf r + ((point AND 1) + push_bit 2 (drop_bit 1 point)))"

definition lr_bit :: "memory \<Rightarrow> u32 \<times> BitReaderBig \<Rightarrow> u32 \<times> BitReaderBig" where
  "lr_bit m = (\<lambda>(retval, r).
     let retval = push_bit 1 retval OR
           (ucast (drop_bit (nat (7 - br_bitpoint r)) (BitReaderBig_ReadLRByte m (br_point r) r)) AND 1);
         r = r\<lparr>br_bitpoint := br_bitpoint r + 1\<rparr>
     in (retval, if br_bitpoint r = 8 then r\<lparr>br_bitpoint := 0, br_point := br_point r + 1\<rparr> else r))"

definition BitReaderBig_ReadLRForm :: "memory \<Rightarrow> u8 \<Rightarrow> BitReaderBig \<Rightarrow> u32 \<times> BitReaderBig" where
  "BitReaderBig_ReadLRForm m bits r =
     (let r = BitReaderBig_SetBitRate bits r in
      if br_buf r = 0 then (0, r) else (lr_bit m ^^ nat (br_bitset r)) (0, r))"

end
