(* ===== verification/Opera_Cel_Map.thy ===== *)
theory Opera_Cel_Map
  imports Opera_Cel_Pixel
begin

text \<open>
  How a cel is put on the screen, from \<open>src/libopera/opera_madam.c\<close>: whether it can be seen at
  all (\<open>TestInitVisual\<close>), which way its corners wind (\<open>QuadCCWTest\<close>), and the three ways of
  drawing it with the limits of each. \<open>QuadCCWTest\<close> computes in \<open>float\<close> on integers below
  \<open>2\<^sup>63\<close>; rounding such a number to 24 significant bits gives an integer again, so its
  arithmetic is integer arithmetic with \<open>f32\<close> after each operation (single precision, no
  fused operations).
\<close>

section \<open>Single precision on integers\<close>

fun bit_length :: "nat \<Rightarrow> nat" where
  "bit_length n = (if n = 0 then 0 else Suc (bit_length (n div 2)))"

declare bit_length.simps [simp del]

text \<open>Round to nearest, ties to even.\<close>

definition f32 :: "int \<Rightarrow> int" where
  "f32 x =
     (let a = nat \<bar>x\<bar>; e = bit_length a - 24; q = a div 2 ^ e; r = a mod 2 ^ e;
          q = (if 2 * r > 2 ^ e \<or> 2 * r = 2 ^ e \<and> odd q then q + 1 else q)
      in sgn x * int (q * 2 ^ e))"

section \<open>Winding\<close>

definition TexelCCWTest :: "u64 \<Rightarrow> u64 \<Rightarrow> u64 \<Rightarrow> u64 \<Rightarrow> u32" where
  "TexelCCWTest hdx hdy vdx vdy =
     (if (hdx + vdx) * (hdy - vdy) + vdx * vdy - hdx * hdy <s 0 then CCB_ACCW else CCB_ACW)"

text \<open>\<open>a + b * wdt\<close> with a \<open>float\<close> \<open>wdt\<close>, converted to \<open>int64_t\<close>.\<close>

definition float_step :: "u32 \<Rightarrow> u32 \<Rightarrow> int \<Rightarrow> u64" where
  "float_step a b wdt = word_of_int (f32 (f32 (sint a) + f32 (f32 (sint b) * wdt)))"

definition QuadCCWTest :: "u32 \<Rightarrow> madam_unit \<Rightarrow> bool" where
  "QuadCCWTest wdt u =
     (let fl = CCBFLAGS (CEL u); g = CELMAP u; w = f32 (sint wdt); h = SPRHI g;
          hdx = (scast (HDX1616 g) :: u64); hdy = scast (HDY1616 g); vdx = scast (VDX1616 g); vdy = scast (VDY1616 g);
          hdx' = scast (HDX1616 g + HDDX1616 g * h); hdy' = scast (HDY1616 g + HDDY1616 g * h);
          tmp = TexelCCWTest hdx hdy vdx vdy
      in if flag_is_set fl CCB_ACCW \<and> flag_is_set fl CCB_ACW then False
         else if tmp \<noteq> TexelCCWTest hdx hdy (float_step (VDX1616 g) (HDDX1616 g) w)
                         (float_step (VDY1616 g) (HDDY1616 g) w) then False
         else if tmp \<noteq> TexelCCWTest hdx' hdy' vdx vdy then False
         else if tmp \<noteq> TexelCCWTest hdx' hdy' (float_step (VDX1616 g) (HDDX1616 g * h) w)
                         (float_step (VDY1616 g) (HDDY1616 g * h) w) then False
         else tmp = fl AND (CCB_ACCW OR CCB_ACW))"

section \<open>The three maps\<close>

abbreviation (input) sar16 :: "u32 \<Rightarrow> u32" where "sar16 x \<equiv> signed_drop_bit 16 x"

text \<open>Half a pixel for an edge that runs left or up.\<close>

definition half_pixel :: "cel_map \<Rightarrow> cel_map" where
  "half_pixel g =
     (let g = (if HDX1616 g <s 0 \<or> VDX1616 g <s 0 then g\<lparr>XPOS1616 := XPOS1616 g - 0x8000\<rparr> else g)
      in if HDY1616 g <s 0 \<or> VDY1616 g <s 0 then g\<lparr>YPOS1616 := YPOS1616 g - 0x8000\<rparr> else g)"

text \<open>The rows and the columns that fall before the edge of the clipping window on one axis.\<close>

definition limit_rows :: "u32 \<Rightarrow> u32 \<Rightarrow> u32 \<Rightarrow> cel_map \<Rightarrow> cel_map" where
  "limit_rows pos vd clip g =
     (if vd <s 0 then
        (let g = (if sar16 (pos - push_bit 16 (SPRHI g - 1)) <s 0
                  then g\<lparr>TEXTURE_HI_LIM := sar16 pos + 1\<rparr> else g)
         in if SPRHI g <s TEXTURE_HI_LIM g then g\<lparr>TEXTURE_HI_LIM := SPRHI g\<rparr> else g)
      else if 0 <s vd then
        (if clip <s sar16 (pos + push_bit 16 (SPRHI g)) then g\<lparr>TEXTURE_HI_LIM := clip - sar16 pos + 1\<rparr> else g)
      else g)"

definition limit_columns :: "u32 \<Rightarrow> u32 \<Rightarrow> u32 \<Rightarrow> cel_map \<Rightarrow> cel_map" where
  "limit_columns pos hv clip g =
     (if hv <s 0 then g\<lparr>TEXTURE_WI_LIM := sar16 pos + 1\<rparr>
      else if 0 <s hv then g\<lparr>TEXTURE_WI_LIM := clip - sar16 pos + 1\<rparr>
      else g)"

text \<open>The rows or columns to skip when the cel starts outside the window on one axis; true when
  nothing of it can be seen.\<close>

definition skip_outside :: "u32 \<Rightarrow> u32 \<Rightarrow> u32 \<Rightarrow> u32 \<Rightarrow> cel_map \<Rightarrow> bool \<times> cel_map" where
  "skip_outside pos hv vd clip g =
     (if pos <s 0 then
        (if hv <s 0 then (True, g)
         else
           (let g = (if 0 <s hv then g\<lparr>TEXTURE_WI_START := - sar16 pos\<rparr> else g) in
            if vd <s 0 then (True, g)
            else (False, if 0 <s vd then g\<lparr>TEXTURE_HI_START := - sar16 pos\<rparr> else g)))
      else if clip <s sar16 pos then
        (if 0 <s hv then (True, g)
         else
           (let g = (if hv <s 0 then g\<lparr>TEXTURE_WI_START := sar16 pos - clip\<rparr> else g) in
            if 0 <s vd then (True, g)
            else (False, if vd <s 0 then g\<lparr>TEXTURE_HI_START := sar16 pos - clip\<rparr> else g)))
      else (False, g))"

definition InitLineMap :: "madam_unit \<Rightarrow> bool \<times> madam_unit" where
  "InitLineMap u =
     (let cx = clipx (MADAM u); cy = clipy (MADAM u); g = CELMAP u;
          g = g\<lparr>TEXEL_DRAW_FUNC := TEXEL_DRAW_FUNC_LINE, TEXTURE_WI_START := 0, TEXTURE_HI_START := 0,
                TEXTURE_HI_LIM := SPRHI g\<rparr>;
          g = half_pixel g;
          g = limit_rows (XPOS1616 g) (VDX1616 g) cx g;
          g = limit_rows (YPOS1616 g) (VDY1616 g) cy g;
          g = limit_columns (XPOS1616 g) (HDX1616 g) cx g;
          g = limit_columns (YPOS1616 g) (HDY1616 g) cy g;
          (out, g) = skip_outside (XPOS1616 g) (HDX1616 g) (VDX1616 g) cx g
      in if out then (True, u\<lparr>CELMAP := g\<rparr>)
         else
           (let (out, g) = skip_outside (YPOS1616 g) (HDY1616 g) (VDY1616 g) cy g
            in (out \<or> TEXTURE_WI_LIM g <=s 0, u\<lparr>CELMAP := g\<rparr>)))"

definition InitScaleMap :: "madam_unit \<Rightarrow> madam_unit" where
  "InitScaleMap =
     on_map (\<lambda>g. let g = half_pixel (g\<lparr>TEXEL_DRAW_FUNC := TEXEL_DRAW_FUNC_SCALE\<rparr>);
         deltax = HDX1616 g + VDX1616 g; deltay = HDY1616 g + VDY1616 g
       in g\<lparr>TEXEL_INCX := (if deltax <s 0 then -1 else 1), TEXEL_INCY := (if deltay <s 0 then -1 else 1),
            TEXTURE_WI_START := 0, TEXTURE_HI_START := 0\<rparr>)"

definition InitArbitraryMap :: "madam_unit \<Rightarrow> madam_unit" where
  "InitArbitraryMap =
     on_map (\<lambda>g. g\<lparr>TEXEL_DRAW_FUNC := TEXEL_DRAW_FUNC_ARBITRARY, TEXTURE_WI_START := 0, TEXTURE_HI_START := 0\<rparr>)"

section \<open>Visibility\<close>

definition outside_packed :: "u32 \<Rightarrow> u32 \<Rightarrow> u32 \<Rightarrow> u32 \<Rightarrow> u32 \<Rightarrow> u32 \<Rightarrow> bool" where
  "outside_packed pos vd hv hdd sprhi clip \<longleftrightarrow>
     (let p0 = sar16 pos; p1 = sar16 (pos + vd * sprhi)
      in p0 <s 0 \<and> p1 <s 0 \<and> hv <=s 0 \<and> hdd <=s 0 \<or> clip <s p0 \<and> clip <s p1 \<and> 0 <=s hv \<and> 0 <=s hdd)"

definition outside_unpacked :: "u32 \<Rightarrow> u32 \<Rightarrow> u32 \<Rightarrow> u32 \<Rightarrow> u32 \<Rightarrow> u32 \<Rightarrow> u32 \<Rightarrow> bool" where
  "outside_unpacked pos vd hv hdd sprwi sprhi clip \<longleftrightarrow>
     (let p0 = sar16 pos; p1 = sar16 (pos + hv * sprwi); p2 = sar16 (pos + vd * sprhi);
          p3 = sar16 (pos + vd * sprhi + (hv + hdd * sprhi) * sprwi)
      in p0 <s 0 \<and> p1 <s 0 \<and> p2 <s 0 \<and> p3 <s 0 \<or> clip <s p0 \<and> clip <s p1 \<and> clip <s p2 \<and> clip <s p3)"

definition cel_outside :: "bool \<Rightarrow> madam_unit \<Rightarrow> bool" where
  "cel_outside packed u \<longleftrightarrow>
     (let g = CELMAP u; cx = clipx (MADAM u); cy = clipy (MADAM u) in
      if packed then
        outside_packed (XPOS1616 g) (VDX1616 g) (HDX1616 g) (HDDX1616 g) (SPRHI g) cx \<or>
        outside_packed (YPOS1616 g) (VDY1616 g) (HDY1616 g) (HDDY1616 g) (SPRHI g) cy
      else
        outside_unpacked (XPOS1616 g) (VDX1616 g) (HDX1616 g) (HDDX1616 g) (SPRWI g) (SPRHI g) cx \<or>
        outside_unpacked (YPOS1616 g) (VDY1616 g) (HDY1616 g) (HDDY1616 g) (SPRWI g) (SPRHI g) cy)"

definition ABS :: "u32 \<Rightarrow> u32" where
  "ABS val = (if 0 <s val then val else - val)"

text \<open>A cel drawn at its own size from a whole pixel on is drawn line by line, any other scaled.\<close>

definition line_or_scale :: "u32 \<Rightarrow> u32 \<Rightarrow> madam_unit \<Rightarrow> bool \<times> madam_unit" where
  "line_or_scale hv vd u =
     (if ABS hv = 0x10000 \<and> ABS vd = 0x10000 \<and> (YPOS1616 (CELMAP u) OR XPOS1616 (CELMAP u)) AND 0xFFFF = 0
      then InitLineMap u else (False, InitScaleMap u))"

definition opposite_signs :: "u32 \<Rightarrow> u32 \<Rightarrow> bool" where
  "opposite_signs a b \<longleftrightarrow> a <s 0 \<and> 0 <s b \<or> 0 <s a \<and> b <s 0"

text \<open>True when the cel is not drawn.\<close>

definition TestInitVisual :: "bool \<Rightarrow> madam_unit \<Rightarrow> bool \<times> madam_unit" where
  "TestInitVisual packed u =
     (let fl = CCBFLAGS (CEL u); g = CELMAP u in
      if flag_is_clr fl CCB_ACCW \<and> flag_is_clr fl CCB_ACW then (True, u)
      else if cel_outside packed u then (True, u)
      else if HDDX1616 g = 0 \<and> HDDY1616 g = 0 \<and> HDX1616 g = 0 \<and> VDY1616 g = 0 then
        (if flag_is_set fl (if opposite_signs (HDY1616 g) (VDX1616 g) then CCB_ACW else CCB_ACCW)
         then line_or_scale (HDY1616 g) (VDX1616 g) u else (True, u))
      else if HDDX1616 g = 0 \<and> HDDY1616 g = 0 \<and> HDY1616 g = 0 \<and> VDX1616 g = 0 then
        (if flag_is_set fl (if opposite_signs (HDX1616 g) (VDY1616 g) then CCB_ACCW else CCB_ACW)
         then line_or_scale (HDX1616 g) (VDY1616 g) u else (True, u))
      else if QuadCCWTest (if packed then 2048 else SPRWI g) u then (True, u)
      else (False, InitArbitraryMap u))"

end
