(* ===== verification/Opera_Cel_Raster.thy ===== *)
theory Opera_Cel_Raster
  imports Opera_Cel_Map
begin

text \<open>
  Drawing one texel, from \<open>src/libopera/opera_madam.c\<close>: a run of pixels (\<open>TexelDrawLine\<close>), an
  upright rectangle (\<open>TexelDrawScale\<close>) and a quadrilateral scanned row by row
  (\<open>_rasterize_arbitrary\<close>, \<open>TexelDrawArbitrary\<close>). A loop is a fold over the list of what it
  visits, with a flag for the \<open>return\<close> or \<open>break\<close> in its body.
\<close>

section \<open>Loops\<close>

primrec foldb :: "('a \<Rightarrow> 's \<Rightarrow> bool \<times> 's) \<Rightarrow> 'a list \<Rightarrow> 's \<Rightarrow> bool \<times> 's" where
  "foldb f [] s = (False, s)"
| "foldb f (x # xs) s = (let (stop, s) = f x s in if stop then (True, s) else foldb f xs s)"

text \<open>\<open>for(v = a; v != b; v += inc)\<close> with an increment of 1 or -1, \<open>for(v = a; v < b; v++)\<close> on
  signed and on unsigned numbers.\<close>

definition steps :: "u32 \<Rightarrow> u32 \<Rightarrow> u32 \<Rightarrow> u32 list" where
  "steps a b inc = map (\<lambda>k. a + of_nat k * inc) [0..<unat ((b - a) * inc)]"

definition srange :: "u32 \<Rightarrow> u32 \<Rightarrow> u32 list" where
  "srange a b = map (\<lambda>k. a + of_nat k) [0..<nat (sint b - sint a)]"

definition urange :: "u32 \<Rightarrow> u32 \<Rightarrow> u32 list" where
  "urange a b = map of_nat [unat a..<unat b]"

section \<open>Runs\<close>

text \<open>The blended pixel is computed again only when the frame buffer's pixel changes.\<close>

definition shade :: "madam_unit \<Rightarrow> u16 \<Rightarrow> u16 \<Rightarrow> u32 \<Rightarrow> u32 \<times> u32 \<Rightarrow> u32 \<times> u32" where
  "shade u curpix lamv next = (\<lambda>(curr, pixel).
     if next \<noteq> curr then (next, PPROJ_OUTPUT u (PPROC u (ucast curpix) next (ucast lamv))) else (curr, pixel))"

definition TexelDrawLine :: "u16 \<Rightarrow> u16 \<Rightarrow> u32 \<Rightarrow> u32 \<Rightarrow> u32 \<Rightarrow> gfx \<Rightarrow> gfx" where
  "TexelDrawLine curpix lamv xcur ycur cnt = (\<lambda>(u, m).
     let u = u\<lparr>g_CEL_PIXELS_DRAWN := g_CEL_PIXELS_DRAWN u + (if 0 <s cnt then scast cnt else 0)\<rparr>;
         dx = sar16 (HDX1616 (CELMAP u)); dy = sar16 (HDY1616 (CELMAP u));
         (_, m) = fold (\<lambda>i (s, m).
           let x = sar16 xcur + i * dx; y = sar16 ycur + i * dy;
               next = ucast (opera_mem_read16 m (mreg REGCTL2 u + XY2OFF x y (rmod (MADAM u))));
               s = shade u curpix lamv next s
           in (s, opera_mem_write16 (mreg REGCTL3 u + XY2OFF x y (wmod (MADAM u))) (ucast (snd s)) m))
           (srange 0 cnt) ((0xFFFFFFFF, 0), m)
     in (u, m))"

section \<open>Rectangles\<close>

text \<open>True for the result -1, which ends the row.\<close>

definition scale_outside :: "u32 \<Rightarrow> u32 \<Rightarrow> u32 \<Rightarrow> u32 \<Rightarrow> madam_unit \<Rightarrow> bool" where
  "scale_outside xcur ycur deltax deltay u \<longleftrightarrow>
     (let g = CELMAP u; cx = clipx (MADAM u); cy = clipy (MADAM u)
      in HDX1616 g <s 0 \<and> deltax <s 0 \<and> xcur <s 0 \<or> HDY1616 g <s 0 \<and> deltay <s 0 \<and> ycur <s 0 \<or>
         0 <s HDX1616 g \<and> cx <s deltax \<and> cx <s xcur \<or> 0 <s HDY1616 g \<and> cy <s deltay \<and> cy <s ycur)"

definition TexelDrawScale :: "u16 \<Rightarrow> u16 \<Rightarrow> u32 \<Rightarrow> u32 \<Rightarrow> u32 \<Rightarrow> u32 \<Rightarrow> gfx \<Rightarrow> bool \<times> gfx" where
  "TexelDrawScale curpix lamv xcur ycur deltax deltay s =
     (let u = fst s; g = CELMAP u in
      if scale_outside xcur ycur deltax deltay u then (True, s)
      else if xcur = deltax then (False, s)
      else
        (let pixel = (\<lambda>(x, y) s.
               if clipping (fst s) x y then (False, s)
               else (flag_is_set (CCBFLAGS (CEL u)) CCB_MARIA, process_pixel x y (ucast curpix) (ucast lamv) s))
         in (False, snd (foldb pixel
              [(x, y). y \<leftarrow> steps ycur deltay (TEXEL_INCY g), x \<leftarrow> steps xcur deltax (TEXEL_INCX g)] s))))"

section \<open>Quadrilaterals\<close>

text \<open>Where the scan line \<open>y\<close> crosses an edge, with the direction of the edge (1 down, 0 up).\<close>

definition crossing :: "u32 \<Rightarrow> u32 \<times> u32 \<Rightarrow> u32 \<times> u32 \<Rightarrow> (u32 \<times> bool) list" where
  "crossing y = (\<lambda>(x0, y0) (x1, y1).
     let at = (\<lambda>x0 y0 x1 y1. word_of_int (c_div (sint ((x1 - x0) * (y - y0))) (sint (y1 - y0))) + x0)
     in if y <s y1 \<and> y0 <=s y then [(at x0 y0 x1 y1, True)]
        else if y1 <=s y \<and> y <s y0 then [(at x1 y1 x0 y0, False)]
        else [])"

text \<open>The crossings that \<open>cnt_cross\<close> counts, and what the arrays \<open>xpoints\<close> and \<open>updowns\<close> hold: the
  last edge is looked at only when an odd number of the others is crossed.\<close>

definition crossings3 :: "u32 \<Rightarrow> u32 \<times> u32 \<Rightarrow> u32 \<times> u32 \<Rightarrow> u32 \<times> u32 \<Rightarrow> u32 \<times> u32 \<Rightarrow> (u32 \<times> bool) list" where
  "crossings3 y A B C D = crossing y A B @ crossing y B C @ crossing y C D"

definition crossings :: "u32 \<Rightarrow> u32 \<times> u32 \<Rightarrow> u32 \<times> u32 \<Rightarrow> u32 \<times> u32 \<Rightarrow> u32 \<times> u32 \<Rightarrow> (u32 \<times> bool) list" where
  "crossings y A B C D =
     (let cs = crossings3 y A B C D in if odd (length cs) then cs @ crossing y D A else cs)"

text \<open>What a scan keeps: the last frame buffer pixel with its blend, and the drawing.\<close>

type_synonym scan = "(u32 \<times> u32) \<times> gfx"

text \<open>The row of pixels between two crossings; true for the \<open>return\<close> of a \<open>CCB_MARIA\<close> cel.\<close>

definition draw_span :: "u16 \<Rightarrow> u16 \<Rightarrow> bool \<Rightarrow> bool \<Rightarrow> u32 \<Rightarrow> u32 \<Rightarrow> u32 \<Rightarrow> u32 \<Rightarrow> scan \<Rightarrow> bool \<times> scan" where
  "draw_span curpix lamv hires draw maxxt y x0 x1 = (\<lambda>(sh, u, m).
     let maria = flag_is_set (CCBFLAGS (CEL u)) CCB_MARIA;
         x = (if x0 <s 0 then 0 else x0);
         maxx = (if maxxt <s x1 + 1 then maxxt else x1 + 1);
         u = (if x <s maxx \<and> \<not> hires
              then u\<lparr>g_CEL_PIXELS_DRAWN := g_CEL_PIXELS_DRAWN u + (if maria then 1 else scast (maxx - x))\<rparr> else u)
     in if \<not> draw then (x <s maxx \<and> maria, sh, u, m)
        else foldb (\<lambda>x (sh, s).
               let sh = shade u curpix lamv (ucast (readPIX x y s)) sh
               in (maria, sh, writePIX x y (ucast (snd sh)) s)) (srange x maxx) (sh, u, m))"

definition winding_drawn :: "madam_unit \<Rightarrow> bool \<Rightarrow> bool" where
  "winding_drawn u updown \<longleftrightarrow>
     flag_is_set (CCBFLAGS (CEL u)) CCB_ACW \<and> \<not> updown \<or> flag_is_set (CCBFLAGS (CEL u)) CCB_ACCW \<and> updown"

definition scan_row :: "u16 \<Rightarrow> u16 \<Rightarrow> bool \<Rightarrow> bool \<Rightarrow> u32 \<Rightarrow> (u32 \<times> u32) \<Rightarrow> (u32 \<times> u32) \<Rightarrow> (u32 \<times> u32) \<Rightarrow> (u32 \<times> u32) \<Rightarrow>
    u32 \<Rightarrow> scan \<Rightarrow> bool \<times> scan" where
  "scan_row curpix lamv hires draw maxxt A B C D y s =
     (let cnt = length (crossings3 y A B C D); ps = crossings y A B C D; u = fst (snd s) in
      if cnt = 0 then (False, s)
      else
        (let (p0, p1) = (if fst (ps ! 1) <s fst (ps ! 0) then (ps ! 1, ps ! 0) else (ps ! 0, ps ! 1));
             (stop, s) = (if cnt > 2 \<and> winding_drawn u (snd (ps ! 2))
                          then draw_span curpix lamv hires draw maxxt y (fst (ps ! 2)) (fst (ps ! 3)) s else (False, s))
         in if stop then (True, s)
            else if winding_drawn u (snd p0) then draw_span curpix lamv hires draw maxxt y (fst p0) (fst p1) s
            else (False, s)))"

text \<open>The tests that end the row of texels, in their order.\<close>

definition quad_outside :: "u32 \<Rightarrow> u32 \<Rightarrow> (u32 \<times> u32) list \<Rightarrow> cel_map \<Rightarrow> bool" where
  "quad_outside maxxt maxyt ps g \<longleftrightarrow>
     HDX1616 g <s 0 \<and> HDDX1616 g <s 0 \<and> (\<forall>(x, y) \<in> set ps. x <s 0) \<or>
     0 <s HDX1616 g \<and> 0 <s HDDX1616 g \<and> (\<forall>(x, y) \<in> set ps. maxxt <=s x) \<or>
     HDY1616 g <s 0 \<and> HDDY1616 g <s 0 \<and> (\<forall>(x, y) \<in> set ps. y <s 0) \<or>
     0 <s HDY1616 g \<and> 0 <s HDDY1616 g \<and> (\<forall>(x, y) \<in> set ps. maxyt <=s y)"

definition smin :: "u32 \<Rightarrow> u32 \<Rightarrow> u32" where "smin a b = (if b <s a then b else a)"
definition smax :: "u32 \<Rightarrow> u32 \<Rightarrow> u32" where "smax a b = (if a <s b then b else a)"

definition rasterize_arbitrary :: "u16 \<Rightarrow> u16 \<Rightarrow> (u32 \<times> u32) \<Rightarrow> (u32 \<times> u32) \<Rightarrow> (u32 \<times> u32) \<Rightarrow> (u32 \<times> u32) \<Rightarrow> bool \<Rightarrow> bool \<Rightarrow>
    gfx \<Rightarrow> bool \<times> gfx" where
  "rasterize_arbitrary curpix lamv A B C D hires draw s =
     (let u = fst s; k = (if hires then 1 else 0);
          sh = (\<lambda>(x, y). (signed_drop_bit (16 - k) x, signed_drop_bit (16 - k) y));
          A = sh A; B = sh B; C = sh C; D = sh D;
          maxxt = push_bit k (clipx (MADAM u) + 1);
          maxyt = push_bit k (clipy (MADAM u) + 1)
      in if fst A = fst B \<and> fst B = fst C \<and> fst C = fst D then (False, s)
         else if quad_outside maxxt maxyt [A, B, C, D] (CELMAP u) then (True, s)
         else
           (let miny = smin (smin (smin (snd A) (snd B)) (snd C)) (snd D);
                maxy = smax (smax (smax (snd A) (snd B)) (snd C)) (snd D);
                y = (if miny <s 0 then 0 else miny);
                maxyt = (if maxy <s maxyt then maxy else maxyt)
            in (False, snd (snd (foldb (scan_row curpix lamv hires draw maxxt A B C D) (srange y maxyt)
                 ((0xFFFFFFFF, 0), s))))))"

definition TexelDrawArbitrary :: "u16 \<Rightarrow> u16 \<Rightarrow> (u32 \<times> u32) \<Rightarrow> (u32 \<times> u32) \<Rightarrow> (u32 \<times> u32) \<Rightarrow> (u32 \<times> u32) \<Rightarrow> gfx \<Rightarrow> bool \<times> gfx" where
  "TexelDrawArbitrary curpix lamv A B C D = (\<lambda>(u, m).
     let u = u\<lparr>g_CEL_TEXELS_WALKED := g_CEL_TEXELS_WALKED u + 1\<rparr>;
         (result, s) = rasterize_arbitrary curpix lamv A B C D False (\<not> HIRESMODE m) (u, m)
     in (result, if HIRESMODE m then snd (rasterize_arbitrary curpix lamv A B C D True True s) else s))"

end
