(* ===== verification/Opera_Cel_Draw.thy ===== *)
theory Opera_Cel_Draw
  imports Opera_Cel_Raster
begin

text \<open>
  Drawing an unpacked cel, from \<open>src/libopera/opera_madam.c\<close>: \<open>DrawLiteralCel\<close>, whose texels come
  from the bit reader row by row, and \<open>DrawLRCel\<close>, whose 16 bit texels lie like a frame buffer.
  Their inner loops are the same, over a source of texels.
\<close>

section \<open>Position registers\<close>

definition LoadXYPosFromRegisters :: "madam_unit \<Rightarrow> madam_unit" where
  "LoadXYPosFromRegisters u =
     (let h = mreg XYPOSH u; l = mreg XYPOSL u
      in on_map (\<lambda>g. g\<lparr>XPOS1616 := (h AND 0xFFFF0000) OR (drop_bit 16 l AND 0xFFFF),
           YPOS1616 := push_bit 16 (h AND 0x0000FFFF) OR (l AND 0xFFFF)\<rparr>) u)"

definition StoreXYPosToRegisters :: "u32 \<Rightarrow> u32 \<Rightarrow> madam_unit \<Rightarrow> madam_unit" where
  "StoreXYPosToRegisters x y u =
     (let u = set_mreg XYPOSH ((x AND 0xFFFF0000) OR (drop_bit 16 y AND 0xFFFF)) u;
          u = set_mreg XYPOSL (push_bit 16 (x AND 0xFFFF) OR (y AND 0xFFFF)) u
      in on_map (\<lambda>g. g\<lparr>XPOS1616 := x, YPOS1616 := y\<rparr>) u)"

definition StoreXYPosFromDrawHeight :: "u32 \<Rightarrow> u32 \<Rightarrow> u32 \<Rightarrow> u32 \<Rightarrow> u32 \<Rightarrow> madam_unit \<Rightarrow> madam_unit" where
  "StoreXYPosFromDrawHeight x y vdx vdy rows = StoreXYPosToRegisters (x + vdx * rows) (y + vdy * rows)"

section \<open>Texels\<close>

definition BPP :: "u32 list" where
  "BPP = [1, 1, 2, 4, 6, 8, 16, 1]"

definition cel_bpp :: "madam_unit \<Rightarrow> u32" where
  "cel_bpp u = BPP ! unat (PRE0 (CEL u) AND 7)"

definition on_bits :: "(BitReaderBig \<Rightarrow> BitReaderBig) \<Rightarrow> gfx \<Rightarrow> gfx" where
  "on_bits f = (\<lambda>(u, m). (u\<lparr>bitoper := f (bitoper u)\<rparr>, m))"

definition read_bits :: "bool \<Rightarrow> u32 \<Rightarrow> gfx \<Rightarrow> u32 \<times> gfx" where
  "read_bits lrform n = (\<lambda>(u, m).
     let (v, r) = (if lrform then BitReaderBig_ReadLRForm m (ucast n) (bitoper u)
                   else BitReaderBig_Read m (ucast n) (bitoper u))
     in (v, u\<lparr>bitoper := r\<rparr>, m))"

text \<open>A decoded texel: \<open>CURPIX\<close>, \<open>LAMV\<close>, and what decoding changed.\<close>

definition decode :: "u32 \<Rightarrow> gfx \<Rightarrow> u16 \<times> u16 \<times> gfx" where
  "decode v = (\<lambda>(u, m). let (p, a, u) = PDEC v u in (p, a, u, m))"

definition read_texel :: "bool \<Rightarrow> u32 \<Rightarrow> gfx \<Rightarrow> u16 \<times> u16 \<times> gfx" where
  "read_texel lrform bpp s = (let (v, s) = read_bits lrform bpp s in decode v s)"

abbreviation transparent :: "gfx \<Rightarrow> bool" where
  "transparent s \<equiv> Transparent (pproj (CEL (fst s)))"

abbreviation gmap :: "gfx \<Rightarrow> cel_map" where
  "gmap s \<equiv> CELMAP (fst s)"

definition line_row :: "(u32 \<Rightarrow> gfx \<Rightarrow> u16 \<times> u16 \<times> gfx) \<Rightarrow> u32 list \<Rightarrow> u32 \<times> u32 \<times> gfx \<Rightarrow> u32 \<times> u32 \<times> gfx" where
  "line_row texel = fold (\<lambda>j (xcur, ycur, s).
     let (p, a, s) = texel j s;
         s = (if transparent s then s else process_pixel (sar16 xcur) (sar16 ycur) (ucast p) (ucast a) s)
     in (xcur + HDX1616 (gmap s), ycur + HDY1616 (gmap s), s))"

definition scale_row :: "(u32 \<Rightarrow> gfx \<Rightarrow> u16 \<times> u16 \<times> gfx) \<Rightarrow> u32 list \<Rightarrow> u32 \<times> u32 \<times> gfx \<Rightarrow> bool \<times> u32 \<times> u32 \<times> gfx" where
  "scale_row texel = foldb (\<lambda>j (xcur, ycur, s).
     let (p, a, s) = texel j s; g = gmap s;
         (stop, s) = (if transparent s then (False, s)
                      else TexelDrawScale p a (sar16 xcur) (sar16 ycur) (sar16 (xcur + HDX1616 g + VDX1616 g))
                             (sar16 (ycur + HDY1616 g + VDY1616 g)) s)
     in (stop, if stop then (xcur, ycur, s) else (xcur + HDX1616 (gmap s), ycur + HDY1616 (gmap s), s)))"

text \<open>The corners of the current texel: \<open>hdx\<close> and \<open>hdy\<close> step along the row's upper edge, the
  already advanced \<open>HDX1616\<close> and \<open>HDY1616\<close> along its lower edge.\<close>

definition draw_quad :: "u16 \<Rightarrow> u16 \<Rightarrow> u32 \<Rightarrow> u32 \<Rightarrow> u32 \<Rightarrow> u32 \<Rightarrow> u32 \<Rightarrow> u32 \<Rightarrow> gfx \<Rightarrow> bool \<times> gfx" where
  "draw_quad p a hdx hdy xcur ycur xdown ydown s =
     TexelDrawArbitrary p a (xcur, ycur) (xcur + hdx, ycur + hdy)
       (xdown + HDX1616 (gmap s), ydown + HDY1616 (gmap s)) (xdown, ydown) s"

definition quad_row :: "(u32 \<Rightarrow> gfx \<Rightarrow> u16 \<times> u16 \<times> gfx) \<Rightarrow> u32 \<Rightarrow> u32 \<Rightarrow> u32 list \<Rightarrow>
    u32 \<times> u32 \<times> u32 \<times> u32 \<times> gfx \<Rightarrow> bool \<times> u32 \<times> u32 \<times> u32 \<times> u32 \<times> gfx" where
  "quad_row texel hdx hdy = foldb (\<lambda>j (xcur, ycur, xdown, ydown, s).
     let (p, a, s) = texel j s;
         (stop, s) = (if transparent s then (False, s) else draw_quad p a hdx hdy xcur ycur xdown ydown s)
     in (stop, if stop then (xcur, ycur, xdown, ydown, s)
          else (xcur + hdx, ycur + hdy, xdown + HDX1616 (gmap s), ydown + HDY1616 (gmap s), s)))"

text \<open>\<open>HDX1616 += HDDX1616; HDY1616 += HDDY1616\<close>.\<close>

definition shear :: "gfx \<Rightarrow> gfx" where
  "shear = (\<lambda>(u, m). (on_map (\<lambda>g. g\<lparr>HDX1616 := HDX1616 g + HDDX1616 g, HDY1616 := HDY1616 g + HDDY1616 g\<rparr>) u, m))"

section \<open>Unpacked cels\<close>

definition set_size :: "u32 \<Rightarrow> u32 \<Rightarrow> madam_unit \<Rightarrow> madam_unit" where
  "set_size w h = on_map (\<lambda>g. g\<lparr>SPRWI := w, SPRHI := h\<rparr>)"

definition row_count :: "madam_unit \<Rightarrow> u32" where
  "row_count u = drop_bit 6 (PRE0 (CEL u) AND 0xFFC0)"

definition word_offset :: "madam_unit \<Rightarrow> u32" where
  "word_offset u =
     (if cel_bpp u < 8 then drop_bit 24 (PRE1 (CEL u) AND 0xFF000000)
      else drop_bit 16 (PRE1 (CEL u) AND 0x03FF0000))"

text \<open>The rows of a cel that is drawn: from the first position on, with the source of a row's texels
  and what prepares it.\<close>

definition clip_width :: "gfx \<Rightarrow> gfx" where
  "clip_width = (\<lambda>(u, m).
     (on_map (\<lambda>g. if TEXTURE_WI_LIM g <s SPRWI g then g\<lparr>SPRWI := TEXTURE_WI_LIM g\<rparr> else g) u, m))"

definition line_rows :: "(u32 \<Rightarrow> gfx \<Rightarrow> gfx) \<Rightarrow> (u32 \<Rightarrow> u32 \<Rightarrow> gfx \<Rightarrow> u16 \<times> u16 \<times> gfx) \<Rightarrow> (u32 \<Rightarrow> u32 \<Rightarrow> u32 list) \<Rightarrow>
    gfx \<Rightarrow> gfx" where
  "line_rows attach texel rng s =
     (let g = gmap s;
          start = (XPOS1616 g + TEXTURE_HI_START g * VDX1616 g, YPOS1616 g + TEXTURE_HI_START g * VDY1616 g);
          s = clip_width s;
          (_, _, s) = fold (\<lambda>i (xvert, yvert, s).
            let g = gmap s; s = attach i s;
                (_, _, s) = line_row (texel i) (rng (TEXTURE_WI_START g) (SPRWI g))
                  (xvert + TEXTURE_WI_START g * HDX1616 g, yvert + TEXTURE_WI_START g * HDY1616 g, s)
            in (xvert + VDX1616 g, yvert + VDY1616 g, s))
            (rng (TEXTURE_HI_START g) (TEXTURE_HI_LIM g)) (fst start, snd start, s)
      in s)"

definition scale_rows :: "(u32 \<Rightarrow> gfx \<Rightarrow> gfx) \<Rightarrow> (u32 \<Rightarrow> u32 \<Rightarrow> gfx \<Rightarrow> u16 \<times> u16 \<times> gfx) \<Rightarrow> (u32 \<Rightarrow> u32 \<Rightarrow> u32 list) \<Rightarrow>
    gfx \<Rightarrow> gfx" where
  "scale_rows attach texel rng s =
     (let (_, _, s) = fold (\<lambda>i (xvert, yvert, s).
            let g = gmap s; (_, _, _, s) = scale_row (texel i) (rng 0 (SPRWI g)) (xvert, yvert, attach i s)
            in (xvert + VDX1616 g, yvert + VDY1616 g, s))
            (rng 0 (SPRHI (gmap s))) (XPOS1616 (gmap s), YPOS1616 (gmap s), s)
      in s)"

definition quad_rows :: "(u32 \<Rightarrow> gfx \<Rightarrow> gfx) \<Rightarrow> (u32 \<Rightarrow> u32 \<Rightarrow> gfx \<Rightarrow> u16 \<times> u16 \<times> gfx) \<Rightarrow> (u32 \<Rightarrow> u32 \<Rightarrow> u32 list) \<Rightarrow>
    gfx \<Rightarrow> gfx" where
  "quad_rows attach texel rng s =
     (let (_, _, s) = fold (\<lambda>i (xvert, yvert, s).
            let g = gmap s; xdown = xvert + VDX1616 g; ydown = yvert + VDY1616 g;
                (_, _, _, _, _, s) = quad_row (texel i) (HDX1616 g) (HDY1616 g) (rng 0 (SPRWI g))
                  (xvert, yvert, xdown, ydown, attach i (shear s))
            in (xdown, ydown, s))
            (rng 0 (SPRHI (gmap s))) (XPOS1616 (gmap s), YPOS1616 (gmap s), s)
      in s)"

definition draw_rows :: "(u32 \<Rightarrow> gfx \<Rightarrow> gfx) \<Rightarrow> (u32 \<Rightarrow> u32 \<Rightarrow> gfx \<Rightarrow> u16 \<times> u16 \<times> gfx) \<Rightarrow> (u32 \<Rightarrow> u32 \<Rightarrow> u32 list) \<Rightarrow>
    gfx \<Rightarrow> gfx" where
  "draw_rows attach texel rng s =
     (case TEXEL_DRAW_FUNC (gmap s) of
        TEXEL_DRAW_FUNC_LINE \<Rightarrow> line_rows attach texel rng s
      | TEXEL_DRAW_FUNC_SCALE \<Rightarrow> scale_rows attach texel rng s
      | TEXEL_DRAW_FUNC_ARBITRARY \<Rightarrow> quad_rows attach texel rng s)"

text \<open>The test for visibility, the drawing unless it says no, and the position left behind.\<close>

definition draw_visible :: "bool \<Rightarrow> (gfx \<Rightarrow> gfx) \<Rightarrow> gfx \<Rightarrow> gfx" where
  "draw_visible packed draw = (\<lambda>(u, m).
     let g = CELMAP u; (out, u) = TestInitVisual packed u; (u, m) = (if out then (u, m) else draw (u, m))
     in (StoreXYPosFromDrawHeight (XPOS1616 g) (YPOS1616 g) (VDX1616 g) (VDY1616 g) (SPRHI (CELMAP u)) u, m))"

text \<open>The bit reader at the first texel to draw of row \<open>i\<close>. Only the line loop skips the columns
  outside the clipping window; the others leave \<open>TEXTURE_WI_START\<close> zero.\<close>

definition attach_row :: "bool \<Rightarrow> u32 \<Rightarrow> u32 \<Rightarrow> u32 \<Rightarrow> u32 \<Rightarrow> u32 \<Rightarrow> gfx \<Rightarrow> gfx" where
  "attach_row lrform source_base row_bytes bpp skipx i s =
     (let wi = (case TEXEL_DRAW_FUNC (gmap s) of TEXEL_DRAW_FUNC_LINE \<Rightarrow> TEXTURE_WI_START (gmap s) | _ \<Rightarrow> 0);
          s = on_bits (BitReaderBig_AttachBuffer
                (source_base + (if lrform then XY2OFF 0 i row_bytes else row_bytes * i))) s;
          s = on_bits (BitReaderBig_Skip (bpp * skipx)) s
      in if wi \<noteq> 0 then on_bits (BitReaderBig_Skip (bpp * wi)) s else s)"

definition DrawLiteralCel :: "gfx \<Rightarrow> gfx" where
  "DrawLiteralCel = (\<lambda>(u, m).
     let c = CEL u; bpp = cel_bpp u; lrform = flag_is_set (PRE1 c) PRE1_LRFORM;
         row_bytes = push_bit 2 (word_offset u + 2);
         skipx = drop_bit 24 (PRE0 c AND 0x0F000000);
         source_base = mreg PDATA u;
         source_width = 1 + (PRE1 c AND 0x7FF);
         sprhi = 1 + row_count u;
         u = on_map (\<lambda>g. g\<lparr>SPRHI := (if lrform then push_bit 1 sprhi else sprhi)\<rparr>) u;
         g = CELMAP u
     in if skipx \<ge> source_width then
          (let u = on_map (\<lambda>g. g\<lparr>SPRWI := 0, HDX1616 := HDX1616 g + HDDX1616 g * SPRHI g,
                     HDY1616 := HDY1616 g + HDDY1616 g * SPRHI g\<rparr>) u
           in (StoreXYPosFromDrawHeight (XPOS1616 g) (YPOS1616 g) (VDX1616 g) (VDY1616 g) (SPRHI g) u, m))
        else
          draw_visible False
            (draw_rows (attach_row lrform source_base row_bytes bpp skipx) (\<lambda>i j. read_texel lrform bpp) urange)
            (on_map (\<lambda>g. g\<lparr>SPRWI := source_width - skipx\<rparr>) u, m))"

text \<open>\<open>PDATA\<close> is a register, read again for every texel; nothing the drawing does changes it.\<close>

definition lr_texel :: "u32 \<Rightarrow> u32 \<Rightarrow> u32 \<Rightarrow> gfx \<Rightarrow> u16 \<times> u16 \<times> gfx" where
  "lr_texel offset i j s =
     decode (ucast (opera_mem_read16 (snd s) (mreg PDATA (fst s) + XY2OFF j i (push_bit 2 offset)))) s"

definition DrawLRCel :: "gfx \<Rightarrow> gfx" where
  "DrawLRCel = (\<lambda>(u, m).
     let offset = word_offset u + 2
     in draw_visible False (draw_rows (\<lambda>i s. s) (lr_texel offset) srange)
          (set_size (1 + (PRE1 (CEL u) AND 0x7FF)) (push_bit 1 (row_count u) + 2) u, m))"

end
