(* ===== verification/Opera_Cel_Packed.thy ===== *)
theory Opera_Cel_Packed
  imports Opera_Cel_Draw
begin

text \<open>
  Packed cels, \<open>DrawPackedCel\<close> of \<open>src/libopera/opera_madam.c\<close>: each row is a stream of packets,
  read until one ends the row or its bytes run out. The loop over the packets of a row is a
  partial function: None is a loop that does not end.
\<close>

section \<open>Packets\<close>

abbreviation (input) PACK_EOL :: u32 where "PACK_EOL \<equiv> 0"
abbreviation (input) PACK_LITERAL :: u32 where "PACK_LITERAL \<equiv> 1"
abbreviation (input) PACK_TRANSPARENT :: u32 where "PACK_TRANSPARENT \<equiv> 2"
abbreviation (input) PACK_PACKED :: u32 where "PACK_PACKED \<equiv> 3"

definition PackedSkipPixels :: "u32 \<Rightarrow> u32 \<Rightarrow> u32 \<Rightarrow> u32 \<Rightarrow> gfx \<Rightarrow> u32 \<times> u32 \<times> gfx" where
  "PackedSkipPixels type pixel_count skip_pixels bpp s =
     (if skip_pixels = 0 \<or> pixel_count = 0 \<or> type = PACK_EOL then (pixel_count, skip_pixels, s)
      else
        (let skipped = (if skip_pixels < pixel_count then skip_pixels else pixel_count);
             s = (if type = PACK_LITERAL then on_bits (BitReaderBig_Skip (bpp * skipped)) s
                  else if type = PACK_PACKED \<and> skipped = pixel_count then on_bits (BitReaderBig_Skip bpp) s
                  else s)
         in (pixel_count - skipped, skip_pixels - skipped, s)))"

text \<open>The locals of a row: the position on its upper and its lower edge, the source pixels still to
  skip, the two counters of the line loop, and the drawing. \<open>pk_end\<close> is \<open>lastaddr\<close>.\<close>

record packed_row =
  pk_data :: u32
  pk_end :: u32
  pk_bpp :: u32
  pk_hdx :: u32
  pk_hdy :: u32
  pk_x :: u32
  pk_y :: u32
  pk_xdown :: u32
  pk_ydown :: u32
  pk_skip :: u32
  pk_scipw :: u32
  pk_wcnt :: u32
  pk_gfx :: gfx

abbreviation pk_map :: "packed_row \<Rightarrow> cel_map" where
  "pk_map r \<equiv> gmap (pk_gfx r)"

text \<open>The type and the length of the next packet. \<open>ended\<close> compares the reader's address with the
  end of the row; the line loop compares signed, the two others unsigned.\<close>

definition packet_header :: "(u32 \<Rightarrow> u32 \<Rightarrow> bool) \<Rightarrow> packed_row \<Rightarrow> u32 \<times> u32 \<times> packed_row" where
  "packet_header ended r =
     (let (type, s) = read_bits False 2 (pk_gfx r);
          type = (if ended (br_point (bitoper (fst s)) + pk_data r) (pk_end r) then PACK_EOL else type);
          (n, s) = read_bits False 6 s;
          pixel_count = n + 1
      in if pk_skip r \<noteq> 0 then
           (let (pixel_count, skip, s) = PackedSkipPixels type pixel_count (pk_skip r) (pk_bpp r) s
            in (type, pixel_count, r\<lparr>pk_skip := skip, pk_gfx := s\<rparr>))
         else (type, pixel_count, r\<lparr>pk_gfx := s\<rparr>))"

definition pk_skip_bits :: "u32 \<Rightarrow> packed_row \<Rightarrow> packed_row" where
  "pk_skip_bits n r = r\<lparr>pk_gfx := on_bits (BitReaderBig_Skip n) (pk_gfx r)\<rparr>"

text \<open>\<open>xcur += HDX1616 * n; ycur += HDY1616 * n\<close>.\<close>

definition pk_advance :: "u32 \<Rightarrow> packed_row \<Rightarrow> packed_row" where
  "pk_advance n r = r\<lparr>pk_x := pk_x r + HDX1616 (pk_map r) * n, pk_y := pk_y r + HDY1616 (pk_map r) * n\<rparr>"

text \<open>The same on both edges of a sheared row.\<close>

definition pk_advance2 :: "u32 \<Rightarrow> packed_row \<Rightarrow> packed_row" where
  "pk_advance2 n r =
     r\<lparr>pk_x := pk_x r + pk_hdx r * n, pk_y := pk_y r + pk_hdy r * n,
       pk_xdown := pk_xdown r + HDX1616 (pk_map r) * n, pk_ydown := pk_ydown r + HDY1616 (pk_map r) * n\<rparr>"

definition pk_texel :: "packed_row \<Rightarrow> u16 \<times> u16 \<times> packed_row" where
  "pk_texel r = (let (p, a, s) = read_texel False (pk_bpp r) (pk_gfx r) in (p, a, r\<lparr>pk_gfx := s\<rparr>))"

section \<open>Rows at the cel's own size\<close>

definition line_literal :: "u32 \<Rightarrow> packed_row \<Rightarrow> packed_row" where
  "line_literal n r =
     (let (x, y, s) = line_row (\<lambda>_. read_texel False (pk_bpp r)) (urange 0 n) (pk_x r, pk_y r, pk_gfx r)
      in r\<lparr>pk_x := x, pk_y := y, pk_gfx := s\<rparr>)"

definition line_packed :: "u32 \<Rightarrow> packed_row \<Rightarrow> packed_row" where
  "line_packed n r =
     (let (p, a, r) = pk_texel r;
          r = (if transparent (pk_gfx r) then r
               else r\<lparr>pk_gfx := TexelDrawLine p a (pk_x r) (pk_y r) n (pk_gfx r)\<rparr>)
      in pk_advance n r)"

text \<open>What follows the columns to skip: the packet cut at the edge of the window, drawn. The first
  component says whether the loop goes on.\<close>

definition line_packet :: "u32 \<Rightarrow> u32 \<Rightarrow> packed_row \<Rightarrow> bool \<times> packed_row" where
  "line_packet type n r =
     (let lim = TEXTURE_WI_LIM (pk_map r);
          r = r\<lparr>pk_wcnt := pk_wcnt r + n\<rparr>;
          n = (if lim <s pk_wcnt r then n - (pk_wcnt r - lim) else n);
          r = (if type = PACK_LITERAL then line_literal n r
               else if type = PACK_TRANSPARENT then pk_advance n r
               else if type = PACK_PACKED then line_packed n r
               else r)
      in (\<not> (type = PACK_EOL \<or> lim <=s pk_wcnt r), r))"

definition line_step :: "packed_row \<Rightarrow> bool \<times> packed_row" where
  "line_step r =
     (let skipping = pk_skip r \<noteq> 0;
          (type, n, r) = packet_header (\<lambda>a e. e <=s a) r in
      if skipping \<and> n = 0 then (True, r)
      else if pk_scipw r = 0 then line_packet type n r
      else if type = PACK_EOL then (False, r)
      else if n <=s pk_scipw r then
        (let r = pk_advance n (r\<lparr>pk_scipw := pk_scipw r - n\<rparr>);
             r = (if type = PACK_LITERAL then pk_skip_bits (pk_bpp r * n) r
                  else if type = PACK_PACKED then pk_skip_bits (pk_bpp r) r else r)
         in (True, r))
      else
        (let r' = pk_advance (pk_scipw r) r;
             r' = (if type = PACK_LITERAL then pk_skip_bits (pk_bpp r * pk_scipw r) r' else r')
         in line_packet type (n - pk_scipw r) (r'\<lparr>pk_scipw := 0\<rparr>)))"

section \<open>Scaled rows\<close>

definition pk_draw_scale :: "u16 \<Rightarrow> u16 \<Rightarrow> u32 \<Rightarrow> packed_row \<Rightarrow> bool \<times> packed_row" where
  "pk_draw_scale p a n r =
     (let g = pk_map r;
          (stop, s) = TexelDrawScale p a (sar16 (pk_x r)) (sar16 (pk_y r))
            (sar16 (pk_x r + HDX1616 g * n + VDX1616 g)) (sar16 (pk_y r + HDY1616 g * n + VDY1616 g)) (pk_gfx r)
      in (stop, r\<lparr>pk_gfx := s\<rparr>))"

text \<open>The loops give the \<open>pixel_count\<close> they leave.\<close>

primrec scale_literal :: "nat \<Rightarrow> packed_row \<Rightarrow> nat \<times> packed_row" where
  "scale_literal 0 r = (0, r)"
| "scale_literal (Suc n) r =
     (let (p, a, r) = pk_texel r;
          (stop, r) = (if transparent (pk_gfx r) then (False, r) else pk_draw_scale p a 1 r)
      in if stop then (n, r) else scale_literal n (pk_advance 1 r))"

primrec scale_maria :: "u16 \<Rightarrow> u16 \<Rightarrow> nat \<Rightarrow> packed_row \<Rightarrow> nat \<times> packed_row" where
  "scale_maria p a 0 r = (0, r)"
| "scale_maria p a (Suc n) r =
     (let (stop, r) = pk_draw_scale p a 1 r
      in if stop then (Suc n, r) else scale_maria p a n (pk_advance 1 r))"

definition scale_packed :: "nat \<Rightarrow> packed_row \<Rightarrow> nat \<times> packed_row" where
  "scale_packed n r =
     (let (p, a, r) = pk_texel r in
      if transparent (pk_gfx r) then (0, pk_advance (of_nat n) r)
      else if flag_is_set (CCBFLAGS (CEL (fst (pk_gfx r)))) CCB_MARIA then scale_maria p a n r
      else
        (let (stop, r) = pk_draw_scale p a (of_nat n) r
         in if stop then (n, r) else (0, pk_advance (of_nat n) r)))"

definition scale_step :: "packed_row \<Rightarrow> bool \<times> packed_row" where
  "scale_step r =
     (let skipping = pk_skip r \<noteq> 0;
          (type, n, r) = packet_header (\<lambda>a e. e \<le> a) r in
      if skipping \<and> n = 0 then (True, r)
      else
        (let (left, r) = (if type = PACK_LITERAL then scale_literal (unat n) r
                          else if type = PACK_TRANSPARENT then (0, pk_advance n r)
                          else if type = PACK_PACKED then scale_packed (unat n) r
                          else (unat n, r))
         in (\<not> (type = PACK_EOL \<or> left \<noteq> 0), r)))"

section \<open>Sheared rows\<close>

definition pk_draw_quad :: "u16 \<Rightarrow> u16 \<Rightarrow> packed_row \<Rightarrow> bool \<times> packed_row" where
  "pk_draw_quad p a r =
     (let (stop, s) = draw_quad p a (pk_hdx r) (pk_hdy r) (pk_x r) (pk_y r) (pk_xdown r) (pk_ydown r) (pk_gfx r)
      in (stop, r\<lparr>pk_gfx := s\<rparr>))"

primrec quad_literal :: "nat \<Rightarrow> packed_row \<Rightarrow> nat \<times> packed_row" where
  "quad_literal 0 r = (0, r)"
| "quad_literal (Suc n) r =
     (let (p, a, r) = pk_texel r;
          (stop, r) = (if transparent (pk_gfx r) then (False, r) else pk_draw_quad p a r)
      in if stop then (n, r) else quad_literal n (pk_advance2 1 r))"

primrec quad_repeat :: "u16 \<Rightarrow> u16 \<Rightarrow> nat \<Rightarrow> packed_row \<Rightarrow> nat \<times> packed_row" where
  "quad_repeat p a 0 r = (0, r)"
| "quad_repeat p a (Suc n) r =
     (let (stop, r) = pk_draw_quad p a r
      in if stop then (n, r) else quad_repeat p a n (pk_advance2 1 r))"

definition quad_packed :: "nat \<Rightarrow> packed_row \<Rightarrow> nat \<times> packed_row" where
  "quad_packed n r =
     (let (p, a, r) = pk_texel r in
      if transparent (pk_gfx r) then (0, pk_advance2 (of_nat n) r) else quad_repeat p a n r)"

definition quad_step :: "packed_row \<Rightarrow> bool \<times> packed_row" where
  "quad_step r =
     (let skipping = pk_skip r \<noteq> 0;
          (type, n, r) = packet_header (\<lambda>a e. e \<le> a) r in
      if skipping \<and> n = 0 then (True, r)
      else
        (let (left, r) = (if type = PACK_LITERAL then quad_literal (unat n) r
                          else if type = PACK_TRANSPARENT then (0, pk_advance2 n r)
                          else if type = PACK_PACKED then quad_packed (unat n) r
                          else (unat n, r))
         in (\<not> (type = PACK_EOL \<or> left \<noteq> 0), r)))"

section \<open>The rows of a cel\<close>

partial_function (option) packet_loop :: "(packed_row \<Rightarrow> bool \<times> packed_row) \<Rightarrow> packed_row \<Rightarrow> packed_row option" where
  "packet_loop step r = (let (again, r) = step r in if again then packet_loop step r else Some r)"

text \<open>A row begins with the length of its data in words less two, a byte or two.\<close>

definition open_row :: "u32 \<Rightarrow> u32 \<Rightarrow> u32 \<Rightarrow> u32 \<Rightarrow> gfx \<Rightarrow> packed_row" where
  "open_row bpp pdata x y s =
     (let s = on_bits (BitReaderBig_AttachBuffer pdata) s;
          (off, s) = read_bits False (push_bit 3 (if bpp < 8 then 1 else 2)) s
      in \<lparr>pk_data = pdata, pk_end = pdata + push_bit 2 (off + 2), pk_bpp = bpp, pk_hdx = HDX1616 (gmap s),
          pk_hdy = HDY1616 (gmap s), pk_x = x, pk_y = y, pk_xdown = x + VDX1616 (gmap s),
          pk_ydown = y + VDY1616 (gmap s), pk_skip = drop_bit 24 (PRE0 (CEL (fst s)) AND 0x0F000000),
          pk_scipw = TEXTURE_WI_START (gmap s), pk_wcnt = TEXTURE_WI_START (gmap s), pk_gfx = s\<rparr>)"

text \<open>One row: rows above the clipping window are stepped over by the line loop, and a sheared row
  advances the cel's horizontal step.\<close>

definition packed_row_step :: "u32 \<Rightarrow> u32 \<times> u32 \<times> u32 \<times> gfx \<Rightarrow> (u32 \<times> u32 \<times> u32 \<times> gfx) option" where
  "packed_row_step bpp = (\<lambda>(x, y, pdata, s).
     let r = open_row bpp pdata x y s; g = pk_map r;
         next = (\<lambda>r. (x + VDX1616 g, y + VDY1616 g, pk_end r, pk_gfx r))
     in case TEXEL_DRAW_FUNC g of
          TEXEL_DRAW_FUNC_LINE \<Rightarrow>
            (if TEXTURE_HI_START g \<noteq> 0
             then Some (next (r\<lparr>pk_gfx :=
               (on_map (\<lambda>g. g\<lparr>TEXTURE_HI_START := TEXTURE_HI_START g - 1\<rparr>) (fst (pk_gfx r)), snd (pk_gfx r))\<rparr>))
             else map_option next (packet_loop line_step r))
        | TEXEL_DRAW_FUNC_SCALE \<Rightarrow> map_option next (packet_loop scale_step r)
        | TEXEL_DRAW_FUNC_ARBITRARY \<Rightarrow> map_option next (packet_loop quad_step (r\<lparr>pk_gfx := shear (pk_gfx r)\<rparr>)))"

primrec packed_rows :: "u32 \<Rightarrow> nat \<Rightarrow> u32 \<times> u32 \<times> u32 \<times> gfx \<Rightarrow> gfx option" where
  "packed_rows bpp 0 st = Some (snd (snd (snd st)))"
| "packed_rows bpp (Suc n) st =
     (case packed_row_step bpp st of None \<Rightarrow> None | Some st \<Rightarrow> packed_rows bpp n st)"

definition DrawPackedCel :: "gfx \<Rightarrow> gfx option" where
  "DrawPackedCel = (\<lambda>(u, m).
     let pdata = mreg PDATA u; bpp = cel_bpp u;
         u = on_map (\<lambda>g. g\<lparr>SPRHI := row_count u + 1\<rparr>) u;
         g0 = CELMAP u;
         store = (\<lambda>(u, m). (StoreXYPosFromDrawHeight (XPOS1616 g0) (YPOS1616 g0) (VDX1616 g0) (VDY1616 g0)
           (SPRHI (CELMAP u)) u, m));
         (out, u) = TestInitVisual True u;
         g = CELMAP u;
         rows = (case TEXEL_DRAW_FUNC g of TEXEL_DRAW_FUNC_LINE \<Rightarrow> TEXTURE_HI_LIM g | _ \<Rightarrow> SPRHI g)
     in if out then Some (store (u, m))
        else
          (case packed_rows bpp (nat (sint rows)) (XPOS1616 g, YPOS1616 g, pdata, u, m) of
             None \<Rightarrow> None
           | Some (u, m) \<Rightarrow> Some (store (on_map (\<lambda>g. g\<lparr>SPRWI := SPRWI g + 1\<rparr>) u, m))))"

end
