(* ===== verification/Opera_Cel.thy ===== *)
theory Opera_Cel
  imports Opera_Cel_Packed
begin

text \<open>
  The cel engine's list, \<open>opera_madam_cel_handle\<close> and \<open>opera_madam_cel_tick\<close> of
  \<open>src/libopera/opera_madam.c\<close>: each control block is read word by word at the register
  \<open>CURRENTCCB\<close>, which advances, and the loop follows \<open>NEXTCCB\<close> until a block with the last flag,
  a null link or an address past the RAM. A list that runs in a circle is the value None.
\<close>

section \<open>Control blocks\<close>

definition on_unit :: "(madam_unit \<Rightarrow> madam_unit) \<Rightarrow> gfx \<Rightarrow> gfx" where
  "on_unit f = (\<lambda>(u, m). (f u, m))"

definition mem32 :: "u32 \<Rightarrow> gfx \<Rightarrow> u32" where
  "mem32 a s = opera_mem_read32 (snd s) a"

text \<open>\<open>opera_mem_read32(reg)\<close> and \<open>reg += 4\<close>.\<close>

definition next_word :: "u32 \<Rightarrow> gfx \<Rightarrow> u32 \<times> gfx" where
  "next_word reg s = (mem32 (mreg reg (fst s)) s, on_unit (\<lambda>u. set_mreg reg (mreg reg u + 4) u) s)"

definition LoadPLUT :: "u32 \<Rightarrow> nat \<Rightarrow> gfx \<Rightarrow> gfx" where
  "LoadPLUT pnt n = (\<lambda>(u, m).
     (fold (\<lambda>i. on_madam (\<lambda>d. d\<lparr>PLUT := (PLUT d)(i := opera_mem_read16 m (push_bit 1 (drop_bit 1 pnt + of_nat i)))\<rparr>))
        [0..<n] u, m))"

text \<open>A pointer of the block: absolute, or relative to the word after it.\<close>

definition load_pointer :: "u32 \<Rightarrow> u32 \<Rightarrow> gfx \<Rightarrow> gfx" where
  "load_pointer reg absolute s =
     (let (v, s) = next_word CURRENTCCB s; u = fst s; v = v AND 0x00FFFFFC;
          v = (if flag_is_clr (CCBFLAGS (CEL u)) absolute then v + mreg CURRENTCCB u else v)
      in on_unit (set_mreg reg v) s)"

definition load_position :: "gfx \<Rightarrow> gfx" where
  "load_position s =
     (let u = fst s; a = mreg CURRENTCCB u; fl = CCBFLAGS (CEL u);
          s = (if flag_is_clr fl CCB_SKIP
               then (if flag_is_set fl CCB_YOXY then on_unit (StoreXYPosToRegisters (mem32 a s) (mem32 (a + 4) s)) s
                     else on_unit LoadXYPosFromRegisters s)
               else s)
      in on_unit (\<lambda>u. set_mreg CURRENTCCB (mreg CURRENTCCB u + 8) u) s)"

definition load_xor :: "gfx \<Rightarrow> gfx" where
  "load_xor = on_unit (\<lambda>u. let g = CELMAP u in
     on_cel (\<lambda>c. let x = flag_is_set (CCBFLAGS c) CCB_PXOR in
       c\<lparr>PXOR1 := (if x then 0 else 0xFFFFFFFF), PXOR2 := (if x then 0x1F1F1F1F else 0),
         CEL_ORIGIN_VH_VALUE := (XPOS1616 g AND 0x1) OR push_bit 15 (YPOS1616 g AND 0x1)\<rparr>) u)"

definition load_size :: "gfx \<Rightarrow> gfx" where
  "load_size s =
     (if flag_is_set (CCBFLAGS (CEL (fst s))) CCB_LDSIZE then
        (let (a, s) = next_word CURRENTCCB s; (b, s) = next_word CURRENTCCB s;
             (c, s) = next_word CURRENTCCB s; (d, s) = next_word CURRENTCCB s
         in on_unit (on_map (\<lambda>g. g\<lparr>HDX1616 := signed_drop_bit 4 a, HDY1616 := signed_drop_bit 4 b,
              VDX1616 := c, VDY1616 := d\<rparr>)) s)
      else s)"

definition load_shear :: "gfx \<Rightarrow> gfx" where
  "load_shear s =
     (if flag_is_set (CCBFLAGS (CEL (fst s))) CCB_LDPRS then
        (let (a, s) = next_word CURRENTCCB s; (b, s) = next_word CURRENTCCB s
         in on_unit (on_map (\<lambda>g. g\<lparr>HDDX1616 := signed_drop_bit 4 a, HDDY1616 := signed_drop_bit 4 b\<rparr>)) s)
      else s)"

definition load_pixc :: "gfx \<Rightarrow> gfx" where
  "load_pixc s =
     (if flag_is_set (CCBFLAGS (CEL (fst s))) CCB_LDPPMP
      then (let (a, s) = next_word CURRENTCCB s in on_unit (on_cel (\<lambda>c. c\<lparr>PIXC := a\<rparr>)) s)
      else s)"

text \<open>The preamble, one word or two, from the block or from the head of the pixel data.\<close>

definition load_preamble :: "gfx \<Rightarrow> gfx" where
  "load_preamble s =
     (let fl = CCBFLAGS (CEL (fst s));
          reg = (if flag_is_set fl CCB_CCBPRE then CURRENTCCB else PDATA);
          (a, s) = next_word reg s;
          s = on_unit (on_cel (\<lambda>c. c\<lparr>PRE0 := a\<rparr>)) s
      in if flag_is_clr fl CCB_PACKED
         then (let (b, s) = next_word reg s in on_unit (on_cel (\<lambda>c. c\<lparr>PRE1 := b\<rparr>)) s)
         else s)"

definition load_block :: "gfx \<Rightarrow> gfx" where
  "load_block s =
     (let (fl, s) = next_word CURRENTCCB s;
          s = on_unit (on_cel (\<lambda>c. c\<lparr>CCBFLAGS := fl\<rparr>)) s
      in load_preamble (load_pixc (load_shear (load_size (load_xor (load_position
           (load_pointer PLUTDATA CCB_PPABS (load_pointer PDATA CCB_SPABS (load_pointer NEXTCCB CCB_NPABS s)))))))))"

text \<open>The decoder's masks for the depth, and the projector's for the control bits.\<close>

definition load_decoder :: "madam_unit \<Rightarrow> madam_unit" where
  "load_decoder = on_cel (\<lambda>c.
     let bpp = PRE0 c AND 7; fl = CCBFLAGS c;
         c = c\<lparr>pdec := (pdec c)\<lparr>
               plutaCCBbits := (if bpp \<le> 1 then (fl AND 0x0F) * 4 else if bpp = 2 then (fl AND 0x0E) * 4
                                else (fl AND 0x08) * 4),
               pixelBitsMask := (if bpp \<le> 1 then 1 else if bpp = 2 then 3 else 15)\<rparr>\<rparr>;
         pm = fl AND CCB_POVER_MASK
     in c\<lparr>pproj := (pproj c)\<lparr>pmode := pm, pmodeORmask := (if pm = PMODE_ONE then 0x8000 else 0x0000),
            pmodeANDmask := (if pm \<noteq> PMODE_ZERO then 0xFFFF else 0x7FFF)\<rparr>\<rparr>)"

definition load_colours :: "gfx \<Rightarrow> gfx" where
  "load_colours s =
     (let u = fst s; bpp = PRE0 (CEL u) AND 7 in
      if flag_is_set (CCBFLAGS (CEL u)) CCB_LDPLUT
      then LoadPLUT (mreg PLUTDATA u) (if bpp \<le> 1 then 2 else if bpp = 2 then 4 else if bpp = 3 then 16 else 32) s
      else s)"

definition draw_cel :: "gfx \<Rightarrow> gfx option" where
  "draw_cel s =
     (let u = fst s; c = CEL u in
      if flag_is_set (CCBFLAGS c) CCB_PACKED then DrawPackedCel s
      else if flag_is_set (PRE1 c) PRE1_LRFORM \<and> cel_bpp u = 16 then Some (DrawLRCel s)
      else Some (DrawLiteralCel s))"

text \<open>One turn of the loop; false for the \<open>break\<close> at an address past the RAM.\<close>

definition cel_turn :: "gfx \<Rightarrow> (bool \<times> gfx) option" where
  "cel_turn s =
     (let s = on_unit (\<lambda>u. u\<lparr>g_CEL_LIST_CELS := g_CEL_LIST_CELS u + 1\<rparr>) s;
          s = on_unit (\<lambda>u. set_mreg CURRENTCCB (mreg NEXTCCB u AND 0x00FFFFFC) u) s
      in if mreg CURRENTCCB (fst s) \<ge> RAM_SIZE (snd s) then Some (False, s)
         else
           (let s = load_block s in
            if PRE0 (CEL (fst s)) AND 7 = 7 then Some (True, s)
            else
              (let s = load_colours (on_unit load_decoder s) in
               if flag_is_set (CCBFLAGS (CEL (fst s))) CCB_SKIP then Some (True, s)
               else map_option (Pair True) (draw_cel s))))"

partial_function (option) cel_loop :: "gfx \<Rightarrow> gfx option" where
  "cel_loop s =
     (if mreg NEXTCCB (fst s) \<noteq> 0 \<and> flag_is_clr (CCBFLAGS (CEL (fst s))) CCB_LAST
      then (case cel_turn s of None \<Rightarrow> None | Some (again, s) \<Rightarrow> if again then cel_loop s else Some s)
      else Some s)"

definition cel_start :: "madam_unit \<Rightarrow> madam_unit" where
  "cel_start u =
     (set_mreg STATBITS (mreg STATBITS u OR 0x10) (on_cel (\<lambda>c. c\<lparr>CCBFLAGS := 0\<rparr>) u))
       \<lparr>g_CEL_PIXELS_DRAWN := 0, g_CEL_TEXELS_WALKED := 0, g_CEL_LIST_CELS := 0\<rparr>"

definition opera_madam_cel_handle :: "opera_clock \<Rightarrow> gfx \<Rightarrow> gfx option" where
  "opera_madam_cel_handle k s =
     map_option (on_unit (\<lambda>u. madam_cel_busy_start k (set_mreg STATBITS (mreg STATBITS u AND NOT 0x10) u)))
       (cel_loop (on_unit cel_start s))"

definition opera_madam_cel_tick :: "opera_clock \<Rightarrow> gfx \<Rightarrow> gfx option" where
  "opera_madam_cel_tick k s =
     (if FSM (MADAM (fst s)) \<noteq> FSM_INPROCESS then Some s
      else if g_CEL_DRAW_PENDING (fst s) then opera_madam_cel_handle k s
      else if opera_clock_cpu_get_cycles k \<ge> g_CEL_BUSY_UNTIL (fst s)
      then Some (on_unit (opera_madam_fsm_set FSM_IDLE) s)
      else Some s)"

end
