(* ===== verification/Opera_Vdlp.thy ===== *)
theory Opera_Vdlp
  imports Opera_Madam Opera_Sport Opera_Clock
begin

text \<open>
  The display processor, \<open>src/libopera/opera_vdlp.c\<close>: the entries of the display list, the colour
  tables, the twelve renderers of a scan line, the walk over the frame buffer and both saved-state formats.
  The record \<open>vdlp\<close> is the structure \<open>vdlp_s\<close>; \<open>video\<close> holds it with the file's other globals. The
  host's memory that the frame is drawn in is the array \<open>SCREEN\<close> of bytes, \<open>g_BUF\<close> and \<open>g_CURBUF\<close> are
  positions in it, and 0 is \<open>NULL\<close>. A signed comparison of the C code is \<open><s\<close>.
\<close>

unbundle bit_operations_syntax

section \<open>State\<close>

abbreviation (input) MADAM_MCTL_CLUTXEN :: u32 where "MADAM_MCTL_CLUTXEN \<equiv> 0x00002000"
abbreviation (input) MADAM_MCTL_VSCTXEN :: u32 where "MADAM_MCTL_VSCTXEN \<equiv> 0x00004000"
abbreviation (input) VDLP_FORCE_LINE :: u32 where "VDLP_FORCE_LINE \<equiv> 5"
abbreviation (input) VDLP_PAL_FORCE_DELAY :: u32 where "VDLP_PAL_FORCE_DELAY \<equiv> 3"
abbreviation (input) VDLP_FLAG_BYPASS_CLUT :: u32 where "VDLP_FLAG_BYPASS_CLUT \<equiv> 1"
abbreviation (input) VDLP_FLAG_HIRES_CEL :: u32 where "VDLP_FLAG_HIRES_CEL \<equiv> 2"
abbreviation (input) VDLP_PIXEL_FORMAT_0RGB1555 :: u32 where "VDLP_PIXEL_FORMAT_0RGB1555 \<equiv> 0"
abbreviation (input) VDLP_PIXEL_FORMAT_XRGB8888 :: u32 where "VDLP_PIXEL_FORMAT_XRGB8888 \<equiv> 1"
abbreviation (input) VDLP_PIXEL_FORMAT_RGB565 :: u32 where "VDLP_PIXEL_FORMAT_RGB565 \<equiv> 2"

record vdlp =
  clut_r :: "u8 list"
  clut_g :: "u8 list"
  clut_b :: "u8 list"
  force_line :: u32
  curr_vdl :: u32
  next_vdl :: u32
  prev_bmp :: u32
  curr_bmp :: u32
  bg_color :: u32
  clut_ctrl :: u32
  disp_ctrl :: u32
  line_cnt :: u32

text \<open>The renderers, named after their functions; \<open>None\<close> stands for \<open>NULL\<close>.\<close>

datatype renderer =
    R_0RGB1555 | R_0RGB1555_bypass_clut | R_0RGB1555_hires | R_0RGB1555_hires_bypass_clut
  | R_RGB565 | R_RGB565_bypass_clut | R_RGB565_hires | R_RGB565_hires_bypass_clut
  | R_XRGB8888 | R_XRGB8888_bypass_clut | R_XRGB8888_hires | R_XRGB8888_hires_bypass_clut

record video =
  g_VDLP :: vdlp
  g_BUF :: nat
  g_CURBUF :: nat
  g_RENDERER :: "renderer option"
  g_FLAGS :: u32
  g_PIXEL_FORMAT :: u32
  SCREEN :: "nat \<Rightarrow> u8"

definition on_vdlp :: "(vdlp \<Rightarrow> vdlp) \<Rightarrow> video \<Rightarrow> video" where
  "on_vdlp f v = v\<lparr>g_VDLP := f (g_VDLP v)\<rparr>"

section \<open>Control words\<close>

definition wbits :: "nat \<Rightarrow> nat \<Rightarrow> u32 \<Rightarrow> u32" where
  "wbits lo n w = take_bit n (drop_bit lo w)"

text \<open>\<open>clut_dma_ctrl_word_s\<close>.\<close>

abbreviation (input) persist_len :: "u32 \<Rightarrow> u32" where "persist_len \<equiv> wbits 0 9"
abbreviation (input) ctrl_word_cnt :: "u32 \<Rightarrow> u32" where "ctrl_word_cnt \<equiv> wbits 9 6"
abbreviation (input) prev_fba_override :: "u32 \<Rightarrow> u32" where "prev_fba_override \<equiv> wbits 15 1"
abbreviation (input) curr_fba_override :: "u32 \<Rightarrow> u32" where "curr_fba_override \<equiv> wbits 16 1"
abbreviation (input) prev_fba_tick :: "u32 \<Rightarrow> u32" where "prev_fba_tick \<equiv> wbits 17 1"
abbreviation (input) next_vdl_addr_rel :: "u32 \<Rightarrow> u32" where "next_vdl_addr_rel \<equiv> wbits 18 1"
abbreviation (input) enable_dma :: "u32 \<Rightarrow> u32" where "enable_dma \<equiv> wbits 21 1"
abbreviation (input) fba_incr_modulo :: "u32 \<Rightarrow> u32" where "fba_incr_modulo \<equiv> wbits 23 3"

text \<open>\<open>color_value_word_s\<close> and \<open>background_value_word_s\<close>.\<close>

abbreviation (input) cvw_b :: "u32 \<Rightarrow> u8" where "cvw_b w \<equiv> ucast (wbits 0 8 w)"
abbreviation (input) cvw_g :: "u32 \<Rightarrow> u8" where "cvw_g w \<equiv> ucast (wbits 8 8 w)"
abbreviation (input) cvw_r :: "u32 \<Rightarrow> u8" where "cvw_r w \<equiv> ucast (wbits 16 8 w)"
abbreviation (input) cvw_addr :: "u32 \<Rightarrow> u32" where "cvw_addr \<equiv> wbits 24 5"
abbreviation (input) cvw_rgb_enable :: "u32 \<Rightarrow> u32" where "cvw_rgb_enable \<equiv> wbits 29 2"

text \<open>\<open>display_ctrl_word_s\<close>.\<close>

abbreviation (input) colors_only :: "u32 \<Rightarrow> u32" where "colors_only \<equiv> wbits 1 1"
abbreviation (input) clut_bypass :: "u32 \<Rightarrow> u32" where "clut_bypass \<equiv> wbits 25 1"
abbreviation (input) pal_ntsc :: "u32 \<Rightarrow> u32" where "pal_ntsc \<equiv> wbits 27 1"

definition PIXELS_PER_LINE_MODULO :: "u32 list" where
  "PIXELS_PER_LINE_MODULO = [320, 384, 512, 640, 1024, 320, 320, 320]"

definition line_width :: "vdlp \<Rightarrow> u32" where
  "line_width v = PIXELS_PER_LINE_MODULO ! unat (fba_incr_modulo (clut_ctrl v))"

section \<open>The display list\<close>

definition madam_clut_dma_enabled :: "madam_unit \<Rightarrow> bool" where
  "madam_clut_dma_enabled u \<longleftrightarrow> flag_is_set (opera_madam_mctl u) MADAM_MCTL_CLUTXEN"

definition madam_video_dma_enabled :: "madam_unit \<Rightarrow> bool" where
  "madam_video_dma_enabled u \<longleftrightarrow> flag_is_set (opera_madam_mctl u) MADAM_MCTL_VSCTXEN"

definition bitmap_dma_enabled :: "madam_unit \<Rightarrow> vdlp \<Rightarrow> bool" where
  "bitmap_dma_enabled u v \<longleftrightarrow> madam_video_dma_enabled u \<and> enable_dma (clut_ctrl v) \<noteq> 0"

definition vram_read32 :: "memory \<Rightarrow> u32 \<Rightarrow> u32" where
  "vram_read32 m addr = get32 (dram m) (vram_at m (addr AND VRAM_SIZE_MASK m))"

definition vdl_read :: "memory \<Rightarrow> u32 \<Rightarrow> vdlp \<Rightarrow> u32" where
  "vdl_read m off v = vram_read32 m (curr_vdl v + push_bit 2 off)"

definition vdl_set_clut :: "u32 \<Rightarrow> vdlp \<Rightarrow> vdlp" where
  "vdl_set_clut cmd v =
     (let a = unat (cvw_addr cmd); e = cvw_rgb_enable cmd in
      if e = 0 then
        v\<lparr>clut_r := (clut_r v)[a := cvw_r cmd], clut_b := (clut_b v)[a := cvw_b cmd], clut_g := (clut_g v)[a := cvw_g cmd]\<rparr>
      else if e = 3 then v\<lparr>clut_r := (clut_r v)[a := cvw_r cmd]\<rparr>
      else if e = 1 then v\<lparr>clut_b := (clut_b v)[a := cvw_b cmd]\<rparr>
      else v\<lparr>clut_g := (clut_g v)[a := cvw_g cmd]\<rparr>)"

text \<open>One word after the entry's header; the first component is the local \<open>colors_only\<close>.\<close>

definition optional_cmd :: "memory \<Rightarrow> nat \<Rightarrow> u32 \<times> vdlp \<Rightarrow> u32 \<times> vdlp" where
  "optional_cmd m i = (\<lambda>(co, v).
     let cmd = vdl_read m (of_nat i) v; k = drop_bit 29 (cmd AND 0xE0000000) in
     if k < 4 then (co, vdl_set_clut cmd v)
     else if k < 6 then (co, v)
     else if k = 6 then (if co \<noteq> 0 then (co, v) else (colors_only cmd, v\<lparr>disp_ctrl := cmd\<rparr>))
     else (co, v\<lparr>bg_color := cmd\<rparr>))"

definition vdlp_process_optional_cmds :: "memory \<Rightarrow> u32 \<Rightarrow> vdlp \<Rightarrow> vdlp" where
  "vdlp_process_optional_cmds m n v = snd (fold (optional_cmd m) [0..<unat n] (0, v))"

definition vdlp_process_vdl_entry :: "memory \<Rightarrow> vdlp \<Rightarrow> vdlp" where
  "vdlp_process_vdl_entry m v =
     (if next_vdl v = 0 then v
      else
        (let v = v\<lparr>curr_vdl := next_vdl v\<rparr>;
             entry = vram_read32 m (curr_vdl v);
             v = v\<lparr>clut_ctrl := entry\<rparr>;
             v = (if curr_fba_override entry \<noteq> 0 then v\<lparr>curr_bmp := vdl_read m 1 v\<rparr> else v);
             v = (if prev_fba_override entry \<noteq> 0 then v\<lparr>prev_bmp := vdl_read m 2 v\<rparr> else v);
             next_entry = vdl_read m 3 v;
             next_entry = (if next_vdl_addr_rel entry \<noteq> 0 then next_entry + (curr_vdl v + 4 * 4) else next_entry);
             v = v\<lparr>curr_vdl := curr_vdl v + 4 * 4\<rparr>;
             v = vdlp_process_optional_cmds m (ctrl_word_cnt entry) v
         in v\<lparr>next_vdl := next_entry, line_cnt := persist_len entry\<rparr>))"

section \<open>Pixels\<close>

text \<open>The tables are read at an index of five bits.\<close>

abbreviation (input) pix_r :: "u16 \<Rightarrow> nat" where "pix_r p \<equiv> unat (drop_bit 10 p AND 0x1F)"
abbreviation (input) pix_g :: "u16 \<Rightarrow> nat" where "pix_g p \<equiv> unat (drop_bit 5 p AND 0x1F)"
abbreviation (input) pix_b :: "u16 \<Rightarrow> nat" where "pix_b p \<equiv> unat (p AND 0x1F)"

definition fixed_clut_to_0RGB1555 :: "u16 \<Rightarrow> u16" where
  "fixed_clut_to_0RGB1555 p = p AND 0x7FFF"

definition user_clut_to_0RGB1555 :: "vdlp \<Rightarrow> u16 \<Rightarrow> u16" where
  "user_clut_to_0RGB1555 v p =
     push_bit 10 (ucast (drop_bit 3 (clut_r v ! pix_r p))) OR push_bit 5 (ucast (drop_bit 3 (clut_g v ! pix_g p))) OR
     push_bit 0 (ucast (drop_bit 3 (clut_b v ! pix_b p)))"

definition background_to_0RGB1555 :: "vdlp \<Rightarrow> u16" where
  "background_to_0RGB1555 v =
     push_bit 10 (ucast (drop_bit 3 (cvw_r (bg_color v)))) OR push_bit 5 (ucast (drop_bit 3 (cvw_g (bg_color v)))) OR
     push_bit 0 (ucast (drop_bit 3 (cvw_b (bg_color v))))"

definition vdlp_render_pixel_0RGB1555 :: "vdlp \<Rightarrow> u16 \<Rightarrow> u16" where
  "vdlp_render_pixel_0RGB1555 v p = (if p = 0 then background_to_0RGB1555 v else user_clut_to_0RGB1555 v p)"

definition vdlp_render_pixel_0RGB1555_bypass_clut :: "vdlp \<Rightarrow> u16 \<Rightarrow> u16" where
  "vdlp_render_pixel_0RGB1555_bypass_clut v p =
     (if p = 0 then background_to_0RGB1555 v
      else if p AND 0x8000 \<noteq> 0 then fixed_clut_to_0RGB1555 p
      else user_clut_to_0RGB1555 v p)"

definition fixed_clut_to_RGB565 :: "u16 \<Rightarrow> u16" where
  "fixed_clut_to_RGB565 p = push_bit 1 (p AND 0x7FE0) OR (p AND 0x001F)"

definition user_clut_to_RGB565 :: "vdlp \<Rightarrow> u16 \<Rightarrow> u16" where
  "user_clut_to_RGB565 v p =
     push_bit 11 (ucast (drop_bit 3 (clut_r v ! pix_r p))) OR push_bit 5 (ucast (drop_bit 2 (clut_g v ! pix_g p))) OR
     push_bit 0 (ucast (drop_bit 3 (clut_b v ! pix_b p)))"

definition background_to_RGB565 :: "vdlp \<Rightarrow> u16" where
  "background_to_RGB565 v =
     push_bit 11 (ucast (drop_bit 3 (cvw_r (bg_color v)))) OR push_bit 5 (ucast (drop_bit 2 (cvw_g (bg_color v)))) OR
     push_bit 0 (ucast (drop_bit 3 (cvw_b (bg_color v))))"

definition vdlp_render_pixel_RGB565 :: "vdlp \<Rightarrow> u16 \<Rightarrow> u16" where
  "vdlp_render_pixel_RGB565 v p = (if p = 0 then background_to_RGB565 v else user_clut_to_RGB565 v p)"

definition vdlp_render_pixel_RGB565_bypass_clut :: "vdlp \<Rightarrow> u16 \<Rightarrow> u16" where
  "vdlp_render_pixel_RGB565_bypass_clut v p =
     (if p = 0 then background_to_RGB565 v
      else if p AND 0x8000 \<noteq> 0 then fixed_clut_to_RGB565 p
      else user_clut_to_RGB565 v p)"

definition fixed_clut_to_XRGB8888 :: "u16 \<Rightarrow> u32" where
  "fixed_clut_to_XRGB8888 p =
     push_bit 9 (ucast (p AND 0x7C00)) OR push_bit 6 (ucast (p AND 0x03E0)) OR push_bit 3 (ucast (p AND 0x001F))"

definition user_clut_to_XRGB8888 :: "vdlp \<Rightarrow> u16 \<Rightarrow> u32" where
  "user_clut_to_XRGB8888 v p =
     push_bit 16 (ucast (clut_r v ! pix_r p)) OR push_bit 8 (ucast (clut_g v ! pix_g p)) OR
     push_bit 0 (ucast (clut_b v ! pix_b p))"

definition vdlp_render_pixel_XRGB8888 :: "vdlp \<Rightarrow> u16 \<Rightarrow> u32" where
  "vdlp_render_pixel_XRGB8888 v p = (if p = 0 then bg_color v else user_clut_to_XRGB8888 v p)"

definition vdlp_render_pixel_XRGB8888_bypass_clut :: "vdlp \<Rightarrow> u16 \<Rightarrow> u32" where
  "vdlp_render_pixel_XRGB8888_bypass_clut v p =
     (if p = 0 then bg_color v
      else if p AND 0x8000 \<noteq> 0 then fixed_clut_to_XRGB8888 p
      else user_clut_to_XRGB8888 v p)"

section \<open>Lines\<close>

text \<open>A store of bytes at a position of the host's memory, and the bytes of a pixel.\<close>

definition put_bytes :: "nat \<Rightarrow> u8 list \<Rightarrow> (nat \<Rightarrow> u8) \<Rightarrow> nat \<Rightarrow> u8" where
  "put_bytes a bs f = (\<lambda>x. if a \<le> x \<and> x < a + length bs then bs ! (x - a) else f x)"

definition bytes16 :: "u16 \<Rightarrow> u8 list" where "bytes16 w = [byte_of 0 w, byte_of 1 w]"
definition bytes32 :: "u32 \<Rightarrow> u8 list" where "bytes32 w = [byte_of 0 w, byte_of 1 w, byte_of 2 w, byte_of 3 w]"

definition vdlp_render_line_black :: "u32 \<Rightarrow> nat \<Rightarrow> video \<Rightarrow> video" where
  "vdlp_render_line_black w bytes_per_pixel v =
     (let len = unat w * bytes_per_pixel
      in v\<lparr>SCREEN := put_bytes (g_CURBUF v) (replicate len 0) (SCREEN v), g_CURBUF := g_CURBUF v + len\<rparr>)"

definition vdlp_render_line_black_hires :: "u32 \<Rightarrow> nat \<Rightarrow> video \<Rightarrow> video" where
  "vdlp_render_line_black_hires w bytes_per_pixel v =
     (let len = unat w * bytes_per_pixel * 2 * 2
      in v\<lparr>SCREEN := put_bytes (g_CURBUF v) (replicate len 0) (SCREEN v), g_CURBUF := g_CURBUF v + len\<rparr>)"

text \<open>The frame buffer's word \<open>x\<close> of the line, in the plane \<open>k\<close>: its low half as the host reads it.\<close>

definition line_src :: "memory \<Rightarrow> vdlp \<Rightarrow> u32" where
  "line_src m v = vram_at m ((curr_bmp v XOR 2) AND VRAM_SIZE_MASK m)"

definition src_pixel :: "memory \<Rightarrow> vdlp \<Rightarrow> nat \<Rightarrow> nat \<Rightarrow> u16" where
  "src_pixel m v k x = get16 (dram m) (line_src m v + of_nat k * VRAM_SIZE m + 4 * of_nat x)"

text \<open>\<open>dst[x] = f(src[x])\<close> over a line, \<open>enc\<close> being the bytes of \<open>f\<close>'s pixel; then the line is passed.\<close>

definition plain_line :: "nat \<Rightarrow> (u16 \<Rightarrow> u8 list) \<Rightarrow> memory \<Rightarrow> video \<Rightarrow> video" where
  "plain_line n enc m v =
     (let n_px = unat (line_width (g_VDLP v)); dst = g_CURBUF v
      in v\<lparr>SCREEN := fold (\<lambda>x. put_bytes (dst + n * x) (enc (src_pixel m (g_VDLP v) 0 x))) [0..<n_px] (SCREEN v),
           g_CURBUF := dst + n * n_px\<rparr>)"

text \<open>The four pixels of a word of a high-resolution line, two to each of the two rows of the screen.\<close>

definition hires_pixels :: "nat \<Rightarrow> (u16 \<Rightarrow> u8 list) \<Rightarrow> memory \<Rightarrow> vdlp \<Rightarrow> nat \<Rightarrow> nat \<Rightarrow> nat \<Rightarrow> (nat \<Rightarrow> u8) \<Rightarrow> nat \<Rightarrow> u8" where
  "hires_pixels n enc m v dst0 dst1 x f =
     put_bytes (dst1 + n * (2 * x + 1)) (enc (src_pixel m v 3 x))
       (put_bytes (dst1 + n * (2 * x)) (enc (src_pixel m v 2 x))
         (put_bytes (dst0 + n * (2 * x + 1)) (enc (src_pixel m v 1 x))
           (put_bytes (dst0 + n * (2 * x)) (enc (src_pixel m v 0 x)) f)))"

definition hires_line :: "nat \<Rightarrow> (u16 \<Rightarrow> u8 list) \<Rightarrow> memory \<Rightarrow> video \<Rightarrow> video" where
  "hires_line n enc m v =
     (let n_px = unat (line_width (g_VDLP v)); dst0 = g_CURBUF v; dst1 = dst0 + n * (n_px * 2)
      in v\<lparr>SCREEN := fold (hires_pixels n enc m (g_VDLP v) dst0 dst1) [0..<n_px] (SCREEN v),
           g_CURBUF := dst1 + n * (2 * n_px)\<rparr>)"

section \<open>Renderers\<close>

text \<open>The pixel functions a line uses with and without its entry's bypass bit.\<close>

definition by_bypass :: "(vdlp \<Rightarrow> u16 \<Rightarrow> 'p) \<Rightarrow> (vdlp \<Rightarrow> u16 \<Rightarrow> 'p) \<Rightarrow> vdlp \<Rightarrow> u16 \<Rightarrow> 'p" where
  "by_bypass f g v = (if clut_bypass (disp_ctrl v) = 0 then f v else g v)"

definition vdlp_render_line_0RGB1555 :: "madam_unit \<Rightarrow> memory \<Rightarrow> video \<Rightarrow> video" where
  "vdlp_render_line_0RGB1555 u m v =
     (if \<not> bitmap_dma_enabled u (g_VDLP v) then vdlp_render_line_black (line_width (g_VDLP v)) 2 v
      else plain_line 2 (bytes16 \<circ> by_bypass vdlp_render_pixel_0RGB1555 vdlp_render_pixel_0RGB1555_bypass_clut (g_VDLP v)) m v)"

definition vdlp_render_line_0RGB1555_bypass_clut :: "madam_unit \<Rightarrow> memory \<Rightarrow> video \<Rightarrow> video" where
  "vdlp_render_line_0RGB1555_bypass_clut u m v =
     (if \<not> bitmap_dma_enabled u (g_VDLP v) then vdlp_render_line_black (line_width (g_VDLP v)) 2 v
      else plain_line 2 (bytes16 \<circ> fixed_clut_to_0RGB1555) m v)"

definition vdlp_render_line_0RGB1555_hires :: "madam_unit \<Rightarrow> memory \<Rightarrow> video \<Rightarrow> video" where
  "vdlp_render_line_0RGB1555_hires u m v =
     (if \<not> bitmap_dma_enabled u (g_VDLP v) then vdlp_render_line_black (line_width (g_VDLP v)) 2 v
      else hires_line 2 (bytes16 \<circ> by_bypass vdlp_render_pixel_0RGB1555 vdlp_render_pixel_0RGB1555_bypass_clut (g_VDLP v)) m v)"

definition vdlp_render_line_0RGB1555_hires_bypass_clut :: "madam_unit \<Rightarrow> memory \<Rightarrow> video \<Rightarrow> video" where
  "vdlp_render_line_0RGB1555_hires_bypass_clut u m v =
     (if \<not> bitmap_dma_enabled u (g_VDLP v) then vdlp_render_line_black (line_width (g_VDLP v)) 2 v
      else hires_line 2 (bytes16 \<circ> fixed_clut_to_0RGB1555) m v)"

definition vdlp_render_line_RGB565 :: "madam_unit \<Rightarrow> memory \<Rightarrow> video \<Rightarrow> video" where
  "vdlp_render_line_RGB565 u m v =
     (if \<not> bitmap_dma_enabled u (g_VDLP v) then vdlp_render_line_black (line_width (g_VDLP v)) 2 v
      else plain_line 2 (bytes16 \<circ> by_bypass vdlp_render_pixel_RGB565 vdlp_render_pixel_RGB565_bypass_clut (g_VDLP v)) m v)"

definition vdlp_render_line_RGB565_bypass_clut :: "madam_unit \<Rightarrow> memory \<Rightarrow> video \<Rightarrow> video" where
  "vdlp_render_line_RGB565_bypass_clut u m v =
     (if \<not> bitmap_dma_enabled u (g_VDLP v) then vdlp_render_line_black (line_width (g_VDLP v)) 2 v
      else plain_line 2 (bytes16 \<circ> fixed_clut_to_RGB565) m v)"

definition vdlp_render_line_RGB565_hires :: "madam_unit \<Rightarrow> memory \<Rightarrow> video \<Rightarrow> video" where
  "vdlp_render_line_RGB565_hires u m v =
     (if \<not> bitmap_dma_enabled u (g_VDLP v) then vdlp_render_line_black_hires (line_width (g_VDLP v)) 2 v
      else hires_line 2 (bytes16 \<circ> by_bypass vdlp_render_pixel_RGB565 vdlp_render_pixel_RGB565_bypass_clut (g_VDLP v)) m v)"

definition vdlp_render_line_RGB565_hires_bypass_clut :: "madam_unit \<Rightarrow> memory \<Rightarrow> video \<Rightarrow> video" where
  "vdlp_render_line_RGB565_hires_bypass_clut u m v =
     (if \<not> bitmap_dma_enabled u (g_VDLP v) then vdlp_render_line_black_hires (line_width (g_VDLP v)) 2 v
      else hires_line 2 (bytes16 \<circ> fixed_clut_to_RGB565) m v)"

definition vdlp_render_line_XRGB8888 :: "madam_unit \<Rightarrow> memory \<Rightarrow> video \<Rightarrow> video" where
  "vdlp_render_line_XRGB8888 u m v =
     (if \<not> bitmap_dma_enabled u (g_VDLP v) then vdlp_render_line_black (line_width (g_VDLP v)) 4 v
      else plain_line 4 (bytes32 \<circ> by_bypass vdlp_render_pixel_XRGB8888 vdlp_render_pixel_XRGB8888_bypass_clut (g_VDLP v)) m v)"

definition vdlp_render_line_XRGB8888_bypass_clut :: "madam_unit \<Rightarrow> memory \<Rightarrow> video \<Rightarrow> video" where
  "vdlp_render_line_XRGB8888_bypass_clut u m v =
     (if \<not> bitmap_dma_enabled u (g_VDLP v) then vdlp_render_line_black (line_width (g_VDLP v)) 4 v
      else plain_line 4 (bytes32 \<circ> fixed_clut_to_XRGB8888) m v)"

definition vdlp_render_line_XRGB8888_hires :: "madam_unit \<Rightarrow> memory \<Rightarrow> video \<Rightarrow> video" where
  "vdlp_render_line_XRGB8888_hires u m v =
     (if \<not> bitmap_dma_enabled u (g_VDLP v) then vdlp_render_line_black_hires (line_width (g_VDLP v)) 4 v
      else hires_line 4 (bytes32 \<circ> by_bypass vdlp_render_pixel_XRGB8888 vdlp_render_pixel_XRGB8888_bypass_clut (g_VDLP v)) m v)"

definition vdlp_render_line_XRGB8888_hires_bypass_clut :: "madam_unit \<Rightarrow> memory \<Rightarrow> video \<Rightarrow> video" where
  "vdlp_render_line_XRGB8888_hires_bypass_clut u m v =
     (if \<not> bitmap_dma_enabled u (g_VDLP v) then vdlp_render_line_black_hires (line_width (g_VDLP v)) 4 v
      else hires_line 4 (bytes32 \<circ> fixed_clut_to_XRGB8888) m v)"

text \<open>The call through \<open>g_RENDERER\<close>; calling \<open>NULL\<close> is undefined and does nothing here.\<close>

definition run_renderer :: "madam_unit \<Rightarrow> memory \<Rightarrow> video \<Rightarrow> video" where
  "run_renderer u m v =
     (case g_RENDERER v of
        None \<Rightarrow> v
      | Some r \<Rightarrow>
          (case r of
             R_0RGB1555 \<Rightarrow> vdlp_render_line_0RGB1555 u m v
           | R_0RGB1555_bypass_clut \<Rightarrow> vdlp_render_line_0RGB1555_bypass_clut u m v
           | R_0RGB1555_hires \<Rightarrow> vdlp_render_line_0RGB1555_hires u m v
           | R_0RGB1555_hires_bypass_clut \<Rightarrow> vdlp_render_line_0RGB1555_hires_bypass_clut u m v
           | R_RGB565 \<Rightarrow> vdlp_render_line_RGB565 u m v
           | R_RGB565_bypass_clut \<Rightarrow> vdlp_render_line_RGB565_bypass_clut u m v
           | R_RGB565_hires \<Rightarrow> vdlp_render_line_RGB565_hires u m v
           | R_RGB565_hires_bypass_clut \<Rightarrow> vdlp_render_line_RGB565_hires_bypass_clut u m v
           | R_XRGB8888 \<Rightarrow> vdlp_render_line_XRGB8888 u m v
           | R_XRGB8888_bypass_clut \<Rightarrow> vdlp_render_line_XRGB8888_bypass_clut u m v
           | R_XRGB8888_hires \<Rightarrow> vdlp_render_line_XRGB8888_hires u m v
           | R_XRGB8888_hires_bypass_clut \<Rightarrow> vdlp_render_line_XRGB8888_hires_bypass_clut u m v))"

section \<open>Scan lines\<close>

definition tick_fba :: "vdlp \<Rightarrow> u32 \<Rightarrow> u32" where
  "tick_fba v fba = fba + (if fba AND 2 \<noteq> 0 then push_bit 2 (line_width v) - 2 else 2)"

definition visible_scanline :: "opera_region \<Rightarrow> u32 \<Rightarrow> bool" where
  "visible_scanline r line \<longleftrightarrow> line \<ge> start_scanline r \<and> line < end_scanline r"

definition forced_transfer_line :: "vdlp \<Rightarrow> u32" where
  "forced_transfer_line v = VDLP_FORCE_LINE + (if pal_ntsc (disp_ctrl v) \<noteq> 0 then VDLP_PAL_FORCE_DELAY else 0)"

text \<open>The entry that starts at this line, if one does.\<close>

definition line_entry :: "madam_unit \<Rightarrow> memory \<Rightarrow> u32 \<Rightarrow> vdlp \<Rightarrow> vdlp" where
  "line_entry u m line v =
     (if madam_clut_dma_enabled u then
        (if line = force_line v then vdlp_process_vdl_entry m v
         else if line_cnt v \<le>s 0 \<and> persist_len (clut_ctrl v) \<noteq> 0 then vdlp_process_vdl_entry m v
         else v)
      else v)"

definition line_end :: "vdlp \<Rightarrow> vdlp" where
  "line_end v =
     (let v = v\<lparr>prev_bmp := (if prev_fba_tick (clut_ctrl v) \<noteq> 0 then tick_fba v (prev_bmp v) else curr_bmp v)\<rparr>;
          v = v\<lparr>curr_bmp := tick_fba v (curr_bmp v)\<rparr>;
          v = v\<lparr>disp_ctrl := disp_ctrl v AND NOT 1\<rparr>
      in if 0 <s line_cnt v then v\<lparr>line_cnt := line_cnt v - 1\<rparr> else v)"

definition opera_vdlp_process_line :: "madam_unit \<Rightarrow> memory \<Rightarrow> opera_region \<Rightarrow> u32 \<Rightarrow> video \<Rightarrow> video" where
  "opera_vdlp_process_line u m r line v =
     (let v = (if line = 0 then on_vdlp (\<lambda>d. d\<lparr>force_line := forced_transfer_line d\<rparr>) v else v) in
      if line <s VDLP_FORCE_LINE then v
      else
        (let v = (if line = VDLP_FORCE_LINE then v\<lparr>g_CURBUF := g_BUF v\<rparr> else v);
             v = on_vdlp (line_entry u m line) v;
             v = (if visible_scanline r line then run_renderer u m v else v)
         in on_vdlp line_end v))"

section \<open>Settings\<close>

definition opera_vdlp_init :: "video \<Rightarrow> video" where
  "opera_vdlp_init v =
     (let z = replicate 32 0 in
      v\<lparr>g_VDLP := \<lparr>clut_r = z, clut_g = z, clut_b = z, force_line = VDLP_FORCE_LINE, curr_vdl = 0, next_vdl = 0,
          prev_bmp = 0, curr_bmp = 0, bg_color = 0, clut_ctrl = 0, disp_ctrl = 0, line_cnt = 0\<rparr>,
        g_CURBUF := g_BUF v,
        g_RENDERER := (if g_RENDERER v = None then Some R_RGB565 else g_RENDERER v)\<rparr>)"

definition opera_vdlp_set_vdl_head :: "u32 \<Rightarrow> video \<Rightarrow> video" where
  "opera_vdlp_set_vdl_head addr = on_vdlp (\<lambda>d. d\<lparr>next_vdl := addr\<rparr>)"

definition get_renderer :: "u32 \<Rightarrow> u32 \<Rightarrow> renderer option" where
  "get_renderer pf flags =
     (if pf = VDLP_PIXEL_FORMAT_0RGB1555 then
        (if flags = 0 then Some R_0RGB1555 else if flags = 1 then Some R_0RGB1555_bypass_clut
         else if flags = 2 then Some R_0RGB1555_hires else if flags = 3 then Some R_0RGB1555_hires_bypass_clut else None)
      else if pf = VDLP_PIXEL_FORMAT_RGB565 then
        (if flags = 0 then Some R_RGB565 else if flags = 1 then Some R_RGB565_bypass_clut
         else if flags = 2 then Some R_RGB565_hires else if flags = 3 then Some R_RGB565_hires_bypass_clut else None)
      else if pf = VDLP_PIXEL_FORMAT_XRGB8888 then
        (if flags = 0 then Some R_XRGB8888 else if flags = 1 then Some R_XRGB8888_bypass_clut
         else if flags = 2 then Some R_XRGB8888_hires else if flags = 3 then Some R_XRGB8888_hires_bypass_clut else None)
      else None)"

definition opera_vdlp_set_video_buffer :: "nat \<Rightarrow> video \<Rightarrow> int \<times> video" where
  "opera_vdlp_set_video_buffer buf v = (0, v\<lparr>g_BUF := buf\<rparr>)"

definition set_or_clr_flag :: "u32 \<Rightarrow> u32 \<Rightarrow> bool \<Rightarrow> u32" where
  "set_or_clr_flag w f b = (if b then w OR f else w AND NOT f)"

definition opera_vdlp_set_hires :: "bool \<Rightarrow> video \<Rightarrow> int \<times> video" where
  "opera_vdlp_set_hires b v =
     (let flags = set_or_clr_flag (g_FLAGS v) VDLP_FLAG_HIRES_CEL b; new_renderer = get_renderer (g_PIXEL_FORMAT v) flags
      in if new_renderer = None then (-1, v) else (0, v\<lparr>g_RENDERER := new_renderer, g_FLAGS := flags\<rparr>))"

definition opera_vdlp_set_bypass_clut :: "bool \<Rightarrow> video \<Rightarrow> int \<times> video" where
  "opera_vdlp_set_bypass_clut b v =
     (let flags = set_or_clr_flag (g_FLAGS v) VDLP_FLAG_BYPASS_CLUT b; new_renderer = get_renderer (g_PIXEL_FORMAT v) flags
      in if new_renderer = None then (-1, v) else (0, v\<lparr>g_RENDERER := new_renderer, g_FLAGS := flags\<rparr>))"

definition opera_vdlp_set_pixel_format :: "u32 \<Rightarrow> video \<Rightarrow> int \<times> video" where
  "opera_vdlp_set_pixel_format pf v =
     (let new_renderer = get_renderer pf (g_FLAGS v)
      in if new_renderer = None then (-1, v) else (0, v\<lparr>g_RENDERER := new_renderer, g_PIXEL_FORMAT := pf\<rparr>))"

section \<open>Saved state\<close>

definition opera_vdlp_state_size_v1 :: u32 where
  "opera_vdlp_state_size_v1 = opera_state_save_size 132"

definition vdlp_state_write_payload :: "vdlp \<Rightarrow> state_writer \<Rightarrow> bool \<times> state_writer" where
  "vdlp_state_write_payload v =
     w_and (opera_state_write_bytes (Some (clut_r v)) 32)
     (w_and (opera_state_write_bytes (Some (clut_g v)) 32)
     (w_and (opera_state_write_bytes (Some (clut_b v)) 32)
     (w_and (opera_state_write_u32 (force_line v))
     (w_and (opera_state_write_u32 (curr_vdl v))
     (w_and (opera_state_write_u32 (next_vdl v))
     (w_and (opera_state_write_u32 (prev_bmp v))
     (w_and (opera_state_write_u32 (curr_bmp v))
     (w_and (opera_state_write_u32 (bg_color v))
     (w_and (opera_state_write_u32 (clut_ctrl v))
     (w_and (opera_state_write_u32 (disp_ctrl v))
            (opera_state_write_i32 (line_cnt v))))))))))))"

definition vdlp_state_payload_size :: "vdlp \<Rightarrow> u32" where
  "vdlp_state_payload_size v =
     opera_state_writer_used (snd (vdlp_state_write_payload v (opera_state_writer_init None UINT32_MAX)))"

definition opera_vdlp_state_size :: "video \<Rightarrow> u32" where
  "opera_vdlp_state_size v = opera_state_chunk_size (vdlp_state_payload_size (g_VDLP v))"

definition opera_vdlp_state_save :: "video \<Rightarrow> u8 list \<Rightarrow> u32 \<times> u8 list" where
  "opera_vdlp_state_save v buf =
     save_chunk ''VDLP'' (vdlp_state_payload_size (g_VDLP v)) (vdlp_state_write_payload (g_VDLP v)) buf"

definition migrate_vdlp_state :: "vdlp \<Rightarrow> vdlp" where
  "migrate_vdlp_state v =
     (if force_line v \<noteq> 0 then v
      else (let v = v\<lparr>next_vdl := curr_vdl v\<rparr> in v\<lparr>force_line := forced_transfer_line v\<rparr>))"

text \<open>The structure's bytes in the host's order, as the first format stores them.\<close>

definition vdlp_image :: "vdlp \<Rightarrow> u8 list" where
  "vdlp_image v = clut_r v @ clut_g v @ clut_b v @
     image32 [force_line v, curr_vdl v, next_vdl v, prev_bmp v, curr_bmp v, bg_color v, clut_ctrl v, disp_ctrl v, line_cnt v]"

definition vdlp_of_image :: "u8 list \<Rightarrow> vdlp" where
  "vdlp_of_image bs =
     (let ws = words32 (drop 96 bs) in
      \<lparr>clut_r = take 32 bs, clut_g = take 32 (drop 32 bs), clut_b = take 32 (drop 64 bs), force_line = ws ! 0,
       curr_vdl = ws ! 1, next_vdl = ws ! 2, prev_bmp = ws ! 3, curr_bmp = ws ! 4, bg_color = ws ! 5,
       clut_ctrl = ws ! 6, disp_ctrl = ws ! 7, line_cnt = ws ! 8\<rparr>)"

definition opera_vdlp_state_load_v1 :: "u8 list \<Rightarrow> u32 \<Rightarrow> video \<Rightarrow> u32 \<times> video" where
  "opera_vdlp_state_load_v1 buf sz v =
     (let (loaded, bs) = opera_state_load_sized (vdlp_image (g_VDLP v)) ''VDLP'' (Some buf) sz 132;
          d = vdlp_of_image bs
      in (loaded, v\<lparr>g_VDLP := (if loaded \<noteq> 0 then migrate_vdlp_state d else d)\<rparr>))"

definition vdlp_state_read_payload :: "state_reader \<Rightarrow> vdlp option \<times> state_reader" where
  "vdlp_state_read_payload =
     r_bind (opera_state_read_bytes 32) (\<lambda>cr. r_bind (opera_state_read_bytes 32) (\<lambda>cg.
     r_bind (opera_state_read_bytes 32) (\<lambda>cb.
     r_bind opera_state_read_u32 (\<lambda>fl. r_bind opera_state_read_u32 (\<lambda>cv. r_bind opera_state_read_u32 (\<lambda>nv.
     r_bind opera_state_read_u32 (\<lambda>pb. r_bind opera_state_read_u32 (\<lambda>cu. r_bind opera_state_read_u32 (\<lambda>bg.
     r_bind opera_state_read_u32 (\<lambda>cc. r_bind opera_state_read_u32 (\<lambda>dc. r_bind opera_state_read_i32 (\<lambda>lc.
     r_return \<lparr>clut_r = cr, clut_g = cg, clut_b = cb, force_line = fl, curr_vdl = cv, next_vdl = nv, prev_bmp = pb,
       curr_bmp = cu, bg_color = bg, clut_ctrl = cc, disp_ctrl = dc, line_cnt = lc\<rparr>))))))))))))"

definition opera_vdlp_state_load :: "bool \<Rightarrow> u8 list \<Rightarrow> u32 \<Rightarrow> video \<Rightarrow> u32 \<times> video" where
  "opera_vdlp_state_load validating buf sz v =
     load_chunk ''VDLP'' vdlp_state_read_payload (\<lambda>_. True) (\<lambda>s v. v\<lparr>g_VDLP := migrate_vdlp_state s\<rparr>)
       validating buf sz v"

end
