(* ===== verification/Opera_Board.thy ===== *)
theory Opera_Board
  imports Opera_Cel Opera_Xbus Opera_Dsp Opera_Pbus Opera_Arm_Bus Opera_Vdlp
begin

text \<open>
  The two register blocks on the processor's bus as the rest of the machine sees them: the reads
  and writes of MADAM with its control pad DMA, from \<open>src/libopera/opera_madam.c\<close>, and those of
  CLIO with its expansion bus DMA, from \<open>src/libopera/opera_clio.c\<close>. The state behind the bus is
  the record \<open>board\<close>; the control pad DMA stores through the processor's bus again, so its writes
  take the store \<open>opera_io_write\<close> as the argument \<open>io\<close>.
\<close>

section \<open>The board\<close>

record 'd board =
  BUS :: "'d xbus"
  AUDIO :: dsp
  RAND32 :: u32
  PADS :: pbus
  GFX :: madam_unit
  VIDEO :: video

type_synonym 'd machine = "'d board sys"

definition on_dev :: "('d board \<Rightarrow> 'd board) \<Rightarrow> 'd machine \<Rightarrow> 'd machine" where
  "on_dev f s = s\<lparr>DEV := f (DEV s)\<rparr>"

definition on_gfx :: "(madam_unit \<Rightarrow> madam_unit) \<Rightarrow> 'd machine \<Rightarrow> 'd machine" where
  "on_gfx f = on_dev (\<lambda>b. b\<lparr>GFX := f (GFX b)\<rparr>)"

definition on_bus :: "('d xbus \<Rightarrow> 'd xbus) \<Rightarrow> 'd machine \<Rightarrow> 'd machine" where
  "on_bus f = on_dev (\<lambda>b. b\<lparr>BUS := f (BUS b)\<rparr>)"

definition on_audio :: "(dsp \<Rightarrow> dsp) \<Rightarrow> 'd machine \<Rightarrow> 'd machine" where
  "on_audio f = on_dev (\<lambda>b. b\<lparr>AUDIO := f (AUDIO b)\<rparr>)"

definition on_clock :: "(opera_clock \<Rightarrow> opera_clock) \<Rightarrow> 'd machine \<Rightarrow> 'd machine" where
  "on_clock f = on_bus (\<lambda>x. x\<lparr>CLOCK := f (CLOCK x)\<rparr>)"

abbreviation gfx :: "'d machine \<Rightarrow> madam_unit" where "gfx s \<equiv> GFX (DEV s)"
abbreviation clock_of :: "'d machine \<Rightarrow> opera_clock" where "clock_of s \<equiv> CLOCK (BUS (DEV s))"
abbreviation clio_of :: "'d machine \<Rightarrow> clio" where "clio_of s \<equiv> CLIO (BUS (DEV s))"

definition on_cl :: "(clio \<Rightarrow> clio) \<Rightarrow> 'd machine \<Rightarrow> 'd machine" where
  "on_cl f = on_bus (on_clio f)"

definition set_cl :: "u32 \<Rightarrow> u32 \<Rightarrow> 'd machine \<Rightarrow> 'd machine" where
  "set_cl a v = on_cl (set_creg a v)"

section \<open>Control pad DMA\<close>

text \<open>One word to memory, with the three registers it moves.\<close>

definition dma8_advance :: "madam_unit \<Rightarrow> madam_unit" where
  "dma8_advance u =
     (let u = set_mreg DMA8_DEST (mreg DMA8_DEST u + 4) u
      in set_mreg DMA8_PROGRESS (mreg DMA8_PROGRESS u + 4) u)"

definition dma8_word :: "(u32 \<Rightarrow> u32 \<Rightarrow> 'd machine \<Rightarrow> 'd machine) \<Rightarrow> u32 \<Rightarrow> 'd machine \<Rightarrow> 'd machine" where
  "dma8_word io v s =
     on_gfx (\<lambda>u. dma8_advance (set_mreg DMA8_LEN (mreg DMA8_LEN u - 4) u)) (io (mreg DMA8_DEST (gfx s)) v s)"

primrec dma8_pads :: "(u32 \<Rightarrow> u32 \<Rightarrow> 'd machine \<Rightarrow> 'd machine) \<Rightarrow> u32 list \<Rightarrow> 'd machine \<Rightarrow> 'd machine" where
  "dma8_pads io [] s = s"
| "dma8_pads io (w # ws) s =
     (if 0 <s mreg DMA8_LEN (gfx s) then dma8_pads io ws (dma8_word io (SWAP32 w) s) else s)"

text \<open>The words left after the pads' data. Each turn takes 4 from the length, unless the word it
  stores, all ones, lands on the length itself and ends the loop; the length divided by 4 and
  rounded up is enough turns.\<close>

primrec dma8_fill :: "(u32 \<Rightarrow> u32 \<Rightarrow> 'd machine \<Rightarrow> 'd machine) \<Rightarrow> nat \<Rightarrow> 'd machine \<Rightarrow> 'd machine" where
  "dma8_fill io 0 s = s"
| "dma8_fill io (Suc n) s =
     (if 0 <s mreg DMA8_LEN (gfx s) then dma8_fill io n (dma8_word io 0xFFFFFFFF s) else s)"

text \<open>The words of the pads' buffer, one for each started group of four bytes.\<close>

definition pbus_words :: "pbus \<Rightarrow> u32 list" where
  "pbus_words p = take (nat ((sint (opera_pbus_size p) + 3) div 4)) (words32 (opera_pbus_buf p))"

definition DMAPBus :: "(u32 \<Rightarrow> u32 \<Rightarrow> 'd machine \<Rightarrow> 'd machine) \<Rightarrow> 'd machine \<Rightarrow> 'd machine" where
  "DMAPBus io s =
     (if mreg DMA8_LEN (gfx s) <s 0 then s
      else
        (let s = on_dev (\<lambda>b. b\<lparr>PADS := opera_pbus_pad (PADS b)\<rparr>) s;
             s = on_gfx dma8_advance (io (mreg DMA8_DEST (gfx s)) 0xFFFFFFFF s);
             s = dma8_pads io (pbus_words (PADS (DEV s))) s;
             s = dma8_fill io (nat ((sint (mreg DMA8_LEN (gfx s)) + 3) div 4)) s
         in on_gfx (set_mreg DMA8_LEN MADAM_DMA8_IDLE_LEN) s))"

definition HandleDMA8 :: "(u32 \<Rightarrow> u32 \<Rightarrow> 'd machine \<Rightarrow> 'd machine) \<Rightarrow> 'd machine \<Rightarrow> 'd machine" where
  "HandleDMA8 io s =
     (if mreg MADAM_REG_MCTL (gfx s) AND MADAM_MCTL_PLAYXEN \<noteq> 0 then
        (let s = DMAPBus io s;
             s = on_gfx (\<lambda>u. set_mreg MADAM_REG_MCTL (mreg MADAM_REG_MCTL u AND NOT MADAM_MCTL_PLAYXEN) u) s
         in on_cl (opera_clio_fiq_generate 0 1) s)
      else s)"

section \<open>MADAM on the bus\<close>

definition opera_madam_poke :: "(u32 \<Rightarrow> u32 \<Rightarrow> 'd machine \<Rightarrow> 'd machine) \<Rightarrow> u32 \<Rightarrow> u32 \<Rightarrow> 'd machine \<Rightarrow> 'd machine" where
  "opera_madam_poke io addr val s =
     (if 0x400 \<le> addr \<and> addr \<le> 0x53F then on_cl (opera_clio_fifo_write addr val) s
      else if addr = MADAM_REG_ID \<or> addr = MADAM_REG_MSYSBITS then s
      else if addr = MADAM_REG_MCTL then HandleDMA8 io (on_gfx (set_mreg MADAM_REG_MCTL val) s)
      else if addr = MADAM_REG_VDL_HEAD then on_dev (\<lambda>b. b\<lparr>VIDEO := opera_vdlp_set_vdl_head val (VIDEO b)\<rparr>) s
      else on_gfx (madam_poke_unit addr val) s)"

section \<open>Expansion bus DMA\<close>

abbreviation (input) XBUS_DMA_ENABLE_MASK :: u32 where "XBUS_DMA_ENABLE_MASK \<equiv> 0x00100000"

text \<open>Four bytes of the selected drive, read in order and then stored in order.\<close>

definition xbus_word :: "u32 \<Rightarrow> 'd machine \<Rightarrow> 'd machine" where
  "xbus_word trg s =
     (let b = BUS (DEV s);
          (b3, b) = opera_xbus_fifo_get_data b; (b2, b) = opera_xbus_fifo_get_data b;
          (b1, b) = opera_xbus_fifo_get_data b; (b0, b) = opera_xbus_fifo_get_data b;
          m = opera_mem_write8 trg (ucast b3) (MEM s); m = opera_mem_write8 (trg + 1) (ucast b2) m;
          m = opera_mem_write8 (trg + 2) (ucast b1) m; m = opera_mem_write8 (trg + 3) (ucast b0) m
      in (on_bus (\<lambda>_. b) s)\<lparr>MEM := m\<rparr>)"

text \<open>\<open>while(len >= 0)\<close>, a word for every 4.\<close>

primrec xbus_transfer :: "nat \<Rightarrow> u32 \<Rightarrow> 'd machine \<Rightarrow> 'd machine" where
  "xbus_transfer 0 trg s = s"
| "xbus_transfer (Suc n) trg s = xbus_transfer n (trg + 4) (xbus_word trg s)"

definition transfer_words :: "u32 \<Rightarrow> nat" where
  "transfer_words len = (if len <s 0 then 0 else unat len div 4 + 1)"

definition clio_handle_dma :: "u32 \<Rightarrow> 'd machine \<Rightarrow> 'd machine" where
  "clio_handle_dma val s =
     (let s = on_cl (\<lambda>c. set_creg 0x304 (clio_regs c 0x304 OR val) c) s in
      if val AND XBUS_DMA_ENABLE_MASK = 0 then s
      else if Opera_Clio.opera_clio_xbus_access_aborts (Opera_Xbus.opera_xbus_selected_device_address (BUS (DEV s))) 0x5C0
          (clio_of s) then s
      else
        (let trg = Opera_Madam.opera_madam_peek 0x540 (clio_of s) (gfx s);
             len = Opera_Madam.opera_madam_peek 0x544 (clio_of s) (gfx s);
             s = on_cl (\<lambda>c. set_creg 0x304 (clio_regs c 0x304 AND NOT XBUS_DMA_ENABLE_MASK) c) s;
             s = on_cl (\<lambda>c. set_creg 0x400 (clio_regs c 0x400 AND NOT 0x80) c) s;
             s = xbus_transfer (transfer_words len) trg s;
             s = on_cl (\<lambda>c. set_creg 0x400 (clio_regs c 0x400 OR 0x80) c) s;
             s = on_gfx (madam_poke_unit 0x544 0xFFFFFFFC) s
         in on_cl (opera_clio_fiq_generate (push_bit 29 1) 0) s))"

definition opera_clio_xbus_dma_execute :: "'d machine \<Rightarrow> 'd machine" where
  "opera_clio_xbus_dma_execute s =
     (if clio_regs (clio_of s) 0x304 AND XBUS_DMA_ENABLE_MASK = 0 then s
      else clio_handle_dma XBUS_DMA_ENABLE_MASK s)"

definition opera_xbus_tick :: "'d machine \<Rightarrow> 'd machine" where
  "opera_xbus_tick s = opera_clio_xbus_dma_execute (on_bus xbus_tick_fiq s)"

end
