(* ===== verification/Opera_Clio_Io.thy ===== *)
theory Opera_Clio_Io
  imports Opera_Board
begin

text \<open>
  CLIO's registers on the processor's bus, from \<open>src/libopera/opera_clio.c\<close>: every range of
  \<open>opera_clio_poke\<close> and \<open>opera_clio_peek\<close> with what it reaches behind it (the expansion bus, the
  signal processor, the clock, the random generator, the ROM selection), the initialisation, and
  the record \<open>devices\<close> of the processor's bus on this board. The control pad DMA of MADAM stores
  through that bus, so the record is built in levels: the DMA of level \<open>n + 1\<close> stores through
  level \<open>n\<close>, and level 0 has no DMA.
\<close>

section \<open>Writes\<close>

definition adbio_set :: "u32 \<Rightarrow> nat \<Rightarrow> u32 \<Rightarrow> u32" where
  "adbio_set val b output =
     (let mask = push_bit b 1 in
      if val AND mask = 0 then output AND NOT mask
      else if val AND (mask OR push_bit 4 mask) \<noteq> 0 then output OR mask
      else output)"

abbreviation (input) CLIO_INT0_SECONDARY :: u32 where "CLIO_INT0_SECONDARY \<equiv> 0x80000000"

definition or_creg :: "u32 \<Rightarrow> u32 \<Rightarrow> clio \<Rightarrow> clio" where
  "or_creg a v c = set_creg a (clio_regs c a OR v) c"

definition clear_creg :: "u32 \<Rightarrow> u32 \<Rightarrow> clio \<Rightarrow> clio" where
  "clear_creg a v c = set_creg a (clio_regs c a AND NOT v) c"

text \<open>The interrupt registers, \<open>0x40..0x4C\<close> and \<open>0x60..0x6C\<close>.\<close>

definition poke_interrupts :: "u32 \<Rightarrow> u32 \<Rightarrow> clio \<Rightarrow> clio" where
  "poke_interrupts addr val c =
     (if addr = 0x40 then or_creg 0x40 (val AND NOT CLIO_INT0_SECONDARY) c
      else if addr = 0x44 then clear_creg 0x40 val c
      else if addr = 0x48 then or_creg 0x48 (val AND NOT CLIO_INT0_SECONDARY) c
      else if addr = 0x4C then clear_creg 0x48 CLIO_INT0_SECONDARY (clear_creg 0x48 val c)
      else if addr = 0x60 then or_creg 0x60 val c
      else if addr = 0x64 then clear_creg 0x60 val c
      else if addr = 0x68 then or_creg 0x68 val c
      else clear_creg 0x68 val c)"

text \<open>One queue cleared and stopped: its registers in MADAM and the queue itself. The loop takes its
  bit out of \<open>val\<close>, which it does not look at again.\<close>

definition clear_queue :: "u32 \<Rightarrow> (clio \<Rightarrow> clio) \<Rightarrow> 'd machine \<Rightarrow> 'd machine" where
  "clear_queue base reset s =
     (let s = on_gfx (\<lambda>u. set_mreg base 0 (set_mreg (base + 0x08) 0 u)) s;
          s = on_gfx (\<lambda>u. set_mreg (base + 0x04) 0 (set_mreg (base + 0x0C) 0 u)) s;
          s = on_cl (opera_clio_fifo_write (base + 0x00) 0) s;
          s = on_cl (opera_clio_fifo_write (base + 0x04) 0) s;
          s = on_cl (opera_clio_fifo_write (base + 0x08) 0) s;
          s = on_cl (opera_clio_fifo_write (base + 0x0C) 0) s
      in on_cl reset s)"

definition poke_clear_queues :: "u32 \<Rightarrow> 'd machine \<Rightarrow> 'd machine" where
  "poke_clear_queues val s =
     (let s = on_cl (clear_creg 0x304 val) s;
          s = fold (\<lambda>i s. if bit val i
                then clear_queue (0x400 + push_bit 4 (of_nat i)) (\<lambda>c. set_fifo_i i ((fifo_i c i)\<lparr>fifo_idx := 0\<rparr>) c) s
                else s) [0..<13] s
      in fold (\<lambda>i s. if bit val (i + 16)
             then clear_queue (0x500 + push_bit 4 (of_nat i)) (\<lambda>c. set_fifo_o i ((fifo_o c i)\<lparr>fifo_idx := 0\<rparr>) c) s
             else s) [0..<4] s)"

definition poke_dma_enable :: "u32 \<Rightarrow> 'd machine \<Rightarrow> 'd machine" where
  "poke_dma_enable val s =
     (let s = clio_handle_dma val s in
      if val = 0x100000 then
        on_cl (\<lambda>c. (if TIMER_VAL c <s 5800 then c\<lparr>TIMER_VAL := TIMER_VAL c + 0x33\<rparr> else c)
          \<lparr>flagtime := opera_clock_cpu_get_freq (clock_of s) div 2000000\<rparr>) s
      else if clio_regs (clio_of s) 0x304 = 0 then on_cl (\<lambda>c. c\<lparr>TIMER_VAL := 0\<rparr>) s
      else s)"

text \<open>The control and status register; the result tells the bus which reset was asked for.\<close>

definition poke_cstat :: "u32 \<Rightarrow> clio \<Rightarrow> u32 \<times> clio" where
  "poke_cstat val c =
     (let old = clio_regs c 0x28;
          cstat = val AND NOT (0x10 OR 0x20 OR 0x43 OR 0x0C);
          cstat = cstat OR (old AND 0x0C);
          cstat = cstat OR (old AND val AND 0x43);
          cstat = (if val AND (0x10 OR 0x20) = 0x10 OR 0x20 then cstat OR 0x40 else cstat);
          c = set_creg 0x28 cstat c
      in (if val AND 0x10 \<noteq> 0 then val AND (0x10 OR 0x20) else 0, c))"

text \<open>The signal processor's memories: two words in one store, or one.\<close>

definition dsp_words :: "(u16 \<Rightarrow> u16 \<Rightarrow> dsp \<Rightarrow> dsp) \<Rightarrow> u32 \<Rightarrow> u32 \<Rightarrow> 'd machine \<Rightarrow> 'd machine" where
  "dsp_words wr addr val s =
     (let s = on_cl (\<lambda>c. c\<lparr>dsp_word1 := drop_bit 16 val, dsp_word2 := val AND 0xFFFF, dsp_address := addr\<rparr>) s
      in on_audio (\<lambda>d. wr (ucast (addr + 1)) (ucast (val AND 0xFFFF)) (wr (ucast addr) (ucast (drop_bit 16 val)) d)) s)"

definition dsp_word :: "(u16 \<Rightarrow> u16 \<Rightarrow> dsp \<Rightarrow> dsp) \<Rightarrow> u32 \<Rightarrow> u32 \<Rightarrow> 'd machine \<Rightarrow> 'd machine" where
  "dsp_word wr addr val s =
     (let s = on_cl (\<lambda>c. c\<lparr>dsp_word1 := val AND 0xFFFF, dsp_address := addr\<rparr>) s
      in on_audio (wr (ucast addr) (ucast (val AND 0xFFFF))) s)"

definition poke_dsp :: "u32 \<Rightarrow> u32 \<Rightarrow> 'd machine \<Rightarrow> 'd machine" where
  "poke_dsp addr val s =
     (if 0x1800 \<le> addr \<and> addr \<le> 0x1FFF then
        dsp_words opera_dsp_mem_write (drop_bit 1 ((addr AND NOT 0x400) - 0x1800)) val s
      else if 0x2000 \<le> addr \<and> addr \<le> 0x2FFF then
        dsp_word opera_dsp_mem_write (drop_bit 2 ((addr AND NOT 0x800) - 0x2000)) val s
      else if 0x3000 \<le> addr \<and> addr \<le> 0x33FF then
        dsp_words opera_dsp_imem_write (drop_bit 1 (addr - 0x3000) AND 0xFF) val s
      else dsp_word opera_dsp_imem_write (drop_bit 2 (addr - 0x3400) AND 0xFF) val s)"

definition opera_clio_poke :: "u32 \<Rightarrow> u32 \<Rightarrow> 'd machine \<Rightarrow> u32 \<times> 'd machine" where
  "opera_clio_poke addr val s =
     (let s = (if flagtime (clio_of s) = 0 then on_cl (\<lambda>c. c\<lparr>TIMER_VAL := 0\<rparr>) s else s) in
      if addr AND NOT 0x2C = 0x40 then (0, on_cl (poke_interrupts addr val) s)
      else if addr = 0x84 then
        (let s = on_cl (\<lambda>c. set_creg 0x84
                  (adbio_set val 3 (adbio_set val 2 (adbio_set val 1 (adbio_set val 0 (clio_regs c 0x84))))) c) s
         in (0, s\<lparr>MEM := clio_set_rom (clio_of s) (MEM s)\<rparr>))
      else if addr = 0x300 then (0, poke_clear_queues val s)
      else if addr = 0x304 then (0, poke_dma_enable val s)
      else if addr = 0x308 then (0, on_cl (clear_creg 0x304 val) s)
      else if addr = 0x400 then (0, if val AND 0x800 \<noteq> 0 then s else set_cl 0x400 val s)
      else if addr = 0x410 \<or> addr = 0x414 then (0, s)
      else if 0x500 \<le> addr \<and> addr < 0x540 then (0, on_bus (opera_xbus_set_sel val) s)
      else if 0x540 \<le> addr \<and> addr < 0x580 then (0, on_bus (opera_xbus_set_poll val) s)
      else if 0x580 \<le> addr \<and> addr < 0x5C0 then (0, on_bus (opera_xbus_fifo_set_cmd val) s)
      else if 0x5C0 \<le> addr \<and> addr < 0x600 then (0, on_bus (opera_xbus_fifo_set_data val) s)
      else if addr = 0x28 then
        (let (kind, c) = poke_cstat val (clio_of s) in (kind, on_cl (\<lambda>_. c) s))
      else if addr = 0x2C then (0, if val AND 0x0F = 0x0B then set_cl 0x2C 0x0B s else s)
      else if addr = 0x08 \<or> addr = 0x0C then (0, set_cl addr (val AND 0x7FF) s)
      else if addr = 0x30 then (0, set_cl addr (val AND 0x7FF) s)
      else if addr = 0x34 then (0, set_cl addr (val AND (0x7FF OR 0x800)) s)
      else if 0x1800 \<le> addr \<and> addr \<le> 0x2FFF \<or> 0x3000 \<le> addr \<and> addr \<le> 0x37FF then (0, poke_dsp addr val s)
      else if addr = 0x17E8 then (0, on_audio opera_dsp_reset s)
      else if addr = 0x17D0 then (0, on_audio (opera_dsp_arm_semaphore_write val) s)
      else if addr = 0x17FC then (0, on_audio (opera_dsp_set_running (if val > 0 then 1 else 0)) s)
      else if addr = 0x200 then (0, on_cl (\<lambda>c. opera_clio_timer_set val 0 (or_creg 0x200 val c)) s)
      else if addr = 0x204 then (0, on_cl (\<lambda>c. opera_clio_timer_clear val 0 (clear_creg 0x200 val c)) s)
      else if addr = 0x208 then (0, on_cl (\<lambda>c. opera_clio_timer_set 0 val (or_creg 0x208 val c)) s)
      else if addr = 0x20C then (0, on_cl (\<lambda>c. opera_clio_timer_clear 0 val (clear_creg 0x208 val c)) s)
      else if addr = 0x220 then (0, on_clock (opera_clock_timer_set_delay (val AND 0x3FF)) (set_cl addr (val AND 0x3FF) s))
      else if clio_timer_reg_addr addr then (0, set_cl addr (val AND 0xFFFF) s)
      else (0, set_cl addr val s))"

section \<open>Reads\<close>

definition peek_interrupts :: "u32 \<Rightarrow> clio \<Rightarrow> u32" where
  "peek_interrupts addr c =
     (let addr = addr AND NOT 4 in
      if addr = 0x40 then
        (clio_regs c 0x40 AND NOT CLIO_INT0_SECONDARY) OR
        (if clio_regs c 0x60 AND clio_regs c 0x68 \<noteq> 0 then CLIO_INT0_SECONDARY else 0)
      else if addr = 0x48 then clio_regs c 0x48 OR CLIO_INT0_SECONDARY
      else if addr = 0x60 then clio_regs c 0x60
      else clio_regs c 0x68)"

definition peek_bus :: "('d xbus \<Rightarrow> u32 \<times> 'd xbus) \<Rightarrow> 'd machine \<Rightarrow> u32 \<times> 'd machine" where
  "peek_bus f s = (let (v, b) = f (BUS (DEV s)) in (v, on_bus (\<lambda>_. b) s))"

definition peek_random :: "'d machine \<Rightarrow> u32 \<times> 'd machine" where
  "peek_random s = (let (v, st) = prng32 (RAND32 (DEV s)) in (v, on_dev (\<lambda>b. b\<lparr>RAND32 := st\<rparr>) s))"

definition peek_dsp2 :: "u32 \<Rightarrow> 'd machine \<Rightarrow> u32 \<times> 'd machine" where
  "peek_dsp2 addr s =
     (let d = AUDIO (DEV s); a = (drop_bit 1 (addr - 0x3800) AND 0xFF) + 0x300;
          w1 = ucast (opera_dsp_imem_read (ucast a) d); w2 = ucast (opera_dsp_imem_read (ucast (a + 1)) d)
      in (push_bit 16 w1 OR w2, on_cl (\<lambda>c. c\<lparr>dsp_address := a, dsp_word1 := w1, dsp_word2 := w2\<rparr>) s))"

definition peek_dsp1 :: "u32 \<Rightarrow> 'd machine \<Rightarrow> u32 \<times> 'd machine" where
  "peek_dsp1 addr s =
     (let a = (drop_bit 2 (addr - 0x3C00) AND 0xFF) + 0x300
      in (ucast (opera_dsp_imem_read (ucast a) (AUDIO (DEV s))), on_cl (\<lambda>c. c\<lparr>dsp_address := a\<rparr>) s))"

definition opera_clio_peek :: "u32 \<Rightarrow> 'd machine \<Rightarrow> u32 \<times> 'd machine" where
  "opera_clio_peek addr s =
     (let c = clio_of s in
      if addr AND NOT 0x2C = 0x40 then (peek_interrupts addr c, s)
      else if addr = 0x3C then peek_random s
      else if addr = 0x2C then (0, s)
      else if addr = 0x204 then (clio_regs c 0x200, s)
      else if addr = 0x20C then (clio_regs c 0x208, s)
      else if addr = 0x308 then (clio_regs c 0x304, s)
      else if 0x500 \<le> addr \<and> addr < 0x540 then peek_bus opera_xbus_get_res s
      else if 0x540 \<le> addr \<and> addr < 0x580 then peek_bus opera_xbus_get_poll s
      else if 0x580 \<le> addr \<and> addr < 0x5C0 then peek_bus opera_xbus_fifo_get_status s
      else if 0x5C0 \<le> addr \<and> addr < 0x600 then peek_bus opera_xbus_fifo_get_data s
      else if addr = 0x0 then (0x02020000, s)
      else if addr = 0x08 \<or> addr = 0x0C then (clio_regs c addr AND 0x7FF, s)
      else if addr = 0x30 then (clio_regs c addr AND 0x7FF, s)
      else if addr = 0x34 then (clio_regs c addr AND (0x7FF OR 0x800), s)
      else if 0x3800 \<le> addr \<and> addr \<le> 0x3BFF then peek_dsp2 addr s
      else if 0x3C00 \<le> addr \<and> addr \<le> 0x3FFF then peek_dsp1 addr s
      else if addr = 0x17F0 then peek_random s
      else if addr = 0x17D0 then (opera_dsp_arm_semaphore_read (AUDIO (DEV s)), s)
      else if clio_timer_reg_addr addr then (clio_regs c addr AND 0xFFFF, s)
      else (clio_regs c addr, s))"

section \<open>Initialisation\<close>

definition opera_clio_init :: "u32 \<Rightarrow> 'd machine \<Rightarrow> 'd machine" where
  "opera_clio_init reason s =
     (let s = on_cl (\<lambda>c. c\<lparr>clio_regs := \<lambda>_. 0, dsp_word1 := 0, dsp_word2 := 0, dsp_address := 0,
                fifo_i := \<lambda>_. no_fifo, fifo_o := \<lambda>_. no_fifo\<rparr>) s;
          s = set_cl 0x220 64 (set_cl 0x400 0x80 (set_cl 0x28 reason s));
          s = on_clock (opera_clock_timer_set_delay 64) s
      in on_cl (\<lambda>c. c\<lparr>TIMER_VAL := 0, flagtime := 0, TIMER_CARRY := 0\<rparr>) s)"

section \<open>The devices of the processor's bus\<close>

text \<open>The two resets of the whole machine are arguments.\<close>

definition board_devices_with ::
  "('d machine \<Rightarrow> 'd machine) \<Rightarrow> ('d machine \<Rightarrow> 'd machine) \<Rightarrow> (u32 \<Rightarrow> u32 \<Rightarrow> 'd machine \<Rightarrow> 'd machine) \<Rightarrow> 'd board devices" where
  "board_devices_with dipir soft io =
     devices.make
       (\<lambda>a s. (Opera_Madam.opera_madam_peek a (clio_of s) (gfx s), s))
       (Opera_Board.opera_madam_poke io)
       Opera_Clio_Io.opera_clio_peek
       Opera_Clio_Io.opera_clio_poke
       (\<lambda>d i s. Opera_Clio.opera_clio_xbus_access_aborts d i (clio_of s))
       (\<lambda>s. Opera_Xbus.opera_xbus_selected_device_address (BUS (DEV s)))
       (\<lambda>s. Opera_Xbus.opera_xbus_selected_device_absent (BUS (DEV s)))
       dipir soft
       (\<lambda>s. Opera_Clio.opera_clio_fiq_needed (clio_of s))"

primrec board_devices ::
  "('d machine \<Rightarrow> 'd machine) \<Rightarrow> ('d machine \<Rightarrow> 'd machine) \<Rightarrow> nat \<Rightarrow> 'd board devices" where
  "board_devices dipir soft 0 = board_devices_with dipir soft (\<lambda>_ _ s. s)"
| "board_devices dipir soft (Suc n) =
     board_devices_with dipir soft (opera_io_write (board_devices dipir soft n))"

end
