(* ===== verification/Opera_Madam_State.thy ===== *)
theory Opera_Madam_State
  imports Opera_Madam Opera_Dsp_State
begin

text \<open>
  MADAM's saved state, from \<open>src/libopera/opera_madam.c\<close>: the registers, the colour table, the
  decoded controls and the cel engine's state with its timing, which older chunks lack. The
  statics of the drawing and the results the matrix engine holds back are not part of it.
\<close>

section \<open>Writer\<close>

definition madam_state_write_payload :: "madam_unit \<Rightarrow> state_writer \<Rightarrow> bool \<times> state_writer" where
  "madam_state_write_payload u =
     (let d = MADAM u in
      w_and (opera_state_write_u32_array (upto 2112 (\<lambda>i. mregs d (of_nat i))) 2112)
      (w_and (opera_state_write_u16_array (upto 32 (PLUT d)) 32)
      (w_and (opera_state_write_i32 (rmod d))
      (w_and (opera_state_write_i32 (wmod d))
      (w_and (opera_state_write_i32 (clipx d))
      (w_and (opera_state_write_i32 (clipy d))
      (w_and (opera_state_write_u32 (FSM d))
      (w_and (opera_state_write_u32 (of_bool (g_CEL_DRAW_PENDING u)))
             (opera_state_write_u64 (g_CEL_BUSY_UNTIL u))))))))))"

definition madam_state_payload_size :: "madam_unit \<Rightarrow> u32" where
  "madam_state_payload_size u =
     opera_state_writer_used (snd (madam_state_write_payload u (opera_state_writer_init None UINT32_MAX)))"

definition opera_madam_state_size :: "madam_unit \<Rightarrow> u32" where
  "opera_madam_state_size u = opera_state_chunk_size (madam_state_payload_size u)"

definition opera_madam_state_save :: "madam_unit \<Rightarrow> u8 list \<Rightarrow> u32 \<times> u8 list" where
  "opera_madam_state_save u buf = save_chunk ''MDAM'' (madam_state_payload_size u) (madam_state_write_payload u) buf"

section \<open>Reader\<close>

definition madam_state_read_payload :: "state_reader \<Rightarrow> madam option \<times> state_reader" where
  "madam_state_read_payload =
     r_bind (opera_state_read_u32_array 2112) (\<lambda>rs. r_bind (opera_state_read_u16_array 32) (\<lambda>pl.
     r_bind opera_state_read_i32 (\<lambda>rm. r_bind opera_state_read_i32 (\<lambda>wm.
     r_bind opera_state_read_i32 (\<lambda>cx. r_bind opera_state_read_i32 (\<lambda>cy. r_bind opera_state_read_u32 (\<lambda>fs.
     r_return \<lparr>mregs = \<lambda>a. fill 0 rs (unat a), PLUT = fill 0 pl, rmod = rm, wmod = wm, clipx = cx, clipy = cy,
       FSM = fs\<rparr>)))))))"

text \<open>The legacy convention: a list that was being drawn is drawn again.\<close>

definition list_pending :: "madam \<Rightarrow> bool" where
  "list_pending d \<longleftrightarrow> FSM d = FSM_INPROCESS \<or> FSM d = FSM_SUSPENDED"

definition madam_read_timing :: "madam \<Rightarrow> state_reader \<Rightarrow> (madam \<times> u32 \<times> u64) option \<times> state_reader" where
  "madam_read_timing d r =
     (if opera_state_reader_remaining r \<noteq> 0
      then r_bind opera_state_read_u32 (\<lambda>p. r_bind opera_state_read_u64 (\<lambda>b. r_return (d, p, b))) r
      else (Some (d, of_bool (list_pending d), 0), r))"

definition madam_read :: "state_reader \<Rightarrow> (madam \<times> u32 \<times> u64) option \<times> state_reader" where
  "madam_read = r_bind madam_state_read_payload madam_read_timing"

definition madam_install :: "madam \<times> u32 \<times> u64 \<Rightarrow> madam_unit \<Rightarrow> madam_unit" where
  "madam_install = (\<lambda>(d, p, b) u. u\<lparr>MADAM := d, g_CEL_DRAW_PENDING := p \<noteq> 0, g_CEL_BUSY_UNTIL := b\<rparr>)"

definition opera_madam_state_load :: "bool \<Rightarrow> u8 list \<Rightarrow> u32 \<Rightarrow> madam_unit \<Rightarrow> u32 \<times> madam_unit" where
  "opera_madam_state_load validating buf sz u =
     load_chunk ''MDAM'' madam_read (\<lambda>(d, p, b). \<not> p > 1) madam_install validating buf sz u"

section \<open>The first format\<close>

definition opera_madam_state_size_v1 :: u32 where
  "opera_madam_state_size_v1 = opera_state_save_size 8532"

definition madam_image :: "madam \<Rightarrow> u8 list" where
  "madam_image d =
     image32 (upto 2112 (\<lambda>i. mregs d (of_nat i))) @ image16 (upto 32 (PLUT d)) @
     image32 [rmod d, wmod d, clipx d, clipy d, FSM d]"

definition madam_of_image :: "u8 list \<Rightarrow> madam" where
  "madam_of_image bs =
     (let w = words32 (drop 8512 bs)
      in \<lparr>mregs = \<lambda>a. fill 0 (words32 (take 8448 bs)) (unat a), PLUT = fill 0 (words16 (take 64 (drop 8448 bs))),
          rmod = w ! 0, wmod = w ! 1, clipx = w ! 2, clipy = w ! 3, FSM = w ! 4\<rparr>)"

definition opera_madam_state_load_v1 :: "u8 list \<Rightarrow> u32 \<Rightarrow> madam_unit \<Rightarrow> u32 \<times> madam_unit" where
  "opera_madam_state_load_v1 buf sz u =
     (let (rv, bs) = opera_state_load_sized (madam_image (MADAM u)) ''MDAM'' (Some buf) sz 8532; d = madam_of_image bs
      in if rv = 0 then (0, u\<lparr>MADAM := d\<rparr>)
         else (rv, u\<lparr>MADAM := d, g_CEL_DRAW_PENDING := list_pending d, g_CEL_BUSY_UNTIL := 0\<rparr>))"

section \<open>Round trip\<close>

text \<open>The cells outside the C arrays are the model's zeros.\<close>

definition madam_clean :: "madam_unit \<Rightarrow> bool" where
  "madam_clean u \<longleftrightarrow> (\<forall>a\<ge>2112. mreg a u = 0) \<and> (\<forall>i\<ge>32. PLUT (MADAM u) i = 0)"

definition madam_enc :: "madam_unit \<Rightarrow> u8 list" where
  "madam_enc u = (let d = MADAM u in
     image32 (upto 2112 (\<lambda>i. mregs d (of_nat i))) @ image16 (upto 32 (PLUT d)) @ enc32 (rmod d) @ enc32 (wmod d) @
     enc32 (clipx d) @ enc32 (clipy d) @ enc32 (FSM d) @ enc32 (of_bool (g_CEL_DRAW_PENDING u)) @ enc64 (g_CEL_BUSY_UNTIL u))"

definition madam_snap :: "madam_unit \<Rightarrow> madam \<times> u32 \<times> u64" where
  "madam_snap u = (MADAM u, of_bool (g_CEL_DRAW_PENDING u), g_CEL_BUSY_UNTIL u)"

lemma length_madam_enc: "length (madam_enc u) = 8544"
  by (simp add: madam_enc_def Let_def)

lemma emits_madam: "emits (madam_state_write_payload u) (madam_enc u)"
  unfolding madam_state_write_payload_def madam_enc_def Let_def
  by (intro emits_and emits_u32_array emits_u16_array emits_u32 emits_i32 emits_u64) simp_all

lemma consumes_timing: "consumes (madam_read_timing d) (d, p, b) (enc32 p @ enc64 b)"
proof (rule consumesI)
  fix r ts assume r: "rok r" "rest r = (enc32 p @ enc64 b) @ ts"
  then have "unat (opera_state_reader_remaining r) \<noteq> 0" by (simp add: remaining_rest)
  then have n: "opera_state_reader_remaining r \<noteq> 0" by auto
  have c: "consumes (r_bind opera_state_read_u32 (\<lambda>p. r_bind opera_state_read_u64 (\<lambda>b. r_return (d, p, b))))
      (d, p, b) (enc32 p @ enc64 b @ [])"
    by (rule consumes_fields)+
  show "madam_read_timing d r = (Some (d, p, b), radv r (length (enc32 p @ enc64 b)))"
    using consumesD [OF c r(1), of ts] r(2) n by (simp add: madam_read_timing_def)
qed

lemma mregs_of_words: "\<forall>a\<ge>2112. mregs d a = 0 \<Longrightarrow> (\<lambda>a. fill 0 (upto 2112 (\<lambda>i. mregs d (of_nat i))) (unat a)) = mregs d"
  by (rule ext) (simp add: fill_def upto_def not_less word_le_nat_alt)

lemma consumes_madam:
  assumes "madam_clean u"
  shows "consumes madam_read (madam_snap u) (madam_enc u)"
proof -
  let ?d = "MADAM u"
  have d: "\<lparr>mregs = \<lambda>a. fill 0 (upto 2112 (\<lambda>i. mregs ?d (of_nat i))) (unat a), PLUT = fill 0 (upto 32 (PLUT ?d)),
      rmod = rmod ?d, wmod = wmod ?d, clipx = clipx ?d, clipy = clipy ?d, FSM = FSM ?d\<rparr> = ?d"
    using assms by (simp add: madam_clean_def mreg_def mregs_of_words fill_upto)
  have "consumes madam_state_read_payload
     \<lparr>mregs = \<lambda>a. fill 0 (upto 2112 (\<lambda>i. mregs ?d (of_nat i))) (unat a), PLUT = fill 0 (upto 32 (PLUT ?d)),
      rmod = rmod ?d, wmod = wmod ?d, clipx = clipx ?d, clipy = clipy ?d, FSM = FSM ?d\<rparr>
     (image32 (upto 2112 (\<lambda>i. mregs ?d (of_nat i))) @ image16 (upto 32 (PLUT ?d)) @ enc32 (rmod ?d) @ enc32 (wmod ?d) @
      enc32 (clipx ?d) @ enc32 (clipy ?d) @ enc32 (FSM ?d) @ [])"
    unfolding madam_state_read_payload_def
    by (rule consumes_bind consumes_return consumes_u32 consumes_i32 consumes_u32_array consumes_u16_array | simp)+
  then have "consumes madam_state_read_payload ?d
     (image32 (upto 2112 (\<lambda>i. mregs ?d (of_nat i))) @ image16 (upto 32 (PLUT ?d)) @ enc32 (rmod ?d) @ enc32 (wmod ?d) @
      enc32 (clipx ?d) @ enc32 (clipy ?d) @ enc32 (FSM ?d) @ [])"
    unfolding d .
  from consumes_bind [OF this, where f = madam_read_timing, OF consumes_timing] show ?thesis
    by (simp add: madam_read_def madam_snap_def madam_enc_def Let_def)
qed

lemma madam_payload: "madam_state_payload_size u = 8544"
proof -
  let ?w = "opera_state_writer_init None UINT32_MAX"
  have "wok ?w" "wspace ?w (length (madam_enc u))"
    by (simp_all add: wok_def wspace_def opera_state_writer_init_def length_madam_enc)
  from emitsD [OF emits_madam this] show ?thesis
    by (simp add: madam_state_payload_size_def opera_state_writer_used_def wput_def opera_state_writer_init_def
        length_madam_enc)
qed

interpretation madam_chunk: state_chunk "''MDAM''" madam_clean madam_enc madam_state_write_payload madam_read madam_snap
  "\<lambda>(d, p, b). \<not> p > 1" madam_install "\<lambda>g cur. g = madam_install (madam_snap g) cur"
  proof unfold_locales
  show "madam_clean u \<Longrightarrow> consumes madam_read (madam_snap u) (madam_enc u)" for u by (rule consumes_madam)
qed (auto simp: length_madam_enc emits_madam madam_snap_def)

text \<open>MADAM's saved state round-trips: saved into any buffer of at least its 8552 bytes and loaded over
  any other state of the unit, all registers, the colour table, the decoded controls, the state
  of the cel engine, its pending list and the cycle it is busy until come back, and nothing else
  of the unit changes.\<close>

theorem madam_state_roundtrip:
  assumes "madam_clean u" "8552 \<le> length buf"
  shows "opera_madam_state_size u = 8552 \<and> fst (opera_madam_state_save u buf) = 8552 \<and>
    opera_madam_state_load False (snd (opera_madam_state_save u buf)) 8552 cur =
      (8552, cur\<lparr>MADAM := MADAM u, g_CEL_DRAW_PENDING := g_CEL_DRAW_PENDING u, g_CEL_BUSY_UNTIL := g_CEL_BUSY_UNTIL u\<rparr>)"
proof -
  let ?g = "madam_install (madam_snap u) cur"
  have g: "?g = cur\<lparr>MADAM := MADAM u, g_CEL_DRAW_PENDING := g_CEL_DRAW_PENDING u, g_CEL_BUSY_UNTIL := g_CEL_BUSY_UNTIL u\<rparr>"
    by (simp add: madam_install_def madam_snap_def)
  have same: "madam_clean ?g" "madam_enc ?g = madam_enc u" "madam_state_write_payload ?g = madam_state_write_payload u"
    "?g = madam_install (madam_snap ?g) cur"
    using assms(1) by (simp_all add: g madam_clean_def mreg_def madam_enc_def madam_state_write_payload_def
        madam_snap_def madam_install_def)
  have n: "payload_sizing (madam_state_write_payload u) = 8544"
    using payload_sizing_emits [OF emits_madam [of u]] by (simp add: length_madam_enc)
  show ?thesis
    using madam_chunk.roundtrip [OF same(1), of buf cur] madam_chunk.saved_size [OF assms(1), of buf] same assms g
    by (simp add: opera_madam_state_load_def opera_madam_state_size_def opera_madam_state_save_def madam_payload n
        length_madam_enc opera_state_chunk_size_def opera_state_save_size_def opera_state_chunk_header_size_def)
qed

end
