(* ===== verification/Opera_Cel_Frame.thy ===== *)
theory Opera_Cel_Frame
  imports Opera_Cel
begin

text \<open>
  What the cel engine leaves alone. Everything the engine does is made of a few kinds of change:
  the bit reader, the cel's control words and its place on the screen, the counters, the colour
  table, six registers and stores of 16 bits in memory. The locale \<open>texel_frame\<close> takes any view of
  the engine and its memory that drawing a texel does not change, \<open>row_frame\<close> one that reading and
  drawing a row does not change, and \<open>cel_frame\<close> one that nothing in a list of cels changes; they
  are used on the bit reader, on the cel's place, and on the engine's own control state and the
  layout of the memory.
\<close>

section \<open>Loops\<close>

lemma foldb_keeps:
  assumes "\<And>x s. x \<in> set xs \<Longrightarrow> P s \<Longrightarrow> P (snd (f x s))" "P s"
  shows "P (snd (foldb f xs s))"
  using assms
proof (induction xs arbitrary: s)
  case (Cons x xs)
  have "P (snd (f x s))" using Cons.prems by simp
  then show ?case using Cons by (simp add: case_prod_beta Let_def)
qed simp

lemma fold_keeps:
  assumes "\<And>x s. x \<in> set xs \<Longrightarrow> P s \<Longrightarrow> P (f x s)" "P s"
  shows "P (fold f xs s)"
  using assms by (induction xs arbitrary: s) simp_all

section \<open>Views the engine leaves alone\<close>

text \<open>The registers the engine writes while it draws.\<close>

definition cel_regs :: "u32 list" where
  "cel_regs = [XYPOSH, XYPOSL, CURRENTCCB, NEXTCCB, PLUTDATA, PDATA]"

locale texel_frame =
  fixes k :: "gfx \<Rightarrow> 'a"
  assumes k_cel: "k (u\<lparr>CEL := c\<rparr>, m) = k (u, m)"
    and k_pixels: "k (u\<lparr>g_CEL_PIXELS_DRAWN := n\<rparr>, m) = k (u, m)"
    and k_texels: "k (u\<lparr>g_CEL_TEXELS_WALKED := n\<rparr>, m) = k (u, m)"
    and k_store: "k (u, opera_mem_write16 addr w m) = k (u, m)"
    and k_store_base: "k (u, opera_mem_write16_base addr w m) = k (u, m)"
begin

lemma k_on_cel: "k (on_cel f u, m) = k (u, m)"
  by (simp add: on_cel_def k_cel)

lemmas k_draws = k_cel k_pixels k_texels k_store k_store_base k_on_cel

lemma k_process_pixel: "k (process_pixel x y c l s) = k s"
  by (cases s) (simp add: process_pixel_def Let_def k_draws)

lemma k_writePIX: "k (writePIX x y p s) = k s"
  by (cases s) (simp add: writePIX_def Let_def k_draws)

lemma k_decode: "k (snd (snd (decode v s))) = k s"
  by (cases s) (simp add: decode_def PDEC_def Let_def case_prod_beta k_draws)

subsection \<open>Texels\<close>

lemma k_TexelDrawLine: "k (TexelDrawLine p a x y n s) = k s"
proof -
  obtain u m where s: "s = (u, m)" by (cases s)
  have f: "k (u', snd (fold (\<lambda>i r. (sh i r, opera_mem_write16 (ad i) (w i r) (snd r))) xs (z, m))) = k (u', m)"
    for u' sh ad w xs and z :: "u32 \<times> u32"
    by (rule fold_keeps [where P = "\<lambda>r. k (u', snd r) = k (u', m)"]) (auto simp: k_draws)
  show ?thesis
    unfolding s TexelDrawLine_def Let_def prod.case by (simp add: case_prod_unfold f k_draws)
qed

lemma k_TexelDrawScale: "k (snd (TexelDrawScale p a x y dx dy s)) = k s"
proof -
  have "k (snd (foldb (\<lambda>(x, y) s. if clipping (fst s) x y then (False, s) else (st, process_pixel x y c l s)) xs s)) = k s"
    for st c l xs
    by (rule foldb_keeps [where P = "\<lambda>r. k r = k s"]) (auto simp: k_process_pixel)
  then show ?thesis by (simp add: TexelDrawScale_def Let_def)
qed

lemma k_draw_span: "k (snd (snd (draw_span p a hires draw mx y x0 x1 s))) = k (snd s)"
proof -
  obtain sh u m where s: "s = (sh, u, m)" by (cases s) auto
  have "k (snd (snd (foldb f xs (sh, u', m)))) = k (u', m)"
    if "\<And>x r. k (snd (snd (f x r))) = k (snd r)" for u' f and xs :: "u32 list"
    by (rule foldb_keeps [where P = "\<lambda>r. k (snd r) = k (u', m)"]) (simp_all add: that)
  then show ?thesis by (simp add: s draw_span_def Let_def case_prod_beta k_writePIX k_draws)
qed

lemma k_scan_row: "k (snd (snd (scan_row p a hires draw mx A B C D y s))) = k (snd s)"
  by (simp add: scan_row_def Let_def case_prod_beta k_draw_span)

lemma k_rasterize: "k (snd (rasterize_arbitrary p a A B C D hires draw s)) = k s"
proof -
  have "k (snd (snd (foldb (scan_row p a hires draw mx A B C D) ys (sh, s)))) = k s" for mx A B C D ys sh
    by (rule foldb_keeps [where P = "\<lambda>r. k (snd r) = k s"]) (simp_all add: k_scan_row)
  then show ?thesis by (simp add: rasterize_arbitrary_def Let_def)
qed

lemma k_TexelDrawArbitrary: "k (snd (TexelDrawArbitrary p a A B C D s)) = k s"
  by (cases s) (simp add: TexelDrawArbitrary_def Let_def case_prod_beta k_rasterize k_draws)

end

section \<open>Views no row of texels changes\<close>

locale row_frame = texel_frame k for k :: "gfx \<Rightarrow> 'a" +
  assumes k_bits: "k (u\<lparr>bitoper := b\<rparr>, m) = k (u, m)"
begin

lemma k_on_bits: "k (on_bits f s) = k s"
  by (cases s) (simp add: on_bits_def k_draws k_bits)

lemma k_read_bits: "k (snd (read_bits lr n s)) = k s"
  by (cases s) (simp add: read_bits_def Let_def case_prod_beta k_draws k_bits)

lemma k_read_texel: "k (snd (snd (read_texel lr n s))) = k s"
  by (simp add: read_texel_def case_prod_beta k_decode k_read_bits)

lemma k_lr_texel: "k (snd (snd (lr_texel off i j s))) = k s"
  by (simp add: lr_texel_def k_decode)

subsection \<open>Rows\<close>

lemma k_line_row:
  assumes "\<And>j s. k (snd (snd (texel j s))) = k s"
  shows "k (snd (snd (line_row texel js (x, y, s)))) = k s"
  unfolding line_row_def
  by (rule fold_keeps [where P = "\<lambda>r. k (snd (snd r)) = k s"])
    (auto simp: case_prod_beta Let_def k_process_pixel assms)

lemma k_scale_row:
  assumes "\<And>j s. k (snd (snd (texel j s))) = k s"
  shows "k (snd (snd (snd (scale_row texel js (x, y, s))))) = k s"
  unfolding scale_row_def
  by (rule foldb_keeps [where P = "\<lambda>r. k (snd (snd r)) = k s"])
    (auto simp: case_prod_beta Let_def k_TexelDrawScale assms)

lemma k_quad_row:
  assumes "\<And>j s. k (snd (snd (texel j s))) = k s"
  shows "k (snd (snd (snd (snd (snd (quad_row texel hdx hdy js (x, y, xd, yd, s))))))) = k s"
  unfolding quad_row_def
  by (rule foldb_keeps [where P = "\<lambda>r. k (snd (snd (snd (snd r)))) = k s"])
    (auto simp: case_prod_beta Let_def draw_quad_def k_TexelDrawArbitrary assms)

subsection \<open>Packets\<close>

lemma k_PackedSkipPixels: "k (snd (snd (PackedSkipPixels type n skip bpp s))) = k s"
  by (simp add: PackedSkipPixels_def Let_def k_on_bits)

lemma k_packet_header: "k (pk_gfx (snd (snd (packet_header ended r)))) = k (pk_gfx r)"
  by (simp add: packet_header_def Let_def case_prod_beta k_PackedSkipPixels k_read_bits)

lemma k_packet_moves: "k (pk_gfx (pk_skip_bits n r)) = k (pk_gfx r)" "k (pk_gfx (pk_advance n r)) = k (pk_gfx r)"
  "k (pk_gfx (pk_advance2 n r)) = k (pk_gfx r)" "k (pk_gfx (snd (snd (pk_texel r)))) = k (pk_gfx r)"
  by (simp_all add: pk_skip_bits_def pk_advance_def pk_advance2_def pk_texel_def case_prod_beta k_on_bits k_read_texel)

lemma k_line_step: "k (pk_gfx (snd (line_step r))) = k (pk_gfx r)"
proof -
  have "k (pk_gfx (line_literal n r)) = k (pk_gfx r)" "k (pk_gfx (line_packed n r)) = k (pk_gfx r)" for n r
    by (simp_all add: line_literal_def line_packed_def Let_def case_prod_beta k_line_row k_read_texel k_packet_moves
        k_TexelDrawLine)
  then have "k (pk_gfx (snd (line_packet type n r))) = k (pk_gfx r)" for type n r
    by (simp add: line_packet_def Let_def k_packet_moves)
  then show ?thesis by (simp add: line_step_def Let_def case_prod_beta k_packet_moves k_packet_header)
qed

lemma k_pk_draw: "k (pk_gfx (snd (pk_draw_scale p a n r))) = k (pk_gfx r)"
  "k (pk_gfx (snd (pk_draw_quad p a r))) = k (pk_gfx r)"
  by (simp_all add: pk_draw_scale_def pk_draw_quad_def draw_quad_def Let_def case_prod_beta k_TexelDrawScale
      k_TexelDrawArbitrary)

lemma k_scale_step: "k (pk_gfx (snd (scale_step r))) = k (pk_gfx r)"
proof -
  have "k (pk_gfx (snd (scale_literal n r))) = k (pk_gfx r)" for n r
    by (induction n arbitrary: r) (simp_all add: Let_def case_prod_beta k_packet_moves k_pk_draw)
  moreover have "k (pk_gfx (snd (scale_maria p a n r))) = k (pk_gfx r)" for p a n r
    by (induction n arbitrary: r) (simp_all add: Let_def case_prod_beta k_packet_moves k_pk_draw)
  ultimately show ?thesis
    by (simp add: scale_step_def scale_packed_def Let_def case_prod_beta k_packet_moves k_packet_header k_pk_draw)
qed

lemma k_quad_step: "k (pk_gfx (snd (quad_step r))) = k (pk_gfx r)"
proof -
  have "k (pk_gfx (snd (quad_literal n r))) = k (pk_gfx r)" for n r
    by (induction n arbitrary: r) (simp_all add: Let_def case_prod_beta k_packet_moves k_pk_draw)
  moreover have "k (pk_gfx (snd (quad_repeat p a n r))) = k (pk_gfx r)" for p a n r
    by (induction n arbitrary: r) (simp_all add: Let_def case_prod_beta k_packet_moves k_pk_draw)
  ultimately show ?thesis
    by (simp add: quad_step_def quad_packed_def Let_def case_prod_beta k_packet_moves k_packet_header)
qed

lemma k_packet_loop:
  assumes "packet_loop step r = Some r'" "\<And>r. k (pk_gfx (snd (step r))) = k (pk_gfx r)"
  shows "k (pk_gfx r') = k (pk_gfx r)"
proof -
  have "step = step \<longrightarrow> k (pk_gfx r') = k (pk_gfx r)"
  proof (rule packet_loop.raw_induct [of "\<lambda>st r r'. st = step \<longrightarrow> k (pk_gfx r') = k (pk_gfx r)", OF _ assms(1)])
    fix loop st r r'
    assume ih: "\<And>st r r'. loop st r = Some r' \<Longrightarrow> st = step \<longrightarrow> k (pk_gfx r') = k (pk_gfx r)"
      and b: "(let (again, r) = st r in if again then loop st r else Some r) = Some r'"
    show "st = step \<longrightarrow> k (pk_gfx r') = k (pk_gfx r)"
      using b ih [of st "snd (st r)" r'] assms(2) [of r] by (auto simp: case_prod_beta Let_def split: if_splits)
  qed
  then show ?thesis by simp
qed

end

section \<open>Views no list of cels changes\<close>

locale cel_frame = row_frame k for k :: "gfx \<Rightarrow> 'a" +
  assumes k_place: "k (u\<lparr>CELMAP := g\<rparr>, m) = k (u, m)"
    and k_cels: "k (u\<lparr>g_CEL_LIST_CELS := n\<rparr>, m) = k (u, m)"
    and k_plut: "k (u\<lparr>MADAM := (MADAM u)\<lparr>PLUT := p\<rparr>\<rparr>, m) = k (u, m)"
    and k_reg: "a \<in> set cel_regs \<Longrightarrow> k (set_mreg a v u, m) = k (u, m)"
begin

lemma k_on: "k (on_cel f u, m) = k (u, m)" "k (on_map h u, m) = k (u, m)"
  by (simp_all add: on_cel_def on_map_def k_cel k_place)

lemmas k_simps = k_draws k_bits k_place k_on(2) k_cels k_plut

lemma k_regs: "k (set_mreg XYPOSH v u, m) = k (u, m)" "k (set_mreg XYPOSL v u, m) = k (u, m)"
  "k (set_mreg CURRENTCCB v u, m) = k (u, m)" "k (set_mreg NEXTCCB v u, m) = k (u, m)"
  "k (set_mreg PLUTDATA v u, m) = k (u, m)" "k (set_mreg PDATA v u, m) = k (u, m)"
  by (rule k_reg, simp add: cel_regs_def)+

subsection \<open>Rows\<close>

lemma k_shear: "k (shear s) = k s"
  by (cases s) (simp add: shear_def k_simps)

lemma k_rows_aux:
  fixes s :: gfx
  assumes "\<And>i x y s. k (snd (snd (f i (x, y, s)))) = k s"
  shows "k (snd (snd (fold f is (x, y, s)))) = k s"
  by (rule fold_keeps [where P = "\<lambda>r. k (snd (snd r)) = k s"]) (use assms in \<open>auto simp: split_paired_all\<close>)

lemma k_draw_rows:
  assumes a: "\<And>i s. k (attach i s) = k s" and t: "\<And>i j s. k (snd (snd (texel i j s))) = k s"
  shows "k (draw_rows attach texel rng s) = k s"
proof -
  have c: "k (clip_width s) = k s" by (cases s) (simp add: clip_width_def k_simps)
  have "k (line_rows attach texel rng s) = k s" "k (scale_rows attach texel rng s) = k s"
    "k (quad_rows attach texel rng s) = k s"
    by (simp_all add: line_rows_def scale_rows_def quad_rows_def Let_def case_prod_beta k_rows_aux k_line_row k_scale_row
        k_quad_row a t k_shear c)
  then show ?thesis by (simp add: draw_rows_def split: texel_draw_func.splits)
qed

subsection \<open>Placing\<close>

lemma k_TestInitVisual: "k (snd (TestInitVisual packed u), m) = k (u, m)"
proof -
  have "k (snd (InitLineMap u), m) = k (u, m)"
    by (simp add: InitLineMap_def Let_def case_prod_beta k_simps)
  then have "k (snd (line_or_scale a b u), m) = k (u, m)" for a b
    by (simp add: line_or_scale_def InitScaleMap_def k_simps)
  then show ?thesis by (simp add: TestInitVisual_def Let_def InitArbitraryMap_def k_simps)
qed

lemma k_StoreXY: "k (StoreXYPosToRegisters x y u, m) = k (u, m)" "k (StoreXYPosFromDrawHeight x y dx dy n u, m) = k (u, m)"
  "k (LoadXYPosFromRegisters u, m) = k (u, m)"
  by (simp_all add: StoreXYPosToRegisters_def StoreXYPosFromDrawHeight_def LoadXYPosFromRegisters_def Let_def k_simps k_regs)

lemma k_draw_visible:
  assumes "\<And>s. k (draw s) = k s"
  shows "k (draw_visible packed draw s) = k s"
proof -
  obtain u m where s: "s = (u, m)" by (cases s)
  have "k (fst r, snd r) = k r" for r :: gfx by simp
  then show ?thesis
    by (simp add: s draw_visible_def Let_def case_prod_beta k_StoreXY assms k_TestInitVisual)
qed

subsection \<open>Cels\<close>

lemma k_DrawLiteralCel: "k (DrawLiteralCel s) = k s"
proof -
  have "k (attach_row lr b rb bpp sk i s) = k s" for lr b rb bpp sk i s
    by (simp add: attach_row_def Let_def k_on_bits)
  then have "k (draw_rows (attach_row lr b rb bpp sk) (\<lambda>i j. read_texel lr bpp) urange s) = k s" for lr b rb bpp sk s
    by (simp add: k_draw_rows k_read_texel)
  then show ?thesis
    by (cases s) (simp add: DrawLiteralCel_def Let_def k_StoreXY k_draw_visible k_simps)
qed

lemma k_DrawLRCel: "k (DrawLRCel s) = k s"
  by (cases s) (simp add: DrawLRCel_def Let_def k_draw_visible k_draw_rows k_lr_texel set_size_def k_simps)

subsection \<open>Packed cels\<close>

lemma k_packed_row_step:
  assumes "packed_row_step bpp (x, y, d, s) = Some st"
  shows "k (snd (snd (snd st))) = k s"
proof -
  have o: "k (pk_gfx (open_row bpp d x y s)) = k s"
    by (simp add: open_row_def Let_def case_prod_beta k_read_bits k_on_bits)
  let ?r = "open_row bpp d x y s"
  show ?thesis
  proof (cases "TEXEL_DRAW_FUNC (pk_map ?r)")
    case TEXEL_DRAW_FUNC_LINE
    then show ?thesis
      using assms o by (auto simp: packed_row_step_def Let_def k_simps split: if_splits dest!: k_packet_loop [OF _ k_line_step])
  next
    case TEXEL_DRAW_FUNC_SCALE
    then show ?thesis
      using assms o by (auto simp: packed_row_step_def Let_def dest!: k_packet_loop [OF _ k_scale_step])
  next
    case TEXEL_DRAW_FUNC_ARBITRARY
    then show ?thesis
      using assms o by (auto simp: packed_row_step_def Let_def k_shear dest!: k_packet_loop [OF _ k_quad_step])
  qed
qed

lemma k_packed_rows:
  assumes "packed_rows bpp n st = Some s'"
  shows "k s' = k (snd (snd (snd st)))"
  using assms
proof (induction n arbitrary: st)
  case (Suc n)
  obtain x y d s where st: "st = (x, y, d, s)" by (cases st) auto
  show ?case using Suc k_packed_row_step [of bpp x y d s] by (auto simp: st split: option.splits)
qed simp

lemma k_DrawPackedCel:
  assumes "DrawPackedCel s = Some s'"
  shows "k s' = k s"
proof -
  obtain u m where s: "s = (u, m)" by (cases s)
  show ?thesis
    using assms
    by (auto simp: s DrawPackedCel_def Let_def case_prod_beta k_StoreXY k_TestInitVisual k_simps
        dest!: k_packed_rows split: option.splits if_splits)
qed

subsection \<open>Lists\<close>

lemma k_on_unit: "(\<And>u m. k (f u, m) = k (u, m)) \<Longrightarrow> k (on_unit f s) = k s"
  by (cases s) (simp add: on_unit_def)

lemma k_next_word: "a \<in> set cel_regs \<Longrightarrow> k (snd (next_word a s)) = k s"
  by (simp add: next_word_def k_on_unit k_reg)

lemma k_next: "k (snd (next_word CURRENTCCB s)) = k s" "k (snd (next_word PDATA s)) = k s"
  by (rule k_next_word, simp add: cel_regs_def)+

lemma k_load_block: "k (load_block s) = k s"
proof -
  have p: "k (load_pointer reg ab s) = k s" if "reg \<in> set cel_regs" for reg ab s
    using that by (simp add: load_pointer_def Let_def case_prod_beta k_next k_on_unit k_reg)
  have "k (load_position s) = k s" for s
    by (simp add: load_position_def Let_def k_on_unit k_regs k_StoreXY)
  moreover have "k (load_xor s) = k s" "k (load_size s) = k s" "k (load_shear s) = k s" "k (load_pixc s) = k s" for s
    by (simp_all add: load_xor_def load_size_def load_shear_def load_pixc_def Let_def case_prod_beta k_on_unit k_next k_on)
  moreover have "k (load_preamble s) = k s" for s
    by (simp add: load_preamble_def Let_def case_prod_beta k_on_unit k_next k_on)
  ultimately show ?thesis
    by (simp add: load_block_def Let_def case_prod_beta k_on_unit k_next k_on p cel_regs_def)
qed

lemma k_LoadPLUT: "k (LoadPLUT pnt n s) = k s"
proof -
  obtain u m where s: "s = (u, m)" by (cases s)
  show ?thesis
    unfolding s LoadPLUT_def prod.case
    by (rule fold_keeps [where P = "\<lambda>u'. k (u', m) = k (u, m)"]) (simp_all add: on_madam_def k_simps)
qed

lemma k_load_colours: "k (load_colours s) = k s"
  by (simp add: load_colours_def Let_def k_LoadPLUT)

lemma k_draw_cel: "draw_cel s = Some s' \<Longrightarrow> k s' = k s"
  by (auto simp: draw_cel_def Let_def k_DrawLRCel k_DrawLiteralCel k_DrawPackedCel split: if_splits)

lemma k_cel_turn:
  assumes "cel_turn s = Some r"
  shows "k (snd r) = k s"
proof -
  have k1: "k (on_unit (\<lambda>u. u\<lparr>g_CEL_LIST_CELS := n u\<rparr>) s) = k s" "k (on_unit load_decoder s) = k s"
    "k (on_unit (\<lambda>u. set_mreg CURRENTCCB (v u) u) s) = k s" for n v s
    by (simp_all add: k_on_unit k_cels load_decoder_def k_on k_regs)
  show ?thesis
    using assms by (auto simp: cel_turn_def Let_def k1 k_load_block k_load_colours dest!: k_draw_cel split: if_splits)
qed

lemma k_cel_loop: "cel_loop s = Some s' \<Longrightarrow> k s' = k s"
proof (erule cel_loop.raw_induct [rotated])
  fix loop s s'
  assume ih: "\<And>s s'. loop s = Some s' \<Longrightarrow> k s' = k s"
    and b: "(if mreg NEXTCCB (fst s) \<noteq> 0 \<and> flag_is_clr (CCBFLAGS (CEL (fst s))) CCB_LAST
      then (case cel_turn s of None \<Rightarrow> None | Some (again, s) \<Rightarrow> if again then loop s else Some s) else Some s) = Some s'"
  show "k s' = k s"
    using b by (auto simp: ih dest!: k_cel_turn split: if_splits option.splits)
qed

end

section \<open>The engine's own state and the memory's layout\<close>

definition engine_control :: "gfx \<Rightarrow> (u32 \<Rightarrow> u32) \<times> u32 \<times> u32 \<times> u32 \<times> u32 \<times> u32 \<times> bool \<times> nat \<times> u64 \<times> bool \<times> (nat \<Rightarrow> u64) \<times> cel_tables" where
  "engine_control = (\<lambda>(u, m).
     ((\<lambda>a. if a \<in> set cel_regs then 0 else mreg a u), rmod (MADAM u), wmod (MADAM u), clipx (MADAM u), clipy (MADAM u),
      FSM (MADAM u), KPRINT u, ME_MODE u, g_CEL_BUSY_UNTIL u, g_CEL_DRAW_PENDING u, tmpMO u, TABLES u))"

interpretation reader: texel_frame "\<lambda>s. bitoper (fst s)"
  by unfold_locales simp_all

interpretation place: row_frame "\<lambda>s. CELMAP (fst s)"
  by unfold_locales simp_all

interpretation engine: cel_frame engine_control
  by unfold_locales
    (auto simp: engine_control_def mreg_def set_mreg_def on_madam_def fun_eq_iff opera_mem_write16_def
      opera_mem_write16_base_def Let_def)

text \<open>The memory without the bytes of DRAM and VRAM.\<close>

definition layout :: "gfx \<Rightarrow> memory" where
  "layout s = (snd s)\<lparr>DRAM := None\<rparr>"

interpretation layout: cel_frame layout
  by unfold_locales (auto simp: layout_def opera_mem_write16_def opera_mem_write16_base_def Let_def)

end
