(* ===== verification/Opera_Signed.thy ===== *)
theory Opera_Signed
  imports Opera_Prelude
begin

text \<open>The signed reading of a word: its range, and sums and differences that do not overflow.\<close>

lemma sint_bounds32: "- 2147483648 \<le> sint x" "sint x < 2147483648" for x :: u32
  using sint_range_size [of x] by (simp_all add: word_size)

lemma sint_word_of_int32: "- 2147483648 \<le> i \<Longrightarrow> i < 2147483648 \<Longrightarrow> sint (word_of_int i :: u32) = i"
  by (simp add: signed_take_bit_int_eq_self sint_sbintrunc')

lemma sint_arith:
  "- 2147483648 \<le> sint a - sint b \<Longrightarrow> sint a - sint b < 2147483648 \<Longrightarrow> sint (a - b) = sint a - sint b"
  "- 2147483648 \<le> sint a - sint b + 1 \<Longrightarrow> sint a - sint b + 1 < 2147483648 \<Longrightarrow> sint (a - b + 1) = sint a - sint b + 1"
  for a b :: u32
proof -
  have "a - b = word_of_int (sint a - sint b)" "a - b + 1 = word_of_int (sint a - sint b + 1)" by simp_all
  then show "- 2147483648 \<le> sint a - sint b \<Longrightarrow> sint a - sint b < 2147483648 \<Longrightarrow> sint (a - b) = sint a - sint b"
    "- 2147483648 \<le> sint a - sint b + 1 \<Longrightarrow> sint a - sint b + 1 < 2147483648 \<Longrightarrow> sint (a - b + 1) = sint a - sint b + 1"
    by (metis sint_word_of_int32)+
qed

lemma sint_pred: "0 <s c \<Longrightarrow> sint (c - 1) = sint c - 1" for c :: u32
  using sint_bounds32 [of c] sint_arith(1) [of c 1] by (simp add: word_sless_alt)

end
