(* ===== verification/Opera_Cel_Returns.thy ===== *)
theory Opera_Cel_Returns
  imports Opera_Cel_Frame Opera_Clock_Props Opera_Signed
begin

text \<open>
  The loops of the cel engine end. A row of a packed cel is read packet by packet until one ends it
  or the row's bytes run out; every packet takes at least its own 8 bits, so the reader's position
  bounds the number of packets. Hence a cel always returns, and a list returns when its links do
  not go in a circle.
\<close>

section \<open>How far the reader gets\<close>

abbreviation (input) rd :: "gfx \<Rightarrow> BitReaderBig" where "rd s \<equiv> bitoper (fst s)"

text \<open>\<open>fwd n b c\<close>: reader \<open>c\<close> is at most \<open>n\<close> bits further in the same buffer than \<open>b\<close>.\<close>

definition fwd :: "nat \<Rightarrow> BitReaderBig \<Rightarrow> BitReaderBig \<Rightarrow> bool" where
  "fwd n b c \<longleftrightarrow> br_buf c = br_buf b \<and>
     (br_inv b \<longrightarrow> br_buf b \<noteq> 0 \<longrightarrow> br_pos b + n < 2 ^ 34 \<longrightarrow>
        br_inv c \<and> br_pos b \<le> br_pos c \<and> br_pos c \<le> br_pos b + n)"

lemma fwd_refl [simp]: "fwd n b b"
  by (simp add: fwd_def)

lemma fwd_trans: "fwd m a b \<Longrightarrow> fwd n b c \<Longrightarrow> fwd (m + n) a c"
proof -
  assume 1: "fwd m a b" and 2: "fwd n b c"
  show ?thesis
    unfolding fwd_def
  proof (intro conjI impI)
    show "br_buf c = br_buf a" using 1 2 by (simp add: fwd_def)
    assume a: "br_inv a" "br_buf a \<noteq> 0" "br_pos a + (m + n) < 2 ^ 34"
    then have b: "br_inv b" "br_buf b \<noteq> 0" "br_pos a \<le> br_pos b" "br_pos b \<le> br_pos a + m"
      using 1 by (simp_all add: fwd_def)
    then have "br_pos b + n < 2 ^ 34" using a(3) by linarith
    then show "br_inv c" "br_pos a \<le> br_pos c" "br_pos c \<le> br_pos a + (m + n)"
      using 2 b by (auto simp: fwd_def)
  qed
qed

lemma fwd_mono: "fwd m a b \<Longrightarrow> m \<le> n \<Longrightarrow> fwd n a b"
  unfolding fwd_def by auto

lemma bits_val_bound: "n < 32 \<Longrightarrow> unat (bits_val f p n) < 2 ^ n"
proof (induction n)
  case (Suc n)
  have l: "unat (bits_val f p n) < 2 ^ n" using Suc by simp
  have "(2 :: nat) ^ Suc n \<le> 2 ^ 31" using Suc.prems by (intro power_increasing) simp_all
  then have "2 * unat (bits_val f p n) + 1 < 4294967296" using l by simp
  then show ?case using l by (simp add: unat_word_ariths of_bool_def)
qed simp

lemma read_position:
  assumes "br_inv b" "br_buf b \<noteq> 0" "br_pos b + bit_rate n < 8 * 4294967296"
  obtains c where "BitReaderBig_Read m n b = (bits_val (stream m (br_buf b)) (br_pos b) (bit_rate n), c)"
    "br_pos c = br_pos b + bit_rate n" "br_inv c" "br_buf c = br_buf b"
proof (cases "bit_rate n < 8 - nat (br_bitpoint b)")
  case True
  then show thesis
    using True assms(1) by (intro that [OF read_fits [OF assms(1,2) True]]) (auto simp: br_pos_def br_inv_def)
next
  case False
  then show thesis using read_spans [OF assms(1,2) False assms(3), of m] that by blast
qed

lemma read_buf: "br_buf (snd (BitReaderBig_Read m n b)) = br_buf b"
  by (simp add: BitReaderBig_Read_def set_rate Let_def case_prod_beta)

lemma fwd_read: "fwd 32 b (snd (BitReaderBig_Read m n b))"
proof -
  have r: "bit_rate n \<le> 32" by (rule bit_rate_range)
  show ?thesis
    unfolding fwd_def
  proof (intro conjI impI)
    show "br_buf (snd (BitReaderBig_Read m n b)) = br_buf b" by (rule read_buf)
    assume "br_inv b" "br_buf b \<noteq> 0" "br_pos b + 32 < 2 ^ 34"
    moreover have "br_pos b + bit_rate n < 8 * 4294967296" using calculation r by simp
    ultimately obtain c where "snd (BitReaderBig_Read m n b) = c" "br_pos c = br_pos b + bit_rate n" "br_inv c"
      using read_position [of b n m] by (metis snd_conv)
    then show "br_inv (snd (BitReaderBig_Read m n b))" "br_pos b \<le> br_pos (snd (BitReaderBig_Read m n b))"
      "br_pos (snd (BitReaderBig_Read m n b)) \<le> br_pos b + 32" using r by simp_all
  qed
qed

lemma fwd_skip: "unat n \<le> 2 ^ 20 \<Longrightarrow> fwd (unat n) b (BitReaderBig_Skip n b)"
proof -
  assume n: "unat n \<le> 2 ^ 20"
  show ?thesis
    unfolding fwd_def
  proof (intro conjI impI)
    show "br_buf (BitReaderBig_Skip n b) = br_buf b" by (simp add: BitReaderBig_Skip_def Let_def)
    assume b: "br_inv b" "br_buf b \<noteq> 0" "br_pos b + unat n < 2 ^ 34"
    then have "unat (br_point b) + 2 ^ 29 < 2 ^ 32" by (simp add: br_pos_def)
    then have "br_pos (BitReaderBig_Skip n b) = br_pos b + unat n \<and> br_inv (BitReaderBig_Skip n b)"
      using bit_skip_position [OF b(1), of n] n by simp
    then show "br_inv (BitReaderBig_Skip n b)" "br_pos b \<le> br_pos (BitReaderBig_Skip n b)"
      "br_pos (BitReaderBig_Skip n b) \<le> br_pos b + unat n" by simp_all
  qed
qed

lemma rd_on_bits: "rd (on_bits f s) = f (rd s)"
  by (cases s) (simp add: on_bits_def)

lemma rd_read_bits: "rd (snd (read_bits False n s)) = snd (BitReaderBig_Read (snd s) (ucast n) (rd s))"
  "fst (read_bits False n s) = fst (BitReaderBig_Read (snd s) (ucast n) (rd s))"
  by (cases s, simp add: read_bits_def Let_def case_prod_beta)+

lemma rd_read_texel: "fwd 32 (rd s) (rd (snd (snd (read_texel False n s))))"
  by (simp add: read_texel_def case_prod_beta reader.k_decode rd_read_bits fwd_read)

lemma fwd_pk_texel: "fwd 32 (rd (pk_gfx r)) (rd (pk_gfx (snd (snd (pk_texel r)))))"
  by (simp add: pk_texel_def case_prod_beta rd_read_texel)

section \<open>Packet headers\<close>

lemma small_product: "unat a \<le> 16 \<Longrightarrow> unat b \<le> 64 \<Longrightarrow> unat (a * b) \<le> 1024" for a b :: u32
proof -
  assume "unat a \<le> 16" "unat b \<le> 64"
  then have "unat a * unat b \<le> 16 * 64" by (rule mult_mono) simp_all
  then show ?thesis by (simp add: unat_word_ariths)
qed

lemma PackedSkipPixels_facts:
  assumes "unat bpp \<le> 16" "unat n \<le> 64"
  shows "unat (fst (PackedSkipPixels type n skip bpp s)) \<le> unat n"
    "fwd 1024 (rd s) (rd (snd (snd (PackedSkipPixels type n skip bpp s))))"
    "type = 0 \<Longrightarrow> fst (PackedSkipPixels type n skip bpp s) = n"
proof -
  let ?k = "if skip < n then skip else n"
  have k: "?k \<le> n" by (simp add: order_less_imp_le)
  then have "unat (n - ?k) \<le> unat n" by (simp add: unat_sub)
  then show "unat (fst (PackedSkipPixels type n skip bpp s)) \<le> unat n"
    by (simp add: PackedSkipPixels_def Let_def)
  have "unat ?k \<le> 64" using k assms(2) by (simp add: word_le_nat_alt)
  then have "unat (bpp * ?k) \<le> 1024" by (rule small_product [OF assms(1)])
  then have "fwd 1024 (rd s) (BitReaderBig_Skip (bpp * ?k) (rd s))"
    by (intro fwd_mono [OF fwd_skip]) simp_all
  moreover have "fwd 1024 (rd s) (BitReaderBig_Skip bpp (rd s))"
    using assms(1) by (intro fwd_mono [OF fwd_skip]) simp_all
  ultimately show "fwd 1024 (rd s) (rd (snd (snd (PackedSkipPixels type n skip bpp s))))"
    by (simp add: PackedSkipPixels_def Let_def rd_on_bits)
  show "type = 0 \<Longrightarrow> fst (PackedSkipPixels type n skip bpp s) = n" by (simp add: PackedSkipPixels_def)
qed

lemma rates: "bit_rate (ucast (2 :: u32)) = 2" "bit_rate (ucast (6 :: u32)) = 6"
  by (simp_all add: bit_rate_def)

lemma read_nothing: "br_buf b = 0 \<Longrightarrow> BitReaderBig_Read m n b = (0, BitReaderBig_SetBitRate n b)"
  by (simp add: BitReaderBig_Read_def Let_def set_rate)

definition header_bits :: "gfx \<Rightarrow> u32 \<times> u32 \<times> u32 \<times> gfx" where
  "header_bits s =
     (let (t, s1) = read_bits False 2 s; (n, s2) = read_bits False 6 s1 in (t, br_point (rd s1), n + 1, s2))"

lemma packet_header_bits:
  "packet_header ended r =
     (let (t, p, n, s) = header_bits (pk_gfx r);
          t = (if ended (p + pk_data r) (pk_end r) then 0 else t)
      in if pk_skip r \<noteq> 0 then
           (let (n, skip, s) = PackedSkipPixels t n (pk_skip r) (pk_bpp r) s in (t, n, r\<lparr>pk_skip := skip, pk_gfx := s\<rparr>))
         else (t, n, r\<lparr>pk_gfx := s\<rparr>))"
  by (simp add: packet_header_def header_bits_def Let_def case_prod_beta)

lemma header_bits_facts:
  assumes "header_bits s = (t, p, n, s2)" "br_inv (rd s)" "br_pos (rd s) + 8 < 2 ^ 34"
  shows "br_buf (rd s2) = br_buf (rd s)" "n \<noteq> 0 \<and> unat n \<le> 64"
    "br_buf (rd s) = 0 \<Longrightarrow> t = 0"
    "br_buf (rd s) \<noteq> 0 \<Longrightarrow> br_pos (rd s2) = br_pos (rd s) + 8 \<and> br_inv (rd s2) \<and> br_pos (rd s) \<le> 8 * unat p + 5 \<and> 8 * unat p \<le> br_pos (rd s) + 2"
proof -
  obtain u m where s: "s = (u, m)" by (cases s)
  let ?b = "bitoper u"
  let ?b1 = "snd (BitReaderBig_Read m (ucast (2 :: u32)) ?b)"
  let ?b2 = "snd (BitReaderBig_Read m (ucast (6 :: u32)) ?b1)"
  have e: "t = fst (BitReaderBig_Read m (ucast (2 :: u32)) ?b)" "p = br_point ?b1"
    "n = fst (BitReaderBig_Read m (ucast (6 :: u32)) ?b1) + 1" "rd s2 = ?b2"
    using assms(1) by (auto simp: s header_bits_def read_bits_def Let_def case_prod_beta)
  show "br_buf (rd s2) = br_buf (rd s)" by (simp only: e read_buf s fst_conv)
  have "(n \<noteq> 0 \<and> unat n \<le> 64) \<and> (br_buf ?b = 0 \<longrightarrow> t = 0) \<and>
    (br_buf ?b \<noteq> 0 \<longrightarrow> br_pos ?b2 = br_pos ?b + 8 \<and> br_inv ?b2 \<and> br_pos ?b \<le> 8 * unat p + 5 \<and> 8 * unat p \<le> br_pos ?b + 2)"
  proof (cases "br_buf ?b = 0")
    case True
    then show ?thesis using read_buf [of m _ ?b] by (simp add: e read_nothing)
  next
    case False
    have i: "br_inv ?b" "br_pos ?b + 8 < 2 ^ 34" using assms(2,3) by (simp_all add: s)
    have l: "br_pos ?b + 2 < 8 * 4294967296" "br_pos ?b + 2 + 6 < 8 * 4294967296" using i(2) by simp_all
    obtain c where c: "BitReaderBig_Read m (ucast (2 :: u32)) ?b = (bits_val (stream m (br_buf ?b)) (br_pos ?b) 2, c)"
        "br_pos c = br_pos ?b + 2" "br_inv c" "br_buf c = br_buf ?b"
      by (rule read_position [of ?b "ucast (2 :: u32)" m]) (use i False l in \<open>simp_all only: rates not_False_eq_True\<close>)
    obtain d where d: "BitReaderBig_Read m (ucast (6 :: u32)) c = (bits_val (stream m (br_buf c)) (br_pos c) 6, d)"
        "br_pos d = br_pos c + 6" "br_inv d" "br_buf d = br_buf c"
      by (rule read_position [of c "ucast (6 :: u32)" m]) (use c False l in \<open>simp_all only: rates not_False_eq_True\<close>)
    have v: "unat (bits_val (stream m (br_buf c)) (br_pos c) 6) < 2 ^ 6" by (rule bits_val_bound) simp
    have "n = bits_val (stream m (br_buf c)) (br_pos c) 6 + 1" by (simp only: e c d fst_conv snd_conv)
    then have "unat n = unat (bits_val (stream m (br_buf c)) (br_pos c) 6) + 1"
      using v by (simp add: unat_word_ariths)
    then have "n \<noteq> 0 \<and> unat n \<le> 64" using v by auto
    moreover have "br_pos ?b2 = br_pos ?b + 8 \<and> br_inv ?b2" by (simp only: c d snd_conv) simp
    moreover have "nat (br_bitpoint c) \<le> 7" using c(3) unfolding br_inv_def by linarith
    then have "br_pos ?b \<le> 8 * unat p + 5 \<and> 8 * unat p \<le> br_pos ?b + 2"
      using c(2) by (simp only: e c(1) snd_conv) (simp add: br_pos_def)
    ultimately show ?thesis using False by blast
  qed
  then show "n \<noteq> 0 \<and> unat n \<le> 64" "br_buf (rd s) = 0 \<Longrightarrow> t = 0"
    "br_buf (rd s) \<noteq> 0 \<Longrightarrow> br_pos (rd s2) = br_pos (rd s) + 8 \<and> br_inv (rd s2) \<and> br_pos (rd s) \<le> 8 * unat p + 5 \<and> 8 * unat p \<le> br_pos (rd s) + 2"
    by (simp_all add: s e)
qed

section \<open>Rows\<close>

text \<open>A row of \<open>E\<close> bytes, low enough in memory that no address in it wraps.\<close>

definition row_ok :: "nat \<Rightarrow> packed_row \<Rightarrow> bool" where
  "row_ok E r \<longleftrightarrow> (let b = rd (pk_gfx r) in
     br_buf b = pk_data r \<and> br_inv b \<and> br_pos b \<le> 8 * E + 8192 \<and> pk_end r = pk_data r + of_nat E \<and>
     unat (pk_data r) < 2 ^ 30 \<and> E < 2 ^ 20 \<and> unat (pk_bpp r) \<le> 16 \<and> 0 <=s pk_scipw r)"

definition at_end :: "(u32 \<Rightarrow> u32 \<Rightarrow> bool) \<Rightarrow> bool" where
  "at_end ended \<longleftrightarrow> (\<forall>a e. unat a < 2 ^ 31 \<longrightarrow> unat e < 2 ^ 31 \<longrightarrow> (ended a e \<longleftrightarrow> e \<le> a))"

lemma at_end_both: "at_end (\<lambda>a e. e \<le> a)" "at_end (\<lambda>a e. e <=s a)"
  by (auto simp: at_end_def word_sle_eq sint_nonneg word_le_def)

lemma header_row:
  assumes r: "row_ok E r" and e: "at_end ended" and h: "packet_header ended r = (t, n, q)"
  shows "unat n \<le> 64" "n = 0 \<Longrightarrow> t \<noteq> 0" "q = r\<lparr>pk_skip := pk_skip q, pk_gfx := pk_gfx q\<rparr>"
    "t \<noteq> 0 \<Longrightarrow> br_pos (rd (pk_gfx r)) \<le> 8 * E \<and> br_pos (rd (pk_gfx r)) + 8 \<le> br_pos (rd (pk_gfx q)) \<and>
      br_pos (rd (pk_gfx q)) \<le> br_pos (rd (pk_gfx r)) + 1032 \<and> br_inv (rd (pk_gfx q)) \<and>
      br_buf (rd (pk_gfx q)) = pk_data r \<and> pk_data r \<noteq> 0"
proof -
  let ?b = "rd (pk_gfx r)"
  obtain t0 p n0 s where hb: "header_bits (pk_gfx r) = (t0, p, n0, s)" by (cases "header_bits (pk_gfx r)") auto
  have b: "br_inv ?b" "br_pos ?b + 8 < 2 ^ 34" "br_buf ?b = pk_data r" "br_pos ?b \<le> 8 * E + 8192"
    "unat (pk_data r) < 2 ^ 30" "E < 2 ^ 20" "unat (pk_bpp r) \<le> 16" "pk_end r = pk_data r + of_nat E"
    using r by (simp_all add: row_ok_def Let_def)
  note f = header_bits_facts [OF hb b(1,2)]
  let ?sk = "PackedSkipPixels t n0 (pk_skip r) (pk_bpp r) s"
  have t: "t = (if ended (p + pk_data r) (pk_end r) then 0 else t0)"
    and n: "n = (if pk_skip r \<noteq> 0 then fst ?sk else n0)"
    and q: "q = (if pk_skip r \<noteq> 0 then r\<lparr>pk_skip := fst (snd ?sk), pk_gfx := snd (snd ?sk)\<rparr> else r\<lparr>pk_gfx := s\<rparr>)"
    using h by (auto simp: packet_header_bits hb Let_def case_prod_beta split: if_splits)
  note k = PackedSkipPixels_facts [where s = s and skip = "pk_skip r" and type = t, OF b(7), of n0]
  show "unat n \<le> 64" using n f(2) k(1) by auto
  show "n = 0 \<Longrightarrow> t \<noteq> 0" using n f(2) k(3) by (auto split: if_splits)
  show "q = r\<lparr>pk_skip := pk_skip q, pk_gfx := pk_gfx q\<rparr>" using q by (simp split: if_splits)
  assume nz: "t \<noteq> 0"
  then have live: "\<not> ended (p + pk_data r) (pk_end r)" "t0 \<noteq> 0" using t by (auto split: if_splits)
  then have "pk_data r \<noteq> 0" using f(3) b(3) by auto
  with f(4) b(3) have g: "br_pos (rd s) = br_pos ?b + 8" "br_inv (rd s)" "br_pos ?b \<le> 8 * unat p + 5"
    "8 * unat p \<le> br_pos ?b + 2" by auto
  have u: "unat (p + pk_data r) = unat p + unat (pk_data r)" "unat (pk_end r) = unat (pk_data r) + E"
    using g b by (simp_all add: unat_word_ariths unat_of_nat)
  have "unat p < E"
    using live(1) e u g b by (auto simp: at_end_def word_le_nat_alt)
  then have "br_pos ?b \<le> 8 * E" using g by linarith
  moreover have "fwd 1024 (rd s) (rd (snd (snd ?sk)))" using k(2) f(2) by simp
  then have "br_buf (rd (snd (snd ?sk))) = br_buf (rd s) \<and> br_inv (rd (snd (snd ?sk))) \<and>
      br_pos (rd s) \<le> br_pos (rd (snd (snd ?sk))) \<and> br_pos (rd (snd (snd ?sk))) \<le> br_pos (rd s) + 1024"
    using g f(1) b \<open>pk_data r \<noteq> 0\<close> by (simp add: fwd_def)
  ultimately show "br_pos ?b \<le> 8 * E \<and> br_pos ?b + 8 \<le> br_pos (rd (pk_gfx q)) \<and>
      br_pos (rd (pk_gfx q)) \<le> br_pos ?b + 1032 \<and> br_inv (rd (pk_gfx q)) \<and>
      br_buf (rd (pk_gfx q)) = pk_data r \<and> pk_data r \<noteq> 0"
    using g f(1) b(3) q \<open>pk_data r \<noteq> 0\<close> by (cases "pk_skip r = 0") simp_all
qed

section \<open>Packets\<close>

text \<open>\<open>q\<close> is the same row as \<open>r\<close>, at most \<open>n\<close> bits further.\<close>

definition same_row :: "nat \<Rightarrow> packed_row \<Rightarrow> packed_row \<Rightarrow> bool" where
  "same_row n r q \<longleftrightarrow> fwd n (rd (pk_gfx r)) (rd (pk_gfx q)) \<and> pk_data q = pk_data r \<and> pk_end q = pk_end r \<and>
     pk_bpp q = pk_bpp r \<and> pk_scipw q = pk_scipw r"

lemma same_row_refl [simp]: "same_row n r r"
  by (simp add: same_row_def)

lemma same_row_trans: "same_row m a b \<Longrightarrow> same_row n b c \<Longrightarrow> same_row (m + n) a c"
  unfolding same_row_def by (auto intro: fwd_trans)

lemma same_row_mono: "same_row m a b \<Longrightarrow> m \<le> n \<Longrightarrow> same_row n a b"
  unfolding same_row_def by (auto intro: fwd_mono)

lemma same_row_texel: "same_row 32 r (snd (snd (pk_texel r)))"
  using fwd_pk_texel [of r] by (simp add: same_row_def) (simp add: pk_texel_def case_prod_beta)

lemma same_row_moves: "same_row n r (pk_advance k r)" "same_row n r (pk_advance2 k r)"
  by (simp_all add: same_row_def pk_advance_def pk_advance2_def)

lemma same_row_draw: "same_row n r (snd (pk_draw_scale p a k r))" "same_row n r (snd (pk_draw_quad p a r))"
  by (simp_all add: same_row_def pk_draw_scale_def pk_draw_quad_def draw_quad_def Let_def case_prod_beta
      reader.k_TexelDrawScale reader.k_TexelDrawArbitrary)

lemma same_row_then: "same_row m a b \<Longrightarrow> same_row 0 b c \<Longrightarrow> same_row m a c"
  using same_row_trans [of m a b 0 c] by simp

lemma same_row_texels:
  assumes draw: "\<And>p a r. same_row 0 r (snd (draw p a r))" and adv: "\<And>r. same_row 0 r (adv r)"
    and step: "\<And>n r. loop (Suc n) r =
      (let (p, a, r) = pk_texel r; (stop, r) = (if transparent (pk_gfx r) then (False, r) else draw p a r)
       in if stop then (n, r) else loop n (adv r))" "\<And>r. loop 0 r = (0, r)"
  shows "same_row (32 * n) r (snd (loop n r))"
proof (induction n arbitrary: r)
  case (Suc n)
  let ?q = "snd (snd (pk_texel r))"
  let ?d = "if transparent (pk_gfx ?q) then (False, ?q) else draw (fst (pk_texel r)) (fst (snd (pk_texel r))) ?q"
  have d: "same_row 32 r (snd ?d)"
    using same_row_then [OF same_row_texel draw] same_row_texel by simp
  then have s: "same_row (32 + 32 * n) r (snd (loop n (adv (snd ?d))))"
    using same_row_trans [OF same_row_then [OF d adv] Suc.IH] by simp
  have "snd (loop (Suc n) r) = (if fst ?d then snd ?d else snd (loop n (adv (snd ?d))))"
    by (simp add: step Let_def case_prod_beta)
  then show ?case using s same_row_mono [OF d, of "32 + 32 * n"] by simp
qed (simp add: step)

lemma same_row_literals: "same_row (32 * n) r (snd (scale_literal n r))" "same_row (32 * n) r (snd (quad_literal n r))"
  by (rule same_row_texels [of "\<lambda>p a r. pk_draw_scale p a 1 r" "pk_advance 1" scale_literal];
      simp add: same_row_draw same_row_moves)
    (rule same_row_texels [of pk_draw_quad "pk_advance2 1" quad_literal]; simp add: same_row_draw same_row_moves)

lemma same_row_repeats: "same_row 0 r (snd (scale_maria p a n r))" "same_row 0 r (snd (quad_repeat p a n r))"
proof -
  show "same_row 0 r (snd (scale_maria p a n r))"
    by (induction n arbitrary: r)
      (auto simp: Let_def case_prod_beta same_row_draw intro: same_row_then [OF same_row_draw(1) same_row_then [OF same_row_moves(1)]])
  show "same_row 0 r (snd (quad_repeat p a n r))"
    by (induction n arbitrary: r)
      (auto simp: Let_def case_prod_beta same_row_draw intro: same_row_then [OF same_row_draw(2) same_row_then [OF same_row_moves(2)]])
qed

lemma same_row_packed: "same_row 32 r (snd (scale_packed n r))" "same_row 32 r (snd (quad_packed n r))"
  by (auto simp: scale_packed_def quad_packed_def Let_def case_prod_beta
      intro: same_row_then [OF same_row_texel] same_row_then [OF same_row_draw(1)] same_row_moves same_row_draw same_row_repeats)

section \<open>Rows end\<close>

lemma row_next:
  assumes r: "row_ok E r" and e: "at_end ended" and h: "packet_header ended r = (t, n, q)" and t: "t \<noteq> 0"
    and f: "fwd 4096 (rd (pk_gfx q)) (rd (pk_gfx z))" "pk_data z = pk_data q" "pk_end z = pk_end q" "pk_bpp z = pk_bpp q"
      "0 <=s pk_scipw z"
  shows "row_ok E z \<and> br_pos (rd (pk_gfx r)) + 8 \<le> br_pos (rd (pk_gfx z))"
proof -
  note g = header_row(4) [OF r e h t]
  have d: "pk_data q = pk_data r" "pk_end q = pk_end r" "pk_bpp q = pk_bpp r"
    using arg_cong [OF header_row(3) [OF r e h], of pk_data] arg_cong [OF header_row(3) [OF r e h], of pk_end]
      arg_cong [OF header_row(3) [OF r e h], of pk_bpp] by simp_all
  have "E < 2 ^ 20" using r by (simp add: row_ok_def Let_def)
  then have "br_buf (rd (pk_gfx z)) = pk_data r \<and> br_inv (rd (pk_gfx z)) \<and>
      br_pos (rd (pk_gfx q)) \<le> br_pos (rd (pk_gfx z)) \<and> br_pos (rd (pk_gfx z)) \<le> br_pos (rd (pk_gfx q)) + 4096"
    using f(1) g by (simp add: fwd_def)
  then show ?thesis using g r d f by (simp add: row_ok_def Let_def)
qed

lemma row_same:
  assumes r: "row_ok E r" and e: "at_end ended" and h: "packet_header ended r = (t, n, q)" and t: "t \<noteq> 0"
    and z: "same_row k q z" "k \<le> 4096"
  shows "row_ok E z \<and> br_pos (rd (pk_gfx r)) + 8 \<le> br_pos (rd (pk_gfx z))"
proof -
  have "pk_scipw q = pk_scipw r" using arg_cong [OF header_row(3) [OF r e h], of pk_scipw] by simp
  then have "0 <=s pk_scipw q" using r by (simp add: row_ok_def Let_def)
  then show ?thesis
    using same_row_mono [OF z] by (intro row_next [OF r e h t]) (simp_all add: same_row_def)
qed

definition advances :: "nat \<Rightarrow> (packed_row \<Rightarrow> bool \<times> packed_row) \<Rightarrow> bool" where
  "advances E step \<longleftrightarrow> (\<forall>r. row_ok E r \<and> fst (step r) \<longrightarrow>
     row_ok E (snd (step r)) \<and> br_pos (rd (pk_gfx r)) + 8 \<le> br_pos (rd (pk_gfx (snd (step r)))))"

lemma advances_scale: "advances E scale_step"
  unfolding advances_def
proof (intro allI impI)
  fix r assume a: "row_ok E r \<and> fst (scale_step r)"
  obtain t n q where h: "packet_header (\<lambda>a e. e \<le> a) r = (t, n, q)" by (cases "packet_header (\<lambda>a e. e \<le> a) r") auto
  note f = header_row [OF conjunct1 [OF a] at_end_both(1) h]
  have t: "t \<noteq> 0" using a f(2) by (auto simp: scale_step_def h Let_def case_prod_beta split: if_splits)
  have "32 * unat n \<le> 4096" using f(1) by simp
  then have "same_row 4096 q (snd (scale_literal (unat n) q))" "same_row 4096 q (snd (scale_packed (unat n) q))"
    using same_row_mono [OF same_row_literals(1)] same_row_mono [OF same_row_packed(1)] by simp_all
  then have "same_row 4096 q (snd (scale_step r))"
    by (auto simp: scale_step_def h Let_def case_prod_beta same_row_moves)
  then show "row_ok E (snd (scale_step r)) \<and> br_pos (rd (pk_gfx r)) + 8 \<le> br_pos (rd (pk_gfx (snd (scale_step r))))"
    using a by (intro row_same [where k = 4096, OF _ at_end_both(1) h t]) simp_all
qed

lemma advances_quad: "advances E quad_step"
  unfolding advances_def
proof (intro allI impI)
  fix r assume a: "row_ok E r \<and> fst (quad_step r)"
  obtain t n q where h: "packet_header (\<lambda>a e. e \<le> a) r = (t, n, q)" by (cases "packet_header (\<lambda>a e. e \<le> a) r") auto
  note f = header_row [OF conjunct1 [OF a] at_end_both(1) h]
  have t: "t \<noteq> 0" using a f(2) by (auto simp: quad_step_def h Let_def case_prod_beta split: if_splits)
  have "32 * unat n \<le> 4096" using f(1) by simp
  then have "same_row 4096 q (snd (quad_literal (unat n) q))" "same_row 4096 q (snd (quad_packed (unat n) q))"
    using same_row_mono [OF same_row_literals(2)] same_row_mono [OF same_row_packed(2)] by simp_all
  then have "same_row 4096 q (snd (quad_step r))"
    by (auto simp: quad_step_def h Let_def case_prod_beta same_row_moves)
  then show "row_ok E (snd (quad_step r)) \<and> br_pos (rd (pk_gfx r)) + 8 \<le> br_pos (rd (pk_gfx (snd (quad_step r))))"
    using a by (intro row_same [where k = 4096, OF _ at_end_both(1) h t]) simp_all
qed

subsection \<open>The line loop\<close>

lemma same_row_line_literal: "same_row (32 * unat n) r (line_literal n r)"
proof -
  have "fwd (32 * length js) (rd s) (rd (snd (snd (line_row (\<lambda>_. read_texel False bpp) js (x, y, s)))))" for js bpp x y s
  proof (induction js arbitrary: x y s)
    case (Cons j js)
    obtain p a z where z: "read_texel False bpp s = (p, a, z)" by (cases "read_texel False bpp s") auto
    define z' where "z' = (if transparent z then z else process_pixel (sar16 x) (sar16 y) (ucast p) (ucast a) z)"
    have "rd z' = rd z" by (simp add: z'_def reader.k_process_pixel)
    then have "fwd 32 (rd s) (rd z')" using rd_read_texel [of s bpp] by (simp add: z)
    then have "fwd (32 + 32 * length js) (rd s)
        (rd (snd (snd (line_row (\<lambda>_. read_texel False bpp) js (x + HDX1616 (gmap z'), y + HDY1616 (gmap z'), z')))))"
      by (rule fwd_trans [OF _ Cons.IH])
    then show ?case by (simp add: line_row_def z z'_def Let_def)
  qed (simp add: line_row_def)
  from this [where js = "urange 0 n"] show ?thesis
    by (simp add: same_row_def line_literal_def case_prod_beta urange_def)
qed

lemma same_row_line_packed: "same_row 32 r (line_packed n r)"
proof -
  let ?q = "snd (snd (pk_texel r))"
  have "same_row 0 ?q (?q\<lparr>pk_gfx := TexelDrawLine p a x y n (pk_gfx ?q)\<rparr>)" for p a x y
    by (simp add: same_row_def reader.k_TexelDrawLine)
  from same_row_then [OF same_row_then [OF same_row_texel this] same_row_moves(1)] same_row_then [OF same_row_texel same_row_moves(1)]
  show ?thesis by (simp add: line_packed_def Let_def case_prod_beta)
qed

lemma line_packet_next:
  assumes "fst (line_packet t n r)" "unat n \<le> 64"
  shows "same_row 2048 r (snd (line_packet t n r))"
proof -
  let ?r = "r\<lparr>pk_wcnt := pk_wcnt r + n\<rparr>"
  have w: "same_row 0 r ?r" by (simp add: same_row_def)
  have whole: "\<not> TEXTURE_WI_LIM (pk_map r) <s pk_wcnt r + n"
  proof
    assume "TEXTURE_WI_LIM (pk_map r) <s pk_wcnt r + n"
    then have l: "TEXTURE_WI_LIM (pk_map r) <=s pk_wcnt r + n" by (simp add: signed.less_imp_le)
    have k: "pk_wcnt (line_literal j x) = pk_wcnt x" "pk_wcnt (pk_advance j x) = pk_wcnt x"
      "pk_wcnt (line_packed j x) = pk_wcnt x" for j x
      by (simp_all add: line_literal_def pk_advance_def line_packed_def pk_texel_def Let_def case_prod_beta)
    show False using assms(1) l by (auto simp: line_packet_def Let_def k split: if_splits)
  qed
  have "32 * unat n \<le> 2048" using assms(2) by simp
  then have "same_row 2048 ?r (line_literal n ?r)" "same_row 2048 ?r (line_packed n ?r)"
    using same_row_mono [OF same_row_line_literal] same_row_mono [OF same_row_line_packed] by simp_all
  then have "same_row 2048 r (line_literal n ?r)" "same_row 2048 r (line_packed n ?r)" "same_row 2048 r (pk_advance n ?r)"
    "same_row 2048 r ?r"
    using same_row_trans [OF w] w by (simp_all add: same_row_moves same_row_def pk_advance_def)
  then show ?thesis using whole by (auto simp: line_packet_def Let_def)
qed

lemma signed_small:
  fixes a b :: u32
  assumes "0 <=s a" "unat b \<le> 64"
  shows "b <=s a \<Longrightarrow> 0 <=s a - b" "\<not> b <=s a \<Longrightarrow> unat a \<le> 64 \<and> unat (b - a) \<le> 64"
proof -
  have a: "unat a < 2 ^ 31" "sint a = int (unat a)"
  proof -
    have "\<not> bit (uint a) 31" using assms(1) by (simp add: word_sle_eq sint_uint)
    then have even: "even (uint a div 2147483648)" by (simp add: bit_iff_odd)
    have e: "2147483648 * (uint a div 2147483648) + uint a mod 2147483648 = uint a" by simp
    have r: "0 \<le> uint a mod 2147483648" "uint a mod 2147483648 < 2147483648" by simp_all
    have u: "0 \<le> uint a" "uint a < 4294967296" using uint_lt2p [of a] by simp_all
    have "uint a div 2147483648 < 2" "- 1 < uint a div 2147483648" using e r u by linarith+
    then have "uint a div 2147483648 = 0 \<or> uint a div 2147483648 = 1" by linarith
    with even have "uint a div 2147483648 = 0" by auto
    then have "uint a < 2147483648" using e r by linarith
    then have "nat (uint a) < 2147483648" using u by linarith
    then show l: "unat a < 2 ^ 31" by simp
    then show "sint a = int (unat a)" by (rule sint_nonneg)
  qed
  have b: "sint b = int (unat b)" using assms(2) by (intro sint_nonneg) simp
  { assume "b <=s a"
    then have "b \<le> a" using a b by (simp add: word_sle_eq word_le_def)
    then have "unat (a - b) = unat a - unat b" by (rule unat_sub)
    then have "unat (a - b) < 2 ^ 31" using a by simp
    then show "0 <=s a - b" by (simp add: word_sle_eq sint_nonneg) }
  { assume "\<not> b <=s a"
    then have ab: "a < b" using a b by (simp add: word_sle_eq word_less_def)
    then have l: "unat a < unat b" by (simp add: word_less_nat_alt)
    have "unat (b - a) = unat b - unat a" using ab by (intro unat_sub) simp
    then show "unat a \<le> 64 \<and> unat (b - a) \<le> 64" using l assms(2) by simp }
qed

lemma row_scipw: "row_ok E r \<Longrightarrow> at_end ended \<Longrightarrow> packet_header ended r = (t, n, q) \<Longrightarrow>
  0 <=s pk_scipw q \<and> unat (pk_bpp q) \<le> 16"
  using arg_cong [OF header_row(3), of E r ended t n q pk_scipw] arg_cong [OF header_row(3), of E r ended t n q pk_bpp]
  by (simp add: row_ok_def Let_def)

lemma advances_line: "advances E line_step"
  unfolding advances_def
proof (intro allI impI)
  fix r assume a: "row_ok E r \<and> fst (line_step r)"
  obtain t n q where h: "packet_header (\<lambda>a e. e <=s a) r = (t, n, q)" by (cases "packet_header (\<lambda>a e. e <=s a) r") auto
  note e = at_end_both(2)
  note f = header_row [OF conjunct1 [OF a] e h]
  have t0: "t \<noteq> 0" if "fst (line_packet t m x)" for m x using that by (auto simp: line_packet_def Let_def)
  have t: "t \<noteq> 0" using a f(2) t0 by (auto simp: line_step_def h Let_def case_prod_beta split: if_splits)
  have q: "0 <=s pk_scipw q" "unat (pk_bpp q) \<le> 16" using row_scipw [OF conjunct1 [OF a] e h] by simp_all
  note nxt = row_next [OF conjunct1 [OF a] e h t]
  note same = row_same [OF conjunct1 [OF a] e h t]
  have sk: "fwd 1024 b (BitReaderBig_Skip (pk_bpp q * m) b)" "fwd 1024 b (BitReaderBig_Skip (pk_bpp q) b)"
    if "unat m \<le> 64" for m b
    using small_product [OF q(2) that] q(2) by (auto intro!: fwd_mono [OF fwd_skip])
  show "row_ok E (snd (line_step r)) \<and> br_pos (rd (pk_gfx r)) + 8 \<le> br_pos (rd (pk_gfx (snd (line_step r))))"
  proof (cases "pk_skip r \<noteq> 0 \<and> n = 0")
    case True
    then have "snd (line_step r) = q" by (simp add: line_step_def h)
    then show ?thesis using same [of 0 q] by simp
  next
    case noskip: False
    show ?thesis
    proof (cases "pk_scipw q = 0")
      case True
      then have "line_step r = line_packet t n q" using noskip by (auto simp: line_step_def h)
      then show ?thesis using same [OF line_packet_next] a f(1) by simp
    next
      case some: False
      show ?thesis
      proof (cases "n <=s pk_scipw q")
        case True
        have "snd (line_step r) = (let z = pk_advance n (q\<lparr>pk_scipw := pk_scipw q - n\<rparr>) in
            if t = 1 then pk_skip_bits (pk_bpp z * n) z else if t = 3 then pk_skip_bits (pk_bpp z) z else z)"
          using noskip some t True by (auto simp: line_step_def h Let_def)
        then show ?thesis
          using fwd_mono [OF sk(1) [OF f(1)], of 4096] fwd_mono [OF sk(2) [OF f(1)], of 4096] signed_small(1) [OF q(1) f(1) True]
          by (intro nxt) (auto simp: Let_def pk_advance_def pk_skip_bits_def rd_on_bits)
      next
        case False
        define z where "z = (if t = 1 then pk_skip_bits (pk_bpp q * pk_scipw q) (pk_advance (pk_scipw q) q)
          else pk_advance (pk_scipw q) q)\<lparr>pk_scipw := 0\<rparr>"
        note l = signed_small(2) [OF q(1) f(1) False]
        have ls: "line_step r = line_packet t (n - pk_scipw q) z"
          using noskip some t False by (auto simp: line_step_def h Let_def z_def pk_advance_def)
        have "same_row 2048 z (snd (line_step r))"
          using line_packet_next [of t "n - pk_scipw q" z] a l by (simp add: ls)
        moreover have "fwd 1024 (rd (pk_gfx q)) (rd (pk_gfx z))"
          using sk [of "pk_scipw q"] l by (auto simp: z_def pk_skip_bits_def pk_advance_def rd_on_bits)
        moreover have "pk_data z = pk_data q" "pk_end z = pk_end q" "pk_bpp z = pk_bpp q" "pk_scipw z = 0"
          by (simp_all add: z_def pk_skip_bits_def pk_advance_def)
        moreover have "fwd 4096 (rd (pk_gfx q)) (rd (pk_gfx (snd (line_step r))))"
          using fwd_mono [OF fwd_trans, of 1024 "rd (pk_gfx q)" "rd (pk_gfx z)" 2048] calculation(1,2)
          by (simp add: same_row_def)
        ultimately show ?thesis by (intro nxt) (simp_all add: same_row_def)
      qed
    qed
  qed
qed

text \<open>Every step that goes on moves the reader, so the row's bytes bound the steps.\<close>

lemma packet_loop_returns:
  assumes "advances E step" "row_ok E r"
  shows "\<exists>r'. packet_loop step r = Some r'"
  using assms(2)
proof (induction "8 * E + 8192 - br_pos (rd (pk_gfx r))" arbitrary: r rule: less_induct)
  case less
  show ?case
  proof (cases "fst (step r)")
    case True
    then have n: "row_ok E (snd (step r))" "br_pos (rd (pk_gfx r)) + 8 \<le> br_pos (rd (pk_gfx (snd (step r))))"
      using assms(1) less.prems by (auto simp: advances_def)
    moreover have "br_pos (rd (pk_gfx r)) \<le> 8 * E + 8192" "br_pos (rd (pk_gfx (snd (step r)))) \<le> 8 * E + 8192"
      using n(1) less.prems by (simp_all add: row_ok_def Let_def)
    ultimately have "\<exists>r'. packet_loop step (snd (step r)) = Some r'" by (intro less.hyps) linarith+
    then show ?thesis using True by (subst packet_loop.simps) (simp add: case_prod_beta Let_def)
  next
    case False
    then show ?thesis by (subst packet_loop.simps) (simp add: case_prod_beta Let_def)
  qed
qed

section \<open>The rows of a packed cel\<close>

lemma pk_end_moves [simp]: "pk_end (pk_skip_bits n r) = pk_end r" "pk_end (pk_advance n r) = pk_end r"
  "pk_end (pk_advance2 n r) = pk_end r" "pk_end (snd (snd (pk_texel r))) = pk_end r"
  "pk_end (snd (snd (packet_header e r))) = pk_end r" "pk_end (snd (pk_draw_scale p a n r)) = pk_end r"
  "pk_end (snd (pk_draw_quad p a r)) = pk_end r" "pk_end (line_literal n r) = pk_end r"
  by (simp_all add: pk_skip_bits_def pk_advance_def pk_advance2_def pk_texel_def packet_header_def pk_draw_scale_def
      pk_draw_quad_def line_literal_def Let_def case_prod_beta)

lemma pk_end_loops [simp]: "pk_end (snd (scale_literal n r)) = pk_end r" "pk_end (snd (scale_maria p a n r)) = pk_end r"
  "pk_end (snd (quad_literal n r)) = pk_end r" "pk_end (snd (quad_repeat p a n r)) = pk_end r"
  by (induction n arbitrary: r) (simp_all add: Let_def case_prod_beta)

lemma pk_end_step: "pk_end (snd (line_step r)) = pk_end r" "pk_end (snd (scale_step r)) = pk_end r"
  "pk_end (snd (quad_step r)) = pk_end r"
  by (simp_all add: line_step_def line_packet_def line_packed_def scale_step_def scale_packed_def quad_step_def
      quad_packed_def Let_def case_prod_beta)

lemma packet_loop_end:
  assumes "packet_loop step r = Some r'" "\<And>r. pk_end (snd (step r)) = pk_end r"
  shows "pk_end r' = pk_end r"
proof -
  have "step = step \<longrightarrow> pk_end r' = pk_end r"
  proof (rule packet_loop.raw_induct [of "\<lambda>st r r'. st = step \<longrightarrow> pk_end r' = pk_end r", OF _ assms(1)])
    fix loop st r r'
    assume ih: "\<And>st r r'. loop st r = Some r' \<Longrightarrow> st = step \<longrightarrow> pk_end r' = pk_end r"
      and b: "(let (again, r) = st r in if again then loop st r else Some r) = Some r'"
    show "st = step \<longrightarrow> pk_end r' = pk_end r"
      using b ih [of st "snd (st r)" r'] assms(2) [of r] by (auto simp: case_prod_beta Let_def split: if_splits)
  qed
  then show ?thesis by simp
qed

lemma open_row_ok:
  assumes "unat d < 2 ^ 29" "unat bpp \<le> 16" "0 <=s TEXTURE_WI_START (gmap s)"
  obtains E where "row_ok E (open_row bpp d x y s)" "E \<le> 262148" "pk_end (open_row bpp d x y s) = d + of_nat E"
    "pk_map (open_row bpp d x y s) = gmap s"
proof -
  obtain u m where s: "s = (u, m)" by (cases s)
  define b where "b = BitReaderBig_AttachBuffer d (bitoper u)"
  define n where "n = (ucast (push_bit 3 (if bpp < 8 then 1 else 2) :: u32) :: u8)"
  have b: "br_inv b" "br_pos b = 0" "br_buf b = d" by (simp_all add: b_def BitReaderBig_AttachBuffer_def br_inv_def br_pos_def)
  have n: "bit_rate n = 8 \<or> bit_rate n = 16" by (simp add: n_def bit_rate_def)
  define v where "v = fst (BitReaderBig_Read m n b)"
  define c where "c = snd (BitReaderBig_Read m n b)"
  have c: "br_inv c \<and> br_pos c \<le> 16 \<and> br_buf c = d \<and> unat v < 2 ^ 16"
  proof (cases "d = 0")
    case True
    then have "BitReaderBig_Read m n b = (0, BitReaderBig_SetBitRate n b)" using b by (intro read_nothing) simp
    then show ?thesis using b by (simp add: c_def v_def set_rate br_inv_def br_pos_def)
  next
    case False
    obtain c' where r: "BitReaderBig_Read m n b = (bits_val (stream m (br_buf b)) (br_pos b) (bit_rate n), c')"
        "br_pos c' = br_pos b + bit_rate n" "br_inv c'" "br_buf c' = br_buf b"
      by (rule read_position [of b n m]) (use b n False in auto)
    have "unat (bits_val (stream m (br_buf b)) (br_pos b) (bit_rate n)) < 2 ^ bit_rate n"
      using n by (intro bits_val_bound) auto
    moreover have "(2 :: nat) ^ bit_rate n \<le> 2 ^ 16" using n by auto
    ultimately show ?thesis using r b n by (auto simp: c_def v_def)
  qed
  define E where "E = 4 * (unat v + 2)"
  have o: "open_row bpp d x y s = \<lparr>pk_data = d, pk_end = d + push_bit 2 (v + 2), pk_bpp = bpp, pk_hdx = HDX1616 (CELMAP u),
      pk_hdy = HDY1616 (CELMAP u), pk_x = x, pk_y = y, pk_xdown = x + VDX1616 (CELMAP u), pk_ydown = y + VDY1616 (CELMAP u),
      pk_skip = drop_bit 24 (PRE0 (CEL u) AND 0x0F000000), pk_scipw = TEXTURE_WI_START (CELMAP u),
      pk_wcnt = TEXTURE_WI_START (CELMAP u), pk_gfx = (u\<lparr>bitoper := c\<rparr>, m)\<rparr>"
    by (simp add: open_row_def s on_bits_def read_bits_def Let_def case_prod_beta b_def c_def v_def n_def)
  have e: "push_bit 2 (v + 2) = (of_nat E :: u32)"
    by (simp add: E_def push_bit_eq_mult word_of_nat_eq_iff [symmetric] algebra_simps)
  show thesis
  proof (rule that [of E])
    show "row_ok E (open_row bpp d x y s)"
      unfolding o e row_ok_def Let_def using c assms by (simp add: s E_def)
    show "E \<le> 262148" using c by (simp add: E_def)
    show "pk_end (open_row bpp d x y s) = d + of_nat E" by (simp add: o e)
    show "pk_map (open_row bpp d x y s) = gmap s" unfolding o by (simp add: s)
  qed
qed

lemma packed_row_returns:
  assumes "unat d < 2 ^ 29" "unat bpp \<le> 16" "0 <=s TEXTURE_WI_START (gmap s)"
  shows "\<exists>x' y' d' s'. packed_row_step bpp (x, y, d, s) = Some (x', y', d', s') \<and> unat d' \<le> unat d + 262148 \<and>
    TEXTURE_WI_START (gmap s') = TEXTURE_WI_START (gmap s)"
proof -
  obtain E where E: "row_ok E (open_row bpp d x y s)" "E \<le> 262148" "pk_end (open_row bpp d x y s) = d + of_nat E"
      and map: "pk_map (open_row bpp d x y s) = gmap s"
    by (rule open_row_ok [OF assms])
  let ?r = "open_row bpp d x y s"
  have e: "unat (d + of_nat E) \<le> unat d + 262148"
    using E(2) assms(1) by (simp add: unat_word_ariths unat_of_nat)
  have loop: "\<exists>r'. packet_loop step r = Some r' \<and> pk_end r' = d + of_nat E \<and> pk_map r' = pk_map r"
    if "advances E step" "row_ok E r" "pk_end r = d + of_nat E" "\<And>r. pk_end (snd (step r)) = pk_end r"
      "\<And>r. pk_map (snd (step r)) = pk_map r" for step r
    using packet_loop_returns [OF that(1,2)] packet_loop_end [of step r, OF _ that(4)] place.k_packet_loop [of step r, OF _ that(5)] that(3)
    by auto
  let ?q = "?r\<lparr>pk_gfx := shear (pk_gfx ?r)\<rparr>"
  have sh: "row_ok E ?q" "pk_end ?q = d + of_nat E" "TEXTURE_WI_START (pk_map ?q) = TEXTURE_WI_START (pk_map ?r)"
    using E assms(1) by (simp_all add: row_ok_def Let_def shear_def on_map_def case_prod_beta)
  obtain a where a: "packet_loop line_step ?r = Some a" "pk_end a = d + of_nat E" "pk_map a = pk_map ?r"
    using loop [OF advances_line E(1,3) pk_end_step(1) place.k_line_step] by blast
  obtain b where b: "packet_loop scale_step ?r = Some b" "pk_end b = d + of_nat E" "pk_map b = pk_map ?r"
    using loop [OF advances_scale E(1,3) pk_end_step(2) place.k_scale_step] by blast
  obtain c where c: "packet_loop quad_step ?q = Some c" "pk_end c = d + of_nat E" "pk_map c = pk_map ?q"
    using loop [OF advances_quad sh(1,2) pk_end_step(3) place.k_quad_step] by blast
  show ?thesis
  proof (cases "TEXEL_DRAW_FUNC (pk_map ?r)")
    case TEXEL_DRAW_FUNC_LINE
    then show ?thesis
      using a e E(3) map by (cases "pk_gfx a") (auto simp: packed_row_step_def Let_def on_map_def)
  next
    case TEXEL_DRAW_FUNC_SCALE
    then show ?thesis using b e map by (simp add: packed_row_step_def Let_def)
  next
    case TEXEL_DRAW_FUNC_ARBITRARY
    then show ?thesis using c e sh(3) map by (simp add: packed_row_step_def Let_def)
  qed
qed

lemma packed_rows_return:
  assumes "unat d + n * 262148 < 2 ^ 29" "unat bpp \<le> 16" "0 <=s TEXTURE_WI_START (gmap s)"
  shows "\<exists>s'. packed_rows bpp n (x, y, d, s) = Some s'"
  using assms(1,3)
proof (induction n arbitrary: x y d s)
  case (Suc n)
  have "unat d < 2 ^ 29" using Suc.prems(1) by simp
  then obtain x' y' d' s' where st: "packed_row_step bpp (x, y, d, s) = Some (x', y', d', s')" "unat d' \<le> unat d + 262148"
      "TEXTURE_WI_START (gmap s') = TEXTURE_WI_START (gmap s)"
    using packed_row_returns [OF _ assms(2) Suc.prems(2)] by blast
  have "unat d' + n * 262148 < 2 ^ 29" "0 <=s TEXTURE_WI_START (gmap s')"
    using st Suc.prems by simp_all
  then show ?case using Suc.IH st(1) by auto
qed simp

section \<open>Where a line cel starts\<close>

text \<open>The facts about the three maps that bound the loops: no negative start column, and no more rows
  than the cel has.\<close>

definition map_ok :: "cel_map \<Rightarrow> bool" where
  "map_ok g \<longleftrightarrow> 0 <=s TEXTURE_WI_START g \<and> TEXTURE_HI_LIM g <=s SPRHI g"

lemma sint_sar16: "sint (sar16 x) = sint x div 65536" for x :: u32
  by (simp add: sint_signed_drop_bit_eq drop_bit_eq_div)

lemma sar16_bounds: "sint (sar16 x) \<le> 32767" "- 32768 \<le> sint (sar16 x)" for x :: u32
proof -
  have "sint x div 65536 \<le> 2147483647 div 65536" using sint_bounds32(2) [of x] by (intro zdiv_mono1) simp_all
  moreover have "- 2147483648 div 65536 \<le> sint x div 65536" using sint_bounds32(1) [of x] by (intro zdiv_mono1) simp_all
  ultimately show "sint (sar16 x) \<le> 32767" "- 32768 \<le> sint (sar16 x)" by (simp_all add: sint_sar16)
qed

text \<open>A sum that wraps is less than the true sum.\<close>

lemma sint_rows:
  fixes p h :: u32
  assumes "unat h \<le> 1024"
  shows "sint (sar16 (p + push_bit 16 h)) \<le> sint (sar16 p) + int (unat h)"
proof -
  have h: "int (unat h) \<le> 1024" using assms by linarith
  let ?v = "sint p + int (unat h) * 65536"
  have w: "p + push_bit 16 h = word_of_int ?v" by (simp add: push_bit_eq_mult)
  have "sint (p + push_bit 16 h) = ?v \<or> sint (p + push_bit 16 h) = ?v - 4294967296"
  proof (cases "?v < 2147483648")
    case True
    then show ?thesis using sint_bounds32 [of p] unfolding w by (intro disjI1 sint_word_of_int32) linarith+
  next
    case False
    have e: "word_of_int ?v = (word_of_int (?v - 4294967296) :: u32)" by (simp add: word_of_int_eq_iff take_bit_int_def)
    have "sint (word_of_int (?v - 4294967296) :: u32) = ?v - 4294967296"
      using False sint_bounds32 [of p] h by (intro sint_word_of_int32) linarith+
    then show ?thesis by (simp only: w e simp_thms)
  qed
  then have "sint (p + push_bit 16 h) \<le> ?v" by linarith
  then have "sint (p + push_bit 16 h) div 65536 \<le> ?v div 65536" by (rule zdiv_mono1) simp
  then show ?thesis by (simp only: sint_sar16)
qed

lemma word_small: "unat a \<le> 1024 \<Longrightarrow> sint a = int (unat a) \<and> int (unat a) \<le> 1024" for a :: u32
proof -
  assume a: "unat a \<le> 1024"
  then have "sint a = int (unat a)" by (intro sint_nonneg) simp
  moreover have "int (unat a) \<le> 1024" using a by linarith
  ultimately show ?thesis by blast
qed

lemma map_ok_rows:
  assumes "map_ok g" "unat (SPRHI g) \<le> 1024" "unat clip \<le> 1023"
  shows "map_ok (limit_rows pos vd clip g)" "SPRHI (limit_rows pos vd clip g) = SPRHI g"
proof -
  have c: "sint clip = int (unat clip)" "int (unat clip) \<le> 1023"
    using word_small [of clip] assms(3) by (simp, linarith)
  note h = word_small [OF assms(2)]
  have up: "sint (clip - sar16 pos + 1) \<le> sint (SPRHI g)" if "clip <s sar16 (pos + push_bit 16 (SPRHI g))"
  proof -
    have "sint clip < sint (sar16 pos) + int (unat (SPRHI g))"
      using that sint_rows [OF assms(2), of pos] by (simp add: word_sless_alt)
    moreover have "sint (clip - sar16 pos + 1) = sint clip - sint (sar16 pos) + 1"
      using sar16_bounds [of pos] c by (intro sint_arith) linarith+
    ultimately show ?thesis using h by linarith
  qed
  show "map_ok (limit_rows pos vd clip g)"
    using assms(1) up by (auto simp: limit_rows_def map_ok_def Let_def word_sless_alt word_sle_eq)
  show "SPRHI (limit_rows pos vd clip g) = SPRHI g" by (simp add: limit_rows_def Let_def)
qed

lemma map_ok_skip:
  assumes "map_ok g" "unat clip \<le> 1023"
  shows "map_ok (snd (skip_outside pos hv vd clip g))" "SPRHI (snd (skip_outside pos hv vd clip g)) = SPRHI g"
proof -
  have c: "sint clip = int (unat clip)" "int (unat clip) \<le> 1023" "0 \<le> int (unat clip)"
    using word_small [of clip] assms(2) by (simp, linarith, simp)
  note b = sar16_bounds [of pos]
  have "sint (sar16 pos - clip) = sint (sar16 pos) - sint clip" using b c by (intro sint_arith) linarith+
  moreover have "sint (- sar16 pos) = - sint (sar16 pos)" using sint_arith(1) [of 0 "sar16 pos"] b by simp
  moreover have "sint (sar16 pos) < 0" if "pos <s 0"
  proof -
    have "sint pos < 0" using that by (simp add: word_sless_alt)
    then show ?thesis by (simp add: sint_sar16 neg_imp_zdiv_neg_iff pos_imp_zdiv_neg_iff)
  qed
  ultimately show "map_ok (snd (skip_outside pos hv vd clip g))"
    using assms(1) by (auto simp: skip_outside_def map_ok_def Let_def word_sless_alt word_sle_eq)
  show "SPRHI (snd (skip_outside pos hv vd clip g)) = SPRHI g" by (simp add: skip_outside_def Let_def)
qed

lemma map_ok_columns: "map_ok (limit_columns pos hv clip g) = map_ok g" "SPRHI (limit_columns pos hv clip g) = SPRHI g"
  by (simp_all add: map_ok_def limit_columns_def)

lemma map_ok_line:
  assumes "unat (SPRHI (CELMAP u)) \<le> 1024" "unat (clipx (MADAM u)) \<le> 1023" "unat (clipy (MADAM u)) \<le> 1023"
  shows "map_ok (CELMAP (snd (InitLineMap u)))" "SPRHI (CELMAP (snd (InitLineMap u))) = SPRHI (CELMAP u)"
proof -
  define g0 where "g0 = half_pixel ((CELMAP u)\<lparr>TEXEL_DRAW_FUNC := TEXEL_DRAW_FUNC_LINE, TEXTURE_WI_START := 0,
    TEXTURE_HI_START := 0, TEXTURE_HI_LIM := SPRHI (CELMAP u)\<rparr>)"
  have g0: "map_ok g0" "SPRHI g0 = SPRHI (CELMAP u)" by (simp_all add: g0_def half_pixel_def Let_def map_ok_def)
  note steps = map_ok_rows map_ok_columns map_ok_skip assms
  have "map_ok (CELMAP (snd (InitLineMap u))) \<and> SPRHI (CELMAP (snd (InitLineMap u))) = SPRHI (CELMAP u)"
    unfolding InitLineMap_def g0_def [symmetric] Let_def using g0 by (simp add: case_prod_beta steps)
  then show "map_ok (CELMAP (snd (InitLineMap u)))" "SPRHI (CELMAP (snd (InitLineMap u))) = SPRHI (CELMAP u)"
    by simp_all
qed

lemma visible_map:
  assumes "unat (SPRHI (CELMAP u)) \<le> 1024" "unat (clipx (MADAM u)) \<le> 1023" "unat (clipy (MADAM u)) \<le> 1023"
    and v: "TestInitVisual packed u = (False, w)"
  shows "0 <=s TEXTURE_WI_START (CELMAP w)" "SPRHI (CELMAP w) = SPRHI (CELMAP u)"
    "TEXEL_DRAW_FUNC (CELMAP w) = TEXEL_DRAW_FUNC_LINE \<Longrightarrow> TEXTURE_HI_LIM (CELMAP w) <=s SPRHI (CELMAP u)"
proof -
  note line = map_ok_line [OF assms(1-3)]
  have sc: "TEXTURE_WI_START (CELMAP (InitScaleMap u)) = 0" "SPRHI (CELMAP (InitScaleMap u)) = SPRHI (CELMAP u)"
    "TEXEL_DRAW_FUNC (CELMAP (InitScaleMap u)) = TEXEL_DRAW_FUNC_SCALE"
    "TEXTURE_WI_START (CELMAP (InitArbitraryMap u)) = 0" "SPRHI (CELMAP (InitArbitraryMap u)) = SPRHI (CELMAP u)"
    "TEXEL_DRAW_FUNC (CELMAP (InitArbitraryMap u)) = TEXEL_DRAW_FUNC_ARBITRARY"
    by (simp_all add: InitScaleMap_def InitArbitraryMap_def on_map_def half_pixel_def Let_def)
  have "w = snd (InitLineMap u) \<or> w = InitScaleMap u \<or> w = InitArbitraryMap u"
    using v by (auto simp: TestInitVisual_def line_or_scale_def Let_def split: if_splits)
  then show "0 <=s TEXTURE_WI_START (CELMAP w)" "SPRHI (CELMAP w) = SPRHI (CELMAP u)"
    "TEXEL_DRAW_FUNC (CELMAP w) = TEXEL_DRAW_FUNC_LINE \<Longrightarrow> TEXTURE_HI_LIM (CELMAP w) <=s SPRHI (CELMAP u)"
    using line sc by (auto simp: map_ok_def)
qed

section \<open>Cels return\<close>

lemma row_count_bound: "unat (row_count u) \<le> 1023"
proof -
  have "row_count u = drop_bit 6 (PRE0 (CEL u)) AND 0x3FF"
    unfolding row_count_def by (rule bit_word_eqI) (auto simp: bit_simps)
  then show ?thesis using word_and_le1 [of "drop_bit 6 (PRE0 (CEL u))" "0x3FF"] by (simp add: word_le_nat_alt and.commute)
qed

lemma cel_bpp_bound: "unat (cel_bpp u) \<le> 16"
proof -
  have "unat (PRE0 (CEL u) AND 7) \<le> 7" using word_and_le1 [of "PRE0 (CEL u)" 7] by (simp add: word_le_nat_alt and.commute)
  then have "unat (PRE0 (CEL u) AND 7) \<in> {0, 1, 2, 3, 4, 5, 6, 7}" by auto
  then show ?thesis by (auto simp: cel_bpp_def BPP_def)
qed

lemma DrawPackedCel_returns:
  assumes "unat (clipx (MADAM u)) \<le> 1023" "unat (clipy (MADAM u)) \<le> 1023" "unat (mreg PDATA u) < 2 ^ 27"
  shows "\<exists>s'. DrawPackedCel (u, m) = Some s'"
proof -
  define u1 where "u1 = on_map (\<lambda>g. g\<lparr>SPRHI := row_count u + 1\<rparr>) u"
  obtain out w where t: "TestInitVisual True u1 = (out, w)" by (cases "TestInitVisual True u1")
  have h: "unat (SPRHI (CELMAP u1)) \<le> 1024"
    using row_count_bound [of u] by (simp add: u1_def on_map_def unat_word_ariths)
  have c: "MADAM u1 = MADAM u" by (simp add: u1_def on_map_def)
  show ?thesis
  proof (cases out)
    case True
    then show ?thesis using t by (simp add: DrawPackedCel_def Let_def u1_def [symmetric])
  next
    case False
    define rows where "rows = (case TEXEL_DRAW_FUNC (CELMAP w) of TEXEL_DRAW_FUNC_LINE \<Rightarrow> TEXTURE_HI_LIM (CELMAP w)
      | _ \<Rightarrow> SPRHI (CELMAP w))"
    have v: "0 <=s TEXTURE_WI_START (CELMAP w)" "SPRHI (CELMAP w) = SPRHI (CELMAP u1)"
      "TEXEL_DRAW_FUNC (CELMAP w) = TEXEL_DRAW_FUNC_LINE \<Longrightarrow> TEXTURE_HI_LIM (CELMAP w) <=s SPRHI (CELMAP u1)"
      using visible_map [of u1 True w] h assms(1,2) t False by (simp_all add: c)
    have "sint rows \<le> sint (SPRHI (CELMAP u1))"
      using v by (auto simp: rows_def word_sle_eq split: texel_draw_func.splits)
    then have "sint rows \<le> 1024" using word_small [OF h] by linarith
    then have n: "nat (sint rows) \<le> 1024" by simp
    have "unat (mreg PDATA u) + nat (sint rows) * 262148 < 2 ^ 29"
      using mult_le_mono1 [OF n, of 262148] assms(3) by simp
    then obtain u2 m2 where p: "packed_rows (cel_bpp u) (nat (sint rows)) (XPOS1616 (CELMAP w), YPOS1616 (CELMAP w), mreg PDATA u, w, m) = Some (u2, m2)"
      using packed_rows_return [OF _ cel_bpp_bound, of "mreg PDATA u" "nat (sint rows)" "(w, m)" u] v(1) by fastforce
    then show ?thesis using t False by (simp add: DrawPackedCel_def Let_def u1_def [symmetric] rows_def)
  qed
qed

end
