(* ===== verification/Opera_Madam_Props.thy ===== *)
theory Opera_Madam_Props
  imports Opera_Clio_Io Opera_Fixedpoint_Props
begin

text \<open>
  The matrix engine of MADAM against the integer product of its matrix and vector, and the
  processor's view of CLIO's interrupts.
\<close>

section \<open>Matrix engine\<close>

lemma mreg_set [simp]: "mreg a (set_mreg b v u) = (if a = b then v else mreg a u)"
  by (simp add: mreg_def set_mreg_def on_madam_def)

lemma tmpMO_set [simp]: "tmpMO (set_mreg b v u) = tmpMO u" "mreg a (set_tmpMO i w u) = mreg a u"
  "tmpMO (set_tmpMO i w u) = (tmpMO u)(i := w)"
  by (simp_all add: set_mreg_def on_madam_def set_tmpMO_def mreg_def)

lemma copy_fields: "tmpMO (madam_matrix_copy u) = tmpMO u"
  "mreg a (madam_matrix_copy u) =
     (if a = 0x660 then ucast (tmpMO u 0) else if a = 0x664 then ucast (tmpMO u 1)
      else if a = 0x668 then ucast (tmpMO u 2) else if a = 0x66C then ucast (tmpMO u 3) else mreg a u)"
  by (simp_all add: madam_matrix_copy_def)

text \<open>Row \<open>i\<close> of the product over the first \<open>n\<close> columns, in units of 1/65536.\<close>

definition matrix_row :: "nat \<Rightarrow> nat \<Rightarrow> madam_unit \<Rightarrow> u32" where
  "matrix_row n i u =
     word_of_int ((\<Sum>j<n. sint (mreg (0x600 + of_nat i * 16 + of_nat j * 4) u) * sint (mreg (0x640 + of_nat j * 4) u)) div 65536)"

lemma rows_int: "ucast (row3 i u) = matrix_row 3 i u" "ucast (row4 i u) = matrix_row 4 i u"
  using shr16_sums(3,4) by (simp_all add: row3_def row4_def matrix_row_def MI_def MV_def mul64_def shr16_def
      eval_nat_numeral)

lemma rows_copy:
  assumes "i < 4"
  shows "row3 i (madam_matrix_copy u) = row3 i u" "row4 i (madam_matrix_copy u) = row4 i u"
proof -
  have "i = 0 \<or> i = 1 \<or> i = 2 \<or> i = 3" using assms by linarith
  then show "row3 i (madam_matrix_copy u) = row3 i u" "row4 i (madam_matrix_copy u) = row4 i u"
    by (auto simp: row3_def row4_def MI_def MV_def copy_fields)
qed

lemma rows_tmp: "row3 i (set_tmpMO k w u) = row3 i u" "row4 i (set_tmpMO k w u) = row4 i u"
  by (simp_all add: row3_def row4_def MI_def MV_def)

lemma poke_matrix_tmp:
  "tmpMO (madam_poke_unit 0x7FC 1 u) = (tmpMO u)(0 := row4 0 u, 1 := row4 1 u, 2 := row4 2 u, 3 := row4 3 u)"
  "tmpMO (madam_poke_unit 0x7FC 2 u) = (tmpMO u)(0 := row3 0 u, 1 := row3 1 u, 2 := row3 2 u)"
  by (simp_all add: madam_poke_unit_def madam_matrix_mul4x4_def madam_matrix_mul3x3_def Let_def rows_tmp rows_copy
      copy_fields)

lemma poke_matrix_outputs:
  assumes "c \<le> 3"
  shows "mreg 0x660 (madam_poke_unit 0x7FC c u) = ucast (tmpMO u 0)"
    "mreg 0x664 (madam_poke_unit 0x7FC c u) = ucast (tmpMO u 1)"
    "mreg 0x668 (madam_poke_unit 0x7FC c u) = ucast (tmpMO u 2)"
    "mreg 0x66C (madam_poke_unit 0x7FC c u) = ucast (tmpMO u 3)"
proof -
  have "unat c \<le> 3" using assms by (simp add: word_le_nat_alt)
  then have "unat c = unat (0 :: u32) \<or> unat c = unat (1 :: u32) \<or> unat c = unat (2 :: u32) \<or> unat c = unat (3 :: u32)"
    by auto
  then have "c = 0 \<or> c = 1 \<or> c = 2 \<or> c = 3" by (simp only: word_unat_eq_iff)
  then show "mreg 0x660 (madam_poke_unit 0x7FC c u) = ucast (tmpMO u 0)"
    "mreg 0x664 (madam_poke_unit 0x7FC c u) = ucast (tmpMO u 1)"
    "mreg 0x668 (madam_poke_unit 0x7FC c u) = ucast (tmpMO u 2)"
    "mreg 0x66C (madam_poke_unit 0x7FC c u) = ucast (tmpMO u 3)"
    by (auto simp: madam_poke_unit_def madam_matrix_mul4x4_def madam_matrix_mul3x3_def madam_matrix_mul3x3_nz_def Let_def
        copy_fields)
qed

text \<open>C11. The matrix engine is a pipeline of one stage. A command that multiplies puts out the results
  of the command before it and keeps its own, so the command after it, whichever of the four it
  is, shows the product: every element the integer sum of products of the matrix and the vector
  as they were at the first command, divided by 65536 and cut to 32 bits, exactly, although the
  engine adds in 64 bits that may wrap. The third output of a 3 by 3 product is the one before.\<close>

theorem madam_matrix_pipeline:
  assumes "c \<le> 3"
  shows "(let u1 = madam_poke_unit 0x7FC 1 u; u2 = madam_poke_unit 0x7FC c u1 in
      mreg 0x660 u1 = ucast (tmpMO u 0) \<and>
      mreg 0x660 u2 = matrix_row 4 0 u \<and> mreg 0x664 u2 = matrix_row 4 1 u \<and>
      mreg 0x668 u2 = matrix_row 4 2 u \<and> mreg 0x66C u2 = matrix_row 4 3 u) \<and>
    (let u1 = madam_poke_unit 0x7FC 2 u; u2 = madam_poke_unit 0x7FC c u1 in
      mreg 0x660 u2 = matrix_row 3 0 u \<and> mreg 0x664 u2 = matrix_row 3 1 u \<and>
      mreg 0x668 u2 = matrix_row 3 2 u \<and> mreg 0x66C u2 = mreg 0x66C u1)"
  unfolding Let_def poke_matrix_outputs [OF assms] poke_matrix_outputs [of 1, simplified] poke_matrix_outputs [of 2, simplified]
    poke_matrix_tmp by (simp add: rows_int)

definition unit_matrix :: "madam_unit \<Rightarrow> madam_unit" where
  "unit_matrix u =
     set_mreg 0x640 0x30000 (set_mreg 0x614 0xFFFF0000 (set_mreg 0x600 0x20000 u))"

lemma sum_three: "(\<Sum>j<3. f j) = f 0 + f 1 + (f 2 :: int)" for f :: "nat \<Rightarrow> int"
  by (simp add: eval_nat_numeral)

theorem madam_matrix_pipeline_witness:
  "\<forall>u. mreg 0x660 (madam_poke_unit 0x7FC 0 (madam_poke_unit 0x7FC 2 (unit_matrix (opera_madam_reset u)))) = 0x60000"
proof
  fix u
  have "mreg a (opera_madam_reset u) = 0" for a by (simp add: opera_madam_reset_def mreg_def)
  then have "matrix_row 3 0 (unit_matrix (opera_madam_reset u)) = 0x60000"
    by (simp add: matrix_row_def unit_matrix_def sum_three)
  then show "mreg 0x660 (madam_poke_unit 0x7FC 0 (madam_poke_unit 0x7FC 2 (unit_matrix (opera_madam_reset u)))) = 0x60000"
    using madam_matrix_pipeline [of 0 "unit_matrix (opera_madam_reset u)"] by (simp add: Let_def)
qed

section \<open>Interrupts\<close>

lemma or_of_top: "(x :: u32) AND NOT 0x80000000 \<noteq> 0 \<or> b \<longleftrightarrow> (x AND NOT 0x80000000) OR (if b then 0x80000000 else 0) \<noteq> 0"
proof (cases b)
  case True
  have "bit ((x AND NOT 0x80000000) OR (0x80000000 :: u32)) 31" by (simp add: bit_simps)
  then have "(x AND NOT 0x80000000) OR (0x80000000 :: u32) \<noteq> 0" by (metis bit_0_eq bot_apply bot_bool_def)
  then show ?thesis using True by simp
qed simp

lemma interrupt_bits:
  "((x AND NOT 0x80000000) OR (if b then 0x80000000 else 0)) AND (y OR (0x80000000 :: u32)) =
   ((x AND y) AND NOT 0x80000000) OR (if b then 0x80000000 else 0)"
  by (rule bit_word_eqI) (auto simp: bit_simps)

lemma peek_pending:
  "Opera_Clio_Io.opera_clio_peek 0x40 s =
     ((clio_regs (clio_of s) 0x40 AND NOT 0x80000000) OR
      (if clio_regs (clio_of s) 0x60 AND clio_regs (clio_of s) 0x68 \<noteq> 0 then 0x80000000 else 0), s)"
  "Opera_Clio_Io.opera_clio_peek 0x44 s = Opera_Clio_Io.opera_clio_peek 0x40 s"
  "Opera_Clio_Io.opera_clio_peek 0x48 s = (clio_regs (clio_of s) 0x48 OR 0x80000000, s)"
  "Opera_Clio_Io.opera_clio_peek 0x4C s = Opera_Clio_Io.opera_clio_peek 0x48 s"
  by (simp_all add: Opera_Clio_Io.opera_clio_peek_def peek_interrupts_def Let_def)

text \<open>C12. What the processor reads from CLIO is what interrupts it. A fast interrupt is requested exactly
  when the interrupt register as it is read (at either of its two addresses), whose top bit
  stands for the second register, meets the mask as it is read, whose top bit reads as set; and
  reading changes nothing.\<close>

theorem clio_pending_is_fiq:
  "(Opera_Clio.opera_clio_fiq_needed (clio_of s) \<longleftrightarrow>
     fst (Opera_Clio_Io.opera_clio_peek 0x40 s) AND fst (Opera_Clio_Io.opera_clio_peek 0x48 s) \<noteq> 0) \<and>
   Opera_Clio_Io.opera_clio_peek 0x44 s = Opera_Clio_Io.opera_clio_peek 0x40 s \<and>
   Opera_Clio_Io.opera_clio_peek 0x4C s = Opera_Clio_Io.opera_clio_peek 0x48 s \<and>
   snd (Opera_Clio_Io.opera_clio_peek 0x40 s) = s \<and> snd (Opera_Clio_Io.opera_clio_peek 0x48 s) = s"
  unfolding peek_pending Opera_Clio.opera_clio_fiq_needed_def fst_conv snd_conv interrupt_bits or_of_top by simp

end
