(* ===== verification/Opera_Cel_Props.thy ===== *)
theory Opera_Cel_Props
  imports Opera_Cel_Returns Opera_Madam_Props Opera_Mem_Props
begin

text \<open>
  The cel engine as the processor sees it: what a list of cels may change, and how long the engine
  says it is busy.
\<close>

section \<open>A list and the rest of the machine\<close>

lemma cel_handle_split:
  assumes "opera_madam_cel_handle k s = Some s'"
  obtains r where "cel_loop (on_unit cel_start s) = Some r"
    "s' = on_unit (\<lambda>u. madam_cel_busy_start k (set_mreg STATBITS (mreg STATBITS u AND NOT 0x10) u)) r"
    "engine_control r = engine_control (on_unit cel_start s)" "layout r = layout (on_unit cel_start s)"
  using assms engine.k_cel_loop layout.k_cel_loop unfolding opera_madam_cel_handle_def by blast

lemma control_fields:
  assumes "engine_control (u, m) = engine_control (v, n)"
  shows "a \<notin> set cel_regs \<Longrightarrow> mreg a u = mreg a v" "FSM (MADAM u) = FSM (MADAM v)" "clipx (MADAM u) = clipx (MADAM v)"
    "clipy (MADAM u) = clipy (MADAM v)" "rmod (MADAM u) = rmod (MADAM v)" "wmod (MADAM u) = wmod (MADAM v)"
    "TABLES u = TABLES v" "tmpMO u = tmpMO v"
  using assms by (auto simp: engine_control_def fun_eq_iff split: if_splits)

lemma busy_start_fields:
  "mreg a (madam_cel_busy_start k u) = mreg a u" "MADAM (madam_cel_busy_start k u) = MADAM u"
  "TABLES (madam_cel_busy_start k u) = TABLES u" "tmpMO (madam_cel_busy_start k u) = tmpMO u"
  "g_CEL_PIXELS_DRAWN (madam_cel_busy_start k u) = g_CEL_PIXELS_DRAWN u"
  "g_CEL_TEXELS_WALKED (madam_cel_busy_start k u) = g_CEL_TEXELS_WALKED u"
  "g_CEL_LIST_CELS (madam_cel_busy_start k u) = g_CEL_LIST_CELS u"
  "\<not> g_CEL_DRAW_PENDING (madam_cel_busy_start k u)"
  by (simp_all add: madam_cel_busy_start_def Let_def mreg_def)

lemma set_mreg_fields:
  "FSM (MADAM (set_mreg a v u)) = FSM (MADAM u)" "clipx (MADAM (set_mreg a v u)) = clipx (MADAM u)"
  "clipy (MADAM (set_mreg a v u)) = clipy (MADAM u)" "rmod (MADAM (set_mreg a v u)) = rmod (MADAM u)"
  "wmod (MADAM (set_mreg a v u)) = wmod (MADAM u)" "TABLES (set_mreg a v u) = TABLES u"
  by (simp_all add: set_mreg_def on_madam_def)

lemma cel_start_fields:
  "mreg a (cel_start u) = (if a = STATBITS then mreg STATBITS u OR 0x10 else mreg a u)"
  "FSM (MADAM (cel_start u)) = FSM (MADAM u)" "clipx (MADAM (cel_start u)) = clipx (MADAM u)"
  "clipy (MADAM (cel_start u)) = clipy (MADAM u)" "rmod (MADAM (cel_start u)) = rmod (MADAM u)"
  "wmod (MADAM (cel_start u)) = wmod (MADAM u)" "TABLES (cel_start u) = TABLES u" "tmpMO (cel_start u) = tmpMO u"
  by (simp_all add: cel_start_def set_mreg_def on_madam_def on_cel_def mreg_def)

lemma statbits_not_cel: "STATBITS \<notin> set cel_regs"
  by (simp add: cel_regs_def)


section \<open>Busy time\<close>

text \<open>C9. A list that was started is drawn at the next tick, and then the engine is busy for as long as
  the hardware would be: the status register reads 16 until the clock has counted the larger of
  the pixels drawn and the texels walked at nine million a second, and 64 cycles a cel, on from
  the cycle of that tick; ticks before that change nothing, the first tick from then on makes the
  engine idle, and then the status reads 0.\<close>

theorem cel_engine_paces:
  assumes "FSM (MADAM u) = FSM_INPROCESS" "g_CEL_DRAW_PENDING u" "opera_madam_cel_tick k (u, m) = Some (v, n)"
  shows "let until = opera_clock_cpu_get_cycles k +
      (max (g_CEL_TEXELS_WALKED v) (g_CEL_PIXELS_DRAWN v) * ucast (opera_clock_cpu_get_freq k)) div 9000000 +
      g_CEL_LIST_CELS v * 64 in
    (opera_clock_cpu_get_cycles k' < until \<longrightarrow> opera_madam_cel_tick k' (v, n) = Some (v, n)) \<and>
    (until \<le> opera_clock_cpu_get_cycles k' \<longrightarrow>
       opera_madam_cel_tick k' (v, n) = Some (opera_madam_fsm_set FSM_IDLE v, n)) \<and>
    Opera_Madam.opera_madam_peek 0x028 c v = 0x10 \<and>
    Opera_Madam.opera_madam_peek 0x028 c (opera_madam_fsm_set FSM_IDLE v) = 0"
proof -
  have h: "opera_madam_cel_handle k (u, m) = Some (v, n)" using assms by (simp add: opera_madam_cel_tick_def)
  obtain w n' where e: "engine_control (w, n') = engine_control (cel_start u, m)"
      and v: "v = madam_cel_busy_start k (set_mreg STATBITS (mreg STATBITS w AND NOT 0x10) w)"
    using h by (auto elim!: cel_handle_split simp: on_unit_def)
  have fsm: "FSM (MADAM v) = FSM_INPROCESS"
    using control_fields(2) [OF e] assms(1) by (simp add: v busy_start_fields set_mreg_fields cel_start_fields)
  have p: "\<not> g_CEL_DRAW_PENDING v" by (simp add: v busy_start_fields)
  have m: "(if b < a then a else b) = max a b" for a b :: u64 by (auto simp: max_def)
  have b: "g_CEL_BUSY_UNTIL v = opera_clock_cpu_get_cycles k +
      (max (g_CEL_TEXELS_WALKED v) (g_CEL_PIXELS_DRAWN v) * ucast (opera_clock_cpu_get_freq k)) div 9000000 +
      g_CEL_LIST_CELS v * 64"
    by (subst v) (simp add: v madam_cel_busy_start_def Let_def m)
  show ?thesis
    unfolding b [symmetric] Let_def
    using fsm p by (auto simp: opera_madam_cel_tick_def Opera_Madam.opera_madam_peek_def opera_madam_fsm_set_def
        on_madam_def on_unit_def mreg_def)
qed

section \<open>A turn of the list\<close>

lemma fst_on_unit [simp]: "fst (on_unit f s) = f (fst s)" "snd (on_unit f s) = snd s"
  by (simp_all add: on_unit_def case_prod_beta)

lemma mreg_units [simp]: "mreg a (on_cel f u) = mreg a u" "mreg a (on_map h u) = mreg a u"
  "mreg a (u\<lparr>g_CEL_LIST_CELS := n\<rparr>) = mreg a u"
  by (simp_all add: mreg_def on_cel_def on_map_def)

lemma next_word_facts [simp]: "fst (next_word r s) = mem32 (mreg r (fst s)) s"
  "mreg a (fst (snd (next_word r s))) = (if a = r then mreg r (fst s) + 4 else mreg a (fst s))"
  "snd (snd (next_word r s)) = snd s"
  by (simp_all add: next_word_def)

lemma load_pointer_facts:
  "mreg a (fst (load_pointer r ab s)) =
     (if a = r then mreg r (fst (load_pointer r ab s)) else if a = CURRENTCCB then mreg CURRENTCCB (fst s) + 4 else mreg a (fst s))"
  "r \<noteq> CURRENTCCB \<Longrightarrow> mreg r (fst (load_pointer r ab s)) = (mem32 (mreg CURRENTCCB (fst s)) s AND 0x00FFFFFC) \<or>
     mreg r (fst (load_pointer r ab s)) = (mem32 (mreg CURRENTCCB (fst s)) s AND 0x00FFFFFC) + (mreg CURRENTCCB (fst s) + 4)"
  by (auto simp: load_pointer_def Let_def case_prod_beta)

lemma load_rest_data:
  "mreg PDATA (fst (load_position s)) = mreg PDATA (fst s)" "mreg PDATA (fst (load_xor s)) = mreg PDATA (fst s)"
  "mreg PDATA (fst (load_size s)) = mreg PDATA (fst s)" "mreg PDATA (fst (load_shear s)) = mreg PDATA (fst s)"
  "mreg PDATA (fst (load_pixc s)) = mreg PDATA (fst s)"
  "\<exists>k \<le> 8. mreg PDATA (fst (load_preamble s)) = mreg PDATA (fst s) + k"
proof -
  show "mreg PDATA (fst (load_position s)) = mreg PDATA (fst s)" "mreg PDATA (fst (load_xor s)) = mreg PDATA (fst s)"
    "mreg PDATA (fst (load_size s)) = mreg PDATA (fst s)" "mreg PDATA (fst (load_shear s)) = mreg PDATA (fst s)"
    "mreg PDATA (fst (load_pixc s)) = mreg PDATA (fst s)"
    by (simp_all add: load_position_def load_xor_def load_size_def load_shear_def load_pixc_def Let_def case_prod_beta
        StoreXYPosToRegisters_def LoadXYPosFromRegisters_def)
  have "mreg PDATA (fst (load_preamble s)) = mreg PDATA (fst s) + 0 \<or>
      mreg PDATA (fst (load_preamble s)) = mreg PDATA (fst s) + 4 \<or>
      mreg PDATA (fst (load_preamble s)) = mreg PDATA (fst s) + 8"
    by (simp add: load_preamble_def Let_def case_prod_beta)
  moreover have "(0 :: u32) \<le> 8" "(4 :: u32) \<le> 8" "(8 :: u32) \<le> 8" by simp_all
  ultimately show "\<exists>k \<le> 8. mreg PDATA (fst (load_preamble s)) = mreg PDATA (fst s) + k" by blast
qed

lemma unat_add_le: "unat (x + y) \<le> unat x + unat y" for x y :: u32
  by (simp add: unat_word_ariths)

lemma load_block_data:
  assumes "unat (mreg CURRENTCCB (fst s)) < 2 ^ 24"
  shows "unat (mreg PDATA (fst (load_block s))) < 2 ^ 27"
proof -
  define s1 where "s1 = load_pointer NEXTCCB CCB_NPABS (on_unit (on_cel (\<lambda>c. c\<lparr>CCBFLAGS := fst (next_word CURRENTCCB s)\<rparr>)) (snd (next_word CURRENTCCB s)))"
  have c: "mreg CURRENTCCB (fst s1) = mreg CURRENTCCB (fst s) + 8"
    by (simp add: s1_def load_pointer_facts(1) [of CURRENTCCB])
  let ?v = "mem32 (mreg CURRENTCCB (fst s1)) s1 AND 0x00FFFFFC"
  have "?v \<le> 0x00FFFFFC" by (rule word_and_le1)
  then have v: "unat ?v \<le> 0xFFFFFC" by (simp add: word_le_nat_alt)
  have a: "unat (mreg CURRENTCCB (fst s1) + 4) \<le> 2 ^ 24 + 12"
    using assms by (simp add: c unat_word_ariths)
  have p: "unat (mreg PDATA (fst (load_pointer PDATA CCB_SPABS s1))) \<le> 2 ^ 25 + 12"
    using load_pointer_facts(2) [of PDATA CCB_SPABS s1] v a unat_add_le [of ?v "mreg CURRENTCCB (fst s1) + 4"] by auto
  define s2 where "s2 = load_pixc (load_shear (load_size (load_xor (load_position
    (load_pointer PLUTDATA CCB_PPABS (load_pointer PDATA CCB_SPABS s1))))))"
  have "load_block s = load_preamble s2"
    by (simp only: load_block_def Let_def case_prod_beta s1_def s2_def)
  moreover have "mreg PDATA (fst s2) = mreg PDATA (fst (load_pointer PDATA CCB_SPABS s1))"
    by (simp add: s2_def load_rest_data(1-5) load_pointer_facts(1) [of PDATA PLUTDATA])
  ultimately obtain j :: u32 where j: "j \<le> 8"
      "mreg PDATA (fst (load_block s)) = mreg PDATA (fst (load_pointer PDATA CCB_SPABS s1)) + j"
    using load_rest_data(6) [of s2] by auto
  have "unat j \<le> 8" using j(1) by (simp add: word_le_nat_alt)
  then show ?thesis using j(2) p unat_add_le [of "mreg PDATA (fst (load_pointer PDATA CCB_SPABS s1))" j] by simp
qed

text \<open>C8. A cel always returns. With the memory allocated and the clipping window as the control register
  holds it (10 bits), one turn of the list, whatever the control block says and whatever the pixel
  data holds, ends: every packet of a packed row moves the bit reader on, so a row ends when its
  bytes run out, and no address of a row wraps.\<close>

theorem cel_turn_returns:
  assumes "mem_ready m" "clipx (MADAM u) \<le> 0x3FF" "clipy (MADAM u) \<le> 0x3FF"
  shows "\<exists>again s. cel_turn (u, m) = Some (again, s)"
proof -
  define s0 where "s0 = on_unit (\<lambda>u. set_mreg CURRENTCCB (mreg NEXTCCB u AND 0x00FFFFFC) u)
    (on_unit (\<lambda>u. u\<lparr>g_CEL_LIST_CELS := g_CEL_LIST_CELS u + 1\<rparr>) (u, m))"
  define s1 where "s1 = load_block s0"
  define s2 where "s2 = load_colours (on_unit load_decoder s1)"
  have "unat (RAM_SIZE m) \<le> 2 ^ 24"
    using assms(1) cfg_sizes(2) [of "g_MEM_CFG m"] unat_add_le [of "DRAM_SIZE m" "VRAM_SIZE m"] by (simp add: mem_ready_def)
  then have r: "unat (mreg CURRENTCCB (fst s0)) < 2 ^ 24" if "mreg CURRENTCCB (fst s0) < RAM_SIZE m"
    using that by (simp add: word_less_nat_alt)
  have ctl: "engine_control s2 = engine_control (u, m)"
  proof -
    have "engine_control s0 = engine_control (u, m)"
      by (simp add: s0_def engine.k_on_unit engine.k_cels engine.k_regs)
    moreover have "engine_control (on_unit load_decoder s1) = engine_control s1"
      by (simp add: engine.k_on_unit load_decoder_def engine.k_on)
    ultimately show ?thesis by (simp add: s2_def s1_def engine.k_load_colours engine.k_load_block)
  qed
  obtain u2 m2 where s2: "s2 = (u2, m2)" by (cases s2)
  have clip: "unat (clipx (MADAM u2)) \<le> 1023" "unat (clipy (MADAM u2)) \<le> 1023"
    using control_fields(3,4) [OF ctl [unfolded s2]] assms(2,3) by (simp_all add: word_le_nat_alt)
  have data: "mreg PDATA u2 = mreg PDATA (fst s1)"
  proof -
    have "mreg PDATA (fold (\<lambda>i. on_madam (\<lambda>d. d\<lparr>PLUT := f i d\<rparr>)) xs w) = mreg PDATA w" for f xs w
      by (rule fold_keeps [where P = "\<lambda>w'. mreg PDATA w' = mreg PDATA w"]) (simp_all add: on_madam_def mreg_def)
    then have "mreg PDATA (fst (LoadPLUT p n t)) = mreg PDATA (fst t)" for p n t
      by (simp add: LoadPLUT_def case_prod_beta)
    then have "mreg PDATA (fst s2) = mreg PDATA (fst (on_unit load_decoder s1))"
      by (simp add: s2_def load_colours_def Let_def)
    then show ?thesis by (simp add: s2 load_decoder_def)
  qed
  have "\<exists>t. draw_cel s2 = Some t" if "mreg CURRENTCCB (fst s0) < RAM_SIZE m"
    using DrawPackedCel_returns [OF clip, of m2] load_block_data [OF r [OF that]] data
    by (auto simp: draw_cel_def Let_def s2 s1_def)
  then show ?thesis
    unfolding cel_turn_def Let_def s0_def [symmetric] s1_def [symmetric] s2_def [symmetric]
    by (auto simp: not_le s0_def)
qed

section \<open>Skipped cels\<close>

text \<open>A memory that holds the same byte everywhere, so that every control block is the same word six
  times and more: with the skip bit set nothing is drawn.\<close>

definition even_mem :: "u8 \<Rightarrow> memory \<Rightarrow> memory" where
  "even_mem b m = m\<lparr>DRAM := Some (\<lambda>_. b), RAM_SIZE := 0x1000000\<rparr>"

lemma even_reads: "mem32 a (u, even_mem 0xA0 m) = 0xA0A0A0A0" "mem32 a (u, even_mem 0xC0 m) = 0xC0C0C0C0"
  "RAM_SIZE (even_mem b m) = 0x1000000"
  by (simp_all add: mem32_def even_mem_def opera_mem_read32_def get32_def le4_def dram_def)

lemma unit_flags [simp]: "CEL (set_mreg a v u) = CEL u" "CEL (on_map h u) = CEL u" "CEL (on_cel f u) = f (CEL u)"
  by (simp_all add: set_mreg_def on_madam_def on_map_def on_cel_def)

lemma next_word_cel [simp]: "CEL (fst (snd (next_word r s))) = CEL (fst s)"
  by (simp add: next_word_def)

lemma store_position_cel [simp]: "CEL (StoreXYPosToRegisters x y u) = CEL u" "CEL (LoadXYPosFromRegisters u) = CEL u"
  by (simp_all add: StoreXYPosToRegisters_def LoadXYPosFromRegisters_def Let_def)

lemma load_flags:
  "CCBFLAGS (CEL (fst (load_pointer r ab s))) = CCBFLAGS (CEL (fst s))" "CCBFLAGS (CEL (fst (load_position s))) = CCBFLAGS (CEL (fst s))"
  "CCBFLAGS (CEL (fst (load_xor s))) = CCBFLAGS (CEL (fst s))" "CCBFLAGS (CEL (fst (load_size s))) = CCBFLAGS (CEL (fst s))"
  "CCBFLAGS (CEL (fst (load_shear s))) = CCBFLAGS (CEL (fst s))" "CCBFLAGS (CEL (fst (load_pixc s))) = CCBFLAGS (CEL (fst s))"
  "CCBFLAGS (CEL (fst (load_preamble s))) = CCBFLAGS (CEL (fst s))"
  by (simp_all add: load_pointer_def load_position_def load_xor_def load_size_def load_shear_def load_pixc_def
      load_preamble_def Let_def case_prod_beta)

lemma load_memory:
  "snd (load_pointer r ab s) = snd s" "snd (load_position s) = snd s" "snd (load_xor s) = snd s" "snd (load_size s) = snd s"
  "snd (load_shear s) = snd s" "snd (load_pixc s) = snd s" "snd (load_preamble s) = snd s" "snd (load_colours s) = snd s"
  by (simp_all add: load_pointer_def load_position_def load_xor_def load_size_def load_shear_def load_pixc_def
      load_preamble_def load_colours_def LoadPLUT_def Let_def case_prod_beta)

lemma load_next:
  "mreg NEXTCCB (fst (load_position s)) = mreg NEXTCCB (fst s)" "mreg NEXTCCB (fst (load_xor s)) = mreg NEXTCCB (fst s)"
  "mreg NEXTCCB (fst (load_size s)) = mreg NEXTCCB (fst s)" "mreg NEXTCCB (fst (load_shear s)) = mreg NEXTCCB (fst s)"
  "mreg NEXTCCB (fst (load_pixc s)) = mreg NEXTCCB (fst s)" "mreg NEXTCCB (fst (load_preamble s)) = mreg NEXTCCB (fst s)"
  by (simp_all add: load_position_def load_xor_def load_size_def load_shear_def load_pixc_def load_preamble_def Let_def
      case_prod_beta StoreXYPosToRegisters_def LoadXYPosFromRegisters_def)

lemma LoadPLUT_unit:
  "mreg a (fst (LoadPLUT p n s)) = mreg a (fst s)" "CEL (fst (LoadPLUT p n s)) = CEL (fst s)" "snd (LoadPLUT p n s) = snd s"
proof -
  obtain u m where s: "s = (u, m)" by (cases s)
  have "mreg a (fold (\<lambda>i. on_madam (\<lambda>d. d\<lparr>PLUT := (PLUT d)(i := f i)\<rparr>)) xs u) = mreg a u \<and>
      CEL (fold (\<lambda>i. on_madam (\<lambda>d. d\<lparr>PLUT := (PLUT d)(i := f i)\<rparr>)) xs u) = CEL u" for f xs
    by (rule fold_keeps [where P = "\<lambda>w. mreg a w = mreg a u \<and> CEL w = CEL u"]) (simp_all add: on_madam_def mreg_def)
  then show "mreg a (fst (LoadPLUT p n s)) = mreg a (fst s)" "CEL (fst (LoadPLUT p n s)) = CEL (fst s)"
    "snd (LoadPLUT p n s) = snd s"
    by (simp_all add: s LoadPLUT_def)
qed

text \<open>A turn over a memory of one word \<open>w\<close> that says to skip.\<close>

lemma even_turn:
  assumes w: "\<And>u a. mem32 a (u, m) = w" and r: "mreg NEXTCCB u AND 0x00FFFFFC < RAM_SIZE m"
    and f: "flag_is_set w CCB_SKIP" "w AND 7 \<noteq> 7"
  obtains v where "cel_turn (u, m) = Some (True, v, m)" "CCBFLAGS (CEL v) = w"
    "flag_is_set w CCB_NPABS \<Longrightarrow> mreg NEXTCCB v = w AND 0x00FFFFFC"
proof -
  define s0 where "s0 = on_unit (\<lambda>u. set_mreg CURRENTCCB (mreg NEXTCCB u AND 0x00FFFFFC) u)
    (on_unit (\<lambda>u. u\<lparr>g_CEL_LIST_CELS := g_CEL_LIST_CELS u + 1\<rparr>) (u, m))"
  have m0: "snd s0 = m" "mreg CURRENTCCB (fst s0) = mreg NEXTCCB u AND 0x00FFFFFC" by (simp_all add: s0_def)
  have wm: "mem32 a t = w" if "snd t = m" for a and t :: gfx using w [of a "fst t"] that by (metis prod.collapse)
  define s1 where "s1 = load_block s0"
  have m1: "snd s1 = m" by (simp add: s1_def load_block_def Let_def case_prod_beta load_memory m0)
  have fl: "CCBFLAGS (CEL (fst s1)) = w"
    by (simp add: s1_def load_block_def Let_def case_prod_beta load_flags wm m0)
  have pre: "PRE0 (CEL (fst (load_preamble t))) = w" if "snd t = m" for t
    by (simp add: load_preamble_def Let_def case_prod_beta wm that)
  have p: "PRE0 (CEL (fst s1)) = w"
    unfolding s1_def load_block_def Let_def case_prod_beta by (rule pre) (simp add: load_memory m0)
  have nx: "mreg NEXTCCB (fst s1) = w AND 0x00FFFFFC" if "flag_is_set w CCB_NPABS"
  proof -
    have "\<not> flag_is_clr w CCB_NPABS" using that by (simp add: flag_is_set_def flag_is_clr_def)
    moreover have "mreg NEXTCCB (fst (load_pointer NEXTCCB ab t)) = w AND 0x00FFFFFC"
      if "snd t = m" "\<not> flag_is_clr (CCBFLAGS (CEL (fst t))) ab" for t ab
      using that by (simp add: load_pointer_def Let_def case_prod_beta wm)
    ultimately show ?thesis
      by (simp add: s1_def load_block_def Let_def case_prod_beta load_next load_pointer_facts(1) [of NEXTCCB PDATA]
          load_pointer_facts(1) [of NEXTCCB PLUTDATA] wm m0)
  qed
  define s2 where "s2 = load_colours (on_unit load_decoder s1)"
  have s2: "snd s2 = m" "CCBFLAGS (CEL (fst s2)) = w" "mreg NEXTCCB (fst s2) = mreg NEXTCCB (fst s1)"
    by (simp_all add: s2_def load_memory m1 load_colours_def LoadPLUT_unit load_decoder_def Let_def fl)
  have "\<not> RAM_SIZE (snd s0) \<le> mreg CURRENTCCB (fst s0)" using r by (simp add: m0)
  then have "cel_turn (u, m) = Some (True, s2)"
    unfolding cel_turn_def Let_def s0_def [symmetric] s1_def [symmetric] s2_def [symmetric]
    using f(1,2) by (simp add: p s2)
  then show thesis
    using s2 nx by (intro that [of "fst s2"]) (simp_all add: prod_eq_iff)
qed

definition list_unit :: "madam_unit \<Rightarrow> madam_unit" where
  "list_unit u = (set_mreg NEXTCCB 0xA0A0A0 (opera_madam_fsm_set FSM_INPROCESS (opera_madam_reset u)))\<lparr>g_CEL_DRAW_PENDING := True\<rparr>"

lemma list_unit_facts: "mreg NEXTCCB (cel_start (list_unit u)) = 0xA0A0A0" "CCBFLAGS (CEL (cel_start (list_unit u))) = 0"
  "FSM (MADAM (list_unit u)) = FSM_INPROCESS" "g_CEL_DRAW_PENDING (list_unit u)"
  by (simp_all add: list_unit_def cel_start_def mreg_def set_mreg_def on_madam_def on_cel_def opera_madam_fsm_set_def)

lemma one_cel_list: "\<exists>v n. opera_madam_cel_handle k (list_unit u, even_mem 0xC0 m) = Some (v, n)"
proof -
  let ?s = "(cel_start (list_unit u), even_mem 0xC0 m)"
  obtain v where t: "cel_turn ?s = Some (True, v, even_mem 0xC0 m)" "CCBFLAGS (CEL v) = 0xC0C0C0C0"
    by (rule even_turn [of "even_mem 0xC0 m" "0xC0C0C0C0" "cel_start (list_unit u)"])
      (simp_all add: even_reads list_unit_facts flag_is_set_def)
  have "cel_loop (v, even_mem 0xC0 m) = Some (v, even_mem 0xC0 m)"
    by (subst cel_loop.simps) (simp add: t flag_is_clr_def)
  then have "cel_loop ?s = Some (v, even_mem 0xC0 m)"
    by (subst cel_loop.simps) (simp add: list_unit_facts flag_is_clr_def t)
  then show ?thesis by (simp add: opera_madam_cel_handle_def on_unit_def)
qed


theorem cel_engine_paces_witness:
  "\<forall>u m c. \<exists>v n. opera_madam_cel_tick g_CLOCK (list_unit u, even_mem 0xC0 m) = Some (v, n) \<and>
    Opera_Madam.opera_madam_peek 0x028 c v = 0x10"
proof (intro allI)
  fix u m c
  obtain v n where h: "opera_madam_cel_tick g_CLOCK (list_unit u, even_mem 0xC0 m) = Some (v, n)"
    using one_cel_list [of g_CLOCK u m] by (auto simp: opera_madam_cel_tick_def list_unit_facts)
  then show "\<exists>v n. opera_madam_cel_tick g_CLOCK (list_unit u, even_mem 0xC0 m) = Some (v, n) \<and>
      Opera_Madam.opera_madam_peek 0x028 c v = 0x10"
    using cel_engine_paces [OF list_unit_facts(3,4) h] by (auto simp: Let_def)
qed

theorem cel_turn_returns_witness:
  "\<forall>u. \<exists>again s. cel_turn (opera_madam_reset u, stock_mem) = Some (again, s)"
proof
  fix u
  have "clipx (MADAM (opera_madam_reset u)) \<le> 0x3FF" "clipy (MADAM (opera_madam_reset u)) \<le> 0x3FF"
    by (simp_all add: opera_madam_reset_def)
  then show "\<exists>again s. cel_turn (opera_madam_reset u, stock_mem) = Some (again, s)"
    by (rule cel_turn_returns [OF stock_mem_ready])
qed

text \<open>A list whose blocks link in a circle never returns: every block of this memory is skipped and
  links to the same address.\<close>

theorem cel_circle_hangs: "opera_madam_cel_handle k (list_unit u, even_mem 0xA0 m) = None"
proof -
  let ?m = "even_mem 0xA0 m"
  let ?I = "\<lambda>s :: gfx. snd s = ?m \<and> mreg NEXTCCB (fst s) = 0xA0A0A0 \<and> flag_is_clr (CCBFLAGS (CEL (fst s))) CCB_LAST"
  have turn: "\<exists>t. cel_turn s = Some (True, t) \<and> ?I t" if i: "?I s" for s
  proof -
    obtain v where "cel_turn (fst s, ?m) = Some (True, v, ?m)" "CCBFLAGS (CEL v) = 0xA0A0A0A0"
        "flag_is_set 0xA0A0A0A0 CCB_NPABS \<Longrightarrow> mreg NEXTCCB v = 0xA0A0A0A0 AND 0x00FFFFFC"
      by (rule even_turn [of ?m "0xA0A0A0A0" "fst s"]) (use i in \<open>simp_all add: even_reads flag_is_set_def\<close>)
    then have "cel_turn s = Some (True, v, ?m) \<and> ?I (v, ?m)"
      using i by (simp add: flag_is_set_def flag_is_clr_def prod_eq_iff [symmetric]) (metis prod.collapse)
    then show ?thesis by blast
  qed
  have never: "cel_loop s = Some s' \<Longrightarrow> \<not> ?I s" for s s'
  proof (erule cel_loop.raw_induct [rotated])
    fix loop s s'
    assume ih: "\<And>s s'. loop s = Some s' \<Longrightarrow> \<not> ?I s"
      and b: "(if mreg NEXTCCB (fst s) \<noteq> 0 \<and> flag_is_clr (CCBFLAGS (CEL (fst s))) CCB_LAST
        then (case cel_turn s of None \<Rightarrow> None | Some (again, s) \<Rightarrow> if again then loop s else Some s) else Some s) = Some s'"
    show "\<not> ?I s"
    proof
      assume i: "?I s"
      then obtain t where "cel_turn s = Some (True, t)" "?I t" using turn by blast
      then show False using b i ih [of t s'] by simp
    qed
  qed
  have "?I (on_unit cel_start (list_unit u, ?m))" by (simp add: list_unit_facts flag_is_clr_def)
  then have "cel_loop (on_unit cel_start (list_unit u, ?m)) = None"
    using never by (cases "cel_loop (on_unit cel_start (list_unit u, ?m))") blast+
  then show ?thesis by (simp add: opera_madam_cel_handle_def)
qed

end
