(* ===== verification/Opera_Cel_Blend.thy ===== *)
theory Opera_Cel_Blend
  imports Opera_Cel_Pixel
begin

text \<open>
  The pixel processor against a blend in natural numbers: each channel of the primary source is
  multiplied and divided, the secondary source added, the sum halved or not, and the result cut to
  five bits. The reference says what the \<open>int8_t\<close> the code keeps the sum in makes of it.
\<close>

section \<open>The reference\<close>

definition channel :: "nat \<Rightarrow> u32 \<Rightarrow> nat" where
  "channel lo w = unat (field lo 5 w)"

definition blend :: "nat \<Rightarrow> nat \<Rightarrow> nat \<Rightarrow> nat \<Rightarrow> nat \<Rightarrow> nat" where
  "blend src mul dv add half =
     (let t = (src * mul div 2 ^ dv + add) div 2 ^ half in if t < 128 then min t 31 else 0)"

text \<open>The factors of a channel for the control bits \<open>pc\<close>: the multiplier and the divisor of the
  primary source, and the secondary source. \<open>i\<close> is the channel, 0 for blue to 2 for red.\<close>

definition multiplier :: "u32 \<Rightarrow> u32 \<Rightarrow> u32 \<Rightarrow> nat \<Rightarrow> nat" where
  "multiplier pc px amv i =
     (if pc_ms pc = 0 then unat (pc_mxf pc)
      else if pc_ms pc = 1 then unat (field (3 * i) 3 amv)
      else channel (5 * i) px div 4) + 1"

definition divisor :: "u32 \<Rightarrow> u32 \<Rightarrow> nat \<Rightarrow> nat" where
  "divisor pc px i =
     (let d = (if pc_ms pc = 2 then channel (5 * i) px mod 4 else unat (pc_dv1 pc)) in if d = 0 then 4 else d)"

definition addend :: "u32 \<Rightarrow> u32 \<Rightarrow> u32 \<Rightarrow> nat \<Rightarrow> nat" where
  "addend pc px fpix i =
     (if pc_s2 pc = 0 then 0
      else if pc_s2 pc = 1 then unat (pc_av pc)
      else if pc_s2 pc = 2 then channel (5 * i) fpix
      else channel (5 * i) px)"

definition blended :: "u32 \<Rightarrow> u32 \<Rightarrow> u32 \<Rightarrow> u32 \<Rightarrow> nat \<Rightarrow> nat" where
  "blended pc px fpix amv i =
     blend (channel (5 * i) (if pc_s1 pc = 0 then px else fpix)) (multiplier pc px amv i) (divisor pc px i)
       (addend pc px fpix i) (unat (pc_dv2 pc))"

section \<open>Small numbers\<close>

lemma field_bound: "unat (field lo len w) < 2 ^ len" if "len < 32" for w :: u32
proof -
  have "unat (field lo len w) = take_bit len (unat (drop_bit lo w))" by (simp add: field_def unsigned_take_bit_eq)
  then show ?thesis by simp
qed

lemma channel_bound: "channel lo w \<le> 31"
  using field_bound [of 5 lo w] by (simp add: channel_def)

lemma PDV_small: "d < 4 \<Longrightarrow> PDV d = (if d = 0 then 4 else d)"
proof -
  assume "d < 4"
  then have "d = 0 \<or> d = 1 \<or> d = 2 \<or> d = 3" by linarith
  then show ?thesis by (auto simp: PDV_def)
qed

lemma scale_bound: "i \<le> 31 \<Longrightarrow> j \<le> 7 \<Longrightarrow> d < 4 \<Longrightarrow> i * (j + 1) div 2 ^ PDV d \<le> 124" for i j :: nat
proof -
  assume a: "i \<le> 31" "j \<le> 7" "d < 4"
  then have "i * (j + 1) \<le> 31 * 8" by (intro mult_le_mono) simp_all
  then have "i * (j + 1) div 2 ^ PDV d \<le> 248 div 2 ^ PDV d" by (intro div_le_mono) simp
  also have "\<dots> \<le> 124"
  proof -
    have "d = 0 \<or> d = 1 \<or> d = 2 \<or> d = 3" using a(3) by linarith
    then show ?thesis by (auto simp: PDV_small)
  qed
  finally show ?thesis .
qed

lemma clamp_table: "list_all (\<lambda>t. clamp_i8 (of_nat t) 0 31 = of_nat (if t < 128 then min t 31 else 0)) [0..<256]"
  by code_simp

lemma clamp_u8: "t < 256 \<Longrightarrow> clamp_i8 (of_nat t) 0 31 = of_nat (if t < 128 then min t 31 else 0)"
  using clamp_table by (simp add: list_all_iff)

lemma sint_small8: "t < 128 \<Longrightarrow> sint (of_nat t :: u8) = int t"
proof -
  assume "t < 128"
  then have "take_bit 8 (int t) = int t" by (intro take_bit_int_eq_self) simp_all
  then have "sint (of_nat t :: u8) = signed_take_bit 7 (int t)"
    by (simp add: signed_of_nat)
  then show ?thesis using \<open>t < 128\<close> by (simp add: signed_take_bit_int_eq_self)
qed

lemma channel_out:
  assumes "a \<le> 124" "b \<le> 31" "h \<le> 1"
  shows "clamp_i8 (add_shift 0 (of_nat h) (of_nat a) (of_nat b)) 0 31 =
    of_nat (let t = (a + b) div 2 ^ h in if t < 128 then min t 31 else 0)"
proof -
  have "unat (of_nat h :: u32) = h" using assms(3) by (simp add: unat_of_nat)
  moreover have "drop_bit h (int a + int b) = int ((a + b) div 2 ^ h)" by (simp add: drop_bit_eq_div zdiv_int)
  ultimately have "add_shift 0 (of_nat h) (of_nat a) (of_nat b) = of_nat ((a + b) div 2 ^ h)"
    using assms by (simp add: add_shift_def sint_small8)
  moreover have "(a + b) div 2 ^ h < 256" using assms div_le_dividend [of "a + b" "2 ^ h"] by linarith
  ultimately show ?thesis by (simp add: clamp_u8 Let_def)
qed

section \<open>The two sources\<close>

definition pick :: "nat \<Rightarrow> colour \<Rightarrow> u8" where
  "pick i c = (if i = 0 then Bc c else if i = 1 then Gc c else Rc c)"

lemma field2_bound: "unat (field lo 2 w) < 4" for w :: u32
  using field_bound [of 2 lo w] by simp

lemma field3_bound: "unat (field lo 3 w) \<le> 7" for w :: u32
  using field_bound [of 3 lo w] by simp

lemma low2: "unat (field lo 5 w AND 3) = channel lo w mod 4" for w :: u32
proof -
  have "field lo 5 w AND 3 = take_bit 2 (field lo 5 w)" by (simp add: take_bit_eq_mask mask_eq_exp_minus_1)
  then show ?thesis by (simp only: channel_def unsigned_take_bit_eq) (simp add: take_bit_eq_mod)
qed

lemma high3: "unat (drop_bit 2 (field lo 5 w)) = channel lo w div 4" for w :: u32
  by (simp add: channel_def drop_bit_eq_div unat_div)

lemma three_bits: "drop_bit lo w AND 7 = field lo 3 w" for w :: u32
  by (simp add: field_def take_bit_eq_mask mask_eq_exp_minus_1)

lemma field_of_drop: "field 0 len (drop_bit lo w) = field lo len w"
  by (simp add: field_def)

lemma word_unat_inverse: "of_nat (unat w) = w" for w :: u32
  by simp

lemma channel_index: "i < 3 \<Longrightarrow> i = 0 \<or> i = 1 \<or> i = (2::nat)"
  by linarith

lemma PSCALAR_init:
  assumes "j \<le> 7" "d < 4" "v \<le> 31"
  shows "PSCALAR (init_tables t) j d v = of_nat (v * (j + 1) div 2 ^ (if d = 0 then 4 else d))"
  using assms by (simp add: init_tables_def PDV_small drop_bit_eq_div del: of_nat_mult)

lemma multiplier_bound: "multiplier pc px amv i \<le> 8"
proof -
  have "channel (5 * i) px div 4 \<le> 7" using channel_bound [of "5 * i" px] by simp
  then show ?thesis using field3_bound [of 10 pc] field3_bound [of "3 * i" amv] by (simp add: multiplier_def)
qed

lemma primary_pick:
  assumes "i < 3"
  shows "pick i (primary (init_tables t) pc px inp amv) =
    of_nat (channel (5 * i) inp * multiplier pc px amv i div 2 ^ divisor pc px i)"
proof -
  have c: "channel (5 * i) px div 4 \<le> 7" using channel_bound [of "5 * i" px] by simp
  note facts = three_bits [of 0, simplified] field_of_drop low2 high3 PSCALAR_init field2_bound field3_bound
    channel_bound channel_def [symmetric] multiplier_def divisor_def primary_def mk_colour_def pick_def Let_def
  show ?thesis using channel_index [OF assms] c by (elim disjE) (simp_all add: facts)
qed

lemma secondary_pick:
  assumes "i < 3"
  shows "pick i (secondary pc 0 px fpix) = of_nat (addend pc px fpix i)"
  using channel_index [OF assms]
  by (elim disjE) (simp_all add: secondary_def addend_def mk_colour_def pick_def field_def channel_def)

lemma divisor_bound: "0 < divisor pc px i"
  by (simp add: divisor_def Let_def)

lemma scaled_bound: "channel (5 * i) inp * multiplier pc px amv i div 2 ^ divisor pc px i \<le> 124"
proof -
  have "channel (5 * i) inp * multiplier pc px amv i \<le> 31 * 8"
    by (intro mult_le_mono channel_bound multiplier_bound)
  moreover have "(2::nat) ^ 1 \<le> 2 ^ divisor pc px i"
    using divisor_bound [of pc px i] by (intro power_increasing) simp_all
  ultimately have "channel (5 * i) inp * multiplier pc px amv i div 2 ^ divisor pc px i \<le> 31 * 8 div 2 ^ 1"
    by (meson div_le_mono div_le_mono2 order_trans zero_less_numeral zero_less_power)
  then show ?thesis by simp
qed

lemma addend_bound: "addend pc px fpix i \<le> 31"
  using field_bound [of 5 1 pc] by (simp add: addend_def channel_bound)

section \<open>The output word\<close>

lemma pick_each: "pick i (each f c) = f (pick i c)"
  by (simp add: pick_def each_def)

lemma pick_each2: "pick i (each2 f c d) = f (pick i c) (pick i d)"
  by (simp add: pick_def each2_def)

lemma pick_colour: "Bc c = pick 0 c" "Gc c = pick 1 c" "Rc c = pick 2 c"
  by (simp_all add: pick_def)

lemma bytes_ones: "i < 3 \<Longrightarrow> pick i (bytes_colour 0xFFFFFFFF) = 0xFF"
  by (drule channel_index, elim disjE) (simp_all add: pick_def bytes_colour_def byte_of_def)

lemma bytes_zero: "pick i (bytes_colour 0) = 0"
  by (simp add: pick_def bytes_colour_def byte_of_def)

lemma byte_ones: "x AND 0xFF = x" for x :: u8
proof -
  have "(0xFF::u8) = -1" by code_simp
  then show ?thesis by (simp only: and.right_neutral)
qed

lemma five_bits: "n \<le> 31 \<Longrightarrow> take_bit 5 (ucast (of_nat n :: u8)) = (of_nat n :: u32)"
proof -
  assume n: "n \<le> 31"
  then have "take_bit 5 n = n" "take_bit 8 n = n" by (intro take_bit_nat_eq_self; simp)+
  then show ?thesis by (simp add: unsigned_of_nat take_bit_of_nat)
qed

lemma blended_bound: "blended pc px fpix amv i \<le> 31"
  by (simp add: blended_def blend_def Let_def)

lemma blended_channel:
  assumes "i < 3"
  shows "clamp_i8 (add_shift 0 (pc_dv2 pc)
      (pick i (primary (init_tables t) pc px (if pc_s1 pc = 0 then px else fpix) amv))
      (pick i (secondary pc 0 px fpix))) 0 31 = of_nat (blended pc px fpix amv i)"
proof -
  have "unat (pc_dv2 pc) \<le> 1" using field_bound [of 1 0 pc] by simp
  then show ?thesis
    using channel_out [OF scaled_bound addend_bound, where h = "unat (pc_dv2 pc)"]
    by (simp only: primary_pick [OF assms] secondary_pick [OF assms] blended_def blend_def word_unat_inverse)
qed


definition half_unit :: "madam_unit \<Rightarrow> cel_tables \<Rightarrow> madam_unit" where
  "half_unit u t =
     u\<lparr>TABLES := init_tables t,
       CEL := (CEL u)\<lparr>CCBFLAGS := 0, PIXC := 0x1F811F81, PXOR1 := 0xFFFFFFFF, PXOR2 := 0,
         pproj := (pproj (CEL u))\<lparr>pmodeORmask := 0, pmodeANDmask := 0x7FFF\<rparr>\<rparr>\<rparr>"

lemma half_blend: "blended 0x1F81 0x001F 0x7C00 0 0 = 15 \<and> blended 0x1F81 0x001F 0x7C00 0 1 = 0 \<and>
  blended 0x1F81 0x001F 0x7C00 0 2 = 15"
  by code_simp


end
