(* ===== verification/Opera_Vdlp_Props.thy ===== *)
theory Opera_Vdlp_Props
  imports Opera_Vdlp Opera_Mem_Props Opera_Signed
begin

text \<open>
  What the display processor shows: the bytes a line stores on the screen, the walk of the frame
  buffer address over the rows of the left/right layout, the picture a run of lines of one entry
  draws, and the saved state.
\<close>

section \<open>Stores on the screen\<close>

lemma put_bytes_append: "put_bytes (a + length bs) cs (put_bytes a bs f) = put_bytes a (bs @ cs) f"
  by (auto simp: put_bytes_def fun_eq_iff nth_append)

lemma put_bytes_commute:
  "a + length bs \<le> b \<Longrightarrow> put_bytes b cs (put_bytes a bs f) = put_bytes a bs (put_bytes b cs f)"
  by (auto simp: put_bytes_def fun_eq_iff)

lemma put_bytes_nil [simp]: "put_bytes a [] f = f"
  by (auto simp: put_bytes_def fun_eq_iff)

lemma length_concat_const: "(\<And>x. length (f x) = n) \<Longrightarrow> length (concat (map f [0..<w])) = n * w"
  by (induction w) simp_all

lemma plain_store:
  assumes "\<And>x. length (f x) = n"
  shows "fold (\<lambda>x. put_bytes (d + n * x) (f x)) [0..<w] s = put_bytes d (concat (map f [0..<w])) s"
proof (induction w)
  case (Suc w)
  then show ?case
    using put_bytes_append [of d "concat (map f [0..<w])" "f w" s] by (simp add: length_concat_const [OF assms])
qed simp

text \<open>The two rows of a high-resolution line, stored together.\<close>

lemma hires_store:
  fixes m :: memory and v :: vdlp
  assumes e: "\<And>p. length (enc p) = n" and w: "w \<le> W"
  defines "upper \<equiv> \<lambda>w. concat (map (\<lambda>x. enc (src_pixel m v 0 x) @ enc (src_pixel m v 1 x)) [0..<w])"
    and "lower \<equiv> \<lambda>w. concat (map (\<lambda>x. enc (src_pixel m v 2 x) @ enc (src_pixel m v 3 x)) [0..<w])"
  shows "fold (hires_pixels n enc m v d (d + n * (W * 2))) [0..<w] s =
    put_bytes (d + n * (W * 2)) (lower w) (put_bytes d (upper w) s)"
  using w
proof (induction w)
  case 0
  then show ?case by (simp add: upper_def lower_def)
next
  case (Suc w)
  let ?e = "d + n * (W * 2)" and ?p = "\<lambda>k. enc (src_pixel m v k w)"
  have l: "length (upper w) = n * (2 * w)" "length (lower w) = n * (2 * w)"
    unfolding upper_def lower_def by (subst length_concat_const [where n = "2 * n"]; simp add: e)+
  have "n * (2 * w) + n * 2 \<le> n * (W * 2)"
    using Suc.prems mult_le_mono2 [of "2 * w + 2" "W * 2" n] by (simp add: distrib_left)
  then have b: "d + n * (2 * w) + length (?p 0 @ ?p 1) \<le> ?e" by (simp add: e)
  have two: "put_bytes (a + n * (2 * w + 1)) (?p j) (put_bytes (a + n * (2 * w)) (?p i) f) =
      put_bytes (a + n * (2 * w)) (?p i @ ?p j) f" for a i j f
    using put_bytes_append [of "a + n * (2 * w)" "?p i" "?p j" f] by (simp add: e algebra_simps)
  have "hires_pixels n enc m v d ?e w (put_bytes ?e (lower w) (put_bytes d (upper w) s)) =
      put_bytes (?e + n * (2 * w)) (?p 2 @ ?p 3) (put_bytes (d + n * (2 * w)) (?p 0 @ ?p 1)
        (put_bytes ?e (lower w) (put_bytes d (upper w) s)))"
    unfolding hires_pixels_def two ..
  also have "\<dots> = put_bytes (?e + n * (2 * w)) (?p 2 @ ?p 3) (put_bytes ?e (lower w)
      (put_bytes (d + n * (2 * w)) (?p 0 @ ?p 1) (put_bytes d (upper w) s)))"
    using put_bytes_commute [OF b] by simp
  also have "\<dots> = put_bytes ?e (lower w @ ?p 2 @ ?p 3) (put_bytes d (upper w @ ?p 0 @ ?p 1) s)"
    using put_bytes_append [of ?e "lower w"] put_bytes_append [of d "upper w"] by (simp add: l)
  finally show ?case using Suc by (simp add: upper_def lower_def)
qed

section \<open>What a line shows\<close>

text \<open>The bytes a renderer makes of a pixel, and the rows it draws at once.\<close>

definition pixel_bytes :: "renderer \<Rightarrow> vdlp \<Rightarrow> u16 \<Rightarrow> u8 list" where
  "pixel_bytes r v p =
     (case r of
        R_0RGB1555 \<Rightarrow> bytes16 (by_bypass vdlp_render_pixel_0RGB1555 vdlp_render_pixel_0RGB1555_bypass_clut v p)
      | R_0RGB1555_hires \<Rightarrow> bytes16 (by_bypass vdlp_render_pixel_0RGB1555 vdlp_render_pixel_0RGB1555_bypass_clut v p)
      | R_0RGB1555_bypass_clut \<Rightarrow> bytes16 (fixed_clut_to_0RGB1555 p)
      | R_0RGB1555_hires_bypass_clut \<Rightarrow> bytes16 (fixed_clut_to_0RGB1555 p)
      | R_RGB565 \<Rightarrow> bytes16 (by_bypass vdlp_render_pixel_RGB565 vdlp_render_pixel_RGB565_bypass_clut v p)
      | R_RGB565_hires \<Rightarrow> bytes16 (by_bypass vdlp_render_pixel_RGB565 vdlp_render_pixel_RGB565_bypass_clut v p)
      | R_RGB565_bypass_clut \<Rightarrow> bytes16 (fixed_clut_to_RGB565 p)
      | R_RGB565_hires_bypass_clut \<Rightarrow> bytes16 (fixed_clut_to_RGB565 p)
      | R_XRGB8888 \<Rightarrow> bytes32 (by_bypass vdlp_render_pixel_XRGB8888 vdlp_render_pixel_XRGB8888_bypass_clut v p)
      | R_XRGB8888_hires \<Rightarrow> bytes32 (by_bypass vdlp_render_pixel_XRGB8888 vdlp_render_pixel_XRGB8888_bypass_clut v p)
      | R_XRGB8888_bypass_clut \<Rightarrow> bytes32 (fixed_clut_to_XRGB8888 p)
      | R_XRGB8888_hires_bypass_clut \<Rightarrow> bytes32 (fixed_clut_to_XRGB8888 p))"

definition two_rows :: "renderer \<Rightarrow> bool" where
  "two_rows r \<longleftrightarrow> r \<in> {R_0RGB1555_hires, R_0RGB1555_hires_bypass_clut, R_RGB565_hires, R_RGB565_hires_bypass_clut,
     R_XRGB8888_hires, R_XRGB8888_hires_bypass_clut}"

definition pixel_size :: "renderer \<Rightarrow> nat" where
  "pixel_size r = length (pixel_bytes r undefined 0)"

text \<open>A row of pixels of two planes side by side, and the rows of a line for the pixels \<open>px\<close> of a
  plane and column.\<close>

definition shown :: "renderer \<Rightarrow> vdlp \<Rightarrow> (nat \<Rightarrow> nat \<Rightarrow> u16) \<Rightarrow> u8 list" where
  "shown r v px =
     (let n = unat (line_width v); pair = (\<lambda>i j. concat (map (\<lambda>x. pixel_bytes r v (px i x) @ pixel_bytes r v (px j x)) [0..<n]))
      in if two_rows r then pair 0 1 @ pair 2 3 else concat (map (\<lambda>x. pixel_bytes r v (px 0 x)) [0..<n]))"

lemma pixel_size: "length (pixel_bytes r v p) = pixel_size r"
  by (cases r) (simp_all add: pixel_size_def pixel_bytes_def bytes16_def bytes32_def)

lemma pixel_size_pos: "0 < pixel_size r"
  by (cases r) (simp_all add: pixel_size_def pixel_bytes_def bytes16_def bytes32_def)

lemma length_shown:
  "length (shown r v px) = pixel_size r * unat (line_width v) * (if two_rows r then 4 else 1)"
proof -
  have p: "length (concat (map (\<lambda>x. pixel_bytes r v (px i x) @ pixel_bytes r v (px j x)) [0..<n])) = 2 * pixel_size r * n" for i j n
    by (subst length_concat_const [where n = "2 * pixel_size r"]) (simp_all add: pixel_size)
  show ?thesis
    by (simp add: shown_def Let_def p pixel_size length_concat_const [where n = "pixel_size r"] del: length_concat)
qed

lemma plain_line_shows:
  assumes "\<And>p. enc p = pixel_bytes r (g_VDLP v) p" "\<not> two_rows r" "n = pixel_size r"
  shows "plain_line n enc m v =
    v\<lparr>SCREEN := put_bytes (g_CURBUF v) (shown r (g_VDLP v) (src_pixel m (g_VDLP v))) (SCREEN v),
      g_CURBUF := g_CURBUF v + length (shown r (g_VDLP v) (src_pixel m (g_VDLP v)))\<rparr>"
  by (simp add: plain_line_def Let_def assms plain_store [OF pixel_size] length_shown)
    (simp add: shown_def assms(2) Let_def)

lemma hires_line_shows:
  assumes "\<And>p. enc p = pixel_bytes r (g_VDLP v) p" "two_rows r" "n = pixel_size r"
  shows "hires_line n enc m v =
    v\<lparr>SCREEN := put_bytes (g_CURBUF v) (shown r (g_VDLP v) (src_pixel m (g_VDLP v))) (SCREEN v),
      g_CURBUF := g_CURBUF v + length (shown r (g_VDLP v) (src_pixel m (g_VDLP v)))\<rparr>"
proof -
  let ?n = "unat (line_width (g_VDLP v))" and ?px = "src_pixel m (g_VDLP v)"
  let ?pair = "\<lambda>i j. concat (map (\<lambda>x. pixel_bytes r (g_VDLP v) (?px i x) @ pixel_bytes r (g_VDLP v) (?px j x)) [0..<?n])"
  have enc: "enc = pixel_bytes r (g_VDLP v)" using assms(1) by blast
  have l: "length (?pair 0 1) = pixel_size r * (?n * 2)"
    by (subst length_concat_const [where n = "2 * pixel_size r"]) (simp_all add: pixel_size)
  have s: "shown r (g_VDLP v) ?px = ?pair 0 1 @ ?pair 2 3" by (simp add: shown_def assms(2) Let_def)
  have "put_bytes (g_CURBUF v + pixel_size r * (?n * 2)) (?pair 2 3) (put_bytes (g_CURBUF v) (?pair 0 1) (SCREEN v)) =
      put_bytes (g_CURBUF v) (shown r (g_VDLP v) ?px) (SCREEN v)"
    using put_bytes_append [of "g_CURBUF v" "?pair 0 1" "?pair 2 3" "SCREEN v"] unfolding l s .
  then show ?thesis
    unfolding hires_line_def Let_def enc assms(3) hires_store [OF pixel_size order_refl]
    by (simp add: length_shown assms(2) algebra_simps)
qed

text \<open>Every renderer shows its line.\<close>

lemma pixel_encoders:
  "pixel_bytes R_0RGB1555 v = bytes16 \<circ> by_bypass vdlp_render_pixel_0RGB1555 vdlp_render_pixel_0RGB1555_bypass_clut v"
  "pixel_bytes R_0RGB1555_hires v = bytes16 \<circ> by_bypass vdlp_render_pixel_0RGB1555 vdlp_render_pixel_0RGB1555_bypass_clut v"
  "pixel_bytes R_0RGB1555_bypass_clut v = bytes16 \<circ> fixed_clut_to_0RGB1555"
  "pixel_bytes R_0RGB1555_hires_bypass_clut v = bytes16 \<circ> fixed_clut_to_0RGB1555"
  "pixel_bytes R_RGB565 v = bytes16 \<circ> by_bypass vdlp_render_pixel_RGB565 vdlp_render_pixel_RGB565_bypass_clut v"
  "pixel_bytes R_RGB565_hires v = bytes16 \<circ> by_bypass vdlp_render_pixel_RGB565 vdlp_render_pixel_RGB565_bypass_clut v"
  "pixel_bytes R_RGB565_bypass_clut v = bytes16 \<circ> fixed_clut_to_RGB565"
  "pixel_bytes R_RGB565_hires_bypass_clut v = bytes16 \<circ> fixed_clut_to_RGB565"
  "pixel_bytes R_XRGB8888 v = bytes32 \<circ> by_bypass vdlp_render_pixel_XRGB8888 vdlp_render_pixel_XRGB8888_bypass_clut v"
  "pixel_bytes R_XRGB8888_hires v = bytes32 \<circ> by_bypass vdlp_render_pixel_XRGB8888 vdlp_render_pixel_XRGB8888_bypass_clut v"
  "pixel_bytes R_XRGB8888_bypass_clut v = bytes32 \<circ> fixed_clut_to_XRGB8888"
  "pixel_bytes R_XRGB8888_hires_bypass_clut v = bytes32 \<circ> fixed_clut_to_XRGB8888"
  by (simp_all add: fun_eq_iff pixel_bytes_def)

lemma pixel_sizes:
  "pixel_size r = (if r \<in> {R_XRGB8888, R_XRGB8888_bypass_clut, R_XRGB8888_hires, R_XRGB8888_hires_bypass_clut} then 4 else 2)"
  by (cases r) (simp_all add: pixel_size_def pixel_bytes_def bytes16_def bytes32_def)

lemma renderer_line:
  assumes "g_RENDERER v = Some r" "bitmap_dma_enabled u (g_VDLP v)"
  shows "run_renderer u m v =
    (if two_rows r then hires_line else plain_line) (pixel_size r) (pixel_bytes r (g_VDLP v)) m v"
proof -
  note defs = run_renderer_def assms pixel_encoders two_rows_def vdlp_render_line_0RGB1555_def
    vdlp_render_line_0RGB1555_bypass_clut_def vdlp_render_line_0RGB1555_hires_def
    vdlp_render_line_0RGB1555_hires_bypass_clut_def vdlp_render_line_RGB565_def
    vdlp_render_line_RGB565_bypass_clut_def vdlp_render_line_RGB565_hires_def
    vdlp_render_line_RGB565_hires_bypass_clut_def vdlp_render_line_XRGB8888_def
    vdlp_render_line_XRGB8888_bypass_clut_def vdlp_render_line_XRGB8888_hires_def
    vdlp_render_line_XRGB8888_hires_bypass_clut_def
  show ?thesis by (cases r) (simp_all add: defs pixel_sizes)
qed

lemma renderer_shows:
  assumes "g_RENDERER v = Some r" "bitmap_dma_enabled u (g_VDLP v)"
  shows "run_renderer u m v =
    v\<lparr>SCREEN := put_bytes (g_CURBUF v) (shown r (g_VDLP v) (src_pixel m (g_VDLP v))) (SCREEN v),
      g_CURBUF := g_CURBUF v + length (shown r (g_VDLP v) (src_pixel m (g_VDLP v)))\<rparr>"
  using hires_line_shows [OF refl _ refl, of r v m] plain_line_shows [OF refl _ refl, of r v m]
  by (simp only: renderer_line [OF assms] split: if_split) blast

section \<open>The walk over the frame buffer\<close>

text \<open>Two rows of the picture share a row of words: the even one is in their high halves, the odd one
  in the low halves. The guest's pixel \<open>x\<close> of the row at \<open>a\<close> in the plane \<open>k\<close>, and the address
  of row \<open>k\<close>.\<close>

definition fb_pixel :: "memory \<Rightarrow> u32 \<Rightarrow> nat \<Rightarrow> nat \<Rightarrow> u16" where
  "fb_pixel m a k x =
     opera_mem_read16 m (vram_at m (a AND VRAM_SIZE_MASK m) + of_nat k * VRAM_SIZE m + 4 * of_nat x)"

definition row_addr :: "u32 \<Rightarrow> u32 \<Rightarrow> nat \<Rightarrow> u32" where
  "row_addr w a k = a + of_nat (k div 2) * (4 * w) + (if odd k then 2 else 0)"

lemma and2_take: "x AND 2 = take_bit 2 x AND 2" for x :: u32
  by (rule bit_word_eqI) (auto simp: bit_simps)

lemma four_times: "take_bit 2 (4 * x) = 0" for x :: u32
  using take_bit_push_bit [of 2 2 x] by (simp add: push_bit_eq_mult mult.commute)

lemma take2_absorb: "take_bit 2 q = 0 \<Longrightarrow> take_bit 2 (q + t) = take_bit 2 t" for q t :: u32
proof -
  assume "take_bit 2 q = 0"
  then have "take_bit 2 (uint q) = 0" by (metis unsigned_0 unsigned_take_bit_eq)
  then have "take_bit 2 (uint (q + t)) = take_bit 2 (uint t)"
    using take_bit_add [of 2 "uint q" "uint t"] by (simp add: uint_word_ariths take_bit_eq_mod mod_mod_cancel)
  then show ?thesis by (metis unsigned_take_bit_eq word_uint_eqI)
qed

lemma take2_sum: "take_bit 2 a = 0 \<Longrightarrow> take_bit 2 b = 0 \<Longrightarrow> take_bit 2 (a + b) = 0" for a b :: u32
  by (simp only: take2_absorb)

lemma and2_add:
  fixes q t :: u32
  assumes "take_bit 2 q = 0" shows "(q + t) AND 2 = t AND 2"
proof -
  have "(q + t) AND 2 = take_bit 2 (q + t) AND 2" by (rule and2_take)
  also have "\<dots> = take_bit 2 t AND 2" by (simp only: take2_absorb [OF assms])
  also have "\<dots> = t AND 2" by (rule and2_take [symmetric])
  finally show ?thesis .
qed

lemma xor2_add: "take_bit 2 q = 0 \<Longrightarrow> (q + t) XOR 2 = q + (t XOR 2)" for q t :: u32
  by (simp add: xor_sum and2_add)

lemma and2_flip: "x AND 2 = 0 \<Longrightarrow> (2 + x) AND 2 \<noteq> 0" for x :: u32
proof -
  assume "x AND 2 = 0"
  then have "2 + x = x XOR 2" by (simp add: xor_sum add.commute)
  moreover have "(x XOR 2) AND 2 = (x AND 2) XOR 2" by (rule bit_word_eqI) (auto simp: bit_simps)
  ultimately show ?thesis using \<open>x AND 2 = 0\<close> by simp
qed

lemma ready_mask: "mem_ready m \<Longrightarrow> 2 AND VRAM_SIZE_MASK m = 2"
  by (auto simp: mem_ready_def opera_mem_is_valid_cfg_def opera_mem_vram_size_def)

lemma src_is_guest:
  assumes "mem_ready m" shows "src_pixel m v k x = fb_pixel m (curr_bmp v) k x"
proof -
  let ?q = "DRAM_SIZE m + of_nat k * VRAM_SIZE m + 4 * of_nat x" and ?a = "curr_bmp v AND VRAM_SIZE_MASK m"
  have q: "take_bit 2 ?q = 0"
    by (intro take2_sum four_times ready_sizes(2) [OF assms] take2_mult ready_sizes(3) [OF assms])
  have "(curr_bmp v XOR 2) AND VRAM_SIZE_MASK m = ?a XOR (2 AND VRAM_SIZE_MASK m)"
    by (rule bit_word_eqI) (auto simp: bit_simps)
  then have "line_src m v = DRAM_SIZE m + (?a XOR 2)"
    using assms by (simp add: line_src_def vram_at_def ready_mask [OF assms]) (simp add: mem_ready_def)
  then have "line_src m v + of_nat k * VRAM_SIZE m + 4 * of_nat x = ?q + (?a XOR 2)" by (simp add: ac_simps)
  also have "\<dots> = (?q + ?a) XOR 2" by (rule xor2_add [OF q, symmetric])
  also have "?q + ?a = vram_at m ?a + of_nat k * VRAM_SIZE m + 4 * of_nat x"
    using assms by (simp add: vram_at_def mem_ready_def ac_simps)
  finally show ?thesis by (simp add: src_pixel_def fb_pixel_def opera_mem_read16_def)
qed

lemma row_walk:
  assumes "a AND 2 = 0" shows "(tick_fba v ^^ k) a = row_addr (line_width v) a k"
proof (induction k)
  case (Suc k)
  let ?q = "of_nat (k div 2) * (4 * line_width v)"
  have q: "take_bit 2 ?q = 0" using four_times by (simp only: mult.left_commute)
  have e: "(a + ?q) AND 2 = 0" using and2_add [OF q, of a] assms by (simp add: add.commute)
  have "(2 + (a + ?q)) AND 2 \<noteq> 0"
    using e by (rule and2_flip)
  then show ?case using Suc e
    by (cases "even k") (auto simp: tick_fba_def row_addr_def push_bit_eq_mult algebra_simps elim!: evenE oddE)
qed (simp add: row_addr_def)

section \<open>A run of lines\<close>

lemma line_end_fields [simp]:
  "clut_r (line_end v) = clut_r v" "clut_g (line_end v) = clut_g v" "clut_b (line_end v) = clut_b v"
  "force_line (line_end v) = force_line v" "curr_vdl (line_end v) = curr_vdl v" "next_vdl (line_end v) = next_vdl v"
  "bg_color (line_end v) = bg_color v" "clut_ctrl (line_end v) = clut_ctrl v"
  "disp_ctrl (line_end v) = disp_ctrl v AND NOT 1"
  "line_cnt (line_end v) = (if 0 <s line_cnt v then line_cnt v - 1 else line_cnt v)"
  by (simp_all add: line_end_def Let_def)

lemma tick_fba_cong: "clut_ctrl v = clut_ctrl w \<Longrightarrow> tick_fba v = tick_fba w"
  by (simp add: tick_fba_def line_width_def fun_eq_iff)

lemma line_end_bmp: "curr_bmp (line_end v) = tick_fba v (curr_bmp v)"
  by (simp add: line_end_def Let_def tick_fba_def line_width_def)

lemma bypass_kept: "wbits 25 1 (w AND NOT 1) = wbits 25 1 w"
  unfolding wbits_def by (rule bit_word_eqI) (auto simp: bit_simps)

lemma shown_line_end: "shown r (line_end v) px = shown r v px"
proof -
  have "pixel_bytes r (line_end v) p = pixel_bytes r v p" for p
    by (cases r) (simp_all add: pixel_bytes_def by_bypass_def bypass_kept [simplified] vdlp_render_pixel_0RGB1555_def
        vdlp_render_pixel_0RGB1555_bypass_clut_def background_to_0RGB1555_def user_clut_to_0RGB1555_def
        vdlp_render_pixel_RGB565_def vdlp_render_pixel_RGB565_bypass_clut_def background_to_RGB565_def
        user_clut_to_RGB565_def vdlp_render_pixel_XRGB8888_def vdlp_render_pixel_XRGB8888_bypass_clut_def
        user_clut_to_XRGB8888_def)
  then have "pixel_bytes r (line_end v) = pixel_bytes r v" by (rule ext)
  then show ?thesis by (simp add: shown_def line_width_def Let_def)
qed

text \<open>The state of the entry after \<open>k\<close> lines, the last of its rows not yet drawn.\<close>

lemma line_ends:
  shows "clut_ctrl ((line_end ^^ k) v) = clut_ctrl v" "force_line ((line_end ^^ k) v) = force_line v"
    and "curr_vdl ((line_end ^^ k) v) = curr_vdl v" "next_vdl ((line_end ^^ k) v) = next_vdl v"
    and "shown r ((line_end ^^ k) v) px = shown r v px"
    and "curr_bmp ((line_end ^^ k) v) = (tick_fba v ^^ k) (curr_bmp v)"
proof (induction k)
  case (Suc k)
  case 6
  have "tick_fba ((line_end ^^ k) v) = tick_fba v" by (rule tick_fba_cong) (rule Suc(1))
  then show ?case by (simp add: line_end_bmp Suc(6))
qed (simp_all add: shown_line_end)

lemma lines_left: "int k \<le> sint (line_cnt v) \<Longrightarrow> sint (line_cnt ((line_end ^^ k) v)) = sint (line_cnt v) - int k"
proof (induction k)
  case (Suc k)
  then have "0 <s line_cnt ((line_end ^^ k) v)" by (simp add: word_sless_alt)
  then show ?case using Suc by (simp add: sint_pred)
qed simp

definition scan_lines :: "madam_unit \<Rightarrow> memory \<Rightarrow> opera_region \<Rightarrow> nat \<Rightarrow> nat \<Rightarrow> video \<Rightarrow> video" where
  "scan_lines u m g l n = fold (\<lambda>i. opera_vdlp_process_line u m g (of_nat i)) [l..<l + n]"

lemma one_line:
  assumes i: "5 < i" "i < 2147483648" "unat (force_line (g_VDLP v)) < i"
    and vis: "unat (start_scanline g) \<le> i" "i < unat (end_scanline g)"
    and cnt: "0 < sint (line_cnt (g_VDLP v))"
    and r: "g_RENDERER v = Some r" "bitmap_dma_enabled u (g_VDLP v)"
  shows "opera_vdlp_process_line u m g (of_nat i) v =
    v\<lparr>g_VDLP := line_end (g_VDLP v), SCREEN := put_bytes (g_CURBUF v) (shown r (g_VDLP v) (src_pixel m (g_VDLP v))) (SCREEN v),
      g_CURBUF := g_CURBUF v + length (shown r (g_VDLP v) (src_pixel m (g_VDLP v)))\<rparr>"
proof -
  let ?i = "of_nat i :: u32"
  have u: "unat ?i = i" using i(2) by (simp add: unat_of_nat_u32)
  have s: "sint ?i = int i"
    using i(2) sint_word_of_int32 [of "int i"] by simp
  have "?i \<noteq> 0" "?i \<noteq> 5" "?i \<noteq> force_line (g_VDLP v)" using u i by auto
  moreover have "\<not> ?i <s 5" using s i(1) by (simp add: word_sless_alt)
  moreover have "visible_scanline g ?i" using vis u by (simp add: visible_scanline_def word_le_nat_alt word_less_nat_alt)
  moreover have "\<not> line_cnt (g_VDLP v) \<le>s 0" using cnt by (simp add: word_sle_eq)
  ultimately have "opera_vdlp_process_line u m g ?i v = on_vdlp line_end (run_renderer u m v)"
    by (simp add: opera_vdlp_process_line_def Let_def line_entry_def on_vdlp_def)
  then show ?thesis by (simp add: renderer_shows [OF r] on_vdlp_def)
qed

lemma run_of_lines:
  assumes m: "mem_ready m" and r: "g_RENDERER v = Some r" "bitmap_dma_enabled u (g_VDLP v)"
    and a: "curr_bmp (g_VDLP v) AND 2 = 0"
    and l: "5 < l" "unat (force_line (g_VDLP v)) < l" "unat (start_scanline g) \<le> l"
    and e: "l + n \<le> unat (end_scanline g)" "unat (end_scanline g) < 2147483648" "int n \<le> sint (line_cnt (g_VDLP v))"
  defines "picture \<equiv> \<lambda>n. concat (map (\<lambda>k. shown r (g_VDLP v)
      (fb_pixel m (row_addr (line_width (g_VDLP v)) (curr_bmp (g_VDLP v)) k))) [0..<n])"
  shows "scan_lines u m g l n v =
    v\<lparr>g_VDLP := (line_end ^^ n) (g_VDLP v), SCREEN := put_bytes (g_CURBUF v) (picture n) (SCREEN v),
      g_CURBUF := g_CURBUF v + length (picture n)\<rparr>"
  using e(1,3)
proof (induction n)
  case 0
  then show ?case by (simp add: scan_lines_def picture_def)
next
  case (Suc n)
  let ?d = "(line_end ^^ n) (g_VDLP v)" and ?w = "scan_lines u m g l n v"
  have w: "?w = v\<lparr>g_VDLP := ?d, SCREEN := put_bytes (g_CURBUF v) (picture n) (SCREEN v),
      g_CURBUF := g_CURBUF v + length (picture n)\<rparr>"
    using Suc by simp
  have dma: "bitmap_dma_enabled u ?d" using r(2) by (simp add: bitmap_dma_enabled_def line_ends)
  have cnt: "0 < sint (line_cnt ?d)" using Suc.prems by (simp add: lines_left)
  have "src_pixel m ?d = fb_pixel m (row_addr (line_width (g_VDLP v)) (curr_bmp (g_VDLP v)) n)"
    by (simp add: fun_eq_iff src_is_guest [OF m] line_ends row_walk [OF a])
  then have row: "shown r ?d (src_pixel m ?d) = shown r (g_VDLP v) (fb_pixel m (row_addr (line_width (g_VDLP v)) (curr_bmp (g_VDLP v)) n))"
    by (simp add: line_ends)
  have p: "picture (Suc n) = picture n @ shown r ?d (src_pixel m ?d)" by (simp add: picture_def row)
  have "scan_lines u m g l (Suc n) v = opera_vdlp_process_line u m g (of_nat (l + n)) ?w"
    by (simp add: scan_lines_def)
  also have "\<dots> = ?w\<lparr>g_VDLP := line_end ?d, SCREEN := put_bytes (g_CURBUF ?w) (shown r ?d (src_pixel m ?d)) (SCREEN ?w),
      g_CURBUF := g_CURBUF ?w + length (shown r ?d (src_pixel m ?d))\<rparr>"
    using one_line [of "l + n" ?w g r u m] l Suc.prems e(2) r dma cnt by (simp add: w line_ends)
  finally show ?case by (simp add: w p put_bytes_append)
qed


definition full_entry :: "(nat \<Rightarrow> u8) \<Rightarrow> video" where
  "full_entry f =
     on_vdlp (\<lambda>d. d\<lparr>clut_ctrl := 0x002000F0, line_cnt := 240, curr_bmp := 0x00200000\<rparr>)
       (opera_vdlp_init \<lparr>g_VDLP = undefined, g_BUF = 1000, g_CURBUF = 0, g_RENDERER = None, g_FLAGS = 0,
          g_PIXEL_FORMAT = VDLP_PIXEL_FORMAT_RGB565, SCREEN = f\<rparr>)"

lemma full_entry_fields:
  "g_RENDERER (full_entry f) = Some R_RGB565" "g_CURBUF (full_entry f) = 1000" "SCREEN (full_entry f) = f"
  "curr_bmp (g_VDLP (full_entry f)) = 0x00200000" "clut_ctrl (g_VDLP (full_entry f)) = 0x002000F0"
  "line_cnt (g_VDLP (full_entry f)) = 240" "force_line (g_VDLP (full_entry f)) = 5"
  by (simp_all add: full_entry_def on_vdlp_def opera_vdlp_init_def Let_def)


section \<open>Saved state\<close>

definition vdlp_clean :: "video \<Rightarrow> bool" where
  "vdlp_clean v \<longleftrightarrow> length (clut_r (g_VDLP v)) = 32 \<and> length (clut_g (g_VDLP v)) = 32 \<and> length (clut_b (g_VDLP v)) = 32 \<and>
     force_line (g_VDLP v) \<noteq> 0"

definition vdlp_enc :: "vdlp \<Rightarrow> u8 list" where
  "vdlp_enc d = clut_r d @ clut_g d @ clut_b d @ enc32 (force_line d) @ enc32 (curr_vdl d) @ enc32 (next_vdl d) @
     enc32 (prev_bmp d) @ enc32 (curr_bmp d) @ enc32 (bg_color d) @ enc32 (clut_ctrl d) @ enc32 (disp_ctrl d) @
     enc32 (line_cnt d)"

lemma length_vdlp_enc: "vdlp_clean v \<Longrightarrow> length (vdlp_enc (g_VDLP v)) = 132"
  by (simp add: vdlp_clean_def vdlp_enc_def)

lemma emits_vdlp: "vdlp_clean v \<Longrightarrow> emits (vdlp_state_write_payload (g_VDLP v)) (vdlp_enc (g_VDLP v))"
  unfolding vdlp_state_write_payload_def vdlp_enc_def
  by (intro emits_and emits_write_bytes emits_u32 emits_i32) (simp_all add: vdlp_clean_def)

lemma consumes_vdlp:
  assumes "vdlp_clean v" shows "consumes vdlp_state_read_payload (g_VDLP v) (vdlp_enc (g_VDLP v))"
proof -
  let ?d = "g_VDLP v"
  have n: "length (clut_r ?d) = unat (32 :: u32)" "length (clut_g ?d) = unat (32 :: u32)" "length (clut_b ?d) = unat (32 :: u32)"
    using assms by (simp_all add: vdlp_clean_def)
  have "consumes vdlp_state_read_payload
      \<lparr>clut_r = clut_r ?d, clut_g = clut_g ?d, clut_b = clut_b ?d, force_line = force_line ?d, curr_vdl = curr_vdl ?d,
       next_vdl = next_vdl ?d, prev_bmp = prev_bmp ?d, curr_bmp = curr_bmp ?d, bg_color = bg_color ?d,
       clut_ctrl = clut_ctrl ?d, disp_ctrl = disp_ctrl ?d, line_cnt = line_cnt ?d\<rparr>
      (clut_r ?d @ clut_g ?d @ clut_b ?d @ enc32 (force_line ?d) @ enc32 (curr_vdl ?d) @ enc32 (next_vdl ?d) @
       enc32 (prev_bmp ?d) @ enc32 (curr_bmp ?d) @ enc32 (bg_color ?d) @ enc32 (clut_ctrl ?d) @ enc32 (disp_ctrl ?d) @
       enc32 (line_cnt ?d) @ [])"
    unfolding vdlp_state_read_payload_def
    by (rule consumes_bind consumes_return consumes_u32 consumes_i32 consumes_bytes n)+
  moreover have "\<lparr>clut_r = clut_r d, clut_g = clut_g d, clut_b = clut_b d, force_line = force_line d, curr_vdl = curr_vdl d,
      next_vdl = next_vdl d, prev_bmp = prev_bmp d, curr_bmp = curr_bmp d, bg_color = bg_color d, clut_ctrl = clut_ctrl d,
      disp_ctrl = disp_ctrl d, line_cnt = line_cnt d\<rparr> = d" for d :: vdlp
    by simp
  ultimately show ?thesis by (simp only: vdlp_enc_def append_Nil2)
qed

interpretation vdlp_chunk: state_chunk "''VDLP''" vdlp_clean "\<lambda>v. vdlp_enc (g_VDLP v)"
  "\<lambda>v. vdlp_state_write_payload (g_VDLP v)" vdlp_state_read_payload g_VDLP "\<lambda>_. True"
  "\<lambda>s v. v\<lparr>g_VDLP := migrate_vdlp_state s\<rparr>" "\<lambda>v cur. v = cur\<lparr>g_VDLP := g_VDLP v\<rparr>"
  by unfold_locales (auto simp: length_vdlp_enc emits_vdlp consumes_vdlp migrate_vdlp_state_def vdlp_clean_def)

lemma vdlp_payload:
  assumes "vdlp_clean v"
  shows "vdlp_state_payload_size (g_VDLP v) = 132" "payload_sizing (vdlp_state_write_payload (g_VDLP v)) = 132"
proof -
  show "payload_sizing (vdlp_state_write_payload (g_VDLP v)) = 132"
    using payload_sizing_emits [OF emits_vdlp [OF assms]] by (simp add: length_vdlp_enc [OF assms])
  then show "vdlp_state_payload_size (g_VDLP v) = 132"
    by (simp add: vdlp_state_payload_size_def payload_sizing_def Let_def split: if_splits)
qed

text \<open>The display processor's saved state round-trips: saved and loaded over any other display
  state, the list position, the addresses and the colour tables come back, and the host's
  settings stay. A state of the old format, whose forced line is zero, restarts from the list's
  head instead.\<close>

theorem vdlp_state_roundtrip:
  assumes "vdlp_clean v" "140 \<le> length buf"
  shows "opera_vdlp_state_size v = 140 \<and> fst (opera_vdlp_state_save v buf) = 140 \<and>
    opera_vdlp_state_load False (snd (opera_vdlp_state_save v buf)) 140 cur = (140, cur\<lparr>g_VDLP := g_VDLP v\<rparr>)"
proof -
  let ?g = "cur\<lparr>g_VDLP := g_VDLP v\<rparr>"
  have g: "vdlp_clean ?g" "g_VDLP ?g = g_VDLP v" using assms(1) by (simp_all add: vdlp_clean_def)
  show ?thesis
    using vdlp_chunk.roundtrip [OF g(1), of buf cur] vdlp_chunk.saved_size [OF g(1), of buf] assms(2)
    by (simp add: g(2) opera_vdlp_state_size_def opera_vdlp_state_save_def opera_vdlp_state_load_def
        vdlp_payload [OF assms(1)] length_vdlp_enc [OF assms(1)] opera_state_chunk_size_def opera_state_save_size_def
        opera_state_chunk_header_size_def)
qed

end
