(* ===== verification/Opera_3do.thy ===== *)
theory Opera_3do
  imports Opera_Clio_Io Opera_Madam_State Opera_Dsp_State Opera_Arm_Exec
begin

text \<open>
  The console, \<open>src/libopera/opera_3do.c\<close>: power-on, the two resets, and the frame that interleaves the
  processor, the cel engine, the signal processor, the timers, the display and the expansion bus on
  one clock; with the front end's sound buffer from \<open>src/opera_lr_dsp_regular.ic\<close> and its callback from
  \<open>src/libretro.c\<close>. A frame that does not return is \<open>None\<close>: the processor may meet an instruction or the
  signal processor a program that never ends, and a circular cel list never does.
\<close>

section \<open>State\<close>

text \<open>\<open>SYS\<close> is the machine on the processor's bus, \<open>g_DSP_JUNK\<close> what the uninitialised operands of the
  signal processor hold, and the others are the globals of their files.\<close>

record 'd console =
  SYS :: "'d machine"
  REGION :: opera_region
  RAND16 :: u32
  field :: u32
  g_FRAME_CYCLE_REMAINDER :: u32
  g_DSP_BUF_IDX :: u32
  g_DSP_BUF :: "nat \<Rightarrow> u32"
  g_DSP_JUNK :: "nat \<Rightarrow> u16"

definition on_sys :: "('d machine \<Rightarrow> 'd machine) \<Rightarrow> 'd console \<Rightarrow> 'd console" where
  "on_sys f c = c\<lparr>SYS := f (SYS c)\<rparr>"

abbreviation board_of :: "'d console \<Rightarrow> 'd board" where "board_of c \<equiv> DEV (SYS c)"

definition on_video :: "(video \<Rightarrow> video) \<Rightarrow> 'd machine \<Rightarrow> 'd machine" where
  "on_video f = on_dev (\<lambda>b. b\<lparr>VIDEO := f (VIDEO b)\<rparr>)"

definition on_sport :: "(sport \<Rightarrow> sport) \<Rightarrow> 'd machine \<Rightarrow> 'd machine" where
  "on_sport f s = s\<lparr>SPORT := f (SPORT s)\<rparr>"

abbreviation (input) OPERA_3DO_POWER_ON_RESET :: u32 where "OPERA_3DO_POWER_ON_RESET \<equiv> 0x01"
abbreviation (input) OPERA_3DO_CLOCK_STEP :: u32 where "OPERA_3DO_CLOCK_STEP \<equiv> 32"

section \<open>Power-on and resets\<close>

definition opera_3do_reset_runtime_state :: "'d console \<Rightarrow> 'd console" where
  "opera_3do_reset_runtime_state c =
     (let c = c\<lparr>field := 0, g_FRAME_CYCLE_REMAINDER := 0\<rparr>;
          c = on_sys (on_clock opera_clock_reset) c;
          c = on_sys (on_dev (\<lambda>b. b\<lparr>PADS := opera_pbus_reset (PADS b)\<rparr>)) c;
          c = on_sys (on_sport opera_sport_init) c
      in on_sys (on_bus (opera_xbus_set_legacy_no_device_abort 0)) c)"

text \<open>\<open>ok\<close> says which allocations of the memory succeed, \<open>plugin\<close> is the drive.\<close>

definition opera_3do_init :: "bool \<times> bool \<times> bool \<times> bool \<Rightarrow> 'd device \<Rightarrow> 'd console \<Rightarrow> int \<times> 'd console" where
  "opera_3do_init ok plugin c =
     (let (rv, m) = (if opera_mem_cfg (MEM (SYS c)) = DRAM_VRAM_UNSET then opera_mem_init ok DRAM_VRAM_STOCK (MEM (SYS c))
                     else (0, opera_mem_rom_select PTR_ROM1 (MEM (SYS c))));
          c = on_sys (\<lambda>s. s\<lparr>MEM := m\<rparr>) c
      in if rv \<noteq> 0 then (-1, c)
         else
           (let c = opera_3do_reset_runtime_state c;
                c = on_sys (\<lambda>s. s\<lparr>ARM := opera_arm_init (MEM s) (ARM s)\<rparr>) c;
                c = on_sys (on_video opera_vdlp_init) c;
                c = on_sys (\<lambda>s. on_gfx (opera_madam_init (MEM s)) s) c;
                c = on_sys (on_bus (opera_xbus_init plugin)) c;
                c = on_sys (opera_clio_init OPERA_3DO_POWER_ON_RESET) c;
                c = on_sys (on_audio opera_dsp_init) c;
                c = on_sys (\<lambda>s. s\<lparr>DIAG := opera_diag_port_init (- 1) (DIAG s)\<rparr>) c
            in (0, c)))"

definition opera_3do_destroy :: "'d console \<Rightarrow> 'd console" where
  "opera_3do_destroy c =
     (let c = on_sys (\<lambda>s. s\<lparr>ARM := opera_arm_destroy (ARM s)\<rparr>) c in on_sys (on_bus opera_xbus_destroy) c)"

definition opera_3do_soft_reset :: "'d machine \<Rightarrow> 'd machine" where
  "opera_3do_soft_reset s =
     (let s = s\<lparr>ARM := opera_arm_soft_reset (MEM s) (ARM s)\<rparr>; s = on_gfx opera_madam_soft_reset s
      in on_audio opera_dsp_soft_reset s)"

definition opera_3do_dipir_reset :: "'d machine \<Rightarrow> 'd machine" where
  "opera_3do_dipir_reset s =
     (let s = s\<lparr>ARM := opera_arm_soft_reset (MEM s) (ARM s)\<rparr>;
          s = on_gfx opera_madam_soft_reset s;
          s = on_bus opera_xbus_dipir_reset s;
          s = on_cl (opera_clio_soft_reset True) s
      in on_audio opera_dsp_soft_reset s)"

section \<open>Sound\<close>

definition opera_lr_dsp_process :: "'d console \<Rightarrow> 'd console option" where
  "opera_lr_dsp_process c =
     (let s = SYS c;
          e = \<lparr>DSP = AUDIO (DEV s), QUEUES = clio_of s, MEMORY = MEM s, NOISE = RAND16 c, UNINIT = g_DSP_JUNK c\<rparr>
      in case opera_dsp_loop e of
           None \<Rightarrow> None
         | Some (sample, e) \<Rightarrow>
             (let s = on_cl (\<lambda>_. QUEUES e) (on_audio (\<lambda>_. DSP e) s)
              in Some (c\<lparr>SYS := s, RAND16 := NOISE e,
                         g_DSP_BUF := (g_DSP_BUF c)(unat (g_DSP_BUF_IDX c) := sample),
                         g_DSP_BUF_IDX := (g_DSP_BUF_IDX c + 1) AND 0x3FF\<rparr>)))"

text \<open>The samples the front end takes at the end of a frame.\<close>

definition opera_lr_dsp_upload :: "'d console \<Rightarrow> u32 list \<times> 'd console" where
  "opera_lr_dsp_upload c = (map (g_DSP_BUF c) [0..<unat (g_DSP_BUF_IDX c)], c\<lparr>g_DSP_BUF_IDX := 0\<rparr>)"

abbreviation (input) EXT_DSP_TRIGGER :: nat where "EXT_DSP_TRIGGER \<equiv> 2"

definition libopera_callback :: "nat \<Rightarrow> 'd console \<Rightarrow> 'd console option" where
  "libopera_callback cmd c = (if cmd = EXT_DSP_TRIGGER then opera_lr_dsp_process c else Some c)"

section \<open>Frame\<close>

text \<open>\<open>while(opera_clock_timer_queued(&timer))\<close>.\<close>

partial_function (option) run_timers :: "'d machine \<Rightarrow> 'd machine option" where
  "run_timers s =
     (case opera_clock_timer_queued (clock_of s) of
        (None, k) \<Rightarrow> Some (on_clock (\<lambda>_. k) s)
      | (Some timer, k) \<Rightarrow> run_timers (on_cl (opera_clio_timer_execute timer) (on_clock (\<lambda>_. k) s)))"

text \<open>What happens when a scan line is due.\<close>

definition scan_line :: "u32 \<Rightarrow> u32 \<Rightarrow> opera_region \<Rightarrow> 'd machine \<Rightarrow> 'd machine" where
  "scan_line line fld r s =
     (let s = on_cl (opera_clio_vcnt_update line fld) s;
          s = on_video (opera_vdlp_process_line (gfx s) (MEM s) r line) s;
          s = (if line = opera_clio_line_vint0 (clio_of s) then on_cl (opera_clio_fiq_generate 1 0) s else s)
      in if line = opera_clio_line_vint1 (clio_of s) then on_cl (opera_clio_fiq_generate 2 0) s else s)"

definition opera_3do_internal_frame :: "u32 \<Rightarrow> u32 \<Rightarrow> u32 \<Rightarrow> 'd console \<Rightarrow> (u32 \<times> 'd console) option" where
  "opera_3do_internal_frame cycles line fld c =
     (let c = on_sys (on_clock (opera_clock_push_cycles cycles)) c;
          (q, k) = opera_clock_dsp_queued (clock_of (SYS c));
          c = on_sys (on_clock (\<lambda>_. k)) c
      in case (if q then libopera_callback EXT_DSP_TRIGGER c else Some c) of
           None \<Rightarrow> None
         | Some c \<Rightarrow>
             (case run_timers (SYS c) of
                None \<Rightarrow> None
              | Some s \<Rightarrow>
                  (let (q, k) = opera_clock_vdl_queued (clock_of s);
                       s = on_clock (\<lambda>_. k) s;
                       (line, s) = (if q then (line + 1, scan_line line fld (REGION c) s) else (line, s))
                   in Some (line, c\<lparr>SYS := opera_xbus_tick s\<rparr>))))"

text \<open>The loop that gives the machine the cycles in steps, and the loop over the frame. The second
  component of a result is the cycle count.\<close>

partial_function (option) frame_steps :: "u32 \<Rightarrow> u32 \<times> u32 \<times> 'd console \<Rightarrow> (u32 \<times> u32 \<times> 'd console) option" where
  "frame_steps n_lines x =
     (case x of (line, cnt, c) \<Rightarrow>
        if OPERA_3DO_CLOCK_STEP \<le>s cnt \<and> line < n_lines then
          (case opera_3do_internal_frame OPERA_3DO_CLOCK_STEP line (field c) c of
             None \<Rightarrow> None
           | Some (line, c) \<Rightarrow> frame_steps n_lines (line, cnt - OPERA_3DO_CLOCK_STEP, c))
        else Some (line, cnt, c))"

text \<open>\<open>D\<close> is the devices on the bus, \<open>restart\<close> whether the drive asked for a restart. The result says
  whether the frame was left for it.\<close>

definition cel_tick :: "'d console \<Rightarrow> 'd console option" where
  "cel_tick c =
     map_option (\<lambda>(u, m). on_sys (\<lambda>s. on_gfx (\<lambda>_. u) (s\<lparr>MEM := m\<rparr>)) c)
       (opera_madam_cel_tick (clock_of (SYS c)) (gfx (SYS c), MEM (SYS c)))"

definition frame_turn ::
  "'d board devices \<Rightarrow> ('d \<Rightarrow> bool) \<Rightarrow> u32 \<Rightarrow> u32 \<times> u32 \<times> 'd console \<Rightarrow> (bool \<times> u32 \<times> u32 \<times> 'd console) option" where
  "frame_turn D restart n_lines = (\<lambda>(line, cnt, c).
     case cel_tick c of
       None \<Rightarrow> None
     | Some c \<Rightarrow>
         (case opera_arm_execute D (SYS c) of
            None \<Rightarrow> None
          | Some (n, s) \<Rightarrow>
              (let cnt = cnt + of_int n; c = c\<lparr>SYS := s\<rparr>
               in if restart (DRIVES (BUS (board_of c))) then Some (True, line, cnt, c)
                  else map_option (Pair False) (frame_steps n_lines (line, cnt, c)))))"

partial_function (option) frame_loop ::
  "'d board devices \<Rightarrow> ('d \<Rightarrow> bool) \<Rightarrow> u32 \<Rightarrow> u32 \<times> u32 \<times> 'd console \<Rightarrow> (bool \<times> u32 \<times> u32 \<times> 'd console) option" where
  "frame_loop D restart n_lines x =
     (if fst x < n_lines then
        (case frame_turn D restart n_lines x of
           None \<Rightarrow> None
         | Some (left, x) \<Rightarrow> if left then Some (True, x) else frame_loop D restart n_lines x)
      else Some (False, x))"

definition opera_3do_process_frame :: "'d board devices \<Rightarrow> ('d \<Rightarrow> bool) \<Rightarrow> 'd console \<Rightarrow> 'd console option" where
  "opera_3do_process_frame D restart c =
     (let c = on_sys (on_cl (\<lambda>k. if flagtime k \<noteq> 0 then k\<lparr>flagtime := flagtime k - 1\<rparr> else k)) c;
          lines = scanlines (REGION c)
      in case frame_steps lines (0, g_FRAME_CYCLE_REMAINDER c, c) of
           None \<Rightarrow> None
         | Some x \<Rightarrow>
             (case frame_loop D restart lines x of
                None \<Rightarrow> None
              | Some (left, line, cnt, c) \<Rightarrow>
                  (let c = c\<lparr>g_FRAME_CYCLE_REMAINDER := cnt\<rparr>
                   in Some (if left then c else c\<lparr>field := (if field c = 0 then 1 else 0)\<rparr>))))"

end
