(* ===== verification/Opera_3do_State.thy ===== *)
theory Opera_3do_State
  imports Opera_3do Opera_Xbus_State Opera_Clio_State
begin

text \<open>
  The saved state of the console, \<open>src/libopera/opera_3do.c\<close>: the twelve chunks of a state, the loaders of
  the four formats, the dry run, and the front end's use of them in \<open>src/libretro.c\<close>. A buffer is the list of
  its bytes, so its size argument is its length; a loader that fails leaves what its earlier steps have
  restored. \<open>validating\<close> is the flag \<open>opera_state_set_validating\<close> sets.
\<close>

abbreviation (input) OPERA_STATE_VERSION_V1 :: u32 where "OPERA_STATE_VERSION_V1 \<equiv> 0x01"
abbreviation (input) OPERA_STATE_VERSION_V2 :: u32 where "OPERA_STATE_VERSION_V2 \<equiv> 0x02"
abbreviation (input) OPERA_STATE_VERSION_V3 :: u32 where "OPERA_STATE_VERSION_V3 \<equiv> 0x03"
abbreviation (input) OPERA_STATE_VERSION_V4 :: u32 where "OPERA_STATE_VERSION_V4 \<equiv> 0x04"
abbreviation (input) OPERA_STATE_VERSION_CURRENT :: u32 where "OPERA_STATE_VERSION_CURRENT \<equiv> 0x04"

section \<open>The two chunks of its own\<close>

definition opera_3do_state_header_size_v3 :: u32 where
  "opera_3do_state_header_size_v3 = opera_state_chunk_size (4 * 2)"

definition opera_3do_runtime_state_write_payload :: "'d console \<Rightarrow> state_writer \<Rightarrow> bool \<times> state_writer" where
  "opera_3do_runtime_state_write_payload c =
     w_and (opera_state_write_i32 (field c)) (opera_state_write_i32 (g_FRAME_CYCLE_REMAINDER c))"

definition opera_3do_runtime_state_payload_size :: "'d console \<Rightarrow> u32" where
  "opera_3do_runtime_state_payload_size c = payload_sizing (opera_3do_runtime_state_write_payload c)"

definition opera_3do_runtime_state_size :: "'d console \<Rightarrow> u32" where
  "opera_3do_runtime_state_size c =
     (let payload_size = opera_3do_runtime_state_payload_size c
      in if payload_size = 0 then 0 else opera_state_chunk_size payload_size)"

definition opera_3do_runtime_state_save :: "'d console \<Rightarrow> u8 list \<Rightarrow> u32 \<times> u8 list" where
  "opera_3do_runtime_state_save c data =
     (let payload_size = opera_3do_runtime_state_payload_size c
      in if payload_size = 0 then (0, data)
         else save_chunk ''3DRT'' payload_size (opera_3do_runtime_state_write_payload c) data)"

definition runtime_read :: "state_reader \<Rightarrow> (u32 \<times> u32) option \<times> state_reader" where
  "runtime_read =
     r_bind opera_state_read_i32 (\<lambda>f. r_bind opera_state_read_i32 (\<lambda>r. r_return (f, r)))"

definition opera_3do_runtime_state_load :: "bool \<Rightarrow> u8 list \<Rightarrow> u32 \<Rightarrow> 'd console \<Rightarrow> u32 \<times> 'd console" where
  "opera_3do_runtime_state_load validating data sz c =
     load_chunk ''3DRT'' runtime_read (\<lambda>(f, r). f = 0 \<or> f = 1)
       (\<lambda>(f, r) c. c\<lparr>field := f, g_FRAME_CYCLE_REMAINDER := r\<rparr>) validating data sz c"

definition opera_3do_prng_state_write_payload :: "'d console \<Rightarrow> state_writer \<Rightarrow> bool \<times> state_writer" where
  "opera_3do_prng_state_write_payload c =
     w_and (opera_state_write_u32 (prng16_state_get (RAND16 c)))
           (opera_state_write_u32 (prng32_state_get (RAND32 (board_of c))))"

definition opera_3do_prng_state_size :: u32 where
  "opera_3do_prng_state_size = opera_state_chunk_size (4 * 2)"

definition opera_3do_prng_state_save :: "'d console \<Rightarrow> u8 list \<Rightarrow> u32 \<times> u8 list" where
  "opera_3do_prng_state_save c data = save_chunk ''PRNG'' (4 * 2) (opera_3do_prng_state_write_payload c) data"

definition prng_read :: "state_reader \<Rightarrow> (u32 \<times> u32) option \<times> state_reader" where
  "prng_read = r_bind opera_state_read_u32 (\<lambda>a. r_bind opera_state_read_u32 (\<lambda>b. r_return (a, b)))"

definition prng_install :: "u32 \<times> u32 \<Rightarrow> 'd console \<Rightarrow> 'd console" where
  "prng_install = (\<lambda>(a, b) c.
     on_sys (on_dev (\<lambda>d. d\<lparr>RAND32 := prng32_state_set b (RAND32 d)\<rparr>)) (c\<lparr>RAND16 := prng16_state_set a (RAND16 c)\<rparr>))"

definition opera_3do_prng_state_load :: "bool \<Rightarrow> u8 list \<Rightarrow> u32 \<Rightarrow> 'd console \<Rightarrow> u32 \<times> 'd console" where
  "opera_3do_prng_state_load validating data sz c =
     load_chunk ''PRNG'' prng_read (\<lambda>_. True) prng_install validating data sz c"

section \<open>Writer\<close>

text \<open>\<open>OPERA_3DO_ADD_STATE_SIZE\<close> over the parts: a part of size zero makes the whole size zero.\<close>

fun add_sizes :: "u32 \<Rightarrow> u32 list \<Rightarrow> u32" where
  "add_sizes acc [] = acc"
| "add_sizes acc (part # ps) = (if part = 0 then 0 else add_sizes (acc + part) ps)"

definition opera_3do_state_size_v3 :: "'d console \<Rightarrow> u32" where
  "opera_3do_state_size_v3 c =
     (let s = SYS c; b = DEV s in
      add_sizes 0
        [opera_3do_state_header_size_v3, opera_3do_runtime_state_size c, opera_3do_prng_state_size,
         opera_arm_state_size (ARM s), opera_clio_state_size (clio_of s), opera_dsp_state_size (AUDIO b),
         opera_madam_state_size (GFX b), opera_mem_state_size (MEM s), opera_sport_state_size,
         opera_vdlp_state_size (VIDEO b), opera_clock_state_size (clock_of s), opera_xbus_state_size (BUS b)])"

definition opera_3do_state_size :: "'d console \<Rightarrow> u32" where
  "opera_3do_state_size c = opera_3do_state_size_v3 c"

text \<open>The header chunk, and \<open>data += save(data)\<close>.\<close>

definition write_header :: "state_writer \<Rightarrow> bool \<times> state_writer" where
  "write_header = w_then (opera_state_write_u32 OPERA_STATE_VERSION_CURRENT) (opera_state_write_u32 0)"

definition save_step :: "(u8 list \<Rightarrow> u32 \<times> u8 list) \<Rightarrow> nat \<times> u8 list \<Rightarrow> nat \<times> u8 list" where
  "save_step f = (\<lambda>(p, data). let (n, t) = f (drop p data) in (p + unat n, take p data @ t))"

definition opera_3do_state_save_v3 :: "'d console \<Rightarrow> u8 list \<Rightarrow> u32 \<times> u8 list" where
  "opera_3do_state_save_v3 c data =
     (let s = SYS c; b = DEV s; expected_size = opera_3do_state_size_v3 c in
      if expected_size = 0 \<or> length data < unat expected_size then (0, data)
      else
        (let (n, data) = save_chunk ''3DO'' (4 * 2) write_header data in
         if n = 0 then (0, data)
         else
           (let (p, data) = fold save_step
                  [opera_3do_runtime_state_save c, opera_3do_prng_state_save c, opera_arm_state_save (ARM s),
                   opera_clio_state_save (clio_of s), opera_dsp_state_save (AUDIO b), opera_madam_state_save (GFX b),
                   opera_mem_state_save (MEM s), opera_sport_state_save (SPORT s), opera_vdlp_state_save (VIDEO b),
                   opera_clock_state_save (clock_of s), opera_xbus_state_save (BUS b)] (unat n, data)
            in (of_nat p, data))))"

definition opera_3do_state_save :: "'d console \<Rightarrow> u8 list \<Rightarrow> u32 \<times> u8 list" where
  "opera_3do_state_save c data = opera_3do_state_save_v3 c data"

section \<open>Loader\<close>

text \<open>A step of a loader over the bytes still to be read, and a chain of steps.\<close>

type_synonym 'd load_step = "u8 list \<times> 'd console \<Rightarrow> bool \<times> u8 list \<times> 'd console"

definition opera_3do_state_load_step ::
  "(u8 list \<Rightarrow> u32 \<Rightarrow> 'd console \<Rightarrow> u32 \<times> 'd console) \<Rightarrow> u32 \<Rightarrow> 'd load_step" where
  "opera_3do_state_load_step load expected_size = (\<lambda>(data, c).
     let remaining = of_nat (length data) in
     if expected_size \<noteq> 0 \<and> remaining < expected_size then (False, data, c)
     else
       (let (rv, c) = load data remaining c
        in if rv = 0 \<or> rv > remaining then (False, data, c) else (True, drop (unat rv) data, c)))"

definition do_step :: "('d console \<Rightarrow> 'd console) \<Rightarrow> 'd load_step" where
  "do_step f = (\<lambda>(data, c). (True, data, f c))"

fun load_steps :: "'d load_step list \<Rightarrow> 'd load_step" where
  "load_steps [] x = (True, x)"
| "load_steps (f # fs) x = (case f x of (ok, y) \<Rightarrow> if ok then load_steps fs y else (False, y))"

text \<open>The components' loaders on the console.\<close>

definition load_arm :: "(memory \<Rightarrow> u8 list \<Rightarrow> u32 \<Rightarrow> arm \<Rightarrow> u32 \<times> arm) \<Rightarrow> u8 list \<Rightarrow> u32 \<Rightarrow> 'd console \<Rightarrow> u32 \<times> 'd console" where
  "load_arm ld data sz c = (let s = SYS c; (rv, a) = ld (MEM s) data sz (ARM s) in (rv, c\<lparr>SYS := s\<lparr>ARM := a\<rparr>\<rparr>))"

definition load_clio :: "(u8 list \<Rightarrow> u32 \<Rightarrow> clio \<times> memory \<Rightarrow> u32 \<times> clio \<times> memory) \<Rightarrow> u8 list \<Rightarrow> u32 \<Rightarrow> 'd console \<Rightarrow> u32 \<times> 'd console" where
  "load_clio ld data sz c =
     (let s = SYS c; (rv, k, m) = ld data sz (clio_of s, MEM s)
      in (rv, c\<lparr>SYS := on_cl (\<lambda>_. k) (s\<lparr>MEM := m\<rparr>)\<rparr>))"

definition load_dsp :: "(u8 list \<Rightarrow> u32 \<Rightarrow> dsp \<Rightarrow> u32 \<times> dsp) \<Rightarrow> u8 list \<Rightarrow> u32 \<Rightarrow> 'd console \<Rightarrow> u32 \<times> 'd console" where
  "load_dsp ld data sz c = (let s = SYS c; (rv, d) = ld data sz (AUDIO (DEV s)) in (rv, c\<lparr>SYS := on_audio (\<lambda>_. d) s\<rparr>))"

definition load_madam :: "(u8 list \<Rightarrow> u32 \<Rightarrow> madam_unit \<Rightarrow> u32 \<times> madam_unit) \<Rightarrow> u8 list \<Rightarrow> u32 \<Rightarrow> 'd console \<Rightarrow> u32 \<times> 'd console" where
  "load_madam ld data sz c = (let s = SYS c; (rv, u) = ld data sz (gfx s) in (rv, c\<lparr>SYS := on_gfx (\<lambda>_. u) s\<rparr>))"

definition load_mem :: "(u8 list \<Rightarrow> u32 \<Rightarrow> memory \<Rightarrow> u32 \<times> memory) \<Rightarrow> u8 list \<Rightarrow> u32 \<Rightarrow> 'd console \<Rightarrow> u32 \<times> 'd console" where
  "load_mem ld data sz c = (let s = SYS c; (rv, m) = ld data sz (MEM s) in (rv, c\<lparr>SYS := s\<lparr>MEM := m\<rparr>\<rparr>))"

definition load_sport :: "(u8 list \<Rightarrow> u32 \<Rightarrow> sport \<Rightarrow> u32 \<times> sport) \<Rightarrow> u8 list \<Rightarrow> u32 \<Rightarrow> 'd console \<Rightarrow> u32 \<times> 'd console" where
  "load_sport ld data sz c = (let s = SYS c; (rv, p) = ld data sz (SPORT s) in (rv, c\<lparr>SYS := s\<lparr>SPORT := p\<rparr>\<rparr>))"

definition load_vdlp :: "(u8 list \<Rightarrow> u32 \<Rightarrow> video \<Rightarrow> u32 \<times> video) \<Rightarrow> u8 list \<Rightarrow> u32 \<Rightarrow> 'd console \<Rightarrow> u32 \<times> 'd console" where
  "load_vdlp ld data sz c = (let s = SYS c; (rv, v) = ld data sz (VIDEO (DEV s)) in (rv, c\<lparr>SYS := on_video (\<lambda>_. v) s\<rparr>))"

definition load_clock :: "(u8 list \<Rightarrow> u32 \<Rightarrow> opera_clock \<Rightarrow> u32 \<times> opera_clock) \<Rightarrow> u8 list \<Rightarrow> u32 \<Rightarrow> 'd console \<Rightarrow> u32 \<times> 'd console" where
  "load_clock ld data sz c = (let s = SYS c; (rv, k) = ld data sz (clock_of s) in (rv, c\<lparr>SYS := on_clock (\<lambda>_. k) s\<rparr>))"

definition load_xbus :: "(u8 list \<Rightarrow> u32 \<Rightarrow> 'd xbus \<Rightarrow> u32 \<times> 'd xbus) \<Rightarrow> u8 list \<Rightarrow> u32 \<Rightarrow> 'd console \<Rightarrow> u32 \<times> 'd console" where
  "load_xbus ld data sz c = (let s = SYS c; (rv, x) = ld data sz (BUS (DEV s)) in (rv, c\<lparr>SYS := on_bus (\<lambda>_. x) s\<rparr>))"

definition sync_memory_map :: "'d console \<Rightarrow> 'd console" where
  "sync_memory_map = on_sys (\<lambda>s. s\<lparr>ARM := opera_arm_sync_memory_map (MEM s) (ARM s)\<rparr>)"

text \<open>The first format. The processor's structure has two bytes of padding, which no field shows.\<close>

definition opera_3do_state_load_v1 :: "u8 list \<Rightarrow> 'd console \<Rightarrow> u32 \<times> 'd console" where
  "opera_3do_state_load_v1 data c =
     (let sz = of_nat (length data);
          (rv, hdr) = opera_state_load_sized (replicate 1024 0) ''3DO'' (Some data) sz 1024
      in if length data > unat UINT32_MAX \<or> rv = 0 \<or> ucast (hdr ! 0) \<noteq> OPERA_STATE_VERSION_V1 then (0, c)
         else
           (let (ok, rest, c) = load_steps
                  [opera_3do_state_load_step (load_arm (\<lambda>m. opera_arm_state_load_v1 m [0, 0])) opera_arm_state_size_v1,
                   opera_3do_state_load_step (load_clio opera_clio_state_load_v1) opera_clio_state_size_v1,
                   opera_3do_state_load_step (load_dsp opera_dsp_state_load_v1) opera_dsp_state_size_v1,
                   opera_3do_state_load_step (load_madam opera_madam_state_load_v1) opera_madam_state_size_v1,
                   opera_3do_state_load_step (load_mem opera_mem_state_load_v1) opera_mem_state_size_v1,
                   do_step sync_memory_map,
                   opera_3do_state_load_step (load_sport opera_sport_state_load_v1) opera_sport_state_size_v1,
                   opera_3do_state_load_step (load_vdlp opera_vdlp_state_load_v1) opera_vdlp_state_size_v1,
                   opera_3do_state_load_step (load_xbus opera_xbus_state_load_v1) 0,
                   do_step (on_sys (on_bus (opera_xbus_set_legacy_no_device_abort 1)))]
                  (drop (unat rv) data, opera_3do_reset_runtime_state c)
            in (if \<not> ok \<or> rest \<noteq> [] then 0 else sz, c)))"

definition opera_3do_state_load_chunked :: "bool \<Rightarrow> u8 list \<Rightarrow> u32 \<Rightarrow> bool \<Rightarrow> 'd console \<Rightarrow> u32 \<times> 'd console" where
  "opera_3do_state_load_chunked validating data expected_version load_prng c =
     (let sz = of_nat (length data); v = validating;
          (rv, hdr) = load_chunk ''3DO''
            (r_bind opera_state_read_u32 (\<lambda>version. r_bind opera_state_read_u32 (\<lambda>flags. r_return (version, flags))))
            (\<lambda>(version, flags). version = expected_version \<and> flags = 0) (\<lambda>h _. h) False data sz (0, 0)
      in if length data > unat UINT32_MAX \<or> rv = 0 then (0, c)
         else
           (let (ok, rest, c) = load_steps
                  ([opera_3do_state_load_step (opera_3do_runtime_state_load v) 0] @
                   (if load_prng then [opera_3do_state_load_step (opera_3do_prng_state_load v) 0] else []) @
                   [opera_3do_state_load_step (load_arm (\<lambda>m. opera_arm_state_load m v)) 0,
                    opera_3do_state_load_step (load_clio (opera_clio_state_load v)) 0,
                    opera_3do_state_load_step (load_dsp (opera_dsp_state_load v)) 0,
                    opera_3do_state_load_step (load_madam (opera_madam_state_load v)) 0,
                    opera_3do_state_load_step (load_mem (opera_mem_state_load v)) 0] @
                   (if v then [] else [do_step sync_memory_map]) @
                   [opera_3do_state_load_step (load_sport (opera_sport_state_load v)) 0,
                    opera_3do_state_load_step (load_vdlp (opera_vdlp_state_load v)) 0,
                    opera_3do_state_load_step (load_clock (opera_clock_state_load v)) 0,
                    opera_3do_state_load_step (load_xbus (opera_xbus_state_load v)) 0])
                  (drop (unat rv) data, c)
            in if \<not> ok \<or> rest \<noteq> [] then (0, c)
               else if v then (sz, c)
               else
                 (let c = on_sys (on_dev (\<lambda>b. b\<lparr>PADS := opera_pbus_reset (PADS b)\<rparr>)) c
                  in (sz, on_sys (on_bus (opera_xbus_set_legacy_no_device_abort 0)) c))))"

definition opera_3do_state_load_v2 :: "u8 list \<Rightarrow> 'd console \<Rightarrow> u32 \<times> 'd console" where
  "opera_3do_state_load_v2 data c = opera_3do_state_load_chunked False data OPERA_STATE_VERSION_V2 False c"

definition opera_3do_state_load_v3 :: "u8 list \<Rightarrow> 'd console \<Rightarrow> u32 \<times> 'd console" where
  "opera_3do_state_load_v3 data c = opera_3do_state_load_chunked False data OPERA_STATE_VERSION_V3 True c"

definition opera_3do_state_load_v4 :: "u8 list \<Rightarrow> 'd console \<Rightarrow> u32 \<times> 'd console" where
  "opera_3do_state_load_v4 data c = opera_3do_state_load_chunked False data OPERA_STATE_VERSION_V4 True c"

definition opera_3do_state_validate :: "u8 list \<Rightarrow> 'd console \<Rightarrow> bool \<times> 'd console" where
  "opera_3do_state_validate data c =
     (let version = opera_state_get_version (Some data) (of_nat (length data)) in
      if version \<noteq> OPERA_STATE_VERSION_V3 \<and> version \<noteq> OPERA_STATE_VERSION_V4 then (False, c)
      else
        (let (rv, c) = opera_3do_state_load_chunked True data version True c
         in (rv \<noteq> 0 \<and> unat rv = length data, c)))"

definition opera_3do_state_load :: "u8 list \<Rightarrow> 'd console \<Rightarrow> u32 \<times> 'd console" where
  "opera_3do_state_load data c =
     (let version = opera_state_get_version (Some data) (of_nat (length data)) in
      if version = OPERA_STATE_VERSION_V1 then opera_3do_state_load_v1 data c
      else if version = OPERA_STATE_VERSION_V2 then opera_3do_state_load_v2 data c
      else if version = OPERA_STATE_VERSION_V3 then opera_3do_state_load_v3 data c
      else if version = OPERA_STATE_VERSION_V4 then opera_3do_state_load_v4 data c
      else (0, c))"

section \<open>The front end\<close>

definition retro_serialize_size :: "'d console \<Rightarrow> u32" where
  "retro_serialize_size c = opera_3do_state_size c"

definition retro_serialize :: "'d console \<Rightarrow> u8 list \<Rightarrow> bool \<times> u8 list" where
  "retro_serialize c data =
     (if length data = 0 then (False, data)
      else (let (sz, data) = opera_3do_state_save c data in (unat sz = length data, data)))"

text \<open>\<open>alloc\<close> is the fresh buffer \<open>malloc\<close> gives, or \<open>None\<close>. The flag of \<open>retro_serialize\<close> is kept in
  \<open>size\<close>, so without a backup the result compares 0 with the size.\<close>

definition retro_unserialize :: "(nat \<Rightarrow> u8 list option) \<Rightarrow> u8 list \<Rightarrow> 'd console \<Rightarrow> bool \<times> 'd console" where
  "retro_unserialize alloc data c =
     (let (ok, c) = opera_3do_state_validate data c in
      if ok then (let (sz, c) = opera_3do_state_load data c in (unat sz = length data, c))
      else
        (case alloc (unat (retro_serialize_size c)) of
           None \<Rightarrow> (False, c)
         | Some backup_state \<Rightarrow>
             (let (saved, backup_state) = retro_serialize c backup_state in
              if saved then
                (let (sz, c) = opera_3do_state_load data c in
                 if unat sz \<noteq> length data
                 then (let c = snd (opera_3do_state_load backup_state c) in (0 = length data, c))
                 else (unat sz = length data, c))
              else (0 = length data, c))))"

end
