(* ===== verification/Opera_3do_Props.thy ===== *)
theory Opera_3do_Props
  imports Opera_3do_State Opera_Mem_State
begin

text \<open>
  The dry run of a saved state. The front end asks whether a state would load before it gives the running
  console away; the loaders are then called with the flag that tells them to check and install
  nothing. The locale \<open>dry_loader\<close> is what one loader promises about the two ways it is called,
  and \<open>dry_chain\<close> carries it over the steps of a loader of a whole console, of which the real one has a
  step more. The devices on the expansion bus are any that keep the promise themselves.
\<close>

section \<open>Devices\<close>

definition dry_device :: "'d device \<Rightarrow> bool" where
  "dry_device dev \<longleftrightarrow>
     (\<forall>K K' d sz t t'. snd (dev_set_savedata dev K True d sz t) = t \<and>
        (fst (dev_set_savedata dev K True d sz t) \<noteq> 0 \<longrightarrow>
         fst (dev_set_savedata dev K' False d sz t') = fst (dev_set_savedata dev K True d sz t)))"

definition dry_slots :: "(nat \<Rightarrow> 'd device option) \<Rightarrow> bool" where
  "dry_slots X \<longleftrightarrow> (\<forall>i < 15. \<forall>dev. X i = Some dev \<longrightarrow> dry_device dev)"

lemma dry_deviceD:
  assumes "dry_device dev"
  shows "snd (dev_set_savedata dev K True d sz t) = t"
    and "fst (dev_set_savedata dev K True d sz t) \<noteq> 0 \<Longrightarrow>
      fst (dev_set_savedata dev K' False d sz t') = fst (dev_set_savedata dev K True d sz t)"
  using assms by (auto simp: dry_device_def)

section \<open>Loaders\<close>

abbreviation slots_of :: "'d console \<Rightarrow> nat \<Rightarrow> 'd device option" where "slots_of c \<equiv> xdev (BUS (board_of c))"

text \<open>Checking changes nothing; loading keeps the devices in their slots; and when checking accepts the
  data, loading takes the same number of bytes from any console with the same devices.\<close>

locale dry_loader =
  fixes X :: "nat \<Rightarrow> 'd device option"
    and ld :: "bool \<Rightarrow> u8 list \<Rightarrow> u32 \<Rightarrow> 'd console \<Rightarrow> u32 \<times> 'd console"
  assumes quiet: "slots_of c = X \<Longrightarrow> snd (ld True d sz c) = c"
    and keeps: "slots_of c = X \<Longrightarrow> slots_of (snd (ld False d sz c)) = X"
    and agrees: "slots_of c = X \<Longrightarrow> slots_of c' = X \<Longrightarrow> unat sz \<le> length d \<Longrightarrow> fst (ld True d sz c) \<noteq> 0 \<Longrightarrow>
      fst (ld False d sz c') = fst (ld True d sz c)"

text \<open>The steps \<open>fs\<close> of a checking run against the steps \<open>gs\<close> of a loading run.\<close>

definition dry_chain :: "(nat \<Rightarrow> 'd device option) \<Rightarrow> 'd load_step list \<Rightarrow> 'd load_step list \<Rightarrow> bool" where
  "dry_chain X fs gs \<longleftrightarrow>
     (\<forall>data c c'. slots_of c = X \<longrightarrow> slots_of c' = X \<longrightarrow> length data < 4294967296 \<longrightarrow>
        (case load_steps fs (data, c) of (ok, left, e) \<Rightarrow>
           e = c \<and> (ok \<longrightarrow> length left \<le> length data \<and>
             (\<exists>e'. load_steps gs (data, c') = (True, left, e') \<and> slots_of e' = X))))"

lemma load_steps_append:
  "load_steps (fs @ gs) x = (case load_steps fs x of (ok, y) \<Rightarrow> if ok then load_steps gs y else (False, y))"
  by (induction fs arbitrary: x) (auto split: prod.splits)

lemma dry_chainD:
  assumes "dry_chain X fs gs" "slots_of c = X" "slots_of c' = X" "length data < 4294967296"
    "load_steps fs (data, c) = (ok, left, e)"
  shows "e = c" and "ok \<Longrightarrow> length left \<le> length data \<and> (\<exists>e'. load_steps gs (data, c') = (True, left, e') \<and> slots_of e' = X)"
  using assms unfolding dry_chain_def by fastforce+

lemma dry_chain_append:
  fixes X :: "nat \<Rightarrow> 'd device option"
  assumes a: "dry_chain X fs gs" and b: "dry_chain X fs' gs'"
  shows "dry_chain X (fs @ fs') (gs @ gs')"
  unfolding dry_chain_def
proof (intro allI impI)
  fix data :: "u8 list" and c c' :: "'d console"
  assume c: "slots_of c = X" "slots_of c' = X" "length data < 4294967296"
  obtain ok left e where f: "load_steps fs (data, c) = (ok, left, e)" by (metis prod_cases3)
  note e = dry_chainD [OF a c f]
  show "case load_steps (fs @ fs') (data, c) of (ok, left, e) \<Rightarrow> e = c \<and> (ok \<longrightarrow> length left \<le> length data \<and>
      (\<exists>e'. load_steps (gs @ gs') (data, c') = (True, left, e') \<and> slots_of e' = X))"
  proof (cases ok)
    case True
    then obtain e' where g: "load_steps gs (data, c') = (True, left, e')" "slots_of e' = X" "length left \<le> length data"
      using e(2) by blast
    obtain ok2 left2 e2 where f2: "load_steps fs' (left, c) = (ok2, left2, e2)" by (metis prod_cases3)
    have "length left < 4294967296" using g(3) c(3) by simp
    note e2 = dry_chainD [OF b c(1) g(2) this f2]
    then show ?thesis using f g f2 e(1) True by (auto simp: load_steps_append)
  next
    case False
    then show ?thesis using f e(1) by (simp add: load_steps_append)
  qed
qed

lemma dry_chain_Nil: "dry_chain X [] []"
  by (simp add: dry_chain_def)

text \<open>A step of the loading run that the checking run does not make.\<close>

lemma dry_chain_do: "(\<And>c. slots_of (f c) = slots_of c) \<Longrightarrow> dry_chain X [] [do_step f]"
  by (simp add: dry_chain_def do_step_def)

context dry_loader
begin

lemma step: "dry_chain X [opera_3do_state_load_step (ld True) 0] [opera_3do_state_load_step (ld False) 0]"
  unfolding dry_chain_def
proof (intro allI impI)
  fix data :: "u8 list" and c c' :: "'d console"
  assume c: "slots_of c = X" "slots_of c' = X" "length data < 4294967296"
  let ?n = "of_nat (length data) :: u32"
  have n: "unat ?n \<le> length data" using c(3) by (simp add: unat_of_nat)
  obtain rv e where t: "ld True data ?n c = (rv, e)" by fastforce
  obtain rv' e' where f: "ld False data ?n c' = (rv', e')" by fastforce
  have "e = c" using quiet [OF c(1), of data ?n] t by simp
  moreover have "slots_of e' = X" using keeps [OF c(2), of data ?n] f by simp
  moreover have "rv' = rv" if "rv \<noteq> 0" using agrees [OF c(1,2) n] t f that by simp
  ultimately show "case load_steps [opera_3do_state_load_step (ld True) 0] (data, c) of (ok, left, e) \<Rightarrow>
      e = c \<and> (ok \<longrightarrow> length left \<le> length data \<and>
      (\<exists>e'. load_steps [opera_3do_state_load_step (ld False) 0] (data, c') = (True, left, e') \<and> slots_of e' = X))"
    by (auto simp: opera_3do_state_load_step_def t f Let_def)
qed

end

section \<open>The twelve loaders\<close>

lemma load_chunk_fst:
  "fst (load_chunk name get valid install v d sz cur) = fst (load_chunk name get valid install' v' d sz cur')"
  by (simp add: load_chunk_def Let_def split: prod.splits option.splits)

lemma load_chunk_True: "snd (load_chunk name get valid install True d sz cur) = cur"
  by (simp add: load_chunk_validating)

text \<open>A loader that works on a part of the console.\<close>

lemma part_dry:
  assumes L: "\<And>v d sz c. L v d sz c = (fst (ld c v d sz (part c)), put (snd (ld c v d sz (part c))) c)"
    and q: "\<And>c d sz x. snd (ld c True d sz x) = x"
    and e: "\<And>c c' d sz x x'. unat sz \<le> length d \<Longrightarrow> fst (ld c True d sz x) \<noteq> 0 \<Longrightarrow>
      fst (ld c' False d sz x') = fst (ld c True d sz x)"
    and p: "\<And>c. put (part c) c = c" and k: "\<And>x c. slots_of (put x c) = slots_of c"
  shows "dry_loader X L"
  by unfold_locales (simp_all add: L q e p k)

lemmas on_part = on_sys_def on_dev_def on_bus_def on_clock_def on_cl_def on_clio_def on_audio_def on_gfx_def on_video_def

lemma load_chunk_keeps:
  "(\<And>s c. f (install s c) = f c) \<Longrightarrow> f (snd (load_chunk name get valid install v d sz cur)) = f cur"
  by (simp add: load_chunk_def Let_def split: prod.splits option.splits)

lemma runtime_dry: "dry_loader X opera_3do_runtime_state_load"
  unfolding opera_3do_runtime_state_load_def
  by unfold_locales (simp_all add: load_chunk_True load_chunk_fst load_chunk_keeps [where f = slots_of] split: prod.split)

lemma prng_dry: "dry_loader X opera_3do_prng_state_load"
  unfolding opera_3do_prng_state_load_def
  by unfold_locales (simp_all add: load_chunk_True load_chunk_fst load_chunk_keeps [where f = slots_of] prng_install_def
      on_sys_def on_dev_def split: prod.split)

lemma arm_dry: "dry_loader X (\<lambda>v. load_arm (\<lambda>m. opera_arm_state_load m v))"
  by (rule part_dry [where ld = "\<lambda>c. opera_arm_state_load (MEM (SYS c))" and part = "\<lambda>c. ARM (SYS c)" and
        put = "\<lambda>x c. c\<lparr>SYS := (SYS c)\<lparr>ARM := x\<rparr>\<rparr>"])
    (simp_all add: load_arm_def case_prod_unfold Let_def opera_arm_state_load_def load_chunk_True load_chunk_fst)

lemma clio_dry: "dry_loader X (\<lambda>v. load_clio (opera_clio_state_load v))"
  by (rule part_dry [where ld = "\<lambda>_. opera_clio_state_load" and part = "\<lambda>c. (clio_of (SYS c), MEM (SYS c))" and
        put = "\<lambda>(k, m) c. c\<lparr>SYS := on_cl (\<lambda>_. k) ((SYS c)\<lparr>MEM := m\<rparr>)\<rparr>"])
    (simp_all add: load_clio_def case_prod_unfold Let_def opera_clio_state_load_def load_chunk_True load_chunk_fst on_part)

lemma dsp_dry: "dry_loader X (\<lambda>v. load_dsp (opera_dsp_state_load v))"
  by (rule part_dry [where ld = "\<lambda>_. opera_dsp_state_load" and part = "\<lambda>c. AUDIO (board_of c)" and
        put = "\<lambda>x c. c\<lparr>SYS := on_audio (\<lambda>_. x) (SYS c)\<rparr>"])
    (simp_all add: load_dsp_def case_prod_unfold Let_def opera_dsp_state_load_def opera_dsp_state_load_chunk_def
      load_chunk_True load_chunk_fst on_part)

lemma madam_dry: "dry_loader X (\<lambda>v. load_madam (opera_madam_state_load v))"
  by (rule part_dry [where ld = "\<lambda>_. opera_madam_state_load" and part = "\<lambda>c. gfx (SYS c)" and
        put = "\<lambda>x c. c\<lparr>SYS := on_gfx (\<lambda>_. x) (SYS c)\<rparr>"])
    (simp_all add: load_madam_def case_prod_unfold Let_def opera_madam_state_load_def load_chunk_True load_chunk_fst on_part)

lemma sport_dry: "dry_loader X (\<lambda>v. load_sport (opera_sport_state_load v))"
  by (rule part_dry [where ld = "\<lambda>_. opera_sport_state_load" and part = "\<lambda>c. SPORT (SYS c)" and
        put = "\<lambda>x c. c\<lparr>SYS := (SYS c)\<lparr>SPORT := x\<rparr>\<rparr>"])
    (simp_all add: load_sport_def case_prod_unfold Let_def opera_sport_state_load_def load_chunk_True load_chunk_fst)

lemma vdlp_dry: "dry_loader X (\<lambda>v. load_vdlp (opera_vdlp_state_load v))"
  by (rule part_dry [where ld = "\<lambda>_. opera_vdlp_state_load" and part = "\<lambda>c. VIDEO (board_of c)" and
        put = "\<lambda>x c. c\<lparr>SYS := on_video (\<lambda>_. x) (SYS c)\<rparr>"])
    (simp_all add: load_vdlp_def case_prod_unfold Let_def opera_vdlp_state_load_def load_chunk_True load_chunk_fst on_part)

lemma clock_dry: "dry_loader X (\<lambda>v. load_clock (opera_clock_state_load v))"
  by (rule part_dry [where ld = "\<lambda>_. opera_clock_state_load" and part = "\<lambda>c. clock_of (SYS c)" and
        put = "\<lambda>x c. c\<lparr>SYS := on_clock (\<lambda>_. x) (SYS c)\<rparr>"])
    (simp_all add: load_clock_def case_prod_unfold Let_def opera_clock_state_load_def load_chunk_True load_chunk_fst on_part)

text \<open>The memory reads its planes straight into place, so its check is a different code path.\<close>

lemma mem2_quiet: "snd (opera_mem_state_load_mem2 True d sz m) = m"
  and mem_quiet: "snd (opera_mem_state_load_mem True d sz m) = m"
  by (simp_all add: opera_mem_state_load_mem2_def opera_mem_state_load_mem_def Let_def split: prod.splits option.splits)

lemma mem2_check: "fst (opera_mem_state_load_mem2 True d sz m) = fst (opera_mem_state_load_mem2 True d sz m')"
  and mem_check: "fst (opera_mem_state_load_mem True d sz m) = fst (opera_mem_state_load_mem True d sz m')"
  by (simp_all add: opera_mem_state_load_mem2_def opera_mem_state_load_mem_def Let_def split: prod.splits option.splits)

lemma mem_agrees:
  assumes "unat sz \<le> length d" "fst (opera_mem_state_load True d sz m) \<noteq> 0"
  shows "fst (opera_mem_state_load False d sz m') = fst (opera_mem_state_load True d sz m)"
  using load_mem2_cases [OF assms(1), of m'] load_mem_cases [OF assms(1), of m'] mem2_check [of d sz m m']
    mem_check [of d sz m m'] by (auto simp: opera_mem_state_load_def)

lemma mem_dry: "dry_loader X (\<lambda>v. load_mem (opera_mem_state_load v))"
  by (rule part_dry [where ld = "\<lambda>_. opera_mem_state_load" and part = "\<lambda>c. MEM (SYS c)" and
        put = "\<lambda>x c. c\<lparr>SYS := (SYS c)\<lparr>MEM := x\<rparr>\<rparr>"])
    (simp_all add: load_mem_def case_prod_unfold Let_def mem_agrees, simp add: opera_mem_state_load_def mem2_quiet mem_quiet)

text \<open>The expansion bus asks its devices.\<close>

lemma dev_do_xdev [simp]: "xdev (snd (dev_do dev p v s)) = xdev s"
  by (simp add: dev_do_def case_prod_unfold Let_def)

lemma read_devices_dry:
  assumes X: "dry_slots X" "xdev s = X"
  shows "xdev s' = X \<Longrightarrow> xbus_read_devices True n r s = (ok, r1, s1) \<Longrightarrow>
    s1 = s \<and> (ok \<longrightarrow> (\<exists>s2. xbus_read_devices False n r s' = (True, r1, s2) \<and> xdev s2 = X))"
proof (induction n arbitrary: r s')
  case 0
  then show ?case by simp
next
  case (Suc n)
  obtain slot r' where r: "opera_state_read_u8 r = (slot, r')" by fastforce
  show ?case
  proof (cases "\<exists>k dev. slot = Some k \<and> \<not> k \<ge> 15 \<and> X (unat k) = Some dev")
    case False
    then show ?thesis using Suc.prems(2) X(2) by (auto simp: r split: option.splits if_splits)
  next
    case True
    then obtain k dev where k: "slot = Some k" "\<not> k \<ge> 15" "X (unat k) = Some dev" by blast
    then have dry: "dry_device dev" using X(1) by (simp add: dry_slots_def word_le_nat_alt not_le)
    let ?n = "opera_state_reader_remaining r'" and ?t = "snd (dev_do dev XBP_RESET 0 s')"
    let ?b = "bytes_at r' (unat ?n)"
    obtain rv d where v: "dev_set_savedata dev (CLOCK s) True ?b ?n (DRIVES s) = (rv, d)" by fastforce
    obtain rv' d' where f: "dev_set_savedata dev (CLOCK ?t) False ?b ?n (DRIVES ?t) = (rv', d')" by fastforce
    have d: "d = DRIVES s" using dry_deviceD(1) [OF dry, of "CLOCK s" ?b ?n "DRIVES s"] v by simp
    have rv: "rv \<noteq> 0 \<Longrightarrow> rv' = rv"
      using dry_deviceD(2) [OF dry, of "CLOCK s" ?b ?n "DRIVES s" "CLOCK ?t" "DRIVES ?t"] v f by simp
    show ?thesis
    proof (cases "rv = 0 \<or> rv > ?n")
      case True
      then show ?thesis using Suc.prems(2) X(2) k v d by (auto simp: r Let_def)
    next
      case False
      have "xdev (?t\<lparr>DRIVES := d'\<rparr>) = X" using Suc.prems(1) by simp
      from Suc.IH [OF this, of "r'\<lparr>r_offset := r_offset r' + rv\<rparr>"] show ?thesis
        using Suc.prems X(2) k v d f rv False by (simp add: r Let_def)
    qed
  qed
qed

lemma xbus_load_dry:
  assumes X: "dry_slots X" "xdev s = X" "xdev s' = X"
  shows "snd (opera_xbus_state_load True d sz s) = s"
    and "fst (opera_xbus_state_load True d sz s) \<noteq> 0 \<Longrightarrow>
      fst (opera_xbus_state_load False d sz s') = fst (opera_xbus_state_load True d sz s)"
proof -
  obtain pl rd where c: "opera_state_read_chunk ''XBUS'' (opera_state_reader_init d sz) = (pl, rd)" by fastforce
  have both: "snd (opera_xbus_state_load True d sz s) = s \<and> (fst (opera_xbus_state_load True d sz s) \<noteq> 0 \<longrightarrow>
      fst (opera_xbus_state_load False d sz s') = fst (opera_xbus_state_load True d sz s))"
  proof (cases "\<exists>p x n p'. pl = Some p \<and> xbus_state_read p = (Some (x, n), p') \<and> \<not> n > 15")
    case False
    then show ?thesis by (auto simp: opera_xbus_state_load_def c split: option.splits prod.splits)
  next
    case True
    then obtain p x n p' where p: "pl = Some p" "xbus_state_read p = (Some (x, n), p')" "\<not> n > 15" by blast
    obtain ok r1 s1 where t: "xbus_read_devices True (unat n) p' s = (ok, r1, s1)" by (metis prod_cases3)
    have "xdev (s'\<lparr>XBUS := x\<rparr>) = X" using X(3) by simp
    from read_devices_dry [OF X(1,2) this t] show ?thesis
      using p t by (auto simp: opera_xbus_state_load_def c Let_def)
  qed
  then show "snd (opera_xbus_state_load True d sz s) = s"
    and "fst (opera_xbus_state_load True d sz s) \<noteq> 0 \<Longrightarrow>
      fst (opera_xbus_state_load False d sz s') = fst (opera_xbus_state_load True d sz s)" by simp_all
qed

lemma read_devices_xdev: "xdev (snd (snd (xbus_read_devices v n r s))) = xdev s"
  by (induction n arbitrary: r s) (auto simp: Let_def split: option.splits prod.splits)

lemma xbus_load_xdev: "xdev (snd (opera_xbus_state_load v d sz s)) = xdev s"
  using read_devices_xdev [of v _ _ "s\<lparr>XBUS := _\<rparr>"] read_devices_xdev [of v _ _ s]
  by (auto simp: opera_xbus_state_load_def Let_def split: option.splits prod.splits if_splits) (metis snd_conv)+

lemma xbus_dry: "dry_slots X \<Longrightarrow> dry_loader X (\<lambda>v. load_xbus (opera_xbus_state_load v))"
  by unfold_locales (simp_all add: load_xbus_def case_prod_unfold Let_def on_part xbus_load_dry xbus_load_xdev)

text \<open>The promise, for every loader of the console; that of the expansion bus rests on its devices.\<close>

interpretation runtime_loader: dry_loader X opera_3do_runtime_state_load for X by (rule runtime_dry)
interpretation prng_loader: dry_loader X opera_3do_prng_state_load for X by (rule prng_dry)
interpretation arm_loader: dry_loader X "\<lambda>v. load_arm (\<lambda>m. opera_arm_state_load m v)" for X by (rule arm_dry)
interpretation clio_loader: dry_loader X "\<lambda>v. load_clio (opera_clio_state_load v)" for X by (rule clio_dry)
interpretation dsp_loader: dry_loader X "\<lambda>v. load_dsp (opera_dsp_state_load v)" for X by (rule dsp_dry)
interpretation madam_loader: dry_loader X "\<lambda>v. load_madam (opera_madam_state_load v)" for X by (rule madam_dry)
interpretation mem_loader: dry_loader X "\<lambda>v. load_mem (opera_mem_state_load v)" for X by (rule mem_dry)
interpretation sport_loader: dry_loader X "\<lambda>v. load_sport (opera_sport_state_load v)" for X by (rule sport_dry)
interpretation vdlp_loader: dry_loader X "\<lambda>v. load_vdlp (opera_vdlp_state_load v)" for X by (rule vdlp_dry)
interpretation clock_loader: dry_loader X "\<lambda>v. load_clock (opera_clock_state_load v)" for X by (rule clock_dry)

section \<open>The whole state\<close>

lemma sync_slots: "slots_of (sync_memory_map c) = slots_of c"
  by (simp add: sync_memory_map_def on_sys_def)

abbreviation (input) "chunk_step ld v \<equiv> opera_3do_state_load_step (ld v) 0"

abbreviation (input) whole_steps :: "bool \<Rightarrow> 'd load_step list \<Rightarrow> 'd load_step list" where
  "whole_steps v sync \<equiv>
     [chunk_step opera_3do_runtime_state_load v] @ [chunk_step opera_3do_prng_state_load v] @
     [chunk_step (\<lambda>v. load_arm (\<lambda>m. opera_arm_state_load m v)) v,
      chunk_step (\<lambda>v. load_clio (opera_clio_state_load v)) v,
      chunk_step (\<lambda>v. load_dsp (opera_dsp_state_load v)) v,
      chunk_step (\<lambda>v. load_madam (opera_madam_state_load v)) v,
      chunk_step (\<lambda>v. load_mem (opera_mem_state_load v)) v] @ sync @
     [chunk_step (\<lambda>v. load_sport (opera_sport_state_load v)) v,
      chunk_step (\<lambda>v. load_vdlp (opera_vdlp_state_load v)) v,
      chunk_step (\<lambda>v. load_clock (opera_clock_state_load v)) v,
      chunk_step (\<lambda>v. load_xbus (opera_xbus_state_load v)) v]"

lemma whole_chain:
  assumes "dry_slots X"
  shows "dry_chain X (whole_steps True []) (whole_steps False [do_step sync_memory_map])"
proof -
  have c2: "dry_chain X (f # f' # fs) (g # g' # gs)" if "dry_chain X [f] [g]" "dry_chain X (f' # fs) (g' # gs)" for f f' g g' fs gs
    using dry_chain_append [OF that] by simp
  show ?thesis
    by (intro dry_chain_append c2 dry_chain_Nil dry_chain_do sync_slots runtime_loader.step prng_loader.step arm_loader.step
        clio_loader.step dsp_loader.step madam_loader.step mem_loader.step sport_loader.step vdlp_loader.step
        clock_loader.step dry_loader.step [OF xbus_dry] assms)
qed

lemma chunked_dry:
  assumes X: "dry_slots X" "slots_of c = X" "slots_of c' = X"
    and v: "opera_3do_state_load_chunked True data version True c = (rv, e)"
  shows "e = c" and "rv \<noteq> 0 \<Longrightarrow> length data < 4294967296 \<and> rv = of_nat (length data) \<and>
      fst (opera_3do_state_load_chunked False data version True c') = rv"
proof -
  obtain n h where c: "load_chunk ''3DO''
      (r_bind opera_state_read_u32 (\<lambda>version. r_bind opera_state_read_u32 (\<lambda>flags. r_return (version, flags))))
      (\<lambda>(v, flags). v = version \<and> flags = 0) (\<lambda>h _. h) False data (of_nat (length data)) (0, 0) = (n, h)"
    by (meson surj_pair)
  have both: "e = c \<and> (rv \<noteq> 0 \<longrightarrow> length data < 4294967296 \<and> rv = of_nat (length data) \<and>
      fst (opera_3do_state_load_chunked False data version True c') = rv)"
  proof (cases "length data > unat UINT32_MAX \<or> n = 0")
    case True
    then show ?thesis using v by (auto simp: opera_3do_state_load_chunked_def c Let_def)
  next
    case False
    then have l: "length (drop (unat n) data) < 4294967296" "length data < 4294967296" by (simp_all, linarith)
    note w = whole_chain [OF X(1)]
    obtain ok left d where t: "load_steps (whole_steps True []) (drop (unat n) data, c) = (ok, left, d)"
      by (metis prod_cases3)
    note e = dry_chainD [OF w X(2,3) l(1) t]
    have v': "(if \<not> ok \<or> left \<noteq> [] then (0, d) else (of_nat (length data), d)) = (rv, e)"
      using v False t unfolding opera_3do_state_load_chunked_def c Let_def prod.case if_True if_False
      by (simp add: if_distrib cong: if_cong)
    show ?thesis
    proof (cases "ok \<and> left = []")
      case True
      with e(2) obtain e' where
        g: "load_steps (whole_steps False [do_step sync_memory_map]) (drop (unat n) data, c') = (True, [], e')"
        by blast
      have "fst (opera_3do_state_load_chunked False data version True c') = of_nat (length data)"
        using False g unfolding opera_3do_state_load_chunked_def c Let_def prod.case if_True if_False by simp
      then show ?thesis using v' True e(1) l(2) by auto
    next
      case False
      then show ?thesis using v' e(1) by auto
    qed
  qed
  then show "e = c" and "rv \<noteq> 0 \<Longrightarrow> length data < 4294967296 \<and> rv = of_nat (length data) \<and>
      fst (opera_3do_state_load_chunked False data version True c') = rv" by blast+
qed

lemma validated_loads:
  assumes X: "dry_slots (slots_of c)" and v: "opera_3do_state_validate data c = (ok, e)"
  shows "e = c" and "ok \<Longrightarrow> unat (fst (opera_3do_state_load data c)) = length data"
proof -
  let ?v = "opera_state_get_version (Some data) (of_nat (length data))"
  obtain rv d where t: "opera_3do_state_load_chunked True data ?v True c = (rv, d)" by fastforce
  note k = chunked_dry [OF X refl refl t]
  show "e = c" using v t k(1) by (auto simp: opera_3do_state_validate_def Let_def split: if_splits)
  assume ok
  then have "?v = 3 \<or> ?v = 4" "rv \<noteq> 0" "unat rv = length data"
    using v t by (auto simp: opera_3do_state_validate_def Let_def split: if_splits)
  then show "unat (fst (opera_3do_state_load data c)) = length data"
    using k(2) by (auto simp: opera_3do_state_load_def opera_3do_state_load_v3_def opera_3do_state_load_v4_def)
qed

end
