(* ===== verification/Opera_Cdrom.thy ===== *)
theory Opera_Cdrom
  imports Opera_Clock
begin

text \<open>
  The CD-ROM drive, \<open>src/libopera/opera_cdrom.c\<close>: its registers, mode pages, disc layout and table of
  contents, the timing of the sectors and the read-ahead. The structure \<open>cdrom_device_s\<close> is the record
  \<open>cdrom_device\<close>, the saved structure \<open>cdrom_device_state_v2_s\<close> extended by the callbacks; \<open>drive\<close> holds it
  with the file's globals, the host behind the callbacks (a disc image and a file system, of any type)
  and the functions of the vendored library that the file calls. Paths are byte lists without
  the terminating zero. \<open>K\<close> is the clock. The ODE commands are in \<open>Opera_Cdrom_Ode\<close>, the
  commands and FIFOs in \<open>Opera_Cdrom_Cmd\<close>, the saved state in \<open>Opera_Cdrom_State\<close>.
\<close>

unbundle bit_operations_syntax

section \<open>State\<close>

abbreviation (input) REQSIZE :: nat where "REQSIZE \<equiv> 2048"
abbreviation (input) CDROM_MAX_SECTOR_SIZE :: u32 where "CDROM_MAX_SECTOR_SIZE \<equiv> 2449"
abbreviation (input) CDROM_DA :: u32 where "CDROM_DA \<equiv> 2352"
abbreviation (input) STATDELAY :: u8 where "STATDELAY \<equiv> 100"
abbreviation (input) MSF_BIAS_IN_FRAMES :: u32 where "MSF_BIAS_IN_FRAMES \<equiv> 150"
abbreviation (input) FRAMES_PER_SECOND :: u32 where "FRAMES_PER_SECOND \<equiv> 75"
abbreviation (input) SECONDS_PER_MINUTE :: u32 where "SECONDS_PER_MINUTE \<equiv> 60"
abbreviation (input) PATH_MAX_LENGTH :: nat where "PATH_MAX_LENGTH \<equiv> 2048"
abbreviation (input) ODE_PLAYLIST_MAX :: u32 where "ODE_PLAYLIST_MAX \<equiv> 16"

abbreviation (input) POLSTMASK :: u8 where "POLSTMASK \<equiv> 0x01"
abbreviation (input) POLDTMASK :: u8 where "POLDTMASK \<equiv> 0x02"
abbreviation (input) POLMAMASK :: u8 where "POLMAMASK \<equiv> 0x04"
abbreviation (input) POLREMASK :: u8 where "POLREMASK \<equiv> 0x08"
abbreviation (input) POLST :: u8 where "POLST \<equiv> 0x10"
abbreviation (input) POLDT :: u8 where "POLDT \<equiv> 0x20"
abbreviation (input) POLMA :: u8 where "POLMA \<equiv> 0x40"
abbreviation (input) POLRE :: u8 where "POLRE \<equiv> 0x80"
abbreviation (input) CDROM_POLL_INTEN_MASK :: u8 where "CDROM_POLL_INTEN_MASK \<equiv> 0x07"

abbreviation (input) CDROM_STATUS_DOOR :: u8 where "CDROM_STATUS_DOOR \<equiv> 0x80"
abbreviation (input) CDROM_STATUS_DISC_IN :: u8 where "CDROM_STATUS_DISC_IN \<equiv> 0x40"
abbreviation (input) CDROM_STATUS_SPIN_UP :: u8 where "CDROM_STATUS_SPIN_UP \<equiv> 0x20"
abbreviation (input) CDROM_STATUS_ERROR :: u8 where "CDROM_STATUS_ERROR \<equiv> 0x10"
abbreviation (input) CDROM_STATUS_DOUBLE_SPEED :: u8 where "CDROM_STATUS_DOUBLE_SPEED \<equiv> 0x02"
abbreviation (input) CDROM_STATUS_READY :: u8 where "CDROM_STATUS_READY \<equiv> 0x01"
abbreviation (input) MEI_CDROM_DOUBLE_SPEED :: u8 where "MEI_CDROM_DOUBLE_SPEED \<equiv> 0x80"

type_synonym cstr = "u8 list"

record msf =
  minutes :: u8
  seconds :: u8
  frames :: u8

record toc_entry =
  res0 :: u8
  CDCTL :: u8
  track_number :: u8
  res1 :: u8
  toc_minutes :: u8
  toc_seconds :: u8
  toc_frames :: u8
  res2 :: u8

record disc_data =
  msf_total :: msf
  msf_current :: msf
  msf_session :: msf
  session_valid :: u8
  track_first :: u8
  track_last :: u8
  disc_id :: u8
  disc_toc :: "toc_entry list"

text \<open>\<open>cdrom_mode_parameters_s\<close>, its five pages one after the other.\<close>

record cdrom_mode =
  density_code :: u8
  length_msb :: u8
  length_lsb :: u8
  block_flags :: u8
  user_block_size :: u32
  recovery_type :: u8
  retry_count :: u8
  stop_time :: u8
  drive_speed :: u8
  vpitch_msb :: u8
  vpitch_lsb :: u8
  chunk_size :: u8

record cdrom_device_state =
  cd_poll :: u8
  cd_xbus_status :: u8
  cd_status_len :: u8
  cd_status :: "u8 list"
  cd_read_sector_size :: u32
  cd_data_len :: u32
  cd_data_idx :: u32
  cd_data :: "u8 list"
  cd_blocks_requested :: u32
  cd_cmd :: "u8 list"
  cd_cmd_idx :: u8
  cd_STATCYC :: u8
  cd_MEI_status :: u32
  cd_current_sector :: u32
  cd_mode :: cdrom_mode
  cd_disc :: disc_data

text \<open>\<open>None\<close> is \<open>NULL\<close>. \<open>read_sector\<close> gives the bytes it stores for a length, \<open>get_toc\<close> stores the first and
  last track, the disc's kind and the table.\<close>

record 'h cdrom_callbacks =
  get_size :: "('h \<Rightarrow> u32) option"
  set_sector :: "(u32 \<Rightarrow> 'h \<Rightarrow> 'h) option"
  read_sector :: "(nat \<Rightarrow> 'h \<Rightarrow> u8 list \<times> 'h) option"
  get_toc :: "('h \<Rightarrow> u8 \<times> u8 \<times> u8 \<times> toc_entry list \<Rightarrow> u8 \<times> u8 \<times> u8 \<times> toc_entry list) option"

record 'h cdrom_device = cdrom_device_state +
  cd_callbacks :: "'h cdrom_callbacks"

text \<open>\<open>cdrom_data_runtime_state_s\<close>.\<close>

record cdrom_data =
  next_ready_cycle :: u64
  sectors_queued :: u32
  sectors_drained :: u32
  empty_reads :: u32
  read_expected_lba :: u32
  read_have_expected_lba :: bool
  audio_burst_active :: bool
  audio_burst_starts :: u32
  audio_min_ahead :: u32
  audio_max_ahead :: u32
  active_lba :: u32
  active_bytes :: u32
  audio_base_lba :: u32
  audio_base_cycle :: u64
  audio_clock_active :: bool
  read_status_pending :: bool
  wait_ready :: u32
  wait_cycles :: u64
  max_wait_cycles :: u64

text \<open>\<open>cdrom_ode_runtime_state_s\<close>; an open file is a number the host gives.\<close>

record 'h cdrom_ode =
  ode_root :: cstr
  ode_current :: cstr
  ode_playlist :: "cstr list"
  ode_playlist_count :: u32
  ode_pending_launch_path :: cstr
  ode_toc :: "u8 list"
  ode_file_buffer :: "u8 list"
  ode_file_buffer_write_data :: "u8 list"
  ode_file_buffer_write_idx :: u32
  ode_file_buffer_write_overflow :: bool
  ode_file :: "nat option"
  ode_launch :: "(cstr \<Rightarrow> 'h \<Rightarrow> int \<times> 'h) option"
  ode_restart_armed :: bool
  ode_restart_requested :: bool
  ode_file_path :: cstr
  ode_file_mode :: nat
  ode_savestate_blocked :: bool

text \<open>The vendored library: the file streams, \<open>dir_list_new\<close> with the arguments of this file and
  \<open>dir_list_sort\<close> after it (each name with whether it is a directory), and the path functions.\<close>

record 'h retro_lib =
  filestream_open :: "cstr \<Rightarrow> nat \<Rightarrow> 'h \<Rightarrow> nat option \<times> 'h"
  filestream_close :: "nat \<Rightarrow> 'h \<Rightarrow> 'h"
  filestream_seek :: "nat \<Rightarrow> u32 \<Rightarrow> 'h \<Rightarrow> int \<times> 'h"
  filestream_read :: "nat \<Rightarrow> nat \<Rightarrow> 'h \<Rightarrow> int \<times> u8 list \<times> 'h"
  filestream_write :: "nat \<Rightarrow> u8 list \<Rightarrow> 'h \<Rightarrow> int \<times> 'h"
  dir_list_sorted :: "cstr \<Rightarrow> 'h \<Rightarrow> (cstr \<times> bool) list option"
  path_is_absolute :: "cstr \<Rightarrow> bool"
  fill_pathname_join :: "cstr \<Rightarrow> cstr \<Rightarrow> nat \<Rightarrow> cstr"
  path_parent_dir :: "cstr \<Rightarrow> cstr"
  path_basename :: "cstr \<Rightarrow> cstr"

record 'h drive =
  CD :: "'h cdrom_device"
  ODE :: "'h cdrom_ode"
  DATA :: cdrom_data
  configured_speed :: u32
  g_CDROM_CALLBACKS :: "'h cdrom_callbacks"
  LIB :: "'h retro_lib"
  HOST :: 'h

definition on_cd :: "('h cdrom_device \<Rightarrow> 'h cdrom_device) \<Rightarrow> 'h drive \<Rightarrow> 'h drive" where
  "on_cd f s = s\<lparr>CD := f (CD s)\<rparr>"

definition on_data :: "(cdrom_data \<Rightarrow> cdrom_data) \<Rightarrow> 'h drive \<Rightarrow> 'h drive" where
  "on_data f s = s\<lparr>DATA := f (DATA s)\<rparr>"

definition on_ode :: "('h cdrom_ode \<Rightarrow> 'h cdrom_ode) \<Rightarrow> 'h drive \<Rightarrow> 'h drive" where
  "on_ode f s = s\<lparr>ODE := f (ODE s)\<rparr>"

definition on_disc :: "(disc_data \<Rightarrow> disc_data) \<Rightarrow> 'h drive \<Rightarrow> 'h drive" where
  "on_disc f = on_cd (\<lambda>c. c\<lparr>cd_disc := f (cd_disc c)\<rparr>)"

definition on_mode :: "(cdrom_mode \<Rightarrow> cdrom_mode) \<Rightarrow> 'h drive \<Rightarrow> 'h drive" where
  "on_mode f = on_cd (\<lambda>c. c\<lparr>cd_mode := f (cd_mode c)\<rparr>)"

text \<open>\<open>poll |= w\<close>, \<open>poll &= ~w\<close>, and the same for the status.\<close>

definition poll_or :: "u8 \<Rightarrow> 'h drive \<Rightarrow> 'h drive" where
  "poll_or w = on_cd (\<lambda>c. c\<lparr>cd_poll := cd_poll c OR w\<rparr>)"

definition poll_clr :: "u8 \<Rightarrow> 'h drive \<Rightarrow> 'h drive" where
  "poll_clr w = on_cd (\<lambda>c. c\<lparr>cd_poll := cd_poll c AND NOT w\<rparr>)"

definition status_or :: "u8 \<Rightarrow> 'h drive \<Rightarrow> 'h drive" where
  "status_or w = on_cd (\<lambda>c. c\<lparr>cd_xbus_status := cd_xbus_status c OR w\<rparr>)"

definition status_clr :: "u8 \<Rightarrow> 'h drive \<Rightarrow> 'h drive" where
  "status_clr w = on_cd (\<lambda>c. c\<lparr>cd_xbus_status := cd_xbus_status c AND NOT w\<rparr>)"

text \<open>The calls through the device's callbacks. Some are made without a test; a call of \<open>NULL\<close> is
  undefined, and here the size is 0, the sector stays and nothing is read.\<close>

definition call_get_size :: "'h drive \<Rightarrow> u32" where
  "call_get_size s = (case get_size (cd_callbacks (CD s)) of None \<Rightarrow> 0 | Some f \<Rightarrow> f (HOST s))"

definition call_set_sector :: "u32 \<Rightarrow> 'h drive \<Rightarrow> 'h drive" where
  "call_set_sector n s = (case set_sector (cd_callbacks (CD s)) of None \<Rightarrow> s | Some f \<Rightarrow> s\<lparr>HOST := f n (HOST s)\<rparr>)"

definition call_read_sector :: "nat \<Rightarrow> 'h drive \<Rightarrow> u8 list \<times> 'h drive" where
  "call_read_sector len s =
     (case read_sector (cd_callbacks (CD s)) of
        None \<Rightarrow> ([], s)
      | Some f \<Rightarrow> (let (bs, h) = f len (HOST s) in (take len bs, s\<lparr>HOST := h\<rparr>)))"

section \<open>Positions on the disc\<close>

definition no_msf :: msf where "no_msf = \<lparr>minutes = 0, seconds = 0, frames = 0\<rparr>"

definition no_toc :: toc_entry where
  "no_toc = \<lparr>res0 = 0, CDCTL = 0, track_number = 0, res1 = 0, toc_minutes = 0, toc_seconds = 0, toc_frames = 0, res2 = 0\<rparr>"

definition FRAMES2MSF :: "u32 \<Rightarrow> msf" where
  "FRAMES2MSF fr =
     (let m = fr mod (SECONDS_PER_MINUTE * FRAMES_PER_SECOND)
      in \<lparr>minutes = ucast (fr div (SECONDS_PER_MINUTE * FRAMES_PER_SECOND)),
          seconds = ucast (m div FRAMES_PER_SECOND), frames = ucast (m mod FRAMES_PER_SECOND)\<rparr>)"

definition LBA2MSF :: "u32 \<Rightarrow> msf" where
  "LBA2MSF lba = FRAMES2MSF (lba + MSF_BIAS_IN_FRAMES)"

definition MSF2LBA :: "msf \<Rightarrow> u32" where
  "MSF2LBA m =
     (let fr = ucast (minutes m) * SECONDS_PER_MINUTE * FRAMES_PER_SECOND + ucast (seconds m) * FRAMES_PER_SECOND +
            ucast (frames m)
      in if fr < MSF_BIAS_IN_FRAMES then 0 else fr - MSF_BIAS_IN_FRAMES)"

definition cdrom_msf_valid :: "msf \<Rightarrow> bool" where
  "cdrom_msf_valid m \<longleftrightarrow> seconds m < 60 \<and> frames m < 75"

definition toc_msf :: "toc_entry \<Rightarrow> msf" where
  "toc_msf t = \<lparr>minutes = toc_minutes t, seconds = toc_seconds t, frames = toc_frames t\<rparr>"

section \<open>Table of contents\<close>

definition cdrom_toc_capacity :: u32 where "cdrom_toc_capacity = 100"

definition cdrom_toc_track_in_range :: "u32 \<Rightarrow> bool" where
  "cdrom_toc_track_in_range track \<longleftrightarrow> track > 0 \<and> track < cdrom_toc_capacity"

definition cdrom_toc_entry_present :: "toc_entry \<Rightarrow> bool" where
  "cdrom_toc_entry_present t \<longleftrightarrow>
     track_number t \<noteq> 0 \<or> CDCTL t \<noteq> 0 \<or> toc_minutes t \<noteq> 0 \<or> toc_seconds t \<noteq> 0 \<or> toc_frames t \<noteq> 0"

definition cdrom_toc_entry_valid :: "u32 \<Rightarrow> toc_entry \<Rightarrow> bool" where
  "cdrom_toc_entry_valid track t \<longleftrightarrow>
     cdrom_toc_track_in_range track \<and> cdrom_toc_entry_present t \<and> cdrom_msf_valid (toc_msf t)"

definition cdrom_toc_position_control :: "u8 \<Rightarrow> u8" where
  "cdrom_toc_position_control control = (control AND 0x0F) OR 0x10"

definition tracks_listed :: "disc_data \<Rightarrow> bool" where
  "tracks_listed d \<longleftrightarrow>
     cdrom_toc_track_in_range (ucast (track_first d)) \<and> cdrom_toc_track_in_range (ucast (track_last d)) \<and>
     \<not> track_last d < track_first d"

definition track_range :: "disc_data \<Rightarrow> nat list" where
  "track_range d = [unat (track_first d)..<unat (track_last d) + 1]"

text \<open>The loop over the tracks; the last argument is the track selected so far and its start.\<close>

fun track_search :: "disc_data \<Rightarrow> u32 \<Rightarrow> nat list \<Rightarrow> (nat \<times> u32) option \<Rightarrow> (nat \<times> u32) option" where
  "track_search d lba [] sel = sel"
| "track_search d lba (i # is) sel =
     (let t = disc_toc d ! i in
      if \<not> cdrom_toc_entry_valid (of_nat i) t then track_search d lba is sel
      else
        (let start = MSF2LBA (toc_msf t); sel = (if sel = None then Some (i, start) else sel)
         in if start > lba then sel else track_search d lba is (Some (i, start))))"

text \<open>\<open>None\<close> is -1, with 0 stored as the start.\<close>

definition cdrom_track_for_lba :: "disc_data \<Rightarrow> u32 \<Rightarrow> (nat \<times> u32) option" where
  "cdrom_track_for_lba d lba = (if \<not> tracks_listed d then None else track_search d lba (track_range d) None)"

definition cdrom_disc_layout_set_single_track :: "u32 \<Rightarrow> disc_data \<Rightarrow> disc_data" where
  "cdrom_disc_layout_set_single_track size_in_blocks d =
     (let start = LBA2MSF 0
      in d\<lparr>track_first := 1, track_last := 1, disc_id := 0, session_valid := 0, msf_session := no_msf,
           disc_toc := (replicate 100 no_toc)[1 := no_toc\<lparr>CDCTL := 0x14, track_number := 1, toc_minutes := minutes start,
             toc_seconds := seconds start, toc_frames := frames start\<rparr>],
           msf_total := LBA2MSF size_in_blocks\<rparr>)"

text \<open>The loop that renumbers the valid entries; the other components are \<open>first\<close> and \<open>last\<close>.\<close>

definition sanitize_entry :: "nat \<Rightarrow> nat \<times> nat \<times> toc_entry list \<Rightarrow> nat \<times> nat \<times> toc_entry list" where
  "sanitize_entry i = (\<lambda>(first, last, toc).
     let t = toc ! i in
     if \<not> cdrom_toc_entry_valid (of_nat i) t then (first, last, toc)
     else (if first = 0 then i else first, i,
           toc[i := t\<lparr>CDCTL := cdrom_toc_position_control (CDCTL t), track_number := of_nat i\<rparr>]))"

definition cdrom_disc_layout_sanitize :: "u32 \<Rightarrow> disc_data \<Rightarrow> disc_data" where
  "cdrom_disc_layout_sanitize size_in_blocks d =
     (let d = d\<lparr>msf_total := LBA2MSF size_in_blocks\<rparr>;
          d = (if \<not> cdrom_msf_valid (msf_session d) then d\<lparr>session_valid := 0, msf_session := no_msf\<rparr> else d);
          d = (if disc_id d \<noteq> 0x00 \<and> disc_id d \<noteq> 0x10 \<and> disc_id d \<noteq> 0x20 then d\<lparr>disc_id := 0x00\<rparr> else d)
      in if \<not> tracks_listed d then cdrom_disc_layout_set_single_track size_in_blocks d
         else
           (let (first, last, toc) = fold sanitize_entry (track_range d) (0, 0, disc_toc d); d = d\<lparr>disc_toc := toc\<rparr>
            in if first = 0 then cdrom_disc_layout_set_single_track size_in_blocks d
               else d\<lparr>track_first := of_nat first, track_last := of_nat last\<rparr>))"

definition opera_cdrom_update_disc_layout :: "'h drive \<Rightarrow> 'h drive" where
  "opera_cdrom_update_disc_layout s =
     (let n = call_get_size s;
          s = on_disc (\<lambda>d. d\<lparr>msf_current := \<lparr>minutes = 0, seconds = 2, frames = 0\<rparr>\<rparr>) s;
          s = (case get_toc (cd_callbacks (CD s)) of
                 Some f \<Rightarrow>
                   on_disc (\<lambda>d.
                     let (tf, tl, k, toc) = f (HOST s) (track_first d, track_last d, disc_id d, replicate 100 no_toc)
                     in d\<lparr>session_valid := 0, msf_session := no_msf, track_first := tf, track_last := tl, disc_id := k,
                          disc_toc := take 100 toc @ replicate (100 - length toc) no_toc\<rparr>) s
               | None \<Rightarrow> on_disc (cdrom_disc_layout_set_single_track n) s)
      in on_disc (cdrom_disc_layout_sanitize n) s)"

section \<open>Mode pages\<close>

definition cdrom_mode_block_base_size :: "cdrom_mode \<Rightarrow> u32" where
  "cdrom_mode_block_base_size m =
     (let sz = push_bit 8 (ucast (length_msb m)) OR ucast (length_lsb m);
          sz = (if sz = 0 then 2048 else sz)
      in if sz > CDROM_MAX_SECTOR_SIZE then CDROM_MAX_SECTOR_SIZE else sz)"

definition cdrom_mode_density_supported :: "u8 \<Rightarrow> bool" where
  "cdrom_mode_density_supported k \<longleftrightarrow> k = 0x00 \<or> k = 0x01 \<or> k = 0x81 \<or> k = 0x82"

text \<open>The sub-code and the error byte added to a size.\<close>

definition flag_bytes :: "u8 \<Rightarrow> u32 \<Rightarrow> u32" where
  "flag_bytes fl sz =
     (let sz = (if fl AND 0x40 \<noteq> 0 then sz + 96 else sz) in if fl AND 0x80 \<noteq> 0 then sz + 1 else sz)"

definition cdrom_mode_block_transfer_size :: "cdrom_mode \<Rightarrow> u32" where
  "cdrom_mode_block_transfer_size m =
     (let sz = flag_bytes (block_flags m) (cdrom_mode_block_base_size m)
      in if sz > CDROM_MAX_SECTOR_SIZE then CDROM_MAX_SECTOR_SIZE else sz)"

definition no_mode :: cdrom_mode where
  "no_mode = \<lparr>density_code = 0, length_msb = 0, length_lsb = 0, block_flags = 0, user_block_size = 0, recovery_type = 0,
     retry_count = 0, stop_time = 0, drive_speed = 0, vpitch_msb = 0, vpitch_lsb = 0, chunk_size = 0\<rparr>"

definition cdrom_mode_block_supported :: "u8 \<Rightarrow> u8 \<Rightarrow> u8 \<Rightarrow> u8 \<Rightarrow> bool" where
  "cdrom_mode_block_supported density msb lsb fl \<longleftrightarrow>
     cdrom_mode_density_supported density \<and> fl AND NOT (0x40 OR 0x80) = 0 \<and>
     (let raw = push_bit 8 (ucast msb) OR ucast lsb; raw = (if raw = 0 then 2048 else raw)
      in \<not> raw > CDROM_MAX_SECTOR_SIZE \<and>
         (let base = cdrom_mode_block_base_size
                (no_mode\<lparr>density_code := density, length_msb := msb, length_lsb := lsb, block_flags := fl\<rparr>)
          in base > 0 \<and> base \<le> CDROM_MAX_SECTOR_SIZE \<and> flag_bytes fl base \<le> CDROM_MAX_SECTOR_SIZE))"

definition cdrom_mode_apply_block :: "'h drive \<Rightarrow> 'h drive" where
  "cdrom_mode_apply_block s =
     on_mode (\<lambda>m. m\<lparr>user_block_size := cdrom_mode_block_transfer_size m\<rparr>)
       (on_cd (\<lambda>c. c\<lparr>cd_read_sector_size := cdrom_mode_block_base_size (cd_mode c)\<rparr>) s)"

definition cdrom_mode_apply_drive_speed :: "'h drive \<Rightarrow> 'h drive" where
  "cdrom_mode_apply_drive_speed s =
     (if drive_speed (cd_mode (CD s)) = MEI_CDROM_DOUBLE_SPEED then status_or CDROM_STATUS_DOUBLE_SPEED s
      else status_clr CDROM_STATUS_DOUBLE_SPEED s)"

definition cdrom_mode_reset :: "'h drive \<Rightarrow> 'h drive" where
  "cdrom_mode_reset s =
     cdrom_mode_apply_drive_speed (cdrom_mode_apply_block
       (on_mode (\<lambda>m. m\<lparr>density_code := 0x00, length_msb := 8, length_lsb := 0, block_flags := 0, recovery_type := 0x00,
          retry_count := 8, stop_time := 0, drive_speed := MEI_CDROM_DOUBLE_SPEED, vpitch_msb := 0, vpitch_lsb := 0,
          chunk_size := 1\<rparr>) s))"

definition cmd_byte :: "nat \<Rightarrow> 'h drive \<Rightarrow> u8" where
  "cmd_byte i s = cd_cmd (CD s) ! i"

definition cdrom_mode_set_page :: "'h drive \<Rightarrow> bool \<times> 'h drive" where
  "cdrom_mode_set_page s =
     (let page = cmd_byte 1 s; a = cmd_byte 2 s; b = cmd_byte 3 s; c = cmd_byte 4 s; d = cmd_byte 5 s in
      if page = 0 then
        (if \<not> cdrom_mode_block_supported a b c d then (False, s)
         else (True, cdrom_mode_apply_block
                 (on_mode (\<lambda>m. m\<lparr>density_code := a, length_msb := b, length_lsb := c, block_flags := d\<rparr>) s)))
      else if page = 1 then (True, on_mode (\<lambda>m. m\<lparr>recovery_type := a, retry_count := b\<rparr>) s)
      else if page = 2 then (True, on_mode (\<lambda>m. m\<lparr>stop_time := a\<rparr>) s)
      else if page = 3 then
        (True, cdrom_mode_apply_drive_speed (on_mode (\<lambda>m. m\<lparr>drive_speed := a, vpitch_msb := b, vpitch_lsb := c\<rparr>) s))
      else if page = 4 then
        (let n = (if a = 0 then 1 else a); n = (if n > 8 then 8 else n) in (True, on_mode (\<lambda>m. m\<lparr>chunk_size := n\<rparr>) s))
      else (False, s))"

definition cdrom_mode_sense_payload :: "'h drive \<Rightarrow> u8 list" where
  "cdrom_mode_sense_payload s =
     (let m = cd_mode (CD s); page = cmd_byte 1 s in
      if page = 0 then [density_code m, length_msb m, length_lsb m]
      else if page = 1 then [recovery_type m, retry_count m, 0]
      else if page = 2 then [stop_time m, 0, 0]
      else if page = 3 then [drive_speed m, vpitch_msb m, vpitch_lsb m]
      else if page = 4 then [chunk_size m, 0, 0]
      else [0, 0, 0])"

section \<open>Speed\<close>

definition cdrom_data_wire_size :: "'h drive \<Rightarrow> u32" where
  "cdrom_data_wire_size s = user_block_size (cd_mode (CD s))"

definition cdrom_requested_speed :: "'h drive \<Rightarrow> u64" where
  "cdrom_requested_speed s = (if cd_xbus_status (CD s) AND CDROM_STATUS_DOUBLE_SPEED \<noteq> 0 then 2 else 1)"

definition cdrom_configured_speed :: "'h drive \<Rightarrow> u32" where
  "cdrom_configured_speed s = configured_speed s"

definition cdrom_effective_speed :: "'h drive \<Rightarrow> u32" where
  "cdrom_effective_speed s =
     (let speed = cdrom_configured_speed s in
      if speed = 0 then 0 else if speed = 1 then 1 else if cdrom_requested_speed s = 1 then 1 else speed)"

definition cdrom_data_sector_overhead_compensation_x10_usec :: "'h drive \<Rightarrow> u32" where
  "cdrom_data_sector_overhead_compensation_x10_usec s =
     (let v = cdrom_effective_speed s in
      if v = 1 then 1660 else if v = 2 then 1670 else if v = 4 then 1690 else if v = 8 then 1695
      else if v = 16 then 1704 else 1695)"

definition cdrom_pitch_basis_points :: "'h drive \<Rightarrow> int" where
  "cdrom_pitch_basis_points s =
     (let m = cd_mode (CD s) in
      if vpitch_msb m = 0x04 \<and> vpitch_lsb m = 0x0A then 100
      else if vpitch_msb m = 0x07 \<and> vpitch_lsb m = 0xF6 then - 100 else 0)"

definition cdrom_apply_pitch_to_cycles :: "'h drive \<Rightarrow> u64 \<Rightarrow> u64" where
  "cdrom_apply_pitch_to_cycles s cycles =
     (let bp = cdrom_pitch_basis_points s; scale = 10000 + bp
      in if bp = 0 \<or> scale \<le> 0 then cycles else cycles * 10000 div of_int scale)"

definition cdrom_data_sector_cycles :: "opera_clock \<Rightarrow> 'h drive \<Rightarrow> u64" where
  "cdrom_data_sector_cycles K s =
     (let speed = cdrom_effective_speed s; fq = ucast (opera_clock_cpu_get_freq K) :: u64 in
      if cd_read_sector_size (CD s) \<noteq> CDROM_DA \<and> speed = 0 then 0
      else
        (let cycles = fq div (75 * (if speed \<noteq> 0 then ucast speed else cdrom_requested_speed s)) in
         if cd_read_sector_size (CD s) = CDROM_DA then cdrom_apply_pitch_to_cycles s cycles
         else
           (let compensation = fq * ucast (cdrom_data_sector_overhead_compensation_x10_usec s) div 10000000
            in if cycles > compensation then cycles - compensation else cycles)))"

definition opera_cdrom_set_speed :: "u32 \<Rightarrow> 'h drive \<Rightarrow> 'h drive" where
  "opera_cdrom_set_speed speed s =
     (if speed \<in> {0, 1, 2, 4, 8, 16, 24, 32} then s\<lparr>configured_speed := speed\<rparr> else s\<lparr>configured_speed := 0\<rparr>)"

definition cdrom_configured_speed_valid :: "u32 \<Rightarrow> bool" where
  "cdrom_configured_speed_valid speed \<longleftrightarrow> speed \<in> {0, 1, 2, 4, 8, 16, 24, 32}"

definition opera_cdrom_set_callbacks :: "'h cdrom_callbacks \<Rightarrow> 'h drive \<Rightarrow> 'h drive" where
  "opera_cdrom_set_callbacks cb s = s\<lparr>g_CDROM_CALLBACKS := cb\<rparr>"

section \<open>Transfers\<close>

definition cdrom_data_schedule_next :: "opera_clock \<Rightarrow> 'h drive \<Rightarrow> 'h drive" where
  "cdrom_data_schedule_next K s =
     (let cycles = opera_clock_cpu_get_cycles K; sector_cycles = cdrom_data_sector_cycles K s in
      if next_ready_cycle (DATA s) = 0 then on_data (\<lambda>d. d\<lparr>next_ready_cycle := cycles + sector_cycles\<rparr>) s
      else
        (let n = next_ready_cycle (DATA s) + sector_cycles
         in on_data (\<lambda>d. d\<lparr>next_ready_cycle := (if n - cycles <s - sector_cycles then cycles else n)\<rparr>) s))"

definition cdrom_data_schedule_start :: "opera_clock \<Rightarrow> bool \<Rightarrow> 'h drive \<Rightarrow> 'h drive" where
  "cdrom_data_schedule_start K continuous s =
     (let cycles = opera_clock_cpu_get_cycles K in
      if continuous \<and> next_ready_cycle (DATA s) \<noteq> 0 then
        (if next_ready_cycle (DATA s) < cycles then on_data (\<lambda>d. d\<lparr>next_ready_cycle := cycles\<rparr>) s else s)
      else on_data (\<lambda>d. d\<lparr>next_ready_cycle := cycles + cdrom_data_sector_cycles K s\<rparr>) s)"

definition no_data :: cdrom_data where
  "no_data = \<lparr>next_ready_cycle = 0, sectors_queued = 0, sectors_drained = 0, empty_reads = 0, read_expected_lba = 0,
     read_have_expected_lba = False, audio_burst_active = False, audio_burst_starts = 0, audio_min_ahead = 0,
     audio_max_ahead = 0, active_lba = 0, active_bytes = 0, audio_base_lba = 0, audio_base_cycle = 0,
     audio_clock_active = False, read_status_pending = False, wait_ready = 0, wait_cycles = 0, max_wait_cycles = 0\<rparr>"

definition cdrom_data_reset_readahead_state :: "'h drive \<Rightarrow> 'h drive" where
  "cdrom_data_reset_readahead_state = on_data (\<lambda>_. no_data\<lparr>audio_min_ahead := UINT32_MAX\<rparr>)"

definition cdrom_data_publish_read_status_if_ready :: "'h drive \<Rightarrow> 'h drive" where
  "cdrom_data_publish_read_status_if_ready s =
     (if \<not> read_status_pending (DATA s) \<or> cd_blocks_requested (CD s) \<noteq> 0 \<or> cd_data_len (CD s) \<noteq> 0 then s
      else poll_or POLST (on_data (\<lambda>d. d\<lparr>read_status_pending := False\<rparr>) s))"

definition cdrom_data_abort_readahead :: "'h drive \<Rightarrow> 'h drive" where
  "cdrom_data_abort_readahead s =
     cdrom_data_reset_readahead_state (poll_clr POLDT (on_cd (\<lambda>c. c\<lparr>cd_data_len := 0, cd_data_idx := 0\<rparr>) s))"

definition cdrom_data_clear_transfer :: "'h drive \<Rightarrow> 'h drive" where
  "cdrom_data_clear_transfer s =
     (let s = on_cd (\<lambda>c. c\<lparr>cd_data_len := 0, cd_data_idx := 0, cd_blocks_requested := 0, cd_data := replicate 2449 0\<rparr>) s;
          s = on_data (\<lambda>d. d\<lparr>read_status_pending := False\<rparr>) (poll_clr POLDT s)
      in cdrom_data_reset_readahead_state s)"

definition cdrom_mode_set_preserves_transfer :: "'h drive \<Rightarrow> bool" where
  "cdrom_mode_set_preserves_transfer s \<longleftrightarrow>
     cmd_byte 1 s = 3 \<and> cd_read_sector_size (CD s) = CDROM_DA \<and> audio_clock_active (DATA s) \<and>
     cd_blocks_requested (CD s) = 0 \<and> cd_data_len (CD s) = 0 \<and> cd_poll (CD s) AND POLDT = 0"

definition ode_file_buffer_write_reset :: "'h drive \<Rightarrow> 'h drive" where
  "ode_file_buffer_write_reset = on_ode (\<lambda>e. e\<lparr>ode_file_buffer_write_data := replicate REQSIZE 0,
     ode_file_buffer_write_idx := 0, ode_file_buffer_write_overflow := False\<rparr>)"

definition cdrom_fifo_reset :: "'h drive \<Rightarrow> 'h drive" where
  "cdrom_fifo_reset s =
     (let s = cdrom_data_clear_transfer s;
          s = on_cd (\<lambda>c. c\<lparr>cd_status_len := 0, cd_cmd_idx := 0, cd_status := replicate 256 0, cd_cmd := replicate 7 0\<rparr>) s
      in ode_file_buffer_write_reset (poll_clr POLST s))"

section \<open>Audio position and read-ahead\<close>

definition cdrom_audio_read_ahead_sectors :: u32 where "cdrom_audio_read_ahead_sectors = 48"

definition cdrom_data_audio_elapsed_frames :: "opera_clock \<Rightarrow> u64 \<Rightarrow> 'h drive \<Rightarrow> u64" where
  "cdrom_data_audio_elapsed_frames K cycles s =
     (if cycles \<le> audio_base_cycle (DATA s) then 0
      else (cycles - audio_base_cycle (DATA s)) * 75 div ucast (opera_clock_cpu_get_freq K))"

definition cdrom_data_audio_position_lba :: "opera_clock \<Rightarrow> u64 \<Rightarrow> 'h drive \<Rightarrow> u32" where
  "cdrom_data_audio_position_lba K cycles s =
     (if \<not> audio_clock_active (DATA s) \<or> cd_current_sector (CD s) < audio_base_lba (DATA s)
      then MSF2LBA (msf_current (cd_disc (CD s)))
      else
        (let lba = ucast (audio_base_lba (DATA s)) + cdrom_data_audio_elapsed_frames K cycles s;
             cur = ucast (cd_current_sector (CD s)) :: u64
         in ucast (if lba > cur then cur else lba)))"

definition cdrom_data_audio_clock_start :: "opera_clock \<Rightarrow> u32 \<Rightarrow> u32 \<Rightarrow> 'h drive \<Rightarrow> 'h drive" where
  "cdrom_data_audio_clock_start K start_lba end_lba s =
     (let disc_blocks = call_get_size s;
          end_lba = (if end_lba > disc_blocks then disc_blocks else end_lba);
          start_lba = (if start_lba > end_lba then end_lba else start_lba);
          s = on_data (\<lambda>d. d\<lparr>audio_base_lba := start_lba, audio_base_cycle := opera_clock_cpu_get_cycles K,
                 audio_clock_active := start_lba < end_lba, audio_burst_active := False\<rparr>) s;
          s = on_cd (\<lambda>c. c\<lparr>cd_current_sector := end_lba\<rparr>) s
      in on_disc (\<lambda>d. d\<lparr>msf_current := LBA2MSF start_lba\<rparr>) s)"

definition cdrom_data_audio_clock_stop :: "opera_clock \<Rightarrow> 'h drive \<Rightarrow> 'h drive" where
  "cdrom_data_audio_clock_stop K s =
     (let lba = cdrom_data_audio_position_lba K (opera_clock_cpu_get_cycles K) s;
          s = on_disc (\<lambda>d. d\<lparr>msf_current := LBA2MSF lba\<rparr>) s;
          s = on_cd (\<lambda>c. c\<lparr>cd_current_sector := lba\<rparr>) s
      in on_data (\<lambda>d. d\<lparr>audio_clock_active := False, audio_burst_active := False\<rparr>) s)"

definition audio_streaming :: "'h drive \<Rightarrow> bool" where
  "audio_streaming s \<longleftrightarrow>
     \<not> (cd_read_sector_size (CD s) \<noteq> CDROM_DA \<or> \<not> audio_clock_active (DATA s) \<or>
        cd_current_sector (CD s) < audio_base_lba (DATA s))"

definition cdrom_data_audio_read_ahead :: "opera_clock \<Rightarrow> u64 \<Rightarrow> 'h drive \<Rightarrow> u32" where
  "cdrom_data_audio_read_ahead K cycles s =
     (if \<not> audio_streaming s then 0
      else
        (let streamed = cd_current_sector (CD s) - audio_base_lba (DATA s); elapsed = cdrom_data_audio_elapsed_frames K cycles s
         in if ucast streamed \<le> elapsed then 0 else ucast (ucast streamed - elapsed)))"

definition cdrom_data_preserve_drive_speed_mode_set :: "opera_clock \<Rightarrow> 'h drive \<Rightarrow> 'h drive" where
  "cdrom_data_preserve_drive_speed_mode_set K s =
     (let cycles = opera_clock_cpu_get_cycles K in
      if next_ready_cycle (DATA s) \<noteq> 0 \<and> next_ready_cycle (DATA s) < cycles
      then on_data (\<lambda>d. d\<lparr>next_ready_cycle := cycles\<rparr>) s else s)"

definition cdrom_data_audio_refill_threshold :: "u32 \<Rightarrow> u32" where
  "cdrom_data_audio_refill_threshold cap = (if cap \<le> 8 then 0 else cap - 1)"

definition cdrom_data_audio_can_burst :: "opera_clock \<Rightarrow> u64 \<Rightarrow> 'h drive \<Rightarrow> bool \<times> 'h drive" where
  "cdrom_data_audio_can_burst K cycles s =
     (let cap = cdrom_audio_read_ahead_sectors; ahead = cdrom_data_audio_read_ahead K cycles s in
      if cd_read_sector_size (CD s) \<noteq> CDROM_DA \<or> \<not> audio_clock_active (DATA s) \<or> cap = 0 then (False, s)
      else if ahead \<ge> cap then (False, on_data (\<lambda>d. d\<lparr>audio_burst_active := False\<rparr>) s)
      else
        (let s = (if \<not> audio_burst_active (DATA s) \<and> ahead \<le> cdrom_data_audio_refill_threshold cap
                  then on_data (\<lambda>d. d\<lparr>audio_burst_active := True, audio_burst_starts := audio_burst_starts d + 1\<rparr>) s
                  else s)
         in (audio_burst_active (DATA s), s)))"

definition cdrom_data_audio_read_ahead_cycle :: "opera_clock \<Rightarrow> 'h drive \<Rightarrow> u64" where
  "cdrom_data_audio_read_ahead_cycle K s =
     (let cap = cdrom_audio_read_ahead_sectors;
          elapsed = ucast (cd_current_sector (CD s) - audio_base_lba (DATA s)) :: u64 in
      if \<not> audio_streaming s \<or> cap = 0 then 0
      else if elapsed < ucast cap then 0
      else audio_base_cycle (DATA s) + (elapsed - ucast (cap - 1)) * ucast (opera_clock_cpu_get_freq K) div 75)"

text \<open>What both waits do.\<close>

definition data_wait :: "u64 \<Rightarrow> 'h drive \<Rightarrow> 'h drive" where
  "data_wait n s =
     poll_clr POLDT (on_data (\<lambda>d. d\<lparr>wait_ready := wait_ready d + 1, wait_cycles := wait_cycles d + n,
       max_wait_cycles := (if n > max_wait_cycles d then n else max_wait_cycles d)\<rparr>) s)"

text \<open>The next sector into the buffer.\<close>

definition data_fetch :: "opera_clock \<Rightarrow> bool \<Rightarrow> 'h drive \<Rightarrow> 'h drive" where
  "data_fetch K audio_burst s =
     (let lba = cd_current_sector (CD s);
          s = on_cd (\<lambda>c. c\<lparr>cd_current_sector := cd_current_sector c + 1\<rparr>) s;
          s = call_set_sector lba s;
          read_size = min (cd_read_sector_size (CD s)) CDROM_MAX_SECTOR_SIZE;
          wire_size = min (cdrom_data_wire_size s) CDROM_MAX_SECTOR_SIZE;
          (bs, s) = call_read_sector (unat read_size) s;
          s = on_cd (\<lambda>c. c\<lparr>cd_data := store_bytes (store_bytes (cd_data c) 0 (replicate (unat wire_size) 0)) 0 bs\<rparr>) s;
          s = on_disc (\<lambda>d. d\<lparr>msf_current := LBA2MSF (cd_current_sector (CD s))\<rparr>) s;
          s = on_cd (\<lambda>c. c\<lparr>cd_data_len := wire_size\<rparr>) s;
          s = on_data (\<lambda>d. d\<lparr>active_lba := lba, active_bytes := wire_size\<rparr>) s;
          s = on_cd (\<lambda>c. c\<lparr>cd_blocks_requested := cd_blocks_requested c - 1\<rparr>) s;
          s = poll_or POLDT s;
          s = on_data (\<lambda>d. d\<lparr>sectors_queued := sectors_queued d + 1\<rparr>) s
      in if audio_burst then on_data (\<lambda>d. d\<lparr>next_ready_cycle := opera_clock_cpu_get_cycles K\<rparr>) s
         else cdrom_data_schedule_next K s)"

definition cdrom_data_load_next_if_ready :: "opera_clock \<Rightarrow> 'h drive \<Rightarrow> 'h drive" where
  "cdrom_data_load_next_if_ready K s =
     (if cd_poll (CD s) AND POLREMASK \<noteq> 0 then s
      else if cd_data_len (CD s) > 0 \<or> cd_blocks_requested (CD s) = 0 then s
      else
        (let cycles = opera_clock_cpu_get_cycles K; (audio_burst, s) = cdrom_data_audio_can_burst K cycles s in
         if \<not> audio_burst \<and> cycles < next_ready_cycle (DATA s) then data_wait (next_ready_cycle (DATA s) - cycles) s
         else
           (let audio_ready_cycle = cdrom_data_audio_read_ahead_cycle K s in
            if audio_ready_cycle \<noteq> 0 \<and> cycles < audio_ready_cycle
            then data_wait (audio_ready_cycle - cycles)
                   (on_data (\<lambda>d. d\<lparr>audio_burst_active := False, next_ready_cycle := audio_ready_cycle\<rparr>) s)
            else data_fetch K audio_burst s)))"

end
