(* ===== verification/Opera_Cdrom_Ode.thy ===== *)
theory Opera_Cdrom_Ode
  imports Opera_Cdrom
begin

text \<open>
  The optical drive emulator's commands in \<open>src/libopera/opera_cdrom.c\<close>: the session, the paths under its
  root, the directory listings, the playlist and the file buffer; with the device's resets, which end
  the session, and the status packets every command answers with.
\<close>

section \<open>Session\<close>

definition ode_str_copy :: "nat \<Rightarrow> cstr \<Rightarrow> cstr" where
  "ode_str_copy n src = take (n - 1) src"

definition ode_state_str_restore :: "nat \<Rightarrow> cstr \<Rightarrow> cstr" where
  "ode_state_str_restore n src = take (n - 1) src"

definition ode_playlist_clear :: "'h drive \<Rightarrow> 'h drive" where
  "ode_playlist_clear = on_ode (\<lambda>e. e\<lparr>ode_playlist := replicate 16 [], ode_playlist_count := 0\<rparr>)"

definition ode_file_close :: "'h drive \<Rightarrow> 'h drive" where
  "ode_file_close s =
     (let s = (case ode_file (ODE s) of
                 None \<Rightarrow> s
               | Some f \<Rightarrow> on_ode (\<lambda>e. e\<lparr>ode_file := None\<rparr>) (s\<lparr>HOST := filestream_close (LIB s) f (HOST s)\<rparr>))
      in on_ode (\<lambda>e. e\<lparr>ode_file_path := [], ode_file_mode := 0\<rparr>) s)"

definition ode_reset_session :: "'h drive \<Rightarrow> 'h drive" where
  "ode_reset_session s =
     (let s = ode_file_close s;
          s = on_ode (\<lambda>e. e\<lparr>ode_current := ode_str_copy PATH_MAX_LENGTH (ode_root e)\<rparr>) s;
          s = ode_playlist_clear s;
          s = on_ode (\<lambda>e. e\<lparr>ode_pending_launch_path := [], ode_toc := replicate REQSIZE 0xFF,
                ode_file_buffer := replicate REQSIZE 0\<rparr>) s;
          s = ode_file_buffer_write_reset s
      in on_ode (\<lambda>e. e\<lparr>ode_restart_armed := False, ode_restart_requested := False\<rparr>) s)"

definition opera_cdrom_ode_reset_session :: "'h drive \<Rightarrow> 'h drive" where
  "opera_cdrom_ode_reset_session = ode_reset_session"

text \<open>\<open>None\<close> is \<open>NULL\<close>.\<close>

definition opera_cdrom_ode_set_root :: "cstr option \<Rightarrow> 'h drive \<Rightarrow> 'h drive" where
  "opera_cdrom_ode_set_root root s =
     (let r = (case root of None \<Rightarrow> [] | Some r \<Rightarrow> ode_str_copy PATH_MAX_LENGTH r);
          s = ode_reset_session (on_ode (\<lambda>e. e\<lparr>ode_root := r\<rparr>) s)
      in on_ode (\<lambda>e. e\<lparr>ode_savestate_blocked := False\<rparr>) s)"

definition opera_cdrom_ode_set_launch_callback :: "(cstr \<Rightarrow> 'h \<Rightarrow> int \<times> 'h) option \<Rightarrow> 'h drive \<Rightarrow> 'h drive" where
  "opera_cdrom_ode_set_launch_callback l = on_ode (\<lambda>e. e\<lparr>ode_launch := l\<rparr>)"

section \<open>Medium\<close>

definition cdrom_media_access_latch :: "'h drive \<Rightarrow> 'h drive" where
  "cdrom_media_access_latch = poll_or POLRE"

definition cdrom_media_present :: "'h drive \<Rightarrow> bool" where
  "cdrom_media_present s \<longleftrightarrow> get_size (cd_callbacks (CD s)) \<noteq> None \<and> call_get_size s \<noteq> 0"

definition cdrom_media_status_refresh :: "'h drive \<Rightarrow> 'h drive" where
  "cdrom_media_status_refresh s =
     (let s = on_cd (\<lambda>c. c\<lparr>cd_xbus_status := CDROM_STATUS_READY OR CDROM_STATUS_DOOR\<rparr>) s;
          s = (if cdrom_media_present s then status_or (CDROM_STATUS_DISC_IN OR CDROM_STATUS_SPIN_UP) s else s)
      in cdrom_mode_apply_drive_speed s)"

abbreviation (input) disc_inserted :: u8 where
  "disc_inserted \<equiv> CDROM_STATUS_READY OR CDROM_STATUS_DOOR OR CDROM_STATUS_DISC_IN OR CDROM_STATUS_SPIN_UP"

definition ode_complete_restart_if_armed :: "'h drive \<Rightarrow> 'h drive" where
  "ode_complete_restart_if_armed s =
     (if \<not> ode_restart_armed (ODE s) then s
      else
        (let s = on_ode (\<lambda>e. e\<lparr>ode_restart_armed := False\<rparr>) s;
             s = cdrom_mode_apply_drive_speed (status_clr CDROM_STATUS_ERROR (status_or disc_inserted s));
             s = cdrom_media_access_latch s
         in on_ode (\<lambda>e. e\<lparr>ode_restart_requested := True\<rparr>) s))"

definition opera_cdrom_ode_consume_restart_request :: "'h drive \<Rightarrow> bool \<times> 'h drive" where
  "opera_cdrom_ode_consume_restart_request s =
     (let requested = ode_restart_requested (ODE s); s = on_ode (\<lambda>e. e\<lparr>ode_restart_requested := False\<rparr>) s in
      if \<not> requested then (False, s)
      else
        (let p = ode_pending_launch_path (ODE s);
             (started, s) = (case (p, ode_launch (ODE s)) of
                (_ # _, Some launch) \<Rightarrow> (let (r, h) = launch p (HOST s) in (r = 0, s\<lparr>HOST := h\<rparr>))
              | _ \<Rightarrow> (False, s))
         in (started, on_ode (\<lambda>e. e\<lparr>ode_pending_launch_path := []\<rparr>) s)))"

definition opera_cdrom_ode_restart_requested :: "'h drive \<Rightarrow> bool" where
  "opera_cdrom_ode_restart_requested s \<longleftrightarrow> ode_restart_requested (ODE s)"

section \<open>Paths\<close>

abbreviation (input) is_slash :: "u8 \<Rightarrow> bool" where "is_slash c \<equiv> c = 0x2F \<or> c = 0x5C"

fun ode_trimmed :: "cstr \<Rightarrow> cstr" where
  "ode_trimmed p = (if length p > 1 \<and> is_slash (last p) then ode_trimmed (butlast p) else p)"

declare ode_trimmed.simps [simp del]

definition ode_trimmed_len :: "cstr \<Rightarrow> nat" where
  "ode_trimmed_len p = length (ode_trimmed p)"

definition ode_path_equal :: "cstr \<Rightarrow> cstr \<Rightarrow> bool" where
  "ode_path_equal a b \<longleftrightarrow>
     ode_trimmed_len a = ode_trimmed_len b \<and> take (ode_trimmed_len a) a = take (ode_trimmed_len a) b"

definition ode_current_is_root :: "'h drive \<Rightarrow> bool" where
  "ode_current_is_root s \<longleftrightarrow> ode_path_equal (ode_current (ODE s)) (ode_root (ODE s))"

text \<open>The walk over the path; the first argument is the component read so far.\<close>

abbreviation (input) plain_component :: "cstr \<Rightarrow> bool" where
  "plain_component c \<equiv> c \<noteq> [] \<and> c \<noteq> [0x2E] \<and> c \<noteq> [0x2E, 0x2E]"

fun components_safe :: "cstr \<Rightarrow> cstr \<Rightarrow> bool" where
  "components_safe c [] = plain_component c"
| "components_safe c (x # xs) = (if is_slash x then plain_component c \<and> components_safe [] xs else components_safe (c @ [x]) xs)"

definition ode_relative_path_is_safe :: "'h retro_lib \<Rightarrow> cstr \<Rightarrow> bool" where
  "ode_relative_path_is_safe L path \<longleftrightarrow> path \<noteq> [] \<and> \<not> path_is_absolute L path \<and> components_safe [] path"

definition ode_path_is_under_root :: "cstr \<Rightarrow> 'h drive \<Rightarrow> bool" where
  "ode_path_is_under_root path s \<longleftrightarrow>
     (let root = ode_root (ODE s); n = ode_trimmed_len root in
      root \<noteq> [] \<and> take n path = take n root \<and>
      (length path = n \<or> is_slash (path ! n) \<or> is_slash (root ! (n - 1))))"

text \<open>The path is \<open>None\<close> where the function returns false.\<close>

definition ode_file_buffer_name_path :: "u16 \<Rightarrow> 'h drive \<Rightarrow> cstr option" where
  "ode_file_buffer_name_path name_len s =
     (if name_len = 0 \<or> unat name_len \<ge> REQSIZE then None
      else
        (let name = takeWhile (\<lambda>c. c \<noteq> 0) (take (unat name_len) (ode_file_buffer (ODE s))) in
         if name = [] then None
         else if \<not> ode_relative_path_is_safe (LIB s) name then None
         else
           (let path = fill_pathname_join (LIB s) (ode_current (ODE s)) name PATH_MAX_LENGTH
            in if path \<noteq> [] \<and> ode_path_is_under_root path s then Some path else None)))"

text \<open>The parent of the current directory, but never outside the root.\<close>

definition parent_in_root :: "'h drive \<Rightarrow> cstr" where
  "parent_in_root s =
     (let p = path_parent_dir (LIB s) (ode_str_copy PATH_MAX_LENGTH (ode_current (ODE s)))
      in if ode_path_is_under_root p s then p else ode_str_copy PATH_MAX_LENGTH (ode_root (ODE s)))"

definition ode_go_parent :: "'h drive \<Rightarrow> 'h drive" where
  "ode_go_parent s =
     (if ode_current_is_root s then s
      else (let p = parent_in_root s in on_ode (\<lambda>e. e\<lparr>ode_current := ode_str_copy PATH_MAX_LENGTH p\<rparr>) s))"

section \<open>Listings\<close>

definition ode_toc_put_u32 :: "u32 \<Rightarrow> nat \<times> u8 list \<Rightarrow> nat \<times> u8 list" where
  "ode_toc_put_u32 v = (\<lambda>(pos, toc). (pos + 4, store_bytes toc pos [byte_of 3 v, byte_of 2 v, byte_of 1 v, byte_of 0 v]))"

text \<open>The bytes are stored from the position on; the result says whether the entry fits.\<close>

definition ode_toc_add_entry :: "u32 \<Rightarrow> u32 \<Rightarrow> cstr \<Rightarrow> nat \<times> u8 list \<Rightarrow> bool \<times> nat \<times> u8 list" where
  "ode_toc_add_entry fl toc_id name x =
     (let name_len = length name + 1 in
      if name_len > 128 then (False, x)
      else if fst x + 12 + name_len > REQSIZE then (False, x)
      else
        (let (pos, toc) = ode_toc_put_u32 (of_nat name_len) (ode_toc_put_u32 toc_id (ode_toc_put_u32 fl x))
         in (True, pos + name_len, store_bytes toc pos (name @ [0]))))"

text \<open>The loop over the sorted directory; \<open>id\<close> counts its entries, \<open>emitted\<close> those added.\<close>

fun toc_entries :: "'h retro_lib \<Rightarrow> u32 \<Rightarrow> u32 \<Rightarrow> (cstr \<times> bool) list \<Rightarrow> u32 \<Rightarrow> u32 \<Rightarrow> nat \<times> u8 list \<Rightarrow> nat \<times> u8 list" where
  "toc_entries L start limit [] i emitted x = x"
| "toc_entries L start limit ((path, is_dir) # ps) i emitted x =
     (let i = i + 1 in
      if start \<noteq> 0 \<and> i < start then toc_entries L start limit ps i emitted x
      else if emitted \<ge> limit then x
      else
        (let name = path_basename L path in
         if name = [] then toc_entries L start limit ps i emitted x
         else
           (let (added, x) = ode_toc_add_entry (if is_dir then 2 else 1) i name x
            in toc_entries L start limit ps i (if added then emitted + 1 else emitted) x)))"

definition ode_build_toc :: "u32 \<Rightarrow> u16 \<Rightarrow> 'h drive \<Rightarrow> 'h drive" where
  "ode_build_toc start_id count s =
     (let blank = replicate REQSIZE 0xFF; s = on_ode (\<lambda>e. e\<lparr>ode_toc := blank\<rparr>) s in
      if ode_root (ODE s) = [] then s
      else
        (let start = start_id AND 0x00FFFFFF;
             limit = (if count = 0 then UINT32_MAX else ucast count);
             (up, x) = (if \<not> ode_current_is_root s \<and> start = 0 \<and> 0 < limit
                        then ode_toc_add_entry 2 0xFFFFFFFF [0x2E, 0x2E] (0, blank) else (False, (0, blank)));
             x = (case dir_list_sorted (LIB s) (ode_current (ODE s)) (HOST s) of
                    None \<Rightarrow> x
                  | Some ps \<Rightarrow> toc_entries (LIB s) start limit ps 0 (if up then 1 else 0) x)
         in on_ode (\<lambda>e. e\<lparr>ode_toc := snd x\<rparr>) s))"

text \<open>The path of an entry and whether it is a directory.\<close>

definition ode_find_toc_path :: "u32 \<Rightarrow> 'h drive \<Rightarrow> (cstr \<times> bool) option" where
  "ode_find_toc_path toc_id s =
     (if ode_root (ODE s) = [] then None
      else
        (let target = toc_id AND 0x00FFFFFF in
         if target = 0x00FFFFFF then Some (parent_in_root s, True)
         else if target = 0 then Some (ode_str_copy PATH_MAX_LENGTH (ode_current (ODE s)), True)
         else
           (case dir_list_sorted (LIB s) (ode_current (ODE s)) (HOST s) of
              None \<Rightarrow> None
            | Some ps \<Rightarrow>
                (if unat target \<le> length ps
                 then (let (p, is_dir) = ps ! (unat target - 1) in Some (ode_str_copy PATH_MAX_LENGTH p, is_dir))
                 else None))))"

section \<open>Status packets\<close>

definition cdrom_status_tagged :: "u8 \<Rightarrow> u8 list \<Rightarrow> u32 \<Rightarrow> 'h drive \<Rightarrow> 'h drive" where
  "cdrom_status_tagged opcode payload mei s =
     poll_or POLST
       (on_cd (\<lambda>c. c\<lparr>cd_status_len := of_nat (length payload + 2),
          cd_status := store_bytes (cd_status c) 0 (opcode # payload @ [cd_xbus_status c]), cd_MEI_status := mei\<rparr>) s)"

definition cdrom_status_tagged_padded :: "u8 \<Rightarrow> u8 \<Rightarrow> u32 \<Rightarrow> 'h drive \<Rightarrow> 'h drive" where
  "cdrom_status_tagged_padded opcode total_len mei s =
     (let n = (if total_len < 2 then 2 else total_len)
      in poll_or POLST
        (on_cd (\<lambda>c. c\<lparr>cd_status :=
             (store_bytes (cd_status c) 0 (replicate (unat n) 0))[0 := opcode, unat n - 1 := cd_xbus_status c],
           cd_status_len := n, cd_MEI_status := mei\<rparr>) s))"

definition cdrom_status_tagged_error :: "u8 \<Rightarrow> u32 \<Rightarrow> 'h drive \<Rightarrow> 'h drive" where
  "cdrom_status_tagged_error opcode mei s =
     cdrom_status_tagged opcode [] mei (status_clr CDROM_STATUS_READY (status_or CDROM_STATUS_ERROR s))"

definition ode_status :: "u8 \<Rightarrow> u8 list \<Rightarrow> 'h drive \<Rightarrow> 'h drive" where
  "ode_status opcode payload s = cdrom_status_tagged opcode payload 0x00 (status_or CDROM_STATUS_READY s)"

definition ode_data_response :: "u8 \<Rightarrow> u8 list \<Rightarrow> 'h drive \<Rightarrow> 'h drive" where
  "ode_data_response opcode bs s =
     (let s = on_cd (\<lambda>c. c\<lparr>cd_data := store_bytes (cd_data c) 0 (take REQSIZE bs), cd_data_idx := 0, cd_data_len := 2048,
            cd_blocks_requested := 0\<rparr>) s
      in poll_or POLDT (ode_status opcode [] s))"

section \<open>Commands\<close>

definition ode_cmd_be32 :: "'h drive \<Rightarrow> u32" where
  "ode_cmd_be32 s = le4 (cmd_byte 4 s) (cmd_byte 3 s) (cmd_byte 2 s) (cmd_byte 1 s)"

definition ode_cmd_be16_at :: "nat \<Rightarrow> 'h drive \<Rightarrow> u16" where
  "ode_cmd_be16_at i s = le2 (cmd_byte (i + 1) s) (cmd_byte i s)"

definition ode_change_toc :: "'h drive \<Rightarrow> 'h drive" where
  "ode_change_toc s =
     (let toc_id = ode_cmd_be32 s;
          s = (if toc_id = 0 then on_ode (\<lambda>e. e\<lparr>ode_current := ode_str_copy PATH_MAX_LENGTH (ode_root e)\<rparr>) s
               else if toc_id AND 0x00FFFFFF = 0x00FFFFFF then ode_go_parent s
               else
                 (case ode_find_toc_path toc_id s of
                    Some (p, True) \<Rightarrow> on_ode (\<lambda>e. e\<lparr>ode_current := ode_str_copy PATH_MAX_LENGTH p\<rparr>) s
                  | _ \<Rightarrow> s))
      in ode_status (cmd_byte 0 s) [] s)"

definition ode_read_toc_window :: "'h drive \<Rightarrow> 'h drive" where
  "ode_read_toc_window s =
     (let toc_id = ode_cmd_be32 s; offset = ode_cmd_be16_at 5 s;
          s = (if offset = 0 then ode_build_toc toc_id 0 s else s);
          part = take 16 (drop (unat offset) (ode_toc (ODE s)))
      in ode_status (cmd_byte 0 s) (part @ replicate (16 - length part) 0xFF) s)"

definition ode_read_toc_list :: "'h drive \<Rightarrow> 'h drive" where
  "ode_read_toc_list s =
     (let s = ode_build_toc (ode_cmd_be32 s) (ode_cmd_be16_at 5 s) s
      in ode_data_response (cmd_byte 0 s) (ode_toc (ODE s)) s)"

definition ode_add_playlist :: "'h drive \<Rightarrow> 'h drive" where
  "ode_add_playlist s =
     (let (payload, s) = (case ode_find_toc_path (ode_cmd_be32 s) s of
            Some (p, False) \<Rightarrow>
              (if ode_playlist_count (ODE s) < ODE_PLAYLIST_MAX
               then ([1, 1], on_ode (\<lambda>e. e\<lparr>ode_playlist :=
                       (ode_playlist e)[unat (ode_playlist_count e) := ode_str_copy PATH_MAX_LENGTH p],
                       ode_playlist_count := ode_playlist_count e + 1\<rparr>) s)
               else ([1, 0], s))
          | _ \<Rightarrow> ([0, 0], s))
      in ode_status (cmd_byte 0 s) payload s)"

definition ode_launch_playlist :: "'h drive \<Rightarrow> 'h drive" where
  "ode_launch_playlist s =
     (let s = cdrom_data_clear_transfer s;
          s = on_ode (\<lambda>e. e\<lparr>ode_restart_armed := False, ode_pending_launch_path := []\<rparr>) s;
          s = (if ode_playlist_count (ODE s) > 0 \<and> ode_launch (ODE s) \<noteq> None then
                 (let s = status_clr CDROM_STATUS_DOOR s; s = status_clr CDROM_STATUS_DISC_IN s;
                      s = status_clr CDROM_STATUS_SPIN_UP s; s = status_clr CDROM_STATUS_DOUBLE_SPEED s;
                      s = status_clr CDROM_STATUS_ERROR s
                  in on_ode (\<lambda>e. e\<lparr>ode_pending_launch_path := ode_str_copy PATH_MAX_LENGTH (ode_playlist e ! 0),
                       ode_restart_armed := True\<rparr>) s)
               else s)
      in ode_status (cmd_byte 0 s) [] s)"

text \<open>What opening a file leaves in the session when the host gave it a number.\<close>

definition ode_opened :: "cstr \<Rightarrow> nat \<Rightarrow> nat option \<Rightarrow> 'h drive \<Rightarrow> 'h drive" where
  "ode_opened path mode f s =
     (if f = None then on_ode (\<lambda>e. e\<lparr>ode_file := f\<rparr>) s
      else on_ode (\<lambda>e. e\<lparr>ode_file := f, ode_file_path := ode_str_copy PATH_MAX_LENGTH path, ode_file_mode := mode\<rparr>) s)"

abbreviation (input) RETRO_VFS_FILE_ACCESS_READ :: nat where "RETRO_VFS_FILE_ACCESS_READ \<equiv> 1"
abbreviation (input) RETRO_VFS_FILE_ACCESS_READ_WRITE :: nat where "RETRO_VFS_FILE_ACCESS_READ_WRITE \<equiv> 3"
abbreviation (input) RETRO_VFS_FILE_ACCESS_UPDATE_EXISTING :: nat where "RETRO_VFS_FILE_ACCESS_UPDATE_EXISTING \<equiv> 4"

definition call_open :: "cstr \<Rightarrow> nat \<Rightarrow> 'h drive \<Rightarrow> nat option \<times> 'h drive" where
  "call_open path mode s = (let (f, h) = filestream_open (LIB s) path mode (HOST s) in (f, s\<lparr>HOST := h\<rparr>))"

definition ode_create_file :: "'h drive \<Rightarrow> 'h drive" where
  "ode_create_file s =
     (let s = ode_file_close s;
          (ok, s) = (case ode_file_buffer_name_path (ode_cmd_be16_at 1 s) s of
            None \<Rightarrow> (0, s)
          | Some path \<Rightarrow>
              (let (f, s) = call_open path RETRO_VFS_FILE_ACCESS_READ_WRITE s
               in (of_bool (f \<noteq> None), ode_opened path 3 f s)))
      in ode_status (cmd_byte 0 s) [ok] (ode_file_buffer_write_reset s))"

definition ode_open_path :: "'h drive \<Rightarrow> cstr option" where
  "ode_open_path s =
     (let path = (if cmd_byte 1 s = 0 then ode_file_buffer_name_path (ode_cmd_be16_at 2 s) s
            else
              (case ode_find_toc_path (le4 (cmd_byte 5 s) (cmd_byte 4 s) (cmd_byte 3 s) (cmd_byte 2 s)) s of
                 Some (p, False) \<Rightarrow> Some p | _ \<Rightarrow> None))
      in case path of None \<Rightarrow> None | Some p \<Rightarrow> if p \<noteq> [] \<and> ode_path_is_under_root p s then Some p else None)"

definition ode_open_file :: "'h drive \<Rightarrow> 'h drive" where
  "ode_open_file s =
     (let wr = cmd_byte 6 s \<noteq> 0;
          s = ode_file_close s;
          (ok, s) = (case ode_open_path s of
            None \<Rightarrow> (0, s)
          | Some path \<Rightarrow>
              (let (f, s) = call_open path
                     (if wr then RETRO_VFS_FILE_ACCESS_READ_WRITE + RETRO_VFS_FILE_ACCESS_UPDATE_EXISTING
                      else RETRO_VFS_FILE_ACCESS_READ) s;
                   (f, s) = (if f = None \<and> wr then call_open path RETRO_VFS_FILE_ACCESS_READ_WRITE s else (f, s))
               in (of_bool (f \<noteq> None), ode_opened path (if wr then 2 else 1) f s)))
      in ode_status (cmd_byte 0 s) [ok] (ode_file_buffer_write_reset s))"

definition ode_seek_file :: "'h drive \<Rightarrow> 'h drive" where
  "ode_seek_file s =
     (let (success, s) = (case ode_file (ODE s) of
            None \<Rightarrow> (False, s)
          | Some f \<Rightarrow> (let (r, h) = filestream_seek (LIB s) f (ode_cmd_be32 s) (HOST s) in (r \<ge> 0, s\<lparr>HOST := h\<rparr>)));
          s = (if success then s else status_or CDROM_STATUS_ERROR s)
      in ode_status (cmd_byte 0 s) [] s)"

definition transfer_len :: "'h drive \<Rightarrow> nat" where
  "transfer_len s = min (unat (ode_cmd_be16_at 1 s)) REQSIZE"

definition ode_read_file :: "'h drive \<Rightarrow> 'h drive" where
  "ode_read_file s =
     (let (n, s) = (case ode_file (ODE s) of
            None \<Rightarrow> (0 :: u16, s)
          | Some f \<Rightarrow>
              (let (r, bs, h) = filestream_read (LIB s) f (transfer_len s) (HOST s);
                   s = on_ode (\<lambda>e. e\<lparr>ode_file_buffer := store_bytes (ode_file_buffer e) 0 (take (transfer_len s) bs)\<rparr>) (s\<lparr>HOST := h\<rparr>)
               in if r < 0 then (0, status_or CDROM_STATUS_ERROR s) else (of_int r, s)));
          s = ode_file_buffer_write_reset s
      in ode_status (cmd_byte 0 s) [byte_of 1 n, byte_of 0 n] s)"

definition ode_write_file :: "'h drive \<Rightarrow> 'h drive" where
  "ode_write_file s =
     (let (n, s) = (case ode_file (ODE s) of
            None \<Rightarrow> (0 :: u16, s)
          | Some f \<Rightarrow>
              (let (r, h) = filestream_write (LIB s) f (take (transfer_len s) (ode_file_buffer (ODE s))) (HOST s); s = s\<lparr>HOST := h\<rparr>
               in if r < 0 then (0, status_or CDROM_STATUS_ERROR s) else (of_int r, s)));
          s = ode_file_buffer_write_reset s
      in ode_status (cmd_byte 0 s) [byte_of 1 n, byte_of 0 n] s)"

definition ode_write_buffer_word :: "'h drive \<Rightarrow> 'h drive" where
  "ode_write_buffer_word s =
     (let offset = unat (ode_cmd_be16_at 1 s) * 4;
          s = (if offset + 4 \<le> REQSIZE
               then on_ode (\<lambda>e. e\<lparr>ode_file_buffer := store_bytes (ode_file_buffer e) offset (take 4 (drop 3 (cd_cmd (CD s))))\<rparr>) s
               else s)
      in ode_status (cmd_byte 0 s) [] (ode_file_buffer_write_reset s))"

definition ode_fast_buffer_send :: "'h drive \<Rightarrow> 'h drive" where
  "ode_fast_buffer_send s =
     (let e' = ODE s;
          s = (if ode_file_buffer_write_overflow e' then status_or CDROM_STATUS_ERROR s
               else if ode_file_buffer_write_idx e' > 0 then
                 (let n = min (unat (ode_file_buffer_write_idx e')) REQSIZE
                  in on_ode (\<lambda>e. e\<lparr>ode_file_buffer := store_bytes (ode_file_buffer e) 0 (take n (ode_file_buffer_write_data e))\<rparr>) s)
               else s)
      in ode_status (cmd_byte 0 s) [] (ode_file_buffer_write_reset s))"

definition ode_read_file_buffer :: "'h drive \<Rightarrow> 'h drive" where
  "ode_read_file_buffer s =
     (let s = ode_file_buffer_write_reset s in ode_data_response (cmd_byte 0 s) (ode_file_buffer (ODE s)) s)"

definition ode_extended_id :: "'h drive \<Rightarrow> 'h drive" where
  "ode_extended_id s =
     ode_status (cmd_byte 0 s) [0x01, 0x4C, 0x4F, 0x43, 0x4F, 0x44, 0x45, 1, 1, 0] s"

definition ode_read_description :: "'h drive \<Rightarrow> 'h drive" where
  "ode_read_description s = ode_status (cmd_byte 0 s) [] s"

definition ode_clear_playlist :: "'h drive \<Rightarrow> 'h drive" where
  "ode_clear_playlist s = ode_status (cmd_byte 0 s) [] (ode_playlist_clear s)"

definition ode_close_file_cmd :: "'h drive \<Rightarrow> 'h drive" where
  "ode_close_file_cmd s = ode_status (cmd_byte 0 s) [] (ode_file_close s)"

definition ode_start_update :: "'h drive \<Rightarrow> 'h drive" where
  "ode_start_update s = ode_status (cmd_byte 0 s) [] s"

end
