(* ===== verification/Opera_Cdrom_Cmd.thy ===== *)
theory Opera_Cdrom_Cmd
  imports Opera_Cdrom_Ode
begin

text \<open>
  The drive's resets, its commands, its FIFOs and its poll register, from
  \<open>src/libopera/opera_cdrom.c\<close>. A command is run when its seventh byte arrives, an abort at once.
\<close>

section \<open>Resets\<close>

text \<open>\<open>memset(cd_,0,sizeof(*cd_))\<close>.\<close>

definition no_disc :: disc_data where
  "no_disc = \<lparr>msf_total = no_msf, msf_current = no_msf, msf_session = no_msf, session_valid = 0, track_first = 0,
     track_last = 0, disc_id = 0, disc_toc = replicate 100 no_toc\<rparr>"

definition no_callbacks :: "'h cdrom_callbacks" where
  "no_callbacks = \<lparr>get_size = None, set_sector = None, read_sector = None, get_toc = None\<rparr>"

definition no_device :: "'h cdrom_device" where
  "no_device = \<lparr>cd_poll = 0, cd_xbus_status = 0, cd_status_len = 0, cd_status = replicate 256 0, cd_read_sector_size = 0,
     cd_data_len = 0, cd_data_idx = 0, cd_data = replicate 2449 0, cd_blocks_requested = 0, cd_cmd = replicate 7 0,
     cd_cmd_idx = 0, cd_STATCYC = 0, cd_MEI_status = 0, cd_current_sector = 0, cd_mode = no_mode, cd_disc = no_disc,
     cd_callbacks = no_callbacks\<rparr>"

definition opera_cdrom_restore_callbacks :: "'h drive \<Rightarrow> 'h drive" where
  "opera_cdrom_restore_callbacks s =
     (let s = on_cd (\<lambda>c. c\<lparr>cd_callbacks := g_CDROM_CALLBACKS s\<rparr>) s
      in call_set_sector (cd_current_sector (CD s)) s)"

definition opera_cdrom_init :: "'h drive \<Rightarrow> 'h drive" where
  "opera_cdrom_init s =
     (let pending = ode_str_copy PATH_MAX_LENGTH (ode_pending_launch_path (ODE s));
          preserve = (ode_restart_armed (ODE s) \<or> ode_restart_requested (ODE s)) \<and> ode_pending_launch_path (ODE s) \<noteq> [];
          s = opera_cdrom_restore_callbacks (on_cd (\<lambda>_. no_device) s);
          s = on_cd (\<lambda>c. c\<lparr>cd_poll := POLRE\<rparr>) s;
          s = cdrom_media_status_refresh (cdrom_mode_reset s);
          s = on_cd (\<lambda>c. c\<lparr>cd_MEI_status := 0x00\<rparr>) s;
          s = ode_reset_session (opera_cdrom_update_disc_layout s);
          s = (if preserve then on_ode (\<lambda>e. e\<lparr>ode_pending_launch_path := ode_str_copy PATH_MAX_LENGTH pending,
                  ode_restart_requested := True\<rparr>) s else s);
          s = cdrom_data_reset_readahead_state s
      in on_cd (\<lambda>c. c\<lparr>cd_STATCYC := STATDELAY\<rparr>) s)"

definition opera_cdrom_media_load :: "'h drive \<Rightarrow> 'h drive" where
  "opera_cdrom_media_load s =
     (let s = on_cd (\<lambda>c. c\<lparr>cd_current_sector := 0, cd_MEI_status := 0x00\<rparr>) (cdrom_fifo_reset s);
          s = ode_reset_session (opera_cdrom_update_disc_layout (cdrom_media_status_refresh s));
          s = cdrom_media_access_latch (call_set_sector 0 s)
      in on_cd (\<lambda>c. c\<lparr>cd_STATCYC := STATDELAY\<rparr>) s)"

definition opera_cdrom_media_eject :: "'h drive \<Rightarrow> 'h drive" where
  "opera_cdrom_media_eject s =
     (let s = on_cd (\<lambda>c. c\<lparr>cd_current_sector := 0, cd_MEI_status := 0x00, cd_xbus_status := CDROM_STATUS_READY,
            cd_disc := no_disc\<rparr>) (cdrom_fifo_reset s);
          s = call_set_sector 0 (ode_reset_session s)
      in on_cd (\<lambda>c. c\<lparr>cd_STATCYC := STATDELAY\<rparr>) s)"

definition cdrom_device_local_reset :: "'h drive \<Rightarrow> 'h drive" where
  "cdrom_device_local_reset s =
     (let s = on_cd (\<lambda>c. c\<lparr>cd_current_sector := 0, cd_MEI_status := 0x00\<rparr>) (cdrom_fifo_reset s);
          s = status_clr CDROM_STATUS_ERROR (status_or CDROM_STATUS_READY s);
          s = on_disc (\<lambda>d. d\<lparr>msf_current := LBA2MSF 0\<rparr>) (cdrom_mode_reset s);
          s = on_ode (\<lambda>e. e\<lparr>ode_restart_armed := False,
                ode_pending_launch_path := (if ode_restart_requested e then ode_pending_launch_path e else [])\<rparr>) s;
          s = call_set_sector 0 s
      in on_cd (\<lambda>c. c\<lparr>cd_STATCYC := STATDELAY\<rparr>) s)"

section \<open>Media checks\<close>

abbreviation (input) MEI_CDROM_no_error :: u32 where "MEI_CDROM_no_error \<equiv> 0x00"
abbreviation (input) MEI_CDROM_not_ready :: u32 where "MEI_CDROM_not_ready \<equiv> 0x03"
abbreviation (input) MEI_CDROM_track_error :: u32 where "MEI_CDROM_track_error \<equiv> 0x07"
abbreviation (input) MEI_CDROM_address_error :: u32 where "MEI_CDROM_address_error \<equiv> 0x0D"
abbreviation (input) MEI_CDROM_cdb_error :: u32 where "MEI_CDROM_cdb_error \<equiv> 0x0E"
abbreviation (input) MEI_CDROM_end_address :: u32 where "MEI_CDROM_end_address \<equiv> 0x0F"
abbreviation (input) MEI_CDROM_mode_error :: u32 where "MEI_CDROM_mode_error \<equiv> 0x10"
abbreviation (input) MEI_CDROM_disc_out :: u32 where "MEI_CDROM_disc_out \<equiv> 0x15"
abbreviation (input) MEI_CDROM_illegal_request :: u32 where "MEI_CDROM_illegal_request \<equiv> 0x17"

definition has_status :: "u8 \<Rightarrow> 'h drive \<Rightarrow> bool" where
  "has_status w s \<longleftrightarrow> cd_xbus_status (CD s) AND w \<noteq> 0"

text \<open>The second argument says whether the disc has to spin.\<close>

definition cdrom_media_error :: "bool \<Rightarrow> 'h drive \<Rightarrow> u32" where
  "cdrom_media_error spin s =
     (if \<not> has_status CDROM_STATUS_DOOR s \<or> \<not> has_status CDROM_STATUS_DISC_IN s then MEI_CDROM_disc_out
      else if spin \<and> \<not> has_status CDROM_STATUS_SPIN_UP s then MEI_CDROM_not_ready
      else MEI_CDROM_no_error)"

definition cdrom_media_ready :: "bool \<Rightarrow> 'h drive \<Rightarrow> bool" where
  "cdrom_media_ready spin s \<longleftrightarrow> cdrom_media_error spin s = MEI_CDROM_no_error"

definition cdrom_status_media_error :: "u8 \<Rightarrow> bool \<Rightarrow> 'h drive \<Rightarrow> 'h drive" where
  "cdrom_status_media_error opcode spin s =
     (let mei = cdrom_media_error spin s; mei = (if mei = MEI_CDROM_no_error then MEI_CDROM_not_ready else mei)
      in cdrom_status_tagged_error opcode mei s)"

definition disc_in :: "'h drive \<Rightarrow> bool" where
  "disc_in s \<longleftrightarrow> has_status CDROM_STATUS_DOOR s \<and> has_status CDROM_STATUS_DISC_IN s"

definition disc_spinning :: "'h drive \<Rightarrow> bool" where
  "disc_spinning s \<longleftrightarrow> disc_in s \<and> has_status CDROM_STATUS_SPIN_UP s"

text \<open>The common ending \<open>xbus_status |= READY; cdrom_status_tagged(...,no_error)\<close>.\<close>

definition ready_status :: "u8 \<Rightarrow> u8 list \<Rightarrow> 'h drive \<Rightarrow> 'h drive" where
  "ready_status opcode payload s = cdrom_status_tagged opcode payload MEI_CDROM_no_error (status_or CDROM_STATUS_READY s)"

text \<open>The two bytes some commands store without the tagged packet.\<close>

definition short_status :: "u8 \<Rightarrow> 'h drive \<Rightarrow> 'h drive" where
  "short_status opcode = on_cd (\<lambda>c. c\<lparr>cd_status_len := 2, cd_status := store_bytes (cd_status c) 0 [opcode, cd_xbus_status c]\<rparr>)"

section \<open>Commands\<close>

definition cdrom_cmd_seek :: "'h drive \<Rightarrow> 'h drive" where
  "cdrom_cmd_seek = cdrom_status_tagged_error 0x01 MEI_CDROM_illegal_request"

definition cdrom_cmd_spin_up :: "'h drive \<Rightarrow> 'h drive" where
  "cdrom_cmd_spin_up s =
     (if cdrom_media_ready False s then ready_status 0x02 [] (status_or CDROM_STATUS_SPIN_UP s)
      else cdrom_status_media_error 0x02 False s)"

definition cdrom_cmd_spin_down :: "'h drive \<Rightarrow> 'h drive" where
  "cdrom_cmd_spin_down s =
     (if cdrom_media_ready False s then ready_status 0x03 [] (status_clr CDROM_STATUS_SPIN_UP s)
      else cdrom_status_media_error 0x03 False s)"

definition cdrom_cmd_diagnostics :: "'h drive \<Rightarrow> 'h drive" where
  "cdrom_cmd_diagnostics = cdrom_status_tagged_error 0x04 MEI_CDROM_illegal_request"

definition cdrom_cmd_eject_disc :: "'h drive \<Rightarrow> 'h drive" where
  "cdrom_cmd_eject_disc s =
     (let s = status_or CDROM_STATUS_READY (cdrom_data_clear_transfer s);
          s = status_clr CDROM_STATUS_DOOR s; s = status_clr CDROM_STATUS_DISC_IN s;
          s = status_clr CDROM_STATUS_SPIN_UP s; s = status_clr CDROM_STATUS_DOUBLE_SPEED s;
          s = status_clr CDROM_STATUS_ERROR s;
          s = on_cd (\<lambda>c. c\<lparr>cd_MEI_status := MEI_CDROM_no_error\<rparr>) s
      in poll_or POLST (short_status 0x06 s))"

definition cdrom_cmd_inject_disc :: "'h drive \<Rightarrow> 'h drive" where
  "cdrom_cmd_inject_disc s =
     (let s = status_or disc_inserted (cdrom_data_clear_transfer s);
          s = cdrom_mode_apply_drive_speed (status_clr CDROM_STATUS_ERROR s);
          s = on_cd (\<lambda>c. c\<lparr>cd_MEI_status := MEI_CDROM_no_error\<rparr>) s;
          s = short_status 0x07 (opera_cdrom_update_disc_layout s)
      in cdrom_media_access_latch (poll_or POLST s))"

definition cdrom_cmd_abort :: "'h drive \<Rightarrow> 'h drive" where
  "cdrom_cmd_abort s =
     cdrom_status_tagged_padded 0x08 31 MEI_CDROM_no_error
       (status_clr CDROM_STATUS_ERROR (status_or CDROM_STATUS_READY (cdrom_data_clear_transfer s)))"

definition cdrom_cmd_mode_set :: "opera_clock \<Rightarrow> 'h drive \<Rightarrow> 'h drive" where
  "cdrom_cmd_mode_set K s =
     (let preserve = cdrom_mode_set_preserves_transfer s;
          s = (if preserve then s else cdrom_data_clear_transfer s);
          (ok, s) = cdrom_mode_set_page s
      in if ok then ready_status 0x09 [] (if preserve then cdrom_data_preserve_drive_speed_mode_set K s else s)
         else cdrom_status_tagged_error 0x09 MEI_CDROM_mode_error s)"

definition cdrom_cmd_reset :: "'h drive \<Rightarrow> 'h drive" where
  "cdrom_cmd_reset s =
     (let s = status_or CDROM_STATUS_READY (cdrom_mode_reset (cdrom_data_clear_transfer s));
          s = on_cd (\<lambda>c. c\<lparr>cd_MEI_status := MEI_CDROM_no_error\<rparr>) (status_clr CDROM_STATUS_ERROR s)
      in poll_or POLST (short_status 0x0A s))"

definition cdrom_cmd_flush :: "'h drive \<Rightarrow> 'h drive" where
  "cdrom_cmd_flush s =
     cdrom_status_tagged_padded 0x0B 31 MEI_CDROM_no_error
       (status_clr CDROM_STATUS_ERROR (status_or CDROM_STATUS_READY (cdrom_data_clear_transfer s)))"

text \<open>The common part of the two play commands: the clock is started unless there is no disc
  that spins, and the status is sent unless the error already was.\<close>

definition play_status :: "u8 \<Rightarrow> 'h drive \<Rightarrow> 'h drive" where
  "play_status opcode s =
     (if cd_poll (CD s) AND POLST = 0 then cdrom_status_tagged opcode [] (cd_MEI_status (CD s)) s else s)"

definition play_ready :: "'h drive \<Rightarrow> 'h drive" where
  "play_ready s = on_cd (\<lambda>c. c\<lparr>cd_MEI_status := MEI_CDROM_no_error\<rparr>) (status_or CDROM_STATUS_READY s)"

definition play_audio :: "opera_clock \<Rightarrow> u8 \<Rightarrow> u32 \<Rightarrow> u32 \<Rightarrow> 'h drive \<Rightarrow> 'h drive" where
  "play_audio K opcode start_lba end_lba s =
     play_status opcode
       (if disc_spinning s then cdrom_data_audio_clock_start K start_lba end_lba (play_ready s)
        else cdrom_status_media_error opcode True s)"

definition cmd_msf :: "nat \<Rightarrow> 'h drive \<Rightarrow> msf" where
  "cmd_msf i s = \<lparr>minutes = cmd_byte i s, seconds = cmd_byte (i + 1) s, frames = cmd_byte (i + 2) s\<rparr>"

definition cdrom_cmd_play_audio_msf :: "opera_clock \<Rightarrow> 'h drive \<Rightarrow> 'h drive" where
  "cdrom_cmd_play_audio_msf K s =
     (let start_msf = cmd_msf 1 s; end_msf = cmd_msf 4 s;
          end_lba = (if end_msf = \<lparr>minutes = 0xFF, seconds = 0xFF, frames = 0xFF\<rparr> then call_get_size s else MSF2LBA end_msf)
      in if start_msf = no_msf \<and> end_msf = no_msf then
           (let s = (if disc_spinning s then play_ready s else cdrom_status_media_error 0x0E True s)
            in play_status 0x0E (cdrom_data_audio_clock_stop K s))
         else play_audio K 0x0E (MSF2LBA start_msf) end_lba s)"

text \<open>The table is read at a track the last track bounds; beyond 99 this is outside the array,
  and the list's element is unspecified.\<close>

definition cdrom_cmd_play_audio_track :: "opera_clock \<Rightarrow> 'h drive \<Rightarrow> 'h drive" where
  "cdrom_cmd_play_audio_track K s =
     (let start_track = cmd_byte 1 s; end_track = cmd_byte 3 s; d = cd_disc (CD s);
          start_lba = (if start_track > 0 \<and> start_track \<le> track_last d
                       then MSF2LBA (toc_msf (disc_toc d ! unat start_track)) else 0);
          end_lba = (if end_track > 0 \<and> end_track < track_last d
                     then MSF2LBA (toc_msf (disc_toc d ! (unat end_track + 1))) else call_get_size s)
      in play_audio K 0x0F start_lba end_lba s)"

text \<open>Reading: the address and the number of blocks from the command, then the read-ahead.\<close>

definition read_data_audio :: "opera_clock \<Rightarrow> bool \<Rightarrow> 'h drive \<Rightarrow> 'h drive" where
  "read_data_audio K continuous s =
     (if cd_read_sector_size (CD s) = CDROM_DA then
        (if \<not> continuous \<or> \<not> audio_clock_active (DATA s)
         then on_data (\<lambda>d. d\<lparr>audio_base_lba := cd_current_sector (CD s), audio_base_cycle := opera_clock_cpu_get_cycles K,
                audio_clock_active := True, audio_burst_active := cdrom_audio_read_ahead_sectors \<noteq> 0\<rparr>) s
         else s)
      else on_data (\<lambda>d. d\<lparr>audio_clock_active := False, audio_burst_active := False\<rparr>) s)"

definition read_data_start :: "opera_clock \<Rightarrow> bool \<Rightarrow> 'h drive \<Rightarrow> 'h drive" where
  "read_data_start K continuous s =
     (let s = on_data (\<lambda>d. d\<lparr>read_expected_lba := cd_current_sector (CD s) + cd_blocks_requested (CD s),
            read_have_expected_lba := cd_blocks_requested (CD s) \<noteq> 0\<rparr>) s in
      if cd_blocks_requested (CD s) \<noteq> 0 then
        (let s = on_cd (\<lambda>c. c\<lparr>cd_data_len := 0, cd_data_idx := 0\<rparr>) s;
             s = cdrom_data_schedule_start K continuous (on_data (\<lambda>d. d\<lparr>read_status_pending := True\<rparr>) s);
             s = poll_clr POLDT (poll_clr POLST s)
         in if cd_read_sector_size (CD s) \<noteq> CDROM_DA then cdrom_data_load_next_if_ready K s else s)
      else poll_or POLST (on_cd (\<lambda>c. c\<lparr>cd_data_len := 0, cd_status_len := 2\<rparr>) s))"

definition cdrom_cmd_read_data :: "opera_clock \<Rightarrow> 'h drive \<Rightarrow> 'h drive" where
  "cdrom_cmd_read_data K s =
     (if \<not> disc_spinning s then cdrom_status_media_error 0x10 True s
      else
        (let s = short_status 0x10 (status_or CDROM_STATUS_READY s);
             s = on_disc (\<lambda>d. d\<lparr>msf_current := cmd_msf 1 s\<rparr>) s in
         if \<not> cdrom_msf_valid (msf_current (cd_disc (CD s)))
         then cdrom_status_tagged_error 0x10 MEI_CDROM_address_error (cdrom_data_clear_transfer s)
         else
           (let s = on_cd (\<lambda>c. c\<lparr>cd_current_sector := MSF2LBA (msf_current (cd_disc c)),
                  cd_blocks_requested := le4 (cmd_byte 6 s) (cmd_byte 5 s) (cmd_byte 4 s) 0\<rparr>) s;
                blocks = cd_blocks_requested (CD s); lba = cd_current_sector (CD s); disc_blocks = call_get_size s in
            if blocks \<noteq> 0 \<and> (lba \<ge> disc_blocks \<or> blocks > disc_blocks - lba)
            then cdrom_status_tagged_error 0x10 MEI_CDROM_end_address (cdrom_data_clear_transfer s)
            else
              (let expected = read_have_expected_lba (DATA s);
                   continuous = cd_read_sector_size (CD s) = CDROM_DA \<and> expected \<and> lba = read_expected_lba (DATA s);
                   reset = \<not> continuous \<and>
                     (expected \<or> audio_clock_active (DATA s) \<or> cd_data_len (CD s) > 0 \<or> cd_poll (CD s) AND POLDT \<noteq> 0);
                   s = (if reset then cdrom_data_abort_readahead s else s);
                   s = read_data_start K continuous (read_data_audio K continuous s)
               in on_cd (\<lambda>c. c\<lparr>cd_MEI_status := MEI_CDROM_no_error\<rparr>) s))))"

definition cdrom_cmd_data_path_check :: "'h drive \<Rightarrow> 'h drive" where
  "cdrom_cmd_data_path_check s =
     (let s = status_or CDROM_STATUS_READY s;
          s = on_cd (\<lambda>c. c\<lparr>cd_status_len := 4, cd_status := store_bytes (cd_status c) 0 [0x80, 0xAA, 0x55, cd_xbus_status c],
                cd_MEI_status := MEI_CDROM_no_error\<rparr>) s
      in poll_or POLST s)"

definition cdrom_cmd_get_last_status :: "'h drive \<Rightarrow> 'h drive" where
  "cdrom_cmd_get_last_status s =
     (let mei = cd_MEI_status (CD s);
          s = cdrom_status_tagged 0x82 (replicate 8 (ucast mei)) mei (status_or CDROM_STATUS_READY s)
      in on_cd (\<lambda>c. c\<lparr>cd_MEI_status := MEI_CDROM_no_error\<rparr>) s)"

text \<open>\<open>g_CDROM_PERSONA\<close>'s identity: five words of 16 bits.\<close>

definition cdrom_persona_read_id_payload :: "u8 list" where
  "cdrom_persona_read_id_payload = concat (map (\<lambda>w. [byte_of 1 w, byte_of 0 w]) [0x0010 :: u16, 0x0001, 0, 0, 0])"

definition cdrom_cmd_read_id :: "'h drive \<Rightarrow> 'h drive" where
  "cdrom_cmd_read_id = ready_status 0x83 cdrom_persona_read_id_payload"

definition cdrom_cmd_mode_sense :: "'h drive \<Rightarrow> 'h drive" where
  "cdrom_cmd_mode_sense s =
     (if disc_in s then ready_status 0x84 (cdrom_mode_sense_payload s) s else cdrom_status_media_error 0x84 False s)"

definition cdrom_cmd_read_capacity :: "'h drive \<Rightarrow> 'h drive" where
  "cdrom_cmd_read_capacity s =
     (if disc_spinning s then
        (let t = msf_total (cd_disc (CD s)) in ready_status 0x85 [0, minutes t, seconds t, frames t, 0x00, 0x00] s)
      else cdrom_status_media_error 0x85 True s)"

definition cdrom_cmd_read_header :: "'h drive \<Rightarrow> 'h drive" where
  "cdrom_cmd_read_header = cdrom_status_tagged_error 0x86 MEI_CDROM_illegal_request"

definition to_bcd :: "u8 \<Rightarrow> u8" where
  "to_bcd t = (if t < 100 then push_bit 4 (t div 10) OR t mod 10 else t)"

definition swap_nibbles :: "u8 \<Rightarrow> u8" where
  "swap_nibbles c = (push_bit 4 c AND 0xF0) OR (drop_bit 4 c AND 0x0F)"

definition cdrom_cmd_read_subq :: "opera_clock \<Rightarrow> 'h drive \<Rightarrow> 'h drive" where
  "cdrom_cmd_read_subq K s =
     (if \<not> disc_spinning s then cdrom_status_media_error 0x87 True s
      else
        (let lba = cdrom_data_audio_position_lba K (opera_clock_cpu_get_cycles K) s in
         case cdrom_track_for_lba (cd_disc (CD s)) lba of
           None \<Rightarrow> cdrom_status_tagged_error 0x87 MEI_CDROM_track_error s
         | Some (i, start) \<Rightarrow>
             (let (index_bcd, rel_lba) = (if lba < start then (0x00, start - lba) else (0x01, lba - start));
                  a = LBA2MSF lba; r = FRAMES2MSF rel_lba; t = disc_toc (cd_disc (CD s)) ! i
              in ready_status 0x87 [0x00, swap_nibbles (CDCTL t), to_bcd (track_number t), index_bcd,
                   minutes a, seconds a, frames a, minutes r, seconds r, frames r] s)))"

definition cdrom_cmd_read_upc :: "'h drive \<Rightarrow> 'h drive" where
  "cdrom_cmd_read_upc = cdrom_status_tagged_error 0x88 MEI_CDROM_illegal_request"

definition cdrom_cmd_read_isrc :: "'h drive \<Rightarrow> 'h drive" where
  "cdrom_cmd_read_isrc = cdrom_status_tagged_error 0x89 MEI_CDROM_illegal_request"

definition cdrom_cmd_read_disc_code :: "'h drive \<Rightarrow> 'h drive" where
  "cdrom_cmd_read_disc_code s =
     (if disc_spinning s then ready_status 0x8A (replicate 10 0) s else cdrom_status_media_error 0x8A True s)"

definition cdrom_cmd_read_disc_info :: "'h drive \<Rightarrow> 'h drive" where
  "cdrom_cmd_read_disc_info s =
     (if disc_spinning s then
        (let d = cd_disc (CD s); t = msf_total d
         in ready_status 0x8B [disc_id d, track_first d, track_last d, minutes t, seconds t, frames t] s)
      else cdrom_status_media_error 0x8B True s)"

definition leadout :: "disc_data \<Rightarrow> toc_entry" where
  "leadout d =
     (let l = disc_toc d ! unat (track_last d);
          control = (if cdrom_toc_track_in_range (ucast (track_last d)) \<and> cdrom_toc_entry_valid (ucast (track_last d)) l
                     then cdrom_toc_position_control (CDCTL l) else 0x14)
      in no_toc\<lparr>CDCTL := control, track_number := 0xAA, toc_minutes := minutes (msf_total d),
           toc_seconds := seconds (msf_total d), toc_frames := frames (msf_total d)\<rparr>)"

definition requested_toc :: "u8 \<Rightarrow> disc_data \<Rightarrow> toc_entry option" where
  "requested_toc n d =
     (if n = 0xAA then Some (leadout d)
      else if n \<ge> track_first d \<and> n \<le> track_last d \<and> n < 100 \<and> cdrom_toc_entry_valid (ucast n) (disc_toc d ! unat n)
      then Some (disc_toc d ! unat n)
      else None)"

definition cdrom_cmd_read_toc :: "'h drive \<Rightarrow> 'h drive" where
  "cdrom_cmd_read_toc s =
     (if \<not> disc_spinning s then cdrom_status_media_error 0x8C True s
      else
        (case requested_toc (cmd_byte 2 s) (cd_disc (CD s)) of
           None \<Rightarrow> cdrom_status_tagged_error 0x8C MEI_CDROM_track_error s
         | Some t \<Rightarrow>
             ready_status 0x8C [res0 t, CDCTL t, track_number t, res1 t, toc_minutes t, toc_seconds t, toc_frames t, res2 t] s))"

definition cdrom_cmd_read_session_info :: "'h drive \<Rightarrow> 'h drive" where
  "cdrom_cmd_read_session_info s =
     (if disc_in s then
        (let d = cd_disc (CD s); m = msf_session d
         in ready_status 0x8D (if session_valid d \<noteq> 0 then [0x80, minutes m, seconds m, frames m, 0, 0] else [0, 0, 0, 0, 0, 0]) s)
      else cdrom_status_media_error 0x8D False s)"

definition cdrom_cmd_read_device_driver :: "'h drive \<Rightarrow> 'h drive" where
  "cdrom_cmd_read_device_driver = cdrom_status_tagged_error 0x8E MEI_CDROM_illegal_request"

definition cdrom_cmd_unhandled :: "'h drive \<Rightarrow> 'h drive" where
  "cdrom_cmd_unhandled s = cdrom_status_tagged_error (cmd_byte 0 s) MEI_CDROM_cdb_error s"

section \<open>Dispatch\<close>

definition cdrom_cmd_is_ode :: "u8 \<Rightarrow> bool" where
  "cdrom_cmd_is_ode c \<longleftrightarrow> c \<in> {0x93, 0xC0, 0xC1, 0xC2, 0xC3, 0xC4, 0xC5, 0xD1, 0xE0, 0xE1, 0xE2, 0xE3, 0xE4, 0xE5, 0xE6,
     0xE7, 0xE8, 0xF0}"

definition cdrom_dispatch :: "opera_clock \<Rightarrow> u8 \<Rightarrow> 'h drive \<Rightarrow> 'h drive" where
  "cdrom_dispatch K c s =
     (if c = 0x01 then cdrom_cmd_seek s else if c = 0x02 then cdrom_cmd_spin_up s
      else if c = 0x03 then cdrom_cmd_spin_down s else if c = 0x04 then cdrom_cmd_diagnostics s
      else if c = 0x06 then cdrom_cmd_eject_disc s else if c = 0x07 then cdrom_cmd_inject_disc s
      else if c = 0x08 then cdrom_cmd_abort s else if c = 0x09 then cdrom_cmd_mode_set K s
      else if c = 0x0A then cdrom_cmd_reset s else if c = 0x0B then cdrom_cmd_flush s
      else if c = 0x0E then cdrom_cmd_play_audio_msf K s else if c = 0x0F then cdrom_cmd_play_audio_track K s
      else if c = 0x10 then cdrom_cmd_read_data K s else if c = 0x80 then cdrom_cmd_data_path_check s
      else if c = 0x82 then cdrom_cmd_get_last_status s else if c = 0x83 then cdrom_cmd_read_id s
      else if c = 0x84 then cdrom_cmd_mode_sense s else if c = 0x85 then cdrom_cmd_read_capacity s
      else if c = 0x86 then cdrom_cmd_read_header s else if c = 0x87 then cdrom_cmd_read_subq K s
      else if c = 0x88 then cdrom_cmd_read_upc s else if c = 0x89 then cdrom_cmd_read_isrc s
      else if c = 0x8A then cdrom_cmd_read_disc_code s else if c = 0x8B then cdrom_cmd_read_disc_info s
      else if c = 0x8C then cdrom_cmd_read_toc s else if c = 0x8D then cdrom_cmd_read_session_info s
      else if c = 0x8E then cdrom_cmd_read_device_driver s
      else if c = 0x93 then ode_extended_id s else if c = 0xC0 then ode_change_toc s
      else if c = 0xC1 then ode_read_toc_window s else if c = 0xC2 then ode_read_description s
      else if c = 0xC3 then ode_clear_playlist s else if c = 0xC4 then ode_add_playlist s
      else if c = 0xC5 then ode_launch_playlist s else if c = 0xD1 then ode_read_toc_list s
      else if c = 0xE0 then ode_create_file s else if c = 0xE1 then ode_open_file s
      else if c = 0xE2 then ode_seek_file s else if c = 0xE3 then ode_read_file s
      else if c = 0xE4 then ode_write_file s else if c = 0xE5 then ode_close_file_cmd s
      else if c = 0xE6 then ode_write_buffer_word s else if c = 0xE7 then ode_read_file_buffer s
      else if c = 0xE8 then ode_fast_buffer_send s else if c = 0xF0 then ode_start_update s
      else cdrom_cmd_unhandled s)"

definition opera_cdrom_do_cmd :: "opera_clock \<Rightarrow> 'h drive \<Rightarrow> 'h drive" where
  "opera_cdrom_do_cmd K s =
     (if cd_poll (CD s) AND POLREMASK \<noteq> 0 then s
      else
        (let s = poll_clr POLDT (poll_clr POLST (on_cd (\<lambda>c. c\<lparr>cd_status_len := 0\<rparr>) s));
             s = status_clr CDROM_STATUS_READY (status_clr CDROM_STATUS_ERROR s);
             c = cmd_byte 0 s;
             s = (if cdrom_cmd_is_ode c then on_ode (\<lambda>e. e\<lparr>ode_savestate_blocked := True\<rparr>) s else s)
         in cdrom_dispatch K c s))"

section \<open>FIFOs and poll\<close>

definition cdrom_drain_pending_status :: "'h drive \<Rightarrow> 'h drive" where
  "cdrom_drain_pending_status s =
     (if cd_status_len (CD s) = 0 \<and> cd_poll (CD s) AND POLST = 0 then ode_complete_restart_if_armed s
      else poll_clr POLST (on_cd (\<lambda>c. c\<lparr>cd_status_len := 0\<rparr>) (ode_complete_restart_if_armed s)))"

definition opera_cdrom_send_cmd :: "opera_clock \<Rightarrow> u8 \<Rightarrow> 'h drive \<Rightarrow> 'h drive" where
  "opera_cdrom_send_cmd K val s =
     (if cd_poll (CD s) AND POLREMASK \<noteq> 0 then s
      else
        (let s = (if cd_cmd_idx (CD s) = 0 then cdrom_drain_pending_status (ode_file_buffer_write_reset s) else s);
             s = (if cd_cmd_idx (CD s) < 7
                  then on_cd (\<lambda>c. c\<lparr>cd_cmd := (cd_cmd c)[unat (cd_cmd_idx c) := val], cd_cmd_idx := cd_cmd_idx c + 1\<rparr>) s else s)
         in if cd_cmd_idx (CD s) \<ge> 7 \<or> cmd_byte 0 s = 0x08
            then on_cd (\<lambda>c. c\<lparr>cd_cmd_idx := 0\<rparr>) (opera_cdrom_do_cmd K s) else s))"

definition opera_cdrom_fifo_get_status :: "opera_clock \<Rightarrow> 'h drive \<Rightarrow> u8 \<times> 'h drive" where
  "opera_cdrom_fifo_get_status K s =
     (if cd_poll (CD s) AND POLREMASK \<noteq> 0 then (0, s)
      else
        (let s = cdrom_data_load_next_if_ready K s in
         if cd_status_len (CD s) > 0 then
           (let rv = cd_status (CD s) ! 0;
                s = on_cd (\<lambda>c. c\<lparr>cd_status_len := cd_status_len c - 1\<rparr>) s
            in (rv, if cd_status_len (CD s) > 0
                    then on_cd (\<lambda>c. c\<lparr>cd_status := store_bytes (cd_status c) 0 (take (unat (cd_status_len c)) (drop 1 (cd_status c)))\<rparr>) s
                    else ode_complete_restart_if_armed (poll_clr POLST s)))
         else (0, s)))"

definition opera_cdrom_update_fiq :: "opera_clock \<Rightarrow> 'h drive \<Rightarrow> bool \<times> 'h drive" where
  "opera_cdrom_update_fiq K s =
     (let s = cdrom_data_load_next_if_ready K s; p = cd_poll (CD s)
      in (p AND POLST \<noteq> 0 \<and> p AND POLSTMASK \<noteq> 0 \<or> p AND POLDT \<noteq> 0 \<and> p AND POLDTMASK \<noteq> 0 \<or>
          p AND POLMA \<noteq> 0 \<and> p AND POLMAMASK \<noteq> 0, s))"

definition opera_cdrom_set_poll :: "u32 \<Rightarrow> 'h drive \<Rightarrow> 'h drive" where
  "opera_cdrom_set_poll val s =
     (let control_bits = ucast val AND (CDROM_POLL_INTEN_MASK OR POLREMASK);
          reset_was_asserted = cd_poll (CD s) AND POLREMASK \<noteq> 0;
          s = (if \<not> reset_was_asserted \<and> control_bits AND POLREMASK \<noteq> 0 then cdrom_device_local_reset s else s);
          s = (if val AND ucast POLRE \<noteq> 0 then poll_clr POLRE s else s);
          s = on_cd (\<lambda>c. c\<lparr>cd_poll := (cd_poll c AND 0xF0) OR control_bits\<rparr>) s
      in if reset_was_asserted \<and> control_bits AND POLREMASK = 0 then cdrom_media_access_latch s else s)"

definition opera_cdrom_fifo_set_data :: "u8 \<Rightarrow> 'h drive \<Rightarrow> 'h drive" where
  "opera_cdrom_fifo_set_data val s =
     (if cd_poll (CD s) AND POLREMASK \<noteq> 0 then s
      else
        (let s = on_ode (\<lambda>e. if unat (ode_file_buffer_write_idx e) < REQSIZE
                 then e\<lparr>ode_file_buffer_write_data := (ode_file_buffer_write_data e)[unat (ode_file_buffer_write_idx e) := val]\<rparr>
                 else e\<lparr>ode_file_buffer_write_overflow := True\<rparr>) s
         in on_ode (\<lambda>e. if ode_file_buffer_write_idx e < UINT32_MAX
                 then e\<lparr>ode_file_buffer_write_idx := ode_file_buffer_write_idx e + 1\<rparr> else e) s))"

text \<open>What follows the last byte of a sector.\<close>

definition data_drained :: "opera_clock \<Rightarrow> 'h drive \<Rightarrow> 'h drive" where
  "data_drained K s =
     (let s = on_data (\<lambda>d. d\<lparr>sectors_drained := sectors_drained d + 1\<rparr>) (on_cd (\<lambda>c. c\<lparr>cd_data_idx := 0\<rparr>) s) in
      if cd_blocks_requested (CD s) \<noteq> 0 then cdrom_data_load_next_if_ready K s
      else cdrom_data_publish_read_status_if_ready
             (on_cd (\<lambda>c. c\<lparr>cd_blocks_requested := 0, cd_data_len := 0, cd_data_idx := 0\<rparr>) (poll_clr POLDT s)))"

definition opera_cdrom_fifo_get_data :: "opera_clock \<Rightarrow> 'h drive \<Rightarrow> u8 \<times> 'h drive" where
  "opera_cdrom_fifo_get_data K s =
     (if cd_poll (CD s) AND POLREMASK \<noteq> 0 then (0, s)
      else
        (let s = cdrom_data_load_next_if_ready K s in
         if cd_data_len (CD s) > 0 then
           (let rv = cd_data (CD s) ! unat (cd_data_idx (CD s));
                s = on_cd (\<lambda>c. c\<lparr>cd_data_idx := cd_data_idx c + 1, cd_data_len := cd_data_len c - 1\<rparr>) s
            in (rv, if cd_data_len (CD s) = 0 then data_drained K s else s))
         else (0, on_data (\<lambda>d. d\<lparr>empty_reads := empty_reads d + 1\<rparr>) s)))"

end
