(* ===== verification/Opera_Cdrom_State.thy ===== *)
theory Opera_Cdrom_State
  imports Opera_Cdrom_Cmd Opera_Xbus
begin

text \<open>
  The drive's saved state in \<open>src/libopera/opera_cdrom.c\<close>, its three formats and the dry run, and the
  drive as a device of the expansion bus, \<open>src/libopera/opera_xbus_cdrom_plugin.c\<close>. The saved
  structure \<open>cdrom_device_state_v2_s\<close> is the device without its callbacks, and \<open>cdrom_data_state_v2_s\<close> has the
  runtime structure's fields with its two cycle numbers counted from the moment of saving. The two
  older formats are images of structures, laid out as a host with pointers of 64 bits does.
\<close>

section \<open>The saved structures\<close>

definition cdrom_state_v2_device_save :: "'h cdrom_device \<Rightarrow> cdrom_device_state" where
  "cdrom_state_v2_device_save c = cdrom_device_state.truncate c"

text \<open>The checks stand between the fields; a state that fails one leaves those before it.\<close>

definition cdrom_state_v2_device_load :: "cdrom_device_state \<Rightarrow> bool \<times> 'h cdrom_device" where
  "cdrom_state_v2_device_load x =
     (let c = no_device\<lparr>cd_poll := cd_poll x, cd_xbus_status := cd_xbus_status x, cd_status_len := cd_status_len x\<rparr> in
      if unat (cd_status_len c) > 256 then (False, c)
      else
        (let c = c\<lparr>cd_status := cd_status x, cd_read_sector_size := cd_read_sector_size x\<rparr> in
         if cd_read_sector_size c > CDROM_MAX_SECTOR_SIZE then (False, c)
         else
           (let c = c\<lparr>cd_data_len := cd_data_len x, cd_data_idx := cd_data_idx x\<rparr> in
            if cd_data_idx c > 2449 \<or> cd_data_len c > 2449 - cd_data_idx c then (False, c)
            else
              (let c = c\<lparr>cd_data := cd_data x, cd_blocks_requested := cd_blocks_requested x, cd_cmd := cd_cmd x,
                     cd_cmd_idx := cd_cmd_idx x\<rparr> in
               if cd_cmd_idx c > 7 then (False, c)
               else
                 (True, c\<lparr>cd_STATCYC := cd_STATCYC x, cd_MEI_status := cd_MEI_status x,
                    cd_current_sector := cd_current_sector x, cd_mode := cd_mode x, cd_disc := cd_disc x\<rparr>)))))"

definition cdrom_state_v2_cycles_remaining :: "u64 \<Rightarrow> u64 \<Rightarrow> u64" where
  "cdrom_state_v2_cycles_remaining target now = (if target \<le> now then 0 else target - now)"

definition cdrom_state_v2_cycle_age :: "u64 \<Rightarrow> u64 \<Rightarrow> u64" where
  "cdrom_state_v2_cycle_age base now = (if base \<ge> now then 0 else now - base)"

definition cdrom_state_v2_cycles_after :: "u64 \<Rightarrow> u64 \<Rightarrow> u64" where
  "cdrom_state_v2_cycles_after now delta = (if delta > 0xFFFFFFFFFFFFFFFF - now then 0xFFFFFFFFFFFFFFFF else now + delta)"

definition cdrom_state_v2_cycles_before :: "u64 \<Rightarrow> u64 \<Rightarrow> u64" where
  "cdrom_state_v2_cycles_before now age = (if age > now then 0 else now - age)"

definition cdrom_state_v2_data_save :: "opera_clock \<Rightarrow> cdrom_data \<Rightarrow> cdrom_data" where
  "cdrom_state_v2_data_save K d =
     (let now = opera_clock_cpu_get_cycles K
      in d\<lparr>next_ready_cycle := cdrom_state_v2_cycles_remaining (next_ready_cycle d) now,
           audio_base_cycle := cdrom_state_v2_cycle_age (audio_base_cycle d) now\<rparr>)"

definition cdrom_state_v2_data_load :: "opera_clock \<Rightarrow> cdrom_data \<Rightarrow> cdrom_data" where
  "cdrom_state_v2_data_load K x =
     (let now = opera_clock_cpu_get_cycles K
      in x\<lparr>next_ready_cycle := (if next_ready_cycle x = 0 then 0 else cdrom_state_v2_cycles_after now (next_ready_cycle x)),
           audio_base_cycle := cdrom_state_v2_cycles_before now (audio_base_cycle x)\<rparr>)"

section \<open>Writer\<close>

definition cdrom_state_v2_write_msf :: "msf \<Rightarrow> state_writer \<Rightarrow> bool \<times> state_writer" where
  "cdrom_state_v2_write_msf m =
     w_and (opera_state_write_u8 (minutes m)) (w_and (opera_state_write_u8 (seconds m)) (opera_state_write_u8 (frames m)))"

definition cdrom_state_v2_write_toc_entry :: "toc_entry \<Rightarrow> state_writer \<Rightarrow> bool \<times> state_writer" where
  "cdrom_state_v2_write_toc_entry t =
     w_and (opera_state_write_u8 (res0 t))
     (w_and (opera_state_write_u8 (CDCTL t))
     (w_and (opera_state_write_u8 (track_number t))
     (w_and (opera_state_write_u8 (res1 t))
     (w_and (opera_state_write_u8 (toc_minutes t))
     (w_and (opera_state_write_u8 (toc_seconds t))
     (w_and (opera_state_write_u8 (toc_frames t))
            (opera_state_write_u8 (res2 t))))))))"

primrec write_tocs :: "toc_entry list \<Rightarrow> state_writer \<Rightarrow> bool \<times> state_writer" where
  "write_tocs [] = (\<lambda>w. (True, w))"
| "write_tocs (t # ts) = w_and (cdrom_state_v2_write_toc_entry t) (write_tocs ts)"

definition cdrom_state_v2_write_disc :: "disc_data \<Rightarrow> state_writer \<Rightarrow> bool \<times> state_writer" where
  "cdrom_state_v2_write_disc d =
     w_and (cdrom_state_v2_write_msf (msf_total d))
     (w_and (cdrom_state_v2_write_msf (msf_current d))
     (w_and (cdrom_state_v2_write_msf (msf_session d))
     (w_and (opera_state_write_u8 (session_valid d))
     (w_and (opera_state_write_u8 (track_first d))
     (w_and (opera_state_write_u8 (track_last d))
     (w_and (opera_state_write_u8 (disc_id d))
            (write_tocs (disc_toc d))))))))"

definition cdrom_state_v2_write_mode :: "cdrom_mode \<Rightarrow> state_writer \<Rightarrow> bool \<times> state_writer" where
  "cdrom_state_v2_write_mode m =
     w_and (opera_state_write_u8 (density_code m))
     (w_and (opera_state_write_u8 (length_msb m))
     (w_and (opera_state_write_u8 (length_lsb m))
     (w_and (opera_state_write_u8 (block_flags m))
     (w_and (opera_state_write_u32 (user_block_size m))
     (w_and (opera_state_write_u8 (recovery_type m))
     (w_and (opera_state_write_u8 (retry_count m))
     (w_and (opera_state_write_u8 (stop_time m))
     (w_and (opera_state_write_u8 (drive_speed m))
     (w_and (opera_state_write_u8 (vpitch_msb m))
     (w_and (opera_state_write_u8 (vpitch_lsb m))
            (opera_state_write_u8 (chunk_size m))))))))))))"

definition cdrom_state_v2_write_device :: "cdrom_device_state \<Rightarrow> state_writer \<Rightarrow> bool \<times> state_writer" where
  "cdrom_state_v2_write_device x =
     w_and (opera_state_write_u8 (cd_poll x))
     (w_and (opera_state_write_u8 (cd_xbus_status x))
     (w_and (opera_state_write_u8 (cd_status_len x))
     (w_and (opera_state_write_bytes (Some (cd_status x)) 256)
     (w_and (opera_state_write_u32 (cd_read_sector_size x))
     (w_and (opera_state_write_u32 (cd_data_len x))
     (w_and (opera_state_write_u32 (cd_data_idx x))
     (w_and (opera_state_write_bytes (Some (cd_data x)) CDROM_MAX_SECTOR_SIZE)
     (w_and (opera_state_write_u32 (cd_blocks_requested x))
     (w_and (opera_state_write_bytes (Some (cd_cmd x)) 7)
     (w_and (opera_state_write_u8 (cd_cmd_idx x))
     (w_and (opera_state_write_i8 (cd_STATCYC x))
     (w_and (opera_state_write_u32 (cd_MEI_status x))
     (w_and (opera_state_write_u32 (cd_current_sector x))
     (w_and (cdrom_state_v2_write_mode (cd_mode x))
            (cdrom_state_v2_write_disc (cd_disc x))))))))))))))))"

definition cdrom_state_v2_write_data :: "cdrom_data \<Rightarrow> state_writer \<Rightarrow> bool \<times> state_writer" where
  "cdrom_state_v2_write_data d =
     w_and (opera_state_write_u64 (next_ready_cycle d))
     (w_and (opera_state_write_u32 (sectors_queued d))
     (w_and (opera_state_write_u32 (sectors_drained d))
     (w_and (opera_state_write_u32 (empty_reads d))
     (w_and (opera_state_write_u32 (read_expected_lba d))
     (w_and (opera_state_write_u8 (of_bool (read_have_expected_lba d)))
     (w_and (opera_state_write_u8 (of_bool (audio_burst_active d)))
     (w_and (opera_state_write_u32 (audio_burst_starts d))
     (w_and (opera_state_write_u32 (audio_min_ahead d))
     (w_and (opera_state_write_u32 (audio_max_ahead d))
     (w_and (opera_state_write_u32 (active_lba d))
     (w_and (opera_state_write_u32 (active_bytes d))
     (w_and (opera_state_write_u32 (audio_base_lba d))
     (w_and (opera_state_write_u64 (audio_base_cycle d))
     (w_and (opera_state_write_u8 (of_bool (audio_clock_active d)))
     (w_and (opera_state_write_u8 (of_bool (read_status_pending d)))
     (w_and (opera_state_write_u32 (wait_ready d))
     (w_and (opera_state_write_u64 (wait_cycles d))
            (opera_state_write_u64 (max_wait_cycles d)))))))))))))))))))"

type_synonym cdrom_saved = "cdrom_device_state \<times> cdrom_data \<times> u32"

abbreviation (input) CDROM_STATE_V2_MAGIC :: "u8 list" where "CDROM_STATE_V2_MAGIC \<equiv> [0x43, 0x44, 0x52, 0x4D]"

definition write_saved :: "cdrom_saved \<Rightarrow> state_writer \<Rightarrow> bool \<times> state_writer" where
  "write_saved = (\<lambda>(x, d, speed).
     w_and (opera_state_write_bytes (Some CDROM_STATE_V2_MAGIC) 4)
     (w_and (opera_state_write_u32 0x02)
     (w_and (cdrom_state_v2_write_device x)
     (w_and (cdrom_state_v2_write_data d)
            (opera_state_write_u32 speed)))))"

definition cdrom_saved_of :: "opera_clock \<Rightarrow> 'h drive \<Rightarrow> cdrom_saved" where
  "cdrom_saved_of K s = (cdrom_state_v2_device_save (CD s), cdrom_state_v2_data_save K (DATA s), configured_speed s)"

definition cdrom_state_v2_write_payload :: "opera_clock \<Rightarrow> 'h drive \<Rightarrow> state_writer \<Rightarrow> bool \<times> state_writer" where
  "cdrom_state_v2_write_payload K s = write_saved (cdrom_saved_of K s)"

definition no_device_state :: cdrom_device_state where
  "no_device_state = cdrom_device_state.truncate (no_device :: unit cdrom_device)"

definition cdrom_state_v2_payload_size :: u32 where
  "cdrom_state_v2_payload_size =
     opera_state_writer_used (snd
       (w_then (opera_state_write_bytes (Some CDROM_STATE_V2_MAGIC) 4)
       (w_then (opera_state_write_u32 0x02)
       (w_then (cdrom_state_v2_write_device no_device_state)
       (w_then (cdrom_state_v2_write_data no_data)
               (opera_state_write_u32 0))))
       (opera_state_writer_init None UINT32_MAX)))"

definition opera_cdrom_state_size :: "'h drive \<Rightarrow> u32" where
  "opera_cdrom_state_size s =
     (if ode_savestate_blocked (ODE s) then 0 else opera_state_chunk_size cdrom_state_v2_payload_size)"

definition opera_cdrom_state_save :: "opera_clock \<Rightarrow> 'h drive \<Rightarrow> u8 list \<Rightarrow> u32 \<times> u8 list" where
  "opera_cdrom_state_save K s buf =
     (if ode_savestate_blocked (ODE s) then (0, buf)
      else save_chunk ''CDRM'' cdrom_state_v2_payload_size (cdrom_state_v2_write_payload K s) buf)"

section \<open>Reader\<close>

definition cdrom_state_v2_read_msf :: "state_reader \<Rightarrow> msf option \<times> state_reader" where
  "cdrom_state_v2_read_msf =
     r_bind opera_state_read_u8 (\<lambda>m. r_bind opera_state_read_u8 (\<lambda>sc. r_bind opera_state_read_u8 (\<lambda>f.
     r_return \<lparr>minutes = m, seconds = sc, frames = f\<rparr>)))"

definition cdrom_state_v2_read_toc_entry :: "state_reader \<Rightarrow> toc_entry option \<times> state_reader" where
  "cdrom_state_v2_read_toc_entry =
     r_bind opera_state_read_u8 (\<lambda>r0. r_bind opera_state_read_u8 (\<lambda>c. r_bind opera_state_read_u8 (\<lambda>t.
     r_bind opera_state_read_u8 (\<lambda>r1. r_bind opera_state_read_u8 (\<lambda>m. r_bind opera_state_read_u8 (\<lambda>sc.
     r_bind opera_state_read_u8 (\<lambda>f. r_bind opera_state_read_u8 (\<lambda>r2.
     r_return \<lparr>res0 = r0, CDCTL = c, track_number = t, res1 = r1, toc_minutes = m, toc_seconds = sc, toc_frames = f,
       res2 = r2\<rparr>))))))))"

primrec read_tocs :: "nat \<Rightarrow> state_reader \<Rightarrow> toc_entry list option \<times> state_reader" where
  "read_tocs 0 = r_return []"
| "read_tocs (Suc n) = r_bind cdrom_state_v2_read_toc_entry (\<lambda>t. r_bind (read_tocs n) (\<lambda>ts. r_return (t # ts)))"

definition cdrom_state_v2_read_disc :: "state_reader \<Rightarrow> disc_data option \<times> state_reader" where
  "cdrom_state_v2_read_disc =
     r_bind cdrom_state_v2_read_msf (\<lambda>mt. r_bind cdrom_state_v2_read_msf (\<lambda>mc. r_bind cdrom_state_v2_read_msf (\<lambda>ms.
     r_bind opera_state_read_u8 (\<lambda>sv. r_bind opera_state_read_u8 (\<lambda>tf. r_bind opera_state_read_u8 (\<lambda>tl.
     r_bind opera_state_read_u8 (\<lambda>k. r_bind (read_tocs 100) (\<lambda>ts.
     r_return \<lparr>msf_total = mt, msf_current = mc, msf_session = ms, session_valid = sv, track_first = tf, track_last = tl,
       disc_id = k, disc_toc = ts\<rparr>))))))))"

definition cdrom_state_v2_read_mode :: "state_reader \<Rightarrow> cdrom_mode option \<times> state_reader" where
  "cdrom_state_v2_read_mode =
     r_bind opera_state_read_u8 (\<lambda>dc. r_bind opera_state_read_u8 (\<lambda>lm. r_bind opera_state_read_u8 (\<lambda>ll.
     r_bind opera_state_read_u8 (\<lambda>bf. r_bind opera_state_read_u32 (\<lambda>ub. r_bind opera_state_read_u8 (\<lambda>rt.
     r_bind opera_state_read_u8 (\<lambda>rc. r_bind opera_state_read_u8 (\<lambda>st. r_bind opera_state_read_u8 (\<lambda>ds.
     r_bind opera_state_read_u8 (\<lambda>vm. r_bind opera_state_read_u8 (\<lambda>vl. r_bind opera_state_read_u8 (\<lambda>cs.
     r_return \<lparr>density_code = dc, length_msb = lm, length_lsb = ll, block_flags = bf, user_block_size = ub,
       recovery_type = rt, retry_count = rc, stop_time = st, drive_speed = ds, vpitch_msb = vm, vpitch_lsb = vl,
       chunk_size = cs\<rparr>))))))))))))"

definition cdrom_state_v2_read_device :: "state_reader \<Rightarrow> cdrom_device_state option \<times> state_reader" where
  "cdrom_state_v2_read_device =
     r_bind opera_state_read_u8 (\<lambda>p. r_bind opera_state_read_u8 (\<lambda>xs. r_bind opera_state_read_u8 (\<lambda>sl.
     r_bind (opera_state_read_bytes 256) (\<lambda>st. r_bind opera_state_read_u32 (\<lambda>rs. r_bind opera_state_read_u32 (\<lambda>dl.
     r_bind opera_state_read_u32 (\<lambda>di. r_bind (opera_state_read_bytes CDROM_MAX_SECTOR_SIZE) (\<lambda>da.
     r_bind opera_state_read_u32 (\<lambda>br. r_bind (opera_state_read_bytes 7) (\<lambda>cm. r_bind opera_state_read_u8 (\<lambda>ci.
     r_bind opera_state_read_i8 (\<lambda>sc. r_bind opera_state_read_u32 (\<lambda>ms. r_bind opera_state_read_u32 (\<lambda>cs.
     r_bind cdrom_state_v2_read_mode (\<lambda>m. r_bind cdrom_state_v2_read_disc (\<lambda>d.
     r_return \<lparr>cd_poll = p, cd_xbus_status = xs, cd_status_len = sl, cd_status = st, cd_read_sector_size = rs,
       cd_data_len = dl, cd_data_idx = di, cd_data = da, cd_blocks_requested = br, cd_cmd = cm, cd_cmd_idx = ci,
       cd_STATCYC = sc, cd_MEI_status = ms, cd_current_sector = cs, cd_mode = m, cd_disc = d\<rparr>))))))))))))))))"

definition cdrom_state_v2_read_data :: "state_reader \<Rightarrow> cdrom_data option \<times> state_reader" where
  "cdrom_state_v2_read_data =
     r_bind opera_state_read_u64 (\<lambda>nr. r_bind opera_state_read_u32 (\<lambda>sq. r_bind opera_state_read_u32 (\<lambda>sd.
     r_bind opera_state_read_u32 (\<lambda>er. r_bind opera_state_read_u32 (\<lambda>el. r_bind opera_state_read_u8 (\<lambda>eh.
     r_bind opera_state_read_u8 (\<lambda>ba. r_bind opera_state_read_u32 (\<lambda>bs. r_bind opera_state_read_u32 (\<lambda>mi.
     r_bind opera_state_read_u32 (\<lambda>ma. r_bind opera_state_read_u32 (\<lambda>al. r_bind opera_state_read_u32 (\<lambda>ab.
     r_bind opera_state_read_u32 (\<lambda>bl. r_bind opera_state_read_u64 (\<lambda>bc. r_bind opera_state_read_u8 (\<lambda>ca.
     r_bind opera_state_read_u8 (\<lambda>sp. r_bind opera_state_read_u32 (\<lambda>wr. r_bind opera_state_read_u64 (\<lambda>wc.
     r_bind opera_state_read_u64 (\<lambda>mw.
     r_return \<lparr>next_ready_cycle = nr, sectors_queued = sq, sectors_drained = sd, empty_reads = er, read_expected_lba = el,
       read_have_expected_lba = (eh \<noteq> 0), audio_burst_active = (ba \<noteq> 0), audio_burst_starts = bs, audio_min_ahead = mi,
       audio_max_ahead = ma, active_lba = al, active_bytes = ab, audio_base_lba = bl, audio_base_cycle = bc,
       audio_clock_active = (ca \<noteq> 0), read_status_pending = (sp \<noteq> 0), wait_ready = wr, wait_cycles = wc,
       max_wait_cycles = mw\<rparr>)))))))))))))))))))"

text \<open>A condition between the reads: the state is refused when it fails.\<close>

definition r_check :: "bool \<Rightarrow> state_reader \<Rightarrow> unit option \<times> state_reader" where
  "r_check ok r = (if ok then Some () else None, r)"

definition cdrom_state_v2_read_payload :: "state_reader \<Rightarrow> cdrom_saved option \<times> state_reader" where
  "cdrom_state_v2_read_payload =
     r_bind (opera_state_read_bytes 4) (\<lambda>magic. r_bind (r_check (magic = CDROM_STATE_V2_MAGIC)) (\<lambda>_.
     r_bind opera_state_read_u32 (\<lambda>version. r_bind (r_check (version = 0x02)) (\<lambda>_.
     r_bind cdrom_state_v2_read_device (\<lambda>x. r_bind cdrom_state_v2_read_data (\<lambda>d.
     r_bind opera_state_read_u32 (\<lambda>speed. r_bind (r_check (cdrom_configured_speed_valid speed)) (\<lambda>_.
     r_return (x, d, speed)))))))))"

text \<open>\<open>memset(&g_CDROM_STATE,0,sizeof(g_CDROM_STATE))\<close> with the root and the launch callback kept, and the new session.\<close>

definition no_ode :: "'h cdrom_ode" where
  "no_ode = \<lparr>ode_root = [], ode_current = [], ode_playlist = replicate 16 [], ode_playlist_count = 0,
     ode_pending_launch_path = [], ode_toc = replicate REQSIZE 0, ode_file_buffer = replicate REQSIZE 0,
     ode_file_buffer_write_data = replicate REQSIZE 0, ode_file_buffer_write_idx = 0,
     ode_file_buffer_write_overflow = False, ode_file = None, ode_launch = None, ode_restart_armed = False,
     ode_restart_requested = False, ode_file_path = [], ode_file_mode = 0, ode_savestate_blocked = False\<rparr>"

definition runtime_cleared :: "u32 \<Rightarrow> 'h drive \<Rightarrow> 'h drive" where
  "runtime_cleared speed s =
     (let root = ode_state_str_restore PATH_MAX_LENGTH (ode_root (ODE s)); launch = ode_launch (ODE s);
          s = ode_file_close s;
          s = s\<lparr>ODE := no_ode, DATA := no_data, configured_speed := speed\<rparr>
      in ode_reset_session
           (on_ode (\<lambda>e. e\<lparr>ode_root := ode_state_str_restore PATH_MAX_LENGTH root, ode_launch := launch\<rparr>) s))"

definition reset_if_held :: "'h drive \<Rightarrow> 'h drive" where
  "reset_if_held s = (if cd_poll (CD s) AND POLREMASK \<noteq> 0 then cdrom_device_local_reset s else s)"

definition opera_cdrom_state_load_v2 :: "opera_clock \<Rightarrow> bool \<Rightarrow> u8 list \<Rightarrow> u32 \<Rightarrow> 'h drive \<Rightarrow> u32 \<times> 'h drive" where
  "opera_cdrom_state_load_v2 K validating buf sz s =
     (let (rv, x, d, speed) = load_chunk ''CDRM'' cdrom_state_v2_read_payload (\<lambda>_. True) (\<lambda>y _. y) False buf sz
            (no_device_state, no_data, 0) in
      if rv = 0 then (0, s)
      else if validating then (if fst (cdrom_state_v2_device_load x :: bool \<times> 'h cdrom_device) then rv else 0, s)
      else
        (let s = runtime_cleared 0 s; (ok, c) = cdrom_state_v2_device_load x; s = on_cd (\<lambda>_. c) s in
         if \<not> ok then (0, s)
         else
           (let s = on_data (\<lambda>_. cdrom_state_v2_data_load K d) (s\<lparr>configured_speed := speed\<rparr>)
            in (rv, reset_if_held (opera_cdrom_restore_callbacks s)))))"

section \<open>The older formats\<close>

definition cdrom_runtime_state_reset_v1 :: "'h drive \<Rightarrow> 'h drive" where
  "cdrom_runtime_state_reset_v1 s = cdrom_data_reset_readahead_state (runtime_cleared (configured_speed s) s)"

definition word_at :: "u8 list \<Rightarrow> nat \<Rightarrow> u32" where
  "word_at bs i = le4 (bs ! i) (bs ! (i + 1)) (bs ! (i + 2)) (bs ! (i + 3))"

definition msf_at :: "u8 list \<Rightarrow> nat \<Rightarrow> msf" where
  "msf_at bs i = \<lparr>minutes = bs ! i, seconds = bs ! (i + 1), frames = bs ! (i + 2)\<rparr>"

definition toc_at :: "u8 list \<Rightarrow> nat \<Rightarrow> toc_entry" where
  "toc_at bs i = \<lparr>res0 = bs ! i, CDCTL = bs ! (i + 1), track_number = bs ! (i + 2), res1 = bs ! (i + 3),
     toc_minutes = bs ! (i + 4), toc_seconds = bs ! (i + 5), toc_frames = bs ! (i + 6), res2 = bs ! (i + 7)\<rparr>"

text \<open>\<open>sizeof(cdrom_device_t)\<close>, and the structure in its bytes; the callbacks follow at 3584.\<close>

abbreviation (input) DEVICE_SIZE :: u32 where "DEVICE_SIZE \<equiv> 3616"

definition device_of_image :: "u8 list \<Rightarrow> 'h cdrom_device" where
  "device_of_image bs =
     no_device\<lparr>cd_poll := bs ! 0, cd_xbus_status := bs ! 1, cd_status_len := bs ! 2, cd_status := take 256 (drop 3 bs),
       cd_read_sector_size := word_at bs 260, cd_data_len := word_at bs 264, cd_data_idx := word_at bs 268,
       cd_data := take 2449 (drop 272 bs), cd_blocks_requested := word_at bs 2724, cd_cmd := take 7 (drop 2728 bs),
       cd_cmd_idx := bs ! 2735, cd_STATCYC := bs ! 2736, cd_MEI_status := word_at bs 2740,
       cd_current_sector := word_at bs 2744,
       cd_mode := \<lparr>density_code = bs ! 2748, length_msb = bs ! 2749, length_lsb = bs ! 2750, block_flags = bs ! 2751,
         user_block_size = word_at bs 2752, recovery_type = bs ! 2756, retry_count = bs ! 2757, stop_time = bs ! 2758,
         drive_speed = bs ! 2759, vpitch_msb = bs ! 2760, vpitch_lsb = bs ! 2761, chunk_size = bs ! 2762\<rparr>,
       cd_disc := \<lparr>msf_total = msf_at bs 2764, msf_current = msf_at bs 2767, msf_session = msf_at bs 2770,
         session_valid = bs ! 2773, track_first = bs ! 2774, track_last = bs ! 2775, disc_id = bs ! 2776,
         disc_toc = map (\<lambda>i. toc_at bs (2777 + 8 * i)) [0..<100]\<rparr>\<rparr>"

definition opera_cdrom_state_load_v1 :: "u8 list \<Rightarrow> u32 \<Rightarrow> 'h drive \<Rightarrow> u32 \<times> 'h drive" where
  "opera_cdrom_state_load_v1 buf sz s =
     (let (rv, bs) = opera_state_load_sized (replicate (unat DEVICE_SIZE) 0) ''CDRM'' (Some buf) sz DEVICE_SIZE in
      if rv = 0 then (0, s)
      else
        (let s = cdrom_runtime_state_reset_v1 (on_cd (\<lambda>_. device_of_image bs) s)
         in (rv, reset_if_held (opera_cdrom_restore_callbacks s))))"

text \<open>\<open>cdrom_device_state_v1_legacy_s\<close>, whose size the source pins to 3152.\<close>

definition cdrom_state_v1_legacy_device_load :: "u8 list \<Rightarrow> 'h drive \<Rightarrow> bool \<times> 'h drive" where
  "cdrom_state_v1_legacy_device_load bs s =
     (let s = cdrom_mode_reset (on_cd (\<lambda>_. no_device) s);
          s = on_cd (\<lambda>c. c\<lparr>cd_poll := bs ! 0, cd_xbus_status := bs ! 1, cd_status_len := bs ! 2,
                cd_status := take 256 (drop 3 bs), cd_data_len := word_at bs 260, cd_data_idx := word_at bs 264\<rparr>) s in
      if cd_data_idx (CD s) > 2449 \<or> cd_data_len (CD s) > 2449 - cd_data_idx (CD s) then (False, s)
      else
        (let s = on_cd (\<lambda>c. c\<lparr>cd_data := take 2449 (drop 268 bs), cd_blocks_requested := word_at bs 2720,
               cd_cmd := take 7 (drop 2724 bs), cd_cmd_idx := bs ! 2731\<rparr>) s in
         if cd_cmd_idx (CD s) > 7 then (False, s)
         else
           (let s = on_cd (\<lambda>c. c\<lparr>cd_STATCYC := bs ! 2732, cd_MEI_status := word_at bs 2736,
                  cd_current_sector := word_at bs 2740\<rparr>) s;
                s = on_mode (\<lambda>m. m\<lparr>drive_speed := (if bs ! 1 AND CDROM_STATUS_DOUBLE_SPEED \<noteq> 0 then MEI_CDROM_DOUBLE_SPEED
                      else 0)\<rparr>) s;
                s = opera_cdrom_restore_callbacks (cdrom_mode_apply_drive_speed s)
            in (True, opera_cdrom_update_disc_layout s))))"

definition opera_cdrom_state_load_v1_legacy :: "u8 list \<Rightarrow> u32 \<Rightarrow> 'h drive \<Rightarrow> u32 \<times> 'h drive" where
  "opera_cdrom_state_load_v1_legacy buf sz s =
     (let (rv, bs) = opera_state_load_sized (replicate 3152 0) ''CDRM'' (Some buf) sz 3152 in
      if rv = 0 then (0, s)
      else
        (let (ok, s) = cdrom_state_v1_legacy_device_load bs (cdrom_runtime_state_reset_v1 s)
         in if \<not> ok then (0, s) else (rv, reset_if_held s)))"

definition opera_cdrom_state_load :: "opera_clock \<Rightarrow> bool \<Rightarrow> u8 list \<Rightarrow> u32 \<Rightarrow> 'h drive \<Rightarrow> u32 \<times> 'h drive" where
  "opera_cdrom_state_load K validating buf sz s =
     (let (chunk, data_size) = opera_state_get_chunk_data_size (Some buf) sz ''CDRM'' in
      if chunk = 0 then (0, s)
      else
        (let (rv, s) = (if data_size = cdrom_state_v2_payload_size then opera_cdrom_state_load_v2 K validating buf chunk s
                        else (0, s)) in
         if rv \<noteq> 0 then (rv, s)
         else if validating then (0, s)
         else if data_size = DEVICE_SIZE then opera_cdrom_state_load_v1 buf chunk s
         else if data_size = 3152 then opera_cdrom_state_load_v1_legacy buf chunk s
         else (0, s)))"

section \<open>The drive on the expansion bus\<close>

definition plugin_call :: "opera_clock \<Rightarrow> nat \<Rightarrow> u32 \<Rightarrow> 'h drive \<Rightarrow> u32 \<times> 'h drive" where
  "plugin_call K proc val s =
     (if proc = XBP_INIT then (1, opera_cdrom_init s)
      else if proc = XBP_DESTROY then (1, s)
      else if proc = XBP_RESET then (0, opera_cdrom_init s)
      else if proc = XBP_MEDIA_EJECT then (0, opera_cdrom_media_eject s)
      else if proc = XBP_GET_MEDIA_ACCESS then (ucast (cd_poll (CD s) AND POLRE), s)
      else if proc = XBP_SET_COMMAND then (0, opera_cdrom_send_cmd K (ucast val) s)
      else if proc = XBP_FIQ then (let (b, s) = opera_cdrom_update_fiq K s in (of_bool b, s))
      else if proc = XBP_SET_DATA then (0, opera_cdrom_fifo_set_data (ucast val) s)
      else if proc = XBP_GET_DATA then (let (v, s) = opera_cdrom_fifo_get_data K s in (ucast v, s))
      else if proc = XBP_GET_STATUS then (let (v, s) = opera_cdrom_fifo_get_status K s in (ucast v, s))
      else if proc = XBP_SET_POLL then (0, opera_cdrom_set_poll val s)
      else if proc = XBP_GET_POLL then (let (_, s) = opera_cdrom_update_fiq K s in (ucast (cd_poll (CD s)), s))
      else if proc = XBP_GET_SAVESIZE then (opera_cdrom_state_size s, s)
      else (0, s))"

text \<open>\<open>XBP_GET_SAVEDATA\<close> stores into a buffer of the size asked for before.\<close>

definition plugin_savedata :: "opera_clock \<Rightarrow> 'h drive \<Rightarrow> u32 \<times> u8 list" where
  "plugin_savedata K s =
     (let (n, buf) = opera_cdrom_state_save K s (replicate (unat (opera_cdrom_state_size s)) 0) in (n, take (unat n) buf))"

definition xbus_cdrom_plugin :: "'h drive device" where
  "xbus_cdrom_plugin = \<lparr>dev_call = plugin_call, dev_media_load = (\<lambda>_. opera_cdrom_media_load),
     dev_get_savedata = plugin_savedata, dev_set_savedata = opera_cdrom_state_load\<rparr>"

end
