(* ===== verification/Opera_Cdrom_Codec.thy ===== *)
theory Opera_Cdrom_Codec
  imports Opera_Cdrom_State
begin

text \<open>
  The drive's saved state in bytes: what its writer emits and its reader consumes, the round trip, and
  the dry run, which answers as the load does and leaves the drive alone.
\<close>

section \<open>The payload in bytes\<close>

definition enc_msf :: "msf \<Rightarrow> u8 list" where "enc_msf m = [minutes m] @ [seconds m] @ [frames m]"

definition enc_toc :: "toc_entry \<Rightarrow> u8 list" where
  "enc_toc t = [res0 t] @ [CDCTL t] @ [track_number t] @ [res1 t] @ [toc_minutes t] @ [toc_seconds t] @
     [toc_frames t] @ [res2 t]"

definition enc_disc :: "disc_data \<Rightarrow> u8 list" where
  "enc_disc d = enc_msf (msf_total d) @ enc_msf (msf_current d) @ enc_msf (msf_session d) @ [session_valid d] @
     [track_first d] @ [track_last d] @ [disc_id d] @ concat (map enc_toc (disc_toc d))"

definition enc_mode :: "cdrom_mode \<Rightarrow> u8 list" where
  "enc_mode m = [density_code m] @ [length_msb m] @ [length_lsb m] @ [block_flags m] @ enc32 (user_block_size m) @
     [recovery_type m] @ [retry_count m] @ [stop_time m] @ [drive_speed m] @ [vpitch_msb m] @ [vpitch_lsb m] @
     [chunk_size m]"

definition enc_device :: "cdrom_device_state \<Rightarrow> u8 list" where
  "enc_device x = [cd_poll x] @ [cd_xbus_status x] @ [cd_status_len x] @ cd_status x @ enc32 (cd_read_sector_size x) @
     enc32 (cd_data_len x) @ enc32 (cd_data_idx x) @ cd_data x @ enc32 (cd_blocks_requested x) @ cd_cmd x @
     [cd_cmd_idx x] @ [cd_STATCYC x] @ enc32 (cd_MEI_status x) @ enc32 (cd_current_sector x) @ enc_mode (cd_mode x) @
     enc_disc (cd_disc x)"

definition enc_data :: "cdrom_data \<Rightarrow> u8 list" where
  "enc_data d = enc64 (next_ready_cycle d) @ enc32 (sectors_queued d) @ enc32 (sectors_drained d) @
     enc32 (empty_reads d) @ enc32 (read_expected_lba d) @ [of_bool (read_have_expected_lba d)] @
     [of_bool (audio_burst_active d)] @ enc32 (audio_burst_starts d) @ enc32 (audio_min_ahead d) @
     enc32 (audio_max_ahead d) @ enc32 (active_lba d) @ enc32 (active_bytes d) @ enc32 (audio_base_lba d) @
     enc64 (audio_base_cycle d) @ [of_bool (audio_clock_active d)] @ [of_bool (read_status_pending d)] @
     enc32 (wait_ready d) @ enc64 (wait_cycles d) @ enc64 (max_wait_cycles d)"

definition saved_enc :: "cdrom_saved \<Rightarrow> u8 list" where
  "saved_enc = (\<lambda>(x, d, speed). CDROM_STATE_V2_MAGIC @ enc32 2 @ enc_device x @ enc_data d @ enc32 speed)"

text \<open>The arrays have the lengths the structures give them.\<close>

definition arrays_sized :: "cdrom_device_state \<Rightarrow> bool" where
  "arrays_sized x \<longleftrightarrow> length (cd_status x) = 256 \<and> length (cd_data x) = 2449 \<and> length (cd_cmd x) = 7 \<and>
     length (disc_toc (cd_disc x)) = 100"

definition saved_clean :: "cdrom_saved \<Rightarrow> bool" where
  "saved_clean = (\<lambda>(x, d, speed). arrays_sized x \<and> cdrom_configured_speed_valid speed)"

lemma length_enc_toc [simp]: "length (enc_toc t) = 8" by (simp add: enc_toc_def)

lemma length_enc_tocs [simp]: "length (concat (map enc_toc ts)) = 8 * length ts"
  by (induction ts) simp_all

lemma length_saved_enc: "saved_clean y \<Longrightarrow> length (saved_enc y) = 3661"
  by (auto simp: saved_clean_def saved_enc_def arrays_sized_def enc_device_def enc_mode_def enc_disc_def enc_msf_def
      enc_data_def)

section \<open>Writer\<close>

lemma emits_i8 [state_codec]: "emits (opera_state_write_i8 v) [v]"
  using emits_u8 [of v] by (simp add: emits_def opera_state_write_i8_def)

lemma emits_msf: "emits (cdrom_state_v2_write_msf m) (enc_msf m)"
  unfolding cdrom_state_v2_write_msf_def enc_msf_def by (intro emits_and emits_u8)

lemma emits_toc: "emits (cdrom_state_v2_write_toc_entry t) (enc_toc t)"
  unfolding cdrom_state_v2_write_toc_entry_def enc_toc_def by (intro emits_and emits_u8)

lemma w_and_done: "w_and a (\<lambda>w. (True, w)) = a"
  by (rule ext) (simp add: w_and_def split: prod.split)

lemma emits_tocs: "ts \<noteq> [] \<Longrightarrow> emits (write_tocs ts) (concat (map enc_toc ts))"
  by (induction ts rule: list_nonempty_induct) (simp_all add: w_and_done emits_and emits_toc)

lemma emits_disc: "length (disc_toc d) = 100 \<Longrightarrow> emits (cdrom_state_v2_write_disc d) (enc_disc d)"
  unfolding cdrom_state_v2_write_disc_def enc_disc_def by (intro emits_and emits_msf emits_u8 emits_tocs) auto

lemma emits_mode: "emits (cdrom_state_v2_write_mode m) (enc_mode m)"
  unfolding cdrom_state_v2_write_mode_def enc_mode_def by (intro emits_and emits_u8 emits_u32)

lemma emits_device: "arrays_sized x \<Longrightarrow> emits (cdrom_state_v2_write_device x) (enc_device x)"
  unfolding cdrom_state_v2_write_device_def enc_device_def
  by (intro emits_and emits_u8 emits_i8 emits_u32 emits_write_bytes emits_mode emits_disc) (simp_all add: arrays_sized_def)

lemma emits_data: "emits (cdrom_state_v2_write_data d) (enc_data d)"
  unfolding cdrom_state_v2_write_data_def enc_data_def by (intro emits_and emits_u8 emits_u32 emits_u64)

lemma emits_saved: "saved_clean y \<Longrightarrow> emits (write_saved y) (saved_enc y)"
  by (auto simp: write_saved_def saved_enc_def saved_clean_def simp del: append.simps split: prod.split
      intro!: emits_and emits_write_bytes emits_device emits_data emits_u32)

section \<open>Reader\<close>

lemma consumes_i8 [state_codec]: "consumes opera_state_read_i8 v [v]"
  using consumes_u8 [of v] by (simp add: consumes_def opera_state_read_i8_def)

lemma consumes_check: "ok \<Longrightarrow> consumes (r_check ok) () []"
  by (rule consumesI) (simp add: r_check_def radv_def)

lemma consumes_msf: "consumes cdrom_state_v2_read_msf m (enc_msf m)"
proof -
  have "consumes cdrom_state_v2_read_msf \<lparr>minutes = minutes m, seconds = seconds m, frames = frames m\<rparr>
     ([minutes m] @ [seconds m] @ [frames m] @ [])"
    unfolding cdrom_state_v2_read_msf_def by (rule consumes_fields)+
  then show ?thesis by (cases m) (simp add: enc_msf_def)
qed

lemma consumes_toc: "consumes cdrom_state_v2_read_toc_entry t (enc_toc t)"
proof -
  have "consumes cdrom_state_v2_read_toc_entry
      \<lparr>res0 = res0 t, CDCTL = CDCTL t, track_number = track_number t, res1 = res1 t, toc_minutes = toc_minutes t,
       toc_seconds = toc_seconds t, toc_frames = toc_frames t, res2 = res2 t\<rparr>
     ([res0 t] @ [CDCTL t] @ [track_number t] @ [res1 t] @ [toc_minutes t] @ [toc_seconds t] @ [toc_frames t] @
      [res2 t] @ [])"
    unfolding cdrom_state_v2_read_toc_entry_def by (rule consumes_fields)+
  then show ?thesis by (cases t) (simp add: enc_toc_def)
qed

lemma consumes_tocs: "consumes (read_tocs (length ts)) ts (concat (map enc_toc ts))"
proof (induction ts)
  case Nil
  show ?case by (simp add: consumes_return)
next
  case (Cons t ts)
  have "consumes (read_tocs (length (t # ts))) (t # ts) (enc_toc t @ concat (map enc_toc ts) @ [])"
    unfolding length_Cons read_tocs.simps by (rule consumes_bind consumes_toc Cons consumes_return)+
  then show ?case by simp
qed

lemma consumes_disc:
  assumes "length (disc_toc d) = 100" shows "consumes cdrom_state_v2_read_disc d (enc_disc d)"
proof -
  have t: "consumes (read_tocs 100) (disc_toc d) (concat (map enc_toc (disc_toc d)))"
    using consumes_tocs [of "disc_toc d"] assms by simp
  have "consumes cdrom_state_v2_read_disc
      \<lparr>msf_total = msf_total d, msf_current = msf_current d, msf_session = msf_session d,
       session_valid = session_valid d, track_first = track_first d, track_last = track_last d, disc_id = disc_id d,
       disc_toc = disc_toc d\<rparr>
     (enc_msf (msf_total d) @ enc_msf (msf_current d) @ enc_msf (msf_session d) @ [session_valid d] @
      [track_first d] @ [track_last d] @ [disc_id d] @ concat (map enc_toc (disc_toc d)) @ [])"
    unfolding cdrom_state_v2_read_disc_def
    by (rule consumes_bind [OF consumes_msf] consumes_bind [OF t] consumes_fields)+
  then show ?thesis by (cases d) (simp add: enc_disc_def)
qed

lemma consumes_mode: "consumes cdrom_state_v2_read_mode m (enc_mode m)"
proof -
  have "consumes cdrom_state_v2_read_mode
      \<lparr>density_code = density_code m, length_msb = length_msb m, length_lsb = length_lsb m,
       block_flags = block_flags m, user_block_size = user_block_size m, recovery_type = recovery_type m,
       retry_count = retry_count m, stop_time = stop_time m, drive_speed = drive_speed m, vpitch_msb = vpitch_msb m,
       vpitch_lsb = vpitch_lsb m, chunk_size = chunk_size m\<rparr>
     ([density_code m] @ [length_msb m] @ [length_lsb m] @ [block_flags m] @ enc32 (user_block_size m) @
      [recovery_type m] @ [retry_count m] @ [stop_time m] @ [drive_speed m] @ [vpitch_msb m] @ [vpitch_lsb m] @
      [chunk_size m] @ [])"
    unfolding cdrom_state_v2_read_mode_def by (rule consumes_fields)+
  then show ?thesis by (cases m) (simp add: enc_mode_def)
qed

lemma consumes_device:
  assumes "arrays_sized x" shows "consumes cdrom_state_v2_read_device x (enc_device x)"
proof -
  note a = assms [unfolded arrays_sized_def]
  have t: "consumes cdrom_state_v2_read_disc (cd_disc x) (enc_disc (cd_disc x))" using a by (simp add: consumes_disc)
  have b: "consumes (opera_state_read_bytes 256) (cd_status x) (cd_status x)"
    "consumes (opera_state_read_bytes 2449) (cd_data x) (cd_data x)"
    "consumes (opera_state_read_bytes 7) (cd_cmd x) (cd_cmd x)"
    using a by (simp_all add: consumes_bytes)
  note f = consumes_bind [OF b(1)] consumes_bind [OF b(2)] consumes_bind [OF b(3)] consumes_bind [OF consumes_i8]
    consumes_bind [OF consumes_mode] consumes_bind [OF t] consumes_fields
  have "consumes cdrom_state_v2_read_device
      \<lparr>cd_poll = cd_poll x, cd_xbus_status = cd_xbus_status x, cd_status_len = cd_status_len x,
       cd_status = cd_status x, cd_read_sector_size = cd_read_sector_size x, cd_data_len = cd_data_len x,
       cd_data_idx = cd_data_idx x, cd_data = cd_data x, cd_blocks_requested = cd_blocks_requested x,
       cd_cmd = cd_cmd x, cd_cmd_idx = cd_cmd_idx x, cd_STATCYC = cd_STATCYC x, cd_MEI_status = cd_MEI_status x,
       cd_current_sector = cd_current_sector x, cd_mode = cd_mode x, cd_disc = cd_disc x\<rparr>
     ([cd_poll x] @ [cd_xbus_status x] @ [cd_status_len x] @ cd_status x @ enc32 (cd_read_sector_size x) @
      enc32 (cd_data_len x) @ enc32 (cd_data_idx x) @ cd_data x @ enc32 (cd_blocks_requested x) @ cd_cmd x @
      [cd_cmd_idx x] @ [cd_STATCYC x] @ enc32 (cd_MEI_status x) @ enc32 (cd_current_sector x) @
      enc_mode (cd_mode x) @ enc_disc (cd_disc x) @ [])"
    unfolding cdrom_state_v2_read_device_def by (rule f)+
  then show ?thesis by (cases x) (simp add: enc_device_def)
qed

lemma consumes_data: "consumes cdrom_state_v2_read_data d (enc_data d)"
proof -
  have nz: "((of_bool b :: u8) \<noteq> 0) = b" for b by simp
  have "consumes cdrom_state_v2_read_data
      \<lparr>next_ready_cycle = next_ready_cycle d, sectors_queued = sectors_queued d, sectors_drained = sectors_drained d,
       empty_reads = empty_reads d, read_expected_lba = read_expected_lba d,
       read_have_expected_lba = ((of_bool (read_have_expected_lba d) :: u8) \<noteq> 0),
       audio_burst_active = ((of_bool (audio_burst_active d) :: u8) \<noteq> 0), audio_burst_starts = audio_burst_starts d,
       audio_min_ahead = audio_min_ahead d, audio_max_ahead = audio_max_ahead d, active_lba = active_lba d,
       active_bytes = active_bytes d, audio_base_lba = audio_base_lba d, audio_base_cycle = audio_base_cycle d,
       audio_clock_active = ((of_bool (audio_clock_active d) :: u8) \<noteq> 0),
       read_status_pending = ((of_bool (read_status_pending d) :: u8) \<noteq> 0), wait_ready = wait_ready d,
       wait_cycles = wait_cycles d, max_wait_cycles = max_wait_cycles d\<rparr>
     (enc64 (next_ready_cycle d) @ enc32 (sectors_queued d) @ enc32 (sectors_drained d) @
      enc32 (empty_reads d) @ enc32 (read_expected_lba d) @ [of_bool (read_have_expected_lba d)] @
      [of_bool (audio_burst_active d)] @ enc32 (audio_burst_starts d) @ enc32 (audio_min_ahead d) @
      enc32 (audio_max_ahead d) @ enc32 (active_lba d) @ enc32 (active_bytes d) @ enc32 (audio_base_lba d) @
      enc64 (audio_base_cycle d) @ [of_bool (audio_clock_active d)] @ [of_bool (read_status_pending d)] @
      enc32 (wait_ready d) @ enc64 (wait_cycles d) @ enc64 (max_wait_cycles d) @ [])"
    unfolding cdrom_state_v2_read_data_def by (rule consumes_fields)+
  then show ?thesis unfolding nz by (cases d) (simp add: enc_data_def)
qed

lemma consumes_saved:
  assumes "saved_clean y" shows "consumes cdrom_state_v2_read_payload y (saved_enc y)"
proof -
  obtain x d v where y: "y = (x, d, v)" by (cases y)
  have a: "arrays_sized x" "cdrom_configured_speed_valid v" using assms by (simp_all add: y saved_clean_def)
  have m: "consumes (opera_state_read_bytes 4) CDROM_STATE_V2_MAGIC CDROM_STATE_V2_MAGIC"
    by (rule consumes_bytes) simp
  note f = consumes_bind [OF m] consumes_bind [OF consumes_check] consumes_bind [OF consumes_u32]
    consumes_bind [OF consumes_device [OF a(1)]] consumes_bind [OF consumes_data] consumes_return
  have "consumes cdrom_state_v2_read_payload (x, d, v)
     (CDROM_STATE_V2_MAGIC @ [] @ enc32 2 @ [] @ enc_device x @ enc_data d @ enc32 v @ [] @ [])"
    unfolding cdrom_state_v2_read_payload_def using a(2) by (rule_tac f refl | assumption)+
  then show ?thesis by (simp add: y saved_enc_def)
qed

interpretation cdrom_chunk: state_chunk "''CDRM''" saved_clean saved_enc write_saved cdrom_state_v2_read_payload
  "\<lambda>y. y" "\<lambda>_. True" "\<lambda>y _. y" "\<lambda>_ _. True"
  by unfold_locales (simp_all add: length_saved_enc emits_saved consumes_saved)

lemma wsticky_and: "wsticky f \<Longrightarrow> wsticky (w_and f g)"
  by (simp add: wsticky_def w_and_def split: prod.split) (metis fst_conv snd_conv)

lemma zero_sized: "arrays_sized no_device_state" "saved_clean (no_device_state, no_data, 0)"
  by (simp_all add: saved_clean_def arrays_sized_def no_device_state_def no_device_def cdrom_device_state.defs
      no_disc_def cdrom_configured_speed_valid_def)

lemma cdrom_payload: "cdrom_state_v2_payload_size = 3661"
proof -
  let ?w = "opera_state_writer_init None UINT32_MAX"
  let ?op = "w_then (opera_state_write_bytes (Some CDROM_STATE_V2_MAGIC) 4) (w_then (opera_state_write_u32 0x02)
       (w_then (cdrom_state_v2_write_device no_device_state) (w_then (cdrom_state_v2_write_data no_data)
               (opera_state_write_u32 0))))"
  have st: "wsticky (cdrom_state_v2_write_device no_device_state)" "wsticky (cdrom_state_v2_write_data no_data)"
    by (simp_all add: cdrom_state_v2_write_device_def cdrom_state_v2_write_data_def opera_state_write_u64_def
        wsticky_and wsticky_ops)
  have e: "emits ?op (saved_enc (no_device_state, no_data, 0))"
    unfolding saved_enc_def prod.case
    by (intro emits_then emits_write_bytes emits_u32 emits_device zero_sized emits_data wsticky_ops st) simp
  have l: "length (saved_enc (no_device_state, no_data, 0)) = 3661" by (rule length_saved_enc [OF zero_sized(2)])
  have "wok ?w" "wspace ?w 3661" by (simp_all add: wok_def wspace_def opera_state_writer_init_def)
  with emitsD [OF e, of ?w] show ?thesis
    by (simp add: cdrom_state_v2_payload_size_def l opera_state_writer_used_def)
      (simp add: wput_def opera_state_writer_init_def l)
qed

section \<open>The round trip\<close>

text \<open>A drive whose state can be saved: its arrays have their sizes, its indices are where the loader wants
  them, and no emulator command has touched the host's files.\<close>

definition indices_ok :: "cdrom_device_state \<Rightarrow> bool" where
  "indices_ok c \<longleftrightarrow> cd_read_sector_size c \<le> 2449 \<and> cd_data_idx c \<le> 2449 \<and> cd_data_len c \<le> 2449 - cd_data_idx c \<and>
     cd_cmd_idx c \<le> 7"

definition drive_saveable :: "'h drive \<Rightarrow> bool" where
  "drive_saveable s \<longleftrightarrow> arrays_sized (cdrom_device_state.truncate (CD s)) \<and> indices_ok (cdrom_device_state.truncate (CD s)) \<and>
     cdrom_configured_speed_valid (configured_speed s) \<and> \<not> ode_savestate_blocked (ODE s)"

lemma saved_of_clean: "drive_saveable s \<Longrightarrow> saved_clean (cdrom_saved_of K s)"
  by (simp add: saved_clean_def cdrom_saved_of_def drive_saveable_def cdrom_state_v2_device_save_def)

lemma device_load_save:
  assumes "indices_ok (cdrom_device_state.truncate c)"
  shows "cdrom_state_v2_device_load (cdrom_state_v2_device_save c) = (True, c\<lparr>cd_callbacks := no_callbacks\<rparr>)"
proof -
  have "unat (v :: u8) \<le> 256" for v using unsigned_less [of v, where ?'a = nat] by simp
  then show ?thesis using assms
    by (cases c) (simp add: indices_ok_def cdrom_state_v2_device_load_def cdrom_state_v2_device_save_def
        cdrom_device_state.defs no_device_def not_less Let_def)
qed

definition drive_image :: "opera_clock \<Rightarrow> 'h drive \<Rightarrow> u8 list" where
  "drive_image K s = cdrom_chunk.image (cdrom_saved_of K s)"

lemma length_drive_image: "drive_saveable s \<Longrightarrow> length (drive_image K s) = 3669"
  by (simp add: drive_image_def cdrom_chunk.length_image length_saved_enc saved_of_clean)

lemma cdrom_state_save_image:
  assumes "drive_saveable s" "3669 \<le> length buf"
  shows "opera_cdrom_state_save K s buf = (3669, drive_image K s @ drop 3669 buf)"
    and "opera_cdrom_state_size s = 3669"
proof -
  note l = length_saved_enc [OF saved_of_clean [OF assms(1), of K]]
  show "opera_cdrom_state_save K s buf = (3669, drive_image K s @ drop 3669 buf)"
    using cdrom_chunk.save_image [OF saved_of_clean [OF assms(1), of K], of buf] assms
    by (simp add: opera_cdrom_state_save_def cdrom_state_v2_write_payload_def drive_image_def cdrom_payload l drive_saveable_def)
  show "opera_cdrom_state_size s = 3669"
    using assms(1) by (simp add: opera_cdrom_state_size_def drive_saveable_def cdrom_payload opera_state_chunk_size_def
        opera_state_save_size_def opera_state_chunk_header_size_def)
qed

text \<open>Two numbers of the clock are kept as distances: a sector that is due is due at once, and an audio
  position starts no later than now.\<close>

definition due :: "opera_clock \<Rightarrow> cdrom_data \<Rightarrow> cdrom_data" where
  "due K d =
     (let now = opera_clock_cpu_get_cycles K
      in d\<lparr>next_ready_cycle := (if next_ready_cycle d \<le> now then 0 else next_ready_cycle d),
           audio_base_cycle := min (audio_base_cycle d) now\<rparr>)"

lemma data_load_save:
  assumes "opera_clock_cpu_get_cycles K' = opera_clock_cpu_get_cycles K"
  shows "cdrom_state_v2_data_load K' (cdrom_state_v2_data_save K d) = due K d"
proof -
  let ?n = "opera_clock_cpu_get_cycles K"
  have a: "\<not> 0xFFFFFFFFFFFFFFFF - n < t - n" if "\<not> t \<le> n" for t n :: u64
  proof -
    have "unat t \<le> 18446744073709551615" "unat n \<le> 18446744073709551615"
      using unsigned_less [of t, where ?'a = nat] unsigned_less [of n, where ?'a = nat] by simp_all
    moreover have "unat (t - n) = unat t - unat n" using that by (intro unat_sub) simp
    moreover have "unat (0xFFFFFFFFFFFFFFFF - n) = 18446744073709551615 - unat n"
      using \<open>unat n \<le> _\<close> by (subst unat_sub) (simp_all add: word_le_nat_alt)
    ultimately show ?thesis by (simp add: word_less_nat_alt)
  qed
  have c: "\<not> n < n - t" if "t \<le> n" for t n :: u64
    using that by (simp add: word_less_nat_alt unat_sub)
  show ?thesis
    using assms a [of "next_ready_cycle d" ?n] c [of "audio_base_cycle d" ?n]
    by (auto simp: cdrom_state_v2_data_load_def cdrom_state_v2_data_save_def due_def Let_def min_def
        cdrom_state_v2_cycles_remaining_def cdrom_state_v2_cycle_age_def cdrom_state_v2_cycles_after_def
        cdrom_state_v2_cycles_before_def)
qed

text \<open>What a load leaves of the drive it replaces: the host's settings and files.\<close>

definition drive_restored :: "opera_clock \<Rightarrow> 'h drive \<Rightarrow> 'h drive \<Rightarrow> 'h drive" where
  "drive_restored K s t =
     (let u = on_cd (\<lambda>_. (CD s)\<lparr>cd_callbacks := no_callbacks\<rparr>) (runtime_cleared 0 t);
          u = on_data (\<lambda>_. due K (DATA s)) (u\<lparr>configured_speed := configured_speed s\<rparr>)
      in reset_if_held (opera_cdrom_restore_callbacks u))"

lemma get_chunk_image:
  assumes "saved_clean y" "take (unat sz) d = cdrom_chunk.image y @ ts" "unat sz \<le> length d"
  shows "opera_state_get_chunk_data_size (Some d) sz ''CDRM'' = (3669, 3661)"
proof -
  let ?r = "opera_state_reader_init d sz"
  have l: "length (saved_enc y) = 3661" using assms(1) by (rule length_saved_enc)
  have "rok ?r" "rest ?r = chunk_name ''CDRM'' @ enc32 (3661 :: u32) @ saved_enc y @ ts"
    using assms(2,3) by (simp_all add: rok_init rest_init cdrom_chunk.image_def l)
  from read_chunk_consumes [OF this, of] obtain p where
    c: "opera_state_read_chunk ''CDRM'' ?r = (Some p, radv ?r (8 + length (saved_enc y)))"
    and p: "rok p" "rest p = saved_enc y" "r_offset p = 0" using l by auto
  have "unat (r_size p) = 3661"
    using p l by (auto simp: rest_def rok_def dest: arg_cong [where f = length])
  then have "r_size p = 3661" by (simp add: word_unat_eq_iff)
  with c show ?thesis
    by (simp add: opera_state_get_chunk_data_size_def opera_state_save_size_def opera_state_chunk_header_size_def)
qed

lemma cdrom_load_image:
  assumes s: "drive_saveable s" and d: "take (unat sz) d = drive_image K s @ ts" "unat sz \<le> length d"
    and k: "opera_clock_cpu_get_cycles K' = opera_clock_cpu_get_cycles K"
  shows "opera_cdrom_state_load K' False d sz t = (3669, drive_restored K s t)"
proof -
  let ?y = "cdrom_saved_of K s"
  note c = saved_of_clean [OF s, of K]
  note l = length_saved_enc [OF c]
  have "length (take (unat sz) d) \<ge> 3669" using d(1) length_drive_image [OF s, of K] by simp
  then have sz: "3669 \<le> unat sz" by simp
  have "take 3669 (take (unat sz) d) = drive_image K s"
    using d(1) length_drive_image [OF s, of K] by simp
  then have "take (unat (3669 :: u32)) d = cdrom_chunk.image ?y @ []"
    using sz by (simp add: min_absorb1 drive_image_def)
  then have ld: "load_chunk ''CDRM'' cdrom_state_v2_read_payload (\<lambda>_. True) (\<lambda>y _. y) False d 3669 cur = (3669, ?y)" for cur
    using cdrom_chunk.load_image [OF c, of 3669 d "[]" cur] sz d(2) by (simp add: l)
  have v2: "opera_cdrom_state_load_v2 K' False d 3669 t = (3669, drive_restored K s t)"
    using ld device_load_save [of "CD s"] data_load_save [OF k, of "DATA s"] s
    by (simp add: opera_cdrom_state_load_v2_def cdrom_saved_of_def drive_restored_def drive_saveable_def Let_def)
  show ?thesis
    using get_chunk_image [OF c, of sz d ts] d v2
    by (simp add: opera_cdrom_state_load_def drive_image_def cdrom_payload)
qed

text \<open>The dry run.\<close>

lemma cdrom_validate_quiet: "snd (opera_cdrom_state_load K True d sz t) = t"
  by (simp add: opera_cdrom_state_load_def opera_cdrom_state_load_v2_def split: prod.split)

lemma cdrom_check_image:
  fixes s t :: "'h drive"
  assumes s: "drive_saveable s" and d: "take (unat sz) d = drive_image K s @ ts" "unat sz \<le> length d"
  shows "opera_cdrom_state_load K' True d sz t = (3669, t)"
proof -
  let ?y = "cdrom_saved_of K s"
  note c = saved_of_clean [OF s, of K]
  note l = length_saved_enc [OF c]
  have "length (take (unat sz) d) \<ge> 3669" using d(1) length_drive_image [OF s, of K] by simp
  then have sz: "3669 \<le> unat sz" by simp
  have "take 3669 (take (unat sz) d) = drive_image K s"
    using d(1) length_drive_image [OF s, of K] by simp
  then have "take (unat (3669 :: u32)) d = cdrom_chunk.image ?y @ []"
    using sz by (simp add: min_absorb1 drive_image_def)
  then have ld: "load_chunk ''CDRM'' cdrom_state_v2_read_payload (\<lambda>_. True) (\<lambda>y _. y) False d 3669 cur = (3669, ?y)" for cur
    using cdrom_chunk.load_image [OF c, of 3669 d "[]" cur] sz d(2) by (simp add: l)
  have "opera_cdrom_state_load_v2 K' True d 3669 t = (3669, t)"
    using ld device_load_save [of "CD s"] s
    by (simp add: opera_cdrom_state_load_v2_def cdrom_saved_of_def drive_saveable_def Let_def)
  then show ?thesis
    using get_chunk_image [OF c, of sz d ts] d
    by (simp add: opera_cdrom_state_load_def drive_image_def cdrom_payload)
qed

lemma cdrom_validate_agrees:
  fixes t t' :: "'h drive"
  assumes "fst (opera_cdrom_state_load K True d sz t) \<noteq> 0"
  shows "fst (opera_cdrom_state_load K' False d sz t') = fst (opera_cdrom_state_load K True d sz t)"
proof -
  obtain ch n where g: "opera_state_get_chunk_data_size (Some d) sz ''CDRM'' = (ch, n)" by fastforce
  obtain rv x e v where l: "load_chunk ''CDRM'' cdrom_state_v2_read_payload (\<lambda>_. True) (\<lambda>y _. y) False d ch
      (no_device_state, no_data, 0) = (rv, x, e, v)" by (metis prod_cases4)
  obtain ok c where x: "(cdrom_state_v2_device_load x :: bool \<times> 'h cdrom_device) = (ok, c)" by fastforce
  from assms have "ch \<noteq> 0" "n = cdrom_state_v2_payload_size" "rv \<noteq> 0" "ok"
    by (auto simp: opera_cdrom_state_load_def opera_cdrom_state_load_v2_def g l x split: if_splits)
  then show ?thesis
    by (simp add: opera_cdrom_state_load_def opera_cdrom_state_load_v2_def g l x Let_def)
qed

end
