(* ===== verification/Opera_Console_Chunks.thy ===== *)
theory Opera_Console_Chunks
  imports Opera_3do_Props Opera_Cdrom_Codec Opera_Arm_Core_Props Opera_Clio_State Opera_Dsp_State
    Opera_Madam_State Opera_Mem_Props Opera_Sport_Props Opera_Vdlp_Props Opera_Clock_Props
begin

text \<open>
  The chunks of a saved console. A saver \<open>writes\<close> an image when it stores it at the front of any buffer that has the
  room, and a loader \<open>reads\<close> it when it takes exactly these bytes from the front of any data. Savers and
  loaders of the parts follow from the contracts of their chunks, those of the whole by running one after the
  other.
\<close>

section \<open>Writing and reading images\<close>

definition chunk_image :: "string \<Rightarrow> u8 list \<Rightarrow> u8 list" where
  "chunk_image name bs = chunk_name name @ enc32 (of_nat (length bs)) @ bs"

definition writes :: "(u8 list \<Rightarrow> u32 \<times> u8 list) \<Rightarrow> u8 list \<Rightarrow> bool" where
  "writes f img \<longleftrightarrow> img \<noteq> [] \<and> length img < 4294967296 \<and>
     (\<forall>buf. length img \<le> length buf \<longrightarrow> f buf = (of_nat (length img), img @ drop (length img) buf))"

definition reads :: "(u8 list \<Rightarrow> u32 \<Rightarrow> 'c \<Rightarrow> u32 \<times> 'c) \<Rightarrow> u8 list \<Rightarrow> 'c \<Rightarrow> 'c \<Rightarrow> bool" where
  "reads ld img c c' \<longleftrightarrow>
     (\<forall>d sz ts. take (unat sz) d = img @ ts \<longrightarrow> unat sz \<le> length d \<longrightarrow> ld d sz c = (of_nat (length img), c'))"

lemma writesD: "writes f img \<Longrightarrow> length img \<le> length buf \<Longrightarrow> f buf = (of_nat (length img), img @ drop (length img) buf)"
  by (simp add: writes_def)

lemma readsD: "reads ld img c c' \<Longrightarrow> take (unat sz) d = img @ ts \<Longrightarrow> unat sz \<le> length d \<Longrightarrow>
    ld d sz c = (of_nat (length img), c')"
  by (simp add: reads_def)

lemma length_chunk_image [simp]: "3 \<le> length name \<Longrightarrow> length (chunk_image name bs) = 8 + length bs"
  by (simp add: chunk_image_def length_chunk_name)

lemma chunk_writes:
  assumes "3 \<le> length name" "emits put bs" "length bs < 4294967288" "n = of_nat (length bs)"
  shows "writes (save_chunk name n put) (chunk_image name bs)"
proof -
  have "chunk_image name bs \<noteq> []" using length_chunk_image [OF assms(1), of bs] by auto
  then show ?thesis using save_chunk_emits [OF assms(1,2,3)] assms
    by (simp add: writes_def) (simp add: chunk_image_def)
qed

text \<open>The locale of a component's chunk, for one state: any payload its reader consumes.\<close>

lemma chunk_reads:
  assumes nm: "3 \<le> length name" and get: "consumes get v bs" and big: "length bs < 4294967288" and ok: "valid v"
  shows "reads (load_chunk name get valid install False) (chunk_image name bs) cur (install v cur)"
    and "reads (load_chunk name get valid install True) (chunk_image name bs) cur cur"
proof -
  have "state_chunk name (\<lambda>_. True) (\<lambda>_. bs) (\<lambda>_. opera_state_write_bytes (Some bs) (of_nat (length bs))) get
      (\<lambda>_. v) valid install (\<lambda>g cur. g = install v cur)"
    by unfold_locales (use assms in \<open>simp_all add: emits_write_bytes unat_of_nat\<close>)
  from state_chunk.load_image [OF this] nm
  show "reads (load_chunk name get valid install False) (chunk_image name bs) cur (install v cur)"
    by (simp add: reads_def state_chunk.image_def [OF \<open>state_chunk _ _ _ _ _ _ _ _ _\<close>] chunk_image_def length_chunk_name)
  then show "reads (load_chunk name get valid install True) (chunk_image name bs) cur cur"
    by (simp add: reads_def load_chunk_validating)
qed

lemma save_step_writes:
  "writes f img \<Longrightarrow> length img \<le> length ts \<Longrightarrow>
   save_step f (length p, p @ ts) = (length (p @ img), (p @ img) @ drop (length img) ts)"
  using writesD [of f img ts] by (simp add: save_step_def writes_def unat_of_nat)

lemma saves:
  assumes "list_all2 writes fs imgs" "length (concat imgs) \<le> length ts"
  shows "fold save_step fs (length p, p @ ts) =
    (length (p @ concat imgs), (p @ concat imgs) @ drop (length (concat imgs)) ts)"
  using assms
proof (induction fs imgs arbitrary: p ts rule: list_all2_induct)
  case Nil
  then show ?case by simp
next
  case (Cons f fs img imgs)
  have "fold save_step (f # fs) (length p, p @ ts) =
      fold save_step fs (length (p @ img), (p @ img) @ drop (length img) ts)"
    using save_step_writes [OF Cons.hyps(1), of ts p] Cons.prems by simp
  also have "\<dots> = (length ((p @ img) @ concat imgs),
      ((p @ img) @ concat imgs) @ drop (length (concat imgs)) (drop (length img) ts))"
    using Cons.prems by (intro Cons.IH) simp
  finally show ?case by (simp add: add.commute)
qed

lemma load_reads:
  assumes "reads ld img c c'" "img \<noteq> []" "length (img @ ts) < 4294967296"
  shows "load_steps (opera_3do_state_load_step ld 0 # fs) (img @ ts, c) = load_steps fs (ts, c')"
proof -
  let ?n = "of_nat (length (img @ ts)) :: u32"
  have n: "unat ?n = length (img @ ts)" using assms(3) by (intro unat_of_nat_u32) simp
  have "ld (img @ ts) ?n c = (of_nat (length img), c')"
    by (rule readsD [OF assms(1), where ts = ts]) (simp_all only: n, simp_all)
  moreover have i: "unat (of_nat (length img) :: u32) = length img" using assms(3) by (simp add: unat_of_nat)
  moreover have "(of_nat (length img) :: u32) \<noteq> 0" using i assms(2) by auto
  moreover have "\<not> ?n < of_nat (length img)" unfolding word_less_nat_alt n i by simp
  ultimately show ?thesis by (simp add: opera_3do_state_load_step_def Let_def del: of_nat_add length_append)
qed

section \<open>The savers of the parts\<close>

lemma saver_writes:
  assumes "3 \<le> length name" "emits put bs" "length bs < 4294967288" "n = of_nat (length bs)"
    and "\<And>buf. save buf = save_chunk name n put buf"
  shows "writes save (chunk_image name bs)"
proof -
  have "save = save_chunk name n put" using assms(5) by (simp add: fun_eq_iff)
  then show ?thesis using chunk_writes [OF assms(1-4)] by simp
qed

lemma runtime_writes:
  "writes (opera_3do_runtime_state_save c) (chunk_image ''3DRT'' (enc32 (field c) @ enc32 (g_FRAME_CYCLE_REMAINDER c)))"
  and runtime_size: "opera_3do_runtime_state_size c = 16"
proof -
  have e: "emits (opera_3do_runtime_state_write_payload c) (enc32 (field c) @ enc32 (g_FRAME_CYCLE_REMAINDER c))"
    unfolding opera_3do_runtime_state_write_payload_def by (intro emits_and emits_i32)
  have n: "opera_3do_runtime_state_payload_size c = 8"
    using payload_sizing_emits [OF e] by (simp add: opera_3do_runtime_state_payload_size_def)
  show "writes (opera_3do_runtime_state_save c) (chunk_image ''3DRT'' (enc32 (field c) @ enc32 (g_FRAME_CYCLE_REMAINDER c)))"
    by (rule saver_writes [where n = 8, OF _ e]) (simp_all add: opera_3do_runtime_state_save_def n)
  show "opera_3do_runtime_state_size c = 16"
    by (simp add: opera_3do_runtime_state_size_def n opera_state_chunk_size_def opera_state_save_size_def
        opera_state_chunk_header_size_def)
qed

definition prng_enc :: "'d console \<Rightarrow> u8 list" where
  "prng_enc c = enc32 (prng16_state_get (RAND16 c)) @ enc32 (prng32_state_get (RAND32 (board_of c)))"

lemma prng_writes: "writes (opera_3do_prng_state_save c) (chunk_image ''PRNG'' (prng_enc c))"
proof -
  have e: "emits (opera_3do_prng_state_write_payload c) (prng_enc c)"
    unfolding opera_3do_prng_state_write_payload_def prng_enc_def by (intro emits_and emits_u32)
  show ?thesis by (rule saver_writes [where n = 8, OF _ e]) (simp_all add: opera_3do_prng_state_save_def prng_enc_def)
qed

lemma length_arm_enc [simp]: "length (arm_enc a) = 184"
  by (simp add: arm_enc_def Let_def)

lemma arm_writes: "core_clean (CPU a) \<Longrightarrow> writes (opera_arm_state_save a) (chunk_image ''ARM'' (arm_enc a))"
proof -
  assume c: "core_clean (CPU a)"
  have e: "emits (opera_arm_state_write_payload a) (arm_enc a)"
    unfolding opera_arm_state_write_payload_def arm_enc_def Let_def
    by (intro emits_and emits_u32_array emits_u32 emits_u8) simp_all
  show ?thesis by (rule saver_writes [where n = 184, OF _ e]) (simp_all add: opera_arm_state_save_def arm_payload [OF c])
qed

lemma clio_writes: "writes (opera_clio_state_save c) (chunk_image ''CLIO'' (clio_enc c))"
  by (rule saver_writes [where n = 262508, OF _ emits_clio])
    (simp_all add: length_clio_enc opera_clio_state_save_def clio_payload)

lemma dsp_writes: "writes (opera_dsp_state_save d) (chunk_image ''DSP2'' (dsp_enc d))"
  by (rule saver_writes [where n = 6255, OF _ emits_dsp]) (simp_all add: length_dsp_enc opera_dsp_state_save_def dsp_payload)

lemma madam_writes: "writes (opera_madam_state_save u) (chunk_image ''MDAM'' (madam_enc u))"
  by (rule saver_writes [where n = 8544, OF _ emits_madam])
    (simp_all add: length_madam_enc opera_madam_state_save_def madam_payload)

lemma mem_writes:
  "opera_mem_is_valid_cfg (g_MEM_CFG m) \<Longrightarrow> writes (opera_mem_state_save m) (chunk_image ''MEM2'' (mem_payload m))"
  using length_mem_payload [of m] ram_bytes_le [of "g_MEM_CFG m"]
  by (intro saver_writes [where n = "opera_mem_state_payload_size m", OF _ emits_mem_state])
    (simp_all add: opera_mem_state_save_def)

definition sport_enc :: "sport \<Rightarrow> u8 list" where
  "sport_enc s = enc32 (color s) @ enc32 (source s) @ enc32 (destination s)"

lemma sport_writes: "writes (opera_sport_state_save s) (chunk_image ''SPRT'' (sport_enc s))"
  unfolding sport_enc_def
  by (rule saver_writes [where n = 12, OF _ sport_chunk.put_emits])
    (simp_all add: opera_sport_state_save_def sport_state_payload_size_def)

lemma vdlp_writes: "vdlp_clean v \<Longrightarrow> writes (opera_vdlp_state_save v) (chunk_image ''VDLP'' (vdlp_enc (g_VDLP v)))"
  by (rule saver_writes [where n = 132, OF _ emits_vdlp])
    (simp_all add: length_vdlp_enc opera_vdlp_state_save_def vdlp_payload)

lemma clock_writes: "clock_ok k \<Longrightarrow> writes (opera_clock_state_save k) (chunk_image ''CLCK'' (clock_enc k))"
  by (rule saver_writes [where n = 44, OF _ clock_chunk.put_emits])
    (simp_all add: opera_clock_state_save_def clock_payload clock_enc_def)

text \<open>The expansion bus with the drive in its first slot.\<close>

definition drive_attached :: "(nat \<Rightarrow> 'h drive device option) \<Rightarrow> bool" where
  "drive_attached X \<longleftrightarrow> X 0 = Some xbus_cdrom_plugin \<and> (\<forall>i \<in> {1..<15}. X i = None)"

lemma attached_drive: "drive_attached (xdev s) \<Longrightarrow> attached s = [(0, xbus_cdrom_plugin)]"
proof -
  assume a: "drive_attached (xdev s)"
  have "filter (\<lambda>i. xdev s i \<noteq> None) [1..<15] = []" using a by (auto simp: filter_empty_conv drive_attached_def)
  moreover have "[0..<15] = 0 # [1..<15]" by (simp add: upt_conv_Cons)
  ultimately show ?thesis using a by (simp add: attached_def drive_attached_def)
qed

definition xbus_enc :: "xbus_datum \<Rightarrow> opera_clock \<Rightarrow> 'h drive \<Rightarrow> u8 list" where
  "xbus_enc x K d = [xb_sel_l x] @ [xb_sel_h x] @ [polf x] @ [poldevf x] @ stdevf x @ [stlenf x] @ cmdf x @ [cmdptrf x] @
     enc32 1 @ [0] @ drive_image K d"

definition xbus_saveable :: "'h drive xbus \<Rightarrow> bool" where
  "xbus_saveable s \<longleftrightarrow> drive_attached (xdev s) \<and> drive_saveable (DRIVES s) \<and>
     length (stdevf (XBUS s)) = 255 \<and> length (cmdf (XBUS s)) = 7"

lemma length_xbus_enc: "xbus_saveable s \<Longrightarrow> length (xbus_enc (XBUS s) K (DRIVES s)) = 3942"
  by (simp add: xbus_enc_def xbus_saveable_def length_drive_image)

lemma emits_drive:
  assumes d: "drive_saveable d"
  shows "emits (xbus_write_device K 0 xbus_cdrom_plugin d) ([0] @ drive_image K d)"
proof -
  let ?img = "drive_image K d"
  note l = length_drive_image [OF d, of K]
  have sz: "fst (dev_call xbus_cdrom_plugin K XBP_GET_SAVESIZE 0 d) = 3669"
    using cdrom_state_save_image(2) [OF d, where buf = "replicate 3669 0"] by (simp add: xbus_cdrom_plugin_def plugin_call_def)
  have sv: "dev_get_savedata xbus_cdrom_plugin K d = (3669, ?img)"
    using cdrom_state_save_image [OF d, where buf = "replicate 3669 0"] l
    by (simp add: xbus_cdrom_plugin_def plugin_savedata_def)
  show ?thesis
  proof (rule emitsI)
    fix w assume w: "wok w" "wspace w (length ([0] @ ?img))"
    have 1: "wspace w (length [0 :: u8])" using w(2) l by (auto simp: wspace_def)
    let ?w = "wput w [0]"
    have 2: "wok ?w" "wspace ?w (unat (3669 :: u32))" using w l wspace_wput [OF 1] by (simp_all add: wok_wput)
    have u: "opera_state_write_u8 0 w = (True, ?w)" by (rule emitsD [OF emits_u8 w(1) 1])
    have n: "(3669 :: u32) = of_nat (length ?img)" using l by simp
    show "xbus_write_device K 0 xbus_cdrom_plugin d w = (True, wput w ([0] @ ?img))"
      unfolding wput_append [OF 1, symmetric]
      using 2(1) by (cases "w_data ?w")
        (simp_all add: xbus_write_device_def sz sv u reserve_room [OF 2] wok_def wput_sizing [OF _ n]
          wput_reserve [OF _ n] Let_def)
  next
    fix w assume w: "wok w" "\<not> wspace w (length ([0] @ ?img))"
    show "\<not> fst (xbus_write_device K 0 xbus_cdrom_plugin d w) \<and>
        w_failed (snd (xbus_write_device K 0 xbus_cdrom_plugin d w))"
    proof (cases "wspace w (length [0 :: u8])")
      case True
      let ?w = "wput w [0]"
      have "wok ?w" "\<not> wspace ?w (unat (3669 :: u32))" using w l wspace_wput [OF True] by (simp_all add: wok_wput)
      note r = reserve_noroom [OF this]
      have u: "opera_state_write_u8 0 w = (True, ?w)" by (rule emitsD [OF emits_u8 w(1) True])
      show ?thesis using r by (simp add: xbus_write_device_def sz u case_prod_unfold Let_def)
    next
      case False
      then show ?thesis using emits_noroom [OF emits_u8 w(1), of 0]
        by (simp add: xbus_write_device_def sz case_prod_unfold Let_def)
    qed
  qed
qed

lemma emits_xbus:
  assumes s: "xbus_saveable s"
  shows "emits (xbus_state_write_payload s) (xbus_enc (XBUS s) (CLOCK s) (DRIVES s))"
proof -
  note x = s [unfolded xbus_saveable_def]
  have "xbus_write_devices (CLOCK s) [(0, xbus_cdrom_plugin)] (DRIVES s) = xbus_write_device (CLOCK s) 0 xbus_cdrom_plugin (DRIVES s)"
    by (rule ext) (simp add: w_and_def split: prod.split)
  then have d: "emits (xbus_write_devices (CLOCK s) [(0, xbus_cdrom_plugin)] (DRIVES s)) ([0] @ drive_image (CLOCK s) (DRIVES s))"
    using emits_drive [of "DRIVES s" "CLOCK s"] x by simp
  have n: "(of_nat (length (attached s)) :: u32) = 1" using x by (simp add: attached_drive)
  show ?thesis
    unfolding xbus_state_write_payload_def xbus_enc_def Let_def n using x
    by (intro emits_and emits_u8 emits_u32 emits_write_bytes) (simp_all add: attached_drive d [simplified])
qed

lemma xbus_writes:
  "xbus_saveable s \<Longrightarrow> writes (opera_xbus_state_save s) (chunk_image ''XBUS'' (xbus_enc (XBUS s) (CLOCK s) (DRIVES s)))"
  and xbus_size: "xbus_saveable s \<Longrightarrow> opera_xbus_state_size s = 3950"
proof -
  assume s: "xbus_saveable s"
  have n: "xbus_state_payload_size s = 3942"
    using payload_sizing_emits [OF emits_xbus [OF s]] by (simp add: xbus_state_payload_size_def length_xbus_enc [OF s])
  show "writes (opera_xbus_state_save s) (chunk_image ''XBUS'' (xbus_enc (XBUS s) (CLOCK s) (DRIVES s)))"
    by (rule saver_writes [where n = 3942, OF _ emits_xbus [OF s]])
      (simp_all add: length_xbus_enc [OF s] opera_xbus_state_save_def n)
  show "opera_xbus_state_size s = 3950"
    by (simp add: opera_xbus_state_size_def n opera_state_chunk_size_def opera_state_save_size_def
        opera_state_chunk_header_size_def)
qed

section \<open>The loaders of the parts\<close>

text \<open>A loader that is \<open>load_chunk\<close>, checking or not, and one that works on a part of the console.\<close>

lemma chunk_loads:
  assumes "L = load_chunk name get valid install v" "3 \<le> length name" "consumes get x bs" "length bs < 4294967288" "valid x"
  shows "reads L (chunk_image name bs) cur (if v then cur else install x cur)"
  using chunk_reads [where install = install and valid = valid and cur = cur, OF assms(2,3,4,5)] assms(1) by (cases v) simp_all

lemma part_reads:
  assumes "reads ld img part part'" "\<And>d sz. L d sz c = (fst (ld d sz part), put (snd (ld d sz part)))"
  shows "reads L img c (put part')"
  using assms(1) by (simp add: reads_def assms(2))

lemma runtime_reads:
  assumes "field s = 0 \<or> field s = 1"
  shows "reads (opera_3do_runtime_state_load v) (chunk_image ''3DRT'' (enc32 (field s) @ enc32 (g_FRAME_CYCLE_REMAINDER s))) c
    (if v then c else c\<lparr>field := field s, g_FRAME_CYCLE_REMAINDER := g_FRAME_CYCLE_REMAINDER s\<rparr>)"
proof -
  have "consumes runtime_read (field s, g_FRAME_CYCLE_REMAINDER s) (enc32 (field s) @ enc32 (g_FRAME_CYCLE_REMAINDER s) @ [])"
    unfolding runtime_read_def by (rule consumes_fields)+
  from chunk_loads [where name = "''3DRT''", OF ext [THEN ext, THEN ext, OF opera_3do_runtime_state_load_def] _ this, of v c]
  show ?thesis using assms by (simp add: case_prod_unfold split del: if_split cong: if_cong)
qed

lemma prng_reads:
  "reads (opera_3do_prng_state_load v) (chunk_image ''PRNG'' (prng_enc s)) c
    (if v then c else prng_install (prng16_state_get (RAND16 s), prng32_state_get (RAND32 (board_of s))) c)"
proof -
  have "consumes prng_read (prng16_state_get (RAND16 s), prng32_state_get (RAND32 (board_of s)))
     (enc32 (prng16_state_get (RAND16 s)) @ enc32 (prng32_state_get (RAND32 (board_of s))) @ [])"
    unfolding prng_read_def by (rule consumes_fields)+
  from chunk_loads [where name = "''PRNG''", OF ext [THEN ext, THEN ext, OF opera_3do_prng_state_load_def] _ this, of v c]
  show ?thesis by (simp add: prng_enc_def split del: if_split cong: if_cong)
qed

lemma arm_part_reads:
  assumes "core_clean (CPU a)"
  shows "reads (opera_arm_state_load m v) (chunk_image ''ARM'' (arm_enc a)) b
    (if v then b else set_rom_overlay m (g_ROM_OVERLAY a) (b\<lparr>CPU := CPU a, g_SOFT_RESET_PENDING := g_SOFT_RESET_PENDING a\<rparr>))"
  using chunk_loads [OF ext [THEN ext, THEN ext, OF opera_arm_state_load_def] _ arm_read_consumes [OF assms], of m v b]
  by (simp add: arm_snap_def case_prod_unfold split del: if_split cong: if_cong)

lemma arm_reads:
  assumes "core_clean (CPU a)"
  shows "reads (load_arm (\<lambda>m. opera_arm_state_load m v)) (chunk_image ''ARM'' (arm_enc a)) c
    (if v then c else c\<lparr>SYS := (SYS c)\<lparr>ARM := set_rom_overlay (MEM (SYS c)) (g_ROM_OVERLAY a)
       ((ARM (SYS c))\<lparr>CPU := CPU a, g_SOFT_RESET_PENDING := g_SOFT_RESET_PENDING a\<rparr>)\<rparr>\<rparr>)"
proof -
  have "reads (load_arm (\<lambda>m. opera_arm_state_load m v)) (chunk_image ''ARM'' (arm_enc a)) c
    ((\<lambda>x. c\<lparr>SYS := (SYS c)\<lparr>ARM := x\<rparr>\<rparr>) (if v then ARM (SYS c) else set_rom_overlay (MEM (SYS c)) (g_ROM_OVERLAY a)
       ((ARM (SYS c))\<lparr>CPU := CPU a, g_SOFT_RESET_PENDING := g_SOFT_RESET_PENDING a\<rparr>)))"
    by (rule part_reads [OF arm_part_reads [OF assms]]) (simp add: load_arm_def case_prod_unfold Let_def)
  then show ?thesis by (cases v) simp_all
qed

lemma clio_part_reads:
  assumes "clio_clean k"
  shows "reads (opera_clio_state_load v) (chunk_image ''CLIO'' (clio_enc k)) p
    (if v then p else (k, clio_set_rom k (snd p)))"
  using chunk_loads [OF ext [THEN ext, THEN ext, OF opera_clio_state_load_def] _ consumes_clio [OF assms], of v p]
  by (simp add: length_clio_enc case_prod_unfold split del: if_split cong: if_cong)

lemma clio_reads:
  assumes "clio_clean k"
  shows "reads (load_clio (opera_clio_state_load v)) (chunk_image ''CLIO'' (clio_enc k)) c
    (if v then c else c\<lparr>SYS := on_cl (\<lambda>_. k) ((SYS c)\<lparr>MEM := clio_set_rom k (MEM (SYS c))\<rparr>)\<rparr>)"
proof -
  have "reads (load_clio (opera_clio_state_load v)) (chunk_image ''CLIO'' (clio_enc k)) c
    ((\<lambda>x. c\<lparr>SYS := on_cl (\<lambda>_. fst x) ((SYS c)\<lparr>MEM := snd x\<rparr>)\<rparr>)
      (if v then (clio_of (SYS c), MEM (SYS c)) else (k, clio_set_rom k (snd (clio_of (SYS c), MEM (SYS c))))))"
    by (rule part_reads [OF clio_part_reads [OF assms]]) (simp add: load_clio_def case_prod_unfold Let_def)
  then show ?thesis by (cases v) (simp_all add: on_part)
qed

lemma dsp_chunk_load:
  assumes "take (unat sz) e = chunk_image ''DSP2'' (dsp_enc d) @ ts"
  shows "opera_dsp_state_load v e sz x = load_chunk ''DSP2'' dsp2_read (\<lambda>_. True) dsp_state_apply_live v e sz x"
proof -
  have "4 \<le> length (take (unat sz) e)" using assms by (simp add: chunk_image_def length_chunk_name)
  then have n: "4 \<le> unat sz" by simp
  then have "take 4 e = take 4 (take (unat sz) e)" by (simp add: min_absorb1)
  with n show ?thesis using assms
    by (simp add: chunk_image_def length_chunk_name word_le_nat_alt opera_dsp_state_load_def
        opera_dsp_state_load_chunk_def dsp2_read_def)
qed

lemma dsp_part_reads:
  "reads (opera_dsp_state_load v) (chunk_image ''DSP2'' (dsp_enc d)) x (if v then x else dsp_state_apply_live (dsp_snap d) x)"
  using chunk_loads [where L = "load_chunk ''DSP2'' dsp2_read (\<lambda>_. True) dsp_state_apply_live v", OF refl _ consumes_dsp, of d x]
  by (simp add: length_dsp_enc reads_def dsp_chunk_load split del: if_split cong: if_cong)

lemma dsp_reads:
  "reads (load_dsp (opera_dsp_state_load v)) (chunk_image ''DSP2'' (dsp_enc d)) c
    (if v then c else c\<lparr>SYS := on_audio (dsp_state_apply_live (dsp_snap d)) (SYS c)\<rparr>)"
proof -
  have "reads (load_dsp (opera_dsp_state_load v)) (chunk_image ''DSP2'' (dsp_enc d)) c
    ((\<lambda>x. c\<lparr>SYS := on_audio (\<lambda>_. x) (SYS c)\<rparr>)
      (if v then AUDIO (board_of c) else dsp_state_apply_live (dsp_snap d) (AUDIO (board_of c))))"
    by (rule part_reads [OF dsp_part_reads]) (simp add: load_dsp_def case_prod_unfold Let_def)
  then show ?thesis by (cases v) (simp_all add: on_part)
qed

lemma madam_part_reads:
  assumes "madam_clean u"
  shows "reads (opera_madam_state_load v) (chunk_image ''MDAM'' (madam_enc u)) x (if v then x else madam_install (madam_snap u) x)"
  using chunk_loads [OF ext [THEN ext, THEN ext, OF opera_madam_state_load_def] _ consumes_madam [OF assms], of v x] assms
  by (simp add: length_madam_enc madam_snap_def madam_clean_def split del: if_split cong: if_cong)

lemma madam_reads:
  assumes "madam_clean u"
  shows "reads (load_madam (opera_madam_state_load v)) (chunk_image ''MDAM'' (madam_enc u)) c
    (if v then c else c\<lparr>SYS := on_gfx (madam_install (madam_snap u)) (SYS c)\<rparr>)"
proof -
  have "reads (load_madam (opera_madam_state_load v)) (chunk_image ''MDAM'' (madam_enc u)) c
    ((\<lambda>x. c\<lparr>SYS := on_gfx (\<lambda>_. x) (SYS c)\<rparr>) (if v then gfx (SYS c) else madam_install (madam_snap u) (gfx (SYS c))))"
    by (rule part_reads [OF madam_part_reads [OF assms]]) (simp add: load_madam_def case_prod_unfold Let_def)
  then show ?thesis by (cases v) (simp_all add: on_part)
qed

lemma sport_reads:
  "reads (load_sport (opera_sport_state_load v)) (chunk_image ''SPRT'' (sport_enc s)) c
    (if v then c else c\<lparr>SYS := (SYS c)\<lparr>SPORT := s\<rparr>\<rparr>)"
proof -
  have p: "reads (opera_sport_state_load v) (chunk_image ''SPRT'' (sport_enc s)) x (if v then x else s)" for x
    using chunk_loads [OF ext [THEN ext, THEN ext, OF opera_sport_state_load_def] _ sport_chunk.get_consumes [OF TrueI, of s], where v = v and cur = x]
    by (simp add: sport_enc_def split del: if_split cong: if_cong)
  have "reads (load_sport (opera_sport_state_load v)) (chunk_image ''SPRT'' (sport_enc s)) c
    ((\<lambda>x. c\<lparr>SYS := (SYS c)\<lparr>SPORT := x\<rparr>\<rparr>) (if v then SPORT (SYS c) else s))"
    by (rule part_reads [OF p]) (simp add: load_sport_def case_prod_unfold Let_def)
  then show ?thesis by (cases v) simp_all
qed

lemma vdlp_reads:
  assumes "vdlp_clean w"
  shows "reads (load_vdlp (opera_vdlp_state_load v)) (chunk_image ''VDLP'' (vdlp_enc (g_VDLP w))) c
    (if v then c else c\<lparr>SYS := on_video (\<lambda>x. x\<lparr>g_VDLP := g_VDLP w\<rparr>) (SYS c)\<rparr>)"
proof -
  have m: "migrate_vdlp_state (g_VDLP w) = g_VDLP w" using assms by (simp add: migrate_vdlp_state_def vdlp_clean_def)
  have p: "reads (opera_vdlp_state_load v) (chunk_image ''VDLP'' (vdlp_enc (g_VDLP w))) x
      (if v then x else x\<lparr>g_VDLP := g_VDLP w\<rparr>)" for x
    using chunk_loads [OF ext [THEN ext, THEN ext, OF opera_vdlp_state_load_def] _ consumes_vdlp [OF assms], of v x]
    by (simp add: length_vdlp_enc [OF assms] m split del: if_split cong: if_cong)
  have "reads (load_vdlp (opera_vdlp_state_load v)) (chunk_image ''VDLP'' (vdlp_enc (g_VDLP w))) c
    ((\<lambda>x. c\<lparr>SYS := on_video (\<lambda>_. x) (SYS c)\<rparr>) (if v then VIDEO (board_of c) else (VIDEO (board_of c))\<lparr>g_VDLP := g_VDLP w\<rparr>))"
    by (rule part_reads [OF p]) (simp add: load_vdlp_def case_prod_unfold Let_def)
  then show ?thesis by (cases v) (simp_all add: on_part)
qed

lemma clock_reads:
  assumes "clock_ok k"
  shows "reads (load_clock (opera_clock_state_load v)) (chunk_image ''CLCK'' (clock_enc k)) c
    (if v then c else c\<lparr>SYS := on_clock (\<lambda>_. k) (SYS c)\<rparr>)"
proof -
  have p: "reads (opera_clock_state_load v) (chunk_image ''CLCK'' (clock_enc k)) x (if v then x else k)" for x
    using chunk_loads [OF ext [THEN ext, THEN ext, OF opera_clock_state_load_def] _ clock_chunk.get_consumes [OF assms], where v = v and cur = x]
      clock_chunk.snap_valid [OF assms] clock_chunk.install_snap [OF assms TrueI]
    by (simp add: clock_enc_def split del: if_split cong: if_cong)
  have "reads (load_clock (opera_clock_state_load v)) (chunk_image ''CLCK'' (clock_enc k)) c
    ((\<lambda>x. c\<lparr>SYS := on_clock (\<lambda>_. x) (SYS c)\<rparr>) (if v then clock_of (SYS c) else k))"
    by (rule part_reads [OF p]) (simp add: load_clock_def case_prod_unfold Let_def)
  then show ?thesis by (cases v) (simp_all add: on_part)
qed

text \<open>The memory, whose planes are read into place.\<close>

definition mem_restored :: "memory \<Rightarrow> memory \<Rightarrow> memory" where
  "mem_restored m cur = mem_installed (g_MEM_CFG m)
     (NVRAM_update (mem_load (mem_bytes (NVRAM m) (unat NVRAM_SIZE)))
       (DRAM_update (mem_load (mem_bytes (DRAM m) (unat (opera_mem_state_ram_bytes (g_MEM_CFG m))))) cur))"

lemma mem_part_reads:
  assumes m: "opera_mem_is_valid_cfg (g_MEM_CFG m)"
  shows "reads (opera_mem_state_load v) (chunk_image ''MEM2'' (mem_payload m)) x (if v then x else mem_restored m x)"
  unfolding reads_def
proof (intro allI impI)
  fix d :: "u8 list" and sz :: u32 and ts
  assume t: "take (unat sz) d = chunk_image ''MEM2'' (mem_payload m) @ ts" and n: "unat sz \<le> length d"
  let ?k = "of_nat (length (chunk_image ''MEM2'' (mem_payload m))) :: u32"
  have ld: "opera_mem_state_load_mem2 False d sz x = (?k, mem_restored m x)"
    using load_mem2_image [OF m n, of ts x] t length_mem_payload [OF m]
    by (simp add: chunk_image_def mem_restored_def length_chunk_name)
  have "unat (opera_mem_state_size m) = length (chunk_image ''MEM2'' (mem_payload m))"
    using mem_state_saved(2) [OF m] by simp
  then have k: "?k \<noteq> 0" using mem_state_saved(1) [OF m] by (auto simp del: of_nat_add)
  have chk: "opera_mem_state_load_mem2 True d sz x = (?k, x)"
    using load_mem2_cases [OF n, of x] ld k by auto
  have "4 \<le> length (take (unat sz) d)" using t by (simp add: length_chunk_name chunk_image_def)
  then have 4: "4 \<le> unat sz" by simp
  then have "take 4 d = take 4 (take (unat sz) d)" by (simp add: min_absorb1)
  then have "take 4 d = chunk_name ''MEM2''" using t by (simp add: chunk_image_def length_chunk_name)
  then show "opera_mem_state_load v d sz x = (?k, if v then x else mem_restored m x)"
    using ld chk 4 by (cases v) (simp_all add: opera_mem_state_load_def word_le_nat_alt)
qed

lemma mem_reads:
  assumes "opera_mem_is_valid_cfg (g_MEM_CFG m)"
  shows "reads (load_mem (opera_mem_state_load v)) (chunk_image ''MEM2'' (mem_payload m)) c
    (if v then c else c\<lparr>SYS := (SYS c)\<lparr>MEM := mem_restored m (MEM (SYS c))\<rparr>\<rparr>)"
proof -
  have "reads (load_mem (opera_mem_state_load v)) (chunk_image ''MEM2'' (mem_payload m)) c
    ((\<lambda>x. c\<lparr>SYS := (SYS c)\<lparr>MEM := x\<rparr>\<rparr>) (if v then MEM (SYS c) else mem_restored m (MEM (SYS c))))"
    by (rule part_reads [OF mem_part_reads [OF assms]]) (simp add: load_mem_def case_prod_unfold Let_def)
  then show ?thesis by (cases v) simp_all
qed

text \<open>The expansion bus: the controller, then the drive, reset before its state is put back.\<close>

lemma read_slot:
  fixes d :: "'h drive" and s :: "'h drive xbus"
  assumes r: "rok r" "rest r = [0] @ drive_image K d" and d: "drive_saveable d"
    and s: "xdev s 0 = Some xbus_cdrom_plugin" and k: "v \<or> opera_clock_cpu_get_cycles (CLOCK s) = opera_clock_cpu_get_cycles K"
  shows "\<exists>p. rok p \<and> rest p = [] \<and> xbus_read_devices v (Suc 0) r s =
    (True, p, if v then s else s\<lparr>DRIVES := drive_restored K d (opera_cdrom_init (DRIVES s))\<rparr>)"
proof -
  let ?img = "drive_image K d"
  note l = length_drive_image [OF d, of K]
  obtain q where u: "opera_state_read_u8 r = (Some 0, q)" and q: "rok q" "rest q = ?img"
    using consumesD [OF consumes_u8 r] r l by (simp add: rok_radv rest_radv)
  have rem: "opera_state_reader_remaining q = 3669"
    using remaining_rest [OF q(1)] q(2) l by (simp add: word_unat_eq_iff)
  have b: "bytes_at q 3669 = ?img" using rest_data [OF q(1), of 3669] q(2) l by simp
  have ld: "\<not> v \<Longrightarrow> dev_set_savedata xbus_cdrom_plugin (CLOCK s) False ?img 3669 t = (3669, drive_restored K d t)" for t :: "'h drive"
    using cdrom_load_image [OF d, of 3669 ?img K "[]" "CLOCK s" t] l k by (simp add: xbus_cdrom_plugin_def)
  have chk: "dev_set_savedata xbus_cdrom_plugin (CLOCK s) True ?img 3669 t = (3669, t)" for t :: "'h drive"
    using cdrom_check_image [OF d, of 3669 ?img K "[]" "CLOCK s" t] l by (simp add: xbus_cdrom_plugin_def)
  have rs: "dev_do xbus_cdrom_plugin XBP_RESET 0 s = (0, s\<lparr>DRIVES := opera_cdrom_init (DRIVES s)\<rparr>)"
    by (simp add: dev_do_def xbus_cdrom_plugin_def plugin_call_def)
  have "q\<lparr>r_offset := r_offset q + 3669\<rparr> = radv q 3669" by (simp add: radv_def)
  then have "xbus_read_devices v (Suc 0) r s = (True, radv q 3669,
      if v then s else s\<lparr>DRIVES := drive_restored K d (opera_cdrom_init (DRIVES s))\<rparr>)"
    using s by (cases v) (simp_all add: u rem b rs [simplified] ld chk Let_def)
  moreover have "rok (radv q 3669)" "rest (radv q 3669) = []" using q l by (simp_all add: rok_radv rest_radv)
  ultimately show ?thesis by blast
qed

definition xbus_restored :: "xbus_datum \<Rightarrow> opera_clock \<Rightarrow> 'h drive \<Rightarrow> 'h drive xbus \<Rightarrow> 'h drive xbus" where
  "xbus_restored x K d s = s\<lparr>XBUS := x, DRIVES := drive_restored K d (opera_cdrom_init (DRIVES s))\<rparr>"

lemma xbus_read_enc:
  assumes "length (stdevf x) = 255" "length (cmdf x) = 7" "rok p" "rest p = xbus_enc x K d"
  shows "\<exists>q. xbus_state_read p = (Some (x, 1), q) \<and> rok q \<and> rest q = [0] @ drive_image K d"
proof -
  have st: "consumes (opera_state_read_bytes 255) (stdevf x) (stdevf x)"
    and cm: "consumes (opera_state_read_bytes 7) (cmdf x) (cmdf x)" using assms(1,2) by (simp_all add: consumes_bytes)
  let ?bs = "[xb_sel_l x] @ [xb_sel_h x] @ [polf x] @ [poldevf x] @ stdevf x @ [stlenf x] @ cmdf x @ [cmdptrf x] @ enc32 1 @ []"
  have "consumes xbus_state_read (\<lparr>xb_sel_l = xb_sel_l x, xb_sel_h = xb_sel_h x, polf = polf x, poldevf = poldevf x,
      stdevf = stdevf x, stlenf = stlenf x, cmdf = cmdf x, cmdptrf = cmdptrf x\<rparr>, 1) ?bs"
    unfolding xbus_state_read_def
    by (rule consumes_bind [OF st] consumes_bind [OF cm] consumes_fields)+
  then have c: "consumes xbus_state_read (x, 1) ?bs" by (cases x) simp
  have r: "rest p = ?bs @ [0] @ drive_image K d" using assms(4) by (simp add: xbus_enc_def)
  have len: "length bs \<le> length (bs @ ts)" and dr: "drop (length bs) (bs @ ts) = ts" for bs ts :: "u8 list" by simp_all
  have "length ?bs \<le> length (rest p)" "drop (length ?bs) (rest p) = [0] @ drive_image K d"
    unfolding r by (rule len dr)+
  then have "rok (radv p (length ?bs))" "rest (radv p (length ?bs)) = [0] @ drive_image K d"
    using rok_radv [OF assms(3)] rest_radv [OF assms(3)] by simp_all
  with consumesD [OF c assms(3) r] show ?thesis by blast
qed

lemma xbus_part_reads:
  fixes s t :: "'h drive xbus"
  assumes x: "xbus_saveable s" and t: "xdev t 0 = Some xbus_cdrom_plugin"
    and k: "v \<or> opera_clock_cpu_get_cycles (CLOCK t) = opera_clock_cpu_get_cycles (CLOCK s)"
  shows "reads (opera_xbus_state_load v) (chunk_image ''XBUS'' (xbus_enc (XBUS s) (CLOCK s) (DRIVES s))) t
    (if v then t else xbus_restored (XBUS s) (CLOCK s) (DRIVES s) t)"
  unfolding reads_def
proof (intro allI impI)
  let ?e = "xbus_enc (XBUS s) (CLOCK s) (DRIVES s)"
  fix d :: "u8 list" and sz :: u32 and ts
  assume d: "take (unat sz) d = chunk_image ''XBUS'' ?e @ ts" and n: "unat sz \<le> length d"
  note l = length_xbus_enc [OF x, of "CLOCK s"] and x' = x [unfolded xbus_saveable_def]
  let ?r = "opera_state_reader_init d sz"
  have "rok ?r" "rest ?r = chunk_name ''XBUS'' @ enc32 (3942 :: u32) @ ?e @ ts"
    using d n l by (simp_all add: rok_init rest_init chunk_image_def)
  from read_chunk_consumes [OF this] l obtain p where
    c: "opera_state_read_chunk ''XBUS'' ?r = (Some p, radv ?r 3950)" and p: "rok p" "rest p = ?e" by auto
  obtain q where q: "xbus_state_read p = (Some (XBUS s, 1), q)" "rok q" "rest q = [0] @ drive_image (CLOCK s) (DRIVES s)"
    using xbus_read_enc [OF _ _ p] x' by blast
  let ?t = "if v then t else t\<lparr>XBUS := XBUS s\<rparr>"
  have t': "xdev ?t 0 = Some xbus_cdrom_plugin" using t by simp
  have k': "v \<or> opera_clock_cpu_get_cycles (CLOCK ?t) = opera_clock_cpu_get_cycles (CLOCK s)" using k by auto
  obtain z where z: "rok z" "rest z = []" "xbus_read_devices v (Suc 0) q ?t = (True, z,
      if v then ?t else ?t\<lparr>DRIVES := drive_restored (CLOCK s) (DRIVES s) (opera_cdrom_init (DRIVES ?t))\<rparr>)"
    using read_slot [OF q(2,3) _ t' k'] x' by blast
  have "opera_state_reader_used (radv ?r 3950) = 3950"
    by (simp add: opera_state_reader_used_def radv_def opera_state_reader_init_def)
  then show "opera_xbus_state_load v d sz t = (of_nat (length (chunk_image ''XBUS'' ?e)),
      if v then t else xbus_restored (XBUS s) (CLOCK s) (DRIVES s) t)"
    using z(3) finished_iff [OF z(1)] z(2) l
    by (cases v) (simp_all add: opera_xbus_state_load_def c q(1) xbus_restored_def One_nat_def [symmetric]
        del: xbus_read_devices.simps One_nat_def)
qed

lemma xbus_reads:
  assumes "xbus_saveable s" "slots_of c 0 = Some xbus_cdrom_plugin"
    "v \<or> opera_clock_cpu_get_cycles (clock_of (SYS c)) = opera_clock_cpu_get_cycles (CLOCK s)"
  shows "reads (load_xbus (opera_xbus_state_load v)) (chunk_image ''XBUS'' (xbus_enc (XBUS s) (CLOCK s) (DRIVES s))) c
    (if v then c else c\<lparr>SYS := on_bus (xbus_restored (XBUS s) (CLOCK s) (DRIVES s)) (SYS c)\<rparr>)"
proof -
  let ?b = "BUS (board_of c)"
  have "reads (load_xbus (opera_xbus_state_load v)) (chunk_image ''XBUS'' (xbus_enc (XBUS s) (CLOCK s) (DRIVES s))) c
    ((\<lambda>x. c\<lparr>SYS := on_bus (\<lambda>_. x) (SYS c)\<rparr>) (if v then ?b else xbus_restored (XBUS s) (CLOCK s) (DRIVES s) ?b))"
    by (rule part_reads [OF xbus_part_reads [OF assms(1)]]) (simp_all add: assms load_xbus_def case_prod_unfold Let_def)
  then show ?thesis by (cases v) (simp_all add: on_part)
qed

end
