(* ===== verification/Opera_Console_Props.thy ===== *)
theory Opera_Console_Props
  imports Opera_Console_Chunks
begin

text \<open>
  The saved state of the whole console with the drive on its expansion bus: its bytes, what a resume makes of them, the
  round trip through \<open>retro_serialize\<close> and \<open>retro_unserialize\<close>, and the dry run before a load.
\<close>

section \<open>The image of a console\<close>

definition header_image :: "u8 list" where
  "header_image = chunk_image ''3DO'' (enc32 4 @ enc32 0)"

definition part_images :: "'h drive console \<Rightarrow> u8 list list" where
  "part_images c =
     (let s = SYS c; b = DEV s in
      [chunk_image ''3DRT'' (enc32 (field c) @ enc32 (g_FRAME_CYCLE_REMAINDER c)), chunk_image ''PRNG'' (prng_enc c),
       chunk_image ''ARM'' (arm_enc (ARM s)), chunk_image ''CLIO'' (clio_enc (clio_of s)),
       chunk_image ''DSP2'' (dsp_enc (AUDIO b)), chunk_image ''MDAM'' (madam_enc (gfx s)),
       chunk_image ''MEM2'' (mem_payload (MEM s)), chunk_image ''SPRT'' (sport_enc (SPORT s)),
       chunk_image ''VDLP'' (vdlp_enc (g_VDLP (VIDEO b))), chunk_image ''CLCK'' (clock_enc (clock_of s)),
       chunk_image ''XBUS'' (xbus_enc (XBUS (BUS b)) (clock_of s) (DRIVES (BUS b)))])"

definition console_image :: "'h drive console \<Rightarrow> u8 list" where
  "console_image c = header_image @ concat (part_images c)"

text \<open>A console whose state can be saved.\<close>

definition console_saveable :: "'h drive console \<Rightarrow> bool" where
  "console_saveable c \<longleftrightarrow>
     (field c = 0 \<or> field c = 1) \<and> core_clean (CPU (ARM (SYS c))) \<and> clio_clean (clio_of (SYS c)) \<and>
     dsp_clean (AUDIO (board_of c)) \<and> madam_clean (gfx (SYS c)) \<and> mem_ready (MEM (SYS c)) \<and>
     vdlp_clean (VIDEO (board_of c)) \<and> clock_ok (clock_of (SYS c)) \<and> xbus_saveable (BUS (board_of c))"

lemma saveable_mem: "console_saveable c \<Longrightarrow> opera_mem_is_valid_cfg (g_MEM_CFG (MEM (SYS c)))"
  by (simp add: console_saveable_def mem_ready_def)

lemma length_prng_enc [simp]: "length (prng_enc c) = 8"
  by (simp add: prng_enc_def)

lemma length_sport_enc [simp]: "length (sport_enc s) = 12"
  by (simp add: sport_enc_def)

lemma length_header: "length header_image = 16"
  by (simp add: header_image_def)

lemma header_nonempty: "header_image \<noteq> []"
  using length_header by auto

lemma map_length_images:
  assumes "console_saveable c"
  shows "map length (part_images c) =
    [16, 16, 192, 262516, 6263, 8552, 8 + length (mem_payload (MEM (SYS c))), 20, 140, 52, 3950]"
  using assms by (simp add: part_images_def console_saveable_def Let_def length_clio_enc length_dsp_enc length_madam_enc
      length_vdlp_enc length_xbus_enc)

lemma image_nonempty: "img \<in> set (part_images c) \<Longrightarrow> img \<noteq> []"
  by (auto simp: part_images_def chunk_image_def chunk_name_def c_str_def Let_def)

lemma length_concat_images:
  assumes "console_saveable c"
  shows "length (concat (part_images c)) = 281725 + length (mem_payload (MEM (SYS c)))"
    and "length (concat (part_images c)) < 30000000"
proof -
  note m = saveable_mem [OF assms]
  show "length (concat (part_images c)) = 281725 + length (mem_payload (MEM (SYS c)))"
    by (simp add: length_concat map_length_images [OF assms])
  then show "length (concat (part_images c)) < 30000000"
    using length_mem_payload(1) [OF m] ram_bytes_le [OF m] by simp
qed

section \<open>Saving\<close>

lemma add_sizes_lengths:
  assumes "\<And>img. img \<in> set imgs \<Longrightarrow> img \<noteq> []" "length (concat imgs) < 4294967296"
  shows "add_sizes acc (map (\<lambda>img. of_nat (length img)) imgs) = acc + of_nat (length (concat imgs))"
  using assms
proof (induction imgs arbitrary: acc)
  case (Cons img imgs)
  have "unat (of_nat (length img) :: u32) = length img" using Cons.prems(2) by (intro unat_of_nat_u32) simp
  moreover have "img \<noteq> []" using Cons.prems(1) by simp
  ultimately have "(of_nat (length img) :: u32) \<noteq> 0" by auto
  then show ?case using Cons by (simp add: add.assoc)
qed simp

lemma part_sizes:
  assumes "console_saveable c"
  shows "opera_3do_state_size_v3 c = of_nat (length (console_image c))"
proof -
  let ?s = "SYS c" and ?b = "board_of c"
  note c = assms [unfolded console_saveable_def]
  have "[opera_3do_state_header_size_v3, opera_3do_runtime_state_size c, opera_3do_prng_state_size,
         opera_arm_state_size (ARM ?s), opera_clio_state_size (clio_of ?s), opera_dsp_state_size (AUDIO ?b),
         opera_madam_state_size (GFX ?b), opera_mem_state_size (MEM ?s), opera_sport_state_size,
         opera_vdlp_state_size (VIDEO ?b), opera_clock_state_size (clock_of ?s), opera_xbus_state_size (BUS ?b)] =
      map of_nat (16 # map length (part_images c))"
    unfolding map_length_images [OF assms]
    using c mem_state_saved(1) [OF saveable_mem [OF assms]]
    by (simp add: opera_3do_state_header_size_v3_def runtime_size opera_3do_prng_state_size_def opera_arm_state_size_def
        arm_payload opera_clio_state_size_def clio_payload opera_dsp_state_size_def dsp_payload
        opera_madam_state_size_def madam_payload opera_sport_state_size_def sport_state_payload_size_def
        opera_vdlp_state_size_def vdlp_payload opera_clock_state_size_def clock_payload xbus_size
        opera_state_chunk_size_def opera_state_save_size_def opera_state_chunk_header_size_def)
  also have "\<dots> = map (\<lambda>img. of_nat (length img)) (header_image # part_images c)"
    by (simp add: length_header)
  finally have "opera_3do_state_size_v3 c = add_sizes 0 (map (\<lambda>img. of_nat (length img)) (header_image # part_images c))"
    by (simp add: opera_3do_state_size_v3_def Let_def)
  also have "\<dots> = of_nat (length (concat (header_image # part_images c)))"
    using image_nonempty length_concat_images(2) [OF assms] length_header header_nonempty
    by (subst add_sizes_lengths) (auto simp del: of_nat_add)
  finally show ?thesis by (simp add: console_image_def)
qed

lemma header_writes: "writes (save_chunk ''3DO'' 8 write_header) header_image"
  unfolding header_image_def
  by (rule chunk_writes) (simp_all add: write_header_def emits_then emits_u32 wsticky_ops)

lemma parts_write:
  assumes "console_saveable c"
  shows "list_all2 writes
    [opera_3do_runtime_state_save c, opera_3do_prng_state_save c, opera_arm_state_save (ARM (SYS c)),
     opera_clio_state_save (clio_of (SYS c)), opera_dsp_state_save (AUDIO (board_of c)),
     opera_madam_state_save (GFX (board_of c)), opera_mem_state_save (MEM (SYS c)), opera_sport_state_save (SPORT (SYS c)),
     opera_vdlp_state_save (VIDEO (board_of c)), opera_clock_state_save (clock_of (SYS c)),
     opera_xbus_state_save (BUS (board_of c))] (part_images c)"
  using assms [unfolded console_saveable_def] saveable_mem [OF assms]
  by (simp add: part_images_def Let_def runtime_writes prng_writes arm_writes clio_writes dsp_writes madam_writes mem_writes
      sport_writes vdlp_writes clock_writes xbus_writes)

lemma console_saves:
  assumes c: "console_saveable c" and d: "length data = unat (retro_serialize_size c)"
  shows "retro_serialize c data = (True, console_image c)" and "length data = length (console_image c)"
proof -
  let ?img = "console_image c"
  have lt: "length ?img < 4294967296" and pos: "16 \<le> length ?img"
    using length_concat_images(2) [OF c] length_header by (simp_all add: console_image_def)
  have n: "unat (opera_3do_state_size_v3 c) = length ?img"
    unfolding part_sizes [OF c] using lt by (intro unat_of_nat_u32) simp
  then have nz: "opera_3do_state_size_v3 c \<noteq> 0" using pos by auto
  show l: "length data = length ?img" using d n by (simp add: retro_serialize_size_def opera_3do_state_size_def)
  have h: "save_chunk ''3DO'' 8 write_header data = (16, header_image @ drop 16 data)"
    using writesD [OF header_writes, of data] l pos by (simp add: length_header)
  have "length (concat (part_images c)) \<le> length (drop 16 data)"
    using l length_header by (simp add: console_image_def)
  from saves [OF parts_write [OF c] this, of header_image]
  have "opera_3do_state_save_v3 c data = (of_nat (length ?img), ?img @ drop (length (concat (part_images c))) (drop 16 data))"
    using nz n l by (simp add: opera_3do_state_save_v3_def h length_header console_image_def Let_def del: of_nat_add)
  moreover have "drop (length (concat (part_images c))) (drop 16 data) = []"
    using l length_header by (simp add: console_image_def)
  moreover have "unat (of_nat (length ?img) :: u32) = length data" using n l part_sizes [OF c] by simp
  ultimately show "retro_serialize c data = (True, ?img)"
    using l pos by (auto simp add: retro_serialize_def opera_3do_state_save_def)
qed

section \<open>Loading\<close>

text \<open>A loader's steps against the images they read, and the consoles before and after.\<close>

inductive loads :: "'d load_step list \<Rightarrow> u8 list list \<Rightarrow> 'd console \<Rightarrow> 'd console \<Rightarrow> bool" where
  loads_Nil: "loads [] [] c c"
| loads_step: "reads ld img c c' \<Longrightarrow> loads fs imgs c' c'' \<Longrightarrow> loads (opera_3do_state_load_step ld 0 # fs) (img # imgs) c c''"
| loads_do: "loads fs imgs (f c) c'' \<Longrightarrow> loads (do_step f # fs) imgs c c''"

lemma loads_concat:
  assumes "loads fs imgs c c'" "\<And>img. img \<in> set imgs \<Longrightarrow> img \<noteq> []" "length (concat imgs) < 4294967296"
  shows "load_steps fs (concat imgs, c) = (True, [], c')"
  using assms
proof induction
  case (loads_step ld img c c' fs imgs c'')
  have "load_steps fs (concat imgs, c') = (True, [], c'')" using loads_step.prems by (intro loads_step.IH) simp_all
  then show ?case using load_reads [OF loads_step.hyps(1), of "concat imgs" fs] loads_step.prems by simp
qed (simp_all add: do_step_def)

text \<open>What each chunk puts back into the running console, in the order of the chunks.\<close>

definition put_runtime :: "'h drive console \<Rightarrow> 'h drive console \<Rightarrow> 'h drive console" where
  "put_runtime s c = c\<lparr>field := field s, g_FRAME_CYCLE_REMAINDER := g_FRAME_CYCLE_REMAINDER s\<rparr>"

definition put_prng :: "'h drive console \<Rightarrow> 'h drive console \<Rightarrow> 'h drive console" where
  "put_prng s = prng_install (prng16_state_get (RAND16 s), prng32_state_get (RAND32 (board_of s)))"

definition put_arm :: "'h drive console \<Rightarrow> 'h drive console \<Rightarrow> 'h drive console" where
  "put_arm s c =
     (let a = ARM (SYS s)
      in c\<lparr>SYS := (SYS c)\<lparr>ARM := set_rom_overlay (MEM (SYS c)) (g_ROM_OVERLAY a)
           ((ARM (SYS c))\<lparr>CPU := CPU a, g_SOFT_RESET_PENDING := g_SOFT_RESET_PENDING a\<rparr>)\<rparr>\<rparr>)"

definition put_clio :: "'h drive console \<Rightarrow> 'h drive console \<Rightarrow> 'h drive console" where
  "put_clio s c =
     (let k = clio_of (SYS s) in c\<lparr>SYS := on_cl (\<lambda>_. k) ((SYS c)\<lparr>MEM := clio_set_rom k (MEM (SYS c))\<rparr>)\<rparr>)"

definition put_dsp :: "'h drive console \<Rightarrow> 'h drive console \<Rightarrow> 'h drive console" where
  "put_dsp s c = c\<lparr>SYS := on_audio (dsp_state_apply_live (dsp_snap (AUDIO (board_of s)))) (SYS c)\<rparr>"

definition put_madam :: "'h drive console \<Rightarrow> 'h drive console \<Rightarrow> 'h drive console" where
  "put_madam s c = c\<lparr>SYS := on_gfx (madam_install (madam_snap (gfx (SYS s)))) (SYS c)\<rparr>"

definition put_mem :: "'h drive console \<Rightarrow> 'h drive console \<Rightarrow> 'h drive console" where
  "put_mem s c = c\<lparr>SYS := (SYS c)\<lparr>MEM := mem_restored (MEM (SYS s)) (MEM (SYS c))\<rparr>\<rparr>"

definition put_sport :: "'h drive console \<Rightarrow> 'h drive console \<Rightarrow> 'h drive console" where
  "put_sport s c = c\<lparr>SYS := (SYS c)\<lparr>SPORT := SPORT (SYS s)\<rparr>\<rparr>"

definition put_vdlp :: "'h drive console \<Rightarrow> 'h drive console \<Rightarrow> 'h drive console" where
  "put_vdlp s c = c\<lparr>SYS := on_video (\<lambda>x. x\<lparr>g_VDLP := g_VDLP (VIDEO (board_of s))\<rparr>) (SYS c)\<rparr>"

definition put_clock :: "'h drive console \<Rightarrow> 'h drive console \<Rightarrow> 'h drive console" where
  "put_clock s c = c\<lparr>SYS := on_clock (\<lambda>_. clock_of (SYS s)) (SYS c)\<rparr>"

definition put_xbus :: "'h drive console \<Rightarrow> 'h drive console \<Rightarrow> 'h drive console" where
  "put_xbus s c =
     (let x = BUS (board_of s) in c\<lparr>SYS := on_bus (xbus_restored (XBUS x) (CLOCK x) (DRIVES x)) (SYS c)\<rparr>)"

lemmas puts = put_runtime_def put_prng_def put_arm_def put_clio_def put_dsp_def put_madam_def put_mem_def put_sport_def
  put_vdlp_def put_clock_def put_xbus_def prng_install_def sync_memory_map_def xbus_restored_def on_part Let_def

lemma put_slots [simp]:
  "slots_of (put_runtime s c) = slots_of c" "slots_of (put_prng s c) = slots_of c" "slots_of (put_arm s c) = slots_of c"
  "slots_of (put_clio s c) = slots_of c" "slots_of (put_dsp s c) = slots_of c" "slots_of (put_madam s c) = slots_of c"
  "slots_of (put_mem s c) = slots_of c" "slots_of (put_sport s c) = slots_of c" "slots_of (put_vdlp s c) = slots_of c"
  "slots_of (put_clock s c) = slots_of c" "slots_of (sync_memory_map c) = slots_of c"
  by (simp_all add: puts)

text \<open>What a resume makes of the running console: the parts restored, the processor's limits set again once the
  memory is in place, the pads cleared.\<close>

definition resume_parts :: "'h drive console \<Rightarrow> 'h drive console \<Rightarrow> 'h drive console" where
  "resume_parts s t =
     put_xbus s (put_clock s (put_vdlp s (put_sport s (sync_memory_map (put_mem s (put_madam s (put_dsp s
       (put_clio s (put_arm s (put_prng s (put_runtime s t)))))))))))"

definition resume :: "'h drive console \<Rightarrow> 'h drive console \<Rightarrow> 'h drive console" where
  "resume s t =
     on_sys (on_bus (opera_xbus_set_legacy_no_device_abort 0))
       (on_sys (on_dev (\<lambda>b. b\<lparr>PADS := opera_pbus_reset (PADS b)\<rparr>)) (resume_parts s t))"

lemma whole_reads:
  assumes s: "console_saveable s" and t: "slots_of t 0 = Some xbus_cdrom_plugin"
  shows "loads (whole_steps True []) (part_images s) t t"
    and "loads (whole_steps False [do_step sync_memory_map]) (part_images s) t (resume_parts s t)"
proof -
  note c = s [unfolded console_saveable_def]
  have f: "field s = 0 \<or> field s = 1" and a: "core_clean (CPU (ARM (SYS s)))" and k: "clio_clean (clio_of (SYS s))"
    and u: "madam_clean (gfx (SYS s))" and v: "vdlp_clean (VIDEO (board_of s))" and q: "clock_ok (clock_of (SYS s))"
    and x: "xbus_saveable (BUS (board_of s))" using c by simp_all
  note m = saveable_mem [OF s]
  show "loads (whole_steps True []) (part_images s) t t"
    unfolding part_images_def Let_def append_Cons append_Nil
    by (rule loads_Nil loads_step runtime_reads [OF f, where v = True, unfolded if_True]
        prng_reads [where v = True, unfolded if_True] arm_reads [OF a, where v = True, unfolded if_True]
        clio_reads [OF k, where v = True, unfolded if_True]
        dsp_reads [where v = True, unfolded if_True] madam_reads [OF u, where v = True, unfolded if_True]
        mem_reads [OF m, where v = True, unfolded if_True] sport_reads [where v = True, unfolded if_True]
        vdlp_reads [OF v, where v = True, unfolded if_True] clock_reads [OF q, where v = True, unfolded if_True]
        xbus_reads [OF x, where v = True, unfolded if_True] t disjI1 [OF TrueI])+
  have r: "reads (opera_3do_runtime_state_load False) (part_images s ! 0) c (put_runtime s c)"
    "reads (opera_3do_prng_state_load False) (part_images s ! 1) c (put_prng s c)"
    "reads (load_arm (\<lambda>m. opera_arm_state_load m False)) (part_images s ! 2) c (put_arm s c)"
    "reads (load_clio (opera_clio_state_load False)) (part_images s ! 3) c (put_clio s c)"
    "reads (load_dsp (opera_dsp_state_load False)) (part_images s ! 4) c (put_dsp s c)"
    "reads (load_madam (opera_madam_state_load False)) (part_images s ! 5) c (put_madam s c)"
    "reads (load_mem (opera_mem_state_load False)) (part_images s ! 6) c (put_mem s c)"
    "reads (load_sport (opera_sport_state_load False)) (part_images s ! 7) c (put_sport s c)"
    "reads (load_vdlp (opera_vdlp_state_load False)) (part_images s ! 8) c (put_vdlp s c)"
    "reads (load_clock (opera_clock_state_load False)) (part_images s ! 9) c (put_clock s c)" for c
    using runtime_reads [OF f, of False c] prng_reads [of False s c] arm_reads [OF a, of False c] clio_reads [OF k, of False c]
      dsp_reads [of False "AUDIO (board_of s)" c] madam_reads [OF u, of False c] mem_reads [OF m, of False c]
      sport_reads [of False "SPORT (SYS s)" c] vdlp_reads [OF v, of False c] clock_reads [OF q, of False c]
    by (simp_all add: part_images_def put_runtime_def put_prng_def put_arm_def put_clio_def put_dsp_def put_madam_def
        put_mem_def put_sport_def put_vdlp_def put_clock_def Let_def)
  have rx: "reads (load_xbus (opera_xbus_state_load False)) (part_images s ! 10) (put_clock s c) (put_xbus s (put_clock s c))"
    if "slots_of c 0 = Some xbus_cdrom_plugin" for c
    using xbus_reads [OF x, of "put_clock s c" False] that
    by (simp add: part_images_def put_xbus_def Let_def) (simp add: put_clock_def on_part)
  have "part_images s = [part_images s ! 0, part_images s ! 1, part_images s ! 2, part_images s ! 3, part_images s ! 4,
      part_images s ! 5, part_images s ! 6, part_images s ! 7, part_images s ! 8, part_images s ! 9, part_images s ! 10]"
    by (simp add: part_images_def Let_def)
  then show "loads (whole_steps False [do_step sync_memory_map]) (part_images s) t (resume_parts s t)"
    unfolding resume_parts_def append_Cons append_Nil
    by (rule ssubst) (rule loads_Nil loads_step loads_do r rx | simp add: t)+
qed

lemma image_version:
  "opera_state_get_version (Some (console_image s)) (of_nat (length (console_image s))) = 4"
  if "console_saveable s" for s :: "'h drive console"
proof -
  let ?img = "console_image s"
  let ?n = "of_nat (length ?img) :: u32"
  have n: "unat ?n = length ?img"
    using length_concat_images(2) [OF that] length_header by (intro unat_of_nat_u32) (simp add: console_image_def)
  let ?r = "opera_state_reader_init ?img ?n"
  have "rok ?r" "rest ?r = chunk_name ''3DO'' @ enc32 (8 :: u32) @ (enc32 4 @ enc32 0) @ concat (part_images s)"
    by (simp_all only: rok_init rest_init n le_refl take_all)
      (simp add: console_image_def header_image_def chunk_image_def)
  from read_chunk_consumes [OF this] obtain p where
    c: "opera_state_read_chunk ''3DO'' ?r = (Some p, radv ?r (8 + length (enc32 4 @ enc32 0)))"
    and p: "rok p" "rest p = enc32 4 @ enc32 0" "r_offset p = 0" by auto
  have "unat (r_size p) = 8"
    using p by (auto simp: rest_def rok_def dest: arg_cong [where f = length])
  then have z: "r_size p = 8" by (simp add: word_unat_eq_iff)
  have "drop 8 ?img = enc32 4 @ enc32 0 @ concat (part_images s)"
    by (simp add: console_image_def header_image_def chunk_image_def length_chunk_name)
  then show ?thesis
    by (simp add: opera_state_get_version_def opera_state_get_chunk_data_size_def c z opera_state_save_size_def
        opera_state_chunk_header_size_def enc32_def)
qed

lemma header_loads:
  assumes s: "console_saveable s"
  shows "load_chunk ''3DO'' (r_bind opera_state_read_u32 (\<lambda>version. r_bind opera_state_read_u32 (\<lambda>flags. r_return (version, flags))))
      (\<lambda>(version, flags). version = 4 \<and> flags = 0) (\<lambda>h _. h) False (console_image s)
      (of_nat (length (console_image s))) (0, 0) = (16, (4, 0))"
proof -
  let ?img = "console_image s"
  have n: "unat (of_nat (length ?img) :: u32) = length ?img"
    using length_concat_images(2) [OF s] length_header by (intro unat_of_nat_u32) (simp add: console_image_def)
  have "consumes (r_bind opera_state_read_u32 (\<lambda>version. r_bind opera_state_read_u32 (\<lambda>flags. r_return (version, flags))))
      (4, 0) (enc32 4 @ enc32 0 @ [])"
    by (rule consumes_fields)+
  then have "consumes (r_bind opera_state_read_u32 (\<lambda>version. r_bind opera_state_read_u32 (\<lambda>flags. r_return (version, flags))))
      (4, 0) (enc32 4 @ enc32 0)" by simp
  from chunk_reads(1) [where name = "''3DO''" and valid = "\<lambda>(version, flags). version = 4 \<and> flags = 0" and
      install = "\<lambda>h _. h" and cur = "(0, 0)", OF _ this]
  have "reads (load_chunk ''3DO'' (r_bind opera_state_read_u32 (\<lambda>version. r_bind opera_state_read_u32 (\<lambda>flags. r_return (version, flags))))
      (\<lambda>(version, flags). version = 4 \<and> flags = 0) (\<lambda>h _. h) False) header_image (0, 0) (4, 0)"
    by (simp add: header_image_def)
  from readsD [OF this, of "of_nat (length ?img)" ?img "concat (part_images s)"]
  have "load_chunk ''3DO'' (r_bind opera_state_read_u32 (\<lambda>version. r_bind opera_state_read_u32 (\<lambda>flags. r_return (version, flags))))
      (\<lambda>(version, flags). version = 4 \<and> flags = 0) (\<lambda>h _. h) False ?img (of_nat (length ?img)) (0, 0) =
      (of_nat (length header_image), (4, 0))"
    unfolding n by (simp add: console_image_def [symmetric])
  then show ?thesis by (simp add: length_header)
qed

lemma console_loads:
  assumes s: "console_saveable s" and t: "slots_of t 0 = Some xbus_cdrom_plugin"
  shows "opera_3do_state_validate (console_image s) t = (True, t)"
    and "opera_3do_state_load (console_image s) t = (of_nat (length (console_image s)), resume s t)"
proof -
  let ?img = "console_image s"
  let ?n = "of_nat (length ?img) :: u32"
  have lt: "length ?img < 4294967296" and pos: "16 \<le> length ?img"
    and parts: "length (concat (part_images s)) < 4294967296"
    using length_concat_images(2) [OF s] length_header by (simp_all add: console_image_def)
  have n: "unat ?n = length ?img" using lt by (intro unat_of_nat_u32) simp
  have nz: "?n \<noteq> 0" using n pos by auto
  have d: "drop 16 ?img = concat (part_images s)" using length_header by (simp add: console_image_def)
  have big: "\<not> unat UINT32_MAX < length ?img" using lt by simp
  have ok: "load_steps (whole_steps True []) (concat (part_images s), t) = (True, [], t)"
    "load_steps (whole_steps False [do_step sync_memory_map]) (concat (part_images s), t) = (True, [], resume_parts s t)"
    by (rule loads_concat [OF whole_reads(1) [OF s t]] loads_concat [OF whole_reads(2) [OF s t]],
        erule image_nonempty, rule parts)+
  have "opera_3do_state_load_chunked True ?img 4 True t = (?n, t)"
    unfolding opera_3do_state_load_chunked_def header_loads [OF s] Let_def prod.case if_True if_False
    using big d ok(1) by (simp del: load_steps.simps)
  then show "opera_3do_state_validate ?img t = (True, t)"
    using image_version [OF s] nz n by (simp add: opera_3do_state_validate_def)
  have "opera_3do_state_load_chunked False ?img 4 True t = (?n, resume s t)"
    unfolding opera_3do_state_load_chunked_def header_loads [OF s] Let_def prod.case if_True if_False resume_def
    using big d ok(2) by (simp del: load_steps.simps)
  then show "opera_3do_state_load ?img t = (?n, resume s t)"
    using image_version [OF s] by (simp add: opera_3do_state_load_def opera_3do_state_load_v4_def)
qed

lemma console_resumes:
  assumes "console_saveable s" "slots_of t 0 = Some xbus_cdrom_plugin"
  shows "retro_unserialize alloc (console_image s) t = (True, resume s t)"
proof -
  have "unat (of_nat (length (console_image s)) :: u32) = length (console_image s)"
    using length_concat_images(2) [OF assms(1)] length_header by (intro unat_of_nat_u32) (simp add: console_image_def)
  then show ?thesis using console_loads [OF assms] by (simp add: retro_unserialize_def)
qed

section \<open>The console that resumes\<close>

text \<open>The drive, unless the controller holds it in reset, and the fields a chunk does not touch.\<close>

definition drive_held :: "'h drive \<Rightarrow> bool" where
  "drive_held d \<longleftrightarrow> cd_poll (CD d) AND POLREMASK \<noteq> 0"

lemma drive_restored_sel:
  assumes "\<not> drive_held d"
  shows "cdrom_device_state.truncate (CD (drive_restored K d t)) = cdrom_device_state.truncate (CD d)"
    and "DATA (drive_restored K d t) = due K (DATA d)"
    and "configured_speed (drive_restored K d t) = configured_speed d"
    and "\<not> ode_savestate_blocked (ODE (drive_restored K d t))"
  using assms by (simp_all add: drive_held_def drive_restored_def reset_if_held_def opera_cdrom_restore_callbacks_def
      call_set_sector_def on_cd_def on_data_def on_ode_def runtime_cleared_def ode_reset_session_def ode_file_close_def
      ode_playlist_clear_def ode_file_buffer_write_reset_def cdrom_device_state.defs no_ode_def Let_def
      split: option.splits)

text \<open>The resumed console \<open>c\<close> goes on where the saved one \<open>s\<close> was.\<close>

definition memory_agrees :: "memory \<Rightarrow> memory \<Rightarrow> bool" where
  "memory_agrees m n \<longleftrightarrow> g_MEM_CFG n = g_MEM_CFG m \<and> DRAM_SIZE n = DRAM_SIZE m \<and> VRAM_SIZE n = VRAM_SIZE m \<and>
     (\<forall>a. unat a < unat (HIRES_RAM_SIZE m) \<longrightarrow> dram n a = dram m a) \<and>
     (\<forall>a. unat a < unat NVRAM_SIZE \<longrightarrow> the (NVRAM n) a = the (NVRAM m) a)"

definition drive_agrees :: "opera_clock \<Rightarrow> 'h drive \<Rightarrow> 'h drive \<Rightarrow> bool" where
  "drive_agrees K d e \<longleftrightarrow> cdrom_device_state.truncate (CD e) = cdrom_device_state.truncate (CD d) \<and>
     DATA e = due K (DATA d) \<and> configured_speed e = configured_speed d"

definition console_agrees :: "'h drive console \<Rightarrow> 'h drive console \<Rightarrow> bool" where
  "console_agrees s c \<longleftrightarrow>
     field c = field s \<and> g_FRAME_CYCLE_REMAINDER c = g_FRAME_CYCLE_REMAINDER s \<and> RAND16 c = RAND16 s \<and>
     RAND32 (board_of c) = RAND32 (board_of s) \<and> CPU (ARM (SYS c)) = CPU (ARM (SYS s)) \<and>
     g_SOFT_RESET_PENDING (ARM (SYS c)) = g_SOFT_RESET_PENDING (ARM (SYS s)) \<and>
     g_ROM_OVERLAY (ARM (SYS c)) = g_ROM_OVERLAY (ARM (SYS s)) \<and> overlay_ok (MEM (SYS c)) (ARM (SYS c)) \<and>
     clio_of (SYS c) = clio_of (SYS s) \<and>
     ROM (MEM (SYS c)) = Some (if clio_regs (clio_of (SYS s)) 0x84 AND 0x04 \<noteq> 0 then PTR_ROM2 else PTR_ROM1) \<and>
     dsp_snap (AUDIO (board_of c)) = dsp_snap (AUDIO (board_of s)) \<and> madam_snap (gfx (SYS c)) = madam_snap (gfx (SYS s)) \<and>
     mem_ready (MEM (SYS c)) \<and> memory_agrees (MEM (SYS s)) (MEM (SYS c)) \<and> SPORT (SYS c) = SPORT (SYS s) \<and>
     g_VDLP (VIDEO (board_of c)) = g_VDLP (VIDEO (board_of s)) \<and> clock_of (SYS c) = clock_of (SYS s) \<and>
     XBUS (BUS (board_of c)) = XBUS (BUS (board_of s)) \<and>
     (drive_held (DRIVES (BUS (board_of s))) \<or>
      drive_agrees (clock_of (SYS s)) (DRIVES (BUS (board_of s))) (DRIVES (BUS (board_of c))))"

lemma mem_restored_agrees:
  assumes m: "mem_ready m" and cur: "mem_ready cur"
  shows "mem_ready (mem_restored m cur)" "memory_agrees m (mem_restored m cur)" "ROM (mem_restored m cur) = ROM cur"
proof -
  have v: "opera_mem_is_valid_cfg (g_MEM_CFG m)" using m by (simp add: mem_ready_def)
  have h: "unat (HIRES_RAM_SIZE m) = unat (opera_mem_state_ram_bytes (g_MEM_CFG m))"
    using ready_unat(2) [OF m] m by (simp add: ram_bytes_unat [OF v] mem_ready_def)
  have nn: "DRAM cur \<noteq> None" "NVRAM cur \<noteq> None" using cur by (simp_all add: mem_ready_def)
  show "mem_ready (mem_restored m cur)" unfolding mem_restored_def using cur v by (intro ready_installed) simp_all
  show "memory_agrees m (mem_restored m cur)"
    using nn h m by (auto simp: memory_agrees_def dram_def mem_restored_def mem_installed_def setup_dram_vram_def
        mem_load_def nth_mem_bytes mem_ready_def Let_def)
  show "ROM (mem_restored m cur) = ROM cur"
    by (simp add: mem_restored_def mem_installed_def setup_dram_vram_def Let_def)
qed

lemma dsp_snap_live: "dsp_snap (dsp_state_apply_live (dsp_snap d) x) = dsp_snap d"
  by (simp add: dsp_snap_def dsp_state_apply_live_def upto_def fill_def)

lemma madam_snap_install: "madam_snap (madam_install (madam_snap u) x) = madam_snap u"
  by (simp add: madam_snap_def madam_install_def)

lemma clio_rom_ready: "mem_ready (clio_set_rom k m) = mem_ready m"
  by (simp add: clio_set_rom_def opera_mem_rom_select_def mem_ready_def Let_def)

lemma resume_sel:
  "field (resume s t) = field s" "g_FRAME_CYCLE_REMAINDER (resume s t) = g_FRAME_CYCLE_REMAINDER s"
  "RAND16 (resume s t) = RAND16 s" "RAND32 (board_of (resume s t)) = RAND32 (board_of s)"
  "clio_of (SYS (resume s t)) = clio_of (SYS s)" "SPORT (SYS (resume s t)) = SPORT (SYS s)"
  "AUDIO (board_of (resume s t)) = dsp_state_apply_live (dsp_snap (AUDIO (board_of s))) (AUDIO (board_of t))"
  "gfx (SYS (resume s t)) = madam_install (madam_snap (gfx (SYS s))) (gfx (SYS t))"
  "g_VDLP (VIDEO (board_of (resume s t))) = g_VDLP (VIDEO (board_of s))" "clock_of (SYS (resume s t)) = clock_of (SYS s)"
  "XBUS (BUS (board_of (resume s t))) = XBUS (BUS (board_of s))" "slots_of (resume s t) = slots_of t"
  "MEM (SYS (resume s t)) = mem_restored (MEM (SYS s)) (clio_set_rom (clio_of (SYS s)) (MEM (SYS t)))"
  "DRIVES (BUS (board_of (resume s t))) =
     drive_restored (clock_of (SYS s)) (DRIVES (BUS (board_of s))) (opera_cdrom_init (DRIVES (BUS (board_of t))))"
  by (simp_all add: resume_def resume_parts_def puts opera_xbus_set_legacy_no_device_abort_def prng16_state_get_def
      prng16_state_set_def prng32_state_get_def prng32_state_set_def)

lemma resume_arm:
  "ARM (SYS (resume s t)) = set_rom_overlay (MEM (SYS (resume s t))) (g_ROM_OVERLAY (ARM (SYS s)))
     ((ARM (SYS t))\<lparr>CPU := CPU (ARM (SYS s)), g_SOFT_RESET_PENDING := g_SOFT_RESET_PENDING (ARM (SYS s))\<rparr>)"
  by (simp add: resume_sel(13)) (simp add: resume_def resume_parts_def puts opera_xbus_set_legacy_no_device_abort_def
      opera_arm_sync_memory_map_def set_rom_overlay_def)

lemma resume_agrees:
  assumes s: "console_saveable s" and t: "mem_ready (MEM (SYS t))"
  shows "console_agrees s (resume s t)"
proof -
  have m: "mem_ready (MEM (SYS s))" using s by (simp add: console_saveable_def)
  have r: "mem_ready (clio_set_rom (clio_of (SYS s)) (MEM (SYS t)))" using t by (simp add: clio_rom_ready)
  have rom: "ROM (clio_set_rom k x) = Some (if clio_regs k 0x84 AND 0x04 \<noteq> 0 then PTR_ROM2 else PTR_ROM1)" for k x
    by (simp add: clio_set_rom_def opera_mem_rom_select_def Let_def)
  show ?thesis
    using mem_restored_agrees [OF m r]
    unfolding console_agrees_def resume_arm
    by (cases "drive_held (DRIVES (BUS (board_of s)))") (simp_all add: resume_sel rom dsp_snap_live madam_snap_install drive_agrees_def drive_restored_sel overlay_ok_def
        set_rom_overlay_def)
qed

section \<open>Saving again\<close>

lemma resume_saveable:
  assumes s: "console_saveable s" and t: "mem_ready (MEM (SYS t))" "drive_attached (slots_of t)"
    and d: "\<not> drive_held (DRIVES (BUS (board_of s)))"
  shows "console_saveable (resume s t)"
proof -
  note c = s [unfolded console_saveable_def] and r = drive_restored_sel [OF d]
  have "mem_ready (MEM (SYS (resume s t)))" using resume_agrees [OF s t(1)] by (simp add: console_agrees_def)
  moreover have "dsp_clean (AUDIO (board_of (resume s t)))"
    by (simp add: resume_sel dsp_clean_def dsp_state_apply_live_def dsp_snap_def fill_def)
  moreover have "madam_clean (gfx (SYS (resume s t)))"
    using c by (simp add: resume_sel madam_clean_def madam_install_def madam_snap_def mreg_def)
  moreover have "vdlp_clean (VIDEO (board_of (resume s t)))" using c by (simp add: vdlp_clean_def resume_sel)
  moreover have "xbus_saveable (BUS (board_of (resume s t)))"
    using c t(2) r by (simp add: xbus_saveable_def resume_sel drive_saveable_def)
  ultimately show ?thesis using c by (simp add: console_saveable_def resume_sel resume_arm set_rom_overlay_def)
qed

lemma due_saved: "cdrom_state_v2_data_save K (due K d) = cdrom_state_v2_data_save K d"
  by (simp add: cdrom_state_v2_data_save_def due_def cdrom_state_v2_cycles_remaining_def cdrom_state_v2_cycle_age_def
      min_def Let_def)

lemma mem_restored_payload:
  assumes m: "mem_ready m" and cur: "mem_ready cur"
  shows "mem_payload (mem_restored m cur) = mem_payload m"
proof -
  have nn: "DRAM cur \<noteq> None" "NVRAM cur \<noteq> None" using cur by (simp_all add: mem_ready_def)
  have l: "mem_bytes (mem_load (mem_bytes x n) y) n = mem_bytes x n" if "y \<noteq> None" "n < 4294967296" for x y n
  proof (rule nth_equalityI)
    fix i assume "i < length (mem_bytes (mem_load (mem_bytes x n) y) n)"
    then have i: "i < n" by simp
    then have "unat (of_nat i :: u32) = i" using that(2) by (intro unat_of_nat_u32) simp
    then show "mem_bytes (mem_load (mem_bytes x n) y) n ! i = mem_bytes x n ! i"
      using that(1) i by (auto simp: nth_mem_bytes mem_load_def)
  qed simp
  have "unat (opera_mem_state_ram_bytes (g_MEM_CFG m)) < 4294967296"
    using ram_bytes_le [of "g_MEM_CFG m"] m by (simp add: mem_ready_def)
  then show ?thesis
    using nn by (simp add: mem_payload_def mem_restored_def mem_installed_def setup_dram_vram_def Let_def l)
qed

lemma resume_image:
  assumes s: "console_saveable s" and t: "mem_ready (MEM (SYS t))"
    and d: "\<not> drive_held (DRIVES (BUS (board_of s)))"
  shows "console_image (resume s t) = console_image s"
proof -
  note r = drive_restored_sel [OF d]
  have m: "mem_ready (MEM (SYS s))" "dsp_clean (AUDIO (board_of s))" using s by (simp_all add: console_saveable_def)
  have u: "mem_ready (clio_set_rom (clio_of (SYS s)) (MEM (SYS t)))" using t by (simp add: clio_rom_ready)
  have a: "arm_enc (ARM (SYS (resume s t))) = arm_enc (ARM (SYS s))"
    by (simp add: resume_arm arm_enc_def set_rom_overlay_def Let_def)
  have b: "dsp_enc (AUDIO (board_of (resume s t))) = dsp_enc (AUDIO (board_of s))"
    using m(2) by (simp add: resume_sel dsp_enc_def dsp_state_apply_live_def dsp_snap_def fill_upto dsp_clean_def)
  have g: "madam_enc (gfx (SYS (resume s t))) = madam_enc (gfx (SYS s))"
    by (simp add: resume_sel madam_enc_def madam_install_def madam_snap_def)
  have x: "drive_image (clock_of (SYS s)) (DRIVES (BUS (board_of (resume s t)))) =
      drive_image (clock_of (SYS s)) (DRIVES (BUS (board_of s)))"
    using r by (simp add: resume_sel drive_image_def cdrom_saved_of_def cdrom_state_v2_device_save_def due_saved)
  show ?thesis
    by (simp add: console_image_def part_images_def a b g x xbus_enc_def Let_def prng_enc_def mem_restored_payload [OF m(1) u]
        resume_sel(1-6) resume_sel(9-13))
qed

section \<open>The theorems of the front end\<close>

text \<open>The drive on the bus answers a dry run as the front end expects of a device.\<close>

lemma drive_dry: "dry_device xbus_cdrom_plugin"
  by (simp add: dry_device_def xbus_cdrom_plugin_def cdrom_validate_quiet cdrom_validate_agrees)

lemma drive_slots_dry: "drive_attached X \<Longrightarrow> dry_slots X"
  unfolding dry_slots_def
proof (intro allI impI)
  fix i :: nat and dev assume a: "drive_attached X" "i < 15" "X i = Some dev"
  then have "i = 0" by (cases i) (auto simp: drive_attached_def)
  then show "dry_device dev" using a drive_dry by (simp add: drive_attached_def)
qed

abbreviation (input) drive_slots :: "nat \<Rightarrow> 'h drive device option" where
  "drive_slots \<equiv> \<lambda>i. if i = 0 then Some xbus_cdrom_plugin else None"

interpretation xbus_loader: dry_loader drive_slots "\<lambda>v. load_xbus (opera_xbus_state_load v)"
  by (rule xbus_dry) (simp add: drive_slots_dry drive_attached_def)

text \<open>C4. \<open>retro_serialize\<close> accepts a buffer of the announced size, and \<open>retro_unserialize\<close> takes the bytes back into any
  console of the same session, whatever it is doing: every part the state covers (field, random numbers, processor,
  CLIO with its ROM selection, signal processor, cel engine, memory, SPORT, display, clock, expansion bus and drive) is
  where the saved console had it, and the processor's address limits fit the restored memory.\<close>

theorem console_state_roundtrip:
  fixes s t :: "'h drive console"
  assumes s: "console_saveable s" and t: "mem_ready (MEM (SYS t))" "slots_of t 0 = Some xbus_cdrom_plugin"
    and d: "length data = unat (retro_serialize_size s)"
  shows "fst (retro_serialize s data) \<and>
    (\<exists>c. retro_unserialize alloc (snd (retro_serialize s data)) t = (True, c) \<and> console_agrees s c)"
  using console_saves(1) [OF s d] console_resumes [OF s t(2)] resume_agrees [OF s t(1)] by simp

text \<open>C6. A resumed console saves the very bytes it was resumed from: nothing the format holds is lost, shifted or
  rounded on the way, except in a drive held in reset.\<close>

theorem resumed_console_saves_same:
  fixes s t :: "'h drive console"
  assumes s: "console_saveable s" and t: "mem_ready (MEM (SYS t))" "drive_attached (slots_of t)"
    and h: "\<not> drive_held (DRIVES (BUS (board_of s)))"
    and d: "length data = unat (retro_serialize_size s)" "length data' = length data"
  shows "retro_serialize (snd (retro_unserialize alloc (snd (retro_serialize s data)) t)) data' = retro_serialize s data"
proof -
  have x: "slots_of t 0 = Some xbus_cdrom_plugin" using t(2) by (simp add: drive_attached_def)
  note a = resume_saveable [OF s t h] and i = resume_image [OF s t(1) h]
  have "length data' = unat (retro_serialize_size (resume s t))"
    using d part_sizes [OF s] part_sizes [OF a] i by (simp add: retro_serialize_size_def opera_3do_state_size_def)
  from console_saves(1) [OF a this] show ?thesis
    using console_saves(1) [OF s d(1)] console_resumes [OF s x] i by simp
qed

text \<open>C5. The dry run tells the truth: \<open>opera_3do_state_validate\<close> leaves the console alone, and a state it accepts
  loads to its last byte, so that \<open>retro_unserialize\<close> reports success without needing a backup.\<close>

theorem validated_state_loads:
  assumes "dry_slots (slots_of c)"
  shows "snd (opera_3do_state_validate data c) = c \<and>
    (fst (opera_3do_state_validate data c) \<longrightarrow>
      unat (fst (opera_3do_state_load data c)) = length data \<and>
      retro_unserialize alloc data c = (True, snd (opera_3do_state_load data c)))"
proof -
  obtain ok e where v: "opera_3do_state_validate data c = (ok, e)" by fastforce
  note l = validated_loads [OF assms v]
  then show ?thesis using v by (cases "opera_3do_state_load data c") (simp add: retro_unserialize_def)
qed

section \<open>A console for the witnesses\<close>

definition demo_drive :: "unit drive" where
  "demo_drive = \<lparr>CD = no_device\<lparr>cd_poll := 0x90, cd_current_sector := 1000\<rparr>, ODE = no_ode, DATA = no_data, configured_speed = 2,
     g_CDROM_CALLBACKS = no_callbacks,
     LIB = \<lparr>filestream_open = (\<lambda>_ _ h. (None, h)), filestream_close = (\<lambda>_ h. h), filestream_seek = (\<lambda>_ _ h. (-1, h)),
       filestream_read = (\<lambda>_ _ h. (-1, [], h)), filestream_write = (\<lambda>_ _ h. (-1, h)), dir_list_sorted = (\<lambda>_ _. None),
       path_is_absolute = (\<lambda>_. False), fill_pathname_join = (\<lambda>a _ _. a), path_parent_dir = (\<lambda>p. p), path_basename = (\<lambda>p. p)\<rparr>,
     HOST = ()\<rparr>"

definition demo_bus :: "unit drive xbus" where
  "demo_bus = \<lparr>XBUS = \<lparr>xb_sel_l = 0, xb_sel_h = 0, polf = 0x0F, poldevf = 0, stdevf = replicate 255 0, stlenf = 0,
       cmdf = replicate 7 0, cmdptrf = 0\<rparr>,
     xdev = (\<lambda>i. if i = 0 then Some xbus_cdrom_plugin else None), g_XBUS_LEGACY_NO_DEVICE_ABORT = False,
     DRIVES = demo_drive, CLIO = reset_clio, CLOCK = g_CLOCK\<rparr>"

definition demo_cels :: madam_unit where
  "demo_cels = \<lparr>MADAM = \<lparr>mregs = (\<lambda>_. 0), PLUT = (\<lambda>_. 0), rmod = 1, wmod = 1, clipx = 320, clipy = 240, FSM = 1\<rparr>,
     KPRINT = False, ME_MODE = 0, g_CEL_PIXELS_DRAWN = 0, g_CEL_TEXELS_WALKED = 0, g_CEL_LIST_CELS = 0,
     g_CEL_BUSY_UNTIL = 12345, g_CEL_DRAW_PENDING = True, tmpMO = (\<lambda>_. 0),
     bitoper = \<lparr>br_buf = 0, br_point = 0, br_bitpoint = 0, br_bitset = 0\<rparr>,
     CEL = \<lparr>CCBFLAGS = 0, PIXC = 0, PRE0 = 0, PRE1 = 0, PXOR1 = 0, PXOR2 = 0, CEL_ORIGIN_VH_VALUE = 0,
       pdec = \<lparr>plutaCCBbits = 0, pixelBitsMask = 0, rawVHBits = 0\<rparr>,
       pproj = \<lparr>pmode = 0, pmodeORmask = 0, pmodeANDmask = 0, Transparent = False\<rparr>\<rparr>,
     CELMAP = \<lparr>SPRWI = 0, SPRHI = 0, HDDX1616 = 0, HDDY1616 = 0, HDX1616 = 0, HDY1616 = 0, VDX1616 = 0, VDY1616 = 0,
       XPOS1616 = 0, YPOS1616 = 0, TEXEL_DRAW_FUNC = TEXEL_DRAW_FUNC_LINE, TEXTURE_WI_START = 0, TEXTURE_HI_START = 0,
       TEXEL_INCX = 0, TEXEL_INCY = 0, TEXTURE_WI_LIM = 0, TEXTURE_HI_LIM = 0\<rparr>,
     TABLES = \<lparr>PSCALAR = (\<lambda>_ _ _. 0), MAPu8b = (\<lambda>_. 0), MAPc8bAMV = (\<lambda>_. 0), MAPc16bAMV = (\<lambda>_. 0)\<rparr>\<rparr>"

definition demo_video :: video where
  "demo_video = \<lparr>g_VDLP = \<lparr>clut_r = replicate 32 1, clut_g = replicate 32 2, clut_b = replicate 32 3, force_line = 5,
       curr_vdl = 0x100, next_vdl = 0x200, prev_bmp = 0, curr_bmp = 0, bg_color = 0, clut_ctrl = 0, disp_ctrl = 0, line_cnt = 7\<rparr>,
     g_BUF = 0, g_CURBUF = 0, g_RENDERER = Some R_XRGB8888, g_FLAGS = 0, g_PIXEL_FORMAT = 0, SCREEN = (\<lambda>_. 0)\<rparr>"

definition demo_console :: "unit drive console" where
  "demo_console = \<lparr>SYS = \<lparr>ARM = idle_arm, MEM = stock_mem, SPORT = \<lparr>color = 0x12345678, source = 1, destination = 2\<rparr>,
       DIAG = \<lparr>SNDDebugFIFO0 = 0, SNDDebugFIFO1 = 0, RCVDebugFIFO0 = 0, RCVDebugFIFO1 = 0, GetIdx = 16, SendIdx = 16\<rparr>,
       DEV = \<lparr>BUS = demo_bus, AUDIO = zero_dsp, RAND32 = 9, PADS = PBUS, GFX = demo_cels, VIDEO = demo_video\<rparr>\<rparr>,
     REGION = g_REGION, RAND16 = 5, field = 1, g_FRAME_CYCLE_REMAINDER = 3, g_DSP_BUF_IDX = 0, g_DSP_BUF = (\<lambda>_. 0),
     g_DSP_JUNK = (\<lambda>_. 0)\<rparr>"

lemma demo_drive_saveable: "drive_saveable demo_drive" "\<not> drive_held demo_drive"
  by (simp_all add: drive_saveable_def drive_held_def demo_drive_def arrays_sized_def indices_ok_def no_device_def
      cdrom_device_state.defs no_disc_def cdrom_configured_speed_valid_def no_ode_def)

lemma demo_saveable: "console_saveable demo_console"
proof -
  have "xbus_saveable demo_bus"
    by (simp add: xbus_saveable_def demo_bus_def drive_attached_def demo_drive_saveable)
  moreover have "core_clean (CPU idle_arm)" by (simp add: core_clean_def idle_arm_def set_rom_overlay_def)
  moreover have "clio_clean reset_clio" by (simp add: clio_clean_def reset_clio_def)
  moreover have "dsp_clean zero_dsp" by (simp add: dsp_clean_def zero_dsp_def)
  moreover have "madam_clean demo_cels" by (simp add: madam_clean_def demo_cels_def mreg_def)
  moreover have "vdlp_clean demo_video" by (simp add: vdlp_clean_def demo_video_def)
  ultimately show ?thesis
    by (simp add: console_saveable_def demo_console_def stock_mem_ready)
      (simp add: demo_bus_def g_CLOCK_ok)
qed

lemma demo_slots: "drive_attached (slots_of demo_console)" "slots_of demo_console 0 = Some xbus_cdrom_plugin"
  by (simp_all add: demo_console_def demo_bus_def drive_attached_def)

definition other_console :: "unit drive console" where
  "other_console = demo_console\<lparr>RAND16 := 77, field := 0,
     SYS := (SYS demo_console)\<lparr>MEM := stock_mem\<lparr>ROM := None\<rparr>, SPORT := \<lparr>color = 0, source = 0, destination = 0\<rparr>\<rparr>\<rparr>"

lemma other_console: "mem_ready (MEM (SYS other_console))" "slots_of other_console = slots_of demo_console"
  using stock_mem_ready by (simp_all add: other_console_def mem_ready_def)

text \<open>A buffer of the announced size.\<close>

definition demo_buffer :: "u8 list" where
  "demo_buffer = replicate (unat (retro_serialize_size demo_console)) 0"

theorem console_state_roundtrip_witness:
  "\<exists>c. retro_unserialize (\<lambda>_. None) (snd (retro_serialize demo_console demo_buffer)) other_console = (True, c) \<and>
     RAND16 c = 5 \<and> field c = 1 \<and> color (SPORT (SYS c)) = 0x12345678 \<and> ROM (MEM (SYS c)) = Some PTR_ROM2 \<and>
     cd_current_sector (CD (DRIVES (BUS (board_of c)))) = 1000"
proof -
  have "length demo_buffer = unat (retro_serialize_size demo_console)" by (simp add: demo_buffer_def)
  from console_state_roundtrip [OF demo_saveable other_console(1) _ this, of "\<lambda>_. None"] other_console(2) demo_slots(2)
  obtain c where u: "retro_unserialize (\<lambda>_. None) (snd (retro_serialize demo_console demo_buffer)) other_console = (True, c)"
    and a: "console_agrees demo_console c" by auto
  have r: "RAND16 c = 5" "field c = 1" "color (SPORT (SYS c)) = 0x12345678" "ROM (MEM (SYS c)) = Some PTR_ROM2"
    using a by (simp_all add: console_agrees_def demo_console_def demo_bus_def reset_clio_def)
  have "drive_agrees g_CLOCK demo_drive (DRIVES (BUS (board_of c)))"
    using a demo_drive_saveable(2) by (simp add: console_agrees_def demo_console_def demo_bus_def)
  then have "cd_current_sector (CD (DRIVES (BUS (board_of c)))) = 1000"
    by (auto simp: drive_agrees_def demo_drive_def cdrom_device_state.defs no_device_def)
  with u r show ?thesis by blast
qed

theorem resumed_console_saves_same_witness:
  "retro_serialize (snd (retro_unserialize (\<lambda>_. None) (snd (retro_serialize demo_console demo_buffer)) other_console))
     demo_buffer = retro_serialize demo_console demo_buffer"
proof (rule resumed_console_saves_same [OF demo_saveable other_console(1)])
  show "drive_attached (slots_of other_console)" using demo_slots(1) by (simp add: other_console(2))
  show "\<not> drive_held (DRIVES (BUS (board_of demo_console)))"
    using demo_drive_saveable(2) by (simp add: demo_console_def demo_bus_def)
qed (simp_all add: demo_buffer_def)

theorem validated_state_loads_witness:
  "fst (opera_3do_state_validate (console_image demo_console) demo_console) \<and>
   retro_unserialize (\<lambda>_. None) (console_image demo_console) demo_console =
     (True, snd (opera_3do_state_load (console_image demo_console) demo_console))"
proof -
  have "fst (opera_3do_state_validate (console_image demo_console) demo_console)"
    using console_loads(1) [OF demo_saveable demo_slots(2)] by simp
  then show ?thesis
    using validated_state_loads [OF drive_slots_dry [OF demo_slots(1)], of "console_image demo_console" "\<lambda>_. None"] by simp
qed

end
