(* ===== verification/Spec2Isabelle.thy ===== *)
theory Spec2Isabelle
  imports Opera_State_Props Opera_Mem_Props Opera_Prng Opera_Bitop Opera_Clock_Props Opera_Pbus_Props Opera_Nvram
  Opera_Diag_Port Opera_Fixedpoint_Props Opera_Sport_Props Opera_Arm_Core_Props Opera_Arm_Alu_Props
  Opera_Arm_Shift_Props Opera_Arm_Bus_Props Opera_Arm_Exec_Props Opera_Arm_Block_Props Opera_Arm_Stack_Props
  Opera_Swi_Hle_Props Opera_Clio_Props Opera_Clio_Timers Opera_Clio_Audio Opera_Clio_State Opera_Xbus_State Opera_Xbus_Props
  Opera_Dsp_Branch Opera_Dsp_State Opera_Dsp_Input Opera_Clio_Io Opera_Madam_State Opera_Cel_Props Opera_Cel_Blend
  Opera_Vdlp_Props Opera_Console_Props
begin

text \<open>
  A model of the emulator core of Opera, a 3DO Interactive Multiplayer emulator: the C code under
  \<open>src/libopera/\<close> and the two files of the front end that drive it.

  \<^bold>\<open>The program.\<close> The console is one ARM60 processor, a custom chip that draws (MADAM), one that keeps the
  interrupts, timers and the audio queues (CLIO) with a signal processor inside it, a display
  processor, video memory that is filled a page at a time (SPORT), and an expansion bus that carries a CD-ROM
  drive. \<open>opera_3do_process_frame\<close> interleaves them: the processor runs an instruction, the cel engine
  takes a turn when it is enabled, and the clock's accumulators say when a sample, a timer tick or a scan line is due. All state
  is in file-level variables of the C files; here each file's variables are a record, and the
  operations that use several files' state work on the records that hold them: \<open>gfx\<close> pairs MADAM with the memory,
  \<open>board\<close> holds what is behind the processor's bus (MADAM, the display, the signal processor, the pads, and the expansion bus with CLIO's registers and the clock), \<open>'e sys\<close> holds the
  processor, the memory, SPORT and the devices behind the bus, reached through a record of \<open>devices\<close>; \<open>'d machine\<close> is a \<open>sys\<close>
  over a board, and \<open>'d console\<close> adds the variables of \<open>opera_3do.c\<close> and of the front end's sound buffer.

  \<^bold>\<open>Theories and files.\<close>
  \<^item> \<open>Opera_Prelude\<close>, \<open>Opera_Words\<close>, \<open>Opera_Signed\<close>: machine integers, byte buffers, words in flat memory, signed readings, and the lemmas all
    components share (\<open>flags.h\<close>, \<open>endianness.h\<close>).
  \<^item> \<open>Opera_State\<close> (\<open>opera_state.c\<close>), \<open>Opera_State_Codec\<close> (the contract \<open>emits\<close>/\<open>consumes\<close> and the locale \<open>state_chunk\<close> of
    a component's saved state), \<open>Opera_State_Safety\<close>, \<open>Opera_State_Props\<close>.
  \<^item> \<open>Opera_Mem\<close>, \<open>Opera_Mem_Access\<close>, \<open>Opera_Mem_State\<close>, \<open>Opera_Mem_Props\<close>: \<open>opera_mem.c\<close>, \<open>opera_mem.h\<close>.
  \<^item> \<open>Opera_Arm_Core\<close> (registers, banks, modes), \<open>Opera_Arm_Alu\<close> (conditions, arithmetic, shifter), \<open>Opera_Arm_Bus\<close> (the bus),
    \<open>Opera_Arm_Exec\<close> (the instructions), \<open>Opera_Swi_Hle\<close> and \<open>Opera_Fixedpoint\<close> (the native routines behind software interrupts), all of
    \<open>opera_arm.c\<close>, \<open>opera_swi_hle_0x5XXXX.h\<close>, \<open>opera_fixedpoint_math.c\<close>; \<open>Opera_Arm_Bank\<close> and the
    \<open>_Props\<close> theories hold their properties.
  \<^item> \<open>Opera_Madam\<close>, \<open>Opera_Cel_Pixel\<close>, \<open>Opera_Cel_Map\<close>, \<open>Opera_Cel_Raster\<close>, \<open>Opera_Cel_Draw\<close>, \<open>Opera_Cel_Packed\<close>, \<open>Opera_Cel\<close>, \<open>Opera_Madam_State\<close>: \<open>opera_madam.c\<close>; \<open>Opera_Bitop\<close>: \<open>opera_bitop.c\<close>.
    \<open>Opera_Cel_Frame\<close>, \<open>Opera_Cel_Returns\<close>, \<open>Opera_Cel_Blend\<close>, \<open>Opera_Cel_Props\<close>, \<open>Opera_Madam_Props\<close> hold their properties.
  \<^item> \<open>Opera_Clio\<close>, \<open>Opera_Clio_Timers\<close>, \<open>Opera_Clio_Audio\<close>, \<open>Opera_Clio_Io\<close>, \<open>Opera_Clio_State\<close>, \<open>Opera_Clio_Props\<close>: \<open>opera_clio.c\<close>; \<open>Opera_Board\<close>: the register blocks on the
    processor's bus.
  \<^item> \<open>Opera_Dsp\<close>, \<open>Opera_Dsp_State\<close>, and \<open>Opera_Dsp_Props\<close>, \<open>Opera_Dsp_Branch\<close>, \<open>Opera_Dsp_Input\<close>: \<open>opera_dsp.c\<close>.
  \<^item> \<open>Opera_Vdlp\<close>, \<open>Opera_Vdlp_Props\<close>: \<open>opera_vdlp.c\<close>. \<open>Opera_Sport\<close>, \<open>Opera_Sport_Props\<close>: \<open>opera_sport.c\<close>.
  \<^item> \<open>Opera_Clock\<close>, \<open>Opera_Clock_Props\<close>: \<open>opera_clock.c\<close>, \<open>opera_region.c\<close>.
  \<^item> \<open>Opera_Xbus\<close>, \<open>Opera_Xbus_State\<close>, \<open>Opera_Xbus_Props\<close>: \<open>opera_xbus.c\<close>. A device is the record of the calls its function pointer
    answers. \<open>Opera_Cdrom\<close>, \<open>Opera_Cdrom_Ode\<close>, \<open>Opera_Cdrom_Cmd\<close>, \<open>Opera_Cdrom_State\<close>: \<open>opera_cdrom.c\<close> and
    \<open>opera_xbus_cdrom_plugin.c\<close>, the device the console attaches.
  \<^item> \<open>Opera_Pbus\<close>, \<open>Opera_Nvram\<close>, \<open>Opera_Diag_Port\<close>, \<open>Opera_Prng\<close>: the files of those names.
  \<^item> \<open>Opera_3do\<close>, \<open>Opera_3do_State\<close>: \<open>opera_3do.c\<close>, the state calls of \<open>src/libretro.c\<close> and the sound buffer of
    \<open>src/opera_lr_dsp_regular.ic\<close>. \<open>Opera_3do_Props\<close> (the dry run, locale \<open>dry_loader\<close>), \<open>Opera_Cdrom_Codec\<close>,
    \<open>Opera_Console_Chunks\<close> (what each saver \<open>writes\<close> and each loader \<open>reads\<close>) and \<open>Opera_Console_Props\<close> hold the properties of a saved
    console.

  \<^bold>\<open>What is shown.\<close> The serializer stays in its buffer and reads back what it wrote; every component's saved
  state is an interpretation of \<open>state_chunk\<close>, so it reports the size it writes and a load restores it; a whole console resumes where it was saved and saves the same bytes again,
  and a state the dry run accepts loads.
  Memory is a store with big-endian accessors, and the bus returns the last value stored and hides the ROM overlay after the
  first write. The processor's banks are invisible in the architectural registers, its arithmetic is the architecture's
  \<open>AddWithCarry\<close>, its shifter the shifts of numbers, and every instruction returns. The cel engine changes only the frame and the
  engine's own state, a list of cels that does not go in a circle returns, and the pixel processor is a
  blend in natural numbers. The matrix engine and the fixed-point routines are exact integer products. The timers are a mixed-radix down counter and the audio queues deliver
  in order. The display draws the rows of the guest's picture one after the other. The clock's events do not drift.

  \<^bold>\<open>Bounds and loops.\<close> Integers have their width: \<open>u8\<close>, \<open>u16\<close>, \<open>u32\<close>, \<open>u64\<close> wrap around, and a signed C integer is the word
  read by \<open>sint\<close>. Loops with a bound are structural recursions or \<open>function\<close>s with a termination proof. A loop that may not end is a
  \<open>partial_function\<close> whose \<open>None\<close> is not returning: the cel list and the packets of a row (\<open>cel_loop\<close>, \<open>packet_loop\<close>), the signal
  processor's program (\<open>dsp_run\<close>), the timers of one step (\<open>run_timers\<close>, \<open>timer_drain\<close>), the turns of a frame (\<open>frame_steps\<close>, \<open>frame_loop\<close>) and
  the processor's backward jump (\<open>Undefine\<close>). \<open>dma8_fill\<close> counts the words its length register can ask for, so its bound is the loop's own. \<open>board_devices\<close> nests
  the register blocks to a given depth, because a DMA that MADAM starts may write a register again: each level is one write
  made while the previous one is in progress.

  \<^bold>\<open>Conventions.\<close> Memory an uninitialised C object would have is zero. Host pointers are 64 bits wide and the host
  is little-endian, which only matters to the older state formats that are images of structures. An access outside an array, which C
  leaves undefined, is pointed out where a reachable one is modelled. The single precision arithmetic of the cel engine rounds as
  IEEE does, with the rounding written out over integers (\<open>f32\<close>). \<open>opera_state_validating\<close>, a flag the dry run sets and clears, is an argument of the loaders. Logging is left out.

  \<^bold>\<open>Parameters.\<close> The disc image behind the drive's callbacks and the vendored library (directory
  listings, path functions and file streams, the record \<open>retro_lib\<close>) are arguments; so is a further expansion bus device.

  \<^bold>\<open>Not modelled.\<close> Floating point other than the cel engine's (the frequency multiplier and the refresh rates); the
  boot ROM tables, the disc image readers, the host files of the NVRAM, the options, the input descriptions and the front end's video
  (\<open>opera_bios.c\<close>, \<open>retro_cdimage.c\<close>, \<open>cuefile.c\<close>, \<open>opera_lr_nvram.c\<close>, \<open>opera_lr_opts.c\<close>, \<open>lr_input.c\<close>, most of \<open>libretro.c\<close>), which call the host; the
  threaded sound buffer, which needs its threads; and \<open>src/libretro-common/\<close>, a vendored library.
\<close>

end
